(* ===== verification/Prelude.thy ===== *)
theory Prelude
  imports Complex_Main "HOL-Library.List_Lexorder" "HOL-Library.Char_ord" "HOL-Library.AList"
    "HOL-Library.Sublist"
begin

text \<open>
  The vocabulary the component theories share.

  Go strings are \<open>string\<close>s of bytes, Go maps are association lists whose order is the (random)
  order in which a \<open>range\<close> loop meets the entries, Go errors are a datatype that keeps the format
  string and the operands of \<open>fmt.Errorf\<close> instead of the rendered text, and a Go
  \<open>(value, error)\<close> pair is a sum.  The functions of Go's \<open>strings\<close> and \<open>strconv\<close> packages that the
  source calls are defined here as they are documented.
\<close>

named_theorems go_string \<open>rules for the string functions\<close>
named_theorems go_map \<open>rules for association lists read as Go maps\<close>
named_theorems wf_intro \<open>introduction rules for well-formedness of data\<close>

section \<open>Errors and results\<close>

text \<open>
  \<open>apierrors.ReasonForError\<close> distinguishes Kubernetes API errors by their reason; the other
  constructors are the ways the source makes an error.  \<open>Wrap\<close> is a \<open>%w\<close> operand, which
  \<open>errors.Is\<close> and \<open>errors.As\<close> see through, \<open>Val\<close> any operand printed with another verb.
\<close>

datatype apireason = NotFound | AlreadyExists | Conflict | Invalid | OtherReason string

datatype err =
    ApiErr apireason
  | NumError string
  | Sentinel string
  | ExtErr string
  | Errorf string "farg list"
  | Joined "err list"
and farg = Str string | Num int | Strs "string list" | Wrap err | Val err

type_synonym 'a result = "err + 'a"

text \<open>\<open>errors.As\<close> to an API status: depth first through the wrapped operands.\<close>

fun first_some :: "'a option list \<Rightarrow> 'a option" where
  "first_some [] = None"
| "first_some (None # xs) = first_some xs"
| "first_some (Some x # xs) = Some x"

lemma first_some_Cons: "first_some (x # xs) = (case x of None \<Rightarrow> first_some xs | Some y \<Rightarrow> Some y)"
  by (cases x) simp_all

lemma first_some_single [simp]: "first_some [x] = x"
  by (cases x) simp_all

fun reason_of :: "err \<Rightarrow> apireason option" and reason_of_arg :: "farg \<Rightarrow> apireason option" where
  "reason_of (ApiErr r) = Some r"
| "reason_of (NumError s) = None"
| "reason_of (Sentinel s) = None"
| "reason_of (ExtErr s) = None"
| "reason_of (Errorf f as) = first_some (map reason_of_arg as)"
| "reason_of (Joined es) = first_some (map reason_of es)"
| "reason_of_arg (Wrap e) = reason_of e"
| "reason_of_arg (Str s) = None"
| "reason_of_arg (Num i) = None"
| "reason_of_arg (Strs ss) = None"
| "reason_of_arg (Val e) = None"

abbreviation is_not_found :: "err \<Rightarrow> bool" where
  "is_not_found e \<equiv> reason_of e = Some NotFound"

abbreviation is_already_exists :: "err \<Rightarrow> bool" where
  "is_already_exists e \<equiv> reason_of e = Some AlreadyExists"

abbreviation is_conflict :: "err \<Rightarrow> bool" where
  "is_conflict e \<equiv> reason_of e = Some Conflict"

abbreviation is_invalid :: "err \<Rightarrow> bool" where
  "is_invalid e \<equiv> reason_of e = Some Invalid"

text \<open>\<open>errors.Is\<close> against a package-level sentinel.\<close>

fun is_sentinel :: "string \<Rightarrow> err \<Rightarrow> bool" and is_sentinel_arg :: "string \<Rightarrow> farg \<Rightarrow> bool" where
  "is_sentinel n (ApiErr r) = False"
| "is_sentinel n (NumError s) = False"
| "is_sentinel n (Sentinel s) = (s = n)"
| "is_sentinel n (ExtErr s) = False"
| "is_sentinel n (Errorf f as) = list_ex (is_sentinel_arg n) as"
| "is_sentinel n (Joined es) = list_ex (is_sentinel n) es"
| "is_sentinel_arg n (Wrap e) = is_sentinel n e"
| "is_sentinel_arg n (Str s) = False"
| "is_sentinel_arg n (Num i) = False"
| "is_sentinel_arg n (Strs ss) = False"
| "is_sentinel_arg n (Val e) = False"

text \<open>\<open>errors.Join\<close> drops nil errors and is nil when nothing is left.\<close>

definition errors_join :: "err option list \<Rightarrow> err option" where
  "errors_join es = (case List.map_filter id es of [] \<Rightarrow> None | xs \<Rightarrow> Some (Joined xs))"

text \<open>Messages of conditions and events: a format string and its operands.\<close>

datatype msg = Msg string "farg list"

section \<open>Integers\<close>

definition wrap64 :: "int \<Rightarrow> int" where
  "wrap64 i = (i + 2 ^ 63) mod 2 ^ 64 - 2 ^ 63"

definition is_int64 :: "int \<Rightarrow> bool" where
  "is_int64 i \<longleftrightarrow> - (2 ^ 63) \<le> i \<and> i < 2 ^ 63"

definition is_int32 :: "int \<Rightarrow> bool" where
  "is_int32 i \<longleftrightarrow> - (2 ^ 31) \<le> i \<and> i < 2 ^ 31"

lemma wrap64_id [simp]: "is_int64 i \<Longrightarrow> wrap64 i = i"
  by (simp add: wrap64_def is_int64_def)

section \<open>Strings\<close>

definition has_prefix :: "string \<Rightarrow> string \<Rightarrow> bool" where
  "has_prefix s p \<longleftrightarrow> take (length p) s = p"

definition has_suffix :: "string \<Rightarrow> string \<Rightarrow> bool" where
  "has_suffix s p \<longleftrightarrow> length p \<le> length s \<and> drop (length s - length p) s = p"

definition trim_prefix :: "string \<Rightarrow> string \<Rightarrow> string" where
  "trim_prefix s p = (if has_prefix s p then drop (length p) s else s)"

definition trim_suffix :: "string \<Rightarrow> string \<Rightarrow> string" where
  "trim_suffix s p = (if has_suffix s p then take (length s - length p) s else s)"

text \<open>\<open>strings.TrimRight\<close> with an ASCII cutset.\<close>

definition trim_right :: "string \<Rightarrow> string \<Rightarrow> string" where
  "trim_right cutset s = rev (dropWhile (\<lambda>x. x \<in> set cutset) (rev s))"

text \<open>\<open>strings.TrimSuffix\<close>, \<open>strings.Split\<close> and \<open>strings.Cut\<close> with a one-byte separator.\<close>

fun split_on :: "char \<Rightarrow> string \<Rightarrow> string list" where
  "split_on c [] = [[]]"
| "split_on c (x # xs) =
     (if x = c then [] # split_on c xs
      else (case split_on c xs of [] \<Rightarrow> [[x]] | p # ps \<Rightarrow> (x # p) # ps))"

definition cut_at :: "char \<Rightarrow> string \<Rightarrow> string \<times> string \<times> bool" where
  "cut_at c s =
     (if c \<in> set s then (takeWhile (\<lambda>x. x \<noteq> c) s, tl (dropWhile (\<lambda>x. x \<noteq> c) s), True)
      else (s, [], False))"

fun str_join :: "string \<Rightarrow> string list \<Rightarrow> string" where
  "str_join sep [] = []"
| "str_join sep [x] = x"
| "str_join sep (x # y # ys) = x @ sep @ str_join sep (y # ys)"

text \<open>\<open>strings.Contains\<close>, and \<open>strings.TrimSpace\<close> on ASCII input.\<close>

definition str_contains :: "string \<Rightarrow> string \<Rightarrow> bool" where
  "str_contains s sub \<longleftrightarrow> list_ex (\<lambda>i. has_prefix (drop i s) sub) [0..<Suc (length s)]"

definition is_space :: "char \<Rightarrow> bool" where
  "is_space c \<longleftrightarrow> of_char c \<in> {9, 10, 11, 12, 13, 32 :: nat}"

definition trim_space :: "string \<Rightarrow> string" where
  "trim_space s = rev (dropWhile is_space (rev (dropWhile is_space s)))"

lemma split_on_not_Nil [simp, go_string]: "split_on c s \<noteq> []"
  by (induction s) (auto split: list.splits)

lemma split_on_no_sep [go_string]: "c \<notin> set s \<Longrightarrow> split_on c s = [s]"
  by (induction s) auto

lemma split_on_append [go_string]:
  "c \<notin> set p \<Longrightarrow> split_on c (p @ c # s) = p # split_on c s"
  by (induction p) auto

lemma split_on_join: "str_join [c] (split_on c s) = s"
proof (induction s)
  case (Cons x xs)
  show ?case
  proof (cases "split_on c xs")
    case (Cons p ps)
    with Cons.IH show ?thesis by (cases ps) auto
  qed simp
qed simp

lemma split_on_pieces: "p \<in> set (split_on c s) \<Longrightarrow> c \<notin> set p"
  by (induction s arbitrary: p) (auto split: list.splits if_splits)

lemma cut_at_append [go_string]:
  "c \<notin> set p \<Longrightarrow> cut_at c (p @ c # s) = (p, s, True)"
proof -
  assume "c \<notin> set p"
  then have "\<forall>x\<in>set p. x \<noteq> c" by auto
  then show ?thesis by (simp add: cut_at_def dropWhile_append2 takeWhile_append2)
qed

lemma cut_at_no_sep [go_string]: "c \<notin> set s \<Longrightarrow> cut_at c s = (s, [], False)"
  by (simp add: cut_at_def)

lemma cut_at_eq_True:
  "cut_at c s = (p, q, True) \<longleftrightarrow> c \<notin> set p \<and> s = p @ c # q"
proof
  assume a: "cut_at c s = (p, q, True)"
  then have c: "c \<in> set s" by (auto simp: cut_at_def split: if_splits)
  then have "dropWhile (\<lambda>x. x \<noteq> c) s \<noteq> []" by (auto simp: dropWhile_eq_Nil_conv)
  then have "dropWhile (\<lambda>x. x \<noteq> c) s = c # tl (dropWhile (\<lambda>x. x \<noteq> c) s)"
    using hd_dropWhile [of "\<lambda>x. x \<noteq> c" s] by (cases "dropWhile (\<lambda>x. x \<noteq> c) s") auto
  then have "s = takeWhile (\<lambda>x. x \<noteq> c) s @ c # tl (dropWhile (\<lambda>x. x \<noteq> c) s)"
    using takeWhile_dropWhile_id [of "\<lambda>x. x \<noteq> c" s] by simp
  moreover have "c \<notin> set (takeWhile (\<lambda>x. x \<noteq> c) s)" by (auto dest: set_takeWhileD)
  ultimately show "c \<notin> set p \<and> s = p @ c # q" using a c by (auto simp: cut_at_def)
qed (auto simp: cut_at_append)

lemma has_prefix_append [simp, go_string]: "has_prefix (p @ s) p"
  by (simp add: has_prefix_def)

lemma has_prefix_iff: "has_prefix s p \<longleftrightarrow> (\<exists>t. s = p @ t)"
  by (auto simp: has_prefix_def) (metis append_take_drop_id)

lemma has_suffix_append [simp, go_string]: "has_suffix (s @ p) p"
  by (simp add: has_suffix_def)

section \<open>Decimal numbers\<close>

text \<open>\<open>strings.ToLower\<close> on ASCII input.\<close>

definition to_lower :: "string \<Rightarrow> string" where
  "to_lower s = map (\<lambda>c. let n = (of_char c :: nat) in if 65 \<le> n \<and> n \<le> 90 then char_of (n + 32) else c) s"

definition is_digit :: "char \<Rightarrow> bool" where
  "is_digit c \<longleftrightarrow> 48 \<le> (of_char c :: nat) \<and> (of_char c :: nat) \<le> 57"

definition digit_of :: "char \<Rightarrow> nat" where
  "digit_of c = of_char c - 48"

definition char_of_digit :: "nat \<Rightarrow> char" where
  "char_of_digit d = char_of (d + 48)"

definition decimal :: "string \<Rightarrow> nat" where
  "decimal ds = foldl (\<lambda>n c. 10 * n + digit_of c) 0 ds"

text \<open>
  \<open>strconv.Atoi\<close>: an optional sign, at least one digit, the value in the range of a 64-bit
  \<open>int\<close>.  Syntax and range errors are not told apart.
\<close>

definition atoi_unsigned :: "bool \<Rightarrow> string \<Rightarrow> string \<Rightarrow> int result" where
  "atoi_unsigned neg ds s =
     (if ds = [] \<or> \<not> list_all is_digit ds then Inl (NumError s)
      else let n = (if neg then - int (decimal ds) else int (decimal ds)) in
           if is_int64 n then Inr n else Inl (NumError s))"

definition atoi :: "string \<Rightarrow> int result" where
  "atoi s = (case s of
       [] \<Rightarrow> Inl (NumError s)
     | c # cs \<Rightarrow> if c = CHR ''-'' then atoi_unsigned True cs s
                 else if c = CHR ''+'' then atoi_unsigned False cs s
                 else atoi_unsigned False s s)"

fun show_nat :: "nat \<Rightarrow> string" where
  "show_nat n = (if n < 10 then [char_of_digit n]
                 else show_nat (n div 10) @ [char_of_digit (n mod 10)])"

declare show_nat.simps [simp del]

definition show_int :: "int \<Rightarrow> string" where
  "show_int i = (if i < 0 then CHR ''-'' # show_nat (nat (- i)) else show_nat (nat i))"

lemma of_char_digit: "d < 10 \<Longrightarrow> of_char (char_of_digit d) = d + 48"
  by (simp add: char_of_digit_def)

lemma is_digit_char_of_digit [simp]: "d < 10 \<Longrightarrow> is_digit (char_of_digit d)"
  by (simp add: is_digit_def of_char_digit)

lemma digit_of_char_of_digit [simp]: "d < 10 \<Longrightarrow> digit_of (char_of_digit d) = d"
  by (simp add: digit_of_def of_char_digit)

lemma show_nat_digits: "list_all is_digit (show_nat n)"
  by (induction n rule: show_nat.induct) (subst show_nat.simps, simp)

lemma show_nat_not_Nil [simp]: "show_nat n \<noteq> []"
  by (subst show_nat.simps) simp

lemma decimal_snoc: "decimal (ds @ [c]) = 10 * decimal ds + digit_of c"
  by (simp add: decimal_def)

lemma decimal_show_nat [simp]: "decimal (show_nat n) = n"
proof (induction n rule: show_nat.induct)
  case (1 n)
  show ?case
  proof (cases "n < 10")
    case True
    then show ?thesis by (subst show_nat.simps) (simp add: decimal_def)
  next
    case False
    then show ?thesis
      using 1 by (subst show_nat.simps) (simp add: decimal_snoc)
  qed
qed

lemma not_digit_char: "\<not> is_digit CHR ''-''" "\<not> is_digit CHR ''+''" "\<not> is_digit CHR ''.''"
  by (simp_all add: is_digit_def)

lemma digits_no_char: "list_all is_digit ds \<Longrightarrow> \<not> is_digit c \<Longrightarrow> c \<notin> set ds"
  by (auto simp: list_all_iff)

lemma atoi_show_nat [simp]:
  assumes "is_int64 (int n)"
  shows "atoi (show_nat n) = Inr (int n)"
proof -
  obtain c cs where s: "show_nat n = c # cs" using show_nat_not_Nil by (metis list.exhaust)
  then have "is_digit c" using show_nat_digits [of n] by simp
  then have "c \<noteq> CHR ''-''" "c \<noteq> CHR ''+''" using not_digit_char by auto
  then have "atoi (show_nat n) = atoi_unsigned False (show_nat n) (show_nat n)"
    by (simp add: atoi_def s)
  then show ?thesis using assms show_nat_digits by (simp add: atoi_unsigned_def)
qed

lemma show_nat_inj: "show_nat m = show_nat n \<longleftrightarrow> m = n"
  using decimal_show_nat by metis

lemma show_nat_no_char: "\<not> is_digit c \<Longrightarrow> c \<notin> set (show_nat n)"
  using show_nat_digits digits_no_char by blast

lemma atoi_is_int64: "atoi s = Inr n \<Longrightarrow> is_int64 n"
  by (auto simp: atoi_def atoi_unsigned_def Let_def split: list.splits if_splits)

section \<open>Maps\<close>

type_synonym 'v gomap = "(string \<times> 'v) list"

definition wf_gomap :: "('k \<times> 'v) list \<Rightarrow> bool" where
  "wf_gomap m \<longleftrightarrow> distinct (map fst m)"

text \<open>Two association lists are the same Go map when no key is repeated and every lookup agrees.\<close>

definition same_map :: "('k \<times> 'v) list \<Rightarrow> ('k \<times> 'v) list \<Rightarrow> bool" where
  "same_map m m' \<longleftrightarrow> wf_gomap m \<and> wf_gomap m' \<and> map_of m = map_of m'"

abbreviation map_put :: "'k \<Rightarrow> 'v \<Rightarrow> ('k \<times> 'v) list \<Rightarrow> ('k \<times> 'v) list" where
  "map_put k v m \<equiv> AList.update k v m"

definition sorted_keys :: "('k::linorder \<times> 'v) list \<Rightarrow> 'k list" where
  "sorted_keys m = sort (map fst m)"

lemma wf_Nil [simp, wf_intro]: "wf_gomap []"
  by (simp add: wf_gomap_def)

lemma wf_Cons [simp, go_map]: "wf_gomap ((k, v) # m) \<longleftrightarrow> k \<notin> fst ` set m \<and> wf_gomap m"
  by (auto simp: wf_gomap_def)

lemma wf_put [simp, wf_intro]: "wf_gomap m \<Longrightarrow> wf_gomap (map_put k v m)"
  by (simp add: wf_gomap_def distinct_update)

lemma map_of_put [simp, go_map]: "map_of (map_put k v m) = (map_of m)(k \<mapsto> v)"
  by (rule update_conv')

lemma wf_delete [simp, wf_intro]: "wf_gomap m \<Longrightarrow> wf_gomap (AList.delete k m)"
  by (simp add: wf_gomap_def distinct_delete)

lemma map_of_delete [simp, go_map]: "map_of (AList.delete k m) = (map_of m)(k := None)"
  by (rule delete_conv')

lemma wf_map_of_iff: "wf_gomap m \<Longrightarrow> map_of m k = Some v \<longleftrightarrow> (k, v) \<in> set m"
  by (simp add: wf_gomap_def)

lemma keys_eq_if_same: "same_map m m' \<Longrightarrow> fst ` set m = fst ` set m'"
  by (metis same_map_def dom_map_of_conv_image_fst)

lemma sorted_keys_same: "same_map m m' \<Longrightarrow> sorted_keys m = sorted_keys m'"
  using keys_eq_if_same [of m m'] unfolding sorted_keys_def
  by (intro sorted_distinct_set_unique) (simp_all add: same_map_def wf_gomap_def)

lemma set_sorted_keys [simp]: "set (sorted_keys m) = fst ` set m"
  by (simp add: sorted_keys_def)

lemma sorted_sorted_keys [simp]: "sorted (sorted_keys m)"
  by (simp add: sorted_keys_def)

lemma distinct_sorted_keys [simp]: "distinct (sorted_keys m) \<longleftrightarrow> wf_gomap m"
  by (simp add: sorted_keys_def wf_gomap_def)

lemma same_map_refl: "wf_gomap m \<Longrightarrow> same_map m m"
  by (simp add: same_map_def)

lemma map_of_same: "same_map m m' \<Longrightarrow> map_of m = map_of m'"
  by (simp add: same_map_def)

section \<open>Time\<close>

text \<open>
  Instants and durations are integers, in nanoseconds: only their order and differences are used.
\<close>

type_synonym instant = int
type_synonym duration = int

definition seconds :: "int \<Rightarrow> duration" where
  "seconds n = n * 1000000000"

definition minutes :: "int \<Rightarrow> duration" where
  "minutes n = 60 * seconds n"

definition hours :: "int \<Rightarrow> duration" where
  "hours n = 60 * minutes n"

section \<open>Reconcile results\<close>

text \<open>\<open>ctrl.Result\<close> of controller-runtime; its zero value asks for nothing.\<close>

record ctrl_result =
  requeue :: bool
  requeue_after :: duration

definition zero_result :: ctrl_result where
  "zero_result = \<lparr>requeue = False, requeue_after = 0\<rparr>"

definition result_is_zero :: "ctrl_result \<Rightarrow> bool" where
  "result_is_zero r \<longleftrightarrow> r = zero_result"

definition after :: "duration \<Rightarrow> ctrl_result" where
  "after d = \<lparr>requeue = False, requeue_after = d\<rparr>"

lemma zero_result_iff [simp]: "after d = zero_result \<longleftrightarrow> d = 0" "zero_result = after d \<longleftrightarrow> d = 0"
  by (auto simp: zero_result_def after_def)

end
