(* ===== verification/Release.thy ===== *)
theory Release
  imports Prelude
begin

text \<open>
  OpenStack release versions, \<open>internal/common/release/release.go\<close>: the parser and the
  classification of a transition as sequential, downgrade or patch-only.
\<close>

record release =
  r_year :: int
  r_minor :: int
  r_patch :: string
  r_raw :: string

definition ParseRelease :: "string \<Rightarrow> release result" where
  "ParseRelease tag =
     (if tag = [] then Inl (Errorf ''empty release tag'' [])
      else
        let (base, patch, _) = cut_at CHR ''-'' tag;
            parts = split_on CHR ''.'' base
        in
          if length parts \<noteq> 2
          then Inl (Errorf ''invalid release format %q: expected YYYY.N'' [Str tag])
          else case atoi (parts ! 0) of
              Inl e \<Rightarrow> Inl (Errorf ''invalid release year in %q: %w'' [Str tag, Wrap e])
            | Inr year \<Rightarrow>
                if year < 2010
                then Inl (Errorf ''invalid release year %d in %q: must be >= 2010'' [Num year, Str tag])
                else case atoi (parts ! 1) of
                    Inl e \<Rightarrow> Inl (Errorf ''invalid release minor version in %q: %w'' [Str tag, Wrap e])
                  | Inr minor \<Rightarrow>
                      if minor \<noteq> 1 \<and> minor \<noteq> 2
                      then Inl (Errorf ''invalid release minor version %d in %q: must be 1 or 2''
                                  [Num minor, Str tag])
                      else Inr \<lparr>r_year = year, r_minor = minor, r_patch = patch, r_raw = tag\<rparr>)"

text \<open>\<open>from.Year + 1\<close> is 64-bit arithmetic and wraps.\<close>

definition IsSequentialUpgrade :: "release \<Rightarrow> release \<Rightarrow> bool" where
  "IsSequentialUpgrade frm to =
     (if r_year frm = r_year to \<and> r_minor frm = 1 \<and> r_minor to = 2 then True
      else if r_year to = wrap64 (r_year frm + 1) \<and> r_minor frm = 2 \<and> r_minor to = 1 then True
      else False)"

definition IsDowngrade :: "release \<Rightarrow> release \<Rightarrow> bool" where
  "IsDowngrade frm to \<longleftrightarrow>
     r_year to < r_year frm \<or> (r_year to = r_year frm \<and> r_minor to < r_minor frm)"

definition IsPatchOnly :: "release \<Rightarrow> release \<Rightarrow> bool" where
  "IsPatchOnly frm to \<longleftrightarrow> r_year frm = r_year to \<and> r_minor frm = r_minor to"

section \<open>What a parsed release looks like\<close>

definition wf_release :: "release \<Rightarrow> bool" where
  "wf_release r \<longleftrightarrow> 2010 \<le> r_year r \<and> is_int64 (r_year r) \<and> (r_minor r = 1 \<or> r_minor r = 2)"

lemma length_2_conv: "length xs = 2 \<longleftrightarrow> (\<exists>a b. xs = [a, b])"
  by (auto simp: numeral_2_eq_2 length_Suc_conv)

text \<open>Every way the parser can succeed, read off the source's checks.\<close>

lemma ParseRelease_Inr_iff:
  "ParseRelease tag = Inr r \<longleftrightarrow>
     (\<exists>base sep y m. cut_at CHR ''-'' tag = (base, r_patch r, sep) \<and> split_on CHR ''.'' base = [y, m] \<and>
        atoi y = Inr (r_year r) \<and> atoi m = Inr (r_minor r) \<and> 2010 \<le> r_year r \<and>
        (r_minor r = 1 \<or> r_minor r = 2) \<and> r_raw r = tag)"
  (is "?l \<longleftrightarrow> ?r")
proof
  assume l: ?l
  obtain base p sep where c: "cut_at CHR ''-'' tag = (base, p, sep)" by (metis prod.exhaust)
  have "length (split_on CHR ''.'' base) = 2"
    using l c by (auto simp: ParseRelease_def Let_def split: if_splits)
  then obtain y m where "split_on CHR ''.'' base = [y, m]" by (auto simp: length_2_conv)
  with l c show ?r
    by (auto simp: ParseRelease_def split: if_splits sum.splits)
next
  assume ?r
  then obtain base y m sep where
    c: "cut_at CHR ''-'' tag = (base, r_patch r, sep)" "split_on CHR ''.'' base = [y, m]"
    and a: "atoi y = Inr (r_year r)" "atoi m = Inr (r_minor r)" "2010 \<le> r_year r"
      "r_minor r = 1 \<or> r_minor r = 2" "r_raw r = tag"
    by (elim exE conjE)
  have "tag \<noteq> []" using c by (auto simp: cut_at_def)
  then show ?l using c a by (cases r) (auto simp: ParseRelease_def)
qed

lemma ParseRelease_wf: "ParseRelease tag = Inr r \<Longrightarrow> wf_release r"
  by (auto simp: ParseRelease_Inr_iff wf_release_def dest: atoi_is_int64)

lemma ParseRelease_raw: "ParseRelease tag = Inr r \<Longrightarrow> r_raw r = tag"
  by (auto simp: ParseRelease_Inr_iff)

lemma ParseRelease_empty [simp]: "ParseRelease [] = Inl (Errorf ''empty release tag'' [])"
  by (simp add: ParseRelease_def)

section \<open>Printing a release, the format the documentation gives\<close>

definition render_release :: "nat \<Rightarrow> nat \<Rightarrow> string \<Rightarrow> string" where
  "render_release y n p = show_nat y @ ''.'' @ show_nat n @ (if p = [] then [] else ''-'' @ p)"

lemma parse_render:
  assumes "2010 \<le> y" "is_int64 (int y)" "n = 1 \<or> n = 2"
  shows "ParseRelease (render_release y n p) =
           Inr \<lparr>r_year = int y, r_minor = int n, r_patch = p, r_raw = render_release y n p\<rparr>"
proof -
  let ?base = "show_nat y @ CHR ''.'' # show_nat n"
  have no_dash: "CHR ''-'' \<notin> set ?base"
    using show_nat_no_char not_digit_char by auto
  have "\<exists>sep. cut_at CHR ''-'' (render_release y n p) = (?base, p, sep)"
  proof (cases "p = []")
    case True
    then show ?thesis using no_dash by (auto simp: render_release_def cut_at_no_sep)
  next
    case False
    then have "render_release y n p = ?base @ CHR ''-'' # p" by (simp add: render_release_def)
    then show ?thesis using cut_at_append [OF no_dash, of p] by (intro exI) simp
  qed
  moreover have "split_on CHR ''.'' ?base = [show_nat y, show_nat n]"
    using show_nat_no_char not_digit_char by (simp add: split_on_append split_on_no_sep)
  moreover have "is_int64 (int n)" using assms(3) by (auto simp: is_int64_def)
  ultimately show ?thesis
    using assms by (auto simp: ParseRelease_Inr_iff)
qed

section \<open>The order on releases\<close>

text \<open>The position of a release in the sequence of OpenStack releases: two a year.\<close>

definition ordinal :: "release \<Rightarrow> int" where
  "ordinal r = 2 * r_year r + r_minor r"

lemma ordinal_patch:
  assumes "wf_release a" "wf_release b"
  shows "IsPatchOnly a b \<longleftrightarrow> ordinal a = ordinal b"
  using assms by (auto simp: IsPatchOnly_def ordinal_def wf_release_def) presburger+

lemma ordinal_downgrade:
  assumes "wf_release a" "wf_release b"
  shows "IsDowngrade a b \<longleftrightarrow> ordinal b < ordinal a"
  using assms by (auto simp: IsDowngrade_def ordinal_def wf_release_def)

lemma wrap64_Suc_year:
  assumes "is_int64 y" "is_int64 z" "2010 \<le> z"
  shows "z = wrap64 (y + 1) \<longleftrightarrow> z = y + 1"
proof (cases "is_int64 (y + 1)")
  case False
  then have "y = 2 ^ 63 - 1" using assms(1) by (auto simp: is_int64_def)
  then have "wrap64 (y + 1) = - (2 ^ 63)" by (simp add: wrap64_def)
  then show ?thesis using assms False by auto
qed simp

lemma ordinal_sequential:
  assumes "wf_release a" "wf_release b"
  shows "IsSequentialUpgrade a b \<longleftrightarrow> ordinal b = ordinal a + 1"
proof -
  have "r_year b = wrap64 (r_year a + 1) \<longleftrightarrow> r_year b = r_year a + 1"
    using assms by (intro wrap64_Suc_year) (auto simp: wf_release_def)
  then show ?thesis
    using assms by (auto simp: IsSequentialUpgrade_def ordinal_def wf_release_def)
qed

lemmas ordinal_simps = ordinal_patch ordinal_downgrade ordinal_sequential

section \<open>What a release order is\<close>

text \<open>
  What the upgrade flow relies on: parsed releases have positions in one sequence, and the three
  predicates compare positions.  The classification of a transition follows.
\<close>

locale release_order =
  fixes parse :: "string \<Rightarrow> 'e + 'r" and pos :: "'r \<Rightarrow> int"
    and sequential downgrade patch_only :: "'r \<Rightarrow> 'r \<Rightarrow> bool"
  assumes empty_rejected: "parse [] \<noteq> Inr r"
    and sequential_pos: "parse a = Inr x \<Longrightarrow> parse b = Inr y \<Longrightarrow> sequential x y \<longleftrightarrow> pos y = pos x + 1"
    and downgrade_pos: "parse a = Inr x \<Longrightarrow> parse b = Inr y \<Longrightarrow> downgrade x y \<longleftrightarrow> pos y < pos x"
    and patch_pos: "parse a = Inr x \<Longrightarrow> parse b = Inr y \<Longrightarrow> patch_only x y \<longleftrightarrow> pos y = pos x"
begin

lemma kinds_exclusive:
  assumes "parse a = Inr x" "parse b = Inr y"
  shows "sequential x y \<Longrightarrow> \<not> downgrade x y" "sequential x y \<Longrightarrow> \<not> patch_only x y"
    "patch_only x y \<Longrightarrow> \<not> downgrade x y"
  using sequential_pos [OF assms] downgrade_pos [OF assms] patch_pos [OF assms] by auto

lemma sequential_irreversible:
  assumes "parse a = Inr x" "parse b = Inr y" "sequential x y"
  shows "downgrade y x"
  using sequential_pos [OF assms(1,2)] downgrade_pos [OF assms(2,1)] assms(3) by simp

lemma sequential_no_shortcut:
  assumes "parse a = Inr x" "parse b = Inr y" "parse c = Inr z" "sequential x y" "sequential y z"
  shows "\<not> sequential x z" "\<not> patch_only x z"
  using sequential_pos [OF assms(1,2)] sequential_pos [OF assms(2,3)] sequential_pos [OF assms(1,3)]
    patch_pos [OF assms(1,3)] assms(4,5) by auto

end

interpretation order: release_order ParseRelease ordinal IsSequentialUpgrade IsDowngrade IsPatchOnly
  by unfold_locales (auto simp: ordinal_simps dest!: ParseRelease_wf)

end
