(* ===== verification/Kube.thy ===== *)
theory Kube
  imports Prelude
begin

text \<open>
  What the source calls in the Kubernetes libraries, as parameters: a record of the client's
  operations for one kind of object, over an abstract state \<open>'w\<close> of the API server.  Reads do not
  change that state.  Writes return the server's object, or an error, and the new state.  Nothing is
  assumed of these operations except where a lemma names a hypothesis.
\<close>

type_synonym objkey = "string \<times> string"  \<comment> \<open>namespace, name\<close>

datatype propagation = Background | Foreground | Orphan

record delete_opts =
  d_propagation :: "propagation option"
  d_uid :: "string option"
  d_resource_version :: "string option"

definition no_opts :: delete_opts where
  "no_opts = \<lparr>d_propagation = None, d_uid = None, d_resource_version = None\<rparr>"

definition background :: delete_opts where
  "background = no_opts\<lparr>d_propagation := Some Background\<rparr>"

record ('o, 'w) kclient =
  k_get :: "objkey \<Rightarrow> 'w \<Rightarrow> 'o result"
  k_list :: "string \<Rightarrow> (string \<times> string) list \<Rightarrow> 'w \<Rightarrow> 'o list result"
  k_create :: "'o \<Rightarrow> 'w \<Rightarrow> 'o result \<times> 'w"
  k_update :: "'o \<Rightarrow> 'w \<Rightarrow> 'o result \<times> 'w"
  k_apply :: "'o \<Rightarrow> 'w \<Rightarrow> 'o result \<times> 'w"
  k_delete :: "delete_opts \<Rightarrow> 'o \<Rightarrow> 'w \<Rightarrow> err option \<times> 'w"

text \<open>
  The part of \<open>metav1.ObjectMeta\<close> the source reads or writes.  \<open>m_controller\<close> is the UID of the
  reference \<open>metav1.GetControllerOf\<close> returns, if it returns one.
\<close>

record objmeta =
  m_name :: string
  m_namespace :: string
  m_uid :: string
  m_generation :: int
  m_created :: instant
  m_deleting :: bool
  m_labels :: "string gomap"
  m_annotations :: "string gomap"
  m_controller :: "string option"
  m_finalizers :: "string list"

definition key_of :: "objmeta \<Rightarrow> objkey" where
  "key_of m = (m_namespace m, m_name m)"

definition blank_meta :: objmeta where
  "blank_meta = \<lparr>m_name = [], m_namespace = [], m_uid = [], m_generation = 0, m_created = 0,
     m_deleting = False, m_labels = [], m_annotations = [], m_controller = None, m_finalizers = []\<rparr>"

text \<open>\<open>controllerRef == nil || controllerRef.UID != owner.GetUID()\<close>, negated.\<close>

definition controlled_by :: "string \<Rightarrow> objmeta \<Rightarrow> bool" where
  "controlled_by uid m = (case m_controller m of None \<Rightarrow> False | Some u \<Rightarrow> u = uid)"

text \<open>\<open>client.IgnoreNotFound\<close>.\<close>

definition ignore_not_found :: "err option \<Rightarrow> err option" where
  "ignore_not_found e = (case e of None \<Rightarrow> None | Some x \<Rightarrow> if is_not_found x then None else Some x)"

lemma ignore_not_found_None [simp]: "ignore_not_found None = None"
  by (simp add: ignore_not_found_def)

section \<open>A store of objects, for concrete instances\<close>

text \<open>
  The reference instance the witnesses use: the state is an association list from keys to objects
  and every operation succeeds when the object's presence allows it.
\<close>

definition store_client :: "('o \<Rightarrow> objmeta) \<Rightarrow> ('o, (objkey \<times> 'o) list) kclient" where
  "store_client meta =
     \<lparr>k_get = (\<lambda>k w. case map_of w k of None \<Rightarrow> Inl (ApiErr NotFound) | Some x \<Rightarrow> Inr x),
      k_list = (\<lambda>ns ls w. Inr (filter (\<lambda>x. m_namespace (meta x) = ns \<and>
                   list_all (\<lambda>(k, v). map_of (m_labels (meta x)) k = Some v) ls) (map snd w))),
      k_create = (\<lambda>x w. if map_of w (key_of (meta x)) = None
                         then (Inr x, (key_of (meta x), x) # w) else (Inl (ApiErr AlreadyExists), w)),
      k_update = (\<lambda>x w. if map_of w (key_of (meta x)) = None
                         then (Inl (ApiErr NotFound), w) else (Inr x, map_put (key_of (meta x)) x w)),
      k_apply = (\<lambda>x w. (Inr x, map_put (key_of (meta x)) x w)),
      k_delete = (\<lambda>opts x w. if map_of w (key_of (meta x)) = None
                         then (Some (ApiErr NotFound), w) else (None, AList.delete (key_of (meta x)) w))\<rparr>"

lemma store_client_simps [simp]:
  "k_get (store_client meta) k w =
     (case map_of w k of None \<Rightarrow> Inl (ApiErr NotFound) | Some x \<Rightarrow> Inr x)"
  "k_create (store_client meta) x w =
     (if map_of w (key_of (meta x)) = None
      then (Inr x, (key_of (meta x), x) # w) else (Inl (ApiErr AlreadyExists), w))"
  "k_update (store_client meta) x w =
     (if map_of w (key_of (meta x)) = None
      then (Inl (ApiErr NotFound), w) else (Inr x, map_put (key_of (meta x)) x w))"
  "k_apply (store_client meta) x w = (Inr x, map_put (key_of (meta x)) x w)"
  "k_delete (store_client meta) opts x w =
     (if map_of w (key_of (meta x)) = None
      then (Some (ApiErr NotFound), w) else (None, AList.delete (key_of (meta x)) w))"
  "k_list (store_client meta) ns ls w =
     Inr (filter (\<lambda>x. m_namespace (meta x) = ns \<and>
       list_all (\<lambda>(k, v). map_of (m_labels (meta x)) k = Some v) ls) (map snd w))"
  by (simp_all add: store_client_def)

section \<open>Deletion\<close>

text \<open>What an API server does on a deletion without finalizers: the object is gone and no other object changes.\<close>

definition deletes :: "('o \<Rightarrow> objmeta) \<Rightarrow> ('o, 'w) kclient \<Rightarrow> bool" where
  "deletes meta C \<longleftrightarrow> (\<forall>opts x w.
     (case fst (k_delete C opts x w) of
        None \<Rightarrow> \<exists>e. k_get C (key_of (meta x)) (snd (k_delete C opts x w)) = Inl e \<and> is_not_found e
      | Some e \<Rightarrow> is_not_found e \<longrightarrow>
          (\<exists>e. k_get C (key_of (meta x)) (snd (k_delete C opts x w)) = Inl e \<and> is_not_found e)) \<and>
     (\<forall>k. k \<noteq> key_of (meta x) \<longrightarrow> k_get C k (snd (k_delete C opts x w)) = k_get C k w))"

definition absent :: "('o, 'w) kclient \<Rightarrow> objkey \<Rightarrow> 'w \<Rightarrow> bool" where
  "absent C k w = (case k_get C k w of Inl e \<Rightarrow> is_not_found e | Inr x \<Rightarrow> False)"

lemma store_deletes: "deletes meta (store_client meta)"
  by (auto simp: deletes_def split: option.splits)

lemma deletes_other:
  "deletes meta C \<Longrightarrow> k \<noteq> key_of (meta x) \<Longrightarrow> k_get C k (snd (k_delete C opts x w)) = k_get C k w"
  unfolding deletes_def by blast

lemma deletes_gone:
  assumes "deletes meta C" "k_delete C opts x w = (e, w')" "ignore_not_found e = None"
  shows "absent C (key_of (meta x)) w'"
  using assms(1) [unfolded deletes_def, rule_format, where opts = opts and x = x and w = w] assms(2,3)
  by (auto simp: absent_def ignore_not_found_def split: option.splits if_splits)

end
