(* ===== verification/Conditions.thy ===== *)
theory Conditions
  imports Prelude
begin

text \<open>
  Status conditions, \<open>internal/common/conditions/conditions.go\<close>.  \<open>meta.SetStatusCondition\<close> and
  \<open>meta.FindStatusCondition\<close> belong to apimachinery: they are the record \<open>meta_api\<close>, and
  \<open>meta_contract\<close> states the part of their documented behaviour that lemmas use.
\<close>

datatype cstatus = CTrue | CFalse | CUnknown

record condition =
  c_type :: string
  c_status :: cstatus
  c_generation :: int
  c_ltt :: instant
  c_reason :: string
  c_message :: msg

definition mk_condition :: "string \<Rightarrow> cstatus \<Rightarrow> int \<Rightarrow> string \<Rightarrow> msg \<Rightarrow> condition" where
  "mk_condition t s g r m =
     \<lparr>c_type = t, c_status = s, c_generation = g, c_ltt = 0, c_reason = r, c_message = m\<rparr>"

lemma mk_condition_simps [simp]:
  "c_type (mk_condition t s g r m) = t" "c_status (mk_condition t s g r m) = s"
  "c_generation (mk_condition t s g r m) = g" "c_reason (mk_condition t s g r m) = r"
  "c_message (mk_condition t s g r m) = m"
  by (simp_all add: mk_condition_def)

record meta_api =
  set_status_condition :: "condition list \<Rightarrow> condition \<Rightarrow> condition list"
  find_status_condition :: "condition list \<Rightarrow> string \<Rightarrow> condition option"

text \<open>Two conditions that say the same, whatever their transition times.\<close>

definition cond_agree :: "condition \<Rightarrow> condition \<Rightarrow> bool" where
  "cond_agree a b \<longleftrightarrow> c_type a = c_type b \<and> c_status a = c_status b \<and>
     c_generation a = c_generation b \<and> c_reason a = c_reason b \<and> c_message a = c_message b"

text \<open>
  The documented behaviour of apimachinery: after a set the condition found under its type is the one
  that was set, its transition time kept when the status did not change; no other type is affected;
  setting what is already there changes nothing; and the condition found under a type has it.
\<close>

definition set_found :: "meta_api \<Rightarrow> condition list \<Rightarrow> condition \<Rightarrow> bool" where
  "set_found K cs c \<longleftrightarrow>
     (case find_status_condition K (set_status_condition K cs c) (c_type c) of
        None \<Rightarrow> False
      | Some c' \<Rightarrow> cond_agree c' c \<and>
          (case find_status_condition K cs (c_type c) of
             None \<Rightarrow> True
           | Some c0 \<Rightarrow> if c_status c0 = c_status c then c_ltt c' = c_ltt c0 else True))"

definition meta_contract :: "meta_api \<Rightarrow> bool" where
  "meta_contract K \<longleftrightarrow>
     (\<forall>cs c. set_found K cs c) \<and>
     (\<forall>cs c t. t \<noteq> c_type c \<longrightarrow>
        find_status_condition K (set_status_condition K cs c) t = find_status_condition K cs t) \<and>
     (\<forall>cs c c0. find_status_condition K cs (c_type c) = Some c0 \<longrightarrow> cond_agree c0 c \<longrightarrow>
        set_status_condition K cs c = cs) \<and>
     (\<forall>cs t c. find_status_condition K cs t = Some c \<longrightarrow> c_type c = t)"

section \<open>The package's functions\<close>

definition SetCondition :: "meta_api \<Rightarrow> condition list \<Rightarrow> condition \<Rightarrow> condition list" where
  "SetCondition K cs c = set_status_condition K cs c"

definition GetCondition :: "meta_api \<Rightarrow> condition list \<Rightarrow> string \<Rightarrow> condition option" where
  "GetCondition K cs t = find_status_condition K cs t"

definition IsReady :: "meta_api \<Rightarrow> condition list \<Rightarrow> bool" where
  "IsReady K cs = (case find_status_condition K cs ''Ready'' of
       None \<Rightarrow> False | Some c \<Rightarrow> c_status c = CTrue)"

fun AllTrue :: "meta_api \<Rightarrow> condition list \<Rightarrow> string list \<Rightarrow> bool" where
  "AllTrue K cs [] = True"
| "AllTrue K cs (ct # types) =
     (case find_status_condition K cs ct of
        None \<Rightarrow> False
      | Some c \<Rightarrow> if c_status c \<noteq> CTrue then False else AllTrue K cs types)"

section \<open>Their laws under the contract\<close>

definition cond_true :: "meta_api \<Rightarrow> condition list \<Rightarrow> string \<Rightarrow> bool" where
  "cond_true K cs t = (case GetCondition K cs t of None \<Rightarrow> False | Some c \<Rightarrow> c_status c = CTrue)"

definition cond_is :: "meta_api \<Rightarrow> condition list \<Rightarrow> string \<Rightarrow> cstatus \<Rightarrow> string \<Rightarrow> bool" where
  "cond_is K cs t s r = (case GetCondition K cs t of
      None \<Rightarrow> False | Some c \<Rightarrow> c_status c = s \<and> c_reason c = r)"

lemma AllTrue_iff: "AllTrue K cs ts \<longleftrightarrow> list_all (cond_true K cs) ts"
  by (induction ts) (auto simp: cond_true_def GetCondition_def split: option.splits)

lemma IsReady_iff: "IsReady K cs \<longleftrightarrow> cond_true K cs ''Ready''"
  by (simp add: IsReady_def cond_true_def GetCondition_def)

lemma set_other [simp]:
  "meta_contract K \<Longrightarrow> t \<noteq> c_type c \<Longrightarrow> GetCondition K (SetCondition K cs c) t = GetCondition K cs t"
  unfolding meta_contract_def GetCondition_def SetCondition_def by blast

lemma set_same:
  assumes "meta_contract K"
  obtains c' where "GetCondition K (SetCondition K cs c) (c_type c) = Some c'" "cond_agree c' c"
proof -
  have "set_found K cs c" using assms unfolding meta_contract_def by blast
  then show ?thesis
    using that by (auto simp: set_found_def GetCondition_def SetCondition_def split: option.splits)
qed

lemma set_ltt:
  assumes "meta_contract K" "GetCondition K cs (c_type c) = Some c0" "c_status c0 = c_status c"
    and "GetCondition K (SetCondition K cs c) (c_type c) = Some c'"
  shows "c_ltt c' = c_ltt c0"
proof -
  have "set_found K cs c" using assms unfolding meta_contract_def by blast
  then show ?thesis
    using assms(2-4) by (simp add: set_found_def GetCondition_def SetCondition_def)
qed

lemma set_noop:
  "meta_contract K \<Longrightarrow> GetCondition K cs (c_type c) = Some c0 \<Longrightarrow> cond_agree c0 c \<Longrightarrow>
     SetCondition K cs c = cs"
  unfolding meta_contract_def GetCondition_def SetCondition_def by blast

lemma set_idem:
  assumes "meta_contract K"
  shows "SetCondition K (SetCondition K cs c) c = SetCondition K cs c"
proof -
  obtain c' where "GetCondition K (SetCondition K cs c) (c_type c) = Some c'" "cond_agree c' c"
    by (rule set_same [OF assms])
  then show ?thesis by (rule set_noop [OF assms])
qed

lemma cond_true_set [simp]:
  assumes "meta_contract K"
  shows "cond_true K (SetCondition K cs c) t = (if t = c_type c then c_status c = CTrue else cond_true K cs t)"
proof (cases "t = c_type c")
  case True
  obtain c' where "GetCondition K (SetCondition K cs c) (c_type c) = Some c'" "cond_agree c' c"
    by (rule set_same [OF assms])
  then show ?thesis using True by (simp add: cond_true_def cond_agree_def)
next
  case False
  then show ?thesis using assms by (simp add: cond_true_def)
qed

lemma cond_is_set [simp]:
  assumes "meta_contract K"
  shows "cond_is K (SetCondition K cs c) t s r =
           (if t = c_type c then c_status c = s \<and> c_reason c = r else cond_is K cs t s r)"
proof (cases "t = c_type c")
  case True
  obtain c' where "GetCondition K (SetCondition K cs c) (c_type c) = Some c'" "cond_agree c' c"
    by (rule set_same [OF assms])
  then show ?thesis using True by (simp add: cond_is_def cond_agree_def)
next
  case False
  then show ?thesis using assms by (simp add: cond_is_def)
qed

lemma AllTrue_set_other:
  "meta_contract K \<Longrightarrow> c_type c \<notin> set ts \<Longrightarrow> AllTrue K (SetCondition K cs c) ts = AllTrue K cs ts"
  by (auto simp: AllTrue_iff list_all_iff)

lemma found_type: "meta_contract K \<Longrightarrow> GetCondition K cs t = Some c \<Longrightarrow> c_type c = t"
  unfolding meta_contract_def GetCondition_def by blast

section \<open>A concrete instance of the contract\<close>

definition ref_find :: "condition list \<Rightarrow> string \<Rightarrow> condition option" where
  "ref_find cs t = find (\<lambda>c. c_type c = t) cs"

fun ref_set :: "condition list \<Rightarrow> condition \<Rightarrow> condition list" where
  "ref_set [] c = [c]"
| "ref_set (x # cs) c =
     (if c_type x = c_type c
      then (if c_status x = c_status c then c\<lparr>c_ltt := c_ltt x\<rparr> else c) # cs
      else x # ref_set cs c)"

definition ref_meta :: meta_api where
  "ref_meta = \<lparr>set_status_condition = ref_set, find_status_condition = ref_find\<rparr>"

lemma ref_meta_simps [simp]:
  "set_status_condition ref_meta = ref_set" "find_status_condition ref_meta = ref_find"
  by (simp_all add: ref_meta_def)

lemma ref_find_simps [simp]:
  "ref_find [] t = None" "ref_find (c # cs) t = (if c_type c = t then Some c else ref_find cs t)"
  by (simp_all add: ref_find_def)

lemma ref_find_set_other: "t \<noteq> c_type c \<Longrightarrow> ref_find (ref_set cs c) t = ref_find cs t"
  by (induction cs) auto

lemma ref_find_set_same:
  "ref_find (ref_set cs c) (c_type c) =
     Some (case ref_find cs (c_type c) of None \<Rightarrow> c
           | Some c0 \<Rightarrow> if c_status c0 = c_status c then c\<lparr>c_ltt := c_ltt c0\<rparr> else c)"
  by (induction cs) auto

lemma cond_agree_ltt: "cond_agree a b \<Longrightarrow> b\<lparr>c_ltt := c_ltt a\<rparr> = a"
  by (cases a, cases b) (simp add: cond_agree_def)

lemma ref_set_agree:
  "ref_find cs (c_type c) = Some c0 \<Longrightarrow> cond_agree c0 c \<Longrightarrow> ref_set cs c = cs"
proof (induction cs)
  case (Cons x xs)
  show ?case
  proof (cases "c_type x = c_type c")
    case True
    with Cons.prems have "x = c0" by simp
    with Cons.prems True show ?thesis
      by (simp add: cond_agree_ltt) (simp add: cond_agree_def)
  next
    case False
    with Cons show ?thesis by simp
  qed
qed simp

lemma ref_find_type: "ref_find cs t = Some c \<Longrightarrow> c_type c = t"
  by (induction cs) (auto split: if_splits)

lemma ref_meta_contract: "meta_contract ref_meta"
  unfolding meta_contract_def
  by (auto simp: set_found_def ref_find_set_same ref_find_set_other ref_set_agree ref_find_type cond_agree_def
           split: option.splits)

end
