(* ===== verification/Reconcile.thy ===== *)
theory Reconcile
  imports Kube Conditions
begin

text \<open>
  The controller skeleton of \<open>internal/common/reconcile\<close> and \<open>internal/common/instrumentation\<close>:
  the sequential pipeline, the parallel group, requeue aggregation, the aggregate Ready condition,
  the conditional status write, finalizers, and the projection and cleanup of child objects.

  A sub-reconciler is a function on the state it can change (the custom resource in memory, the API
  server, the metrics); its result is the pair \<open>(ctrl.Result, error)\<close>.
\<close>

type_synonym 's step_fn = "'s \<Rightarrow> (ctrl_result \<times> err option) \<times> 's"

record 's step =
  step_name :: string
  step_fn :: "'s step_fn"

type_synonym 's instrument_fn = "string \<Rightarrow> 's step_fn \<Rightarrow> 's step_fn"

section \<open>The sequential pipeline\<close>

definition run_step :: "'s instrument_fn \<Rightarrow> 's step \<Rightarrow> 's step_fn" where
  "run_step instr st s =
     (if step_name st = [] then step_fn st s else instr (step_name st) (step_fn st) s)"

fun RunPipeline :: "'s instrument_fn \<Rightarrow> 's step list \<Rightarrow> 's step_fn" where
  "RunPipeline instr [] s = ((zero_result, None), s)"
| "RunPipeline instr (st # sts) s =
     (let ((result, e), s') = run_step instr st s in
      if \<not> result_is_zero result \<or> e \<noteq> None then ((result, e), s') else RunPipeline instr sts s')"

fun ShortestRequeue_from :: "ctrl_result \<Rightarrow> ctrl_result list \<Rightarrow> ctrl_result" where
  "ShortestRequeue_from shortest [] = shortest"
| "ShortestRequeue_from shortest (r # rs) =
     (if requeue_after r \<le> 0 then ShortestRequeue_from shortest rs
      else if requeue_after shortest \<le> 0 \<or> requeue_after r < requeue_after shortest
      then ShortestRequeue_from r rs
      else ShortestRequeue_from shortest rs)"

definition ShortestRequeue :: "ctrl_result list \<Rightarrow> ctrl_result" where
  "ShortestRequeue rs = ShortestRequeue_from zero_result rs"

definition RequeueDeploymentPolling :: duration where
  "RequeueDeploymentPolling = seconds 10"

definition RequeueSecretPolling :: duration where
  "RequeueSecretPolling = seconds 15"

text \<open>A step lets the pipeline go on when it returns a zero result and no error.\<close>

definition passes :: "(ctrl_result \<times> err option) \<times> 's \<Rightarrow> bool" where
  "passes r \<longleftrightarrow> fst r = (zero_result, None)"

fun all_pass :: "'s instrument_fn \<Rightarrow> 's step list \<Rightarrow> 's \<Rightarrow> bool" where
  "all_pass instr [] s = True"
| "all_pass instr (st # sts) s =
     (passes (run_step instr st s) \<and> all_pass instr sts (snd (run_step instr st s)))"

lemma RunPipeline_Cons:
  "RunPipeline instr (st # sts) s =
     (if passes (run_step instr st s) then RunPipeline instr sts (snd (run_step instr st s))
      else run_step instr st s)"
  by (auto simp: passes_def result_is_zero_def split: prod.splits)

declare RunPipeline.simps(2) [simp del]
declare RunPipeline_Cons [simp]

lemma RunPipeline_append:
  "RunPipeline instr (xs @ ys) s =
     (if passes (RunPipeline instr xs s) then RunPipeline instr ys (snd (RunPipeline instr xs s))
      else RunPipeline instr xs s)"
  by (induction xs arbitrary: s) (auto simp: passes_def)

lemma RunPipeline_passes: "passes (RunPipeline instr xs s) \<longleftrightarrow> all_pass instr xs s"
  by (induction xs arbitrary: s) (auto simp: passes_def)

lemma RunPipeline_stops:
  assumes "all_pass instr pre s" "\<not> passes (run_step instr st (snd (RunPipeline instr pre s)))"
  shows "RunPipeline instr (pre @ st # post) s = run_step instr st (snd (RunPipeline instr pre s))"
  using assms by (simp add: RunPipeline_append RunPipeline_passes)

section \<open>The shortest requeue\<close>

text \<open>The positive requeue intervals among some results.\<close>

definition intervals :: "ctrl_result list \<Rightarrow> duration list" where
  "intervals rs = filter (\<lambda>d. 0 < d) (map requeue_after rs)"

lemma intervals_simps [simp]:
  "intervals [] = []"
  "intervals (r # rs) = (if 0 < requeue_after r then requeue_after r # intervals rs else intervals rs)"
  by (simp_all add: intervals_def)

lemma ShortestRequeue_from_in:
  "ShortestRequeue_from s rs = s \<or>
     (ShortestRequeue_from s rs \<in> set rs \<and> 0 < requeue_after (ShortestRequeue_from s rs))"
proof (induction rs arbitrary: s)
  case (Cons r rs)
  show ?case using Cons.IH [of s] Cons.IH [of r] by auto
qed simp

lemma ShortestRequeue_from_min:
  "requeue_after (ShortestRequeue_from s rs) =
     (if 0 < requeue_after s then Min (insert (requeue_after s) (set (intervals rs)))
      else if intervals rs = [] then requeue_after s else Min (set (intervals rs)))"
proof (induction rs arbitrary: s)
  case (Cons r rs)
  show ?case
  proof (cases "intervals rs = []")
    case True
    then show ?thesis by (auto simp: Cons.IH min_def)
  next
    case False
    then have "Min (insert x (set (intervals rs))) = min x (Min (set (intervals rs)))" for x
      by (subst Min_insert) auto
    with False show ?thesis by (auto simp: Cons.IH min_def)
  qed
qed simp

section \<open>Instrumentation\<close>

text \<open>
  The two metric vectors record a sequence of samples: durations by sub-reconciler, and error counts
  by sub-reconciler and condition type.  \<open>onm\<close> applies a change to the metrics in the state and
  \<open>clock\<close> reads the wall clock there.
\<close>

record metrics =
  durations :: "(string \<times> duration) list"
  errors :: "(string \<times> string) list"

definition ConditionTypeUnknown :: string where
  "ConditionTypeUnknown = ''UNKNOWN''"

definition ObserveReconcileDuration :: "string \<Rightarrow> duration \<Rightarrow> metrics \<Rightarrow> metrics" where
  "ObserveReconcileDuration sub d m = m\<lparr>durations := durations m @ [(sub, d)]\<rparr>"

definition RecordReconcileError :: "string \<Rightarrow> string \<Rightarrow> metrics \<Rightarrow> metrics" where
  "RecordReconcileError sub ct m = m\<lparr>errors := errors m @ [(sub, ct)]\<rparr>"

definition Instrument ::
  "((metrics \<Rightarrow> metrics) \<Rightarrow> 's \<Rightarrow> 's) \<Rightarrow> ('s \<Rightarrow> instant) \<Rightarrow> string gomap \<Rightarrow> 's instrument_fn" where
  "Instrument onm clock condition_types name fn s =
     (let start = clock s;
          ((res, e), s1) = fn s;
          s2 = (case e of
                  None \<Rightarrow> s1
                | Some _ \<Rightarrow>
                    onm (RecordReconcileError name
                          (case map_of condition_types name of
                             None \<Rightarrow> ConditionTypeUnknown | Some ct \<Rightarrow> ct)) s1)
      in ((res, e), onm (ObserveReconcileDuration name (clock s2 - start)) s2))"

text \<open>
  What the pipeline relies on: an instrument function changes neither what a step returns nor
  anything of the state outside the metrics, which \<open>forget\<close> erases.
\<close>

definition blind :: "('s \<Rightarrow> 'v) \<Rightarrow> 's step_fn \<Rightarrow> bool" where
  "blind forget f \<longleftrightarrow> (\<forall>s t. forget s = forget t \<longrightarrow>
     fst (f s) = fst (f t) \<and> forget (snd (f s)) = forget (snd (f t)))"

locale transparent_instrument =
  fixes instr :: "'s instrument_fn" and forget :: "'s \<Rightarrow> 'v"
  assumes instr_result: "fst (instr n f s) = fst (f s)"
    and instr_state: "forget (snd (instr n f s)) = forget (snd (f s))"
begin

lemma run_step_result: "fst (run_step instr st s) = fst (step_fn st s)"
  by (simp add: run_step_def instr_result)

lemma run_step_state: "forget (snd (run_step instr st s)) = forget (snd (step_fn st s))"
  by (simp add: run_step_def instr_state)

lemma pipeline_transparent:
  assumes "list_all (\<lambda>st. blind forget (step_fn st)) sts" "forget s = forget t"
  shows "fst (RunPipeline instr sts s) = fst (RunPipeline (\<lambda>n f. f) sts t) \<and>
         forget (snd (RunPipeline instr sts s)) = forget (snd (RunPipeline (\<lambda>n f. f) sts t))"
  using assms
proof (induction sts arbitrary: s t)
  case (Cons st sts)
  have "blind forget (step_fn st)" using Cons.prems by simp
  then have b: "fst (step_fn st s) = fst (step_fn st t)"
    "forget (snd (step_fn st s)) = forget (snd (step_fn st t))"
    unfolding blind_def using Cons.prems(2) by blast+
  have r: "run_step (\<lambda>n f. f) st t = step_fn st t" by (simp add: run_step_def)
  have p: "passes (run_step instr st s) \<longleftrightarrow> passes (step_fn st t)"
    by (simp add: passes_def run_step_result b)
  have f: "forget (snd (run_step instr st s)) = forget (snd (step_fn st t))"
    by (simp add: run_step_state b)
  show ?case
  proof (cases "passes (step_fn st t)")
    case True
    then show ?thesis using Cons.IH [OF _ f] Cons.prems p by (simp add: r)
  next
    case False
    then show ?thesis using p f by (simp add: r run_step_result b)
  qed
qed simp

end

text \<open>\<open>Instrument\<close> keeps that promise when the metrics are a component of the state.\<close>

lemma Instrument_result: "fst (Instrument onm clock ct n f s) = fst (f s)"
  by (simp add: Instrument_def Let_def split: prod.splits)

lemma Instrument_state:
  assumes "\<And>g s. forget (onm g s) = forget s"
  shows "forget (snd (Instrument onm clock ct n f s)) = forget (snd (f s))"
  by (simp add: Instrument_def Let_def assms split: prod.splits option.splits)

definition on_snd :: "(metrics \<Rightarrow> metrics) \<Rightarrow> 'a \<times> metrics \<Rightarrow> 'a \<times> metrics" where
  "on_snd g s = (fst s, g (snd s))"

interpretation prom: transparent_instrument "Instrument on_snd clock ct" "fst :: 'a \<times> metrics \<Rightarrow> 'a" for clock ct
  by unfold_locales (simp_all add: Instrument_result Instrument_state on_snd_def)

text \<open>Every failing call is counted once, under the condition type of its map or \<open>UNKNOWN\<close>.\<close>

lemma Instrument_counts:
  "errors (snd (snd (Instrument on_snd clock ct n f s))) =
     errors (snd (snd (f s))) @
       (if snd (fst (f s)) = None then []
        else [(n, case map_of ct n of None \<Rightarrow> ConditionTypeUnknown | Some c \<Rightarrow> c)])"
  "length (durations (snd (snd (Instrument on_snd clock ct n f s)))) =
     Suc (length (durations (snd (snd (f s)))))"
  by (simp_all add: Instrument_def Let_def on_snd_def RecordReconcileError_def
        ObserveReconcileDuration_def split: prod.splits option.splits)

section \<open>The parallel group\<close>

definition MergeCondition :: "meta_api \<Rightarrow> condition list \<Rightarrow> condition list \<Rightarrow> string \<Rightarrow> condition list" where
  "MergeCondition K dst src ct =
     (case GetCondition K src ct of None \<Rightarrow> dst | Some c \<Rightarrow> SetCondition K dst c)"

text \<open>
  A member works on its own deep copy of the resource and, with its peers, on the API server
  \<open>'w\<close>.  The scheduler's choice is the list \<open>order\<close> of the members' indices in which they run; the
  error of the group is that of the first to fail in this order.
\<close>

record ('cr, 'w) parallel_step =
  p_name :: string
  p_condition :: string
  p_fn :: "('cr \<times> 'w) step_fn"

record 'cr outcome =
  out_result :: ctrl_result
  out_copy :: 'cr
  out_type :: string
  out_err :: "err option"

fun run_members ::
  "('cr \<times> 'w) instrument_fn \<Rightarrow> ('cr, 'w) parallel_step list \<Rightarrow> nat list \<Rightarrow>
     'cr \<Rightarrow> 'cr outcome list \<Rightarrow> err option \<Rightarrow> 'w \<Rightarrow> 'cr outcome list \<times> err option \<times> 'w" where
  "run_members instr steps [] cr outs gerr w = (outs, gerr, w)"
| "run_members instr steps (i # is) cr outs gerr w =
     (let ((res, e), (copy, w')) = instr (p_name (steps ! i)) (p_fn (steps ! i)) (cr, w)
      in run_members instr steps is cr
           (outs[i := (outs ! i)\<lparr>out_result := res, out_copy := copy, out_err := e\<rparr>])
           (case gerr of None \<Rightarrow> e | Some _ \<Rightarrow> gerr) w')"

definition initial_outcomes :: "('cr, 'w) parallel_step list \<Rightarrow> 'cr \<Rightarrow> 'cr outcome list" where
  "initial_outcomes steps cr =
     map (\<lambda>st. \<lparr>out_result = zero_result, out_copy = cr, out_type = p_condition st, out_err = None\<rparr>) steps"

text \<open>How a resource gives access to its status conditions.\<close>

record 'cr cond_lens =
  conds_of :: "'cr \<Rightarrow> condition list"
  with_conds :: "condition list \<Rightarrow> 'cr \<Rightarrow> 'cr"

fun merge_outcomes :: "meta_api \<Rightarrow> ('cr \<Rightarrow> condition list) \<Rightarrow> 'cr outcome list \<Rightarrow> condition list \<Rightarrow> condition list" where
  "merge_outcomes K conds [] cs = cs"
| "merge_outcomes K conds (out # outs) cs =
     merge_outcomes K conds outs (MergeCondition K cs (conds (out_copy out)) (out_type out))"

definition RunParallelGroup ::
  "meta_api \<Rightarrow> 'cr cond_lens \<Rightarrow> ('cr \<times> 'w) instrument_fn \<Rightarrow> ('cr, 'w) parallel_step list \<Rightarrow> nat list \<Rightarrow>
     ('cr \<times> 'w) step_fn" where
  "RunParallelGroup K L instr steps order s =
     (let (cr, w) = s;
          (outs, group_err, w') = run_members instr steps order cr (initial_outcomes steps cr) None w;
          cr' = with_conds L (merge_outcomes K (conds_of L) outs (conds_of L cr)) cr;
          results = map out_result (filter (\<lambda>out. out_err out = None) outs)
      in if group_err \<noteq> None then ((zero_result, group_err), (cr', w'))
         else ((ShortestRequeue results, None), (cr', w')))"

lemma merge_outcomes_notin:
  assumes "meta_contract K" "t \<notin> set (map out_type outs)"
  shows "GetCondition K (merge_outcomes K conds outs cs) t = GetCondition K cs t"
  using assms(2)
proof (induction outs arbitrary: cs)
  case (Cons out outs)
  have "GetCondition K (MergeCondition K cs (conds (out_copy out)) (out_type out)) t = GetCondition K cs t"
    using Cons.prems assms(1) by (auto simp: MergeCondition_def dest!: found_type [OF assms(1)] split: option.splits)
  then show ?case using Cons by simp
qed simp

text \<open>
  With distinct condition types, the group's merged condition of a type is the one the member's copy
  holds, or the primary's own when the member set none.
\<close>

lemma merge_outcomes_in:
  assumes "meta_contract K" "distinct (map out_type outs)" "out \<in> set outs"
    and found: "GetCondition K (conds (out_copy out)) (out_type out) = Some c"
  shows "\<exists>c'. GetCondition K (merge_outcomes K conds outs cs) (out_type out) = Some c' \<and> cond_agree c' c"
  using assms(2,3)
proof (induction outs arbitrary: cs)
  case (Cons x outs)
  show ?case
  proof (cases "x = out")
    case True
    have ty: "c_type c = out_type out" using found_type [OF assms(1) found] .
    obtain c' where c': "GetCondition K (SetCondition K cs c) (c_type c) = Some c'" "cond_agree c' c"
      by (rule set_same [OF assms(1)])
    have "GetCondition K (merge_outcomes K conds outs (SetCondition K cs c)) (out_type out) =
        GetCondition K (SetCondition K cs c) (out_type out)"
      using Cons.prems True by (intro merge_outcomes_notin [OF assms(1)]) auto
    then show ?thesis using True found c' ty by (simp add: MergeCondition_def)
  next
    case False
    then show ?thesis using Cons by auto
  qed
qed simp

section \<open>The aggregate Ready condition and the status write\<close>

definition SetAggregateReady :: "meta_api \<Rightarrow> condition list \<Rightarrow> int \<Rightarrow> string list \<Rightarrow> condition list" where
  "SetAggregateReady K cs gen types =
     (if AllTrue K cs types
      then SetCondition K cs (mk_condition ''Ready'' CTrue gen ''AllReady''
             (Msg ''All sub-conditions are ready'' []))
      else SetCondition K cs (mk_condition ''Ready'' CFalse gen ''NotAllReady''
             (Msg ''One or more sub-conditions are not ready'' [])))"

text \<open>
  \<open>sem_eq\<close> is apimachinery's semantic equality of two statuses and \<open>status_update\<close> the write of the
  status subresource, whose response replaces the object in memory.
\<close>

definition UpdateStatus ::
  "('st \<Rightarrow> 'st \<Rightarrow> bool) \<Rightarrow> ('cr \<Rightarrow> 'st) \<Rightarrow> ('cr \<Rightarrow> 'w \<Rightarrow> 'cr result \<times> 'w) \<Rightarrow> 'st option \<Rightarrow>
     ('cr \<Rightarrow> 'cr) \<Rightarrow> ctrl_result \<Rightarrow> err option \<Rightarrow> ('cr \<times> 'w) step_fn" where
  "UpdateStatus sem_eq status_of status_update before mutate result reconcile_err s =
     (let (cr, w) = s; cr1 = mutate cr in
      if (case before of None \<Rightarrow> False | Some b \<Rightarrow> sem_eq b (status_of cr1))
      then ((result, reconcile_err), (cr1, w))
      else (case status_update cr1 w of
              (Inl e, w') \<Rightarrow>
                ((zero_result, errors_join [reconcile_err, Some (Errorf ''updating status: %w'' [Wrap e])]), (cr1, w'))
            | (Inr cr2, w') \<Rightarrow> ((result, reconcile_err), (cr2, w'))))"

lemma SetAggregateReady_other [simp]:
  "meta_contract K \<Longrightarrow> t \<noteq> ''Ready'' \<Longrightarrow>
     GetCondition K (SetAggregateReady K cs g ts) t = GetCondition K cs t"
  by (simp add: SetAggregateReady_def)

lemma SetAggregateReady_iff:
  assumes "meta_contract K"
  shows "IsReady K (SetAggregateReady K cs g ts) \<longleftrightarrow> AllTrue K cs ts"
  using assms by (simp add: IsReady_iff SetAggregateReady_def)

lemma AllTrue_SetAggregateReady:
  "meta_contract K \<Longrightarrow> ''Ready'' \<notin> set ts \<Longrightarrow>
     AllTrue K (SetAggregateReady K cs g ts) ts = AllTrue K cs ts"
  by (simp add: SetAggregateReady_def AllTrue_set_other)

lemma SetAggregateReady_idem:
  assumes "meta_contract K" "''Ready'' \<notin> set ts"
  shows "SetAggregateReady K (SetAggregateReady K cs g ts) g ts = SetAggregateReady K cs g ts"
proof (cases "AllTrue K cs ts")
  case True
  then show ?thesis
    using assms by (simp add: SetAggregateReady_def AllTrue_set_other set_idem)
next
  case False
  then show ?thesis
    using assms by (simp add: SetAggregateReady_def AllTrue_set_other set_idem)
qed

section \<open>The skeleton an operator instantiates\<close>

record 'cr skeleton =
  sk_types :: "string list"
  sk_conds :: "'cr cond_lens"
  sk_generation :: "'cr \<Rightarrow> int"

definition SetReady :: "meta_api \<Rightarrow> 'cr skeleton \<Rightarrow> 'cr \<Rightarrow> 'cr" where
  "SetReady K S cr =
     with_conds (sk_conds S)
       (SetAggregateReady K (conds_of (sk_conds S) cr) (sk_generation S cr) (sk_types S)) cr"

definition SkeletonUpdateStatus ::
  "meta_api \<Rightarrow> 'cr skeleton \<Rightarrow> ('st \<Rightarrow> 'st \<Rightarrow> bool) \<Rightarrow> ('cr \<Rightarrow> 'st) \<Rightarrow>
     ('cr \<Rightarrow> 'w \<Rightarrow> 'cr result \<times> 'w) \<Rightarrow> 'st option \<Rightarrow> ('cr \<Rightarrow> 'cr) option \<Rightarrow> ctrl_result \<Rightarrow> err option \<Rightarrow>
     ('cr \<times> 'w) step_fn" where
  "SkeletonUpdateStatus K S sem_eq status_of status_update before extra result reconcile_err =
     UpdateStatus sem_eq status_of status_update before
       (\<lambda>cr. case extra of None \<Rightarrow> SetReady K S cr | Some f \<Rightarrow> f (SetReady K S cr)) result reconcile_err"

definition MarkFailed :: "meta_api \<Rightarrow> 'cr skeleton \<Rightarrow> string \<Rightarrow> string \<Rightarrow> err \<Rightarrow> 'cr \<Rightarrow> 'cr" where
  "MarkFailed K S ct reason e cr =
     with_conds (sk_conds S)
       (SetCondition K (conds_of (sk_conds S) cr)
          (mk_condition ct CFalse (sk_generation S cr) reason (Msg ''%s'' [Val e]))) cr"

definition SkeletonRunParallelGroup ::
  "meta_api \<Rightarrow> 'cr skeleton \<Rightarrow> ('cr \<times> 'w) instrument_fn \<Rightarrow> ('cr, 'w) parallel_step list \<Rightarrow> nat list \<Rightarrow>
     ('cr \<times> 'w) step_fn" where
  "SkeletonRunParallelGroup K S = RunParallelGroup K (sk_conds S)"

definition lens_ok :: "'cr cond_lens \<Rightarrow> bool" where
  "lens_ok L \<longleftrightarrow> (\<forall>cs cr. conds_of L (with_conds L cs cr) = cs) \<and>
     (\<forall>cr. with_conds L (conds_of L cr) cr = cr) \<and>
     (\<forall>cs cs' cr. with_conds L cs' (with_conds L cs cr) = with_conds L cs' cr)"

lemma lens_ok_simps [simp]:
  "lens_ok L \<Longrightarrow> conds_of L (with_conds L cs cr) = cs"
  "lens_ok L \<Longrightarrow> with_conds L cs' (with_conds L cs cr) = with_conds L cs' cr"
  by (simp_all add: lens_ok_def)

lemma SetReady_idem:
  assumes "meta_contract K" "lens_ok (sk_conds S)" "''Ready'' \<notin> set (sk_types S)"
    and "\<And>cs cr. sk_generation S (with_conds (sk_conds S) cs cr) = sk_generation S cr"
  shows "SetReady K S (SetReady K S cr) = SetReady K S cr"
  using assms by (simp add: SetReady_def SetAggregateReady_idem)

text \<open>A condition flipped to false by \<open>MarkFailed\<close> cannot leave the aggregate stale.\<close>

lemma MarkFailed_not_ready:
  assumes "meta_contract K" "lens_ok (sk_conds S)" "ct \<in> set (sk_types S)" "''Ready'' \<notin> set (sk_types S)"
  shows "\<not> IsReady K (conds_of (sk_conds S) (SetReady K S (MarkFailed K S ct reason e cr)))"
proof -
  have "\<not> AllTrue K (conds_of (sk_conds S) (MarkFailed K S ct reason e cr)) (sk_types S)"
    using assms by (auto simp: AllTrue_iff list_all_iff MarkFailed_def intro!: bexI [of _ ct])
  then show ?thesis using assms by (simp add: SetReady_def SetAggregateReady_iff)
qed

section \<open>Finalizers\<close>

text \<open>\<open>controllerutil.ContainsFinalizer\<close> and \<open>AddFinalizer\<close> are the parameters \<open>has\<close> and \<open>add\<close>.\<close>

definition EnsureFinalizer ::
  "('o \<Rightarrow> string \<Rightarrow> bool) \<Rightarrow> ('o \<Rightarrow> string \<Rightarrow> 'o) \<Rightarrow> ('o, 'w) kclient \<Rightarrow> string \<Rightarrow> 'o \<Rightarrow> 'w \<Rightarrow>
     (bool \<times> err option) \<times> 'o \<times> 'w" where
  "EnsureFinalizer has add C finalizer obj w =
     (if has obj finalizer then ((False, None), obj, w)
      else let obj1 = add obj finalizer in
           case k_update C obj1 w of
             (Inl e, w') \<Rightarrow> ((False, Some (Errorf ''adding finalizer %q: %w'' [Str finalizer, Wrap e])), obj1, w')
           | (Inr obj2, w') \<Rightarrow> ((True, None), obj2, w'))"

section \<open>Cleaning up and projecting children\<close>

text \<open>\<open>meta\<close> gives the metadata of a child, \<open>kind\<close> its Go type as \<open>%T\<close> prints it.\<close>

definition DeleteOrphanedChildFunc ::
  "('o, 'w) kclient \<Rightarrow> string \<Rightarrow> objkey \<Rightarrow> ('o \<Rightarrow> bool) \<Rightarrow> 'w \<Rightarrow> err option \<times> 'w" where
  "DeleteOrphanedChildFunc C kind key controls w =
     (case k_get C key w of
        Inl e \<Rightarrow>
          if is_not_found e then (None, w)
          else (Some (Errorf ''getting %T %s for orphan cleanup: %w'' [Str kind, Strs [fst key, snd key], Wrap e]), w)
      | Inr live \<Rightarrow>
          if \<not> controls live then (None, w)
          else (case k_delete C background live w of
                  (None, w') \<Rightarrow> (None, w')
                | (Some e, w') \<Rightarrow>
                    if is_not_found e then (None, w')
                    else (Some (Errorf ''deleting orphaned %T %s: %w'' [Str kind, Strs [fst key, snd key], Wrap e]), w')))"

definition DeleteOrphanedChild ::
  "('o \<Rightarrow> objmeta) \<Rightarrow> ('o, 'w) kclient \<Rightarrow> string \<Rightarrow> string \<Rightarrow> objkey \<Rightarrow> 'w \<Rightarrow> err option \<times> 'w" where
  "DeleteOrphanedChild meta C kind owner_uid key w =
     DeleteOrphanedChildFunc C kind key (\<lambda>live. controlled_by owner_uid (meta live)) w"

lemma DeleteOrphanedChildFunc_foreign:
  "k_get C key w = Inr live \<Longrightarrow> \<not> controls live \<Longrightarrow> DeleteOrphanedChildFunc C kind key controls w = (None, w)"
  by (simp add: DeleteOrphanedChildFunc_def)

lemma DeleteOrphanedChildFunc_absent:
  "k_get C key w = Inl e \<Longrightarrow> is_not_found e \<Longrightarrow> DeleteOrphanedChildFunc C kind key controls w = (None, w)"
  by (simp add: DeleteOrphanedChildFunc_def)

end
