(* ===== verification/Apply.thy ===== *)
theory Apply
  imports Reconcile
begin

text \<open>
  Server-Side Apply, \<open>internal/common/apply/apply.go\<close>, and the projection of child resources over
  it, \<open>internal/common/reconcile/project.go\<close>.

  The record \<open>ssa_api\<close> holds what the code calls in apimachinery, client-go and controller-runtime
  for one kind of object: owner references, kind resolution, the unstructured converter, the retry
  loop and the apply request.  \<open>'u\<close> is the unstructured form.
\<close>

record ('o, 'u, 'w) ssa_api =
  ssa_meta :: "'o \<Rightarrow> objmeta"
  ssa_set_ref :: "objmeta \<Rightarrow> 'o \<Rightarrow> 'o result"
  ssa_gvk :: "'o \<Rightarrow> string result"
  ssa_to_unstructured :: "'o \<Rightarrow> 'u result"
  ssa_set_gvk :: "string \<Rightarrow> 'u \<Rightarrow> 'u"
  ssa_remove :: "string list \<Rightarrow> 'u \<Rightarrow> 'u"
  ssa_apply :: "string \<Rightarrow> bool \<Rightarrow> 'u \<Rightarrow> 'w \<Rightarrow> 'u result \<times> 'w"
  ssa_retry :: "('w \<Rightarrow> 'u result \<times> 'w) \<Rightarrow> 'w \<Rightarrow> 'u result \<times> 'w"
  ssa_from_unstructured :: "'u \<Rightarrow> 'o \<Rightarrow> 'o result"

definition FieldManager :: string where
  "FieldManager = ''forge-operator''"

definition strip_server_fields :: "('o, 'u, 'w) ssa_api \<Rightarrow> 'u \<Rightarrow> 'u" where
  "strip_server_fields A u =
     ssa_remove A [''status'']
       (ssa_remove A [''metadata'', ''managedFields'']
         (ssa_remove A [''metadata'', ''resourceVersion'']
           (ssa_remove A [''metadata'', ''creationTimestamp''] u)))"

definition EnsureUnownedObject :: "('o, 'u, 'w) ssa_api \<Rightarrow> 'o \<Rightarrow> string \<Rightarrow> 'w \<Rightarrow> 'o result \<times> 'w" where
  "EnsureUnownedObject A obj field_manager w =
     (let ref = [Str (m_namespace (ssa_meta A obj)), Str (m_name (ssa_meta A obj))] in
      case ssa_gvk A obj of
        Inl e \<Rightarrow> (Inl (Errorf ''resolving GVK for %s/%s: %w'' (ref @ [Wrap e])), w)
      | Inr gvk \<Rightarrow>
          (case ssa_to_unstructured A obj of
             Inl e \<Rightarrow> (Inl (Errorf ''converting %s %s/%s to unstructured: %w'' (Str gvk # ref @ [Wrap e])), w)
           | Inr raw \<Rightarrow>
               (let u = strip_server_fields A (ssa_set_gvk A gvk raw) in
                case ssa_retry A (ssa_apply A field_manager True u) w of
                  (Inl e, w') \<Rightarrow> (Inl (Errorf ''applying %s %s/%s: %w'' (Str gvk # ref @ [Wrap e])), w')
                | (Inr u', w') \<Rightarrow>
                    (case ssa_from_unstructured A u' obj of
                       Inl e \<Rightarrow> (Inl (Errorf ''decoding applied %s %s/%s: %w'' (Str gvk # ref @ [Wrap e])), w')
                     | Inr obj' \<Rightarrow> (Inr obj', w')))))"

definition EnsureObject :: "('o, 'u, 'w) ssa_api \<Rightarrow> objmeta \<Rightarrow> 'o \<Rightarrow> string \<Rightarrow> 'w \<Rightarrow> 'o result \<times> 'w" where
  "EnsureObject A owner obj field_manager w =
     (case ssa_set_ref A owner obj of
        Inl e \<Rightarrow> (Inl (Errorf ''setting owner reference on %s/%s: %w''
                      [Str (m_namespace (ssa_meta A obj)), Str (m_name (ssa_meta A obj)), Wrap e]), w)
      | Inr owned \<Rightarrow> EnsureUnownedObject A owned field_manager w)"

section \<open>Projecting a child\<close>

record ('o, 'u, 'w) child_params =
  ch_child :: 'o
  ch_condition :: string
  ch_ready_reason :: string
  ch_ready_message :: msg
  ch_waiting_reason :: string
  ch_waiting_message :: msg
  ch_rejected_reason :: string
  ch_rejected_message :: "err \<Rightarrow> msg"
  ch_error_reason :: string
  ch_error_message :: "err \<Rightarrow> msg"
  ch_wait_requeue :: duration
  ch_generation :: int
  ch_conditions :: "'o \<Rightarrow> condition list"
  ch_unowned :: bool

definition ProjectChild ::
  "meta_api \<Rightarrow> ('o, 'u, 'w) ssa_api \<Rightarrow> objmeta \<Rightarrow> ('o, 'u, 'w) child_params \<Rightarrow> condition list \<Rightarrow> 'w \<Rightarrow>
     (ctrl_result \<times> err option) \<times> condition list \<times> 'w" where
  "ProjectChild K A owner p cs w =
     (case (if ch_unowned p then EnsureUnownedObject A (ch_child p) FieldManager w
            else EnsureObject A owner (ch_child p) FieldManager w) of
        (Inl e, w') \<Rightarrow>
          (let (reason, message) =
                 (if is_invalid e then (ch_rejected_reason p, ch_rejected_message p e)
                  else (ch_error_reason p, ch_error_message p e))
           in ((zero_result, Some e),
               SetCondition K cs (mk_condition (ch_condition p) CFalse (ch_generation p) reason message), w'))
      | (Inr live, w') \<Rightarrow>
          if \<not> IsReady K (ch_conditions p live)
          then ((after (ch_wait_requeue p), None),
                SetCondition K cs (mk_condition (ch_condition p) CFalse (ch_generation p)
                  (ch_waiting_reason p) (ch_waiting_message p)), w')
          else ((zero_result, None),
                SetCondition K cs (mk_condition (ch_condition p) CTrue (ch_generation p)
                  (ch_ready_reason p) (ch_ready_message p)), w'))"

section \<open>Errors and readiness come through\<close>

text \<open>An Invalid answer of the API server keeps its reason through the wrapping of \<open>EnsureObject\<close>.\<close>

lemma EnsureUnownedObject_reason:
  assumes "ssa_gvk A obj = Inr gvk" "ssa_to_unstructured A obj = Inr raw"
    and "ssa_retry A (ssa_apply A fm True (strip_server_fields A (ssa_set_gvk A gvk raw))) w = (Inl e, w')"
  shows "\<exists>e'. EnsureUnownedObject A obj fm w = (Inl e', w') \<and> reason_of e' = reason_of e"
  using assms by (cases "reason_of e") (auto simp: EnsureUnownedObject_def Let_def)

lemma EnsureObject_owned:
  "EnsureObject A owner obj fm w = (Inr obj', w') \<Longrightarrow>
     \<exists>owned. ssa_set_ref A owner obj = Inr owned \<and> EnsureUnownedObject A owned fm w = (Inr obj', w')"
  by (auto simp: EnsureObject_def split: sum.splits)

lemma ProjectChild_true:
  assumes "meta_contract K" "ProjectChild K A owner p cs w = ((r, e), cs', w')"
    and "cond_true K cs' (ch_condition p)"
  shows "r = zero_result" "e = None"
  using assms by (auto simp: ProjectChild_def Let_def split: sum.splits prod.splits if_splits)

lemma ProjectChild_other:
  assumes "meta_contract K" "ProjectChild K A owner p cs w = ((r, e), cs', w')" "t \<noteq> ch_condition p"
  shows "GetCondition K cs' t = GetCondition K cs t"
  using assms by (auto simp: ProjectChild_def Let_def split: sum.splits prod.splits if_splits)

section \<open>A store, for concrete instances\<close>

text \<open>A reference instance of Server-Side Apply: the object is stored under its key.\<close>

definition store_ssa :: "('o \<Rightarrow> objmeta) \<Rightarrow> ('o, 'o, (objkey \<times> 'o) list) ssa_api" where
  "store_ssa meta = \<lparr>ssa_meta = meta, ssa_set_ref = (\<lambda>owner x. Inr x), ssa_gvk = (\<lambda>x. Inr ''Kind''),
     ssa_to_unstructured = Inr, ssa_set_gvk = (\<lambda>g u. u), ssa_remove = (\<lambda>p u. u),
     ssa_apply = (\<lambda>fm force u w. (Inr u, map_put (key_of (meta u)) u w)), ssa_retry = (\<lambda>f. f),
     ssa_from_unstructured = (\<lambda>u x. Inr u)\<rparr>"

lemma store_ssa_apply [simp]:
  "EnsureObject (store_ssa meta) owner x fm w = (Inr x, map_put (key_of (meta x)) x w)"
  "EnsureUnownedObject (store_ssa meta) x fm w = (Inr x, map_put (key_of (meta x)) x w)"
  by (simp_all add: EnsureObject_def EnsureUnownedObject_def store_ssa_def strip_server_fields_def)

text \<open>An API server that answers nothing.\<close>

definition down_ssa :: "('o \<Rightarrow> objmeta) \<Rightarrow> ('o, unit, 'w) ssa_api" where
  "down_ssa meta = \<lparr>ssa_meta = meta, ssa_set_ref = (\<lambda>owner x. Inr x), ssa_gvk = (\<lambda>x. Inr ''Kind''),
     ssa_to_unstructured = (\<lambda>x. Inr ()), ssa_set_gvk = (\<lambda>g u. u), ssa_remove = (\<lambda>p u. u),
     ssa_apply = (\<lambda>fm force u w. (Inl (ExtErr ''down''), w)), ssa_retry = (\<lambda>f. f),
     ssa_from_unstructured = (\<lambda>u x. Inr x)\<rparr>"

end
