(* ===== verification/CommonTypes.thy ===== *)
theory CommonTypes
  imports Prelude
begin

text \<open>
  The API types every operator shares, \<open>internal/common/types/types.go\<close> and \<open>workload.go\<close>, with
  their methods.  A pointer field is an \<open>option\<close>, a reference to an object of the same namespace its
  name, and a quantity or an \<open>intstr\<close> the string it is written as.  A Go string enum stays a
  string: values outside the enum can reach the code.
\<close>

definition DefaultCacheBackend :: string where
  "DefaultCacheBackend = ''dogpile.cache.pymemcache''"

definition DatabaseStorageSizeDefault :: string where
  "DatabaseStorageSizeDefault = ''100Gi''"

definition CredentialsModeStatic :: string where
  "CredentialsModeStatic = ''Static''"

definition CredentialsModeDynamic :: string where
  "CredentialsModeDynamic = ''Dynamic''"

record ImageSpec =
  im_repository :: string
  im_tag :: string
  im_digest :: string

definition ImageReference :: "ImageSpec \<Rightarrow> string" where
  "ImageReference i =
     (if im_digest i \<noteq> [] then im_repository i @ ''@'' @ im_digest i
      else im_repository i @ '':'' @ im_tag i)"

record SecretRefSpec =
  sr_name :: string
  sr_key :: string

record DatabaseTLSSpec =
  tls_mode :: string
  tls_ca_bundle :: SecretRefSpec
  tls_client_cert :: SecretRefSpec

definition TLSIsEnabled :: "DatabaseTLSSpec option \<Rightarrow> bool" where
  "TLSIsEnabled t = (case t of None \<Rightarrow> False | Some s \<Rightarrow> tls_mode s \<noteq> [] \<and> tls_mode s \<noteq> ''disabled'')"

record DatabaseSpec =
  db_cluster_ref :: "string option"
  db_credentials_mode :: string
  db_host :: string
  db_port :: int
  db_database :: string
  db_secret_ref :: SecretRefSpec
  db_tls :: "DatabaseTLSSpec option"
  db_replicas :: int
  db_storage_size :: string

record CacheSpec =
  ca_cluster_ref :: "string option"
  ca_backend :: string
  ca_servers :: "string list"
  ca_replicas :: int

definition SecretStoreKindCluster :: string where
  "SecretStoreKindCluster = ''ClusterSecretStore''"

definition SecretStoreKindNamespaced :: string where
  "SecretStoreKindNamespaced = ''SecretStore''"

record SecretStoreRefSpec =
  st_kind :: string
  st_name :: string

record PolicySpec =
  pol_rules :: "string gomap option"
  pol_config_map :: "string option"

record PluginSpec =
  pl_name :: string
  pl_section :: string
  pl_config :: "string gomap"

definition PipelinePositionBefore :: string where
  "PipelinePositionBefore = ''before''"

definition PipelinePositionAfter :: string where
  "PipelinePositionAfter = ''after''"

record MiddlewareSpec =
  mw_name :: string
  mw_factory :: string
  mw_position :: string
  mw_config :: "string gomap"

record GatewayParentRefSpec =
  gp_name :: string
  gp_namespace :: string
  gp_section :: string

record GatewaySpec =
  gw_parent :: GatewayParentRefSpec
  gw_hostname :: string
  gw_path :: string
  gw_annotations :: "string gomap"

section \<open>Workload settings\<close>

definition DefaultTerminationGracePeriodSeconds :: int where
  "DefaultTerminationGracePeriodSeconds = 30"

definition DefaultPreStopSleepSeconds :: int where
  "DefaultPreStopSleepSeconds = 5"

definition DefaultReplicas :: int where
  "DefaultReplicas = 3"

definition DefaultMemoryRequest :: string where
  "DefaultMemoryRequest = ''256Mi''"

definition DefaultCPURequest :: string where
  "DefaultCPURequest = ''100m''"

definition DefaultMemoryLimit :: string where
  "DefaultMemoryLimit = ''512Mi''"

definition DefaultCPULimit :: string where
  "DefaultCPULimit = ''500m''"

record resource_requirements =
  rq_requests :: "string gomap"
  rq_limits :: "string gomap"

record label_selector =
  ls_match_labels :: "string gomap"
  ls_match_expressions :: "(string \<times> string \<times> string list) list"

record topology_spread =
  ts_max_skew :: int
  ts_topology_key :: string
  ts_when_unsatisfiable :: string
  ts_selector :: "label_selector option"

record deployment_strategy =
  ds_type :: string
  ds_rolling :: "(string option \<times> string option) option"  \<comment> \<open>maxUnavailable and maxSurge\<close>

record DeploymentSpec =
  de_replicas :: int
  de_resources :: "resource_requirements option"
  de_grace_period :: "int option"
  de_pre_stop_sleep :: "int option"
  de_strategy :: "deployment_strategy option"
  de_topology_spread :: "topology_spread list option"
  de_priority_class :: "string option"

definition DeploymentSpecDefault :: "DeploymentSpec \<Rightarrow> DeploymentSpec" where
  "DeploymentSpecDefault d =
     (let d1 = (if de_replicas d = 0 then d\<lparr>de_replicas := DefaultReplicas\<rparr> else d);
          unset = (case de_resources d1 of
                     None \<Rightarrow> True | Some r \<Rightarrow> rq_requests r = [] \<and> rq_limits r = [])
      in if unset
         then d1\<lparr>de_resources := Some
                \<lparr>rq_requests = [(''memory'', DefaultMemoryRequest), (''cpu'', DefaultCPURequest)],
                 rq_limits = [(''memory'', DefaultMemoryLimit), (''cpu'', DefaultCPULimit)]\<rparr>\<rparr>
         else d1)"

record AutoscalingSpec =
  as_min_replicas :: "int option"
  as_max_replicas :: int
  as_target_cpu :: "int option"
  as_target_memory :: "int option"

record NetworkPolicyIngressSource =
  ns_namespace_selector :: label_selector
  ns_pod_selector :: "label_selector option"

record LoggingSpec =
  lg_format :: string
  lg_level :: string
  lg_debug :: "bool option"
  lg_per_logger :: "string gomap"

definition LoggingSpecDefault :: "LoggingSpec \<Rightarrow> LoggingSpec" where
  "LoggingSpecDefault l =
     (let l1 = (if lg_format l = [] then l\<lparr>lg_format := ''text''\<rparr> else l);
          l2 = (if lg_level l1 = [] then l1\<lparr>lg_level := ''INFO''\<rparr> else l1)
      in if lg_debug l2 = None then l2\<lparr>lg_debug := Some False\<rparr> else l2)"

lemma DeploymentSpecDefault_idem [simp]:
  "DeploymentSpecDefault (DeploymentSpecDefault d) = DeploymentSpecDefault d"
  by (auto simp: DeploymentSpecDefault_def DefaultReplicas_def Let_def split: option.splits)

lemma LoggingSpecDefault_idem [simp]: "LoggingSpecDefault (LoggingSpecDefault l) = LoggingSpecDefault l"
  by (auto simp: LoggingSpecDefault_def Let_def)

text \<open>A digest wins over the tag.\<close>

lemma ImageReference_digest: "im_digest i \<noteq> [] \<Longrightarrow> ImageReference i = im_repository i @ ''@'' @ im_digest i"
  by (simp add: ImageReference_def)

end
