(* ===== verification/Validation.thy ===== *)
theory Validation
  imports CommonTypes
begin

text \<open>
  Field errors and the validators the admission webhooks share,
  \<open>internal/common/validation/validation.go\<close>.  A \<open>field.Path\<close> is the list of its elements; the
  offending value printed with an error is kept only where it is a string.
\<close>

datatype path_elem = PChild string | PIndex nat | PKey string

type_synonym path = "path_elem list"

datatype field_error =
    FRequired path msg
  | FInvalid path msg
  | FNotSupported path string "string list"
  | FNotFound path string
  | FForbidden path msg
  | FDuplicate path string
  | FTooMany path nat nat
  | FInternal path err

definition path_child :: "path \<Rightarrow> string \<Rightarrow> path" where
  "path_child p s = p @ [PChild s]"

definition path_index :: "path \<Rightarrow> nat \<Rightarrow> path" where
  "path_index p i = p @ [PIndex i]"

definition path_key :: "path \<Rightarrow> string \<Rightarrow> path" where
  "path_key p k = p @ [PKey k]"

text \<open>An error that is appended under a condition.\<close>

definition fail_if :: "bool \<Rightarrow> field_error \<Rightarrow> field_error list" where
  "fail_if b e = (if b then [e] else [])"

lemma fail_if_Nil [simp]: "fail_if b e = [] \<longleftrightarrow> \<not> b"
  by (simp add: fail_if_def)

definition DatabaseXOR :: "path \<Rightarrow> DatabaseSpec \<Rightarrow> field_error list" where
  "DatabaseXOR p db =
     (if (db_cluster_ref db \<noteq> None) = (db_host db \<noteq> [])
      then [FInvalid p (Msg ''exactly one of clusterRef or host must be set'' [])] else [])"

definition CacheXOR :: "path \<Rightarrow> CacheSpec \<Rightarrow> field_error list" where
  "CacheXOR p ca =
     (if (ca_cluster_ref ca \<noteq> None) = (length (ca_servers ca) > 0)
      then [FInvalid p (Msg ''exactly one of clusterRef or servers must be set'' [])] else [])"

definition DynamicCredentialsRequireClusterRef :: "path \<Rightarrow> DatabaseSpec \<Rightarrow> field_error list" where
  "DynamicCredentialsRequireClusterRef p db =
     (if db_credentials_mode db = CredentialsModeDynamic \<and> db_cluster_ref db = None
      then [FInvalid (path_child p ''credentialsMode'')
              (Msg ''credentialsMode Dynamic requires clusterRef (managed mode)'' [])] else [])"

text \<open>\<open>parse_cron\<close> is \<open>cron.ParseStandard\<close>, of which only the error matters.\<close>

definition CronSchedule :: "(string \<Rightarrow> err option) \<Rightarrow> path \<Rightarrow> string \<Rightarrow> field_error list" where
  "CronSchedule parse_cron p schedule =
     (case parse_cron schedule of
        None \<Rightarrow> []
      | Some e \<Rightarrow> [FInvalid p (Msg ''invalid cron expression: %v'' [Val e])])"

text \<open>\<open>maps.Equal\<close>.\<close>

definition maps_equal :: "string gomap \<Rightarrow> string gomap \<Rightarrow> bool" where
  "maps_equal a b \<longleftrightarrow> length a = length b \<and> list_all (\<lambda>(k, v). map_of b k = Some v) a"

fun topology_errors :: "path \<Rightarrow> nat \<Rightarrow> topology_spread list \<Rightarrow> string gomap \<Rightarrow> field_error list" where
  "topology_errors p i [] req = []"
| "topology_errors p i (tsc # tscs) req =
     (case ts_selector tsc of
        None \<Rightarrow>
          [FRequired (path_child (path_index p i) ''labelSelector'')
             (Msg ''labelSelector is required on each TopologySpreadConstraint'' [])]
      | Some sel \<Rightarrow>
          (if \<not> maps_equal (ls_match_labels sel) req
           then [FInvalid (path_child (path_index p i) ''labelSelector'')
                   (Msg ''labelSelector.matchLabels must equal the Deployment selector labels %v''
                      [Strs (map fst req), Strs (map snd req)])] else []) @
          (if length (ls_match_expressions sel) > 0
           then [FInvalid (path_child (path_child (path_index p i) ''labelSelector'') ''matchExpressions'')
                   (Msg ''matchExpressions are not allowed; labelSelector must use matchLabels only'' [])]
           else [])) @ topology_errors p (Suc i) tscs req"

definition TopologySpreadSelector :: "path \<Rightarrow> topology_spread list \<Rightarrow> string gomap \<Rightarrow> field_error list" where
  "TopologySpreadSelector p tscs req = topology_errors p 0 tscs req"

definition SecretStoreRef :: "path \<Rightarrow> SecretStoreRefSpec option \<Rightarrow> field_error list" where
  "SecretStoreRef p ref =
     (case ref of
        None \<Rightarrow> []
      | Some r \<Rightarrow>
          (if st_name r = [] then [FRequired (path_child p ''name'') (Msg ''store name must be set'' [])] else []) @
          (if st_kind r = [] \<or> st_kind r = SecretStoreKindCluster \<or> st_kind r = SecretStoreKindNamespaced
           then []
           else [FNotSupported (path_child p ''kind'') (st_kind r)
                   [SecretStoreKindCluster, SecretStoreKindNamespaced]]))"

text \<open>
  The lookup of a cluster-scoped PriorityClass is a read of the API server; a webhook built without
  a reader has none.
\<close>

definition PriorityClassExists :: "(string \<Rightarrow> err option) option \<Rightarrow> path \<Rightarrow> string \<Rightarrow> field_error list" where
  "PriorityClassExists reader p name =
     (if name = [] then []
      else case reader of
        None \<Rightarrow> []
      | Some look_up \<Rightarrow>
          (case look_up name of
             None \<Rightarrow> []
           | Some e \<Rightarrow>
               if is_not_found e then [FNotFound p name]
               else [FInternal p (Errorf ''failed to look up PriorityClass: %w'' [Wrap e])]))"

section \<open>What the validators accept\<close>

lemma maps_equal_iff:
  assumes "wf_gomap a" "wf_gomap b"
  shows "maps_equal a b \<longleftrightarrow> map_of a = map_of b"
proof
  assume eq: "map_of a = map_of b"
  then have "fst ` set a = fst ` set b" using assms by (intro keys_eq_if_same) (simp add: same_map_def)
  then have "length a = length b"
    using assms distinct_card [of "map fst a"] distinct_card [of "map fst b"] by (simp add: wf_gomap_def)
  then show "maps_equal a b"
    using eq assms by (auto simp: maps_equal_def list_all_iff wf_map_of_iff [symmetric])
next
  assume m: "maps_equal a b"
  have sub: "k \<in> fst ` set b" if "k \<in> fst ` set a" for k
  proof -
    from that obtain v where "(k, v) \<in> set a" by auto
    then have "map_of b k = Some v" using m by (auto simp: maps_equal_def list_all_iff)
    then show ?thesis by (force dest: map_of_SomeD)
  qed
  have "card (fst ` set a) = card (fst ` set b)"
    using m assms distinct_card [of "map fst a"] distinct_card [of "map fst b"]
    by (simp add: wf_gomap_def maps_equal_def)
  then have keys: "fst ` set a = fst ` set b" using sub by (intro card_subset_eq) auto
  show "map_of a = map_of b"
  proof
    fix k
    show "map_of a k = map_of b k"
    proof (cases "map_of a k")
      case None
      then show ?thesis using keys by (simp add: map_of_eq_None_iff map_of_eq_None_iff [THEN iffD2])
    next
      case (Some v)
      then have "(k, v) \<in> set a" by (rule map_of_SomeD)
      then show ?thesis using Some m by (auto simp: maps_equal_def list_all_iff)
    qed
  qed
qed

definition tsc_ok :: "string gomap \<Rightarrow> topology_spread \<Rightarrow> bool" where
  "tsc_ok req tsc = (case ts_selector tsc of
     None \<Rightarrow> False
   | Some sel \<Rightarrow> maps_equal (ls_match_labels sel) req \<and> ls_match_expressions sel = [])"

lemma topology_errors_Nil_iff: "topology_errors p i tscs req = [] \<longleftrightarrow> list_all (tsc_ok req) tscs"
  by (induction tscs arbitrary: i) (auto simp: tsc_ok_def split: option.splits)

lemma DatabaseXOR_ok: "DatabaseXOR p db = [] \<longleftrightarrow> (db_cluster_ref db = None) = (db_host db \<noteq> [])"
  by (auto simp: DatabaseXOR_def)

lemma CacheXOR_ok: "CacheXOR p ca = [] \<longleftrightarrow> (ca_cluster_ref ca = None) = (ca_servers ca \<noteq> [])"
  by (auto simp: CacheXOR_def)

lemma SecretStoreRef_ok:
  "SecretStoreRef p (Some r) = [] \<longleftrightarrow>
     st_name r \<noteq> [] \<and> st_kind r \<in> {[], SecretStoreKindCluster, SecretStoreKindNamespaced}"
  by (auto simp: SecretStoreRef_def)

end
