(* ===== verification/Rotation.thy ===== *)
theory Rotation
  imports Kube Validation
begin

text \<open>
  The operator side of key and password rotation, \<open>internal/common/rotation/rotation.go\<close>: the
  staging Secret, its commit onto the production Secret, the RBAC of the rotation CronJob and its
  rotation-age observation.

  \<open>parse_time\<close> is \<open>time.Parse\<close> with the RFC3339 layout.  \<open>create_or_update\<close> is
  \<open>controllerutil.CreateOrUpdate\<close>; \<open>set_ref\<close> is \<open>controllerutil.SetControllerReference\<close>.
\<close>

record secret =
  s_meta :: objmeta
  s_version :: string
  s_data :: "string gomap"

datatype event_type = EvNormal | EvWarning

record event =
  ev_type :: event_type
  ev_reason :: string
  ev_message :: msg

type_synonym ('o, 'w) create_or_update = "('o \<Rightarrow> 'o result) \<Rightarrow> 'o \<Rightarrow> 'w \<Rightarrow> 'o result \<times> 'w"

definition StagingSecretLabelKey :: string where
  "StagingSecretLabelKey = ''forge.c5c3.io/rotation-target''"

definition CompletedAnnotation :: string where
  "CompletedAnnotation = ''forge.c5c3.io/rotation-completed-at''"

text \<open>Reading a missing map entry gives the empty string.\<close>

definition completion :: "secret \<Rightarrow> string" where
  "completion s = (case map_of (m_annotations (s_meta s)) CompletedAnnotation of None \<Rightarrow> [] | Some v \<Rightarrow> v)"

definition CompletedAt :: "(string \<Rightarrow> instant result) \<Rightarrow> secret option \<Rightarrow> instant option" where
  "CompletedAt parse_time s =
     (case s of
        None \<Rightarrow> None
      | Some sec \<Rightarrow>
          (let completed_at = completion sec in
           if completed_at = [] then None
           else case parse_time completed_at of Inl e \<Rightarrow> None | Inr t \<Rightarrow> Some t))"

definition ObserveAge ::
  "(string \<Rightarrow> instant result) \<Rightarrow> secret option \<Rightarrow> secret option \<Rightarrow> (instant \<Rightarrow> 's \<Rightarrow> 's) \<Rightarrow> 's \<Rightarrow> 's" where
  "ObserveAge parse_time main_secret staging_secret record_fn s =
     (case CompletedAt parse_time main_secret of
        Some t \<Rightarrow> record_fn t s
      | None \<Rightarrow>
          (case CompletedAt parse_time staging_secret of Some t \<Rightarrow> record_fn t s | None \<Rightarrow> s))"

definition EnsureStagingSecret ::
  "(secret, 'w) create_or_update \<Rightarrow> (objmeta \<Rightarrow> secret \<Rightarrow> secret result) \<Rightarrow> objmeta \<Rightarrow> string \<Rightarrow> string gomap \<Rightarrow>
     'w \<Rightarrow> secret result \<times> 'w" where
  "EnsureStagingSecret create_or_update set_ref owner name labels w =
     (case create_or_update
             (\<lambda>s. set_ref owner (s\<lparr>s_meta := (s_meta s)\<lparr>m_labels := labels\<rparr>\<rparr>))
             \<lparr>s_meta = blank_meta\<lparr>m_name := name, m_namespace := m_namespace owner\<rparr>, s_version = [], s_data = []\<rparr> w of
        (Inl e, w') \<Rightarrow> (Inl (Errorf ''ensuring staging secret %s: %w'' [Str name, Wrap e]), w')
      | (Inr s, w') \<Rightarrow> (Inr s, w'))"

record commit_spec =
  cs_target_noun :: string
  cs_validate :: "string gomap \<Rightarrow> err option"
  cs_clear_on_reject :: bool
  cs_invalid_reason :: string
  cs_rejected_reason :: string
  cs_applied_reason :: string
  cs_applied_message :: "string \<Rightarrow> string gomap \<Rightarrow> msg"

definition with_annotation :: "string \<Rightarrow> string \<Rightarrow> secret \<Rightarrow> secret" where
  "with_annotation k v s = s\<lparr>s_meta := (s_meta s)\<lparr>m_annotations := map_put k v (m_annotations (s_meta s))\<rparr>\<rparr>"

definition without_annotation :: "string \<Rightarrow> secret \<Rightarrow> secret" where
  "without_annotation k s = s\<lparr>s_meta := (s_meta s)\<lparr>m_annotations := AList.delete k (m_annotations (s_meta s))\<rparr>\<rparr>"

definition alreadyCommitted :: "secret \<Rightarrow> secret \<Rightarrow> bool" where
  "alreadyCommitted target staging \<longleftrightarrow>
     maps_equal (s_data target) (s_data staging) \<and> completion target = completion staging"

text \<open>The delete under UID and resource-version preconditions, and what follows it.\<close>

definition delete_staging ::
  "(secret, 'w) kclient \<Rightarrow> commit_spec \<Rightarrow> secret \<Rightarrow> bool \<Rightarrow> 'w \<Rightarrow> (bool \<times> err option) \<times> event list \<times> 'w" where
  "delete_staging C spec staging already w =
     (let (e, w') = k_delete C (no_opts\<lparr>d_uid := Some (m_uid (s_meta staging)),
                                      d_resource_version := Some (s_version staging)\<rparr>) staging w;
          failed = (case e of None \<Rightarrow> False | Some x \<Rightarrow> \<not> is_not_found x \<and> \<not> is_conflict x)
      in if failed
         then ((False, Some (Errorf ''deleting staging secret %s: %w'' [Str (m_name (s_meta staging)), Wrap (the e)])), [], w')
         else if already then ((False, None), [], w')
         else ((True, None),
               [\<lparr>ev_type = EvNormal, ev_reason = cs_applied_reason spec,
                 ev_message = cs_applied_message spec (m_name (s_meta staging)) (s_data staging)\<rparr>], w'))"

definition CommitStaged ::
  "(string \<Rightarrow> instant result) \<Rightarrow> (secret, 'w) kclient \<Rightarrow> secret option \<Rightarrow> secret \<Rightarrow> commit_spec \<Rightarrow> 'w \<Rightarrow>
     (bool \<times> err option) \<times> event list \<times> 'w" where
  "CommitStaged parse_time C staging target spec w =
     (case staging of
        None \<Rightarrow> ((False, None), [], w)
      | Some st \<Rightarrow>
          (let name = m_name (s_meta st); completed_at = completion st in
           if completed_at = [] then ((False, None), [], w)
           else case parse_time completed_at of
             Inl e \<Rightarrow>
               ((False, None),
                [\<lparr>ev_type = EvWarning, ev_reason = cs_invalid_reason spec,
                  ev_message = Msg ''staging secret %s has malformed %s annotation: %v''
                                 [Str name, Str CompletedAnnotation, Val e]\<rparr>], w)
           | Inr _ \<Rightarrow>
               (case cs_validate spec (s_data st) of
                  Some e \<Rightarrow>
                    (let evs = [\<lparr>ev_type = EvWarning, ev_reason = cs_rejected_reason spec,
                                 ev_message = Msg ''staging secret %s rejected: %v'' [Str name, Val e]\<rparr>] in
                     if cs_clear_on_reject spec
                     then (case k_update C (without_annotation CompletedAnnotation (st\<lparr>s_data := []\<rparr>)) w of
                             (Inr _, w') \<Rightarrow> ((False, None), evs, w')
                           | (Inl ue, w') \<Rightarrow>
                               if \<not> is_conflict ue \<and> \<not> is_not_found ue
                               then ((False, Some (Errorf ''clearing rejected staging secret %s: %w'' [Str name, Wrap ue])), evs, w')
                               else ((False, None), evs, w'))
                     else ((False, None), evs, w))
                | None \<Rightarrow>
                    if alreadyCommitted target st then delete_staging C spec st True w
                    else (case k_update C (with_annotation CompletedAnnotation completed_at (target\<lparr>s_data := s_data st\<rparr>)) w of
                            (Inl ue, w') \<Rightarrow>
                              ((False, Some (Errorf ''updating %s %s: %w''
                                  [Str (cs_target_noun spec), Str (m_name (s_meta target)), Wrap ue])), [], w')
                          | (Inr _, w') \<Rightarrow> delete_staging C spec st False w'))))"

section \<open>RBAC of the rotation CronJob\<close>

record policy_rule_spec =
  pr_groups :: "string list"
  pr_resources :: "string list"
  pr_verbs :: "string list"
  pr_names :: "string list"

record service_account =
  sa_meta :: objmeta

record rbac_role =
  ro_meta :: objmeta
  ro_rules :: "policy_rule_spec list"

record role_binding =
  rb_meta :: objmeta
  rb_subjects :: "(string \<times> string \<times> string) list"  \<comment> \<open>kind, name, namespace\<close>
  rb_ref :: "string \<times> string \<times> string"  \<comment> \<open>API group, kind, name\<close>

record 'w rbac_api =
  ensure_sa :: "(service_account, 'w) create_or_update"
  ensure_role :: "(rbac_role, 'w) create_or_update"
  ensure_binding :: "(role_binding, 'w) create_or_update"
  own_sa :: "objmeta \<Rightarrow> service_account \<Rightarrow> service_account result"
  own_role :: "objmeta \<Rightarrow> rbac_role \<Rightarrow> rbac_role result"
  own_binding :: "objmeta \<Rightarrow> role_binding \<Rightarrow> role_binding result"

definition rotation_rules :: "string \<Rightarrow> string \<Rightarrow> policy_rule_spec list" where
  "rotation_rules read_secret staging_secret =
     [\<lparr>pr_groups = [''''], pr_resources = [''secrets''], pr_verbs = [''get''], pr_names = [read_secret]\<rparr>,
      \<lparr>pr_groups = [''''], pr_resources = [''secrets''], pr_verbs = [''get'', ''patch''], pr_names = [staging_secret]\<rparr>]"

definition EnsureRBAC :: "'w rbac_api \<Rightarrow> objmeta \<Rightarrow> string \<Rightarrow> string \<Rightarrow> string \<Rightarrow> 'w \<Rightarrow> err option \<times> 'w" where
  "EnsureRBAC A owner sa_name read_secret staging_secret w =
     (let m = blank_meta\<lparr>m_name := sa_name, m_namespace := m_namespace owner\<rparr> in
      case ensure_sa A (\<lambda>sa. own_sa A owner sa) \<lparr>sa_meta = m\<rparr> w of
        (Inl e, w1) \<Rightarrow> (Some (Errorf ''ensuring ServiceAccount %s: %w'' [Str sa_name, Wrap e]), w1)
      | (Inr _, w1) \<Rightarrow>
          (case ensure_role A (\<lambda>r. own_role A owner (r\<lparr>ro_rules := rotation_rules read_secret staging_secret\<rparr>))
                  \<lparr>ro_meta = m, ro_rules = []\<rparr> w1 of
             (Inl e, w2) \<Rightarrow> (Some (Errorf ''ensuring Role %s: %w'' [Str sa_name, Wrap e]), w2)
           | (Inr _, w2) \<Rightarrow>
               (case ensure_binding A
                       (\<lambda>b. let b1 = b\<lparr>rb_subjects := [(''ServiceAccount'', sa_name, m_namespace owner)]\<rparr>;
                                b2 = (if snd (snd (rb_ref b1)) = []
                                      then b1\<lparr>rb_ref := (''rbac.authorization.k8s.io'', ''Role'', sa_name)\<rparr> else b1)
                            in own_binding A owner b2)
                       \<lparr>rb_meta = m, rb_subjects = [], rb_ref = ([], [], [])\<rparr> w2 of
                  (Inl e, w3) \<Rightarrow> (Some (Errorf ''ensuring RoleBinding %s: %w'' [Str sa_name, Wrap e]), w3)
                | (Inr _, w3) \<Rightarrow> (None, w3))))"

record 'p cronjob_params =
  cp_name :: string
  cp_namespace :: string
  cp_labels :: "string gomap"
  cp_schedule :: string
  cp_pod_labels :: "string gomap"
  cp_pod_spec :: 'p

record 'p cronjob =
  cj_meta :: objmeta
  cj_schedule :: string
  cj_suspend :: "bool option"
  cj_pod_labels :: "string gomap"
  cj_pod_spec :: 'p

definition BuildCronJob :: "'p cronjob_params \<Rightarrow> 'p cronjob" where
  "BuildCronJob p =
     \<lparr>cj_meta = blank_meta\<lparr>m_name := cp_name p, m_namespace := cp_namespace p, m_labels := cp_labels p\<rparr>,
      cj_schedule = cp_schedule p, cj_suspend = None, cj_pod_labels = cp_pod_labels p, cj_pod_spec = cp_pod_spec p\<rparr>"

section \<open>What a commit does\<close>

text \<open>A staged payload is ready when its marker parses and the flavour's validation accepts it.\<close>

definition staged_ready :: "(string \<Rightarrow> instant result) \<Rightarrow> commit_spec \<Rightarrow> secret \<Rightarrow> bool" where
  "staged_ready parse_time spec st \<longleftrightarrow> completion st \<noteq> [] \<and>
     (case parse_time (completion st) of Inl e \<Rightarrow> False | Inr t \<Rightarrow> True) \<and>
     (case cs_validate spec (s_data st) of None \<Rightarrow> True | Some e \<Rightarrow> False)"

definition committed :: "secret \<Rightarrow> secret \<Rightarrow> secret" where
  "committed st target = with_annotation CompletedAnnotation (completion st) (target\<lparr>s_data := s_data st\<rparr>)"

lemma CommitStaged_ready:
  "staged_ready parse_time spec st \<Longrightarrow>
     CommitStaged parse_time C (Some st) target spec w =
       (if alreadyCommitted target st then delete_staging C spec st True w
        else case k_update C (committed st target) w of
            (Inl ue, w') \<Rightarrow>
              ((False, Some (Errorf ''updating %s %s: %w''
                  [Str (cs_target_noun spec), Str (m_name (s_meta target)), Wrap ue])), [], w')
          | (Inr _, w') \<Rightarrow> delete_staging C spec st False w')"
  by (auto simp: CommitStaged_def staged_ready_def committed_def Let_def split: sum.splits option.splits)

lemma delete_staging_applied:
  "fst (fst (delete_staging C spec st already w)) \<Longrightarrow> \<not> already"
  by (auto simp: delete_staging_def Let_def split: if_splits prod.splits)

lemma CommitStaged_not_ready:
  assumes "\<not> staged_ready parse_time spec st"
  shows "fst (fst (CommitStaged parse_time C (Some st) target spec w)) = False"
    "\<not> cs_clear_on_reject spec \<Longrightarrow> snd (snd (CommitStaged parse_time C (Some st) target spec w)) = w"
  using assms
  by (auto simp: CommitStaged_def staged_ready_def Let_def split: sum.splits option.splits prod.splits)

lemma completion_committed [simp]: "completion (committed st target) = completion st"
  by (simp add: completion_def committed_def with_annotation_def)

lemma data_committed [simp]: "s_data (committed st target) = s_data st"
  by (simp add: committed_def with_annotation_def)

lemma maps_equal_refl: "wf_gomap m \<Longrightarrow> maps_equal m m"
  by (simp add: maps_equal_iff)

lemma alreadyCommitted_committed: "wf_gomap (s_data st) \<Longrightarrow> alreadyCommitted (committed st target) st"
  by (simp add: alreadyCommitted_def maps_equal_refl)

text \<open>The rule a CronJob runs under lets it patch the staging Secret and nothing else.\<close>

definition may_do :: "policy_rule_spec list \<Rightarrow> string \<Rightarrow> string \<Rightarrow> bool" where
  "may_do rules verb name \<longleftrightarrow> list_ex (\<lambda>r. verb \<in> set (pr_verbs r) \<and> name \<in> set (pr_names r)) rules"

lemma rotation_rules_least:
  "may_do (rotation_rules rd stg) v n \<longleftrightarrow> (v = ''get'' \<and> (n = rd \<or> n = stg)) \<or> (v = ''patch'' \<and> n = stg)"
  by (auto simp: may_do_def rotation_rules_def)

end
