(* ===== verification/Jobs.thy ===== *)
theory Jobs
  imports Rotation Conditions
begin

text \<open>
  Batch jobs, \<open>internal/common/job/job.go\<close>, \<open>migration.go\<close> and \<open>terminal.go\<close>, with the Job
  builders of \<open>internal/common/database/jobs.go\<close>: running a Job once per re-run key, and recording
  the terminal state of a Job at most once per UID.

  \<open>hash\<close> is \<open>PodSpecHash\<close>'s digest of the marshalled pod template, \<open>set_ref\<close> is
  \<open>controllerutil.SetControllerReference\<close>.
\<close>

record volume_mount =
  vm_name :: string
  vm_path :: string
  vm_read_only :: bool

text \<open>A projected source lists, per Secret, the keys and the paths they are projected to.\<close>

datatype volume_source =
    ConfigMapSource string
  | ConfigMapModeSource string int
  | EmptyDirSource
  | SecretDefaultSource string
  | SecretItemsSource string int "(string \<times> string) list"
  | SecretSource string int
  | ProjectedSource int "(string \<times> (string \<times> string) list) list"

record volume =
  vo_name :: string
  vo_source :: volume_source

record env_var =
  env_name :: string
  env_text :: string
  env_secret :: "(string \<times> string) option"  \<comment> \<open>secret name and key\<close>
  env_field :: "string option"  \<comment> \<open>a field of the pod\<close>

record security_context =
  sc_allow_escalation :: bool
  sc_run_as_non_root :: bool
  sc_user :: int
  sc_group :: int
  sc_read_only_root :: bool
  sc_drop :: "string list"
  sc_seccomp :: string

definition OpenStackUID :: int where
  "OpenStackUID = 42424"

definition RestrictedSecurityContext :: security_context where
  "RestrictedSecurityContext =
     \<lparr>sc_allow_escalation = False, sc_run_as_non_root = True, sc_user = OpenStackUID,
      sc_group = OpenStackUID, sc_read_only_root = True, sc_drop = [''ALL''], sc_seccomp = ''RuntimeDefault''\<rparr>"

record container =
  co_name :: string
  co_image :: string
  co_command :: "string list"
  co_security :: security_context
  co_env :: "env_var list"
  co_mounts :: "volume_mount list"
  co_termination_policy :: string

record pod_template =
  pt_annotations :: "string gomap"
  pt_restart :: string
  pt_priority_class :: string
  pt_containers :: "container list"
  pt_volumes :: "volume list"

record job_condition =
  jc_type :: string
  jc_status :: cstatus
  jc_ltt :: instant

record batch_job =
  jb_meta :: objmeta
  jb_backoff :: int
  jb_ttl :: "int option"
  jb_template :: pod_template
  jb_conditions :: "job_condition list"

definition PodSpecHashAnnotation :: string where
  "PodSpecHashAnnotation = ''forge.c5c3.io/pod-spec-hash''"

text \<open>\<open>PodSpecHash\<close>: \<open>marshal\<close> is \<open>json.Marshal\<close> and \<open>sha_hex\<close> the hexadecimal SHA-256 digest.\<close>

definition PodSpecHash :: "(pod_template \<Rightarrow> string) \<Rightarrow> (string \<Rightarrow> string) \<Rightarrow> pod_template \<Rightarrow> string" where
  "PodSpecHash marshal sha_hex template = sha_hex (marshal template)"

definition ErrJobFailed :: err where
  "ErrJobFailed = Sentinel ''job has permanently failed''"

fun has_true_condition :: "string \<Rightarrow> job_condition list \<Rightarrow> bool" where
  "has_true_condition t [] = False"
| "has_true_condition t (c # cs) =
     (if jc_type c = t \<and> jc_status c = CTrue then True else has_true_condition t cs)"

definition isJobComplete :: "batch_job \<Rightarrow> bool" where
  "isJobComplete j = has_true_condition ''Complete'' (jb_conditions j)"

definition isJobFailed :: "batch_job \<Rightarrow> bool" where
  "isJobFailed j = has_true_condition ''Failed'' (jb_conditions j)"

definition stored_key :: "batch_job \<Rightarrow> string" where
  "stored_key j = (case map_of (m_annotations (jb_meta j)) PodSpecHashAnnotation of None \<Rightarrow> [] | Some v \<Rightarrow> v)"

definition job_ref :: "batch_job \<Rightarrow> farg list" where
  "job_ref j = [Str (m_namespace (jb_meta j)), Str (m_name (jb_meta j))]"

text \<open>What the runner uses of the API server, and the owner reference it sets.\<close>

record 'w job_env =
  je_client :: "(batch_job, 'w) kclient"
  je_set_ref :: "batch_job \<Rightarrow> batch_job result"

definition createJobWithRerunKey :: "'w job_env \<Rightarrow> batch_job \<Rightarrow> string \<Rightarrow> 'w \<Rightarrow> err option \<times> 'w" where
  "createJobWithRerunKey E j rerun_key w =
     (case je_set_ref E j of
        Inl e \<Rightarrow> (Some (Errorf ''setting owner reference on Job %s/%s: %w'' (job_ref j @ [Wrap e])), w)
      | Inr to_create \<Rightarrow>
          let annotated = to_create\<lparr>jb_meta := (jb_meta to_create)
                \<lparr>m_annotations := map_put PodSpecHashAnnotation rerun_key (m_annotations (jb_meta to_create))\<rparr>\<rparr>
          in case k_create (je_client E) annotated w of
               (Inr _, w') \<Rightarrow> (None, w')
             | (Inl e, w') \<Rightarrow>
                 if is_already_exists e then (None, w')
                 else (Some (Errorf ''creating Job %s/%s: %w'' (job_ref j @ [Wrap e])), w'))"

definition recreateStaleJob :: "'w job_env \<Rightarrow> batch_job \<Rightarrow> batch_job \<Rightarrow> string \<Rightarrow> 'w \<Rightarrow> err option \<times> 'w" where
  "recreateStaleJob E j existing rerun_key w =
     (case k_delete (je_client E) background existing w of
        (Some e, w') \<Rightarrow> (Some (Errorf ''deleting stale Job %s/%s: %w'' (job_ref existing @ [Wrap e])), w')
      | (None, w') \<Rightarrow> createJobWithRerunKey E j rerun_key w')"

type_synonym 'w job_runner = "batch_job \<Rightarrow> 'w \<Rightarrow> (bool \<times> batch_job option \<times> err option) \<times> 'w"

definition RunJobWithRerunKey :: "'w job_env \<Rightarrow> batch_job \<Rightarrow> string \<Rightarrow> 'w \<Rightarrow> (bool \<times> batch_job option \<times> err option) \<times> 'w" where
  "RunJobWithRerunKey E j rerun_key w =
     (case k_get (je_client E) (key_of (jb_meta j)) w of
        Inl e \<Rightarrow>
          if is_not_found e
          then (case createJobWithRerunKey E j rerun_key w of (e', w') \<Rightarrow> ((False, None, e'), w'))
          else ((False, None, Some (Errorf ''getting Job %s/%s: %w'' (job_ref j @ [Wrap e]))), w)
      | Inr existing \<Rightarrow>
          if isJobFailed existing
          then (if rerun_key \<noteq> stored_key existing
                then (case recreateStaleJob E j existing rerun_key w of (e', w') \<Rightarrow> ((False, Some existing, e'), w'))
                else ((False, Some existing, Some (Errorf ''%w: %s/%s'' (Wrap ErrJobFailed # job_ref existing))), w))
          else if isJobComplete existing
          then (if rerun_key \<noteq> stored_key existing
                then (case recreateStaleJob E j existing rerun_key w of (e', w') \<Rightarrow> ((False, Some existing, e'), w'))
                else ((True, Some existing, None), w))
          else ((False, Some existing, None), w))"

definition RunJob :: "(pod_template \<Rightarrow> string) \<Rightarrow> 'w job_env \<Rightarrow> 'w job_runner" where
  "RunJob hash E j w = RunJobWithRerunKey E j (hash (jb_template j)) w"

definition DeleteCronJob :: "('o, 'w) kclient \<Rightarrow> 'o \<Rightarrow> string \<Rightarrow> string \<Rightarrow> 'w \<Rightarrow> err option \<times> 'w" where
  "DeleteCronJob C cj ns name w =
     (case k_delete C no_opts cj w of
        (e, w') \<Rightarrow> (case ignore_not_found e of
                       None \<Rightarrow> (None, w')
                     | Some x \<Rightarrow> (Some (Errorf ''deleting CronJob %s/%s: %w'' [Str ns, Str name, Wrap x]), w')))"

section \<open>Building migration jobs\<close>

record MigrationJobParams =
  mj_name :: string
  mj_namespace :: string
  mj_labels :: "string gomap"
  mj_image :: string
  mj_container :: string
  mj_command :: "string list"
  mj_config_map :: string
  mj_config_mount :: string
  mj_env :: "env_var list"
  mj_extra_volumes :: "volume list"
  mj_extra_mounts :: "volume_mount list"
  mj_priority_class :: string
  mj_backoff :: int
  mj_ttl :: "int option"
  mj_security :: security_context

definition BuildMigrationJob :: "MigrationJobParams \<Rightarrow> batch_job" where
  "BuildMigrationJob p =
     \<lparr>jb_meta = blank_meta\<lparr>m_name := mj_name p, m_namespace := mj_namespace p, m_labels := mj_labels p\<rparr>,
      jb_backoff = mj_backoff p,
      jb_ttl = mj_ttl p,
      jb_template =
        \<lparr>pt_annotations = [], pt_restart = ''Never'', pt_priority_class = mj_priority_class p,
         pt_containers =
           [\<lparr>co_name = mj_container p, co_image = mj_image p, co_command = mj_command p,
             co_security = mj_security p, co_env = mj_env p,
             co_mounts = \<lparr>vm_name = ''config'', vm_path = mj_config_mount p, vm_read_only = True\<rparr> # mj_extra_mounts p,
             co_termination_policy = []\<rparr>],
         pt_volumes = \<lparr>vo_name = ''config'', vo_source = ConfigMapSource (mj_config_map p)\<rparr> # mj_extra_volumes p\<rparr>,
      jb_conditions = []\<rparr>"

record JobSetParams =
  js_instance :: string
  js_namespace :: string
  js_image :: string
  js_config_map :: string
  js_config_mount :: string
  js_env :: "env_var list"
  js_extra_volumes :: "volume list"
  js_extra_mounts :: "volume_mount list"
  js_priority_class :: string
  js_sync_command :: "string list"
  js_schema_check_command :: "string list option"

definition syncJobBackoffLimit :: int where
  "syncJobBackoffLimit = 4"

definition schemaCheckJobBackoffLimit :: int where
  "schemaCheckJobBackoffLimit = 2"

definition BuildJob :: "JobSetParams \<Rightarrow> string \<Rightarrow> string \<Rightarrow> string list \<Rightarrow> int \<Rightarrow> batch_job" where
  "BuildJob p img phase command backoff =
     BuildMigrationJob
       \<lparr>mj_name = js_instance p @ ''-'' @ phase, mj_namespace = js_namespace p, mj_labels = [],
        mj_image = img, mj_container = phase, mj_command = command,
        mj_config_map = js_config_map p, mj_config_mount = js_config_mount p, mj_env = js_env p,
        mj_extra_volumes = js_extra_volumes p, mj_extra_mounts = js_extra_mounts p,
        mj_priority_class = js_priority_class p, mj_backoff = backoff, mj_ttl = None,
        mj_security = RestrictedSecurityContext\<rparr>"

definition SyncJob :: "JobSetParams \<Rightarrow> batch_job" where
  "SyncJob p = BuildJob p (js_image p) ''db-sync'' (js_sync_command p) syncJobBackoffLimit"

definition SchemaCheckJob :: "JobSetParams \<Rightarrow> batch_job" where
  "SchemaCheckJob p =
     BuildJob p (js_image p) ''schema-check''
       (case js_schema_check_command p of None \<Rightarrow> [] | Some c \<Rightarrow> c) schemaCheckJobBackoffLimit"

lemma BuildJob_key [simp]:
  "key_of (jb_meta (BuildJob p img phase command b)) = (js_namespace p, js_instance p @ ''-'' @ phase)"
  by (simp add: BuildJob_def BuildMigrationJob_def key_of_def)

section \<open>Recording terminal states\<close>

definition JobUIDAnnotationKey :: "string \<Rightarrow> string" where
  "JobUIDAnnotationKey phase = ''forge.c5c3.io/last-'' @ phase @ ''-job-uid''"

fun terminal_result :: "job_condition list \<Rightarrow> (string \<times> instant) option" where
  "terminal_result [] = None"
| "terminal_result (c # cs) =
     (if jc_status c \<noteq> CTrue then terminal_result cs
      else if jc_type c = ''Complete'' then Some (''succeeded'', jc_ltt c)
      else if jc_type c = ''Failed'' then Some (''failed'', jc_ltt c)
      else terminal_result cs)"

text \<open>
  The owner in memory: its annotations and resource version.  \<open>patch\<close> is the merge patch of the
  owner's annotations; it returns the resource version of the patched object.
\<close>

record owner_state =
  ow_annotations :: "string gomap"
  ow_version :: string

definition RecordJobTerminalState ::
  "(string gomap \<Rightarrow> 'w \<Rightarrow> string result \<times> 'w) \<Rightarrow> bool \<Rightarrow> string \<Rightarrow> batch_job option \<Rightarrow> string \<Rightarrow>
     owner_state \<Rightarrow> 'w \<Rightarrow> (string \<times> duration) list \<times> event list \<times> owner_state \<times> 'w" where
  "RecordJobTerminalState patch has_recorder phase observed defer_reason owner w =
     (case observed of
        None \<Rightarrow> ([], [], owner, w)
      | Some j \<Rightarrow>
          (case terminal_result (jb_conditions j) of
             None \<Rightarrow> ([], [], owner, w)
           | Some (result, transition_at) \<Rightarrow>
               (let akey = JobUIDAnnotationKey phase; uid = m_uid (jb_meta j) in
                if uid \<noteq> [] \<and> map_of (ow_annotations owner) akey = Some uid
                then ([], [], owner, w)
                else case patch (map_put akey uid (ow_annotations owner)) w of
                  (Inl e, w') \<Rightarrow>
                    ([], if has_recorder
                         then [\<lparr>ev_type = EvWarning, ev_reason = defer_reason,
                                ev_message = Msg ''Patching last-observed %s Job UID failed; metric emission deferred to the next reconcile: %v''
                                               [Str phase, Val e]\<rparr>]
                         else [], owner, w')
                | (Inr version, w') \<Rightarrow>
                    ([(result, max 0 (transition_at - m_created (jb_meta j)))], [],
                     \<lparr>ow_annotations = map_put akey uid (ow_annotations owner), ow_version = version\<rparr>, w'))))"

section \<open>What the runner promises\<close>

text \<open>The Job a caller asks for has run to completion under the key it asks for.\<close>

definition job_finished :: "'w job_env \<Rightarrow> batch_job \<Rightarrow> string \<Rightarrow> 'w \<Rightarrow> bool" where
  "job_finished E j rerun_key w =
     (case k_get (je_client E) (key_of (jb_meta j)) w of
        Inl e \<Rightarrow> False
      | Inr x \<Rightarrow> \<not> isJobFailed x \<and> isJobComplete x \<and> stored_key x = rerun_key)"

lemma RunJob_done_iff:
  "fst (fst (RunJobWithRerunKey E j k w)) \<longleftrightarrow> job_finished E j k w"
  by (auto simp: RunJobWithRerunKey_def job_finished_def split: sum.splits prod.splits)

lemma RunJob_done:
  assumes "job_finished E j k w"
  shows "\<exists>x. RunJobWithRerunKey E j k w = ((True, Some x, None), w)"
  using assms by (auto simp: RunJobWithRerunKey_def job_finished_def split: sum.splits)

text \<open>A Job that is running, or failed with the key it was started under, is left alone.\<close>

lemma RunJob_leaves:
  assumes "k_get (je_client E) (key_of (jb_meta j)) w = Inr x"
    and "stored_key x = k \<or> (\<not> isJobFailed x \<and> \<not> isJobComplete x)"
  shows "snd (RunJobWithRerunKey E j k w) = w"
  using assms by (auto simp: RunJobWithRerunKey_def)

lemma RunJob_failed:
  assumes "k_get (je_client E) (key_of (jb_meta j)) w = Inr x" "isJobFailed x" "stored_key x = k"
  shows "RunJobWithRerunKey E j k w =
     ((False, Some x, Some (Errorf ''%w: %s/%s'' (Wrap ErrJobFailed # job_ref x))), w)"
  using assms by (simp add: RunJobWithRerunKey_def)

locale migration_runner =
  fixes run :: "'w job_runner" and finished :: "batch_job \<Rightarrow> 'w \<Rightarrow> bool"
  assumes run_done: "fst (fst (run j w)) \<longleftrightarrow> finished j w"
    and run_finished: "finished j w \<Longrightarrow> snd (run j w) = w \<and> snd (snd (fst (run j w))) = None"
begin

lemma run_cases:
  obtains x where "finished j w" "run j w = ((True, x, None), w)"
  | x e w' where "\<not> finished j w" "run j w = ((False, x, e), w')"
proof (cases "run j w")
  case (Pair a w')
  obtain d x e where a: "a = (d, x, e)" by (cases a) auto
  show thesis
  proof (cases "finished j w")
    case True
    then show thesis using that(1) [of x] run_done [of j w] run_finished [OF True] Pair a by simp
  next
    case False
    then show thesis using that(2) [of x e w'] run_done [of j w] Pair a by simp
  qed
qed

lemma not_finished_not_done: "\<not> finished j w \<Longrightarrow> \<not> fst (fst (run j w))"
  by (simp add: run_done)

end

interpretation jobs: migration_runner "RunJob hash E" "\<lambda>j w. job_finished E j (hash (jb_template j)) w" for hash E
proof unfold_locales
  fix j w
  show "fst (fst (RunJob hash E j w)) \<longleftrightarrow> job_finished E j (hash (jb_template j)) w"
    by (simp add: RunJob_def RunJob_done_iff)
  assume "job_finished E j (hash (jb_template j)) w"
  from RunJob_done [OF this] show "snd (RunJob hash E j w) = w \<and> snd (snd (fst (RunJob hash E j w))) = None"
    by (auto simp: RunJob_def)
qed

section \<open>At most one record per Job\<close>

lemma RecordJobTerminalState_again:
  assumes "RecordJobTerminalState patch r phase (Some j) reason owner w = (recs, evs, owner', w')"
    and "recs \<noteq> []" "m_uid (jb_meta j) \<noteq> []"
  shows "RecordJobTerminalState patch' r' phase (Some j) reason' owner' w'' = ([], [], owner', w'')"
  using assms
  by (auto simp: RecordJobTerminalState_def Let_def split: option.splits prod.splits sum.splits if_splits)

lemma RecordJobTerminalState_once:
  "length (fst (RecordJobTerminalState patch r phase observed reason owner w)) \<le> 1"
  by (auto simp: RecordJobTerminalState_def Let_def split: option.splits prod.splits sum.splits)

end
