(* ===== verification/Dsn.thy ===== *)
theory Dsn
  imports CommonTypes
begin

text \<open>
  Database connection strings, \<open>internal/common/database/dsn.go\<close> and \<open>resolve.go\<close>, with the
  percent-encoding of Go's \<open>net/url\<close> that they use: the user information, host, path and query
  component modes, \<open>Values.Encode\<close> and \<open>URL.String\<close>.
\<close>

record TLSPaths =
  tp_ca :: string
  tp_cert :: string
  tp_key :: string

type_synonym url_values = "string list gomap"

definition SSLParams :: "string \<Rightarrow> TLSPaths \<Rightarrow> url_values result" where
  "SSLParams mode paths =
     (if mode \<noteq> ''prefer'' \<and> mode \<noteq> ''require'' \<and> mode \<noteq> ''verify-ca'' \<and> mode \<noteq> ''verify-full''
      then Inl (Errorf ''unknown database TLS mode %q: want one of prefer, require, verify-ca, verify-full'' [Str mode])
      else
        let params = map_put ''ssl_key'' [tp_key paths]
              (map_put ''ssl_cert'' [tp_cert paths] (map_put ''ssl_ca'' [tp_ca paths] []))
        in if mode = ''verify-ca'' then Inr (map_put ''ssl_verify_cert'' [''true''] params)
           else if mode = ''verify-full''
           then Inr (map_put ''ssl_verify_identity'' [''true''] (map_put ''ssl_verify_cert'' [''true''] params))
           else Inr params)"

fun set_all :: "url_values \<Rightarrow> url_values \<Rightarrow> url_values" where
  "set_all [] query = query"
| "set_all ((k, vs) # m) query = set_all m (map_put k vs query)"

definition AppendTLSParams :: "DatabaseTLSSpec option \<Rightarrow> TLSPaths \<Rightarrow> url_values \<Rightarrow> url_values result" where
  "AppendTLSParams tls paths query =
     (if \<not> TLSIsEnabled tls then Inr query
      else case SSLParams (tls_mode (the tls)) paths of
        Inl e \<Rightarrow> Inl e
      | Inr ssl_params \<Rightarrow> Inr (set_all ssl_params query))"

section \<open>Percent-encoding\<close>

datatype url_mode = EncodeUserPassword | EncodeHost | EncodePath | EncodeQueryComponent

definition is_alnum :: "char \<Rightarrow> bool" where
  "is_alnum c \<longleftrightarrow> (let n = (of_char c :: nat) in
     (48 \<le> n \<and> n \<le> 57) \<or> (65 \<le> n \<and> n \<le> 90) \<or> (97 \<le> n \<and> n \<le> 122))"

definition shouldEscape :: "char \<Rightarrow> url_mode \<Rightarrow> bool" where
  "shouldEscape c mode =
     (if is_alnum c then False
      else if mode = EncodeHost \<and> c \<in> set ''!$&()*+,;=:[]<>'' \<union> {CHR 0x22, CHR 0x27} then False
      else if c \<in> set ''-_.~'' then False
      else if c \<in> set ''$&+,/:;=?@''
      then (case mode of
              EncodePath \<Rightarrow> c = CHR ''?''
            | EncodeUserPassword \<Rightarrow> c \<in> set ''@/?:''
            | EncodeQueryComponent \<Rightarrow> True
            | EncodeHost \<Rightarrow> True)
      else True)"

definition upper_hex :: "nat \<Rightarrow> char" where
  "upper_hex d = (if d < 10 then char_of (48 + d) else char_of (55 + d))"

definition escape_char :: "url_mode \<Rightarrow> char \<Rightarrow> string" where
  "escape_char mode c =
     (if \<not> shouldEscape c mode then [c]
      else if c = CHR '' '' \<and> mode = EncodeQueryComponent then ''+''
      else [CHR ''%'', upper_hex (of_char c div 16), upper_hex (of_char c mod 16)])"

definition escape :: "url_mode \<Rightarrow> string \<Rightarrow> string" where
  "escape mode s = concat (map (escape_char mode) s)"

text \<open>\<open>Values.Encode\<close>: the keys sorted, one \<open>key=value\<close> per value, joined by \<open>&\<close>.\<close>

definition encode_values :: "url_values \<Rightarrow> string" where
  "encode_values q =
     str_join ''&'' (concat (map (\<lambda>k. map (\<lambda>v. escape EncodeQueryComponent k @ ''='' @ escape EncodeQueryComponent v)
         (case map_of q k of None \<Rightarrow> [] | Some vs \<Rightarrow> vs)) (sorted_keys q)))"

text \<open>\<open>strings.ReplaceAll(s, "%2F", "/")\<close>.\<close>

fun replace_2F :: "string \<Rightarrow> string" where
  "replace_2F [] = []"
| "replace_2F (c # cs) =
     (if has_prefix (c # cs) ''%2F'' then CHR ''/'' # replace_2F (drop 2 cs) else c # replace_2F cs)"

text \<open>\<open>URL.String\<close> of a URL with a scheme, user information, a host, a path and a raw query.\<close>

definition url_string :: "string \<Rightarrow> string \<Rightarrow> string \<Rightarrow> string \<Rightarrow> string \<Rightarrow> string \<Rightarrow> string" where
  "url_string scheme username password host path raw_query =
     (let p = (if path = ''*'' then ''*'' else escape EncodePath path) in
      scheme @ ''://'' @ escape EncodeUserPassword username @ '':'' @ escape EncodeUserPassword password @ ''@'' @
      escape EncodeHost host @
      (if p \<noteq> [] \<and> hd p \<noteq> CHR ''/'' \<and> host \<noteq> [] then ''/'' else []) @ p @
      (if raw_query \<noteq> [] then ''?'' @ raw_query else []))"

text \<open>\<open>sha_hex\<close> is the hexadecimal SHA-256 digest.\<close>

definition Digest :: "(string \<Rightarrow> string) \<Rightarrow> string \<Rightarrow> string" where
  "Digest sha_hex dsn = sha_hex dsn"

definition BuildDSN ::
  "(string \<Rightarrow> string) \<Rightarrow> string \<Rightarrow> string \<Rightarrow> string \<Rightarrow> string \<Rightarrow> url_values \<Rightarrow> string \<times> string" where
  "BuildDSN sha_hex username password host db_name query =
     (let dsn = url_string ''mysql+pymysql'' username password host db_name (replace_2F (encode_values query))
      in (dsn, Digest sha_hex dsn))"

section \<open>Host, port and user\<close>

definition DbPort :: "DatabaseSpec \<Rightarrow> int" where
  "DbPort db = (if db_port db > 0 then db_port db else 3306)"

definition ResolveHost :: "DatabaseSpec \<Rightarrow> string \<Rightarrow> string" where
  "ResolveHost db ns =
     (case db_cluster_ref db of
        Some name \<Rightarrow> name @ ''.'' @ ns @ ''.svc:'' @ show_int (DbPort db)
      | None \<Rightarrow> db_host db @ '':'' @ show_int (DbPort db))"

definition ResolveUsername :: "DatabaseSpec \<Rightarrow> string \<Rightarrow> string gomap \<Rightarrow> string option" where
  "ResolveUsername db instance_name secret_data =
     (if db_cluster_ref db \<noteq> None \<and> db_credentials_mode db \<noteq> CredentialsModeDynamic then Some instance_name
      else map_of secret_data ''username'')"

section \<open>Decoding, and what a connection string determines\<close>

definition hex_value :: "char \<Rightarrow> nat" where
  "hex_value c = (let n = of_char c in if n \<le> 57 then n - 48 else n - 55)"

fun unescape :: "string \<Rightarrow> string" where
  "unescape (c # a # b # s) =
     (if c = CHR ''%'' then char_of (16 * hex_value a + hex_value b) # unescape s else c # unescape (a # b # s))"
| "unescape s = s"

lemma hex_value_upper_hex: "d < 16 \<Longrightarrow> hex_value (upper_hex d) = d"
  by (auto simp: hex_value_def upper_hex_def Let_def)

lemma percent_escaped: "shouldEscape CHR ''%'' mode"
  by (simp add: shouldEscape_def is_alnum_def)

lemma unescape_plain: "c \<noteq> CHR ''%'' \<Longrightarrow> unescape (c # s) = c # unescape s"
  by (cases s; cases "tl s") auto

lemma unescape_escape: "mode \<noteq> EncodeQueryComponent \<Longrightarrow> unescape (escape mode s) = s"
proof (induction s)
  case Nil
  then show ?case by (simp add: escape_def)
next
  case (Cons c s)
  let ?n = "of_char c :: nat"
  have n: "?n < 256" by simp
  then have n16: "?n div 16 < 16" "?n mod 16 < 16" by (simp_all add: less_mult_imp_div_less)
  have e: "escape mode (c # s) = escape_char mode c @ escape mode s" by (simp add: escape_def)
  show ?case
  proof (cases "shouldEscape c mode")
    case True
    have "hex_value (upper_hex (?n div 16)) = ?n div 16" "hex_value (upper_hex (?n mod 16)) = ?n mod 16"
      using n16 by (auto intro!: hex_value_upper_hex)
    then have "char_of (16 * hex_value (upper_hex (?n div 16)) + hex_value (upper_hex (?n mod 16))) = c"
      by (simp add: mult.commute [of 16])
    then show ?thesis using Cons True by (simp add: e escape_char_def)
  next
    case False
    then have "c \<noteq> CHR ''%''" using percent_escaped by auto
    then show ?thesis using Cons False by (simp add: e escape_char_def unescape_plain)
  qed
qed

lemma escape_inject: "mode \<noteq> EncodeQueryComponent \<Longrightarrow> escape mode a = escape mode b \<longleftrightarrow> a = b"
  by (metis unescape_escape)

text \<open>Escaped user information holds neither of the separators that end it.\<close>

lemma of_char_upper_hex: "d < 16 \<Longrightarrow> (of_char (upper_hex d) :: nat) = (if d < 10 then 48 + d else 55 + d)"
  by (simp add: upper_hex_def)

lemma upper_hex_no_sep: "d < 16 \<Longrightarrow> c \<in> set '':@/?'' \<Longrightarrow> upper_hex d \<noteq> c"
proof
  assume "d < 16" "c \<in> set '':@/?''" "upper_hex d = c"
  then have "(of_char c :: nat) = (if d < 10 then 48 + d else 55 + d)" using of_char_upper_hex by blast
  then show False using \<open>c \<in> set '':@/?''\<close> \<open>d < 16\<close> by (auto split: if_splits)
qed

lemma escape_char_no_sep: "c \<in> set '':@/?'' \<Longrightarrow> c \<notin> set (escape_char EncodeUserPassword x)"
proof -
  assume c: "c \<in> set '':@/?''"
  have n: "(of_char x :: nat) div 16 < 16" "(of_char x :: nat) mod 16 < 16"
  proof -
    have "(of_char x :: nat) < 256" by simp
    then show "(of_char x :: nat) div 16 < 16" by linarith
  qed simp
  show ?thesis
  proof (cases "shouldEscape x EncodeUserPassword")
    case True
    then show ?thesis
      using c n [THEN upper_hex_no_sep, OF c] by (auto simp: escape_char_def)
  next
    case False
    have "shouldEscape c EncodeUserPassword" using c by (auto simp: shouldEscape_def is_alnum_def)
    then show ?thesis using False by (auto simp: escape_char_def)
  qed
qed

lemma escape_no_sep: "c \<in> set '':@/?'' \<Longrightarrow> c \<notin> set (escape EncodeUserPassword s)"
  using escape_char_no_sep by (auto simp: escape_def)

lemma userinfo_inject:
  assumes "escape EncodeUserPassword u @ '':'' @ escape EncodeUserPassword p @ ''@'' @ r =
           escape EncodeUserPassword u' @ '':'' @ escape EncodeUserPassword p' @ ''@'' @ r'"
  shows "u = u' \<and> p = p' \<and> r = r'"
proof -
  have a: "cut_at CHR '':'' (escape EncodeUserPassword u @ CHR '':'' # s) = (escape EncodeUserPassword u, s, True)" for u s
    using escape_no_sep by (intro cut_at_append) simp
  have b: "cut_at CHR ''@'' (escape EncodeUserPassword u @ CHR ''@'' # s) = (escape EncodeUserPassword u, s, True)" for u s
    using escape_no_sep by (intro cut_at_append) simp
  define s where "s = escape EncodeUserPassword p @ CHR ''@'' # r"
  define s' where "s' = escape EncodeUserPassword p' @ CHR ''@'' # r'"
  have "escape EncodeUserPassword u @ CHR '':'' # s = escape EncodeUserPassword u' @ CHR '':'' # s'"
    using assms by (simp add: s_def s'_def)
  then have "(escape EncodeUserPassword u, s, True) = (escape EncodeUserPassword u', s', True)"
    using a [of u s] a [of u' s'] by argo
  then have 1: "escape EncodeUserPassword u = escape EncodeUserPassword u'" and "s = s'" by blast+
  then have "(escape EncodeUserPassword p, r, True) = (escape EncodeUserPassword p', r', True)"
    using b [of p r] b [of p' r'] unfolding s_def s'_def by argo
  then show ?thesis using 1 by (simp add: escape_inject)
qed

lemma url_string_inject:
  assumes "url_string s u p h d q = url_string s u' p' h' d' q'"
  shows "u = u' \<and> p = p'"
proof -
  obtain r r' where "url_string s u p h d q = (s @ ''://'') @ escape EncodeUserPassword u @ '':'' @
      escape EncodeUserPassword p @ ''@'' @ r"
    "url_string s u' p' h' d' q' = (s @ ''://'') @ escape EncodeUserPassword u' @ '':'' @
      escape EncodeUserPassword p' @ ''@'' @ r'"
    unfolding url_string_def Let_def append_assoc by blast
  with assms have "escape EncodeUserPassword u @ '':'' @ escape EncodeUserPassword p @ ''@'' @ r =
      escape EncodeUserPassword u' @ '':'' @ escape EncodeUserPassword p' @ ''@'' @ r'"
    by (metis same_append_eq)
  then show ?thesis by (blast dest: userinfo_inject)
qed

section \<open>TLS parameters\<close>

lemma map_of_set_all: "wf_gomap m \<Longrightarrow> map_of (set_all m q) = map_of q ++ map_of m"
proof (induction m q rule: set_all.induct)
  case (2 k vs m q)
  then have "map_of m k = None" by (simp add: map_of_eq_None_iff)
  with 2 show ?case by (auto simp: fun_eq_iff map_add_def split: option.splits)
qed simp

definition base_params :: "TLSPaths \<Rightarrow> url_values" where
  "base_params paths = [(''ssl_ca'', [tp_ca paths]), (''ssl_cert'', [tp_cert paths]), (''ssl_key'', [tp_key paths])]"

lemma SSLParams_modes:
  "SSLParams ''prefer'' paths = Inr (base_params paths)"
  "SSLParams ''require'' paths = Inr (base_params paths)"
  "SSLParams ''verify-ca'' paths = Inr (base_params paths @ [(''ssl_verify_cert'', [''true''])])"
  "SSLParams ''verify-full'' paths =
     Inr (base_params paths @ [(''ssl_verify_cert'', [''true'']), (''ssl_verify_identity'', [''true''])])"
  by (simp_all add: SSLParams_def base_params_def)

definition tls_modes :: "string list" where
  "tls_modes = [''prefer'', ''require'', ''verify-ca'', ''verify-full'']"

lemma SSLParams_unknown: "mode \<notin> set tls_modes \<Longrightarrow> \<exists>e. SSLParams mode paths = Inl e"
  by (simp add: SSLParams_def tls_modes_def)

lemma SSLParams_modeE:
  assumes "SSLParams mode paths = Inr q"
  obtains "mode = ''prefer''" "q = base_params paths"
  | "mode = ''require''" "q = base_params paths"
  | "mode = ''verify-ca''" "q = base_params paths @ [(''ssl_verify_cert'', [''true''])]"
  | "mode = ''verify-full''"
      "q = base_params paths @ [(''ssl_verify_cert'', [''true'']), (''ssl_verify_identity'', [''true''])]"
proof -
  have "mode \<in> set tls_modes" using assms SSLParams_unknown [of mode paths] by fastforce
  then have "mode = ''prefer'' \<or> mode = ''require'' \<or> mode = ''verify-ca'' \<or> mode = ''verify-full''"
    by (simp add: tls_modes_def)
  then show thesis
  proof (elim disjE)
    assume m: "mode = ''prefer''"
    from that(1) [OF m] assms show thesis unfolding m SSLParams_modes by blast
  next
    assume m: "mode = ''require''"
    from that(2) [OF m] assms show thesis unfolding m SSLParams_modes by blast
  next
    assume m: "mode = ''verify-ca''"
    from that(3) [OF m] assms show thesis unfolding m SSLParams_modes by blast
  next
    assume m: "mode = ''verify-full''"
    from that(4) [OF m] assms show thesis unfolding m SSLParams_modes by blast
  qed
qed

lemma SSLParams_ok_iff: "(\<exists>q. SSLParams mode paths = Inr q) \<longleftrightarrow> mode \<in> set tls_modes"
proof
  assume "\<exists>q. SSLParams mode paths = Inr q"
  then show "mode \<in> set tls_modes" using SSLParams_unknown [of mode paths] by fastforce
next
  assume "mode \<in> set tls_modes"
  then have "mode = ''prefer'' \<or> mode = ''require'' \<or> mode = ''verify-ca'' \<or> mode = ''verify-full''"
    by (simp add: tls_modes_def)
  then show "\<exists>q. SSLParams mode paths = Inr q" by (elim disjE) (auto simp only: SSLParams_modes)
qed

lemma SSLParams_wf: "SSLParams mode paths = Inr q \<Longrightarrow> wf_gomap q"
  by (erule SSLParams_modeE) (simp_all add: base_params_def)

lemma SSLParams_verify:
  assumes "SSLParams mode paths = Inr q"
  shows "map_of q ''ssl_verify_cert'' = (if mode = ''verify-ca'' \<or> mode = ''verify-full'' then Some [''true''] else None)"
    "map_of q ''ssl_verify_identity'' = (if mode = ''verify-full'' then Some [''true''] else None)"
    "map_of q ''ssl_ca'' = Some [tp_ca paths]"
  using assms by (elim SSLParams_modeE; simp add: base_params_def)+

end
