(* ===== verification/DatabaseFlow.thy ===== *)
theory DatabaseFlow
  imports Apply Jobs Dsn
begin

text \<open>
  The database side of every service operator, \<open>internal/common/database\<close>: provisioning the MariaDB
  resources (\<open>flow.go\<close>, \<open>database.go\<close>, \<open>builders.go\<close>), the db-sync and schema-check jobs (\<open>flow.go\<close>),
  the derived connection Secret (\<open>connection.go\<close>) and the teardown (\<open>finalize.go\<close>).
\<close>

section \<open>MariaDB resources\<close>

record ProvisionParams =
  pp_name :: string
  pp_namespace :: string
  pp_labels :: "string gomap"
  pp_cluster :: string
  pp_database :: string
  pp_password_secret :: string

record mdb_database =
  md_meta :: objmeta
  md_ref :: string
  md_character_set :: string
  md_collate :: string
  md_name :: string
  md_conditions :: "condition list"

record mdb_user =
  mu_meta :: objmeta
  mu_ref :: string
  mu_password :: "string \<times> string"
  mu_conditions :: "condition list"

record mdb_grant =
  mg_meta :: objmeta
  mg_ref :: string
  mg_privileges :: "string list"
  mg_database :: string
  mg_table :: string
  mg_username :: string
  mg_conditions :: "condition list"

definition objectMeta :: "ProvisionParams \<Rightarrow> objmeta" where
  "objectMeta p = blank_meta\<lparr>m_name := pp_name p, m_namespace := pp_namespace p, m_labels := pp_labels p\<rparr>"

definition BuildDatabase :: "ProvisionParams \<Rightarrow> mdb_database" where
  "BuildDatabase p =
     \<lparr>md_meta = objectMeta p, md_ref = pp_cluster p, md_character_set = ''utf8'',
      md_collate = ''utf8_general_ci'', md_name = pp_database p, md_conditions = []\<rparr>"

definition BuildUser :: "ProvisionParams \<Rightarrow> mdb_user" where
  "BuildUser p =
     \<lparr>mu_meta = objectMeta p, mu_ref = pp_cluster p, mu_password = (pp_password_secret p, ''password''),
      mu_conditions = []\<rparr>"

definition BuildGrant :: "ProvisionParams \<Rightarrow> mdb_grant" where
  "BuildGrant p =
     \<lparr>mg_meta = objectMeta p, mg_ref = pp_cluster p, mg_privileges = [''ALL PRIVILEGES''],
      mg_database = pp_database p, mg_table = ''*'', mg_username = pp_name p, mg_conditions = []\<rparr>"

text \<open>What the flows use of the API server: the cluster's conditions and the three applies.\<close>

record ('u, 'w) mdb_env =
  mdb_cluster :: "objkey \<Rightarrow> 'w \<Rightarrow> condition list result"
  mdb_databases :: "(mdb_database, 'u, 'w) ssa_api"
  mdb_users :: "(mdb_user, 'u, 'w) ssa_api"
  mdb_grants :: "(mdb_grant, 'u, 'w) ssa_api"

definition EnsureDatabase :: "meta_api \<Rightarrow> ('u, 'w) mdb_env \<Rightarrow> objmeta \<Rightarrow> mdb_database \<Rightarrow> 'w \<Rightarrow> bool result \<times> 'w" where
  "EnsureDatabase K M owner db w =
     (case EnsureObject (mdb_databases M) owner db FieldManager w of
        (Inl e, w') \<Rightarrow> (Inl e, w') | (Inr db', w') \<Rightarrow> (Inr (IsReady K (md_conditions db')), w'))"

definition ensureUser :: "meta_api \<Rightarrow> ('u, 'w) mdb_env \<Rightarrow> objmeta \<Rightarrow> mdb_user \<Rightarrow> 'w \<Rightarrow> bool result \<times> 'w" where
  "ensureUser K M owner user w =
     (case EnsureObject (mdb_users M) owner user FieldManager w of
        (Inl e, w') \<Rightarrow> (Inl e, w') | (Inr u', w') \<Rightarrow> (Inr (IsReady K (mu_conditions u')), w'))"

definition ensureGrant :: "meta_api \<Rightarrow> ('u, 'w) mdb_env \<Rightarrow> objmeta \<Rightarrow> mdb_grant \<Rightarrow> 'w \<Rightarrow> bool result \<times> 'w" where
  "ensureGrant K M owner grant w =
     (case EnsureObject (mdb_grants M) owner grant FieldManager w of
        (Inl e, w') \<Rightarrow> (Inl e, w') | (Inr g', w') \<Rightarrow> (Inr (IsReady K (mg_conditions g')), w'))"

definition EnsureDatabaseUser ::
  "meta_api \<Rightarrow> ('u, 'w) mdb_env \<Rightarrow> objmeta \<Rightarrow> mdb_user \<Rightarrow> mdb_grant \<Rightarrow> 'w \<Rightarrow> bool result \<times> 'w" where
  "EnsureDatabaseUser K M owner user grant w =
     (case ensureUser K M owner user w of
        (Inl e, w') \<Rightarrow> (Inl e, w')
      | (Inr user_ready, w') \<Rightarrow>
          if \<not> user_ready then (Inr False, w') else ensureGrant K M owner grant w')"

definition IsClusterReady ::
  "meta_api \<Rightarrow> ('u, 'w) mdb_env \<Rightarrow> DatabaseSpec \<Rightarrow> string \<Rightarrow> 'w \<Rightarrow> bool result" where
  "IsClusterReady K M db ns w =
     (let name = the (db_cluster_ref db) in
      case mdb_cluster M (ns, name) w of
        Inl e \<Rightarrow> if is_not_found e then Inr False
                 else Inl (Errorf ''getting MariaDB %s: %w'' [Strs [ns, name], Wrap e])
      | Inr cs \<Rightarrow> Inr (IsReady K cs))"

section \<open>Provisioning\<close>

definition ReasonClusterNotReady :: string where "ReasonClusterNotReady = ''ClusterNotReady''"
definition ReasonWaitingForDatabase :: string where "ReasonWaitingForDatabase = ''WaitingForDatabase''"
definition ReasonDBSyncFailed :: string where "ReasonDBSyncFailed = ''DBSyncFailed''"
definition ReasonDBSyncInProgress :: string where "ReasonDBSyncInProgress = ''DBSyncInProgress''"
definition ReasonSchemaDriftDetected :: string where "ReasonSchemaDriftDetected = ''SchemaDriftDetected''"
definition ReasonSchemaCheckInProgress :: string where "ReasonSchemaCheckInProgress = ''SchemaCheckInProgress''"
definition ReasonDatabaseSynced :: string where "ReasonDatabaseSynced = ''DatabaseSynced''"

record ProvisionFlowParams =
  pf_owner :: objmeta
  pf_instance :: string
  pf_namespace :: string
  pf_labels :: "string gomap"
  pf_database :: DatabaseSpec
  pf_generation :: int
  pf_condition :: string
  pf_requeue :: duration

definition ReconcileProvision ::
  "meta_api \<Rightarrow> ('u, 'w) mdb_env \<Rightarrow> ProvisionFlowParams \<Rightarrow> condition list \<Rightarrow> 'w \<Rightarrow>
     (ctrl_result \<times> err option) \<times> condition list \<times> 'w" where
  "ReconcileProvision K M p cs w =
     (let db = pf_database p;
          not_ready = (\<lambda>reason message. SetCondition K cs
             (mk_condition (pf_condition p) CFalse (pf_generation p) reason message));
          waiting = ReasonWaitingForDatabase
      in case db_cluster_ref db of
        None \<Rightarrow> ((zero_result, None), cs, w)
      | Some cluster \<Rightarrow>
          (case IsClusterReady K M db (pf_namespace p) w of
             Inl e \<Rightarrow> ((zero_result, Some (Errorf ''checking MariaDB cluster readiness: %w'' [Wrap e])), cs, w)
           | Inr False \<Rightarrow>
               ((after (pf_requeue p), None),
                not_ready ReasonClusterNotReady (Msg ''MariaDB cluster %q is not ready'' [Str cluster]), w)
           | Inr True \<Rightarrow>
               (let pp = \<lparr>pp_name = pf_instance p, pp_namespace = pf_namespace p, pp_labels = pf_labels p,
                          pp_cluster = cluster, pp_database = db_database db,
                          pp_password_secret = sr_name (db_secret_ref db)\<rparr>
                in case EnsureDatabase K M (pf_owner p) (BuildDatabase pp) w of
                  (Inl e, w1) \<Rightarrow> ((zero_result, Some (Errorf ''ensuring Database: %w'' [Wrap e])), cs, w1)
                | (Inr False, w1) \<Rightarrow>
                    ((after (pf_requeue p), None),
                     not_ready waiting (Msg ''MariaDB Database CR is not ready'' []), w1)
                | (Inr True, w1) \<Rightarrow>
                    if db_credentials_mode db \<noteq> CredentialsModeDynamic
                    then (case EnsureDatabaseUser K M (pf_owner p) (BuildUser pp) (BuildGrant pp) w1 of
                            (Inl e, w2) \<Rightarrow> ((zero_result, Some (Errorf ''ensuring database user: %w'' [Wrap e])), cs, w2)
                          | (Inr False, w2) \<Rightarrow>
                              ((after (pf_requeue p), None),
                               not_ready waiting (Msg ''MariaDB User or Grant CR is not ready'' []), w2)
                          | (Inr True, w2) \<Rightarrow> ((zero_result, None), cs, w2))
                    else ((zero_result, None), cs, w1))))"

section \<open>The sync jobs\<close>

record SyncFlowParams =
  sf_jobs :: JobSetParams
  sf_generation :: int
  sf_condition :: string
  sf_requeue :: duration
  sf_tracks_release :: bool  \<comment> \<open>InstalledRelease is not nil\<close>
  sf_image_tag :: string
  sf_has_recorder :: bool

text \<open>
  What the flow changes: the conditions, the installed-release marker, the events and the API server;
  an operator extends the record with what its callback changes.  \<open>run\<close> is \<open>job.RunJob\<close> with its
  client and owner, \<open>rt\<close> the \<open>RecordTerminal\<close> callback.
\<close>

record 'w sync_state =
  sy_conditions :: "condition list"
  sy_installed :: string
  sy_events :: "event list"
  sy_world :: 'w

type_synonym ('w, 'x) terminal_fn =
  "string \<Rightarrow> batch_job option \<Rightarrow> ('w, 'x) sync_state_scheme \<Rightarrow> ('w, 'x) sync_state_scheme"

definition recordTerminal :: "('w, 'x) terminal_fn option \<Rightarrow> ('w, 'x) terminal_fn" where
  "recordTerminal rt phase observed s = (case rt of None \<Rightarrow> s | Some f \<Rightarrow> f phase observed s)"

definition set_cond :: "meta_api \<Rightarrow> SyncFlowParams \<Rightarrow> cstatus \<Rightarrow> string \<Rightarrow> msg \<Rightarrow> ('w, 'x) sync_state_scheme \<Rightarrow> ('w, 'x) sync_state_scheme" where
  "set_cond K p st reason message s =
     s\<lparr>sy_conditions := SetCondition K (sy_conditions s)
         (mk_condition (sf_condition p) st (sf_generation p) reason message)\<rparr>"

definition emit :: "SyncFlowParams \<Rightarrow> event_type \<Rightarrow> string \<Rightarrow> msg \<Rightarrow> ('w, 'x) sync_state_scheme \<Rightarrow> ('w, 'x) sync_state_scheme" where
  "emit p ty reason message s =
     (if sf_has_recorder p
      then s\<lparr>sy_events := sy_events s @ [\<lparr>ev_type = ty, ev_reason = reason, ev_message = message\<rparr>]\<rparr> else s)"

text \<open>One job of the flow: run it, report what was observed, and stop on an error or while it runs.\<close>

definition run_phase ::
  "meta_api \<Rightarrow> 'w job_runner \<Rightarrow> ('w, 'x) terminal_fn option \<Rightarrow> SyncFlowParams \<Rightarrow> batch_job \<Rightarrow> string \<Rightarrow> string \<Rightarrow>
     string \<Rightarrow> string \<Rightarrow> msg \<Rightarrow> string \<Rightarrow> ('w, 'x) sync_state_scheme \<Rightarrow>
     (ctrl_result \<times> err option) option \<times> ('w, 'x) sync_state_scheme" where
  "run_phase K run rt p j phase failed_reason failed_format busy_reason busy_message error_format s =
     (let ((done, observed, err), w') = run j (sy_world s);
          s1 = recordTerminal rt phase observed (s\<lparr>sy_world := w'\<rparr>)
      in case err of
           Some e \<Rightarrow>
             (Some (zero_result, Some (Errorf error_format [Wrap e])),
              emit p EvWarning failed_reason (Msg failed_format [Val e])
                (set_cond K p CFalse failed_reason (Msg failed_format [Val e]) s1))
         | None \<Rightarrow>
             if \<not> done then (Some (after (sf_requeue p), None), set_cond K p CFalse busy_reason busy_message s1)
             else (None, s1))"

definition ReconcileSyncJobs ::
  "meta_api \<Rightarrow> 'w job_runner \<Rightarrow> ('w, 'x) terminal_fn option \<Rightarrow> SyncFlowParams \<Rightarrow> ('w, 'x) sync_state_scheme step_fn" where
  "ReconcileSyncJobs K run rt p s =
     (case run_phase K run rt p (SyncJob (sf_jobs p)) ''db-sync'' ReasonDBSyncFailed ''db_sync job failed: %v''
             ReasonDBSyncInProgress (Msg ''db_sync job is running'' []) ''running db_sync: %w'' s of
        (Some r, s1) \<Rightarrow> (r, s1)
      | (None, s1) \<Rightarrow>
          (case (if js_schema_check_command (sf_jobs p) \<noteq> None
                 then run_phase K run rt p (SchemaCheckJob (sf_jobs p)) ''schema-check'' ReasonSchemaDriftDetected
                        ''schema-check job failed: %v'' ReasonSchemaCheckInProgress
                        (Msg ''schema-check job is running'' []) ''running schema-check: %w'' s1
                 else (None, s1)) of
             (Some r, s2) \<Rightarrow> (r, s2)
           | (None, s2) \<Rightarrow>
               (let s3 = (if sf_tracks_release p \<and> sf_image_tag p \<noteq> [] then s2\<lparr>sy_installed := sf_image_tag p\<rparr> else s2)
                in ((zero_result, None),
                    emit p EvNormal ReasonDatabaseSynced (Msg ''Database schema is up to date'' [])
                      (set_cond K p CTrue ReasonDatabaseSynced
                        (Msg ''Database schema is up to date (revision verified)'' []) s3)))))"

section \<open>The connection Secret\<close>

definition ConnectionSecretKey :: string where
  "ConnectionSecretKey = ''connection''"

definition ConnectionEnvVarName :: string where
  "ConnectionEnvVarName = ''OS_DATABASE__CONNECTION''"

definition ReasonWaitingForDBCredentials :: string where
  "ReasonWaitingForDBCredentials = ''WaitingForDBCredentials''"

definition ConnectionSecretName :: "string \<Rightarrow> string" where
  "ConnectionSecretName instance_name = instance_name @ ''-db-connection''"

definition ConnectionEnvVar :: "string \<Rightarrow> env_var" where
  "ConnectionEnvVar instance_name =
     \<lparr>env_name = ConnectionEnvVarName, env_text = [],
      env_secret = Some (ConnectionSecretName instance_name, ConnectionSecretKey), env_field = None\<rparr>"

definition TLSFilePaths :: "string \<Rightarrow> TLSPaths" where
  "TLSFilePaths mount_path =
     \<lparr>tp_ca = mount_path @ ''ca.crt'', tp_cert = mount_path @ ''tls.crt'', tp_key = mount_path @ ''tls.key''\<rparr>"

record ConnectionSecretFlowParams =
  cf_owner :: objmeta
  cf_instance :: string
  cf_namespace :: string
  cf_database :: DatabaseSpec
  cf_tls_mount :: string
  cf_generation :: int
  cf_condition :: string
  cf_requeue :: duration

definition ReconcileConnectionSecret ::
  "meta_api \<Rightarrow> (string \<Rightarrow> string) \<Rightarrow> (secret, 'w) kclient \<Rightarrow> (objmeta \<Rightarrow> secret \<Rightarrow> secret result) \<Rightarrow>
     ConnectionSecretFlowParams \<Rightarrow> condition list \<Rightarrow> 'w \<Rightarrow>
     (ctrl_result \<times> string \<times> err option) \<times> condition list \<times> 'w" where
  "ReconcileConnectionSecret K sha_hex C set_ref p cs w =
     (let db = cf_database p; ns = cf_namespace p; up = sr_name (db_secret_ref db);
          wait = (\<lambda>message. ((after (cf_requeue p), [], None),
             SetCondition K cs (mk_condition (cf_condition p) CFalse (cf_generation p)
               ReasonWaitingForDBCredentials message), w));
          fail = (\<lambda>e w'. ((zero_result, [], Some e), cs, w'))
      in case k_get C (ns, up) w of
        Inl e \<Rightarrow>
          if is_not_found e
          then wait (Msg ''Upstream database credentials Secret %s/%s not found'' [Str ns, Str up])
          else fail (Errorf ''reading database credentials Secret %s/%s: %w'' [Str ns, Str up, Wrap e]) w
      | Inr upstream \<Rightarrow>
          (case ResolveUsername db (cf_instance p) (s_data upstream) of
             None \<Rightarrow> wait (Msg ''Upstream database credentials Secret %s/%s missing key %q'' [Str ns, Str up, Str ''username''])
           | Some username \<Rightarrow>
               (case map_of (s_data upstream) ''password'' of
                  None \<Rightarrow> wait (Msg ''Upstream database credentials Secret %s/%s missing key %q'' [Str ns, Str up, Str ''password''])
                | Some password \<Rightarrow>
                    (case AppendTLSParams (db_tls db) (TLSFilePaths (cf_tls_mount p)) [(''charset'', [''utf8''])] of
                       Inl e \<Rightarrow> fail (Errorf ''assembling database TLS DSN parameters: %w'' [Wrap e]) w
                     | Inr query \<Rightarrow>
                         (let (conn, digest) = BuildDSN sha_hex username password (ResolveHost db ns) (db_database db) query;
                              name = ConnectionSecretName (cf_instance p)
                          in case k_get C (ns, name) w of
                            Inl e \<Rightarrow>
                              if is_not_found e
                              then (case set_ref (cf_owner p)
                                      \<lparr>s_meta = blank_meta\<lparr>m_name := name, m_namespace := ns\<rparr>, s_version = [],
                                       s_data = [(ConnectionSecretKey, conn)]\<rparr> of
                                      Inl e' \<Rightarrow> fail (Errorf ''setting owner reference on derived Secret %s/%s: %w'' [Str ns, Str name, Wrap e']) w
                                    | Inr derived \<Rightarrow>
                                        (case k_create C derived w of
                                           (Inl e', w') \<Rightarrow> fail (Errorf ''creating derived Secret %s/%s: %w'' [Str ns, Str name, Wrap e']) w'
                                         | (Inr _, w') \<Rightarrow> ((zero_result, digest, None), cs, w')))
                              else fail (Errorf ''getting derived Secret %s/%s: %w'' [Str ns, Str name, Wrap e]) w
                          | Inr existing \<Rightarrow>
                              if length (s_data existing) \<noteq> 1 \<or> map_of (s_data existing) ConnectionSecretKey \<noteq> Some conn
                              then (case k_update C (existing\<lparr>s_data := [(ConnectionSecretKey, conn)]\<rparr>) w of
                                      (Inl e', w') \<Rightarrow> fail (Errorf ''updating derived Secret %s/%s: %w'' [Str ns, Str name, Wrap e']) w'
                                    | (Inr _, w') \<Rightarrow> ((zero_result, digest, None), cs, w'))
                              else ((zero_result, digest, None), cs, w))))))"

section \<open>Teardown\<close>

text \<open>
  The list of constructors: one deletion and one existence test per kind, in order.  A test returns
  whether the object it read carries a deletion timestamp.
\<close>

record 'w resource_ops =
  rs_kind :: string
  rs_delete :: "objkey \<Rightarrow> 'w \<Rightarrow> err option \<times> 'w"
  rs_deleting :: "objkey \<Rightarrow> 'w \<Rightarrow> bool result"

fun FinalizeResources :: "'w resource_ops list \<Rightarrow> objkey \<Rightarrow> 'w \<Rightarrow> err option \<times> 'w" where
  "FinalizeResources [] k w = (None, w)"
| "FinalizeResources (r # rs) k w =
     (case rs_delete r k w of
        (None, w') \<Rightarrow> FinalizeResources rs k w'
      | (Some e, w') \<Rightarrow>
          if is_not_found e then FinalizeResources rs k w'
          else (Some (Errorf ''deleting %T %s: %w'' [Str (rs_kind r), Strs [fst k, snd k], Wrap e]), w'))"

fun HasLiveResources :: "'w resource_ops list \<Rightarrow> objkey \<Rightarrow> 'w \<Rightarrow> bool result" where
  "HasLiveResources [] k w = Inr False"
| "HasLiveResources (r # rs) k w =
     (case rs_deleting r k w of
        Inl e \<Rightarrow>
          if is_not_found e then HasLiveResources rs k w
          else Inl (Errorf ''checking %T %s: %w'' [Str (rs_kind r), Strs [fst k, snd k], Wrap e])
      | Inr deleting \<Rightarrow> if \<not> deleting then Inr True else HasLiveResources rs k w)"

section \<open>When the schema counts as synced\<close>

text \<open>Both jobs are finished, or only the first when the service defines no schema check.\<close>

definition synced :: "(batch_job \<Rightarrow> 'w \<Rightarrow> bool) \<Rightarrow> JobSetParams \<Rightarrow> 'w \<Rightarrow> bool" where
  "synced finished p w \<longleftrightarrow>
     finished (SyncJob p) w \<and> (js_schema_check_command p = None \<or> finished (SchemaCheckJob p) w)"

text \<open>A callback that leaves the conditions, the marker and the jobs as they are.\<close>

definition quiet :: "(batch_job \<Rightarrow> 'w \<Rightarrow> bool) \<Rightarrow> ('w, 'x) terminal_fn option \<Rightarrow> bool" where
  "quiet finished rt \<longleftrightarrow> (\<forall>ph obs s. sy_conditions (recordTerminal rt ph obs s) = sy_conditions s \<and>
     sy_installed (recordTerminal rt ph obs s) = sy_installed s \<and>
     (\<forall>j. finished j (sy_world (recordTerminal rt ph obs s)) = finished j (sy_world s)))"

lemma quiet_simps [simp]:
  assumes "quiet finished rt"
  shows "sy_conditions (recordTerminal rt ph obs s) = sy_conditions s"
    "sy_installed (recordTerminal rt ph obs s) = sy_installed s"
    "finished j (sy_world (recordTerminal rt ph obs s)) = finished j (sy_world s)"
  using assms unfolding quiet_def by blast+

lemma quiet_None: "quiet finished None"
  by (simp add: quiet_def recordTerminal_def)

lemma set_cond_simps [simp]:
  "sy_installed (set_cond K p st r m s) = sy_installed s"
  "sy_world (set_cond K p st r m s) = sy_world s"
  "sy_conditions (set_cond K p st r m s) =
     SetCondition K (sy_conditions s) (mk_condition (sf_condition p) st (sf_generation p) r m)"
  by (simp_all add: set_cond_def)

lemma emit_simps [simp]:
  "sy_installed (emit p ty r m s) = sy_installed s"
  "sy_world (emit p ty r m s) = sy_world s"
  "sy_conditions (emit p ty r m s) = sy_conditions s"
  by (simp_all add: emit_def)

context migration_runner begin

lemma run_phase_finished:
  assumes "finished j (sy_world s)" "quiet finished rt"
  shows "\<exists>s'. run_phase K run rt p j ph fr ff br bm ef s = (None, s') \<and>
     (\<forall>i. finished i (sy_world s') = finished i (sy_world s)) \<and>
     sy_conditions s' = sy_conditions s \<and> sy_installed s' = sy_installed s"
proof (rule run_cases [of j "sy_world s"])
  fix x assume "run j (sy_world s) = ((True, x, None), sy_world s)"
  then show ?thesis using assms(2) by (simp add: run_phase_def)
qed (use assms in blast)

lemma run_phase_unfinished:
  assumes "\<not> finished j (sy_world s)" "meta_contract K" "quiet finished rt"
  shows "\<exists>r s'. run_phase K run rt p j ph fr ff br bm ef s = (Some r, s') \<and>
     \<not> cond_true K (sy_conditions s') (sf_condition p) \<and> sy_installed s' = sy_installed s \<and>
     (snd r = None \<longrightarrow> r = (after (sf_requeue p), None))"
proof (rule run_cases [of j "sy_world s"])
  fix x e w' assume "run j (sy_world s) = ((False, x, e), w')"
  then show ?thesis using assms(2,3) by (cases e) (simp_all add: run_phase_def)
qed (use assms in blast)

lemma sync_done:
  assumes "synced finished (sf_jobs p) (sy_world s)" "meta_contract K" "quiet finished rt"
  shows "\<exists>s'. ReconcileSyncJobs K run rt p s = ((zero_result, None), s') \<and>
     cond_is K (sy_conditions s') (sf_condition p) CTrue ReasonDatabaseSynced \<and>
     sy_installed s' = (if sf_tracks_release p \<and> sf_image_tag p \<noteq> [] then sf_image_tag p else sy_installed s)"
proof -
  have f: "finished (SyncJob (sf_jobs p)) (sy_world s)" using assms(1) by (simp add: synced_def)
  obtain s1 where 1: "run_phase K run rt p (SyncJob (sf_jobs p)) ''db-sync'' ReasonDBSyncFailed
      ''db_sync job failed: %v'' ReasonDBSyncInProgress (Msg ''db_sync job is running'' [])
      ''running db_sync: %w'' s = (None, s1)" "\<forall>i. finished i (sy_world s1) = finished i (sy_world s)"
      "sy_installed s1 = sy_installed s"
    using run_phase_finished [OF f assms(3)] by metis
  show ?thesis
  proof (cases "js_schema_check_command (sf_jobs p)")
    case None
    then show ?thesis using 1 assms(2) by (simp add: ReconcileSyncJobs_def)
  next
    case (Some c)
    then have g: "finished (SchemaCheckJob (sf_jobs p)) (sy_world s1)" using assms(1) 1 by (simp add: synced_def)
    obtain s2 where "run_phase K run rt p (SchemaCheckJob (sf_jobs p)) ''schema-check''
        ReasonSchemaDriftDetected ''schema-check job failed: %v'' ReasonSchemaCheckInProgress
        (Msg ''schema-check job is running'' []) ''running schema-check: %w'' s1 = (None, s2)"
      "sy_installed s2 = sy_installed s1"
      using run_phase_finished [OF g assms(3)] by metis
    then show ?thesis using 1 Some assms(2) by (simp add: ReconcileSyncJobs_def)
  qed
qed

lemma sync_not_done:
  assumes "\<not> synced finished (sf_jobs p) (sy_world s)" "meta_contract K" "quiet finished rt"
    and "ReconcileSyncJobs K run rt p s = (r, s')"
  shows "\<not> cond_true K (sy_conditions s') (sf_condition p) \<and> sy_installed s' = sy_installed s \<and>
     (snd r = None \<longrightarrow> r = (after (sf_requeue p), None))"
proof -
  let ?first = "run_phase K run rt p (SyncJob (sf_jobs p)) ''db-sync'' ReasonDBSyncFailed
      ''db_sync job failed: %v'' ReasonDBSyncInProgress (Msg ''db_sync job is running'' [])
      ''running db_sync: %w'' s"
  show ?thesis
  proof (cases "finished (SyncJob (sf_jobs p)) (sy_world s)")
    case False
    then obtain r1 s1 where "?first = (Some r1, s1)" "\<not> cond_true K (sy_conditions s1) (sf_condition p)"
      "sy_installed s1 = sy_installed s" "snd r1 = None \<longrightarrow> r1 = (after (sf_requeue p), None)"
      using run_phase_unfinished [OF False assms(2,3)] by metis
    then show ?thesis using assms(4) by (auto simp: ReconcileSyncJobs_def)
  next
    case True
    then obtain s1 where 1: "?first = (None, s1)" "\<forall>i. finished i (sy_world s1) = finished i (sy_world s)"
      "sy_installed s1 = sy_installed s"
      using run_phase_finished [OF True assms(3)] by metis
    have c: "js_schema_check_command (sf_jobs p) \<noteq> None" "\<not> finished (SchemaCheckJob (sf_jobs p)) (sy_world s1)"
      using True assms(1) 1 by (simp_all add: synced_def)
    obtain r2 s2 where "run_phase K run rt p (SchemaCheckJob (sf_jobs p)) ''schema-check''
        ReasonSchemaDriftDetected ''schema-check job failed: %v'' ReasonSchemaCheckInProgress
        (Msg ''schema-check job is running'' []) ''running schema-check: %w'' s1 = (Some r2, s2)"
      "\<not> cond_true K (sy_conditions s2) (sf_condition p)" "sy_installed s2 = sy_installed s1"
      "snd r2 = None \<longrightarrow> r2 = (after (sf_requeue p), None)"
      using run_phase_unfinished [OF c(2) assms(2,3)] by metis
    then show ?thesis using 1 c assms(4) by (auto simp: ReconcileSyncJobs_def)
  qed
qed

text \<open>The condition is set to true, and the marker moves, exactly when the schema is synced.\<close>

lemma sync_iff:
  assumes "meta_contract K" "quiet finished rt" "ReconcileSyncJobs K run rt p s = (r, s')"
  shows "cond_true K (sy_conditions s') (sf_condition p) \<longleftrightarrow> synced finished (sf_jobs p) (sy_world s)"
    and "sy_installed s' = (if synced finished (sf_jobs p) (sy_world s) \<and> sf_tracks_release p \<and> sf_image_tag p \<noteq> []
           then sf_image_tag p else sy_installed s)"
proof -
  have *: "(cond_true K (sy_conditions s') (sf_condition p) \<longleftrightarrow> synced finished (sf_jobs p) (sy_world s)) \<and>
    sy_installed s' = (if synced finished (sf_jobs p) (sy_world s) \<and> sf_tracks_release p \<and> sf_image_tag p \<noteq> []
           then sf_image_tag p else sy_installed s)"
  proof (cases "synced finished (sf_jobs p) (sy_world s)")
    case True
    obtain t where "ReconcileSyncJobs K run rt p s = ((zero_result, None), t)"
      "cond_is K (sy_conditions t) (sf_condition p) CTrue ReasonDatabaseSynced"
      "sy_installed t = (if sf_tracks_release p \<and> sf_image_tag p \<noteq> [] then sf_image_tag p else sy_installed s)"
      using sync_done [OF True assms(1,2)] by blast
    then show ?thesis
      using assms(3) True by (auto simp: cond_is_def cond_true_def split: option.splits)
  next
    case False
    then show ?thesis using sync_not_done [OF False assms] by simp
  qed
  then show "cond_true K (sy_conditions s') (sf_condition p) \<longleftrightarrow> synced finished (sf_jobs p) (sy_world s)"
    "sy_installed s' = (if synced finished (sf_jobs p) (sy_world s) \<and> sf_tracks_release p \<and> sf_image_tag p \<noteq> []
           then sf_image_tag p else sy_installed s)" by blast+
qed

end

section \<open>What provisioning and the connection Secret guarantee\<close>

text \<open>In Dynamic mode, and in brownfield mode, no User or Grant is applied.\<close>

lemma ReconcileProvision_brownfield:
  "db_cluster_ref (pf_database p) = None \<Longrightarrow> ReconcileProvision K M p cs w = ((zero_result, None), cs, w)"
  by (simp add: ReconcileProvision_def)

lemma ReconcileProvision_dynamic:
  assumes "db_credentials_mode (pf_database p) = CredentialsModeDynamic"
  shows "ReconcileProvision K (M\<lparr>mdb_users := U, mdb_grants := G\<rparr>) p cs w = ReconcileProvision K M p cs w"
proof -
  have "IsClusterReady K (M\<lparr>mdb_users := U, mdb_grants := G\<rparr>) = IsClusterReady K M"
    "EnsureDatabase K (M\<lparr>mdb_users := U, mdb_grants := G\<rparr>) = EnsureDatabase K M"
    by (simp_all add: fun_eq_iff IsClusterReady_def EnsureDatabase_def)
  then show ?thesis
    using assms
    by (auto simp: ReconcileProvision_def Let_def split: option.split sum.split bool.split prod.split)
qed

lemma ReconcileProvision_stops:
  assumes "meta_contract K" "ReconcileProvision K M p cs w = ((r, e), cs', w')" "pf_requeue p \<noteq> 0"
  shows "if r = zero_result then cs' = cs else e = None \<and> \<not> cond_true K cs' (pf_condition p)"
  using assms
  by (auto simp: ReconcileProvision_def Let_def split: option.splits sum.splits bool.splits prod.splits if_splits)

text \<open>The data of the credentials Secret the connection is made of.\<close>

definition credentials :: "ConnectionSecretFlowParams \<Rightarrow> secret \<Rightarrow> (string \<times> string) option" where
  "credentials p up =
     (case ResolveUsername (cf_database p) (cf_instance p) (s_data up) of
        None \<Rightarrow> None
      | Some u \<Rightarrow> (case map_of (s_data up) ''password'' of None \<Rightarrow> None | Some pw \<Rightarrow> Some (u, pw)))"

definition upstream_key :: "ConnectionSecretFlowParams \<Rightarrow> objkey" where
  "upstream_key p = (cf_namespace p, sr_name (db_secret_ref (cf_database p)))"

lemma ReconcileConnectionSecret_waits:
  assumes "k_get C (upstream_key p) w = Inr up" "credentials p up = None" "meta_contract K"
    and "ReconcileConnectionSecret K sha C set_ref p cs w = ((r, d, e), cs', w')"
  shows "w' = w" "d = []" "e = None" "r = after (cf_requeue p)"
    "cond_is K cs' (cf_condition p) CFalse ReasonWaitingForDBCredentials"
  using assms
  by (auto simp: ReconcileConnectionSecret_def upstream_key_def credentials_def Let_def split: option.splits)

lemma ReconcileConnectionSecret_writes:
  assumes "ReconcileConnectionSecret K sha C set_ref p cs w = ((r, d, e), cs', w')" "w' \<noteq> w"
  shows "\<exists>up u pw q. k_get C (upstream_key p) w = Inr up \<and> credentials p up = Some (u, pw) \<and>
     AppendTLSParams (db_tls (cf_database p)) (TLSFilePaths (cf_tls_mount p)) [(''charset'', [''utf8''])] = Inr q"
  using assms
  by (auto simp: ReconcileConnectionSecret_def upstream_key_def credentials_def Let_def
        split: option.splits sum.splits prod.splits if_splits)

lemma ReconcileConnectionSecret_stored:
  assumes "ReconcileConnectionSecret K sha C set_ref p cs w = ((zero_result, d, None), cs', w')"
    and "k_get C (cf_namespace p, ConnectionSecretName (cf_instance p)) w = Inr existing" "cf_requeue p \<noteq> 0"
  obtains conn where "d = sha conn"
    "(w' = w \<and> length (s_data existing) = 1 \<and> map_of (s_data existing) ConnectionSecretKey = Some conn) \<or>
     (\<exists>o'. k_update C (existing\<lparr>s_data := [(ConnectionSecretKey, conn)]\<rparr>) w = (Inr o', w'))"
  using assms
  by (auto simp: ReconcileConnectionSecret_def Let_def BuildDSN_def Digest_def
        split: option.splits sum.splits prod.splits if_splits)

section \<open>What teardown guarantees\<close>

lemma HasLiveResources_False:
  "HasLiveResources rs k w = Inr False \<longleftrightarrow>
     list_all (\<lambda>r. case rs_deleting r k w of Inl e \<Rightarrow> is_not_found e | Inr d \<Rightarrow> d) rs"
  by (induction rs k w rule: HasLiveResources.induct) (auto split: sum.splits)

end
