(* ===== verification/Workload.thy ===== *)
theory Workload
  imports Apply CommonTypes
begin

text \<open>
  The service workload, \<open>internal/common/deployment\<close>: creating and applying the Deployment, Service,
  PodDisruptionBudget and HorizontalPodAutoscaler (\<open>deployment.go\<close>, \<open>hpa_flow.go\<close>), their builders
  (\<open>builders.go\<close>), and the labels of \<open>internal/common/naming\<close>.  The pod template is a type
  parameter: these functions pass it through.
\<close>

section \<open>Labels\<close>

definition LabelKeyName :: string where "LabelKeyName = ''app.kubernetes.io/name''"
definition LabelKeyInstance :: string where "LabelKeyInstance = ''app.kubernetes.io/instance''"
definition LabelKeyManagedBy :: string where "LabelKeyManagedBy = ''app.kubernetes.io/managed-by''"

definition CommonLabels :: "string \<Rightarrow> string \<Rightarrow> string gomap" where
  "CommonLabels app_name instance_name =
     [(LabelKeyName, app_name), (LabelKeyInstance, instance_name),
      (LabelKeyManagedBy, app_name @ ''-operator'')]"

definition SelectorLabels :: "string \<Rightarrow> string \<Rightarrow> string gomap" where
  "SelectorLabels app_name instance_name =
     [(LabelKeyName, app_name), (LabelKeyInstance, instance_name)]"

section \<open>Deployments and Services\<close>

record 'p deployment =
  dp_meta :: objmeta
  dp_replicas :: "int option"
  dp_selector :: label_selector
  dp_template :: 'p
  dp_observed_generation :: int
  dp_ready_replicas :: int
  dp_updated_replicas :: int
  dp_conditions :: "(string \<times> cstatus) list"

record service_port =
  vp_port :: int
  vp_target :: int
  vp_protocol :: string

record service =
  sv_meta :: objmeta
  sv_cluster_ip :: string
  sv_cluster_ips :: "string list"
  sv_ip_families :: "string list"
  sv_selector :: "string gomap"
  sv_ports :: "service_port list"

fun is_available :: "(string \<times> cstatus) list \<Rightarrow> bool" where
  "is_available [] = False"
| "is_available ((t, s) # cs) = (if t = ''Available'' \<and> s = CTrue then True else is_available cs)"

definition IsDeploymentReady :: "'p deployment \<Rightarrow> bool" where
  "IsDeploymentReady d =
     (if dp_observed_generation d < m_generation (dp_meta d) then False
      else let desired = (case dp_replicas d of None \<Rightarrow> 1 | Some n \<Rightarrow> n) in
           if dp_ready_replicas d < desired then False else is_available (dp_conditions d))"

definition obj_ref :: "objmeta \<Rightarrow> farg list" where
  "obj_ref m = [Str (m_namespace m), Str (m_name m)]"

text \<open>The live replica count of an unset desired one, \<open>1\<close> on creation.\<close>

definition EnsureDeployment ::
  "('p deployment, 'w) kclient \<Rightarrow> ('p deployment, 'u, 'w) ssa_api \<Rightarrow> objmeta \<Rightarrow> 'p deployment \<Rightarrow> 'w \<Rightarrow>
     bool result \<times> 'w" where
  "EnsureDeployment C A owner deploy w =
     (let m = dp_meta deploy;
          apply_it = (\<lambda>d. case EnsureObject A owner d FieldManager w of
                       (Inl e, w') \<Rightarrow> (Inl e, w')
                     | (Inr live, w') \<Rightarrow> (Inr (IsDeploymentReady live), w'))
      in case k_get C (key_of m) w of
        Inl e \<Rightarrow>
          if \<not> is_not_found e
          then (Inl (Errorf ''getting Deployment %s/%s: %w'' (obj_ref m @ [Wrap e])), w)
          else apply_it (if dp_replicas deploy = None then deploy\<lparr>dp_replicas := Some 1\<rparr> else deploy)
      | Inr existing \<Rightarrow>
          if dp_selector existing \<noteq> dp_selector deploy
          then (case k_delete C no_opts existing w of
                  (Some e, w') \<Rightarrow>
                    (Inl (Errorf ''deleting Deployment %s/%s for selector migration: %w'' (obj_ref m @ [Wrap e])), w')
                | (None, w') \<Rightarrow> (Inr False, w'))
          else apply_it (if dp_replicas deploy = None then deploy\<lparr>dp_replicas := dp_replicas existing\<rparr> else deploy))"

definition validateImmutableServiceFields :: "service \<Rightarrow> service \<Rightarrow> err option" where
  "validateImmutableServiceFields desired existing =
     (let ref = obj_ref (sv_meta desired) in
      if sv_cluster_ip desired \<noteq> [] \<and> sv_cluster_ip existing \<noteq> [] \<and> sv_cluster_ip desired \<noteq> sv_cluster_ip existing
      then Some (Errorf ''desired ClusterIP %q conflicts with existing %q on Service %s/%s: ClusterIP is immutable after creation''
             ([Str (sv_cluster_ip desired), Str (sv_cluster_ip existing)] @ ref))
      else if sv_cluster_ips desired \<noteq> [] \<and> sv_cluster_ips existing \<noteq> [] \<and> sv_cluster_ips desired \<noteq> sv_cluster_ips existing
      then Some (Errorf ''desired ClusterIPs %v conflict with existing %v on Service %s/%s: ClusterIPs are immutable after creation''
             ([Strs (sv_cluster_ips desired), Strs (sv_cluster_ips existing)] @ ref))
      else if sv_ip_families desired \<noteq> [] \<and> sv_ip_families existing \<noteq> [] \<and> sv_ip_families desired \<noteq> sv_ip_families existing
      then Some (Errorf ''desired IPFamilies %v conflict with existing %v on Service %s/%s: IPFamilies are immutable after creation''
             ([Strs (sv_ip_families desired), Strs (sv_ip_families existing)] @ ref))
      else None)"

definition EnsureService ::
  "(service, 'w) kclient \<Rightarrow> (service, 'u, 'w) ssa_api \<Rightarrow> objmeta \<Rightarrow> service \<Rightarrow> 'w \<Rightarrow> err option \<times> 'w" where
  "EnsureService C A owner svc w =
     (let apply_it = (case EnsureObject A owner svc FieldManager w of
                        (Inl e, w') \<Rightarrow> (Some e, w') | (Inr _, w') \<Rightarrow> (None, w'))
      in case k_get C (key_of (sv_meta svc)) w of
        Inl e \<Rightarrow>
          if \<not> is_not_found e
          then (Some (Errorf ''getting Service %s/%s: %w'' (obj_ref (sv_meta svc) @ [Wrap e])), w)
          else apply_it
      | Inr existing \<Rightarrow>
          (case validateImmutableServiceFields svc existing of
             Some e \<Rightarrow> (Some e, w)
           | None \<Rightarrow> apply_it))"

section \<open>Builders\<close>

record pdb =
  pb_meta :: objmeta
  pb_selector :: "string gomap"
  pb_min_available :: "int option"
  pb_max_unavailable :: "int option"

record hpa =
  hp_meta :: objmeta
  hp_target :: string
  hp_min_replicas :: "int option"
  hp_max_replicas :: int
  hp_metrics :: "(string \<times> int) list"

definition EnsurePDB :: "(pdb, 'u, 'w) ssa_api \<Rightarrow> objmeta \<Rightarrow> pdb \<Rightarrow> 'w \<Rightarrow> err option \<times> 'w" where
  "EnsurePDB A owner p w =
     (case EnsureObject A owner p FieldManager w of (Inl e, w') \<Rightarrow> (Some e, w') | (Inr _, w') \<Rightarrow> (None, w'))"

definition EnsureHPA :: "(hpa, 'u, 'w) ssa_api \<Rightarrow> objmeta \<Rightarrow> hpa \<Rightarrow> 'w \<Rightarrow> err option \<times> 'w" where
  "EnsureHPA A owner h w =
     (case EnsureObject A owner h FieldManager w of (Inl e, w') \<Rightarrow> (Some e, w') | (Inr _, w') \<Rightarrow> (None, w'))"

definition EffectiveReplicas :: "DeploymentSpec \<Rightarrow> int" where
  "EffectiveReplicas spec = (if de_replicas spec = 0 then DefaultReplicas else de_replicas spec)"

definition DeploymentReplicas :: "DeploymentSpec \<Rightarrow> AutoscalingSpec option \<Rightarrow> int option" where
  "DeploymentReplicas spec autoscaling =
     (if autoscaling \<noteq> None then None else Some (EffectiveReplicas spec))"

definition BuildPDB :: "string \<Rightarrow> string \<Rightarrow> string gomap \<Rightarrow> string gomap \<Rightarrow> DeploymentSpec \<Rightarrow> pdb" where
  "BuildPDB ns name labels selector spec =
     (let p = \<lparr>pb_meta = blank_meta\<lparr>m_name := name, m_namespace := ns, m_labels := labels\<rparr>,
               pb_selector = selector, pb_min_available = None, pb_max_unavailable = None\<rparr>
      in if EffectiveReplicas spec > 1 then p\<lparr>pb_min_available := Some 1\<rparr>
         else p\<lparr>pb_max_unavailable := Some 1\<rparr>)"

definition BuildHPA ::
  "string \<Rightarrow> string \<Rightarrow> string gomap \<Rightarrow> DeploymentSpec \<Rightarrow> AutoscalingSpec \<Rightarrow> hpa" where
  "BuildHPA ns name labels spec autoscaling =
     \<lparr>hp_meta = blank_meta\<lparr>m_name := name, m_namespace := ns, m_labels := labels\<rparr>,
      hp_target = name,
      hp_min_replicas = (case as_min_replicas autoscaling of
         None \<Rightarrow> Some (EffectiveReplicas spec) | Some n \<Rightarrow> Some n),
      hp_max_replicas = as_max_replicas autoscaling,
      hp_metrics = (case as_target_cpu autoscaling of None \<Rightarrow> [] | Some n \<Rightarrow> [(''cpu'', n)]) @
                   (case as_target_memory autoscaling of None \<Rightarrow> [] | Some n \<Rightarrow> [(''memory'', n)])\<rparr>"

definition ContainerResources :: "DeploymentSpec \<Rightarrow> resource_requirements" where
  "ContainerResources spec =
     (case de_resources spec of Some r \<Rightarrow> r | None \<Rightarrow> \<lparr>rq_requests = [], rq_limits = []\<rparr>)"

definition TopologySpreadConstraints :: "DeploymentSpec \<Rightarrow> string gomap \<Rightarrow> topology_spread list" where
  "TopologySpreadConstraints spec selector =
     (case de_topology_spread spec of
        Some ts \<Rightarrow> ts
      | None \<Rightarrow>
          let ls = Some \<lparr>ls_match_labels = selector, ls_match_expressions = []\<rparr> in
          [\<lparr>ts_max_skew = 1, ts_topology_key = ''topology.kubernetes.io/zone'',
            ts_when_unsatisfiable = ''ScheduleAnyway'', ts_selector = ls\<rparr>,
           \<lparr>ts_max_skew = 1, ts_topology_key = ''kubernetes.io/hostname'',
            ts_when_unsatisfiable = ''ScheduleAnyway'', ts_selector = ls\<rparr>])"

definition PriorityClassName :: "DeploymentSpec \<Rightarrow> string" where
  "PriorityClassName spec = (case de_priority_class spec of Some n \<Rightarrow> n | None \<Rightarrow> [])"

definition TerminationGracePeriodSeconds :: "DeploymentSpec \<Rightarrow> int" where
  "TerminationGracePeriodSeconds spec =
     (case de_grace_period spec of Some n \<Rightarrow> n | None \<Rightarrow> DefaultTerminationGracePeriodSeconds)"

definition PreStopSleepCommand :: "DeploymentSpec \<Rightarrow> string list" where
  "PreStopSleepCommand spec =
     (let secs = (case de_pre_stop_sleep spec of Some n \<Rightarrow> n | None \<Rightarrow> DefaultPreStopSleepSeconds)
      in [''/bin/sh'', ''-c'', ''sleep '' @ show_int secs])"

definition Strategy :: "DeploymentSpec \<Rightarrow> deployment_strategy" where
  "Strategy spec =
     (case de_strategy spec of
        Some s \<Rightarrow> s
      | None \<Rightarrow> \<lparr>ds_type = ''RollingUpdate'', ds_rolling = Some (Some ''0'', Some ''1'')\<rparr>)"

section \<open>The autoscaler flow\<close>

definition ReasonHPAReady :: string where "ReasonHPAReady = ''HPAReady''"
definition ReasonHPANotRequired :: string where "ReasonHPANotRequired = ''HPANotRequired''"

record HPAFlowParams =
  hf_enabled :: bool
  hf_desired :: hpa
  hf_name :: string
  hf_namespace :: string
  hf_generation :: int
  hf_condition :: string

definition DeleteHPA :: "(hpa, 'w) kclient \<Rightarrow> string \<Rightarrow> string \<Rightarrow> 'w \<Rightarrow> err option \<times> 'w" where
  "DeleteHPA C ns name w =
     (case k_delete C no_opts \<lparr>hp_meta = blank_meta\<lparr>m_name := name, m_namespace := ns\<rparr>, hp_target = [],
             hp_min_replicas = None, hp_max_replicas = 0, hp_metrics = []\<rparr> w of
        (e, w') \<Rightarrow> (case ignore_not_found e of
                       None \<Rightarrow> (None, w')
                     | Some x \<Rightarrow> (Some (Errorf ''deleting HorizontalPodAutoscaler %s/%s: %w'' [Str ns, Str name, Wrap x]), w')))"

definition ReconcileHPA ::
  "meta_api \<Rightarrow> (hpa, 'w) kclient \<Rightarrow> (hpa, 'u, 'w) ssa_api \<Rightarrow> objmeta \<Rightarrow> HPAFlowParams \<Rightarrow> condition list \<Rightarrow> 'w \<Rightarrow>
     (ctrl_result \<times> err option) \<times> condition list \<times> 'w" where
  "ReconcileHPA K C A owner p cs w =
     (if \<not> hf_enabled p
      then (case DeleteHPA C (hf_namespace p) (hf_name p) w of
              (Some e, w') \<Rightarrow> ((zero_result, Some (Errorf ''deleting HorizontalPodAutoscaler: %w'' [Wrap e])), cs, w')
            | (None, w') \<Rightarrow> ((zero_result, None),
                SetCondition K cs (mk_condition (hf_condition p) CTrue (hf_generation p) ReasonHPANotRequired
                  (Msg ''Autoscaling is not configured'' [])), w'))
      else (case EnsureHPA A owner (hf_desired p) w of
              (Some e, w') \<Rightarrow> ((zero_result, Some (Errorf ''ensuring HorizontalPodAutoscaler: %w'' [Wrap e])), cs, w')
            | (None, w') \<Rightarrow> ((zero_result, None),
                SetCondition K cs (mk_condition (hf_condition p) CTrue (hf_generation p) ReasonHPAReady
                  (Msg ''HorizontalPodAutoscaler is configured'' [])), w')))"

section \<open>Laws\<close>

lemma CommonLabels_extend: "SelectorLabels a i = take 2 (CommonLabels a i)"
  by (simp add: SelectorLabels_def CommonLabels_def)

lemma wf_CommonLabels: "wf_gomap (CommonLabels a i)"
  by (simp add: CommonLabels_def LabelKeyName_def LabelKeyInstance_def LabelKeyManagedBy_def)

lemma wf_SelectorLabels: "wf_gomap (SelectorLabels a i)"
  by (simp add: SelectorLabels_def LabelKeyName_def LabelKeyInstance_def)

lemma EffectiveReplicas_pos: "0 \<le> de_replicas spec \<Longrightarrow> 0 < EffectiveReplicas spec"
  by (simp add: EffectiveReplicas_def DefaultReplicas_def)

lemma is_available_iff: "is_available cs \<longleftrightarrow> (''Available'', CTrue) \<in> set cs"
  by (induction cs rule: is_available.induct) auto

lemma IsDeploymentReady_iff:
  "IsDeploymentReady d \<longleftrightarrow> m_generation (dp_meta d) \<le> dp_observed_generation d \<and>
     (case dp_replicas d of None \<Rightarrow> 1 | Some n \<Rightarrow> n) \<le> dp_ready_replicas d \<and> (''Available'', CTrue) \<in> set (dp_conditions d)"
  by (auto simp: IsDeploymentReady_def Let_def is_available_iff split: option.splits)

text \<open>
  A Deployment left to an autoscaler keeps the replica count it has: what is applied carries the live
  count.
\<close>

lemma EnsureDeployment_keeps_replicas:
  assumes "k_get C (key_of (dp_meta deploy)) w = Inr existing" "dp_selector existing = dp_selector deploy"
    and "dp_replicas deploy = None"
  shows "EnsureDeployment C A owner deploy w =
    (case EnsureObject A owner (deploy\<lparr>dp_replicas := dp_replicas existing\<rparr>) FieldManager w of
       (Inl e, w') \<Rightarrow> (Inl e, w') | (Inr live, w') \<Rightarrow> (Inr (IsDeploymentReady live), w'))"
  using assms by (simp add: EnsureDeployment_def)

lemma EnsureDeployment_new_selector:
  assumes "k_get C (key_of (dp_meta deploy)) w = Inr existing" "dp_selector existing \<noteq> dp_selector deploy"
    and "EnsureDeployment C A owner deploy w = (r, w')"
  shows "r \<noteq> Inr True" "w' = snd (k_delete C no_opts existing w)"
  using assms by (auto simp: EnsureDeployment_def split: prod.splits option.splits)

lemma validateImmutable_None:
  "validateImmutableServiceFields d e = None \<longleftrightarrow>
     (sv_cluster_ip d = [] \<or> sv_cluster_ip e = [] \<or> sv_cluster_ip d = sv_cluster_ip e) \<and>
     (sv_cluster_ips d = [] \<or> sv_cluster_ips e = [] \<or> sv_cluster_ips d = sv_cluster_ips e) \<and>
     (sv_ip_families d = [] \<or> sv_ip_families e = [] \<or> sv_ip_families d = sv_ip_families e)"
  by (auto simp: validateImmutableServiceFields_def Let_def)

lemma PriorityClassName_None [simp]: "de_priority_class spec = None \<Longrightarrow> PriorityClassName spec = []"
  by (simp add: PriorityClassName_def)

lemma drain_window_default:
  "TerminationGracePeriodSeconds spec - (case de_pre_stop_sleep spec of Some n \<Rightarrow> n | None \<Rightarrow> DefaultPreStopSleepSeconds) =
     (case de_grace_period spec of Some n \<Rightarrow> n | None \<Rightarrow> 30) - (case de_pre_stop_sleep spec of Some n \<Rightarrow> n | None \<Rightarrow> 5)"
  by (simp add: TerminationGracePeriodSeconds_def DefaultTerminationGracePeriodSeconds_def
        DefaultPreStopSleepSeconds_def split: option.splits)

text \<open>
  Readiness does not look at how many replicas run the current template: a Deployment whose new
  template no replica runs yet counts as ready as long as the old ones are.
\<close>

lemma IsDeploymentReady_ignores_updated:
  "IsDeploymentReady (d\<lparr>dp_updated_replicas := n\<rparr>) = IsDeploymentReady d"
  by (simp add: IsDeploymentReady_def)

end
