(* ===== verification/Upgrade.thy ===== *)
theory Upgrade
  imports Release DatabaseFlow Workload
begin

text \<open>
  The database and upgrade steps of the Keystone operator,
  \<open>operators/keystone/internal/controller\<close>: \<open>reconcile_database.go\<close>, \<open>reconcile_upgrade.go\<close>,
  \<open>database_jobs.go\<close>, \<open>db_job_metrics.go\<close> and the part of \<open>reconcile_deployment.go\<close> that moves the
  upgrade to its last phase.

  The state is the Keystone resource in memory and the API server, extending the state of the shared
  sync flow.  Everything the code reaches outside is in the environment.
\<close>

section \<open>State and environment\<close>

definition UpgradePhaseExpanding :: string where "UpgradePhaseExpanding = ''Expanding''"
definition UpgradePhaseMigrating :: string where "UpgradePhaseMigrating = ''Migrating''"
definition UpgradePhaseRollingUpdate :: string where "UpgradePhaseRollingUpdate = ''RollingUpdate''"
definition UpgradePhaseContracting :: string where "UpgradePhaseContracting = ''Contracting''"

lemmas phase_defs = UpgradePhaseExpanding_def UpgradePhaseMigrating_def
  UpgradePhaseRollingUpdate_def UpgradePhaseContracting_def

record 'w keystone = "'w sync_state" +
  kn_meta :: objmeta
  kn_version :: string
  kn_image :: ImageSpec
  kn_database :: DatabaseSpec
  kn_deployment :: DeploymentSpec
  kn_gateway :: "GatewaySpec option"
  kn_public_endpoint :: string
  kn_target :: string
  kn_phase :: string
  kn_endpoint :: string
  kn_metrics :: "(string \<times> duration) list"

abbreviation kn_tag :: "'w keystone \<Rightarrow> string" where
  "kn_tag s \<equiv> im_tag (kn_image s)"

text \<open>
  \<open>en_jobs\<close> and \<open>en_hash\<close> are what \<open>job.RunJob\<close> uses, \<open>en_patch\<close> the annotation patch of the
  terminal-state recorder, and the last three fields apply the Deployment, Service and
  PodDisruptionBudget built from the resource; the first reports readiness.
\<close>

record ('u, 'w) keystone_env =
  en_meta :: meta_api
  en_mdb :: "('u, 'w) mdb_env"
  en_jobs :: "'w job_env"
  en_hash :: "pod_template \<Rightarrow> string"
  en_patch :: "string gomap \<Rightarrow> 'w \<Rightarrow> string result \<times> 'w"
  en_ensure_deployment :: "'w keystone \<Rightarrow> 'w \<Rightarrow> bool result \<times> 'w"
  en_ensure_service :: "'w keystone \<Rightarrow> 'w \<Rightarrow> err option \<times> 'w"
  en_ensure_pdb :: "'w keystone \<Rightarrow> 'w \<Rightarrow> err option \<times> 'w"

definition RequeueDatabaseWait :: duration where "RequeueDatabaseWait = seconds 30"
definition RequeueUpgradeWait :: duration where "RequeueUpgradeWait = seconds 30"

definition requeue_now :: ctrl_result where
  "requeue_now = \<lparr>requeue = True, requeue_after = 0\<rparr>"

definition db_cond ::
  "('u, 'w) keystone_env \<Rightarrow> cstatus \<Rightarrow> string \<Rightarrow> msg \<Rightarrow> 'w keystone \<Rightarrow> 'w keystone" where
  "db_cond E st reason message s =
     s\<lparr>sy_conditions := SetCondition (en_meta E) (sy_conditions s)
         (mk_condition ''DatabaseReady'' st (m_generation (kn_meta s)) reason message)\<rparr>"

definition eventf :: "event_type \<Rightarrow> string \<Rightarrow> msg \<Rightarrow> 'w keystone \<Rightarrow> 'w keystone" where
  "eventf ty reason message s =
     s\<lparr>sy_events := sy_events s @ [\<lparr>ev_type = ty, ev_reason = reason, ev_message = message\<rparr>]\<rparr>"

section \<open>Jobs\<close>

definition dbTLSEnabled :: "DatabaseSpec \<Rightarrow> bool" where
  "dbTLSEnabled db = TLSIsEnabled (db_tls db)"

definition dbTLSMountPath :: string where "dbTLSMountPath = ''/etc/keystone/db-tls/''"
definition domainsVolumeName :: string where "domainsVolumeName = ''domains''"
definition domainsMountPath :: string where "domainsMountPath = ''/etc/keystone/domains''"

definition dbTLSVolumeAndMount :: "DatabaseSpec \<Rightarrow> volume \<times> volume_mount" where
  "dbTLSVolumeAndMount db =
     (let t = the (db_tls db) in
      (\<lparr>vo_name = ''db-tls'',
        vo_source = ProjectedSource 256
          [(sr_name (tls_ca_bundle t), [(''ca.crt'', ''ca.crt'')]),
           (sr_name (tls_client_cert t), [(''tls.crt'', ''tls.crt''), (''tls.key'', ''tls.key'')])]\<rparr>,
       \<lparr>vm_name = ''db-tls'', vm_path = dbTLSMountPath, vm_read_only = True\<rparr>))"

definition domainsVolumeAndMount :: "string \<Rightarrow> volume \<times> volume_mount" where
  "domainsVolumeAndMount name =
     (\<lparr>vo_name = domainsVolumeName, vo_source = SecretSource name 256\<rparr>,
      \<lparr>vm_name = domainsVolumeName, vm_path = domainsMountPath, vm_read_only = True\<rparr>)"

definition keystoneJobSetParams :: "'w keystone \<Rightarrow> string \<Rightarrow> string \<Rightarrow> JobSetParams" where
  "keystoneJobSetParams s config_map domains_secret =
     (let tls = (if dbTLSEnabled (kn_database s) then [dbTLSVolumeAndMount (kn_database s)] else []);
          doms = (if domains_secret \<noteq> [] then [domainsVolumeAndMount domains_secret] else [])
      in \<lparr>js_instance = m_name (kn_meta s), js_namespace = m_namespace (kn_meta s),
          js_image = ImageReference (kn_image s), js_config_map = config_map,
          js_config_mount = ''/etc/keystone/keystone.conf.d/'',
          js_env = [ConnectionEnvVar (m_name (kn_meta s))],
          js_extra_volumes = map fst (tls @ doms), js_extra_mounts = map snd (tls @ doms),
          js_priority_class = PriorityClassName (kn_deployment s),
          js_sync_command = [''keystone-manage'', ''--config-dir=/etc/keystone/keystone.conf.d/'', ''db_sync''],
          js_schema_check_command = Some [''/bin/sh'', ''-eu'', ''-c'',
            ''keystone-manage --config-dir=/etc/keystone/keystone.conf.d/ db_sync --check'']\<rparr>)"

definition buildDBJob :: "'w keystone \<Rightarrow> string \<Rightarrow> string \<Rightarrow> string \<Rightarrow> string \<Rightarrow> string list \<Rightarrow> batch_job" where
  "buildDBJob s config_map domains_secret img phase command =
     BuildJob (keystoneJobSetParams s config_map domains_secret) img phase command 4"

definition buildUpgradeJob :: "'w keystone \<Rightarrow> string \<Rightarrow> string \<Rightarrow> string \<Rightarrow> string \<Rightarrow> string \<Rightarrow> batch_job" where
  "buildUpgradeJob s config_map domains_secret image_tag phase flag =
     buildDBJob s config_map domains_secret (im_repository (kn_image s) @ '':'' @ image_tag) (''db-'' @ phase)
       [''keystone-manage'', ''--config-dir=/etc/keystone/keystone.conf.d/'', ''db_sync'', flag]"

definition buildExpandJob :: "'w keystone \<Rightarrow> string \<Rightarrow> string \<Rightarrow> string \<Rightarrow> batch_job" where
  "buildExpandJob s cm doms tag = buildUpgradeJob s cm doms tag ''expand'' ''--expand''"

definition buildMigrateJob :: "'w keystone \<Rightarrow> string \<Rightarrow> string \<Rightarrow> string \<Rightarrow> batch_job" where
  "buildMigrateJob s cm doms tag = buildUpgradeJob s cm doms tag ''migrate'' ''--migrate''"

definition buildContractJob :: "'w keystone \<Rightarrow> string \<Rightarrow> string \<Rightarrow> string \<Rightarrow> batch_job" where
  "buildContractJob s cm doms tag = buildUpgradeJob s cm doms tag ''contract'' ''--contract''"

definition recordDBJobTerminalState ::
  "('u, 'w) keystone_env \<Rightarrow> string \<Rightarrow> batch_job option \<Rightarrow> 'w keystone \<Rightarrow> 'w keystone" where
  "recordDBJobTerminalState E phase observed s =
     (let (recs, evs, owner, w') =
            RecordJobTerminalState (en_patch E) True phase observed ''DBSyncMetricEmissionDeferred''
              \<lparr>ow_annotations = m_annotations (kn_meta s), ow_version = kn_version s\<rparr> (sy_world s)
      in s\<lparr>sy_world := w', sy_events := sy_events s @ evs,
           kn_meta := (kn_meta s)\<lparr>m_annotations := ow_annotations owner\<rparr>,
           kn_version := ow_version owner, kn_metrics := kn_metrics s @ recs\<rparr>)"

section \<open>Starting an upgrade\<close>

definition isUpgrade :: "'w keystone \<Rightarrow> bool" where
  "isUpgrade s =
     (if kn_tag s = [] then False
      else if sy_installed s = [] then False
      else if kn_tag s = sy_installed s then False
      else case ParseRelease (sy_installed s) of
        Inl e \<Rightarrow> True
      | Inr frm \<Rightarrow> (case ParseRelease (kn_tag s) of Inl e \<Rightarrow> True | Inr to \<Rightarrow> \<not> IsPatchOnly frm to))"

definition initiateUpgrade :: "('u, 'w) keystone_env \<Rightarrow> 'w keystone step_fn" where
  "initiateUpgrade E s =
     (let fail = (\<lambda>reason cond_msg event_msg e. ((zero_result, Some e),
                    eventf EvWarning reason event_msg (db_cond E CFalse reason cond_msg s)))
      in case ParseRelease (sy_installed s) of
        Inl e \<Rightarrow>
          fail ''VersionParseError'' (Msg ''failed to parse installed release %q: %v'' [Str (sy_installed s), Val e])
            (Msg ''Failed to parse installed release %q: %v'' [Str (sy_installed s), Val e])
            (Errorf ''parse installed release %q: %w'' [Str (sy_installed s), Wrap e])
      | Inr frm \<Rightarrow>
          (case ParseRelease (kn_tag s) of
             Inl e \<Rightarrow>
               fail ''VersionParseError'' (Msg ''failed to parse target release %q: %v'' [Str (kn_tag s), Val e])
                 (Msg ''Failed to parse target release %q: %v'' [Str (kn_tag s), Val e])
                 (Errorf ''parse target release %q: %w'' [Str (kn_tag s), Wrap e])
           | Inr to \<Rightarrow>
               (let args = [Str (r_raw frm), Str (r_raw to)] in
                if IsDowngrade frm to
                then fail ''DowngradeNotSupported'' (Msg ''downgrade from %s to %s is not supported'' args)
                       (Msg ''Downgrade from %s to %s is not supported'' args)
                       (Errorf ''downgrade from %s to %s is not supported'' args)
                else if \<not> IsSequentialUpgrade frm to
                then fail ''UpgradePathInvalid''
                       (Msg ''upgrade from %s to %s is not sequential; only sequential upgrades are supported'' args)
                       (Msg ''Upgrade from %s to %s is not sequential'' args)
                       (Errorf ''upgrade from %s to %s is not sequential; only sequential upgrades are supported'' args)
                else ((requeue_now, None),
                      eventf EvNormal ''UpgradeInitiated'' (Msg ''Upgrade initiated: %s -> %s'' args)
                        (db_cond E CFalse ''ExpandInProgress''
                          (Msg ''Upgrade detected: %s -> %s (phase: Expanding)'' args)
                          (s\<lparr>kn_target := kn_tag s, kn_phase := UpgradePhaseExpanding\<rparr>))))))"

section \<open>Running a phase\<close>

definition from_to :: "'w keystone \<Rightarrow> farg list" where
  "from_to s = [Str (sy_installed s), Str (kn_target s)]"

definition setUpgradePhaseRunning :: "('u, 'w) keystone_env \<Rightarrow> string \<Rightarrow> 'w keystone \<Rightarrow> 'w keystone" where
  "setUpgradePhaseRunning E phase s =
     db_cond E CFalse (phase @ ''InProgress'') (Msg ''%s phase running: %s -> %s'' (Str phase # from_to s)) s"

definition setUpgradeJobFailed :: "('u, 'w) keystone_env \<Rightarrow> string \<Rightarrow> string \<Rightarrow> err \<Rightarrow> 'w keystone \<Rightarrow> 'w keystone" where
  "setUpgradeJobFailed E phase job_name e s =
     db_cond E CFalse (phase @ ''Failed'') (Msg ''%s job %s failed: %v'' [Str phase, Str job_name, Val e]) s"

record ('u, 'w) upgrade_step =
  us_name :: string
  us_suffix :: string
  us_build :: "'w keystone \<Rightarrow> string \<Rightarrow> string \<Rightarrow> string \<Rightarrow> batch_job"
  us_fail_reason :: string
  us_complete :: "'w keystone step_fn"

definition runUpgradePhase ::
  "('u, 'w) keystone_env \<Rightarrow> string \<Rightarrow> string \<Rightarrow> ('u, 'w) upgrade_step \<Rightarrow> 'w keystone step_fn" where
  "runUpgradePhase E config_map domains_secret st s =
     (let phase_job = us_build st s config_map domains_secret (kn_tag s);
          job_name = m_name (jb_meta phase_job);
          ((done, observed, err), w') = RunJob (en_hash E) (en_jobs E) phase_job (sy_world s);
          s1 = recordDBJobTerminalState E (us_suffix st) observed (s\<lparr>sy_world := w'\<rparr>)
      in case err of
           Some e \<Rightarrow>
             ((zero_result, Some (Errorf ''running %s job: %w'' [Str (to_lower (us_name st)), Wrap e])),
              eventf EvWarning (us_fail_reason st)
                (Msg ''%s job %s failed: %v'' [Str (us_name st), Str job_name, Val e])
                (setUpgradeJobFailed E (us_name st) job_name e s1))
         | None \<Rightarrow>
             if \<not> done then ((after RequeueUpgradeWait, None), setUpgradePhaseRunning E (us_name st) s1)
             else us_complete st s1)"

definition completeExpand :: "('u, 'w) keystone_env \<Rightarrow> 'w keystone step_fn" where
  "completeExpand E s =
     ((requeue_now, None),
      eventf EvNormal ''ExpandComplete'' (Msg ''Expand phase complete: %s -> %s'' (from_to s))
        (db_cond E CFalse ''MigrateInProgress'' (Msg ''Expand complete, starting migrate: %s -> %s'' (from_to s))
          (s\<lparr>kn_phase := UpgradePhaseMigrating\<rparr>)))"

definition completeMigrate :: "('u, 'w) keystone_env \<Rightarrow> 'w keystone step_fn" where
  "completeMigrate E s =
     ((requeue_now, None),
      eventf EvNormal ''MigrateComplete'' (Msg ''Migrate phase complete: %s -> %s'' (from_to s))
        (db_cond E CFalse ''UpgradeRollingUpdate''
          (Msg ''Migrate complete, waiting for Deployment rollout: %s -> %s'' (from_to s))
          (s\<lparr>kn_phase := UpgradePhaseRollingUpdate\<rparr>)))"

definition completeContract :: "('u, 'w) keystone_env \<Rightarrow> 'w keystone step_fn" where
  "completeContract E s =
     ((zero_result, None),
      eventf EvNormal ''UpgradeComplete'' (Msg ''Upgrade complete: %s -> %s'' (from_to s))
        (db_cond E CTrue ReasonDatabaseSynced
          (Msg ''Database schema is up to date (upgraded %s -> %s)'' (from_to s))
          (s\<lparr>sy_installed := kn_target s, kn_target := [], kn_phase := []\<rparr>)))"

definition reconcileExpand :: "('u, 'w) keystone_env \<Rightarrow> string \<Rightarrow> string \<Rightarrow> 'w keystone step_fn" where
  "reconcileExpand E cm doms = runUpgradePhase E cm doms
     \<lparr>us_name = ''Expand'', us_suffix = ''db-expand'', us_build = buildExpandJob,
      us_fail_reason = ''ExpandFailed'', us_complete = completeExpand E\<rparr>"

definition reconcileMigrate :: "('u, 'w) keystone_env \<Rightarrow> string \<Rightarrow> string \<Rightarrow> 'w keystone step_fn" where
  "reconcileMigrate E cm doms = runUpgradePhase E cm doms
     \<lparr>us_name = ''Migrate'', us_suffix = ''db-migrate'', us_build = buildMigrateJob,
      us_fail_reason = ''MigrateFailed'', us_complete = completeMigrate E\<rparr>"

definition reconcileRollingUpdate :: "('u, 'w) keystone_env \<Rightarrow> 'w keystone step_fn" where
  "reconcileRollingUpdate E s =
     ((zero_result, None),
      db_cond E CFalse ''UpgradeRollingUpdate'' (Msg ''Waiting for Deployment rollout: %s -> %s'' (from_to s)) s)"

definition reconcileContract :: "('u, 'w) keystone_env \<Rightarrow> string \<Rightarrow> string \<Rightarrow> 'w keystone step_fn" where
  "reconcileContract E cm doms = runUpgradePhase E cm doms
     \<lparr>us_name = ''Contract'', us_suffix = ''db-contract'', us_build = buildContractJob,
      us_fail_reason = ''ContractFailed'', us_complete = completeContract E\<rparr>"

definition reconcileUpgrade :: "('u, 'w) keystone_env \<Rightarrow> string \<Rightarrow> string \<Rightarrow> 'w keystone step_fn" where
  "reconcileUpgrade E cm doms s =
     (if kn_phase s = UpgradePhaseExpanding then reconcileExpand E cm doms s
      else if kn_phase s = UpgradePhaseMigrating then reconcileMigrate E cm doms s
      else if kn_phase s = UpgradePhaseRollingUpdate then reconcileRollingUpdate E s
      else if kn_phase s = UpgradePhaseContracting then reconcileContract E cm doms s
      else ((zero_result, Some (Errorf ''unknown upgrade phase %q'' [Str (kn_phase s)])), s))"

section \<open>Aborting\<close>

definition upgradeJobSuffixes :: "string list" where
  "upgradeJobSuffixes = [''db-expand'', ''db-migrate'', ''db-contract'']"

definition named_job :: "string \<Rightarrow> string \<Rightarrow> batch_job" where
  "named_job ns name =
     \<lparr>jb_meta = blank_meta\<lparr>m_name := name, m_namespace := ns\<rparr>, jb_backoff = 0, jb_ttl = None,
      jb_template = \<lparr>pt_annotations = [], pt_restart = [], pt_priority_class = [], pt_containers = [], pt_volumes = []\<rparr>,
      jb_conditions = []\<rparr>"

fun delete_jobs :: "(batch_job, 'w) kclient \<Rightarrow> objmeta \<Rightarrow> string list \<Rightarrow> 'w \<Rightarrow> err option \<times> 'w" where
  "delete_jobs C m [] w = (None, w)"
| "delete_jobs C m (sfx # rest) w =
     (let job_name = m_name m @ ''-'' @ sfx in
      case k_delete C background (named_job (m_namespace m) job_name) w of
        (None, w') \<Rightarrow> delete_jobs C m rest w'
      | (Some e, w') \<Rightarrow>
          if is_not_found e then delete_jobs C m rest w'
          else (Some (Errorf ''deleting %s: %w'' [Str job_name, Wrap e]), w'))"

definition deleteUpgradeJobs :: "('u, 'w) keystone_env \<Rightarrow> 'w keystone \<Rightarrow> err option \<times> 'w" where
  "deleteUpgradeJobs E s = delete_jobs (je_client (en_jobs E)) (kn_meta s) upgradeJobSuffixes (sy_world s)"

definition abortUpgrade :: "('u, 'w) keystone_env \<Rightarrow> 'w keystone step_fn" where
  "abortUpgrade E s =
     (case deleteUpgradeJobs E s of
        (Some e, w') \<Rightarrow>
          ((zero_result, Some (Errorf ''deleting upgrade jobs during abort: %w'' [Wrap e])), s\<lparr>sy_world := w'\<rparr>)
      | (None, w') \<Rightarrow>
          ((requeue_now, None),
           eventf EvNormal ''UpgradeAborted''
             (Msg ''Upgrade %s -> %s aborted: spec.image.tag reverted to installed release %s''
               [Str (sy_installed s), Str (kn_target s), Str (sy_installed s)])
             (s\<lparr>sy_world := w', kn_phase := [], kn_target := []\<rparr>)))"

section \<open>The database step\<close>

definition provision_params :: "'w keystone \<Rightarrow> ProvisionFlowParams" where
  "provision_params s =
     \<lparr>pf_owner = kn_meta s, pf_instance = m_name (kn_meta s), pf_namespace = m_namespace (kn_meta s),
      pf_labels = [], pf_database = kn_database s, pf_generation = m_generation (kn_meta s),
      pf_condition = ''DatabaseReady'', pf_requeue = RequeueDatabaseWait\<rparr>"

definition sync_params :: "'w keystone \<Rightarrow> string \<Rightarrow> string \<Rightarrow> SyncFlowParams" where
  "sync_params s cm doms =
     \<lparr>sf_jobs = keystoneJobSetParams s cm doms, sf_generation = m_generation (kn_meta s),
      sf_condition = ''DatabaseReady'', sf_requeue = RequeueDatabaseWait, sf_tracks_release = True,
      sf_image_tag = kn_tag s, sf_has_recorder = True\<rparr>"

definition reconcileDatabase :: "('u, 'w) keystone_env \<Rightarrow> string \<Rightarrow> string \<Rightarrow> 'w keystone step_fn" where
  "reconcileDatabase E cm doms s =
     (let ((res, e), cs, w') = ReconcileProvision (en_meta E) (en_mdb E) (provision_params s) (sy_conditions s) (sy_world s);
          s1 = s\<lparr>sy_conditions := cs, sy_world := w'\<rparr>
      in if e \<noteq> None \<or> \<not> result_is_zero res then ((res, e), s1)
         else if kn_phase s1 \<noteq> []
         then (if kn_tag s1 = sy_installed s1 then abortUpgrade E s1
               else if kn_tag s1 \<noteq> kn_target s1
               then (let args = Str (kn_tag s1) # from_to s1 in
                     ((zero_result,
                       Some (Errorf ''image tag changed during active upgrade: current upgrade targets %s but spec.image.tag is %s''
                               [Str (kn_target s1), Str (kn_tag s1)])),
                      eventf EvWarning ''UpgradeTargetChanged''
                        (Msg ''Image tag changed to %s during active upgrade %s -> %s'' args)
                        (db_cond E CFalse ''UpgradeTargetChanged''
                          (Msg ''Image tag changed to %s during active upgrade %s -> %s; complete or roll back the current upgrade first'' args) s1)))
               else reconcileUpgrade E cm doms s1)
         else if isUpgrade s1 then initiateUpgrade E s1
         else ReconcileSyncJobs (en_meta E) (RunJob (en_hash E) (en_jobs E)) (Some (recordDBJobTerminalState E))
                (sync_params s1 cm doms) s1)"

section \<open>The Deployment step\<close>

definition internalAPIURL :: "objmeta \<Rightarrow> string" where
  "internalAPIURL m = ''http://'' @ m_name m @ ''.'' @ m_namespace m @ ''.svc.cluster.local:5000/v3''"

definition keystoneStatusEndpoint :: "'w keystone \<Rightarrow> string" where
  "keystoneStatusEndpoint s =
     (case kn_gateway s of
        Some g \<Rightarrow> if kn_public_endpoint s \<noteq> [] then kn_public_endpoint s else ''https://'' @ gw_hostname g @ ''/v3''
      | None \<Rightarrow> internalAPIURL (kn_meta s))"

definition deployment_cond ::
  "('u, 'w) keystone_env \<Rightarrow> cstatus \<Rightarrow> string \<Rightarrow> msg \<Rightarrow> 'w keystone \<Rightarrow> 'w keystone" where
  "deployment_cond E st reason message s =
     s\<lparr>sy_conditions := SetCondition (en_meta E) (sy_conditions s)
         (mk_condition ''DeploymentReady'' st (m_generation (kn_meta s)) reason message)\<rparr>"

definition reconcileDeployment :: "('u, 'w) keystone_env \<Rightarrow> 'w keystone step_fn" where
  "reconcileDeployment E s =
     (case en_ensure_deployment E s (sy_world s) of
        (Inl e, w1) \<Rightarrow> ((zero_result, Some (Errorf ''ensuring Deployment: %w'' [Wrap e])), s\<lparr>sy_world := w1\<rparr>)
      | (Inr ready, w1) \<Rightarrow>
          (case en_ensure_service E s w1 of
             (Some e, w2) \<Rightarrow> ((zero_result, Some (Errorf ''ensuring Service: %w'' [Wrap e])), s\<lparr>sy_world := w2\<rparr>)
           | (None, w2) \<Rightarrow>
               (case en_ensure_pdb E s w2 of
                  (Some e, w3) \<Rightarrow> ((zero_result, Some (Errorf ''ensuring PodDisruptionBudget: %w'' [Wrap e])), s\<lparr>sy_world := w3\<rparr>)
                | (None, w3) \<Rightarrow>
                    (let s3 = s\<lparr>sy_world := w3\<rparr>;
                         available = deployment_cond E CTrue ''DeploymentReady''
                           (Msg ''Keystone API deployment is available'' [])
                     in if \<not> ready
                        then ((after RequeueDeploymentPolling, None),
                              deployment_cond E CFalse ''WaitingForDeployment''
                                (Msg ''Keystone API deployment is not yet available'' []) s3)
                        else if kn_phase s3 = UpgradePhaseRollingUpdate
                        then ((requeue_now, None),
                              available (eventf EvNormal ''DeploymentRolloutComplete''
                                (Msg ''Deployment rollout complete during upgrade %s -> %s'' (from_to s3))
                                (s3\<lparr>kn_phase := UpgradePhaseContracting\<rparr>)))
                        else ((zero_result, None), available (s3\<lparr>kn_endpoint := keystoneStatusEndpoint s3\<rparr>))))))"

end
