(* ===== verification/UpgradeSafety.thy ===== *)
theory UpgradeSafety
  imports Upgrade
begin

text \<open>
  What the Keystone upgrade promises.  The abstract specification is a step relation on the installed
  release, the target and the phase; the database and Deployment steps of \<open>Upgrade\<close> implement it,
  and the invariants and the phase order are proved on it by rule induction.
\<close>

section \<open>The abstract machine\<close>

type_synonym upgrade_view = "string \<times> string \<times> string"

definition upgrade_view :: "'w keystone \<Rightarrow> upgrade_view" where
  "upgrade_view s = (sy_installed s, kn_target s, kn_phase s)"

definition rank :: "string \<Rightarrow> int option" where
  "rank tag = (case ParseRelease tag of Inl e \<Rightarrow> None | Inr r \<Rightarrow> Some (ordinal r))"

definition successor :: "string \<Rightarrow> string \<Rightarrow> bool" where
  "successor a b = (case (rank a, rank b) of (Some i, Some j) \<Rightarrow> j = i + 1 | _ \<Rightarrow> False)"

definition same_release :: "string \<Rightarrow> string \<Rightarrow> bool" where
  "same_release a b \<longleftrightarrow> a = b \<or> (rank a \<noteq> None \<and> rank a = rank b)"

text \<open>
  \<open>fin\<close> says which of the phase Jobs is finished, \<open>rdy\<close> whether the Deployment is; \<open>tag\<close> is the image
  tag the user asks for.
\<close>

inductive upgrade_step :: "string \<Rightarrow> (string \<Rightarrow> bool) \<Rightarrow> bool \<Rightarrow> upgrade_view \<Rightarrow> upgrade_view \<Rightarrow> bool"
  for tag fin rdy where
  idle: "upgrade_step tag fin rdy v v"
| synced: "fin ''db-sync'' \<Longrightarrow> tag \<noteq> [] \<Longrightarrow> i = [] \<or> same_release i tag \<Longrightarrow>
    upgrade_step tag fin rdy (i, t, []) (tag, t, [])"
| started: "successor i tag \<Longrightarrow> upgrade_step tag fin rdy (i, t, []) (i, tag, UpgradePhaseExpanding)"
| expanded: "fin ''db-expand'' \<Longrightarrow> tag \<noteq> i \<Longrightarrow>
    upgrade_step tag fin rdy (i, tag, UpgradePhaseExpanding) (i, tag, UpgradePhaseMigrating)"
| migrated: "fin ''db-migrate'' \<Longrightarrow> tag \<noteq> i \<Longrightarrow>
    upgrade_step tag fin rdy (i, tag, UpgradePhaseMigrating) (i, tag, UpgradePhaseRollingUpdate)"
| rolled_out: "rdy \<Longrightarrow>
    upgrade_step tag fin rdy (i, t, UpgradePhaseRollingUpdate) (i, t, UpgradePhaseContracting)"
| contracted: "fin ''db-contract'' \<Longrightarrow> tag \<noteq> i \<Longrightarrow>
    upgrade_step tag fin rdy (i, tag, UpgradePhaseContracting) (tag, [], [])"
| aborted: "p \<noteq> [] \<Longrightarrow> upgrade_step tag fin rdy (tag, t, p) (tag, [], [])"

inductive_cases upgrade_stepE: "upgrade_step tag fin rdy v v'"
inductive_simps upgrade_step_iff: "upgrade_step tag fin rdy (i, t, p) (i', t', p')"

section \<open>Frames\<close>

lemma db_cond_simps [simp]:
  "sy_installed (db_cond E st r m s) = sy_installed s" "kn_target (db_cond E st r m s) = kn_target s"
  "kn_phase (db_cond E st r m s) = kn_phase s" "kn_image (db_cond E st r m s) = kn_image s"
  "sy_world (db_cond E st r m s) = sy_world s"
  by (simp_all add: db_cond_def)

lemma deployment_cond_simps [simp]:
  "sy_installed (deployment_cond E st r m s) = sy_installed s"
  "kn_target (deployment_cond E st r m s) = kn_target s"
  "kn_phase (deployment_cond E st r m s) = kn_phase s"
  "kn_image (deployment_cond E st r m s) = kn_image s"
  by (simp_all add: deployment_cond_def)

lemma eventf_simps [simp]:
  "sy_installed (eventf ty r m s) = sy_installed s" "kn_target (eventf ty r m s) = kn_target s"
  "kn_phase (eventf ty r m s) = kn_phase s" "kn_image (eventf ty r m s) = kn_image s"
  "sy_world (eventf ty r m s) = sy_world s" "sy_conditions (eventf ty r m s) = sy_conditions s"
  by (simp_all add: eventf_def)

lemma recordDBJobTerminalState_simps [simp]:
  "sy_installed (recordDBJobTerminalState E ph obs s) = sy_installed s"
  "kn_target (recordDBJobTerminalState E ph obs s) = kn_target s"
  "kn_phase (recordDBJobTerminalState E ph obs s) = kn_phase s"
  "kn_image (recordDBJobTerminalState E ph obs s) = kn_image s"
  "sy_conditions (recordDBJobTerminalState E ph obs s) = sy_conditions s"
  by (simp_all add: recordDBJobTerminalState_def split: prod.split)

lemma running_simps [simp]:
  "upgrade_view (setUpgradePhaseRunning E ph s) = upgrade_view s"
  "upgrade_view (setUpgradeJobFailed E ph j e s) = upgrade_view s"
  by (simp_all add: setUpgradePhaseRunning_def setUpgradeJobFailed_def upgrade_view_def)

lemma view_simps [simp]:
  "upgrade_view (eventf ty r m s) = upgrade_view s"
  "upgrade_view (recordDBJobTerminalState E ph obs s) = upgrade_view s"
  "upgrade_view (s\<lparr>sy_world := w\<rparr>) = upgrade_view s"
  "upgrade_view (s\<lparr>sy_conditions := cs\<rparr>) = upgrade_view s"
  "upgrade_view (db_cond E st r m s) = upgrade_view s"
  "upgrade_view (deployment_cond E st r m s) = upgrade_view s"
  by (simp_all add: upgrade_view_def)

text \<open>A field that no callback and no field of the shared flow touches keeps its value through the flow.\<close>

lemma run_phase_keeps:
  assumes "\<And>ph obs s. f (recordTerminal rt ph obs s) = f s"
    and "\<And>s x. f (s\<lparr>sy_world := x\<rparr>) = f s" "\<And>s x. f (s\<lparr>sy_conditions := x\<rparr>) = f s"
    and "\<And>s x. f (s\<lparr>sy_events := x\<rparr>) = f s"
  shows "f (snd (run_phase K run rt p j ph fr ff br bm ef s)) = f s"
  using assms by (simp add: run_phase_def set_cond_def emit_def Let_def split: prod.split option.split)

lemma sync_keeps:
  assumes "\<And>ph obs s. f (recordTerminal rt ph obs s) = f s"
    and "\<And>s x. f (s\<lparr>sy_world := x\<rparr>) = f s" "\<And>s x. f (s\<lparr>sy_conditions := x\<rparr>) = f s"
    and "\<And>s x. f (s\<lparr>sy_events := x\<rparr>) = f s" "\<And>s x. f (s\<lparr>sy_installed := x\<rparr>) = f s"
  shows "f (snd (ReconcileSyncJobs K run rt p s)) = f s"
proof -
  have r: "f s' = f s" if "run_phase K run rt p j ph fr ff br bm ef s = (x, s')" for j ph fr ff br bm ef s x s'
    using run_phase_keeps [of f rt K run p j ph fr ff br bm ef s] assms that by simp
  show ?thesis
    using assms
    by (auto simp: ReconcileSyncJobs_def set_cond_def emit_def Let_def
          dest!: r split: prod.split option.split)
qed

lemma kn_sync_keeps:
  "kn_target (snd (ReconcileSyncJobs K run (Some (recordDBJobTerminalState E)) p s)) = kn_target s"
  "kn_phase (snd (ReconcileSyncJobs K run (Some (recordDBJobTerminalState E)) p s)) = kn_phase s"
  "kn_image (snd (ReconcileSyncJobs K run (Some (recordDBJobTerminalState E)) p s)) = kn_image s"
  by (rule sync_keeps; simp add: recordTerminal_def)+


section \<open>The steps implement the machine\<close>

definition phase_job :: "string \<Rightarrow> string \<Rightarrow> 'w keystone \<Rightarrow> string \<Rightarrow> batch_job" where
  "phase_job cm doms s sfx =
     (if sfx = ''db-expand'' then buildExpandJob s cm doms (kn_tag s)
      else if sfx = ''db-migrate'' then buildMigrateJob s cm doms (kn_tag s)
      else if sfx = ''db-contract'' then buildContractJob s cm doms (kn_tag s)
      else SyncJob (keystoneJobSetParams s cm doms))"

definition phase_finished :: "('u, 'w) keystone_env \<Rightarrow> string \<Rightarrow> string \<Rightarrow> 'w keystone \<Rightarrow> string \<Rightarrow> bool" where
  "phase_finished E cm doms s sfx =
     (let j = phase_job cm doms s sfx in job_finished (en_jobs E) j (en_hash E (jb_template j)) (sy_world s))"

definition provisioned :: "('u, 'w) keystone_env \<Rightarrow> 'w keystone \<Rightarrow> 'w keystone" where
  "provisioned E s =
     (let (r, cs, w) = ReconcileProvision (en_meta E) (en_mdb E) (provision_params s) (sy_conditions s) (sy_world s)
      in s\<lparr>sy_conditions := cs, sy_world := w\<rparr>)"

lemma provisioned_simps [simp]:
  "upgrade_view (provisioned E s) = upgrade_view s" "kn_image (provisioned E s) = kn_image s"
  "sy_installed (provisioned E s) = sy_installed s" "kn_target (provisioned E s) = kn_target s"
  "kn_phase (provisioned E s) = kn_phase s" "kn_meta (provisioned E s) = kn_meta s"
  by (simp_all add: provisioned_def upgrade_view_def split: prod.split)

lemma requeue_not_zero [simp]:
  "RequeueUpgradeWait \<noteq> 0" "RequeueDatabaseWait \<noteq> 0" "RequeueDeploymentPolling \<noteq> 0"
  "requeue_now \<noteq> zero_result" "after RequeueUpgradeWait \<noteq> zero_result"
  "after RequeueDeploymentPolling \<noteq> zero_result" "after RequeueDatabaseWait \<noteq> zero_result"
  by (simp_all add: requeue_now_def zero_result_def after_def RequeueUpgradeWait_def RequeueDatabaseWait_def
        RequeueDeploymentPolling_def seconds_def)

text \<open>A phase completes exactly when its Job is finished; until then nothing moves and the step does not pass.\<close>

lemma runUpgradePhase_finished:
  assumes "let j = us_build st s cm doms (kn_tag s) in
     job_finished (en_jobs E) j (en_hash E (jb_template j)) (sy_world s)"
  shows "\<exists>x. runUpgradePhase E cm doms st s = us_complete st (recordDBJobTerminalState E (us_suffix st) x s)"
  using RunJob_done [OF assms [unfolded Let_def]]
  by (auto simp: runUpgradePhase_def RunJob_def)

lemma runUpgradePhase_unfinished:
  assumes "\<not> (let j = us_build st s cm doms (kn_tag s) in
     job_finished (en_jobs E) j (en_hash E (jb_template j)) (sy_world s))"
  shows "upgrade_view (snd (runUpgradePhase E cm doms st s)) = upgrade_view s"
    "fst (runUpgradePhase E cm doms st s) \<noteq> (zero_result, None)"
  using jobs.not_finished_not_done [where hash = "en_hash E" and E = "en_jobs E" and w = "sy_world s"
      and j = "us_build st s cm doms (kn_tag s)"] assms
  by (auto simp: runUpgradePhase_def Let_def split: prod.splits option.splits)

lemma reconcileExpand_cases:
  assumes "kn_phase s = UpgradePhaseExpanding"
  shows "if phase_finished E cm doms s ''db-expand''
    then \<exists>s'. reconcileExpand E cm doms s = ((requeue_now, None), s') \<and>
           upgrade_view s' = (sy_installed s, kn_target s, UpgradePhaseMigrating)
    else upgrade_view (snd (reconcileExpand E cm doms s)) = upgrade_view s \<and>
           fst (reconcileExpand E cm doms s) \<noteq> (zero_result, None)"
  using runUpgradePhase_finished [of "\<lparr>us_name = ''Expand'', us_suffix = ''db-expand'', us_build = buildExpandJob,
      us_fail_reason = ''ExpandFailed'', us_complete = completeExpand E\<rparr>" s cm doms E]
    runUpgradePhase_unfinished [of "\<lparr>us_name = ''Expand'', us_suffix = ''db-expand'', us_build = buildExpandJob,
      us_fail_reason = ''ExpandFailed'', us_complete = completeExpand E\<rparr>" s cm doms E]
  by (auto simp: phase_finished_def phase_job_def reconcileExpand_def completeExpand_def upgrade_view_def)

lemma reconcileMigrate_cases:
  assumes "kn_phase s = UpgradePhaseMigrating"
  shows "if phase_finished E cm doms s ''db-migrate''
    then \<exists>s'. reconcileMigrate E cm doms s = ((requeue_now, None), s') \<and>
           upgrade_view s' = (sy_installed s, kn_target s, UpgradePhaseRollingUpdate)
    else upgrade_view (snd (reconcileMigrate E cm doms s)) = upgrade_view s \<and>
           fst (reconcileMigrate E cm doms s) \<noteq> (zero_result, None)"
  using runUpgradePhase_finished [of "\<lparr>us_name = ''Migrate'', us_suffix = ''db-migrate'', us_build = buildMigrateJob,
      us_fail_reason = ''MigrateFailed'', us_complete = completeMigrate E\<rparr>" s cm doms E]
    runUpgradePhase_unfinished [of "\<lparr>us_name = ''Migrate'', us_suffix = ''db-migrate'', us_build = buildMigrateJob,
      us_fail_reason = ''MigrateFailed'', us_complete = completeMigrate E\<rparr>" s cm doms E]
  by (auto simp: phase_finished_def phase_job_def reconcileMigrate_def completeMigrate_def upgrade_view_def)

lemma reconcileContract_cases:
  assumes "kn_phase s = UpgradePhaseContracting"
  shows "if phase_finished E cm doms s ''db-contract''
    then \<exists>s'. reconcileContract E cm doms s = ((zero_result, None), s') \<and> upgrade_view s' = (kn_target s, [], [])
    else upgrade_view (snd (reconcileContract E cm doms s)) = upgrade_view s \<and>
           fst (reconcileContract E cm doms s) \<noteq> (zero_result, None)"
  using runUpgradePhase_finished [of "\<lparr>us_name = ''Contract'', us_suffix = ''db-contract'', us_build = buildContractJob,
      us_fail_reason = ''ContractFailed'', us_complete = completeContract E\<rparr>" s cm doms E]
    runUpgradePhase_unfinished [of "\<lparr>us_name = ''Contract'', us_suffix = ''db-contract'', us_build = buildContractJob,
      us_fail_reason = ''ContractFailed'', us_complete = completeContract E\<rparr>" s cm doms E]
  by (auto simp: phase_finished_def phase_job_def reconcileContract_def completeContract_def upgrade_view_def)

lemma phases_distinct [simp]:
  "UpgradePhaseExpanding \<noteq> []" "UpgradePhaseMigrating \<noteq> []" "UpgradePhaseRollingUpdate \<noteq> []"
  "UpgradePhaseContracting \<noteq> []"
  "UpgradePhaseExpanding \<noteq> UpgradePhaseMigrating" "UpgradePhaseExpanding \<noteq> UpgradePhaseRollingUpdate"
  "UpgradePhaseExpanding \<noteq> UpgradePhaseContracting" "UpgradePhaseMigrating \<noteq> UpgradePhaseExpanding"
  "UpgradePhaseMigrating \<noteq> UpgradePhaseRollingUpdate" "UpgradePhaseMigrating \<noteq> UpgradePhaseContracting"
  "UpgradePhaseRollingUpdate \<noteq> UpgradePhaseExpanding" "UpgradePhaseRollingUpdate \<noteq> UpgradePhaseMigrating"
  "UpgradePhaseRollingUpdate \<noteq> UpgradePhaseContracting" "UpgradePhaseContracting \<noteq> UpgradePhaseExpanding"
  "UpgradePhaseContracting \<noteq> UpgradePhaseMigrating" "UpgradePhaseContracting \<noteq> UpgradePhaseRollingUpdate"
  by (simp_all add: phase_defs)

lemma abortUpgrade_view:
  "upgrade_view (snd (abortUpgrade E s)) = upgrade_view s \<or> upgrade_view (snd (abortUpgrade E s)) = (sy_installed s, [], [])"
  "fst (abortUpgrade E s) \<noteq> (zero_result, None)"
  by (auto simp: abortUpgrade_def upgrade_view_def split: prod.split option.split)

lemma reconcileUpgrade_refines:
  assumes "kn_tag s = kn_target s" "kn_tag s \<noteq> sy_installed s"
  shows "upgrade_step (kn_tag s) (phase_finished E cm doms s) False (upgrade_view s)
     (upgrade_view (snd (reconcileUpgrade E cm doms s)))"
proof -
  have v: "upgrade_view s = (sy_installed s, kn_tag s, kn_phase s)"
    using assms(1) by (simp add: upgrade_view_def)
  consider "kn_phase s = UpgradePhaseExpanding" | "kn_phase s = UpgradePhaseMigrating"
    | "kn_phase s = UpgradePhaseContracting"
    | "kn_phase s \<noteq> UpgradePhaseExpanding" "kn_phase s \<noteq> UpgradePhaseMigrating" "kn_phase s \<noteq> UpgradePhaseContracting"
    by blast
  then show ?thesis
  proof cases
    case 1
    then show ?thesis
      using reconcileExpand_cases [OF 1, of E cm doms] assms v
      by (auto simp: reconcileUpgrade_def split: if_splits intro: upgrade_step.intros)
  next
    case 2
    then show ?thesis
      using reconcileMigrate_cases [OF 2, of E cm doms] assms v
      by (auto simp: reconcileUpgrade_def split: if_splits intro: upgrade_step.intros)
  next
    case 3
    then show ?thesis
      using reconcileContract_cases [OF 3, of E cm doms] assms v
      by (auto simp: reconcileUpgrade_def split: if_splits intro: upgrade_step.intros)
  next
    case 4
    then have "upgrade_view (snd (reconcileUpgrade E cm doms s)) = upgrade_view s"
      by (simp add: reconcileUpgrade_def reconcileRollingUpdate_def)
    then show ?thesis by (simp add: upgrade_step.idle)
  qed
qed

lemma initiateUpgrade_cases:
  "(upgrade_view (snd (initiateUpgrade E s)) = upgrade_view s \<or>
    successor (sy_installed s) (kn_tag s) \<and>
    upgrade_view (snd (initiateUpgrade E s)) = (sy_installed s, kn_tag s, UpgradePhaseExpanding)) \<and>
   fst (initiateUpgrade E s) \<noteq> (zero_result, None)"
proof (cases "ParseRelease (sy_installed s)")
  case (Inr a)
  show ?thesis
  proof (cases "ParseRelease (kn_tag s)")
    case (Inr b)
    with \<open>ParseRelease (sy_installed s) = Inr a\<close> show ?thesis
      using order.sequential_pos [of "sy_installed s" a "kn_tag s" b]
      by (auto simp: initiateUpgrade_def Let_def successor_def rank_def) (simp_all add: upgrade_view_def)
  qed (simp add: initiateUpgrade_def Inr)
qed (simp add: initiateUpgrade_def)

lemma not_isUpgrade:
  assumes "\<not> isUpgrade s" "kn_tag s \<noteq> []"
  shows "sy_installed s = [] \<or> same_release (sy_installed s) (kn_tag s)"
  using assms order.patch_pos [of "sy_installed s" _ "kn_tag s"]
  by (auto simp: isUpgrade_def same_release_def rank_def split: if_splits sum.splits)

lemma sync_view:
  fixes s :: "'w keystone" and E :: "('u, 'w) keystone_env"
  assumes "ReconcileSyncJobs K (RunJob (en_hash E) (en_jobs E)) (Some (recordDBJobTerminalState E)) (sync_params s cm doms) s = (r, s')"
  shows "kn_target s' = kn_target s" "kn_phase s' = kn_phase s" "kn_image s' = kn_image s"
    "sy_installed s' = sy_installed s \<or>
     phase_finished E cm doms s ''db-sync'' \<and> kn_tag s \<noteq> [] \<and> sy_installed s' = kn_tag s"
    "r = (zero_result, None) \<Longrightarrow> kn_tag s = [] \<or> sy_installed s' = kn_tag s"
proof -
  let ?rt = "Some (recordDBJobTerminalState E)" and ?run = "RunJob (en_hash E) (en_jobs E)"
  show "kn_target s' = kn_target s" "kn_phase s' = kn_phase s" "kn_image s' = kn_image s"
    using kn_sync_keeps [of K ?run E "sync_params s cm doms" s] assms by simp_all
  have keep: "sy_installed u = sy_installed t" if "run_phase K ?run ?rt p j ph fr ff br bm ef t = (x, u)"
    for p j ph fr ff br bm ef and t u :: "'w keystone" and x
    using run_phase_keeps [of sy_installed ?rt K ?run p j ph fr ff br bm ef t] that
    by (simp add: recordTerminal_def)
  have fin: "phase_finished E cm doms s ''db-sync''"
    if "run_phase K ?run ?rt (sync_params s cm doms) (SyncJob (keystoneJobSetParams s cm doms)) ph fr ff br bm ef s = (None, u)"
    for ph fr ff br bm ef u
    using that jobs.not_finished_not_done [where hash = "en_hash E" and E = "en_jobs E" and w = "sy_world s"
        and j = "SyncJob (keystoneJobSetParams s cm doms)"]
    by (auto simp: run_phase_def Let_def phase_finished_def phase_job_def split: prod.splits option.splits if_splits)
  have ends: "x \<noteq> Some (zero_result, None)"
    if "run_phase K ?run ?rt (sync_params s cm doms) j ph fr ff br bm ef t = (x, u)"
    for j ph fr ff br bm ef and t u :: "'w keystone" and x
    using that by (auto simp: run_phase_def Let_def sync_params_def split: prod.splits option.splits if_splits)
  have p: "sf_jobs (sync_params s cm doms) = keystoneJobSetParams s cm doms"
    "sf_tracks_release (sync_params s cm doms)" "sf_image_tag (sync_params s cm doms) = kn_tag s"
    by (simp_all add: sync_params_def)
  obtain o1 s1 where 1: "run_phase K ?run ?rt (sync_params s cm doms) (SyncJob (keystoneJobSetParams s cm doms))
      ''db-sync'' ReasonDBSyncFailed ''db_sync job failed: %v'' ReasonDBSyncInProgress
      (Msg ''db_sync job is running'' []) ''running db_sync: %w'' s = (o1, s1)"
    by (rule prod.exhaust)
  show "sy_installed s' = sy_installed s \<or>
     phase_finished E cm doms s ''db-sync'' \<and> kn_tag s \<noteq> [] \<and> sy_installed s' = kn_tag s"
  proof (cases o1)
    case None
    then show ?thesis using assms 1 keep [OF 1] fin [OF 1 [unfolded None]]
      by (auto simp: ReconcileSyncJobs_def p Let_def dest!: keep split: prod.splits option.splits if_splits)
  next
    case (Some x)
    then show ?thesis using assms 1 keep [OF 1] by (simp add: ReconcileSyncJobs_def p)
  qed
  show "kn_tag s = [] \<or> sy_installed s' = kn_tag s" if "r = (zero_result, None)"
    using assms that
    by (auto simp: ReconcileSyncJobs_def p Let_def dest: ends split: prod.splits option.splits if_splits)
qed

section \<open>The branches of the database step\<close>

definition provision_passes :: "('u, 'w) keystone_env \<Rightarrow> 'w keystone \<Rightarrow> bool" where
  "provision_passes E s \<longleftrightarrow>
     fst (ReconcileProvision (en_meta E) (en_mdb E) (provision_params s) (sy_conditions s) (sy_world s)) = (zero_result, None)"

lemma reconcileDatabase_waits:
  assumes "\<not> provision_passes E s"
  shows "upgrade_view (snd (reconcileDatabase E cm doms s)) = upgrade_view s"
    "fst (reconcileDatabase E cm doms s) \<noteq> (zero_result, None)"
    "snd (reconcileDatabase E cm doms s) = provisioned E s"
  using assms
  by (auto simp: reconcileDatabase_def provision_passes_def provisioned_def result_is_zero_def Let_def split: prod.splits)

lemma reconcileDatabase_aborts:
  assumes "provision_passes E s" "kn_phase s \<noteq> []" "kn_tag s = sy_installed s"
  shows "reconcileDatabase E cm doms s = abortUpgrade E (provisioned E s)"
  using assms
  by (auto simp: reconcileDatabase_def provision_passes_def provisioned_def result_is_zero_def Let_def split: prod.splits)

lemma reconcileDatabase_changed:
  assumes "provision_passes E s" "kn_phase s \<noteq> []" "kn_tag s \<noteq> sy_installed s" "kn_tag s \<noteq> kn_target s"
  shows "upgrade_view (snd (reconcileDatabase E cm doms s)) = upgrade_view s"
    "fst (reconcileDatabase E cm doms s) \<noteq> (zero_result, None)"
  using assms
  by (auto simp: reconcileDatabase_def provision_passes_def result_is_zero_def Let_def split: prod.splits)

lemma reconcileDatabase_continues:
  assumes "provision_passes E s" "kn_phase s \<noteq> []" "kn_tag s \<noteq> sy_installed s" "kn_tag s = kn_target s"
  shows "reconcileDatabase E cm doms s = reconcileUpgrade E cm doms (provisioned E s)"
  using assms
  by (auto simp: reconcileDatabase_def provision_passes_def provisioned_def result_is_zero_def Let_def split: prod.splits)

lemma isUpgrade_provisioned [simp]: "isUpgrade (provisioned E s) = isUpgrade s"
  by (simp add: isUpgrade_def split: sum.split)

lemma reconcileDatabase_initiates:
  assumes "provision_passes E s" "kn_phase s = []" "isUpgrade s"
  shows "reconcileDatabase E cm doms s = initiateUpgrade E (provisioned E s)"
  using assms isUpgrade_provisioned [of E s]
  by (auto simp: reconcileDatabase_def provision_passes_def provisioned_def result_is_zero_def Let_def split: prod.splits)

lemma reconcileDatabase_syncs:
  assumes "provision_passes E s" "kn_phase s = []" "\<not> isUpgrade s"
  shows "reconcileDatabase E cm doms s =
    ReconcileSyncJobs (en_meta E) (RunJob (en_hash E) (en_jobs E)) (Some (recordDBJobTerminalState E))
      (sync_params (provisioned E s) cm doms) (provisioned E s)"
  using assms isUpgrade_provisioned [of E s]
  by (auto simp: reconcileDatabase_def provision_passes_def provisioned_def result_is_zero_def Let_def split: prod.splits)

lemma database_cases:
  obtains "\<not> provision_passes E s"
  | "provision_passes E s" "kn_phase s \<noteq> []" "kn_tag s = sy_installed s"
  | "provision_passes E s" "kn_phase s \<noteq> []" "kn_tag s \<noteq> sy_installed s" "kn_tag s \<noteq> kn_target s"
  | "provision_passes E s" "kn_phase s \<noteq> []" "kn_tag s \<noteq> sy_installed s" "kn_tag s = kn_target s"
  | "provision_passes E s" "kn_phase s = []" "isUpgrade s"
  | "provision_passes E s" "kn_phase s = []" "\<not> isUpgrade s"
  by blast

section \<open>The steps implement the machine\<close>

lemma database_refines:
  "upgrade_step (kn_tag s) (phase_finished E cm doms (provisioned E s)) False (upgrade_view s)
     (upgrade_view (snd (reconcileDatabase E cm doms s)))"
proof (cases rule: database_cases [of E s])
  case 2
  then show ?thesis
    using abortUpgrade_view(1) [of E "provisioned E s"]
    by (auto simp: reconcileDatabase_aborts upgrade_view_def intro: upgrade_step.idle upgrade_step.aborted)
next
  case 4
  then show ?thesis
    using reconcileUpgrade_refines [of "provisioned E s" E cm doms] by (simp add: reconcileDatabase_continues)
next
  case 5
  then show ?thesis
    using initiateUpgrade_cases [of E "provisioned E s"]
    by (auto simp: reconcileDatabase_initiates upgrade_view_def intro: upgrade_step.idle upgrade_step.started)
next
  case 6
  obtain r s' where "reconcileDatabase E cm doms s = (r, s')" by (rule prod.exhaust)
  then show ?thesis
    using 6 sync_view [of "en_meta E" E "provisioned E s" cm doms r s'] not_isUpgrade [of s]
    by (auto simp: reconcileDatabase_syncs upgrade_view_def intro: upgrade_step.idle upgrade_step.synced)
qed (simp_all add: reconcileDatabase_waits reconcileDatabase_changed upgrade_step.idle)

text \<open>
  When the database step lets the pass go on to the Deployment, either no upgrade is active and the
  installed release is the requested one, or the upgrade towards the requested release has run its
  expand and migrate jobs and waits for the rollout.
\<close>

lemma database_gate:
  assumes "fst (reconcileDatabase E cm doms s) = (zero_result, None)"
    and "s' = snd (reconcileDatabase E cm doms s)"
  shows "(kn_phase s' = [] \<and> (kn_tag s = [] \<or> sy_installed s' = kn_tag s)) \<or>
     (kn_phase s' = UpgradePhaseRollingUpdate \<and> kn_phase s = UpgradePhaseRollingUpdate \<and> kn_target s' = kn_tag s)"
proof (cases rule: database_cases [of E s])
  case 4
  have f: "\<not> passes (reconcileExpand E cm doms t)" if "kn_phase t = UpgradePhaseExpanding" for t
    using reconcileExpand_cases [OF that, of E cm doms] by (auto simp: passes_def split: if_splits)
  have g: "\<not> passes (reconcileMigrate E cm doms t)" if "kn_phase t = UpgradePhaseMigrating" for t
    using reconcileMigrate_cases [OF that, of E cm doms] by (auto simp: passes_def split: if_splits)
  have h: "kn_phase (snd (reconcileContract E cm doms t)) = [] \<and> sy_installed (snd (reconcileContract E cm doms t)) = kn_target t"
    if "kn_phase t = UpgradePhaseContracting" "passes (reconcileContract E cm doms t)" for t
    using reconcileContract_cases [OF that(1), of E cm doms] that(2)
    by (auto simp: passes_def upgrade_view_def split: if_splits)
  from 4 show ?thesis
    using assms f [of "provisioned E s"] g [of "provisioned E s"] h [of "provisioned E s"]
    by (auto simp: reconcileDatabase_continues reconcileUpgrade_def reconcileRollingUpdate_def passes_def split: if_splits)
next
  case 6
  obtain r t where "reconcileDatabase E cm doms s = (r, t)" by (rule prod.exhaust)
  then show ?thesis
    using 6 assms sync_view [of "en_meta E" E "provisioned E s" cm doms r t]
    by (auto simp: reconcileDatabase_syncs)
qed (use assms reconcileDatabase_waits [of E s] reconcileDatabase_changed [of E s] abortUpgrade_view(2)
       initiateUpgrade_cases in \<open>auto simp: reconcileDatabase_aborts reconcileDatabase_initiates\<close>)

lemma deployment_refines:
  "upgrade_step (kn_tag s) fin (fst (en_ensure_deployment E s (sy_world s)) = Inr True) (upgrade_view s)
     (upgrade_view (snd (reconcileDeployment E s)))"
proof -
  consider "upgrade_view (snd (reconcileDeployment E s)) = upgrade_view s"
    | "fst (en_ensure_deployment E s (sy_world s)) = Inr True" "kn_phase s = UpgradePhaseRollingUpdate"
      "upgrade_view (snd (reconcileDeployment E s)) = (sy_installed s, kn_target s, UpgradePhaseContracting)"
    by (fastforce simp: reconcileDeployment_def Let_def upgrade_view_def split: prod.splits sum.splits option.splits if_splits)
  then show ?thesis
    by cases (auto simp: upgrade_view_def intro: upgrade_step.idle upgrade_step.rolled_out)
qed


section \<open>Invariants of the machine\<close>

fun upgrade_inv :: "upgrade_view \<Rightarrow> bool" where
  "upgrade_inv (i, t, p) =
     (if p = [] then t = []
      else p \<in> {UpgradePhaseExpanding, UpgradePhaseMigrating, UpgradePhaseRollingUpdate, UpgradePhaseContracting} \<and>
           successor i t)"

lemma upgrade_step_inv:
  "upgrade_step tag fin rdy v v' \<Longrightarrow> upgrade_inv v \<Longrightarrow> upgrade_inv v'"
  by (induction rule: upgrade_step.induct) auto

text \<open>How far one step can move the installed release.\<close>

lemma upgrade_step_installed:
  assumes "upgrade_step tag fin rdy (i, t, p) (i', t', p')" "upgrade_inv (i, t, p)"
  shows "i' = i \<or> (p = [] \<and> i' = tag \<and> fin ''db-sync'' \<and> (i = [] \<or> same_release i i')) \<or>
     (p = UpgradePhaseContracting \<and> p' = [] \<and> i' = tag \<and> t = tag \<and> fin ''db-contract'' \<and> successor i i')"
  using assms by (auto elim!: upgrade_stepE)

lemma upgrade_step_phase:
  assumes "upgrade_step tag fin rdy (i, t, p) (i', t', p')"
  shows "p' = p \<or> p' = [] \<or> (p, p') \<in> {([], UpgradePhaseExpanding), (UpgradePhaseExpanding, UpgradePhaseMigrating),
     (UpgradePhaseMigrating, UpgradePhaseRollingUpdate), (UpgradePhaseRollingUpdate, UpgradePhaseContracting)}"
  using assms by (auto elim!: upgrade_stepE)

lemma rank_empty [simp]: "rank [] = None"
  by (simp add: rank_def)

lemma successor_rank: "successor a b \<longleftrightarrow> (\<exists>i. rank a = Some i \<and> rank b = Some (i + 1))"
  by (auto simp: successor_def split: option.splits)

lemma same_release_rank: "same_release a b \<Longrightarrow> rank a = rank b"
  by (auto simp: same_release_def)

section \<open>Runs\<close>

text \<open>
  One event in the life of a Keystone resource: a database step, a Deployment step, or anything that
  leaves the three status fields alone (an edit of the spec, the other steps of the pass, the world
  moving on, a status update that was lost).
\<close>

inductive keystone_step :: "('u, 'w) keystone_env \<Rightarrow> 'w keystone \<Rightarrow> 'w keystone \<Rightarrow> bool" for E where
  database: "keystone_step E s (snd (reconcileDatabase E cm doms s))"
| deployment: "keystone_step E s (snd (reconcileDeployment E s))"
| other: "upgrade_view s' = upgrade_view s \<Longrightarrow> keystone_step E s s'"

inductive_cases keystone_stepE: "keystone_step E s s'"

text \<open>Each event is a step of the machine.\<close>

lemma keystone_step_refines:
  "keystone_step E s s' \<Longrightarrow> \<exists>fin rdy. upgrade_step (kn_tag s) fin rdy (upgrade_view s) (upgrade_view s')"
proof (induction rule: keystone_step.induct)
  case (other s' s)
  then show ?case using upgrade_step.idle by metis
qed (blast intro: database_refines deployment_refines)+

lemma keystone_step_inv:
  "keystone_step E s s' \<Longrightarrow> upgrade_inv (upgrade_view s) \<Longrightarrow> upgrade_inv (upgrade_view s')"
  by (blast dest: keystone_step_refines upgrade_step_inv)

lemma keystone_steps_inv:
  "(keystone_step E)\<^sup>*\<^sup>* s s' \<Longrightarrow> upgrade_inv (upgrade_view s) \<Longrightarrow> upgrade_inv (upgrade_view s')"
  by (induction rule: rtranclp_induct) (auto dest: keystone_step_inv)

lemma keystone_step_rank:
  assumes "keystone_step E s s'" "upgrade_inv (upgrade_view s)" "rank (sy_installed s) = Some i"
  shows "rank (sy_installed s') = Some i \<or>
    (rank (sy_installed s') = Some (i + 1) \<and> kn_phase s = UpgradePhaseContracting \<and> kn_phase s' = [])"
proof -
  obtain fin rdy where st: "upgrade_step (kn_tag s) fin rdy (sy_installed s, kn_target s, kn_phase s)
      (sy_installed s', kn_target s', kn_phase s')"
    using keystone_step_refines [OF assms(1)] by (auto simp: upgrade_view_def)
  have "upgrade_inv (sy_installed s, kn_target s, kn_phase s)" using assms(2) by (simp add: upgrade_view_def)
  from upgrade_step_installed [OF st this] assms(3) show ?thesis
    by (elim disjE conjE) (auto simp: successor_rank dest!: same_release_rank)
qed

lemma keystone_steps_rank:
  assumes "(keystone_step E)\<^sup>*\<^sup>* s s'" "upgrade_inv (upgrade_view s)" "rank (sy_installed s) = Some i"
  shows "\<exists>j\<ge>i. rank (sy_installed s') = Some j"
  using assms
proof (induction rule: rtranclp_induct)
  case (step y z)
  then obtain j where j: "i \<le> j" "rank (sy_installed y) = Some j" by blast
  have "upgrade_inv (upgrade_view y)" using step by (blast intro: keystone_steps_inv)
  from keystone_step_rank [OF step.hyps(2) this j(2)] j(1) show ?case
    by (metis add_increasing2 zero_le_one)
qed blast

text \<open>Runs from a resource with no upgrade active, with the phases seen so far, the latest first.\<close>

inductive upgrade_run :: "('u, 'w) keystone_env \<Rightarrow> string list \<Rightarrow> 'w keystone \<Rightarrow> bool" for E where
  fresh: "kn_phase s = [] \<Longrightarrow> kn_target s = [] \<Longrightarrow> upgrade_run E [[]] s"
| step: "upgrade_run E hs s \<Longrightarrow> keystone_step E s s' \<Longrightarrow> upgrade_run E (kn_phase s' # hs) s'"

lemma upgrade_run_inv:
  "upgrade_run E hs s \<Longrightarrow> upgrade_inv (upgrade_view s)"
  by (induction rule: upgrade_run.induct) (auto simp: upgrade_view_def dest!: keystone_step_inv)

definition trail :: "string \<Rightarrow> string list" where
  "trail p =
     (if p = UpgradePhaseExpanding then [UpgradePhaseExpanding, []]
      else if p = UpgradePhaseMigrating then [UpgradePhaseMigrating, UpgradePhaseExpanding, []]
      else if p = UpgradePhaseRollingUpdate
      then [UpgradePhaseRollingUpdate, UpgradePhaseMigrating, UpgradePhaseExpanding, []]
      else if p = UpgradePhaseContracting
      then [UpgradePhaseContracting, UpgradePhaseRollingUpdate, UpgradePhaseMigrating, UpgradePhaseExpanding, []]
      else [p])"

lemma upgrade_run_trail:
  "upgrade_run E hs s \<Longrightarrow> hs \<noteq> [] \<and> hd hs = kn_phase s \<and> (\<exists>rest. remdups_adj hs = trail (kn_phase s) @ rest)"
proof (induction rule: upgrade_run.induct)
  case (fresh s)
  then show ?case by (simp add: trail_def phase_defs)
next
  case (step hs s s')
  then obtain rest where r: "hs \<noteq> []" "hd hs = kn_phase s" "remdups_adj hs = trail (kn_phase s) @ rest" by blast
  then obtain hs' where hs: "hs = kn_phase s # hs'" by (cases hs) auto
  obtain fin rdy where "upgrade_step (kn_tag s) fin rdy (upgrade_view s) (upgrade_view s')"
    using keystone_step_refines [OF step.hyps(2)] by blast
  then have "kn_phase s' = kn_phase s \<or> kn_phase s' = [] \<or>
      (kn_phase s, kn_phase s') \<in> {([], UpgradePhaseExpanding), (UpgradePhaseExpanding, UpgradePhaseMigrating),
        (UpgradePhaseMigrating, UpgradePhaseRollingUpdate), (UpgradePhaseRollingUpdate, UpgradePhaseContracting)}"
    unfolding upgrade_view_def by (rule upgrade_step_phase)
  then have "\<exists>rest. remdups_adj (kn_phase s' # hs) = trail (kn_phase s') @ rest"
    using r(3) unfolding hs by (auto simp: trail_def)
  then show ?case by simp
qed

section \<open>Completion\<close>

definition deployment_ready :: "('u, 'w) keystone_env \<Rightarrow> 'w keystone \<Rightarrow> bool" where
  "deployment_ready E s =
     (let (r, w1) = en_ensure_deployment E s (sy_world s); (e, w2) = en_ensure_service E s w1
      in r = Inr True \<and> e = None \<and> fst (en_ensure_pdb E s w2) = None)"

text \<open>One pass, as far as the upgrade goes: the Deployment step runs when the database step passes.\<close>

definition upgrade_pass :: "('u, 'w) keystone_env \<Rightarrow> string \<Rightarrow> string \<Rightarrow> 'w keystone \<Rightarrow> 'w keystone" where
  "upgrade_pass E cm doms s =
     (case reconcileDatabase E cm doms s of
        (r, s') \<Rightarrow> if r = (zero_result, None) then snd (reconcileDeployment E s') else s')"

definition favourable :: "('u, 'w) keystone_env \<Rightarrow> string \<Rightarrow> string \<Rightarrow> 'w keystone \<Rightarrow> bool" where
  "favourable E cm doms s \<longleftrightarrow>
     provision_passes E s \<and>
     list_all (phase_finished E cm doms (provisioned E s)) upgradeJobSuffixes \<and>
     deployment_ready E (snd (reconcileDatabase E cm doms s))"

lemma reconcileDeployment_view:
  "upgrade_view (snd (reconcileDeployment E s)) =
     (if deployment_ready E s \<and> kn_phase s = UpgradePhaseRollingUpdate
      then (sy_installed s, kn_target s, UpgradePhaseContracting) else upgrade_view s)"
  by (auto simp: reconcileDeployment_def deployment_ready_def Let_def upgrade_view_def
        split: prod.splits sum.splits option.splits if_splits)

text \<open>No step edits the user's specification.\<close>

definition user_spec :: "'w keystone \<Rightarrow> ImageSpec \<times> DatabaseSpec" where
  "user_spec s = (kn_image s, kn_database s)"

lemma user_spec_simps [simp]:
  "user_spec (db_cond E st r m s) = user_spec s"
  "user_spec (deployment_cond E st r m s) = user_spec s"
  "user_spec (eventf ty r m s) = user_spec s"
  "user_spec (recordDBJobTerminalState E ph obs s) = user_spec s"
  "user_spec (s\<lparr>sy_world := w\<rparr>) = user_spec s"
  "user_spec (s\<lparr>sy_conditions := cs\<rparr>) = user_spec s"
  "user_spec (s\<lparr>sy_installed := i\<rparr>) = user_spec s"
  "user_spec (s\<lparr>kn_target := t\<rparr>) = user_spec s"
  "user_spec (s\<lparr>kn_phase := p\<rparr>) = user_spec s"
  "user_spec (s\<lparr>kn_endpoint := u\<rparr>) = user_spec s"
  by (simp_all add: user_spec_def db_cond_def deployment_cond_def eventf_def recordDBJobTerminalState_def split: prod.split)

lemma reconcileDeployment_spec [simp]: "user_spec (snd (reconcileDeployment E s)) = user_spec s"
  by (auto simp: reconcileDeployment_def Let_def split: prod.splits sum.splits option.splits if_splits)

lemma runUpgradePhase_spec:
  assumes "\<And>t. user_spec (snd (us_complete st t)) = user_spec t"
  shows "user_spec (snd (runUpgradePhase E cm doms st s)) = user_spec s"
  using assms
  by (simp add: runUpgradePhase_def setUpgradePhaseRunning_def setUpgradeJobFailed_def Let_def split: prod.split option.split)

lemma reconcileUpgrade_spec [simp]: "user_spec (snd (reconcileUpgrade E cm doms s)) = user_spec s"
  by (simp add: reconcileUpgrade_def reconcileExpand_def reconcileMigrate_def reconcileRollingUpdate_def
        reconcileContract_def runUpgradePhase_spec completeExpand_def completeMigrate_def completeContract_def)

lemma initiateUpgrade_spec [simp]: "user_spec (snd (initiateUpgrade E s)) = user_spec s"
  by (simp add: initiateUpgrade_def Let_def split: sum.split)

lemma abortUpgrade_spec [simp]: "user_spec (snd (abortUpgrade E s)) = user_spec s"
  by (simp add: abortUpgrade_def split: prod.split option.split)

lemma sync_spec [simp]:
  "user_spec (snd (ReconcileSyncJobs K run (Some (recordDBJobTerminalState E)) p s)) = user_spec s"
  by (rule sync_keeps) (simp_all add: recordTerminal_def, simp add: user_spec_def)

lemma reconcileDatabase_spec [simp]: "user_spec (snd (reconcileDatabase E cm doms s)) = user_spec s"
  by (simp add: reconcileDatabase_def Let_def split: prod.split)

lemma upgrade_pass_spec [simp]: "user_spec (upgrade_pass E cm doms s) = user_spec s"
  using reconcileDatabase_spec [of E cm doms s]
  by (auto simp: upgrade_pass_def simp del: reconcileDatabase_spec split: prod.split)

lemma upgrade_pass_image [simp]:
  "kn_image (upgrade_pass E cm doms s) = kn_image s" "kn_database (upgrade_pass E cm doms s) = kn_database s"
  using upgrade_pass_spec [of E cm doms s] by (simp_all add: user_spec_def del: upgrade_pass_spec)

lemma successor_isUpgrade:
  assumes "successor (sy_installed s) (kn_tag s)"
  shows "isUpgrade s" "kn_tag s \<noteq> sy_installed s"
  using assms order.patch_pos [of "sy_installed s" _ "kn_tag s"]
  by (auto simp: isUpgrade_def successor_def rank_def split: sum.splits)

lemma isUpgrade_ranks:
  assumes "rank (sy_installed s) = Some i" "rank (kn_tag s) = Some j" "i \<noteq> j"
  shows "isUpgrade s"
  using assms order.patch_pos [of "sy_installed s" _ "kn_tag s"]
  by (auto simp: isUpgrade_def rank_def split: sum.splits)

lemma initiateUpgrade_starts:
  assumes "successor (sy_installed s) (kn_tag s)"
  shows "\<exists>s'. initiateUpgrade E s = ((requeue_now, None), s') \<and>
     upgrade_view s' = (sy_installed s, kn_tag s, UpgradePhaseExpanding)"
proof -
  obtain a b where ab: "ParseRelease (sy_installed s) = Inr a" "ParseRelease (kn_tag s) = Inr b" "ordinal b = ordinal a + 1"
    using assms by (auto simp: successor_def rank_def split: sum.splits)
  then have "IsSequentialUpgrade a b" using order.sequential_pos by blast
  moreover from this have "\<not> IsDowngrade a b" using order.kinds_exclusive(1) ab by blast
  ultimately show ?thesis using ab by (simp add: initiateUpgrade_def Let_def upgrade_view_def)
qed

text \<open>A tag of another release than the installed one.\<close>

definition release_change :: "string \<Rightarrow> string \<Rightarrow> bool" where
  "release_change a b \<longleftrightarrow> a \<noteq> [] \<and> b \<noteq> [] \<and> \<not> same_release a b"

lemma isUpgrade_iff: "isUpgrade s \<longleftrightarrow> release_change (sy_installed s) (kn_tag s)"
  using order.patch_pos [of "sy_installed s" _ "kn_tag s"]
  by (auto simp: isUpgrade_def release_change_def same_release_def rank_def split: sum.splits)

lemma successor_release_change: "successor a b \<Longrightarrow> release_change a b"
  by (auto simp: release_change_def same_release_def successor_rank)

text \<open>With no upgrade active and no change of release, the database step starts none.\<close>

lemma idle_step_syncs:
  assumes "provision_passes E s" "kn_phase s = []" "\<not> release_change (sy_installed s) (kn_tag s)"
  shows "kn_phase (snd (reconcileDatabase E cm doms s)) = []"
proof -
  obtain r t where "reconcileDatabase E cm doms s = (r, t)" by (rule prod.exhaust)
  then show ?thesis
    using assms sync_view(2) [of "en_meta E" E "provisioned E s" cm doms r t]
    by (auto simp: reconcileDatabase_syncs isUpgrade_iff)
qed

lemma upgrade_pass_advances:
  assumes fav: "favourable E cm doms s" and suc: "successor (sy_installed s) (kn_tag s)"
  shows "kn_phase s = [] \<Longrightarrow> upgrade_view (upgrade_pass E cm doms s) = (sy_installed s, kn_tag s, UpgradePhaseExpanding)"
    and "kn_target s = kn_tag s \<Longrightarrow> kn_phase s = UpgradePhaseExpanding \<Longrightarrow>
       upgrade_view (upgrade_pass E cm doms s) = (sy_installed s, kn_tag s, UpgradePhaseMigrating)"
    and "kn_target s = kn_tag s \<Longrightarrow> kn_phase s = UpgradePhaseMigrating \<Longrightarrow>
       upgrade_view (upgrade_pass E cm doms s) = (sy_installed s, kn_tag s, UpgradePhaseRollingUpdate)"
    and "kn_target s = kn_tag s \<Longrightarrow> kn_phase s = UpgradePhaseRollingUpdate \<Longrightarrow>
       upgrade_view (upgrade_pass E cm doms s) = (sy_installed s, kn_tag s, UpgradePhaseContracting)"
    and "kn_target s = kn_tag s \<Longrightarrow> kn_phase s = UpgradePhaseContracting \<Longrightarrow>
       upgrade_view (upgrade_pass E cm doms s) = (kn_tag s, [], [])"
proof -
  let ?s = "provisioned E s"
  have p: "provision_passes E s" and r: "deployment_ready E (snd (reconcileDatabase E cm doms s))"
    and f: "phase_finished E cm doms ?s ''db-expand''" "phase_finished E cm doms ?s ''db-migrate''"
      "phase_finished E cm doms ?s ''db-contract''"
    using fav by (simp_all add: favourable_def upgradeJobSuffixes_def)
  have ne: "kn_tag s \<noteq> sy_installed s" using successor_isUpgrade suc by blast
  note cont = reconcileDatabase_continues [OF p _ ne] reconcileUpgrade_def
  show "kn_phase s = [] \<Longrightarrow> upgrade_view (upgrade_pass E cm doms s) = (sy_installed s, kn_tag s, UpgradePhaseExpanding)"
    using initiateUpgrade_starts [of ?s E] reconcileDatabase_initiates [OF p _ successor_isUpgrade(1) [OF suc], of cm doms] suc
    by (auto simp: upgrade_pass_def)
  assume t: "kn_target s = kn_tag s"
  show "kn_phase s = UpgradePhaseExpanding \<Longrightarrow>
       upgrade_view (upgrade_pass E cm doms s) = (sy_installed s, kn_tag s, UpgradePhaseMigrating)"
    using reconcileExpand_cases [of ?s E cm doms] f t by (auto simp: upgrade_pass_def cont)
  show "kn_phase s = UpgradePhaseMigrating \<Longrightarrow>
       upgrade_view (upgrade_pass E cm doms s) = (sy_installed s, kn_tag s, UpgradePhaseRollingUpdate)"
    using reconcileMigrate_cases [of ?s E cm doms] f t by (auto simp: upgrade_pass_def cont)
  show "kn_phase s = UpgradePhaseRollingUpdate \<Longrightarrow>
       upgrade_view (upgrade_pass E cm doms s) = (sy_installed s, kn_tag s, UpgradePhaseContracting)"
    using r t by (auto simp: upgrade_pass_def cont reconcileRollingUpdate_def reconcileDeployment_view)
  show "kn_phase s = UpgradePhaseContracting \<Longrightarrow> upgrade_view (upgrade_pass E cm doms s) = (kn_tag s, [], [])"
  proof -
    assume c: "kn_phase s = UpgradePhaseContracting"
    then obtain s' where s': "reconcileDatabase E cm doms s = ((zero_result, None), s')" "upgrade_view s' = (kn_tag s, [], [])"
      using reconcileContract_cases [of ?s E cm doms] f t by (auto simp: cont)
    then have "kn_phase s' = []" by (simp add: upgrade_view_def)
    with s' show ?thesis by (simp add: phase_defs upgrade_pass_def reconcileDeployment_view)
  qed
qed

lemma four_passes:
  assumes "list_all (\<lambda>n. favourable E cm doms ((upgrade_pass E cm doms ^^ n) s)) [0..<4]"
    and "successor (sy_installed s) (kn_tag s)" "kn_phase s = []"
  shows "upgrade_view ((upgrade_pass E cm doms ^^ 4) s) = (sy_installed s, kn_tag s, UpgradePhaseContracting)"
proof -
  define f where "f = upgrade_pass E cm doms"
  have fav: "favourable E cm doms s" "favourable E cm doms (f s)" "favourable E cm doms (f (f s))"
    "favourable E cm doms (f (f (f s)))"
    using assms(1) by (simp_all add: f_def upt_rec eval_nat_numeral)
  note adv = upgrade_pass_advances [of E cm doms, folded f_def]
  have im: "kn_image (f t) = kn_image t" for t by (simp add: f_def)
  have 1: "upgrade_view (f s) = (sy_installed s, kn_tag s, UpgradePhaseExpanding)"
    using adv(1) [OF fav(1)] assms(2,3) by simp
  then have 2: "upgrade_view (f (f s)) = (sy_installed s, kn_tag s, UpgradePhaseMigrating)"
    using adv(2) [OF fav(2)] assms(2) by (simp add: upgrade_view_def im)
  then have 3: "upgrade_view (f (f (f s))) = (sy_installed s, kn_tag s, UpgradePhaseRollingUpdate)"
    using adv(3) [OF fav(3)] assms(2) by (simp add: upgrade_view_def im)
  then have "upgrade_view (f (f (f (f s)))) = (sy_installed s, kn_tag s, UpgradePhaseContracting)"
    using adv(4) [OF fav(4)] assms(2) by (simp add: upgrade_view_def im)
  then show ?thesis by (simp add: f_def eval_nat_numeral)
qed

lemma passes_image [simp]:
  "kn_image ((upgrade_pass E cm doms ^^ n) s) = kn_image s" "kn_database ((upgrade_pass E cm doms ^^ n) s) = kn_database s"
  by (induction n) simp_all

lemma five_passes:
  assumes "list_all (\<lambda>n. favourable E cm doms ((upgrade_pass E cm doms ^^ n) s)) [0..<5]"
    and "successor (sy_installed s) (kn_tag s)" "kn_phase s = []"
  shows "upgrade_view ((upgrade_pass E cm doms ^^ 5) s) = (kn_tag s, [], [])"
proof -
  let ?t = "(upgrade_pass E cm doms ^^ 4) s"
  have "list_all (\<lambda>n. favourable E cm doms ((upgrade_pass E cm doms ^^ n) s)) [0..<4]"
    using assms(1) by (auto simp: list_all_iff)
  from four_passes [OF this assms(2,3)]
  have "upgrade_view ?t = (sy_installed s, kn_tag s, UpgradePhaseContracting)" .
  moreover have "favourable E cm doms ?t" using assms(1) by (simp add: list_all_iff)
  ultimately have "upgrade_view (upgrade_pass E cm doms ?t) = (kn_tag s, [], [])"
    using upgrade_pass_advances(5) [of E cm doms ?t] assms(2) by (simp add: upgrade_view_def)
  then show ?thesis by (simp add: eval_nat_numeral)
qed

lemma contracting_promotes:
  assumes "favourable E cm doms s" "kn_phase s = UpgradePhaseContracting" "kn_target s = kn_tag s" "kn_tag s \<noteq> sy_installed s"
  shows "upgrade_view (snd (reconcileDatabase E cm doms s)) = (kn_tag s, [], [])"
  using assms reconcileContract_cases [of "provisioned E s" E cm doms]
  by (auto simp: favourable_def upgradeJobSuffixes_def reconcileDatabase_continues reconcileUpgrade_def)

lemma contracting_passes:
  assumes "favourable E cm doms s" "kn_phase s = UpgradePhaseContracting" "kn_target s = kn_tag s" "kn_tag s \<noteq> sy_installed s"
  shows "fst (reconcileDatabase E cm doms s) = (zero_result, None)"
  using assms reconcileContract_cases [of "provisioned E s" E cm doms]
  by (auto simp: favourable_def upgradeJobSuffixes_def reconcileDatabase_continues reconcileUpgrade_def)

section \<open>Aborting\<close>

lemma named_job_key [simp]: "key_of (jb_meta (named_job ns name)) = (ns, name)"
  by (simp add: named_job_def key_of_def)

lemma delete_jobs_gone:
  assumes "deletes jb_meta C"
  shows "delete_jobs C m sfxs w = (None, w') \<Longrightarrow>
    (\<forall>sfx\<in>set sfxs. absent C (m_namespace m, m_name m @ ''-'' @ sfx) w') \<and>
    (\<forall>k. k \<notin> (\<lambda>sfx. (m_namespace m, m_name m @ ''-'' @ sfx)) ` set sfxs \<longrightarrow> k_get C k w' = k_get C k w)"
proof (induction sfxs arbitrary: w)
  case (Cons sfx rest)
  let ?k = "(m_namespace m, m_name m @ ''-'' @ sfx)"
  let ?j = "named_job (m_namespace m) (m_name m @ ''-'' @ sfx)"
  obtain e w1 where d: "k_delete C background ?j w = (e, w1)" by (rule prod.exhaust)
  have r: "delete_jobs C m rest w1 = (None, w')" and e: "e = None \<or> (\<exists>x. e = Some x \<and> is_not_found x)"
    using d Cons.prems by (auto simp: Let_def split: option.splits if_splits)
  have gone: "absent C ?k w1" and other: "\<And>k. k \<noteq> ?k \<Longrightarrow> k_get C k w1 = k_get C k w"
    using assms(1) [unfolded deletes_def, rule_format, where opts = background and x = ?j and w = w] d e
    by (auto simp: absent_def)
  have "absent C ?k w'"
  proof (cases "sfx \<in> set rest")
    case False
    then have "?k \<notin> (\<lambda>sfx. (m_namespace m, m_name m @ ''-'' @ sfx)) ` set rest" by auto
    then have "k_get C ?k w' = k_get C ?k w1" using Cons.IH [OF r] by blast
    then show ?thesis using gone by (simp add: absent_def)
  qed (use Cons.IH [OF r] in blast)
  then show ?case using Cons.IH [OF r] other by auto
qed simp

lemma abortUpgrade_outcome:
  "if snd (fst (abortUpgrade E s)) = None
   then abortUpgrade E s = ((requeue_now, None), snd (abortUpgrade E s)) \<and>
     upgrade_view (snd (abortUpgrade E s)) = (sy_installed s, [], []) \<and>
     delete_jobs (je_client (en_jobs E)) (kn_meta s) upgradeJobSuffixes (sy_world s) =
       (None, sy_world (snd (abortUpgrade E s)))
   else upgrade_view (snd (abortUpgrade E s)) = upgrade_view s"
  by (auto simp: abortUpgrade_def deleteUpgradeJobs_def split: prod.splits option.splits)
     (simp add: upgrade_view_def)

section \<open>Passes as runs\<close>

lemma upgrade_pass_split:
  "upgrade_pass E cm doms s = snd (reconcileDatabase E cm doms s) \<or>
   upgrade_pass E cm doms s = snd (reconcileDeployment E (snd (reconcileDatabase E cm doms s)))"
  by (auto simp: upgrade_pass_def split: prod.splits)

lemma upgrade_pass_steps: "(keystone_step E)\<^sup>*\<^sup>* s (upgrade_pass E cm doms s)"
  using upgrade_pass_split [of E cm doms s] keystone_step.database [of E s cm doms]
    keystone_step.deployment [of E "snd (reconcileDatabase E cm doms s)"]
  by (metis converse_rtranclp_into_rtranclp r_into_rtranclp)

lemma upgrade_passes_steps: "(keystone_step E)\<^sup>*\<^sup>* s ((upgrade_pass E cm doms ^^ n) s)"
  by (induction n) (auto intro: rtranclp_trans upgrade_pass_steps)

lemma keystone_steps_run:
  "(keystone_step E)\<^sup>*\<^sup>* s s' \<Longrightarrow> upgrade_run E hs s \<Longrightarrow> \<exists>hs'. upgrade_run E hs' s'"
  by (induction rule: rtranclp_induct) (auto intro: upgrade_run.step)

text \<open>Whether an upgrade may start is decided by the positions of the two releases alone.\<close>

lemma initiateUpgrade_rejects:
  assumes "\<not> successor (sy_installed s) (kn_tag s)" "meta_contract (en_meta E)"
  shows "snd (fst (initiateUpgrade E s)) \<noteq> None \<and> upgrade_view (snd (initiateUpgrade E s)) = upgrade_view s \<and>
    \<not> cond_true (en_meta E) (sy_conditions (snd (initiateUpgrade E s))) ''DatabaseReady''"
proof -
  have no: "\<not> IsSequentialUpgrade a b"
    if "ParseRelease (sy_installed s) = Inr a" "ParseRelease (kn_tag s) = Inr b" for a b
    using assms(1) that order.sequential_pos [OF that] by (auto simp: successor_def rank_def)
  have c: "sy_conditions (db_cond E st reason message s) =
      SetCondition (en_meta E) (sy_conditions s) (mk_condition ''DatabaseReady'' st (m_generation (kn_meta s)) reason message)"
    for st reason message by (simp add: db_cond_def)
  show ?thesis
    using no assms(2) by (simp add: initiateUpgrade_def Let_def c split: sum.split)
qed

end
