(* ===== verification/ControllerProperties.thy ===== *)
theory ControllerProperties
  imports Reconcile Apply Workload
begin

text \<open>
  Properties of the shared controller skeleton and of the workload helpers: the pipeline, requeue
  aggregation, the parallel group, the Ready condition, the status write, instrumentation, cleanup of
  children, Deployments and the autoscaler flow.
\<close>

section \<open>Instances the witnesses use\<close>

definition ex_result :: "duration \<Rightarrow> ctrl_result" where
  "ex_result d = \<lparr>requeue = False, requeue_after = d\<rparr>"

definition ex_step :: "string \<Rightarrow> ctrl_result \<Rightarrow> nat step" where
  "ex_step n r = \<lparr>step_name = n, step_fn = (\<lambda>s. ((r, None), s + 1))\<rparr>"

definition ex_lens :: "condition list cond_lens" where
  "ex_lens = \<lparr>conds_of = (\<lambda>cs. cs), with_conds = (\<lambda>cs _. cs)\<rparr>"

lemma ex_lens_ok: "lens_ok ex_lens" "conds_of ex_lens = (\<lambda>cs. cs)" "with_conds ex_lens = (\<lambda>cs _. cs)"
  by (simp_all add: ex_lens_def lens_ok_def)

definition ex_cond :: "string \<Rightarrow> cstatus \<Rightarrow> condition" where
  "ex_cond t s = mk_condition t s 1 ''R'' (Msg [] [])"

definition ex_member :: "string \<Rightarrow> ctrl_result \<Rightarrow> (condition list, nat) parallel_step" where
  "ex_member t r = \<lparr>p_name = t, p_condition = t,
     p_fn = (\<lambda>(cs, w). ((r, None), (ref_set cs (ex_cond t CTrue), w + 1)))\<rparr>"

definition ex_skeleton :: "condition list skeleton" where
  "ex_skeleton = \<lparr>sk_types = [''A'', ''B''], sk_conds = ex_lens, sk_generation = (\<lambda>_. 1)\<rparr>"

section \<open>The pipeline\<close>

lemma all_pass_append:
  "all_pass instr (xs @ ys) s \<longleftrightarrow> all_pass instr xs s \<and> all_pass instr ys (snd (RunPipeline instr xs s))"
  by (induction xs arbitrary: s) auto

text \<open>
  \<open>RunPipeline\<close> runs the steps in order and stops at the first that returns an error or a non-zero
  result, whose result, error and state are those of the pipeline; the steps after it do not run.  It
  returns a zero result and no error exactly when every step does.
\<close>

lemma pipeline_stops_at_first:
  "RunPipeline instr (pre @ st # post) s =
     (if all_pass instr pre s
      then let s' = snd (RunPipeline instr pre s); r = run_step instr st s'
           in if passes r then RunPipeline instr post (snd r) else r
      else RunPipeline instr pre s) \<and>
   (passes (RunPipeline instr (pre @ st # post) s) \<longleftrightarrow> all_pass instr (pre @ st # post) s)"
  by (auto simp: RunPipeline_append RunPipeline_passes all_pass_append Let_def)

text \<open>
  \<open>ShortestRequeue\<close> returns one of the given results with the smallest positive interval, and the zero
  result when no interval is positive.
\<close>

lemma shortest_requeue_minimal:
  "if intervals rs = [] then ShortestRequeue rs = zero_result
   else ShortestRequeue rs \<in> set rs \<and> requeue_after (ShortestRequeue rs) = Min (set (intervals rs))"
proof (cases "intervals rs = []")
  case True
  then have "requeue_after (ShortestRequeue rs) = 0"
    by (simp add: ShortestRequeue_def ShortestRequeue_from_min zero_result_def)
  then show ?thesis using True ShortestRequeue_from_in [of zero_result rs] by (auto simp: ShortestRequeue_def)
next
  case False
  then have "requeue_after (ShortestRequeue rs) = Min (set (intervals rs))"
    by (simp add: ShortestRequeue_def ShortestRequeue_from_min zero_result_def)
  moreover from this have "requeue_after (ShortestRequeue rs) \<in> set (intervals rs)"
    using False Min_in [of "set (intervals rs)"] by simp
  then have "0 < requeue_after (ShortestRequeue rs)" by (simp add: intervals_def)
  then have "ShortestRequeue rs \<noteq> zero_result" by (auto simp: zero_result_def)
  then have "ShortestRequeue rs \<in> set rs"
    using ShortestRequeue_from_in [of zero_result rs] by (simp add: ShortestRequeue_def)
  ultimately show ?thesis using False by simp
qed

section \<open>The parallel group\<close>

text \<open>What the members leave behind, when what each returns does not depend on the others' effects.\<close>

lemma run_members_outcome:
  assumes "distinct order" "set order \<subseteq> {..<length outs}"
    and "\<And>i w. i \<in> set order \<Longrightarrow> fst (instr (p_name (steps ! i)) (p_fn (steps ! i)) (cr, w)) = R i"
    and "\<And>i w. i \<in> set order \<Longrightarrow> fst (snd (instr (p_name (steps ! i)) (p_fn (steps ! i)) (cr, w))) = X i"
  shows "fst (run_members instr steps order cr outs gerr w) =
      map (\<lambda>i. if i \<in> set order
                then (outs ! i)\<lparr>out_result := fst (R i), out_copy := X i, out_err := snd (R i)\<rparr> else outs ! i)
        [0..<length outs] \<and>
    fst (snd (run_members instr steps order cr outs gerr w)) =
      (case gerr of Some e \<Rightarrow> Some e | None \<Rightarrow> first_some (map (\<lambda>i. snd (R i)) order))"
  using assms
proof (induction order arbitrary: outs gerr w)
  case Nil
  show ?case by (simp add: map_nth split: option.split)
next
  case (Cons j js)
  obtain w' where call: "instr (p_name (steps ! j)) (p_fn (steps ! j)) (cr, w) = ((fst (R j), snd (R j)), (X j, w'))"
    using Cons.prems(3,4) [of j w] by (metis list.set_intros(1) prod.collapse)
  let ?outs = "outs[j := (outs ! j)\<lparr>out_result := fst (R j), out_copy := X j, out_err := snd (R j)\<rparr>]"
  let ?g = "case gerr of None \<Rightarrow> snd (R j) | Some _ \<Rightarrow> gerr"
  have "run_members instr steps (j # js) cr outs gerr w = run_members instr steps js cr ?outs ?g w'"
    using call by (cases "R j") (simp split: option.split)
  moreover have "fst (run_members instr steps js cr ?outs ?g w') =
      map (\<lambda>i. if i \<in> set js
                then (?outs ! i)\<lparr>out_result := fst (R i), out_copy := X i, out_err := snd (R i)\<rparr> else ?outs ! i)
        [0..<length ?outs] \<and>
      fst (snd (run_members instr steps js cr ?outs ?g w')) =
       (case ?g of Some e \<Rightarrow> Some e | None \<Rightarrow> first_some (map (\<lambda>i. snd (R i)) js))"
    using Cons.prems by (intro Cons.IH) auto
  moreover have "(case ?g of Some e \<Rightarrow> Some e | None \<Rightarrow> first_some (map (\<lambda>i. snd (R i)) js)) =
      (case gerr of Some e \<Rightarrow> Some e | None \<Rightarrow> first_some (map (\<lambda>i. snd (R i)) (j # js)))"
    by (cases gerr; cases "snd (R j)") simp_all
  ultimately show ?case
    using Cons.prems(1,2) by (auto simp: nth_list_update)
qed

lemma first_some_None: "first_some xs = None \<longleftrightarrow> (\<forall>x\<in>set xs. x = None)"
  by (induction xs rule: first_some.induct) auto

text \<open>
  The order in which the scheduler runs the members of a parallel group does not matter: when what a
  member returns and does to its copy does not depend on its peers' writes, any two schedules give the
  same merged resource, agree on whether the group fails, and give the same result.
\<close>

lemma parallel_group_schedule:
  assumes "distinct order" "set order = {..<length steps}" "distinct order'" "set order' = {..<length steps}"
    and "\<And>i w w'. i < length steps \<Longrightarrow> fst (instr (p_name (steps ! i)) (p_fn (steps ! i)) (cr, w)) =
             fst (instr (p_name (steps ! i)) (p_fn (steps ! i)) (cr, w'))"
    and "\<And>i w w'. i < length steps \<Longrightarrow> fst (snd (instr (p_name (steps ! i)) (p_fn (steps ! i)) (cr, w))) =
             fst (snd (instr (p_name (steps ! i)) (p_fn (steps ! i)) (cr, w')))"
  shows "fst (snd (RunParallelGroup K L instr steps order (cr, w))) = fst (snd (RunParallelGroup K L instr steps order' (cr, w))) \<and>
    (snd (fst (RunParallelGroup K L instr steps order (cr, w))) = None) =
      (snd (fst (RunParallelGroup K L instr steps order' (cr, w))) = None) \<and>
    fst (fst (RunParallelGroup K L instr steps order (cr, w))) = fst (fst (RunParallelGroup K L instr steps order' (cr, w)))"
proof -
  define R where "R i = fst (instr (p_name (steps ! i)) (p_fn (steps ! i)) (cr, w))" for i
  define X where "X i = fst (snd (instr (p_name (steps ! i)) (p_fn (steps ! i)) (cr, w)))" for i
  define final where "final = map (\<lambda>i. (initial_outcomes steps cr ! i)\<lparr>out_result := fst (R i), out_copy := X i, out_err := snd (R i)\<rparr>)
    [0..<length steps]"
  have run: "fst (run_members instr steps or cr (initial_outcomes steps cr) None w) = final"
      "fst (snd (run_members instr steps or cr (initial_outcomes steps cr) None w)) = None \<longleftrightarrow> (\<forall>i<length steps. snd (R i) = None)"
    if o: "distinct or" "set or = {..<length steps}" for or
  proof -
    have l: "length (initial_outcomes steps cr) = length steps" by (simp add: initial_outcomes_def)
    have m: "fst (run_members instr steps or cr (initial_outcomes steps cr) None w) =
        map (\<lambda>i. if i \<in> set or then (initial_outcomes steps cr ! i)\<lparr>out_result := fst (R i), out_copy := X i, out_err := snd (R i)\<rparr>
              else initial_outcomes steps cr ! i) [0..<length (initial_outcomes steps cr)] \<and>
        fst (snd (run_members instr steps or cr (initial_outcomes steps cr) None w)) =
        (case None of Some e \<Rightarrow> Some e | None \<Rightarrow> first_some (map (\<lambda>i. snd (R i)) or))"
      using o l assms(5,6) by (intro run_members_outcome) (auto simp: R_def X_def)
    then show "fst (run_members instr steps or cr (initial_outcomes steps cr) None w) = final"
      using o l by (auto simp: final_def)
    show "fst (snd (run_members instr steps or cr (initial_outcomes steps cr) None w)) = None \<longleftrightarrow>
        (\<forall>i<length steps. snd (R i) = None)"
      using m o by (auto simp: first_some_None)
  qed
  from run [OF assms(1,2)] run [OF assms(3,4)] show ?thesis
    by (auto simp: RunParallelGroup_def Let_def split: prod.split)
qed

text \<open>The group of two members run in either order.\<close>

lemma ex_members:
  assumes "i < length [ex_member ''A'' (ex_result 3), ex_member ''B'' (ex_result 2)]"
  shows "fst (p_fn ([ex_member ''A'' (ex_result 3), ex_member ''B'' (ex_result 2)] ! i) (cs, w)) =
      fst (p_fn ([ex_member ''A'' (ex_result 3), ex_member ''B'' (ex_result 2)] ! i) (cs, w'))"
    "fst (snd (p_fn ([ex_member ''A'' (ex_result 3), ex_member ''B'' (ex_result 2)] ! i) (cs, w))) =
      fst (snd (p_fn ([ex_member ''A'' (ex_result 3), ex_member ''B'' (ex_result 2)] ! i) (cs, w')))"
  using assms by (auto simp: less_Suc_eq ex_member_def)

lemma run_members_types:
  "map out_type (fst (run_members instr steps order cr outs gerr w)) = map out_type outs"
proof (induction order arbitrary: outs gerr w)
  case (Cons i js)
  have "map out_type (outs[i := (outs ! i)\<lparr>out_result := r, out_copy := c, out_err := e\<rparr>]) = map out_type outs" for r c e
    by (cases "i < length outs") (auto intro!: nth_equalityI simp: nth_list_update list_update_beyond)
  then show ?case by (simp add: Cons.IH split: prod.split)
qed simp

text \<open>
  After a parallel group every condition type that belongs to no member is what it was, and the type of
  a member whose copy carries a condition holds that condition, whether or not the group failed.
\<close>

lemma parallel_group_merges:
  assumes "meta_contract K" "lens_ok L" "distinct (map p_condition steps)"
    and "run_members instr steps order cr (initial_outcomes steps cr) None w = (outs, ge, w')"
    and "conds_of L (fst (snd (RunParallelGroup K L instr steps order (cr, w)))) = cs'"
  shows "(t \<in> p_condition ` set steps \<or> GetCondition K cs' t = GetCondition K (conds_of L cr) t) \<and>
    list_all (\<lambda>out. case GetCondition K (conds_of L (out_copy out)) (out_type out) of
        None \<Rightarrow> True
      | Some c \<Rightarrow> (case GetCondition K cs' (out_type out) of None \<Rightarrow> False | Some c' \<Rightarrow> cond_agree c' c)) outs"
proof -
  have types: "map out_type outs = map p_condition steps"
    using run_members_types [of instr steps order cr "initial_outcomes steps cr" None w] assms(4)
    by (simp add: initial_outcomes_def comp_def)
  then have ts: "out_type ` set outs = p_condition ` set steps"
    by (metis list.set_map)
  have cs': "cs' = merge_outcomes K (conds_of L) outs (conds_of L cr)"
    using assms(2,4,5) by (auto simp: RunParallelGroup_def Let_def split: if_splits)
  have "\<exists>c'. GetCondition K cs' (out_type out) = Some c' \<and> cond_agree c' c"
    if "out \<in> set outs" "GetCondition K (conds_of L (out_copy out)) (out_type out) = Some c" for out c
    unfolding cs' using assms(1,3) types that by (intro merge_outcomes_in) simp_all
  then have "list_all (\<lambda>out. case GetCondition K (conds_of L (out_copy out)) (out_type out) of
        None \<Rightarrow> True
      | Some c \<Rightarrow> (case GetCondition K cs' (out_type out) of None \<Rightarrow> False | Some c' \<Rightarrow> cond_agree c' c)) outs"
    by (fastforce simp: list_all_iff split: option.split)
  then show ?thesis
    using merge_outcomes_notin [OF assms(1), of t outs "conds_of L" "conds_of L cr"] ts cs' by auto
qed

text \<open>A group whose member \<open>A\<close> succeeds and whose member \<open>B\<close> fails.\<close>

definition ex_failing :: "(condition list, nat) parallel_step" where
  "ex_failing = \<lparr>p_name = ''B'', p_condition = ''B'',
     p_fn = (\<lambda>(cs, w). ((zero_result, Some (ExtErr ''down'')), (ref_set cs (ex_cond ''B'' CFalse), w)))\<rparr>"

section \<open>Status\<close>

text \<open>
  The aggregate Ready condition is true exactly when every sub-condition is, every other condition is
  left as it was, and aggregating twice is aggregating once.
\<close>

lemma aggregate_ready:
  assumes "meta_contract K" "''Ready'' \<notin> set ts"
  shows "(IsReady K (SetAggregateReady K cs g ts) \<longleftrightarrow> list_all (cond_true K cs) ts) \<and>
    SetAggregateReady K (SetAggregateReady K cs g ts) g ts = SetAggregateReady K cs g ts \<and>
    (t \<noteq> ''Ready'' \<longrightarrow> GetCondition K (SetAggregateReady K cs g ts) t = GetCondition K cs t)"
  using assms by (simp add: SetAggregateReady_iff SetAggregateReady_idem AllTrue_iff)

text \<open>
  A pass over a converged resource writes nothing: when the status already carries the aggregate Ready
  condition of this generation, \<open>UpdateStatus\<close> leaves the resource and the API server as they are and
  returns the caller's result and error.
\<close>

lemma converged_status_not_written:
  assumes "meta_contract K" "lens_ok (sk_conds S)" "''Ready'' \<notin> set (sk_types S)"
    and "\<And>cs cr. sk_generation S (with_conds (sk_conds S) cs cr) = sk_generation S cr"
    and "\<And>st. sem_eq st st"
  shows "SkeletonUpdateStatus K S sem_eq status_of status_update (Some (status_of (SetReady K S cr))) None
      result reconcile_err (SetReady K S cr, w) = ((result, reconcile_err), (SetReady K S cr, w))"
  using assms by (simp add: SkeletonUpdateStatus_def UpdateStatus_def SetReady_idem)

text \<open>
  A status write that fails loses neither error: the returned error is the join of the reconcile error and
  the write's, so every API reason or sentinel of the reconcile error is still found in it.
\<close>

lemma status_write_failure_keeps_errors:
  assumes "status_update (mutate cr) w = (Inl e, w')"
    and "case before of None \<Rightarrow> True | Some b \<Rightarrow> \<not> sem_eq b (status_of (mutate cr))"
    and "UpdateStatus sem_eq status_of status_update before mutate result reconcile_err (cr, w) = ((r, e'), s')"
  shows "r = zero_result \<and> s' = (mutate cr, w') \<and>
    (case e' of None \<Rightarrow> False
     | Some x \<Rightarrow> reason_of x = (case reconcile_err of None \<Rightarrow> reason_of e
         | Some y \<Rightarrow> (case reason_of y of None \<Rightarrow> reason_of e | Some a \<Rightarrow> Some a)))"
  using assms
  by (auto simp: UpdateStatus_def errors_join_def first_some_Cons split: option.splits if_splits)

text \<open>
  A sub-reconciler marked as failed makes the aggregate Ready condition false at the next aggregation,
  whatever the conditions were.
\<close>

lemma failed_step_clears_ready:
  assumes "meta_contract K" "lens_ok (sk_conds S)" "ct \<in> set (sk_types S)" "''Ready'' \<notin> set (sk_types S)"
  shows "\<not> IsReady K (conds_of (sk_conds S) (SetReady K S (MarkFailed K S ct reason e cr)))"
  using assms by (rule MarkFailed_not_ready)

section \<open>Instrumentation\<close>

text \<open>
  Instrumenting a pipeline changes neither its result nor its error nor the state outside the metrics,
  as long as no step reads the metrics.
\<close>

lemma instrumented_pipeline:
  assumes "list_all (\<lambda>st. blind fst (step_fn st)) sts"
  shows "fst (RunPipeline (Instrument on_snd clock ct) sts (x, m)) = fst (RunPipeline (\<lambda>n f. f) sts (x, m')) \<and>
    fst (snd (RunPipeline (Instrument on_snd clock ct) sts (x, m))) = fst (snd (RunPipeline (\<lambda>n f. f) sts (x, m')))"
  using prom.pipeline_transparent [OF assms, of "(x, m)" "(x, m')" clock ct] by simp

definition ex_metered :: "(nat \<times> metrics) step" where
  "ex_metered = \<lparr>step_name = ''Config'', step_fn = (\<lambda>(n, m). ((zero_result, Some (ExtErr ''down'')), (n + 1, m)))\<rparr>"

section \<open>Children\<close>

definition applied_child ::
  "('o, 'u, 'w) ssa_api \<Rightarrow> objmeta \<Rightarrow> ('o, 'u, 'w) child_params \<Rightarrow> 'w \<Rightarrow> 'o result \<times> 'w" where
  "applied_child A owner p w =
     (if ch_unowned p then EnsureUnownedObject A (ch_child p) FieldManager w
      else EnsureObject A owner (ch_child p) FieldManager w)"

text \<open>
  \<open>ProjectChild\<close> sets the caller's condition to true exactly when the child was applied and the applied
  child reports Ready, and then alone returns a zero result and no error; a rejected child (API reason
  Invalid) carries the rejection reason, any other failure the error reason; no other condition changes.
\<close>

lemma project_child_outcome:
  assumes "meta_contract K" "ch_wait_requeue p \<noteq> 0"
    and "ProjectChild K A owner p cs w = ((r, e), cs', w')"
  shows "w' = snd (applied_child A owner p w) \<and>
    (t \<noteq> ch_condition p \<longrightarrow> GetCondition K cs' t = GetCondition K cs t) \<and>
    (case fst (applied_child A owner p w) of
       Inl x \<Rightarrow> r = zero_result \<and> e = Some x \<and>
         cond_is K cs' (ch_condition p) CFalse (if is_invalid x then ch_rejected_reason p else ch_error_reason p)
     | Inr live \<Rightarrow> e = None \<and>
         (if IsReady K (ch_conditions p live)
          then r = zero_result \<and> cond_is K cs' (ch_condition p) CTrue (ch_ready_reason p)
          else r \<noteq> zero_result \<and> cond_is K cs' (ch_condition p) CFalse (ch_waiting_reason p)))"
  using assms
  by (auto simp: ProjectChild_def applied_child_def Let_def split: sum.splits prod.splits if_splits)

definition ex_child :: "condition list \<Rightarrow> (condition list \<times> objmeta, condition list \<times> objmeta, (objkey \<times> condition list \<times> objmeta) list) child_params" where
  "ex_child cs = \<lparr>ch_child = (cs, blank_meta), ch_condition = ''ChildReady'', ch_ready_reason = ''Ready'',
     ch_ready_message = Msg [] [], ch_waiting_reason = ''Waiting'', ch_waiting_message = Msg [] [],
     ch_rejected_reason = ''Rejected'', ch_rejected_message = (\<lambda>e. Msg [] []), ch_error_reason = ''Error'',
     ch_error_message = (\<lambda>e. Msg [] []), ch_wait_requeue = 5, ch_generation = 1, ch_conditions = fst, ch_unowned = False\<rparr>"

text \<open>
  Orphan cleanup deletes nothing but the named child, and only when the live child is controlled by the
  owner: an absent child and a child of somebody else leave the API server as it is, no other object is
  touched, and after a cleanup without error the owner's child is gone.
\<close>

lemma orphan_cleanup_safe:
  assumes "deletes meta C" "DeleteOrphanedChild meta C kind uid key w = (e, w')"
    and "case k_get C key w of Inl x \<Rightarrow> True | Inr live \<Rightarrow> key_of (meta live) = key"
  shows "(k \<noteq> key \<longrightarrow> k_get C k w' = k_get C k w) \<and>
    (case k_get C key w of
       Inl x \<Rightarrow> w' = w \<and> (e = None) = is_not_found x
     | Inr live \<Rightarrow> if m_controller (meta live) = Some uid then e = None \<longrightarrow> absent C key w' else e = None \<and> w' = w)"
proof (cases "k_get C key w")
  case (Inl x)
  then show ?thesis using assms(2) by (auto simp: DeleteOrphanedChild_def DeleteOrphanedChildFunc_def split: if_splits)
next
  case (Inr live)
  obtain d w1 where d: "k_delete C background live w = (d, w1)" by (rule prod.exhaust)
  then have "k \<noteq> key \<Longrightarrow> k_get C k w1 = k_get C k w"
    using deletes_other [OF assms(1), of k live background w] assms(3) Inr by simp
  moreover have "ignore_not_found d = None \<Longrightarrow> absent C key w1"
    using deletes_gone [OF assms(1) d] assms(3) Inr by simp
  ultimately show ?thesis
    using assms(2) Inr d
    by (auto simp: DeleteOrphanedChild_def DeleteOrphanedChildFunc_def controlled_by_def ignore_not_found_def
          split: option.splits if_splits)
qed

definition ex_owned :: "string \<Rightarrow> string \<Rightarrow> objmeta" where
  "ex_owned name uid = blank_meta\<lparr>m_name := name, m_controller := Some uid\<rparr>"

section \<open>Workloads\<close>

definition key_deployment :: "'p deployment \<Rightarrow> objkey" where
  "key_deployment d = key_of (dp_meta d)"

text \<open>
  Applying over an existing Deployment: a replica count the caller leaves unset is the live one, so an
  autoscaler's choice survives; a Deployment whose selector differs is deleted and reported not ready,
  and nothing is applied; readiness is that of the applied object.
\<close>

lemma deployment_applied_over_live:
  assumes "k_get C (key_deployment deploy) w = Inr existing"
  shows "EnsureDeployment C A owner deploy w =
    (if dp_selector existing = dp_selector deploy
     then (case EnsureObject A owner
             (deploy\<lparr>dp_replicas := (case dp_replicas deploy of None \<Rightarrow> dp_replicas existing | Some n \<Rightarrow> Some n)\<rparr>)
             FieldManager w of
             (Inl e, w') \<Rightarrow> (Inl e, w')
           | (Inr live, w') \<Rightarrow> (Inr (m_generation (dp_meta live) \<le> dp_observed_generation live \<and>
               (case dp_replicas live of None \<Rightarrow> 1 | Some n \<Rightarrow> n) \<le> dp_ready_replicas live \<and>
               (''Available'', CTrue) \<in> set (dp_conditions live)), w'))
     else (case k_delete C no_opts existing w of
             (Some e, w') \<Rightarrow> (Inl (Errorf ''deleting Deployment %s/%s for selector migration: %w''
                (obj_ref (dp_meta deploy) @ [Wrap e])), w')
           | (None, w') \<Rightarrow> (Inr False, w')))"
proof -
  have id: "deploy\<lparr>dp_replicas := Some n\<rparr> = deploy" if "dp_replicas deploy = Some n" for n
    using that by (cases deploy) simp
  show ?thesis
    using assms
    by (auto simp: EnsureDeployment_def key_deployment_def Let_def IsDeploymentReady_iff id split: option.split sum.split prod.split)
qed

definition ex_deployment :: "int option \<Rightarrow> string gomap \<Rightarrow> unit deployment" where
  "ex_deployment n sel = \<lparr>dp_meta = blank_meta, dp_replicas = n, dp_selector = \<lparr>ls_match_labels = sel, ls_match_expressions = []\<rparr>,
     dp_template = (), dp_observed_generation = 0, dp_ready_replicas = 0, dp_updated_replicas = 0, dp_conditions = []\<rparr>"

text \<open>
  A Service whose immutable fields were assigned is never applied with different ones: the step reports an
  error and leaves the API server as it is; an apply goes out only when each of the three fields is unset on
  one side or equal on both.
\<close>

lemma service_immutable_fields:
  assumes "k_get C (key_of (sv_meta svc)) w = Inr existing"
    and "EnsureService C A owner svc w = (e, w')" "w' \<noteq> w \<or> e = None"
  shows "(sv_cluster_ip svc = [] \<or> sv_cluster_ip existing = [] \<or> sv_cluster_ip svc = sv_cluster_ip existing) \<and>
    (sv_cluster_ips svc = [] \<or> sv_cluster_ips existing = [] \<or> sv_cluster_ips svc = sv_cluster_ips existing) \<and>
    (sv_ip_families svc = [] \<or> sv_ip_families existing = [] \<or> sv_ip_families svc = sv_ip_families existing)"
proof -
  have "validateImmutableServiceFields svc existing = None"
    using assms by (auto simp: EnsureService_def Let_def split: option.splits)
  then show ?thesis by (simp add: validateImmutable_None)
qed

definition ex_service :: "string \<Rightarrow> service" where
  "ex_service ip = \<lparr>sv_meta = blank_meta, sv_cluster_ip = ip, sv_cluster_ips = [], sv_ip_families = [],
     sv_selector = [], sv_ports = [\<lparr>vp_port = 5000, vp_target = 5000, vp_protocol = ''TCP''\<rparr>]\<rparr>"

text \<open>
  The autoscaler flow never requeues; it sets its condition to true, with the reason of its mode, when the
  apply or the deletion succeeds, and leaves every condition alone when it fails.  Switched off, a flow
  without error leaves no autoscaler behind.
\<close>

lemma hpa_flow_outcome:
  assumes "meta_contract K" "deletes hp_meta C" "ReconcileHPA K C A owner p cs w = ((r, e), cs', w')"
  shows "r = zero_result \<and>
    (if e = None
     then cond_is K cs' (hf_condition p) CTrue (if hf_enabled p then ReasonHPAReady else ReasonHPANotRequired)
     else cs' = cs) \<and>
    (\<not> hf_enabled p \<and> e = None \<longrightarrow> absent C (hf_namespace p, hf_name p) w')"
proof -
  have "absent C (hf_namespace p, hf_name p) w'" if off: "\<not> hf_enabled p" "e = None"
  proof -
    let ?h = "\<lparr>hp_meta = blank_meta\<lparr>m_name := hf_name p, m_namespace := hf_namespace p\<rparr>, hp_target = [],
             hp_min_replicas = None, hp_max_replicas = 0, hp_metrics = []\<rparr>"
    obtain d where d: "k_delete C no_opts ?h w = (d, w')" "ignore_not_found d = None"
      using assms(3) off by (auto simp: ReconcileHPA_def DeleteHPA_def split: prod.splits option.splits)
    from deletes_gone [OF assms(2) d] show ?thesis by (simp add: key_of_def)
  qed
  then show ?thesis
    using assms(1,3) by (auto simp: ReconcileHPA_def split: prod.splits option.splits if_splits)
qed

definition ex_hpa :: hpa where
  "ex_hpa = \<lparr>hp_meta = ex_owned ''keystone'' ''u1'', hp_target = ''keystone'', hp_min_replicas = Some 2,
     hp_max_replicas = 5, hp_metrics = []\<rparr>"

end
