(* ===== verification/Config.thy ===== *)
theory Config
  imports Kube
begin

text \<open>
  Configuration rendering, \<open>internal/common/config/config.go\<close>: INI rendering, merging of user
  configuration over defaults, immutable content-addressed ConfigMaps and Secrets, and their pruning.

  A map is an association list in the order a \<open>range\<close> loop meets its entries.  That the results do
  not depend on this order is a theorem, not an assumption.
\<close>

type_synonym sections = "string gomap gomap"
type_synonym multi_sections = "string list gomap gomap"

abbreviation nl :: char where "nl \<equiv> CHR 0x0A"

section \<open>Rendering\<close>

fun LiftSections :: "sections \<Rightarrow> multi_sections" where
  "LiftSections [] = []"
| "LiftSections ((s, kvs) # m) = map_put s (map (\<lambda>(k, v). (k, [v])) kvs) (LiftSections m)"

definition get_or :: "'v \<Rightarrow> 'v gomap \<Rightarrow> string \<Rightarrow> 'v" where
  "get_or d m k = (case map_of m k of None \<Rightarrow> d | Some v \<Rightarrow> v)"

definition render_key :: "string list gomap \<Rightarrow> string \<Rightarrow> string" where
  "render_key kvs k = concat (map (\<lambda>v. k @ '' = '' @ v @ [nl]) (get_or [] kvs k))"

definition render_section :: "multi_sections \<Rightarrow> string \<Rightarrow> string" where
  "render_section m name =
     ''['' @ name @ '']'' @ [nl] @
     concat (map (render_key (get_or [] m name)) (sorted_keys (get_or [] m name)))"

fun render_names :: "multi_sections \<Rightarrow> bool \<Rightarrow> string list \<Rightarrow> string" where
  "render_names m first [] = []"
| "render_names m first (n # ns) =
     (if first then [] else [nl]) @ render_section m n @ render_names m False ns"

definition RenderINIMulti :: "multi_sections \<Rightarrow> string" where
  "RenderINIMulti m = (if m = [] then [] else render_names m True (sorted_keys m))"

definition RenderINI :: "sections \<Rightarrow> string" where
  "RenderINI m = RenderINIMulti (LiftSections m)"

section \<open>Merging\<close>

fun put_all :: "'v gomap \<Rightarrow> 'v gomap \<Rightarrow> 'v gomap" where
  "put_all [] dst = dst"
| "put_all ((k, v) # kvs) dst = put_all kvs (map_put k v dst)"

fun copy_sections :: "sections \<Rightarrow> sections \<Rightarrow> sections" where
  "copy_sections [] result = result"
| "copy_sections ((s, kvs) # m) result = copy_sections m (map_put s (put_all kvs []) result)"

fun overlay_sections :: "sections \<Rightarrow> sections \<Rightarrow> sections" where
  "overlay_sections [] result = result"
| "overlay_sections ((s, kvs) # m) result =
     (let result1 = (if map_of result s = None then map_put s [] result else result)
      in overlay_sections m (map_put s (put_all kvs (get_or [] result1 s)) result1))"

definition MergeDefaults :: "sections \<Rightarrow> sections \<Rightarrow> sections" where
  "MergeDefaults user_config defaults = overlay_sections user_config (copy_sections defaults [])"

definition InjectOsloPolicyConfig :: "sections \<Rightarrow> string \<Rightarrow> sections" where
  "InjectOsloPolicyConfig config policy_file_path =
     (if policy_file_path = [] then config
      else let result = MergeDefaults config [];
               result1 = (if map_of result ''oslo_policy'' = None then map_put ''oslo_policy'' [] result else result)
           in map_put ''oslo_policy''
                (map_put ''policy_file'' policy_file_path (get_or [] result1 ''oslo_policy'')) result1)"

section \<open>What a section map denotes\<close>

definition wf_sections :: "('k \<times> ('l \<times> 'v) list) list \<Rightarrow> bool" where
  "wf_sections m \<longleftrightarrow> wf_gomap m \<and> list_all (\<lambda>(s, kvs). wf_gomap kvs) m"

definition den :: "('k \<times> ('l \<times> 'v) list) list \<Rightarrow> 'k \<Rightarrow> ('l \<Rightarrow> 'v option) option" where
  "den m s = map_option map_of (map_of m s)"

definition look :: "sections \<Rightarrow> string \<Rightarrow> string \<Rightarrow> string option" where
  "look m s k = (case map_of m s of None \<Rightarrow> None | Some kvs \<Rightarrow> map_of kvs k)"

lemma look_den: "look m s k = (case den m s of None \<Rightarrow> None | Some f \<Rightarrow> f k)"
  by (simp add: look_def den_def split: option.splits)

lemma look_Nil [simp]: "look [] s k = None"
  by (simp add: look_def)

lemma look_put [simp]: "look (map_put s kvs m) t k = (if t = s then map_of kvs k else look m t k)"
  by (simp add: look_def)

lemma get_or_look: "map_of (get_or [] m s) k = look m s k"
  by (simp add: get_or_def look_def split: option.splits)

lemma wf_sections_simps [simp]:
  "wf_sections []"
  "wf_sections ((s, kvs) # m) \<longleftrightarrow> s \<notin> fst ` set m \<and> wf_gomap kvs \<and> wf_sections m"
  by (auto simp: wf_sections_def)

lemma wf_sections_get: "wf_sections m \<Longrightarrow> map_of m s = Some kvs \<Longrightarrow> wf_gomap kvs"
  by (auto simp: wf_sections_def list_all_iff dest: map_of_SomeD)

lemma wf_sections_put [simp, wf_intro]:
  "wf_sections m \<Longrightarrow> wf_gomap kvs \<Longrightarrow> wf_sections (map_put s kvs m)"
proof (induction m)
  case (Cons a m)
  then show ?case by (cases a) (auto simp: dom_update intro: rev_image_eqI)
qed simp

lemma wf_put_all [simp, wf_intro]: "wf_gomap dst \<Longrightarrow> wf_gomap (put_all kvs dst)"
  by (induction kvs dst rule: put_all.induct) auto

lemma map_of_put_all: "wf_gomap kvs \<Longrightarrow> map_of (put_all kvs dst) = map_of dst ++ map_of kvs"
proof (induction kvs dst rule: put_all.induct)
  case (2 k v kvs dst)
  then have "map_of kvs k = None" by (simp add: map_of_eq_None_iff)
  with 2 show ?case by (auto simp: fun_eq_iff map_add_def split: option.splits)
qed simp

lemma den_put [simp]: "den (map_put s kvs m) = (den m)(s \<mapsto> map_of kvs)"
  by (auto simp: den_def fun_eq_iff)

lemma den_Nil [simp]: "den [] = Map.empty"
  by (simp add: den_def fun_eq_iff)

lemma den_Cons [simp]: "den ((s, kvs) # m) = (den m)(s \<mapsto> map_of kvs)"
  by (auto simp: den_def fun_eq_iff)

lemma den_None: "den m s = None \<longleftrightarrow> s \<notin> fst ` set m"
  by (simp add: den_def map_of_eq_None_iff)

lemma wf_copy_sections [simp, wf_intro]: "wf_sections result \<Longrightarrow> wf_sections (copy_sections m result)"
  by (induction m result rule: copy_sections.induct) auto

lemma den_copy_sections: "wf_sections m \<Longrightarrow> den (copy_sections m result) = den result ++ den m"
proof (induction m result rule: copy_sections.induct)
  case (2 s kvs m result)
  then have "den m s = None" by (simp add: den_None)
  with 2 show ?case by (auto simp: fun_eq_iff map_add_def map_of_put_all split: option.splits)
qed simp

text \<open>One user section over what is there: the entries are merged, the user's win.\<close>

definition over :: "('k \<Rightarrow> 'v option) option \<Rightarrow> ('k \<Rightarrow> 'v option) option \<Rightarrow> ('k \<Rightarrow> 'v option) option" where
  "over u d = (case u of None \<Rightarrow> d | Some f \<Rightarrow> (case d of None \<Rightarrow> Some f | Some g \<Rightarrow> Some (g ++ f)))"

lemma over_simps [simp]: "over None d = d" "over (Some f) None = Some f" "over (Some f) (Some g) = Some (g ++ f)"
  by (simp_all add: over_def)

lemma get_or_den: "map_of (get_or [] m s) = (case den m s of None \<Rightarrow> Map.empty | Some f \<Rightarrow> f)"
  by (auto simp: get_or_def den_def split: option.splits)

lemma wf_get_or [simp, wf_intro]: "wf_sections m \<Longrightarrow> wf_gomap (get_or [] m s)"
  by (auto simp: get_or_def wf_sections_get split: option.splits)

lemma wf_overlay_sections [simp, wf_intro]:
  "wf_sections result \<Longrightarrow> wf_sections (overlay_sections m result)"
  by (induction m result rule: overlay_sections.induct) (auto simp: Let_def)

lemma den_overlay_sections:
  "wf_sections m \<Longrightarrow> den (overlay_sections m result) = (\<lambda>s. over (den m s) (den result s))"
proof (induction m result rule: overlay_sections.induct)
  case (2 s kvs m result)
  let ?r = "if map_of result s = None then map_put s [] result else result"
  have "map_of (put_all kvs (get_or [] ?r s)) = (case over (Some (map_of kvs)) (den result s) of Some f \<Rightarrow> f)"
    using 2 by (auto simp: map_of_put_all get_or_den den_def split: option.splits)
  then have d: "Some (map_of (put_all kvs (get_or [] ?r s))) = over (Some (map_of kvs)) (den result s)"
    by (cases "den result s") simp_all
  have o: "den ?r t = den result t" if "t \<noteq> s" for t using that by simp
  have IH: "den (overlay_sections m (map_put s (put_all kvs (get_or [] ?r s)) ?r)) =
      (\<lambda>t. over (den m t) (den (map_put s (put_all kvs (get_or [] ?r s)) ?r) t))"
    using 2 by simp
  have "den m s = None" using 2 by (simp add: den_None)
  then show ?case
    unfolding overlay_sections.simps Let_def IH using d o by (auto simp: fun_eq_iff)
qed simp

lemma wf_MergeDefaults [simp, wf_intro]: "wf_sections (MergeDefaults u d)"
  by (simp add: MergeDefaults_def)

lemma den_MergeDefaults:
  "wf_sections u \<Longrightarrow> wf_sections d \<Longrightarrow> den (MergeDefaults u d) s = over (den u s) (den d s)"
  by (simp add: MergeDefaults_def den_overlay_sections den_copy_sections)

lemma look_MergeDefaults:
  assumes "wf_sections u" "wf_sections d"
  shows "look (MergeDefaults u d) s k = (case look u s k of Some v \<Rightarrow> Some v | None \<Rightarrow> look d s k)"
  using assms by (auto simp: look_den den_MergeDefaults map_add_def split: option.splits)

section \<open>Sections as an interface\<close>

text \<open>
  What the other packages use of a section map: layers merge with the upper one winning, and merging
  is a copy when there is nothing below.
\<close>

locale layered =
  fixes merge :: "'m \<Rightarrow> 'm \<Rightarrow> 'm" and nothing :: 'm and lookup :: "'m \<Rightarrow> 'k \<Rightarrow> 'v option"
    and ok :: "'m \<Rightarrow> bool"
  assumes merge_ok: "ok u \<Longrightarrow> ok d \<Longrightarrow> ok (merge u d)"
    and nothing_ok: "ok nothing"
    and lookup_nothing: "lookup nothing k = None"
    and lookup_merge: "ok u \<Longrightarrow> ok d \<Longrightarrow>
      lookup (merge u d) k = (case lookup u k of Some v \<Rightarrow> Some v | None \<Rightarrow> lookup d k)"
begin

lemma merge_copy: "ok u \<Longrightarrow> lookup (merge u nothing) k = lookup u k"
  by (simp add: lookup_merge nothing_ok lookup_nothing split: option.splits)

lemma merge_upper: "ok u \<Longrightarrow> ok d \<Longrightarrow> lookup u k = Some v \<Longrightarrow> lookup (merge u d) k = Some v"
  by (simp add: lookup_merge)

lemma merge_lower: "ok u \<Longrightarrow> ok d \<Longrightarrow> lookup u k = None \<Longrightarrow> lookup (merge u d) k = lookup d k"
  by (simp add: lookup_merge)

lemma merge_assoc:
  "ok a \<Longrightarrow> ok b \<Longrightarrow> ok c \<Longrightarrow> lookup (merge a (merge b c)) k = lookup (merge (merge a b) c) k"
  by (simp add: lookup_merge merge_ok split: option.splits)

end

interpretation md: layered MergeDefaults "[]" "\<lambda>m (s, k). look m s k" wf_sections
  by unfold_locales (auto simp: look_MergeDefaults)

lemma look_Inject:
  assumes "wf_sections c" "p \<noteq> []"
  shows "look (InjectOsloPolicyConfig c p) s k =
           (if s = ''oslo_policy'' \<and> k = ''policy_file'' then Some p else look c s k)"
proof -
  have copy: "look (MergeDefaults c []) s k = look c s k" for s k
    using assms(1) by (simp add: look_MergeDefaults split: option.splits)
  let ?m = "MergeDefaults c []"
  let ?r = "if map_of ?m ''oslo_policy'' = None then map_put ''oslo_policy'' [] ?m else ?m"
  have "look ?r s k = look c s k" for s k
    by (simp add: copy [symmetric]) (simp add: look_def)
  then show ?thesis using assms(2)
    by (simp add: InjectOsloPolicyConfig_def Let_def get_or_look)
qed

section \<open>Rendering depends on the map only\<close>

lemma keys_den: "den m = den m' \<Longrightarrow> fst ` set m = fst ` set m'"
  by (auto simp: set_eq_iff) (metis den_None imageI fst_conv)+

lemma render_section_den:
  assumes "wf_sections m" "wf_sections m'" "den m = den m'"
  shows "render_section m s = render_section m' s"
proof -
  let ?a = "get_or [] m s" and ?b = "get_or [] m' s"
  have "same_map ?a ?b" using assms by (simp add: same_map_def get_or_den)
  then have "sorted_keys ?a = sorted_keys ?b" "map_of ?a = map_of ?b"
    by (auto intro: sorted_keys_same map_of_same)
  moreover from this have "render_key ?a = render_key ?b"
    by (simp add: fun_eq_iff render_key_def get_or_def [of _ ?a] get_or_def [of _ ?b])
  ultimately show ?thesis by (simp add: render_section_def)
qed

lemma render_names_den:
  assumes "wf_sections m" "wf_sections m'" "den m = den m'"
  shows "render_names m b ns = render_names m' b ns"
  by (induction ns arbitrary: b) (simp_all add: render_section_den [OF assms])

lemma sorted_keys_den:
  assumes "wf_sections m" "wf_sections m'" "den m = den m'"
  shows "sorted_keys m = sorted_keys m'"
  using assms keys_den [OF assms(3)] unfolding sorted_keys_def
  by (intro sorted_distinct_set_unique) (simp_all add: wf_sections_def wf_gomap_def)

lemma RenderINIMulti_den:
  assumes "wf_sections m" "wf_sections m'" "den m = den m'"
  shows "RenderINIMulti m = RenderINIMulti m'"
proof -
  have "m = [] \<longleftrightarrow> m' = []" using keys_den [OF assms(3)] by auto
  then show ?thesis
    using render_names_den [OF assms] sorted_keys_den [OF assms] by (simp add: RenderINIMulti_def)
qed

lemma lifted_kvs: "map_of (map (\<lambda>(k, v). (k, [v])) kvs) = (\<lambda>k. map_option (\<lambda>v. [v]) (map_of kvs k))"
  by (induction kvs) auto

lemma den_LiftSections:
  "den (LiftSections m) s = map_option (\<lambda>f k. map_option (\<lambda>v. [v]) (f k)) (den m s)"
  by (induction m rule: LiftSections.induct) (auto simp: lifted_kvs)

lemma wf_lifted: "wf_gomap (map (\<lambda>(k, v). (k, [v])) kvs) = wf_gomap kvs"
  by (simp add: wf_gomap_def case_prod_unfold comp_def)

lemma wf_LiftSections [simp, wf_intro]: "wf_sections m \<Longrightarrow> wf_sections (LiftSections m)"
  by (induction m rule: LiftSections.induct) (simp_all add: wf_lifted)

lemma RenderINI_den:
  assumes "wf_sections m" "wf_sections m'" "den m = den m'"
  shows "RenderINI m = RenderINI m'"
  unfolding RenderINI_def using assms
  by (intro RenderINIMulti_den) (simp_all add: fun_eq_iff den_LiftSections)

section \<open>Content-addressed names\<close>

text \<open>\<open>fmt.Fprintf(h, "%d:%s=%d:%s\n", len(k), k, len(data[k]), data[k])\<close> over the sorted keys.\<close>

definition encode_entry :: "string \<Rightarrow> string \<Rightarrow> string" where
  "encode_entry k v = show_nat (length k) @ '':'' @ k @ ''='' @ show_nat (length v) @ '':'' @ v @ [nl]"

definition content_encoding :: "string gomap \<Rightarrow> string" where
  "content_encoding data = concat (map (\<lambda>k. encode_entry k (get_or [] data k)) (sorted_keys data))"

definition hashTruncateLen :: nat where
  "hashTruncateLen = 8"

text \<open>\<open>sha_hex\<close> is the hexadecimal SHA-256 digest, 64 characters long.\<close>

definition immutable_name :: "(string \<Rightarrow> string) \<Rightarrow> string \<Rightarrow> string gomap \<Rightarrow> string" where
  "immutable_name sha_hex base data =
     base @ ''-'' @ take hashTruncateLen (sha_hex (content_encoding data))"

lemma show_nat_colon_inject:
  "show_nat m @ CHR '':'' # s = show_nat n @ CHR '':'' # t \<longleftrightarrow> m = n \<and> s = t"
proof
  assume eq: "show_nat m @ CHR '':'' # s = show_nat n @ CHR '':'' # t"
  have nd: "\<not> is_digit CHR '':''" by (simp add: is_digit_def)
  have c: "cut_at CHR '':'' (show_nat i @ CHR '':'' # u) = (show_nat i, u, True)" for i u
    using show_nat_no_char [OF nd] by (rule cut_at_append)
  have "(show_nat m, s, True) = (show_nat n, t, True)"
    using c [of m s] c [of n t] eq by metis
  then show "m = n \<and> s = t" by (simp add: show_nat_inj)
qed simp

lemma encode_entry_inject:
  "encode_entry k v @ s = encode_entry k' v' @ s' \<longleftrightarrow> k = k' \<and> v = v' \<and> s = s'"
proof
  assume "encode_entry k v @ s = encode_entry k' v' @ s'"
  then have "length k = length k'" and
    r: "k @ ''='' @ show_nat (length v) @ CHR '':'' # v @ [nl] @ s =
        k' @ ''='' @ show_nat (length v') @ CHR '':'' # v' @ [nl] @ s'"
    unfolding encode_entry_def by (simp_all add: show_nat_colon_inject)
  then have k: "k = k'" by simp
  with r have "length v = length v'" "v @ [nl] @ s = v' @ [nl] @ s'"
    by (simp_all add: show_nat_colon_inject)
  with k show "k = k' \<and> v = v' \<and> s = s'" by simp
qed simp

lemma encode_entry_not_Nil [simp]: "encode_entry k v \<noteq> []"
  by (simp add: encode_entry_def)

lemma encode_list_inject:
  "concat (map (\<lambda>k. encode_entry k (f k)) ks) = concat (map (\<lambda>k. encode_entry k (g k)) ks') \<longleftrightarrow>
     ks = ks' \<and> list_all (\<lambda>k. f k = g k) ks"
proof (induction ks arbitrary: ks')
  case Nil
  show ?case by (cases ks') simp_all
next
  case (Cons k ks)
  then show ?case by (cases ks') (auto simp: encode_entry_inject)
qed

lemma content_encoding_inject:
  assumes "wf_gomap a" "wf_gomap b"
  shows "content_encoding a = content_encoding b \<longleftrightarrow> map_of a = map_of b"
proof
  assume "content_encoding a = content_encoding b"
  then have ks: "sorted_keys a = sorted_keys b"
    and vs: "list_all (\<lambda>k. get_or [] a k = get_or [] b k) (sorted_keys a)"
    unfolding content_encoding_def encode_list_inject by blast+
  have keys: "fst ` set a = fst ` set b" using ks set_sorted_keys by metis
  show "map_of a = map_of b"
  proof
    fix k
    show "map_of a k = map_of b k"
    proof (cases "k \<in> fst ` set a")
      case True
      then have "get_or [] a k = get_or [] b k" using vs by (auto simp: list_all_iff)
      moreover have "map_of a k \<noteq> None" "map_of b k \<noteq> None"
        using True keys by (simp_all add: map_of_eq_None_iff)
      ultimately show ?thesis by (auto simp: get_or_def)
    next
      case False
      then show ?thesis using keys by (simp add: map_of_eq_None_iff [THEN iffD2])
    qed
  qed
next
  assume "map_of a = map_of b"
  then have "same_map a b" using assms by (simp add: same_map_def)
  then show "content_encoding a = content_encoding b"
    by (simp add: content_encoding_def get_or_def sorted_keys_same map_of_same)
qed

section \<open>Immutable objects\<close>

text \<open>
  \<open>CreateImmutableConfigMap\<close> and \<open>CreateImmutableSecret\<close> are the same text over two kinds of
  object; \<open>kind\<close> is the word in their error messages.  \<open>set_ref\<close> is
  \<open>controllerutil.SetControllerReference\<close>.
\<close>

record immutable =
  im_meta :: objmeta
  im_data :: "string gomap"
  im_immutable :: bool

definition ConfigBaseLabelKey :: string where
  "ConfigBaseLabelKey = ''forge.c5c3.io/config-base''"

definition new_immutable :: "string \<Rightarrow> string \<Rightarrow> string \<Rightarrow> string gomap \<Rightarrow> immutable" where
  "new_immutable name ns base data =
     \<lparr>im_meta = blank_meta\<lparr>m_name := name, m_namespace := ns, m_labels := [(ConfigBaseLabelKey, base)]\<rparr>,
      im_data = data, im_immutable = True\<rparr>"

definition create_immutable ::
  "string \<Rightarrow> (string \<Rightarrow> string) \<Rightarrow> (objmeta \<Rightarrow> immutable \<Rightarrow> immutable result) \<Rightarrow> (immutable, 'w) kclient \<Rightarrow>
     objmeta \<Rightarrow> string \<Rightarrow> string \<Rightarrow> string gomap \<Rightarrow> 'w \<Rightarrow> string result \<times> 'w" where
  "create_immutable kind sha_hex set_ref C owner base ns data w =
     (let name = immutable_name sha_hex base data in
      case set_ref owner (new_immutable name ns base data) of
        Inl e \<Rightarrow> (Inl (Errorf (''setting owner reference on '' @ kind @ '' %s/%s: %w'') [Str ns, Str name, Wrap e]), w)
      | Inr obj \<Rightarrow>
          (case k_create C obj w of
             (Inr _, w') \<Rightarrow> (Inr name, w')
           | (Inl e, w') \<Rightarrow>
               if \<not> is_already_exists e
               then (Inl (Errorf (''creating '' @ kind @ '' %s/%s: %w'') [Str ns, Str name, Wrap e]), w')
               else (case k_get C (ns, name) w' of
                       Inl ge \<Rightarrow> (Inl (Errorf (''fetching existing '' @ kind @ '' %s/%s: %w'') [Str ns, Str name, Wrap ge]), w')
                     | Inr existing \<Rightarrow>
                         if \<not> controlled_by (m_uid owner) (im_meta existing)
                         then (Inl (Errorf (''existing '' @ kind @ '' %s/%s is not owned by %s/%s'')
                                 [Str ns, Str name, Str (m_namespace owner), Str (m_name owner)]), w')
                         else (Inr name, w'))))"

definition CreateImmutableConfigMap ::
  "(string \<Rightarrow> string) \<Rightarrow> (objmeta \<Rightarrow> immutable \<Rightarrow> immutable result) \<Rightarrow> (immutable, 'w) kclient \<Rightarrow>
     objmeta \<Rightarrow> string \<Rightarrow> string \<Rightarrow> string gomap \<Rightarrow> 'w \<Rightarrow> string result \<times> 'w" where
  "CreateImmutableConfigMap = create_immutable ''ConfigMap''"

definition CreateImmutableSecret ::
  "(string \<Rightarrow> string) \<Rightarrow> (objmeta \<Rightarrow> immutable \<Rightarrow> immutable result) \<Rightarrow> (immutable, 'w) kclient \<Rightarrow>
     objmeta \<Rightarrow> string \<Rightarrow> string \<Rightarrow> string gomap \<Rightarrow> 'w \<Rightarrow> string result \<times> 'w" where
  "CreateImmutableSecret = create_immutable ''Secret''"

lemma create_immutable_name:
  "create_immutable kind sha set_ref C owner base ns data w = (Inr name, w') \<Longrightarrow>
     name = immutable_name sha base data"
  by (auto simp: create_immutable_def Let_def split: sum.splits if_splits prod.splits)

lemma create_immutable_owned:
  assumes "create_immutable kind sha set_ref C owner base ns data w = (Inr name, w')"
  shows "(\<exists>obj o'. set_ref owner (new_immutable name ns base data) = Inr obj \<and> k_create C obj w = (Inr o', w')) \<or>
         (\<exists>existing. k_get C (ns, name) w' = Inr existing \<and> controlled_by (m_uid owner) (im_meta existing))"
  using assms create_immutable_name [OF assms]
  by (auto simp: create_immutable_def Let_def split: sum.splits if_splits prod.splits)

section \<open>Pruning the history\<close>

text \<open>
  The order of \<open>sort.SliceStable\<close>: newest first, then by name, descending.  It is a linear order, so
  the sort is \<open>sort_key\<close>.
\<close>

datatype recency = Recency (rec_time: instant) (rec_name: string)

instantiation recency :: linorder
begin

definition less_eq_recency :: "recency \<Rightarrow> recency \<Rightarrow> bool" where
  "less_eq_recency a b \<longleftrightarrow> rec_time b < rec_time a \<or> (rec_time a = rec_time b \<and> rec_name b \<le> rec_name a)"

definition less_recency :: "recency \<Rightarrow> recency \<Rightarrow> bool" where
  "less_recency a b \<longleftrightarrow> (if rec_time a = rec_time b then rec_name b < rec_name a else rec_time b < rec_time a)"

instance
proof
  fix x y z :: recency
  show "x < y \<longleftrightarrow> x \<le> y \<and> \<not> y \<le> x" by (auto simp: less_eq_recency_def less_recency_def)
  show "x \<le> x" by (simp add: less_eq_recency_def)
  show "x \<le> y \<Longrightarrow> y \<le> z \<Longrightarrow> x \<le> z" by (auto simp: less_eq_recency_def)
  show "x \<le> y \<Longrightarrow> y \<le> x \<Longrightarrow> x = y" by (cases x; cases y) (auto simp: less_eq_recency_def)
  show "x \<le> y \<or> y \<le> x" by (auto simp: less_eq_recency_def)
qed

end

record prune_options =
  po_base :: string
  po_namespace :: string
  po_current :: string
  po_retain :: int

definition recency_of :: "objmeta \<Rightarrow> recency" where
  "recency_of m = Recency (m_created m) (m_name m)"

definition is_candidate :: "objmeta \<Rightarrow> prune_options \<Rightarrow> objmeta \<Rightarrow> bool" where
  "is_candidate owner opts m =
     (if \<not> has_prefix (m_name m) (po_base opts @ ''-'') then False
      else if m_name m = po_current opts then False
      else if \<not> controlled_by (m_uid owner) m then False
      else True)"

fun delete_each :: "string \<Rightarrow> string \<Rightarrow> ('o \<Rightarrow> objmeta) \<Rightarrow> ('o, 'w) kclient \<Rightarrow> 'o list \<Rightarrow> 'w \<Rightarrow> err option \<times> 'w" where
  "delete_each kind ns meta C [] w = (None, w)"
| "delete_each kind ns meta C (x # xs) w =
     (let (e, w') = k_delete C no_opts x w in
      case ignore_not_found e of
        Some e' \<Rightarrow> (Some (Errorf ''deleting stale %s %s/%s: %w'' [Str kind, Str ns, Str (m_name (meta x)), Wrap e']), w')
      | None \<Rightarrow> delete_each kind ns meta C xs w')"

definition prune_candidates :: "('o \<Rightarrow> objmeta) \<Rightarrow> objmeta \<Rightarrow> prune_options \<Rightarrow> 'o list \<Rightarrow> 'o list" where
  "prune_candidates meta owner opts items =
     sort_key (\<lambda>x. recency_of (meta x)) (filter (\<lambda>x. is_candidate owner opts (meta x)) items)"

definition pruneImmutableObjects ::
  "('o \<Rightarrow> objmeta) \<Rightarrow> ('o, 'w) kclient \<Rightarrow> objmeta \<Rightarrow> prune_options \<Rightarrow> 'o list \<Rightarrow> string \<Rightarrow> 'w \<Rightarrow> err option \<times> 'w" where
  "pruneImmutableObjects meta C owner opts items kind w =
     (let retain = (if po_retain opts < 0 then 0 else nat (po_retain opts));
          candidates = prune_candidates meta owner opts items
      in if length candidates \<le> retain then (None, w)
         else delete_each kind (po_namespace opts) meta C (drop retain candidates) w)"

definition PruneImmutableConfigMaps ::
  "('o \<Rightarrow> objmeta) \<Rightarrow> ('o, 'w) kclient \<Rightarrow> objmeta \<Rightarrow> prune_options \<Rightarrow> 'w \<Rightarrow> err option \<times> 'w" where
  "PruneImmutableConfigMaps meta C owner opts w =
     (case k_list C (po_namespace opts) [(ConfigBaseLabelKey, po_base opts)] w of
        Inl e \<Rightarrow> (Some (Errorf ''listing ConfigMaps in namespace %s: %w'' [Str (po_namespace opts), Wrap e]), w)
      | Inr items \<Rightarrow> pruneImmutableObjects meta C owner opts items ''ConfigMap'' w)"

definition PruneImmutableSecrets ::
  "('o \<Rightarrow> objmeta) \<Rightarrow> ('o, 'w) kclient \<Rightarrow> objmeta \<Rightarrow> prune_options \<Rightarrow> 'w \<Rightarrow> err option \<times> 'w" where
  "PruneImmutableSecrets meta C owner opts w =
     (case k_list C (po_namespace opts) [(ConfigBaseLabelKey, po_base opts)] w of
        Inl e \<Rightarrow> (Some (Errorf ''listing Secrets in namespace %s: %w'' [Str (po_namespace opts), Wrap e]), w)
      | Inr items \<Rightarrow> pruneImmutableObjects meta C owner opts items ''Secret'' w)"

text \<open>The objects a prune hands to \<open>Delete\<close>, in order, as long as no deletion fails.\<close>

definition victims :: "('o \<Rightarrow> objmeta) \<Rightarrow> objmeta \<Rightarrow> prune_options \<Rightarrow> 'o list \<Rightarrow> 'o list" where
  "victims meta owner opts items = drop (nat (po_retain opts)) (prune_candidates meta owner opts items)"

lemma prune_is_delete_each:
  "pruneImmutableObjects meta C owner opts items kind w =
     delete_each kind (po_namespace opts) meta C (victims meta owner opts items) w"
  by (auto simp: pruneImmutableObjects_def victims_def Let_def)

lemma set_prune_candidates:
  "set (prune_candidates meta owner opts items) = {x \<in> set items. is_candidate owner opts (meta x)}"
  by (simp add: prune_candidates_def)

lemma victims_candidates:
  "x \<in> set (victims meta owner opts items) \<Longrightarrow> x \<in> set items \<and> is_candidate owner opts (meta x)"
  by (auto simp: victims_def dest!: in_set_dropD simp: set_prune_candidates)

lemma sorted_take_drop:
  assumes "sorted (map f xs)" "x \<in> set (take n xs)" "y \<in> set (drop n xs)"
  shows "f x \<le> f y"
proof -
  have "sorted (map f (take n xs) @ map f (drop n xs))"
    using assms(1) by (simp flip: map_append)
  then show ?thesis using assms(2,3) by (auto simp: sorted_append)
qed

lemma retained_newest:
  assumes "x \<in> set (take (nat (po_retain opts)) (prune_candidates meta owner opts items))"
    and "y \<in> set (victims meta owner opts items)"
  shows "recency_of (meta x) \<le> recency_of (meta y)"
  using assms unfolding victims_def prune_candidates_def
  by (intro sorted_take_drop [where f = "\<lambda>x. recency_of (meta x)"]) simp_all

text \<open>A client whose deletions leave the other keys alone.\<close>

definition delete_local :: "('o \<Rightarrow> objmeta) \<Rightarrow> ('o, 'w) kclient \<Rightarrow> bool" where
  "delete_local meta C \<longleftrightarrow>
     (\<forall>opts x w k. k \<noteq> key_of (meta x) \<longrightarrow> k_get C k (snd (k_delete C opts x w)) = k_get C k w)"

lemma delete_each_frame:
  assumes "delete_local meta C" "k \<notin> (\<lambda>x. key_of (meta x)) ` set xs"
  shows "k_get C k (snd (delete_each kind ns meta C xs w)) = k_get C k w"
  using assms(2)
proof (induction xs arbitrary: w)
  case (Cons x xs)
  have "k_get C k (snd (k_delete C no_opts x w)) = k_get C k w"
    using assms(1) Cons.prems unfolding delete_local_def by (metis (no_types) image_eqI list.set_intros(1))
  then show ?case using Cons by (auto split: prod.splits option.splits)
qed simp

lemma store_delete_local: "delete_local meta (store_client meta)"
  by (auto simp: delete_local_def)

end
