(* ===== verification/Plugins.thy ===== *)
theory Plugins
  imports Config CommonTypes
begin

text \<open>
  The api-paste.ini pipeline and plugin sections, \<open>internal/common/plugins/plugins.go\<close>.
\<close>

record PipelineSpec =
  ps_name :: string
  ps_app :: string
  ps_app_factory :: string
  ps_base_filters :: "string list"
  ps_base_factories :: "string gomap"
  ps_base_configs :: "string gomap gomap"
  ps_routes :: "string gomap"
  ps_middleware :: "MiddlewareSpec list"

text \<open>The validation loop over the middleware, which also splits the names by position.\<close>

fun split_middleware ::
  "string \<Rightarrow> MiddlewareSpec list \<Rightarrow> string list \<Rightarrow> string list \<Rightarrow> string list \<Rightarrow> (string list \<times> string list) result" where
  "split_middleware p [] seen before aft = Inr (before, aft)"
| "split_middleware p (mw # mws) seen before aft =
     (if mw_name mw = []
      then Inl (Errorf ''pipeline %q contains a MiddlewareSpec with an empty Name'' [Str p])
      else if mw_factory mw = []
      then Inl (Errorf ''middleware %q in pipeline %q has an empty FilterFactory'' [Str (mw_name mw), Str p])
      else if mw_name mw \<in> set seen
      then Inl (Errorf ''duplicate middleware Name %q in pipeline %q'' [Str (mw_name mw), Str p])
      else if mw_position mw = PipelinePositionBefore
      then split_middleware p mws (mw_name mw # seen) (before @ [mw_name mw]) aft
      else if mw_position mw = PipelinePositionAfter
      then split_middleware p mws (mw_name mw # seen) before (aft @ [mw_name mw])
      else Inl (Errorf ''middleware %q in pipeline %q has unrecognised Position %q''
                  [Str (mw_name mw), Str p, Str (mw_position mw)]))"

fun check_base :: "string \<Rightarrow> nat \<Rightarrow> string list \<Rightarrow> err option" where
  "check_base p i [] = None"
| "check_base p i (f # fs) =
     (if f = [] then Some (Errorf ''pipeline %q has an empty BaseFilters entry at index %d'' [Str p, Num (int i)])
      else check_base p (Suc i) fs)"

fun copy_config :: "string gomap \<Rightarrow> string gomap \<Rightarrow> string gomap" where
  "copy_config [] dst = dst"
| "copy_config ((k, v) # kvs) dst =
     copy_config kvs (if k = ''paste.filter_factory'' then dst else map_put k v dst)"

fun middleware_sections :: "MiddlewareSpec list \<Rightarrow> sections \<Rightarrow> sections" where
  "middleware_sections [] result = result"
| "middleware_sections (mw # mws) result =
     middleware_sections mws
       (map_put (''filter:'' @ mw_name mw)
          (copy_config (mw_config mw) [(''paste.filter_factory'', mw_factory mw)]) result)"

fun base_sections :: "string gomap gomap \<Rightarrow> string gomap \<Rightarrow> sections \<Rightarrow> sections" where
  "base_sections configs [] result = result"
| "base_sections configs ((name, factory) # fs) result =
     base_sections configs fs
       (map_put (''filter:'' @ name)
          (case map_of configs name of
             None \<Rightarrow> [(''use'', factory)] | Some extra \<Rightarrow> put_all extra [(''use'', factory)]) result)"

definition RenderPastePipeline :: "PipelineSpec \<Rightarrow> sections result" where
  "RenderPastePipeline spec =
     (if ps_name spec = [] then Inl (Errorf ''PipelineName must not be empty'' [])
      else case split_middleware (ps_name spec) (ps_middleware spec) [] [] [] of
        Inl e \<Rightarrow> Inl e
      | Inr (before_filters, after_filters) \<Rightarrow>
          (case check_base (ps_name spec) 0 (ps_base_filters spec) of
             Some e \<Rightarrow> Inl e
           | None \<Rightarrow>
               let pipeline = before_filters @ ps_base_filters spec @ after_filters @
                     (if ps_app spec \<noteq> [] then [ps_app spec] else []);
                   pipeline_text = str_join '' '' pipeline
               in if pipeline_text = []
                  then Inl (Errorf ''pipeline %q has no filters or application - at least one entry is required''
                              [Str (ps_name spec)])
                  else
                    let r1 = map_put (''pipeline:'' @ ps_name spec) [(''pipeline'', pipeline_text)] [];
                        r2 = middleware_sections (ps_middleware spec) r1;
                        r3 = (if ps_app_factory spec \<noteq> [] \<and> ps_app spec \<noteq> []
                              then map_put (''app:'' @ ps_app spec) [(''use'', ps_app_factory spec)] r2 else r2);
                        r4 = base_sections (ps_base_configs spec) (ps_base_factories spec) r3
                    in if length (ps_routes spec) > 0
                       then Inr (map_put ''composite:main'' (put_all (ps_routes spec) [(''use'', ''egg:Paste#urlmap'')]) r4)
                       else Inr r4))"

fun plugin_sections :: "nat \<Rightarrow> PluginSpec list \<Rightarrow> sections \<Rightarrow> sections result" where
  "plugin_sections i [] result = Inr result"
| "plugin_sections i (p # ps) result =
     (if pl_name p = [] then Inl (Errorf ''plugin at index %d has an empty Name'' [Num (int i)])
      else if pl_section p = [] then Inl (Errorf ''plugin %q has an empty ConfigSection'' [Str (pl_name p)])
      else if map_of result (pl_section p) \<noteq> None
      then Inl (Errorf ''duplicate ConfigSection %q: plugin %q would overwrite existing config''
                  [Str (pl_section p), Str (pl_name p)])
      else plugin_sections (Suc i) ps (map_put (pl_section p) (put_all (pl_config p) []) result))"

definition RenderPluginConfig :: "PluginSpec list \<Rightarrow> sections result" where
  "RenderPluginConfig ps = plugin_sections 0 ps []"

definition RenderPastePipelineINI :: "PipelineSpec \<Rightarrow> string result" where
  "RenderPastePipelineINI spec =
     (case RenderPastePipeline spec of Inl e \<Rightarrow> Inl e | Inr sections \<Rightarrow> Inr (RenderINI sections))"

section \<open>The pipeline directive\<close>

definition names_at :: "string \<Rightarrow> MiddlewareSpec list \<Rightarrow> string list" where
  "names_at pos mws = map mw_name (filter (\<lambda>mw. mw_position mw = pos) mws)"

definition middleware_ok :: "MiddlewareSpec \<Rightarrow> bool" where
  "middleware_ok mw \<longleftrightarrow> mw_name mw \<noteq> [] \<and> mw_factory mw \<noteq> [] \<and>
     (mw_position mw = PipelinePositionBefore \<or> mw_position mw = PipelinePositionAfter)"

lemma names_at_simps [simp]:
  "names_at pos [] = []"
  "names_at pos (mw # mws) = (if mw_position mw = pos then mw_name mw # names_at pos mws else names_at pos mws)"
  by (simp_all add: names_at_def)

lemma positions_differ [simp]: "PipelinePositionBefore \<noteq> PipelinePositionAfter"
  by (simp add: PipelinePositionBefore_def PipelinePositionAfter_def)

lemma split_middleware_Inr_iff:
  "split_middleware p mws seen before aft = Inr r \<longleftrightarrow>
     list_all middleware_ok mws \<and> distinct (map mw_name mws) \<and>
     set (map mw_name mws) \<inter> set seen = {} \<and>
     r = (before @ names_at PipelinePositionBefore mws, aft @ names_at PipelinePositionAfter mws)"
proof (induction mws arbitrary: seen before aft)
  case (Cons mw mws)
  show ?case
    using positions_differ
    by (cases "mw_position mw = PipelinePositionBefore") (auto simp: Cons.IH middleware_ok_def)
qed auto

lemma check_base_None_iff: "check_base p i fs = None \<longleftrightarrow> [] \<notin> set fs"
  by (induction fs arbitrary: i) auto

lemma look_middleware_sections:
  assumes "distinct (map mw_name mws)"
  shows "map_of (middleware_sections mws result) s =
     (case find (\<lambda>mw. ''filter:'' @ mw_name mw = s) mws of
        None \<Rightarrow> map_of result s
      | Some mw \<Rightarrow> Some (copy_config (mw_config mw) [(''paste.filter_factory'', mw_factory mw)]))"
  using assms
proof (induction mws arbitrary: result)
  case (Cons mw mws)
  have "find (\<lambda>m. mw_name m = mw_name mw) mws = None"
    using Cons.prems by (auto simp: find_None_iff image_iff)
  then show ?case using Cons by (auto split: option.splits)
qed simp

lemma map_of_base_sections:
  assumes "wf_gomap fs"
  shows "map_of (base_sections configs fs result) s =
     (case find (\<lambda>(n, f). ''filter:'' @ n = s) fs of
        None \<Rightarrow> map_of result s
      | Some (n, f) \<Rightarrow> Some (case map_of configs n of None \<Rightarrow> [(''use'', f)] | Some extra \<Rightarrow> put_all extra [(''use'', f)]))"
  using assms
proof (induction configs fs result rule: base_sections.induct)
  case (2 configs name factory fs result)
  have "find (\<lambda>(n, f). n = name) fs = None"
    using 2(2) by (auto simp: find_None_iff image_iff)
  then show ?case using 2 by (auto split: option.splits)
qed simp

lemma copy_config_factory: "map_of (copy_config kvs dst) ''paste.filter_factory'' = map_of dst ''paste.filter_factory''"
  by (induction kvs dst rule: copy_config.induct) auto

text \<open>
  The accepted specifications, and their pipeline directive: the middleware placed before, the base
  filters, the middleware placed after, the application.
\<close>

definition paste_pipeline :: "PipelineSpec \<Rightarrow> string list" where
  "paste_pipeline spec =
     names_at PipelinePositionBefore (ps_middleware spec) @ ps_base_filters spec @
     names_at PipelinePositionAfter (ps_middleware spec) @ (if ps_app spec \<noteq> [] then [ps_app spec] else [])"

definition pipeline_ok :: "PipelineSpec \<Rightarrow> bool" where
  "pipeline_ok spec \<longleftrightarrow> ps_name spec \<noteq> [] \<and> list_all middleware_ok (ps_middleware spec) \<and>
     distinct (map mw_name (ps_middleware spec)) \<and> [] \<notin> set (ps_base_filters spec) \<and> paste_pipeline spec \<noteq> []"

lemma str_join_Nil_iff: "sep \<noteq> [] \<Longrightarrow> str_join sep xs = [] \<longleftrightarrow> xs = [] \<or> xs = [[]]"
  by (induction sep xs rule: str_join.induct) auto

lemma paste_pipeline_not_empty:
  "list_all middleware_ok (ps_middleware spec) \<Longrightarrow> [] \<notin> set (ps_base_filters spec) \<Longrightarrow> [] \<notin> set (paste_pipeline spec)"
  by (auto simp: paste_pipeline_def names_at_def middleware_ok_def list_all_iff)

text \<open>The sections of an accepted specification.\<close>

definition paste_sections :: "PipelineSpec \<Rightarrow> sections" where
  "paste_sections spec =
     (let r1 = map_put (''pipeline:'' @ ps_name spec) [(''pipeline'', str_join '' '' (paste_pipeline spec))] [];
          r2 = middleware_sections (ps_middleware spec) r1;
          r3 = (if ps_app_factory spec \<noteq> [] \<and> ps_app spec \<noteq> []
                then map_put (''app:'' @ ps_app spec) [(''use'', ps_app_factory spec)] r2 else r2);
          r4 = base_sections (ps_base_configs spec) (ps_base_factories spec) r3
      in if length (ps_routes spec) > 0
         then map_put ''composite:main'' (put_all (ps_routes spec) [(''use'', ''egg:Paste#urlmap'')]) r4 else r4)"

lemma split_middleware_init:
  "split_middleware p mws [] [] [] =
     (if list_all middleware_ok mws \<and> distinct (map mw_name mws)
      then Inr (names_at PipelinePositionBefore mws, names_at PipelinePositionAfter mws)
      else Inl (projl (split_middleware p mws [] [] [])))"
  using split_middleware_Inr_iff [of p mws "[]" "[]" "[]"]
  by (cases "split_middleware p mws [] [] []") auto

lemma RenderPastePipeline_Inr_iff:
  "RenderPastePipeline spec = Inr m \<longleftrightarrow> pipeline_ok spec \<and> m = paste_sections spec"
proof (cases "list_all middleware_ok (ps_middleware spec) \<and> distinct (map mw_name (ps_middleware spec))")
  case True
  have join: "str_join '' '' (paste_pipeline spec) = [] \<longleftrightarrow> paste_pipeline spec = []" if "[] \<notin> set (ps_base_filters spec)"
    using paste_pipeline_not_empty [OF _ that] True by (auto simp: str_join_Nil_iff)
  show ?thesis
  proof (cases "ps_name spec = [] \<or> [] \<in> set (ps_base_filters spec)")
    case False
    then have cb: "check_base (ps_name spec) 0 (ps_base_filters spec) = None"
      by (simp add: check_base_None_iff)
    have sm: "split_middleware (ps_name spec) (ps_middleware spec) [] [] [] =
        Inr (names_at PipelinePositionBefore (ps_middleware spec), names_at PipelinePositionAfter (ps_middleware spec))"
      using True by (subst split_middleware_init) simp
    have "RenderPastePipeline spec =
        (if paste_pipeline spec = []
         then Inl (Errorf ''pipeline %q has no filters or application - at least one entry is required''
                     [Str (ps_name spec)]) else Inr (paste_sections spec))"
      using False join unfolding RenderPastePipeline_def sm sum.case prod.case cb option.case
        paste_pipeline_def [symmetric] paste_sections_def Let_def by simp
    then show ?thesis using False True by (auto simp: pipeline_ok_def)
  next
    case b: True
    have "ps_name spec = [] \<or> check_base (ps_name spec) 0 (ps_base_filters spec) \<noteq> None"
      using b by (simp add: check_base_None_iff)
    then show ?thesis
      using True b by (auto simp: RenderPastePipeline_def split_middleware_init pipeline_ok_def)
  qed
next
  case False
  then show ?thesis
    by (subst RenderPastePipeline_def, subst split_middleware_init) (auto simp: pipeline_ok_def)
qed

end
