(* ===== verification/Policy.thy ===== *)
theory Policy
  imports Config Validation
begin

text \<open>
  oslo.policy rules, \<open>internal/common/policy/policy.go\<close>: loading from a ConfigMap, rendering, merging
  and validation.  YAML is a library: \<open>unmarshal\<close> and \<open>marshal\<close> are parameters.  A nil map and an
  empty one differ here, so a rule map that may be nil is an \<open>option\<close>.
\<close>

definition PolicyConfigMapKey :: string where
  "PolicyConfigMapKey = ''policy.yaml''"

definition LoadPolicyFromConfigMap ::
  "(objkey \<Rightarrow> 'w \<Rightarrow> string gomap result) \<Rightarrow> (string \<Rightarrow> string gomap option result) \<Rightarrow> objkey \<Rightarrow> 'w \<Rightarrow>
     string gomap result" where
  "LoadPolicyFromConfigMap get_data unmarshal key w =
     (let k = Strs [fst key, snd key] in
      case get_data key w of
        Inl e \<Rightarrow> Inl (Errorf ''getting ConfigMap %s: %w'' [k, Wrap e])
      | Inr data \<Rightarrow>
          (case map_of data PolicyConfigMapKey of
             None \<Rightarrow> Inl (Errorf ''ConfigMap %s does not contain key %q'' [k, Str PolicyConfigMapKey])
           | Some raw \<Rightarrow>
               (case unmarshal raw of
                  Inl e \<Rightarrow> Inl (Errorf ''parsing %s from ConfigMap %s: %w'' [Str PolicyConfigMapKey, k, Wrap e])
                | Inr None \<Rightarrow> Inl (Errorf ''ConfigMap %s key %q is empty or parsed to nil'' [k, Str PolicyConfigMapKey])
                | Inr (Some rules) \<Rightarrow> Inr rules)))"

fun render_rules :: "(string \<Rightarrow> string \<Rightarrow> string result) \<Rightarrow> string gomap \<Rightarrow> string list \<Rightarrow> string \<Rightarrow> string result" where
  "render_rules marshal rules [] ordered = Inr ordered"
| "render_rules marshal rules (k # ks) ordered =
     (case marshal k (get_or [] rules k) of
        Inl e \<Rightarrow> Inl (Errorf ''failed to marshal policy rule %q: %w'' [Str k, Wrap e])
      | Inr b \<Rightarrow> render_rules marshal rules ks (ordered @ b))"

definition RenderPolicyYAML :: "(string \<Rightarrow> string \<Rightarrow> string result) \<Rightarrow> string gomap \<Rightarrow> string result" where
  "RenderPolicyYAML marshal rules =
     (if rules = [] then Inr [] else render_rules marshal rules (sorted_keys rules) [])"

definition copyPolicySpec :: "PolicySpec \<Rightarrow> PolicySpec" where
  "copyPolicySpec src =
     \<lparr>pol_rules = (case pol_rules src of None \<Rightarrow> None | Some r \<Rightarrow> Some (put_all r [])),
      pol_config_map = pol_config_map src\<rparr>"

definition MergePolicies :: "PolicySpec option \<Rightarrow> PolicySpec option \<Rightarrow> PolicySpec option" where
  "MergePolicies base override =
     (case base of
        None \<Rightarrow> (case override of None \<Rightarrow> None | Some ov \<Rightarrow> Some (copyPolicySpec ov))
      | Some b \<Rightarrow>
          (case override of
             None \<Rightarrow> Some (copyPolicySpec b)
           | Some ov \<Rightarrow>
               Some \<lparr>pol_rules =
                       (if pol_rules b \<noteq> None \<or> pol_rules ov \<noteq> None
                        then Some (put_all (case pol_rules ov of None \<Rightarrow> [] | Some r \<Rightarrow> r)
                                    (put_all (case pol_rules b of None \<Rightarrow> [] | Some r \<Rightarrow> r) []))
                        else None),
                     pol_config_map =
                       (case pol_config_map ov of
                          Some c \<Rightarrow> Some c
                        | None \<Rightarrow> (case pol_config_map b of Some c \<Rightarrow> Some c | None \<Rightarrow> None))\<rparr>))"

fun rule_errors :: "string gomap \<Rightarrow> path \<Rightarrow> string list \<Rightarrow> field_error list" where
  "rule_errors rules p [] = []"
| "rule_errors rules p (k # ks) =
     (if k = [] then FRequired (path_key p k) (Msg ''policy rule name must not be empty'' []) # rule_errors rules p ks
      else (if get_or [] rules k = [] then [FRequired (path_key p k) (Msg ''policy rule value must not be empty'' [])] else [])
           @ rule_errors rules p ks)"

definition ValidatePolicyRules :: "string gomap \<Rightarrow> path option \<Rightarrow> field_error list" where
  "ValidatePolicyRules rules fld_path =
     (if rules = [] then []
      else rule_errors rules (case fld_path of None \<Rightarrow> [PChild ''rules''] | Some p \<Rightarrow> p) (sorted_keys rules))"

section \<open>Laws\<close>

definition policy_rule :: "PolicySpec option \<Rightarrow> string \<Rightarrow> string option" where
  "policy_rule p k = (case p of None \<Rightarrow> None | Some s \<Rightarrow> (case pol_rules s of None \<Rightarrow> None | Some r \<Rightarrow> map_of r k))"

definition wf_policy :: "PolicySpec option \<Rightarrow> bool" where
  "wf_policy p = (case p of None \<Rightarrow> True | Some s \<Rightarrow> (case pol_rules s of None \<Rightarrow> True | Some r \<Rightarrow> wf_gomap r))"

lemma rule_simps [simp]:
  "policy_rule None k = None"
  "policy_rule (Some \<lparr>pol_rules = r, pol_config_map = c\<rparr>) k = (case r of None \<Rightarrow> None | Some m \<Rightarrow> map_of m k)"
  by (simp_all add: policy_rule_def)

lemma rule_copy [simp]: "wf_policy (Some s) \<Longrightarrow> policy_rule (Some (copyPolicySpec s)) k = policy_rule (Some s) k"
  by (auto simp: copyPolicySpec_def policy_rule_def wf_policy_def map_of_put_all split: option.splits)

lemma wf_copy [simp]: "wf_policy (Some (copyPolicySpec s))"
  by (auto simp: copyPolicySpec_def wf_policy_def split: option.splits)

lemma wf_MergePolicies: "wf_policy (MergePolicies b ov)"
  by (auto simp: MergePolicies_def wf_policy_def copyPolicySpec_def split: option.splits)

lemma rule_MergePolicies:
  assumes "wf_policy base" "wf_policy override"
  shows "policy_rule (MergePolicies base override) k =
           (case policy_rule override k of Some v \<Rightarrow> Some v | None \<Rightarrow> policy_rule base k)"
proof (cases base)
  case None
  then show ?thesis using assms by (cases override) (simp_all add: MergePolicies_def split: option.splits)
next
  case b: (Some b)
  show ?thesis
  proof (cases override)
    case None
    then show ?thesis using assms b by (simp add: MergePolicies_def)
  next
    case (Some ov)
    then show ?thesis
      using assms b
      by (auto simp: MergePolicies_def policy_rule_def wf_policy_def map_of_put_all map_add_def split: option.splits)
  qed
qed

interpretation policies: layered "\<lambda>u d. MergePolicies d u" None policy_rule wf_policy
  by unfold_locales (simp_all add: wf_MergePolicies rule_MergePolicies, simp add: wf_policy_def)

lemma render_rules_same:
  assumes "map_of a = map_of b"
  shows "render_rules marshal a ks acc = render_rules marshal b ks acc"
  by (induction ks arbitrary: acc) (simp_all add: get_or_def assms split: sum.splits)

lemma RenderPolicyYAML_same:
  assumes "same_map a b"
  shows "RenderPolicyYAML marshal a = RenderPolicyYAML marshal b"
proof -
  have "a = [] \<longleftrightarrow> b = []" using keys_eq_if_same [OF assms] by auto
  then show ?thesis
    using sorted_keys_same [OF assms] render_rules_same [OF map_of_same [OF assms]]
    by (simp add: RenderPolicyYAML_def)
qed

lemma rule_errors_Nil_iff:
  "rule_errors rules p ks = [] \<longleftrightarrow> list_all (\<lambda>k. k \<noteq> [] \<and> get_or [] rules k \<noteq> []) ks"
  by (induction ks) auto

lemma ValidatePolicyRules_Nil_iff:
  assumes "wf_gomap rules"
  shows "ValidatePolicyRules rules p = [] \<longleftrightarrow> list_all (\<lambda>(k, v). k \<noteq> [] \<and> v \<noteq> []) rules"
proof -
  have g: "get_or [] rules (fst x) = snd x" if "x \<in> set rules" for x
    using that assms wf_map_of_iff [of rules "fst x" "snd x"] by (simp add: get_or_def)
  have "list_all (\<lambda>k. k \<noteq> [] \<and> get_or [] rules k \<noteq> []) (sorted_keys rules) \<longleftrightarrow>
      (\<forall>x\<in>set rules. fst x \<noteq> [] \<and> get_or [] rules (fst x) \<noteq> [])"
    by (simp add: list_all_iff)
  also have "\<dots> \<longleftrightarrow> list_all (\<lambda>(k, v). k \<noteq> [] \<and> v \<noteq> []) rules"
    using g by (simp add: list_all_iff case_prod_unfold)
  finally show ?thesis by (auto simp: ValidatePolicyRules_def rule_errors_Nil_iff)
qed

end
