(* ===== verification/PySettings.thy ===== *)
theory PySettings
  imports Config
begin

text \<open>
  Django settings modules, \<open>internal/common/pysettings/pysettings.go\<close>.  A decoded JSON value is the
  datatype \<open>json\<close>; a number keeps its text and an object its entries in map order.  \<open>decode\<close> is
  \<open>json.Decoder\<close> with \<open>UseNumber\<close>, which reads the first value of its input, and \<open>quote\<close> is
  \<open>strconv.Quote\<close>.  The decoder produces the six shapes below only, so the \<open>default\<close> branch of the
  type switch has no counterpart.
\<close>

datatype json =
    JNull
  | JBool bool
  | JNumber string
  | JString string
  | JArray "json list"
  | JObject "(string \<times> json) list"

definition render_pairs :: "(string \<Rightarrow> string) \<Rightarrow> string gomap \<Rightarrow> string" where
  "render_pairs quote lits =
     ''{'' @ str_join '', '' (map (\<lambda>k. quote k @ '': '' @ get_or [] lits k) (sorted_keys lits)) @ ''}''"

fun valueToPythonLiteral :: "(string \<Rightarrow> string) \<Rightarrow> json \<Rightarrow> string" where
  "valueToPythonLiteral quote JNull = ''None''"
| "valueToPythonLiteral quote (JBool b) = (if b then ''True'' else ''False'')"
| "valueToPythonLiteral quote (JNumber n) = n"
| "valueToPythonLiteral quote (JString s) = quote s"
| "valueToPythonLiteral quote (JArray vs) =
     ''['' @ str_join '', '' (map (valueToPythonLiteral quote) vs) @ '']''"
| "valueToPythonLiteral quote (JObject kvs) =
     render_pairs quote (map (\<lambda>(k, v). (k, valueToPythonLiteral quote v)) kvs)"

definition jsonToPythonLiteral :: "(string \<Rightarrow> json result) \<Rightarrow> (string \<Rightarrow> string) \<Rightarrow> string \<Rightarrow> string result" where
  "jsonToPythonLiteral decode quote raw =
     (if length (trim_space raw) = 0 then Inl (Errorf ''value is empty'' [])
      else case decode raw of
        Inl e \<Rightarrow> Inl (Errorf ''parsing JSON value: %w'' [Wrap e])
      | Inr v \<Rightarrow> Inr (valueToPythonLiteral quote v))"

definition is_ident_char :: "char \<Rightarrow> bool" where
  "is_ident_char c \<longleftrightarrow> (65 \<le> (of_char c :: nat) \<and> (of_char c :: nat) \<le> 90) \<or>
     (97 \<le> (of_char c :: nat) \<and> (of_char c :: nat) \<le> 122) \<or> c = CHR ''_''"

text \<open>The regular expression \<open>^[A-Za-z_][A-Za-z0-9_]*$\<close>.\<close>

definition settingNameRE :: "string \<Rightarrow> bool" where
  "settingNameRE s = (case s of [] \<Rightarrow> False
     | c # cs \<Rightarrow> is_ident_char c \<and> list_all (\<lambda>x. is_ident_char x \<or> is_digit x) cs)"

fun collect_names :: "string gomap \<Rightarrow> string list \<Rightarrow> string list result" where
  "collect_names [] keys = Inr keys"
| "collect_names ((k, raw) # m) keys =
     (if \<not> settingNameRE k then Inl (Errorf ''setting name %q is not a valid Python identifier'' [Str k])
      else collect_names m (keys @ [k]))"

fun render_settings ::
  "(string \<Rightarrow> json result) \<Rightarrow> (string \<Rightarrow> string) \<Rightarrow> string gomap \<Rightarrow> string list \<Rightarrow> string \<Rightarrow> string result" where
  "render_settings decode quote settings [] b = Inr b"
| "render_settings decode quote settings (k # ks) b =
     (case jsonToPythonLiteral decode quote (get_or [] settings k) of
        Inl e \<Rightarrow> Inl (Errorf ''rendering setting %s: %w'' [Str k, Wrap e])
      | Inr literal \<Rightarrow> render_settings decode quote settings ks (b @ k @ '' = '' @ literal @ [nl]))"

definition RenderSettings ::
  "(string \<Rightarrow> json result) \<Rightarrow> (string \<Rightarrow> string) \<Rightarrow> string list \<Rightarrow> string gomap \<Rightarrow> string result" where
  "RenderSettings decode quote preamble settings =
     (let b = concat (map (\<lambda>line. line @ [nl]) preamble) @
              (if length preamble > 0 \<and> length settings > 0 then [nl] else [])
      in case collect_names settings [] of
           Inl e \<Rightarrow> Inl e
         | Inr keys \<Rightarrow> render_settings decode quote settings (sort keys) b)"

section \<open>Names and order\<close>

lemma collect_names_Inr_iff:
  "collect_names m keys = Inr r \<longleftrightarrow> list_all (\<lambda>(k, v). settingNameRE k) m \<and> r = keys @ map fst m"
  by (induction m keys rule: collect_names.induct) auto

lemma collect_names_Inl: "collect_names m keys = Inl e \<Longrightarrow> \<not> list_all (\<lambda>(k, v). settingNameRE k) m"
  by (induction m keys rule: collect_names.induct) (auto split: if_splits)

lemma RenderSettings_names:
  "RenderSettings decode quote preamble settings = Inr t \<Longrightarrow> list_all (\<lambda>(k, v). settingNameRE k) settings"
  by (auto simp: RenderSettings_def collect_names_Inr_iff split: sum.splits)

lemma settingNameRE_safe: "settingNameRE k \<Longrightarrow> c \<in> set k \<Longrightarrow> is_ident_char c \<or> is_digit c"
  by (auto simp: settingNameRE_def list_all_iff split: list.splits)

text \<open>Two JSON values that differ in the order of object entries only.\<close>

inductive json_same :: "json \<Rightarrow> json \<Rightarrow> bool" where
  same_null: "json_same JNull JNull"
| same_bool: "json_same (JBool b) (JBool b)"
| same_number: "json_same (JNumber n) (JNumber n)"
| same_string: "json_same (JString s) (JString s)"
| same_array: "list_all2 json_same vs ws \<Longrightarrow> json_same (JArray vs) (JArray ws)"
| same_object: "wf_gomap kvs \<Longrightarrow> wf_gomap kws \<Longrightarrow>
     (\<And>k. rel_option json_same (map_of kvs k) (map_of kws k)) \<Longrightarrow> json_same (JObject kvs) (JObject kws)"

inductive_cases json_same_ObjectE: "json_same (JObject kvs) w"

lemma map_of_lits: "map_of (map (\<lambda>(k, v). (k, f v)) kvs) k = map_option f (map_of kvs k)"
  by (induction kvs) auto

lemma wf_lits: "wf_gomap (map (\<lambda>(k, v). (k, f v)) kvs) = wf_gomap kvs"
  by (simp add: wf_gomap_def case_prod_unfold comp_def)

lemma render_pairs_same: "same_map a b \<Longrightarrow> render_pairs quote a = render_pairs quote b"
  by (simp add: render_pairs_def sorted_keys_same get_or_def map_of_same)

lemma literal_same: "json_same v w \<Longrightarrow> valueToPythonLiteral quote v = valueToPythonLiteral quote w"
proof (induction rule: json_same.induct)
  case (same_array vs ws)
  then have "map (valueToPythonLiteral quote) vs = map (valueToPythonLiteral quote) ws"
    by (induction rule: list_all2_induct) auto
  then show ?case by (simp only: valueToPythonLiteral.simps)
next
  case (same_object kvs kws)
  have "map_option (valueToPythonLiteral quote) (map_of kvs k) = map_option (valueToPythonLiteral quote) (map_of kws k)" for k
    using same_object(3) [of k] by (cases "map_of kvs k"; cases "map_of kws k") auto
  then have "same_map (map (\<lambda>(k, v). (k, valueToPythonLiteral quote v)) kvs)
      (map (\<lambda>(k, v). (k, valueToPythonLiteral quote v)) kws)"
    using same_object(1,2) by (simp add: same_map_def wf_lits map_of_lits fun_eq_iff)
  then show ?case by (simp only: valueToPythonLiteral.simps render_pairs_same)
qed simp_all

lemma render_settings_same:
  assumes "map_of a = map_of b"
  shows "render_settings decode quote a ks acc = render_settings decode quote b ks acc"
  by (induction ks arbitrary: acc) (simp_all add: get_or_def assms split: sum.splits)

lemma RenderSettings_same:
  assumes "same_map a b" "RenderSettings decode quote pre a = Inr t"
  shows "RenderSettings decode quote pre b = Inr t"
proof -
  have keys: "fst ` set a = fst ` set b" by (rule keys_eq_if_same [OF assms(1)])
  then have "a = [] \<longleftrightarrow> b = []" by auto
  moreover have "list_all (\<lambda>(k, v). settingNameRE k) b"
    using RenderSettings_names [OF assms(2)] keys by (force simp: list_all_iff)
  ultimately show ?thesis
    using assms(2) RenderSettings_names [OF assms(2)]
      sorted_keys_same [OF assms(1), unfolded sorted_keys_def]
      render_settings_same [OF map_of_same [OF assms(1)]]
    by (simp add: RenderSettings_def collect_names_Inr_iff [THEN iffD2])
qed

end
