(* ===== verification/ConfigProperties.thy ===== *)
theory ConfigProperties
  imports Release Config Plugins Policy PySettings Validation
begin

text \<open>
  Properties of the release parser and of everything that renders or checks configuration: INI files,
  immutable ConfigMaps and Secrets and their pruning, paste pipelines, oslo policy, Django settings and
  the admission checks the operators share.
\<close>

section \<open>Releases\<close>

text \<open>
  Every release written the documented way, a year from 2010 on, a dot, 1 or 2, and optionally a dash and a
  suffix, is parsed to its parts.
\<close>

lemma release_parse_print:
  assumes "2010 \<le> y" "is_int64 (int y)" "n = 1 \<or> n = 2"
  shows "ParseRelease (render_release y n p) =
           Inr \<lparr>r_year = int y, r_minor = int n, r_patch = p, r_raw = render_release y n p\<rparr>"
  using assms by (rule parse_render)

text \<open>
  On parsed releases the three predicates are comparisons of positions in the release sequence: a patch
  keeps the position, a sequential upgrade adds one to it, a downgrade lowers it; so no transition is of two
  kinds, and the year increment does not wrap.
\<close>

lemma release_kinds:
  assumes "ParseRelease a = Inr x" "ParseRelease b = Inr y"
  shows "(IsPatchOnly x y \<longleftrightarrow> ordinal y = ordinal x) \<and> (IsSequentialUpgrade x y \<longleftrightarrow> ordinal y = ordinal x + 1) \<and>
    (IsDowngrade x y \<longleftrightarrow> ordinal y < ordinal x) \<and> (IsSequentialUpgrade x y \<longrightarrow> IsDowngrade y x)"
  using order.patch_pos [OF assms] order.sequential_pos [OF assms] order.downgrade_pos [OF assms]
    order.sequential_irreversible [OF assms] by blast

section \<open>Configuration files\<close>

text \<open>
  Rendering is deterministic: the text of an INI file depends only on what the nested maps contain, not on
  the order in which Go iterates over them.
\<close>

lemma ini_deterministic:
  assumes "wf_sections m" "wf_sections m'" "den m = den m'"
  shows "RenderINI m = RenderINI m'"
  using assms by (rule RenderINI_den)

definition ex_ini :: sections where
  "ex_ini = [(''DEFAULT'', [(''debug'', ''true''), (''a'', ''b'')]), (''token'', [])]"

definition ex_ini' :: sections where
  "ex_ini' = [(''token'', []), (''DEFAULT'', [(''a'', ''b''), (''debug'', ''true'')])]"

text \<open>
  Layering of configuration: after the merge and the injection of the policy file, an option has the
  injected value if it is the policy file, else the user's value, else the default.
\<close>

lemma config_layers:
  assumes "wf_sections u" "wf_sections d" "p \<noteq> []"
  shows "look (InjectOsloPolicyConfig (MergeDefaults u d) p) s k =
    (if s = ''oslo_policy'' \<and> k = ''policy_file'' then Some p
     else case look u s k of Some v \<Rightarrow> Some v | None \<Rightarrow> look d s k)"
proof -
  have "wf_sections (MergeDefaults u d)" by simp
  from look_Inject [OF this assms(3)] show ?thesis by (simp add: look_MergeDefaults [OF assms(1,2)])
qed

section \<open>Immutable objects\<close>

text \<open>
  The name of an immutable object is a function of its content alone, and the encoding that is hashed
  into it is injective: two contents share the encoding exactly when they are the same map.
\<close>

lemma immutable_name_content:
  assumes "wf_gomap a" "wf_gomap b"
  shows "(content_encoding a = content_encoding b \<longleftrightarrow> map_of a = map_of b) \<and>
    (map_of a = map_of b \<longrightarrow> immutable_name sha base a = immutable_name sha base b)"
  using content_encoding_inject [OF assms] by (metis immutable_name_def)

text \<open>
  Creating an immutable ConfigMap returns the content's name only if the object was created with the owner
  reference set, or an object of that name already exists and is controlled by the owner; it never adopts
  another owner's object.
\<close>

lemma immutable_owned:
  assumes "CreateImmutableConfigMap sha set_ref C owner base ns data w = (Inr name, w')"
  shows "name = immutable_name sha base data \<and>
    ((\<exists>obj o'. set_ref owner (new_immutable name ns base data) = Inr obj \<and> k_create C obj w = (Inr o', w')) \<or>
     (\<exists>existing. k_get C (ns, name) w' = Inr existing \<and> m_controller (im_meta existing) = Some (m_uid owner)))"
proof -
  from assms have c: "create_immutable ''ConfigMap'' sha set_ref C owner base ns data w = (Inr name, w')"
    by (simp add: CreateImmutableConfigMap_def)
  from create_immutable_name [OF c] create_immutable_owned [OF c] show ?thesis
    by (auto simp: controlled_by_def split: option.splits)
qed

definition ex_own :: "objmeta \<Rightarrow> immutable \<Rightarrow> immutable result" where
  "ex_own owner x = Inr (x\<lparr>im_meta := (im_meta x)\<lparr>m_controller := Some (m_uid owner)\<rparr>\<rparr>)"

text \<open>Deleting a list of objects: what is left, what is gone, how far it gets.\<close>

lemma deletes_local: "deletes meta C \<Longrightarrow> delete_local meta C"
  by (simp add: delete_local_def deletes_other)

lemma delete_absent:
  assumes "deletes meta C" "k_delete C opts x w = (e, w')" "ignore_not_found e = None" "absent C k w"
  shows "absent C k w'"
proof (cases "k = key_of (meta x)")
  case False
  then have "k_get C k w' = k_get C k w" using deletes_other [OF assms(1), of k x opts w] assms(2) by simp
  then show ?thesis using assms(4) by (simp add: absent_def)
qed (use deletes_gone [OF assms(1-3)] in simp)

lemma delete_each_absent:
  assumes "deletes meta C"
  shows "delete_each kind ns meta C xs w = (None, w') \<Longrightarrow> absent C k w \<Longrightarrow> absent C k w'"
  by (induction xs arbitrary: w)
     (auto split: option.splits prod.splits dest: delete_absent [OF assms])

lemma delete_each_gone:
  assumes "deletes meta C"
  shows "delete_each kind ns meta C xs w = (None, w') \<Longrightarrow> x \<in> set xs \<Longrightarrow> absent C (key_of (meta x)) w'"
  by (induction xs arbitrary: w)
     (auto split: option.splits prod.splits dest: deletes_gone [OF assms] intro: delete_each_absent [OF assms])

text \<open>A stale object has at least as many newer candidates as are retained.\<close>

lemma victim_rank:
  assumes "x \<in> set (victims meta owner opts items)"
  shows "nat (po_retain opts) \<le> length (filter (\<lambda>y. is_candidate owner opts (meta y) \<and>
     recency_of (meta y) \<le> recency_of (meta x)) items)"
proof -
  let ?c = "prune_candidates meta owner opts items" and ?n = "nat (po_retain opts)"
  let ?P = "\<lambda>y. recency_of (meta y) \<le> recency_of (meta x)"
  have "?n \<le> length ?c" using assms unfolding victims_def by (metis drop_all linorder_le_cases list.set(1) empty_iff)
  then have "?n = length (take ?n ?c)" by simp
  also have "\<dots> = length (filter ?P (take ?n ?c))"
    using retained_newest [OF _ assms] by (subst filter_True) auto
  also have "\<dots> \<le> length (filter ?P ?c)"
    by (metis append_take_drop_id filter_append le_add1 length_append)
  also have "\<dots> = length (filter ?P (filter (\<lambda>y. is_candidate owner opts (meta y)) items))"
    by (simp add: prune_candidates_def filter_sort)
  finally show ?thesis by (simp add: conj_commute)
qed

text \<open>
  Pruning the history of an immutable ConfigMap never touches anything but stale versions: every object that
  changes was listed under the base name's label, is controlled by the owner, carries the base name as prefix,
  is not the current one, and at least as many candidates as are to be retained are newer.
\<close>

lemma prune_only_stale:
  assumes "delete_local meta C" "k_list C (po_namespace opts) [(ConfigBaseLabelKey, po_base opts)] w = Inr items"
    and "PruneImmutableConfigMaps meta C owner opts w = (e, w')" "k_get C k w' \<noteq> k_get C k w"
  shows "\<exists>x\<in>set items. key_of (meta x) = k \<and> m_controller (meta x) = Some (m_uid owner) \<and>
    has_prefix (m_name (meta x)) (po_base opts @ ''-'') \<and> m_name (meta x) \<noteq> po_current opts \<and>
    nat (po_retain opts) \<le> length (filter (\<lambda>y. is_candidate owner opts (meta y) \<and>
      recency_of (meta y) \<le> recency_of (meta x)) items)"
proof -
  have p: "delete_each ''ConfigMap'' (po_namespace opts) meta C (victims meta owner opts items) w = (e, w')"
    using assms(2,3) by (simp add: PruneImmutableConfigMaps_def prune_is_delete_each)
  then have "k \<in> (\<lambda>x. key_of (meta x)) ` set (victims meta owner opts items)"
    using delete_each_frame [OF assms(1), of k "victims meta owner opts items" "''ConfigMap''" "po_namespace opts" w] assms(4)
    by auto
  then obtain x where x: "x \<in> set (victims meta owner opts items)" "k = key_of (meta x)" by blast
  then have "x \<in> set items" "is_candidate owner opts (meta x)" by (blast dest: victims_candidates)+
  moreover from this have "m_controller (meta x) = Some (m_uid owner)"
    "has_prefix (m_name (meta x)) (po_base opts @ ''-'')" "m_name (meta x) \<noteq> po_current opts"
    by (auto simp: is_candidate_def controlled_by_def split: if_splits option.splits)
  ultimately show ?thesis using x victim_rank [OF x(1)] by blast
qed

definition ex_version :: "string \<Rightarrow> int \<Rightarrow> objmeta" where
  "ex_version name t = blank_meta\<lparr>m_name := name, m_created := t, m_controller := Some ''u'',
     m_labels := [(ConfigBaseLabelKey, ''c'')]\<rparr>"

definition ex_history :: "(objkey \<times> objmeta) list" where
  "ex_history = [(([], ''c-1''), ex_version ''c-1'' 1), (([], ''c-2''), ex_version ''c-2'' 2), (([], ''c-3''), ex_version ''c-3'' 3)]"

definition ex_prune :: prune_options where
  "ex_prune = \<lparr>po_base = ''c'', po_namespace = [], po_current = ''c-3'', po_retain = 1\<rparr>"

definition ex_owner :: objmeta where
  "ex_owner = blank_meta\<lparr>m_uid := ''u''\<rparr>"

lemma ex_list: "k_list (store_client (\<lambda>m. m)) [] [(ConfigBaseLabelKey, ''c'')] ex_history =
   Inr [ex_version ''c-1'' 1, ex_version ''c-2'' 2, ex_version ''c-3'' 3]"
  by (simp add: ex_history_def ex_version_def blank_meta_def)

lemma ex_prune_list: "k_list (store_client (\<lambda>m. m)) (po_namespace ex_prune) [(ConfigBaseLabelKey, po_base ex_prune)] ex_history =
     Inr [ex_version ''c-1'' 1, ex_version ''c-2'' 2, ex_version ''c-3'' 3]"
  using ex_list by (simp add: ex_prune_def)

lemma ex_prune_objects:
  "pruneImmutableObjects (\<lambda>m. m) (store_client (\<lambda>m. m)) ex_owner ex_prune
     [ex_version ''c-1'' 1, ex_version ''c-2'' 2, ex_version ''c-3'' 3] kind ex_history =
   (None, [(([], ''c-2''), ex_version ''c-2'' 2), (([], ''c-3''), ex_version ''c-3'' 3)])"
  by (simp add: pruneImmutableObjects_def prune_candidates_def is_candidate_def ex_prune_def ex_owner_def
        ex_version_def ex_history_def blank_meta_def has_prefix_def controlled_by_def recency_of_def
        less_eq_recency_def key_of_def Let_def)

lemma ex_prune_run:
  "PruneImmutableConfigMaps (\<lambda>m. m) (store_client (\<lambda>m. m)) ex_owner ex_prune ex_history =
   (None, [(([], ''c-2''), ex_version ''c-2'' 2), (([], ''c-3''), ex_version ''c-3'' 3)])"
  "PruneImmutableSecrets (\<lambda>m. m) (store_client (\<lambda>m. m)) ex_owner ex_prune ex_history =
   (None, [(([], ''c-2''), ex_version ''c-2'' 2), (([], ''c-3''), ex_version ''c-3'' 3)])"
  unfolding PruneImmutableConfigMaps_def PruneImmutableSecrets_def ex_prune_list by (simp_all add: ex_prune_objects)

text \<open>
  A prune without error keeps the history bounded: every candidate beyond the retained ones, taken from the
  newest on, is gone, and so at most the retained number of listed candidates is left.
\<close>

lemma prune_bounds_history:
  assumes "deletes meta C" "k_list C (po_namespace opts) [(ConfigBaseLabelKey, po_base opts)] w = Inr items"
    and "PruneImmutableSecrets meta C owner opts w = (None, w')"
  shows "length (filter (\<lambda>x. \<not> absent C (key_of (meta x)) w') (prune_candidates meta owner opts items)) \<le> nat (po_retain opts)"
proof -
  let ?c = "prune_candidates meta owner opts items" and ?n = "nat (po_retain opts)"
  have p: "delete_each ''Secret'' (po_namespace opts) meta C (drop ?n ?c) w = (None, w')"
    using assms(2,3) by (simp add: PruneImmutableSecrets_def prune_is_delete_each victims_def)
  have "filter (\<lambda>x. \<not> absent C (key_of (meta x)) w') (drop ?n ?c) = []"
    using delete_each_gone [OF assms(1) p] by (simp add: filter_empty_conv)
  then have "filter (\<lambda>x. \<not> absent C (key_of (meta x)) w') ?c =
      filter (\<lambda>x. \<not> absent C (key_of (meta x)) w') (take ?n ?c)"
    by (metis append_Nil2 append_take_drop_id filter_append)
  then show ?thesis by (metis length_filter_le length_take min.bounded_iff)
qed

section \<open>Paste pipelines and plugins\<close>

lemma look_find:
  "look m s k = (case map_of m s of None \<Rightarrow> None | Some kvs \<Rightarrow> map_of kvs k)"
  by (simp add: look_def)

lemma find_distinct:
  assumes "distinct (map f xs)" "x \<in> set xs"
  shows "find (\<lambda>y. f y = f x) xs = Some x"
  using assms by (induction xs) auto

lemma find_False [simp]: "find (\<lambda>y. False) xs = None"
  by (simp add: find_None_iff)

text \<open>
  A pipeline specification is rendered exactly when it has a name, every middleware has a name of its own, a
  factory and a known position, no base filter is empty and something is left to run.  The rendered
  pipeline directive is the middleware placed before, the base filters, the middleware placed after and the
  application, in this order.
\<close>

lemma paste_pipeline_order:
  "case RenderPastePipeline spec of
     Inl e \<Rightarrow> \<not> pipeline_ok spec
   | Inr m \<Rightarrow> pipeline_ok spec \<and>
       (wf_gomap (ps_base_factories spec) \<longrightarrow> look m (''pipeline:'' @ ps_name spec) ''pipeline'' =
         Some (str_join '' ''
           (map mw_name (filter (\<lambda>mw. mw_position mw = PipelinePositionBefore) (ps_middleware spec)) @ ps_base_filters spec @
            map mw_name (filter (\<lambda>mw. mw_position mw = PipelinePositionAfter) (ps_middleware spec)) @
            (if ps_app spec \<noteq> [] then [ps_app spec] else []))))"
proof (cases "RenderPastePipeline spec")
  case (Inl e)
  then show ?thesis using RenderPastePipeline_Inr_iff [of spec "paste_sections spec"] by auto
next
  case (Inr m)
  then have ok: "pipeline_ok spec" and m: "m = paste_sections spec" by (simp_all add: RenderPastePipeline_Inr_iff)
  have d: "distinct (map mw_name (ps_middleware spec))" using ok by (simp add: pipeline_ok_def)
  have "look m (''pipeline:'' @ ps_name spec) ''pipeline'' = Some (str_join '' '' (paste_pipeline spec))"
    if "wf_gomap (ps_base_factories spec)"
    unfolding m paste_sections_def
    by (simp add: Let_def look_find map_of_base_sections [OF that] look_middleware_sections [OF d] case_prod_unfold)
  then show ?thesis using Inr ok by (simp add: paste_pipeline_def names_at_def)
qed

text \<open>
  In a rendered pipeline the filter section of a middleware keeps the factory of its specification, which the
  user's configuration cannot replace, unless a base filter has the same name.
\<close>

lemma middleware_factory_kept:
  assumes "RenderPastePipeline spec = Inr m" "mw \<in> set (ps_middleware spec)" "wf_gomap (ps_base_factories spec)"
    and "mw_name mw \<notin> fst ` set (ps_base_factories spec)"
  shows "look m (''filter:'' @ mw_name mw) ''paste.filter_factory'' = Some (mw_factory mw)"
proof -
  have ok: "pipeline_ok spec" and m: "m = paste_sections spec" using assms(1) by (simp_all add: RenderPastePipeline_Inr_iff)
  have d: "distinct (map mw_name (ps_middleware spec))" using ok by (simp add: pipeline_ok_def)
  have f: "find (\<lambda>y. mw_name y = mw_name mw) (ps_middleware spec) = Some mw" by (rule find_distinct [OF d assms(2)])
  have b: "find (\<lambda>(n, f). n = mw_name mw) (ps_base_factories spec) = None"
    using assms(4) by (force simp: find_None_iff)
  show ?thesis
    unfolding m paste_sections_def using f b
    by (simp add: Let_def look_find map_of_base_sections [OF assms(3)] look_middleware_sections [OF d] copy_config_factory)
qed

definition ex_spec :: PipelineSpec where
  "ex_spec = \<lparr>ps_name = ''public'', ps_app = ''app'', ps_app_factory = [], ps_base_filters = [''core''],
      ps_base_factories = [(''core'', ''egg:core'')], ps_base_configs = [], ps_routes = [],
      ps_middleware = [\<lparr>mw_name = ''audit'', mw_factory = ''audit:factory'', mw_position = ''before'',
        mw_config = [(''paste.filter_factory'', ''evil:factory''), (''map'', ''x'')]\<rparr>]\<rparr>"

text \<open>A base filter that shares a middleware's name silently replaces its section, factory and all.\<close>

lemma base_filter_overwrites_middleware:
  "\<exists>m. RenderPastePipeline (ex_spec\<lparr>ps_base_factories := [(''audit'', ''egg:other'')]\<rparr>) = Inr m \<and>
     look m ''filter:audit'' ''paste.filter_factory'' = None \<and> look m ''filter:audit'' ''use'' = Some ''egg:other''"
proof -
  let ?s = "ex_spec\<lparr>ps_base_factories := [(''audit'', ''egg:other'')]\<rparr>"
  have "RenderPastePipeline ?s = Inr (paste_sections ?s)"
    by (simp add: RenderPastePipeline_Inr_iff pipeline_ok_def ex_spec_def paste_pipeline_def names_at_def
          middleware_ok_def PipelinePositionBefore_def PipelinePositionAfter_def)
  then show ?thesis by (simp add: paste_sections_def ex_spec_def look_find)
qed

section \<open>Policies\<close>

text \<open>
  Merging two policies: a rule of the override wins, a rule only the base has is kept, a missing policy
  adds nothing, and merging is associative, so the order of a chain of merges does not matter as long as
  precedence does.
\<close>

lemma policy_merge:
  assumes "wf_policy a" "wf_policy b" "wf_policy c"
  shows "policy_rule (MergePolicies a b) k = (case policy_rule b k of Some v \<Rightarrow> Some v | None \<Rightarrow> policy_rule a k) \<and>
    policy_rule (MergePolicies None b) k = policy_rule b k \<and> policy_rule (MergePolicies a None) k = policy_rule a k \<and>
    policy_rule (MergePolicies (MergePolicies a b) c) k = policy_rule (MergePolicies a (MergePolicies b c)) k"
  using rule_MergePolicies [OF assms(1,2), of k] policies.merge_copy [OF assms(2), of k]
    policies.merge_assoc [OF assms(3,2,1), of k] rule_MergePolicies [OF assms(1), of None k]
  by (simp add: wf_policy_def)

definition ex_policy :: "string \<Rightarrow> string \<Rightarrow> PolicySpec option" where
  "ex_policy k v = Some \<lparr>pol_rules = Some [(k, v)], pol_config_map = None\<rparr>"

text \<open>
  A set of policy rules passes validation exactly when no rule name and no rule value is empty, and the
  rendered policy file does not depend on the order of the map.
\<close>

lemma policy_rules_checked:
  assumes "wf_gomap rules" "same_map rules rules'"
  shows "(ValidatePolicyRules rules p = [] \<longleftrightarrow> list_all (\<lambda>(k, v). k \<noteq> [] \<and> v \<noteq> []) rules) \<and>
    RenderPolicyYAML marshal rules = RenderPolicyYAML marshal rules'"
  using ValidatePolicyRules_Nil_iff [OF assms(1)] RenderPolicyYAML_same [OF assms(2)] by simp

section \<open>Django settings\<close>

text \<open>A decoded value whose numbers stay on one line.\<close>

fun one_line :: "json \<Rightarrow> bool" where
  "one_line JNull = True"
| "one_line (JBool b) = True"
| "one_line (JNumber n) = (nl \<notin> set n)"
| "one_line (JString s) = True"
| "one_line (JArray vs) = list_all one_line vs"
| "one_line (JObject kvs) = list_all (\<lambda>(k, v). one_line v) kvs"

lemma str_join_no_char: "c \<notin> set sep \<Longrightarrow> \<forall>x\<in>set xs. c \<notin> set x \<Longrightarrow> c \<notin> set (str_join sep xs)"
  by (induction sep xs rule: str_join.induct) auto

lemma get_or_cases: "get_or [] m k = [] \<or> get_or [] m k \<in> snd ` set m"
  by (auto simp: get_or_def split: option.split dest: map_of_SomeD intro: image_eqI [where x = "(k, x)" for x])

lemma render_pairs_no_nl:
  assumes "\<And>s. nl \<notin> set (quote s)" "\<forall>v\<in>snd ` set lits. nl \<notin> set v"
  shows "nl \<notin> set (render_pairs quote lits)"
proof -
  have "nl \<notin> set (get_or [] lits k)" for k using get_or_cases [of lits k] assms(2) by auto
  then have "nl \<notin> set (str_join '', '' (map (\<lambda>k. quote k @ '': '' @ get_or [] lits k) (sorted_keys lits)))"
    using assms(1) by (intro str_join_no_char) auto
  then show ?thesis by (simp add: render_pairs_def)
qed

lemma literal_no_nl:
  assumes "\<And>s. nl \<notin> set (quote s)"
  shows "one_line v \<Longrightarrow> nl \<notin> set (valueToPythonLiteral quote v)"
proof (induction v)
  case (JArray vs)
  then have "nl \<notin> set (str_join '', '' (map (valueToPythonLiteral quote) vs))"
    by (intro str_join_no_char) (auto simp: list_all_iff)
  then show ?case by simp
next
  case (JObject kvs)
  then have "\<forall>v\<in>snd ` set (map (\<lambda>(k, v). (k, valueToPythonLiteral quote v)) kvs). nl \<notin> set v"
    by (fastforce simp: list_all_iff)
  from render_pairs_no_nl [OF assms this] show ?case by simp
qed (use assms in auto)

lemma render_settings_lines:
  assumes "render_settings decode quote settings ks b = Inr t"
  shows "t = b @ concat (map (\<lambda>k. k @ '' = '' @
      (case decode (get_or [] settings k) of Inl e \<Rightarrow> [] | Inr v \<Rightarrow> valueToPythonLiteral quote v) @ [nl]) ks)"
  using assms
proof (induction ks arbitrary: b)
  case (Cons k ks)
  then obtain v where v: "decode (get_or [] settings k) = Inr v"
    and r: "render_settings decode quote settings ks (b @ k @ '' = '' @ valueToPythonLiteral quote v @ [nl]) = Inr t"
    by (auto simp: jsonToPythonLiteral_def split: if_splits sum.splits)
  show ?case using Cons.IH [OF r] v by simp
qed simp

text \<open>
  A rendered settings module is the preamble followed by exactly one line per setting, in name order, which
  assigns a literal without a line break to a valid identifier; so no setting can add a statement.  The text
  depends only on what the map contains.
\<close>

lemma settings_one_line_each:
  assumes "RenderSettings decode quote preamble settings = Inr t" "\<And>s. nl \<notin> set (quote s)"
    and "\<And>raw v. decode raw = Inr v \<Longrightarrow> one_line v" "same_map settings settings'"
  shows "RenderSettings decode quote preamble settings' = Inr t \<and>
    (\<exists>literal header. t = header @ concat (map (\<lambda>k. k @ '' = '' @ literal k @ [nl]) (sorted_keys settings)) \<and>
      header = concat (map (\<lambda>line. line @ [nl]) preamble) @ (if preamble \<noteq> [] \<and> settings \<noteq> [] then [nl] else []) \<and>
      list_all (\<lambda>(k, raw). settingNameRE k \<and> nl \<notin> set k \<and> nl \<notin> set (literal k)) settings)"
proof -
  define literal where "literal k = (case decode (get_or [] settings k) of Inl e \<Rightarrow> [] | Inr v \<Rightarrow> valueToPythonLiteral quote v)" for k
  have names: "list_all (\<lambda>(k, raw). settingNameRE k) settings" by (rule RenderSettings_names [OF assms(1)])
  have lit: "nl \<notin> set (literal k)" for k
    using assms(3) literal_no_nl [OF assms(2)] by (auto simp: literal_def split: sum.split)
  have id: "nl \<notin> set k" if "settingNameRE k" for k
    using settingNameRE_safe [OF that, of nl] by (auto simp: is_ident_char_def is_digit_def)
  have "render_settings decode quote settings (sort (map fst settings))
      (concat (map (\<lambda>line. line @ [nl]) preamble) @ (if length preamble > 0 \<and> length settings > 0 then [nl] else [])) = Inr t"
    using assms(1) names by (simp add: RenderSettings_def collect_names_Inr_iff [THEN iffD2])
  from render_settings_lines [OF this] have
    "t = (concat (map (\<lambda>line. line @ [nl]) preamble) @ (if preamble \<noteq> [] \<and> settings \<noteq> [] then [nl] else [])) @
       concat (map (\<lambda>k. k @ '' = '' @ literal k @ [nl]) (sorted_keys settings))"
    by (simp add: literal_def sorted_keys_def)
  moreover have "list_all (\<lambda>(k, raw). settingNameRE k \<and> nl \<notin> set k \<and> nl \<notin> set (literal k)) settings"
    using names lit id by (auto simp: list_all_iff)
  ultimately show ?thesis using RenderSettings_same [OF assms(4,1)] by blast
qed

definition ex_decode :: "string \<Rightarrow> json result" where
  "ex_decode raw = (if raw = ''true'' then Inr (JBool True) else Inr (JString raw))"

section \<open>Admission checks\<close>

text \<open>
  The shared checks accept exactly what they are meant to: a database or cache given in exactly one of its two
  ways, dynamic credentials only with a managed cluster, a store reference with a name and a known kind, and
  spread constraints whose selector is the Deployment's, label by label, with no expressions.
\<close>

lemma admission_checks:
  assumes "wf_gomap req"
    and "list_all (\<lambda>tsc. case ts_selector tsc of None \<Rightarrow> True | Some sel \<Rightarrow> wf_gomap (ls_match_labels sel)) tscs"
  shows "(DatabaseXOR p db = [] \<longleftrightarrow> (db_cluster_ref db = None) = (db_host db \<noteq> [])) \<and>
    (CacheXOR p ca = [] \<longleftrightarrow> (ca_cluster_ref ca = None) = (ca_servers ca \<noteq> [])) \<and>
    (DynamicCredentialsRequireClusterRef p db = [] \<longleftrightarrow>
       db_credentials_mode db \<noteq> CredentialsModeDynamic \<or> db_cluster_ref db \<noteq> None) \<and>
    (SecretStoreRef p (Some r) = [] \<longleftrightarrow>
       st_name r \<noteq> [] \<and> st_kind r \<in> {[], SecretStoreKindCluster, SecretStoreKindNamespaced}) \<and>
    (TopologySpreadSelector p tscs req = [] \<longleftrightarrow>
       list_all (\<lambda>tsc. case ts_selector tsc of None \<Rightarrow> False
         | Some sel \<Rightarrow> map_of (ls_match_labels sel) = map_of req \<and> ls_match_expressions sel = []) tscs)"
proof -
  have "tsc_ok req tsc \<longleftrightarrow> (case ts_selector tsc of None \<Rightarrow> False
         | Some sel \<Rightarrow> map_of (ls_match_labels sel) = map_of req \<and> ls_match_expressions sel = [])" if "tsc \<in> set tscs" for tsc
    using assms that maps_equal_iff [OF _ assms(1)] by (auto simp: tsc_ok_def list_all_iff split: option.splits)
  then have "list_all (tsc_ok req) tscs \<longleftrightarrow> list_all (\<lambda>tsc. case ts_selector tsc of None \<Rightarrow> False
         | Some sel \<Rightarrow> map_of (ls_match_labels sel) = map_of req \<and> ls_match_expressions sel = []) tscs"
    by (simp add: list_all_iff)
  then show ?thesis
    by (auto simp: DatabaseXOR_ok CacheXOR_ok SecretStoreRef_ok TopologySpreadSelector_def topology_errors_Nil_iff
          DynamicCredentialsRequireClusterRef_def)
qed

end
