(* ===== verification/DataProperties.thy ===== *)
theory DataProperties
  imports Rotation Dsn Jobs DatabaseFlow
begin

text \<open>
  Properties of the data path of a service: credential rotation, the connection string and its TLS
  parameters, one-off jobs, database provisioning and synchronisation, the connection Secret and teardown.
\<close>

section \<open>What an API server keeps of Secrets\<close>

text \<open>
  An update or creation that succeeds stores the object under its key with its data, an update that
  fails changes nothing there, and no update touches another key.
\<close>

definition secret_store :: "(secret, 'w) kclient \<Rightarrow> bool" where
  "secret_store C \<longleftrightarrow> deletes s_meta C \<and>
     (\<forall>x w. (\<forall>k. k \<noteq> key_of (s_meta x) \<longrightarrow> k_get C k (snd (k_update C x w)) = k_get C k w) \<and>
       (case fst (k_update C x w) of
          Inl e \<Rightarrow> k_get C (key_of (s_meta x)) (snd (k_update C x w)) = k_get C (key_of (s_meta x)) w
        | Inr y \<Rightarrow> k_get C (key_of (s_meta x)) (snd (k_update C x w)) = Inr y \<and> s_data y = s_data x) \<and>
       (case fst (k_create C x w) of
          Inl e \<Rightarrow> True
        | Inr y \<Rightarrow> k_get C (key_of (s_meta x)) (snd (k_create C x w)) = Inr y \<and> s_data y = s_data x))"

lemma store_secret_store: "secret_store (store_client s_meta)"
  by (simp add: secret_store_def store_deletes)

lemma update_other:
  "secret_store C \<Longrightarrow> k \<noteq> key_of (s_meta x) \<Longrightarrow> k_get C k (snd (k_update C x w)) = k_get C k w"
  unfolding secret_store_def by blast

lemma update_stored:
  assumes "secret_store C" "k_update C x w = (Inr y, w')"
  shows "k_get C (key_of (s_meta x)) w' = Inr y" "s_data y = s_data x"
  using assms(1) [unfolded secret_store_def, THEN conjunct2, rule_format, of x w] assms(2) by auto

lemma create_stored:
  assumes "secret_store C" "k_create C x w = (Inr y, w')"
  shows "k_get C (key_of (s_meta x)) w' = Inr y" "s_data y = s_data x"
  using assms(1) [unfolded secret_store_def, THEN conjunct2, rule_format, of x w] assms(2) by auto

lemma update_failed:
  assumes "secret_store C" "k_update C x w = (Inl e, w')"
  shows "k_get C k w' = k_get C k w"
proof (cases "k = key_of (s_meta x)")
  case True
  then show ?thesis
    using assms(1) [unfolded secret_store_def, THEN conjunct2, rule_format, of x w] assms(2) by auto
qed (use update_other [OF assms(1), of k x w] assms(2) in simp)

lemma key_committed [simp]:
  "key_of (s_meta (committed st target)) = key_of (s_meta target)"
  "key_of (s_meta (without_annotation a (st\<lparr>s_data := d\<rparr>))) = key_of (s_meta st)"
  by (simp_all add: committed_def with_annotation_def without_annotation_def key_of_def)

lemma delete_staging_keeps:
  assumes "secret_store C" "key_of (s_meta st) \<noteq> k" "delete_staging C spec st already w = (r, evs, w')"
  shows "k_get C k w' = k_get C k w"
proof -
  have "w' = snd (k_delete C (no_opts\<lparr>d_uid := Some (m_uid (s_meta st)), d_resource_version := Some (s_version st)\<rparr>) st w)"
    using assms(3) by (auto simp: delete_staging_def Let_def split: prod.splits if_splits)
  moreover have "deletes s_meta C" using assms(1) by (simp add: secret_store_def)
  ultimately show ?thesis using deletes_other [where meta = s_meta and x = st and k = k] assms(2) by metis
qed

section \<open>Rotation\<close>

text \<open>
  C34. A staged rotation reaches the live Secret only after its completion marker parses and the flavour's
  validation accepts the payload: otherwise nothing is applied and the live Secret is untouched; and
  whenever the commit reports the payload as applied, the live Secret holds exactly the staged data.
\<close>

theorem commit_only_validated:
  assumes "secret_store C" "key_of (s_meta st) \<noteq> key_of (s_meta target)"
    and "CommitStaged parse_time C (Some st) target spec w = ((applied, e), evs, w')"
  shows "(\<not> staged_ready parse_time spec st \<longrightarrow>
      \<not> applied \<and> k_get C (key_of (s_meta target)) w' = k_get C (key_of (s_meta target)) w) \<and>
    (applied \<longrightarrow> (\<exists>t. k_get C (key_of (s_meta target)) w' = Inr t \<and> s_data t = s_data st))"
proof (cases "staged_ready parse_time spec st")
  case True
  have "\<exists>t. k_get C (key_of (s_meta target)) w' = Inr t \<and> s_data t = s_data st" if ap: applied
  proof (cases "alreadyCommitted target st")
    case True
    then show ?thesis
      using assms(3) \<open>staged_ready parse_time spec st\<close> ap delete_staging_applied [of C spec st True w]
      by (simp add: CommitStaged_ready)
  next
    case False
    then obtain y w1 where u: "k_update C (committed st target) w = (Inr y, w1)"
      and d: "delete_staging C spec st False w1 = ((applied, e), evs, w')"
      using assms(3) \<open>staged_ready parse_time spec st\<close> ap
      by (auto simp: CommitStaged_ready split: prod.splits sum.splits)
    from update_stored [OF assms(1) u] delete_staging_keeps [OF assms(1,2) d] show ?thesis by simp
  qed
  then show ?thesis using True by simp
next
  case False
  have "k_get C (key_of (s_meta target)) w' = k_get C (key_of (s_meta target)) w"
  proof (cases "w' = w")
    case False
    then obtain u where "w' = snd (k_update C (without_annotation CompletedAnnotation (st\<lparr>s_data := []\<rparr>)) w)"
      using assms(3) \<open>\<not> staged_ready parse_time spec st\<close>
      by (auto simp: CommitStaged_def staged_ready_def Let_def split: sum.splits option.splits prod.splits if_splits)
    then show ?thesis using update_other [OF assms(1)] assms(2) by simp
  qed simp
  then show ?thesis using False CommitStaged_not_ready(1) [OF False, of C target w] assms(3) by simp
qed

definition ex_secret :: "string \<Rightarrow> string \<Rightarrow> string gomap \<Rightarrow> secret" where
  "ex_secret name marker d = \<lparr>s_meta = blank_meta\<lparr>m_name := name, m_annotations := [(CompletedAnnotation, marker)]\<rparr>,
     s_version = ''1'', s_data = d\<rparr>"

definition ex_commit :: commit_spec where
  "ex_commit = \<lparr>cs_target_noun = ''secret'', cs_validate = (\<lambda>d. if d = [] then Some (ExtErr ''empty'') else None),
     cs_clear_on_reject = False, cs_invalid_reason = ''Invalid'', cs_rejected_reason = ''Rejected'',
     cs_applied_reason = ''Applied'', cs_applied_message = (\<lambda>n d. Msg [] [])\<rparr>"

definition ex_secrets :: "(objkey \<times> secret) list" where
  "ex_secrets = [(([], ''live''), ex_secret ''live'' ''0'' [(''k'', ''old'')]),
     (([], ''staging''), ex_secret ''staging'' ''1'' [(''k'', ''new'')])]"

lemma commit_only_validated_witness:
  "\<exists>t. k_get (store_client s_meta) ([], ''live'') (snd (snd (CommitStaged (\<lambda>s. Inr 7) (store_client s_meta)
      (Some (ex_secret ''staging'' ''1'' [(''k'', ''new'')])) (ex_secret ''live'' ''0'' [(''k'', ''old'')]) ex_commit ex_secrets))) = Inr t \<and>
    s_data t = [(''k'', ''new'')]"
proof -
  obtain applied e evs w' where u: "CommitStaged (\<lambda>s. Inr 7) (store_client s_meta)
      (Some (ex_secret ''staging'' ''1'' [(''k'', ''new'')])) (ex_secret ''live'' ''0'' [(''k'', ''old'')]) ex_commit ex_secrets =
      ((applied, e), evs, w')" by (metis prod.exhaust)
  have "fst (fst (CommitStaged (\<lambda>s. Inr 7) (store_client s_meta)
      (Some (ex_secret ''staging'' ''1'' [(''k'', ''new'')])) (ex_secret ''live'' ''0'' [(''k'', ''old'')]) ex_commit ex_secrets))"
    by (simp add: CommitStaged_def completion_def ex_secret_def ex_commit_def alreadyCommitted_def maps_equal_def
          with_annotation_def delete_staging_def ex_secrets_def key_of_def blank_meta_def CompletedAnnotation_def Let_def)
  then have a: applied unfolding u by simp
  have ne: "key_of (s_meta (ex_secret ''staging'' ''1'' [(''k'', ''new'')])) \<noteq> key_of (s_meta (ex_secret ''live'' ''0'' [(''k'', ''old'')]))"
    by (simp add: ex_secret_def key_of_def blank_meta_def)
  from commit_only_validated [OF store_secret_store ne u] a show ?thesis
    unfolding u snd_conv by (simp add: ex_secret_def key_of_def blank_meta_def)
qed

text \<open>
  Committing is idempotent: when the live Secret already carries the staged payload and its marker, as it does
  after a pass that was interrupted before the staging Secret was deleted, the live Secret is not written
  again, no event is emitted and the payload is not reported as applied a second time.
\<close>

lemma commit_idempotent:
  assumes "secret_store C" "key_of (s_meta st) \<noteq> key_of (s_meta target)"
    and "staged_ready parse_time spec st" "wf_gomap (s_data st)"
    and "CommitStaged parse_time C (Some st) (committed st target) spec w = ((applied, e), evs, w')"
  shows "\<not> applied \<and> evs = [] \<and> k_get C (key_of (s_meta target)) w' = k_get C (key_of (s_meta target)) w"
proof -
  have d: "delete_staging C spec st True w = ((applied, e), evs, w')"
    using assms(5) by (simp add: CommitStaged_ready [OF assms(3)] alreadyCommitted_committed [OF assms(4)])
  then have "\<not> applied" "evs = []"
    by (auto simp: delete_staging_def Let_def split: prod.splits if_splits)
  then show ?thesis using delete_staging_keeps [OF assms(1,2) d] by simp
qed

text \<open>What the rotation's API calls do: the object the mutation returns is the object that is there afterwards.\<close>

definition role_store :: "'w rbac_api \<Rightarrow> ('w \<Rightarrow> rbac_role option) \<Rightarrow> bool" where
  "role_store A role_at \<longleftrightarrow>
     (\<forall>f x w r w'. ensure_role A f x w = (Inr r, w') \<longrightarrow> role_at w' = Some r \<and> (\<exists>y. f y = Inr r)) \<and>
     (\<forall>f x w r w'. ensure_binding A f x w = (r, w') \<longrightarrow> role_at w' = role_at w) \<and>
     (\<forall>owner x y. own_role A owner x = Inr y \<longrightarrow> ro_rules y = ro_rules x)"

text \<open>
  Least privilege of rotation: after \<open>EnsureRBAC\<close> succeeds the Role of the CronJob allows exactly reading the
  two named Secrets and patching the staging one, whatever the Role held before; in particular it cannot
  write the live Secret.
\<close>

lemma rotation_least_privilege:
  assumes "role_store A role_at" "EnsureRBAC A owner sa read_secret staging w = (None, w')"
  shows "case role_at w' of None \<Rightarrow> False
    | Some r \<Rightarrow> (may_do (ro_rules r) v n \<longleftrightarrow> (v = ''get'' \<and> (n = read_secret \<or> n = staging)) \<or> (v = ''patch'' \<and> n = staging)) \<and>
        list_all (\<lambda>rl. pr_resources rl = [''secrets''] \<and> pr_groups rl = [[]]) (ro_rules r)"
proof -
  obtain w1 w2 x b r f g y where
    role: "ensure_role A (\<lambda>r. own_role A owner (r\<lparr>ro_rules := rotation_rules read_secret staging\<rparr>)) x w1 = (Inr r, w2)"
    and bind: "ensure_binding A f y w2 = (Inr b, w')"
    using assms(2) by (auto simp: EnsureRBAC_def Let_def split: prod.splits sum.splits)
  from assms(1) role obtain z where "role_at w2 = Some r"
    "own_role A owner (z\<lparr>ro_rules := rotation_rules read_secret staging\<rparr>) = Inr r"
    unfolding role_store_def by blast
  moreover from this assms(1) have "ro_rules r = rotation_rules read_secret staging"
    unfolding role_store_def by fastforce
  moreover have "role_at w' = role_at w2" using assms(1) bind unfolding role_store_def by blast
  ultimately show ?thesis
    using rotation_rules_least [of read_secret staging v n] by (simp add: rotation_rules_def)
qed

definition ex_rbac :: "rbac_role option rbac_api" where
  "ex_rbac = \<lparr>ensure_sa = (\<lambda>f x w. (f x, w)),
     ensure_role = (\<lambda>f x w. case f x of Inl e \<Rightarrow> (Inl e, w) | Inr r \<Rightarrow> (Inr r, Some r)),
     ensure_binding = (\<lambda>f x w. (f x, w)), own_sa = (\<lambda>ow x. Inr x), own_role = (\<lambda>ow x. Inr x), own_binding = (\<lambda>ow x. Inr x)\<rparr>"

section \<open>Connection strings\<close>

text \<open>
  The user name and the password can be read back from a connection string: percent-decoding undoes the
  escaping, and two strings are equal only if both credentials are, so no password can pose as another
  field whatever characters it has.
\<close>

lemma dsn_credentials:
  "(fst (BuildDSN sha u p h d q) = fst (BuildDSN sha u' p' h' d' q') \<longrightarrow> u = u' \<and> p = p') \<and>
   unescape (escape EncodeUserPassword p) = p \<and>
   list_all (\<lambda>c. c \<notin> set '':@/?'') (escape EncodeUserPassword p)"
proof -
  have "u = u' \<and> p = p'" if "fst (BuildDSN sha u p h d q) = fst (BuildDSN sha u' p' h' d' q')"
    using that by (simp add: BuildDSN_def Let_def) (blast dest: url_string_inject)
  moreover have "list_all (\<lambda>c. c \<notin> set '':@/?'') (escape EncodeUserPassword p)"
    using escape_no_sep [of _ p] by (auto simp: list_all_iff)
  ultimately show ?thesis using unescape_escape [of EncodeUserPassword p] by simp
qed

text \<open>
  TLS parameters: the four modes and no others are accepted; every accepted mode presents the CA, and only
  the two verifying modes ask the driver to check the certificate, only the strictest to check the name.
  Disabled TLS leaves the query alone, and enabled TLS adds exactly these parameters.
\<close>

lemma tls_parameters:
  "((\<exists>q. SSLParams mode paths = Inr q) \<longleftrightarrow> mode \<in> set [''prefer'', ''require'', ''verify-ca'', ''verify-full'']) \<and>
   (case SSLParams mode paths of
      Inl e \<Rightarrow> True
    | Inr q \<Rightarrow> map_of q ''ssl_ca'' = Some [tp_ca paths] \<and>
        map_of q ''ssl_verify_cert'' = (if mode = ''verify-ca'' \<or> mode = ''verify-full'' then Some [''true''] else None) \<and>
        map_of q ''ssl_verify_identity'' = (if mode = ''verify-full'' then Some [''true''] else None)) \<and>
   (case AppendTLSParams tls paths query of
      Inl e \<Rightarrow> TLSIsEnabled tls
    | Inr r \<Rightarrow> if TLSIsEnabled tls
        then (case SSLParams (tls_mode (the tls)) paths of Inl e \<Rightarrow> False | Inr q \<Rightarrow> map_of r = map_of query ++ map_of q)
        else r = query)"
proof -
  have "case AppendTLSParams tls paths query of
      Inl e \<Rightarrow> TLSIsEnabled tls
    | Inr r \<Rightarrow> if TLSIsEnabled tls
        then (case SSLParams (tls_mode (the tls)) paths of Inl e \<Rightarrow> False | Inr q \<Rightarrow> map_of r = map_of query ++ map_of q)
        else r = query"
    by (auto simp: AppendTLSParams_def map_of_set_all SSLParams_wf split: sum.splits option.splits)
  moreover have "case SSLParams mode paths of
      Inl e \<Rightarrow> True
    | Inr q \<Rightarrow> map_of q ''ssl_ca'' = Some [tp_ca paths] \<and>
        map_of q ''ssl_verify_cert'' = (if mode = ''verify-ca'' \<or> mode = ''verify-full'' then Some [''true''] else None) \<and>
        map_of q ''ssl_verify_identity'' = (if mode = ''verify-full'' then Some [''true''] else None)"
    using SSLParams_verify [of mode paths] by (cases "SSLParams mode paths") simp_all
  ultimately show ?thesis using SSLParams_ok_iff [of mode paths] unfolding tls_modes_def by blast
qed

section \<open>Jobs\<close>

text \<open>What the code relies on when it creates a Job: the object is there afterwards, as it was sent.\<close>

definition job_store :: "'w job_env \<Rightarrow> bool" where
  "job_store E \<longleftrightarrow>
     (\<forall>x w y w'. k_create (je_client E) x w = (Inr y, w') \<longrightarrow>
        k_get (je_client E) (key_of (jb_meta x)) w' = Inr y \<and> jb_conditions y = jb_conditions x \<and>
        m_annotations (jb_meta y) = m_annotations (jb_meta x)) \<and>
     (\<forall>x y. je_set_ref E x = Inr y \<longrightarrow> key_of (jb_meta y) = key_of (jb_meta x) \<and> jb_conditions y = jb_conditions x)"

text \<open>
  The runner's decision: it reports completion exactly when the Job stands completed, not failed, under the
  hash of the wanted template; a Job that failed under that hash is not retried but reported as failed on
  every pass; a Job that is running, or ended under that hash, is left alone.
\<close>

lemma run_job_decision:
  assumes "k_get (je_client E) (key_of (jb_meta j)) w = Inr x"
  shows "(fst (fst (RunJob hash E j w)) \<longleftrightarrow> isJobComplete x \<and> \<not> isJobFailed x \<and> stored_key x = hash (jb_template j)) \<and>
    (isJobFailed x \<and> stored_key x = hash (jb_template j) \<longrightarrow>
      RunJob hash E j w = ((False, Some x, Some (Errorf ''%w: %s/%s'' (Wrap ErrJobFailed # job_ref x))), w)) \<and>
    (stored_key x = hash (jb_template j) \<or> \<not> isJobFailed x \<and> \<not> isJobComplete x \<longrightarrow> snd (RunJob hash E j w) = w)"
proof -
  have "fst (fst (RunJob hash E j w)) \<longleftrightarrow> isJobComplete x \<and> \<not> isJobFailed x \<and> stored_key x = hash (jb_template j)"
    using jobs.run_done [of hash E j w] assms by (auto simp: job_finished_def)
  then show ?thesis
    using RunJob_failed [OF assms] RunJob_leaves [OF assms] by (simp add: RunJob_def)
qed

definition ex_template :: pod_template where
  "ex_template = \<lparr>pt_annotations = [], pt_restart = ''Never'', pt_priority_class = [], pt_containers = [], pt_volumes = []\<rparr>"

definition ex_job :: "string \<Rightarrow> string \<Rightarrow> batch_job" where
  "ex_job key_value ty = \<lparr>jb_meta = blank_meta\<lparr>m_name := ''sync'', m_uid := ''u'', m_annotations := [(PodSpecHashAnnotation, key_value)]\<rparr>,
     jb_backoff = 4, jb_ttl = None, jb_template = ex_template,
     jb_conditions = [\<lparr>jc_type = ty, jc_status = CTrue, jc_ltt = 9\<rparr>]\<rparr>"

definition ex_jobs :: "(objkey \<times> batch_job) list job_env" where
  "ex_jobs = \<lparr>je_client = store_client jb_meta, je_set_ref = Inr\<rparr>"

text \<open>
  Starting is stable: a pass that finds no Job and reports no error has created one that later passes
  recognise, so they neither create a second Job nor replace it while it runs.
\<close>

lemma job_started_once:
  assumes "job_store E" "jb_conditions j = []"
    and "k_get (je_client E) (key_of (jb_meta j)) w = Inl e0" "is_not_found e0"
    and "RunJob hash E j w = ((d, obs, None), w')"
    and "\<And>x e. key_of (jb_meta x) = key_of (jb_meta j) \<Longrightarrow> fst (k_create (je_client E) x w) = Inl e \<Longrightarrow> \<not> is_already_exists e"
  shows "\<not> d \<and> (case k_get (je_client E) (key_of (jb_meta j)) w' of
      Inl e \<Rightarrow> False
    | Inr x \<Rightarrow> stored_key x = hash (jb_template j) \<and> RunJob hash E j w' = ((False, Some x, None), w'))"
proof -
  have c: "createJobWithRerunKey E j (hash (jb_template j)) w = (None, w')" and d: "\<not> d"
    using assms(3-5) by (auto simp: RunJob_def RunJobWithRerunKey_def split: prod.splits)
  obtain y where r: "je_set_ref E j = Inr y" using c by (auto simp: createJobWithRerunKey_def split: sum.splits)
  have y: "key_of (jb_meta y) = key_of (jb_meta j)" "jb_conditions y = jb_conditions j"
    using assms(1) r unfolding job_store_def by blast+
  let ?y = "y\<lparr>jb_meta := (jb_meta y)\<lparr>m_annotations := map_put PodSpecHashAnnotation (hash (jb_template j)) (m_annotations (jb_meta y))\<rparr>\<rparr>"
  have key: "key_of (jb_meta ?y) = key_of (jb_meta j)" using y(1) by (simp add: key_of_def)
  obtain x where k: "k_create (je_client E) ?y w = (Inr x, w')"
    using c r assms(6) [OF key]
    by (cases "k_create (je_client E) ?y w"; cases "fst (k_create (je_client E) ?y w)")
       (auto simp: createJobWithRerunKey_def Let_def split: if_splits)
  have x: "k_get (je_client E) (key_of (jb_meta j)) w' = Inr x" "jb_conditions x = []"
    "m_annotations (jb_meta x) = map_put PodSpecHashAnnotation (hash (jb_template j)) (m_annotations (jb_meta y))"
    using assms(1) [unfolded job_store_def, THEN conjunct1, rule_format, OF k] y assms(2) by (simp_all add: key_of_def)
  then have "isJobComplete x = False" "isJobFailed x = False" "stored_key x = hash (jb_template j)"
    by (simp_all add: isJobComplete_def isJobFailed_def stored_key_def)
  then show ?thesis using x(1) d by (simp add: RunJob_def RunJobWithRerunKey_def)
qed

text \<open>The terminal-state recorder called again and again with the same observed Job, each time with its own fate of the patch.\<close>

fun observe_again ::
  "(string gomap \<Rightarrow> 'w \<Rightarrow> string result \<times> 'w) list \<Rightarrow> string \<Rightarrow> batch_job \<Rightarrow> owner_state \<Rightarrow> 'w \<Rightarrow> (string \<times> duration) list" where
  "observe_again [] phase j owner w = []"
| "observe_again (patch # ps) phase j owner w =
     (case RecordJobTerminalState patch True phase (Some j) ''Deferred'' owner w of
        (recs, evs, owner', w') \<Rightarrow> recs @ observe_again ps phase j owner' w')"

lemma record_outcome:
  assumes "RecordJobTerminalState patch r phase (Some j) reason owner w = (recs, evs, owner', w')" "m_uid (jb_meta j) \<noteq> []"
  shows "length recs \<le> 1"
    "map_of (ow_annotations owner) (JobUIDAnnotationKey phase) = Some (m_uid (jb_meta j)) \<Longrightarrow> recs = [] \<and> owner' = owner"
    "recs \<noteq> [] \<Longrightarrow> map_of (ow_annotations owner') (JobUIDAnnotationKey phase) = Some (m_uid (jb_meta j))"
  using assms by (auto simp: RecordJobTerminalState_def Let_def split: option.splits prod.splits sum.splits if_splits)

lemma observe_again_marked:
  assumes "m_uid (jb_meta j) \<noteq> []"
  shows "map_of (ow_annotations owner) (JobUIDAnnotationKey phase) = Some (m_uid (jb_meta j)) \<Longrightarrow>
    observe_again ps phase j owner w = []"
proof (induction ps arbitrary: owner w)
  case (Cons p ps)
  obtain recs evs owner' w' where u: "RecordJobTerminalState p True phase (Some j) ''Deferred'' owner w = (recs, evs, owner', w')"
    by (metis prod.exhaust)
  from record_outcome(2) [OF this assms Cons.prems] Cons u show ?case by simp
qed simp

text \<open>
  A finished Job is counted at most once: however often it is observed, and whichever of the annotation patches
  succeed, at most one duration and result is recorded for it.
\<close>

lemma job_recorded_at_most_once:
  assumes "m_uid (jb_meta j) \<noteq> []"
  shows "length (observe_again ps phase j owner w) \<le> 1"
proof (induction ps arbitrary: owner w)
  case (Cons p ps)
  obtain recs evs owner' w' where u: "RecordJobTerminalState p True phase (Some j) ''Deferred'' owner w = (recs, evs, owner', w')"
    by (metis prod.exhaust)
  note r = record_outcome [OF u assms]
  show ?case
  proof (cases "recs = []")
    case True
    then show ?thesis using Cons.IH [of owner' w'] u by simp
  next
    case False
    then show ?thesis using observe_again_marked [OF assms r(3), where ps = ps and w = w'] r(1) u by simp
  qed
qed simp

section \<open>The database flows\<close>

text \<open>
  The schema counts as synced, and the installed release moves to the wanted tag, exactly when the db-sync Job
  and, where the service has one, the schema-check Job have both finished under the hashes of their wanted
  templates at the start of the pass; a pass that is not there yet requeues or returns an error.
\<close>

lemma schema_synced_iff:
  assumes "meta_contract K" "quiet (\<lambda>j w. job_finished E j (hash (jb_template j)) w) rt" "sf_requeue p \<noteq> 0"
    and "ReconcileSyncJobs K (RunJob hash E) rt p s = (r, s')"
    and "ok = synced (\<lambda>j w. job_finished E j (hash (jb_template j)) w) (sf_jobs p) (sy_world s)"
  shows "(cond_true K (sy_conditions s') (sf_condition p) \<longleftrightarrow> ok) \<and> (r = (zero_result, None) \<longleftrightarrow> ok) \<and>
    sy_installed s' = (if ok \<and> sf_tracks_release p \<and> sf_image_tag p \<noteq> [] then sf_image_tag p else sy_installed s)"
proof -
  have "r = (zero_result, None) \<longleftrightarrow> ok"
  proof (cases ok)
    case True
    then show ?thesis
      using jobs.sync_done [where hash = hash and E = E and s = s and p = p, OF _ assms(1,2)] assms(4,5) by auto
  next
    case False
    then show ?thesis
      using jobs.sync_not_done [where hash = hash and E = E and s = s and p = p, OF _ assms(1,2,4)] assms(3,5) by auto
  qed
  then show ?thesis using jobs.sync_iff [OF assms(1,2,4)] assms(5) by simp
qed

definition ex_params :: JobSetParams where
  "ex_params = \<lparr>js_instance = ''k'', js_namespace = [], js_image = ''img:2025.1'', js_config_map = ''cm'',
     js_config_mount = ''/etc'', js_env = [], js_extra_volumes = [], js_extra_mounts = [], js_priority_class = [],
     js_sync_command = [''sync''], js_schema_check_command = None\<rparr>"

definition ex_done :: "(objkey \<times> batch_job) list" where
  "ex_done = [(([], ''k-db-sync''), ex_job ''h'' ''Complete'')]"

definition ex_sync :: SyncFlowParams where
  "ex_sync = \<lparr>sf_jobs = ex_params, sf_generation = 1, sf_condition = ''DatabaseReady'', sf_requeue = 30,
     sf_tracks_release = True, sf_image_tag = ''2025.1'', sf_has_recorder = True\<rparr>"

definition provision_of :: "ProvisionFlowParams \<Rightarrow> ProvisionParams" where
  "provision_of p = \<lparr>pp_name = pf_instance p, pp_namespace = pf_namespace p, pp_labels = pf_labels p,
     pp_cluster = the (db_cluster_ref (pf_database p)), pp_database = db_database (pf_database p),
     pp_password_secret = sr_name (db_secret_ref (pf_database p))\<rparr>"

text \<open>
  Provisioning passes only in brownfield mode, where it touches nothing, or when the cluster, the Database and,
  unless the credentials are dynamic, the User and the Grant are ready; with dynamic credentials the User and
  Grant clients are never used.  A pass that is held up sets the condition to false and requeues, and an error
  leaves every condition as it was.
\<close>

lemma provisioning_gate:
  assumes "meta_contract K" "pf_requeue p \<noteq> 0"
    and "ReconcileProvision K M p cs w = ((r, e), cs', w')"
  shows "(if r = zero_result then cs' = cs else e = None \<and> \<not> cond_true K cs' (pf_condition p)) \<and>
    (r = zero_result \<and> e = None \<longleftrightarrow>
       (if db_cluster_ref (pf_database p) = None then w' = w
        else IsClusterReady K M (pf_database p) (pf_namespace p) w = Inr True \<and>
          fst (EnsureDatabase K M (pf_owner p) (BuildDatabase (provision_of p)) w) = Inr True \<and>
          (db_credentials_mode (pf_database p) = CredentialsModeDynamic \<or>
           fst (EnsureDatabaseUser K M (pf_owner p) (BuildUser (provision_of p)) (BuildGrant (provision_of p))
             (snd (EnsureDatabase K M (pf_owner p) (BuildDatabase (provision_of p)) w))) = Inr True))) \<and>
    (db_credentials_mode (pf_database p) = CredentialsModeDynamic \<longrightarrow>
       ReconcileProvision K (M\<lparr>mdb_users := U, mdb_grants := G\<rparr>) p cs w = ((r, e), cs', w'))"
proof -
  have pass: "r = zero_result \<and> e = None \<longleftrightarrow>
       (if db_cluster_ref (pf_database p) = None then w' = w
        else IsClusterReady K M (pf_database p) (pf_namespace p) w = Inr True \<and>
          fst (EnsureDatabase K M (pf_owner p) (BuildDatabase (provision_of p)) w) = Inr True \<and>
          (db_credentials_mode (pf_database p) = CredentialsModeDynamic \<or>
           fst (EnsureDatabaseUser K M (pf_owner p) (BuildUser (provision_of p)) (BuildGrant (provision_of p))
             (snd (EnsureDatabase K M (pf_owner p) (BuildDatabase (provision_of p)) w))) = Inr True))"
    using assms(2,3)
    by (auto simp: ReconcileProvision_def provision_of_def Let_def
          split: option.splits sum.splits bool.splits prod.splits if_splits)
  then show ?thesis
    using ReconcileProvision_stops [OF assms(1,3,2)]
      ReconcileProvision_dynamic [where p = p and K = K and M = M and U = U and G = G and cs = cs and w = w] assms(3) by auto
qed

definition ex_database :: "string option \<Rightarrow> string \<Rightarrow> DatabaseSpec" where
  "ex_database cluster mode = \<lparr>db_cluster_ref = cluster, db_credentials_mode = mode, db_host = ''db.example.org'', db_port = 0,
     db_database = ''keystone'', db_secret_ref = \<lparr>sr_name = ''creds'', sr_key = []\<rparr>, db_tls = None, db_replicas = 3,
     db_storage_size = ''10Gi''\<rparr>"

definition ex_provision :: ProvisionFlowParams where
  "ex_provision = \<lparr>pf_owner = blank_meta, pf_instance = ''k'', pf_namespace = [], pf_labels = [],
     pf_database = ex_database (Some ''mdb'') CredentialsModeDynamic, pf_generation = 1, pf_condition = ''DatabaseReady'', pf_requeue = 30\<rparr>"

definition ex_mdb :: "(unit, unit) mdb_env" where
  "ex_mdb = \<lparr>mdb_cluster = (\<lambda>k w. Inr []), mdb_databases = down_ssa md_meta, mdb_users = down_ssa mu_meta, mdb_grants = down_ssa mg_meta\<rparr>"

text \<open>
  The derived connection Secret is written only from credentials that were read: a pass without error and
  without requeue leaves a Secret with the connection string of exactly these credentials as its only entry,
  and returns that string's digest; a pass that waits for credentials changes nothing but the condition and
  returns no digest; an error returns no digest either.
\<close>

lemma connection_secret_from_credentials:
  assumes "meta_contract K" "secret_store C" "cf_requeue p \<noteq> 0"
    and "\<And>owner x y. set_ref owner x = Inr y \<Longrightarrow> key_of (s_meta y) = key_of (s_meta x) \<and> s_data y = s_data x"
    and "\<And>k x. k_get C k w = Inr x \<Longrightarrow> key_of (s_meta x) = k"
    and "ReconcileConnectionSecret K sha C set_ref p cs w = ((r, d, e), cs', w')"
  shows "if e \<noteq> None then d = [] \<and> cs' = cs
    else if r \<noteq> zero_result
    then d = [] \<and> w' = w \<and> cond_is K cs' (cf_condition p) CFalse ReasonWaitingForDBCredentials
    else cs' = cs \<and> (\<exists>up u pw q t. k_get C (upstream_key p) w = Inr up \<and> credentials p up = Some (u, pw) \<and>
      AppendTLSParams (db_tls (cf_database p)) (TLSFilePaths (cf_tls_mount p)) [(''charset'', [''utf8''])] = Inr q \<and>
      k_get C (cf_namespace p, ConnectionSecretName (cf_instance p)) w' = Inr t \<and> length (s_data t) = 1 \<and>
      (let conn = fst (BuildDSN sha u pw (ResolveHost (cf_database p) (cf_namespace p)) (db_database (cf_database p)) q)
       in map_of (s_data t) ConnectionSecretKey = Some conn \<and> d = Digest sha conn))"
proof (cases "e = None \<and> r = zero_result")
  case False
  then show ?thesis
    using assms(1,3,6)
    by (auto simp: ReconcileConnectionSecret_def Let_def split: option.splits sum.splits prod.splits if_splits)
next
  case True
  let ?name = "ConnectionSecretName (cf_instance p)"
  obtain up u pw q where c: "k_get C (upstream_key p) w = Inr up" "credentials p up = Some (u, pw)"
    "AppendTLSParams (db_tls (cf_database p)) (TLSFilePaths (cf_tls_mount p)) [(''charset'', [''utf8''])] = Inr q"
    and cs: "cs' = cs"
    using assms(3,6) True
    by (auto simp: ReconcileConnectionSecret_def Let_def upstream_key_def credentials_def
          split: option.splits sum.splits prod.splits if_splits)
  define conn where "conn = fst (BuildDSN sha u pw (ResolveHost (cf_database p) (cf_namespace p)) (db_database (cf_database p)) q)"
  have b: "BuildDSN sha u pw (ResolveHost (cf_database p) (cf_namespace p)) (db_database (cf_database p)) q = (conn, Digest sha conn)"
    by (simp add: conn_def BuildDSN_def Let_def)
  have res: "ResolveUsername (cf_database p) (cf_instance p) (s_data up) = Some u" "map_of (s_data up) ''password'' = Some pw"
    using c(2) by (auto simp: credentials_def split: option.splits)
  note u = assms(6) [unfolded ReconcileConnectionSecret_def Let_def, folded upstream_key_def]
  have "d = Digest sha conn \<and> (\<exists>t. k_get C (cf_namespace p, ?name) w' = Inr t \<and> length (s_data t) = 1 \<and>
      map_of (s_data t) ConnectionSecretKey = Some conn)"
  proof (cases "k_get C (cf_namespace p, ?name) w")
    case (Inl x)
    let ?new = "\<lparr>s_meta = blank_meta\<lparr>m_name := ?name, m_namespace := cf_namespace p\<rparr>, s_version = [], s_data = [(ConnectionSecretKey, conn)]\<rparr>"
    from u c res b Inl True obtain y t where s: "set_ref (cf_owner p) ?new = Inr y" "k_create C y w = (Inr t, w')" "d = Digest sha conn"
      by (auto split: if_splits sum.splits prod.splits)
    have y: "key_of (s_meta y) = (cf_namespace p, ?name)" "s_data y = [(ConnectionSecretKey, conn)]"
      using assms(4) [OF s(1)] by (simp_all add: key_of_def)
    show ?thesis using create_stored [OF assms(2) s(2)] y s(3) by auto
  next
    case (Inr existing)
    have k: "key_of (s_meta existing) = (cf_namespace p, ?name)" by (rule assms(5) [OF Inr])
    show ?thesis
    proof (cases "length (s_data existing) \<noteq> 1 \<or> map_of (s_data existing) ConnectionSecretKey \<noteq> Some conn")
      case True
      with u c res b Inr \<open>e = None \<and> r = zero_result\<close> obtain t where
        s: "k_update C (existing\<lparr>s_data := [(ConnectionSecretKey, conn)]\<rparr>) w = (Inr t, w')" "d = Digest sha conn"
        by (auto split: if_splits sum.splits prod.splits)
      show ?thesis using update_stored [OF assms(2) s(1)] k s(2) by auto
    next
      case False
      with u c res b Inr show ?thesis by (auto split: if_splits)
    qed
  qed
  then show ?thesis using True c cs unfolding conn_def by (auto simp: Let_def)
qed

definition ex_credentials :: "(objkey \<times> secret) list" where
  "ex_credentials = [(([], ''creds''), \<lparr>s_meta = blank_meta\<lparr>m_name := ''creds''\<rparr>, s_version = [],
     s_data = [(''username'', ''ks''), (''password'', ''p@ss'')]\<rparr>)]"

definition ex_connection :: ConnectionSecretFlowParams where
  "ex_connection = \<lparr>cf_owner = blank_meta, cf_instance = ''k'', cf_namespace = [], cf_database = ex_database None CredentialsModeDynamic,
     cf_tls_mount = ''/tls/'', cf_generation = 1, cf_condition = ''DatabaseReady'', cf_requeue = 30\<rparr>"

section \<open>Teardown\<close>

text \<open>A resource is ended when it is gone or carries a deletion timestamp.\<close>

definition ended :: "'w resource_ops \<Rightarrow> objkey \<Rightarrow> 'w \<Rightarrow> bool" where
  "ended r k w = (case rs_deleting r k w of Inl e \<Rightarrow> is_not_found e | Inr d \<Rightarrow> d)"

text \<open>What the API server does: a deletion that succeeds, or finds nothing, leaves the object ended, and no deletion revives another.\<close>

definition deletions_end :: "'w resource_ops list \<Rightarrow> bool" where
  "deletions_end rs \<longleftrightarrow> (\<forall>r\<in>set rs. \<forall>k w.
     (ignore_not_found (fst (rs_delete r k w)) = None \<longrightarrow> ended r k (snd (rs_delete r k w))) \<and>
     (\<forall>x\<in>set rs. ended x k w \<longrightarrow> ended x k (snd (rs_delete r k w))))"

lemma FinalizeResources_keeps:
  assumes "deletions_end all" "x \<in> set all"
  shows "set rs \<subseteq> set all \<Longrightarrow> ended x k w \<Longrightarrow> ended x k (snd (FinalizeResources rs k w))"
proof (induction rs k w rule: FinalizeResources.induct)
  case (2 r rs k w)
  obtain e w1 where d: "rs_delete r k w = (e, w1)" by (rule prod.exhaust)
  have "ended x k w1" using assms 2(3,4) d unfolding deletions_end_def by (metis list.set_intros(1) snd_conv subsetD)
  then show ?case using 2 d by (auto split: option.splits)
qed simp

lemma FinalizeResources_outcome:
  assumes "deletions_end all"
  shows "set rs \<subseteq> set all \<Longrightarrow> FinalizeResources rs k w = (e, w') \<Longrightarrow>
    (if e = None then \<forall>r\<in>set rs. ended r k w'
     else \<exists>r\<in>set rs. \<exists>v x. fst (rs_delete r k v) = Some x \<and> \<not> is_not_found x \<and>
       e = Some (Errorf ''deleting %T %s: %w'' [Str (rs_kind r), Strs [fst k, snd k], Wrap x]))"
proof (induction rs k w rule: FinalizeResources.induct)
  case (2 r rs k w)
  obtain f w1 where d: "rs_delete r k w = (f, w1)" by (rule prod.exhaust)
  show ?case
  proof (cases "ignore_not_found f = None")
    case True
    have rest: "FinalizeResources rs k w1 = (e, w')"
      using 2(4) d True by (cases f) (auto simp: ignore_not_found_def split: if_splits)
    have "ended r k w1" using assms 2(3) d True unfolding deletions_end_def by (metis fst_conv list.set_intros(1) snd_conv subsetD)
    then have "ended r k w'"
      using FinalizeResources_keeps [OF assms, of r rs k w1] 2(3) rest by simp
    moreover have "if e = None then \<forall>r\<in>set rs. ended r k w'
      else \<exists>r\<in>set rs. \<exists>v x. fst (rs_delete r k v) = Some x \<and> \<not> is_not_found x \<and>
        e = Some (Errorf ''deleting %T %s: %w'' [Str (rs_kind r), Strs [fst k, snd k], Wrap x])"
    proof (cases f)
      case None
      show ?thesis by (rule 2(1) [OF d [symmetric] None _ rest]) (use 2(3) in auto)
    next
      case (Some x)
      then have "is_not_found x" using True by (simp add: ignore_not_found_def split: if_splits)
      show ?thesis by (rule 2(2)) (use 2(3) d Some rest \<open>is_not_found x\<close> in auto)
    qed
    ultimately show ?thesis by (auto split: if_splits)
  next
    case False
    then obtain x where x: "f = Some x" "\<not> is_not_found x"
      by (cases f) (auto simp: ignore_not_found_def split: if_splits)
    then have "e = Some (Errorf ''deleting %T %s: %w'' [Str (rs_kind r), Strs [fst k, snd k], Wrap x])"
      using 2(4) d by auto
    then show ?thesis using x d by (auto intro!: bexI [of _ r] exI [of _ w])
  qed
qed simp

text \<open>
  Teardown is complete: when the finalizer's deletions report no error, none of the listed resources is
  live any more, so the next check lets the finalizer go; and the only error they report is a deletion that
  failed for another reason than a missing object.
\<close>

lemma teardown_complete:
  assumes "deletions_end rs" "FinalizeResources rs k w = (e, w')"
  shows "if e = None then HasLiveResources rs k w' = Inr False
    else \<exists>r\<in>set rs. \<exists>v x. fst (rs_delete r k v) = Some x \<and> \<not> is_not_found x \<and>
      e = Some (Errorf ''deleting %T %s: %w'' [Str (rs_kind r), Strs [fst k, snd k], Wrap x])"
  using FinalizeResources_outcome [OF assms(1) subset_refl assms(2)] unfolding HasLiveResources_False list_all_iff ended_def
  by (cases e) simp_all

text \<open>Each kind is present or not and, when present, being deleted or not.\<close>

definition ex_resource :: "string \<Rightarrow> (string \<times> bool) list resource_ops" where
  "ex_resource kind = \<lparr>rs_kind = kind,
     rs_delete = (\<lambda>k w. if map_of w kind = None then (Some (ApiErr NotFound), w) else (None, map_put kind True w)),
     rs_deleting = (\<lambda>k w. case map_of w kind of None \<Rightarrow> Inl (ApiErr NotFound) | Some d \<Rightarrow> Inr d)\<rparr>"

end
