(* ===== verification/SecretGates.thy ===== *)
theory SecretGates
  imports Apply Rotation
begin

text \<open>
  The gates in front of a service's secrets, \<open>internal/common/secrets\<close>: readiness of the External Secrets
  objects and of the Secrets they materialise (\<open>secrets.go\<close>), the ladder that attributes a missing
  credential (\<open>gate.go\<close>), and the resolution of store references (\<open>storeref.go\<close>).  The objects are read
  through \<open>eso_env\<close>, a lookup per kind; of an External Secrets object only the type and status of its
  conditions matter.
\<close>

section \<open>Reading the objects\<close>

type_synonym eso_conditions = "(string \<times> cstatus) list"

record 'w eso_env =
  eso_secret :: "objkey \<Rightarrow> 'w \<Rightarrow> secret result"
  eso_external :: "objkey \<Rightarrow> 'w \<Rightarrow> eso_conditions result"
  eso_cluster_store :: "objkey \<Rightarrow> 'w \<Rightarrow> eso_conditions result"
  eso_store :: "objkey \<Rightarrow> 'w \<Rightarrow> eso_conditions result"

definition ErrKeyNotFound :: err where
  "ErrKeyNotFound = Sentinel ''key not found in Secret''"

definition IsMissingSecretOrKey :: "err \<Rightarrow> bool" where
  "IsMissingSecretOrKey e \<longleftrightarrow> is_not_found e \<or> is_sentinel ''key not found in Secret'' e"

text \<open>\<open>sha_hex\<close> is SHA-256 followed by the lowercase hexadecimal encoding.\<close>

definition AdminPasswordDigest :: "(string \<Rightarrow> string) \<Rightarrow> string \<Rightarrow> string" where
  "AdminPasswordDigest sha_hex password = sha_hex password"

fun has_ready :: "eso_conditions \<Rightarrow> bool" where
  "has_ready [] = False"
| "has_ready ((t, s) # cs) = (if t = ''Ready'' \<and> s = CTrue then True else has_ready cs)"

definition WaitForExternalSecret :: "'w eso_env \<Rightarrow> objkey \<Rightarrow> 'w \<Rightarrow> bool \<times> bool \<times> err option" where
  "WaitForExternalSecret E key w =
     (case eso_external E key w of
        Inl e \<Rightarrow>
          if is_not_found e then (False, False, None)
          else (False, False, Some (Errorf ''getting ExternalSecret %s/%s: %w'' [Str (fst key), Str (snd key), Wrap e]))
      | Inr cs \<Rightarrow> if has_ready cs then (True, True, None) else (True, False, None))"

definition IsClusterSecretStoreReady :: "'w eso_env \<Rightarrow> string \<Rightarrow> 'w \<Rightarrow> bool result" where
  "IsClusterSecretStoreReady E name w =
     (case eso_cluster_store E ([], name) w of
        Inl e \<Rightarrow> if is_not_found e then Inr False else Inl (Errorf ''getting ClusterSecretStore %s: %w'' [Str name, Wrap e])
      | Inr cs \<Rightarrow> Inr (has_ready cs))"

definition IsSecretStoreReady :: "'w eso_env \<Rightarrow> string \<Rightarrow> string \<Rightarrow> 'w \<Rightarrow> bool result" where
  "IsSecretStoreReady E name namespace w =
     (case eso_store E (namespace, name) w of
        Inl e \<Rightarrow> if is_not_found e then Inr False
                 else Inl (Errorf ''getting SecretStore %s/%s: %w'' [Str namespace, Str name, Wrap e])
      | Inr cs \<Rightarrow> Inr (has_ready cs))"

fun has_keys :: "string gomap \<Rightarrow> string list \<Rightarrow> bool" where
  "has_keys m [] = True"
| "has_keys m (k # ks) = (case map_of m k of None \<Rightarrow> False | Some v \<Rightarrow> has_keys m ks)"

definition IsSecretReady :: "'w eso_env \<Rightarrow> objkey \<Rightarrow> string list \<Rightarrow> 'w \<Rightarrow> bool result" where
  "IsSecretReady E key expected w =
     (case eso_secret E key w of
        Inl e \<Rightarrow> if is_not_found e then Inr False
                 else Inl (Errorf ''getting Secret %s/%s: %w'' [Str (fst key), Str (snd key), Wrap e])
      | Inr s \<Rightarrow> Inr (has_keys (s_data s) expected))"

definition GetSecretValue :: "'w eso_env \<Rightarrow> objkey \<Rightarrow> string \<Rightarrow> 'w \<Rightarrow> string result" where
  "GetSecretValue E key data_key w =
     (case eso_secret E key w of
        Inl e \<Rightarrow> Inl (Errorf ''getting Secret %s/%s: %w'' [Str (fst key), Str (snd key), Wrap e])
      | Inr s \<Rightarrow>
          (case map_of (s_data s) data_key of
             None \<Rightarrow> Inl (Errorf ''%w: key %q in Secret %s/%s''
                       [Wrap ErrKeyNotFound, Str data_key, Str (fst key), Str (snd key)])
           | Some v \<Rightarrow> Inr v))"

definition EnsurePushSecret :: "('o, 'u, 'w) ssa_api \<Rightarrow> objmeta \<Rightarrow> 'o \<Rightarrow> 'w \<Rightarrow> err option \<times> 'w" where
  "EnsurePushSecret A owner ps w =
     (case EnsureObject A owner ps FieldManager w of (Inl e, w') \<Rightarrow> (Some e, w') | (Inr _, w') \<Rightarrow> (None, w'))"

section \<open>Store references\<close>

definition OpenBaoClusterStoreName :: string where
  "OpenBaoClusterStoreName = ''openbao-cluster-store''"

definition EffectiveStoreRef :: "SecretStoreRefSpec option \<Rightarrow> SecretStoreRefSpec" where
  "EffectiveStoreRef ref =
     (case ref of
        None \<Rightarrow> \<lparr>st_kind = SecretStoreKindCluster, st_name = OpenBaoClusterStoreName\<rparr>
      | Some r \<Rightarrow> \<lparr>st_kind = (if st_kind r = [] then SecretStoreKindCluster else st_kind r), st_name = st_name r\<rparr>)"

definition IsStoreRefReady :: "'w eso_env \<Rightarrow> SecretStoreRefSpec \<Rightarrow> string \<Rightarrow> 'w \<Rightarrow> bool result" where
  "IsStoreRefReady E ref namespace w =
     (if st_kind ref = SecretStoreKindCluster then IsClusterSecretStoreReady E (st_name ref) w
      else if st_kind ref = SecretStoreKindNamespaced then IsSecretStoreReady E (st_name ref) namespace w
      else Inl (Errorf ''unknown secret store kind %q for store %q'' [Str (st_kind ref), Str (st_name ref)]))"

text \<open>The kind and name stamped onto ExternalSecrets and PushSecrets.\<close>

definition ESOSecretStoreRef :: "SecretStoreRefSpec \<Rightarrow> string \<times> string" where
  "ESOSecretStoreRef ref = (st_kind ref, st_name ref)"

definition PushSecretStoreRefs :: "SecretStoreRefSpec \<Rightarrow> (string \<times> string) list" where
  "PushSecretStoreRefs ref = [(st_kind ref, st_name ref)]"

section \<open>The gates\<close>

datatype GateState = GateReady | GateExternalSecretMissing | GateExternalSecretNotSynced | GateSecretKeysMissing

definition GateSyncedSecret :: "'w eso_env \<Rightarrow> objkey \<Rightarrow> string list \<Rightarrow> 'w \<Rightarrow> GateState \<times> err option" where
  "GateSyncedSecret E key expected w =
     (case IsSecretReady E key expected w of
        Inl e \<Rightarrow> (GateExternalSecretMissing, Some e)
      | Inr True \<Rightarrow> (GateReady, None)
      | Inr False \<Rightarrow>
          (case WaitForExternalSecret E key w of
             (_, _, Some e) \<Rightarrow> (GateExternalSecretMissing, Some e)
           | (exists, es_ready, None) \<Rightarrow>
               if \<not> exists then (GateExternalSecretMissing, None)
               else if es_ready then (GateSecretKeysMissing, None)
               else (GateExternalSecretNotSynced, None)))"

definition GateStoreReady ::
  "meta_api \<Rightarrow> 'w eso_env \<Rightarrow> SecretStoreRefSpec \<Rightarrow> string \<Rightarrow> condition list \<Rightarrow> int \<Rightarrow> string \<Rightarrow> 'w \<Rightarrow>
     bool result \<times> condition list" where
  "GateStoreReady K E ref namespace cs g ct w =
     (case IsStoreRefReady E ref namespace w of
        Inl e \<Rightarrow> (Inl e, cs)
      | Inr True \<Rightarrow> (Inr True, cs)
      | Inr False \<Rightarrow>
          (Inr False, SetCondition K cs (mk_condition ct CFalse g ''SecretStoreNotReady''
             (Msg ''%s %q is not ready; upstream secret backend unreachable'' [Str (st_kind ref), Str (st_name ref)]))))"

record CredentialGateSpec =
  cg_key :: objkey
  cg_reason :: string
  cg_noun :: string
  cg_waiting :: msg
  cg_expected :: "string list"

definition GateCredential ::
  "meta_api \<Rightarrow> 'w eso_env \<Rightarrow> CredentialGateSpec \<Rightarrow> condition list \<Rightarrow> int \<Rightarrow> string \<Rightarrow> 'w \<Rightarrow>
     bool result \<times> condition list" where
  "GateCredential K E spec cs g ct w =
     (case GateSyncedSecret E (cg_key spec) (cg_expected spec) w of
        (_, Some e) \<Rightarrow> (Inl e, cs)
      | (state, None) \<Rightarrow>
          if state = GateReady then (Inr True, cs)
          else let msg = (case state of
                     GateExternalSecretMissing \<Rightarrow>
                       Msg ''%s ExternalSecret %s/%s not found yet'' [Str (cg_noun spec), Str (fst (cg_key spec)), Str (snd (cg_key spec))]
                   | GateSecretKeysMissing \<Rightarrow> Msg ''%s Secret exists but is missing expected keys'' [Str (cg_noun spec)]
                   | _ \<Rightarrow> cg_waiting spec)
               in (Inr False, SetCondition K cs (mk_condition ct CFalse g (cg_reason spec) msg)))"

fun GateCredentials ::
  "meta_api \<Rightarrow> 'w eso_env \<Rightarrow> CredentialGateSpec list \<Rightarrow> condition list \<Rightarrow> int \<Rightarrow> string \<Rightarrow> 'w \<Rightarrow>
     bool result \<times> condition list" where
  "GateCredentials K E [] cs g ct w = (Inr True, cs)"
| "GateCredentials K E (spec # specs) cs g ct w =
     (case GateCredential K E spec cs g ct w of
        (Inl e, cs') \<Rightarrow> (Inl e, cs')
      | (Inr ready, cs') \<Rightarrow> if \<not> ready then (Inr False, cs') else GateCredentials K E specs cs' g ct w)"

section \<open>What the gates decide\<close>

text \<open>A credential is usable when its Secret exists with all the keys, whatever its ExternalSecret says.\<close>

definition usable :: "'w eso_env \<Rightarrow> 'w \<Rightarrow> CredentialGateSpec \<Rightarrow> bool" where
  "usable E w spec =
     (case eso_secret E (cg_key spec) w of
        Inl e \<Rightarrow> False | Inr s \<Rightarrow> set (cg_expected spec) \<subseteq> fst ` set (s_data s))"

lemma has_keys_iff: "has_keys m ks \<longleftrightarrow> set ks \<subseteq> fst ` set m"
  by (induction ks) (auto simp: map_of_eq_None_iff split: option.splits dest: map_of_SomeD intro: image_eqI [rotated])

lemma has_ready_iff: "has_ready cs \<longleftrightarrow> (''Ready'', CTrue) \<in> set cs"
  by (induction cs rule: has_ready.induct) auto

lemma IsSecretReady_usable:
  "IsSecretReady E (cg_key spec) (cg_expected spec) w = Inr True \<longleftrightarrow> usable E w spec"
  by (auto simp: IsSecretReady_def usable_def has_keys_iff split: sum.splits)

text \<open>The ladder attributes a miss to its cause.\<close>

lemma GateSyncedSecret_cases:
  "case GateSyncedSecret E (cg_key spec) (cg_expected spec) w of
     (st, Some e) \<Rightarrow> \<not> usable E w spec
   | (GateReady, None) \<Rightarrow> usable E w spec
   | (GateExternalSecretMissing, None) \<Rightarrow>
       \<not> usable E w spec \<and> (case eso_external E (cg_key spec) w of Inl e \<Rightarrow> is_not_found e | Inr cs \<Rightarrow> False)
   | (GateExternalSecretNotSynced, None) \<Rightarrow>
       \<not> usable E w spec \<and> (case eso_external E (cg_key spec) w of Inl e \<Rightarrow> False | Inr cs \<Rightarrow> \<not> has_ready cs)
   | (GateSecretKeysMissing, None) \<Rightarrow>
       \<not> usable E w spec \<and> (case eso_external E (cg_key spec) w of Inl e \<Rightarrow> False | Inr cs \<Rightarrow> has_ready cs)"
  using IsSecretReady_usable [of E spec w]
  by (auto simp: GateSyncedSecret_def WaitForExternalSecret_def split: sum.splits bool.splits option.splits prod.splits)

lemma GateCredential_cases:
  assumes "meta_contract K" "GateCredential K E spec cs g ct w = (r, cs')"
  shows "case r of
      Inl e \<Rightarrow> cs' = cs \<and> \<not> usable E w spec
    | Inr True \<Rightarrow> cs' = cs \<and> usable E w spec
    | Inr False \<Rightarrow> \<not> usable E w spec \<and> cond_is K cs' ct CFalse (cg_reason spec) \<and>
        (\<forall>t. t \<noteq> ct \<longrightarrow> GetCondition K cs' t = GetCondition K cs t)"
  using assms GateSyncedSecret_cases [where E = E and spec = spec and w = w]
  by (auto simp: GateCredential_def Let_def split: prod.splits option.splits GateState.splits if_splits)

lemma GateCredentials_cases:
  assumes "meta_contract K"
  shows "GateCredentials K E specs cs g ct w = (r, cs') \<Longrightarrow>
    case r of
      Inl e \<Rightarrow> cs' = cs \<and> \<not> list_all (usable E w) specs
    | Inr True \<Rightarrow> cs' = cs \<and> list_all (usable E w) specs
    | Inr False \<Rightarrow> (\<exists>pre sp post. specs = pre @ sp # post \<and> list_all (usable E w) pre \<and> \<not> usable E w sp \<and>
        cond_is K cs' ct CFalse (cg_reason sp)) \<and> (\<forall>t. t \<noteq> ct \<longrightarrow> GetCondition K cs' t = GetCondition K cs t)"
proof (induction specs)
  case (Cons sp sps)
  obtain q cs1 where g: "GateCredential K E sp cs g ct w = (q, cs1)" by (rule prod.exhaust)
  note c = GateCredential_cases [OF assms g]
  consider e where "q = Inl e" | "q = Inr False" | "q = Inr True" by (cases q) auto
  then show ?case
  proof cases
    case 1
    then show ?thesis using Cons.prems g c by auto
  next
    case 2
    then have "r = Inr False" "cs' = cs1" using Cons.prems g by auto
    then show ?thesis using 2 c by (auto intro!: exI [of _ "[]"])
  next
    case 3
    then have rest: "GateCredentials K E sps cs g ct w = (r, cs')" "usable E w sp"
      using Cons.prems g c by auto
    show ?thesis
    proof (cases "r = Inr False")
      case True
      then obtain pre s post where "sps = pre @ s # post" "list_all (usable E w) pre" "\<not> usable E w s"
        "cond_is K cs' ct CFalse (cg_reason s)" "\<forall>t. t \<noteq> ct \<longrightarrow> GetCondition K cs' t = GetCondition K cs t"
        using Cons.IH [OF rest(1)] by auto
      then show ?thesis using True rest(2) by (simp, intro exI [of _ "sp # pre"] exI [of _ s] exI [of _ post]) simp
    next
      case False
      then show ?thesis using Cons.IH [OF rest(1)] rest(2) by (auto split: sum.splits bool.splits)
    qed
  qed
qed auto

text \<open>A resolved reference of a known kind is never rejected, so only a client failure is an error.\<close>

lemma EffectiveStoreRef_kind:
  "st_kind (EffectiveStoreRef ref) \<noteq> []"
  "EffectiveStoreRef (Some (EffectiveStoreRef ref)) = EffectiveStoreRef ref"
  by (auto simp: EffectiveStoreRef_def SecretStoreKindCluster_def split: option.splits)

lemma GetSecretValue_ready:
  "IsSecretReady E key [k] w = Inr True \<longleftrightarrow> (\<exists>v. GetSecretValue E key k w = Inr v)"
  by (auto simp: IsSecretReady_def GetSecretValue_def split: sum.splits option.splits)

lemma GetSecretValue_missing:
  assumes "GetSecretValue E key k w = Inl e" "\<And>x. eso_secret E key w = Inl x \<Longrightarrow> \<not> is_sentinel ''key not found in Secret'' x"
  shows "IsMissingSecretOrKey e \<longleftrightarrow> IsSecretReady E key [k] w = Inr False"
  using assms
  by (auto simp: IsSecretReady_def GetSecretValue_def IsMissingSecretOrKey_def ErrKeyNotFound_def split: sum.splits option.splits)

end
