(* ===== verification/Probe.thy ===== *)
theory Probe
  imports Conditions Kube
begin

text \<open>
  The API health check, \<open>internal/common/healthcheck\<close>: the classification of transport errors and the cache
  of successful probes (\<open>healthcheck.go\<close>) and the probe flow (\<open>flow.go\<close>).  Time is part of the state
  \<open>'w\<close> and read through \<open>pe_now\<close>; an HTTP exchange is \<open>pe_do\<close>, which returns the status code and moves the
  state on.  The body of a response is not read by the code.
\<close>

section \<open>Classification\<close>

definition ReasonEndpointNotReady :: string where "ReasonEndpointNotReady = ''EndpointNotReady''"
definition ReasonHealthCheckTimeout :: string where "ReasonHealthCheckTimeout = ''HealthCheckTimeout''"
definition ReasonConnectionFailed :: string where "ReasonConnectionFailed = ''ConnectionFailed''"
definition ReasonHealthCheckFailed :: string where "ReasonHealthCheckFailed = ''HealthCheckFailed''"

definition RequeueHealthCheck :: duration where "RequeueHealthCheck = seconds 10"
definition HealthCheckTimeout :: duration where "HealthCheckTimeout = seconds 10"
definition HealthCheckCacheTTL :: duration where "HealthCheckCacheTTL = seconds 30"

text \<open>\<open>is_dns\<close> is \<open>errors.As\<close> to a DNS error, \<open>err_text\<close> the \<open>Error\<close> method.\<close>

definition ClassifyError :: "(err \<Rightarrow> bool) \<Rightarrow> (err \<Rightarrow> string) \<Rightarrow> err \<Rightarrow> string \<times> msg" where
  "ClassifyError is_dns err_text e =
     (if is_sentinel ''context deadline exceeded'' e \<or> is_sentinel ''i/o timeout'' e
      then (ReasonHealthCheckTimeout, Msg ''health check timed out'' [])
      else if is_dns e then (ReasonEndpointNotReady, Msg ''endpoint not resolvable'' [])
      else if str_contains (err_text e) ''connection refused''
      then (ReasonConnectionFailed, Msg ''connection failed: %s'' [Val e])
      else (ReasonHealthCheckFailed, Msg ''health check failed: %s'' [Val e]))"

section \<open>The cache of successful probes\<close>

record probeEntry =
  pb_uid :: string
  pb_endpoint :: string
  pb_at :: instant

type_synonym probe_cache = "(objkey \<times> probeEntry) list"

definition Hit :: "probe_cache \<Rightarrow> objkey \<Rightarrow> string \<Rightarrow> string \<Rightarrow> duration \<Rightarrow> instant \<Rightarrow> bool" where
  "Hit cache key uid endpoint ttl now =
     (case map_of cache key of
        None \<Rightarrow> False
      | Some entry \<Rightarrow> pb_uid entry = uid \<and> pb_endpoint entry = endpoint \<and> now - pb_at entry < ttl)"

definition Store :: "probe_cache \<Rightarrow> objkey \<Rightarrow> string \<Rightarrow> string \<Rightarrow> instant \<Rightarrow> probe_cache" where
  "Store cache key uid endpoint now = map_put key \<lparr>pb_uid = uid, pb_endpoint = endpoint, pb_at = now\<rparr> cache"

definition Evict :: "probe_cache \<Rightarrow> objkey \<Rightarrow> probe_cache" where
  "Evict cache key = AList.delete key cache"

definition Has :: "probe_cache \<Rightarrow> objkey \<Rightarrow> bool" where
  "Has cache key \<longleftrightarrow> map_of cache key \<noteq> None"

section \<open>The flow\<close>

text \<open>
  \<open>pe_request\<close> is \<open>http.NewRequestWithContext\<close>, of which only the error matters, \<open>pe_ctx_err\<close> the error of the
  pass's own context.
\<close>

record 'w probe_env =
  pe_now :: "'w \<Rightarrow> instant"
  pe_request :: "string \<Rightarrow> err option"
  pe_do :: "string \<Rightarrow> duration \<Rightarrow> 'w \<Rightarrow> int result \<times> 'w"
  pe_ctx_err :: "'w \<Rightarrow> err option"
  pe_is_dns :: "err \<Rightarrow> bool"
  pe_err_text :: "err \<Rightarrow> string"

record ProbeFlowParams =
  pr_key :: objkey
  pr_uid :: string
  pr_subject :: string
  pr_configured :: bool
  pr_endpoint :: string
  pr_generation :: int
  pr_condition :: string
  pr_healthy :: string
  pr_unhealthy :: string
  pr_timeout :: duration
  pr_ttl :: duration
  pr_requeue :: duration

definition cacheHit :: "meta_api \<Rightarrow> 'w probe_env \<Rightarrow> ProbeFlowParams \<Rightarrow> condition list \<Rightarrow> probe_cache \<Rightarrow> 'w \<Rightarrow> bool" where
  "cacheHit K E p cs cache w =
     (case GetCondition K cs (pr_condition p) of
        None \<Rightarrow> False
      | Some current \<Rightarrow>
          if c_status current \<noteq> CTrue then False
          else Hit cache (pr_key p) (pr_uid p) (pr_endpoint p) (pr_ttl p) (pe_now E w))"

definition ReconcileProbe ::
  "meta_api \<Rightarrow> 'w probe_env \<Rightarrow> ProbeFlowParams \<Rightarrow> condition list \<Rightarrow> probe_cache \<Rightarrow> 'w \<Rightarrow>
     (ctrl_result \<times> err option) \<times> condition list \<times> probe_cache \<times> 'w" where
  "ReconcileProbe K E p cs cache w =
     (let report = (\<lambda>st reason message. SetCondition K cs
             (mk_condition (pr_condition p) st (pr_generation p) reason message));
          healthy = report CTrue (pr_healthy p) (Msg ''%s is responding at %s'' [Str (pr_subject p), Str (pr_endpoint p)]);
          again = (after (pr_requeue p), None)
      in if \<not> pr_configured p
         then (again, report CFalse ReasonEndpointNotReady (Msg ''endpoint not yet configured'' []), cache, w)
         else if cacheHit K E p cs cache w then ((zero_result, None), healthy, cache, w)
         else case pe_request E (pr_endpoint p) of
           Some e \<Rightarrow> ((zero_result, Some (Errorf ''building health check request: %w'' [Wrap e])), cs, cache, w)
         | None \<Rightarrow>
             (case pe_do E (pr_endpoint p) (pr_timeout p) w of
                (Inl e, w') \<Rightarrow>
                  (case pe_ctx_err E w' of
                     Some cerr \<Rightarrow> ((zero_result, Some cerr), cs, cache, w')
                   | None \<Rightarrow>
                       (case ClassifyError (pe_is_dns E) (pe_err_text E) e of
                          (reason, message) \<Rightarrow> (again, report CFalse reason message, Evict cache (pr_key p), w')))
              | (Inr code, w') \<Rightarrow>
                  if 200 \<le> code \<and> code < 300
                  then ((zero_result, None), healthy,
                        Store cache (pr_key p) (pr_uid p) (pr_endpoint p) (pe_now E w'), w')
                  else (again, report CFalse (pr_unhealthy p) (Msg ''%s returned HTTP %d'' [Str (pr_subject p), Num code]),
                        Evict cache (pr_key p), w')))"

section \<open>Laws of the cache\<close>

lemma Hit_Store [simp]:
  "Hit (Store cache key uid ep t) k u e ttl now \<longleftrightarrow>
     (if k = key then uid = u \<and> ep = e \<and> now - t < ttl else Hit cache k u e ttl now)"
  by (auto simp: Hit_def Store_def)

lemma Hit_Evict [simp]: "Hit (Evict cache key) k u e ttl now \<longleftrightarrow> k \<noteq> key \<and> Hit cache k u e ttl now"
  by (simp add: Hit_def Evict_def)

lemma Has_simps [simp]: "Has (Store cache key uid ep t) k \<longleftrightarrow> k = key \<or> Has cache k" "Has (Evict cache key) k \<longleftrightarrow> k \<noteq> key \<and> Has cache k"
  by (simp_all add: Has_def Store_def Evict_def)

section \<open>Passes and the probes behind them\<close>

text \<open>The successful exchange of a pass, if it made one: who was probed, where, and when it was recorded.\<close>

type_synonym probe_log = "(objkey \<times> string \<times> string \<times> instant) list"

definition successes :: "meta_api \<Rightarrow> 'w probe_env \<Rightarrow> ProbeFlowParams \<Rightarrow> condition list \<Rightarrow> probe_cache \<Rightarrow> 'w \<Rightarrow> probe_log" where
  "successes K E p cs cache w =
     (if pr_configured p \<and> \<not> cacheHit K E p cs cache w \<and> pe_request E (pr_endpoint p) = None
      then (case pe_do E (pr_endpoint p) (pr_timeout p) w of
              (Inl e, w') \<Rightarrow> []
            | (Inr code, w') \<Rightarrow>
                if 200 \<le> code \<and> code < 300 then [(pr_key p, pr_uid p, pr_endpoint p, pe_now E w')] else [])
      else [])"

text \<open>
  The life of a cache: passes of any resources, in any order and with any conditions, and evictions when a
  resource is deleted.  The history holds every successful exchange so far.
\<close>

inductive cache_run :: "meta_api \<Rightarrow> 'w probe_env \<Rightarrow> probe_log \<Rightarrow> probe_cache \<Rightarrow> bool" for K E where
  fresh: "cache_run K E [] []"
| pass: "cache_run K E hist cache \<Longrightarrow> ReconcileProbe K E p cs cache w = (r, cs', cache', w') \<Longrightarrow>
    cache_run K E (successes K E p cs cache w @ hist) cache'"
| evict: "cache_run K E hist cache \<Longrightarrow> cache_run K E hist (Evict cache key)"

text \<open>Every entry of the cache is a successful exchange.\<close>

definition backed :: "probe_log \<Rightarrow> probe_cache \<Rightarrow> bool" where
  "backed hist cache \<longleftrightarrow> (\<forall>k e. map_of cache k = Some e \<longrightarrow> (k, pb_uid e, pb_endpoint e, pb_at e) \<in> set hist)"

lemma backed_Evict: "backed hist cache \<Longrightarrow> backed hist (Evict cache key)"
  by (auto simp: backed_def Evict_def)

lemma backed_more: "backed hist cache \<Longrightarrow> backed (l @ hist) cache"
  by (auto simp: backed_def)

lemma backed_pass:
  assumes "backed hist cache" "ReconcileProbe K E p cs cache w = (r, cs', cache', w')"
  shows "backed (successes K E p cs cache w @ hist) cache'"
proof (cases "successes K E p cs cache w = []")
  case True
  then have "cache' = cache \<or> cache' = Evict cache (pr_key p)"
    using assms(2) by (auto simp: ReconcileProbe_def successes_def Let_def split: option.splits prod.splits sum.splits if_splits)
  then show ?thesis using True backed_Evict [OF assms(1), of "pr_key p"] assms(1) by auto
next
  case False
  then obtain t where "successes K E p cs cache w = [(pr_key p, pr_uid p, pr_endpoint p, t)]"
    "cache' = Store cache (pr_key p) (pr_uid p) (pr_endpoint p) t"
    using assms(2) by (auto simp: ReconcileProbe_def successes_def Let_def split: option.splits prod.splits sum.splits if_splits)
  then show ?thesis using assms(1) by (auto simp: backed_def Store_def)
qed

lemma cache_run_backed: "cache_run K E hist cache \<Longrightarrow> backed hist cache"
proof (induction rule: cache_run.induct)
  case fresh
  show ?case by (simp add: backed_def)
qed (simp_all add: backed_pass backed_Evict)

text \<open>The outcome of a pass, by what it saw.\<close>

lemma ReconcileProbe_healthy:
  assumes "ReconcileProbe K E p cs cache w = ((zero_result, None), cs', cache', w')" "pr_requeue p \<noteq> 0"
  shows "cs' = SetCondition K cs (mk_condition (pr_condition p) CTrue (pr_generation p) (pr_healthy p)
        (Msg ''%s is responding at %s'' [Str (pr_subject p), Str (pr_endpoint p)]))"
    "cacheHit K E p cs cache w \<and> cache' = cache \<and> w' = w \<or>
     successes K E p cs cache w = [(pr_key p, pr_uid p, pr_endpoint p, pe_now E w')]"
  using assms
  by (auto simp: ReconcileProbe_def successes_def Let_def split: option.splits prod.splits sum.splits if_splits)

lemma cacheHit_entry:
  assumes "cacheHit K E p cs cache w"
  obtains e where "map_of cache (pr_key p) = Some e" "pb_uid e = pr_uid p" "pb_endpoint e = pr_endpoint p"
    "pe_now E w - pb_at e < pr_ttl p"
  using assms by (auto simp: cacheHit_def Hit_def split: option.splits if_splits)

end
