(* ===== verification/Exposure.thy ===== *)
theory Exposure
  imports Apply Dsn
begin

text \<open>
  How a service is reached: Gateway API routes, \<open>internal/common/gateway\<close>, network policies,
  \<open>internal/common/networkpolicy\<close>, certificates, \<open>internal/common/tls\<close>, and the memcached endpoint list,
  \<open>internal/common/cache\<close>.  Of \<open>net/url\<close> the object-store rule uses the scheme, the host name and the port of a
  parsed URL: \<open>parse_url\<close> returns these three.
\<close>

section \<open>Routes\<close>

definition ReasonHTTPRouteAccepted :: string where "ReasonHTTPRouteAccepted = ''HTTPRouteAccepted''"
definition ReasonHTTPRouteNotAccepted :: string where "ReasonHTTPRouteNotAccepted = ''HTTPRouteNotAccepted''"
definition ReasonHTTPRouteNotRequired :: string where "ReasonHTTPRouteNotRequired = ''HTTPRouteNotRequired''"
definition ReasonGatewayAPINotInstalled :: string where "ReasonGatewayAPINotInstalled = ''GatewayAPINotInstalled''"

definition defaultHTTPRoutePath :: string where
  "defaultHTTPRoutePath = ''/''"

text \<open>A nil mapper, or any error of \<open>RESTMapping\<close>, counts as absent.\<close>

definition IsGVKAvailable :: "('gvk \<Rightarrow> err option) option \<Rightarrow> 'gvk \<Rightarrow> bool" where
  "IsGVKAvailable mapper gvk = (case mapper of None \<Rightarrow> False | Some rest_mapping \<Rightarrow> rest_mapping gvk = None)"

record parent_ref =
  pa_name :: string
  pa_namespace :: "string option"
  pa_section :: "string option"

record http_route =
  hr_meta :: objmeta
  hr_parents :: "parent_ref list"
  hr_hostnames :: "string list"
  hr_path :: "string \<times> string"  \<comment> \<open>match type and prefix of the only rule\<close>
  hr_backend :: "string \<times> string \<times> int"  \<comment> \<open>kind, name and port of the only backend\<close>
  hr_status :: "(string \<times> cstatus) list list"  \<comment> \<open>the conditions each parent reports\<close>

record RouteParams =
  rp_name :: string
  rp_namespace :: string
  rp_labels :: "string gomap"
  rp_service :: string
  rp_port :: int

definition BuildHTTPRoute :: "GatewaySpec \<Rightarrow> RouteParams \<Rightarrow> http_route" where
  "BuildHTTPRoute gw p =
     (let nonempty = (\<lambda>s. if s \<noteq> [] then Some s else None);
          parent = \<lparr>pa_name = gp_name (gw_parent gw), pa_namespace = nonempty (gp_namespace (gw_parent gw)),
                    pa_section = nonempty (gp_section (gw_parent gw))\<rparr>;
          path = (if gw_path gw = [] then defaultHTTPRoutePath
                  else if \<not> has_prefix (gw_path gw) ''/'' then ''/'' @ gw_path gw else gw_path gw)
      in \<lparr>hr_meta = blank_meta\<lparr>m_name := rp_name p, m_namespace := rp_namespace p, m_labels := rp_labels p,
                       m_annotations := gw_annotations gw\<rparr>,
          hr_parents = [parent], hr_hostnames = [gw_hostname gw], hr_path = (''PathPrefix'', path),
          hr_backend = (''Service'', rp_service p, rp_port p), hr_status = []\<rparr>)"

definition IsHTTPRouteAccepted :: "http_route \<Rightarrow> bool" where
  "IsHTTPRouteAccepted route \<longleftrightarrow> list_ex (list_ex (\<lambda>(t, s). t = ''Accepted'' \<and> s = CTrue)) (hr_status route)"

definition EnsureHTTPRoute :: "(http_route, 'u, 'w) ssa_api \<Rightarrow> objmeta \<Rightarrow> http_route \<Rightarrow> 'w \<Rightarrow> http_route result \<times> 'w" where
  "EnsureHTTPRoute A owner route w = EnsureObject A owner route FieldManager w"

text \<open>The deletion is addressed with an empty object of the given namespace and name.\<close>

definition DeleteHTTPRoute :: "(http_route, 'w) kclient \<Rightarrow> string \<Rightarrow> string \<Rightarrow> 'w \<Rightarrow> err option \<times> 'w" where
  "DeleteHTTPRoute C namespace name w =
     (let route = \<lparr>hr_meta = blank_meta\<lparr>m_name := name, m_namespace := namespace\<rparr>, hr_parents = [], hr_hostnames = [],
                   hr_path = ([], []), hr_backend = ([], [], 0), hr_status = []\<rparr>
      in case k_delete C no_opts route w of
           (e, w') \<Rightarrow> (case ignore_not_found e of
              None \<Rightarrow> (None, w')
            | Some x \<Rightarrow> (Some (Errorf ''deleting HTTPRoute %s/%s: %w'' [Str namespace, Str name, Wrap x]), w')))"

record RouteFlowParams =
  rf_available :: bool
  rf_configured :: bool
  rf_desired :: http_route
  rf_name :: string
  rf_namespace :: string
  rf_noun :: string
  rf_generation :: int
  rf_condition :: string
  rf_requeue :: duration

definition ReconcileHTTPRoute ::
  "meta_api \<Rightarrow> (http_route, 'w) kclient \<Rightarrow> (http_route, 'u, 'w) ssa_api \<Rightarrow> objmeta \<Rightarrow> RouteFlowParams \<Rightarrow>
     condition list \<Rightarrow> 'w \<Rightarrow> (ctrl_result \<times> err option) \<times> condition list \<times> 'w" where
  "ReconcileHTTPRoute K C A owner p cs w =
     (let report = (\<lambda>st reason message. SetCondition K cs
             (mk_condition (rf_condition p) st (rf_generation p) reason message));
          not_configured = Msg ''External %s exposure via Gateway API is not configured'' [Str (rf_noun p)]
      in if \<not> rf_available p
         then (if \<not> rf_configured p
               then ((zero_result, None), report CTrue ReasonHTTPRouteNotRequired not_configured, w)
               else ((zero_result, None), report CFalse ReasonGatewayAPINotInstalled
                  (Msg ''spec.gateway is set but the gateway.networking.k8s.io/v1 HTTPRoute CRD is not installed in this cluster; install Gateway API and restart the operator to enable external %s exposure''
                     [Str (rf_noun p)]), w))
         else if \<not> rf_configured p
         then (case DeleteHTTPRoute C (rf_namespace p) (rf_name p) w of
                 (Some e, w') \<Rightarrow> ((zero_result, Some e), cs, w')
               | (None, w') \<Rightarrow> ((zero_result, None), report CTrue ReasonHTTPRouteNotRequired not_configured, w'))
         else (case EnsureHTTPRoute A owner (rf_desired p) w of
                 (Inl e, w') \<Rightarrow> ((zero_result, Some (Errorf ''ensuring HTTPRoute: %w'' [Wrap e])), cs, w')
               | (Inr live, w') \<Rightarrow>
                   if IsHTTPRouteAccepted live
                   then ((zero_result, None), report CTrue ReasonHTTPRouteAccepted (Msg ''HTTPRoute accepted by Gateway'' []), w')
                   else ((after (rf_requeue p), None),
                         report CFalse ReasonHTTPRouteNotAccepted (Msg ''HTTPRoute not yet accepted by Gateway'' []), w')))"

section \<open>Certificates\<close>

text \<open>\<open>'s\<close> is the specification of a Certificate, compared with semantic equality \<open>sem_eq\<close>.\<close>

record 's certificate =
  ce_meta :: objmeta
  ce_spec :: 's
  ce_conditions :: "(string \<times> cstatus) list"

definition isCertificateReady :: "'s certificate \<Rightarrow> bool" where
  "isCertificateReady cert \<longleftrightarrow> list_ex (\<lambda>(t, s). t = ''Ready'' \<and> s = CTrue) (ce_conditions cert)"

definition EnsureCertificate ::
  "('s \<Rightarrow> 's \<Rightarrow> bool) \<Rightarrow> ('s certificate, 'w) kclient \<Rightarrow> (objmeta \<Rightarrow> 's certificate \<Rightarrow> 's certificate result) \<Rightarrow>
     objmeta \<Rightarrow> 's certificate \<Rightarrow> 'w \<Rightarrow> bool result \<times> 'w" where
  "EnsureCertificate sem_eq C set_ref owner cert w =
     (let ref = [Str (m_namespace (ce_meta cert)), Str (m_name (ce_meta cert))] in
      case k_get C (key_of (ce_meta cert)) w of
        Inl e \<Rightarrow>
          if is_not_found e
          then (case set_ref owner cert of
                  Inl e' \<Rightarrow> (Inl (Errorf ''setting owner reference on Certificate %s/%s: %w'' (ref @ [Wrap e'])), w)
                | Inr owned \<Rightarrow>
                    (case k_create C owned w of
                       (Inl e', w') \<Rightarrow> (Inl (Errorf ''creating Certificate %s/%s: %w'' (ref @ [Wrap e'])), w')
                     | (Inr _, w') \<Rightarrow> (Inr False, w')))
          else (Inl (Errorf ''getting Certificate %s/%s: %w'' (ref @ [Wrap e])), w)
      | Inr existing \<Rightarrow>
          if \<not> sem_eq (ce_spec existing) (ce_spec cert)
          then (case k_update C (existing\<lparr>ce_spec := ce_spec cert\<rparr>) w of
                  (Inl e, w') \<Rightarrow> (Inl (Errorf ''updating Certificate %s/%s: %w'' (ref @ [Wrap e])), w')
                | (Inr _, w') \<Rightarrow>
                    (case k_get C (key_of (ce_meta cert)) w' of
                       Inl e \<Rightarrow> (Inl (Errorf ''re-fetching Certificate %s/%s after update: %w'' (ref @ [Wrap e])), w')
                     | Inr fresh \<Rightarrow> (Inr (isCertificateReady fresh), w')))
          else (Inr (isCertificateReady existing), w))"

section \<open>Memcached endpoints\<close>

definition ResolveServers :: "CacheSpec \<Rightarrow> string" where
  "ResolveServers cache =
     (if ca_servers cache \<noteq> [] then str_join '','' (ca_servers cache)
      else case ca_cluster_ref cache of Some name \<Rightarrow> name @ '':11211'' | None \<Rightarrow> [])"

text \<open>\<open>net.SplitHostPort\<close>; only success and the two parts matter.\<close>

definition split_host_port :: "string \<Rightarrow> (string \<times> string) option" where
  "split_host_port s =
     (if CHR '':'' \<notin> set s then None
      else let port = rev (takeWhile (\<lambda>c. c \<noteq> CHR '':'') (rev s));
               i = length s - length port - 1
           in if hd s = CHR ''[''
              then (if CHR '']'' \<notin> set s then None
                    else let e = length (takeWhile (\<lambda>c. c \<noteq> CHR '']'') s) in
                         if e + 1 \<noteq> i then None
                         else if CHR ''['' \<in> set (drop 1 s) \<or> CHR '']'' \<in> set (drop (e + 1) s) then None
                         else Some (take (e - 1) (drop 1 s), port))
              else if CHR '':'' \<in> set (take i s) \<or> CHR ''['' \<in> set s \<or> CHR '']'' \<in> set s then None
              else Some (take i s, port))"

text \<open>\<open>strconv.ParseInt(s, 10, 32)\<close>.\<close>

definition parse_int32 :: "string \<Rightarrow> int result" where
  "parse_int32 s = (case atoi s of Inl e \<Rightarrow> Inl e | Inr n \<Rightarrow> if is_int32 n then Inr n else Inl (NumError s))"

definition server_port :: "string \<Rightarrow> int" where
  "server_port server =
     (case split_host_port server of
        None \<Rightarrow> 11211
      | Some (host, port) \<Rightarrow>
          (case parse_int32 port of Inl e \<Rightarrow> 11211 | Inr n \<Rightarrow> if n > 0 \<and> n \<le> 65535 then n else 11211))"

text \<open>The loop over the servers; \<open>seen\<close> holds exactly the ports collected so far.\<close>

fun collect_ports :: "string list \<Rightarrow> int list \<Rightarrow> int list" where
  "collect_ports [] ports = ports"
| "collect_ports (s # ss) ports =
     (if server_port s \<in> set ports then collect_ports ss ports else collect_ports ss (ports @ [server_port s]))"

definition CacheEgressPorts :: "CacheSpec \<Rightarrow> int list" where
  "CacheEgressPorts cache =
     (if ca_servers cache = [] then (if ca_cluster_ref cache \<noteq> None then [11211] else [])
      else collect_ports (ca_servers cache) [])"

section \<open>Network policies\<close>

definition ReasonNetworkPolicyReady :: string where "ReasonNetworkPolicyReady = ''NetworkPolicyReady''"
definition ReasonNetworkPolicyNotRequired :: string where "ReasonNetworkPolicyNotRequired = ''NetworkPolicyNotRequired''"

datatype protocol = TCP | UDP

text \<open>A rule is its ports and its peers; no ports, or no peers, means all.\<close>

record np_peer =
  np_namespaces :: "label_selector option"
  np_pods :: "label_selector option"
  np_block :: "(string \<times> string list) option"  \<comment> \<open>an address block and its exceptions\<close>

record np_rule =
  nr_ports :: "(protocol \<times> int) list"
  nr_peers :: "np_peer list"

record network_policy =
  np_meta :: objmeta
  np_selector :: "string gomap"
  np_types :: "string list"
  np_ingress :: "np_rule list"
  np_egress :: "np_rule list"

definition DNSEgressRule :: np_rule where
  "DNSEgressRule = \<lparr>nr_ports = [(UDP, 53), (TCP, 53)], nr_peers = []\<rparr>"

definition DatabaseEgressRule :: "DatabaseSpec \<Rightarrow> np_rule" where
  "DatabaseEgressRule db = \<lparr>nr_ports = [(TCP, DbPort db)], nr_peers = []\<rparr>"

definition CacheEgressRule :: "CacheSpec \<Rightarrow> np_rule option" where
  "CacheEgressRule cache =
     (let ports = CacheEgressPorts cache in
      if ports = [] then None else Some \<lparr>nr_ports = map (Pair TCP) ports, nr_peers = []\<rparr>)"

definition url_port :: "(string \<Rightarrow> (string \<times> string \<times> string) result) \<Rightarrow> string \<Rightarrow> int option" where
  "url_port parse_url host_url =
     (case parse_url host_url of
        Inl e \<Rightarrow> None
      | Inr (scheme, hostname, port) \<Rightarrow>
          if hostname = [] then None
          else if port \<noteq> []
          then (case parse_int32 port of Inl e \<Rightarrow> None | Inr n \<Rightarrow> if n \<le> 0 \<or> n > 65535 then None else Some n)
          else if scheme = ''https'' then Some 443 else if scheme = ''http'' then Some 80 else None)"

fun collect_urls :: "(string \<Rightarrow> (string \<times> string \<times> string) result) \<Rightarrow> string list \<Rightarrow> int list \<Rightarrow> int list" where
  "collect_urls parse_url [] ports = ports"
| "collect_urls parse_url (u # us) ports =
     (case url_port parse_url u of
        None \<Rightarrow> collect_urls parse_url us ports
      | Some n \<Rightarrow> if n \<in> set ports then collect_urls parse_url us ports else collect_urls parse_url us (ports @ [n]))"

definition S3EgressRule :: "(string \<Rightarrow> (string \<times> string \<times> string) result) \<Rightarrow> string list \<Rightarrow> np_rule option" where
  "S3EgressRule parse_url urls =
     (let ports = collect_urls parse_url urls [] in
      if ports = [] then None else Some \<lparr>nr_ports = map (Pair TCP) (sort ports), nr_peers = []\<rparr>)"

definition namespacePeer :: "string \<Rightarrow> np_peer" where
  "namespacePeer namespace =
     \<lparr>np_namespaces = Some \<lparr>ls_match_labels = [(''kubernetes.io/metadata.name'', namespace)], ls_match_expressions = []\<rparr>,
      np_pods = None, np_block = None\<rparr>"

definition IngressPeers :: "NetworkPolicyIngressSource list \<Rightarrow> string \<Rightarrow> string \<Rightarrow> np_peer list" where
  "IngressPeers sources gateway_ns operator_ns =
     map (\<lambda>src. \<lparr>np_namespaces = Some (ns_namespace_selector src), np_pods = ns_pod_selector src, np_block = None\<rparr>) sources @
     (if gateway_ns \<noteq> [] then [namespacePeer gateway_ns] else []) @
     (if operator_ns \<noteq> [] then [namespacePeer operator_ns] else [])"

definition EnsureNetworkPolicy :: "(network_policy, 'u, 'w) ssa_api \<Rightarrow> objmeta \<Rightarrow> network_policy \<Rightarrow> 'w \<Rightarrow> err option \<times> 'w" where
  "EnsureNetworkPolicy A owner np w =
     (case EnsureObject A owner np FieldManager w of (Inl e, w') \<Rightarrow> (Some e, w') | (Inr _, w') \<Rightarrow> (None, w'))"

definition DeleteNetworkPolicy :: "(network_policy, 'w) kclient \<Rightarrow> string \<Rightarrow> string \<Rightarrow> 'w \<Rightarrow> err option \<times> 'w" where
  "DeleteNetworkPolicy C namespace name w =
     (let np = \<lparr>np_meta = blank_meta\<lparr>m_name := name, m_namespace := namespace\<rparr>, np_selector = [], np_types = [],
                np_ingress = [], np_egress = []\<rparr>
      in case k_delete C no_opts np w of
           (e, w') \<Rightarrow> (case ignore_not_found e of
              None \<Rightarrow> (None, w')
            | Some x \<Rightarrow> (Some (Errorf ''deleting NetworkPolicy %s/%s: %w'' [Str namespace, Str name, Wrap x]), w')))"

text \<open>A nil desired policy, for the paths that do not use it, is \<open>None\<close>.\<close>

record NetworkFlowParams =
  nf_configured :: bool
  nf_sources :: nat
  nf_desired :: "network_policy option"
  nf_name :: string
  nf_namespace :: string
  nf_generation :: int
  nf_condition :: string

definition ReconcileNetworkPolicy ::
  "meta_api \<Rightarrow> (network_policy, 'w) kclient \<Rightarrow> (network_policy, 'u, 'w) ssa_api \<Rightarrow> objmeta \<Rightarrow> NetworkFlowParams \<Rightarrow>
     condition list \<Rightarrow> 'w \<Rightarrow> (ctrl_result \<times> err option) \<times> condition list \<times> 'w" where
  "ReconcileNetworkPolicy K C A owner p cs w =
     (let report = (\<lambda>reason message. SetCondition K cs
             (mk_condition (nf_condition p) CTrue (nf_generation p) reason message))
      in if \<not> nf_configured p
         then (case DeleteNetworkPolicy C (nf_namespace p) (nf_name p) w of
                 (Some e, w') \<Rightarrow> ((zero_result, Some (Errorf ''deleting NetworkPolicy: %w'' [Wrap e])), cs, w')
               | (None, w') \<Rightarrow> ((zero_result, None),
                   report ReasonNetworkPolicyNotRequired (Msg ''Network isolation is not configured'' []), w'))
         else if nf_sources p = 0
         then ((zero_result, Some (Errorf ''spec.networkPolicy.ingress must not be empty: refusing to create NetworkPolicy that would allow all ingress'' [])), cs, w)
         else (case EnsureNetworkPolicy A owner (the (nf_desired p)) w of
                 (Some e, w') \<Rightarrow> ((zero_result, Some (Errorf ''ensuring NetworkPolicy: %w'' [Wrap e])), cs, w')
               | (None, w') \<Rightarrow> ((zero_result, None),
                   report ReasonNetworkPolicyReady (Msg ''NetworkPolicy is configured'' []), w')))"

section \<open>Ports\<close>

lemma set_collect_ports: "set (collect_ports ss ports) = set ports \<union> server_port ` set ss"
  by (induction ss ports rule: collect_ports.induct) auto

lemma distinct_collect_ports: "distinct ports \<Longrightarrow> distinct (collect_ports ss ports)"
  by (induction ss ports rule: collect_ports.induct) auto

lemma server_port_range: "0 < server_port s \<and> server_port s \<le> 65535"
  by (auto simp: server_port_def split: option.splits sum.splits)

lemma CacheEgressPorts_outcome:
  "distinct (CacheEgressPorts cache)"
  "list_all (\<lambda>n. 0 < n \<and> n \<le> 65535) (CacheEgressPorts cache)"
  "set (CacheEgressPorts cache) =
     (if ca_servers cache = [] then (if ca_cluster_ref cache = None then {} else {11211}) else server_port ` set (ca_servers cache))"
  by (auto simp: CacheEgressPorts_def set_collect_ports distinct_collect_ports list_all_iff server_port_range)

text \<open>The last colon is found from the end; a host with brackets may have more of them.\<close>

lemma port_part: "CHR '':'' \<notin> set p \<Longrightarrow> rev (takeWhile (\<lambda>c. c \<noteq> CHR '':'') (rev (h @ CHR '':'' # p))) = p"
proof -
  assume "CHR '':'' \<notin> set p"
  then have "\<forall>c\<in>set (rev p). c \<noteq> CHR '':''" by auto
  then have "takeWhile (\<lambda>c. c \<noteq> CHR '':'') (rev p @ CHR '':'' # rev h) = rev p"
    by (subst takeWhile_append2) auto
  then show ?thesis by simp
qed

lemma split_host_port_plain:
  assumes "CHR '':'' \<notin> set h" "CHR ''['' \<notin> set h" "CHR '']'' \<notin> set h"
    and "CHR '':'' \<notin> set p" "CHR ''['' \<notin> set p" "CHR '']'' \<notin> set p"
  shows "split_host_port (h @ '':'' @ p) = Some (h, p)"
proof -
  have "hd (h @ CHR '':'' # p) \<noteq> CHR ''[''" using assms(2) by (cases h) auto
  then show ?thesis
    using assms port_part [OF assms(4), of h] by (simp add: split_host_port_def Let_def)
qed

lemma split_host_port_bracketed:
  assumes "CHR ''['' \<notin> set h" "CHR '']'' \<notin> set h"
    and "CHR '':'' \<notin> set p" "CHR ''['' \<notin> set p" "CHR '']'' \<notin> set p"
  shows "split_host_port (''['' @ h @ '']:'' @ p) = Some (h, p)"
proof -
  have "\<forall>c\<in>set (CHR ''['' # h). c \<noteq> CHR '']''" using assms(2) by auto
  then have "takeWhile (\<lambda>c. c \<noteq> CHR '']'') ((CHR ''['' # h) @ CHR '']'' # CHR '':'' # p) = CHR ''['' # h"
    by (subst takeWhile_append2) auto
  then show ?thesis
    using assms port_part [OF assms(3), of "CHR ''['' # h @ '']''"] by (simp add: split_host_port_def Let_def)
qed

lemma server_port_written:
  assumes "split_host_port s = Some (h, show_nat n)" "0 < n" "n \<le> 65535"
  shows "server_port s = int n"
proof -
  have "is_int64 (int n)" "is_int32 (int n)" using assms(3) by (simp_all add: is_int64_def is_int32_def)
  then show ?thesis using assms by (simp add: server_port_def parse_int32_def)
qed

lemma set_collect_urls: "set (collect_urls f us ports) = set ports \<union> {n. \<exists>u\<in>set us. url_port f u = Some n}"
  by (induction f us ports rule: collect_urls.induct) (auto split: option.splits)

lemma distinct_collect_urls: "distinct ports \<Longrightarrow> distinct (collect_urls f us ports)"
  by (induction f us ports rule: collect_urls.induct) (auto split: option.splits)

lemma S3EgressRule_outcome:
  "case S3EgressRule f us of
     None \<Rightarrow> list_all (\<lambda>u. url_port f u = None) us
   | Some r \<Rightarrow> nr_peers r = [] \<and> sorted (map snd (nr_ports r)) \<and> distinct (nr_ports r) \<and>
       set (nr_ports r) = {(TCP, n) | n. \<exists>u\<in>set us. url_port f u = Some n}"
proof -
  let ?ps = "collect_urls f us []"
  have s: "set ?ps = {n. \<exists>u\<in>set us. url_port f u = Some n}" "distinct ?ps"
    by (simp_all add: set_collect_urls distinct_collect_urls)
  have "(\<exists>u\<in>set us. url_port f u \<noteq> None) \<longleftrightarrow> set ?ps \<noteq> {}" unfolding s(1) by auto
  then show ?thesis
    using s by (auto simp: S3EgressRule_def Let_def list_all_iff distinct_map inj_on_def o_def)
qed

section \<open>Policies\<close>

text \<open>Every peer is a declared source or selects one whole namespace; without sources nothing is allowed by default.\<close>

lemma IngressPeers_set:
  "peer \<in> set (IngressPeers sources gw op) \<longleftrightarrow>
     (\<exists>src\<in>set sources. peer = \<lparr>np_namespaces = Some (ns_namespace_selector src), np_pods = ns_pod_selector src, np_block = None\<rparr>) \<or>
     gw \<noteq> [] \<and> peer = namespacePeer gw \<or> op \<noteq> [] \<and> peer = namespacePeer op"
  by (auto simp: IngressPeers_def)

lemma IngressPeers_not_open: "sources \<noteq> [] \<Longrightarrow> IngressPeers sources gw op \<noteq> []"
  by (simp add: IngressPeers_def)

lemma ReconcileNetworkPolicy_cases:
  assumes "ReconcileNetworkPolicy K C A owner p cs w = ((r, e), cs', w')"
  shows "r = zero_result"
    "nf_configured p \<Longrightarrow> nf_sources p = 0 \<Longrightarrow> e \<noteq> None \<and> cs' = cs \<and> w' = w"
    "nf_configured p \<Longrightarrow> nf_sources p \<noteq> 0 \<Longrightarrow>
      (case EnsureObject A owner (the (nf_desired p)) FieldManager w of
         (Inl x, w1) \<Rightarrow> w' = w1 \<and> e \<noteq> None \<and> cs' = cs
       | (Inr np, w1) \<Rightarrow> w' = w1 \<and> e = None)"
  using assms
  by (auto simp: ReconcileNetworkPolicy_def EnsureNetworkPolicy_def Let_def split: prod.splits option.splits sum.splits if_splits)

lemma DeleteNetworkPolicy_gone:
  assumes "deletes np_meta C" "DeleteNetworkPolicy C ns name w = (None, w')"
  shows "absent C (ns, name) w'"
proof -
  let ?np = "\<lparr>np_meta = blank_meta\<lparr>m_name := name, m_namespace := ns\<rparr>, np_selector = [], np_types = [], np_ingress = [], np_egress = []\<rparr>"
  obtain e where "k_delete C no_opts ?np w = (e, w')" "ignore_not_found e = None"
    using assms(2) by (auto simp: DeleteNetworkPolicy_def Let_def split: prod.splits option.splits)
  from deletes_gone [OF assms(1) this] show ?thesis by (simp add: key_of_def)
qed

section \<open>Routes and certificates\<close>

lemma BuildHTTPRoute_path:
  "has_prefix (snd (hr_path (BuildHTTPRoute gw p))) ''/''"
  "has_prefix (gw_path gw) ''/'' \<Longrightarrow> snd (hr_path (BuildHTTPRoute gw p)) = gw_path gw"
  by (auto simp: BuildHTTPRoute_def defaultHTTPRoutePath_def Let_def has_prefix_def)

text \<open>The outcome of the route flow, path by path.\<close>

lemma ReconcileHTTPRoute_cases:
  assumes "meta_contract K" "ReconcileHTTPRoute K C A owner p cs w = ((r, e), cs', w')" "rf_requeue p \<noteq> 0"
  shows "cond_true K cs' (rf_condition p) \<and> e = None \<longleftrightarrow>
      (if rf_configured p then rf_available p \<and>
         (case fst (EnsureHTTPRoute A owner (rf_desired p) w) of Inl x \<Rightarrow> False | Inr live \<Rightarrow> IsHTTPRouteAccepted live)
       else rf_available p \<longrightarrow> fst (DeleteHTTPRoute C (rf_namespace p) (rf_name p) w) = None)"
    "\<not> rf_available p \<Longrightarrow> w' = w"
    "r \<noteq> zero_result \<longleftrightarrow> rf_available p \<and> rf_configured p \<and>
       (case fst (EnsureHTTPRoute A owner (rf_desired p) w) of Inl x \<Rightarrow> False | Inr live \<Rightarrow> \<not> IsHTTPRouteAccepted live)"
  using assms
  by (auto simp: ReconcileHTTPRoute_def Let_def split: prod.splits option.splits sum.splits if_splits)

text \<open>A Certificate that matches is not written, and only then, or after a re-read, is its readiness reported.\<close>

lemma EnsureCertificate_converged:
  assumes "k_get C (key_of (ce_meta cert)) w = Inr existing" "sem_eq (ce_spec existing) (ce_spec cert)"
  shows "EnsureCertificate sem_eq C set_ref owner cert w = (Inr (isCertificateReady existing), w)"
  using assms by (simp add: EnsureCertificate_def Let_def)

lemma EnsureCertificate_ready:
  assumes "EnsureCertificate sem_eq C set_ref owner cert w = (Inr True, w')"
  shows "\<exists>live. k_get C (key_of (ce_meta cert)) w' = Inr live \<and> isCertificateReady live"
  using assms by (auto simp: EnsureCertificate_def Let_def split: prod.splits sum.splits if_splits)

end
