(* ===== verification/Wiring.thy ===== *)
theory Wiring
  imports CommonTypes Kube Jobs
begin

text \<open>
  How events reach a reconciler and how a service reaches Keystone: the mappers and the update predicate of
  \<open>internal/common/watch\<close> and the \<open>keystone_authtoken\<close> section of \<open>internal/common/keystoneauth\<close>.  The reader
  lists, by index key and value and optionally in one namespace, or gets the custom resources; a list of
  requests that Go builds by ranging over a map is a list here, in the order of insertion.
\<close>

section \<open>Mapping events to requests\<close>

record owner_ref =
  or_kind :: string
  or_api_version :: string
  or_name :: string

record watched =
  wa_key :: objkey
  wa_owners :: "owner_ref list"

record 'w reader =
  rd_list :: "(string \<times> string) option \<Rightarrow> string option \<Rightarrow> 'w \<Rightarrow> objkey list result"
  rd_get :: "objkey \<Rightarrow> 'w \<Rightarrow> err option"

record SecretMapperConfig =
  sm_index_key :: string
  sm_owner_group :: string
  sm_owner_kind :: string
  sm_all_namespaces :: bool

definition add_key :: "objkey list \<Rightarrow> objkey \<Rightarrow> objkey list" where
  "add_key seen k = (if k \<in> set seen then seen else seen @ [k])"

text \<open>\<open>parse_gv\<close> is \<open>schema.ParseGroupVersion\<close>: group and version, or an error.\<close>

fun owner_leg ::
  "(string \<Rightarrow> (string \<times> string) result) \<Rightarrow> 'w reader \<Rightarrow> SecretMapperConfig \<Rightarrow> string \<Rightarrow> 'w \<Rightarrow> owner_ref list \<Rightarrow>
     objkey list \<Rightarrow> objkey list" where
  "owner_leg parse_gv R cfg namespace w [] seen = seen"
| "owner_leg parse_gv R cfg namespace w (ref # refs) seen =
     (if or_kind ref \<noteq> sm_owner_kind cfg then owner_leg parse_gv R cfg namespace w refs seen
      else case parse_gv (or_api_version ref) of
        Inl e \<Rightarrow> owner_leg parse_gv R cfg namespace w refs seen
      | Inr (grp, version) \<Rightarrow>
          if grp \<noteq> sm_owner_group cfg then owner_leg parse_gv R cfg namespace w refs seen
          else (case rd_get R (namespace, or_name ref) w of
                  None \<Rightarrow> owner_leg parse_gv R cfg namespace w refs (add_key seen (namespace, or_name ref))
                | Some e \<Rightarrow>
                    if is_not_found e then owner_leg parse_gv R cfg namespace w refs seen
                    else owner_leg parse_gv R cfg namespace w refs (add_key seen (namespace, or_name ref))))"

definition SecretToOwnersMapper ::
  "(string \<Rightarrow> (string \<times> string) result) \<Rightarrow> 'w reader \<Rightarrow> SecretMapperConfig \<Rightarrow> watched \<Rightarrow> 'w \<Rightarrow> objkey list" where
  "SecretToOwnersMapper parse_gv R cfg obj w =
     (let (namespace, name) = wa_key obj;
          seen = (case rd_list R (Some (sm_index_key cfg, name)) (if sm_all_namespaces cfg then None else Some namespace) w of
                    Inl e \<Rightarrow> []
                  | Inr items \<Rightarrow> foldl add_key [] items)
      in if sm_owner_kind cfg \<noteq> [] then owner_leg parse_gv R cfg namespace w (wa_owners obj) seen else seen)"

definition StoreRefFanOut ::
  "'w reader \<Rightarrow> string \<Rightarrow> (objkey \<Rightarrow> 'w \<Rightarrow> SecretStoreRefSpec) \<Rightarrow> objkey \<Rightarrow> 'w \<Rightarrow> objkey list" where
  "StoreRefFanOut R watched_kind effective_ref store w =
     (case rd_list R None (if watched_kind = SecretStoreKindNamespaced then Some (fst store) else None) w of
        Inl e \<Rightarrow> []
      | Inr items \<Rightarrow>
          filter (\<lambda>k. st_kind (effective_ref k w) = watched_kind \<and> st_name (effective_ref k w) = snd store) items)"

definition ClusterRefMapper :: "'w reader \<Rightarrow> (objkey \<Rightarrow> 'w \<Rightarrow> string) \<Rightarrow> objkey \<Rightarrow> 'w \<Rightarrow> objkey list" where
  "ClusterRefMapper R cluster_ref_name cluster w =
     (case rd_list R None (Some (fst cluster)) w of
        Inl e \<Rightarrow> [] | Inr items \<Rightarrow> filter (\<lambda>k. cluster_ref_name k w = snd cluster) items)"

definition RegisterSecretNameIndex :: "(string \<Rightarrow> 'w \<Rightarrow> err option \<times> 'w) \<Rightarrow> string \<Rightarrow> 'w \<Rightarrow> err option \<times> 'w" where
  "RegisterSecretNameIndex index_field index_key w =
     (case index_field index_key w of
        (None, w') \<Rightarrow> (None, w')
      | (Some e, w') \<Rightarrow> (Some (Errorf ''registering field indexer %q: %w'' [Str index_key, Wrap e]), w'))"

text \<open>\<open>changed\<close> are controller-runtime's predicates for a changed generation, changed labels and changed annotations.\<close>

definition CRUpdatePredicate ::
  "(objmeta option \<times> objmeta option \<Rightarrow> bool) list \<Rightarrow> objmeta option \<times> objmeta option \<Rightarrow> bool" where
  "CRUpdatePredicate changed ev \<longleftrightarrow>
     list_ex (\<lambda>p. p ev) changed \<or>
     (case ev of (Some old, Some new) \<Rightarrow> \<not> m_deleting old \<and> m_deleting new | _ \<Rightarrow> False)"

section \<open>What the mappers return\<close>

lemma set_add_key [simp]: "set (add_key seen k) = insert k (set seen)"
  by (auto simp: add_key_def)

lemma distinct_add_key [simp]: "distinct (add_key seen k) \<longleftrightarrow> distinct seen"
  by (auto simp: add_key_def)

lemma fold_add_key: "set (foldl add_key seen ks) = set seen \<union> set ks \<and> (distinct (foldl add_key seen ks) \<longleftrightarrow> distinct seen)"
  by (induction ks arbitrary: seen) auto

text \<open>A reference counts when kind and group match and the reader does not know that its target is gone.\<close>

definition live_owner :: "(string \<Rightarrow> (string \<times> string) result) \<Rightarrow> 'w reader \<Rightarrow> SecretMapperConfig \<Rightarrow> string \<Rightarrow> 'w \<Rightarrow> owner_ref \<Rightarrow> bool" where
  "live_owner parse_gv R cfg namespace w ref \<longleftrightarrow>
     or_kind ref = sm_owner_kind cfg \<and>
     (case parse_gv (or_api_version ref) of Inl e \<Rightarrow> False | Inr (g, v) \<Rightarrow> g = sm_owner_group cfg) \<and>
     (case rd_get R (namespace, or_name ref) w of None \<Rightarrow> True | Some e \<Rightarrow> \<not> is_not_found e)"

lemma owner_leg_Cons:
  "owner_leg parse_gv R cfg ns w (ref # refs) seen =
     owner_leg parse_gv R cfg ns w refs (if live_owner parse_gv R cfg ns w ref then add_key seen (ns, or_name ref) else seen)"
  by (simp add: live_owner_def split: sum.split option.split prod.split)

lemma owner_leg_set:
  "set (owner_leg parse_gv R cfg ns w refs seen) =
     set seen \<union> (\<lambda>ref. (ns, or_name ref)) ` {ref \<in> set refs. live_owner parse_gv R cfg ns w ref}"
proof (induction refs arbitrary: seen)
  case (Cons ref refs)
  then show ?case by (auto simp: owner_leg_Cons simp del: owner_leg.simps)
qed simp

lemma owner_leg_distinct: "distinct (owner_leg parse_gv R cfg ns w refs seen) \<longleftrightarrow> distinct seen"
  by (induction refs arbitrary: seen) (simp_all add: owner_leg_Cons del: owner_leg.simps(2))

lemma SecretToOwnersMapper_outcome:
  "distinct (SecretToOwnersMapper parse_gv R cfg obj w)"
  "set (SecretToOwnersMapper parse_gv R cfg obj w) =
     (case rd_list R (Some (sm_index_key cfg, snd (wa_key obj))) (if sm_all_namespaces cfg then None else Some (fst (wa_key obj))) w of
        Inl e \<Rightarrow> {} | Inr items \<Rightarrow> set items) \<union>
     (if sm_owner_kind cfg = [] then {}
      else (\<lambda>ref. (fst (wa_key obj), or_name ref)) ` {ref \<in> set (wa_owners obj). live_owner parse_gv R cfg (fst (wa_key obj)) w ref})"
proof -
  obtain ns name where k: "wa_key obj = (ns, name)" by (rule prod.exhaust)
  define seen where "seen = (case rd_list R (Some (sm_index_key cfg, name)) (if sm_all_namespaces cfg then None else Some ns) w of
                    Inl e \<Rightarrow> [] | Inr items \<Rightarrow> foldl add_key [] items)"
  have d: "distinct seen"
    using fold_add_key [of "[]"] by (simp add: seen_def split: sum.split)
  have m: "SecretToOwnersMapper parse_gv R cfg obj w =
      (if sm_owner_kind cfg \<noteq> [] then owner_leg parse_gv R cfg ns w (wa_owners obj) seen else seen)"
    by (simp add: SecretToOwnersMapper_def k seen_def)
  show "distinct (SecretToOwnersMapper parse_gv R cfg obj w)"
    using d by (simp add: m owner_leg_distinct)
  have "set seen = (case rd_list R (Some (sm_index_key cfg, name)) (if sm_all_namespaces cfg then None else Some ns) w of
        Inl e \<Rightarrow> {} | Inr items \<Rightarrow> set items)"
    using fold_add_key [of "[]"] by (simp add: seen_def split: sum.split)
  then show "set (SecretToOwnersMapper parse_gv R cfg obj w) =
     (case rd_list R (Some (sm_index_key cfg, snd (wa_key obj))) (if sm_all_namespaces cfg then None else Some (fst (wa_key obj))) w of
        Inl e \<Rightarrow> {} | Inr items \<Rightarrow> set items) \<union>
     (if sm_owner_kind cfg = [] then {}
      else (\<lambda>ref. (fst (wa_key obj), or_name ref)) ` {ref \<in> set (wa_owners obj). live_owner parse_gv R cfg (fst (wa_key obj)) w ref})"
    by (simp add: m k owner_leg_set)
qed

section \<open>The token middleware's configuration\<close>

definition PasswordEnvVarName :: string where
  "PasswordEnvVarName = ''OS_KEYSTONE_AUTHTOKEN__PASSWORD''"

record SectionParams =
  ka_auth_url :: string
  ka_www_uri :: string
  ka_username :: string
  ka_project :: string
  ka_user_domain :: string
  ka_project_domain :: string
  ka_region :: string
  ka_memcached :: string

definition AuthSection :: "SectionParams \<Rightarrow> string gomap" where
  "AuthSection p =
     (let base = [(''auth_type'', ''password''), (''auth_url'', ka_auth_url p), (''www_authenticate_uri'', ka_www_uri p),
                  (''username'', ka_username p), (''project_name'', ka_project p), (''user_domain_name'', ka_user_domain p),
                  (''project_domain_name'', ka_project_domain p)];
          s1 = (if ka_region p \<noteq> [] then map_put ''region_name'' (ka_region p) base else base)
      in if ka_memcached p \<noteq> [] then map_put ''memcached_servers'' (ka_memcached p) s1 else s1)"

definition PasswordEnvVar :: "string \<Rightarrow> string \<Rightarrow> env_var" where
  "PasswordEnvVar secret_name key =
     \<lparr>env_name = PasswordEnvVarName, env_text = [], env_secret = Some (secret_name, key), env_field = None\<rparr>"

text \<open>The section is a map without a password, and an unset option is left out.\<close>

lemma AuthSection_map:
  "wf_gomap (AuthSection p)" "map_of (AuthSection p) ''password'' = None"
  "map_of (AuthSection p) ''region_name'' = (if ka_region p = [] then None else Some (ka_region p))"
  "map_of (AuthSection p) ''memcached_servers'' = (if ka_memcached p = [] then None else Some (ka_memcached p))"
  by (simp_all add: AuthSection_def Let_def)

end
