(* ===== verification/AccessProperties.thy ===== *)
theory AccessProperties
  imports SecretGates Probe Exposure Wiring
begin

text \<open>
  Properties of what surrounds a service: the gates in front of its credentials, the health check and its
  cache, the ports a network policy opens towards memcached, the route that exposes it, and the events that
  wake its reconciler.
\<close>

section \<open>Credentials\<close>

text \<open>
  The credential gate is open exactly when every credential's Secret exists with all its keys.  Otherwise it
  either fails and leaves the conditions alone, or reports in the given condition, and in no other, the reason
  of the first credential that is not usable.\<close>

lemma credentials_gate:
  assumes "meta_contract K" "GateCredentials K E specs cs g ct w = (r, cs')"
  shows "(r = Inr True \<longleftrightarrow> list_all (usable E w) specs) \<and>
    (if r = Inr False
     then (\<exists>pre sp post. specs = pre @ sp # post \<and> list_all (usable E w) pre \<and> \<not> usable E w sp \<and>
        cond_is K cs' ct CFalse (cg_reason sp)) \<and> (\<forall>t. t \<noteq> ct \<longrightarrow> GetCondition K cs' t = GetCondition K cs t)
     else cs' = cs)"
  using GateCredentials_cases [OF assms] by (auto split: sum.splits bool.splits)

definition ex_gate_env :: "(objkey \<times> secret) list eso_env" where
  "ex_gate_env =
     \<lparr>eso_secret = k_get (store_client s_meta), eso_external = (\<lambda>k w. Inr [(''Ready'', CFalse)]),
      eso_cluster_store = (\<lambda>k w. Inl (ApiErr NotFound)), eso_store = (\<lambda>k w. Inl (ApiErr NotFound))\<rparr>"

definition ex_gate_specs :: "CredentialGateSpec list" where
  "ex_gate_specs =
     [\<lparr>cg_key = (''ns'', ''db''), cg_reason = ''WaitingForDB'', cg_noun = ''Database'', cg_waiting = Msg ''waiting'' [],
       cg_expected = [''password'']\<rparr>,
      \<lparr>cg_key = (''ns'', ''admin''), cg_reason = ''WaitingForAdmin'', cg_noun = ''Admin'', cg_waiting = Msg ''waiting'' [],
       cg_expected = [''password'']\<rparr>]"

definition ex_gate_secrets :: "(objkey \<times> secret) list" where
  "ex_gate_secrets =
     [((''ns'', ''db''), \<lparr>s_meta = blank_meta\<lparr>m_name := ''db'', m_namespace := ''ns''\<rparr>, s_version = [], s_data = [(''password'', ''p'')]\<rparr>)]"

lemma ex_gate_run:
  "GateCredentials ref_meta ex_gate_env ex_gate_specs [] 1 ''SecretsReady'' ex_gate_secrets =
     (Inr False, [mk_condition ''SecretsReady'' CFalse 1 ''WaitingForAdmin'' (Msg ''waiting'' [])])"
  by (simp add: ex_gate_env_def ex_gate_specs_def ex_gate_secrets_def GateCredential_def GateSyncedSecret_def
      IsSecretReady_def WaitForExternalSecret_def SetCondition_def mk_condition_def)

section \<open>Health\<close>

text \<open>
  Over any life of the probe cache, with passes of any resources and evictions in between, a pass that
  settles (no error and nothing to wait for) reports the service healthy, and an exchange with a 2xx status
  answered for the same resource, the same UID and the same endpoint: in this pass, or in an earlier one less
  than the TTL ago.\<close>

lemma healthy_is_recent:
  assumes "meta_contract K" "cache_run K E hist cache"
    and "ReconcileProbe K E p cs cache w = ((zero_result, None), cs', cache', w')" "pr_requeue p \<noteq> 0"
  shows "cond_is K cs' (pr_condition p) CTrue (pr_healthy p) \<and>
    ((pr_key p, pr_uid p, pr_endpoint p, pe_now E w') \<in> set (successes K E p cs cache w) \<or>
     (\<exists>t. (pr_key p, pr_uid p, pr_endpoint p, t) \<in> set hist \<and> pe_now E w - t < pr_ttl p))"
proof -
  have b: "backed hist cache" by (rule cache_run_backed [OF assms(2)])
  have "(pr_key p, pr_uid p, pr_endpoint p, pe_now E w') \<in> set (successes K E p cs cache w) \<or>
     (\<exists>t. (pr_key p, pr_uid p, pr_endpoint p, t) \<in> set hist \<and> pe_now E w - t < pr_ttl p)"
  proof (cases "cacheHit K E p cs cache w")
    case True
    then obtain e where e: "map_of cache (pr_key p) = Some e" "pb_uid e = pr_uid p" "pb_endpoint e = pr_endpoint p"
      "pe_now E w - pb_at e < pr_ttl p"
      by (rule cacheHit_entry)
    then have "(pr_key p, pr_uid p, pr_endpoint p, pb_at e) \<in> set hist"
      using b unfolding backed_def by metis
    then show ?thesis using e(4) by blast
  next
    case False
    then show ?thesis using ReconcileProbe_healthy(2) [OF assms(3,4)] by simp
  qed
  then show ?thesis using ReconcileProbe_healthy(1) [OF assms(3,4)] assms(1) by simp
qed

definition ex_probe_env :: "instant probe_env" where
  "ex_probe_env =
     \<lparr>pe_now = (\<lambda>w. w), pe_request = (\<lambda>u. None), pe_do = (\<lambda>u t w. (Inr 200, w + 1)), pe_ctx_err = (\<lambda>w. None),
      pe_is_dns = (\<lambda>e. False), pe_err_text = (\<lambda>e. [])\<rparr>"

definition ex_probe :: ProbeFlowParams where
  "ex_probe =
     \<lparr>pr_key = (''ns'', ''k''), pr_uid = ''u'', pr_subject = ''API'', pr_configured = True, pr_endpoint = ''http://k'',
      pr_generation = 1, pr_condition = ''APIReady'', pr_healthy = ''Healthy'', pr_unhealthy = ''Unhealthy'',
      pr_timeout = 10, pr_ttl = 30, pr_requeue = 10\<rparr>"

definition ex_healthy :: condition where
  "ex_healthy = mk_condition ''APIReady'' CTrue 1 ''Healthy'' (Msg ''%s is responding at %s'' [Str ''API'', Str ''http://k''])"

definition ex_cache :: probe_cache where
  "ex_cache = [((''ns'', ''k''), \<lparr>pb_uid = ''u'', pb_endpoint = ''http://k'', pb_at = 101\<rparr>)]"

lemma ex_probe_runs:
  "ReconcileProbe ref_meta ex_probe_env ex_probe [] [] 100 = ((zero_result, None), [ex_healthy], ex_cache, 101)"
  "successes ref_meta ex_probe_env ex_probe [] [] 100 = [((''ns'', ''k''), ''u'', ''http://k'', 101)]"
  "ReconcileProbe ref_meta ex_probe_env ex_probe [ex_healthy] ex_cache 120 =
     ((zero_result, None), [ex_healthy], ex_cache, 120)"
  "successes ref_meta ex_probe_env ex_probe [ex_healthy] ex_cache 120 = []"
  by (simp_all add: ReconcileProbe_def successes_def cacheHit_def ex_probe_env_def ex_probe_def ex_cache_def ex_healthy_def
      Store_def Hit_def GetCondition_def SetCondition_def mk_condition_def)

section \<open>Reaching the service and reaching out\<close>

text \<open>
  The network policy's memcached rule opens a port of every configured server: for a server written as
  host:port, with a plain or a bracketed IPv6 host, exactly that port.  Ports are valid and not repeated, and
  there is no rule when there is no server.\<close>

lemma cache_ports_reachable:
  "list_all (\<lambda>n. 0 < n \<and> n \<le> 65535) (CacheEgressPorts cache) \<and> distinct (CacheEgressPorts cache) \<and>
   (case CacheEgressRule cache of
      None \<Rightarrow> ca_servers cache = [] \<and> ca_cluster_ref cache = None
    | Some r \<Rightarrow> nr_peers r = [] \<and> nr_ports r = map (Pair TCP) (CacheEgressPorts cache)) \<and>
   (\<forall>h n. CHR ''['' \<notin> set h \<longrightarrow> CHR '']'' \<notin> set h \<longrightarrow> 0 < n \<longrightarrow> n \<le> 65535 \<longrightarrow>
      CHR '':'' \<notin> set h \<and> h @ '':'' @ show_nat n \<in> set (ca_servers cache) \<or>
      ''['' @ h @ '']:'' @ show_nat n \<in> set (ca_servers cache) \<longrightarrow>
      int n \<in> set (CacheEgressPorts cache))"
proof -
  have d: "CHR '':'' \<notin> set (show_nat n)" "CHR ''['' \<notin> set (show_nat n)" "CHR '']'' \<notin> set (show_nat n)" for n
    by (simp_all add: show_nat_no_char is_digit_def)
  have out: "list_all (\<lambda>n. 0 < n \<and> n \<le> 65535) (CacheEgressPorts cache)" "distinct (CacheEgressPorts cache)"
    by (rule CacheEgressPorts_outcome)+
  note ports = CacheEgressPorts_outcome(3) [of cache]
  have "CacheEgressPorts cache = [] \<longleftrightarrow> ca_servers cache = [] \<and> ca_cluster_ref cache = None"
    unfolding set_empty [symmetric] ports by simp
  then have rule: "case CacheEgressRule cache of
      None \<Rightarrow> ca_servers cache = [] \<and> ca_cluster_ref cache = None
    | Some r \<Rightarrow> nr_peers r = [] \<and> nr_ports r = map (Pair TCP) (CacheEgressPorts cache)"
    by (simp add: CacheEgressRule_def Let_def)
  have member: "int n \<in> set (CacheEgressPorts cache)"
    if "s \<in> set (ca_servers cache)" "split_host_port s = Some (x, show_nat n)" "0 < n" "n \<le> 65535" for s x n
  proof -
    have "ca_servers cache \<noteq> []" using that(1) by auto
    then show ?thesis using that(1) server_port_written [OF that(2-4)] unfolding ports by (auto intro: rev_image_eqI)
  qed
  have reach: "int n \<in> set (CacheEgressPorts cache)"
    if a: "CHR ''['' \<notin> set h" "CHR '']'' \<notin> set h" "0 < n" "n \<le> 65535" and
      w: "CHR '':'' \<notin> set h \<and> h @ '':'' @ show_nat n \<in> set (ca_servers cache) \<or>
          ''['' @ h @ '']:'' @ show_nat n \<in> set (ca_servers cache)" for h n
    using w
  proof (elim disjE conjE)
    assume "CHR '':'' \<notin> set h" "h @ '':'' @ show_nat n \<in> set (ca_servers cache)"
    then show ?thesis using member split_host_port_plain [OF _ a(1,2) d] a(3,4) by blast
  next
    assume "''['' @ h @ '']:'' @ show_nat n \<in> set (ca_servers cache)"
    then show ?thesis using member split_host_port_bracketed [OF a(1,2) d] a(3,4) by blast
  qed
  show ?thesis by (intro conjI allI impI) (fact out(1,2) rule | erule (4) reach)+
qed

definition ex_cache_spec :: CacheSpec where
  "ex_cache_spec = \<lparr>ca_cluster_ref = None, ca_backend = [], ca_servers = [''mc-0:11212'', ''[fd00::1]:11213'', ''mc-1''], ca_replicas = 1\<rparr>"

lemma ex_cache_servers:
  "''mc-0'' @ '':'' @ show_nat 11212 \<in> set (ca_servers ex_cache_spec)"
  "''['' @ ''fd00::1'' @ '']:'' @ show_nat 11213 \<in> set (ca_servers ex_cache_spec)"
  by (simp_all add: ex_cache_spec_def show_nat.simps char_of_digit_def char_of_def bit_simps)

text \<open>
  The route step reports ready and succeeds exactly when the route is configured, the Gateway API installed
  and the applied route accepted by a Gateway, or when no route is configured and a left-over one is gone (or
  cannot exist).  Without the API it writes nothing, and it waits exactly for the acceptance of an applied
  route.\<close>

lemma route_outcome:
  assumes "meta_contract K" "ReconcileHTTPRoute K C A owner p cs w = ((r, e), cs', w')" "rf_requeue p \<noteq> 0"
  shows "(cond_true K cs' (rf_condition p) \<and> e = None \<longleftrightarrow>
      (if rf_configured p then rf_available p \<and>
         (case fst (EnsureHTTPRoute A owner (rf_desired p) w) of Inl x \<Rightarrow> False | Inr live \<Rightarrow> IsHTTPRouteAccepted live)
       else rf_available p \<longrightarrow> fst (DeleteHTTPRoute C (rf_namespace p) (rf_name p) w) = None)) \<and>
    (rf_available p \<or> w' = w) \<and>
    (r \<noteq> zero_result \<longleftrightarrow> rf_available p \<and> rf_configured p \<and>
       (case fst (EnsureHTTPRoute A owner (rf_desired p) w) of Inl x \<Rightarrow> False | Inr live \<Rightarrow> \<not> IsHTTPRouteAccepted live))"
  using ReconcileHTTPRoute_cases [OF assms] by argo

definition ex_route :: RouteFlowParams where
  "ex_route =
     \<lparr>rf_available = False, rf_configured = True,
      rf_desired = BuildHTTPRoute \<lparr>gw_parent = \<lparr>gp_name = ''gw'', gp_namespace = [], gp_section = []\<rparr>, gw_hostname = ''h'',
         gw_path = [], gw_annotations = []\<rparr> \<lparr>rp_name = ''k'', rp_namespace = ''ns'', rp_labels = [], rp_service = ''k'', rp_port = 5000\<rparr>,
      rf_name = ''k'', rf_namespace = ''ns'', rf_noun = ''Keystone'', rf_generation = 1, rf_condition = ''HTTPRouteReady'', rf_requeue = 10\<rparr>"

section \<open>Waking the reconciler\<close>

text \<open>
  A change of a Secret wakes each resource that names it through the index, and each live owner of the
  configured kind and group, once and nobody else; a listing that fails loses only the index leg, and an owner
  that cannot be read, other than one known to be gone, is still woken.\<close>

lemma secret_mapper_complete:
  "distinct (SecretToOwnersMapper parse_gv R cfg obj w) \<and>
   set (SecretToOwnersMapper parse_gv R cfg obj w) =
     (case rd_list R (Some (sm_index_key cfg, snd (wa_key obj))) (if sm_all_namespaces cfg then None else Some (fst (wa_key obj))) w of
        Inl e \<Rightarrow> {} | Inr items \<Rightarrow> set items) \<union>
     (if sm_owner_kind cfg = [] then {}
      else (\<lambda>ref. (fst (wa_key obj), or_name ref)) ` {ref \<in> set (wa_owners obj). live_owner parse_gv R cfg (fst (wa_key obj)) w ref})"
  by (intro conjI; rule SecretToOwnersMapper_outcome)

end
