(* ===== verification/KeystoneTypes.thy ===== *)
theory KeystoneTypes
  imports CommonTypes Conditions Kube Exposure
begin

text \<open>
  The Keystone resource, \<open>operators/keystone/api/v1alpha1/keystone_types.go\<close>, and the constants of its
  webhook.  A pointer field is an \<open>option\<close>.  An egress rule a user adds is a rule of \<open>Exposure\<close>: its ports
  are numbers, named ports and port ranges are left out.
\<close>

definition AppName :: string where
  "AppName = ''keystone''"

record UWSGISpec =
  uw_processes :: int
  uw_threads :: int
  uw_keep_alive :: "bool option"
  uw_harakiri :: "int option"
  uw_keep_alive_timeout :: "int option"

record FernetSpec =
  fe_schedule :: string
  fe_max_active :: int
  fe_suspend :: bool

record CredentialKeysSpec =
  ck_schedule :: string
  ck_max_active :: int
  ck_suspend :: bool

record TrustFlushSpec =
  tf_schedule :: string
  tf_suspend :: bool
  tf_args :: "string list"

record FederationSpec =
  fd_proxy_image :: "ImageSpec option"
  fd_dashboards :: "string list"

record PasswordRotationSpec =
  pw_enabled :: bool
  pw_schedule :: string
  pw_suspend :: bool
  pw_length :: int

record BootstrapSpec =
  bs_admin_user :: string
  bs_admin_secret :: SecretRefSpec
  bs_region :: string
  bs_public_endpoint :: string

record NetworkPolicySpec =
  npp_ingress :: "NetworkPolicyIngressSource list"
  npp_egress :: "np_rule list"

record KeystoneSpec =
  ks_deployment :: DeploymentSpec
  ks_image :: ImageSpec
  ks_database :: DatabaseSpec
  ks_cache :: CacheSpec
  ks_fernet :: FernetSpec
  ks_credential_keys :: CredentialKeysSpec
  ks_password_rotation :: "PasswordRotationSpec option"
  ks_trust_flush :: "TrustFlushSpec option"
  ks_federation :: "FederationSpec option"
  ks_bootstrap :: BootstrapSpec
  ks_middleware :: "MiddlewareSpec list"
  ks_plugins :: "PluginSpec list"
  ks_policy_overrides :: "PolicySpec option"
  ks_secret_store_ref :: "SecretStoreRefSpec option"
  ks_autoscaling :: "AutoscalingSpec option"
  ks_network_policy :: "NetworkPolicySpec option"
  ks_gateway :: "GatewaySpec option"
  ks_uwsgi :: "UWSGISpec option"
  ks_logging :: "LoggingSpec option"
  ks_extra_config :: "string gomap gomap"

record KeystoneStatus =
  kt_conditions :: "condition list"
  kt_observed_generation :: int
  kt_endpoint :: string
  kt_installed :: string
  kt_target :: string
  kt_phase :: string

record Keystone =
  ko_meta :: objmeta
  ko_spec :: KeystoneSpec
  ko_status :: KeystoneStatus

section \<open>Defaults of the webhook\<close>

definition DefaultTrustFlushSchedule :: string where "DefaultTrustFlushSchedule = ''0 * * * *''"
definition DefaultPasswordRotationSchedule :: string where "DefaultPasswordRotationSchedule = ''0 0 1 * *''"
definition DefaultPasswordRotationLength :: int where "DefaultPasswordRotationLength = 32"
definition DefaultDatabaseTLSMode :: string where "DefaultDatabaseTLSMode = ''require''"
definition DefaultUWSGIProcesses :: int where "DefaultUWSGIProcesses = 2"
definition DefaultUWSGIThreads :: int where "DefaultUWSGIThreads = 1"
definition DefaultUWSGIHTTPKeepAlive :: bool where "DefaultUWSGIHTTPKeepAlive = True"
definition DefaultAdminPasswordMinLength :: int where "DefaultAdminPasswordMinLength = 24"

end
