(* ===== verification/KeystoneSteps.thy ===== *)
theory KeystoneSteps
  imports KeystoneTypes SecretGates Probe Upgrade
begin

text \<open>
  The steps of the Keystone operator that call one shared flow, \<open>operators/keystone/internal/controller\<close>:
  \<open>reconcile_secrets.go\<close>, \<open>reconcile_dbconnection_secret.go\<close>, \<open>reconcile_networkpolicy.go\<close>, \<open>reconcile_httproute.go\<close>,
  \<open>reconcile_hpa.go\<close>, \<open>reconcile_healthcheck.go\<close>, \<open>reconcile_policyvalidation.go\<close>, \<open>reconcile_bootstrap.go\<close> and
  \<open>reconcile_trustflush.go\<close>.  A step maps the resource in memory and the world \<open>'w\<close>; events, the probe cache and the
  API server are in the world, as the copies a parallel group makes share them.
\<close>

type_synonym 'w ks_step = "Keystone \<times> 'w \<Rightarrow> (ctrl_result \<times> err option) \<times> Keystone \<times> 'w"

abbreviation ko_name :: "Keystone \<Rightarrow> string" where "ko_name k \<equiv> m_name (ko_meta k)"
abbreviation ko_namespace :: "Keystone \<Rightarrow> string" where "ko_namespace k \<equiv> m_namespace (ko_meta k)"
abbreviation ko_generation :: "Keystone \<Rightarrow> int" where "ko_generation k \<equiv> m_generation (ko_meta k)"
abbreviation ko_conditions :: "Keystone \<Rightarrow> condition list" where "ko_conditions k \<equiv> kt_conditions (ko_status k)"

definition put_conditions :: "condition list \<Rightarrow> Keystone \<Rightarrow> Keystone" where
  "put_conditions cs k = k\<lparr>ko_status := (ko_status k)\<lparr>kt_conditions := cs\<rparr>\<rparr>"

text \<open>\<open>conditions.SetCondition\<close> on the resource's own list, with its generation.\<close>

definition report :: "meta_api \<Rightarrow> string \<Rightarrow> cstatus \<Rightarrow> string \<Rightarrow> msg \<Rightarrow> Keystone \<Rightarrow> Keystone" where
  "report K ct st reason message k =
     put_conditions (SetCondition K (ko_conditions k) (mk_condition ct st (ko_generation k) reason message)) k"

definition no_message :: msg where "no_message = Msg [] []"

section \<open>Names, labels and shared values\<close>

definition subResourceName :: "Keystone \<Rightarrow> string" where
  "subResourceName k = ko_name k"

definition commonLabels :: "Keystone \<Rightarrow> string gomap" where
  "commonLabels k = CommonLabels AppName (ko_name k)"

definition selectorLabels :: "Keystone \<Rightarrow> string gomap" where
  "selectorLabels k = SelectorLabels AppName (ko_name k)"

definition priorityClassName :: "Keystone \<Rightarrow> string" where
  "priorityClassName k = PriorityClassName (ks_deployment (ko_spec k))"

definition buildDBConnectionEnvVar :: "Keystone \<Rightarrow> env_var" where
  "buildDBConnectionEnvVar k = ConnectionEnvVar (ko_name k)"

definition EnsureCronJob :: "('p cronjob, 'u, 'w) ssa_api \<Rightarrow> objmeta \<Rightarrow> 'p cronjob \<Rightarrow> 'w \<Rightarrow> err option \<times> 'w" where
  "EnsureCronJob A owner cj w =
     (case EnsureObject A owner cj FieldManager w of (Inl e, w') \<Rightarrow> (Some e, w') | (Inr _, w') \<Rightarrow> (None, w'))"

text \<open>The pod of a CronJob: what a Job's template has, and more.\<close>

record cron_pod = pod_template +
  cr_service_account :: string
  cr_fs_group :: "int option"
  cr_init :: "container list"

section \<open>Secrets\<close>

definition credential_specs :: "Keystone \<Rightarrow> CredentialGateSpec list" where
  "credential_specs k =
     [\<lparr>cg_key = (ko_namespace k, sr_name (db_secret_ref (ks_database (ko_spec k)))),
       cg_reason = ''WaitingForDBCredentials'', cg_noun = ''Database credentials'',
       cg_waiting = Msg ''Waiting for ESO to sync database credentials from OpenBao'' [],
       cg_expected = [''username'', ''password'']\<rparr>,
      \<lparr>cg_key = (ko_namespace k, sr_name (bs_admin_secret (ks_bootstrap (ko_spec k)))),
       cg_reason = ''WaitingForAdminCredentials'', cg_noun = ''Admin credentials'',
       cg_waiting = Msg ''Waiting for ESO to sync admin credentials from OpenBao'' [],
       cg_expected = [''password'']\<rparr>]"

definition reconcileSecrets :: "meta_api \<Rightarrow> 'w eso_env \<Rightarrow> 'w ks_step" where
  "reconcileSecrets K E s =
     (let (k, w) = s in
      case GateStoreReady K E (EffectiveStoreRef (ks_secret_store_ref (ko_spec k))) (ko_namespace k) (ko_conditions k)
             (ko_generation k) ''SecretsReady'' w of
        (Inl e, cs) \<Rightarrow> ((zero_result, Some e), put_conditions cs k, w)
      | (Inr False, cs) \<Rightarrow> ((after RequeueSecretPolling, None), put_conditions cs k, w)
      | (Inr True, cs) \<Rightarrow>
          (case GateCredentials K E (credential_specs k) cs (ko_generation k) ''SecretsReady'' w of
             (Inl e, cs') \<Rightarrow> ((zero_result, Some e), put_conditions cs' k, w)
           | (Inr False, cs') \<Rightarrow> ((after RequeueSecretPolling, None), put_conditions cs' k, w)
           | (Inr True, cs') \<Rightarrow>
               ((zero_result, None), report K ''SecretsReady'' CTrue ''SecretsAvailable'' no_message (put_conditions cs' k), w)))"

text \<open>The connection Secret; the digest of the DSN is the second part of the result.\<close>

definition reconcileDBConnectionSecret ::
  "meta_api \<Rightarrow> (string \<Rightarrow> string) \<Rightarrow> (secret, 'w) kclient \<Rightarrow> (objmeta \<Rightarrow> secret \<Rightarrow> secret result) \<Rightarrow> Keystone \<times> 'w \<Rightarrow>
     (ctrl_result \<times> string \<times> err option) \<times> Keystone \<times> 'w" where
  "reconcileDBConnectionSecret K sha_hex C set_ref s =
     (let (k, w) = s;
          (r, cs, w') = ReconcileConnectionSecret K sha_hex C set_ref
            \<lparr>cf_owner = ko_meta k, cf_instance = ko_name k, cf_namespace = ko_namespace k, cf_database = ks_database (ko_spec k),
             cf_tls_mount = dbTLSMountPath, cf_generation = ko_generation k, cf_condition = ''SecretsReady'',
             cf_requeue = RequeueSecretPolling\<rparr> (ko_conditions k) w
      in (r, put_conditions cs k, w'))"

section \<open>Network policy\<close>

text \<open>What the identity-backend step hands to the later steps.\<close>

record federationProjection =
  fp_secret :: string
  fp_metadata_items :: "(string \<times> string) list"
  fp_remote_id :: string
  fp_mellon_items :: "(string \<times> string) list"
  fp_saml_protocol :: string
  fp_saml_remote_id :: string
  fp_proxy_image :: ImageSpec
  fp_egress_ports :: "int list"

definition federationProxyPort :: int where
  "federationProxyPort = 5050"

definition buildAutoEgressRules :: "Keystone \<Rightarrow> np_rule list" where
  "buildAutoEgressRules k =
     [DNSEgressRule, \<lparr>nr_ports = [(TCP, 443), (TCP, 6443)], nr_peers = []\<rparr>, DatabaseEgressRule (ks_database (ko_spec k))] @
     (case CacheEgressRule (ks_cache (ko_spec k)) of None \<Rightarrow> [] | Some r \<Rightarrow> [r])"

definition cacheEgressPorts :: "Keystone \<Rightarrow> int list" where
  "cacheEgressPorts k = CacheEgressPorts (ks_cache (ko_spec k))"

definition buildKeystoneNetworkPolicy :: "Keystone \<Rightarrow> NetworkPolicySpec \<Rightarrow> string \<Rightarrow> federationProjection option \<Rightarrow> network_policy" where
  "buildKeystoneNetworkPolicy k npSpec operator_ns fed =
     (let gateway_ns = (case ks_gateway (ko_spec k) of
             None \<Rightarrow> []
           | Some g \<Rightarrow> if gp_namespace (gw_parent g) = [] then ko_namespace k else gp_namespace (gw_parent g));
          peers = IngressPeers (npp_ingress npSpec) gateway_ns operator_ns;
          port = (case fed of None \<Rightarrow> 5000 | Some f \<Rightarrow> federationProxyPort);
          federation_egress = (case fed of
             None \<Rightarrow> []
           | Some f \<Rightarrow> if fp_egress_ports f = [] then [] else [\<lparr>nr_ports = map (Pair TCP) (fp_egress_ports f), nr_peers = []\<rparr>])
      in \<lparr>np_meta = blank_meta\<lparr>m_name := subResourceName k, m_namespace := ko_namespace k, m_labels := commonLabels k\<rparr>,
          np_selector = selectorLabels k, np_types = [''Ingress'', ''Egress''],
          np_ingress = [\<lparr>nr_ports = [(TCP, port)], nr_peers = peers\<rparr>],
          np_egress = buildAutoEgressRules k @ federation_egress @ npp_egress npSpec\<rparr>)"

definition reconcileNetworkPolicy ::
  "meta_api \<Rightarrow> (network_policy, 'w) kclient \<Rightarrow> (network_policy, 'u, 'w) ssa_api \<Rightarrow> string \<Rightarrow> federationProjection option \<Rightarrow> 'w ks_step" where
  "reconcileNetworkPolicy K C A operator_ns fed s =
     (let (k, w) = s; spec = ks_network_policy (ko_spec k);
          sources = (case spec of None \<Rightarrow> 0 | Some np \<Rightarrow> length (npp_ingress np));
          desired = (case spec of
             None \<Rightarrow> None | Some np \<Rightarrow> if sources > 0 then Some (buildKeystoneNetworkPolicy k np operator_ns fed) else None);
          (r, cs, w') = ReconcileNetworkPolicy K C A (ko_meta k)
            \<lparr>nf_configured = (spec \<noteq> None), nf_sources = sources, nf_desired = desired, nf_name = subResourceName k,
             nf_namespace = ko_namespace k, nf_generation = ko_generation k, nf_condition = ''NetworkPolicyReady''\<rparr> (ko_conditions k) w
      in (r, put_conditions cs k, w'))"

section \<open>Route, autoscaler and health check\<close>

definition keystoneAPIPort :: int where
  "keystoneAPIPort = 5000"

definition buildKeystoneHTTPRoute :: "Keystone \<Rightarrow> GatewaySpec \<Rightarrow> http_route" where
  "buildKeystoneHTTPRoute k gw =
     BuildHTTPRoute gw \<lparr>rp_name = subResourceName k, rp_namespace = ko_namespace k, rp_labels = commonLabels k,
       rp_service = subResourceName k, rp_port = keystoneAPIPort\<rparr>"

text \<open>The flow reads the desired route only when one is configured.\<close>

definition no_route :: http_route where
  "no_route = \<lparr>hr_meta = blank_meta, hr_parents = [], hr_hostnames = [], hr_path = ([], []), hr_backend = ([], [], 0), hr_status = []\<rparr>"

definition reconcileHTTPRoute ::
  "meta_api \<Rightarrow> (http_route, 'w) kclient \<Rightarrow> (http_route, 'u, 'w) ssa_api \<Rightarrow> bool \<Rightarrow> 'w ks_step" where
  "reconcileHTTPRoute K C A gateway_api s =
     (let (k, w) = s; gateway = ks_gateway (ko_spec k);
          (r, cs, w') = ReconcileHTTPRoute K C A (ko_meta k)
            \<lparr>rf_available = gateway_api, rf_configured = (gateway \<noteq> None),
             rf_desired = (case gateway of None \<Rightarrow> no_route | Some g \<Rightarrow> buildKeystoneHTTPRoute k g), rf_name = subResourceName k,
             rf_namespace = ko_namespace k, rf_noun = ''API'', rf_generation = ko_generation k, rf_condition = ''HTTPRouteReady'',
             rf_requeue = RequeueDeploymentPolling\<rparr> (ko_conditions k) w
      in (r, put_conditions cs k, w'))"

definition buildKeystoneHPA :: "Keystone \<Rightarrow> AutoscalingSpec \<Rightarrow> hpa" where
  "buildKeystoneHPA k a = BuildHPA (ko_namespace k) (subResourceName k) (commonLabels k) (ks_deployment (ko_spec k)) a"

definition no_hpa :: hpa where
  "no_hpa = \<lparr>hp_meta = blank_meta, hp_target = [], hp_min_replicas = None, hp_max_replicas = 0, hp_metrics = []\<rparr>"

definition reconcileHPA :: "meta_api \<Rightarrow> (hpa, 'w) kclient \<Rightarrow> (hpa, 'u, 'w) ssa_api \<Rightarrow> 'w ks_step" where
  "reconcileHPA K C A s =
     (let (k, w) = s; autoscaling = ks_autoscaling (ko_spec k);
          (r, cs, w') = ReconcileHPA K C A (ko_meta k)
            \<lparr>hf_enabled = (autoscaling \<noteq> None),
             hf_desired = (case autoscaling of None \<Rightarrow> no_hpa | Some a \<Rightarrow> buildKeystoneHPA k a), hf_name = subResourceName k,
             hf_namespace = ko_namespace k, hf_generation = ko_generation k, hf_condition = ''HPAReady''\<rparr> (ko_conditions k) w
      in (r, put_conditions cs k, w'))"

text \<open>The probe cache is shared by all resources: \<open>get_cache\<close> and \<open>put_cache\<close> reach it in the world.\<close>

definition reconcileHealthCheck ::
  "meta_api \<Rightarrow> 'w probe_env \<Rightarrow> ('w \<Rightarrow> probe_cache) \<Rightarrow> (probe_cache \<Rightarrow> 'w \<Rightarrow> 'w) \<Rightarrow> 'w ks_step" where
  "reconcileHealthCheck K E get_cache put_cache s =
     (let (k, w) = s;
          (r, cs, cache, w') = ReconcileProbe K E
            \<lparr>pr_key = key_of (ko_meta k), pr_uid = m_uid (ko_meta k), pr_subject = ''Keystone API'',
             pr_configured = (kt_endpoint (ko_status k) \<noteq> []), pr_endpoint = internalAPIURL (ko_meta k),
             pr_generation = ko_generation k, pr_condition = ''KeystoneAPIReady'', pr_healthy = ''APIHealthy'',
             pr_unhealthy = ''APIUnhealthy'', pr_timeout = HealthCheckTimeout, pr_ttl = HealthCheckCacheTTL,
             pr_requeue = RequeueHealthCheck\<rparr> (ko_conditions k) (get_cache w) w
      in (r, put_conditions cs k, put_cache cache w'))"

definition evictHealthProbe :: "('w \<Rightarrow> probe_cache) \<Rightarrow> (probe_cache \<Rightarrow> 'w \<Rightarrow> 'w) \<Rightarrow> objkey \<Rightarrow> 'w \<Rightarrow> 'w" where
  "evictHealthProbe get_cache put_cache key w = put_cache (Evict (get_cache w) key) w"

section \<open>Policy validation\<close>

definition RequeueValidationWait :: duration where "RequeueValidationWait = seconds 15"
definition RequeueBootstrapWait :: duration where "RequeueBootstrapWait = seconds 60"

text \<open>A pod's creation time and, per container status, the message it terminated with, if it terminated.\<close>

record pod_report =
  pd_created :: instant
  pd_terminated :: "string option list"

fun first_message :: "string option list \<Rightarrow> string option" where
  "first_message [] = None"
| "first_message (None # ms) = first_message ms"
| "first_message (Some m # ms) = (if m \<noteq> [] then Some m else first_message ms)"

text \<open>The most recent pod first; pods created at the same instant keep the order of the list.\<close>

definition getValidationErrorMessage :: "(string \<Rightarrow> (string \<times> string) list \<Rightarrow> 'w \<Rightarrow> pod_report list result) \<Rightarrow> string \<Rightarrow> string \<Rightarrow> 'w \<Rightarrow> msg" where
  "getValidationErrorMessage list_pods job_name namespace w =
     (let fallback = Msg ''Policy validation failed; check Job %s logs: kubectl logs -n %s job/%s'' [Str job_name, Str namespace, Str job_name]
      in case list_pods namespace [(''job-name'', job_name)] w of
           Inl e \<Rightarrow> fallback
         | Inr pods \<Rightarrow>
             (case first_message (concat (map pd_terminated (sort_key (\<lambda>p. - pd_created p) pods))) of
                None \<Rightarrow> fallback
              | Some m \<Rightarrow> Msg ''Policy validation failed: %s'' [Str (if length m > 500 then take 500 m @ ''...'' else m)]))"

definition deleteValidationJob :: "(batch_job, 'w) kclient \<Rightarrow> string \<Rightarrow> string \<Rightarrow> 'w \<Rightarrow> err option \<times> 'w" where
  "deleteValidationJob C namespace name w =
     (case k_delete C background (named_job namespace name) w of
        (e, w') \<Rightarrow> (case ignore_not_found e of
            None \<Rightarrow> (None, w')
          | Some x \<Rightarrow> (Some (Errorf ''deleting Job %s/%s: %w'' [Str namespace, Str name, Wrap x]), w')))"

definition config_mount :: volume_mount where
  "config_mount = \<lparr>vm_name = ''config'', vm_path = ''/etc/keystone/keystone.conf.d/'', vm_read_only = True\<rparr>"

definition buildPolicyValidationJob :: "Keystone \<Rightarrow> string \<Rightarrow> string \<Rightarrow> batch_job" where
  "buildPolicyValidationJob k config_map domains =
     (let doms = (if domains \<noteq> [] then [domainsVolumeAndMount domains] else [])
      in \<lparr>jb_meta = blank_meta\<lparr>m_name := ko_name k @ ''-policy-validation'', m_namespace := ko_namespace k\<rparr>,
          jb_backoff = 2, jb_ttl = None,
          jb_template = \<lparr>pt_annotations = [], pt_restart = ''Never'', pt_priority_class = [],
            pt_containers = [\<lparr>co_name = ''validator'', co_image = ImageReference (ks_image (ko_spec k)),
              co_command = [''oslopolicy-validator'', ''--namespace'', ''keystone'', ''--config-dir'', ''/etc/keystone/keystone.conf.d/''],
              co_security = RestrictedSecurityContext, co_env = [], co_mounts = config_mount # map snd doms,
              co_termination_policy = ''FallbackToLogsOnError''\<rparr>],
            pt_volumes = \<lparr>vo_name = ''config'', vo_source = ConfigMapSource config_map\<rparr> # map fst doms\<rparr>,
          jb_conditions = []\<rparr>)"

definition reconcilePolicyValidation ::
  "meta_api \<Rightarrow> (batch_job, 'w) kclient \<Rightarrow> 'w job_runner \<Rightarrow>
     (string \<Rightarrow> (string \<times> string) list \<Rightarrow> 'w \<Rightarrow> pod_report list result) \<Rightarrow> string \<Rightarrow> string \<Rightarrow> 'w ks_step" where
  "reconcilePolicyValidation K C run_job list_pods config_map domains s =
     (let (k, w) = s; job_name = ko_name k @ ''-policy-validation''; say = report K ''PolicyValidReady'' in
      if ks_policy_overrides (ko_spec k) = None
      then (case deleteValidationJob C (ko_namespace k) job_name w of
              (Some e, w') \<Rightarrow> ((zero_result, Some (Errorf ''deleting validation Job: %w'' [Wrap e])), k, w')
            | (None, w') \<Rightarrow>
                ((zero_result, None), say CTrue ''PolicyValidationNotRequired'' (Msg ''No policy overrides configured'' []) k, w'))
      else (case run_job (buildPolicyValidationJob k config_map domains) w of
              ((_, _, Some e), w') \<Rightarrow>
                ((zero_result, Some (Errorf ''running policy validation: %w'' [Wrap e])),
                 say CFalse ''PolicyValidationFailed''
                   (if is_sentinel ''job has permanently failed'' e
                    then getValidationErrorMessage list_pods job_name (ko_namespace k) w'
                    else Msg ''Policy validation failed: %v'' [Val e]) k, w')
            | ((False, _, None), w') \<Rightarrow>
                ((after RequeueValidationWait, None),
                 say CFalse ''PolicyValidationInProgress'' (Msg ''Policy validation job is running'' []) k, w')
            | ((True, _, None), w') \<Rightarrow>
                ((zero_result, None),
                 say CTrue ''PolicyValidationPassed'' (Msg ''Policy validation completed successfully'' []) k, w')))"

section \<open>Bootstrap\<close>

text \<open>\<open>script\<close> is the embedded bootstrap program.\<close>

definition bootstrapServiceURL :: "Keystone \<Rightarrow> string" where
  "bootstrapServiceURL k = ''http://'' @ subResourceName k @ ''.'' @ ko_namespace k @ ''.svc.cluster.local:5000/v3''"

definition plain_env :: "string \<Rightarrow> string \<Rightarrow> env_var" where
  "plain_env name text = \<lparr>env_name = name, env_text = text, env_secret = None, env_field = None\<rparr>"

definition buildBootstrapJob :: "string \<Rightarrow> Keystone \<Rightarrow> string \<Rightarrow> string \<Rightarrow> string \<Rightarrow> string \<Rightarrow> batch_job" where
  "buildBootstrapJob script k config_map domains fernet_secret password_hash =
     (let spec = ko_spec k; internal = bootstrapServiceURL k;
          public = (if bs_public_endpoint (ks_bootstrap spec) \<noteq> [] then bs_public_endpoint (ks_bootstrap spec) else internal);
          extra = (if dbTLSEnabled (ks_database spec) then [dbTLSVolumeAndMount (ks_database spec)] else []) @
                  (if domains \<noteq> [] then [domainsVolumeAndMount domains] else [])
      in \<lparr>jb_meta = blank_meta\<lparr>m_name := ko_name k @ ''-bootstrap'', m_namespace := ko_namespace k\<rparr>,
          jb_backoff = 4, jb_ttl = None,
          jb_template = \<lparr>pt_annotations = [(''forge.c5c3.io/admin-password-hash'', password_hash)], pt_restart = ''Never'',
            pt_priority_class = priorityClassName k,
            pt_containers = [\<lparr>co_name = ''bootstrap'', co_image = ImageReference (ks_image spec),
              co_command = [''/bin/sh'', ''-eu'', ''-c'', script], co_security = RestrictedSecurityContext,
              co_env = [\<lparr>env_name = ''BOOTSTRAP_PASSWORD'', env_text = [],
                          env_secret = Some (sr_name (bs_admin_secret (ks_bootstrap spec)), ''password''), env_field = None\<rparr>,
                        buildDBConnectionEnvVar k,
                        plain_env ''BOOTSTRAP_REGION_ID'' (bs_region (ks_bootstrap spec)),
                        plain_env ''BOOTSTRAP_ADMIN_URL'' internal,
                        plain_env ''BOOTSTRAP_INTERNAL_URL'' internal,
                        plain_env ''BOOTSTRAP_PUBLIC_URL'' public],
              co_mounts = [config_mount,
                           \<lparr>vm_name = ''fernet-keys'', vm_path = ''/etc/keystone/fernet-keys/'', vm_read_only = True\<rparr>] @ map snd extra,
              co_termination_policy = []\<rparr>],
            pt_volumes = [\<lparr>vo_name = ''config'', vo_source = ConfigMapSource config_map\<rparr>,
                          \<lparr>vo_name = ''fernet-keys'', vo_source = SecretDefaultSource fernet_secret\<rparr>] @ map fst extra\<rparr>,
          jb_conditions = []\<rparr>)"

text \<open>\<open>run_keyed\<close> is \<open>job.RunJobWithRerunKey\<close>, \<open>log_event\<close> the event recorder.\<close>

definition reconcileBootstrap ::
  "meta_api \<Rightarrow> 'w eso_env \<Rightarrow> (batch_job \<Rightarrow> string \<Rightarrow> 'w \<Rightarrow> (bool \<times> batch_job option \<times> err option) \<times> 'w) \<Rightarrow>
     (event \<Rightarrow> 'w \<Rightarrow> 'w) \<Rightarrow> (string \<Rightarrow> string) \<Rightarrow> string \<Rightarrow> string \<Rightarrow> string \<Rightarrow> 'w ks_step" where
  "reconcileBootstrap K E run_keyed log_event sha_hex script config_map domains s =
     (let (k, w) = s; say = report K ''BootstrapReady'';
          name = sr_name (bs_admin_secret (ks_bootstrap (ko_spec k))); ref = [Str (ko_namespace k), Str name];
          invalid = Msg ''Admin password Secret %s/%s is missing, unreadable, or has an empty %q value'' (ref @ [Str ''password'']);
          rejected = (\<lambda>e. ((zero_result, Some e), say CFalse ''AdminSecretInvalid'' invalid k,
            log_event \<lparr>ev_type = EvWarning, ev_reason = ''AdminSecretInvalid'', ev_message = invalid\<rparr> w))
      in case GetSecretValue E (ko_namespace k, name) ''password'' w of
           Inl e \<Rightarrow> rejected (Errorf ''reading admin password from Secret %s/%s: %w'' (ref @ [Wrap e]))
         | Inr password \<Rightarrow>
             if password = [] then rejected (Errorf ''admin password Secret %s/%s has an empty %q value'' (ref @ [Str ''password'']))
             else
               let hash = AdminPasswordDigest sha_hex password in
               (case run_keyed (buildBootstrapJob script k config_map domains (ko_name k @ ''-fernet-keys'') hash) hash w of
                  ((_, _, Some e), w') \<Rightarrow>
                    ((zero_result, Some (Errorf ''running bootstrap: %w'' [Wrap e])),
                     say CFalse ''BootstrapFailed'' (Msg ''Keystone bootstrap job failed: %v'' [Val e]) k,
                     log_event \<lparr>ev_type = EvWarning, ev_reason = ''BootstrapFailed'',
                            ev_message = Msg ''Keystone bootstrap job failed: %v'' [Val e]\<rparr> w')
                | ((False, _, None), w') \<Rightarrow>
                    ((after RequeueBootstrapWait, None),
                     say CFalse ''BootstrapInProgress'' (Msg ''Keystone bootstrap job is running'' []) k, w')
                | ((True, _, None), w') \<Rightarrow>
                    ((zero_result, None),
                     say CTrue ''BootstrapComplete'' (Msg ''Keystone bootstrap completed successfully'' []) k,
                     log_event \<lparr>ev_type = EvNormal, ev_reason = ''BootstrapComplete'',
                            ev_message = Msg ''Keystone bootstrap completed successfully'' []\<rparr> w')))"

section \<open>Trust flush\<close>

definition trustFlushCronJob :: "Keystone \<Rightarrow> TrustFlushSpec \<Rightarrow> string \<Rightarrow> string \<Rightarrow> cron_pod cronjob" where
  "trustFlushCronJob k tf config_map domains =
     (let doms = (if domains \<noteq> [] then [domainsVolumeAndMount domains] else []) in
      \<lparr>cj_meta = blank_meta\<lparr>m_name := ko_name k @ ''-trust-flush'', m_namespace := ko_namespace k, m_labels := commonLabels k\<rparr>,
       cj_schedule = tf_schedule tf, cj_suspend = Some (tf_suspend tf), cj_pod_labels = commonLabels k,
       cj_pod_spec = \<lparr>pt_annotations = [], pt_restart = ''OnFailure'', pt_priority_class = priorityClassName k,
         pt_containers = [\<lparr>co_name = ''trust-flush'', co_image = ImageReference (ks_image (ko_spec k)),
           co_command = [''keystone-manage'', ''--config-dir=/etc/keystone/keystone.conf.d/'', ''trust_flush''] @ tf_args tf,
           co_security = RestrictedSecurityContext, co_env = [buildDBConnectionEnvVar k],
           co_mounts = [config_mount,
                        \<lparr>vm_name = ''fernet-keys'', vm_path = ''/etc/keystone/fernet-keys'', vm_read_only = True\<rparr>,
                        \<lparr>vm_name = ''credential-keys'', vm_path = ''/etc/keystone/credential-keys'', vm_read_only = True\<rparr>] @ map snd doms,
           co_termination_policy = []\<rparr>],
         pt_volumes = [\<lparr>vo_name = ''config'', vo_source = ConfigMapSource config_map\<rparr>,
                       \<lparr>vo_name = ''fernet-keys'', vo_source = SecretDefaultSource (ko_name k @ ''-fernet-keys'')\<rparr>,
                       \<lparr>vo_name = ''credential-keys'', vo_source = SecretDefaultSource (ko_name k @ ''-credential-keys'')\<rparr>] @ map fst doms,
         cr_service_account = [], cr_fs_group = None, cr_init = []\<rparr>\<rparr>)"

definition no_pod :: cron_pod where
  "no_pod = \<lparr>pt_annotations = [], pt_restart = [], pt_priority_class = [], pt_containers = [], pt_volumes = [],
     cr_service_account = [], cr_fs_group = None, cr_init = []\<rparr>"

definition bare_cronjob :: "string \<Rightarrow> string \<Rightarrow> cron_pod cronjob" where
  "bare_cronjob namespace name =
     \<lparr>cj_meta = blank_meta\<lparr>m_name := name, m_namespace := namespace\<rparr>, cj_schedule = [], cj_suspend = None, cj_pod_labels = [],
      cj_pod_spec = no_pod\<rparr>"

definition reconcileTrustFlush ::
  "meta_api \<Rightarrow> (cron_pod cronjob, 'w) kclient \<Rightarrow> (cron_pod cronjob, 'u, 'w) ssa_api \<Rightarrow> (event \<Rightarrow> 'w \<Rightarrow> 'w) \<Rightarrow>
     string \<Rightarrow> string \<Rightarrow> 'w ks_step" where
  "reconcileTrustFlush K C A log_event config_map domains s =
     (let (k, w) = s; name = ko_name k @ ''-trust-flush''; say = report K ''TrustFlushReady'' in
      case ks_trust_flush (ko_spec k) of
        None \<Rightarrow>
          (case DeleteCronJob C (bare_cronjob (ko_namespace k) name) (ko_namespace k) name
                  (log_event \<lparr>ev_type = EvWarning, ev_reason = ''TrustFlushBypass'', ev_message =
                     Msg ''Trust flush legacy bypass: spec.trustFlush is nil (webhook defaulting did not run); existing CronJob deleted'' []\<rparr> w) of
             (Some e, w') \<Rightarrow> ((zero_result, Some (Errorf ''deleting trust flush CronJob: %w'' [Wrap e])), k, w')
           | (None, w') \<Rightarrow>
               ((zero_result, None), say CTrue ''TrustFlushNotRequired''
                  (Msg ''Trust flush bypass: spec.trustFlush is nil (webhook did not default this object)'' []) k, w'))
      | Some tf \<Rightarrow>
          (case EnsureCronJob A (ko_meta k) (trustFlushCronJob k tf config_map domains) w of
             (Some e, w') \<Rightarrow> ((zero_result, Some (Errorf ''ensuring trust flush CronJob: %w'' [Wrap e])), k, w')
           | (None, w') \<Rightarrow>
               ((zero_result, None), say CTrue ''TrustFlushReady'' (Msg ''Trust flush CronJob is configured'' []) k, w')))"

end
