(* ===== verification/Base64.thy ===== *)
theory Base64
  imports Prelude
begin

text \<open>
  The URL encoding of Go's \<open>encoding/base64\<close>, with padding, as the key rotation of the Keystone operator uses it
  (\<open>reconcile_fernet.go\<close>, \<open>rotation_validation.go\<close>).  The decoder is the documented one: it skips carriage
  returns and newlines, rejects anything after the padding, and, not being strict, does not look at the bits
  of the last character that encode nothing.
\<close>

section \<open>The alphabet\<close>

definition b64_char :: "nat \<Rightarrow> char" where
  "b64_char n = (if n < 26 then char_of (n + 65) else if n < 52 then char_of (n + 71) else if n < 62 then char_of (n - 4)
                 else if n = 62 then CHR ''-'' else CHR ''_'')"

definition b64_value :: "char \<Rightarrow> nat option" where
  "b64_value c =
     (let n = (of_char c :: nat) in
      if 65 \<le> n \<and> n \<le> 90 then Some (n - 65) else if 97 \<le> n \<and> n \<le> 122 then Some (n - 71)
      else if 48 \<le> n \<and> n \<le> 57 then Some (n + 4) else if n = 45 then Some 62 else if n = 95 then Some 63 else None)"

lemma b64_value_char [simp]: "n < 64 \<Longrightarrow> b64_value (b64_char n) = Some n"
proof -
  assume "n < 64"
  then consider "n < 26" | "26 \<le> n" "n < 52" | "52 \<le> n" "n < 62" | "n = 62" | "n = 63" by linarith
  then show ?thesis by cases (auto simp: b64_value_def b64_char_def Let_def)
qed

lemma b64_value_plain: "b64_value c \<noteq> None \<Longrightarrow> c \<noteq> CHR ''='' \<and> c \<noteq> CHR 0x0A \<and> c \<noteq> CHR 0x0D"
  by (auto simp: b64_value_def)

lemma b64_char_plain [simp]:
  assumes "n < 64"
  shows "b64_char n \<noteq> CHR ''=''" "b64_char n \<noteq> CHR 0x0A" "b64_char n \<noteq> CHR 0x0D"
proof -
  have "b64_value (b64_char n) \<noteq> None" using assms by simp
  from b64_value_plain [OF this] show "b64_char n \<noteq> CHR ''=''" "b64_char n \<noteq> CHR 0x0A" "b64_char n \<noteq> CHR 0x0D" by auto
qed

section \<open>Encoding and decoding\<close>

abbreviation byte :: "char \<Rightarrow> nat" where "byte c \<equiv> of_char c"

fun b64_encode :: "string \<Rightarrow> string" where
  "b64_encode [] = []"
| "b64_encode [a] = [b64_char (byte a div 4), b64_char (byte a mod 4 * 16), CHR ''='', CHR ''='']"
| "b64_encode [a, b] =
     [b64_char (byte a div 4), b64_char (byte a mod 4 * 16 + byte b div 16), b64_char (byte b mod 16 * 4), CHR ''='']"
| "b64_encode (a # b # c # rest) =
     b64_char (byte a div 4) # b64_char (byte a mod 4 * 16 + byte b div 16) # b64_char (byte b mod 16 * 4 + byte c div 64) #
     b64_char (byte c mod 64) # b64_encode rest"

fun b64_quads :: "string \<Rightarrow> string option" where
  "b64_quads [] = Some []"
| "b64_quads (a # b # c # d # rest) =
     (case (b64_value a, b64_value b) of
        (Some x, Some y) \<Rightarrow>
          (let first = char_of (x * 4 + y div 16 :: nat) in
           if c = CHR ''='' then (if d = CHR ''='' \<and> rest = [] then Some [first] else None)
           else case b64_value c of
             None \<Rightarrow> None
           | Some z \<Rightarrow>
               (let second = char_of (y mod 16 * 16 + z div 4 :: nat) in
                if d = CHR ''='' then (if rest = [] then Some [first, second] else None)
                else case b64_value d of
                  None \<Rightarrow> None
                | Some v \<Rightarrow> map_option (\<lambda>bs. first # second # char_of (z mod 4 * 64 + v :: nat) # bs) (b64_quads rest)))
      | _ \<Rightarrow> None)"
| "b64_quads _ = None"

definition b64_decode :: "string \<Rightarrow> string option" where
  "b64_decode s = b64_quads (filter (\<lambda>c. c \<noteq> CHR 0x0A \<and> c \<noteq> CHR 0x0D) s)"

section \<open>Laws\<close>

lemma byte_parts [simp]: "byte c div 4 < 64" "byte c div 16 < 16" "byte c div 64 < 4"
  by (rule less_mult_imp_div_less, simp)+

lemma byte_rests [simp]: "byte c mod 4 * 16 < 64" "byte c mod 16 * 4 < 64"
proof -
  have "byte c mod 4 < 4" "byte c mod 16 < 16" by simp_all
  then show "byte c mod 4 * 16 < 64" "byte c mod 16 * 4 < 64" by linarith+
qed

lemma two_bytes_less [simp]: "byte a mod 4 * 16 + byte b div 16 < 64" "byte b mod 16 * 4 + byte c div 64 < 64"
proof -
  have "byte a mod 4 < 4" "byte b mod 16 < 16" by simp_all
  then show "byte a mod 4 * 16 + byte b div 16 < 64" "byte b mod 16 * 4 + byte c div 64 < 64"
    using byte_parts(2) [of b] byte_parts(3) [of c] by linarith+
qed

lemma first_byte: "char_of (byte a div 4 * 4 + (byte a mod 4 * 16 + byte b div 16) div 16) = a"
proof -
  have "(byte a mod 4 * 16 + byte b div 16) div 16 = byte a mod 4" by simp
  then show ?thesis by simp
qed

lemma second_byte: "char_of ((byte a mod 4 * 16 + byte b div 16) mod 16 * 16 + (byte b mod 16 * 4 + byte c div 64) div 4) = b"
proof -
  have "(byte a mod 4 * 16 + byte b div 16) mod 16 = byte b div 16" "(byte b mod 16 * 4 + byte c div 64) div 4 = byte b mod 16"
    by simp_all
  then show ?thesis by simp
qed

lemma third_byte: "char_of ((byte b mod 16 * 4 + byte c div 64) mod 4 * 64 + byte c mod 64) = c"
proof -
  have "(byte b mod 16 * 4 + byte c div 64) mod 4 = byte c div 64 mod 4"
    by (simp add: mod_add_left_eq [symmetric] mult.assoc)
  then have "(byte b mod 16 * 4 + byte c div 64) mod 4 = byte c div 64" by simp
  then show ?thesis by simp
qed

lemma b64_quads_encode: "b64_quads (b64_encode s) = Some s"
proof (induction s rule: b64_encode.induct)
  case (2 a)
  show ?case using first_byte [of a "CHR 0x00"] by simp
next
  case (3 a b)
  show ?case using first_byte [of a b] second_byte [of a b "CHR 0x00"] by (simp add: Let_def)
next
  case (4 a b c rest)
  then show ?case using first_byte [of a b] second_byte [of a b c] third_byte [of b c] by (simp add: Let_def)
qed simp

lemma b64_encode_plain: "c \<in> set (b64_encode s) \<Longrightarrow> c \<noteq> CHR 0x0A \<and> c \<noteq> CHR 0x0D"
  by (induction s rule: b64_encode.induct) auto

lemma b64_decode_encode [simp]: "b64_decode (b64_encode s) = Some s"
proof -
  have "filter (\<lambda>c. c \<noteq> CHR 0x0A \<and> c \<noteq> CHR 0x0D) (b64_encode s) = b64_encode s"
    by (intro filter_True) (blast dest: b64_encode_plain)
  then show ?thesis by (simp add: b64_decode_def b64_quads_encode)
qed

lemma length_b64_encode: "length (b64_encode s) = 4 * ((length s + 2) div 3)"
proof (induction s rule: b64_encode.induct)
  case (4 a b c rest)
  have "(length (a # b # c # rest) + 2) div 3 = Suc ((length rest + 2) div 3)"
    using div_add_self2 [of 3 "length rest + 2"] by simp
  then show ?case using 4 by simp
qed simp_all

lemma b64_encode_inject [simp]: "b64_encode s = b64_encode t \<longleftrightarrow> s = t"
  by (metis b64_decode_encode option.inject)

text \<open>A decoded text is at most three quarters of what was read, and newlines carry nothing.\<close>

lemma b64_quads_length: "b64_quads s = Some t \<Longrightarrow> 4 * length t \<le> 3 * length s"
  by (induction s arbitrary: t rule: b64_quads.induct) (auto simp: Let_def split: option.splits if_splits)

lemma b64_decode_length: "b64_decode s = Some t \<Longrightarrow> 4 * length t \<le> 3 * length s"
proof -
  assume "b64_decode s = Some t"
  then have "4 * length t \<le> 3 * length (filter (\<lambda>c. c \<noteq> CHR 0x0A \<and> c \<noteq> CHR 0x0D) s)"
    unfolding b64_decode_def by (rule b64_quads_length)
  also have "\<dots> \<le> 3 * length s" by (simp add: length_filter_le)
  finally show ?thesis .
qed

end
