(* ===== verification/KeystoneKeys.thy ===== *)
theory KeystoneKeys
  imports KeystoneSteps Base64 Config "HOL-Library.Multiset"
begin

text \<open>
  Keys and passwords of the Keystone operator: the Fernet and credential key repositories
  (\<open>reconcile_fernet.go\<close>, \<open>reconcile_credential.go\<close>), their validation and staging (\<open>rotation_validation.go\<close>,
  \<open>rotation_staging.go\<close>, \<open>rotation_rbac.go\<close>), the rotation CronJobs (\<open>rotation_cronjob.go\<close>) and the rotation of
  the admin password (\<open>reconcile_passwordrotation.go\<close>).  The two key flavours differ in the record \<open>key_flavour\<close>.
\<close>

section \<open>Validation of staged keys\<close>

definition ErrInvalidKeyFormat :: err where "ErrInvalidKeyFormat = Sentinel ''invalid key format''"
definition ErrDuplicateKeys :: err where "ErrDuplicateKeys = Sentinel ''duplicate keys detected''"
definition ErrKeyCountOutOfRange :: err where "ErrKeyCountOutOfRange = Sentinel ''key count out of range''"

text \<open>Reading a missing entry of a Go map of byte slices gives the empty slice.\<close>

definition entry :: "string gomap \<Rightarrow> string \<Rightarrow> string" where
  "entry m k = (case map_of m k of None \<Rightarrow> [] | Some v \<Rightarrow> v)"

fun format_error :: "string gomap \<Rightarrow> string list \<Rightarrow> err option" where
  "format_error keys [] = None"
| "format_error keys (idx # rest) =
     (let value = entry keys idx in
      if length value \<noteq> 44
      then Some (Errorf ''%w: key %q length=%d, want 44'' [Wrap ErrInvalidKeyFormat, Str idx, Num (int (length value))])
      else case b64_decode value of
        None \<Rightarrow> Some (Errorf ''%w: key %q base64 decode: %w''
                  [Wrap ErrInvalidKeyFormat, Str idx, Wrap (ExtErr ''illegal base64 data'')])
      | Some decoded \<Rightarrow>
          if length decoded \<noteq> 32
          then Some (Errorf ''%w: key %q decoded length=%d, want 32'' [Wrap ErrInvalidKeyFormat, Str idx, Num (int (length decoded))])
          else format_error keys rest)"

text \<open>The two nested loops over the pairs \<open>i < j\<close>.\<close>

fun duplicate_of :: "string gomap \<Rightarrow> string \<Rightarrow> string list \<Rightarrow> err option" where
  "duplicate_of keys i [] = None"
| "duplicate_of keys i (j # js) =
     (if entry keys i = entry keys j
      then Some (Errorf ''%w: keys %q and %q'' [Wrap ErrDuplicateKeys, Str i, Str j])
      else duplicate_of keys i js)"

fun duplicate_error :: "string gomap \<Rightarrow> string list \<Rightarrow> err option" where
  "duplicate_error keys [] = None"
| "duplicate_error keys (i # is) =
     (case duplicate_of keys i is of Some e \<Rightarrow> Some e | None \<Rightarrow> duplicate_error keys is)"

definition validateRotationOutput :: "string gomap \<Rightarrow> int \<Rightarrow> int \<Rightarrow> err option" where
  "validateRotationOutput keys min_keys max_keys =
     (let n = int (length keys) in
      if n < min_keys \<or> n > max_keys
      then Some (Errorf ''%w: got %d, want [%d, %d]'' [Wrap ErrKeyCountOutOfRange, Num n, Num min_keys, Num max_keys])
      else case format_error keys (sorted_keys keys) of
        Some e \<Rightarrow> Some e
      | None \<Rightarrow> duplicate_error keys (sorted_keys keys))"

section \<open>What the steps use\<close>

record push_secret =
  ps_meta :: objmeta
  ps_deletion_policy :: string
  ps_stores :: "(string \<times> string) list"
  ps_selector :: string
  ps_data :: "(string \<times> string \<times> string) list"  \<comment> \<open>secret key, remote key, property\<close>

text \<open>
  \<open>kv_random n\<close> is \<open>rand.Read\<close> into \<open>n\<close> bytes, \<open>kv_age\<close> the rotation-age gauge, \<open>kv_delete kind\<close> the deletion of an
  object of the Go type \<open>kind\<close>.
\<close>

record ('u, 'w) keys_env =
  kv_meta :: meta_api
  kv_secrets :: "(secret, 'w) kclient"
  kv_upsert :: "(secret, 'w) create_or_update"
  kv_own :: "objmeta \<Rightarrow> secret \<Rightarrow> secret result"
  kv_random :: "nat \<Rightarrow> 'w \<Rightarrow> string result \<times> 'w"
  kv_parse_time :: "string \<Rightarrow> instant result"
  kv_age :: "string \<Rightarrow> string \<Rightarrow> string \<Rightarrow> instant \<Rightarrow> 'w \<Rightarrow> 'w"
  kv_log :: "event \<Rightarrow> 'w \<Rightarrow> 'w"
  kv_rbac :: "'w rbac_api"
  kv_config_maps :: "(immutable, 'w) kclient"
  kv_own_config_map :: "objmeta \<Rightarrow> immutable \<Rightarrow> immutable result"
  kv_sha :: "string \<Rightarrow> string"
  kv_cronjobs :: "(cron_pod cronjob, 'u, 'w) ssa_api"
  kv_push :: "(push_secret, 'u, 'w) ssa_api"
  kv_cronjob_client :: "(cron_pod cronjob, 'w) kclient"
  kv_delete :: "string \<Rightarrow> objmeta \<Rightarrow> 'w \<Rightarrow> err option \<times> 'w"

definition log_all :: "(event \<Rightarrow> 'w \<Rightarrow> 'w) \<Rightarrow> event list \<Rightarrow> 'w \<Rightarrow> 'w" where
  "log_all log_event evs w = fold log_event evs w"

section \<open>Staging\<close>

definition fernetStagingSecretName :: "Keystone \<Rightarrow> string" where
  "fernetStagingSecretName k = ko_name k @ ''-fernet-keys-rotation''"

definition credentialStagingSecretName :: "Keystone \<Rightarrow> string" where
  "credentialStagingSecretName k = ko_name k @ ''-credential-keys-rotation''"

definition observeRotationAge ::
  "('u, 'w) keys_env \<Rightarrow> Keystone \<Rightarrow> secret option \<Rightarrow> secret option \<Rightarrow> string \<Rightarrow> 'w \<Rightarrow> 'w" where
  "observeRotationAge E k main staging key_type w =
     ObserveAge (kv_parse_time E) main staging (kv_age E (ko_name k) (ko_namespace k) key_type) w"

definition ensureStagingSecret :: "('u, 'w) keys_env \<Rightarrow> Keystone \<Rightarrow> string \<Rightarrow> string \<Rightarrow> 'w \<Rightarrow> secret result \<times> 'w" where
  "ensureStagingSecret E k name label w =
     EnsureStagingSecret (kv_upsert E) (kv_own E) (ko_meta k) name (map_put StagingSecretLabelKey label (commonLabels k)) w"

text \<open>\<open>rotation.CommitStaged\<close> with the recorder: the events it returns are emitted.\<close>

definition commitStagedRotation ::
  "('u, 'w) keys_env \<Rightarrow> secret option \<Rightarrow> secret \<Rightarrow> commit_spec \<Rightarrow> 'w \<Rightarrow> (bool \<times> err option) \<times> 'w" where
  "commitStagedRotation E staging target spec w =
     (let (r, evs, w') = CommitStaged (kv_parse_time E) (kv_secrets E) staging target spec w
      in (r, log_all (kv_log E) evs w'))"

definition key_commit_spec :: "string \<Rightarrow> int \<Rightarrow> int \<Rightarrow> commit_spec" where
  "key_commit_spec event_reason min_keys max_keys =
     \<lparr>cs_target_noun = ''main secret'', cs_validate = (\<lambda>data. validateRotationOutput data min_keys max_keys),
      cs_clear_on_reject = True, cs_invalid_reason = ''RotationAnnotationInvalid'', cs_rejected_reason = ''RotationRejected'',
      cs_applied_reason = event_reason,
      cs_applied_message = (\<lambda>name data.
        Msg ''rotation applied from staging secret %s (%d active keys)'' [Str name, Num (int (length data))])\<rparr>"

definition applyRotationOutput ::
  "('u, 'w) keys_env \<Rightarrow> secret option \<Rightarrow> secret \<Rightarrow> string \<Rightarrow> int \<Rightarrow> int \<Rightarrow> 'w \<Rightarrow> (bool \<times> err option) \<times> 'w" where
  "applyRotationOutput E staging main event_reason min_keys max_keys w =
     commitStagedRotation E staging main (key_commit_spec event_reason min_keys max_keys) w"

definition ensureRotationRBAC :: "('u, 'w) keys_env \<Rightarrow> Keystone \<Rightarrow> string \<Rightarrow> string \<Rightarrow> string \<Rightarrow> 'w \<Rightarrow> err option \<times> 'w" where
  "ensureRotationRBAC E k sa_name read_secret staging_secret w =
     EnsureRBAC (kv_rbac E) (ko_meta k) sa_name read_secret staging_secret w"

section \<open>The rotation CronJob\<close>

record keyRotationParams =
  kp_kind :: string
  kp_other :: string
  kp_staging :: string
  kp_schedule :: string
  kp_env :: string
  kp_max_active :: int

definition keyRotationCronJob :: "Keystone \<Rightarrow> string \<Rightarrow> string \<Rightarrow> string \<Rightarrow> keyRotationParams \<Rightarrow> cron_pod cronjob" where
  "keyRotationCronJob k config_map script_map domains p =
     (let name = ko_name k @ ''-'' @ kp_kind p @ ''-rotate'';
          secret_name = ko_name k @ ''-'' @ kp_kind p @ ''-keys''; other_secret = ko_name k @ ''-'' @ kp_other p @ ''-keys'';
          image = ImageReference (ks_image (ko_spec k));
          key_dir = ''/etc/keystone/'' @ kp_kind p @ ''-keys''; other_dir = ''/etc/keystone/'' @ kp_other p @ ''-keys'';
          src_vol = kp_kind p @ ''-keys-src''; src_path = ''/'' @ kp_kind p @ ''-keys-src'';
          key_vol = kp_kind p @ ''-keys''; other_vol = kp_other p @ ''-keys'';
          extra = (if domains \<noteq> [] then [domainsVolumeAndMount domains] else [])
      in BuildCronJob
        \<lparr>cp_name = name, cp_namespace = ko_namespace k, cp_labels = commonLabels k, cp_schedule = kp_schedule p,
         cp_pod_labels = commonLabels k,
         cp_pod_spec = \<lparr>pt_annotations = [], pt_restart = ''OnFailure'', pt_priority_class = priorityClassName k,
           pt_containers = [\<lparr>co_name = kp_kind p @ ''-rotate'', co_image = image,
             co_command = [''/scripts/'' @ kp_kind p @ ''_rotate.sh''], co_security = RestrictedSecurityContext,
             co_env = [plain_env ''SECRET_NAME'' (kp_staging p),
                       \<lparr>env_name = ''SECRET_NAMESPACE'', env_text = [], env_secret = None, env_field = Some ''metadata.namespace''\<rparr>,
                       plain_env (kp_env p) (show_int (kp_max_active p)),
                       buildDBConnectionEnvVar k],
             co_mounts = [\<lparr>vm_name = key_vol, vm_path = key_dir, vm_read_only = False\<rparr>,
                          \<lparr>vm_name = other_vol, vm_path = other_dir, vm_read_only = True\<rparr>,
                          config_mount,
                          \<lparr>vm_name = ''scripts'', vm_path = ''/scripts'', vm_read_only = True\<rparr>] @ map snd extra,
             co_termination_policy = []\<rparr>],
           pt_volumes = [\<lparr>vo_name = src_vol, vo_source = SecretSource secret_name 256\<rparr>,
                         \<lparr>vo_name = key_vol, vo_source = EmptyDirSource\<rparr>,
                         \<lparr>vo_name = other_vol, vo_source = SecretSource other_secret 256\<rparr>,
                         \<lparr>vo_name = ''config'', vo_source = ConfigMapSource config_map\<rparr>,
                         \<lparr>vo_name = ''scripts'', vo_source = ConfigMapModeSource script_map 365\<rparr>] @ map fst extra,
           cr_service_account = name, cr_fs_group = Some OpenStackUID,
           cr_init = [\<lparr>co_name = ''copy-keys'', co_image = image,
             co_command = [''sh'', ''-c'', ''install -m 0400 '' @ src_path @ ''/* '' @ key_dir @ ''/''],
             co_security = RestrictedSecurityContext, co_env = [],
             co_mounts = [\<lparr>vm_name = src_vol, vm_path = src_path, vm_read_only = True\<rparr>,
                          \<lparr>vm_name = key_vol, vm_path = key_dir, vm_read_only = False\<rparr>],
             co_termination_policy = []\<rparr>]\<rparr>\<rparr>)"

definition normalizedFernetMaxActiveKeys :: "Keystone \<Rightarrow> int" where
  "normalizedFernetMaxActiveKeys k = max (fe_max_active (ks_fernet (ko_spec k))) 3"

definition normalizedCredentialMaxActiveKeys :: "Keystone \<Rightarrow> int" where
  "normalizedCredentialMaxActiveKeys k = max (ck_max_active (ks_credential_keys (ko_spec k))) 3"

definition fernetRotationCronJob :: "Keystone \<Rightarrow> string \<Rightarrow> string \<Rightarrow> string \<Rightarrow> cron_pod cronjob" where
  "fernetRotationCronJob k config_map script_map domains =
     (keyRotationCronJob k config_map script_map domains
        \<lparr>kp_kind = ''fernet'', kp_other = ''credential'', kp_staging = fernetStagingSecretName k,
         kp_schedule = fe_schedule (ks_fernet (ko_spec k)), kp_env = ''OS_fernet_tokens__max_active_keys'',
         kp_max_active = normalizedFernetMaxActiveKeys k\<rparr>)\<lparr>cj_suspend := Some (fe_suspend (ks_fernet (ko_spec k)))\<rparr>"

definition credentialRotationCronJob :: "Keystone \<Rightarrow> string \<Rightarrow> string \<Rightarrow> string \<Rightarrow> cron_pod cronjob" where
  "credentialRotationCronJob k config_map script_map domains =
     (keyRotationCronJob k config_map script_map domains
        \<lparr>kp_kind = ''credential'', kp_other = ''fernet'', kp_staging = credentialStagingSecretName k,
         kp_schedule = ck_schedule (ks_credential_keys (ko_spec k)), kp_env = ''OS_credential__max_active_keys'',
         kp_max_active = normalizedCredentialMaxActiveKeys k\<rparr>)\<lparr>cj_suspend := Some (ck_suspend (ks_credential_keys (ko_spec k)))\<rparr>"

section \<open>Backup\<close>

definition keys_push_secret :: "string \<Rightarrow> Keystone \<Rightarrow> push_secret" where
  "keys_push_secret kind k =
     \<lparr>ps_meta = blank_meta\<lparr>m_name := ko_name k @ ''-'' @ kind @ ''-keys-backup'', m_namespace := ko_namespace k\<rparr>,
      ps_deletion_policy = ''Delete'', ps_stores = PushSecretStoreRefs (EffectiveStoreRef (ks_secret_store_ref (ko_spec k))),
      ps_selector = ko_name k @ ''-'' @ kind @ ''-keys'',
      ps_data = [([], ''openstack/keystone/'' @ ko_namespace k @ ''/'' @ ko_name k @ ''/'' @ kind @ ''-keys'', [])]\<rparr>"

definition fernetKeysPushSecret :: "Keystone \<Rightarrow> push_secret" where
  "fernetKeysPushSecret = keys_push_secret ''fernet''"

definition credentialKeysPushSecret :: "Keystone \<Rightarrow> push_secret" where
  "credentialKeysPushSecret = keys_push_secret ''credential''"

section \<open>Initial keys\<close>

definition generateFernetKey :: "('u, 'w) keys_env \<Rightarrow> 'w \<Rightarrow> string result \<times> 'w" where
  "generateFernetKey E w =
     (case kv_random E 32 w of
        (Inl e, w') \<Rightarrow> (Inl (Errorf ''generating fernet key: %w'' [Wrap e]), w')
      | (Inr key, w') \<Rightarrow> (Inr (b64_encode key), w'))"

text \<open>The loop of \<open>createKeysSecret\<close>: indices \<open>i\<close>, \<open>i + 1\<close>, \<open>\<dots>\<close>, of which there are \<open>n\<close>.\<close>

fun generate_keys :: "('u, 'w) keys_env \<Rightarrow> nat \<Rightarrow> nat \<Rightarrow> 'w \<Rightarrow> string gomap result \<times> 'w" where
  "generate_keys E i 0 w = (Inr [], w)"
| "generate_keys E i (Suc n) w =
     (case generateFernetKey E w of
        (Inl e, w') \<Rightarrow> (Inl e, w')
      | (Inr key, w') \<Rightarrow>
          (case generate_keys E (Suc i) n w' of
             (Inl e, w'') \<Rightarrow> (Inl e, w'')
           | (Inr data, w'') \<Rightarrow> (Inr ((show_nat i, key) # data), w'')))"

definition createKeysSecret :: "('u, 'w) keys_env \<Rightarrow> Keystone \<Rightarrow> string \<Rightarrow> int \<Rightarrow> 'w \<Rightarrow> err option \<times> 'w" where
  "createKeysSecret E k name num_keys w =
     (case generate_keys E 0 (nat num_keys) w of
        (Inl e, w1) \<Rightarrow> (Some e, w1)
      | (Inr data, w1) \<Rightarrow>
          (case kv_own E (ko_meta k)
                  \<lparr>s_meta = blank_meta\<lparr>m_name := name, m_namespace := ko_namespace k, m_labels := commonLabels k\<rparr>,
                   s_version = [], s_data = data\<rparr> of
             Inl e \<Rightarrow> (Some (Errorf ''setting owner reference on keys secret %s: %w'' [Str name, Wrap e]), w1)
           | Inr s \<Rightarrow>
               (case k_create (kv_secrets E) s w1 of
                  (Inl e, w2) \<Rightarrow> (Some (Errorf ''creating keys secret %s: %w'' [Str name, Wrap e]), w2)
                | (Inr _, w2) \<Rightarrow> (None, w2))))"

section \<open>The key steps\<close>

text \<open>What differs between the two flavours, and the embedded rotation script.\<close>

record key_flavour =
  kf_kind :: string
  kf_noun :: string
  kf_title :: string
  kf_max :: "Keystone \<Rightarrow> int"
  kf_staging :: "Keystone \<Rightarrow> string"
  kf_cronjob :: "Keystone \<Rightarrow> string \<Rightarrow> string \<Rightarrow> string \<Rightarrow> cron_pod cronjob"
  kf_push :: "Keystone \<Rightarrow> push_secret"

definition ensure_staging :: "('u, 'w) keys_env \<Rightarrow> key_flavour \<Rightarrow> Keystone \<Rightarrow> 'w \<Rightarrow> secret result \<times> 'w" where
  "ensure_staging E F k w = ensureStagingSecret E k (kf_staging F k) (kf_kind F @ ''-keys'') w"

definition ensure_key_rbac :: "('u, 'w) keys_env \<Rightarrow> key_flavour \<Rightarrow> Keystone \<Rightarrow> string \<Rightarrow> 'w \<Rightarrow> err option \<times> 'w" where
  "ensure_key_rbac E F k secret_name w =
     ensureRotationRBAC E k (ko_name k @ ''-'' @ kf_kind F @ ''-rotate'') secret_name (kf_staging F k) w"

text \<open>Steps 4 to 8: RBAC, script, CronJob, backup, condition.\<close>

definition configure_rotation ::
  "('u, 'w) keys_env \<Rightarrow> key_flavour \<Rightarrow> string \<Rightarrow> string \<Rightarrow> string \<Rightarrow> string \<Rightarrow> 'w ks_step" where
  "configure_rotation E F script secret_name config_map domains s =
     (let (k, w) = s; kind = kf_kind F; fail = (\<lambda>f e w. ((zero_result, Some (Errorf f [Wrap e])), k, w)) in
      case ensure_key_rbac E F k secret_name w of
        (Some e, w1) \<Rightarrow> fail (''ensuring '' @ kind @ '' rotation RBAC: %w'') e w1
      | (None, w1) \<Rightarrow>
          (case CreateImmutableConfigMap (kv_sha E) (kv_own_config_map E) (kv_config_maps E) (ko_meta k)
                  (ko_name k @ ''-'' @ kind @ ''-rotate-script'') (ko_namespace k) [(kind @ ''_rotate.sh'', script)] w1 of
             (Inl e, w2) \<Rightarrow> fail (''creating '' @ kind @ '' rotate script ConfigMap: %w'') e w2
           | (Inr script_map, w2) \<Rightarrow>
               (case EnsureCronJob (kv_cronjobs E) (ko_meta k) (kf_cronjob F k config_map script_map domains) w2 of
                  (Some e, w3) \<Rightarrow> fail (''ensuring '' @ kind @ '' rotation cronjob: %w'') e w3
                | (None, w3) \<Rightarrow>
                    (case EnsurePushSecret (kv_push E) (ko_meta k) (kf_push F k) w3 of
                       (Some e, w4) \<Rightarrow> fail (''ensuring '' @ kind @ '' keys pushsecret: %w'') e w4
                     | (None, w4) \<Rightarrow>
                         ((zero_result, None),
                          report (kv_meta E) (kf_title F @ ''KeysReady'') CTrue (kf_title F @ ''KeysAvailable'')
                            (Msg (kf_title F @ '' keys Secret exists and rotation CronJob is configured'') []) k, w4)))))"

definition reconcile_keys :: "('u, 'w) keys_env \<Rightarrow> key_flavour \<Rightarrow> string \<Rightarrow> string \<Rightarrow> string \<Rightarrow> 'w ks_step" where
  "reconcile_keys E F script config_map domains s =
     (let (k, w) = s; kind = kf_kind F; secret_name = ko_name k @ ''-'' @ kind @ ''-keys'';
          say = report (kv_meta E) (kf_title F @ ''KeysReady'')
      in case k_get (kv_secrets E) (ko_namespace k, secret_name) w of
           Inl ge \<Rightarrow>
             if is_not_found ge
             then (case createKeysSecret E k secret_name (kf_max F k) w of
                     (Some e, w1) \<Rightarrow> ((zero_result, Some (Errorf (''creating '' @ kind @ '' keys secret: %w'') [Wrap e])), k, w1)
                   | (None, w1) \<Rightarrow>
                       ((after RequeueSecretPolling, None),
                        say CFalse ''GeneratingKeys'' (Msg (''Initial '' @ kf_noun F @ '' keys have been generated'') []) k,
                        kv_log E \<lparr>ev_type = EvNormal, ev_reason = kf_title F @ ''KeysGenerated'',
                          ev_message = Msg (''Initial '' @ kf_noun F @ '' encryption keys have been generated'') []\<rparr> w1))
             else ((zero_result, Some (Errorf (''getting '' @ kind @ '' keys secret: %w'') [Wrap ge])), k, w)
         | Inr existing \<Rightarrow>
             (case ensure_staging E F k w of
                (Inl e, w1) \<Rightarrow> ((zero_result, Some e), k, w1)
              | (Inr staging, w1) \<Rightarrow>
                  (case applyRotationOutput E (Some staging) existing (kf_title F @ ''KeysRotated'') 3 (kf_max F k + 1)
                          (observeRotationAge E k (Some existing) (Some staging) kind w1) of
                     ((_, Some e), w2) \<Rightarrow> ((zero_result, Some (Errorf (''applying '' @ kind @ '' rotation output: %w'') [Wrap e])), k, w2)
                   | ((True, None), w2) \<Rightarrow>
                       ((after RequeueSecretPolling, None),
                        say CTrue (kf_title F @ ''KeysRotated'') (Msg ''rotation applied; staging secret cleared'' []) k, w2)
                   | ((False, None), w2) \<Rightarrow> configure_rotation E F script secret_name config_map domains (k, w2))))"

definition fernet_flavour :: key_flavour where
  "fernet_flavour = \<lparr>kf_kind = ''fernet'', kf_noun = ''Fernet'', kf_title = ''Fernet'', kf_max = normalizedFernetMaxActiveKeys,
     kf_staging = fernetStagingSecretName, kf_cronjob = fernetRotationCronJob, kf_push = fernetKeysPushSecret\<rparr>"

definition credential_flavour :: key_flavour where
  "credential_flavour = \<lparr>kf_kind = ''credential'', kf_noun = ''credential'', kf_title = ''Credential'',
     kf_max = normalizedCredentialMaxActiveKeys, kf_staging = credentialStagingSecretName,
     kf_cronjob = credentialRotationCronJob, kf_push = credentialKeysPushSecret\<rparr>"

definition reconcileFernetKeys :: "('u, 'w) keys_env \<Rightarrow> string \<Rightarrow> string \<Rightarrow> string \<Rightarrow> 'w ks_step" where
  "reconcileFernetKeys E script = reconcile_keys E fernet_flavour script"

definition reconcileCredentialKeys :: "('u, 'w) keys_env \<Rightarrow> string \<Rightarrow> string \<Rightarrow> string \<Rightarrow> 'w ks_step" where
  "reconcileCredentialKeys E script = reconcile_keys E credential_flavour script"

section \<open>The admin password\<close>

definition conditionTypePasswordRotationReady :: string where
  "conditionTypePasswordRotationReady = ''PasswordRotationReady''"
definition adminPasswordSecretKey :: string where "adminPasswordSecretKey = ''password''"
definition ErrAdminPasswordMissing :: err where "ErrAdminPasswordMissing = Sentinel ''admin password missing''"
definition ErrAdminPasswordTooShort :: err where "ErrAdminPasswordTooShort = Sentinel ''admin password too short''"

definition adminPasswordStagingSecretName :: "Keystone \<Rightarrow> string" where
  "adminPasswordStagingSecretName k = ko_name k @ ''-admin-password-rotation''"
definition adminPasswordNextSecretName :: "Keystone \<Rightarrow> string" where
  "adminPasswordNextSecretName k = ko_name k @ ''-admin-password-next''"
definition adminPasswordRotateSAName :: "Keystone \<Rightarrow> string" where
  "adminPasswordRotateSAName k = ko_name k @ ''-admin-password-rotate''"
definition adminPasswordRotateCronJobName :: "Keystone \<Rightarrow> string" where
  "adminPasswordRotateCronJobName k = ko_name k @ ''-admin-password-rotate''"
definition adminPasswordRotateScriptBaseName :: "Keystone \<Rightarrow> string" where
  "adminPasswordRotateScriptBaseName k = ko_name k @ ''-admin-password-rotate-script''"
definition adminPasswordPushSecretName :: "Keystone \<Rightarrow> string" where
  "adminPasswordPushSecretName k = ko_name k @ ''-admin-password-backup''"

definition normalizedAdminPasswordLength :: "Keystone \<Rightarrow> int" where
  "normalizedAdminPasswordLength k =
     (case ks_password_rotation (ko_spec k) of
        None \<Rightarrow> DefaultPasswordRotationLength
      | Some pr \<Rightarrow>
          if pw_length pr = 0 then DefaultPasswordRotationLength
          else if pw_length pr < DefaultAdminPasswordMinLength then DefaultAdminPasswordMinLength
          else pw_length pr)"

definition validateAdminPasswordRotationOutput :: "string gomap \<Rightarrow> int \<Rightarrow> err option" where
  "validateAdminPasswordRotationOutput data min_length =
     (let pw = entry data adminPasswordSecretKey in
      if pw = []
      then Some (Errorf ''%w: staging secret has no non-empty %q value'' [Wrap ErrAdminPasswordMissing, Str adminPasswordSecretKey])
      else if int (length pw) < min_length
      then Some (Errorf ''%w: got %d, want >= %d'' [Wrap ErrAdminPasswordTooShort, Num (int (length pw)), Num min_length])
      else None)"

definition applyAdminPasswordRotation ::
  "('u, 'w) keys_env \<Rightarrow> secret option \<Rightarrow> secret \<Rightarrow> int \<Rightarrow> 'w \<Rightarrow> (bool \<times> err option) \<times> 'w" where
  "applyAdminPasswordRotation E staging push_source min_length w =
     commitStagedRotation E staging push_source
       \<lparr>cs_target_noun = ''push-source secret'', cs_validate = (\<lambda>data. validateAdminPasswordRotationOutput data min_length),
        cs_clear_on_reject = False, cs_invalid_reason = ''AdminPasswordRotationAnnotationInvalid'',
        cs_rejected_reason = ''AdminPasswordRotationRejected'', cs_applied_reason = ''AdminPasswordRotated'',
        cs_applied_message = (\<lambda>name data. Msg ''admin password rotation applied from staging secret %s'' [Str name])\<rparr> w"

definition adminPasswordPushSourceReady :: "secret option \<Rightarrow> int \<Rightarrow> bool" where
  "adminPasswordPushSourceReady push_source min_length =
     (case push_source of
        None \<Rightarrow> False | Some s \<Rightarrow> validateAdminPasswordRotationOutput (s_data s) min_length = None)"

definition ensureAdminPasswordPushSourceSecret :: "('u, 'w) keys_env \<Rightarrow> Keystone \<Rightarrow> 'w \<Rightarrow> secret result \<times> 'w" where
  "ensureAdminPasswordPushSourceSecret E k w =
     (let name = adminPasswordNextSecretName k in
      case kv_upsert E (\<lambda>s. kv_own E (ko_meta k) (s\<lparr>s_meta := (s_meta s)\<lparr>m_labels := commonLabels k\<rparr>\<rparr>))
             \<lparr>s_meta = blank_meta\<lparr>m_name := name, m_namespace := ko_namespace k\<rparr>, s_version = [], s_data = []\<rparr> w of
        (Inl e, w') \<Rightarrow> (Inl (Errorf ''ensuring admin password push-source secret %s: %w'' [Str name, Wrap e]), w')
      | (Inr s, w') \<Rightarrow> (Inr s, w'))"

definition ensureAdminPasswordRotationRBAC :: "('u, 'w) keys_env \<Rightarrow> Keystone \<Rightarrow> 'w \<Rightarrow> err option \<times> 'w" where
  "ensureAdminPasswordRotationRBAC E k w =
     ensureRotationRBAC E k (adminPasswordRotateSAName k) (adminPasswordNextSecretName k) (adminPasswordStagingSecretName k) w"

definition adminPasswordPushSecret :: "Keystone \<Rightarrow> push_secret" where
  "adminPasswordPushSecret k =
     \<lparr>ps_meta = blank_meta\<lparr>m_name := adminPasswordPushSecretName k, m_namespace := ko_namespace k\<rparr>,
      ps_deletion_policy = ''None'', ps_stores = PushSecretStoreRefs (EffectiveStoreRef (ks_secret_store_ref (ko_spec k))),
      ps_selector = adminPasswordNextSecretName k,
      ps_data = [(adminPasswordSecretKey, ''bootstrap/'' @ ko_namespace k @ ''/'' @ ko_name k @ ''/admin'', adminPasswordSecretKey)]\<rparr>"

text \<open>The code reads \<open>spec.passwordRotation\<close>, which its caller has checked; \<open>pr\<close> is that value.\<close>

definition adminPasswordRotationCronJob :: "Keystone \<Rightarrow> PasswordRotationSpec \<Rightarrow> string \<Rightarrow> cron_pod cronjob" where
  "adminPasswordRotationCronJob k pr script_map =
     \<lparr>cj_meta = blank_meta\<lparr>m_name := adminPasswordRotateCronJobName k, m_namespace := ko_namespace k, m_labels := commonLabels k\<rparr>,
      cj_schedule = pw_schedule pr, cj_suspend = Some (pw_suspend pr), cj_pod_labels = commonLabels k,
      cj_pod_spec = \<lparr>pt_annotations = [], pt_restart = ''OnFailure'', pt_priority_class = priorityClassName k,
        pt_containers = [\<lparr>co_name = ''admin-password-rotate'', co_image = ImageReference (ks_image (ko_spec k)),
          co_command = [''/scripts/admin_password_rotate.sh''], co_security = RestrictedSecurityContext,
          co_env = [plain_env ''SECRET_NAME'' (adminPasswordStagingSecretName k),
                    \<lparr>env_name = ''SECRET_NAMESPACE'', env_text = [], env_secret = None, env_field = Some ''metadata.namespace''\<rparr>,
                    plain_env ''PASSWORD_LENGTH'' (show_int (normalizedAdminPasswordLength k))],
          co_mounts = [\<lparr>vm_name = ''scripts'', vm_path = ''/scripts'', vm_read_only = True\<rparr>], co_termination_policy = []\<rparr>],
        pt_volumes = [\<lparr>vo_name = ''scripts'', vo_source = ConfigMapModeSource script_map 365\<rparr>],
        cr_service_account = adminPasswordRotateSAName k, cr_fs_group = None, cr_init = []\<rparr>\<rparr>"

fun delete_objects :: "(string \<Rightarrow> objmeta \<Rightarrow> 'w \<Rightarrow> err option \<times> 'w) \<Rightarrow> (string \<times> objmeta) list \<Rightarrow> 'w \<Rightarrow> err option \<times> 'w" where
  "delete_objects del [] w = (None, w)"
| "delete_objects del ((kind, m) # objs) w =
     (case del kind m w of
        (e, w') \<Rightarrow> (case ignore_not_found e of
            Some x \<Rightarrow> (Some (Errorf ''deleting %T %s: %w'' [Str kind, Str (m_name m), Wrap x]), w')
          | None \<Rightarrow> delete_objects del objs w'))"

definition rotation_objects :: "Keystone \<Rightarrow> (string \<times> objmeta) list" where
  "rotation_objects k =
     (let named = (\<lambda>name. blank_meta\<lparr>m_name := name, m_namespace := ko_namespace k\<rparr>); sa = adminPasswordRotateSAName k in
      [(''*v1.Secret'', named (adminPasswordStagingSecretName k)), (''*v1.Secret'', named (adminPasswordNextSecretName k)),
       (''*v1.RoleBinding'', named sa), (''*v1.Role'', named sa), (''*v1.ServiceAccount'', named sa),
       (''*v1alpha1.PushSecret'', named (adminPasswordPushSecretName k))])"

definition teardownPasswordRotation :: "('u, 'w) keys_env \<Rightarrow> Keystone \<Rightarrow> 'w \<Rightarrow> err option \<times> 'w" where
  "teardownPasswordRotation E k w =
     (let name = adminPasswordRotateCronJobName k in
      case DeleteCronJob (kv_cronjob_client E) (bare_cronjob (ko_namespace k) name) (ko_namespace k) name w of
        (Some e, w1) \<Rightarrow> (Some (Errorf ''deleting admin password rotation CronJob: %w'' [Wrap e]), w1)
      | (None, w1) \<Rightarrow>
          (case delete_objects (kv_delete E) (rotation_objects k) w1 of
             (Some e, w2) \<Rightarrow> (Some e, w2)
           | (None, w2) \<Rightarrow>
               (case PruneImmutableConfigMaps im_meta (kv_config_maps E) (ko_meta k)
                       \<lparr>po_base = adminPasswordRotateScriptBaseName k, po_namespace = ko_namespace k, po_current = [], po_retain = 0\<rparr> w2 of
                  (Some e, w3) \<Rightarrow> (Some (Errorf ''pruning admin password rotate script ConfigMaps: %w'' [Wrap e]), w3)
                | (None, w3) \<Rightarrow> (None, w3))))"

text \<open>Steps 5 to 9 of the enabled branch.\<close>

definition configure_password_rotation ::
  "('u, 'w) keys_env \<Rightarrow> string \<Rightarrow> PasswordRotationSpec \<Rightarrow> secret \<Rightarrow> 'w ks_step" where
  "configure_password_rotation E script pr push_source s =
     (let (k, w) = s; fail = (\<lambda>f e w. ((zero_result, Some (Errorf f [Wrap e])), k, w));
          ready = (\<lambda>w. ((zero_result, None), report (kv_meta E) conditionTypePasswordRotationReady CTrue ''PasswordRotationConfigured''
                    (Msg ''Admin password rotation CronJob is configured'' []) k, w))
      in case ensureAdminPasswordRotationRBAC E k w of
           (Some e, w1) \<Rightarrow> fail ''ensuring admin password rotation RBAC: %w'' e w1
         | (None, w1) \<Rightarrow>
             (case CreateImmutableConfigMap (kv_sha E) (kv_own_config_map E) (kv_config_maps E) (ko_meta k)
                     (adminPasswordRotateScriptBaseName k) (ko_namespace k) [(''admin_password_rotate.sh'', script)] w1 of
                (Inl e, w2) \<Rightarrow> fail ''creating admin password rotate script ConfigMap: %w'' e w2
              | (Inr script_map, w2) \<Rightarrow>
                  (case EnsureCronJob (kv_cronjobs E) (ko_meta k) (adminPasswordRotationCronJob k pr script_map) w2 of
                     (Some e, w3) \<Rightarrow> fail ''ensuring admin password rotation cronjob: %w'' e w3
                   | (None, w3) \<Rightarrow>
                       if adminPasswordPushSourceReady (Some push_source) (normalizedAdminPasswordLength k)
                       then (case EnsurePushSecret (kv_push E) (ko_meta k) (adminPasswordPushSecret k) w3 of
                               (Some e, w4) \<Rightarrow> fail ''ensuring admin password pushsecret: %w'' e w4
                             | (None, w4) \<Rightarrow> ready w4)
                       else ready w3)))"

definition reconcilePasswordRotation :: "('u, 'w) keys_env \<Rightarrow> string \<Rightarrow> 'w ks_step" where
  "reconcilePasswordRotation E script s =
     (let (k, w) = s; say = report (kv_meta E) conditionTypePasswordRotationReady;
          teardown = (case teardownPasswordRotation E k w of
             (Some e, w1) \<Rightarrow> ((zero_result, Some e), k, w1)
           | (None, w1) \<Rightarrow>
               ((zero_result, None), say CTrue ''RotationDisabled''
                  (Msg ''Scheduled admin password rotation is disabled; Model B resources removed'' []) k, w1))
      in case ks_password_rotation (ko_spec k) of
           None \<Rightarrow> teardown
         | Some pr \<Rightarrow>
             if \<not> pw_enabled pr then teardown
             else (case ensureAdminPasswordPushSourceSecret E k w of
               (Inl e, w1) \<Rightarrow> ((zero_result, Some e), k, w1)
             | (Inr push_source, w1) \<Rightarrow>
                 (case ensureStagingSecret E k (adminPasswordStagingSecretName k) ''admin-password'' w1 of
                    (Inl e, w2) \<Rightarrow> ((zero_result, Some e), k, w2)
                  | (Inr staging, w2) \<Rightarrow>
                      (case applyAdminPasswordRotation E (Some staging) push_source (normalizedAdminPasswordLength k)
                              (observeRotationAge E k (Some push_source) (Some staging) ''admin-password'' w2) of
                         ((_, Some e), w3) \<Rightarrow> ((zero_result, Some (Errorf ''applying admin password rotation output: %w'' [Wrap e])), k, w3)
                       | ((True, None), w3) \<Rightarrow>
                           ((zero_result\<lparr>requeue := True\<rparr>, None),
                            say CTrue ''AdminPasswordRotated'' (Msg ''rotation applied; staging secret cleared'' []) k, w3)
                       | ((False, None), w3) \<Rightarrow> configure_password_rotation E script pr push_source (k, w3)))))"

section \<open>What validation accepts\<close>

definition wf_key :: "string \<Rightarrow> bool" where
  "wf_key v \<longleftrightarrow> length v = 44 \<and> (case b64_decode v of None \<Rightarrow> False | Some d \<Rightarrow> length d = 32)"

lemma format_error_None: "format_error keys idxs = None \<longleftrightarrow> list_all (\<lambda>i. wf_key (entry keys i)) idxs"
  by (induction idxs) (auto simp: wf_key_def Let_def split: option.splits)

lemma format_error_sentinel:
  "format_error keys idxs = Some e \<Longrightarrow>
     is_sentinel ''invalid key format'' e \<and> \<not> is_sentinel ''duplicate keys detected'' e \<and> \<not> is_sentinel ''key count out of range'' e"
  by (induction idxs) (auto simp: ErrInvalidKeyFormat_def Let_def split: option.splits if_splits)

lemma duplicate_of_None: "duplicate_of keys i js = None \<longleftrightarrow> entry keys i \<notin> entry keys ` set js"
  by (induction js) auto

lemma duplicate_error_None: "duplicate_error keys is = None \<longleftrightarrow> distinct (map (entry keys) is)"
proof (induction "is")
  case (Cons i js)
  then show ?case using duplicate_of_None [of keys i js] by (cases "duplicate_of keys i js") auto
qed simp

lemma duplicate_of_sentinel:
  "duplicate_of keys i js = Some e \<Longrightarrow>
     is_sentinel ''duplicate keys detected'' e \<and> \<not> is_sentinel ''invalid key format'' e \<and> \<not> is_sentinel ''key count out of range'' e"
  by (induction js) (auto simp: ErrDuplicateKeys_def split: if_splits)

lemma duplicate_error_sentinel:
  "duplicate_error keys is = Some e \<Longrightarrow>
     is_sentinel ''duplicate keys detected'' e \<and> \<not> is_sentinel ''invalid key format'' e \<and> \<not> is_sentinel ''key count out of range'' e"
  by (induction "is") (auto split: option.splits dest: duplicate_of_sentinel)

text \<open>Every key is looked at once, so the order of the indices does not matter.\<close>

lemma map_entry_keys: "wf_gomap m \<Longrightarrow> map (entry m) (map fst m) = map snd m"
  by (auto simp: entry_def wf_gomap_def)

lemma mset_map_sort: "mset (map f (sort xs)) = mset (map f xs)"
  by (simp only: mset_map mset_sort)

lemma mset_entry_sorted: "wf_gomap m \<Longrightarrow> mset (map (entry m) (sorted_keys m)) = mset (map snd m)"
  by (simp only: sorted_keys_def mset_map_sort map_entry_keys)

lemma distinct_entry_sorted: "wf_gomap m \<Longrightarrow> distinct (map (entry m) (sorted_keys m)) \<longleftrightarrow> distinct (map snd m)"
  using mset_entry_sorted mset_eq_imp_distinct_iff by blast

lemma all_entry_sorted: "wf_gomap m \<Longrightarrow> list_all (\<lambda>i. P (entry m i)) (sorted_keys m) \<longleftrightarrow> list_all P (map snd m)"
proof -
  assume "wf_gomap m"
  then have "set (map (entry m) (sorted_keys m)) = set (map snd m)" by (intro mset_eq_setD mset_entry_sorted)
  then have "list_all P (map (entry m) (sorted_keys m)) \<longleftrightarrow> list_all P (map snd m)" unfolding list_all_iff by simp
  then show ?thesis by (simp add: list_all_iff)
qed

lemma validateRotationOutput_None:
  assumes "wf_gomap keys"
  shows "validateRotationOutput keys lo hi = None \<longleftrightarrow>
     lo \<le> int (length keys) \<and> int (length keys) \<le> hi \<and> list_all wf_key (map snd keys) \<and> distinct (map snd keys)"
proof -
  have f: "format_error keys (sorted_keys keys) = None \<longleftrightarrow> list_all wf_key (map snd keys)"
    using format_error_None all_entry_sorted [OF assms] by simp
  have d: "duplicate_error keys (sorted_keys keys) = None \<longleftrightarrow> distinct (map snd keys)"
    using duplicate_error_None distinct_entry_sorted [OF assms] by simp
  show ?thesis unfolding validateRotationOutput_def Let_def using f d by (auto split: option.splits)
qed

text \<open>
  Distinct values need not be distinct keys: the decoder ignores the two spare bits of the last character, so
  four texts stand for each key and the duplicate check tells them apart.
\<close>

lemma b64_decode_spare_bits:
  "b64_decode (b64_encode key) = Some key \<and> b64_decode ''AB=='' = b64_decode ''AA==''"
  by (simp only: b64_decode_encode) (simp add: b64_decode_def b64_value_def)

section \<open>Initial keys\<close>

lemma wf_key_encode: "length key = 32 \<Longrightarrow> wf_key (b64_encode key)"
  by (simp add: wf_key_def length_b64_encode)

definition random_ok :: "('u, 'w) keys_env \<Rightarrow> bool" where
  "random_ok E \<longleftrightarrow> (\<forall>n w b w'. kv_random E n w = (Inr b, w') \<longrightarrow> length b = n)"

lemma generateFernetKey_wf: "random_ok E \<Longrightarrow> generateFernetKey E w = (Inr key, w') \<Longrightarrow> wf_key key"
proof -
  assume r: "random_ok E" and g: "generateFernetKey E w = (Inr key, w')"
  then obtain b w1 where b: "kv_random E 32 w = (Inr b, w1)" "key = b64_encode b"
    by (auto simp: generateFernetKey_def split: prod.splits sum.splits)
  with r have "length b = 32" unfolding random_ok_def by blast
  then show "wf_key key" unfolding b(2) by (rule wf_key_encode)
qed

lemma generate_keys_shape:
  assumes "random_ok E"
  shows "generate_keys E i n w = (Inr data, w') \<Longrightarrow>
    map fst data = map show_nat [i..<i + n] \<and> list_all wf_key (map snd data)"
proof (induction n arbitrary: i w data w')
  case (Suc n)
  obtain key w1 rest w2 where g: "generateFernetKey E w = (Inr key, w1)" "generate_keys E (Suc i) n w1 = (Inr rest, w2)"
    "data = (show_nat i, key) # rest"
    using Suc.prems by (auto split: prod.splits sum.splits)
  then show ?case using Suc.IH [OF g(2)] generateFernetKey_wf [OF assms g(1)] by (simp add: upt_rec)
qed simp

lemma generate_keys_wf: "random_ok E \<Longrightarrow> generate_keys E i n w = (Inr data, w') \<Longrightarrow> wf_gomap data \<and> length data = n"
proof -
  assume "random_ok E" "generate_keys E i n w = (Inr data, w')"
  then have "map fst data = map show_nat [i..<i + n]" by (blast dest: generate_keys_shape)
  moreover have "distinct (map show_nat [i..<i + n])" by (auto simp: distinct_map inj_on_def show_nat_inj)
  ultimately show ?thesis unfolding wf_gomap_def by (metis length_map length_upt add_diff_cancel_left')
qed

end
