(* ===== verification/KeystoneController.thy ===== *)
theory KeystoneController
  imports KeystoneKeys Wiring
begin

text \<open>
  The reconcile loop of the Keystone operator, \<open>keystone_controller.go\<close> and \<open>instrumentation.go\<close>, the deletion
  of its OpenBao backups (\<open>reconcile_secrets.go\<close>) and its watches (\<open>keystone_watches.go\<close>).
\<close>

section \<open>Finalizers\<close>

definition keystoneFinalizer :: string where
  "keystoneFinalizer = ''keystone.openstack.c5c3.io/finalizer''"
definition keystoneOpenBaoFinalizer :: string where
  "keystoneOpenBaoFinalizer = ''keystone.openstack.c5c3.io/openbao-finalizer''"
definition esoPushSecretFinalizer :: string where
  "esoPushSecretFinalizer = ''pushsecret.externalsecrets.io/finalizer''"
definition OpenBaoAdoptionWaitTimeout :: duration where
  "OpenBaoAdoptionWaitTimeout = minutes 10"

text \<open>\<open>controllerutil.ContainsFinalizer\<close>, \<open>AddFinalizer\<close> and \<open>RemoveFinalizer\<close> on a Keystone.\<close>

definition has_finalizer :: "Keystone \<Rightarrow> string \<Rightarrow> bool" where
  "has_finalizer k f \<longleftrightarrow> f \<in> set (m_finalizers (ko_meta k))"

definition add_finalizer :: "Keystone \<Rightarrow> string \<Rightarrow> Keystone" where
  "add_finalizer k f =
     (if has_finalizer k f then k else k\<lparr>ko_meta := (ko_meta k)\<lparr>m_finalizers := m_finalizers (ko_meta k) @ [f]\<rparr>\<rparr>)"

definition remove_finalizer :: "Keystone \<Rightarrow> string \<Rightarrow> Keystone" where
  "remove_finalizer k f = k\<lparr>ko_meta := (ko_meta k)\<lparr>m_finalizers := removeAll f (m_finalizers (ko_meta k))\<rparr>\<rparr>"

section \<open>The OpenBao backups\<close>

definition openBaoBackupPushSecretNames :: "Keystone \<Rightarrow> string list" where
  "openBaoBackupPushSecretNames k = [ko_name k @ ''-fernet-keys-backup'', ko_name k @ ''-credential-keys-backup'']"

fun any_finalizer :: "string \<Rightarrow> string list \<Rightarrow> bool" where
  "any_finalizer f [] = False"
| "any_finalizer f (x # xs) = (if x = f then True else any_finalizer f xs)"

definition hasESOFinalizer :: "push_secret \<Rightarrow> bool" where
  "hasESOFinalizer ps = any_finalizer esoPushSecretFinalizer (m_finalizers (ps_meta ps))"

definition setOpenBaoFinalizerBlockedCondition :: "meta_api \<Rightarrow> string \<Rightarrow> Keystone \<Rightarrow> Keystone" where
  "setOpenBaoFinalizerBlockedCondition K stuck k =
     report K ''SecretsReady'' CFalse ''OpenBaoFinalizerBlocked''
       (Msg ''Waiting for PushSecret %q to be garbage-collected before releasing openbao-finalizer'' [Str stuck]) k"

definition setOpenBaoWaitingForESOAdoptionCondition :: "meta_api \<Rightarrow> string \<Rightarrow> Keystone \<Rightarrow> Keystone" where
  "setOpenBaoWaitingForESOAdoptionCondition K unadopted k =
     report K ''SecretsReady'' CFalse ''WaitingForESOAdoption''
       (Msg ''Waiting for ESO to adopt PushSecret %q (cleanup finalizer not yet installed)'' [Str unadopted]) k"

text \<open>Pass 0: what it finds first, in the order of the names.\<close>

datatype adoption = Adopted | Unadopted string | AdoptionError err

fun adoption_pass :: "(push_secret, 'w) kclient \<Rightarrow> string \<Rightarrow> string list \<Rightarrow> 'w \<Rightarrow> adoption" where
  "adoption_pass C namespace [] w = Adopted"
| "adoption_pass C namespace (name # names) w =
     (case k_get C (namespace, name) w of
        Inl e \<Rightarrow>
          if is_not_found e then adoption_pass C namespace names w
          else AdoptionError (Errorf ''getting PushSecret %s for adoption check: %w'' [Strs [namespace, name], Wrap e])
      | Inr ps \<Rightarrow>
          if m_deleting (ps_meta ps) then adoption_pass C namespace names w
          else if \<not> hasESOFinalizer ps then Unadopted name
          else adoption_pass C namespace names w)"

definition bare_push_secret :: "string \<Rightarrow> string \<Rightarrow> push_secret" where
  "bare_push_secret namespace name =
     \<lparr>ps_meta = blank_meta\<lparr>m_name := name, m_namespace := namespace\<rparr>, ps_deletion_policy = [], ps_stores = [],
      ps_selector = [], ps_data = []\<rparr>"

text \<open>Pass 1 deletes every backup; pass 2 gives the first that is still there.\<close>

fun delete_pass :: "(push_secret, 'w) kclient \<Rightarrow> string \<Rightarrow> string list \<Rightarrow> 'w \<Rightarrow> err option \<times> 'w" where
  "delete_pass C namespace [] w = (None, w)"
| "delete_pass C namespace (name # names) w =
     (case k_delete C no_opts (bare_push_secret namespace name) w of
        (None, w') \<Rightarrow> delete_pass C namespace names w'
      | (Some e, w') \<Rightarrow>
          if \<not> is_not_found e then (Some (Errorf ''deleting PushSecret %s: %w'' [Strs [namespace, name], Wrap e]), w')
          else delete_pass C namespace names w')"

fun gone_pass :: "(push_secret, 'w) kclient \<Rightarrow> string \<Rightarrow> string list \<Rightarrow> 'w \<Rightarrow> string option result" where
  "gone_pass C namespace [] w = Inr None"
| "gone_pass C namespace (name # names) w =
     (case k_get C (namespace, name) w of
        Inl e \<Rightarrow>
          if is_not_found e then gone_pass C namespace names w
          else Inl (Errorf ''getting PushSecret %s: %w'' [Strs [namespace, name], Wrap e])
      | Inr _ \<Rightarrow> Inr (Some name))"

text \<open>
  \<open>dl_since_deletion\<close> is \<open>time.Since\<close> the deletion timestamp, \<open>dl_resources\<close> the MariaDB kinds of
  \<open>database.FinalizeResources\<close>, \<open>dl_forget_metrics\<close> removes the series of a resource.
\<close>

record 'w deletion_env =
  dl_meta :: meta_api
  dl_push :: "(push_secret, 'w) kclient"
  dl_update :: "Keystone \<Rightarrow> 'w \<Rightarrow> Keystone result \<times> 'w"
  dl_resources :: "'w resource_ops list"
  dl_log :: "event \<Rightarrow> 'w \<Rightarrow> 'w"
  dl_since_deletion :: "Keystone \<Rightarrow> 'w \<Rightarrow> duration"
  dl_forget_metrics :: "string \<Rightarrow> string \<Rightarrow> 'w \<Rightarrow> 'w"
  dl_evict_probe :: "objkey \<Rightarrow> 'w \<Rightarrow> 'w"
  dl_evict_config :: "objkey \<Rightarrow> 'w \<Rightarrow> 'w"

definition timed_out_event :: "string \<Rightarrow> event" where
  "timed_out_event name = \<lparr>ev_type = EvWarning, ev_reason = ''ESOAdoptionTimedOut'', ev_message =
     Msg (''PushSecret %q not adopted by ESO within %s of deletion; force-deleting '' @
          ''to release the openbao-finalizer (the OpenBao kv-v2 path may be '' @
          ''orphaned only if ESO is not running)'') [Str name, Num OpenBaoAdoptionWaitTimeout]\<rparr>"

text \<open>Passes 1 and 2.\<close>

definition delete_backups :: "'w deletion_env \<Rightarrow> Keystone \<times> 'w \<Rightarrow> (bool \<times> err option) \<times> Keystone \<times> 'w" where
  "delete_backups D s =
     (let (k, w) = s; names = openBaoBackupPushSecretNames k in
      case delete_pass (dl_push D) (ko_namespace k) names w of
        (Some e, w1) \<Rightarrow> ((False, Some e), k, w1)
      | (None, w1) \<Rightarrow>
          (case gone_pass (dl_push D) (ko_namespace k) names w1 of
             Inl e \<Rightarrow> ((False, Some e), k, w1)
           | Inr (Some stuck) \<Rightarrow> ((False, None), setOpenBaoFinalizerBlockedCondition (dl_meta D) stuck k, w1)
           | Inr None \<Rightarrow> ((True, None), k, w1)))"

definition finalizeOpenBaoSecrets :: "'w deletion_env \<Rightarrow> Keystone \<times> 'w \<Rightarrow> (bool \<times> err option) \<times> Keystone \<times> 'w" where
  "finalizeOpenBaoSecrets D s =
     (let (k, w) = s;
          deadline_passed = (m_deleting (ko_meta k) \<and> dl_since_deletion D k w > OpenBaoAdoptionWaitTimeout)
      in case adoption_pass (dl_push D) (ko_namespace k) (openBaoBackupPushSecretNames k) w of
           AdoptionError e \<Rightarrow> ((False, Some e), k, w)
         | Unadopted name \<Rightarrow>
             if deadline_passed then delete_backups D (k, dl_log D (timed_out_event name) w)
             else ((False, None), setOpenBaoWaitingForESOAdoptionCondition (dl_meta D) name k, w)
         | Adopted \<Rightarrow> delete_backups D (k, w))"

fun hasLive :: "(push_secret, 'w) kclient \<Rightarrow> string \<Rightarrow> string list \<Rightarrow> 'w \<Rightarrow> bool result" where
  "hasLive C namespace [] w = Inr False"
| "hasLive C namespace (name # names) w =
     (case k_get C (namespace, name) w of
        Inl e \<Rightarrow>
          if is_not_found e then hasLive C namespace names w
          else Inl (Errorf ''checking PushSecret %s: %w'' [Strs [namespace, name], Wrap e])
      | Inr ps \<Rightarrow> if \<not> m_deleting (ps_meta ps) \<and> hasESOFinalizer ps then Inr True else hasLive C namespace names w)"

definition hasLiveOpenBaoBackupPushSecrets :: "'w deletion_env \<Rightarrow> Keystone \<Rightarrow> 'w \<Rightarrow> bool result" where
  "hasLiveOpenBaoBackupPushSecrets D k w = hasLive (dl_push D) (ko_namespace k) (openBaoBackupPushSecretNames k) w"

section \<open>Deletion of a resource\<close>

definition mariaDBResourceKey :: "Keystone \<Rightarrow> objkey" where
  "mariaDBResourceKey k = (ko_namespace k, ko_name k)"

definition hasLiveMariaDBResources :: "'w deletion_env \<Rightarrow> Keystone \<Rightarrow> 'w \<Rightarrow> bool result" where
  "hasLiveMariaDBResources D k w = HasLiveResources (dl_resources D) (mariaDBResourceKey k) w"

definition finalizeDatabaseResources :: "'w deletion_env \<Rightarrow> Keystone \<Rightarrow> 'w \<Rightarrow> err option \<times> 'w" where
  "finalizeDatabaseResources D k w = FinalizeResources (dl_resources D) (mariaDBResourceKey k) w"

definition normal_event :: "string \<Rightarrow> string \<Rightarrow> event" where
  "normal_event reason text = \<lparr>ev_type = EvNormal, ev_reason = reason, ev_message = Msg text []\<rparr>"

definition reconcileDelete :: "'w deletion_env \<Rightarrow> 'w ks_step" where
  "reconcileDelete D s =
     (let (k, w) = s in
      if \<not> has_finalizer k keystoneFinalizer then ((zero_result, None), k, w)
      else case hasLiveMariaDBResources D k w of
        Inl e \<Rightarrow> ((zero_result, Some e), k, w)
      | Inr live \<Rightarrow>
          (let w1 = (if live then dl_log D (normal_event ''FinalizingDatabase''
                       ''Cleaning up MariaDB Database, User, and Grant before removing Keystone'') w else w) in
           case finalizeDatabaseResources D k w1 of
             (Some e, w2) \<Rightarrow> ((zero_result, Some e), k, w2)
           | (None, w2) \<Rightarrow>
               (let w3 = dl_log D (normal_event ''DatabaseFinalized''
                      ''MariaDB Database, User, and Grant marked for deletion; releasing finalizer'') w2;
                    k1 = remove_finalizer k keystoneFinalizer in
                case dl_update D k1 w3 of
                  (Inl e, w4) \<Rightarrow> ((zero_result, Some (Errorf ''removing finalizer: %w'' [Wrap e])), k1, w4)
                | (Inr k2, w4) \<Rightarrow>
                    ((zero_result, None), k2,
                     dl_evict_config D (key_of (ko_meta k2)) (dl_evict_probe D (key_of (ko_meta k2))
                       (dl_forget_metrics D (ko_name k2) (ko_namespace k2) w4))))))"

definition reconcileDeleteOpenBao :: "'w deletion_env \<Rightarrow> 'w ks_step" where
  "reconcileDeleteOpenBao D s =
     (let (k, w) = s in
      if \<not> has_finalizer k keystoneOpenBaoFinalizer then ((zero_result, None), k, w)
      else case hasLiveOpenBaoBackupPushSecrets D k w of
        Inl e \<Rightarrow> ((zero_result, Some e), k, w)
      | Inr live \<Rightarrow>
          (let w1 = (if live then dl_log D (normal_event ''FinalizingOpenBaoSecrets''
                       ''Cleaning up OpenBao backup PushSecrets before removing Keystone'') w else w) in
           case finalizeOpenBaoSecrets D (k, w1) of
             ((_, Some e), k1, w2) \<Rightarrow> ((zero_result, Some e), k1, w2)
           | ((False, None), k1, w2) \<Rightarrow> ((after RequeueSecretPolling, None), k1, w2)
           | ((True, None), k1, w2) \<Rightarrow>
               (let w3 = dl_log D (normal_event ''OpenBaoSecretsFinalized''
                      ''OpenBao backup PushSecrets deleted; releasing openbao-finalizer'') w2;
                    k2 = remove_finalizer k1 keystoneOpenBaoFinalizer in
                case dl_update D k2 w3 of
                  (Inl e, w4) \<Rightarrow> ((zero_result, Some (Errorf ''removing openbao finalizer: %w'' [Wrap e])), k2, w4)
                | (Inr k3, w4) \<Rightarrow> ((zero_result, None), k3, w4))))"

section \<open>Conditions and instrumentation\<close>

definition subConditionTypes :: "string list" where
  "subConditionTypes =
     [''SecretsReady'', ''FernetKeysReady'', ''CredentialKeysReady'', ''DatabaseReady'', ''DatabaseTLSReady'', ''PolicyValidReady'',
      ''DeploymentReady'', ''KeystoneAPIReady'', ''HPAReady'', ''NetworkPolicyReady'', ''HTTPRouteReady'', ''BootstrapReady'',
      ''TrustFlushReady'', ''PasswordRotationReady'', ''IdentityBackendsReady'']"

definition subReconcilerConditionTypes :: "string gomap" where
  "subReconcilerConditionTypes =
     [(''Secrets'', ''SecretsReady''), (''DBConnectionSecret'', ''SecretsReady''), (''Config'', ''SecretsReady''),
      (''IdentityBackends'', ''IdentityBackendsReady''), (''FernetKeys'', ''FernetKeysReady''),
      (''CredentialKeys'', ''CredentialKeysReady''), (''NetworkPolicy'', ''NetworkPolicyReady''), (''Database'', ''DatabaseReady''),
      (''DatabaseTLS'', ''DatabaseTLSReady''), (''PolicyValidation'', ''PolicyValidReady''), (''Deployment'', ''DeploymentReady''),
      (''HTTPRoute'', ''HTTPRouteReady''), (''HealthCheck'', ''KeystoneAPIReady''), (''HPA'', ''HPAReady''),
      (''Bootstrap'', ''BootstrapReady''), (''TrustFlush'', ''TrustFlushReady''), (''PasswordRotation'', ''PasswordRotationReady'')]"

definition keystone_lens :: "Keystone cond_lens" where
  "keystone_lens = \<lparr>conds_of = ko_conditions, with_conds = put_conditions\<rparr>"

definition keystoneSkeleton :: "Keystone skeleton" where
  "keystoneSkeleton = \<lparr>sk_types = subConditionTypes, sk_conds = keystone_lens, sk_generation = ko_generation\<rparr>"

definition conditionReasonConfigError :: string where
  "conditionReasonConfigError = ''ConfigError''"

definition markConfigFailed :: "meta_api \<Rightarrow> err \<Rightarrow> Keystone \<Rightarrow> Keystone" where
  "markConfigFailed K e k = MarkFailed K keystoneSkeleton ''SecretsReady'' conditionReasonConfigError e k"

definition setReadyCondition :: "meta_api \<Rightarrow> Keystone \<Rightarrow> Keystone" where
  "setReadyCondition K k = SetReady K keystoneSkeleton k"

text \<open>\<open>statusBefore\<close> is the snapshot the pass began with.\<close>

definition observed :: "Keystone \<Rightarrow> Keystone" where
  "observed k = k\<lparr>ko_status := (ko_status k)\<lparr>kt_observed_generation := ko_generation k\<rparr>\<rparr>"

definition updateStatus ::
  "meta_api \<Rightarrow> (KeystoneStatus \<Rightarrow> KeystoneStatus \<Rightarrow> bool) \<Rightarrow> (Keystone \<Rightarrow> 'w \<Rightarrow> Keystone result \<times> 'w) \<Rightarrow> KeystoneStatus \<Rightarrow>
     ctrl_result \<Rightarrow> err option \<Rightarrow> 'w ks_step" where
  "updateStatus K sem_eq status_update before result reconcile_err s =
     SkeletonUpdateStatus K keystoneSkeleton sem_eq ko_status status_update (Some before) (Some observed) result reconcile_err s"

section \<open>The pipeline\<close>

text \<open>The sub-reconcilers of \<open>KeystoneReconciler\<close>.\<close>

record 'w sub_reconcilers =
  su_secrets :: "'w ks_step"
  su_database_tls :: "'w ks_step"
  su_connection :: "Keystone \<times> 'w \<Rightarrow> (ctrl_result \<times> string \<times> err option) \<times> Keystone \<times> 'w"
  su_backends :: "Keystone \<times> 'w \<Rightarrow> (string \<times> federationProjection option \<times> err option) \<times> Keystone \<times> 'w"
  su_config :: "bool \<Rightarrow> federationProjection option \<Rightarrow> Keystone \<times> 'w \<Rightarrow> (string \<times> err option) \<times> Keystone \<times> 'w"
  su_fernet :: "string \<Rightarrow> string \<Rightarrow> 'w ks_step"
  su_credential :: "string \<Rightarrow> string \<Rightarrow> 'w ks_step"
  su_network :: "federationProjection option \<Rightarrow> 'w ks_step"
  su_database :: "string \<Rightarrow> string \<Rightarrow> 'w ks_step"
  su_policy :: "string \<Rightarrow> string \<Rightarrow> 'w ks_step"
  su_deployment :: "string \<Rightarrow> string \<Rightarrow> string \<Rightarrow> federationProjection option \<Rightarrow> 'w ks_step"
  su_prune_config :: "Keystone \<Rightarrow> string \<Rightarrow> 'w \<Rightarrow> err option \<times> 'w"
  su_prune_domains :: "Keystone \<Rightarrow> string \<Rightarrow> 'w \<Rightarrow> err option \<times> 'w"
  su_prune_federation :: "Keystone \<Rightarrow> string \<Rightarrow> 'w \<Rightarrow> err option \<times> 'w"
  su_route :: "'w ks_step"
  su_health :: "'w ks_step"
  su_hpa :: "'w ks_step"
  su_bootstrap :: "string \<Rightarrow> string \<Rightarrow> 'w ks_step"
  su_trust_flush :: "string \<Rightarrow> string \<Rightarrow> 'w ks_step"
  su_password :: "string \<Rightarrow> 'w ks_step"

text \<open>The variables the closures of the pipeline share.\<close>

record 'w pass =
  ps_keystone :: Keystone
  ps_world :: 'w
  ps_config_map :: string
  ps_dsn_hash :: string
  ps_domains :: string
  ps_federation :: "federationProjection option"

definition on_keystone :: "'w ks_step \<Rightarrow> 'w pass step_fn" where
  "on_keystone f p =
     (let (r, k, w) = f (ps_keystone p, ps_world p) in (r, p\<lparr>ps_keystone := k, ps_world := w\<rparr>))"

definition connection_step :: "'w sub_reconcilers \<Rightarrow> 'w pass step_fn" where
  "connection_step S p =
     (let ((res, hash, e), k, w) = su_connection S (ps_keystone p, ps_world p)
      in ((res, e), p\<lparr>ps_keystone := k, ps_world := w, ps_dsn_hash := hash\<rparr>))"

definition backends_step :: "'w sub_reconcilers \<Rightarrow> 'w pass step_fn" where
  "backends_step S p =
     (let ((domains, federation, e), k, w) = su_backends S (ps_keystone p, ps_world p)
      in ((zero_result, e), p\<lparr>ps_keystone := k, ps_world := w, ps_domains := domains, ps_federation := federation\<rparr>))"

definition config_step :: "meta_api \<Rightarrow> 'w sub_reconcilers \<Rightarrow> 'w pass step_fn" where
  "config_step K S p =
     (let ((name, e), k, w) = su_config S (ps_domains p \<noteq> []) (ps_federation p) (ps_keystone p, ps_world p);
          k' = (case e of None \<Rightarrow> k | Some x \<Rightarrow> markConfigFailed K x k)
      in ((zero_result, e), p\<lparr>ps_keystone := k', ps_world := w, ps_config_map := name\<rparr>))"

fun prune_all :: "('w \<Rightarrow> err option \<times> 'w) list \<Rightarrow> 'w \<Rightarrow> err option \<times> 'w" where
  "prune_all [] w = (None, w)"
| "prune_all (f # fs) w = (case f w of (Some e, w') \<Rightarrow> (Some e, w') | (None, w') \<Rightarrow> prune_all fs w')"

definition prune_step :: "meta_api \<Rightarrow> 'w sub_reconcilers \<Rightarrow> 'w pass step_fn" where
  "prune_step K S p =
     (let k = ps_keystone p;
          federation_secret = (case ps_federation p of None \<Rightarrow> [] | Some f \<Rightarrow> fp_secret f)
      in case prune_all [su_prune_config S k (ps_config_map p), su_prune_domains S k (ps_domains p),
                         su_prune_federation S k federation_secret] (ps_world p) of
           (Some e, w) \<Rightarrow> ((zero_result, Some e), p\<lparr>ps_keystone := markConfigFailed K e k, ps_world := w\<rparr>)
         | (None, w) \<Rightarrow> ((zero_result, None), p\<lparr>ps_world := w\<rparr>))"

text \<open>\<open>order\<close> is the order in which the scheduler runs the members of the two groups.\<close>

definition reconcileParallelGroup ::
  "meta_api \<Rightarrow> (Keystone \<times> 'w) instrument_fn \<Rightarrow> nat list \<Rightarrow> (Keystone, 'w) parallel_step list \<Rightarrow> 'w ks_step" where
  "reconcileParallelGroup K instr order subs s = SkeletonRunParallelGroup K keystoneSkeleton instr subs order s"

definition member :: "string \<Rightarrow> string \<Rightarrow> 'w ks_step \<Rightarrow> (Keystone, 'w) parallel_step" where
  "member name ct f = \<lparr>p_name = name, p_condition = ct, p_fn = f\<rparr>"

definition first_group :: "'w sub_reconcilers \<Rightarrow> 'w pass \<Rightarrow> (Keystone, 'w) parallel_step list" where
  "first_group S p =
     [member ''FernetKeys'' ''FernetKeysReady'' (su_fernet S (ps_config_map p) (ps_domains p)),
      member ''CredentialKeys'' ''CredentialKeysReady'' (su_credential S (ps_config_map p) (ps_domains p)),
      member ''NetworkPolicy'' ''NetworkPolicyReady'' (su_network S (ps_federation p))]"

definition second_group :: "'w sub_reconcilers \<Rightarrow> 'w pass \<Rightarrow> (Keystone, 'w) parallel_step list" where
  "second_group S p =
     [member ''HTTPRoute'' ''HTTPRouteReady'' (su_route S), member ''HealthCheck'' ''KeystoneAPIReady'' (su_health S),
      member ''HPA'' ''HPAReady'' (su_hpa S),
      member ''Bootstrap'' ''BootstrapReady'' (su_bootstrap S (ps_config_map p) (ps_domains p)),
      member ''TrustFlush'' ''TrustFlushReady'' (su_trust_flush S (ps_config_map p) (ps_domains p))]"

definition named :: "string \<Rightarrow> 's step_fn \<Rightarrow> 's step" where
  "named name f = \<lparr>step_name = name, step_fn = f\<rparr>"

definition keystone_pipeline ::
  "meta_api \<Rightarrow> (Keystone \<times> 'w) instrument_fn \<Rightarrow> nat list \<Rightarrow> nat list \<Rightarrow> 'w sub_reconcilers \<Rightarrow> 'w pass step list" where
  "keystone_pipeline K instr order1 order2 S =
     [named ''Secrets'' (on_keystone (su_secrets S)),
      named ''DatabaseTLS'' (on_keystone (su_database_tls S)),
      named ''DBConnectionSecret'' (connection_step S),
      named ''IdentityBackends'' (backends_step S),
      named ''Config'' (config_step K S),
      named [] (\<lambda>p. on_keystone (reconcileParallelGroup K instr order1 (first_group S p)) p),
      named ''Database'' (\<lambda>p. on_keystone (su_database S (ps_config_map p) (ps_domains p)) p),
      named ''PolicyValidation'' (\<lambda>p. on_keystone (su_policy S (ps_config_map p) (ps_domains p)) p),
      named ''Deployment''
        (\<lambda>p. on_keystone (su_deployment S (ps_config_map p) (ps_dsn_hash p) (ps_domains p) (ps_federation p)) p),
      named [] (prune_step K S),
      named [] (\<lambda>p. on_keystone (reconcileParallelGroup K instr order2 (second_group S p)) p),
      named ''PasswordRotation'' (\<lambda>p. on_keystone (su_password S (ps_config_map p)) p)]"

section \<open>The loop\<close>

text \<open>
  What \<open>Reconcile\<close> uses: the read and write of the resource, its status write, the deletion, the
  instrumentation of a pass and of a member of a group, and the scheduler's choices.
\<close>

record 'w loop_env =
  lp_meta :: meta_api
  lp_client :: "(Keystone, 'w) kclient"
  lp_deletion :: "'w deletion_env"
  lp_sem_eq :: "KeystoneStatus \<Rightarrow> KeystoneStatus \<Rightarrow> bool"
  lp_status_update :: "Keystone \<Rightarrow> 'w \<Rightarrow> Keystone result \<times> 'w"
  lp_instr :: "'w pass instrument_fn"
  lp_member_instr :: "(Keystone \<times> 'w) instrument_fn"
  lp_order1 :: "nat list"
  lp_order2 :: "nat list"

definition fresh_pass :: "Keystone \<Rightarrow> 'w \<Rightarrow> 'w pass" where
  "fresh_pass k w = \<lparr>ps_keystone = k, ps_world = w, ps_config_map = [], ps_dsn_hash = [], ps_domains = [], ps_federation = None\<rparr>"

definition run_passes :: "'w loop_env \<Rightarrow> 'w sub_reconcilers \<Rightarrow> Keystone \<times> 'w \<Rightarrow> (ctrl_result \<times> err option) \<times> 'w pass" where
  "run_passes L S s =
     RunPipeline (lp_instr L) (keystone_pipeline (lp_meta L) (lp_member_instr L) (lp_order1 L) (lp_order2 L) S)
       (fresh_pass (fst s) (snd s))"

text \<open>Both finalizers are there, so the pipeline runs.\<close>

definition reconcile_live :: "'w loop_env \<Rightarrow> 'w sub_reconcilers \<Rightarrow> 'w ks_step" where
  "reconcile_live L S s =
     (let (k, w) = s; ((result, e), p) = run_passes L S (k, w)
      in updateStatus (lp_meta L) (lp_sem_eq L) (lp_status_update L) (ko_status k) result e (ps_keystone p, ps_world p))"

definition reconcile_deleted :: "'w loop_env \<Rightarrow> 'w ks_step" where
  "reconcile_deleted L s =
     (let (k, w) = s; ((result, e), k1, w1) = reconcileDelete (lp_deletion L) (k, w) in
      if \<not> result_is_zero result \<or> e \<noteq> None then ((result, e), k1, w1)
      else let ((result2, e2), k2, w2) = reconcileDeleteOpenBao (lp_deletion L) (k1, w1) in
        if \<not> result_is_zero result2 \<or> e2 \<noteq> None
        then updateStatus (lp_meta L) (lp_sem_eq L) (lp_status_update L) (ko_status k) result2 e2 (k2, w2)
        else ((zero_result, None), k2, w2))"

definition reconcile_found :: "'w loop_env \<Rightarrow> 'w sub_reconcilers \<Rightarrow> 'w ks_step" where
  "reconcile_found L S s =
     (let (k, w) = s in
      if m_deleting (ko_meta k) then reconcile_deleted L (k, w)
      else case EnsureFinalizer has_finalizer add_finalizer (lp_client L) keystoneFinalizer k w of
        ((_, Some e), k1, w1) \<Rightarrow> ((zero_result, Some e), k1, w1)
      | ((True, None), k1, w1) \<Rightarrow> ((requeue_now, None), k1, w1)
      | ((False, None), k1, w1) \<Rightarrow>
          (case EnsureFinalizer has_finalizer add_finalizer (lp_client L) keystoneOpenBaoFinalizer k1 w1 of
             ((_, Some e), k2, w2) \<Rightarrow> ((zero_result, Some e), k2, w2)
           | ((True, None), k2, w2) \<Rightarrow> ((requeue_now, None), k2, w2)
           | ((False, None), k2, w2) \<Rightarrow> reconcile_live L S (k2, w2)))"

definition Reconcile :: "'w loop_env \<Rightarrow> 'w sub_reconcilers \<Rightarrow> objkey \<Rightarrow> 'w \<Rightarrow> (ctrl_result \<times> err option) \<times> 'w" where
  "Reconcile L S req w =
     (case k_get (lp_client L) req w of
        Inl e \<Rightarrow> if is_not_found e then ((zero_result, None), w)
                 else ((zero_result, Some (Errorf ''fetching Keystone: %w'' [Wrap e])), w)
      | Inr k \<Rightarrow> (case reconcile_found L S (k, w) of (r, _, w') \<Rightarrow> (r, w')))"

section \<open>Watches\<close>

definition keystoneSecretNameExtractor :: "Keystone \<Rightarrow> string list" where
  "keystoneSecretNameExtractor k =
     (let db = sr_name (db_secret_ref (ks_database (ko_spec k))); admin = sr_name (bs_admin_secret (ks_bootstrap (ko_spec k)))
      in (if db \<noteq> [] then [db] else []) @ (if admin \<noteq> [] \<and> admin \<noteq> db then [admin] else []))"

text \<open>\<open>list_ks\<close> is the namespace-scoped list of Keystones; the order of the requests is that of a Go map.\<close>

definition pushSecretToKeystoneMapper ::
  "(string \<Rightarrow> 'w \<Rightarrow> Keystone list result) \<Rightarrow> push_secret \<Rightarrow> 'w \<Rightarrow> objkey set" where
  "pushSecretToKeystoneMapper list_ks ps w =
     (case list_ks (m_namespace (ps_meta ps)) w of
        Inl e \<Rightarrow> {}
      | Inr items \<Rightarrow>
          (\<lambda>k. key_of (ko_meta k)) ` set (filter (\<lambda>k. list_ex (\<lambda>b. b = m_name (ps_meta ps)) (openBaoBackupPushSecretNames k)) items))"

definition finalizersEqualAsSet :: "string list \<Rightarrow> string list \<Rightarrow> bool" where
  "finalizersEqualAsSet a b \<longleftrightarrow> (if length a \<noteq> length b then False else sort a = sort b)"

text \<open>The update rule of the predicate; the other events are admitted.  An absent object is \<open>None\<close>.\<close>

definition pushSecretRelevantChange :: "objmeta option \<Rightarrow> objmeta option \<Rightarrow> bool" where
  "pushSecretRelevantChange old new =
     (case (old, new) of
        (Some a, Some b) \<Rightarrow>
          if m_generation a \<noteq> m_generation b then True
          else if m_deleting a \<noteq> m_deleting b then True
          else \<not> finalizersEqualAsSet (m_finalizers a) (m_finalizers b)
      | _ \<Rightarrow> True)"

section \<open>The written status\<close>

text \<open>The response of the status write carries the status that was sent.\<close>

definition echoes :: "(Keystone \<Rightarrow> 'w \<Rightarrow> Keystone result \<times> 'w) \<Rightarrow> bool" where
  "echoes upd \<longleftrightarrow> (\<forall>k w k' w'. upd k w = (Inr k', w') \<longrightarrow> ko_status k' = ko_status k)"

text \<open>An instrumentation that leaves result and resource alone.\<close>

definition keeps_pass :: "'w pass instrument_fn \<Rightarrow> bool" where
  "keeps_pass instr \<longleftrightarrow> (\<forall>n f p. fst (instr n f p) = fst (f p) \<and> ps_keystone (snd (instr n f p)) = ps_keystone (snd (f p)))"

lemma ko_conditions_put [simp]: "ko_conditions (put_conditions cs k) = cs"
  by (simp add: put_conditions_def)

lemma put_conditions_meta [simp]: "ko_meta (put_conditions cs k) = ko_meta k" "ko_spec (put_conditions cs k) = ko_spec k"
  by (simp_all add: put_conditions_def)

lemma keystone_lens_ok [simp]: "lens_ok keystone_lens"
  by (simp add: lens_ok_def keystone_lens_def put_conditions_def)

lemma keystoneSkeleton_simps [simp]:
  "sk_types keystoneSkeleton = subConditionTypes" "sk_conds keystoneSkeleton = keystone_lens"
  "sk_generation keystoneSkeleton k = ko_generation k" "conds_of keystone_lens = ko_conditions" "with_conds keystone_lens = put_conditions"
  by (simp_all add: keystoneSkeleton_def keystone_lens_def)

lemma Ready_not_sub [simp]: "''Ready'' \<notin> set subConditionTypes"
  by (simp add: subConditionTypes_def)

definition final_status :: "meta_api \<Rightarrow> Keystone \<Rightarrow> KeystoneStatus" where
  "final_status K k = ko_status (observed (setReadyCondition K k))"

lemma updateStatus_status:
  assumes "echoes upd" "updateStatus K sem_eq upd before result e (k, w) = (r, k', w')"
  shows "ko_status k' = final_status K k"
proof -
  obtain u w1 where u: "upd (observed (setReadyCondition K k)) w = (u, w1)" by (rule prod.exhaust)
  show ?thesis
  proof (cases u)
    case (Inl err)
    then show ?thesis using assms(2) u
      by (auto simp: updateStatus_def SkeletonUpdateStatus_def UpdateStatus_def final_status_def setReadyCondition_def Let_def
          split: if_splits)
  next
    case (Inr k2)
    have "ko_status k2 = ko_status (observed (setReadyCondition K k))" using assms(1) u Inr unfolding echoes_def by blast
    then show ?thesis using assms(2) u Inr
      by (auto simp: updateStatus_def SkeletonUpdateStatus_def UpdateStatus_def final_status_def setReadyCondition_def Let_def
          split: if_splits)
  qed
qed

text \<open>An error of the pass stays an error.\<close>

lemma updateStatus_error:
  assumes "updateStatus K sem_eq upd before result (Some x) (k, w) = ((res, e), k', w')"
  shows "e \<noteq> None"
  using assms
  by (auto simp: updateStatus_def SkeletonUpdateStatus_def UpdateStatus_def Let_def errors_join_def
      split: if_splits sum.splits prod.splits)

lemma final_status_conditions:
  "kt_conditions (final_status K k) = SetAggregateReady K (ko_conditions k) (ko_generation k) subConditionTypes"
  by (simp add: final_status_def observed_def setReadyCondition_def SetReady_def)

lemma final_status_generation: "kt_observed_generation (final_status K k) = ko_generation k"
  by (simp add: final_status_def observed_def setReadyCondition_def SetReady_def put_conditions_def)

lemma final_ready_iff:
  assumes "meta_contract K"
  shows "IsReady K (kt_conditions (final_status K k)) \<longleftrightarrow> list_all (cond_true K (kt_conditions (final_status K k))) subConditionTypes"
  using assms
  by (simp add: final_status_conditions SetAggregateReady_iff AllTrue_iff [symmetric] AllTrue_SetAggregateReady)

lemma final_other:
  "meta_contract K \<Longrightarrow> t \<noteq> ''Ready'' \<Longrightarrow> GetCondition K (kt_conditions (final_status K k)) t = GetCondition K (ko_conditions k) t"
  by (simp add: final_status_conditions)

text \<open>A flipped sub-condition keeps the aggregate down.\<close>

lemma final_not_ready:
  assumes "meta_contract K" "ct \<in> set subConditionTypes" "cond_is K (ko_conditions k) ct CFalse reason"
  shows "cond_is K (kt_conditions (final_status K k)) ct CFalse reason \<and> \<not> IsReady K (kt_conditions (final_status K k))"
proof
  have "ct \<noteq> ''Ready''" using assms(2) Ready_not_sub by blast
  then show c: "cond_is K (kt_conditions (final_status K k)) ct CFalse reason"
    using assms(1,3) by (simp add: cond_is_def final_other)
  then have "\<not> cond_true K (kt_conditions (final_status K k)) ct"
    by (auto simp: cond_is_def cond_true_def split: option.splits)
  then show "\<not> IsReady K (kt_conditions (final_status K k))"
    using assms(1,2) by (auto simp: final_ready_iff list_all_iff)
qed

section \<open>A pass that stops early\<close>

lemma run_step_named: "name \<noteq> [] \<Longrightarrow> run_step instr (named name f) = instr name f"
  by (rule ext) (simp add: run_step_def named_def)

lemma run_step_unnamed: "run_step instr (named [] f) = f"
  by (rule ext) (simp add: run_step_def named_def)

lemma RunPipeline_prefix:
  "\<not> all_pass instr xs s \<Longrightarrow> RunPipeline instr (xs @ ys) s = RunPipeline instr xs s"
  by (simp add: RunPipeline_append RunPipeline_passes)

lemma config_failed_condition:
  assumes "meta_contract K"
  shows "cond_is K (ko_conditions (markConfigFailed K e k)) ''SecretsReady'' CFalse ''ConfigError''"
  using assms by (simp add: markConfigFailed_def MarkFailed_def conditionReasonConfigError_def)

section \<open>The OpenBao passes\<close>

lemma any_finalizer_iff: "any_finalizer f fs \<longleftrightarrow> f \<in> set fs"
  by (induction fs) auto

lemma hasESOFinalizer_iff: "hasESOFinalizer ps \<longleftrightarrow> esoPushSecretFinalizer \<in> set (m_finalizers (ps_meta ps))"
  by (simp add: hasESOFinalizer_def any_finalizer_iff)

text \<open>A backup blocks while it is there, not terminating and not adopted.\<close>

definition unadopted :: "(push_secret, 'w) kclient \<Rightarrow> 'w \<Rightarrow> objkey \<Rightarrow> bool" where
  "unadopted C w key =
     (case k_get C key w of Inl e \<Rightarrow> False | Inr ps \<Rightarrow> \<not> m_deleting (ps_meta ps) \<and> \<not> hasESOFinalizer ps)"

lemma adoption_pass_blocked:
  "name \<in> set names \<Longrightarrow> unadopted C w (ns, name) \<Longrightarrow> adoption_pass C ns names w \<noteq> Adopted"
  by (induction names) (auto simp: unadopted_def split: sum.splits)

lemma adoption_pass_Unadopted:
  "adoption_pass C ns names w = Unadopted name \<Longrightarrow> name \<in> set names \<and> unadopted C w (ns, name)"
  by (induction names) (auto simp: unadopted_def split: sum.splits if_splits)

lemma gone_pass_None:
  "gone_pass C ns names w = Inr None \<longleftrightarrow> list_all (\<lambda>n. absent C (ns, n) w) names"
  by (induction names) (auto simp: absent_def split: sum.splits)

lemma delete_backups_done:
  assumes "delete_backups D (k, w) = ((True, e), k', w')"
  shows "k' = k \<and> e = None \<and> list_all (\<lambda>n. absent (dl_push D) (ko_namespace k, n) w') (openBaoBackupPushSecretNames k)"
  using assms by (auto simp: delete_backups_def Let_def gone_pass_None [symmetric] split: prod.splits option.splits sum.splits)

lemma finalizeOpenBaoSecrets_done:
  assumes "finalizeOpenBaoSecrets D (k, w) = ((True, e), k', w')"
  shows "k' = k \<and> e = None \<and> list_all (\<lambda>n. absent (dl_push D) (ko_namespace k, n) w') (openBaoBackupPushSecretNames k)"
  using assms
  by (auto simp: finalizeOpenBaoSecrets_def Let_def split: adoption.splits if_splits dest!: delete_backups_done)

lemma delete_pass_gone:
  assumes "deletes ps_meta C" "delete_pass C ns names w = (None, w')"
  shows "list_all (\<lambda>n. absent C (ns, n) w') names"
proof -
  have keep: "absent C (ns, n) w1 \<Longrightarrow> delete_pass C ns ms w1 = (None, w2) \<Longrightarrow> absent C (ns, n) w2" for n ms w1 w2
  proof (induction ms arbitrary: w1)
    case (Cons m ms)
    obtain e w3 where d: "k_delete C no_opts (bare_push_secret ns m) w1 = (e, w3)" by (rule prod.exhaust)
    have rest: "delete_pass C ns ms w3 = (None, w2)" and ok: "ignore_not_found e = None"
      using Cons.prems(2) d by (auto simp: ignore_not_found_def split: option.splits if_splits)
    have "absent C (ns, n) w3"
    proof (cases "n = m")
      case True
      then show ?thesis using deletes_gone [OF assms(1) d ok] by (simp add: bare_push_secret_def key_of_def)
    next
      case False
      then show ?thesis
        using Cons.prems(1) deletes_other [OF assms(1), of "(ns, n)" "bare_push_secret ns m" no_opts w1] d
        by (simp add: absent_def bare_push_secret_def key_of_def)
    qed
    then show ?case by (rule Cons.IH [OF _ rest])
  qed simp
  show ?thesis using assms(2)
  proof (induction names arbitrary: w)
    case (Cons m ms)
    obtain e w3 where d: "k_delete C no_opts (bare_push_secret ns m) w = (e, w3)" by (rule prod.exhaust)
    have rest: "delete_pass C ns ms w3 = (None, w')" and ok: "ignore_not_found e = None"
      using Cons.prems d by (auto simp: ignore_not_found_def split: option.splits if_splits)
    have "absent C (ns, m) w3"
      using deletes_gone [OF assms(1) d ok] by (simp add: bare_push_secret_def key_of_def)
    then have "absent C (ns, m) w'" by (rule keep [OF _ rest])
    then show ?case using Cons.IH [OF rest] by simp
  qed simp
qed

text \<open>A backup belongs to one Keystone of its namespace.\<close>

lemma backup_names_disjoint:
  assumes "n \<in> set (openBaoBackupPushSecretNames k)" "n \<in> set (openBaoBackupPushSecretNames k')"
  shows "ko_name k = ko_name k'"
proof -
  have suffix: "a @ ''-fernet-keys-backup'' \<noteq> b @ ''-credential-keys-backup''" for a b :: string
  proof
    assume "a @ ''-fernet-keys-backup'' = b @ ''-credential-keys-backup''"
    then have "rev (a @ ''-fernet-keys-backup'') = rev (b @ ''-credential-keys-backup'')" by (rule arg_cong)
    then show False by (simp only: rev_append) simp
  qed
  show ?thesis using assms suffix [of "ko_name k" "ko_name k'"] suffix [of "ko_name k'" "ko_name k"]
    by (auto simp: openBaoBackupPushSecretNames_def)
qed

lemma finalizersEqualAsSet_iff: "finalizersEqualAsSet a b \<longleftrightarrow> mset a = mset b"
proof
  assume "finalizersEqualAsSet a b"
  then have "sort a = sort b" by (simp add: finalizersEqualAsSet_def split: if_splits)
  then show "mset a = mset b" by (metis mset_sort)
next
  assume m: "mset a = mset b"
  then have "mset (sort b) = mset a" by simp
  then have "sort b = sort a" using properties_for_sort [of "sort b" a] by simp
  moreover have "length a = length b" using m by (rule mset_eq_length)
  ultimately show "finalizersEqualAsSet a b" by (simp add: finalizersEqualAsSet_def)
qed

end
