(* ===== verification/KeystoneAdmission.thy ===== *)
theory KeystoneAdmission
  imports KeystoneTypes Validation Policy Workload Dsn
begin

text \<open>
  The admission webhook of the Keystone resource, \<open>operators/keystone/api/v1alpha1/keystone_webhook.go\<close>:
  defaulting and validation.  The offending value of an invalid field is left out of its error.  Parsing of cron
  expressions, URLs and quantities and the lookup of PriorityClasses are in \<open>admission_env\<close>.
\<close>

section \<open>Defaulting\<close>

definition password_defaults :: "PasswordRotationSpec \<Rightarrow> PasswordRotationSpec" where
  "password_defaults pr =
     (if pw_enabled pr
      then let p1 = (if pw_schedule pr = [] then pr\<lparr>pw_schedule := DefaultPasswordRotationSchedule\<rparr> else pr)
           in if pw_length p1 = 0 then p1\<lparr>pw_length := DefaultPasswordRotationLength\<rparr> else p1
      else pr)"

definition uwsgi_defaults :: "UWSGISpec \<Rightarrow> UWSGISpec" where
  "uwsgi_defaults u =
     (let u1 = (if uw_processes u = 0 then u\<lparr>uw_processes := DefaultUWSGIProcesses\<rparr> else u);
          u2 = (if uw_threads u1 = 0 then u1\<lparr>uw_threads := DefaultUWSGIThreads\<rparr> else u1)
      in if uw_keep_alive u2 = None then u2\<lparr>uw_keep_alive := Some DefaultUWSGIHTTPKeepAlive\<rparr> else u2)"

definition database_defaults :: "DatabaseSpec \<Rightarrow> DatabaseSpec" where
  "database_defaults db =
     (let d1 = (case db_tls db of
                  None \<Rightarrow> db
                | Some t \<Rightarrow> if tls_mode t = [] then db\<lparr>db_tls := Some (t\<lparr>tls_mode := DefaultDatabaseTLSMode\<rparr>)\<rparr> else db)
      in if db_credentials_mode d1 = [] then d1\<lparr>db_credentials_mode := CredentialsModeStatic\<rparr> else d1)"

definition bootstrap_defaults :: "BootstrapSpec \<Rightarrow> BootstrapSpec" where
  "bootstrap_defaults b =
     (let b1 = (if bs_admin_user b = [] then b\<lparr>bs_admin_user := ''admin''\<rparr> else b)
      in if bs_region b1 = [] then b1\<lparr>bs_region := ''RegionOne''\<rparr> else b1)"

definition no_logging :: LoggingSpec where
  "no_logging = \<lparr>lg_format = [], lg_level = [], lg_debug = None, lg_per_logger = []\<rparr>"

text \<open>The statements of the webhook assign different fields, so they are one update here.\<close>

definition Default :: "KeystoneSpec \<Rightarrow> KeystoneSpec" where
  "Default k =
     (let f = ks_fernet k; c = ks_credential_keys k; ca = ks_cache k in
      k\<lparr>ks_deployment := DeploymentSpecDefault (ks_deployment k),
        ks_fernet := (if fe_max_active f = 0 then f\<lparr>fe_max_active := 3\<rparr> else f),
        ks_credential_keys := (if ck_max_active c = 0 then c\<lparr>ck_max_active := 3\<rparr> else c),
        ks_cache := (if ca_backend ca = [] then ca\<lparr>ca_backend := DefaultCacheBackend\<rparr> else ca),
        ks_bootstrap := bootstrap_defaults (ks_bootstrap k),
        ks_trust_flush := (case ks_trust_flush k of
           None \<Rightarrow> Some \<lparr>tf_schedule = DefaultTrustFlushSchedule, tf_suspend = False, tf_args = []\<rparr> | Some t \<Rightarrow> Some t),
        ks_password_rotation := map_option password_defaults (ks_password_rotation k),
        ks_uwsgi := map_option uwsgi_defaults (ks_uwsgi k),
        ks_logging := Some (LoggingSpecDefault (case ks_logging k of None \<Rightarrow> no_logging | Some l \<Rightarrow> l)),
        ks_database := database_defaults (ks_database k)\<rparr>)"

section \<open>Validation\<close>

record url =
  ul_scheme :: string
  ul_host :: string
  ul_hostname :: string

record admission_env =
  ad_parse_cron :: "string \<Rightarrow> err option"
  ad_parse_url :: "string \<Rightarrow> url result"
  ad_cmp_quantity :: "string \<Rightarrow> string \<Rightarrow> int"
  ad_priority_class :: "(string \<Rightarrow> err option) option"

definition specPath :: path where
  "specPath = [PChild ''spec'']"

definition spec_field :: "string list \<Rightarrow> path" where
  "spec_field fs = specPath @ map PChild fs"

definition image_errors :: "KeystoneSpec \<Rightarrow> field_error list" where
  "image_errors k =
     fail_if (de_replicas (ks_deployment k) < 1)
       (FInvalid (spec_field [''deployment'', ''replicas'']) (Msg ''replicas must be at least 1'' [])) @
     fail_if ((im_tag (ks_image k) \<noteq> []) = (im_digest (ks_image k) \<noteq> []))
       (FInvalid (spec_field [''image'']) (Msg ''exactly one of image.tag or image.digest must be set'' [])) @
     (case ks_federation k of
        None \<Rightarrow> []
      | Some f \<Rightarrow>
          (case fd_proxy_image f of
             None \<Rightarrow> []
           | Some i \<Rightarrow>
               fail_if (im_repository i = [])
                 (FRequired (spec_field [''federation'', ''proxyImage'', ''repository''])
                    (Msg ''federation.proxyImage.repository must be set'' [])) @
               fail_if ((im_tag i \<noteq> []) = (im_digest i \<noteq> []))
                 (FInvalid (spec_field [''federation'', ''proxyImage''])
                    (Msg ''exactly one of proxyImage.tag or proxyImage.digest must be set'' []))))"

fun dashboard_errors :: "(string \<Rightarrow> url result) \<Rightarrow> path \<Rightarrow> nat \<Rightarrow> string list \<Rightarrow> string list \<Rightarrow> field_error list" where
  "dashboard_errors parse_url p i seen [] = []"
| "dashboard_errors parse_url p i seen (x # xs) =
     (if x \<in> set seen then FDuplicate (path_index p i) x # dashboard_errors parse_url p (Suc i) seen xs
      else (case parse_url x of
              Inl e \<Rightarrow> [FInvalid (path_index p i) (Msg ''must be a valid URL: %v'' [Val e])]
            | Inr u \<Rightarrow>
                if ul_scheme u \<noteq> ''http'' \<and> ul_scheme u \<noteq> ''https''
                then [FInvalid (path_index p i) (Msg ''scheme must be http or https'' [])]
                else fail_if (ul_host u = []) (FInvalid (path_index p i) (Msg ''URL must include a host'' []))) @
           dashboard_errors parse_url p (Suc i) (x # seen) xs)"

definition validateTrustedDashboards :: "admission_env \<Rightarrow> KeystoneSpec \<Rightarrow> field_error list" where
  "validateTrustedDashboards A k =
     (case ks_federation k of
        None \<Rightarrow> []
      | Some f \<Rightarrow>
          if fd_dashboards f = [] then []
          else dashboard_errors (ad_parse_url A) (spec_field [''federation'', ''trustedDashboards'']) 0 [] (fd_dashboards f) @
               fail_if (map_of (get_or [] (ks_extra_config k) ''federation'') ''trusted_dashboard'' \<noteq> None)
                 (FForbidden (path_key (path_key (spec_field [''extraConfig'']) ''federation'') ''trusted_dashboard'')
                    (Msg ''trusted_dashboard is managed via spec.federation.trustedDashboards and must not also be set in extraConfig (extraConfig wins the merge, which would silently drop the typed list)'' [])))"

definition warnCleartextTrustedDashboards :: "admission_env \<Rightarrow> KeystoneSpec \<Rightarrow> msg list" where
  "warnCleartextTrustedDashboards A k =
     (case ks_federation k of
        None \<Rightarrow> []
      | Some f \<Rightarrow>
          map (\<lambda>x. Msg ''spec.federation.trustedDashboards entry %q uses http://: Keystone POSTs the unscoped WebSSO token to this origin after every federated login, so the token would travel in cleartext. Use https://.'' [Str x])
            (filter (\<lambda>x. case ad_parse_url A x of Inl e \<Rightarrow> False | Inr u \<Rightarrow> ul_scheme u = ''http'') (fd_dashboards f)))"

definition key_count_errors :: "KeystoneSpec \<Rightarrow> field_error list" where
  "key_count_errors k =
     fail_if (fe_max_active (ks_fernet k) < 3 \<and> fe_max_active (ks_fernet k) \<noteq> 0)
       (FInvalid (spec_field [''fernet'', ''maxActiveKeys'']) (Msg ''maxActiveKeys must be at least 3'' [])) @
     fail_if (ck_max_active (ks_credential_keys k) < 3 \<and> ck_max_active (ks_credential_keys k) \<noteq> 0)
       (FInvalid (spec_field [''credentialKeys'', ''maxActiveKeys'']) (Msg ''maxActiveKeys must be at least 3'' []))"

definition shared_errors :: "KeystoneSpec \<Rightarrow> field_error list" where
  "shared_errors k =
     CacheXOR (spec_field [''cache'']) (ks_cache k) @
     DatabaseXOR (spec_field [''database'']) (ks_database k) @
     DynamicCredentialsRequireClusterRef (spec_field [''database'']) (ks_database k) @
     SecretStoreRef (spec_field [''secretStoreRef'']) (ks_secret_store_ref k)"

definition database_tls_modes :: "string list" where
  "database_tls_modes = [''disabled'', ''prefer'', ''require'', ''verify-ca'', ''verify-full'']"

definition tls_errors :: "KeystoneSpec \<Rightarrow> field_error list" where
  "tls_errors k =
     (case db_tls (ks_database k) of
        None \<Rightarrow> []
      | Some t \<Rightarrow>
          (if tls_mode t = [] \<or> tls_mode t \<in> set database_tls_modes then []
           else [FNotSupported (spec_field [''database'', ''tls'', ''mode'']) (tls_mode t) database_tls_modes]) @
          (if TLSIsEnabled (Some t)
           then fail_if (sr_name (tls_ca_bundle t) = [])
                  (FRequired (spec_field [''database'', ''tls'', ''caBundleSecretRef'', ''name''])
                     (Msg ''caBundleSecretRef.name must be set when database.tls is enabled'' [])) @
                fail_if (sr_name (tls_client_cert t) = [])
                  (FRequired (spec_field [''database'', ''tls'', ''clientCertSecretRef'', ''name''])
                     (Msg ''clientCertSecretRef.name must be set when database.tls is enabled'' []))
           else []))"

definition cron_errors :: "admission_env \<Rightarrow> path \<Rightarrow> msg \<Rightarrow> string \<Rightarrow> field_error list" where
  "cron_errors A p missing schedule =
     (if schedule = [] then [FRequired p missing] else CronSchedule (ad_parse_cron A) p schedule)"

definition schedule_errors :: "admission_env \<Rightarrow> KeystoneSpec \<Rightarrow> field_error list" where
  "schedule_errors A k =
     cron_errors A (spec_field [''fernet'', ''rotationSchedule''])
       (Msg ''rotationSchedule must be set; default is \"0 0 * * 0\"'' []) (fe_schedule (ks_fernet k)) @
     cron_errors A (spec_field [''credentialKeys'', ''rotationSchedule''])
       (Msg ''rotationSchedule must be set; default is \"0 0 * * 0\"'' []) (ck_schedule (ks_credential_keys k)) @
     (case ks_trust_flush k of
        None \<Rightarrow> []
      | Some t \<Rightarrow> cron_errors A (spec_field [''trustFlush'', ''schedule''])
          (Msg ''schedule must be set; default is %q'' [Str DefaultTrustFlushSchedule]) (tf_schedule t))"

definition password_errors :: "admission_env \<Rightarrow> KeystoneSpec \<Rightarrow> field_error list" where
  "password_errors A k =
     (case ks_password_rotation k of
        None \<Rightarrow> []
      | Some pr \<Rightarrow>
          if \<not> pw_enabled pr then []
          else cron_errors A (spec_field [''passwordRotation'', ''schedule''])
                 (Msg ''schedule must be set when passwordRotation is enabled; default is %q'' [Str DefaultPasswordRotationSchedule])
                 (pw_schedule pr) @
               fail_if (sr_name (bs_admin_secret (ks_bootstrap k)) = [])
                 (FRequired (spec_field [''bootstrap'', ''adminPasswordSecretRef'', ''name''])
                    (Msg ''adminPasswordSecretRef.name must be set when passwordRotation is enabled'' [])) @
               fail_if (pw_length pr \<noteq> 0 \<and> pw_length pr < DefaultAdminPasswordMinLength)
                 (FInvalid (spec_field [''passwordRotation'', ''passwordLength''])
                    (Msg ''passwordLength must be at least %d'' [Num DefaultAdminPasswordMinLength])))"

fun plugin_errors :: "nat \<Rightarrow> string list \<Rightarrow> PluginSpec list \<Rightarrow> field_error list" where
  "plugin_errors i seen [] = []"
| "plugin_errors i seen (p # ps) =
     fail_if (pl_section p \<in> set seen)
       (FDuplicate (path_child (path_index (spec_field [''plugins'']) i) ''configSection'') (pl_section p)) @
     plugin_errors (Suc i) (pl_section p # seen) ps"

definition policy_errors :: "KeystoneSpec \<Rightarrow> field_error list" where
  "policy_errors k =
     (case ks_policy_overrides k of
        None \<Rightarrow> []
      | Some p \<Rightarrow>
          let rules = (case pol_rules p of None \<Rightarrow> [] | Some r \<Rightarrow> r) in
          fail_if (rules = [] \<and> pol_config_map p = None)
            (FRequired (spec_field [''policyOverrides'']) (Msg ''at least one of rules or configMapRef must be set'' [])) @
          ValidatePolicyRules rules (Some (spec_field [''policyOverrides'', ''rules''])))"

definition uwsgi_errors :: "KeystoneSpec \<Rightarrow> field_error list" where
  "uwsgi_errors k =
     (case ks_uwsgi k of
        None \<Rightarrow> []
      | Some u \<Rightarrow>
          fail_if (uw_processes u < 1)
            (FInvalid (spec_field [''uwsgi'', ''processes'']) (Msg ''processes must be at least 1'' [])) @
          fail_if (uw_threads u < 1)
            (FInvalid (spec_field [''uwsgi'', ''threads'']) (Msg ''threads must be at least 1'' [])) @
          fail_if (case uw_harakiri u of None \<Rightarrow> False | Some n \<Rightarrow> n < 1)
            (FInvalid (spec_field [''uwsgi'', ''harakiri'']) (Msg ''harakiri must be at least 1'' [])) @
          fail_if (case uw_keep_alive_timeout u of None \<Rightarrow> False | Some n \<Rightarrow> n < 1)
            (FInvalid (spec_field [''uwsgi'', ''httpKeepAliveTimeout'']) (Msg ''httpKeepAliveTimeout must be at least 1'' [])) @
          fail_if (uw_keep_alive_timeout u \<noteq> None \<and> uw_keep_alive u = Some False)
            (FInvalid (spec_field [''uwsgi'', ''httpKeepAliveTimeout''])
               (Msg ''httpKeepAliveTimeout may only be set when httpKeepAlive is true'' [])))"

definition validLevels :: "string list" where
  "validLevels = [''DEBUG'', ''INFO'', ''WARNING'', ''ERROR'', ''CRITICAL'']"

fun logger_errors :: "path \<Rightarrow> string gomap \<Rightarrow> field_error list" where
  "logger_errors p [] = []"
| "logger_errors p ((name, lvl) # m) =
     (if name = [] then FInvalid p (Msg ''logger name must not be empty'' []) # logger_errors p m
      else fail_if (lvl \<notin> set validLevels)
             (FInvalid (path_key p name) (Msg ''level must be one of DEBUG, INFO, WARNING, ERROR, CRITICAL'' [])) @
           logger_errors p m)"

definition logging_errors :: "KeystoneSpec \<Rightarrow> field_error list" where
  "logging_errors k =
     (case ks_logging k of
        None \<Rightarrow> []
      | Some l \<Rightarrow>
          fail_if (lg_format l \<noteq> [] \<and> lg_format l \<noteq> ''text'' \<and> lg_format l \<noteq> ''json'')
            (FNotSupported (spec_field [''logging'', ''format'']) (lg_format l) [''text'', ''json'']) @
          fail_if (lg_level l \<noteq> [] \<and> lg_level l \<notin> set validLevels)
            (FNotSupported (spec_field [''logging'', ''level'']) (lg_level l) validLevels) @
          logger_errors (spec_field [''logging'', ''perLoggerLevels'']) (lg_per_logger l))"

text \<open>The grace period and the sleep that are in effect when the fields are unset.\<close>

definition resolvedGrace :: "DeploymentSpec \<Rightarrow> int" where
  "resolvedGrace d = (case de_grace_period d of None \<Rightarrow> DefaultTerminationGracePeriodSeconds | Some n \<Rightarrow> n)"

definition resolvedPreStop :: "DeploymentSpec \<Rightarrow> int" where
  "resolvedPreStop d = (case de_pre_stop_sleep d of None \<Rightarrow> DefaultPreStopSleepSeconds | Some n \<Rightarrow> n)"

definition termination_errors :: "KeystoneSpec \<Rightarrow> field_error list" where
  "termination_errors k =
     (let d = ks_deployment k; grace = resolvedGrace d; pre_stop = resolvedPreStop d in
      fail_if (case de_grace_period d of None \<Rightarrow> False | Some n \<Rightarrow> n < 10)
        (FInvalid (spec_field [''deployment'', ''terminationGracePeriodSeconds''])
           (Msg ''terminationGracePeriodSeconds must be at least 10'' [])) @
      fail_if (case de_pre_stop_sleep d of None \<Rightarrow> False | Some n \<Rightarrow> n < 0)
        (FInvalid (spec_field [''deployment'', ''preStopSleepSeconds''])
           (Msg ''preStopSleepSeconds must be non-negative'' [])) @
      fail_if (pre_stop \<ge> grace)
        (FInvalid (spec_field [''deployment'', ''preStopSleepSeconds''])
           (Msg ''preStopSleepSeconds (%d) must be strictly less than terminationGracePeriodSeconds (%d)'' [Num pre_stop, Num grace])) @
      (case ks_uwsgi k of
         None \<Rightarrow> []
       | Some u \<Rightarrow>
           (case uw_harakiri u of
              None \<Rightarrow> []
            | Some harakiri \<Rightarrow>
                let drain = wrap64 (grace - pre_stop) in
                fail_if (harakiri \<ge> drain)
                  (FInvalid (spec_field [''uwsgi'', ''harakiri''])
                     (Msg ''harakiri (%d) must be strictly less than terminationGracePeriodSeconds - preStopSleepSeconds (%d)''
                        [Num harakiri, Num drain])))) @
      (case de_strategy d of
         None \<Rightarrow> []
       | Some s \<Rightarrow>
           fail_if (ds_type s = ''Recreate'' \<and> ds_rolling s \<noteq> None)
             (FInvalid (spec_field [''deployment'', ''strategy'', ''rollingUpdate''])
                (Msg ''rollingUpdate must not be set when strategy.type is Recreate'' []))))"

definition percent_error :: "string \<Rightarrow> int option \<Rightarrow> field_error list" where
  "percent_error name target =
     fail_if (case target of None \<Rightarrow> False | Some n \<Rightarrow> n < 1 \<or> n > 100)
       (FInvalid (spec_field [''autoscaling'', name]) (Msg (name @ '' must be between 1 and 100'') []))"

definition autoscaling_errors :: "KeystoneSpec \<Rightarrow> field_error list" where
  "autoscaling_errors k =
     (case ks_autoscaling k of
        None \<Rightarrow> []
      | Some a \<Rightarrow>
          let replicas = de_replicas (ks_deployment k); p = (\<lambda>f. spec_field [''autoscaling'', f]) in
          fail_if (as_max_replicas a < 1) (FInvalid (p ''maxReplicas'') (Msg ''maxReplicas must be at least 1'' [])) @
          fail_if (case as_min_replicas a of None \<Rightarrow> False | Some n \<Rightarrow> n < 1)
            (FInvalid (p ''minReplicas'') (Msg ''minReplicas must be at least 1'' [])) @
          fail_if (case as_min_replicas a of None \<Rightarrow> False | Some n \<Rightarrow> n > as_max_replicas a)
            (FInvalid (p ''minReplicas'') (Msg ''minReplicas must not exceed maxReplicas'' [])) @
          fail_if (as_min_replicas a = None \<and> replicas > as_max_replicas a)
            (FInvalid (p ''maxReplicas'')
               (Msg ''maxReplicas must be >= spec.deployment.replicas (%d) when minReplicas is not set, because minReplicas defaults to spec.deployment.replicas''
                  [Num replicas])) @
          percent_error ''targetCPUUtilization'' (as_target_cpu a) @
          percent_error ''targetMemoryUtilization'' (as_target_memory a) @
          fail_if (as_target_cpu a = None \<and> as_target_memory a = None)
            (FRequired (spec_field [''autoscaling''])
               (Msg ''at least one of targetCPUUtilization or targetMemoryUtilization must be set'' [])))"

definition exposure_errors :: "admission_env \<Rightarrow> KeystoneSpec \<Rightarrow> field_error list" where
  "exposure_errors A k =
     (case ks_network_policy k of
        None \<Rightarrow> []
      | Some np \<Rightarrow>
          fail_if (npp_ingress np = [])
            (FRequired (spec_field [''networkPolicy'', ''ingress'']) (Msg ''at least one ingress source must be specified'' []))) @
     (case ks_gateway k of
        None \<Rightarrow> []
      | Some g \<Rightarrow>
          let pe = bs_public_endpoint (ks_bootstrap k); pePath = spec_field [''bootstrap'', ''publicEndpoint''] in
          fail_if (gw_hostname g = [])
            (FRequired (spec_field [''gateway'', ''hostname'']) (Msg ''hostname must be set when spec.gateway is configured'' [])) @
          fail_if (gp_name (gw_parent g) = [])
            (FRequired (spec_field [''gateway'', ''parentRef'', ''name''])
               (Msg ''parentRef.name must be set when spec.gateway is configured'' [])) @
          (if gw_hostname g \<noteq> [] \<and> pe \<noteq> []
           then (case ad_parse_url A pe of
                   Inl e \<Rightarrow> [FInvalid pePath (Msg ''must be a valid URL: %v'' [Val e])]
                 | Inr u \<Rightarrow>
                     if ul_scheme u \<noteq> ''https''
                     then [FInvalid pePath (Msg ''scheme must be https when spec.gateway is configured (Gateway listener terminates TLS)'' [])]
                     else fail_if (ul_hostname u \<noteq> gw_hostname g)
                            (FInvalid pePath (Msg ''host %q must equal spec.gateway.hostname %q'' [Str (ul_hostname u), Str (gw_hostname g)])))
           else []))"

fun resource_errors :: "(string \<Rightarrow> string \<Rightarrow> int) \<Rightarrow> string gomap \<Rightarrow> string gomap \<Rightarrow> field_error list" where
  "resource_errors cmp limits [] = []"
| "resource_errors cmp limits ((name, request) # rs) =
     (case map_of limits name of
        None \<Rightarrow> []
      | Some limit \<Rightarrow>
          fail_if (cmp request limit > 0)
            (FInvalid (spec_field [''deployment'', ''resources'', ''requests'', name])
               (Msg ''%s request must not exceed limit (%s)'' [Str name, Str limit]))) @ resource_errors cmp limits rs"

definition pod_errors :: "admission_env \<Rightarrow> string \<Rightarrow> KeystoneSpec \<Rightarrow> field_error list" where
  "pod_errors A name k =
     (let d = ks_deployment k in
      (case de_resources d of
         None \<Rightarrow> [] | Some r \<Rightarrow> resource_errors (ad_cmp_quantity A) (rq_limits r) (rq_requests r)) @
      (case de_priority_class d of
         None \<Rightarrow> []
       | Some c \<Rightarrow> PriorityClassExists (ad_priority_class A) (spec_field [''deployment'', ''priorityClassName'']) c) @
      (case de_topology_spread d of
         None \<Rightarrow> []
       | Some tscs \<Rightarrow> TopologySpreadSelector (spec_field [''deployment'', ''topologySpreadConstraints'']) tscs
           [(LabelKeyName, AppName), (LabelKeyInstance, name)]))"

definition spec_errors :: "admission_env \<Rightarrow> string \<Rightarrow> KeystoneSpec \<Rightarrow> field_error list" where
  "spec_errors A name k =
     concat [image_errors k, validateTrustedDashboards A k, key_count_errors k, shared_errors k, tls_errors k,
       schedule_errors A k, password_errors A k, plugin_errors 0 [] (ks_plugins k), policy_errors k, uwsgi_errors k,
       logging_errors k, termination_errors k, autoscaling_errors k, exposure_errors A k, pod_errors A name k]"

text \<open>A rejection is \<open>apierrors.NewInvalid\<close> with the name of the resource and all the errors.\<close>

definition validate :: "admission_env \<Rightarrow> Keystone \<Rightarrow> (string \<times> field_error list) option" where
  "validate A k =
     (let errs = spec_errors A (m_name (ko_meta k)) (ko_spec k)
      in if errs \<noteq> [] then Some (m_name (ko_meta k), errs) else None)"

definition ValidateCreate :: "admission_env \<Rightarrow> Keystone \<Rightarrow> msg list \<times> (string \<times> field_error list) option" where
  "ValidateCreate A k = (warnCleartextTrustedDashboards A (ko_spec k), validate A k)"

definition ValidateUpdate :: "admission_env \<Rightarrow> Keystone \<Rightarrow> Keystone \<Rightarrow> msg list \<times> (string \<times> field_error list) option" where
  "ValidateUpdate A old new = (warnCleartextTrustedDashboards A (ko_spec new), validate A new)"

definition ValidateDelete :: "Keystone \<Rightarrow> msg list \<times> (string \<times> field_error list) option" where
  "ValidateDelete k = ([], None)"

section \<open>What is accepted\<close>

text \<open>The loops, each with the condition under which it reports nothing.\<close>

definition dashboard_ok :: "(string \<Rightarrow> url result) \<Rightarrow> string \<Rightarrow> bool" where
  "dashboard_ok parse_url x =
     (case parse_url x of Inl e \<Rightarrow> False | Inr u \<Rightarrow> (ul_scheme u = ''http'' \<or> ul_scheme u = ''https'') \<and> ul_host u \<noteq> [])"

lemma dashboard_errors_Nil_iff:
  "dashboard_errors f p i seen xs = [] \<longleftrightarrow> distinct xs \<and> set xs \<inter> set seen = {} \<and> list_all (dashboard_ok f) xs"
  by (induction f p i seen xs rule: dashboard_errors.induct) (auto simp: dashboard_ok_def split: sum.splits)

lemma plugin_errors_Nil_iff:
  "plugin_errors i seen ps = [] \<longleftrightarrow> distinct (map pl_section ps) \<and> pl_section ` set ps \<inter> set seen = {}"
  by (induction i seen ps rule: plugin_errors.induct) auto

lemma logger_errors_Nil_iff: "logger_errors p m = [] \<longleftrightarrow> list_all (\<lambda>(n, l). n \<noteq> [] \<and> l \<in> set validLevels) m"
  by (induction p m rule: logger_errors.induct) auto

lemma resource_errors_Nil_iff:
  "resource_errors cmp limits rs = [] \<longleftrightarrow>
     list_all (\<lambda>(n, r). case map_of limits n of None \<Rightarrow> True | Some l \<Rightarrow> cmp r l \<le> 0) rs"
  by (induction cmp limits rs rule: resource_errors.induct) (auto split: option.splits)

lemma cron_errors_Nil_iff: "cron_errors A p m s = [] \<longleftrightarrow> s \<noteq> [] \<and> ad_parse_cron A s = None"
  by (auto simp: cron_errors_def CronSchedule_def split: option.splits)

lemma validate_None_iff: "validate A k = None \<longleftrightarrow> spec_errors A (m_name (ko_meta k)) (ko_spec k) = []"
  by (simp add: validate_def Let_def)

lemma spec_errors_NilD:
  assumes "spec_errors A name k = []"
  shows "image_errors k = []" "validateTrustedDashboards A k = []" "key_count_errors k = []" "shared_errors k = []"
    "tls_errors k = []" "schedule_errors A k = []" "password_errors A k = []" "plugin_errors 0 [] (ks_plugins k) = []"
    "policy_errors k = []" "uwsgi_errors k = []" "logging_errors k = []" "termination_errors k = []"
    "autoscaling_errors k = []" "exposure_errors A k = []" "pod_errors A name k = []"
  using assms by (simp_all add: spec_errors_def)

text \<open>The parts that decide what the builders are given.\<close>

lemma accepted_termination:
  assumes "termination_errors k = []" "uwsgi_errors k = []" "is_int64 (resolvedGrace (ks_deployment k))"
  shows "0 \<le> resolvedPreStop (ks_deployment k)" "resolvedPreStop (ks_deployment k) < resolvedGrace (ks_deployment k)"
    "10 \<le> resolvedGrace (ks_deployment k)"
    "ks_uwsgi k = Some u \<Longrightarrow> uw_harakiri u = Some h \<Longrightarrow>
       1 \<le> h \<and> resolvedPreStop (ks_deployment k) + h < resolvedGrace (ks_deployment k)"
proof -
  let ?d = "ks_deployment k"
  show pre: "0 \<le> resolvedPreStop ?d"
    using assms(1) by (auto simp: termination_errors_def resolvedPreStop_def DefaultPreStopSleepSeconds_def Let_def split: option.splits)
  show lt: "resolvedPreStop ?d < resolvedGrace ?d" using assms(1) by (simp add: termination_errors_def Let_def)
  show "10 \<le> resolvedGrace ?d"
    using assms(1) by (auto simp: termination_errors_def resolvedGrace_def DefaultTerminationGracePeriodSeconds_def Let_def split: option.splits)
  assume u: "ks_uwsgi k = Some u" "uw_harakiri u = Some h"
  have "is_int64 (resolvedGrace ?d - resolvedPreStop ?d)" using pre lt assms(3) by (simp add: is_int64_def)
  then have "wrap64 (resolvedGrace ?d - resolvedPreStop ?d) = resolvedGrace ?d - resolvedPreStop ?d" by simp
  then show "1 \<le> h \<and> resolvedPreStop ?d + h < resolvedGrace ?d"
    using assms(1,2) u by (simp add: termination_errors_def uwsgi_errors_def Let_def)
qed

lemma accepted_autoscaler:
  assumes "autoscaling_errors k = []" "image_errors k = []" "ks_autoscaling k = Some a"
  shows "\<exists>m. hp_min_replicas (BuildHPA ns n l (ks_deployment k) a) = Some m \<and> 1 \<le> m \<and>
           m \<le> hp_max_replicas (BuildHPA ns n l (ks_deployment k) a)"
    "hp_metrics (BuildHPA ns n l (ks_deployment k) a) \<noteq> []"
    "list_all (\<lambda>(_, t). 1 \<le> t \<and> t \<le> 100) (hp_metrics (BuildHPA ns n l (ks_deployment k) a))"
  using assms
  by (auto simp: autoscaling_errors_def percent_error_def image_errors_def BuildHPA_def EffectiveReplicas_def Let_def
      split: option.splits)

lemma accepted_tls:
  assumes "tls_errors k = []" "TLSIsEnabled (db_tls (ks_database k))"
  shows "\<exists>t q. db_tls (ks_database k) = Some t \<and> SSLParams (tls_mode t) paths = Inr q \<and>
           sr_name (tls_ca_bundle t) \<noteq> [] \<and> sr_name (tls_client_cert t) \<noteq> []"
proof -
  obtain t where t: "db_tls (ks_database k) = Some t" "tls_mode t \<noteq> []" "tls_mode t \<noteq> ''disabled''"
    using assms(2) by (auto simp: TLSIsEnabled_def split: option.splits)
  then have "tls_mode t \<in> set tls_modes"
    using assms by (auto simp: tls_errors_def database_tls_modes_def tls_modes_def split: if_splits)
  then obtain q where "SSLParams (tls_mode t) paths = Inr q" using SSLParams_ok_iff [of "tls_mode t" paths] by blast
  then show ?thesis using t assms by (auto simp: tls_errors_def)
qed

section \<open>Defaulting\<close>

lemma password_defaults_idem [simp]: "password_defaults (password_defaults p) = password_defaults p"
  by (simp add: password_defaults_def DefaultPasswordRotationSchedule_def DefaultPasswordRotationLength_def Let_def)

lemma password_defaults_enabled [simp]: "pw_enabled (password_defaults p) = pw_enabled p"
  by (simp add: password_defaults_def Let_def)

lemma uwsgi_defaults_idem [simp]: "uwsgi_defaults (uwsgi_defaults u) = uwsgi_defaults u"
  by (simp add: uwsgi_defaults_def DefaultUWSGIProcesses_def DefaultUWSGIThreads_def Let_def)

lemma database_defaults_idem [simp]: "database_defaults (database_defaults d) = database_defaults d"
  by (auto simp: database_defaults_def DefaultDatabaseTLSMode_def CredentialsModeStatic_def Let_def split: option.splits)

lemma option_comp_idem: "(\<And>x. f (f x) = f x) \<Longrightarrow> map_option f (map_option f y) = map_option f y"
  by (cases y) simp_all

lemma bootstrap_defaults_idem [simp]: "bootstrap_defaults (bootstrap_defaults b) = bootstrap_defaults b"
  by (simp add: bootstrap_defaults_def Let_def)

lemma bootstrap_defaults_simps [simp]:
  "bs_admin_secret (bootstrap_defaults b) = bs_admin_secret b" "bs_public_endpoint (bootstrap_defaults b) = bs_public_endpoint b"
  by (simp_all add: bootstrap_defaults_def Let_def)

text \<open>Each field of a defaulted resource.\<close>

lemma Default_fields [simp]:
  "ks_deployment (Default k) = DeploymentSpecDefault (ks_deployment k)"
  "ks_image (Default k) = ks_image k"
  "ks_fernet (Default k) = (if fe_max_active (ks_fernet k) = 0 then (ks_fernet k)\<lparr>fe_max_active := 3\<rparr> else ks_fernet k)"
  "ks_credential_keys (Default k) =
     (if ck_max_active (ks_credential_keys k) = 0 then (ks_credential_keys k)\<lparr>ck_max_active := 3\<rparr> else ks_credential_keys k)"
  "ks_cache (Default k) = (if ca_backend (ks_cache k) = [] then (ks_cache k)\<lparr>ca_backend := DefaultCacheBackend\<rparr> else ks_cache k)"
  "ks_trust_flush (Default k) = (case ks_trust_flush k of
     None \<Rightarrow> Some \<lparr>tf_schedule = DefaultTrustFlushSchedule, tf_suspend = False, tf_args = []\<rparr> | Some t \<Rightarrow> Some t)"
  "ks_password_rotation (Default k) = map_option password_defaults (ks_password_rotation k)"
  "ks_uwsgi (Default k) = map_option uwsgi_defaults (ks_uwsgi k)"
  "ks_database (Default k) = database_defaults (ks_database k)"
  "ks_bootstrap (Default k) = bootstrap_defaults (ks_bootstrap k)"
  "ks_logging (Default k) = Some (LoggingSpecDefault (case ks_logging k of None \<Rightarrow> no_logging | Some l \<Rightarrow> l))"
  by (simp_all add: Default_def Let_def)

lemma Default_keeps [simp]:
  "ks_federation (Default k) = ks_federation k" "ks_gateway (Default k) = ks_gateway k"
  "ks_autoscaling (Default k) = ks_autoscaling k" "ks_network_policy (Default k) = ks_network_policy k"
  "ks_plugins (Default k) = ks_plugins k" "ks_policy_overrides (Default k) = ks_policy_overrides k"
  "ks_extra_config (Default k) = ks_extra_config k" "ks_middleware (Default k) = ks_middleware k"
  "ks_secret_store_ref (Default k) = ks_secret_store_ref k"
  by (simp_all add: Default_def Let_def)

lemma Default_idem [simp]: "Default (Default k) = Default k"
  by (rule KeystoneSpec.equality) (simp_all add: option_comp_idem split: option.split)

text \<open>Defaulting turns nothing on: an unset block stays unset and a disabled rotation is left alone.\<close>

lemma Default_opt_in:
  "ks_password_rotation (Default k) = None \<longleftrightarrow> ks_password_rotation k = None"
  "ks_uwsgi (Default k) = None \<longleftrightarrow> ks_uwsgi k = None"
  "db_tls (ks_database (Default k)) = None \<longleftrightarrow> db_tls (ks_database k) = None"
  "ks_password_rotation k = Some p \<Longrightarrow> ks_password_rotation (Default k) = Some p' \<Longrightarrow> pw_enabled p' = pw_enabled p"
  by (auto simp: database_defaults_def Let_def split: option.splits)

end
