(* ===== verification/KeystoneProperties.thy ===== *)
theory KeystoneProperties
  imports KeystoneAdmission
begin

text \<open>
  Properties of the Keystone operator outside the upgrade: what its admission webhook guarantees to the builders
  that consume the resource, its steps, its finalizers and its rotations.
\<close>

section \<open>Admission\<close>

text \<open>
  C35. A Keystone resource that was defaulted and then passed validation can be deployed: replicas are positive and
  not rounded up, the pre-stop sleep and a worst-case request fit the grace period, the autoscaler built from it
  has bounds in order and at least one target between 1 and 100, an enabled database TLS names both Secrets and
  yields connection parameters, at least three keys stay active in both rotations, an isolated deployment admits
  somebody, every plugin has its own section and no trusted dashboard is repeated or hidden by extra
  configuration.\<close>

theorem admitted_is_deployable:
  assumes "validate A (k\<lparr>ko_spec := Default (ko_spec k)\<rparr>) = None" "s = Default (ko_spec k)" "d = ks_deployment s"
    and "is_int64 (TerminationGracePeriodSeconds d)"
  shows "1 \<le> de_replicas d \<and> EffectiveReplicas d = de_replicas d \<and>
    0 \<le> resolvedPreStop d \<and> resolvedPreStop d < TerminationGracePeriodSeconds d \<and>
    (\<forall>u h. ks_uwsgi s = Some u \<and> uw_harakiri u = Some h \<longrightarrow> resolvedPreStop d + h < TerminationGracePeriodSeconds d) \<and>
    (\<forall>a ns n l m. ks_autoscaling s = Some a \<and> hp_min_replicas (BuildHPA ns n l d a) = Some m \<longrightarrow>
       1 \<le> m \<and> m \<le> hp_max_replicas (BuildHPA ns n l d a) \<and> hp_metrics (BuildHPA ns n l d a) \<noteq> [] \<and>
       list_all (\<lambda>(_, t). 1 \<le> t \<and> t \<le> 100) (hp_metrics (BuildHPA ns n l d a))) \<and>
    (TLSIsEnabled (db_tls (ks_database s)) \<longrightarrow>
       (\<forall>paths. \<exists>t q. db_tls (ks_database s) = Some t \<and> SSLParams (tls_mode t) paths = Inr q \<and>
          sr_name (tls_ca_bundle t) \<noteq> [] \<and> sr_name (tls_client_cert t) \<noteq> [])) \<and>
    3 \<le> fe_max_active (ks_fernet s) \<and> 3 \<le> ck_max_active (ks_credential_keys s) \<and>
    (\<forall>np. ks_network_policy s = Some np \<longrightarrow> npp_ingress np \<noteq> []) \<and>
    distinct (map pl_section (ks_plugins s)) \<and>
    (\<forall>f. ks_federation s = Some f \<longrightarrow> distinct (fd_dashboards f) \<and>
       (fd_dashboards f \<noteq> [] \<longrightarrow> map_of (get_or [] (ks_extra_config s) ''federation'') ''trusted_dashboard'' = None))"
proof -
  have "spec_errors A (m_name (ko_meta k)) s = []" using assms(1,2) by (simp add: validate_None_iff)
  note e = spec_errors_NilD [OF this]
  have g: "resolvedGrace d = TerminationGracePeriodSeconds d"
    by (simp add: resolvedGrace_def TerminationGracePeriodSeconds_def)
  note t = accepted_termination [OF e(12,10), folded assms(3), unfolded g, OF assms(4)]
  have r: "1 \<le> de_replicas d" using e(1) assms(3) by (simp add: image_errors_def)
  have eff: "EffectiveReplicas d = de_replicas d" using r by (simp add: EffectiveReplicas_def)
  have drain: "\<forall>u h. ks_uwsgi s = Some u \<and> uw_harakiri u = Some h \<longrightarrow> resolvedPreStop d + h < TerminationGracePeriodSeconds d"
    using t(4) by blast
  have hpa: "\<forall>a ns n l m. ks_autoscaling s = Some a \<and> hp_min_replicas (BuildHPA ns n l d a) = Some m \<longrightarrow>
       1 \<le> m \<and> m \<le> hp_max_replicas (BuildHPA ns n l d a) \<and> hp_metrics (BuildHPA ns n l d a) \<noteq> [] \<and>
       list_all (\<lambda>(_, t). 1 \<le> t \<and> t \<le> 100) (hp_metrics (BuildHPA ns n l d a))"
  proof (intro allI impI, elim conjE)
    fix a ns n l m
    assume a: "ks_autoscaling s = Some a" and m: "hp_min_replicas (BuildHPA ns n l d a) = Some m"
    note b = accepted_autoscaler [OF e(13,1) a, folded assms(3), of ns n l]
    show "1 \<le> m \<and> m \<le> hp_max_replicas (BuildHPA ns n l d a) \<and> hp_metrics (BuildHPA ns n l d a) \<noteq> [] \<and>
       list_all (\<lambda>(_, t). 1 \<le> t \<and> t \<le> 100) (hp_metrics (BuildHPA ns n l d a))"
      using b(1) m b(2,3) by (intro conjI) auto
  qed
  have tls: "TLSIsEnabled (db_tls (ks_database s)) \<longrightarrow>
       (\<forall>paths. \<exists>t q. db_tls (ks_database s) = Some t \<and> SSLParams (tls_mode t) paths = Inr q \<and>
          sr_name (tls_ca_bundle t) \<noteq> [] \<and> sr_name (tls_client_cert t) \<noteq> [])"
    using accepted_tls [OF e(5)] by blast
  have keys: "3 \<le> fe_max_active (ks_fernet s)" "3 \<le> ck_max_active (ks_credential_keys s)"
    using e(3) assms(2) by (auto simp: key_count_errors_def split: if_splits)
  have np: "\<forall>np. ks_network_policy s = Some np \<longrightarrow> npp_ingress np \<noteq> []"
    using e(14) by (auto simp: exposure_errors_def)
  have plugins: "distinct (map pl_section (ks_plugins s))" using e(8) by (simp add: plugin_errors_Nil_iff)
  have dash: "\<forall>f. ks_federation s = Some f \<longrightarrow> distinct (fd_dashboards f) \<and>
       (fd_dashboards f \<noteq> [] \<longrightarrow> map_of (get_or [] (ks_extra_config s) ''federation'') ''trusted_dashboard'' = None)"
    using e(2) by (auto simp: validateTrustedDashboards_def dashboard_errors_Nil_iff split: if_splits)
  show ?thesis
    by (intro conjI) (fact r eff t(1) t(2) drain hpa tls keys np plugins dash)+
qed

definition ex_admission :: admission_env where
  "ex_admission =
     \<lparr>ad_parse_cron = (\<lambda>s. None), ad_parse_url = (\<lambda>s. Inr \<lparr>ul_scheme = ''https'', ul_host = ''id.example'', ul_hostname = ''id.example''\<rparr>),
      ad_cmp_quantity = (\<lambda>a b. 0), ad_priority_class = None\<rparr>"

definition ex_spec :: KeystoneSpec where
  "ex_spec =
     \<lparr>ks_deployment = \<lparr>de_replicas = 0, de_resources = None, de_grace_period = Some 60, de_pre_stop_sleep = None,
        de_strategy = None, de_topology_spread = None, de_priority_class = None\<rparr>,
      ks_image = \<lparr>im_repository = ''ghcr.io/keystone'', im_tag = ''2025.2'', im_digest = []\<rparr>,
      ks_database = \<lparr>db_cluster_ref = Some ''mariadb'', db_credentials_mode = [], db_host = [], db_port = 0, db_database = ''keystone'',
        db_secret_ref = \<lparr>sr_name = ''db'', sr_key = []\<rparr>,
        db_tls = Some \<lparr>tls_mode = ''verify-full'', tls_ca_bundle = \<lparr>sr_name = ''ca'', sr_key = []\<rparr>,
          tls_client_cert = \<lparr>sr_name = ''client'', sr_key = []\<rparr>\<rparr>, db_replicas = 1, db_storage_size = []\<rparr>,
      ks_cache = \<lparr>ca_cluster_ref = Some ''memcached'', ca_backend = [], ca_servers = [], ca_replicas = 1\<rparr>,
      ks_fernet = \<lparr>fe_schedule = ''0 0 * * 0'', fe_max_active = 0, fe_suspend = False\<rparr>,
      ks_credential_keys = \<lparr>ck_schedule = ''0 0 * * 0'', ck_max_active = 5, ck_suspend = False\<rparr>,
      ks_password_rotation = None, ks_trust_flush = None,
      ks_federation = Some \<lparr>fd_proxy_image = None, fd_dashboards = [''https://a'', ''https://b'']\<rparr>,
      ks_bootstrap = \<lparr>bs_admin_user = [], bs_admin_secret = \<lparr>sr_name = ''admin'', sr_key = []\<rparr>, bs_region = [],
        bs_public_endpoint = ''https://id.example:8443/v3''\<rparr>,
      ks_middleware = [], ks_plugins = [\<lparr>pl_name = ''p'', pl_section = ''s'', pl_config = []\<rparr>], ks_policy_overrides = None,
      ks_secret_store_ref = None,
      ks_autoscaling = Some \<lparr>as_min_replicas = None, as_max_replicas = 6, as_target_cpu = Some 80, as_target_memory = None\<rparr>,
      ks_network_policy = Some \<lparr>npp_ingress = [\<lparr>ns_namespace_selector = \<lparr>ls_match_labels = [], ls_match_expressions = []\<rparr>,
        ns_pod_selector = None\<rparr>], npp_egress = []\<rparr>,
      ks_gateway = Some \<lparr>gw_parent = \<lparr>gp_name = ''gw'', gp_namespace = [], gp_section = []\<rparr>, gw_hostname = ''id.example'',
        gw_path = [], gw_annotations = []\<rparr>,
      ks_uwsgi = Some \<lparr>uw_processes = 0, uw_threads = 0, uw_keep_alive = None, uw_harakiri = Some 40, uw_keep_alive_timeout = None\<rparr>,
      ks_logging = None, ks_extra_config = []\<rparr>"

definition ex_resource :: Keystone where
  "ex_resource =
     \<lparr>ko_meta = blank_meta\<lparr>m_name := ''keystone'', m_namespace := ''openstack'', m_uid := ''u'', m_generation := 1\<rparr>, ko_spec = ex_spec,
      ko_status = \<lparr>kt_conditions = [], kt_observed_generation = 0, kt_endpoint = [], kt_installed = [], kt_target = [], kt_phase = []\<rparr>\<rparr>"

lemma ex_resource_admitted: "validate ex_admission (ex_resource\<lparr>ko_spec := Default (ko_spec ex_resource)\<rparr>) = None"
  by (simp add: validate_None_iff ex_resource_def spec_errors_def ex_spec_def ex_admission_def image_errors_def DeploymentSpecDefault_def
      DefaultReplicas_def validateTrustedDashboards_def key_count_errors_def shared_errors_def CacheXOR_def DatabaseXOR_def
      DynamicCredentialsRequireClusterRef_def SecretStoreRef_def tls_errors_def database_defaults_def database_tls_modes_def TLSIsEnabled_def
      schedule_errors_def cron_errors_Nil_iff DefaultTrustFlushSchedule_def password_errors_def policy_errors_def uwsgi_errors_def
      uwsgi_defaults_def DefaultUWSGIProcesses_def DefaultUWSGIThreads_def DefaultUWSGIHTTPKeepAlive_def logging_errors_def no_logging_def
      LoggingSpecDefault_def termination_errors_def resolvedGrace_def resolvedPreStop_def DefaultPreStopSleepSeconds_def wrap64_def
      validLevels_def
      autoscaling_errors_def percent_error_def exposure_errors_def pod_errors_def resource_errors_Nil_iff get_or_def Let_def)

lemma admitted_is_deployable_witness:
  "resolvedPreStop (ks_deployment (Default ex_spec)) + 40 < TerminationGracePeriodSeconds (ks_deployment (Default ex_spec)) \<and>
   3 \<le> fe_max_active (ks_fernet (Default ex_spec))"
  using admitted_is_deployable [OF ex_resource_admitted refl refl]
  by (simp add: ex_resource_def ex_spec_def DeploymentSpecDefault_def DefaultReplicas_def TerminationGracePeriodSeconds_def
      resolvedPreStop_def DefaultPreStopSleepSeconds_def is_int64_def Let_def)

text \<open>
  Defaulting settles at once (a second defaulting changes nothing) and turns nothing on: an unset password
  rotation, TLS block or uWSGI block stays unset, and a disabled rotation stays disabled.\<close>

lemma defaulting_settles:
  "Default (Default k) = Default k \<and>
   map_option pw_enabled (ks_password_rotation (Default k)) = map_option pw_enabled (ks_password_rotation k) \<and>
   (db_tls (ks_database (Default k)) = None) = (db_tls (ks_database k) = None) \<and>
   (ks_uwsgi (Default k) = None) = (ks_uwsgi k = None)"
proof (intro conjI)
  show "Default (Default k) = Default k" by (rule Default_idem)
  show "map_option pw_enabled (ks_password_rotation (Default k)) = map_option pw_enabled (ks_password_rotation k)"
    by (cases "ks_password_rotation k") (simp_all add: password_defaults_def Let_def)
  show "(db_tls (ks_database (Default k)) = None) = (db_tls (ks_database k) = None)" "(ks_uwsgi (Default k) = None) = (ks_uwsgi k = None)"
    using Default_opt_in [of k] by blast+
qed

end
