(* ===== verification/KeystoneLoopProperties.thy ===== *)
theory KeystoneLoopProperties
  imports KeystoneController KeystoneProperties
begin

text \<open>
  Properties of the Keystone reconcile loop, of the deletion of its OpenBao backups, and of its keys and
  passwords.
\<close>

section \<open>Examples for the witnesses\<close>

definition idle :: "'w ks_step" where
  "idle s = ((zero_result, None), s)"

definition ex_subs :: "nat sub_reconcilers" where
  "ex_subs =
     \<lparr>su_secrets = idle, su_database_tls = idle, su_connection = (\<lambda>s. ((zero_result, ''dsn'', None), s)),
      su_backends = (\<lambda>s. (([], None, None), s)), su_config = (\<lambda>d f s. ((''config'', None), s)),
      su_fernet = (\<lambda>c d. idle), su_credential = (\<lambda>c d. idle), su_network = (\<lambda>f. idle), su_database = (\<lambda>c d. idle),
      su_policy = (\<lambda>c d. idle), su_deployment = (\<lambda>c h d f. idle), su_prune_config = (\<lambda>k n w. (None, w)),
      su_prune_domains = (\<lambda>k n w. (None, w)), su_prune_federation = (\<lambda>k n w. (None, w)), su_route = idle, su_health = idle,
      su_hpa = idle, su_bootstrap = (\<lambda>c d. idle), su_trust_flush = (\<lambda>c d. idle), su_password = (\<lambda>c. idle)\<rparr>"

text \<open>The backups as a store, with a log of events and the time since the deletion.\<close>

type_synonym backup_world = "(objkey \<times> push_secret) list \<times> event list \<times> duration"

definition ex_push :: "(push_secret, backup_world) kclient" where
  "ex_push =
     (let C = store_client ps_meta in
      \<lparr>k_get = (\<lambda>k w. k_get C k (fst w)), k_list = (\<lambda>ns ls w. k_list C ns ls (fst w)),
       k_create = (\<lambda>x w. apsnd (\<lambda>v. (v, snd w)) (k_create C x (fst w))),
       k_update = (\<lambda>x w. apsnd (\<lambda>v. (v, snd w)) (k_update C x (fst w))),
       k_apply = (\<lambda>x w. apsnd (\<lambda>v. (v, snd w)) (k_apply C x (fst w))),
       k_delete = (\<lambda>opts x w. apsnd (\<lambda>v. (v, snd w)) (k_delete C opts x (fst w)))\<rparr>)"

definition ex_deletion :: "backup_world deletion_env" where
  "ex_deletion =
     \<lparr>dl_meta = ref_meta, dl_push = ex_push, dl_update = (\<lambda>k w. (Inr k, w)), dl_resources = [],
      dl_log = (\<lambda>ev w. (fst w, fst (snd w) @ [ev], snd (snd w))), dl_since_deletion = (\<lambda>k w. snd (snd w)),
      dl_forget_metrics = (\<lambda>n ns w. w), dl_evict_probe = (\<lambda>key w. w), dl_evict_config = (\<lambda>key w. w)\<rparr>"

definition ex_loop :: "nat loop_env" where
  "ex_loop =
     (let D = \<lparr>dl_meta = ref_meta, dl_push = \<lparr>k_get = (\<lambda>k w. Inl (ApiErr NotFound)), k_list = (\<lambda>ns ls w. Inr []),
                  k_create = (\<lambda>x w. (Inr x, w)), k_update = (\<lambda>x w. (Inr x, w)), k_apply = (\<lambda>x w. (Inr x, w)),
                  k_delete = (\<lambda>o' x w. (None, w))\<rparr>,
                dl_update = (\<lambda>k w. (Inr k, w)), dl_resources = [], dl_log = (\<lambda>ev w. w), dl_since_deletion = (\<lambda>k w. 0),
                dl_forget_metrics = (\<lambda>n ns w. w), dl_evict_probe = (\<lambda>key w. w), dl_evict_config = (\<lambda>key w. w)\<rparr>
      in \<lparr>lp_meta = ref_meta,
          lp_client = \<lparr>k_get = (\<lambda>key w. Inr ex_resource), k_list = (\<lambda>ns ls w. Inr [ex_resource]), k_create = (\<lambda>x w. (Inr x, w)),
             k_update = (\<lambda>x w. (Inr x, w)), k_apply = (\<lambda>x w. (Inr x, w)), k_delete = (\<lambda>o' x w. (None, w))\<rparr>,
          lp_deletion = D, lp_sem_eq = (=), lp_status_update = (\<lambda>k w. (Inr k, Suc w)), lp_instr = (\<lambda>n f. f),
          lp_member_instr = (\<lambda>n f. f), lp_order1 = [0, 1, 2], lp_order2 = [0, 1, 2, 3, 4]\<rparr>)"

lemma ex_loop_simps [simp]:
  "lp_meta ex_loop = ref_meta" "lp_instr ex_loop = (\<lambda>n f. f)" "echoes (lp_status_update ex_loop)" "keeps_pass (\<lambda>n f. f)"
  by (simp_all add: ex_loop_def Let_def echoes_def keeps_pass_def)

section \<open>The loop\<close>

text \<open>
  Whatever a pass of the Keystone pipeline does, the status it leaves is aggregated from the sub-conditions of
  that very pass: Ready is true exactly when all fifteen sub-conditions are true, and observedGeneration is the
  generation of the resource the pass worked on.\<close>

lemma keystone_status_aggregated:
  assumes "meta_contract (lp_meta L)" "echoes (lp_status_update L)" "reconcile_live L S (k, w) = (r, k', w')"
  shows "(IsReady (lp_meta L) (ko_conditions k') \<longleftrightarrow> list_all (cond_true (lp_meta L) (ko_conditions k')) subConditionTypes) \<and>
    kt_observed_generation (ko_status k') = ko_generation (ps_keystone (snd (run_passes L S (k, w))))"
proof -
  obtain res e p where p: "run_passes L S (k, w) = ((res, e), p)" by (metis prod.exhaust)
  have "updateStatus (lp_meta L) (lp_sem_eq L) (lp_status_update L) (ko_status k) res e (ps_keystone p, ps_world p) = (r, k', w')"
    using assms(3) p by (simp add: reconcile_live_def)
  then have st: "ko_status k' = final_status (lp_meta L) (ps_keystone p)" by (rule updateStatus_status [OF assms(2)])
  show ?thesis using final_ready_iff [OF assms(1)] final_status_generation p by (simp add: st)
qed

text \<open>
  A failure to render the configuration is visible: the pass leaves SecretsReady false with reason ConfigError
  and Ready false, so that a resource that was Ready before cannot stay so, and the error is returned.\<close>

lemma config_failure_visible:
  assumes "meta_contract (lp_meta L)" "echoes (lp_status_update L)" "keeps_pass (lp_instr L)"
    and "all_pass (lp_instr L) (take 4 (keystone_pipeline (lp_meta L) (lp_member_instr L) (lp_order1 L) (lp_order2 L) S))
           (fresh_pass k w)"
    and "\<And>d f s. snd (fst (su_config S d f s)) \<noteq> None"
    and "reconcile_live L S (k, w) = ((res, e), k', w')"
  shows "e \<noteq> None \<and> cond_is (lp_meta L) (ko_conditions k') ''SecretsReady'' CFalse ''ConfigError'' \<and>
    \<not> IsReady (lp_meta L) (ko_conditions k')"
proof -
  let ?P = "keystone_pipeline (lp_meta L) (lp_member_instr L) (lp_order1 L) (lp_order2 L) S"
  let ?q = "snd (RunPipeline (lp_instr L) (take 4 ?P) (fresh_pass k w))"
  let ?st = "named ''Config'' (config_step (lp_meta L) S)"
  let ?r = "run_step (lp_instr L) ?st ?q"
  have split: "?P = take 4 ?P @ ?st # drop 5 ?P" by (simp add: keystone_pipeline_def)
  have inner: "snd (fst (config_step (lp_meta L) S q)) \<noteq> None \<and>
      cond_is (lp_meta L) (ko_conditions (ps_keystone (snd (config_step (lp_meta L) S q)))) ''SecretsReady'' CFalse ''ConfigError''" for q
    using assms(5) [of "ps_domains q \<noteq> []" "ps_federation q" "(ps_keystone q, ps_world q)"] config_failed_condition [OF assms(1)]
    by (auto simp: config_step_def Let_def split: prod.splits option.splits)
  have r: "snd (fst ?r) \<noteq> None"
    "cond_is (lp_meta L) (ko_conditions (ps_keystone (snd ?r))) ''SecretsReady'' CFalse ''ConfigError''"
    using inner [of ?q] assms(3) by (simp_all add: keeps_pass_def run_step_named)
  then have "\<not> passes ?r" by (auto simp: passes_def)
  then have run: "run_passes L S (k, w) = ?r"
    unfolding run_passes_def using RunPipeline_stops [OF assms(4), of ?st "drop 5 ?P"] split by simp
  have "updateStatus (lp_meta L) (lp_sem_eq L) (lp_status_update L) (ko_status k) (fst (fst ?r)) (snd (fst ?r))
      (ps_keystone (snd ?r), ps_world (snd ?r)) = ((res, e), k', w')"
    using assms(6) run by (simp add: reconcile_live_def split_beta Let_def)
  note u = this
  have st: "ko_status k' = final_status (lp_meta L) (ps_keystone (snd ?r))" by (rule updateStatus_status [OF assms(2) u])
  obtain x where x: "snd (fst ?r) = Some x" using r(1) by blast
  have "e \<noteq> None" by (rule updateStatus_error [OF u [unfolded x]])
  moreover have "''SecretsReady'' \<in> set subConditionTypes" by (simp add: subConditionTypes_def)
  ultimately show ?thesis using final_not_ready [OF assms(1) _ r(2)] by (simp add: st)
qed

text \<open>
  C36. Nothing is rolled out before everything it depends on has passed: as long as the secrets, the database TLS
  material, the connection Secret, the identity backends, the configuration, the keys and network policy, the
  database and the policy validation have not all passed in this pass, the pass is the same whatever the
  Deployment, pruning, bootstrap, trust-flush and password steps would do.\<close>

theorem rollout_gated:
  assumes "\<not> all_pass (lp_instr L) (take 8 (keystone_pipeline (lp_meta L) (lp_member_instr L) (lp_order1 L) (lp_order2 L) S))
             (fresh_pass k w)"
  shows "reconcile_live L (S\<lparr>su_deployment := dep, su_prune_config := pruneA, su_prune_domains := pruneB, su_prune_federation := pruneC,
      su_bootstrap := boot, su_trust_flush := tf, su_password := pw\<rparr>) (k, w) = reconcile_live L S (k, w)"
proof -
  let ?S = "S\<lparr>su_deployment := dep, su_prune_config := pruneA, su_prune_domains := pruneB, su_prune_federation := pruneC,
      su_bootstrap := boot, su_trust_flush := tf, su_password := pw\<rparr>"
  let ?P = "keystone_pipeline (lp_meta L) (lp_member_instr L) (lp_order1 L) (lp_order2 L)"
  have same: "take 8 (?P ?S) = take 8 (?P S)"
    by (simp add: keystone_pipeline_def connection_step_def [abs_def] backends_step_def [abs_def] config_step_def [abs_def] first_group_def)
  have "RunPipeline (lp_instr L) (?P T) (fresh_pass k w) = RunPipeline (lp_instr L) (take 8 (?P S)) (fresh_pass k w)"
    if "take 8 (?P T) = take 8 (?P S)" for T
    using RunPipeline_prefix [OF assms, of "drop 8 (?P T)"] that by (metis append_take_drop_id)
  from this [OF same] this [OF refl] have "run_passes L ?S (k, w) = run_passes L S (k, w)" by (simp add: run_passes_def)
  then show ?thesis by (simp add: reconcile_live_def)
qed

definition ex_waiting :: "nat sub_reconcilers" where
  "ex_waiting = ex_subs\<lparr>su_database := (\<lambda>c d s. ((after RequeueDatabaseWait, None), s))\<rparr>"

lemma rollout_gated_witness:
  "reconcile_live ex_loop (ex_waiting\<lparr>su_deployment := (\<lambda>c h d f s. ((requeue_now, None), fst s, snd s + 100))\<rparr>) (ex_resource, 0) =
   reconcile_live ex_loop ex_waiting (ex_resource, 0)"
proof -
  have "\<not> all_pass (lp_instr ex_loop) (take 8 (keystone_pipeline (lp_meta ex_loop) (lp_member_instr ex_loop) (lp_order1 ex_loop)
      (lp_order2 ex_loop) ex_waiting)) (fresh_pass ex_resource 0)"
    by (simp add: keystone_pipeline_def run_step_named ex_waiting_def on_keystone_def passes_def RequeueDatabaseWait_def seconds_def
        split_beta)
  from rollout_gated [OF this, where dep = "\<lambda>c h d f s. ((requeue_now, None), fst s, snd s + 100)" and
      pruneA = "su_prune_config ex_waiting" and pruneB = "su_prune_domains ex_waiting" and pruneC = "su_prune_federation ex_waiting" and
      boot = "su_bootstrap ex_waiting" and tf = "su_trust_flush ex_waiting" and pw = "su_password ex_waiting"]
  show ?thesis by (simp add: ex_waiting_def ex_subs_def)
qed

section \<open>Deletion\<close>

text \<open>Recording an event changes neither the backups nor the clock.\<close>

definition quiet_log :: "'w deletion_env \<Rightarrow> bool" where
  "quiet_log D \<longleftrightarrow> (\<forall>ev w. (\<forall>key. k_get (dl_push D) key (dl_log D ev w) = k_get (dl_push D) key w) \<and>
     (\<forall>k. dl_since_deletion D k (dl_log D ev w) = dl_since_deletion D k w))"

lemma unadopted_log: "quiet_log D \<Longrightarrow> unadopted (dl_push D) (dl_log D ev w) key = unadopted (dl_push D) w key"
  by (cases key) (simp add: quiet_log_def unadopted_def)

lemma finalize_blocked:
  assumes "unadopted (dl_push D) w (ko_namespace k, name)" "name \<in> set (openBaoBackupPushSecretNames k)"
    and "dl_since_deletion D k w \<le> OpenBaoAdoptionWaitTimeout" "finalizeOpenBaoSecrets D (k, w) = ((fin, e), k', w')"
  shows "\<not> fin \<and> w' = w \<and> ko_meta k' = ko_meta k"
  using assms adoption_pass_blocked [OF assms(2,1)]
  by (auto simp: finalizeOpenBaoSecrets_def Let_def setOpenBaoWaitingForESOAdoptionCondition_def report_def split: adoption.splits)

text \<open>
  The backups of the keys are not deleted before ESO has adopted them: while one of them is there, not
  terminating and without ESO's finalizer, and the wait has not exceeded its bound, a deletion pass changes
  nothing but the event log, keeps the finalizer of the resource and asks to be run again.\<close>

lemma openbao_adoption_gate:
  assumes "quiet_log D" "has_finalizer k keystoneOpenBaoFinalizer"
    and "unadopted (dl_push D) w (ko_namespace k, name)" "name \<in> set (openBaoBackupPushSecretNames k)"
    and "dl_since_deletion D k w \<le> OpenBaoAdoptionWaitTimeout"
    and "reconcileDeleteOpenBao D (k, w) = (r, k', w')"
  shows "(w' = w \<or> (\<exists>ev. w' = dl_log D ev w)) \<and> has_finalizer k' keystoneOpenBaoFinalizer \<and> \<not> passes (r, s)"
proof -
  have blocked: "\<not> fin \<and> w2 = w1 \<and> ko_meta k1 = ko_meta k"
    if f: "finalizeOpenBaoSecrets D (k, w1) = ((fin, e), k1, w2)" and w1: "w1 = w \<or> (\<exists>ev. w1 = dl_log D ev w)" for w1 fin e k1 w2
  proof (rule finalize_blocked [OF _ assms(4) _ f])
    show "unadopted (dl_push D) w1 (ko_namespace k, name)" using w1 assms(1,3) by (auto simp: unadopted_log)
    show "dl_since_deletion D k w1 \<le> OpenBaoAdoptionWaitTimeout" using w1 assms(1,5) by (auto simp: quiet_log_def)
  qed
  show ?thesis
  proof (cases "hasLiveOpenBaoBackupPushSecrets D k w")
    case (Inl e)
    then show ?thesis using assms(2,6) by (auto simp: reconcileDeleteOpenBao_def passes_def)
  next
    case (Inr live)
    define w1 where "w1 = (if live then dl_log D (normal_event ''FinalizingOpenBaoSecrets''
      ''Cleaning up OpenBao backup PushSecrets before removing Keystone'') w else w)"
    have w1: "w1 = w \<or> (\<exists>ev. w1 = dl_log D ev w)" by (auto simp: w1_def)
    obtain fin e k1 w2 where f: "finalizeOpenBaoSecrets D (k, w1) = ((fin, e), k1, w2)" by (metis prod.exhaust)
    note b = blocked [OF f w1]
    then have "r \<noteq> (zero_result, None) \<and> k' = k1 \<and> w' = w2"
      using assms(2,6) Inr f
      by (cases e) (auto simp: reconcileDeleteOpenBao_def w1_def [symmetric] RequeueSecretPolling_def seconds_def)
    then show ?thesis using b w1 assms(2) by (auto simp: passes_def has_finalizer_def)
  qed
qed

definition ex_backup :: "string \<Rightarrow> string list \<Rightarrow> push_secret" where
  "ex_backup name fins = (bare_push_secret ''openstack'' name)\<lparr>ps_meta := blank_meta\<lparr>m_name := name, m_namespace := ''openstack'',
     m_finalizers := fins\<rparr>\<rparr>"

definition ex_deleted :: Keystone where
  "ex_deleted = ex_resource\<lparr>ko_meta := (ko_meta ex_resource)\<lparr>m_deleting := True, m_finalizers := [keystoneOpenBaoFinalizer]\<rparr>\<rparr>"

text \<open>The Fernet backup has been adopted, the credential backup has not.\<close>

definition ex_half_adopted :: "duration \<Rightarrow> backup_world" where
  "ex_half_adopted d =
     ([((''openstack'', ''keystone-fernet-keys-backup''), ex_backup ''keystone-fernet-keys-backup'' [esoPushSecretFinalizer]),
       ((''openstack'', ''keystone-credential-keys-backup''), ex_backup ''keystone-credential-keys-backup'' [])], [], d)"

lemma ex_push_simps [simp]:
  "k_get ex_push key w = (case map_of (fst w) key of None \<Rightarrow> Inl (ApiErr NotFound) | Some x \<Rightarrow> Inr x)"
  "k_delete ex_push opts x w =
     (if map_of (fst w) (key_of (ps_meta x)) = None then (Some (ApiErr NotFound), w)
      else (None, AList.delete (key_of (ps_meta x)) (fst w), snd w))"
  by (simp_all add: ex_push_def Let_def)

lemma ex_deletion_simps [simp]:
  "dl_push ex_deletion = ex_push" "dl_log ex_deletion ev w = (fst w, fst (snd w) @ [ev], snd (snd w))"
  "dl_since_deletion ex_deletion k w = snd (snd w)" "dl_update ex_deletion k w = (Inr k, w)" "dl_meta ex_deletion = ref_meta"
  by (simp_all add: ex_deletion_def)

lemma ex_deletion_quiet: "quiet_log ex_deletion"
  by (simp add: quiet_log_def)

lemma ex_deleted_simps [simp]:
  "has_finalizer ex_deleted keystoneOpenBaoFinalizer" "ko_namespace ex_deleted = ''openstack''"
  "openBaoBackupPushSecretNames ex_deleted = [''keystone-fernet-keys-backup'', ''keystone-credential-keys-backup'']"
  "m_deleting (ko_meta ex_deleted)"
  by (simp_all add: has_finalizer_def ex_deleted_def ex_resource_def openBaoBackupPushSecretNames_def)

lemma ex_half_adopted_blocked:
  "unadopted ex_push (ex_half_adopted d) (''openstack'', ''keystone-credential-keys-backup'')"
  by (simp add: unadopted_def ex_half_adopted_def ex_backup_def bare_push_secret_def hasESOFinalizer_def blank_meta_def)

text \<open>
  With one backup adopted and the other not, the adopted one counts as live on every pass while nothing is
  deleted, so the event that announces the cleanup is emitted again each time.\<close>

lemma half_adopted_announced_again:
  "let run = reconcileDeleteOpenBao ex_deletion;
       (r1, k1, w1) = run (ex_deleted, ex_half_adopted 0); (r2, k2, w2) = run (k1, w1)
   in map ev_reason (fst (snd w2)) = [''FinalizingOpenBaoSecrets'', ''FinalizingOpenBaoSecrets'']"
  by (simp add: reconcileDeleteOpenBao_def hasLiveOpenBaoBackupPushSecrets_def finalizeOpenBaoSecrets_def ex_half_adopted_def
      ex_backup_def bare_push_secret_def hasESOFinalizer_def blank_meta_def normal_event_def OpenBaoAdoptionWaitTimeout_def minutes_def
      seconds_def setOpenBaoWaitingForESOAdoptionCondition_def report_def has_finalizer_def put_conditions_def
      ex_deleted_def ex_resource_def openBaoBackupPushSecretNames_def esoPushSecretFinalizer_def keystoneOpenBaoFinalizer_def Let_def)

text \<open>
  C37. The finalizer that protects the backups is released only when they are gone: a deletion pass that ends with
  neither an error nor a requeue removed the finalizer after a state of the API server in which neither
  PushSecret existed.\<close>

theorem openbao_release_safe:
  assumes "has_finalizer k keystoneOpenBaoFinalizer" "reconcileDeleteOpenBao D (k, w) = ((zero_result, None), k', w')"
  shows "\<exists>w1 w2. list_all (\<lambda>n. absent (dl_push D) (ko_namespace k, n) w1) (openBaoBackupPushSecretNames k) \<and>
    w2 = dl_log D (normal_event ''OpenBaoSecretsFinalized'' ''OpenBao backup PushSecrets deleted; releasing openbao-finalizer'') w1 \<and>
    dl_update D (remove_finalizer k keystoneOpenBaoFinalizer) w2 = (Inr k', w')"
proof -
  obtain live where live: "hasLiveOpenBaoBackupPushSecrets D k w = Inr live"
    using assms by (cases "hasLiveOpenBaoBackupPushSecrets D k w") (auto simp: reconcileDeleteOpenBao_def)
  define w0 where "w0 = (if live then dl_log D (normal_event ''FinalizingOpenBaoSecrets''
      ''Cleaning up OpenBao backup PushSecrets before removing Keystone'') w else w)"
  obtain fin e k1 w1 where f: "finalizeOpenBaoSecrets D (k, w0) = ((fin, e), k1, w1)" by (metis prod.exhaust)
  have "e = None \<and> fin" using assms live f
    by (cases e; cases fin) (auto simp: reconcileDeleteOpenBao_def w0_def [symmetric] RequeueSecretPolling_def seconds_def)
  then have f': "finalizeOpenBaoSecrets D (k, w0) = ((True, None), k1, w1)" using f by simp
  note d = finalizeOpenBaoSecrets_done [OF f']
  then show ?thesis using assms live f'
    by (intro exI [of _ w1] exI [of _ "dl_log D (normal_event ''OpenBaoSecretsFinalized''
          ''OpenBao backup PushSecrets deleted; releasing openbao-finalizer'') w1"])
      (auto simp: reconcileDeleteOpenBao_def w0_def [symmetric] Let_def split: prod.splits sum.splits)
qed

lemma ex_push_deletes: "deletes ps_meta ex_push"
  by (auto simp: deletes_def split: option.splits)

lemma ex_gone_pass:
  "reconcileDeleteOpenBao ex_deletion (ex_deleted, ([], [], 0)) =
     ((zero_result, None), remove_finalizer ex_deleted keystoneOpenBaoFinalizer,
      [], [normal_event ''OpenBaoSecretsFinalized'' ''OpenBao backup PushSecrets deleted; releasing openbao-finalizer''], 0)"
  by (simp add: reconcileDeleteOpenBao_def hasLiveOpenBaoBackupPushSecrets_def finalizeOpenBaoSecrets_def delete_backups_def Let_def)

lemma openbao_release_safe_witness:
  "\<exists>w1. list_all (\<lambda>n. absent ex_push (''openstack'', n) w1) (openBaoBackupPushSecretNames ex_deleted)"
proof -
  have "list_all (\<lambda>n. absent ex_push (''openstack'', n) (w1 :: backup_world)) (openBaoBackupPushSecretNames ex_deleted) \<Longrightarrow> ?thesis" for w1
    by (rule exI)
  then show ?thesis
    using openbao_release_safe [OF _ ex_gone_pass] ex_deleted_simps(1,2) by (metis ex_deletion_simps(1))
qed

text \<open>
  C38. Deletion does not hang on a missing operator: once the bound on the wait has passed, a deletion pass ends with neither
  an error nor a requeue, leaves neither backup PushSecret in the cluster and has, after that, released the finalizer, if
  the API server answers reads with an object or NotFound, deletes what it is asked to, and accepts the update of the
  resource.\<close>

theorem openbao_release_live:
  assumes "quiet_log D" "deletes ps_meta (dl_push D)" "has_finalizer k keystoneOpenBaoFinalizer" "m_deleting (ko_meta k)"
    and "dl_since_deletion D k w > OpenBaoAdoptionWaitTimeout"
    and "\<And>key w e. k_get (dl_push D) key w = Inl e \<Longrightarrow> is_not_found e"
    and "\<And>opts x w. ignore_not_found (fst (k_delete (dl_push D) opts x w)) = None"
    and "\<And>k w. \<exists>k2 w2. dl_update D k w = (Inr k2, w2) \<and> ko_meta k2 = ko_meta k"
  shows "\<exists>k' w' w1 w2. reconcileDeleteOpenBao D (k, w) = ((zero_result, None), k', w') \<and>
    \<not> has_finalizer k' keystoneOpenBaoFinalizer \<and>
    absent (dl_push D) (ko_namespace k, ko_name k @ ''-fernet-keys-backup'') w1 \<and>
    absent (dl_push D) (ko_namespace k, ko_name k @ ''-credential-keys-backup'') w1 \<and>
    w2 = dl_log D (normal_event ''OpenBaoSecretsFinalized'' ''OpenBao backup PushSecrets deleted; releasing openbao-finalizer'') w1 \<and>
    dl_update D (remove_finalizer k keystoneOpenBaoFinalizer) w2 = (Inr k', w')"
proof -
  have no_err: "\<exists>v. hasLive (dl_push D) ns names w1 = Inr v" for ns names w1
    using assms(6) by (induction names) (auto split: sum.splits)
  have adopt: "\<nexists>e. adoption_pass (dl_push D) ns names w1 = AdoptionError e" for ns names w1
    using assms(6) by (induction names) (auto split: sum.splits)
  have del: "\<exists>w2. delete_pass (dl_push D) ns names w1 = (None, w2)" for ns names w1
  proof (induction names arbitrary: w1)
    case (Cons n ns')
    then show ?case using assms(7) [of no_opts "bare_push_secret ns n" w1]
      by (auto simp: ignore_not_found_def split: prod.splits option.splits if_splits)
  qed simp
  have backups: "\<exists>w2. delete_backups D (k, w1) = ((True, None), k, w2)" for w1
  proof -
    obtain w2 where d: "delete_pass (dl_push D) (ko_namespace k) (openBaoBackupPushSecretNames k) w1 = (None, w2)" using del by blast
    then have "gone_pass (dl_push D) (ko_namespace k) (openBaoBackupPushSecretNames k) w2 = Inr None"
      unfolding gone_pass_None by (rule delete_pass_gone [OF assms(2)])
    then show ?thesis using d by (simp add: delete_backups_def)
  qed
  obtain live where live: "hasLiveOpenBaoBackupPushSecrets D k w = Inr live"
    using no_err unfolding hasLiveOpenBaoBackupPushSecrets_def by blast
  define w0 where "w0 = (if live then dl_log D (normal_event ''FinalizingOpenBaoSecrets''
      ''Cleaning up OpenBao backup PushSecrets before removing Keystone'') w else w)"
  have late: "dl_since_deletion D k w0 > OpenBaoAdoptionWaitTimeout"
    using assms(1,5) by (simp add: w0_def quiet_log_def)
  have "\<exists>w1. finalizeOpenBaoSecrets D (k, w0) = ((True, None), k, w1)"
    using adopt [of "ko_namespace k" "openBaoBackupPushSecretNames k" w0] backups late assms(4)
    by (auto simp: finalizeOpenBaoSecrets_def Let_def split: adoption.splits)
  then obtain w1 where f: "finalizeOpenBaoSecrets D (k, w0) = ((True, None), k, w1)" ..
  let ?w2 = "dl_log D (normal_event ''OpenBaoSecretsFinalized'' ''OpenBao backup PushSecrets deleted; releasing openbao-finalizer'') w1"
  obtain k2 w3 where u: "dl_update D (remove_finalizer k keystoneOpenBaoFinalizer) ?w2 = (Inr k2, w3)"
      "ko_meta k2 = ko_meta (remove_finalizer k keystoneOpenBaoFinalizer)" using assms(8) by blast
  have "reconcileDeleteOpenBao D (k, w) = ((zero_result, None), k2, w3)"
    using assms(3) live f u by (simp add: reconcileDeleteOpenBao_def w0_def [symmetric])
  moreover have "\<not> has_finalizer k2 keystoneOpenBaoFinalizer" using u(2) by (simp add: has_finalizer_def remove_finalizer_def)
  moreover have "absent (dl_push D) (ko_namespace k, ko_name k @ ''-fernet-keys-backup'') w1 \<and>
      absent (dl_push D) (ko_namespace k, ko_name k @ ''-credential-keys-backup'') w1"
    using finalizeOpenBaoSecrets_done [OF f] by (simp add: openBaoBackupPushSecretNames_def)
  ultimately show ?thesis using u(1) by blast
qed

lemma openbao_release_live_witness:
  "\<exists>k' w'. reconcileDeleteOpenBao ex_deletion (ex_deleted, ex_half_adopted (hours 1)) = ((zero_result, None), k', w') \<and>
     \<not> has_finalizer k' keystoneOpenBaoFinalizer"
proof -
  have push: "deletes ps_meta (dl_push ex_deletion)" by (simp add: ex_push_deletes)
  have late: "OpenBaoAdoptionWaitTimeout < dl_since_deletion ex_deletion ex_deleted (ex_half_adopted (hours 1))"
    by (simp add: ex_half_adopted_def OpenBaoAdoptionWaitTimeout_def hours_def minutes_def seconds_def)
  have calls: "k_get (dl_push ex_deletion) key w = Inl e \<Longrightarrow> is_not_found e"
    "ignore_not_found (fst (k_delete (dl_push ex_deletion) opts x w)) = None"
    "\<exists>k2 w2. dl_update ex_deletion k w = (Inr k2, w2) \<and> ko_meta k2 = ko_meta k" for key w e opts x k
    by (cases w, auto simp: ignore_not_found_def split: option.splits)+
  have "has_finalizer ex_deleted keystoneOpenBaoFinalizer" "m_deleting (ko_meta ex_deleted)" by simp_all
  note released = openbao_release_live [OF ex_deletion_quiet push this late]
  show ?thesis using released [OF _ calls(2,3)] calls(1) by blast
qed

section \<open>Keys and passwords\<close>

text \<open>
  The operator accepts as a rotated key set exactly the maps whose size is within the bounds, whose values are
  44-character texts for 32 bytes, and whose values are pairwise distinct; and it says which of the three failed
  by the sentinel its error wraps.\<close>

lemma staged_keys_validated:
  assumes "wf_gomap keys"
  shows "(validateRotationOutput keys lo hi = None \<longleftrightarrow>
      lo \<le> int (length keys) \<and> int (length keys) \<le> hi \<and> list_all wf_key (map snd keys) \<and> distinct (map snd keys)) \<and>
    (case validateRotationOutput keys lo hi of
      None \<Rightarrow> True
    | Some e \<Rightarrow>
        (is_sentinel ''key count out of range'' e \<longleftrightarrow> int (length keys) < lo \<or> hi < int (length keys)) \<and>
        (is_sentinel ''invalid key format'' e \<longleftrightarrow>
           lo \<le> int (length keys) \<and> int (length keys) \<le> hi \<and> \<not> list_all wf_key (map snd keys)) \<and>
        (is_sentinel ''duplicate keys detected'' e \<longleftrightarrow>
           lo \<le> int (length keys) \<and> int (length keys) \<le> hi \<and> list_all wf_key (map snd keys) \<and> \<not> distinct (map snd keys)))"
proof -
  have f: "format_error keys (sorted_keys keys) = None \<longleftrightarrow> list_all wf_key (map snd keys)"
    using format_error_None all_entry_sorted [OF assms] by simp
  have d: "duplicate_error keys (sorted_keys keys) = None \<longleftrightarrow> distinct (map snd keys)"
    using duplicate_error_None distinct_entry_sorted [OF assms] by simp
  note iff = validateRotationOutput_None [OF assms, of lo hi]
  consider "int (length keys) < lo \<or> hi < int (length keys)"
    | e where "lo \<le> int (length keys)" "int (length keys) \<le> hi" "format_error keys (sorted_keys keys) = Some e"
    | "lo \<le> int (length keys)" "int (length keys) \<le> hi" "format_error keys (sorted_keys keys) = None"
    by (cases "format_error keys (sorted_keys keys)") force+
  then show ?thesis
  proof cases
    case 1
    then show ?thesis unfolding iff by (auto simp: validateRotationOutput_def ErrKeyCountOutOfRange_def Let_def)
  next
    case 2
    then show ?thesis unfolding iff using f format_error_sentinel [OF 2(3)] by (auto simp: validateRotationOutput_def Let_def)
  next
    case 3
    then show ?thesis unfolding iff using f d
      by (cases "duplicate_error keys (sorted_keys keys)")
        (auto simp: validateRotationOutput_def Let_def dest: duplicate_error_sentinel)
  qed
qed

definition ex_key :: "nat \<Rightarrow> string" where
  "ex_key n = b64_encode (replicate 32 (char_of n))"

text \<open>
  The keys the operator generates at first start pass the validation that guards every later rotation, for
  either flavour: what \<open>createKeysSecret\<close> stores is accepted with the bounds of that flavour, if the random
  source returned the bytes asked for and never the same twice.\<close>

lemma initial_keys_accepted:
  assumes "random_ok E" "F = fernet_flavour \<or> F = credential_flavour"
    and "generate_keys E 0 (nat (kf_max F k)) w = (Inr data, w')" "distinct (map snd data)"
  shows "validateRotationOutput data 3 (kf_max F k + 1) = None"
proof -
  have "3 \<le> kf_max F k" using assms(2)
    by (auto simp: fernet_flavour_def credential_flavour_def normalizedFernetMaxActiveKeys_def normalizedCredentialMaxActiveKeys_def)
  then show ?thesis
    using generate_keys_wf [OF assms(1,3)] generate_keys_shape [OF assms(1,3)] assms(4) by (simp add: validateRotationOutput_None)
qed

text \<open>The world counts the reads of random bytes and the applied PushSecrets.\<close>

definition ex_ssa :: "('o \<Rightarrow> objmeta) \<Rightarrow> ('w \<Rightarrow> 'w) \<Rightarrow> ('o, unit, 'w) ssa_api" where
  "ex_ssa meta tick = \<lparr>ssa_meta = meta, ssa_set_ref = (\<lambda>owner x. Inr x), ssa_gvk = (\<lambda>x. Inr ''Kind''),
     ssa_to_unstructured = (\<lambda>x. Inr ()), ssa_set_gvk = (\<lambda>g u. u), ssa_remove = (\<lambda>p u. u),
     ssa_apply = (\<lambda>fm force u w. (Inr (), tick w)), ssa_retry = (\<lambda>f. f), ssa_from_unstructured = (\<lambda>u x. Inr x)\<rparr>"

definition accepting :: "('o, 'w) kclient" where
  "accepting = \<lparr>k_get = (\<lambda>k w. Inl (ApiErr NotFound)), k_list = (\<lambda>ns ls w. Inr []), k_create = (\<lambda>x w. (Inr x, w)),
     k_update = (\<lambda>x w. (Inr x, w)), k_apply = (\<lambda>x w. (Inr x, w)), k_delete = (\<lambda>opts x w. (None, w))\<rparr>"

definition ex_keys_env :: "(unit, nat \<times> nat) keys_env" where
  "ex_keys_env =
     \<lparr>kv_meta = ref_meta, kv_secrets = accepting, kv_upsert = (\<lambda>f x w. (f x, w)), kv_own = (\<lambda>m x. Inr x),
      kv_random = (\<lambda>n w. (Inr (replicate n (char_of (fst w))), Suc (fst w), snd w)), kv_parse_time = (\<lambda>s. Inr 0),
      kv_age = (\<lambda>a b c t w. w), kv_log = (\<lambda>ev w. w),
      kv_rbac = \<lparr>ensure_sa = (\<lambda>f x w. (f x, w)), ensure_role = (\<lambda>f x w. (f x, w)), ensure_binding = (\<lambda>f x w. (f x, w)),
        own_sa = (\<lambda>m x. Inr x), own_role = (\<lambda>m x. Inr x), own_binding = (\<lambda>m x. Inr x)\<rparr>,
      kv_config_maps = accepting, kv_own_config_map = (\<lambda>m x. Inr x), kv_sha = (\<lambda>s. s),
      kv_cronjobs = ex_ssa cj_meta id, kv_push = ex_ssa ps_meta (apsnd Suc), kv_cronjob_client = accepting,
      kv_delete = (\<lambda>kind m w. (None, w))\<rparr>"

text \<open>
  The admin password in OpenBao is never overwritten by anything that is not a valid password: when the
  push-source Secret the pass has ensured holds no password of the required length, the pass does not use the
  API for PushSecrets at all, so it is the same for any behaviour of that API.\<close>

lemma password_pushed_only_valid:
  assumes "\<And>push_source w1. ensureAdminPasswordPushSourceSecret E k w = (Inr push_source, w1) \<Longrightarrow>
      \<not> adminPasswordPushSourceReady (Some push_source) (normalizedAdminPasswordLength k)"
  shows "reconcilePasswordRotation (E\<lparr>kv_push := A\<rparr>) script (k, w) = reconcilePasswordRotation E script (k, w)"
proof -
  let ?E = "E\<lparr>kv_push := A\<rparr>"
  have same: "ensureAdminPasswordPushSourceSecret ?E k w = ensureAdminPasswordPushSourceSecret E k w"
    "teardownPasswordRotation ?E k v = teardownPasswordRotation E k v"
    "ensureStagingSecret ?E k n l v = ensureStagingSecret E k n l v"
    "observeRotationAge ?E k m t ty v = observeRotationAge E k m t ty v"
    "applyAdminPasswordRotation ?E st ps ml v = applyAdminPasswordRotation E st ps ml v" for n l v m t ty st ps ml
    by (simp_all add: ensureAdminPasswordPushSourceSecret_def teardownPasswordRotation_def ensureStagingSecret_def observeRotationAge_def
        applyAdminPasswordRotation_def commitStagedRotation_def cong: option.case_cong sum.case_cong)
  have conf: "configure_password_rotation ?E script pr ps (k, v) = configure_password_rotation E script pr ps (k, v)"
    if "\<not> adminPasswordPushSourceReady (Some ps) (normalizedAdminPasswordLength k)" for pr ps v
    using that
    by (simp add: configure_password_rotation_def ensureAdminPasswordRotationRBAC_def ensureRotationRBAC_def cong: option.case_cong sum.case_cong)
  show ?thesis
  proof (cases "ensureAdminPasswordPushSourceSecret E k w")
    case (Pair res w1)
    show ?thesis
    proof (cases res)
      case (Inl e)
      then show ?thesis using Pair same by (simp add: reconcilePasswordRotation_def Let_def cong: option.case_cong sum.case_cong bool.case_cong if_cong)
    next
      case (Inr ps)
      then have "\<not> adminPasswordPushSourceReady (Some ps) (normalizedAdminPasswordLength k)" using assms Pair by blast
      note c = conf [OF this]
      show ?thesis using Pair Inr by (simp add: reconcilePasswordRotation_def same c Let_def cong: option.case_cong sum.case_cong bool.case_cong if_cong)
    qed
  qed
qed

definition ex_rotating :: Keystone where
  "ex_rotating = ex_resource\<lparr>ko_spec := (ko_spec ex_resource)\<lparr>ks_password_rotation :=
     Some \<lparr>pw_enabled = True, pw_schedule = ''0 0 1 * *'', pw_suspend = False, pw_length = 32\<rparr>\<rparr>\<rparr>"

end
