(* ===== verification/KeystoneConfig.thy ===== *)
theory KeystoneConfig
  imports KeystoneKeys Plugins Policy
begin

text \<open>
  The configuration of a Keystone, \<open>operators/keystone/internal/controller/reconcile_config.go\<close>: the sections of
  keystone.conf, the layers over them, the policy file, the paste pipeline, the immutable ConfigMap they are
  written to, and the cache that saves a pass from rendering them again.
\<close>

section \<open>Constants\<close>

definition conditionTypeLoggingHealthy :: string where "conditionTypeLoggingHealthy = ''LoggingHealthy''"
definition conditionReasonStderrDisabled :: string where "conditionReasonStderrDisabled = ''StderrDisabled''"
definition conditionReasonStderrEnabled :: string where "conditionReasonStderrEnabled = ''StderrEnabled''"
definition defaultConfigMapRetainCount :: int where "defaultConfigMapRetainCount = 3"
definition dbConnectionPlaceholder :: string where "dbConnectionPlaceholder = ''mysql+pymysql://placeholder''"
definition loggingConfFilePath :: string where "loggingConfFilePath = ''/etc/keystone/keystone.conf.d/logging.conf''"
definition federationAuthMethods :: string where
  "federationAuthMethods = ''external,password,token,oauth1,mapped,application_credential,openid''"
definition ssoCallbackTemplateFilePath :: string where
  "ssoCallbackTemplateFilePath = ''/etc/keystone/keystone.conf.d/sso_callback_template.html''"

definition ssoCallbackTemplateHTML :: string where
  \<open>ssoCallbackTemplateHTML = concat (map (\<lambda>line. line @ [nl])
     [''<!DOCTYPE html>'', ''<html lang="en">'', ''  <head>'', ''    <meta charset="utf-8">'',
      ''    <title>Keystone WebSSO redirect</title>'', ''  </head>'', ''  <body>'',
      ''     <form id="sso" name="sso" action="$host" method="post">'', ''       Please wait...'', ''       <br>'',
      ''       <input type="hidden" name="token" id="token" value="$token">'', ''       <noscript>'',
      ''         <input type="submit" name="submit_no_javascript" id="submit_no_javascript"'',
      ''            value="If your JavaScript is disabled, please click to continue">'', ''       </noscript>'', ''     </form>'',
      ''     <script>'', ''       window.onload = function() {'', ''         document.forms['sso'].submit();'',
      ''       }'', ''     </script>'', ''  </body>'', ''</html>''])\<close>

section \<open>Logging\<close>

definition effectiveLogging :: "LoggingSpec option \<Rightarrow> LoggingSpec" where
  "effectiveLogging spec =
     (case spec of
        None \<Rightarrow> \<lparr>lg_format = ''text'', lg_level = ''INFO'', lg_debug = None, lg_per_logger = []\<rparr>
      | Some l \<Rightarrow>
          (let l1 = (if lg_format l = [] then l\<lparr>lg_format := ''text''\<rparr> else l)
           in if lg_level l1 = [] then l1\<lparr>lg_level := ''INFO''\<rparr> else l1))"

definition renderDefaultLogLevels :: "string gomap \<Rightarrow> string" where
  "renderDefaultLogLevels per_logger =
     (if per_logger = [] then []
      else str_join '','' (map (\<lambda>k. k @ ''='' @ get_or [] per_logger k) (sorted_keys per_logger)))"

definition renderLoggingConf :: "string \<Rightarrow> string" where
  "renderLoggingConf level = str_join [nl]
     [''[loggers]'', ''keys = root'', [], ''[handlers]'', ''keys = stderr'', [], ''[formatters]'', ''keys = json'', [],
      ''[logger_root]'', ''level = '' @ level, ''handlers = stderr'', [], ''[handler_stderr]'', ''class = StreamHandler'',
      ''args = (sys.stderr,)'', ''level = NOTSET'', ''formatter = json'', [], ''[formatter_json]'',
      ''class = oslo_log.formatters.JSONFormatter'', []]"

definition mergedUseStderr :: "sections \<Rightarrow> string" where
  "mergedUseStderr merged =
     (case map_of merged ''DEFAULT'' of
        None \<Rightarrow> ''true''
      | Some d \<Rightarrow> (case map_of d ''use_stderr'' of None \<Rightarrow> ''true'' | Some v \<Rightarrow> v))"

text \<open>The condition is set on every pass, the event only on a transition.\<close>

definition recordLoggingHealth :: "meta_api \<Rightarrow> (event \<Rightarrow> 'w \<Rightarrow> 'w) \<Rightarrow> sections \<Rightarrow> Keystone \<times> 'w \<Rightarrow> Keystone \<times> 'w" where
  "recordLoggingHealth K log_event merged s =
     (let (k, w) = s; prev = GetCondition K (ko_conditions k) conditionTypeLoggingHealthy;
          healthy = report K conditionTypeLoggingHealthy CTrue conditionReasonStderrEnabled
            (Msg ''[DEFAULT].use_stderr is true; oslo.log records reach container stderr'' []) k
      in case map_of merged ''DEFAULT'' of
           None \<Rightarrow> (healthy, w)
         | Some d \<Rightarrow>
             (let use_stderr = get_or [] d ''use_stderr'' in
              if use_stderr \<noteq> ''true''
              then (report K conditionTypeLoggingHealthy CFalse conditionReasonStderrDisabled
                      (Msg ''spec.extraConfig set [DEFAULT].use_stderr=%q; container logs will not reach kubectl logs'' [Str use_stderr]) k,
                    if (case prev of None \<Rightarrow> True
                        | Some c \<Rightarrow> c_status c \<noteq> CFalse \<or> c_reason c \<noteq> conditionReasonStderrDisabled)
                    then log_event \<lparr>ev_type = EvWarning, ev_reason = ''LoggingStderrDisabled'', ev_message =
                      Msg ''spec.extraConfig overrode [DEFAULT].use_stderr to %q; container logs will not reach kubectl logs''
                        [Str use_stderr]\<rparr> w
                    else w)
              else (healthy, w)))"

section \<open>The sections\<close>

definition resolveCacheServers :: "Keystone \<Rightarrow> string" where
  "resolveCacheServers k = ResolveServers (ks_cache (ko_spec k))"

definition put_option :: "string \<Rightarrow> string \<Rightarrow> string \<Rightarrow> sections \<Rightarrow> sections" where
  "put_option sec key v m = map_put sec (map_put key v (get_or [] m sec)) m"

definition base_sections :: "Keystone \<Rightarrow> LoggingSpec \<Rightarrow> sections" where
  "base_sections k logging =
     [(''DEFAULT'', [(''keystone_user'', []), (''keystone_group'', []), (''use_stderr'', ''true''),
        (''debug'', if lg_debug logging = Some True then ''true'' else ''false'')]),
      (''token'', [(''provider'', ''fernet'')]),
      (''fernet_tokens'', [(''key_repository'', ''/etc/keystone/fernet-keys''),
        (''max_active_keys'', show_int (normalizedFernetMaxActiveKeys k))]),
      (''credential'', [(''key_repository'', ''/etc/keystone/credential-keys''),
        (''max_active_keys'', show_int (normalizedCredentialMaxActiveKeys k))]),
      (''cache'', [(''enabled'', ''true''), (''backend'', ca_backend (ks_cache (ko_spec k)))]),
      (''paste_deploy'', [(''config_file'', ''/etc/keystone/keystone.conf.d/api-paste.ini'')]),
      (''oslo_middleware'', [(''enable_proxy_headers_parsing'', ''true'')]),
      (''oslo_policy'', [(''enforce_scope'', ''true''), (''enforce_new_defaults'', ''true'')]),
      (''identity'', [(''default_domain_id'', ''default'')]),
      (''database'', [(''max_retries'', ''-1''), (''connection_recycle_time'', ''600''), (''connection'', dbConnectionPlaceholder)])]"

definition domain_sections :: "bool \<Rightarrow> sections \<Rightarrow> sections" where
  "domain_sections projected m =
     (if projected
      then put_option ''identity'' ''domain_config_dir'' domainsMountPath
             (put_option ''identity'' ''domain_specific_drivers_enabled'' ''true'' m)
      else m)"

definition federation_sections :: "federationProjection option \<Rightarrow> sections \<Rightarrow> sections" where
  "federation_sections fed m =
     (case fed of
        None \<Rightarrow> m
      | Some f \<Rightarrow>
          (let m1 = map_put ''federation'' [(''sso_callback_template'', ssoCallbackTemplateFilePath)]
                      (map_put ''auth'' [(''methods'', federationAuthMethods)] m);
               m2 = (if fp_remote_id f \<noteq> [] then map_put ''openid'' [(''remote_id_attribute'', fp_remote_id f)] m1 else m1)
           in if fp_saml_protocol f \<noteq> [] then map_put (fp_saml_protocol f) [(''remote_id_attribute'', fp_saml_remote_id f)] m2
              else m2))"

definition config_defaults :: "Keystone \<Rightarrow> bool \<Rightarrow> federationProjection option \<Rightarrow> sections" where
  "config_defaults k projected fed =
     (let logging = effectiveLogging (ks_logging (ko_spec k));
          levels = renderDefaultLogLevels (lg_per_logger logging);
          m = federation_sections fed (domain_sections projected (base_sections k logging));
          m1 = (if levels \<noteq> [] then put_option ''DEFAULT'' ''default_log_levels'' levels m else m);
          m2 = (if lg_format logging = ''json'' then put_option ''DEFAULT'' ''log_config_append'' loggingConfFilePath m1 else m1);
          servers = resolveCacheServers k
      in map_put ''memcache'' [(''servers'', servers)] (put_option ''cache'' ''memcache_servers'' servers m2))"

text \<open>Plugin sections over the defaults, the user's extra configuration over both.\<close>

definition merged_config :: "Keystone \<Rightarrow> bool \<Rightarrow> federationProjection option \<Rightarrow> sections result" where
  "merged_config k projected fed =
     (let defaults = config_defaults k projected fed; extra = ks_extra_config (ko_spec k);
          over = (\<lambda>m. if extra \<noteq> [] then MergeDefaults extra m else m)
      in if ks_plugins (ko_spec k) \<noteq> []
         then (case RenderPluginConfig (ks_plugins (ko_spec k)) of
                 Inl e \<Rightarrow> Inl (Errorf ''rendering plugin config: %w'' [Wrap e])
               | Inr plugin_config \<Rightarrow> Inr (over (MergeDefaults plugin_config defaults)))
         else Inr (over defaults))"

definition paste_spec :: "Keystone \<Rightarrow> PipelineSpec" where
  "paste_spec k =
     \<lparr>ps_name = ''public_api'', ps_app = ''admin_service'', ps_app_factory = ''egg:keystone#service_v3'',
      ps_base_filters = [''cors'', ''sizelimit'', ''http_proxy_to_wsgi'', ''url_normalize'', ''request_id''],
      ps_base_factories = [(''cors'', ''egg:oslo.middleware#cors''), (''sizelimit'', ''egg:oslo.middleware#sizelimit''),
        (''http_proxy_to_wsgi'', ''egg:oslo.middleware#http_proxy_to_wsgi''), (''url_normalize'', ''egg:keystone#url_normalize''),
        (''request_id'', ''egg:oslo.middleware#request_id'')],
      ps_base_configs = [(''cors'', [(''oslo_config_project'', ''keystone'')])],
      ps_routes = [(''/v3'', ''public_api'')], ps_middleware = ks_middleware (ko_spec k)\<rparr>"

definition trustedDashboards :: "Keystone \<Rightarrow> string list" where
  "trustedDashboards k = (case ks_federation (ko_spec k) of None \<Rightarrow> [] | Some f \<Rightarrow> fd_dashboards f)"

definition conf_text :: "Keystone \<Rightarrow> sections \<Rightarrow> string" where
  "conf_text k merged =
     (let multi = LiftSections merged; origins = trustedDashboards k
      in RenderINIMulti (if origins \<noteq> []
           then map_put ''federation'' (map_put ''trusted_dashboard'' origins (get_or [] multi ''federation'')) multi else multi))"

definition config_files :: "Keystone \<Rightarrow> federationProjection option \<Rightarrow> sections \<Rightarrow> string \<Rightarrow> string \<Rightarrow> string gomap" where
  "config_files k fed merged paste_ini policy_yaml =
     (let logging = effectiveLogging (ks_logging (ko_spec k))
      in [(''keystone.conf'', conf_text k merged), (''api-paste.ini'', paste_ini)] @
         (if policy_yaml \<noteq> [] then [(''policy.yaml'', policy_yaml)] else []) @
         (if lg_format logging = ''json'' then [(''logging.conf'', renderLoggingConf (lg_level logging))] else []) @
         (if fed \<noteq> None then [(''sso_callback_template.html'', ssoCallbackTemplateHTML)] else []))"

section \<open>The policy file\<close>

text \<open>
  \<open>ce_policy_data\<close> reads the data of a ConfigMap and \<open>ce_policy_version\<close> its resource version; the YAML library
  is \<open>ce_unmarshal\<close> and \<open>ce_marshal\<close>.  The cache of renderings is reached in the world; its lock makes each
  access atomic.
\<close>

record configRenderCacheEntry =
  rc_uid :: string
  rc_generation :: int
  rc_policy_version :: string
  rc_domains :: bool
  rc_federation :: "bool \<times> string \<times> string \<times> string"
  rc_name :: string
  rc_use_stderr :: string

type_synonym render_cache = "(objkey \<times> configRenderCacheEntry) list"

record 'w config_env =
  ce_meta :: meta_api
  ce_policy_data :: "objkey \<Rightarrow> 'w \<Rightarrow> string gomap result"
  ce_policy_version :: "objkey \<Rightarrow> 'w \<Rightarrow> string result"
  ce_unmarshal :: "string \<Rightarrow> string gomap option result"
  ce_marshal :: "string \<Rightarrow> string \<Rightarrow> string result"
  ce_config_maps :: "(immutable, 'w) kclient"
  ce_own :: "objmeta \<Rightarrow> immutable \<Rightarrow> immutable result"
  ce_sha :: "string \<Rightarrow> string"
  ce_log :: "event \<Rightarrow> 'w \<Rightarrow> 'w"
  ce_cache :: "'w \<Rightarrow> render_cache"
  ce_put_cache :: "render_cache \<Rightarrow> 'w \<Rightarrow> 'w"

definition buildPolicyYAML :: "'w config_env \<Rightarrow> Keystone \<Rightarrow> 'w \<Rightarrow> string result" where
  "buildPolicyYAML E k w =
     (case ks_policy_overrides (ko_spec k) of
        None \<Rightarrow> Inr []
      | Some po \<Rightarrow>
          (let inline = (case pol_rules po of None \<Rightarrow> [] | Some r \<Rightarrow> r) in
           case pol_config_map po of
             None \<Rightarrow> RenderPolicyYAML (ce_marshal E) (put_all inline [])
           | Some name \<Rightarrow>
               (case LoadPolicyFromConfigMap (ce_policy_data E) (ce_unmarshal E) (ko_namespace k, name) w of
                  Inl e \<Rightarrow> Inl (Errorf ''loading policy from ConfigMap: %w'' [Wrap e])
                | Inr external \<Rightarrow> RenderPolicyYAML (ce_marshal E) (put_all inline external))))"

definition policyConfigMapResourceVersion :: "'w config_env \<Rightarrow> Keystone \<Rightarrow> 'w \<Rightarrow> string result" where
  "policyConfigMapResourceVersion E k w =
     (case ks_policy_overrides (ko_spec k) of
        None \<Rightarrow> Inr []
      | Some po \<Rightarrow>
          (case pol_config_map po of
             None \<Rightarrow> Inr []
           | Some name \<Rightarrow>
               (case ce_policy_version E (ko_namespace k, name) w of
                  Inl e \<Rightarrow> if is_not_found e then Inr [] else Inl (Errorf ''getting policy ConfigMap %s: %w'' [Str name, Wrap e])
                | Inr v \<Rightarrow> Inr v)))"

section \<open>The cache\<close>

definition federationCacheKeyOf :: "federationProjection option \<Rightarrow> bool \<times> string \<times> string \<times> string" where
  "federationCacheKeyOf fed =
     (case fed of None \<Rightarrow> (False, [], [], []) | Some f \<Rightarrow> (True, fp_remote_id f, fp_saml_protocol f, fp_saml_remote_id f))"

definition configRenderCacheHit ::
  "render_cache \<Rightarrow> Keystone \<Rightarrow> string \<Rightarrow> bool \<Rightarrow> federationProjection option \<Rightarrow> (string \<times> string) option" where
  "configRenderCacheHit cache k policy_version projected fed =
     (case map_of cache (key_of (ko_meta k)) of
        None \<Rightarrow> None
      | Some hit \<Rightarrow>
          if rc_uid hit \<noteq> m_uid (ko_meta k) \<or> rc_generation hit \<noteq> ko_generation k \<or> rc_policy_version hit \<noteq> policy_version \<or>
             rc_domains hit \<noteq> projected \<or> rc_federation hit \<noteq> federationCacheKeyOf fed
          then None else Some (rc_name hit, rc_use_stderr hit))"

definition storeConfigRender ::
  "render_cache \<Rightarrow> Keystone \<Rightarrow> string \<Rightarrow> string \<Rightarrow> string \<Rightarrow> bool \<Rightarrow> federationProjection option \<Rightarrow> render_cache" where
  "storeConfigRender cache k policy_version name use_stderr projected fed =
     map_put (key_of (ko_meta k))
       \<lparr>rc_uid = m_uid (ko_meta k), rc_generation = ko_generation k, rc_policy_version = policy_version, rc_domains = projected,
        rc_federation = federationCacheKeyOf fed, rc_name = name, rc_use_stderr = use_stderr\<rparr> cache"

definition evictConfigRender :: "objkey \<Rightarrow> render_cache \<Rightarrow> render_cache" where
  "evictConfigRender key cache = AList.delete key cache"

definition configMapExists :: "'w config_env \<Rightarrow> string \<Rightarrow> string \<Rightarrow> 'w \<Rightarrow> bool result" where
  "configMapExists E namespace name w =
     (case k_get (ce_config_maps E) (namespace, name) w of
        Inl e \<Rightarrow> if is_not_found e then Inr False else Inl (Errorf ''checking config ConfigMap %s: %w'' [Str name, Wrap e])
      | Inr _ \<Rightarrow> Inr True)"

section \<open>The step\<close>

text \<open>The part after the cache: steps 1 to 7.\<close>

definition render_config ::
  "'w config_env \<Rightarrow> string \<Rightarrow> bool \<Rightarrow> federationProjection option \<Rightarrow> Keystone \<times> 'w \<Rightarrow> (string \<times> err option) \<times> Keystone \<times> 'w" where
  "render_config E policy_version projected fed s =
     (case merged_config (fst s) projected fed of
        Inl e \<Rightarrow> (([], Some e), s)
      | Inr merged \<Rightarrow>
          (let (k, w) = recordLoggingHealth (ce_meta E) (ce_log E) merged s in
           case buildPolicyYAML E k w of
             Inl e \<Rightarrow> (([], Some (Errorf ''building policy: %w'' [Wrap e])), k, w)
           | Inr policy_yaml \<Rightarrow>
               (let merged' = (if policy_yaml \<noteq> [] then InjectOsloPolicyConfig merged ''/etc/keystone/keystone.conf.d/policy.yaml'' else merged) in
                case RenderPastePipelineINI (paste_spec k) of
                  Inl e \<Rightarrow> (([], Some (Errorf ''rendering api-paste.ini: %w'' [Wrap e])), k, w)
                | Inr paste_ini \<Rightarrow>
                    (case CreateImmutableConfigMap (ce_sha E) (ce_own E) (ce_config_maps E) (ko_meta k) (ko_name k @ ''-config'')
                            (ko_namespace k) (config_files k fed merged' paste_ini policy_yaml) w of
                       (Inl e, w1) \<Rightarrow> (([], Some (Errorf ''creating config ConfigMap: %w'' [Wrap e])), k, w1)
                     | (Inr name, w1) \<Rightarrow>
                         ((name, None), k, ce_put_cache E
                            (storeConfigRender (ce_cache E w1) k policy_version name (mergedUseStderr merged') projected fed) w1)))))"

definition reconcileConfig ::
  "'w config_env \<Rightarrow> bool \<Rightarrow> federationProjection option \<Rightarrow> Keystone \<times> 'w \<Rightarrow> (string \<times> err option) \<times> Keystone \<times> 'w" where
  "reconcileConfig E projected fed s =
     (let (k, w) = s in
      case policyConfigMapResourceVersion E k w of
        Inl e \<Rightarrow> (([], Some e), k, w)
      | Inr policy_version \<Rightarrow>
          (case configRenderCacheHit (ce_cache E w) k policy_version projected fed of
             None \<Rightarrow> render_config E policy_version projected fed (k, w)
           | Some (name, use_stderr) \<Rightarrow>
               (case configMapExists E (ko_namespace k) name w of
                  Inl e \<Rightarrow> (([], Some e), k, w)
                | Inr True \<Rightarrow>
                    ((name, None), recordLoggingHealth (ce_meta E) (ce_log E) [(''DEFAULT'', [(''use_stderr'', use_stderr)])] (k, w))
                | Inr False \<Rightarrow>
                    render_config E policy_version projected fed
                      (k, ce_put_cache E (evictConfigRender (key_of (ko_meta k)) (ce_cache E w)) w))))"

definition pruneStaleConfigMaps :: "'w config_env \<Rightarrow> Keystone \<Rightarrow> string \<Rightarrow> 'w \<Rightarrow> err option \<times> 'w" where
  "pruneStaleConfigMaps E k config_map w =
     PruneImmutableConfigMaps im_meta (ce_config_maps E) (ko_meta k)
       \<lparr>po_base = ko_name k @ ''-config'', po_namespace = ko_namespace k, po_current = config_map,
        po_retain = defaultConfigMapRetainCount\<rparr> w"

section \<open>What a rendering depends on\<close>

text \<open>The name and flag a rendering produces, without the cache.\<close>

definition rendered :: "'w config_env \<Rightarrow> Keystone \<Rightarrow> bool \<Rightarrow> federationProjection option \<Rightarrow> 'w \<Rightarrow> (string \<times> string) option" where
  "rendered E k projected fed w =
     (case (merged_config k projected fed, buildPolicyYAML E k w, RenderPastePipelineINI (paste_spec k)) of
        (Inr merged, Inr yaml, Inr paste) \<Rightarrow>
          (let merged' = (if yaml \<noteq> [] then InjectOsloPolicyConfig merged ''/etc/keystone/keystone.conf.d/policy.yaml'' else merged)
           in Some (immutable_name (ce_sha E) (ko_name k @ ''-config'') (config_files k fed merged' paste yaml), mergedUseStderr merged'))
      | _ \<Rightarrow> None)"

lemma federation_sections_fed:
  "federationCacheKeyOf fed = federationCacheKeyOf fed' \<Longrightarrow> federation_sections fed m = federation_sections fed' m"
  by (cases fed; cases fed') (simp_all add: federation_sections_def federationCacheKeyOf_def Let_def)

lemma merged_config_fed:
  assumes "federationCacheKeyOf fed = federationCacheKeyOf fed'"
  shows "merged_config k projected fed = merged_config k projected fed'"
  unfolding merged_config_def config_defaults_def federation_sections_fed [OF assms] ..

lemma config_files_fed:
  "federationCacheKeyOf fed = federationCacheKeyOf fed' \<Longrightarrow> config_files k fed m p y = config_files k fed' m p y"
  by (cases fed; cases fed') (simp_all add: config_files_def federationCacheKeyOf_def)

lemma merged_config_spec:
  assumes "ko_spec k = ko_spec k'"
  shows "merged_config k projected fed = merged_config k' projected fed"
  unfolding merged_config_def config_defaults_def base_sections_def normalizedFernetMaxActiveKeys_def
    normalizedCredentialMaxActiveKeys_def resolveCacheServers_def assms ..

lemma config_files_spec:
  assumes "ko_spec k = ko_spec k'"
  shows "config_files k fed m p y = config_files k' fed m p y"
  unfolding config_files_def conf_text_def trustedDashboards_def assms ..

lemma paste_spec_spec:
  assumes "ko_spec k = ko_spec k'"
  shows "paste_spec k = paste_spec k'"
  unfolding paste_spec_def assms ..

text \<open>What the API server and the cache promise.\<close>

definition policy_store :: "'w config_env \<Rightarrow> bool" where
  "policy_store E \<longleftrightarrow>
     (\<forall>key w w' v. ce_policy_version E key w = Inr v \<longrightarrow> ce_policy_version E key w' = Inr v \<longrightarrow>
        ce_policy_data E key w = ce_policy_data E key w') \<and>
     (\<forall>key w v. ce_policy_version E key w = Inr v \<longrightarrow> v \<noteq> []) \<and>
     (\<forall>key w e. ce_policy_version E key w = Inl e \<longrightarrow> (\<exists>e'. ce_policy_data E key w = Inl e'))"

definition cache_env :: "'w config_env \<Rightarrow> bool" where
  "cache_env E \<longleftrightarrow>
     (\<forall>c w. ce_cache E (ce_put_cache E c w) = c) \<and>
     (\<forall>ev w. ce_cache E (ce_log E ev w) = ce_cache E w) \<and>
     (\<forall>x w. ce_cache E (snd (k_create (ce_config_maps E) x w)) = ce_cache E w) \<and>
     (\<forall>c key w. ce_policy_data E key (ce_put_cache E c w) = ce_policy_data E key w) \<and>
     (\<forall>c key w. ce_policy_version E key (ce_put_cache E c w) = ce_policy_version E key w) \<and>
     (\<forall>ev key w. ce_policy_data E key (ce_log E ev w) = ce_policy_data E key w)"

lemma buildPolicyYAML_cong:
  assumes "ko_spec k = ko_spec k'" "ko_namespace k = ko_namespace k'"
    and "\<And>po name. ks_policy_overrides (ko_spec k) = Some po \<Longrightarrow> pol_config_map po = Some name \<Longrightarrow>
      ce_policy_data E (ko_namespace k, name) w = ce_policy_data E (ko_namespace k, name) w'"
  shows "buildPolicyYAML E k w = buildPolicyYAML E k' w'"
  using assms by (auto simp: buildPolicyYAML_def LoadPolicyFromConfigMap_def Let_def split: option.splits)

text \<open>An entry is current when every resource it answers for would be rendered to it.\<close>

definition answers :: "'w config_env \<Rightarrow> (string \<Rightarrow> int \<Rightarrow> KeystoneSpec) \<Rightarrow> objkey \<Rightarrow> configRenderCacheEntry \<Rightarrow> Keystone \<Rightarrow> bool \<Rightarrow>
    federationProjection option \<Rightarrow> 'w \<Rightarrow> bool" where
  "answers E spec_of key hit k projected fed w \<longleftrightarrow>
     key_of (ko_meta k) = key \<and> m_uid (ko_meta k) = rc_uid hit \<and> ko_generation k = rc_generation hit \<and>
     ko_spec k = spec_of (m_uid (ko_meta k)) (ko_generation k) \<and>
     policyConfigMapResourceVersion E k w = Inr (rc_policy_version hit) \<and> projected = rc_domains hit \<and>
     federationCacheKeyOf fed = rc_federation hit"

definition cache_current :: "'w config_env \<Rightarrow> (string \<Rightarrow> int \<Rightarrow> KeystoneSpec) \<Rightarrow> render_cache \<Rightarrow> bool" where
  "cache_current E spec_of cache \<longleftrightarrow>
     (\<forall>key hit. map_of cache key = Some hit \<longrightarrow>
        (\<forall>k projected fed w. answers E spec_of key hit k projected fed w \<longrightarrow>
           rendered E k projected fed w = Some (rc_name hit, rc_use_stderr hit)))"

lemma rendered_cong:
  assumes "policy_store E" "ko_spec k = ko_spec k'" "key_of (ko_meta k) = key_of (ko_meta k')"
    and "federationCacheKeyOf fed = federationCacheKeyOf fed'"
    and "policyConfigMapResourceVersion E k w = Inr v" "policyConfigMapResourceVersion E k' w' = Inr v"
    and "rendered E k projected fed w = Some r"
  shows "rendered E k' projected fed' w' = Some r"
proof -
  have nm: "ko_name k = ko_name k'" "ko_namespace k = ko_namespace k'" using assms(3) by (simp_all add: key_of_def)
  have y: "buildPolicyYAML E k w = buildPolicyYAML E k' w'"
  proof (rule buildPolicyYAML_cong [OF assms(2) nm(2)])
    fix po name
    assume po: "ks_policy_overrides (ko_spec k) = Some po" "pol_config_map po = Some name"
    let ?key = "(ko_namespace k, name)"
    have ok: "\<exists>d. ce_policy_data E ?key w = Inr d"
      using assms(7) po by (auto simp: rendered_def buildPolicyYAML_def LoadPolicyFromConfigMap_def Let_def split: sum.splits)
    then obtain u where u: "ce_policy_version E ?key w = Inr u"
      using assms(1) unfolding policy_store_def by (metis sum.exhaust sum.distinct(1))
    then have uv: "u = v" "v \<noteq> []" using assms(1,5) po by (auto simp: policyConfigMapResourceVersion_def policy_store_def)
    have "ce_policy_version E ?key w' = Inr v"
      using assms(2,6) po nm uv by (auto simp: policyConfigMapResourceVersion_def split: sum.splits if_splits)
    then show "ce_policy_data E ?key w = ce_policy_data E ?key w'"
      using assms(1) u uv unfolding policy_store_def by blast
  qed
  have m: "merged_config k projected fed = merged_config k' projected fed'"
    using merged_config_spec [OF assms(2)] merged_config_fed [OF assms(4)] by metis
  have c: "config_files k fed = config_files k' fed'"
    using config_files_spec [OF assms(2)] config_files_fed [OF assms(4)] by (metis ext)
  have "rendered E k projected fed w = rendered E k' projected fed' w'"
    unfolding rendered_def paste_spec_spec [OF assms(2)] nm(1) y m c ..
  then show ?thesis using assms(7) by simp
qed

section \<open>The cache stays current\<close>

lemma report_keeps [simp]: "ko_meta (report K ct st r m k) = ko_meta k" "ko_spec (report K ct st r m k) = ko_spec k"
  by (simp_all add: report_def put_conditions_def)

lemma recordLoggingHealth_keeps:
  assumes "recordLoggingHealth K lg m (k, w) = (k1, w1)"
  shows "ko_meta k1 = ko_meta k \<and> ko_spec k1 = ko_spec k \<and> (w1 = w \<or> (\<exists>ev. w1 = lg ev w))"
  using assms by (auto simp: recordLoggingHealth_def Let_def split: option.splits if_splits)

lemma policy_data_log:
  assumes "cache_env E" "w1 = w \<or> (\<exists>ev. w1 = ce_log E ev w)"
  shows "ce_policy_data E key w1 = ce_policy_data E key w" "ce_cache E w1 = ce_cache E w"
  using assms by (cases key; auto simp: cache_env_def)+

lemma create_immutable_world:
  "create_immutable kind sha own C owner base ns data w = (r, w') \<Longrightarrow> w' = w \<or> (\<exists>x. w' = snd (k_create C x w))"
  by (auto simp: create_immutable_def Let_def split: sum.splits if_splits prod.splits) (metis snd_conv)+

lemma render_config_sound:
  assumes "cache_env E" "render_config E v projected fed (k, w) = ((name, None), k', w')"
  shows "\<exists>u. rendered E k projected fed w = Some (name, u) \<and>
    ce_cache E w' = storeConfigRender (ce_cache E w) k v name u projected fed"
proof -
  obtain merged where m: "merged_config k projected fed = Inr merged"
    using assms(2) by (auto simp: render_config_def split: sum.splits)
  obtain k1 w1 where r: "recordLoggingHealth (ce_meta E) (ce_log E) merged (k, w) = (k1, w1)" by (metis prod.exhaust)
  note keep = recordLoggingHealth_keeps [OF r]
  obtain yaml where y: "buildPolicyYAML E k1 w1 = Inr yaml"
    using assms(2) m r by (auto simp: render_config_def split: sum.splits)
  define merged' where "merged' = (if yaml \<noteq> [] then InjectOsloPolicyConfig merged ''/etc/keystone/keystone.conf.d/policy.yaml'' else merged)"
  obtain paste where p: "RenderPastePipelineINI (paste_spec k1) = Inr paste"
    using assms(2) m r y by (auto simp: render_config_def Let_def split: sum.splits)
  obtain w2 where c: "CreateImmutableConfigMap (ce_sha E) (ce_own E) (ce_config_maps E) (ko_meta k1) (ko_name k1 @ ''-config'')
      (ko_namespace k1) (config_files k1 fed merged' paste yaml) w1 = (Inr name, w2)"
    "w' = ce_put_cache E (storeConfigRender (ce_cache E w2) k1 v name (mergedUseStderr merged') projected fed) w2"
    using assms(2) m r y p by (auto simp: render_config_def merged'_def [symmetric] split: sum.splits prod.splits)
  have name: "name = immutable_name (ce_sha E) (ko_name k1 @ ''-config'') (config_files k1 fed merged' paste yaml)"
    using create_immutable_name c(1) unfolding CreateImmutableConfigMap_def by metis
  have "ce_cache E w2 = ce_cache E w1"
    using create_immutable_world [OF c(1) [unfolded CreateImmutableConfigMap_def]] assms(1) by (auto simp: cache_env_def)
  then have cache: "ce_cache E w' = storeConfigRender (ce_cache E w) k v name (mergedUseStderr merged') projected fed"
    using c(2) assms(1) keep policy_data_log(2) [OF assms(1), of w1 w]
    by (auto simp: cache_env_def storeConfigRender_def)
  have "buildPolicyYAML E k w = buildPolicyYAML E k1 w1"
    by (rule buildPolicyYAML_cong) (use keep policy_data_log(1) [OF assms(1), of w1 w] in auto)
  then have "rendered E k projected fed w = Some (name, mergedUseStderr merged')"
    using m y p name keep config_files_spec [of k k1] paste_spec_spec [of k k1]
    by (simp add: rendered_def merged'_def Let_def)
  then show ?thesis using cache by blast
qed

lemma answers_new:
  assumes "answers E spec_of (key_of (ko_meta k)) \<lparr>rc_uid = m_uid (ko_meta k), rc_generation = ko_generation k, rc_policy_version = v,
      rc_domains = projected, rc_federation = federationCacheKeyOf fed, rc_name = name, rc_use_stderr = u\<rparr> k2 projected2 fed2 w2"
    and "ko_spec k = spec_of (m_uid (ko_meta k)) (ko_generation k)"
  shows "ko_spec k2 = ko_spec k \<and> key_of (ko_meta k2) = key_of (ko_meta k) \<and> federationCacheKeyOf fed2 = federationCacheKeyOf fed \<and>
    projected2 = projected \<and> policyConfigMapResourceVersion E k2 w2 = Inr v"
  using assms by (simp add: answers_def)

lemma store_current:
  assumes "policy_store E" "cache_current E spec_of cache" "ko_spec k = spec_of (m_uid (ko_meta k)) (ko_generation k)"
    and "policyConfigMapResourceVersion E k w = Inr v" "rendered E k projected fed w = Some (name, u)"
  shows "cache_current E spec_of (storeConfigRender cache k v name u projected fed)"
  unfolding cache_current_def
proof (intro allI impI)
  fix key hit k2 projected2 fed2 w2
  assume hit: "map_of (storeConfigRender cache k v name u projected fed) key = Some hit"
    and a: "answers E spec_of key hit k2 projected2 fed2 w2"
  show "rendered E k2 projected2 fed2 w2 = Some (rc_name hit, rc_use_stderr hit)"
  proof (cases "key = key_of (ko_meta k)")
    case True
    then have h: "hit = \<lparr>rc_uid = m_uid (ko_meta k), rc_generation = ko_generation k, rc_policy_version = v, rc_domains = projected,
        rc_federation = federationCacheKeyOf fed, rc_name = name, rc_use_stderr = u\<rparr>"
      using hit by (simp add: storeConfigRender_def)
    note n = answers_new [OF a [unfolded True h] assms(3)]
    have "rendered E k2 projected fed2 w2 = Some (name, u)"
      by (rule rendered_cong [OF assms(1) _ _ _ assms(4) _ assms(5)]) (use n in auto)
    then show ?thesis using n h by simp
  next
    case False
    then have "map_of cache key = Some hit" using hit by (simp add: storeConfigRender_def)
    then show ?thesis using assms(2) a unfolding cache_current_def by blast
  qed
qed

lemma evict_current: "cache_current E spec_of cache \<Longrightarrow> cache_current E spec_of (evictConfigRender key cache)"
  by (auto simp: cache_current_def evictConfigRender_def split: if_splits)

lemma hit_answers:
  assumes "configRenderCacheHit cache k v projected fed = Some (name, u)" "policyConfigMapResourceVersion E k w = Inr v"
    and "ko_spec k = spec_of (m_uid (ko_meta k)) (ko_generation k)"
  shows "\<exists>hit. map_of cache (key_of (ko_meta k)) = Some hit \<and> rc_name hit = name \<and> rc_use_stderr hit = u \<and>
    answers E spec_of (key_of (ko_meta k)) hit k projected fed w"
  using assms by (auto simp: configRenderCacheHit_def answers_def split: option.splits if_splits)

end
