(* ===== verification/KeystoneConfigProperties.thy ===== *)
theory KeystoneConfigProperties
  imports KeystoneConfig KeystoneLoopProperties
begin

text \<open>
  Properties of the configuration of a Keystone: a cached rendering is the rendering.
\<close>

section \<open>Helper lemmas\<close>

lemma version_put_cache:
  "cache_env E \<Longrightarrow> policyConfigMapResourceVersion E k (ce_put_cache E c w) = policyConfigMapResourceVersion E k w"
  by (cases "ko_namespace k") (simp_all add: cache_env_def policyConfigMapResourceVersion_def cong: option.case_cong)

lemma rendered_put_cache:
  assumes "cache_env E" "rendered E k projected fed (ce_put_cache E c w) = r"
  shows "rendered E k projected fed w = r"
proof -
  have "buildPolicyYAML E k (ce_put_cache E c w) = buildPolicyYAML E k w"
    by (rule buildPolicyYAML_cong) (use assms(1) in \<open>simp_all add: cache_env_def\<close>)
  then show ?thesis using assms(2) by (simp add: rendered_def)
qed

lemma render_config_current:
  assumes "policy_store E" "cache_env E" "cache_current E spec_of (ce_cache E w)"
    and "ko_spec k = spec_of (m_uid (ko_meta k)) (ko_generation k)" "policyConfigMapResourceVersion E k w = Inr v"
    and "render_config E v projected fed (k, w) = ((name, None), k', w')"
  shows "(\<exists>u. rendered E k projected fed w = Some (name, u)) \<and> cache_current E spec_of (ce_cache E w')"
proof -
  obtain u where u: "rendered E k projected fed w = Some (name, u)"
    "ce_cache E w' = storeConfigRender (ce_cache E w) k v name u projected fed"
    using render_config_sound [OF assms(2,6)] by blast
  then show ?thesis using store_current [OF assms(1,3-5) u(1)] by simp
qed

section \<open>The render cache\<close>

text \<open>
  C39. The render cache is sound: whenever \<open>reconcileConfig\<close> returns the name of a ConfigMap, it is the name a full
  rendering of the resource, the policy ConfigMap and the projections would produce on this pass, whether it came
  from the cache, from a rendering, or from a rendering after the cached ConfigMap was found deleted; and the cache
  it leaves answers only for resources that render to what it holds.  The hypotheses: a generation fixes the spec of
  a resource, a resource version fixes the data of a ConfigMap, and neither logging nor creating an object touches
  the cache.
\<close>

lemma config_cache_sound:
  assumes "policy_store E" "cache_env E" "cache_current E spec_of (ce_cache E w)"
    and "ko_spec k = spec_of (m_uid (ko_meta k)) (ko_generation k)"
    and "reconcileConfig E projected fed (k, w) = ((name, None), k', w')"
  shows "(\<exists>u. rendered E k projected fed w = Some (name, u)) \<and> cache_current E spec_of (ce_cache E w')"
proof -
  obtain v where v: "policyConfigMapResourceVersion E k w = Inr v"
    using assms(5) by (auto simp: reconcileConfig_def split: sum.splits)
  show ?thesis
  proof (cases "configRenderCacheHit (ce_cache E w) k v projected fed")
    case None
    then show ?thesis using render_config_current [OF assms(1-4) v] assms(5) v by (simp add: reconcileConfig_def)
  next
    case (Some hit)
    then obtain n u where h: "configRenderCacheHit (ce_cache E w) k v projected fed = Some (n, u)" by (cases hit) auto
    obtain b where b: "configMapExists E (ko_namespace k) n w = Inr b"
      using assms(5) v h by (auto simp: reconcileConfig_def split: sum.splits)
    show ?thesis
    proof (cases b)
      case True
      have out: "n = name" "recordLoggingHealth (ce_meta E) (ce_log E) [(''DEFAULT'', [(''use_stderr'', u)])] (k, w) = (k', w')"
        using assms(5) v h b True by (simp_all add: reconcileConfig_def)
      have "ce_cache E w' = ce_cache E w"
        using recordLoggingHealth_keeps [OF out(2)] policy_data_log(2) [OF assms(2), of w' w] by blast
      then show ?thesis
        using hit_answers [where spec_of = spec_of, OF h v assms(4)] assms(3) out(1) unfolding cache_current_def by metis
    next
      case False
      let ?w = "ce_put_cache E (evictConfigRender (key_of (ko_meta k)) (ce_cache E w)) w"
      have r: "render_config E v projected fed (k, ?w) = ((name, None), k', w')"
        using assms(5) v h b False by (simp add: reconcileConfig_def)
      have c: "cache_current E spec_of (ce_cache E ?w)"
        using assms(2) evict_current [OF assms(3)] by (simp add: cache_env_def)
      show ?thesis
        using render_config_current [OF assms(1,2) c assms(4) _ r] v version_put_cache [OF assms(2)]
          rendered_put_cache [OF assms(2)] by metis
    qed
  qed
qed

text \<open>An environment with a store of ConfigMaps beside the cache, and a policy ConfigMap that never changes.\<close>

type_synonym config_world = "render_cache \<times> (objkey \<times> immutable) list"

definition ex_config :: "config_world config_env" where
  "ex_config =
     (let C = store_client im_meta in
      \<lparr>ce_meta = ref_meta, ce_policy_data = (\<lambda>key w. Inr [(PolicyConfigMapKey, ''rules'')]), ce_policy_version = (\<lambda>key w. Inr ''7''),
       ce_unmarshal = (\<lambda>raw. Inr (Some [(''admin_required'', ''role:admin'')])), ce_marshal = (\<lambda>k v. Inr (k @ '': '' @ v)),
       ce_config_maps =
         \<lparr>k_get = (\<lambda>k w. k_get C k (snd w)), k_list = (\<lambda>ns ls w. k_list C ns ls (snd w)),
          k_create = (\<lambda>x w. apsnd (Pair (fst w)) (k_create C x (snd w))),
          k_update = (\<lambda>x w. apsnd (Pair (fst w)) (k_update C x (snd w))),
          k_apply = (\<lambda>x w. apsnd (Pair (fst w)) (k_apply C x (snd w))),
          k_delete = (\<lambda>o' x w. apsnd (Pair (fst w)) (k_delete C o' x (snd w)))\<rparr>,
       ce_own = (\<lambda>m x. Inr x), ce_sha = id, ce_log = (\<lambda>ev w. w), ce_cache = fst, ce_put_cache = (\<lambda>c w. (c, snd w))\<rparr>)"

lemma ex_config_laws: "policy_store ex_config" "cache_env ex_config"
  by (auto simp: policy_store_def cache_env_def ex_config_def Let_def apsnd_def map_prod_def split: prod.splits)

definition ex_policy_resource :: Keystone where
  "ex_policy_resource =
     ex_resource\<lparr>ko_spec := (ko_spec ex_resource)\<lparr>ks_policy_overrides := Some \<lparr>pol_rules = None, pol_config_map = Some ''policy''\<rparr>\<rparr>\<rparr>"

definition ex_config_pass :: "Keystone \<times> config_world \<Rightarrow> (string \<times> err option) \<times> Keystone \<times> config_world" where
  "ex_config_pass = reconcileConfig ex_config True None"

text \<open>Two passes: the first renders, the second is answered by the cache.\<close>

definition ex_first :: "Keystone \<times> config_world" where
  "ex_first = (ex_policy_resource, ([], []))"

definition ex_second :: "Keystone \<times> config_world" where
  "ex_second = snd (ex_config_pass ex_first)"

lemma ex_first_ok: "snd (fst (ex_config_pass ex_first)) = None" by code_simp

lemma ex_second_ok: "snd (fst (ex_config_pass ex_second)) = None" by code_simp

lemma ex_second_cached: "configRenderCacheHit (fst (snd ex_second)) (fst ex_second) ''7'' True None \<noteq> None" by code_simp

lemma ex_second_spec: "ko_spec (fst ex_second) = ko_spec ex_policy_resource" by code_simp

lemma config_cache_sound_witness:
  "\<exists>u. rendered ex_config (fst ex_second) True None (snd ex_second) = Some (fst (fst (ex_config_pass ex_second)), u)"
proof -
  have c: "cache_current ex_config (\<lambda>_ _. ko_spec ex_policy_resource) (ce_cache ex_config (snd ex_second))"
    using config_cache_sound [where E = ex_config and k = ex_policy_resource and w = "([], [])" and projected = True and fed = None
        and spec_of = "\<lambda>_ _. ko_spec ex_policy_resource", OF ex_config_laws] ex_first_ok
    by (cases "ex_config_pass ex_first")
      (auto simp: ex_first_def ex_second_def ex_config_pass_def cache_current_def ex_config_def Let_def)
  show ?thesis
    using config_cache_sound [where E = ex_config and k = "fst ex_second" and w = "snd ex_second" and projected = True and fed = None
        and spec_of = "\<lambda>_ _. ko_spec ex_policy_resource", OF ex_config_laws c] ex_second_spec ex_second_ok
    by (cases "ex_config_pass ex_second") (auto simp: ex_config_pass_def)
qed

end
