(* ===== verification/KeystoneWorkload.thy ===== *)
theory KeystoneWorkload
  imports KeystoneSteps
begin

text \<open>
  The Keystone API workload: the client certificate for the database, \<open>reconcile_databasetls.go\<close> with the reasons
  of \<open>dbtls_mode.go\<close>, and the Deployment, Service and PodDisruptionBudget of \<open>reconcile_deployment.go\<close>.
\<close>

section \<open>The database client certificate\<close>

definition conditionTypeDatabaseTLSReady :: string where "conditionTypeDatabaseTLSReady = ''DatabaseTLSReady''"
definition reasonCertificateIssued :: string where "reasonCertificateIssued = ''CertificateIssued''"
definition reasonCertificatePending :: string where "reasonCertificatePending = ''CertificatePending''"
definition reasonNotRequired :: string where "reasonNotRequired = ''NotRequired''"
definition reasonExternallyManaged :: string where "reasonExternallyManaged = ''ExternallyManaged''"
definition reasonMissingCertRefs :: string where "reasonMissingCertRefs = ''MissingCertificateRefs''"
definition dbCAIssuerName :: string where "dbCAIssuerName = ''openstack-db-ca-issuer''"

record cert_spec =
  ct_secret :: string
  ct_common_name :: string
  ct_issuer :: "string \<times> string \<times> string"  \<comment> \<open>name, kind and group\<close>
  ct_usages :: "string list"

definition dbClientCertificateName :: "Keystone \<Rightarrow> string" where
  "dbClientCertificateName k = ko_name k @ ''-db-client''"

definition dbClientCertificate :: "Keystone \<Rightarrow> cert_spec certificate" where
  "dbClientCertificate k =
     \<lparr>ce_meta = blank_meta\<lparr>m_name := dbClientCertificateName k, m_namespace := ko_namespace k, m_labels := commonLabels k\<rparr>,
      ce_spec = \<lparr>ct_secret = dbClientCertificateName k, ct_common_name = ko_name k,
        ct_issuer = (dbCAIssuerName, ''ClusterIssuer'', ''cert-manager.io''),
        ct_usages = [''client auth'', ''digital signature'', ''key encipherment'']\<rparr>,
      ce_conditions = []\<rparr>"

definition deleteDBClientCertificate :: "(cert_spec certificate, 'w) kclient \<Rightarrow> string \<Rightarrow> string \<Rightarrow> 'w \<Rightarrow> err option \<times> 'w" where
  "deleteDBClientCertificate C namespace name w =
     (case k_delete C no_opts \<lparr>ce_meta = blank_meta\<lparr>m_name := name, m_namespace := namespace\<rparr>,
             ce_spec = \<lparr>ct_secret = [], ct_common_name = [], ct_issuer = ([], [], []), ct_usages = []\<rparr>, ce_conditions = []\<rparr> w of
        (e, w') \<Rightarrow>
          (case ignore_not_found e of
             None \<Rightarrow> (None, w')
           | Some x \<Rightarrow> (Some (Errorf ''deleting database client Certificate %s/%s: %w'' [Str namespace, Str name, Wrap x]), w')))"

definition deleteManagedDBClientCertificate ::
  "bool \<Rightarrow> (cert_spec certificate, 'w) kclient \<Rightarrow> Keystone \<Rightarrow> 'w \<Rightarrow> err option \<times> 'w" where
  "deleteManagedDBClientCertificate available C k w =
     (if \<not> available then (None, w) else deleteDBClientCertificate C (ko_namespace k) (dbClientCertificateName k) w)"

text \<open>\<open>available\<close> says whether cert-manager is installed, \<open>sem_eq\<close> is semantic equality, \<open>own\<close> sets the controller reference.\<close>

definition reconcileDatabaseTLS ::
  "meta_api \<Rightarrow> bool \<Rightarrow> (cert_spec \<Rightarrow> cert_spec \<Rightarrow> bool) \<Rightarrow> (cert_spec certificate, 'w) kclient \<Rightarrow>
     (objmeta \<Rightarrow> cert_spec certificate \<Rightarrow> cert_spec certificate result) \<Rightarrow> 'w ks_step" where
  "reconcileDatabaseTLS K available sem_eq C own s =
     (let (k, w) = s; db = ks_database (ko_spec k); tls = the (db_tls db); say = report K conditionTypeDatabaseTLSReady in
      if \<not> dbTLSEnabled db
      then (case deleteManagedDBClientCertificate available C k w of
              (Some e, w') \<Rightarrow> ((zero_result, Some e), k, w')
            | (None, w') \<Rightarrow>
                ((zero_result, None), say CTrue reasonNotRequired (Msg ''Database TLS is not enabled; using plaintext connection'' []) k, w'))
      else if sr_name (tls_ca_bundle tls) = [] \<or> sr_name (tls_client_cert tls) = []
      then ((zero_result, Some (Errorf ''database TLS enabled (mode %q) but caBundleSecretRef.name and/or clientCertSecretRef.name are empty; refusing to build an invalid certificate volume''
               [Str (tls_mode tls)])),
            say CFalse reasonMissingCertRefs
              (Msg ''Database TLS is enabled but caBundleSecretRef.name and clientCertSecretRef.name must both be set'' []) k, w)
      else if db_cluster_ref db = None
      then (case deleteManagedDBClientCertificate available C k w of
              (Some e, w') \<Rightarrow> ((zero_result, Some e), k, w')
            | (None, w') \<Rightarrow>
                ((zero_result, None), say CTrue reasonExternallyManaged
                   (Msg ''Database TLS uses externally managed client certificate Secret %q (brownfield database)'' [Str (sr_name (tls_client_cert tls))]) k, w'))
      else
        (let cert = dbClientCertificate k; name = dbClientCertificateName k in
         case EnsureCertificate sem_eq C own (ko_meta k) cert w of
           (Inl e, w') \<Rightarrow>
             ((zero_result, Some (Errorf ''ensuring database client Certificate %s/%s: %w'' [Str (ko_namespace k), Str name, Wrap e])), k, w')
         | (Inr False, w') \<Rightarrow>
             ((after RequeueSecretPolling, None), say CFalse reasonCertificatePending
                (Msg ''Waiting for cert-manager to issue database client Certificate %q'' [Str name]) k, w')
         | (Inr True, w') \<Rightarrow>
             ((zero_result, None), say CTrue reasonCertificateIssued
                (Msg ''Database client Certificate %q issued into Secret %q'' [Str name, Str (ct_secret (ce_spec cert))]) k, w')))"

section \<open>The API pod\<close>

datatype probe_handler = ExecProbe "string list" | TcpProbe int | HttpProbe string int

record pod_probe =
  pr_handler :: probe_handler
  pr_initial_delay :: int
  pr_period :: int
  pr_timeout :: int
  pr_failures :: int

text \<open>A container of a long-running pod: a Job's container, and more.\<close>

record service_container = container +
  sn_resources :: resource_requirements
  sn_ports :: "(string \<times> int) list"
  sn_liveness :: "pod_probe option"
  sn_readiness :: "pod_probe option"
  sn_startup :: "pod_probe option"
  sn_pre_stop :: "string list option"

record service_pod =
  po_labels :: "string gomap"
  po_annotations :: "string gomap"
  po_strategy :: deployment_strategy
  po_grace :: int
  po_topology :: "topology_spread list"
  po_priority_class :: string
  po_fs_group :: int
  po_containers :: "service_container list"
  po_volumes :: "volume list"

text \<open>The settings of one spec, read through the shared builders.\<close>

definition deploymentReplicas :: "Keystone \<Rightarrow> int option" where
  "deploymentReplicas k = DeploymentReplicas (ks_deployment (ko_spec k)) (ks_autoscaling (ko_spec k))"

definition deploymentStrategy :: "Keystone \<Rightarrow> deployment_strategy" where
  "deploymentStrategy k = Strategy (ks_deployment (ko_spec k))"

definition topologySpreadConstraints :: "Keystone \<Rightarrow> topology_spread list" where
  "topologySpreadConstraints k = TopologySpreadConstraints (ks_deployment (ko_spec k)) (selectorLabels k)"

definition terminationGracePeriodSeconds :: "Keystone \<Rightarrow> int" where
  "terminationGracePeriodSeconds k = TerminationGracePeriodSeconds (ks_deployment (ko_spec k))"

definition preStopSleepCommand :: "Keystone \<Rightarrow> string list" where
  "preStopSleepCommand k = PreStopSleepCommand (ks_deployment (ko_spec k))"

definition containerResources :: "Keystone \<Rightarrow> resource_requirements" where
  "containerResources k = ContainerResources (ks_deployment (ko_spec k))"

definition dbConnectionHashAnnotation :: string where "dbConnectionHashAnnotation = ''keystone.c5c3.io/db-connection-hash''"
definition dbReadinessProbeConnectTimeoutSeconds :: int where "dbReadinessProbeConnectTimeoutSeconds = 20"
definition uwsgiFederationBufferSize :: int where "uwsgiFederationBufferSize = 65535"
definition federationProxyConfigVolumeName :: string where "federationProxyConfigVolumeName = ''federation-proxy-config''"
definition federationMetadataVolumeName :: string where "federationMetadataVolumeName = ''federation-metadata''"
definition federationMellonVolumeName :: string where "federationMellonVolumeName = ''federation-mellon''"
definition federationProxyTmpVolumeName :: string where "federationProxyTmpVolumeName = ''federation-proxy-tmp''"
definition federationProxyConfMountPath :: string where "federationProxyConfMountPath = ''/etc/keystone-federation-proxy/conf.d''"
definition federationMetadataMountPath :: string where "federationMetadataMountPath = ''/etc/keystone-federation-proxy/metadata''"
definition federationMellonMountPath :: string where "federationMellonMountPath = ''/etc/keystone-federation-proxy/mellon''"

text \<open>The fields of a probe that the code leaves unset are zero.\<close>

definition dbReadinessProbeScript :: string where
  \<open>dbReadinessProbeScript =
     ''python3 -c "import os,socket; from urllib.parse import urlparse; raw=os.environ.get('OS_DATABASE__CONNECTION','' @
     [CHR 0x27, CHR 0x27] @ ''); u=urlparse('//'+raw.split('://',1)[-1]); socket.create_connection((u.hostname, u.port or 3306), '' @
     show_int dbReadinessProbeConnectTimeoutSeconds @ '').close()"''\<close>

definition dbReadinessProbe :: pod_probe where
  "dbReadinessProbe =
     \<lparr>pr_handler = ExecProbe [''/bin/sh'', ''-c'', dbReadinessProbeScript], pr_initial_delay = 10, pr_period = 30,
      pr_timeout = 25, pr_failures = 3\<rparr>"

definition keystoneLivenessProbe :: "bool \<Rightarrow> pod_probe" where
  \<open>keystoneLivenessProbe federation_active =
     \<lparr>pr_handler = (if federation_active
        then ExecProbe [''/bin/sh'', ''-c'', ''python3 -c "import socket; socket.create_connection(('127.0.0.1', 5000), 5).close()"'']
        else TcpProbe 5000),
      pr_initial_delay = 15, pr_period = 20, pr_timeout = 0, pr_failures = 0\<rparr>\<close>

definition keystoneStartupProbe :: "bool \<Rightarrow> pod_probe" where
  \<open>keystoneStartupProbe federation_active =
     \<lparr>pr_handler = (if federation_active
        then ExecProbe [''/bin/sh'', ''-c'', ''python3 -c "import urllib.request; urllib.request.urlopen('http://127.0.0.1:5000/v3', timeout=5)"'']
        else HttpProbe ''/v3'' 5000),
      pr_initial_delay = 0, pr_period = 10, pr_timeout = 0, pr_failures = 30\<rparr>\<close>

definition uwsgiCommand :: "UWSGISpec option \<Rightarrow> bool \<Rightarrow> string list" where
  "uwsgiCommand uwsgi federation_active =
     (let (processes, threads, keep_alive) =
            (case uwsgi of
               None \<Rightarrow> (DefaultUWSGIProcesses, DefaultUWSGIThreads, DefaultUWSGIHTTPKeepAlive)
             | Some u \<Rightarrow> (uw_processes u, uw_threads u,
                 (case uw_keep_alive u of None \<Rightarrow> DefaultUWSGIHTTPKeepAlive | Some b \<Rightarrow> b)));
          number = (\<lambda>flag field. case Option.bind uwsgi field of None \<Rightarrow> [] | Some n \<Rightarrow> [flag, show_int n])
      in [''uwsgi'', ''--http'', if federation_active then ''127.0.0.1:5000'' else '':5000''] @
         (if federation_active then [''--buffer-size'', show_int uwsgiFederationBufferSize] else []) @
         (if keep_alive then ''--http-keepalive'' # number ''--http-keepalive-timeout'' uw_keep_alive_timeout else []) @
         [''--log-master'', ''--log-format'',
          ''%(method) %(uri) => generated %(rsize) bytes in %(msecs) msecs (%(proto) %(status))'',
          ''--wsgi-file'', ''/var/lib/openstack/bin/keystone-wsgi-public'', ''--master'', ''--lazy-apps'', ''--need-app'',
          ''--processes'', show_int processes, ''--threads'', show_int threads,
          ''--pyargv=--config-dir=/etc/keystone/keystone.conf.d/''] @
         number ''--harakiri'' uw_harakiri)"

section \<open>The federation proxy\<close>

definition buildFederationProxyVolumeMounts :: "federationProjection \<Rightarrow> volume_mount list" where
  "buildFederationProxyVolumeMounts fed =
     [\<lparr>vm_name = federationProxyConfigVolumeName, vm_path = federationProxyConfMountPath, vm_read_only = True\<rparr>] @
     (if fp_metadata_items fed \<noteq> []
      then [\<lparr>vm_name = federationMetadataVolumeName, vm_path = federationMetadataMountPath, vm_read_only = True\<rparr>] else []) @
     (if fp_mellon_items fed \<noteq> []
      then [\<lparr>vm_name = federationMellonVolumeName, vm_path = federationMellonMountPath, vm_read_only = True\<rparr>] else []) @
     [\<lparr>vm_name = federationProxyTmpVolumeName, vm_path = ''/tmp'', vm_read_only = False\<rparr>]"

definition buildFederationVolumes :: "federationProjection \<Rightarrow> volume list" where
  "buildFederationVolumes fed =
     [\<lparr>vo_name = federationProxyConfigVolumeName,
       vo_source = SecretItemsSource (fp_secret fed) 256 [(''proxy.conf'', ''proxy.conf'')]\<rparr>] @
     (if fp_metadata_items fed \<noteq> []
      then [\<lparr>vo_name = federationMetadataVolumeName, vo_source = SecretItemsSource (fp_secret fed) 256 (fp_metadata_items fed)\<rparr>]
      else []) @
     (if fp_mellon_items fed \<noteq> []
      then [\<lparr>vo_name = federationMellonVolumeName, vo_source = SecretItemsSource (fp_secret fed) 256 (fp_mellon_items fed)\<rparr>]
      else []) @
     [\<lparr>vo_name = federationProxyTmpVolumeName, vo_source = EmptyDirSource\<rparr>]"

definition plain_probe :: "probe_handler \<Rightarrow> int \<Rightarrow> int \<Rightarrow> int \<Rightarrow> pod_probe" where
  "plain_probe handler delay period failures =
     \<lparr>pr_handler = handler, pr_initial_delay = delay, pr_period = period, pr_timeout = 0, pr_failures = failures\<rparr>"

definition buildFederationProxyContainer :: "federationProjection \<Rightarrow> service_container" where
  "buildFederationProxyContainer fed =
     \<lparr>co_name = ''federation-proxy'', co_image = ImageReference (fp_proxy_image fed),
      co_command = [''apache2'', ''-DFOREGROUND'', ''-f'', ''/etc/keystone-federation-proxy/httpd-base.conf''],
      co_security = RestrictedSecurityContext, co_env = [], co_mounts = buildFederationProxyVolumeMounts fed,
      co_termination_policy = [],
      sn_resources = \<lparr>rq_requests = [(''cpu'', ''25m''), (''memory'', ''64Mi'')], rq_limits = [(''memory'', ''256Mi'')]\<rparr>,
      sn_ports = [(''proxy'', federationProxyPort)],
      sn_liveness = Some (plain_probe (TcpProbe federationProxyPort) 15 20 0),
      sn_readiness = Some (plain_probe (HttpProbe ''/v3'' federationProxyPort) 5 10 0),
      sn_startup = Some (plain_probe (TcpProbe federationProxyPort) 0 2 30),
      sn_pre_stop = None\<rparr>"

section \<open>The Deployment, the Service and the disruption budget\<close>

text \<open>The volumes and mounts added for database TLS and for the domains Secret.\<close>

definition optional_volumes :: "Keystone \<Rightarrow> string \<Rightarrow> (volume \<times> volume_mount) list" where
  "optional_volumes k domains =
     (if dbTLSEnabled (ks_database (ko_spec k)) then [dbTLSVolumeAndMount (ks_database (ko_spec k))] else []) @
     (if domains \<noteq> [] then [domainsVolumeAndMount domains] else [])"

definition keystone_container :: "Keystone \<Rightarrow> string \<Rightarrow> bool \<Rightarrow> service_container" where
  "keystone_container k domains federation_active =
     \<lparr>co_name = ''keystone'', co_image = ImageReference (ks_image (ko_spec k)),
      co_command = uwsgiCommand (ks_uwsgi (ko_spec k)) federation_active, co_security = RestrictedSecurityContext,
      co_env = [buildDBConnectionEnvVar k],
      co_mounts =
        [\<lparr>vm_name = ''config'', vm_path = ''/etc/keystone/keystone.conf.d/'', vm_read_only = True\<rparr>,
         \<lparr>vm_name = ''fernet-keys'', vm_path = ''/etc/keystone/fernet-keys/'', vm_read_only = True\<rparr>,
         \<lparr>vm_name = ''credential-keys'', vm_path = ''/etc/keystone/credential-keys/'', vm_read_only = True\<rparr>] @
        map snd (optional_volumes k domains),
      co_termination_policy = [],
      sn_resources = containerResources k, sn_ports = [(''keystone'', 5000)],
      sn_liveness = Some (keystoneLivenessProbe federation_active), sn_readiness = Some dbReadinessProbe,
      sn_startup = Some (keystoneStartupProbe federation_active), sn_pre_stop = Some (preStopSleepCommand k)\<rparr>"

definition buildKeystoneDeployment ::
  "Keystone \<Rightarrow> string \<Rightarrow> string \<Rightarrow> string \<Rightarrow> federationProjection option \<Rightarrow> service_pod deployment" where
  "buildKeystoneDeployment k config_map dsn_hash domains fed =
     \<lparr>dp_meta = blank_meta\<lparr>m_name := subResourceName k, m_namespace := ko_namespace k, m_labels := commonLabels k\<rparr>,
      dp_replicas = deploymentReplicas k,
      dp_selector = \<lparr>ls_match_labels = selectorLabels k, ls_match_expressions = []\<rparr>,
      dp_template =
        \<lparr>po_labels = commonLabels k,
         po_annotations =
           (if dsn_hash \<noteq> [] \<and> db_credentials_mode (ks_database (ko_spec k)) = CredentialsModeDynamic
            then [(dbConnectionHashAnnotation, dsn_hash)] else []),
         po_strategy = deploymentStrategy k, po_grace = terminationGracePeriodSeconds k,
         po_topology = topologySpreadConstraints k, po_priority_class = priorityClassName k, po_fs_group = OpenStackUID,
         po_containers = keystone_container k domains (fed \<noteq> None) #
           (case fed of None \<Rightarrow> [] | Some f \<Rightarrow> [buildFederationProxyContainer f]),
         po_volumes =
           [\<lparr>vo_name = ''config'', vo_source = ConfigMapSource config_map\<rparr>,
            \<lparr>vo_name = ''fernet-keys'', vo_source = SecretSource (ko_name k @ ''-fernet-keys'') 256\<rparr>,
            \<lparr>vo_name = ''credential-keys'', vo_source = SecretSource (ko_name k @ ''-credential-keys'') 256\<rparr>] @
           map fst (optional_volumes k domains) @
           (case fed of None \<Rightarrow> [] | Some f \<Rightarrow> buildFederationVolumes f)\<rparr>,
      dp_observed_generation = 0, dp_ready_replicas = 0, dp_updated_replicas = 0, dp_conditions = []\<rparr>"

definition buildKeystoneService :: "Keystone \<Rightarrow> bool \<Rightarrow> service" where
  "buildKeystoneService k federation_active =
     \<lparr>sv_meta = blank_meta\<lparr>m_name := subResourceName k, m_namespace := ko_namespace k, m_labels := commonLabels k\<rparr>,
      sv_cluster_ip = [], sv_cluster_ips = [], sv_ip_families = [], sv_selector = selectorLabels k,
      sv_ports = [\<lparr>vp_port = 5000, vp_target = (if federation_active then federationProxyPort else 5000), vp_protocol = ''TCP''\<rparr>]\<rparr>"

definition buildPodDisruptionBudget :: "Keystone \<Rightarrow> pdb" where
  "buildPodDisruptionBudget k =
     BuildPDB (ko_namespace k) (subResourceName k) (commonLabels k) (selectorLabels k) (ks_deployment (ko_spec k))"

section \<open>Facts about the pod\<close>

lemmas pod_names = federationProxyConfigVolumeName_def federationMetadataVolumeName_def federationMellonVolumeName_def
  federationProxyTmpVolumeName_def domainsVolumeName_def

lemma optional_volumes_names:
  "map (vo_name \<circ> fst) (optional_volumes k d) = map (vm_name \<circ> snd) (optional_volumes k d)"
  "set (map (vo_name \<circ> fst) (optional_volumes k d)) \<subseteq> {''db-tls'', ''domains''}" "distinct (map (vo_name \<circ> fst) (optional_volumes k d))"
  by (auto simp: optional_volumes_def dbTLSVolumeAndMount_def domainsVolumeAndMount_def Let_def pod_names)

lemma federation_volumes_names:
  "map vo_name (buildFederationVolumes f) = map vm_name (buildFederationProxyVolumeMounts f)"
  "distinct (map vo_name (buildFederationVolumes f))"
  "set (map vo_name (buildFederationVolumes f)) \<subseteq> {''federation-proxy-config'', ''federation-metadata'', ''federation-mellon'', ''federation-proxy-tmp''}"
  by (auto simp: buildFederationVolumes_def buildFederationProxyVolumeMounts_def pod_names)

text \<open>A certificate step that lets the pass go on left the material the pods mount.\<close>

lemma reconcileDatabaseTLS_proceeds:
  assumes "reconcileDatabaseTLS K available sem_eq C own (k, w) = ((zero_result, None), k', w')"
    and "dbTLSEnabled (ks_database (ko_spec k))"
  shows "sr_name (tls_ca_bundle (the (db_tls (ks_database (ko_spec k))))) \<noteq> []"
    "sr_name (tls_client_cert (the (db_tls (ks_database (ko_spec k))))) \<noteq> []"
    "db_cluster_ref (ks_database (ko_spec k)) = None \<or>
       EnsureCertificate sem_eq C own (ko_meta k) (dbClientCertificate k) w = (Inr True, w')"
proof -
  have wait: "after RequeueSecretPolling \<noteq> zero_result" by (simp add: after_def zero_result_def RequeueSecretPolling_def seconds_def)
  show "sr_name (tls_ca_bundle (the (db_tls (ks_database (ko_spec k))))) \<noteq> []"
    "sr_name (tls_client_cert (the (db_tls (ks_database (ko_spec k))))) \<noteq> []"
    using assms by (auto simp: reconcileDatabaseTLS_def Let_def)
  show "db_cluster_ref (ks_database (ko_spec k)) = None \<or>
      EnsureCertificate sem_eq C own (ko_meta k) (dbClientCertificate k) w = (Inr True, w')"
    using assms wait by (auto simp: reconcileDatabaseTLS_def Let_def split: prod.splits sum.splits bool.splits if_splits)
qed

end
