(* ===== verification/IdentityBackendTypes.thy ===== *)
theory IdentityBackendTypes
  imports CommonTypes Conditions Kube
begin

text \<open>
  The identity backend resource, \<open>operators/keystone/api/v1alpha1/keystoneidentitybackend_types.go\<close>, and what its methods
  derive from the spec.  A pointer field is an \<open>option\<close>; a Go string enum stays a string.
\<close>

definition IdentityBackendTypeLDAP :: string where "IdentityBackendTypeLDAP = ''LDAP''"
definition IdentityBackendTypeOIDC :: string where "IdentityBackendTypeOIDC = ''OIDC''"
definition IdentityBackendTypeSAML :: string where "IdentityBackendTypeSAML = ''SAML''"
definition DomainModeManage :: string where "DomainModeManage = ''Manage''"
definition DomainModeAdopt :: string where "DomainModeAdopt = ''Adopt''"
definition DomainDeletionPolicyRetain :: string where "DomainDeletionPolicyRetain = ''Retain''"
definition DomainDeletionPolicyDelete :: string where "DomainDeletionPolicyDelete = ''Delete''"
definition DefaultOIDCProtocolID :: string where "DefaultOIDCProtocolID = ''openid''"
definition DefaultOIDCRemoteIDAttribute :: string where "DefaultOIDCRemoteIDAttribute = ''HTTP_OIDC_ISS''"
definition DefaultOIDCResponseType :: string where "DefaultOIDCResponseType = ''code''"
definition DefaultOIDCScopes :: "string list" where "DefaultOIDCScopes = [''openid'', ''email'', ''profile'']"
definition DefaultSAMLProtocolID :: string where "DefaultSAMLProtocolID = ''mapped''"
definition DefaultSAMLRemoteIDAttribute :: string where "DefaultSAMLRemoteIDAttribute = ''HTTP_MELLON_IDP''"
definition OIDCSessionTypeClientCookie :: string where "OIDCSessionTypeClientCookie = ''client-cookie''"
definition OIDCSessionTypeClientCookiePersistent :: string where
  "OIDCSessionTypeClientCookiePersistent = ''client-cookie-persistent''"
definition OIDCStateInputHeadersNone :: string where "OIDCStateInputHeadersNone = ''none''"

record DomainSpec =
  do_name :: string
  do_mode :: string
  do_deletion :: string
  do_description :: string

section \<open>LDAP\<close>

record LDAPUserSpec =
  lu_tree :: string
  lu_filter :: string
  lu_class :: string
  lu_id :: string
  lu_name :: string
  lu_mail :: string

record LDAPGroupSpec =
  lg_tree :: string
  lg_filter :: string
  lg_class :: string
  lg_id :: string
  lg_name :: string
  lg_member :: string

record LDAPTLSSpec =
  lt_ca :: SecretRefSpec

record LDAPPoolSpec =
  lp_enabled :: bool
  lp_size :: "int option"

record LDAPBackendSpec =
  ld_url :: string
  ld_bind :: SecretRefSpec
  ld_suffix :: string
  ld_users :: LDAPUserSpec
  ld_groups :: "LDAPGroupSpec option"
  ld_read_only :: "bool option"
  ld_tls :: "LDAPTLSSpec option"
  ld_pool :: "LDAPPoolSpec option"

section \<open>OIDC and SAML\<close>

record OIDCEndpointsSpec =
  oe_authorization :: string
  oe_token :: string
  oe_jwks :: string
  oe_userinfo :: string
  oe_end_session :: string
  oe_introspection :: string

record OIDCIntrospectionSpec =
  oi_enabled :: bool
  oi_tls_verify :: "bool option"

record OIDCBackendSpec =
  oi_issuer :: string
  oi_metadata_url :: string
  oi_endpoints :: "OIDCEndpointsSpec option"
  oi_client_id :: string
  oi_client_secret :: SecretRefSpec
  oi_protocol :: string
  oi_idp_name :: string
  oi_remote_attribute :: string
  oi_scopes :: "string list"
  oi_response_type :: string
  oi_introspection :: "OIDCIntrospectionSpec option"
  oi_session :: string
  oi_state_headers :: string

record SAMLIdPMetadataSpec =
  sm_inline :: string
  sm_secret :: "SecretRefSpec option"
  sm_url :: string

record SAMLSPSpec =
  sp_certificate :: "SecretRefSpec option"

record SAMLBackendSpec =
  sb_entity :: string
  sb_metadata :: SAMLIdPMetadataSpec
  sb_sp :: "SAMLSPSpec option"
  sb_protocol :: string
  sb_idp_name :: string
  sb_remote_attribute :: string
  sb_attributes :: "string list"

section \<open>Mappings and groups\<close>

record MappingRemoteRuleSpec =
  mo_type :: string
  mo_regex :: "bool option"
  mo_any_one_of :: "string list"
  mo_not_any_of :: "string list"
  mo_blacklist :: "string list"
  mo_whitelist :: "string list"

record MappingDomainSpec =
  mdm_id :: string
  mdm_name :: string

record MappingGroupSpec =
  mg_id :: string
  mg_name :: string
  mg_domain :: "MappingDomainSpec option"

record MappingProjectRoleSpec =
  mpr_name :: string

record MappingProjectSpec =
  mp_name :: string
  mp_roles :: "MappingProjectRoleSpec list"

record MappingUserSpec =
  mu_id :: string
  mu_name :: string
  mu_email :: string
  mu_domain :: "MappingDomainSpec option"
  mu_type :: string

record MappingLocalRuleSpec =
  ml_domain :: "MappingDomainSpec option"
  ml_group :: "MappingGroupSpec option"
  ml_group_ids :: string
  ml_groups :: string
  ml_projects :: "MappingProjectSpec list"
  ml_user :: "MappingUserSpec option"

record MappingRuleSpec =
  mr_local :: "MappingLocalRuleSpec list"
  mr_remote :: "MappingRemoteRuleSpec list"

record FederationProjectScopeSpec =
  fps_name :: string
  fps_domain :: string

record FederationRoleAssignmentSpec =
  fra_role :: string
  fra_project :: "FederationProjectScopeSpec option"
  fra_domain :: bool

record FederationGroupSpec =
  fg_name :: string
  fg_description :: string
  fg_roles :: "FederationRoleAssignmentSpec list"

section \<open>The resource\<close>

record KeystoneIdentityBackendSpec =
  ib_keystone :: string
  ib_domain :: DomainSpec
  ib_type :: string
  ib_ldap :: "LDAPBackendSpec option"
  ib_oidc :: "OIDCBackendSpec option"
  ib_saml :: "SAMLBackendSpec option"
  ib_mappings :: "MappingRuleSpec list"
  ib_groups :: "FederationGroupSpec list"
  ib_extra :: "string gomap"

record KeystoneIdentityBackendStatus =
  it_conditions :: "condition list"
  it_observed :: int
  it_domain_id :: string
  it_sp_secret :: string

record KeystoneIdentityBackend =
  kb_meta :: objmeta
  kb_spec :: KeystoneIdentityBackendSpec
  kb_status :: KeystoneIdentityBackendStatus

abbreviation kb_type :: "KeystoneIdentityBackend \<Rightarrow> string" where "kb_type b \<equiv> ib_type (kb_spec b)"
abbreviation kb_name :: "KeystoneIdentityBackend \<Rightarrow> string" where "kb_name b \<equiv> m_name (kb_meta b)"
abbreviation kb_conditions :: "KeystoneIdentityBackend \<Rightarrow> condition list" where
  "kb_conditions b \<equiv> it_conditions (kb_status b)"

definition IsFederationType :: "KeystoneIdentityBackend \<Rightarrow> bool" where
  "IsFederationType b \<longleftrightarrow> kb_type b = IdentityBackendTypeOIDC \<or> kb_type b = IdentityBackendTypeSAML"

definition FederationRemoteID :: "KeystoneIdentityBackend \<Rightarrow> string" where
  "FederationRemoteID b =
     (case ib_oidc (kb_spec b) of
        Some oidc \<Rightarrow> oi_issuer oidc
      | None \<Rightarrow> (case ib_saml (kb_spec b) of Some saml \<Rightarrow> sb_entity saml | None \<Rightarrow> []))"

text \<open>A field of a block, empty when the block is absent.\<close>

definition block_field :: "('b \<Rightarrow> string) \<Rightarrow> 'b option \<Rightarrow> string" where
  "block_field f b = (case b of None \<Rightarrow> [] | Some x \<Rightarrow> f x)"

definition EffectiveIdentityProviderName :: "KeystoneIdentityBackend \<Rightarrow> string" where
  "EffectiveIdentityProviderName b =
     (if block_field oi_idp_name (ib_oidc (kb_spec b)) \<noteq> [] then block_field oi_idp_name (ib_oidc (kb_spec b))
      else if block_field sb_idp_name (ib_saml (kb_spec b)) \<noteq> [] then block_field sb_idp_name (ib_saml (kb_spec b))
      else kb_name b)"

definition EffectiveProtocolID :: "KeystoneIdentityBackend \<Rightarrow> string" where
  "EffectiveProtocolID b =
     (if kb_type b = IdentityBackendTypeLDAP then []
      else if kb_type b = IdentityBackendTypeOIDC
      then (if block_field oi_protocol (ib_oidc (kb_spec b)) \<noteq> [] then block_field oi_protocol (ib_oidc (kb_spec b))
            else DefaultOIDCProtocolID)
      else if kb_type b = IdentityBackendTypeSAML
      then (if block_field sb_protocol (ib_saml (kb_spec b)) \<noteq> [] then block_field sb_protocol (ib_saml (kb_spec b))
            else DefaultSAMLProtocolID)
      else [])"

definition EffectiveRemoteIDAttribute :: "KeystoneIdentityBackend \<Rightarrow> string" where
  "EffectiveRemoteIDAttribute b =
     (case ib_oidc (kb_spec b) of
        Some oidc \<Rightarrow> if oi_remote_attribute oidc \<noteq> [] then oi_remote_attribute oidc else DefaultOIDCRemoteIDAttribute
      | None \<Rightarrow>
          (case ib_saml (kb_spec b) of
             Some saml \<Rightarrow> if sb_remote_attribute saml \<noteq> [] then sb_remote_attribute saml else DefaultSAMLRemoteIDAttribute
           | None \<Rightarrow> DefaultOIDCRemoteIDAttribute))"

text \<open>\<open>xml_root\<close> is \<open>xml.Unmarshal\<close> into the anonymous struct: the local name of the root element and its entityID.\<close>

definition SAMLEntityIDFromMetadata :: "(string \<Rightarrow> (string \<times> string) result) \<Rightarrow> string \<Rightarrow> string result" where
  "SAMLEntityIDFromMetadata xml_root document =
     (case xml_root document of
        Inl e \<Rightarrow> Inl (Errorf ''parsing SAML metadata XML: %w'' [Wrap e])
      | Inr (local, entity) \<Rightarrow>
          if local \<noteq> ''EntityDescriptor'' then Inl (Errorf ''expected a single EntityDescriptor, got %q'' [Str local])
          else if entity = [] then Inl (Errorf ''EntityDescriptor carries no entityID attribute'' [])
          else Inr entity)"

end
