(* ===== verification/KeystoneFederation.thy ===== *)
theory KeystoneFederation
  imports KeystoneController KeystoneConfig KeystoneWorkload IdentityBackendTypes Dsn
begin

text \<open>
  What the Keystone operator renders for identity federation: \<open>reconcile_federation.go\<close> (OpenID Connect, the configuration
  of the proxy, the projection) and \<open>reconcile_federation_saml.go\<close> (SAML).  The cache of provider metadata, a field of the
  reconciler under a lock, is read from and written to the world; its accesses are atomic.  The JSON, XML, PEM and X.509
  codecs, the URL parser, the HTTP exchange and the verb \<open>%q\<close> are functions of \<open>federation_env\<close>; \<open>fx_json\<close> decodes
  into a struct with the named string fields.
\<close>

section \<open>Names\<close>

definition federationRedirectURIPath :: string where "federationRedirectURIPath = ''/v3/OS-FEDERATION/redirect_uri''"
definition maxProviderMetadataBytes :: nat where "maxProviderMetadataBytes = 256 * 1024"

definition errProviderMetadataUnavailable :: err where
  "errProviderMetadataUnavailable = Sentinel ''provider metadata unavailable''"

definition errControlCharInValue :: err where
  "errControlCharInValue = Sentinel ''[ldap] option name or value contains a newline or carriage-return character''"

abbreviation metadata_unavailable :: "err \<Rightarrow> bool" where
  "metadata_unavailable \<equiv> is_sentinel ''provider metadata unavailable''"

abbreviation control_char_error :: "err \<Rightarrow> bool" where
  "control_char_error \<equiv> is_sentinel ''[ldap] option name or value contains a newline or carriage-return character''"

definition unavailable :: "string \<Rightarrow> farg list \<Rightarrow> err" where
  "unavailable text args = Errorf (''%w: '' @ text) (Wrap errProviderMetadataUnavailable # args)"

definition federationSecretBaseName :: "Keystone \<Rightarrow> string" where "federationSecretBaseName k = ko_name k @ ''-federation''"
definition oidcCryptoPassphraseSecretName :: "Keystone \<Rightarrow> string" where
  "oidcCryptoPassphraseSecretName k = ko_name k @ ''-oidc-crypto-passphrase''"
definition federationClientKeyName :: "string \<Rightarrow> string" where "federationClientKeyName backend = backend @ ''.client''"
definition samlIdPMetadataKeyName :: "string \<Rightarrow> string" where "samlIdPMetadataKeyName backend = backend @ ''.idp-metadata.xml''"
definition samlSPKeypairSecretName :: "Keystone \<Rightarrow> string" where "samlSPKeypairSecretName k = ko_name k @ ''-saml-sp''"
definition samlSPMetadataSecretName :: "Keystone \<Rightarrow> string" where "samlSPMetadataSecretName k = ko_name k @ ''-saml-sp-metadata''"
definition samlSPKeyFileName :: string where "samlSPKeyFileName = ''sp-key.pem''"
definition samlSPCertFileName :: string where "samlSPCertFileName = ''sp-cert.pem''"
definition samlSPMetadataFileName :: string where "samlSPMetadataFileName = ''sp-metadata.xml''"

text \<open>The image of the proxy, when it is configured.\<close>

definition proxy_image :: "Keystone \<Rightarrow> ImageSpec option" where
  "proxy_image k =
     (case ks_federation (ko_spec k) of
        None \<Rightarrow> None
      | Some f \<Rightarrow>
          (case fd_proxy_image f of
             None \<Rightarrow> None
           | Some i \<Rightarrow> if im_repository i = [] then None else Some i))"

definition status_endpoint :: "Keystone \<Rightarrow> string" where
  "status_endpoint k =
     (case ks_gateway (ko_spec k) of
        Some g \<Rightarrow>
          if bs_public_endpoint (ks_bootstrap (ko_spec k)) \<noteq> [] then bs_public_endpoint (ks_bootstrap (ko_spec k))
          else ''https://'' @ gw_hostname g @ ''/v3''
      | None \<Rightarrow> internalAPIURL (ko_meta k))"

definition federationRedirectURI :: "Keystone \<Rightarrow> string" where
  "federationRedirectURI k = trim_suffix (status_endpoint k) ''/v3'' @ federationRedirectURIPath"

section \<open>Strings\<close>

definition newline_chars :: string where
  "newline_chars = [CHR 0x0D, CHR 0x0A]"

text \<open>\<open>strings.ToUpper\<close> on ASCII input.\<close>

definition to_upper :: "string \<Rightarrow> string" where
  "to_upper s = map (\<lambda>c. let n = (of_char c :: nat) in if 97 \<le> n \<and> n \<le> 122 then char_of (n - 32) else c) s"

definition replace_char :: "char \<Rightarrow> char \<Rightarrow> string \<Rightarrow> string" where
  "replace_char a b s = map (\<lambda>c. if c = a then b else c) s"

text \<open>\<open>strings.ContainsAny(v, "\n\r\"")\<close>.\<close>

definition unsafe_value :: "string \<Rightarrow> bool" where
  "unsafe_value v \<longleftrightarrow> CHR 0x0A \<in> set v \<or> CHR 0x0D \<in> set v \<or> CHR 0x22 \<in> set v"

text \<open>What follows the first \<open>"://"\<close>, everything without one.\<close>

fun after_scheme :: "string \<Rightarrow> string option" where
  "after_scheme [] = None"
| "after_scheme (c # cs) = (if has_prefix (c # cs) ''://'' then Some (drop 2 cs) else after_scheme cs)"

definition basename_char :: "char \<Rightarrow> string" where
  "basename_char c =
     (if is_alnum c \<or> c \<in> set ''-._~'' then [c]
      else [CHR ''%'', upper_hex (of_char c div 16), upper_hex (of_char c mod 16)])"

definition issuerToMetadataBasename :: "string \<Rightarrow> string" where
  "issuerToMetadataBasename issuer =
     (let s = (case after_scheme issuer of None \<Rightarrow> issuer | Some r \<Rightarrow> r)
      in concat (map basename_char (trim_right ''/'' s)))"

section \<open>Headers a client could spoof\<close>

text \<open>The header of an environment variable \<open>HTTP_X\<close>, in both spellings.\<close>

definition header_spellings :: "string \<Rightarrow> string list" where
  "header_spellings env =
     (if has_prefix env ''HTTP_'' \<and> drop 5 env \<noteq> []
      then [drop 5 env, replace_char (CHR ''_'') (CHR ''-'') (drop 5 env)] else [])"

fun add_new :: "'a list \<Rightarrow> 'a list \<Rightarrow> 'a list" where
  "add_new [] acc = acc"
| "add_new (x # xs) acc = add_new xs (if x \<in> set acc then acc else acc @ [x])"

definition stripHeadersFromEnvNames :: "string list \<Rightarrow> string list" where
  "stripHeadersFromEnvNames envs = sort (add_new (concat (map header_spellings envs)) [])"

definition remote_types :: "KeystoneIdentityBackend \<Rightarrow> string list" where
  "remote_types b = concat (map (\<lambda>r. map mo_type (mr_remote r)) (ib_mappings (kb_spec b)))"

definition claimStripHeaders :: "KeystoneIdentityBackend \<Rightarrow> string list" where
  "claimStripHeaders b = stripHeadersFromEnvNames (EffectiveRemoteIDAttribute b # remote_types b)"

definition samlStripHeaders :: "KeystoneIdentityBackend \<Rightarrow> SAMLBackendSpec \<Rightarrow> string list" where
  "samlStripHeaders b s =
     stripHeadersFromEnvNames
       ([EffectiveRemoteIDAttribute b, ''HTTP_MELLON_IDP'', ''HTTP_MELLON_NAME_ID''] @ remote_types b @
        map (\<lambda>a. ''HTTP_MELLON_'' @ to_upper a) (sb_attributes s))"

section \<open>OpenID Connect\<close>

definition effectiveOIDCScopes :: "OIDCBackendSpec \<Rightarrow> string list" where
  "effectiveOIDCScopes c = (if oi_scopes c \<noteq> [] then oi_scopes c else DefaultOIDCScopes)"
definition effectiveOIDCResponseType :: "OIDCBackendSpec \<Rightarrow> string" where
  "effectiveOIDCResponseType c = (if oi_response_type c \<noteq> [] then oi_response_type c else DefaultOIDCResponseType)"
definition effectiveOIDCSessionType :: "OIDCBackendSpec \<Rightarrow> string" where
  "effectiveOIDCSessionType c = (if oi_session c \<noteq> [] then oi_session c else OIDCSessionTypeClientCookie)"
definition effectiveOIDCStateInputHeaders :: "OIDCBackendSpec \<Rightarrow> string" where
  "effectiveOIDCStateInputHeaders c = (if oi_state_headers c \<noteq> [] then oi_state_headers c else OIDCStateInputHeadersNone)"

text \<open>\<open>parse_url\<close> gives the scheme, the host and the port, or an error.\<close>

type_synonym parsed_url = "string \<Rightarrow> (string \<times> string \<times> string) result"

definition urlEgressPort :: "parsed_url \<Rightarrow> string \<Rightarrow> int" where
  "urlEgressPort parse raw =
     (case parse raw of
        Inl e \<Rightarrow> 443
      | Inr (scheme, host, port) \<Rightarrow>
          (case (if port = [] then Inl (NumError []) else atoi port) of
             Inr n \<Rightarrow> if 0 < n \<and> n \<le> 65535 then n else if scheme = ''http'' then 80 else 443
           | Inl e \<Rightarrow> if scheme = ''http'' then 80 else 443))"

definition oidc_urls :: "OIDCBackendSpec \<Rightarrow> string list" where
  "oidc_urls c =
     [oi_issuer c] @ (if oi_metadata_url c \<noteq> [] then [oi_metadata_url c] else []) @
     (case oi_endpoints c of
        None \<Rightarrow> []
      | Some e \<Rightarrow> [oe_token e, oe_jwks e] @ filter (\<lambda>u. u \<noteq> []) [oe_userinfo e, oe_end_session e, oe_introspection e])"

definition oidcBackendEgressPorts :: "parsed_url \<Rightarrow> OIDCBackendSpec \<Rightarrow> int list" where
  "oidcBackendEgressPorts parse c = add_new (map (urlEgressPort parse) (oidc_urls c)) []"

definition appendUniquePorts :: "int list \<Rightarrow> int list \<Rightarrow> int list" where
  "appendUniquePorts ports new = add_new new ports"

definition first_unsafe :: "string \<Rightarrow> string list \<Rightarrow> err option" where
  "first_unsafe kind values =
     (case find unsafe_value values of
        None \<Rightarrow> None
      | Some v \<Rightarrow> Some (Errorf (kind @ '' render input %q: %w'') [Str v, Wrap errControlCharInValue]))"

definition validateOIDCRenderInputs :: "KeystoneIdentityBackend \<Rightarrow> OIDCBackendSpec \<Rightarrow> err option" where
  "validateOIDCRenderInputs b c =
     first_unsafe ''oidc''
       ([oi_issuer c, oi_metadata_url c, oi_client_id c, EffectiveIdentityProviderName b, EffectiveProtocolID b,
         EffectiveRemoteIDAttribute b, effectiveOIDCResponseType c, effectiveOIDCSessionType c,
         effectiveOIDCStateInputHeaders c] @ effectiveOIDCScopes c @ remote_types b)"

definition validateSAMLRenderInputs :: "KeystoneIdentityBackend \<Rightarrow> SAMLBackendSpec \<Rightarrow> err option" where
  "validateSAMLRenderInputs b s =
     first_unsafe ''saml''
       ([sb_entity s, EffectiveIdentityProviderName b, EffectiveProtocolID b, EffectiveRemoteIDAttribute b] @
        sb_attributes s @ remote_types b)"

section \<open>The environment\<close>

text \<open>The answer to a GET: a request that cannot be built or sent, or a status and what reading at most so many bytes yields.\<close>

datatype http_answer = NoRequest err | NoAnswer err | HttpAnswer int "nat \<Rightarrow> string result"

record metadata_entry =
  me_uid :: string
  me_generation :: int
  me_document :: string

type_synonym metadata_cache = "(objkey \<times> metadata_entry) list"

record ('u, 'w) federation_env =
  fx_backends :: "objkey \<Rightarrow> 'w \<Rightarrow> KeystoneIdentityBackend list result"
  fx_eso :: "'w eso_env"
  fx_keys :: "('u, 'w) keys_env"
  fx_meta :: meta_api
  fx_secrets :: "(secret, 'w) kclient"
  fx_own :: "objmeta \<Rightarrow> secret \<Rightarrow> secret result"
  fx_immutable :: "(immutable, 'w) kclient"
  fx_own_immutable :: "objmeta \<Rightarrow> immutable \<Rightarrow> immutable result"
  fx_sha :: "string \<Rightarrow> string"
  fx_parse_url :: parsed_url
  fx_http :: "string \<Rightarrow> 'w \<Rightarrow> http_answer \<times> 'w"
  fx_json :: "string list \<Rightarrow> string \<Rightarrow> (string \<Rightarrow> string) result"
  fx_marshal :: "string gomap \<Rightarrow> string result"
  fx_marshal_indent :: "string gomap \<Rightarrow> string result"
  fx_xml :: "string \<Rightarrow> (string \<times> string) result"
  fx_pem_decode :: "string \<Rightarrow> (string \<times> string) option"
  fx_pem_encode :: "string \<Rightarrow> string \<Rightarrow> string"
  fx_rsa :: "'w \<Rightarrow> string result \<times> 'w"
  fx_serial :: "'w \<Rightarrow> string result \<times> 'w"
  fx_certificate :: "string \<Rightarrow> string \<Rightarrow> string \<Rightarrow> 'w \<Rightarrow> string result \<times> 'w"
  fx_quote :: "string \<Rightarrow> string"
  fx_log :: "event \<Rightarrow> 'w \<Rightarrow> 'w"
  fx_cache :: "'w \<Rightarrow> metadata_cache"
  fx_put_cache :: "metadata_cache \<Rightarrow> 'w \<Rightarrow> 'w"

section \<open>Where metadata may be fetched from\<close>

text \<open>An address is its 4 or 16 bytes.\<close>

type_synonym ip = "nat list"

definition to4 :: "ip \<Rightarrow> ip option" where
  "to4 a =
     (if length a = 4 then Some a
      else if length a = 16 \<and> take 10 a = replicate 10 0 \<and> take 2 (drop 10 a) = [255, 255] then Some (drop 12 a) else None)"

definition is_loopback :: "ip \<Rightarrow> bool" where
  "is_loopback a = (case to4 a of Some b \<Rightarrow> b ! 0 = 127 | None \<Rightarrow> a = replicate 15 0 @ [1])"

definition is_link_local_unicast :: "ip \<Rightarrow> bool" where
  "is_link_local_unicast a =
     (case to4 a of Some b \<Rightarrow> b ! 0 = 169 \<and> b ! 1 = 254 | None \<Rightarrow> length a = 16 \<and> a ! 0 = 254 \<and> a ! 1 div 64 = 2)"

definition is_link_local_multicast :: "ip \<Rightarrow> bool" where
  "is_link_local_multicast a =
     (case to4 a of Some b \<Rightarrow> b ! 0 = 224 \<and> b ! 1 = 0 \<and> b ! 2 = 0 | None \<Rightarrow> length a = 16 \<and> a ! 0 = 255 \<and> a ! 1 mod 16 = 2)"

definition is_multicast :: "ip \<Rightarrow> bool" where
  "is_multicast a = (case to4 a of Some b \<Rightarrow> b ! 0 div 16 = 14 | None \<Rightarrow> length a = 16 \<and> a ! 0 = 255)"

definition is_unspecified :: "ip \<Rightarrow> bool" where
  "is_unspecified a \<longleftrightarrow> to4 a = Some [0, 0, 0, 0] \<or> a = replicate 16 0"

definition is_private :: "ip \<Rightarrow> bool" where
  "is_private a =
     (case to4 a of
        Some b \<Rightarrow> b ! 0 = 10 \<or> (b ! 0 = 172 \<and> b ! 1 div 16 = 1) \<or> (b ! 0 = 192 \<and> b ! 1 = 168)
      | None \<Rightarrow> length a = 16 \<and> a ! 0 div 2 = 126)"

definition in_cgnat :: "ip \<Rightarrow> bool" where
  "in_cgnat a = (case to4 a of Some b \<Rightarrow> b ! 0 = 100 \<and> b ! 1 div 64 = 1 | None \<Rightarrow> False)"

definition in_nat64 :: "ip \<Rightarrow> bool" where
  "in_nat64 a \<longleftrightarrow> to4 a = None \<and> length a = 16 \<and> take 12 a = [0, 100, 255, 155] @ replicate 8 0"

definition isBlockedMetadataIP :: "ip \<Rightarrow> bool" where
  "isBlockedMetadataIP a =
     (let i = (case to4 a of Some b \<Rightarrow> b | None \<Rightarrow> a)
      in is_loopback i \<or> is_link_local_unicast i \<or> is_link_local_multicast i \<or> is_multicast i \<or> is_unspecified i \<or>
         is_private i \<or> in_cgnat i \<or> in_nat64 i)"

text \<open>\<open>split\<close> is \<open>net.SplitHostPort\<close>, of which the host is used, \<open>parse_ip\<close> is \<open>net.ParseIP\<close>.\<close>

definition blockMetadataDial :: "(string \<Rightarrow> string result) \<Rightarrow> (string \<Rightarrow> ip option) \<Rightarrow> string \<Rightarrow> err option" where
  "blockMetadataDial split parse_ip address =
     (case split address of
        Inl e \<Rightarrow> Some (unavailable ''parsing dial address %q: %w'' [Str address, Wrap e])
      | Inr host \<Rightarrow>
          (case parse_ip host of
             None \<Rightarrow> Some (unavailable ''refusing to dial non-public address %s'' [Str address])
           | Some a \<Rightarrow>
               if isBlockedMetadataIP a then Some (unavailable ''refusing to dial non-public address %s'' [Str address]) else None))"

section \<open>Provider metadata\<close>

definition backend_key :: "KeystoneIdentityBackend \<Rightarrow> objkey" where
  "backend_key b = key_of (kb_meta b)"

definition cached_metadata :: "metadata_cache \<Rightarrow> KeystoneIdentityBackend \<Rightarrow> string option" where
  "cached_metadata cache b =
     (case map_of cache (backend_key b) of
        None \<Rightarrow> None
      | Some x \<Rightarrow> if me_uid x = m_uid (kb_meta b) \<and> me_generation x = m_generation (kb_meta b) then Some (me_document x) else None)"

definition cacheProviderMetadata :: "('u, 'w) federation_env \<Rightarrow> KeystoneIdentityBackend \<Rightarrow> string \<Rightarrow> 'w \<Rightarrow> 'w" where
  "cacheProviderMetadata E b document w =
     fx_put_cache E (map_put (backend_key b)
       \<lparr>me_uid = m_uid (kb_meta b), me_generation = m_generation (kb_meta b), me_document = document\<rparr> (fx_cache E w)) w"

text \<open>The download both kinds of metadata share: status, budget, read errors.\<close>

definition download :: "('u, 'w) federation_env \<Rightarrow> string \<Rightarrow> 'w \<Rightarrow> string result \<times> 'w" where
  "download E url w =
     (let (answer, w') = fx_http E url w in
      (case answer of
         NoRequest e \<Rightarrow> Inl (unavailable ''building request for %s: %w'' [Str url, Wrap e])
       | NoAnswer e \<Rightarrow> Inl (unavailable ''fetching %s: %w'' [Str url, Wrap e])
       | HttpAnswer status read \<Rightarrow>
           if status < 200 \<or> status \<ge> 300 then Inl (unavailable ''fetching %s: HTTP %d'' [Str url, Num status])
           else (case read (maxProviderMetadataBytes + 1) of
                   Inl e \<Rightarrow> Inl (unavailable ''reading %s: %w'' [Str url, Wrap e])
                 | Inr document \<Rightarrow>
                     if length document > maxProviderMetadataBytes
                     then Inl (unavailable ''%s exceeds the %d-byte budget'' [Str url, Num (int maxProviderMetadataBytes)])
                     else Inr document), w'))"

definition json_field :: "('u, 'w) federation_env \<Rightarrow> string \<Rightarrow> string \<Rightarrow> string" where
  "json_field E document f = (case fx_json E [f] document of Inl e \<Rightarrow> [] | Inr doc \<Rightarrow> doc f)"

definition providerMetadataIssuer :: "('u, 'w) federation_env \<Rightarrow> string \<Rightarrow> string" where
  "providerMetadataIssuer E document = json_field E document ''issuer''"

definition metadata_url :: "OIDCBackendSpec \<Rightarrow> string" where
  "metadata_url c =
     (if oi_metadata_url c = [] then trim_right ''/'' (oi_issuer c) @ ''/.well-known/openid-configuration''
      else oi_metadata_url c)"

definition check_issuer :: "('u, 'w) federation_env \<Rightarrow> OIDCBackendSpec \<Rightarrow> string \<Rightarrow> err option" where
  "check_issuer E c document =
     (case fx_json E [''issuer''] document of
        Inl e \<Rightarrow> Some (unavailable ''decoding %s: %w'' [Str (metadata_url c), Wrap e])
      | Inr doc \<Rightarrow>
          if doc ''issuer'' \<noteq> oi_issuer c then Some (unavailable ''document issuer does not match spec issuer %q'' [Str (oi_issuer c)])
          else None)"

definition fetchProviderMetadata ::
  "('u, 'w) federation_env \<Rightarrow> KeystoneIdentityBackend \<Rightarrow> OIDCBackendSpec \<Rightarrow> 'w \<Rightarrow> string result \<times> 'w" where
  "fetchProviderMetadata E b c w =
     (case cached_metadata (fx_cache E w) b of
        Some document \<Rightarrow> (Inr document, w)
      | None \<Rightarrow>
          (case download E (metadata_url c) w of
             (Inl e, w') \<Rightarrow> (Inl e, w')
           | (Inr document, w') \<Rightarrow>
               (case check_issuer E c document of
                  Some e \<Rightarrow> (Inl e, w')
                | None \<Rightarrow> (Inr document, cacheProviderMetadata E b document w'))))"

text \<open>The newest federation Secret of the Keystone, by creation and then by name.\<close>

definition newer_secret :: "secret \<Rightarrow> secret \<Rightarrow> bool" where
  "newer_secret s newest \<longleftrightarrow>
     m_created (s_meta s) > m_created (s_meta newest) \<or>
     (m_created (s_meta s) = m_created (s_meta newest) \<and> m_name (s_meta s) > m_name (s_meta newest))"

fun pick_newest :: "string \<Rightarrow> string \<Rightarrow> secret option \<Rightarrow> secret list \<Rightarrow> secret option" where
  "pick_newest base uid newest [] = newest"
| "pick_newest base uid newest (s # ss) =
     (if \<not> has_prefix (m_name (s_meta s)) base \<or> \<not> controlled_by uid (s_meta s) then pick_newest base uid newest ss
      else case newest of
        None \<Rightarrow> pick_newest base uid (Some s) ss
      | Some n \<Rightarrow> pick_newest base uid (if newer_secret s n then Some s else Some n) ss)"

definition newestFederationSecret :: "('u, 'w) federation_env \<Rightarrow> Keystone \<Rightarrow> 'w \<Rightarrow> secret option" where
  "newestFederationSecret E k w =
     (case k_list (fx_secrets E) (ko_namespace k) [(ConfigBaseLabelKey, federationSecretBaseName k)] w of
        Inl e \<Rightarrow> None
      | Inr ss \<Rightarrow> pick_newest (federationSecretBaseName k @ ''-'') (m_uid (ko_meta k)) None ss)"

definition last_known_good :: "('u, 'w) federation_env \<Rightarrow> Keystone \<Rightarrow> string \<Rightarrow> 'w \<Rightarrow> string option" where
  "last_known_good E k data_key w =
     (case newestFederationSecret E k w of
        None \<Rightarrow> None
      | Some s \<Rightarrow>
          (case map_of (s_data s) data_key of
             None \<Rightarrow> None
           | Some doc \<Rightarrow> if doc = [] then None else Some doc))"

definition lastKnownGoodProviderMetadata :: "('u, 'w) federation_env \<Rightarrow> Keystone \<Rightarrow> KeystoneIdentityBackend \<Rightarrow> 'w \<Rightarrow> string option" where
  "lastKnownGoodProviderMetadata E k b w = last_known_good E k (kb_name b @ ''.provider'') w"

definition lastKnownGoodSAMLMetadata :: "('u, 'w) federation_env \<Rightarrow> Keystone \<Rightarrow> KeystoneIdentityBackend \<Rightarrow> 'w \<Rightarrow> string option" where
  "lastKnownGoodSAMLMetadata E k b w = last_known_good E k (samlIdPMetadataKeyName (kb_name b)) w"

definition stale_event :: "('u, 'w) federation_env \<Rightarrow> string \<Rightarrow> KeystoneIdentityBackend \<Rightarrow> err \<Rightarrow> 'w \<Rightarrow> 'w" where
  "stale_event E text b e w =
     fx_log E \<lparr>ev_type = EvWarning, ev_reason = ''FederationMetadataStale'', ev_message = Msg text [Str (kb_name b), Val e]\<rparr> w"

definition introspectionEndpointFromMetadata :: "('u, 'w) federation_env \<Rightarrow> string \<Rightarrow> string" where
  "introspectionEndpointFromMetadata E document = json_field E document ''introspection_endpoint''"

definition discovery_endpoints :: "string list" where
  "discovery_endpoints =
     [''authorization_endpoint'', ''token_endpoint'', ''jwks_uri'', ''userinfo_endpoint'', ''end_session_endpoint'',
      ''introspection_endpoint'']"

definition providerMetadataEgressPorts :: "('u, 'w) federation_env \<Rightarrow> string \<Rightarrow> int list" where
  "providerMetadataEgressPorts E document =
     (case fx_json E discovery_endpoints document of
        Inl e \<Rightarrow> []
      | Inr doc \<Rightarrow> map (urlEgressPort (fx_parse_url E)) (filter (\<lambda>u. u \<noteq> []) (map doc discovery_endpoints)))"

definition renderExplicitProviderMetadata :: "('u, 'w) federation_env \<Rightarrow> OIDCBackendSpec \<Rightarrow> OIDCEndpointsSpec \<Rightarrow> string result" where
  "renderExplicitProviderMetadata E c e =
     (let optional = (\<lambda>key v. if v \<noteq> [] then [(key, v)] else []) in
      case fx_marshal_indent E
        ([(''issuer'', oi_issuer c), (''authorization_endpoint'', oe_authorization e), (''token_endpoint'', oe_token e),
          (''jwks_uri'', oe_jwks e)] @
         optional ''userinfo_endpoint'' (oe_userinfo e) @ optional ''end_session_endpoint'' (oe_end_session e) @
         optional ''introspection_endpoint'' (oe_introspection e)) of
        Inl x \<Rightarrow> Inl (Errorf ''marshaling provider metadata: %w'' [Wrap x])
      | Inr document \<Rightarrow> Inr document)"

section \<open>Rendering an OpenID Connect backend\<close>

record oidcRender =
  or_backend :: string
  or_idp :: string
  or_protocol :: string
  or_issuer :: string
  or_basename :: string
  or_provider :: string
  or_client :: string
  or_conf :: string
  or_introspection :: bool
  or_introspection_endpoint :: string
  or_introspection_tls :: bool
  or_client_id :: string
  or_client_secret :: string
  or_session :: string
  or_state_headers :: string
  or_strip :: "string list"
  or_ports :: "int list"

text \<open>The provider document: explicit endpoints, a download, or the last document known to be good.\<close>

definition provider_document ::
  "('u, 'w) federation_env \<Rightarrow> Keystone \<Rightarrow> KeystoneIdentityBackend \<Rightarrow> OIDCBackendSpec \<Rightarrow> 'w \<Rightarrow> string result \<times> 'w" where
  "provider_document E k b c w =
     (case oi_endpoints c of
        Some e \<Rightarrow> (renderExplicitProviderMetadata E c e, w)
      | None \<Rightarrow>
          (case fetchProviderMetadata E b c w of
             (Inr document, w') \<Rightarrow> (Inr document, w')
           | (Inl e, w') \<Rightarrow>
               if \<not> metadata_unavailable e then (Inl e, w')
               else (case lastKnownGoodProviderMetadata E k b w' of
                       None \<Rightarrow> (Inl e, w')
                     | Some good \<Rightarrow>
                         if providerMetadataIssuer E good \<noteq> oi_issuer c then (Inl e, w')
                         else (Inr good, stale_event E ''Identity backend %s: provider metadata unavailable (%v); reusing the last-known-good discovery document so federation stays up''
                                 b e (cacheProviderMetadata E b good w')))))"

definition introspection_endpoint ::
  "('u, 'w) federation_env \<Rightarrow> OIDCBackendSpec \<Rightarrow> string \<Rightarrow> string result" where
  "introspection_endpoint E c provider =
     (if \<not> (case oi_introspection c of None \<Rightarrow> False | Some i \<Rightarrow> oi_enabled i) then Inr []
      else let ep = (case oi_endpoints c of Some e \<Rightarrow> oe_introspection e | None \<Rightarrow> introspectionEndpointFromMetadata E provider) in
        if ep = [] then Inl (unavailable ''oauth2Introspection is enabled but the provider metadata carries no introspection_endpoint'' [])
        else if \<not> has_prefix ep ''https://''
        then Inl (unavailable ''introspection endpoint %q is not https (mod_auth_openidc rejects http introspection endpoints)'' [Str ep])
        else Inr ep)"

definition oidc_render ::
  "('u, 'w) federation_env \<Rightarrow> KeystoneIdentityBackend \<Rightarrow> OIDCBackendSpec \<Rightarrow> string \<Rightarrow> string \<Rightarrow> string \<Rightarrow> oidcRender result" where
  "oidc_render E b c client_secret provider endpoint =
     (case fx_marshal E [(''client_id'', oi_client_id c), (''client_secret'', client_secret)] of
        Inl e \<Rightarrow> Inl (Errorf ''marshaling client document: %w'' [Wrap e])
      | Inr client \<Rightarrow>
          (case fx_marshal E [(''scope'', str_join '' '' (effectiveOIDCScopes c)), (''response_type'', effectiveOIDCResponseType c)] of
             Inl e \<Rightarrow> Inl (Errorf ''marshaling provider conf document: %w'' [Wrap e])
           | Inr conf \<Rightarrow>
               (let ports = oidcBackendEgressPorts (fx_parse_url E) c;
                    introspection = (case oi_introspection c of None \<Rightarrow> False | Some i \<Rightarrow> oi_enabled i)
                in Inr
                 \<lparr>or_backend = kb_name b, or_idp = EffectiveIdentityProviderName b, or_protocol = EffectiveProtocolID b,
                  or_issuer = oi_issuer c, or_basename = issuerToMetadataBasename (oi_issuer c), or_provider = provider,
                  or_client = client, or_conf = conf, or_introspection = introspection, or_introspection_endpoint = endpoint,
                  or_introspection_tls =
                    (\<not> introspection \<or> (case oi_introspection c of None \<Rightarrow> True | Some i \<Rightarrow>
                       (case oi_tls_verify i of None \<Rightarrow> True | Some v \<Rightarrow> v))),
                  or_client_id = oi_client_id c, or_client_secret = client_secret, or_session = effectiveOIDCSessionType c,
                  or_state_headers = effectiveOIDCStateInputHeaders c, or_strip = claimStripHeaders b,
                  or_ports = (if oi_endpoints c = None then appendUniquePorts ports (providerMetadataEgressPorts E provider) else ports)\<rparr>)))"

definition renderOIDCBackend ::
  "('u, 'w) federation_env \<Rightarrow> Keystone \<Rightarrow> KeystoneIdentityBackend \<Rightarrow> 'w \<Rightarrow> oidcRender result \<times> 'w" where
  "renderOIDCBackend E k b w =
     (case ib_oidc (kb_spec b) of
        None \<Rightarrow> (Inl (Errorf ''backend %s has type %s but no oidc block'' [Str (kb_name b), Str (kb_type b)]), w)
      | Some c \<Rightarrow>
          (case validateOIDCRenderInputs b c of
             Some e \<Rightarrow> (Inl e, w)
           | None \<Rightarrow>
               (case GetSecretValue (fx_eso E) (ko_namespace k, sr_name (oi_client_secret c)) ''clientSecret'' w of
                  Inl e \<Rightarrow> (Inl e, w)
                | Inr secret_value \<Rightarrow>
                    (case provider_document E k b c w of
                       (Inl e, w') \<Rightarrow> (Inl e, w')
                     | (Inr provider, w') \<Rightarrow>
                         (case introspection_endpoint E c provider of
                            Inl e \<Rightarrow> (Inl e, w')
                          | Inr endpoint \<Rightarrow>
                              (oidc_render E b c (trim_right newline_chars secret_value) provider endpoint, w'))))))"

section \<open>Rendering a SAML backend\<close>

record samlRender =
  sl_backend :: string
  sl_idp :: string
  sl_protocol :: string
  sl_entity :: string
  sl_remote_attribute :: string
  sl_idp_metadata :: string
  sl_key :: string
  sl_cert :: string
  sl_sp_metadata :: string
  sl_sp_entity :: string
  sl_endpoint :: string
  sl_strip :: "string list"
  sl_envs :: "string list"

definition samlSPEndpointPath :: "KeystoneIdentityBackend \<Rightarrow> string" where
  "samlSPEndpointPath b =
     ''/v3/OS-FEDERATION/identity_providers/'' @ EffectiveIdentityProviderName b @ ''/protocols/'' @ EffectiveProtocolID b @ ''/auth/mellon''"

definition samlSPEndpointBaseURL :: "Keystone \<Rightarrow> KeystoneIdentityBackend \<Rightarrow> string" where
  "samlSPEndpointBaseURL k b = trim_suffix (status_endpoint k) ''/v3'' @ samlSPEndpointPath b"

definition generateSelfSignedSPKeypair ::
  "('u, 'w) federation_env \<Rightarrow> string \<Rightarrow> 'w \<Rightarrow> (string \<times> string \<times> string) result \<times> 'w" where
  "generateSelfSignedSPKeypair E cn w =
     (case fx_rsa E w of
        (Inl e, w1) \<Rightarrow> (Inl (Errorf ''generating SP RSA key: %w'' [Wrap e]), w1)
      | (Inr priv, w1) \<Rightarrow>
          (case fx_serial E w1 of
             (Inl e, w2) \<Rightarrow> (Inl (Errorf ''generating SP certificate serial: %w'' [Wrap e]), w2)
           | (Inr serial, w2) \<Rightarrow>
               (case fx_certificate E cn serial priv w2 of
                  (Inl e, w3) \<Rightarrow> (Inl (Errorf ''creating SP certificate: %w'' [Wrap e]), w3)
                | (Inr der, w3) \<Rightarrow> (Inr (fx_pem_encode E ''CERTIFICATE'' der, fx_pem_encode E ''RSA PRIVATE KEY'' priv, der), w3))))"

definition certDERFromPEM :: "('u, 'w) federation_env \<Rightarrow> string \<Rightarrow> string result" where
  "certDERFromPEM E pem =
     (case fx_pem_decode E pem of
        Some (ty, bytes) \<Rightarrow> if ty = ''CERTIFICATE'' then Inr bytes else Inl (Errorf ''no CERTIFICATE PEM block found'' [])
      | None \<Rightarrow> Inl (Errorf ''no CERTIFICATE PEM block found'' []))"

definition with_der :: "('u, 'w) federation_env \<Rightarrow> objkey \<Rightarrow> string \<Rightarrow> string \<Rightarrow> (string \<times> string \<times> string) result" where
  "with_der E key crt pk =
     (case certDERFromPEM E crt of
        Inl e \<Rightarrow> Inl (Errorf ''parsing SP certificate from Secret %s/%s: %w'' [Str (fst key), Str (snd key), Wrap e])
      | Inr der \<Rightarrow> Inr (crt, pk, der))"

definition referenced_keypair ::
  "('u, 'w) federation_env \<Rightarrow> objkey \<Rightarrow> 'w \<Rightarrow> (string \<times> string \<times> string) result" where
  "referenced_keypair E key w =
     (case GetSecretValue (fx_eso E) key ''tls.crt'' w of
        Inl e \<Rightarrow> Inl e
      | Inr crt \<Rightarrow>
          (case GetSecretValue (fx_eso E) key ''tls.key'' w of
             Inl e \<Rightarrow> Inl e
           | Inr pk \<Rightarrow> with_der E key crt pk))"

definition blank_value :: "string gomap \<Rightarrow> string \<Rightarrow> string" where
  "blank_value data_map key = (case map_of data_map key of None \<Rightarrow> [] | Some v \<Rightarrow> v)"

definition owned_secret :: "Keystone \<Rightarrow> string \<Rightarrow> string gomap \<Rightarrow> secret" where
  "owned_secret k name data_map =
     \<lparr>s_meta = blank_meta\<lparr>m_name := name, m_namespace := ko_namespace k, m_labels := commonLabels k\<rparr>, s_version = [], s_data = data_map\<rparr>"

text \<open>Create a Secret the Keystone owns; \<open>what\<close> names it in the errors.\<close>

definition create_owned :: "('u, 'w) federation_env \<Rightarrow> Keystone \<Rightarrow> string \<Rightarrow> secret \<Rightarrow> 'w \<Rightarrow> err option \<times> 'w" where
  "create_owned E k what s w =
     (case fx_own E (ko_meta k) s of
        Inl e \<Rightarrow> (Some (Errorf (''setting owner reference on '' @ what @ '' Secret: %w'') [Wrap e]), w)
      | Inr s' \<Rightarrow>
          (case k_create (fx_secrets E) s' w of
             (Inl e, w') \<Rightarrow>
               (Some (Errorf (''creating '' @ what @ '' Secret %s/%s: %w'') [Str (ko_namespace k), Str (m_name (s_meta s)), Wrap e]), w')
           | (Inr _, w') \<Rightarrow> (None, w')))"

definition own_keypair ::
  "('u, 'w) federation_env \<Rightarrow> Keystone \<Rightarrow> 'w \<Rightarrow> (string \<times> string \<times> string) result \<times> 'w" where
  "own_keypair E k w =
     (let name = samlSPKeypairSecretName k; key = (ko_namespace k, name) in
      case k_get (fx_secrets E) key w of
        Inr s \<Rightarrow>
          (let crt = blank_value (s_data s) ''tls.crt''; pk = blank_value (s_data s) ''tls.key'' in
           if crt = [] \<or> pk = []
           then (Inl (Errorf ''SP keypair Secret %s/%s carries no tls.crt/tls.key'' [Str (fst key), Str (snd key)]), w)
           else (with_der E key crt pk, w))
      | Inl e \<Rightarrow>
          if \<not> is_not_found e
          then (Inl (Errorf ''fetching SP keypair Secret %s/%s: %w'' [Str (fst key), Str (snd key), Wrap e]), w)
          else (case generateSelfSignedSPKeypair E (ko_name k @ ''-saml-sp'') w of
                  (Inl x, w') \<Rightarrow> (Inl x, w')
                | (Inr (crt, pk, der), w') \<Rightarrow>
                    (case create_owned E k ''SP keypair'' (owned_secret k name [(''tls.crt'', crt), (''tls.key'', pk)]) w' of
                       (Some x, w'') \<Rightarrow> (Inl x, w'')
                     | (None, w'') \<Rightarrow> (Inr (crt, pk, der), w''))))"

definition ensureSAMLSPKeypair ::
  "('u, 'w) federation_env \<Rightarrow> Keystone \<Rightarrow> SAMLBackendSpec \<Rightarrow> 'w \<Rightarrow> (string \<times> string \<times> string) result \<times> 'w" where
  "ensureSAMLSPKeypair E k s w =
     (case Option.bind (sb_sp s) sp_certificate of
        Some ref \<Rightarrow> (referenced_keypair E (ko_namespace k, sr_name ref) w, w)
      | None \<Rightarrow> own_keypair E k w)"

definition q_attr :: "string \<Rightarrow> string \<Rightarrow> string" where
  "q_attr name v = name @ ''='' @ [CHR 0x22] @ v @ [CHR 0x22]"

definition key_descriptor :: "string \<Rightarrow> string \<Rightarrow> string list" where
  "key_descriptor cert purpose =
     [''    <KeyDescriptor '' @ q_attr ''use'' purpose @ ''>'',
      ''      <ds:KeyInfo '' @ q_attr ''xmlns:ds'' ''http://www.w3.org/2000/09/xmldsig#'' @ ''>'',
      ''        <ds:X509Data>'',
      ''          <ds:X509Certificate>'' @ cert @ ''</ds:X509Certificate>'',
      ''        </ds:X509Data>'',
      ''      </ds:KeyInfo>'',
      ''    </KeyDescriptor>'']"

definition unlines :: "string list \<Rightarrow> string" where
  "unlines ls = concat (map (\<lambda>l. l @ [CHR 0x0A]) ls)"

definition renderSAMLSPMetadata :: "string \<Rightarrow> string \<Rightarrow> string \<Rightarrow> string" where
  "renderSAMLSPMetadata entity base der =
     (let cert = b64_encode der in
      unlines
        ([''<?xml '' @ q_attr ''version'' ''1.0'' @ '' '' @ q_attr ''encoding'' ''UTF-8'' @ ''?>'',
          ''<EntityDescriptor '' @ q_attr ''xmlns'' ''urn:oasis:names:tc:SAML:2.0:metadata'' @ '' '' @ q_attr ''entityID'' entity @ ''>'',
          ''  <SPSSODescriptor '' @ q_attr ''AuthnRequestsSigned'' ''false'' @ '' '' @ q_attr ''WantAssertionsSigned'' ''true'' @ '' '' @
            q_attr ''protocolSupportEnumeration'' ''urn:oasis:names:tc:SAML:2.0:protocol'' @ ''>''] @
         key_descriptor cert ''signing'' @ key_descriptor cert ''encryption'' @
         [''    <SingleLogoutService '' @ q_attr ''Binding'' ''urn:oasis:names:tc:SAML:2.0:bindings:HTTP-Redirect'' @ '' '' @
            q_attr ''Location'' (base @ ''/logout'') @ ''/>'',
          ''    <AssertionConsumerService '' @ q_attr ''index'' ''0'' @ '' '' @ q_attr ''isDefault'' ''true'' @ '' '' @
            q_attr ''Binding'' ''urn:oasis:names:tc:SAML:2.0:bindings:HTTP-POST'' @ '' '' @ q_attr ''Location'' (base @ ''/postResponse'') @ ''/>'',
          ''  </SPSSODescriptor>'', ''</EntityDescriptor>'']))"

definition fetchSAMLIdPMetadata ::
  "('u, 'w) federation_env \<Rightarrow> KeystoneIdentityBackend \<Rightarrow> SAMLBackendSpec \<Rightarrow> 'w \<Rightarrow> string result \<times> 'w" where
  "fetchSAMLIdPMetadata E b s w =
     (let url = sm_url (sb_metadata s) in
      case cached_metadata (fx_cache E w) b of
        Some document \<Rightarrow> (Inr document, w)
      | None \<Rightarrow>
          (case download E url w of
             (Inl e, w') \<Rightarrow> (Inl e, w')
           | (Inr document, w') \<Rightarrow>
               (case SAMLEntityIDFromMetadata (fx_xml E) document of
                  Inl e \<Rightarrow> (Inl (unavailable ''parsing %s: %w'' [Str url, Wrap e]), w')
                | Inr entity \<Rightarrow>
                    if entity \<noteq> sb_entity s
                    then (Inl (unavailable ''document entityID does not match spec idpEntityID %q'' [Str (sb_entity s)]), w')
                    else (Inr document, cacheProviderMetadata E b document w'))))"

definition saml_document ::
  "('u, 'w) federation_env \<Rightarrow> Keystone \<Rightarrow> KeystoneIdentityBackend \<Rightarrow> SAMLBackendSpec \<Rightarrow> 'w \<Rightarrow> string result \<times> 'w" where
  "saml_document E k b s w =
     (let m = sb_metadata s in
      if sm_inline m \<noteq> [] then (Inr (sm_inline m), w)
      else case sm_secret m of
        Some ref \<Rightarrow> (GetSecretValue (fx_eso E) (ko_namespace k, sr_name ref) ''idp-metadata.xml'' w, w)
      | None \<Rightarrow>
          if sm_url m = [] then (Inl (Errorf ''backend %s SAML idpMetadata has no source'' [Str (kb_name b)]), w)
          else (case fetchSAMLIdPMetadata E b s w of
                  (Inr document, w') \<Rightarrow> (Inr document, w')
                | (Inl e, w') \<Rightarrow>
                    if \<not> metadata_unavailable e then (Inl e, w')
                    else (case lastKnownGoodSAMLMetadata E k b w' of
                            None \<Rightarrow> (Inl e, w')
                          | Some good \<Rightarrow>
                              (case SAMLEntityIDFromMetadata (fx_xml E) good of
                                 Inl x \<Rightarrow> (Inl e, w')
                               | Inr entity \<Rightarrow>
                                   if entity \<noteq> sb_entity s then (Inl e, w')
                                   else (Inr good, stale_event E ''Identity backend %s: IdP metadata unavailable (%v); reusing the last-known-good document so federation stays up''
                                           b e (cacheProviderMetadata E b good w'))))))"

definition resolveSAMLIdPMetadata ::
  "('u, 'w) federation_env \<Rightarrow> Keystone \<Rightarrow> KeystoneIdentityBackend \<Rightarrow> SAMLBackendSpec \<Rightarrow> 'w \<Rightarrow> string result \<times> 'w" where
  "resolveSAMLIdPMetadata E k b s w =
     (case saml_document E k b s w of
        (Inl e, w') \<Rightarrow> (Inl e, w')
      | (Inr document, w') \<Rightarrow>
          ((case SAMLEntityIDFromMetadata (fx_xml E) document of
              Inl e \<Rightarrow> Inl (unavailable ''parsing IdP metadata for backend %s: %w'' [Str (kb_name b), Wrap e])
            | Inr entity \<Rightarrow>
                if entity \<noteq> sb_entity s
                then Inl (unavailable ''IdP metadata entityID does not match spec.saml.idpEntityID %q'' [Str (sb_entity s)])
                else Inr document), w'))"

definition renderSAMLBackend ::
  "('u, 'w) federation_env \<Rightarrow> Keystone \<Rightarrow> KeystoneIdentityBackend \<Rightarrow> 'w \<Rightarrow> samlRender result \<times> 'w" where
  "renderSAMLBackend E k b w =
     (case ib_saml (kb_spec b) of
        None \<Rightarrow> (Inl (Errorf ''backend %s has type %s but no saml block'' [Str (kb_name b), Str (kb_type b)]), w)
      | Some s \<Rightarrow>
          (case validateSAMLRenderInputs b s of
             Some e \<Rightarrow> (Inl e, w)
           | None \<Rightarrow>
               (case ensureSAMLSPKeypair E k s w of
                  (Inl e, w1) \<Rightarrow> (Inl e, w1)
                | (Inr (crt, pk, der), w1) \<Rightarrow>
                    (let base = samlSPEndpointBaseURL k b; entity = base @ ''/metadata'' in
                     case resolveSAMLIdPMetadata E k b s w1 of
                       (Inl e, w2) \<Rightarrow> (Inl e, w2)
                     | (Inr document, w2) \<Rightarrow>
                         (Inr \<lparr>sl_backend = kb_name b, sl_idp = EffectiveIdentityProviderName b, sl_protocol = EffectiveProtocolID b,
                            sl_entity = sb_entity s, sl_remote_attribute = EffectiveRemoteIDAttribute b, sl_idp_metadata = document,
                            sl_key = pk, sl_cert = crt, sl_sp_metadata = renderSAMLSPMetadata entity base der, sl_sp_entity = entity,
                            sl_endpoint = samlSPEndpointPath b, sl_strip = samlStripHeaders b s,
                            sl_envs = [''MELLON_IDP'', ''MELLON_NAME_ID''] @ map (\<lambda>a. ''MELLON_'' @ to_upper a) (sb_attributes s)\<rparr>, w2)))))"

section \<open>The configuration of the proxy\<close>

text \<open>Each line as \<open>w\<close> prints it, without the newline.\<close>

definition dq :: "string \<Rightarrow> string" where
  "dq s = [CHR 0x22] @ s @ [CHR 0x22]"

definition idp_path :: "string \<Rightarrow> string \<Rightarrow> string" where
  "idp_path idp protocol = ''identity_providers/'' @ idp @ ''/protocols/'' @ protocol"

definition discover_url :: "string \<Rightarrow> string \<Rightarrow> string" where
  "discover_url redirect issuer = redirect @ ''?iss='' @ escape EncodeQueryComponent issuer"

definition oidc_header_lines :: "('u, 'w) federation_env \<Rightarrow> Keystone \<Rightarrow> oidcRender list \<Rightarrow> string \<Rightarrow> string list" where
  "oidc_header_lines E k os passphrase =
     (case os of
        [] \<Rightarrow> []
      | r # _ \<Rightarrow>
          [''OIDCCryptoPassphrase '' @ fx_quote E passphrase,
           ''OIDCMetadataDir '' @ federationMetadataMountPath,
           ''OIDCRedirectURI '' @ federationRedirectURIPath,
           ''OIDCClaimPrefix '' @ dq ''OIDC-'',
           ''OIDCSessionType '' @ or_session r,
           ''OIDCStateInputHeaders '' @ or_state_headers r] @
          (if ks_gateway (ko_spec k) \<noteq> None then [''OIDCXForwardedHeaders X-Forwarded-Host X-Forwarded-Proto''] else []) @
          [''''])"

definition introspection_lines :: "('u, 'w) federation_env \<Rightarrow> oidcRender \<Rightarrow> string list" where
  "introspection_lines E r =
     (if \<not> or_introspection r then []
      else ['''', ''# OAuth2 resource server: bearer-token introspection for '' @ or_idp r,
            ''OIDCOAuthIntrospectionEndpoint '' @ fx_quote E (or_introspection_endpoint r),
            ''OIDCOAuthClientID '' @ fx_quote E (or_client_id r),
            ''OIDCOAuthClientSecret '' @ fx_quote E (or_client_secret r)] @
           (if \<not> or_introspection_tls r then [''OIDCOAuthSSLValidateServer Off''] else []))"

definition oidc_location_lines :: "string \<Rightarrow> oidcRender \<Rightarrow> string list" where
  "oidc_location_lines redirect r =
     (let auth = (if or_introspection r then ''auth-openidc'' else ''openid-connect'') in
      ['''', ''<Location '' @ dq (''/v3/auth/OS-FEDERATION/'' @ idp_path (or_idp r) (or_protocol r) @ ''/websso'') @ ''>'',
       ''    AuthType openid-connect'', ''    Require valid-user'',
       ''    OIDCDiscoverURL '' @ discover_url redirect (or_issuer r), ''</Location>'',
       ''<Location '' @ dq (''/v3/OS-FEDERATION/'' @ idp_path (or_idp r) (or_protocol r) @ ''/auth'') @ ''>'',
       ''    AuthType '' @ auth, ''    Require valid-user''] @
      (if auth = ''openid-connect'' then [''    OIDCDiscoverURL '' @ discover_url redirect (or_issuer r)] else []) @
      [''</Location>''])"

definition oidc_websso_lines :: "string \<Rightarrow> oidcRender \<Rightarrow> string list" where
  "oidc_websso_lines redirect r =
     ['''', ''<Location '' @ dq (''/v3/auth/OS-FEDERATION/websso/'' @ or_protocol r) @ ''>'',
      ''    AuthType openid-connect'', ''    Require valid-user'',
      ''    OIDCDiscoverURL '' @ discover_url redirect (or_issuer r), ''</Location>'']"

definition writeMellonProtectedLocation :: "('u, 'w) federation_env \<Rightarrow> string \<Rightarrow> samlRender \<Rightarrow> string list" where
  "writeMellonProtectedLocation E location r =
     [''<Location '' @ fx_quote E location @ ''>'', ''    AuthType Mellon'', ''    MellonEnable auth'', ''    Require valid-user''] @
     map (\<lambda>env. ''    RequestHeader set '' @ fx_quote E (replace_char (CHR ''_'') (CHR ''-'') env) @ '' '' @
                 dq (''expr=%{reqenv:'' @ env @ ''}'')) (sl_envs r) @
     [''</Location>'']"

definition writeMellonConf :: "('u, 'w) federation_env \<Rightarrow> samlRender \<Rightarrow> string list" where
  "writeMellonConf E r =
     (let mount = federationMellonMountPath in
      ['''', ''# mod_auth_mellon SP for identity provider '' @ sl_idp r @ '' (protocol '' @ sl_protocol r @ '').'',
       ''<Location '' @ dq ''/v3'' @ ''>'', ''    MellonEnable '' @ dq ''info'', ''    MellonMergeEnvVars On'',
       ''    MellonSPPrivateKeyFile '' @ mount @ ''/'' @ samlSPKeyFileName,
       ''    MellonSPCertFile '' @ mount @ ''/'' @ samlSPCertFileName,
       ''    MellonSPMetadataFile '' @ mount @ ''/'' @ samlSPMetadataFileName,
       ''    MellonIdPMetadataFile '' @ mount @ ''/'' @ samlIdPMetadataKeyName (sl_backend r),
       ''    MellonEndpointPath '' @ sl_endpoint r,
       ''    MellonSubjectConfirmationDataAddressCheck Off'', ''</Location>''] @
      writeMellonProtectedLocation E (''/v3/auth/OS-FEDERATION/'' @ idp_path (sl_idp r) (sl_protocol r) @ ''/websso'') r @
      writeMellonProtectedLocation E (''/v3/OS-FEDERATION/'' @ idp_path (sl_idp r) (sl_protocol r) @ ''/auth'') r)"

definition proxy_strip_headers :: "oidcRender list \<Rightarrow> samlRender list \<Rightarrow> string list" where
  "proxy_strip_headers os ss = sort (add_new (concat (map or_strip os) @ concat (map sl_strip ss)) [])"

definition protocol_count :: "oidcRender list \<Rightarrow> samlRender list \<Rightarrow> string \<Rightarrow> nat" where
  "protocol_count os ss p = length (filter (\<lambda>x. x = p) (map or_protocol os @ map sl_protocol ss))"

definition proxy_lines :: "('u, 'w) federation_env \<Rightarrow> Keystone \<Rightarrow> oidcRender list \<Rightarrow> samlRender list \<Rightarrow> string \<Rightarrow> string list" where
  "proxy_lines E k os ss passphrase =
     (let redirect = federationRedirectURI k in
      [''# Rendered by the keystone operator '' @ [CHR 0xE2, CHR 0x80, CHR 0x94] @ '' do not edit; changes are overwritten.''] @
      oidc_header_lines E k os passphrase @
      [''# Strip spoofable claim/attribute headers before authentication: the'',
       ''# modules only scrub them on module-protected paths, and underscore'',
       ''# spellings normalize to the same WSGI keys (validated by the federation'',
       ''# spike). mellon attribute headers are stripped in both spellings too.''] @
      map (\<lambda>h. ''RequestHeader unset '' @ fx_quote E h @ '' early'') (proxy_strip_headers os ss) @
      ['''', ''ProxyPreserveHost On''] @
      map (\<lambda>r. ''ProxyPass '' @ fx_quote E (sl_endpoint r) @ '' !'') ss @
      [''ProxyPass '' @ dq ''/'' @ '' '' @ dq ''http://127.0.0.1:5000/'',
       ''ProxyPassReverse '' @ dq ''/'' @ '' '' @ dq ''http://127.0.0.1:5000/''] @
      concat (map (introspection_lines E) os) @ concat (map (oidc_location_lines redirect) os) @
      (if os = [] then []
       else ['''', ''<Location '' @ fx_quote E federationRedirectURIPath @ ''>'', ''    AuthType openid-connect'',
             ''    Require valid-user'', ''</Location>'']) @
      concat (map (writeMellonConf E) ss) @
      concat (map (\<lambda>r. if protocol_count os ss (or_protocol r) = 1 then oidc_websso_lines redirect r else []) os) @
      concat (map (\<lambda>r. if protocol_count os ss (sl_protocol r) = 1
                        then '''' # writeMellonProtectedLocation E (''/v3/auth/OS-FEDERATION/websso/'' @ sl_protocol r) r else []) ss))"

definition renderProxyConf :: "('u, 'w) federation_env \<Rightarrow> Keystone \<Rightarrow> oidcRender list \<Rightarrow> samlRender list \<Rightarrow> string \<Rightarrow> string" where
  "renderProxyConf E k os ss passphrase = unlines (proxy_lines E k os ss passphrase)"

section \<open>The projection\<close>

definition ensureOIDCCryptoPassphrase :: "('u, 'w) federation_env \<Rightarrow> Keystone \<Rightarrow> 'w \<Rightarrow> string result \<times> 'w" where
  "ensureOIDCCryptoPassphrase E k w =
     (let name = oidcCryptoPassphraseSecretName k; key = [Str (ko_namespace k), Str name] in
      case k_get (fx_secrets E) (ko_namespace k, name) w of
        Inr s \<Rightarrow>
          ((let v = blank_value (s_data s) ''passphrase'' in
            if v \<noteq> [] then Inr v
            else Inl (Errorf ''crypto passphrase Secret %s/%s exists but carries no passphrase key'' key)), w)
      | Inl e \<Rightarrow>
          if \<not> is_not_found e then (Inl (Errorf ''fetching crypto passphrase Secret %s/%s: %w'' (key @ [Wrap e])), w)
          else (case generateFernetKey (fx_keys E) w of
                  (Inl x, w') \<Rightarrow> (Inl (Errorf ''generating crypto passphrase: %w'' [Wrap x]), w')
                | (Inr passphrase, w') \<Rightarrow>
                    (case create_owned E k ''crypto passphrase'' (owned_secret k name [(''passphrase'', passphrase)]) w' of
                       (Some x, w'') \<Rightarrow> (Inl x, w'')
                     | (None, w'') \<Rightarrow> (Inr passphrase, w''))))"

definition ensureSAMLSPMetadataSecret :: "('u, 'w) federation_env \<Rightarrow> Keystone \<Rightarrow> samlRender \<Rightarrow> 'w \<Rightarrow> err option \<times> 'w" where
  "ensureSAMLSPMetadataSecret E k r w =
     (let name = samlSPMetadataSecretName k; key = [Str (ko_namespace k), Str name];
          desired = [(''sp-metadata.xml'', sl_sp_metadata r), (''entityID'', sl_sp_entity r)] in
      case k_get (fx_secrets E) (ko_namespace k, name) w of
        Inl e \<Rightarrow>
          if is_not_found e then create_owned E k ''SP metadata'' (owned_secret k name desired) w
          else (Some (Errorf ''fetching SP metadata Secret %s/%s: %w'' (key @ [Wrap e])), w)
      | Inr s \<Rightarrow>
          if maps_equal (s_data s) desired then (None, w)
          else (case k_update (fx_secrets E) (s\<lparr>s_data := desired\<rparr>) w of
                  (Inl e, w') \<Rightarrow> (Some (Errorf ''updating SP metadata Secret %s/%s: %w'' (key @ [Wrap e])), w')
                | (Inr _, w') \<Rightarrow> (None, w')))"

definition deleteSAMLSPMetadataSecret :: "('u, 'w) federation_env \<Rightarrow> Keystone \<Rightarrow> 'w \<Rightarrow> err option \<times> 'w" where
  "deleteSAMLSPMetadataSecret E k w =
     (let s = \<lparr>s_meta = blank_meta\<lparr>m_name := samlSPMetadataSecretName k, m_namespace := ko_namespace k\<rparr>, s_version = [], s_data = []\<rparr> in
      case k_delete (fx_secrets E) no_opts s w of
        (Some e, w') \<Rightarrow> (if is_not_found e then None else Some (Errorf ''deleting SP metadata Secret: %w'' [Wrap e]), w')
      | (None, w') \<Rightarrow> (None, w'))"

text \<open>The entries of the federation Secret, written in this order: a later key replaces an earlier one.\<close>

definition oidc_entries :: "oidcRender \<Rightarrow> string gomap" where
  "oidc_entries r =
     [(or_backend r @ ''.provider'', or_provider r), (federationClientKeyName (or_backend r), or_client r),
      (or_backend r @ ''.conf'', or_conf r)]"

definition saml_entries :: "samlRender \<Rightarrow> string gomap" where
  "saml_entries r =
     [(samlSPKeyFileName, sl_key r), (samlSPCertFileName, sl_cert r), (samlSPMetadataFileName, sl_sp_metadata r),
      (samlIdPMetadataKeyName (sl_backend r), sl_idp_metadata r)]"

definition federation_data :: "string \<Rightarrow> oidcRender list \<Rightarrow> samlRender list \<Rightarrow> string gomap" where
  "federation_data proxy_conf os ss =
     fold (\<lambda>(key, v) m. map_put key v m) (concat (map oidc_entries os) @ concat (map saml_entries ss)) [(''proxy.conf'', proxy_conf)]"

definition oidc_items :: "oidcRender \<Rightarrow> (string \<times> string) list" where
  "oidc_items r =
     [(or_backend r @ ''.provider'', or_basename r @ ''.provider''), (federationClientKeyName (or_backend r), or_basename r @ ''.client''),
      (or_backend r @ ''.conf'', or_basename r @ ''.conf'')]"

definition mellon_items :: "samlRender \<Rightarrow> (string \<times> string) list" where
  "mellon_items r =
     [(samlSPKeyFileName, samlSPKeyFileName), (samlSPCertFileName, samlSPCertFileName),
      (samlSPMetadataFileName, samlSPMetadataFileName),
      (samlIdPMetadataKeyName (sl_backend r), samlIdPMetadataKeyName (sl_backend r))]"

fun ensure_sp_metadata :: "('u, 'w) federation_env \<Rightarrow> Keystone \<Rightarrow> samlRender list \<Rightarrow> 'w \<Rightarrow> err option \<times> 'w" where
  "ensure_sp_metadata E k [] w = (None, w)"
| "ensure_sp_metadata E k (r # rs) w =
     (case ensureSAMLSPMetadataSecret E k r w of
        (Some e, w') \<Rightarrow> (Some e, w')
      | (None, w') \<Rightarrow> ensure_sp_metadata E k rs w')"

definition last_or_empty :: "('a \<Rightarrow> string) \<Rightarrow> 'a list \<Rightarrow> string" where
  "last_or_empty f xs = (if xs = [] then [] else f (last xs))"

definition projection_of ::
  "string \<Rightarrow> oidcRender list \<Rightarrow> samlRender list \<Rightarrow> string \<Rightarrow> ImageSpec \<Rightarrow> federationProjection" where
  "projection_of name os ss remote_id img =
     \<lparr>fp_secret = name, fp_metadata_items = concat (map oidc_items os), fp_remote_id = remote_id,
      fp_mellon_items = concat (map mellon_items ss), fp_saml_protocol = last_or_empty sl_protocol ss,
      fp_saml_remote_id = last_or_empty sl_remote_attribute ss, fp_proxy_image = img,
      fp_egress_ports = add_new (concat (map or_ports os)) []\<rparr>"

definition buildFederationProjection ::
  "('u, 'w) federation_env \<Rightarrow> Keystone \<Rightarrow> oidcRender list \<Rightarrow> samlRender list \<Rightarrow> string \<Rightarrow> ImageSpec \<Rightarrow> 'w \<Rightarrow> federationProjection result \<times> 'w" where
  "buildFederationProjection E k os ss remote_id img w =
     (case (if os = [] then (Inr [], w) else ensureOIDCCryptoPassphrase E k w) of
        (Inl e, w1) \<Rightarrow> (Inl e, w1)
      | (Inr passphrase, w1) \<Rightarrow>
          (case CreateImmutableSecret (fx_sha E) (fx_own_immutable E) (fx_immutable E) (ko_meta k) (federationSecretBaseName k)
                  (ko_namespace k) (federation_data (renderProxyConf E k os ss passphrase) os ss) w1 of
             (Inl e, w2) \<Rightarrow> (Inl (Errorf ''creating federation Secret: %w'' [Wrap e]), w2)
           | (Inr name, w2) \<Rightarrow>
               (case ensure_sp_metadata E k ss w2 of
                  (Some e, w3) \<Rightarrow> (Inl e, w3)
                | (None, w3) \<Rightarrow> (Inr (projection_of name os ss remote_id img), w3))))"

definition pruneStaleFederationSecrets :: "('u, 'w) federation_env \<Rightarrow> Keystone \<Rightarrow> string \<Rightarrow> 'w \<Rightarrow> err option \<times> 'w" where
  "pruneStaleFederationSecrets E k current w =
     PruneImmutableSecrets im_meta (fx_immutable E) (ko_meta k)
       \<lparr>po_base = federationSecretBaseName k, po_namespace = ko_namespace k, po_current = current,
        po_retain = (if current = [] then 0 else defaultConfigMapRetainCount)\<rparr> w"

end
