(* ===== verification/KeystonePodProperties.thy ===== *)
theory KeystonePodProperties
  imports KeystoneFederation KeystoneProperties
begin

text \<open>
  Properties of the Keystone API workload and of its database certificate.
\<close>

section \<open>Traffic\<close>

text \<open>
  What the containers of a pod listen on.  uWSGI listens on the address of its option \<open>--http\<close>; Apache on those of the
  \<open>Listen\<close> lines of the configuration file it is started with, of which
  \<open>images/keystone-federation-proxy/httpd-base.conf\<close> has one.  It includes every file of one directory.
\<close>

definition httpd_listen :: "string list" where "httpd_listen = [''5050'']"
definition httpd_include_dir :: string where "httpd_include_dir = ''/etc/keystone-federation-proxy/conf.d''"

fun option_value :: "string \<Rightarrow> string list \<Rightarrow> string option" where
  "option_value flag (x # y # rest) = (if x = flag then Some y else option_value flag (y # rest))"
| "option_value flag _ = None"

text \<open>Pairs of an address, empty for every interface, and a port.\<close>

definition listens_on :: "service_container \<Rightarrow> (string \<times> string) list" where
  "listens_on c =
     (if co_command c = [] then []
      else if hd (co_command c) = ''uwsgi''
      then (case option_value ''--http'' (co_command c) of
              None \<Rightarrow> []
            | Some a \<Rightarrow> (case cut_at CHR '':'' a of (host, port, _) \<Rightarrow> [(host, port)]))
      else if option_value ''-f'' (co_command c) = Some ''/etc/keystone-federation-proxy/httpd-base.conf''
      then map (\<lambda>port. ([], port)) httpd_listen
      else [])"

definition loopback :: "string \<times> string \<Rightarrow> bool" where
  "loopback a \<longleftrightarrow> has_prefix (fst a) ''127.''"

lemma uwsgi_listens: "listens_on (keystone_container k d b) = [if b then (''127.0.0.1'', ''5000'') else ([], ''5000'')]"
  by (simp add: listens_on_def keystone_container_def uwsgiCommand_def cut_at_def split: prod.split)

lemma proxy_listens: "listens_on (buildFederationProxyContainer f) = [([], ''5050'')]"
  by (simp add: listens_on_def buildFederationProxyContainer_def httpd_listen_def)

lemma proxy_pass_line:
  "''ProxyPass '' @ dq ''/'' @ '' '' @ dq ''http://127.0.0.1:5000/'' \<in> set (proxy_lines E k os ss p)"
  by (simp add: proxy_lines_def Let_def)

lemma proxy_conf_mounted:
  "\<exists>m\<in>set (co_mounts (buildFederationProxyContainer f)). vm_path m = httpd_include_dir \<and>
     (\<exists>v\<in>set (buildFederationVolumes f). vo_name v = vm_name m \<and>
        (\<exists>mode. vo_source v = SecretItemsSource (fp_secret f) mode [(''proxy.conf'', ''proxy.conf'')]))"
  by (simp add: buildFederationProxyContainer_def buildFederationProxyVolumeMounts_def buildFederationVolumes_def
      httpd_include_dir_def federationProxyConfMountPath_def)

lemma port_texts: "show_int 5000 = ''5000''" "show_int 5050 = ''5050''"
  by (simp_all add: show_int_def show_nat.simps [of 5000] show_nat.simps [of 500] show_nat.simps [of 50] show_nat.simps [of 5]
      show_nat.simps [of 5050] show_nat.simps [of 505] char_of_digit_def char_of_def bit_0)

lemma pod_parts:
  "po_containers (dp_template (buildKeystoneDeployment k config_map dsn_hash domains fed)) =
     keystone_container k domains (fed \<noteq> None) # (case fed of None \<Rightarrow> [] | Some f \<Rightarrow> [buildFederationProxyContainer f])"
  "map vp_target (sv_ports (buildKeystoneService k active)) = [if active then federationProxyPort else 5000]"
  "sv_ports (buildKeystoneService k active) =
     [\<lparr>vp_port = 5000, vp_target = (if active then federationProxyPort else 5000), vp_protocol = ''TCP''\<rparr>]"
  "map snd (concat (map nr_ports (np_ingress (buildKeystoneNetworkPolicy k np operator_ns fed)))) =
     [if fed = None then 5000 else federationProxyPort]"
  "set (sv_selector (buildKeystoneService k active)) \<subseteq>
     set (po_labels (dp_template (buildKeystoneDeployment k config_map dsn_hash domains fed)))"
  by (cases fed; simp add: buildKeystoneDeployment_def buildKeystoneService_def buildKeystoneNetworkPolicy_def selectorLabels_def
      commonLabels_def SelectorLabels_def CommonLabels_def Let_def)+

text \<open>
  C40. The Service, the NetworkPolicy and the pods agree on one port, and with federation that port is the proxy's: the
  ports on which the processes of the Deployment's containers listen beyond the loopback interface are the targets of the
  Service and the ingress ports of the NetworkPolicy, and the Service selects the pods.  With federation the address uWSGI
  listens on is on the loopback interface, so no request reaches it that did not pass the proxy, and it is the one to
  which the configuration rendered for the proxy, mounted where the proxy reads it, passes the requests on.  uWSGI is
  taken to listen on the address of \<open>--http\<close>, the proxy on the \<open>Listen\<close> port of the base configuration of its image.
\<close>

lemma traffic_passes_proxy:
  "let pod = dp_template (buildKeystoneDeployment k config_map dsn_hash domains fed); svc = buildKeystoneService k (fed \<noteq> None);
       policy = buildKeystoneNetworkPolicy k np operator_ns fed; addresses = concat (map listens_on (po_containers pod))
   in map snd (filter (\<lambda>a. \<not> loopback a) addresses) = map (show_int \<circ> vp_target) (sv_ports svc) \<and>
      map snd (concat (map nr_ports (np_ingress policy))) = map vp_target (sv_ports svc) \<and>
      set (sv_selector svc) \<subseteq> set (po_labels pod) \<and>
      (case fed of
         None \<Rightarrow> addresses = [([], ''5000'')]
       | Some f \<Rightarrow> \<exists>uwsgi proxy host port. po_containers pod = [uwsgi, proxy] \<and> listens_on uwsgi = [(host, port)] \<and>
           loopback (host, port) \<and>
           ''ProxyPass '' @ dq ''/'' @ '' '' @ dq (''http://'' @ host @ '':'' @ port @ ''/'') \<in> set (proxy_lines E k os ss passphrase) \<and>
           (\<exists>m\<in>set (co_mounts proxy). vm_path m = httpd_include_dir \<and>
              (\<exists>v\<in>set (po_volumes pod). vo_name v = vm_name m \<and>
                 (\<exists>mode. vo_source v = SecretItemsSource (fp_secret f) mode [(''proxy.conf'', ''proxy.conf'')]))))"
proof (cases fed)
  case None
  then show ?thesis
    by (simp add: pod_parts port_texts uwsgi_listens loopback_def has_prefix_def)
next
  case (Some f)
  obtain m v mode where mount: "m \<in> set (co_mounts (buildFederationProxyContainer f))" "vm_path m = httpd_include_dir"
      "v \<in> set (buildFederationVolumes f)" "vo_name v = vm_name m"
      "vo_source v = SecretItemsSource (fp_secret f) mode [(''proxy.conf'', ''proxy.conf'')]"
    using proxy_conf_mounted by blast
  then have "v \<in> set (po_volumes (dp_template (buildKeystoneDeployment k config_map dsn_hash domains fed)))"
    by (simp add: buildKeystoneDeployment_def Some)
  then show ?thesis using mount proxy_pass_line [of E k os ss passphrase]
    by (simp add: Some pod_parts port_texts uwsgi_listens proxy_listens loopback_def has_prefix_def federationProxyPort_def) blast
qed

section \<open>Volumes\<close>

text \<open>
  The pod template is closed: no two volumes of the Deployment share a name, and every mount of every container
  names a volume of the pod, whatever of database TLS, identity domains and federation is on.
\<close>

lemma pod_volumes_closed:
  "let pod = dp_template (buildKeystoneDeployment k config_map dsn_hash domains fed)
   in distinct (map vo_name (po_volumes pod)) \<and>
      set (concat (map (\<lambda>c. map vm_name (co_mounts c)) (po_containers pod))) = set (map vo_name (po_volumes pod))"
proof -
  define opt where "opt = map (vo_name \<circ> fst) (optional_volumes k domains)"
  define fvs where "fvs = (case fed of None \<Rightarrow> [] | Some f \<Rightarrow> map vo_name (buildFederationVolumes f))"
  let ?base = "[''config'', ''fernet-keys'', ''credential-keys'']"
  let ?pod = "dp_template (buildKeystoneDeployment k config_map dsn_hash domains fed)"
  have vols: "map vo_name (po_volumes ?pod) = ?base @ opt @ fvs"
    by (cases fed) (simp_all add: buildKeystoneDeployment_def opt_def fvs_def)
  have mounts: "concat (map (\<lambda>c. map vm_name (co_mounts c)) (po_containers ?pod)) = ?base @ opt @ fvs"
    using optional_volumes_names(1) [of k domains] federation_volumes_names(1)
    by (cases fed) (simp_all add: buildKeystoneDeployment_def keystone_container_def buildFederationProxyContainer_def opt_def fvs_def)
  have opt: "distinct opt" "set opt \<subseteq> {''db-tls'', ''domains''}"
    unfolding opt_def by (rule optional_volumes_names)+
  have fvs: "distinct fvs" "set fvs \<subseteq> {''federation-proxy-config'', ''federation-metadata'', ''federation-mellon'', ''federation-proxy-tmp''}"
    unfolding fvs_def using federation_volumes_names(2,3) by (cases fed; simp)+
  have "set ?base \<inter> (set opt \<union> set fvs) = {}" "set opt \<inter> set fvs = {}" using opt(2) fvs(2) by auto
  then have "distinct (?base @ opt @ fvs)" using opt(1) fvs(1) by simp
  then show ?thesis unfolding Let_def vols mounts by simp
qed

section \<open>Rollout on rotation\<close>

text \<open>
  Rotated database credentials roll the pods, and nothing else does: two digests of the connection string give
  the same Deployment exactly when they are equal or the credentials are not dynamic.
\<close>

lemma rotated_dsn_rolls:
  "buildKeystoneDeployment k config_map h domains fed = buildKeystoneDeployment k config_map h' domains fed \<longleftrightarrow>
   (if db_credentials_mode (ks_database (ko_spec k)) = CredentialsModeDynamic then h = h' else True)"
  by (auto simp: buildKeystoneDeployment_def)

section \<open>The client certificate\<close>

text \<open>
  Database TLS fails closed: when the certificate step of a resource with TLS lets the pass go on, both Secrets
  of the projected volume are named, the condition is True, and with a managed cluster the client Certificate exists
  and is ready, with the name and issuer of the operator.
\<close>

lemma database_tls_gate:
  assumes "meta_contract K" "dbTLSEnabled (ks_database (ko_spec k))"
    and "reconcileDatabaseTLS K available sem_eq C own (k, w) = ((zero_result, None), k', w')"
  shows "list_all (\<lambda>(name, keys). name \<noteq> [])
      (case vo_source (fst (dbTLSVolumeAndMount (ks_database (ko_spec k)))) of ProjectedSource mode sources \<Rightarrow> sources | _ \<Rightarrow> [([], [])]) \<and>
    cond_true K (ko_conditions k') conditionTypeDatabaseTLSReady \<and>
    (if db_cluster_ref (ks_database (ko_spec k)) = None then True
     else \<exists>live. k_get C (ko_namespace k, ko_name k @ ''-db-client'') w' = Inr live \<and> isCertificateReady live)"
proof -
  note p = reconcileDatabaseTLS_proceeds [OF assms(3,2)]
  have "cond_true K (ko_conditions k') conditionTypeDatabaseTLSReady"
    using assms by (auto simp: reconcileDatabaseTLS_def report_def put_conditions_def Let_def after_def zero_result_def
        RequeueSecretPolling_def seconds_def split: prod.splits sum.splits bool.splits if_splits option.splits)
  moreover have "\<exists>live. k_get C (ko_namespace k, ko_name k @ ''-db-client'') w' = Inr live \<and> isCertificateReady live"
    if "db_cluster_ref (ks_database (ko_spec k)) \<noteq> None"
    using EnsureCertificate_ready [of sem_eq C own "ko_meta k" "dbClientCertificate k" w w'] p(3) that
    by (simp add: dbClientCertificate_def dbClientCertificateName_def key_of_def)
  ultimately show ?thesis using p(1,2) by (simp add: dbTLSVolumeAndMount_def Let_def)
qed

text \<open>A store of certificates in which the one of the resource is ready.\<close>

definition ex_certs :: "(objkey \<times> cert_spec certificate) list" where
  "ex_certs = [((''openstack'', ''keystone-db-client''), (dbClientCertificate ex_resource)\<lparr>ce_conditions := [(''Ready'', CTrue)]\<rparr>)]"

end
