(* ===== verification/ControlPlaneTypes.thy ===== *)
theory ControlPlaneTypes
  imports SecretGates KeystoneTypes
begin

text \<open>
  The ControlPlane resource, \<open>operators/c5c3/api/v1alpha1/controlplane_types.go\<close>, what its methods derive from the
  spec, and the names and defaults the controller gives its children (\<open>helpers.go\<close> and the naming functions of
  \<open>internal/controller\<close>).  A pointer field is an \<open>option\<close>; a Go string enum stays a string.
\<close>

section \<open>The resource\<close>

definition ServiceNamespaceLifecycleManaged :: string where "ServiceNamespaceLifecycleManaged = ''Managed''"
definition ServiceNamespaceLifecycleExternal :: string where "ServiceNamespaceLifecycleExternal = ''External''"
definition KeystoneModeManaged :: string where "KeystoneModeManaged = ''Managed''"
definition KeystoneModeExternal :: string where "KeystoneModeExternal = ''External''"
definition ExternalEndpointTypePublic :: string where "ExternalEndpointTypePublic = ''public''"
definition ExternalEndpointTypeInternal :: string where "ExternalEndpointTypeInternal = ''internal''"
definition ExternalEndpointTypeAdmin :: string where "ExternalEndpointTypeAdmin = ''admin''"
definition IdentityCatalogServiceType :: string where "IdentityCatalogServiceType = ''identity''"
definition ServiceAccountRotationModeManual :: string where "ServiceAccountRotationModeManual = ''Manual''"
definition ServiceAccountRotationModeScheduled :: string where "ServiceAccountRotationModeScheduled = ''Scheduled''"
definition RotationModePasswordDriven :: string where "RotationModePasswordDriven = ''PasswordDriven''"
definition RotationModeScheduled :: string where "RotationModeScheduled = ''Scheduled''"
definition RotationModeManual :: string where "RotationModeManual = ''Manual''"
definition UpdatePhaseIdle :: string where "UpdatePhaseIdle = ''Idle''"

record InfrastructureSpec =
  if_database :: DatabaseSpec
  if_cache :: CacheSpec

record ServiceNamespaceSpec =
  sns_name :: string
  sns_lifecycle :: string

record KeystoneDedicatedBackingServicesSpec =
  kd_database :: "DatabaseSpec option"
  kd_cache :: "CacheSpec option"

record HorizonDedicatedBackingServicesSpec =
  hd_cache :: "CacheSpec option"

record ExternalCatalogEndpointSpec =
  xe_interface :: string
  xe_url :: string

record ExternalCatalogEntrySpec =
  xs_type :: string
  xs_name :: string
  xs_endpoints :: "ExternalCatalogEndpointSpec list"

record ExternalCatalogSpec =
  xc_identity_name :: string
  xc_entries :: "ExternalCatalogEntrySpec list"

record ExternalKeystoneSpec =
  ek_auth_url :: string
  ek_endpoint_type :: string
  ek_ca_bundle :: "SecretRefSpec option"
  ek_catalog :: "ExternalCatalogSpec option"

record ServiceKeystoneSpec =
  kk_mode :: string
  kk_external :: "ExternalKeystoneSpec option"
  kk_replicas :: "int option"
  kk_image :: "ImageSpec option"
  kk_policy_overrides :: "PolicySpec option"
  kk_rotation_interval :: "duration option"
  kk_gateway :: "GatewaySpec option"
  kk_public_endpoint :: string
  kk_proxy_image :: "ImageSpec option"
  kk_dedicated :: "KeystoneDedicatedBackingServicesSpec option"
  kk_namespace :: "ServiceNamespaceSpec option"

record ServiceHorizonSpec =
  hz_replicas :: "int option"
  hz_image :: "ImageSpec option"
  hz_gateway :: "GatewaySpec option"
  hz_secret_key_ref :: "SecretRefSpec option"
  hz_public_endpoint :: string
  hz_dedicated :: "HorizonDedicatedBackingServicesSpec option"
  hz_namespace :: "ServiceNamespaceSpec option"

record ServicesSpec =
  ss_keystone :: "ServiceKeystoneSpec option"
  ss_horizon :: "ServiceHorizonSpec option"

record ServiceAccountProjectSpec =
  sp_name :: string
  sp_create :: bool

record ServiceAccountSpec =
  sa_name :: string
  sa_user :: string
  sa_domain :: string
  sa_adopt :: bool
  sa_project :: ServiceAccountProjectSpec
  sa_roles :: "string list"
  sa_rotation :: "string option"
  sa_target :: string

record CloudCredentialsRef =
  cc_cloud :: string
  cc_secret :: string

record AccessRule =
  ar_service :: string
  ar_method :: string
  ar_path :: string

record ApplicationCredentialSpec =
  apc_restricted :: "bool option"
  apc_rules :: "AccessRule list"
  apc_mode :: string

record AdminCredentialSpec =
  ac_cloud :: CloudCredentialsRef
  ac_password_ref :: SecretRefSpec
  ac_user :: string
  ac_project :: string
  ac_domain :: string
  ac_credential :: ApplicationCredentialSpec
  ac_bootstrap :: "(string \<times> string) list"

record KORCSpec =
  kr_admin :: AdminCredentialSpec
  kr_accounts :: "ServiceAccountSpec list"

record ControlPlaneSpec =
  cs_release :: string
  cs_region :: string
  cs_infrastructure :: "InfrastructureSpec option"
  cs_store_ref :: "SecretStoreRefSpec option"
  cs_services :: ServicesSpec
  cs_policy :: "PolicySpec option"
  cs_korc :: KORCSpec

record ServiceStatus =
  sst_name :: string
  sst_ready :: bool
  sst_release :: string

record CatalogImportStatus =
  ci_name :: string
  ci_kind :: string
  ci_interface :: string
  ci_resolved :: bool
  ci_id :: string

record AdminApplicationCredentialStatus =
  as_id :: string
  as_restricted :: bool
  as_rotation :: "instant option"

record ServiceAccountStatus =
  sas_name :: string
  sas_ready :: bool
  sas_user_id :: string
  sas_project_id :: string
  sas_generation :: int
  sas_rotation :: "instant option"
  sas_secret :: string
  sas_namespace :: string

record ControlPlaneStatus =
  ct_conditions :: "condition list"
  ct_observed :: int
  ct_phase :: string
  ct_services :: "ServiceStatus list"
  ct_credential :: "AdminApplicationCredentialStatus option"
  ct_catalog :: "CatalogImportStatus list option"
  ct_accounts :: "ServiceAccountStatus list"

record ControlPlane =
  cp_meta :: objmeta
  cp_spec :: ControlPlaneSpec
  cp_status :: ControlPlaneStatus

abbreviation cp_name :: "ControlPlane \<Rightarrow> string" where "cp_name cp \<equiv> m_name (cp_meta cp)"
abbreviation cp_namespace :: "ControlPlane \<Rightarrow> string" where "cp_namespace cp \<equiv> m_namespace (cp_meta cp)"
abbreviation cp_generation :: "ControlPlane \<Rightarrow> int" where "cp_generation cp \<equiv> m_generation (cp_meta cp)"
abbreviation cp_keystone :: "ControlPlane \<Rightarrow> ServiceKeystoneSpec option" where "cp_keystone cp \<equiv> ss_keystone (cs_services (cp_spec cp))"
abbreviation cp_horizon :: "ControlPlane \<Rightarrow> ServiceHorizonSpec option" where "cp_horizon cp \<equiv> ss_horizon (cs_services (cp_spec cp))"
abbreviation cp_accounts :: "ControlPlane \<Rightarrow> ServiceAccountSpec list" where "cp_accounts cp \<equiv> kr_accounts (cs_korc (cp_spec cp))"
abbreviation cp_admin :: "ControlPlane \<Rightarrow> AdminCredentialSpec" where "cp_admin cp \<equiv> kr_admin (cs_korc (cp_spec cp))"
abbreviation cp_conditions :: "ControlPlane \<Rightarrow> condition list" where "cp_conditions cp \<equiv> ct_conditions (cp_status cp)"

section \<open>Its methods\<close>

definition IsExternalKeystone :: "ControlPlane \<Rightarrow> bool" where
  "IsExternalKeystone cp = (case cp_keystone cp of None \<Rightarrow> False | Some ks \<Rightarrow> kk_mode ks = KeystoneModeExternal)"

definition keystoneDedicatedBlock :: "ControlPlane \<Rightarrow> KeystoneDedicatedBackingServicesSpec option" where
  "keystoneDedicatedBlock cp = (case cp_keystone cp of None \<Rightarrow> None | Some ks \<Rightarrow> kk_dedicated ks)"

definition horizonDedicatedBlock :: "ControlPlane \<Rightarrow> HorizonDedicatedBackingServicesSpec option" where
  "horizonDedicatedBlock cp = (case cp_horizon cp of None \<Rightarrow> None | Some hz \<Rightarrow> hz_dedicated hz)"

definition DedicatedKeystoneDatabase :: "ControlPlane \<Rightarrow> DatabaseSpec option" where
  "DedicatedKeystoneDatabase cp = (case keystoneDedicatedBlock cp of None \<Rightarrow> None | Some b \<Rightarrow> kd_database b)"

definition DedicatedKeystoneCache :: "ControlPlane \<Rightarrow> CacheSpec option" where
  "DedicatedKeystoneCache cp = (case keystoneDedicatedBlock cp of None \<Rightarrow> None | Some b \<Rightarrow> kd_cache b)"

definition DedicatedHorizonCache :: "ControlPlane \<Rightarrow> CacheSpec option" where
  "DedicatedHorizonCache cp = (case horizonDedicatedBlock cp of None \<Rightarrow> None | Some b \<Rightarrow> hd_cache b)"

definition keystoneNamespaceBlock :: "ControlPlane \<Rightarrow> ServiceNamespaceSpec option" where
  "keystoneNamespaceBlock cp = (case cp_keystone cp of None \<Rightarrow> None | Some ks \<Rightarrow> kk_namespace ks)"

definition horizonNamespaceBlock :: "ControlPlane \<Rightarrow> ServiceNamespaceSpec option" where
  "horizonNamespaceBlock cp = (case cp_horizon cp of None \<Rightarrow> None | Some hz \<Rightarrow> hz_namespace hz)"

definition KeystoneNamespace :: "ControlPlane \<Rightarrow> string" where
  "KeystoneNamespace cp =
     (case keystoneNamespaceBlock cp of None \<Rightarrow> cp_namespace cp | Some ns \<Rightarrow> if sns_name ns \<noteq> [] then sns_name ns else cp_namespace cp)"

definition HorizonNamespace :: "ControlPlane \<Rightarrow> string" where
  "HorizonNamespace cp =
     (case horizonNamespaceBlock cp of None \<Rightarrow> cp_namespace cp | Some ns \<Rightarrow> if sns_name ns \<noteq> [] then sns_name ns else cp_namespace cp)"

fun dedicated_from :: "string \<Rightarrow> ServiceNamespaceSpec option list \<Rightarrow> string list \<Rightarrow> ServiceNamespaceSpec list" where
  "dedicated_from home [] seen = []"
| "dedicated_from home (None # bs) seen = dedicated_from home bs seen"
| "dedicated_from home (Some ns # bs) seen =
     (if sns_name ns = [] \<or> sns_name ns = home then dedicated_from home bs seen
      else if sns_name ns \<in> set seen then dedicated_from home bs seen
      else ns # dedicated_from home bs (sns_name ns # seen))"

definition DedicatedServiceNamespaces :: "ControlPlane \<Rightarrow> ServiceNamespaceSpec list" where
  "DedicatedServiceNamespaces cp = dedicated_from (cp_namespace cp) [keystoneNamespaceBlock cp, horizonNamespaceBlock cp] []"

definition controlPlaneNamespaces :: "ControlPlane \<Rightarrow> string list" where
  "controlPlaneNamespaces cp = cp_namespace cp # map sns_name (DedicatedServiceNamespaces cp)"

section \<open>Where a child gets its settings\<close>

definition effectiveKeystoneDatabase :: "ControlPlane \<Rightarrow> DatabaseSpec option" where
  "effectiveKeystoneDatabase cp =
     (case DedicatedKeystoneDatabase cp of Some db \<Rightarrow> Some db | None \<Rightarrow> map_option if_database (cs_infrastructure (cp_spec cp)))"

definition effectiveKeystoneCache :: "ControlPlane \<Rightarrow> CacheSpec option" where
  "effectiveKeystoneCache cp =
     (case DedicatedKeystoneCache cp of Some c \<Rightarrow> Some c | None \<Rightarrow> map_option if_cache (cs_infrastructure (cp_spec cp)))"

definition effectiveHorizonCache :: "ControlPlane \<Rightarrow> CacheSpec option" where
  "effectiveHorizonCache cp =
     (case DedicatedHorizonCache cp of Some c \<Rightarrow> Some c | None \<Rightarrow> map_option if_cache (cs_infrastructure (cp_spec cp)))"

definition childNamespace :: "ControlPlane \<Rightarrow> string" where
  "childNamespace cp = cp_namespace cp"

text \<open>\<open>cmp.Or\<close> on strings: the first that is not empty.\<close>

definition or_default :: "string \<Rightarrow> string \<Rightarrow> string" where
  "or_default s d = (if s \<noteq> [] then s else d)"

definition adminUserName :: "ControlPlane \<Rightarrow> string" where
  "adminUserName cp = or_default (ac_user (cp_admin cp)) ''admin''"

definition adminProjectName :: "ControlPlane \<Rightarrow> string" where
  "adminProjectName cp = or_default (ac_project (cp_admin cp)) ''admin''"

definition adminDomainName :: "ControlPlane \<Rightarrow> string" where
  "adminDomainName cp = or_default (ac_domain (cp_admin cp)) ''Default''"

definition esoTenantStoreName :: string where "esoTenantStoreName = ''openbao-tenant-store''"
definition esoTenantServiceAccountName :: string where "esoTenantServiceAccountName = ''eso-tenant-auth''"
definition esoTenantClientCertName :: string where "esoTenantClientCertName = ''eso-tenant-client-tls''"
definition dbCredentialServiceAccountName :: string where "dbCredentialServiceAccountName = ''keystone-db-creds''"
definition korcCloudsYamlSecretName :: string where "korcCloudsYamlSecretName = ''k-orc-clouds-yaml''"

definition effectiveControlPlaneStoreRef :: "ControlPlane \<Rightarrow> SecretStoreRefSpec" where
  "effectiveControlPlaneStoreRef cp =
     (case cs_store_ref (cp_spec cp) of
        Some r \<Rightarrow> EffectiveStoreRef (Some r)
      | None \<Rightarrow> \<lparr>st_kind = SecretStoreKindNamespaced, st_name = esoTenantStoreName\<rparr>)"

section \<open>The names of the children\<close>

definition keystoneName :: "ControlPlane \<Rightarrow> string" where "keystoneName cp = cp_name cp @ ''-keystone''"
definition horizonName :: "ControlPlane \<Rightarrow> string" where "horizonName cp = cp_name cp @ ''-horizon''"
definition adminAppCredentialName :: "ControlPlane \<Rightarrow> string" where "adminAppCredentialName cp = cp_name cp @ ''-admin-app-credential''"
definition adminAppCredentialSecretName :: "ControlPlane \<Rightarrow> string" where
  "adminAppCredentialSecretName cp = cp_name cp @ ''-admin-app-credential''"
definition adminPasswordCloudSecretName :: "ControlPlane \<Rightarrow> string" where
  "adminPasswordCloudSecretName cp = cp_name cp @ ''-admin-password-cloud''"
definition adminAppCredentialPushSecretName :: "ControlPlane \<Rightarrow> string" where
  "adminAppCredentialPushSecretName cp = cp_name cp @ ''-admin-app-credential-backup''"
definition adminUserRef :: "ControlPlane \<Rightarrow> string" where "adminUserRef cp = cp_name cp @ ''-user-admin''"
definition adminDomainRef :: "ControlPlane \<Rightarrow> string" where "adminDomainRef cp = cp_name cp @ ''-domain-default''"
definition adminPasswordSecretName :: "ControlPlane \<Rightarrow> string" where
  "adminPasswordSecretName cp = keystoneName cp @ ''-admin-credentials''"
definition dbCredentialSecretName :: "ControlPlane \<Rightarrow> string" where "dbCredentialSecretName cp = keystoneName cp @ ''-db-credentials''"
definition dbCredentialClientCertName :: "ControlPlane \<Rightarrow> string" where
  "dbCredentialClientCertName cp = keystoneName cp @ ''-db-openbao-client''"
definition keystoneServiceName :: "ControlPlane \<Rightarrow> string" where "keystoneServiceName cp = cp_name cp @ ''-identity-service''"
definition keystoneEndpointName :: "ControlPlane \<Rightarrow> string" where "keystoneEndpointName cp = cp_name cp @ ''-identity-endpoint''"
definition keystoneEndpointImportName :: "ControlPlane \<Rightarrow> string \<Rightarrow> string" where
  "keystoneEndpointImportName cp iface = keystoneEndpointName cp @ ''-'' @ iface"
definition catalogEntryNamePrefix :: "ControlPlane \<Rightarrow> string" where "catalogEntryNamePrefix cp = cp_name cp @ ''-catalog-''"
definition catalogEntryServiceName :: "ControlPlane \<Rightarrow> string \<Rightarrow> string" where
  "catalogEntryServiceName cp ty = catalogEntryNamePrefix cp @ ty"
definition catalogEntryEndpointName :: "ControlPlane \<Rightarrow> string \<Rightarrow> string \<Rightarrow> string" where
  "catalogEntryEndpointName cp ty iface = catalogEntryServiceName cp ty @ ''-'' @ iface"

definition externalCatalogInterfaces :: "string list" where
  "externalCatalogInterfaces = [ExternalEndpointTypePublic, ExternalEndpointTypeInternal, ExternalEndpointTypeAdmin]"

definition externalCatalogSpec :: "ControlPlane \<Rightarrow> ExternalCatalogSpec option" where
  "externalCatalogSpec cp =
     (case cp_keystone cp of None \<Rightarrow> None | Some ks \<Rightarrow> (case kk_external ks of None \<Rightarrow> None | Some e \<Rightarrow> ek_catalog e))"

definition externalManagedCatalogEntries :: "ControlPlane \<Rightarrow> ExternalCatalogEntrySpec list" where
  "externalManagedCatalogEntries cp = (case externalCatalogSpec cp of None \<Rightarrow> [] | Some c \<Rightarrow> xc_entries c)"

subsection \<open>Service accounts\<close>

definition serviceAccountChildPrefix :: "ControlPlane \<Rightarrow> string" where
  "serviceAccountChildPrefix cp = cp_name cp @ ''-service-account-''"
definition serviceAccountUserName :: "ServiceAccountSpec \<Rightarrow> string" where
  "serviceAccountUserName sa = or_default (sa_user sa) (sa_name sa)"
definition serviceAccountDomainName :: "ControlPlane \<Rightarrow> ServiceAccountSpec \<Rightarrow> string" where
  "serviceAccountDomainName cp sa = or_default (sa_domain sa) (adminDomainName cp)"
definition serviceAccountUserRef :: "ControlPlane \<Rightarrow> ServiceAccountSpec \<Rightarrow> string" where
  "serviceAccountUserRef cp sa = serviceAccountChildPrefix cp @ ''user-'' @ sa_name sa"
definition serviceAccountUserProbeRef :: "ControlPlane \<Rightarrow> ServiceAccountSpec \<Rightarrow> string" where
  "serviceAccountUserProbeRef cp sa = serviceAccountChildPrefix cp @ ''user-probe-'' @ sa_name sa"
definition serviceAccountProjectRef :: "ControlPlane \<Rightarrow> ServiceAccountSpec \<Rightarrow> string" where
  "serviceAccountProjectRef cp sa = serviceAccountChildPrefix cp @ ''project-'' @ sa_name sa"
definition serviceAccountProjectProbeRef :: "ControlPlane \<Rightarrow> ServiceAccountSpec \<Rightarrow> string" where
  "serviceAccountProjectProbeRef cp sa = serviceAccountChildPrefix cp @ ''project-probe-'' @ sa_name sa"
definition serviceAccountDomainRef :: "ControlPlane \<Rightarrow> ServiceAccountSpec \<Rightarrow> string" where
  "serviceAccountDomainRef cp sa =
     (if serviceAccountDomainName cp sa = adminDomainName cp then adminDomainRef cp
      else serviceAccountChildPrefix cp @ ''domain-'' @ sa_name sa)"

text \<open>
  The slug of a role: lower case, every run of other characters a dash, trimmed, at most 16 characters, and eight
  hexadecimal digits of the role's SHA-256, \<open>sha_hex\<close>.
\<close>

definition slug_char :: "char \<Rightarrow> bool" where
  "slug_char c \<longleftrightarrow> (CHR ''a'' \<le> c \<and> c \<le> CHR ''z'') \<or> is_digit c"

function dash_runs :: "string \<Rightarrow> string" where
  "dash_runs [] = []"
| "dash_runs (c # cs) =
     (if slug_char c then c # dash_runs cs else CHR ''-'' # dash_runs (dropWhile (\<lambda>x. \<not> slug_char x) cs))"
  by pat_completeness auto
termination by (relation "measure length") (auto simp: length_dropWhile_le le_imp_less_Suc)

definition trim_dashes :: "string \<Rightarrow> string" where
  "trim_dashes s = rev (dropWhile (\<lambda>c. c = CHR ''-'') (rev (dropWhile (\<lambda>c. c = CHR ''-'') s)))"

definition serviceAccountRoleSlug :: "(string \<Rightarrow> string) \<Rightarrow> string \<Rightarrow> string" where
  "serviceAccountRoleSlug sha_hex role =
     take 16 (trim_dashes (dash_runs (to_lower role))) @ ''-'' @ take 8 (sha_hex role)"

definition serviceAccountRoleImportRef :: "(string \<Rightarrow> string) \<Rightarrow> ControlPlane \<Rightarrow> string \<Rightarrow> string" where
  "serviceAccountRoleImportRef sha_hex cp role = serviceAccountChildPrefix cp @ ''role-'' @ serviceAccountRoleSlug sha_hex role"
definition serviceAccountRoleAssignmentRef :: "(string \<Rightarrow> string) \<Rightarrow> ControlPlane \<Rightarrow> ServiceAccountSpec \<Rightarrow> string \<Rightarrow> string" where
  "serviceAccountRoleAssignmentRef sha_hex cp sa role =
     serviceAccountChildPrefix cp @ sa_name sa @ ''-assign-'' @ serviceAccountRoleSlug sha_hex role"
definition serviceAccountPasswordSecretName :: "ControlPlane \<Rightarrow> ServiceAccountSpec \<Rightarrow> int \<Rightarrow> string" where
  "serviceAccountPasswordSecretName cp sa gen = serviceAccountChildPrefix cp @ sa_name sa @ ''-password-v'' @ show_int gen"
definition serviceAccountSourceSecretName :: "ControlPlane \<Rightarrow> ServiceAccountSpec \<Rightarrow> string" where
  "serviceAccountSourceSecretName cp sa = serviceAccountChildPrefix cp @ sa_name sa @ ''-source''"
definition serviceAccountPushSecretName :: "ControlPlane \<Rightarrow> ServiceAccountSpec \<Rightarrow> string" where
  "serviceAccountPushSecretName cp sa = serviceAccountChildPrefix cp @ sa_name sa @ ''-backup''"
definition serviceAccountCredentialsSecretName :: "ControlPlane \<Rightarrow> ServiceAccountSpec \<Rightarrow> string" where
  "serviceAccountCredentialsSecretName cp sa = serviceAccountChildPrefix cp @ sa_name sa @ ''-credentials''"

definition serviceAccountDeliveryNamespace :: "ControlPlane \<Rightarrow> ServiceAccountSpec \<Rightarrow> string" where
  "serviceAccountDeliveryNamespace cp sa =
     (if sa_target sa \<noteq> [] \<and> sa_target sa \<notin> set (controlPlaneNamespaces cp) then childNamespace cp
      else or_default (sa_target sa) (childNamespace cp))"

fun delivery_from :: "ControlPlane \<Rightarrow> ServiceAccountSpec list \<Rightarrow> string list \<Rightarrow> string list" where
  "delivery_from cp [] seen = []"
| "delivery_from cp (sa # sas) seen =
     (let ns = serviceAccountDeliveryNamespace cp sa in
      if ns \<in> set seen then delivery_from cp sas seen else ns # delivery_from cp sas (ns # seen))"

definition serviceAccountDeliveryNamespaces :: "ControlPlane \<Rightarrow> ServiceAccountSpec list \<Rightarrow> string list" where
  "serviceAccountDeliveryNamespaces cp sas = childNamespace cp # delivery_from cp sas [childNamespace cp]"

definition serviceAccountRemoteKeyFor :: "ControlPlane \<Rightarrow> ServiceAccountSpec \<Rightarrow> string" where
  "serviceAccountRemoteKeyFor cp sa =
     ''openstack/keystone/'' @ serviceAccountDeliveryNamespace cp sa @ ''/'' @ cp_name cp @ ''/service-accounts/'' @ sa_name sa"

section \<open>Facts about namespaces\<close>

lemma dedicated_from_names:
  "distinct (map sns_name (dedicated_from home bs seen)) \<and>
   set (map sns_name (dedicated_from home bs seen)) \<inter> (set seen \<union> {[], home}) = {}"
  by (induction home bs seen rule: dedicated_from.induct) auto

lemma controlPlaneNamespaces_distinct: "distinct (controlPlaneNamespaces cp)"
  using dedicated_from_names [of "cp_namespace cp" "[keystoneNamespaceBlock cp, horizonNamespaceBlock cp]" "[]"]
  by (auto simp: controlPlaneNamespaces_def DedicatedServiceNamespaces_def)

lemma dedicated_from_covers:
  assumes "Some ns \<in> set bs" "sns_name ns \<noteq> []" "sns_name ns \<noteq> home"
  shows "sns_name ns \<in> set seen \<union> sns_name ` set (dedicated_from home bs seen)"
  using assms by (induction home bs seen rule: dedicated_from.induct) auto

text \<open>A service runs in a namespace of the control plane, and an account is delivered into one.\<close>

lemma namespace_covered:
  assumes "b \<in> {keystoneNamespaceBlock cp, horizonNamespaceBlock cp}" "b = Some ns" "sns_name ns \<noteq> []"
  shows "sns_name ns \<in> set (controlPlaneNamespaces cp)"
  using assms dedicated_from_covers [of ns "[keystoneNamespaceBlock cp, horizonNamespaceBlock cp]" "cp_namespace cp" "[]"]
  by (auto simp: controlPlaneNamespaces_def DedicatedServiceNamespaces_def)

lemma service_namespaces:
  "KeystoneNamespace cp \<in> set (controlPlaneNamespaces cp)" "HorizonNamespace cp \<in> set (controlPlaneNamespaces cp)"
proof -
  have home: "cp_namespace cp \<in> set (controlPlaneNamespaces cp)" by (simp add: controlPlaneNamespaces_def)
  show "KeystoneNamespace cp \<in> set (controlPlaneNamespaces cp)"
    using home namespace_covered [of "keystoneNamespaceBlock cp" cp] by (auto simp: KeystoneNamespace_def split: option.split)
  show "HorizonNamespace cp \<in> set (controlPlaneNamespaces cp)"
    using home namespace_covered [of "horizonNamespaceBlock cp" cp] by (auto simp: HorizonNamespace_def split: option.split)
qed

lemma delivery_namespace: "serviceAccountDeliveryNamespace cp sa \<in> set (controlPlaneNamespaces cp)"
  by (auto simp: serviceAccountDeliveryNamespace_def or_default_def childNamespace_def controlPlaneNamespaces_def)

lemma dedicated_not_home:
  assumes "ns \<in> set (DedicatedServiceNamespaces cp)"
  shows "sns_name ns \<noteq> cp_namespace cp" "sns_name ns \<noteq> []"
proof -
  have "sns_name ns \<in> set (map sns_name (DedicatedServiceNamespaces cp))" using assms by simp
  then show "sns_name ns \<noteq> cp_namespace cp" "sns_name ns \<noteq> []"
    using dedicated_from_names [of "cp_namespace cp" "[keystoneNamespaceBlock cp, horizonNamespaceBlock cp]" "[]"]
    by (simp_all add: DedicatedServiceNamespaces_def) metis+
qed

end
