(* ===== verification/ControlPlaneNamespaces.thy ===== *)
theory ControlPlaneNamespaces
  imports ControlPlaneTypes Apply Config
begin

text \<open>
  Ownership across namespaces and the namespaces of the services,
  \<open>operators/c5c3/internal/controller/reconcile_namespaces.go\<close>, with the conditions of a control plane
  (\<open>controlplane_controller.go\<close>, \<open>reconcile_korc.go\<close>) and the requeue intervals (\<open>requeue_intervals.go\<close>).
\<close>

type_synonym 'w cp_step = "ControlPlane \<times> 'w \<Rightarrow> (ctrl_result \<times> err option) \<times> ControlPlane \<times> 'w"

abbreviation is_no_match :: "err \<Rightarrow> bool" where
  "is_no_match e \<equiv> is_sentinel ''NoKindMatch'' e"

section \<open>Conditions and intervals\<close>

definition conditionTypeNamespacesReady :: string where "conditionTypeNamespacesReady = ''NamespacesReady''"
definition conditionTypeInfrastructureReady :: string where "conditionTypeInfrastructureReady = ''InfrastructureReady''"
definition conditionTypeESOTenantStoreReady :: string where "conditionTypeESOTenantStoreReady = ''ESOTenantStoreReady''"
definition conditionTypeDBCredentialsReady :: string where "conditionTypeDBCredentialsReady = ''DBCredentialsReady''"
definition conditionTypeKeystoneReady :: string where "conditionTypeKeystoneReady = ''KeystoneReady''"
definition conditionTypeHorizonReady :: string where "conditionTypeHorizonReady = ''HorizonReady''"
definition conditionTypeKORCReady :: string where "conditionTypeKORCReady = ''KORCReady''"
definition conditionTypeAdminCredentialReady :: string where "conditionTypeAdminCredentialReady = ''AdminCredentialReady''"
definition conditionTypeAdminPasswordReady :: string where "conditionTypeAdminPasswordReady = ''AdminPasswordReady''"
definition conditionTypeCatalogReady :: string where "conditionTypeCatalogReady = ''CatalogReady''"
definition conditionTypeServiceAccountsReady :: string where "conditionTypeServiceAccountsReady = ''ServiceAccountsReady''"

definition namespaceRequeueAfter :: duration where "namespaceRequeueAfter = seconds 15"
definition infraRequeueAfter :: duration where "infraRequeueAfter = seconds 15"
definition esoTenantStoreRequeueAfter :: duration where "esoTenantStoreRequeueAfter = seconds 10"
definition dbCredentialsRequeueAfter :: duration where "dbCredentialsRequeueAfter = seconds 10"
definition adminPasswordRequeueAfter :: duration where "adminPasswordRequeueAfter = seconds 10"
definition keystoneInfraGateRequeueAfter :: duration where "keystoneInfraGateRequeueAfter = seconds 5"
definition korcRequeueAfter :: duration where "korcRequeueAfter = seconds 10"
definition remintStallTimeout :: duration where "remintStallTimeout = minutes 5"
definition externalImportStallGrace :: duration where "externalImportStallGrace = minutes 2"
definition duplicateControlPlaneRequeueAfter :: duration where "duplicateControlPlaneRequeueAfter = seconds 30"
definition orcTeardownStallTimeout :: duration where "orcTeardownStallTimeout = minutes 5"

definition put_cp_conditions :: "condition list \<Rightarrow> ControlPlane \<Rightarrow> ControlPlane" where
  "put_cp_conditions cs cp = cp\<lparr>cp_status := (cp_status cp)\<lparr>ct_conditions := cs\<rparr>\<rparr>"

definition cp_report :: "meta_api \<Rightarrow> string \<Rightarrow> cstatus \<Rightarrow> string \<Rightarrow> msg \<Rightarrow> ControlPlane \<Rightarrow> ControlPlane" where
  "cp_report K ct st reason message cp =
     put_cp_conditions (SetCondition K (cp_conditions cp) (mk_condition ct st (cp_generation cp) reason message)) cp"

text \<open>\<open>conditionFailer\<close> also truncates the text; messages are kept as format and operands here, and the truncation is a
  function of its own.\<close>

definition conditionFailer :: "meta_api \<Rightarrow> string \<Rightarrow> string \<Rightarrow> msg \<Rightarrow> ControlPlane \<Rightarrow> ControlPlane" where
  "conditionFailer K ct reason message cp = cp_report K ct CFalse reason message cp"

definition maxConditionMessageBytes :: nat where
  "maxConditionMessageBytes = 32768"

text \<open>\<open>utf8.RuneStart\<close>: not a continuation byte.\<close>

definition rune_start :: "char \<Rightarrow> bool" where
  "rune_start c \<longleftrightarrow> of_char c div (64::nat) \<noteq> 2"

definition truncation_suffix :: string where
  "truncation_suffix = '' ['' @ [char_of (226::nat), char_of (128::nat), char_of (166::nat)] @ ''truncated]''"

fun cut_back :: "string \<Rightarrow> nat \<Rightarrow> nat" where
  "cut_back s 0 = 0"
| "cut_back s (Suc n) = (if rune_start (s ! Suc n) then Suc n else cut_back s n)"

definition truncateConditionMessage :: "string \<Rightarrow> string" where
  "truncateConditionMessage s =
     (if length s \<le> maxConditionMessageBytes then s
      else take (cut_back s (maxConditionMessageBytes - length truncation_suffix)) s @ truncation_suffix)"

section \<open>Ownership\<close>

definition controlPlaneNameLabel :: string where "controlPlaneNameLabel = ''c5c3.io/controlplane-name''"
definition controlPlaneNamespaceLabel :: string where "controlPlaneNamespaceLabel = ''c5c3.io/controlplane-namespace''"
definition managedByLabel :: string where "managedByLabel = ''app.kubernetes.io/managed-by''"
definition managedByValue :: string where "managedByValue = ''c5c3-operator''"

definition controlPlaneChildLabels :: "ControlPlane \<Rightarrow> string gomap" where
  "controlPlaneChildLabels cp = [(controlPlaneNameLabel, cp_name cp), (controlPlaneNamespaceLabel, cp_namespace cp)]"

definition stampControlPlaneChildLabels :: "ControlPlane \<Rightarrow> objmeta \<Rightarrow> objmeta" where
  "stampControlPlaneChildLabels cp m = m\<lparr>m_labels := put_all (controlPlaneChildLabels cp) (m_labels m)\<rparr>"

definition isControlPlaneChild :: "ControlPlane \<Rightarrow> objmeta \<Rightarrow> bool" where
  "isControlPlaneChild cp m \<longleftrightarrow>
     controlled_by (m_uid (cp_meta cp)) m \<or>
     (get_or [] (m_labels m) controlPlaneNameLabel = cp_name cp \<and> get_or [] (m_labels m) controlPlaneNamespaceLabel = cp_namespace cp)"

text \<open>The metadata of a kind of object, and \<open>controllerutil.SetControllerReference\<close> on it.\<close>

record 'o own_api =
  ow_meta :: "'o \<Rightarrow> objmeta"
  ow_with_meta :: "objmeta \<Rightarrow> 'o \<Rightarrow> 'o"
  ow_set_ref :: "objmeta \<Rightarrow> 'o \<Rightarrow> 'o result"
  ow_kind :: string

definition claimChildOwnership :: "'o own_api \<Rightarrow> ControlPlane \<Rightarrow> 'o \<Rightarrow> 'o result" where
  "claimChildOwnership M cp x =
     (if m_namespace (ow_meta M x) \<noteq> cp_namespace cp
      then Inr (ow_with_meta M (stampControlPlaneChildLabels cp (ow_meta M x)) x)
      else ow_set_ref M (cp_meta cp) x)"

definition ensureUnownedOrOwned ::
  "'o own_api \<Rightarrow> ('o, 'w) kclient \<Rightarrow> ('o, 'u, 'w) ssa_api \<Rightarrow> ControlPlane \<Rightarrow> 'o \<Rightarrow> 'w \<Rightarrow> 'o result \<times> 'w" where
  "ensureUnownedOrOwned M C A cp x w =
     (let m = ow_meta M x; ref = [Str (ow_kind M), Strs [m_namespace m, m_name m]];
          apply_it = EnsureUnownedObject A (ow_with_meta M (stampControlPlaneChildLabels cp m) x) FieldManager w
      in if m_namespace m = cp_namespace cp then EnsureObject A (cp_meta cp) x FieldManager w
         else case k_get C (key_of m) w of
           Inl e \<Rightarrow>
             if is_not_found e \<or> is_no_match e then apply_it
             else (Inl (Errorf ''checking for a pre-existing %T %s before adopting it: %w'' (ref @ [Wrap e])), w)
         | Inr live \<Rightarrow>
             if \<not> isControlPlaneChild cp (ow_meta M live)
             then (Inl (Errorf ''refusing to adopt pre-existing %T %s in unowned namespace %q: it was not created by this ControlPlane, so adopting it would overwrite its spec and delete it at teardown''
                      (ref @ [Str (m_namespace m)])), w)
             else apply_it)"

definition refuseForeignAdoption :: "'o own_api \<Rightarrow> ControlPlane \<Rightarrow> 'o \<Rightarrow> err option" where
  "refuseForeignAdoption M cp live =
     (let m = ow_meta M live in
      if m_namespace m = cp_namespace cp \<or> m_uid m = [] \<or> isControlPlaneChild cp m then None
      else Some (Errorf ''refusing to adopt pre-existing %s %s/%s in unowned namespace %q: it was not created by this ControlPlane, so adopting it would overwrite its spec and delete it at teardown''
             [Str (ow_kind M), Str (m_namespace m), Str (m_name m), Str (m_namespace m)]))"

definition crossNamespaceChildMapper :: "objmeta \<Rightarrow> objkey list" where
  "crossNamespaceChildMapper m =
     (let name = get_or [] (m_labels m) controlPlaneNameLabel; namespace = get_or [] (m_labels m) controlPlaneNamespaceLabel
      in if name = [] \<or> namespace = [] then [] else [(namespace, name)])"

definition crossNamespaceChildPredicate :: "objmeta \<Rightarrow> bool" where
  "crossNamespaceChildPredicate m \<longleftrightarrow>
     get_or [] (m_labels m) controlPlaneNameLabel \<noteq> [] \<and> get_or [] (m_labels m) controlPlaneNamespaceLabel \<noteq> []"

section \<open>The namespaces of the services\<close>

text \<open>A Namespace is its metadata; \<open>None\<close> is the early return of the loop not taken.\<close>

definition new_namespace :: "ControlPlane \<Rightarrow> string \<Rightarrow> objmeta" where
  "new_namespace cp name =
     (let m = stampControlPlaneChildLabels cp (blank_meta\<lparr>m_name := name\<rparr>)
      in m\<lparr>m_labels := map_put managedByLabel managedByValue (m_labels m)\<rparr>)"

fun namespace_pass ::
  "meta_api \<Rightarrow> (objmeta, 'w) kclient \<Rightarrow> ServiceNamespaceSpec list \<Rightarrow> ControlPlane \<times> 'w \<Rightarrow>
     (ctrl_result \<times> err option) option \<times> ControlPlane \<times> 'w" where
  "namespace_pass K C [] s = (None, s)"
| "namespace_pass K C (a # rest) (cp, w) =
     (let name = sns_name a; fail = conditionFailer K conditionTypeNamespacesReady;
          wait = (\<lambda>reason text. (Some (after namespaceRequeueAfter, None), fail reason (Msg text [Str name]) cp, w));
          failed = (\<lambda>text wrapped e w'. (Some (zero_result, Some (Errorf wrapped [Str name, Wrap e])),
                      fail ''NamespaceError'' (Msg text [Str name, Val e]) cp, w'))
      in case k_get C ([], name) w of
           Inl e \<Rightarrow>
             if sns_lifecycle a = ServiceNamespaceLifecycleExternal
             then (if is_not_found e
                   then wait ''NamespaceNotFound'' ''namespace %q is declared with lifecycle External, so the operator never creates it; provision it before this ControlPlane can converge''
                   else failed ''getting namespace %q: %v'' ''getting external service namespace %q: %w'' e w)
             else if is_not_found e
             then (case k_create C (new_namespace cp name) w of
                     (Inr _, w') \<Rightarrow> namespace_pass K C rest (cp, w')
                   | (Inl ce, w') \<Rightarrow>
                       if is_already_exists ce then (Some (after namespaceRequeueAfter, None), cp, w')
                       else failed ''creating namespace %q: %v'' ''creating managed service namespace %q: %w'' ce w')
             else failed ''getting namespace %q: %v'' ''getting managed service namespace %q: %w'' e w
         | Inr ns \<Rightarrow>
             if sns_lifecycle a = ServiceNamespaceLifecycleExternal
             then (if m_deleting ns
                   then wait ''NamespaceTerminating'' ''namespace %q is Terminating; waiting for it to be re-provisioned''
                   else namespace_pass K C rest (cp, w))
             else if \<not> isControlPlaneChild cp ns
             then wait ''NamespaceNotOwned'' ''namespace %q already exists and was not created by this ControlPlane; the Managed lifecycle would delete it (and everything in it) at teardown, so it is never adopted. Use lifecycle External to place the service in a namespace the operator does not own, or pick a free name''
             else if m_deleting ns
             then wait ''NamespaceTerminating'' ''namespace %q is Terminating; waiting for it to be reclaimed before re-creating it''
             else namespace_pass K C rest (cp, w))"

definition reconcileNamespaces :: "meta_api \<Rightarrow> (objmeta, 'w) kclient \<Rightarrow> 'w cp_step" where
  "reconcileNamespaces K C s =
     (let (cp, w) = s; assignments = DedicatedServiceNamespaces cp in
      if assignments = []
      then ((zero_result, None), cp_report K conditionTypeNamespacesReady CTrue ''NoDedicatedNamespaces''
              (Msg ''no service declares a namespace of its own; every child is placed in the ControlPlane's namespace'' []) cp, w)
      else case namespace_pass K C assignments (cp, w) of
             (Some r, cp', w') \<Rightarrow> (r, cp', w')
           | (None, cp', w') \<Rightarrow>
               ((zero_result, None), cp_report K conditionTypeNamespacesReady CTrue ''NamespacesReady''
                  (Msg ''all %d dedicated service namespace(s) are present'' [Num (int (length assignments))]) cp', w'))"

end
