(* ===== verification/ControlPlaneOrc.thy ===== *)
theory ControlPlaneOrc
  imports ControlPlaneNamespaces
begin

text \<open>
  The K-ORC resources a control plane owns and how it reads them: the objects of the
  \<open>openstack.k-orc.cloud\<close> group, the clouds.yaml documents (\<open>korc_cloudsyaml.go\<close>), the classification of K-ORC's
  messages (\<open>external_mode.go\<close>) and the URLs of the catalog (\<open>reconcile_catalog.go\<close>).  All of them are in
  \<open>operators/c5c3/internal/controller\<close>.  K-ORC's own packages are not part of the repository: \<open>orc_api\<close> holds what
  the code calls there.
\<close>

section \<open>The objects\<close>

datatype orc_kind =
    OrcApplicationCredential | OrcService | OrcEndpoint | OrcUser | OrcDomain | OrcProject | OrcRole | OrcRoleAssignment

record orc_condition =
  oc_type :: string
  oc_status :: cstatus
  oc_generation :: int
  oc_transition :: instant
  oc_reason :: string
  oc_message :: string

record orc_access_rule =
  oar_path :: "string option"
  oar_method :: "string option"
  oar_service :: "string option"

record orc_credential =
  ocr_unrestricted :: "bool option"
  ocr_user :: string
  ocr_secret :: string
  ocr_rules :: "orc_access_rule list"

record orc_user =
  ous_name :: "string option"
  ous_domain :: "string option"
  ous_project :: "string option"
  ous_password :: "string option"

datatype orc_resource =
    CredentialResource orc_credential
  | ServiceResource string "string option" "bool option"         \<comment> \<open>type, name, enabled\<close>
  | EndpointResource string string string "bool option"          \<comment> \<open>interface, URL, service, enabled\<close>
  | UserResource orc_user
  | ProjectResource "string option" "string option"              \<comment> \<open>name, domain\<close>
  | RoleAssignmentResource string "string option" "string option" \<comment> \<open>role, user, project\<close>

datatype orc_filter =
    NameFilter "string option" "string option"      \<comment> \<open>name and domain, of Users, Projects, Domains, Roles\<close>
  | ServiceFilter "string option" "string option"   \<comment> \<open>type, name\<close>
  | EndpointFilter string "string option"           \<comment> \<open>interface, service\<close>

text \<open>\<open>oo_applied_password\<close> and \<open>oo_unrestricted\<close> are fields of \<open>Status.Resource\<close>, absent with it.\<close>

record orc_object =
  oo_kind :: orc_kind
  oo_meta :: objmeta
  oo_policy :: string
  oo_cloud :: CloudCredentialsRef
  oo_import :: "orc_filter option"
  oo_resource :: "orc_resource option"
  oo_conditions :: "orc_condition list"
  oo_id :: "string option"
  oo_applied_password :: "string option"
  oo_unrestricted :: "bool option"

abbreviation oo_name :: "orc_object \<Rightarrow> string" where "oo_name x \<equiv> m_name (oo_meta x)"

definition ManagementPolicyManaged :: string where "ManagementPolicyManaged = ''managed''"
definition ManagementPolicyUnmanaged :: string where "ManagementPolicyUnmanaged = ''unmanaged''"
definition ConditionAvailable :: string where "ConditionAvailable = ''Available''"
definition ConditionProgressing :: string where "ConditionProgressing = ''Progressing''"
definition ConditionReasonInvalidConfiguration :: string where
  "ConditionReasonInvalidConfiguration = ''InvalidConfiguration''"

definition new_orc :: "orc_kind \<Rightarrow> string \<Rightarrow> string \<Rightarrow> orc_object" where
  "new_orc kind namespace name =
     \<lparr>oo_kind = kind, oo_meta = blank_meta\<lparr>m_name := name, m_namespace := namespace\<rparr>, oo_policy = [],
      oo_cloud = \<lparr>cc_cloud = [], cc_secret = []\<rparr>, oo_import = None, oo_resource = None, oo_conditions = [], oo_id = None,
      oo_applied_password = None, oo_unrestricted = None\<rparr>"

lemma new_orc_simps [simp]:
  "oo_kind (new_orc k ns n) = k" "oo_meta (new_orc k ns n) = blank_meta\<lparr>m_name := n, m_namespace := ns\<rparr>"
  by (simp_all add: new_orc_def)

text \<open>What the code calls in K-ORC's API package.\<close>

record orc_api =
  orc_available :: "orc_object \<Rightarrow> bool"
  orc_terminal :: "orc_object \<Rightarrow> err option"

definition korcAvailableUpToDate :: "orc_object \<Rightarrow> bool" where
  "korcAvailableUpToDate x =
     (case find (\<lambda>c. oc_type c = ConditionAvailable) (oo_conditions x) of
        None \<Rightarrow> False
      | Some c \<Rightarrow> oc_status c = CTrue \<and> oc_generation c = m_generation (oo_meta x))"

section \<open>Where Keystone is\<close>

definition externalKeystoneAuthURL :: "ControlPlane \<Rightarrow> string" where
  "externalKeystoneAuthURL cp =
     (case cp_keystone cp of None \<Rightarrow> [] | Some ks \<Rightarrow> (case kk_external ks of None \<Rightarrow> [] | Some e \<Rightarrow> ek_auth_url e))"

definition externalCABundleRef :: "ControlPlane \<Rightarrow> SecretRefSpec option" where
  "externalCABundleRef cp =
     (if \<not> IsExternalKeystone cp then None
      else case cp_keystone cp of None \<Rightarrow> None | Some ks \<Rightarrow> (case kk_external ks of None \<Rightarrow> None | Some e \<Rightarrow> ek_ca_bundle e))"

definition managedServiceURL :: "string \<Rightarrow> string \<Rightarrow> int \<Rightarrow> string \<Rightarrow> string" where
  "managedServiceURL name namespace port path =
     ''http://'' @ name @ ''.'' @ namespace @ ''.svc:'' @ show_int port @ path"

definition keystoneEndpointURL :: "ControlPlane \<Rightarrow> string" where
  "keystoneEndpointURL cp = managedServiceURL (keystoneName cp) (KeystoneNamespace cp) 5000 ''/v3''"

definition keystonePublicEndpoint :: "ServiceKeystoneSpec option \<Rightarrow> string" where
  "keystonePublicEndpoint ks =
     (case ks of
        None \<Rightarrow> []
      | Some k \<Rightarrow>
          if kk_public_endpoint k \<noteq> [] then kk_public_endpoint k
          else case kk_gateway k of None \<Rightarrow> [] | Some g \<Rightarrow> ''https://'' @ gw_hostname g @ ''/v3'')"

definition keystoneCatalogURL :: "ControlPlane \<Rightarrow> string" where
  "keystoneCatalogURL cp =
     (let pe = keystonePublicEndpoint (cp_keystone cp) in if pe \<noteq> [] then pe else keystoneEndpointURL cp)"

section \<open>clouds.yaml\<close>

definition appCredCloudsYAMLKey :: string where "appCredCloudsYAMLKey = ''clouds.yaml''"
definition korcCACertKey :: string where "korcCACertKey = ''cacert''"
definition managedEndpointType :: string where "managedEndpointType = ''internal''"
definition defaultRegion :: string where "defaultRegion = ''RegionOne''"

definition korcAuthURL :: "ControlPlane \<Rightarrow> string" where
  "korcAuthURL cp = (if IsExternalKeystone cp then externalKeystoneAuthURL cp else keystoneEndpointURL cp)"

definition korcEndpointType :: "ControlPlane \<Rightarrow> string" where
  "korcEndpointType cp =
     (if \<not> IsExternalKeystone cp then managedEndpointType
      else case cp_keystone cp of
        None \<Rightarrow> ExternalEndpointTypePublic
      | Some ks \<Rightarrow>
          (case kk_external ks of
             None \<Rightarrow> ExternalEndpointTypePublic
           | Some e \<Rightarrow> if ek_endpoint_type e \<noteq> [] then ek_endpoint_type e else ExternalEndpointTypePublic))"

definition korcRegion :: "ControlPlane \<Rightarrow> string" where
  "korcRegion cp = or_default (cs_region (cp_spec cp)) defaultRegion"

definition korcCloudName :: "ControlPlane \<Rightarrow> string" where
  "korcCloudName cp = or_default (cc_cloud (ac_cloud (cp_admin cp))) ''admin''"

text \<open>\<open>quote\<close> is the verb \<open>%q\<close> of \<open>fmt\<close>.\<close>

definition yaml_line :: "nat \<Rightarrow> string \<Rightarrow> string" where
  "yaml_line indent text = replicate indent CHR '' '' @ text @ [CHR 0x0A]"

definition buildAppCredCloudsYAML :: "(string \<Rightarrow> string) \<Rightarrow> ControlPlane \<Rightarrow> string \<Rightarrow> string \<Rightarrow> string" where
  "buildAppCredCloudsYAML quote cp acID secret =
     yaml_line 0 ''clouds:'' @ yaml_line 2 (quote (korcCloudName cp) @ '':'') @ yaml_line 4 ''auth:'' @
     yaml_line 6 (''auth_url: '' @ quote (korcAuthURL cp)) @
     yaml_line 6 (''application_credential_id: '' @ quote acID) @
     yaml_line 6 (''application_credential_secret: '' @ quote secret) @
     yaml_line 4 ''auth_type: v3applicationcredential'' @
     yaml_line 4 (''region_name: '' @ quote (korcRegion cp)) @
     yaml_line 4 (''endpoint_type: '' @ korcEndpointType cp) @
     yaml_line 4 ''identity_api_version: 3''"

definition buildServiceAccountCloudsYAML ::
  "(string \<Rightarrow> string) \<Rightarrow> ControlPlane \<Rightarrow> string \<Rightarrow> string \<Rightarrow> string \<Rightarrow> string \<Rightarrow> string" where
  "buildServiceAccountCloudsYAML quote cp userName projectName domainName password =
     yaml_line 0 ''clouds:'' @ yaml_line 2 (quote (korcCloudName cp) @ '':'') @ yaml_line 4 ''auth:'' @
     yaml_line 6 (''auth_url: '' @ quote (korcAuthURL cp)) @
     yaml_line 6 (''username: '' @ quote userName) @
     yaml_line 6 (''password: '' @ quote password) @
     yaml_line 6 (''project_name: '' @ quote projectName) @
     yaml_line 6 (''user_domain_name: '' @ quote domainName) @
     yaml_line 6 (''project_domain_name: '' @ quote domainName) @
     yaml_line 4 (''region_name: '' @ quote (korcRegion cp)) @
     yaml_line 4 (''endpoint_type: '' @ korcEndpointType cp) @
     yaml_line 4 ''identity_api_version: 3''"

definition buildPasswordCloudsYAML :: "(string \<Rightarrow> string) \<Rightarrow> ControlPlane \<Rightarrow> string \<Rightarrow> string" where
  "buildPasswordCloudsYAML quote cp password =
     buildServiceAccountCloudsYAML quote cp (adminUserName cp) (adminProjectName cp) (adminDomainName cp) password"

section \<open>Failures of an external Keystone\<close>

definition conditionReasonExternallyManaged :: string where "conditionReasonExternallyManaged = ''ExternallyManaged''"
definition conditionReasonAuthenticationFailed :: string where "conditionReasonAuthenticationFailed = ''AuthenticationFailed''"
definition conditionReasonEndpointUnreachable :: string where "conditionReasonEndpointUnreachable = ''EndpointUnreachable''"
definition conditionReasonTLSVerificationFailed :: string where "conditionReasonTLSVerificationFailed = ''TLSVerificationFailed''"
definition conditionReasonCatalogEndpointMismatch :: string where
  "conditionReasonCatalogEndpointMismatch = ''CatalogEndpointMismatch''"
definition conditionReasonImportStalled :: string where "conditionReasonImportStalled = ''ImportStalled''"
definition conditionReasonCredentialDrift :: string where "conditionReasonCredentialDrift = ''CredentialDrift''"
definition conditionReasonInfrastructureNotConfigured :: string where
  "conditionReasonInfrastructureNotConfigured = ''InfrastructureNotConfigured''"

definition isCredentialDriftReason :: "string \<Rightarrow> bool" where
  "isCredentialDriftReason reason \<longleftrightarrow>
     reason = conditionReasonAuthenticationFailed \<or> reason = conditionReasonCredentialDrift"

definition korcImportPendingExternalMarker :: string where
  "korcImportPendingExternalMarker = ''Waiting for OpenStack resource to be created externally''"
definition korcImportMultipleMatchesMarker :: string where
  "korcImportMultipleMatchesMarker = ''found more than one matching OpenStack resource during import''"

definition catalogEndpointMismatchHint :: "ControlPlane \<Rightarrow> msg" where
  "catalogEndpointMismatchHint cp =
     Msg ''the external catalog must publish the %q interface in region %q (spec.services.keystone.external.endpointType and spec.region)''
       [Str (korcEndpointType cp), Str (korcRegion cp)]"

definition classifyKORCMessage :: "string \<Rightarrow> string" where
  "classifyKORCMessage m =
     (if str_contains m ''No suitable endpoint could be found in the service catalog'' then conditionReasonCatalogEndpointMismatch
      else if str_contains m ''identity:create_application_credential'' then conditionReasonCredentialDrift
      else if str_contains m ''x509'' then conditionReasonTLSVerificationFailed
      else if str_contains m ''401'' \<or> str_contains m ''Unauthorized'' then conditionReasonAuthenticationFailed
      else if str_contains m ''no such host'' \<or> str_contains m ''connection refused'' \<or> str_contains m ''dial tcp'' \<or>
           str_contains m ''i/o timeout'' then conditionReasonEndpointUnreachable
      else [])"

fun classify_conditions :: "orc_condition list \<Rightarrow> string \<times> string" where
  "classify_conditions [] = ([], [])"
| "classify_conditions (c # cs) =
     (let reason = classifyKORCMessage (oc_message c) in if reason \<noteq> [] then (reason, oc_message c) else classify_conditions cs)"

definition classifyKORCObject :: "orc_object \<Rightarrow> string \<times> string" where
  "classifyKORCObject x = classify_conditions (oo_conditions x)"

fun classifyExternalKORCFailure :: "orc_object list \<Rightarrow> string \<times> string" where
  "classifyExternalKORCFailure [] = ([], [])"
| "classifyExternalKORCFailure (x # xs) =
     (let (reason, raw) = classifyKORCObject x in if reason \<noteq> [] then (reason, raw) else classifyExternalKORCFailure xs)"

definition korcImportStalled :: "orc_object option \<Rightarrow> duration \<Rightarrow> instant \<Rightarrow> bool" where
  "korcImportStalled obj grace now =
     (case obj of
        None \<Rightarrow> False
      | Some x \<Rightarrow>
          (case find (\<lambda>c. oc_type c = ConditionAvailable) (oo_conditions x) of
             None \<Rightarrow> False
           | Some c \<Rightarrow> oc_status c = CFalse \<and> str_contains (oc_message c) korcImportPendingExternalMarker \<and>
                       now - oc_transition c > grace))"

definition korcImportPendingExternal :: "orc_object option \<Rightarrow> bool" where
  "korcImportPendingExternal obj =
     (case obj of
        None \<Rightarrow> False
      | Some x \<Rightarrow>
          (case find (\<lambda>c. oc_type c = ConditionAvailable) (oo_conditions x) of
             None \<Rightarrow> False
           | Some c \<Rightarrow> oc_status c = CFalse \<and> str_contains (oc_message c) korcImportPendingExternalMarker))"

text \<open>An object that is available for its generation is not taken for an absent one, nor for one that waits.\<close>

lemma available_not_pending:
  "korcAvailableUpToDate x \<Longrightarrow> \<not> korcImportPendingExternal (Some x) \<and> \<not> korcImportStalled (Some x) grace now"
  by (auto simp: korcAvailableUpToDate_def korcImportPendingExternal_def korcImportStalled_def split: option.splits)

lemma classify_conditions_verbatim:
  "classify_conditions cs = (reason, raw) \<Longrightarrow> reason \<noteq> [] \<Longrightarrow>
     reason = classifyKORCMessage raw \<and> raw \<in> oc_message ` set cs"
  by (induction cs) (auto simp: Let_def split: if_splits)

lemma classify_verbatim:
  "classifyExternalKORCFailure xs = (reason, raw) \<Longrightarrow> reason \<noteq> [] \<Longrightarrow>
     reason = classifyKORCMessage raw \<and> (\<exists>x\<in>set xs. raw \<in> oc_message ` set (oo_conditions x))"
  by (induction xs) (auto simp: classifyKORCObject_def Let_def dest: classify_conditions_verbatim split: prod.splits if_splits)

end
