(* ===== verification/ControlPlaneSecrets.thy ===== *)
theory ControlPlaneSecrets
  imports ControlPlaneOrc
begin

text \<open>
  The secrets of a control plane in front of its services: the tenant stores (\<open>reconcile_esotenant.go\<close>), the database
  credentials (\<open>reconcile_dbcredentials.go\<close>) and the admin password (\<open>reconcile_adminpassword.go\<close>), all in
  \<open>operators/c5c3/internal/controller\<close>.  Writes to a Certificate cannot fail where the source ignores their errors, so
  the unstructured object is a record here.
\<close>

section \<open>The objects\<close>

record external_secret =
  es_meta :: objmeta
  es_refresh :: duration
  es_store :: "(string \<times> string) option"
  es_target :: string
  es_creation_policy :: string
  es_data :: "(string \<times> string \<times> string) list"       \<comment> \<open>secret key, remote key, property\<close>
  es_generator :: "(string \<times> string \<times> string) option"  \<comment> \<open>API version, kind, name\<close>

record vault_provider =
  vp_server :: string
  vp_path :: "string option"
  vp_version :: string
  vp_mount :: string
  vp_role :: string
  vp_account :: string
  vp_client_cert :: string
  vp_client_key :: string
  vp_ca :: "string \<times> string \<times> string"                 \<comment> \<open>type, name, key\<close>

record secret_store =
  sv_meta :: objmeta
  sv_provider :: vault_provider

record vault_dynamic_secret =
  vd_meta :: objmeta
  vd_path :: string
  vd_method :: string
  vd_provider :: vault_provider

record client_certificate =
  tc_meta :: objmeta
  tc_secret :: string
  tc_duration :: string
  tc_renew_before :: string
  tc_usages :: "string list"
  tc_common_name :: string
  tc_issuer :: "string \<times> string"                      \<comment> \<open>name, kind\<close>

text \<open>What the code calls for one kind of object: metadata and ownership, the client, Server-Side Apply.\<close>

record ('o, 'u, 'w) kind_api =
  kd_own :: "'o own_api"
  kd_client :: "('o, 'w) kclient"
  kd_ssa :: "('o, 'u, 'w) ssa_api"

definition ensure_owned :: "('o, 'u, 'w) kind_api \<Rightarrow> ControlPlane \<Rightarrow> 'o \<Rightarrow> 'w \<Rightarrow> 'o result \<times> 'w" where
  "ensure_owned A cp x w = ensureUnownedOrOwned (kd_own A) (kd_client A) (kd_ssa A) cp x w"

text \<open>
  \<open>sx_connection\<close> reads the Vault server and the Kubernetes mount of a store, each empty when it is absent;
  \<open>sx_create_or_update\<close> is \<open>controllerutil.CreateOrUpdate\<close> on a Certificate.
\<close>

record ('u, 'w) secrets_env =
  sx_meta :: meta_api
  sx_eso :: "'w eso_env"
  sx_external :: "(external_secret, 'u, 'w) kind_api"
  sx_store :: "(secret_store, 'u, 'w) kind_api"
  sx_account :: "(objmeta, 'u, 'w) kind_api"
  sx_dynamic :: "(vault_dynamic_secret, 'u, 'w) kind_api"
  sx_certificate :: "client_certificate own_api"
  sx_create_or_update :: "(client_certificate, 'w) create_or_update"
  sx_delete_certificate :: "objkey \<Rightarrow> 'w \<Rightarrow> err option \<times> 'w"
  sx_connection :: "string \<Rightarrow> objkey \<Rightarrow> 'w \<Rightarrow> (string \<times> string) result"

section \<open>Names and paths\<close>

definition esoTenantVaultRole :: string where "esoTenantVaultRole = ''eso-tenant''"
definition esoTenantKVMountPath :: string where "esoTenantKVMountPath = ''kv-v2''"
definition dbDynamicVaultRole :: string where "dbDynamicVaultRole = ''keystone-db''"
definition openBaoDefaultServer :: string where "openBaoDefaultServer = ''https://openbao.openbao-system.svc:8200''"
definition openBaoDefaultKubernetesMount :: string where "openBaoDefaultKubernetesMount = ''kubernetes/management''"
definition openBaoCAIssuerName :: string where "openBaoCAIssuerName = ''openbao-ca-issuer''"
definition dbCredentialClientCertDuration :: string where "dbCredentialClientCertDuration = ''8760h''"
definition dbCredentialClientCertRenewBefore :: string where "dbCredentialClientCertRenewBefore = ''720h''"
definition esoTenantClientCertDuration :: string where "esoTenantClientCertDuration = dbCredentialClientCertDuration"
definition esoTenantClientCertRenewBefore :: string where
  "esoTenantClientCertRenewBefore = dbCredentialClientCertRenewBefore"
definition dbCredentialRefreshInterval :: duration where "dbCredentialRefreshInterval = hours 24"

definition adminPasswordRemoteKeyFor :: "ControlPlane \<Rightarrow> string" where
  "adminPasswordRemoteKeyFor cp = ''bootstrap/'' @ KeystoneNamespace cp @ ''/'' @ keystoneName cp @ ''/admin''"

definition dbCredentialRemoteKeyFor :: "ControlPlane \<Rightarrow> string" where
  "dbCredentialRemoteKeyFor cp = ''openstack/keystone/'' @ KeystoneNamespace cp @ ''/'' @ cp_name cp @ ''/db''"

definition dbDynamicRoleFor :: "ControlPlane \<Rightarrow> string" where
  "dbDynamicRoleFor cp = ''keystone-'' @ KeystoneNamespace cp"

definition dbDynamicCredsPathFor :: "ControlPlane \<Rightarrow> string" where
  "dbDynamicCredsPathFor cp = ''database/mariadb/creds/'' @ dbDynamicRoleFor cp"

definition effectiveControlPlaneStoreRefPtr :: "ControlPlane \<Rightarrow> SecretStoreRefSpec option" where
  "effectiveControlPlaneStoreRefPtr cp = Some (effectiveControlPlaneStoreRef cp)"

section \<open>Builders\<close>

definition named_meta :: "string \<Rightarrow> string \<Rightarrow> objmeta" where
  "named_meta namespace name = blank_meta\<lparr>m_name := name, m_namespace := namespace\<rparr>"

definition esoTenantServiceAccount :: "string \<Rightarrow> objmeta" where
  "esoTenantServiceAccount namespace = named_meta namespace esoTenantServiceAccountName"

definition applyESOTenantCertificateSpec :: "string \<Rightarrow> client_certificate \<Rightarrow> client_certificate" where
  "applyESOTenantCertificateSpec namespace u =
     u\<lparr>tc_secret := esoTenantClientCertName, tc_duration := esoTenantClientCertDuration,
       tc_renew_before := esoTenantClientCertRenewBefore, tc_usages := [''client auth''],
       tc_common_name := esoTenantClientCertName @ ''.'' @ namespace @ ''.svc'',
       tc_issuer := (openBaoCAIssuerName, ''ClusterIssuer'')\<rparr>"

definition esoTenantSecretStore :: "string \<Rightarrow> string \<Rightarrow> string \<Rightarrow> secret_store" where
  "esoTenantSecretStore namespace server mountPath =
     \<lparr>sv_meta = named_meta namespace esoTenantStoreName,
      sv_provider = \<lparr>vp_server = server, vp_path = Some esoTenantKVMountPath, vp_version = ''v2'', vp_mount = mountPath,
        vp_role = esoTenantVaultRole, vp_account = esoTenantServiceAccountName, vp_client_cert = esoTenantClientCertName,
        vp_client_key = esoTenantClientCertName, vp_ca = (''Secret'', esoTenantClientCertName, ''ca.crt'')\<rparr>\<rparr>"

definition dbCredentialServiceAccount :: "ControlPlane \<Rightarrow> objmeta" where
  "dbCredentialServiceAccount cp = named_meta (KeystoneNamespace cp) dbCredentialServiceAccountName"

definition applyDBCredentialCertificateSpec :: "ControlPlane \<Rightarrow> client_certificate \<Rightarrow> client_certificate" where
  "applyDBCredentialCertificateSpec cp u =
     u\<lparr>tc_secret := dbCredentialClientCertName cp, tc_duration := dbCredentialClientCertDuration,
       tc_renew_before := dbCredentialClientCertRenewBefore, tc_usages := [''client auth''],
       tc_common_name := dbCredentialClientCertName cp @ ''.'' @ KeystoneNamespace cp @ ''.svc'',
       tc_issuer := (openBaoCAIssuerName, ''ClusterIssuer'')\<rparr>"

definition dbCredentialVaultDynamicSecret :: "ControlPlane \<Rightarrow> string \<Rightarrow> string \<Rightarrow> vault_dynamic_secret" where
  "dbCredentialVaultDynamicSecret cp server mountPath =
     (let cert = dbCredentialClientCertName cp in
      \<lparr>vd_meta = named_meta (KeystoneNamespace cp) (dbCredentialSecretName cp), vd_path = dbDynamicCredsPathFor cp,
       vd_method = ''GET'',
       vd_provider = \<lparr>vp_server = server, vp_path = None, vp_version = ''v2'', vp_mount = mountPath, vp_role = dbDynamicVaultRole,
         vp_account = dbCredentialServiceAccountName, vp_client_cert = cert, vp_client_key = cert,
         vp_ca = (''Secret'', cert, ''ca.crt'')\<rparr>\<rparr>)"

definition dbCredentialGeneratorExternalSecret :: "ControlPlane \<Rightarrow> external_secret" where
  "dbCredentialGeneratorExternalSecret cp =
     (let name = dbCredentialSecretName cp in
      \<lparr>es_meta = named_meta (KeystoneNamespace cp) name, es_refresh = dbCredentialRefreshInterval, es_store = None,
       es_target = name, es_creation_policy = ''Owner'', es_data = [],
       es_generator = Some (''generators.external-secrets.io/v1alpha1'', ''VaultDynamicSecret'', name)\<rparr>)"

definition dbCredentialStaticExternalSecret :: "ControlPlane \<Rightarrow> external_secret" where
  "dbCredentialStaticExternalSecret cp =
     (let name = dbCredentialSecretName cp; key = dbCredentialRemoteKeyFor cp in
      \<lparr>es_meta = named_meta (KeystoneNamespace cp) name, es_refresh = hours 1,
       es_store = Some (ESOSecretStoreRef (effectiveControlPlaneStoreRef cp)), es_target = name, es_creation_policy = ''Owner'',
       es_data = [(''username'', key, ''username''), (''password'', key, ''password'')], es_generator = None\<rparr>)"

definition adminPasswordExternalSecret :: "ControlPlane \<Rightarrow> external_secret" where
  "adminPasswordExternalSecret cp =
     (let name = adminPasswordSecretName cp in
      \<lparr>es_meta = named_meta (KeystoneNamespace cp) name, es_refresh = hours 1,
       es_store = Some (ESOSecretStoreRef (effectiveControlPlaneStoreRef cp)), es_target = name, es_creation_policy = ''Owner'',
       es_data = [(''password'', adminPasswordRemoteKeyFor cp, ''password'')], es_generator = None\<rparr>)"

section \<open>Which credential\<close>

definition dbCredentialsDynamicEnabled :: "ControlPlane \<Rightarrow> bool" where
  "dbCredentialsDynamicEnabled cp =
     (if DedicatedKeystoneDatabase cp \<noteq> None then False
      else case effectiveKeystoneDatabase cp of
        None \<Rightarrow> False
      | Some db \<Rightarrow> db_cluster_ref db \<noteq> None \<and> db_credentials_mode db \<noteq> CredentialsModeStatic)"

definition shared_database_managed :: "ControlPlane \<Rightarrow> bool" where
  "shared_database_managed cp =
     (case cs_infrastructure (cp_spec cp) of None \<Rightarrow> False | Some i \<Rightarrow> db_cluster_ref (if_database i) \<noteq> None)"

definition effectiveAdminPasswordSecretNamespace :: "ControlPlane \<Rightarrow> string" where
  "effectiveAdminPasswordSecretNamespace cp =
     (if IsExternalKeystone cp then childNamespace cp
      else if shared_database_managed cp then KeystoneNamespace cp else childNamespace cp)"

definition effectiveAdminPasswordSecretRef :: "ControlPlane \<Rightarrow> SecretRefSpec" where
  "effectiveAdminPasswordSecretRef cp =
     (if IsExternalKeystone cp then ac_password_ref (cp_admin cp)
      else if shared_database_managed cp then \<lparr>sr_name = adminPasswordSecretName cp, sr_key = ''password''\<rparr>
      else ac_password_ref (cp_admin cp))"

section \<open>The tenant stores\<close>

definition openBaoConnection ::
  "('u, 'w) secrets_env \<Rightarrow> ControlPlane \<Rightarrow> SecretStoreRefSpec \<Rightarrow> 'w \<Rightarrow> string \<times> string" where
  "openBaoConnection E cp ref w =
     (case (if st_kind ref = SecretStoreKindNamespaced then sx_connection E SecretStoreKindNamespaced (cp_namespace cp, st_name ref) w
            else sx_connection E SecretStoreKindCluster ([], st_name ref) w) of
        Inl e \<Rightarrow> (openBaoDefaultServer, openBaoDefaultKubernetesMount)
      | Inr (server, mount) \<Rightarrow> (or_default server openBaoDefaultServer, or_default mount openBaoDefaultKubernetesMount))"

text \<open>Ensuring a certificate: a foreign one in another namespace is refused, and nothing is written.\<close>

definition blank_certificate :: "string \<Rightarrow> string \<Rightarrow> client_certificate" where
  "blank_certificate namespace name =
     \<lparr>tc_meta = named_meta namespace name, tc_secret = [], tc_duration = [], tc_renew_before = [], tc_usages = [],
      tc_common_name = [], tc_issuer = ([], [])\<rparr>"

definition ensure_certificate ::
  "('u, 'w) secrets_env \<Rightarrow> ControlPlane \<Rightarrow> string \<Rightarrow> string \<Rightarrow> (client_certificate \<Rightarrow> client_certificate) \<Rightarrow> 'w \<Rightarrow>
     err option \<times> 'w" where
  "ensure_certificate E cp namespace name spec w =
     (case sx_create_or_update E
             (\<lambda>live. case refuseForeignAdoption (sx_certificate E) cp live of
                       Some e \<Rightarrow> Inl e
                     | None \<Rightarrow> claimChildOwnership (sx_certificate E) cp (spec live))
             (blank_certificate namespace name) w of
        (Inl e, w') \<Rightarrow> (Some e, w')
      | (Inr _, w') \<Rightarrow> (None, w'))"

fun ensure_tenant_stores ::
  "('u, 'w) secrets_env \<Rightarrow> ControlPlane \<Rightarrow> string \<Rightarrow> string \<Rightarrow> string list \<Rightarrow> 'w \<Rightarrow> err option \<times> 'w" where
  "ensure_tenant_stores E cp server mountPath [] w = (None, w)"
| "ensure_tenant_stores E cp server mountPath (ns # nss) w =
     (case ensure_owned (sx_account E) cp (esoTenantServiceAccount ns) w of
        (Inl e, w1) \<Rightarrow> (Some (Errorf ''ensuring per-tenant ServiceAccount in namespace %q: %w'' [Str ns, Wrap e]), w1)
      | (Inr _, w1) \<Rightarrow>
          (case ensure_certificate E cp ns esoTenantClientCertName (applyESOTenantCertificateSpec ns) w1 of
             (Some e, w2) \<Rightarrow> (Some (Errorf ''ensuring per-tenant client Certificate in namespace %q: %w'' [Str ns, Wrap e]), w2)
           | (None, w2) \<Rightarrow>
               (case ensure_owned (sx_store E) cp (esoTenantSecretStore ns server mountPath) w2 of
                  (Inl e, w3) \<Rightarrow> (Some (Errorf ''ensuring per-tenant SecretStore in namespace %q: %w'' [Str ns, Wrap e]), w3)
                | (Inr _, w3) \<Rightarrow> ensure_tenant_stores E cp server mountPath nss w3)))"

definition ensureESOTenantStoreObjects :: "('u, 'w) secrets_env \<Rightarrow> ControlPlane \<Rightarrow> 'w \<Rightarrow> err option \<times> 'w" where
  "ensureESOTenantStoreObjects E cp w =
     (case openBaoConnection E cp (EffectiveStoreRef None) w of
        (server, mountPath) \<Rightarrow> ensure_tenant_stores E cp server mountPath (controlPlaneNamespaces cp) w)"

fun first_unready_store :: "'w eso_env \<Rightarrow> string list \<Rightarrow> 'w \<Rightarrow> string option result" where
  "first_unready_store E [] w = Inr None"
| "first_unready_store E (ns # nss) w =
     (case IsSecretStoreReady E esoTenantStoreName ns w of
        Inl e \<Rightarrow> Inl e
      | Inr ready \<Rightarrow> if \<not> ready then Inr (Some ns) else first_unready_store E nss w)"

definition reconcileESOTenantStore :: "('u, 'w) secrets_env \<Rightarrow> 'w cp_step" where
  "reconcileESOTenantStore E s =
     (let (cp, w) = s; report = cp_report (sx_meta E) conditionTypeESOTenantStoreReady in
      case cs_store_ref (cp_spec cp) of
        Some r \<Rightarrow>
          (let ref = EffectiveStoreRef (Some r) in
           ((zero_result, None), report CTrue ''StoreRefOverridden''
              (Msg ''explicit spec.secretStoreRef (%s %q) overrides the operator-provisioned per-tenant store; its readiness is gated by the store-consuming sub-reconcilers''
                 [Str (st_kind ref), Str (st_name ref)]) cp, w))
      | None \<Rightarrow>
          (case ensureESOTenantStoreObjects E cp w of
             (Some e, w') \<Rightarrow>
               ((zero_result, Some e), report CFalse ''ProvisioningError''
                  (Msg ''ensuring per-tenant secret store objects: %v'' [Val e]) cp, w')
           | (None, w') \<Rightarrow>
               (case first_unready_store (sx_eso E) (controlPlaneNamespaces cp) w' of
                  Inl e \<Rightarrow> ((zero_result, Some e), cp, w')
                | Inr (Some ns) \<Rightarrow>
                    ((after esoTenantStoreRequeueAfter, None), report CFalse ''SecretStoreNotReady''
                       (Msg ''per-tenant SecretStore %q in namespace %q is not ready yet; waiting on cert issuance and the OpenBao backend''
                          [Str esoTenantStoreName, Str ns]) cp, w')
                | Inr None \<Rightarrow>
                    ((zero_result, None), report CTrue ''ESOTenantStoreReady''
                       (Msg ''per-tenant SecretStore %q is Ready in all %d namespace(s) of this ControlPlane''
                          [Str esoTenantStoreName, Num (int (length (controlPlaneNamespaces cp)))]) cp, w'))))"

section \<open>The database credentials\<close>

definition dbCredentialNotReadyMessage :: "ControlPlane \<Rightarrow> msg" where
  "dbCredentialNotReadyMessage cp =
     (if dbCredentialsDynamicEnabled cp then Msg ''DB credential ExternalSecret is not yet Ready'' []
      else Msg ''DB credential ExternalSecret is not yet Ready: credentialsMode Static reads the credential from OpenBao KV key %q, which neither the operator nor the bootstrap seeds; seed it (username, password) out-of-band before this ControlPlane can reach Ready''
             [Str (dbCredentialRemoteKeyFor cp)])"

definition ensureDynamicDBCredentialObjects :: "('u, 'w) secrets_env \<Rightarrow> ControlPlane \<Rightarrow> 'w \<Rightarrow> err option \<times> 'w" where
  "ensureDynamicDBCredentialObjects E cp w =
     (case openBaoConnection E cp (effectiveControlPlaneStoreRef cp) w of
        (server, mountPath) \<Rightarrow>
          (case ensure_owned (sx_account E) cp (dbCredentialServiceAccount cp) w of
             (Inl e, w1) \<Rightarrow> (Some (Errorf ''ensuring DB credential ServiceAccount: %w'' [Wrap e]), w1)
           | (Inr _, w1) \<Rightarrow>
               (case ensure_certificate E cp (KeystoneNamespace cp) (dbCredentialClientCertName cp)
                       (applyDBCredentialCertificateSpec cp) w1 of
                  (Some e, w2) \<Rightarrow> (Some (Errorf ''ensuring DB credential Certificate: %w'' [Wrap e]), w2)
                | (None, w2) \<Rightarrow>
                    (case ensure_owned (sx_dynamic E) cp (dbCredentialVaultDynamicSecret cp server mountPath) w2 of
                       (Inl e, w3) \<Rightarrow> (Some (Errorf ''ensuring VaultDynamicSecret generator: %w'' [Wrap e]), w3)
                     | (Inr _, w3) \<Rightarrow>
                         (case ensure_owned (sx_external E) cp (dbCredentialGeneratorExternalSecret cp) w3 of
                            (Inl e, w4) \<Rightarrow> (Some (Errorf ''ensuring DB credential ExternalSecret: %w'' [Wrap e]), w4)
                          | (Inr _, w4) \<Rightarrow> (None, w4))))))"

definition deleteDynamicDBCredentialObjects :: "('u, 'w) secrets_env \<Rightarrow> ControlPlane \<Rightarrow> 'w \<Rightarrow> 'w" where
  "deleteDynamicDBCredentialObjects E cp w =
     (let ns = KeystoneNamespace cp;
          w1 = snd (k_delete (kd_client (sx_dynamic E)) no_opts (dbCredentialVaultDynamicSecret cp [] []) w);
          w2 = snd (sx_delete_certificate E (ns, dbCredentialClientCertName cp) w1)
      in snd (k_delete (kd_client (sx_account E)) no_opts (dbCredentialServiceAccount cp) w2))"

definition waitDBCredentialExternalSecret :: "('u, 'w) secrets_env \<Rightarrow> 'w cp_step" where
  "waitDBCredentialExternalSecret E s =
     (let (cp, w) = s; report = cp_report (sx_meta E) conditionTypeDBCredentialsReady in
      case WaitForExternalSecret (sx_eso E) (KeystoneNamespace cp, dbCredentialSecretName cp) w of
        (_, _, Some e) \<Rightarrow>
          ((zero_result, Some e), report CFalse ''ExternalSecretError''
             (Msg ''checking DB credential ExternalSecret: %v'' [Val e]) cp, w)
      | (_, ready, None) \<Rightarrow>
          if \<not> ready
          then ((after dbCredentialsRequeueAfter, None),
                report CFalse ''WaitingForDBCredentialSecret'' (dbCredentialNotReadyMessage cp) cp, w)
          else ((zero_result, None),
                report CTrue ''DBCredentialsReady'' (Msg ''DB credential ExternalSecret is Ready'' []) cp, w))"

definition store_not_ready :: "SecretStoreRefSpec \<Rightarrow> msg" where
  "store_not_ready ref = Msg ''%s %q is not ready; upstream secret backend unreachable'' [Str (st_kind ref), Str (st_name ref)]"

definition reconcileDBCredentials :: "('u, 'w) secrets_env \<Rightarrow> 'w cp_step" where
  "reconcileDBCredentials E s =
     (let (cp, w) = s; report = cp_report (sx_meta E) conditionTypeDBCredentialsReady; ref = effectiveControlPlaneStoreRef cp in
      if IsExternalKeystone cp
      then ((zero_result, None), report CTrue conditionReasonExternallyManaged
              (Msg ''External keystone mode: the ControlPlane manages no database (external Keystone at %s); no DB-credential ExternalSecret is projected''
                 [Str (externalKeystoneAuthURL cp)]) cp, w)
      else if (case effectiveKeystoneDatabase cp of None \<Rightarrow> True | Some db \<Rightarrow> db_cluster_ref db = None)
      then ((zero_result, None), report CTrue ''BrownfieldUserSuppliedCredential''
              (Msg ''brownfield database: the user supplies the DB credential Secret out-of-band; no ExternalSecret is projected'' []) cp, w)
      else case IsStoreRefReady (sx_eso E) ref (KeystoneNamespace cp) w of
        Inl e \<Rightarrow> ((zero_result, Some e), cp, w)
      | Inr False \<Rightarrow> ((after dbCredentialsRequeueAfter, None), report CFalse ''SecretStoreNotReady'' (store_not_ready ref) cp, w)
      | Inr True \<Rightarrow>
          if dbCredentialsDynamicEnabled cp
          then (case ensureDynamicDBCredentialObjects E cp w of
                  (Some e, w') \<Rightarrow>
                    ((zero_result, Some e), report CFalse ''GeneratorError''
                       (Msg ''ensuring dynamic DB credential objects: %v'' [Val e]) cp, w')
                | (None, w') \<Rightarrow> waitDBCredentialExternalSecret E (cp, w'))
          else (case ensure_owned (sx_external E) cp (dbCredentialStaticExternalSecret cp) (deleteDynamicDBCredentialObjects E cp w) of
                  (Inl e, w') \<Rightarrow>
                    ((zero_result, Some e), report CFalse ''ExternalSecretError''
                       (Msg ''ensuring DB credential ExternalSecret: %v'' [Val e]) cp, w')
                | (Inr _, w') \<Rightarrow> waitDBCredentialExternalSecret E (cp, w')))"

section \<open>The admin password\<close>

definition reconcileAdminPassword :: "('u, 'w) secrets_env \<Rightarrow> 'w cp_step" where
  "reconcileAdminPassword E s =
     (let (cp, w) = s; report = cp_report (sx_meta E) conditionTypeAdminPasswordReady; ref = effectiveControlPlaneStoreRef cp in
      if IsExternalKeystone cp
      then ((zero_result, None), report CTrue conditionReasonExternallyManaged
              (Msg ''External keystone mode: the admin password is read from user-supplied Secret %q; no ExternalSecret is projected and no OpenBao bootstrap path is seeded (external Keystone at %s)''
                 [Str (sr_name (ac_password_ref (cp_admin cp))), Str (externalKeystoneAuthURL cp)]) cp, w)
      else if \<not> shared_database_managed cp
      then ((zero_result, None), report CTrue ''BrownfieldUserSuppliedCredential''
              (Msg ''brownfield database: the user supplies the admin password Secret out-of-band; no ExternalSecret is projected'' []) cp, w)
      else case IsStoreRefReady (sx_eso E) ref (KeystoneNamespace cp) w of
        Inl e \<Rightarrow> ((zero_result, Some e), cp, w)
      | Inr False \<Rightarrow> ((after adminPasswordRequeueAfter, None), report CFalse ''SecretStoreNotReady'' (store_not_ready ref) cp, w)
      | Inr True \<Rightarrow>
          (case ensure_owned (sx_external E) cp (adminPasswordExternalSecret cp) w of
             (Inl e, w') \<Rightarrow>
               ((zero_result, Some e), report CFalse ''ExternalSecretError''
                  (Msg ''ensuring admin password ExternalSecret: %v'' [Val e]) cp, w')
           | (Inr _, w') \<Rightarrow>
               (case WaitForExternalSecret (sx_eso E) (KeystoneNamespace cp, adminPasswordSecretName cp) w' of
                  (_, _, Some e) \<Rightarrow>
                    ((zero_result, Some e), report CFalse ''ExternalSecretError''
                       (Msg ''checking admin password ExternalSecret: %v'' [Val e]) cp, w')
                | (_, ready, None) \<Rightarrow>
                    if \<not> ready
                    then ((after adminPasswordRequeueAfter, None), report CFalse ''WaitingForAdminPasswordSecret''
                            (Msg ''admin password ExternalSecret is not yet Ready'' []) cp, w')
                    else ((zero_result, None), report CTrue ''AdminPasswordReady''
                            (Msg ''admin password ExternalSecret is Ready'' []) cp, w'))))"

end
