(* ===== verification/ControlPlaneInfra.thy ===== *)
theory ControlPlaneInfra
  imports ControlPlaneOrc
begin

text \<open>
  The backing services of a control plane,
  \<open>operators/c5c3/internal/controller/reconcile_infrastructure.go\<close>: the instances its services resolve to and the
  MariaDB and Memcached objects provisioned for them.  A Memcached has no Go type: \<open>unstructured_api\<close> holds what
  the code calls on the unstructured object \<open>'m\<close>.
\<close>

section \<open>The instances\<close>

definition infraMariaDBStorageSizeDefault :: string where
  "infraMariaDBStorageSizeDefault = DatabaseStorageSizeDefault"
definition infraMariaDBReplicasDefault :: int where
  "infraMariaDBReplicasDefault = 3"

definition keystoneDatabaseDeclaredAt :: "ControlPlane \<Rightarrow> string" where
  "keystoneDatabaseDeclaredAt cp =
     (if DedicatedKeystoneDatabase cp \<noteq> None then ''spec.services.keystone.dedicatedBackingServices.database''
      else ''spec.infrastructure.database'')"

definition keystoneCacheDeclaredAt :: "ControlPlane \<Rightarrow> string" where
  "keystoneCacheDeclaredAt cp =
     (if DedicatedKeystoneCache cp \<noteq> None then ''spec.services.keystone.dedicatedBackingServices.cache''
      else ''spec.infrastructure.cache'')"

definition horizonCacheDeclaredAt :: "ControlPlane \<Rightarrow> string" where
  "horizonCacheDeclaredAt cp =
     (if DedicatedHorizonCache cp \<noteq> None then ''spec.services.horizon.dedicatedBackingServices.cache''
      else ''spec.infrastructure.cache'')"

text \<open>The function \<open>ensure\<close> of an instance is given by the block it was made from.\<close>

datatype infra_block = DatabaseBlock DatabaseSpec | CacheBlock CacheSpec

record infra_instance =
  ii_kind :: string
  ii_name :: string
  ii_namespace :: string
  ii_declared :: string
  ii_error :: string
  ii_wait :: string
  ii_block :: infra_block

definition database_instance :: "DatabaseSpec option \<Rightarrow> string \<Rightarrow> string \<Rightarrow> infra_instance option" where
  "database_instance db namespace declaredAt =
     (case db of
        None \<Rightarrow> None
      | Some d \<Rightarrow>
          (case db_cluster_ref d of
             None \<Rightarrow> None
           | Some name \<Rightarrow> Some \<lparr>ii_kind = ''MariaDB'', ii_name = name, ii_namespace = namespace, ii_declared = declaredAt,
               ii_error = ''MariaDBError'', ii_wait = ''WaitingForDatabase'', ii_block = DatabaseBlock d\<rparr>))"

definition cache_instance :: "CacheSpec option \<Rightarrow> string \<Rightarrow> string \<Rightarrow> infra_instance option" where
  "cache_instance cache namespace declaredAt =
     (case cache of
        None \<Rightarrow> None
      | Some c \<Rightarrow>
          (case ca_cluster_ref c of
             None \<Rightarrow> None
           | Some name \<Rightarrow> Some \<lparr>ii_kind = ''Memcached'', ii_name = name, ii_namespace = namespace, ii_declared = declaredAt,
               ii_error = ''MemcachedError'', ii_wait = ''WaitingForCache'', ii_block = CacheBlock c\<rparr>))"

definition instance_key :: "infra_instance \<Rightarrow> string" where
  "instance_key i = ii_kind i @ ''/'' @ ii_namespace i @ ''/'' @ ii_name i"

fun claim_instances :: "infra_instance option list \<Rightarrow> string list \<Rightarrow> infra_instance list" where
  "claim_instances [] seen = []"
| "claim_instances (None # is) seen = claim_instances is seen"
| "claim_instances (Some i # is) seen =
     (if instance_key i \<in> set seen then claim_instances is seen
      else i # claim_instances is (instance_key i # seen))"

definition managedInfraInstances :: "ControlPlane \<Rightarrow> infra_instance list" where
  "managedInfraInstances cp =
     claim_instances
       ([database_instance (effectiveKeystoneDatabase cp) (KeystoneNamespace cp) (keystoneDatabaseDeclaredAt cp),
         cache_instance (effectiveKeystoneCache cp) (KeystoneNamespace cp) (keystoneCacheDeclaredAt cp)] @
        (if cp_horizon cp \<noteq> None
         then [cache_instance (effectiveHorizonCache cp) (HorizonNamespace cp) (horizonCacheDeclaredAt cp)] else [])) []"

section \<open>Provisioning\<close>

record MariaDB =
  mx_meta :: objmeta
  mx_replicas :: int
  mx_galera :: "bool option"
  mx_storage :: string
  mx_conditions :: "condition list"

record 'm unstructured_api =
  un_new :: "objkey \<Rightarrow> 'm"
  un_replicas :: "'m \<Rightarrow> int option result"
  un_set_replicas :: "int \<Rightarrow> 'm \<Rightarrow> 'm result"
  un_conditions :: "'m \<Rightarrow> string gomap option list option"

text \<open>\<open>in_quantity\<close> is \<open>resource.ParseQuantity\<close>.\<close>

record ('m, 'w) infra_env =
  in_meta :: meta_api
  in_mariadb :: "(MariaDB, 'w) kclient"
  in_mariadb_own :: "MariaDB own_api"
  in_quantity :: "string \<Rightarrow> string result"
  in_memcached :: "('m, 'w) kclient"
  in_memcached_own :: "'m own_api"
  in_unstructured :: "'m unstructured_api"

definition cluster_name :: "string option \<Rightarrow> string" where
  "cluster_name ref = (case ref of None \<Rightarrow> [] | Some n \<Rightarrow> n)"

definition ensureMariaDB ::
  "('m, 'w) infra_env \<Rightarrow> ControlPlane \<Rightarrow> DatabaseSpec \<Rightarrow> string \<Rightarrow> 'w \<Rightarrow> bool result \<times> 'w" where
  "ensureMariaDB E cp db namespace w =
     (let name = cluster_name (db_cluster_ref db);
          replicas = (if db_replicas db < 1 then infraMariaDBReplicasDefault else db_replicas db);
          galera = (replicas > 1);
          size = (if db_storage_size db = [] then infraMariaDBStorageSizeDefault else db_storage_size db);
          ready = (\<lambda>m. IsReady (in_meta E) (mx_conditions m))
      in case k_get (in_mariadb E) (namespace, name) w of
           Inl e \<Rightarrow>
             if \<not> is_not_found e then (Inl (Errorf ''getting MariaDB %q: %w'' [Str name, Wrap e]), w)
             else (case in_quantity E size of
                     Inl pe \<Rightarrow> (Inl (Errorf ''parsing MariaDB storage size %q: %w'' [Str size, Wrap pe]), w)
                   | Inr q \<Rightarrow>
                       (case claimChildOwnership (in_mariadb_own E) cp
                               \<lparr>mx_meta = blank_meta\<lparr>m_name := name, m_namespace := namespace\<rparr>, mx_replicas = replicas,
                                mx_galera = Some galera, mx_storage = q, mx_conditions = []\<rparr> of
                          Inl se \<Rightarrow> (Inl (Errorf ''claiming ownership of MariaDB %q: %w'' [Str name, Wrap se]), w)
                        | Inr fresh \<Rightarrow>
                            (case k_create (in_mariadb E) fresh w of
                               (Inl ce, w') \<Rightarrow> (Inl (Errorf ''creating MariaDB %q: %w'' [Str name, Wrap ce]), w')
                             | (Inr live, w') \<Rightarrow> (Inr (ready live), w'))))
         | Inr m \<Rightarrow>
             if isControlPlaneChild cp (mx_meta m) \<and> (mx_replicas m \<noteq> replicas \<or> (mx_galera m = Some True) \<noteq> galera)
             then (case k_update (in_mariadb E) (m\<lparr>mx_replicas := replicas, mx_galera := Some galera\<rparr>) w of
                     (Inl ue, w') \<Rightarrow> (Inl (Errorf ''updating owned MariaDB %q topology: %w'' [Str name, Wrap ue]), w')
                   | (Inr live, w') \<Rightarrow> (Inr (ready live), w'))
             else (Inr (ready m), w))"

fun any_ready :: "string gomap option list \<Rightarrow> bool" where
  "any_ready [] = False"
| "any_ready (None # cs) = any_ready cs"
| "any_ready (Some c # cs) =
     (if map_of c ''type'' = Some ''Ready'' \<and> map_of c ''status'' = Some ''True'' then True else any_ready cs)"

definition unstructuredReady :: "'m unstructured_api \<Rightarrow> 'm \<Rightarrow> bool" where
  "unstructuredReady U m = (case un_conditions U m of None \<Rightarrow> False | Some cs \<Rightarrow> any_ready cs)"

definition ensureMemcached ::
  "('m, 'w) infra_env \<Rightarrow> ControlPlane \<Rightarrow> CacheSpec \<Rightarrow> string \<Rightarrow> 'w \<Rightarrow> bool result \<times> 'w" where
  "ensureMemcached E cp cache namespace w =
     (let name = cluster_name (ca_cluster_ref cache); U = in_unstructured E; M = in_memcached_own E;
          failed = (\<lambda>text e w'. (Inl (Errorf text [Str name, Wrap e]), w'))
      in case k_get (in_memcached E) (namespace, name) w of
           Inl e \<Rightarrow>
             if \<not> is_not_found e then failed ''getting Memcached %q: %w'' e w
             else (case un_set_replicas U (ca_replicas cache) (un_new U (namespace, name)) of
                     Inl se \<Rightarrow> (Inl (Errorf ''setting spec.replicas: %w'' [Wrap se]), w)
                   | Inr m \<Rightarrow>
                       (case claimChildOwnership M cp m of
                          Inl se \<Rightarrow> failed ''claiming ownership of Memcached %q: %w'' se w
                        | Inr fresh \<Rightarrow>
                            (case k_create (in_memcached E) fresh w of
                               (Inl ce, w') \<Rightarrow> failed ''creating Memcached %q: %w'' ce w'
                             | (Inr live, w') \<Rightarrow> (Inr (unstructuredReady U live), w'))))
         | Inr m \<Rightarrow>
             if \<not> controlled_by (m_uid (cp_meta cp)) (ow_meta M m) then (Inr (unstructuredReady U m), w)
             else (case un_replicas U m of
                     Inl ge \<Rightarrow> failed ''reading Memcached %q spec.replicas: %w'' ge w
                   | Inr current \<Rightarrow>
                       if current = Some (ca_replicas cache) then (Inr (unstructuredReady U m), w)
                       else (case un_set_replicas U (ca_replicas cache) m of
                               Inl se \<Rightarrow> failed ''setting Memcached %q spec.replicas: %w'' se w
                             | Inr m' \<Rightarrow>
                                 (case k_update (in_memcached E) m' w of
                                    (Inl ue, w') \<Rightarrow> failed ''updating owned Memcached %q replicas: %w'' ue w'
                                  | (Inr live, w') \<Rightarrow> (Inr (unstructuredReady U live), w')))))"

definition ensure_instance :: "('m, 'w) infra_env \<Rightarrow> ControlPlane \<Rightarrow> infra_instance \<Rightarrow> 'w \<Rightarrow> bool result \<times> 'w" where
  "ensure_instance E cp i w =
     (case ii_block i of
        DatabaseBlock db \<Rightarrow> ensureMariaDB E cp db (ii_namespace i) w
      | CacheBlock c \<Rightarrow> ensureMemcached E cp c (ii_namespace i) w)"

text \<open>The loop over the instances: the first error ends it, the first instance that is not ready is remembered.\<close>

fun ensure_all ::
  "('m, 'w) infra_env \<Rightarrow> ControlPlane \<Rightarrow> infra_instance list \<Rightarrow> infra_instance option \<Rightarrow> 'w \<Rightarrow>
     (infra_instance \<times> err + infra_instance option) \<times> 'w" where
  "ensure_all E cp [] waiting w = (Inr waiting, w)"
| "ensure_all E cp (i # is) waiting w =
     (case ensure_instance E cp i w of
        (Inl e, w') \<Rightarrow> (Inl (i, e), w')
      | (Inr ready, w') \<Rightarrow> ensure_all E cp is (if \<not> ready \<and> waiting = None then Some i else waiting) w')"

definition instance_args :: "infra_instance \<Rightarrow> farg list" where
  "instance_args i = [Str (ii_kind i), Str (ii_name i), Str (ii_namespace i), Str (ii_declared i)]"

definition reconcileInfrastructure :: "('m, 'w) infra_env \<Rightarrow> 'w cp_step" where
  "reconcileInfrastructure E s =
     (let (cp, w) = s; report = cp_report (in_meta E) conditionTypeInfrastructureReady in
      if IsExternalKeystone cp
      then ((zero_result, None), report CTrue conditionReasonExternallyManaged
              (Msg ''External keystone mode: identity is managed against %s; no MariaDB/Memcached is provisioned''
                 [Str (externalKeystoneAuthURL cp)]) cp, w)
      else if cs_infrastructure (cp_spec cp) = None
      then ((after infraRequeueAfter, None), report CFalse conditionReasonInfrastructureNotConfigured
              (Msg ''spec.infrastructure is unset but services.keystone.mode is not External; the backing services cannot be provisioned'' []) cp, w)
      else case ensure_all E cp (managedInfraInstances cp) None w of
             (Inl (i, e), w') \<Rightarrow>
               ((zero_result, Some e), report CFalse (ii_error i)
                  (Msg ''ensuring %s %q in namespace %q (%s): %v'' (instance_args i @ [Val e])) cp, w')
           | (Inr (Some i), w') \<Rightarrow>
               ((after infraRequeueAfter, None), report CFalse (ii_wait i)
                  (Msg ''%s %q in namespace %q (%s) is not ready'' (instance_args i)) cp, w')
           | (Inr None, w') \<Rightarrow>
               ((zero_result, None), report CTrue ''InfrastructureReady''
                  (Msg ''All managed backing services are ensured and ready'' []) cp, w'))"

section \<open>Facts about the instances\<close>

lemma claim_instances_keys:
  "distinct (map instance_key (claim_instances is seen)) \<and>
   set (map instance_key (claim_instances is seen)) \<inter> set seen = {}"
  by (induction "is" seen rule: claim_instances.induct) auto

lemma claim_instances_subset: "i \<in> set (claim_instances is seen) \<Longrightarrow> Some i \<in> set is"
  by (induction "is" seen rule: claim_instances.induct) (auto split: if_splits)

lemma claim_instances_covers:
  "Some i \<in> set is \<Longrightarrow> instance_key i \<in> set seen \<union> instance_key ` set (claim_instances is seen)"
  by (induction "is" seen rule: claim_instances.induct) auto

lemma managed_instances_distinct: "distinct (map instance_key (managedInfraInstances cp))"
  using claim_instances_keys by (simp add: managedInfraInstances_def)

text \<open>A control plane provisions nothing outside the namespaces it occupies.\<close>

lemma managed_instances_namespace:
  assumes "i \<in> set (managedInfraInstances cp)"
  shows "ii_namespace i \<in> set (controlPlaneNamespaces cp)"
  using claim_instances_subset [OF assms [unfolded managedInfraInstances_def]] service_namespaces [of cp]
  by (auto simp: database_instance_def cache_instance_def split: option.splits if_splits)

lemma ensure_all_ready:
  assumes "ensure_all E cp is waiting w = (Inr None, w')"
  shows "waiting = None" "list_all (\<lambda>i. \<exists>v v'. ensure_instance E cp i v = (Inr True, v')) is"
proof -
  have "waiting = None \<and> list_all (\<lambda>i. \<exists>v v'. ensure_instance E cp i v = (Inr True, v')) is"
    using assms
  proof (induction E cp "is" waiting w rule: ensure_all.induct)
    case (2 E cp i "is" waiting w)
    show ?case
    proof (cases "ensure_instance E cp i w")
      case (Pair r v)
      then obtain ready where r: "r = Inr ready" using 2(2) by (cases r) auto
      then have "ensure_all E cp is (if \<not> ready \<and> waiting = None then Some i else waiting) v = (Inr None, w')"
        using 2(2) Pair by simp
      then have ih: "(if \<not> ready \<and> waiting = None then Some i else waiting) = None"
          "list_all (\<lambda>i. \<exists>v v'. ensure_instance E cp i v = (Inr True, v')) is"
        using 2(1) [OF Pair [symmetric, simplified r] refl] by (auto simp: r)
      then show ?thesis using Pair r by (auto split: if_splits)
    qed
  qed simp
  then show "waiting = None" "list_all (\<lambda>i. \<exists>v v'. ensure_instance E cp i v = (Inr True, v')) is" by blast+
qed

end
