(* ===== verification/ControlPlaneTeardown.thy ===== *)
theory ControlPlaneTeardown
  imports ControlPlaneInfra KeystoneKeys
begin

text \<open>
  The deletion of a control plane, \<open>operators/c5c3/internal/controller/reconcile_delete.go\<close>: the K-ORC resources it
  owns go first, then its PushSecrets, then what it placed in the namespaces of its services, and only then its
  finalizer.  \<open>since\<close> is \<open>time.Since\<close> the deletion timestamp: a pass reads it at most once.
\<close>

section \<open>The resources of a teardown\<close>

definition controlPlaneORCFinalizer :: string where "controlPlaneORCFinalizer = ''c5c3.io/orc-teardown''"
definition korcFinalizerPrefix :: string where "korcFinalizerPrefix = ''openstack.k-orc.cloud/''"

record managedCatalogEndpointRow =
  me_iface :: string
  me_cr :: string
  me_url :: string

record managedCatalogServiceRow =
  mr_type :: string
  mr_name :: string
  mr_cr :: string
  mr_endpoints :: "managedCatalogEndpointRow list"

definition managedCatalogRows :: "ControlPlane \<Rightarrow> managedCatalogServiceRow list" where
  "managedCatalogRows cp =
     [\<lparr>mr_type = ''identity'', mr_name = ''keystone'', mr_cr = keystoneServiceName cp,
       mr_endpoints = [\<lparr>me_iface = ''public'', me_cr = keystoneEndpointName cp, me_url = keystoneCatalogURL cp\<rparr>]\<rparr>]"

text \<open>\<open>orcChildObject\<close> and its \<open>key\<close>: a kind and a name.\<close>

type_synonym orc_ref = "orc_kind \<times> string"

definition account_children :: "(string \<Rightarrow> string) \<Rightarrow> ControlPlane \<Rightarrow> ServiceAccountSpec \<Rightarrow> orc_ref list" where
  "account_children sha cp sa =
     [(OrcUser, serviceAccountUserRef cp sa), (OrcUser, serviceAccountUserProbeRef cp sa),
      (OrcProject, serviceAccountProjectRef cp sa), (OrcProject, serviceAccountProjectProbeRef cp sa)] @
     concat (map (\<lambda>role. [(OrcRoleAssignment, serviceAccountRoleAssignmentRef sha cp sa role),
                          (OrcRole, serviceAccountRoleImportRef sha cp role)]) (sa_roles sa)) @
     (if serviceAccountDomainRef cp sa \<noteq> adminDomainRef cp then [(OrcDomain, serviceAccountDomainRef cp sa)] else [])"

definition orcChildObjects :: "(string \<Rightarrow> string) \<Rightarrow> ControlPlane \<Rightarrow> orc_ref list" where
  "orcChildObjects sha cp =
     (let objs = [(OrcApplicationCredential, adminAppCredentialName cp)] @
            concat (map (\<lambda>row. (OrcService, mr_cr row) # map (\<lambda>ep. (OrcEndpoint, me_cr ep)) (mr_endpoints row))
                      (managedCatalogRows cp)) @
            [(OrcUser, adminUserRef cp), (OrcDomain, adminDomainRef cp)] @
            concat (map (account_children sha cp) (cp_accounts cp))
      in if \<not> IsExternalKeystone cp then objs
         else objs @ map (\<lambda>iface. (OrcEndpoint, keystoneEndpointImportName cp iface)) externalCatalogInterfaces @
              concat (map (\<lambda>x. (OrcService, catalogEntryServiceName cp (xs_type x)) #
                        map (\<lambda>ep. (OrcEndpoint, catalogEntryEndpointName cp (xs_type x) (xe_interface ep))) (xs_endpoints x))
                  (externalManagedCatalogEntries cp)))"

text \<open>\<open>td_objects kind\<close> reads and deletes the other kinds, of which the teardown uses the metadata.\<close>

record 'w teardown_env =
  td_meta :: meta_api
  td_orc :: "orc_kind \<Rightarrow> (orc_object, 'w) kclient"
  td_push :: "(push_secret, 'w) kclient"
  td_namespaces :: "(objmeta, 'w) kclient"
  td_objects :: "string \<Rightarrow> (objmeta, 'w) kclient"
  td_update :: "ControlPlane \<Rightarrow> 'w \<Rightarrow> ControlPlane result \<times> 'w"
  td_log :: "event \<Rightarrow> 'w \<Rightarrow> 'w"
  td_sha :: "string \<Rightarrow> string"

abbreviation gone :: "err \<Rightarrow> bool" where
  "gone e \<equiv> is_not_found e \<or> is_no_match e"

definition ownsServiceAccountChild :: "ControlPlane \<Rightarrow> objmeta \<Rightarrow> bool" where
  "ownsServiceAccountChild cp m \<longleftrightarrow> isControlPlaneChild cp m \<and> has_prefix (m_name m) (serviceAccountChildPrefix cp)"

definition ownsCatalogEntry :: "ControlPlane \<Rightarrow> objmeta \<Rightarrow> bool" where
  "ownsCatalogEntry cp m \<longleftrightarrow>
     controlled_by (m_uid (cp_meta cp)) m \<and> has_prefix (m_name m) (catalogEntryNamePrefix cp)"

fun owned_children ::
  "'w teardown_env \<Rightarrow> string \<Rightarrow> (objmeta \<Rightarrow> bool) \<Rightarrow> (orc_kind \<times> string) list \<Rightarrow> 'w \<Rightarrow> orc_ref list result" where
  "owned_children E namespace own [] w = Inr []"
| "owned_children E namespace own ((kind, text) # kinds) w =
     (let rest = (\<lambda>xs. case owned_children E namespace own kinds w of Inl e \<Rightarrow> Inl e | Inr ys \<Rightarrow> Inr (xs @ ys)) in
      case k_list (td_orc E kind) namespace [] w of
        Inr items \<Rightarrow> rest (map (\<lambda>x. (kind, oo_name x)) (filter (\<lambda>x. own (oo_meta x)) items))
      | Inl e \<Rightarrow> if is_no_match e then rest [] else Inl (Errorf text [Wrap e]))"

definition ownedServiceAccountChildren :: "'w teardown_env \<Rightarrow> ControlPlane \<Rightarrow> 'w \<Rightarrow> orc_ref list result" where
  "ownedServiceAccountChildren E cp w =
     owned_children E (childNamespace cp) (ownsServiceAccountChild cp)
       [(OrcUser, ''listing service-account Users for teardown: %w''),
        (OrcProject, ''listing service-account Projects for teardown: %w''),
        (OrcRoleAssignment, ''listing service-account RoleAssignments for teardown: %w''),
        (OrcRole, ''listing service-account Roles for teardown: %w'')] w"

definition ownedCatalogEntryChildren :: "'w teardown_env \<Rightarrow> ControlPlane \<Rightarrow> 'w \<Rightarrow> orc_ref list result" where
  "ownedCatalogEntryChildren E cp w =
     owned_children E (childNamespace cp) (ownsCatalogEntry cp)
       [(OrcEndpoint, ''listing catalog entry Endpoints for teardown: %w''),
        (OrcService, ''listing catalog entry Services for teardown: %w'')] w"

fun merge_children :: "orc_ref list \<Rightarrow> orc_ref list \<Rightarrow> orc_ref list" where
  "merge_children [] seen = []"
| "merge_children (c # cs) seen = (if c \<in> set seen then merge_children cs seen else c # merge_children cs (c # seen))"

definition orcTeardownChildren :: "'w teardown_env \<Rightarrow> ControlPlane \<Rightarrow> 'w \<Rightarrow> orc_ref list result" where
  "orcTeardownChildren E cp w =
     (let declared = orcChildObjects (td_sha E) cp in
      case ownedServiceAccountChildren E cp w of
        Inl e \<Rightarrow> Inl e
      | Inr accounts \<Rightarrow>
          if \<not> IsExternalKeystone cp then Inr (merge_children (declared @ accounts) [])
          else (case ownedCatalogEntryChildren E cp w of
                  Inl e \<Rightarrow> Inl e
                | Inr entries \<Rightarrow> Inr (merge_children (declared @ accounts @ entries) [])))"

section \<open>Deleting the K-ORC resources\<close>

definition orc_args :: "string \<Rightarrow> string \<Rightarrow> err \<Rightarrow> farg list" where
  "orc_args namespace name e = [Strs [namespace, name], Wrap e]"

fun orc_delete_pass :: "'w teardown_env \<Rightarrow> string \<Rightarrow> orc_ref list \<Rightarrow> bool \<Rightarrow> 'w \<Rightarrow> bool result \<times> 'w" where
  "orc_delete_pass E namespace [] live w = (Inr live, w)"
| "orc_delete_pass E namespace ((kind, name) # cs) live w =
     (case k_get (td_orc E kind) (namespace, name) w of
        Inl e \<Rightarrow>
          if gone e then orc_delete_pass E namespace cs live w
          else (Inl (Errorf ''getting %T %s: %w'' (orc_args namespace name e)), w)
      | Inr x \<Rightarrow>
          (let live' = (live \<or> \<not> m_deleting (oo_meta x)) in
           case k_delete (td_orc E kind) no_opts x w of
             (None, w') \<Rightarrow> orc_delete_pass E namespace cs live' w'
           | (Some e, w') \<Rightarrow>
               if gone e then orc_delete_pass E namespace cs live' w'
               else (Inl (Errorf ''deleting %T %s: %w'' (orc_args namespace name e)), w')))"

fun orc_check_pass :: "'w teardown_env \<Rightarrow> string \<Rightarrow> orc_ref list \<Rightarrow> 'w \<Rightarrow> orc_object list result" where
  "orc_check_pass E namespace [] w = Inr []"
| "orc_check_pass E namespace ((kind, name) # cs) w =
     (case k_get (td_orc E kind) (namespace, name) w of
        Inl e \<Rightarrow>
          if gone e then orc_check_pass E namespace cs w
          else Inl (Errorf ''re-checking %T %s: %w'' (orc_args namespace name e))
      | Inr x \<Rightarrow> (case orc_check_pass E namespace cs w of Inl e \<Rightarrow> Inl e | Inr xs \<Rightarrow> Inr (x # xs)))"

definition deleteORCResources ::
  "'w teardown_env \<Rightarrow> ControlPlane \<Rightarrow> 'w \<Rightarrow> (orc_object list \<times> bool) result \<times> 'w" where
  "deleteORCResources E cp w =
     (case orcTeardownChildren E cp w of
        Inl e \<Rightarrow> (Inl e, w)
      | Inr children \<Rightarrow>
          (case orc_delete_pass E (childNamespace cp) children False w of
             (Inl e, w') \<Rightarrow> (Inl e, w')
           | (Inr live, w') \<Rightarrow>
               (case orc_check_pass E (childNamespace cp) children w' of
                  Inl e \<Rightarrow> (Inl e, w')
                | Inr remaining \<Rightarrow> (Inr (remaining, live), w'))))"

definition isManagedORCChild :: "orc_object \<Rightarrow> bool" where
  "isManagedORCChild x \<longleftrightarrow> oo_policy x \<noteq> ManagementPolicyUnmanaged"

definition without_korc :: "orc_object \<Rightarrow> orc_object" where
  "without_korc x =
     x\<lparr>oo_meta := (oo_meta x)\<lparr>m_finalizers := filter (\<lambda>f. \<not> has_prefix f korcFinalizerPrefix) (m_finalizers (oo_meta x))\<rparr>\<rparr>"

fun forceRemoveKORCFinalizers :: "'w teardown_env \<Rightarrow> orc_object list \<Rightarrow> 'w \<Rightarrow> err option \<times> 'w" where
  "forceRemoveKORCFinalizers E [] w = (None, w)"
| "forceRemoveKORCFinalizers E (x # xs) w =
     (if \<not> list_ex (\<lambda>f. has_prefix f korcFinalizerPrefix) (m_finalizers (oo_meta x)) then forceRemoveKORCFinalizers E xs w
      else case k_update (td_orc E (oo_kind x)) (without_korc x) w of
        (Inr _, w') \<Rightarrow> forceRemoveKORCFinalizers E xs w'
      | (Inl e, w') \<Rightarrow>
          if is_not_found e then forceRemoveKORCFinalizers E xs w'
          else (Some (Errorf ''force-removing K-ORC finalizers from %T %s: %w''
                  (orc_args (m_namespace (oo_meta x)) (oo_name x) e)), w'))"

section \<open>PushSecrets\<close>

fun push_items ::
  "'w teardown_env \<Rightarrow> ControlPlane \<Rightarrow> push_secret list \<Rightarrow> push_secret list \<Rightarrow> 'w \<Rightarrow> push_secret list result \<times> 'w" where
  "push_items E cp [] remaining w = (Inr remaining, w)"
| "push_items E cp (ps # items) remaining w =
     (if \<not> isControlPlaneChild cp (ps_meta ps) then push_items E cp items remaining w
      else let (de, w1) = (if m_deleting (ps_meta ps) then (None, w) else k_delete (td_push E) no_opts ps w) in
      case ignore_not_found de of
        Some e \<Rightarrow> (Inl (Errorf ''deleting PushSecret %q: %w'' [Str (m_name (ps_meta ps)), Wrap e]), w1)
      | None \<Rightarrow>
          (case k_get (td_push E) (key_of (ps_meta ps)) w1 of
             Inr current \<Rightarrow> push_items E cp items (remaining @ [current]) w1
           | Inl e \<Rightarrow>
               if is_not_found e then push_items E cp items remaining w1
               else (Inl (Errorf ''re-checking PushSecret %q: %w'' [Str (m_name (ps_meta ps)), Wrap e]), w1)))"

fun push_namespaces ::
  "'w teardown_env \<Rightarrow> ControlPlane \<Rightarrow> string list \<Rightarrow> push_secret list \<Rightarrow> 'w \<Rightarrow> push_secret list result \<times> 'w" where
  "push_namespaces E cp [] remaining w = (Inr remaining, w)"
| "push_namespaces E cp (ns # nss) remaining w =
     (case k_list (td_push E) ns [] w of
        Inl e \<Rightarrow>
          if is_no_match e then (Inr [], w)
          else (Inl (Errorf ''listing owned PushSecrets in namespace %q for teardown: %w'' [Str ns, Wrap e]), w)
      | Inr items \<Rightarrow>
          (case push_items E cp items remaining w of
             (Inl e, w') \<Rightarrow> (Inl e, w')
           | (Inr remaining', w') \<Rightarrow> push_namespaces E cp nss remaining' w'))"

definition deleteOwnedPushSecrets :: "'w teardown_env \<Rightarrow> ControlPlane \<Rightarrow> 'w \<Rightarrow> push_secret list result \<times> 'w" where
  "deleteOwnedPushSecrets E cp w = push_namespaces E cp (controlPlaneNamespaces cp) [] w"

section \<open>The namespaces of the services\<close>

definition crossNamespaceServiceChildren :: "ControlPlane \<Rightarrow> string \<Rightarrow> (string \<times> string) list" where
  "crossNamespaceServiceChildren cp namespace =
     (if KeystoneNamespace cp = namespace then [(''Keystone'', keystoneName cp)] else []) @
     (if HorizonNamespace cp = namespace then [(''Horizon'', horizonName cp)] else [])"

fun service_children_pass ::
  "'w teardown_env \<Rightarrow> ControlPlane \<Rightarrow> string \<Rightarrow> (string \<times> string) list \<Rightarrow> 'w \<Rightarrow> string list result \<times> 'w" where
  "service_children_pass E cp namespace [] w = (Inr [], w)"
| "service_children_pass E cp namespace ((kind, name) # cs) w =
     (case k_get (td_objects E kind) (namespace, name) w of
        Inl e \<Rightarrow>
          if gone e then service_children_pass E cp namespace cs w
          else (Inl (Errorf ''getting %T %s for cross-namespace teardown: %w'' (orc_args namespace name e)), w)
      | Inr m \<Rightarrow>
          if \<not> isControlPlaneChild cp m then service_children_pass E cp namespace cs w
          else (let (de, w1) = (if m_deleting m then (None, w) else k_delete (td_objects E kind) background m w) in
                case ignore_not_found de of
                  Some e \<Rightarrow> (Inl (Errorf ''deleting %T %s: %w'' (orc_args namespace name e)), w1)
                | None \<Rightarrow>
                    (case service_children_pass E cp namespace cs w1 of
                       (Inl e, w2) \<Rightarrow> (Inl e, w2)
                     | (Inr stuck, w2) \<Rightarrow> (Inr ((namespace @ ''/'' @ m_name m) # stuck), w2))))"

definition deleteServiceChildrenIn :: "'w teardown_env \<Rightarrow> ControlPlane \<Rightarrow> string \<Rightarrow> 'w \<Rightarrow> string list result \<times> 'w" where
  "deleteServiceChildrenIn E cp namespace w =
     service_children_pass E cp namespace (crossNamespaceServiceChildren cp namespace) w"

text \<open>The dash of the messages, in UTF-8.\<close>

definition em_dash :: string where
  "em_dash = [char_of (226::nat), char_of (128::nat), char_of (148::nat)]"

definition warning_event :: "string \<Rightarrow> string \<Rightarrow> farg list \<Rightarrow> event" where
  "warning_event reason text args = \<lparr>ev_type = EvWarning, ev_reason = reason, ev_message = Msg text args\<rparr>"

definition deleteManagedNamespace :: "'w teardown_env \<Rightarrow> ControlPlane \<Rightarrow> string \<Rightarrow> 'w \<Rightarrow> err option \<times> 'w" where
  "deleteManagedNamespace E cp name w =
     (case k_get (td_namespaces E) ([], name) w of
        Inl e \<Rightarrow>
          if is_not_found e then (None, w)
          else (Some (Errorf ''getting managed service namespace %q for teardown: %w'' [Str name, Wrap e]), w)
      | Inr ns \<Rightarrow>
          if m_deleting ns then (None, w)
          else if \<not> isControlPlaneChild cp ns
          then (None, td_log E (warning_event ''NamespaceNotOwned''
                  (''namespace %q does not carry this ControlPlane'' @ [CHR 0x27] @
                   ''s ownership labels, so it was NOT deleted even though its lifecycle is Managed; the operator never destroys a namespace it did not create'')
                  [Str name]) w)
          else (case k_delete (td_namespaces E) no_opts ns w of
                  (de, w') \<Rightarrow>
                    (case ignore_not_found de of
                       Some e \<Rightarrow> (Some (Errorf ''deleting managed service namespace %q: %w'' [Str name, Wrap e]), w')
                     | None \<Rightarrow> (None, w'))))"

text \<open>What is left in a namespace that stays, the tenant store last.\<close>

definition external_residue :: "ControlPlane \<Rightarrow> string \<Rightarrow> (string \<times> string) list" where
  "external_residue cp namespace =
     map (\<lambda>i. (ii_kind i, ii_name i)) (filter (\<lambda>i. ii_namespace i = namespace) (managedInfraInstances cp)) @
     (if KeystoneNamespace cp = namespace
      then [(''ExternalSecret'', adminPasswordSecretName cp), (''ExternalSecret'', dbCredentialSecretName cp),
            (''VaultDynamicSecret'', dbCredentialSecretName cp), (''Certificate'', dbCredentialClientCertName cp),
            (''ServiceAccount'', dbCredentialServiceAccountName)] else []) @
     concat (map (\<lambda>sa. [(''Secret'', serviceAccountSourceSecretName cp sa),
                        (''ExternalSecret'', serviceAccountCredentialsSecretName cp sa)])
       (filter (\<lambda>sa. serviceAccountDeliveryNamespace cp sa = namespace) (cp_accounts cp))) @
     [(''SecretStore'', esoTenantStoreName), (''Certificate'', esoTenantClientCertName),
      (''ServiceAccount'', esoTenantServiceAccountName)]"

fun residue_pass :: "'w teardown_env \<Rightarrow> ControlPlane \<Rightarrow> string \<Rightarrow> (string \<times> string) list \<Rightarrow> 'w \<Rightarrow> 'w" where
  "residue_pass E cp namespace [] w = w"
| "residue_pass E cp namespace ((kind, name) # objs) w =
     (case k_get (td_objects E kind) (namespace, name) w of
        Inl e \<Rightarrow> residue_pass E cp namespace objs w
      | Inr m \<Rightarrow>
          if \<not> isControlPlaneChild cp m then residue_pass E cp namespace objs w
          else residue_pass E cp namespace objs (snd (k_delete (td_objects E kind) no_opts m w)))"

definition sweepExternalNamespaceResidue :: "'w teardown_env \<Rightarrow> ControlPlane \<Rightarrow> string \<Rightarrow> 'w \<Rightarrow> 'w" where
  "sweepExternalNamespaceResidue E cp namespace w = residue_pass E cp namespace (external_residue cp namespace) w"

fun teardown_pass ::
  "'w teardown_env \<Rightarrow> ControlPlane \<Rightarrow> ServiceNamespaceSpec list \<Rightarrow> string list \<Rightarrow> 'w \<Rightarrow> string list result \<times> 'w" where
  "teardown_pass E cp [] stuck w = (Inr stuck, w)"
| "teardown_pass E cp (a # rest) stuck w =
     (case deleteServiceChildrenIn E cp (sns_name a) w of
        (Inl e, w1) \<Rightarrow> (Inl e, w1)
      | (Inr remaining, w1) \<Rightarrow>
          if remaining \<noteq> [] then teardown_pass E cp rest (stuck @ remaining) w1
          else if sns_lifecycle a = ServiceNamespaceLifecycleExternal
          then teardown_pass E cp rest stuck (sweepExternalNamespaceResidue E cp (sns_name a) w1)
          else (case deleteManagedNamespace E cp (sns_name a) w1 of
                  (Some e, w2) \<Rightarrow> (Inl e, w2)
                | (None, w2) \<Rightarrow> teardown_pass E cp rest stuck w2))"

definition teardownDedicatedNamespaces ::
  "'w teardown_env \<Rightarrow> duration \<Rightarrow> ControlPlane \<times> 'w \<Rightarrow> bool result \<times> ControlPlane \<times> 'w" where
  "teardownDedicatedNamespaces E since s =
     (let (cp, w) = s in
      case teardown_pass E cp (DedicatedServiceNamespaces cp) [] w of
        (Inl e, w') \<Rightarrow> (Inl e, cp, w')
      | (Inr stuck, w') \<Rightarrow>
          if stuck = [] then (Inr True, cp, w')
          else if \<not> since > orcTeardownStallTimeout
          then (Inr False, cp_report (td_meta E) conditionTypeNamespacesReady CFalse ''FinalizingNamespaces''
                  (Msg ''waiting for %d cross-namespace child(ren) to finish their teardown before releasing the ControlPlane: %v''
                     [Num (int (length stuck)), Strs stuck]) cp, w')
          else (Inr True, cp, td_log E (warning_event ''NamespaceTeardownStalled''
                  (''cross-namespace child(ren) %v stayed present longer than %s; releasing the ControlPlane anyway. They carry no owner reference, so nothing will garbage-collect them '' @ em_dash @ '' remove them by hand'')
                  [Strs stuck, Num orcTeardownStallTimeout]) w'))"

section \<open>Releasing the control plane\<close>

definition cp_has_finalizer :: "ControlPlane \<Rightarrow> bool" where
  "cp_has_finalizer cp \<longleftrightarrow> controlPlaneORCFinalizer \<in> set (m_finalizers (cp_meta cp))"

definition cp_remove_finalizer :: "ControlPlane \<Rightarrow> ControlPlane" where
  "cp_remove_finalizer cp =
     cp\<lparr>cp_meta := (cp_meta cp)\<lparr>m_finalizers := removeAll controlPlaneORCFinalizer (m_finalizers (cp_meta cp))\<rparr>\<rparr>"

definition plain_event :: "string \<Rightarrow> string \<Rightarrow> farg list \<Rightarrow> event" where
  "plain_event reason text args = \<lparr>ev_type = EvNormal, ev_reason = reason, ev_message = Msg text args\<rparr>"

definition release_control_plane :: "'w teardown_env \<Rightarrow> string \<Rightarrow> 'w cp_step" where
  "release_control_plane E text s =
     (let (cp, w) = s; cp1 = cp_remove_finalizer cp in
      case td_update E cp1 w of
        (Inl e, w') \<Rightarrow> ((zero_result, Some (Errorf text [Wrap e])), cp1, w')
      | (Inr cp2, w') \<Rightarrow> ((zero_result, None), cp2, w'))"

fun strip_push_secrets :: "'w teardown_env \<Rightarrow> push_secret list \<Rightarrow> 'w \<Rightarrow> err option \<times> 'w" where
  "strip_push_secrets E [] w = (None, w)"
| "strip_push_secrets E (ps # pss) w =
     (case k_update (td_push E) (ps\<lparr>ps_meta := (ps_meta ps)\<lparr>m_finalizers := []\<rparr>\<rparr>) w of
        (Inr _, w') \<Rightarrow> strip_push_secrets E pss w'
      | (Inl e, w') \<Rightarrow>
          if is_not_found e then strip_push_secrets E pss w'
          else (Some (Errorf ''force-removing finalizers from PushSecret %q: %w'' [Str (m_name (ps_meta ps)), Wrap e]), w'))"

definition remote_keys :: "push_secret list \<Rightarrow> string list" where
  "remote_keys pss = concat (map (\<lambda>ps. map (fst \<circ> snd) (ps_data ps)) pss)"

text \<open>The pass after the stall timeout: the K-ORC resources, then the PushSecrets, then the finalizer.\<close>

definition force_orc :: "'w teardown_env \<Rightarrow> orc_object list \<Rightarrow> 'w \<Rightarrow> err option \<times> 'w" where
  "force_orc E remaining w =
     (if remaining = [] then (None, w)
      else case forceRemoveKORCFinalizers E remaining w of
        (Some e, w') \<Rightarrow> (Some e, w')
      | (None, w') \<Rightarrow>
          (let orphaned = filter isManagedORCChild remaining;
               w1 = td_log E (warning_event ''ORCTeardownStalled''
                      ''K-ORC CRs %v stayed Terminating longer than %s (K-ORC may be unable to reach Keystone to revoke); force-removed their K-ORC finalizers and releasing the ControlPlane''
                      [Strs (map oo_name remaining), Num orcTeardownStallTimeout]) w'
           in (None, if orphaned = [] then w1
                     else td_log E (warning_event ''ORCResourcesOrphaned''
                            (''the OpenStack resources behind the managed K-ORC CRs %v were NOT deleted: their finalizers were force-removed before K-ORC could revoke the admin application credential or remove the spec.services.keystone.external.catalog.managedEntries rows it registered. Nothing in Kubernetes names them any more '' @ em_dash @ '' remove them from Keystone by hand'')
                            [Strs (map oo_name orphaned)]) w1)))"

definition force_push :: "'w teardown_env \<Rightarrow> push_secret list \<Rightarrow> 'w \<Rightarrow> err option \<times> 'w" where
  "force_push E pushes w =
     (if pushes = [] then (None, w)
      else case strip_push_secrets E pushes w of
        (Some e, w') \<Rightarrow> (Some e, w')
      | (None, w') \<Rightarrow>
          (None, td_log E (warning_event ''OpenBaoCleanupStalled''
             (''ESO could not delete the mirrored OpenBao data behind %d PushSecret(s) within %s; the OpenBao path(s) %v may still hold the revoked credential '' @ em_dash @ '' delete them by hand'')
             [Num (int (length pushes)), Num orcTeardownStallTimeout, Strs (remote_keys pushes)]) w'))"

definition stalled_release :: "'w teardown_env \<Rightarrow> orc_object list \<Rightarrow> push_secret list \<Rightarrow> 'w cp_step" where
  "stalled_release E remaining pushes s =
     (let (cp, w) = s in
      case force_orc E remaining w of
        (Some e, w1) \<Rightarrow> ((zero_result, Some e), cp, w1)
      | (None, w1) \<Rightarrow>
          (case force_push E pushes w1 of
             (Some e, w2) \<Rightarrow> ((zero_result, Some e), cp, w2)
           | (None, w2) \<Rightarrow> release_control_plane E ''removing finalizer after force-remove: %w'' (cp, w2)))"

definition cp_reconcileDelete :: "'w teardown_env \<Rightarrow> duration \<Rightarrow> 'w cp_step" where
  "cp_reconcileDelete E since s =
     (let (cp, w) = s in
      if \<not> cp_has_finalizer cp then ((zero_result, None), cp, w)
      else case deleteORCResources E cp w of
        (Inl e, w1) \<Rightarrow> ((zero_result, Some e), cp, w1)
      | (Inr (remaining, live), w1) \<Rightarrow>
          (case deleteOwnedPushSecrets E cp w1 of
             (Inl e, w2) \<Rightarrow> ((zero_result, Some e), cp, w2)
           | (Inr pushes, w2) \<Rightarrow>
               (let w3 = (if live then td_log E (plain_event ''FinalizingORC''
                            ''Deleting owned K-ORC CRs before releasing the ControlPlane so K-ORC can revoke against a reachable Keystone'' []) w2
                          else w2) in
                if remaining = [] \<and> pushes = []
                then (case teardownDedicatedNamespaces E since (cp, w3) of
                        (Inl e, cp1, w4) \<Rightarrow> ((zero_result, Some e), cp1, w4)
                      | (Inr False, cp1, w4) \<Rightarrow> ((after namespaceRequeueAfter, None), cp1, w4)
                      | (Inr True, cp1, w4) \<Rightarrow>
                          release_control_plane E ''removing finalizer: %w'' (cp1, td_log E (plain_event ''ORCTeardownComplete''
                            ''No remaining K-ORC CRs; releasing the ControlPlane finalizer'' []) w4))
                else if remaining \<noteq> [] \<and> \<not> list_ex isManagedORCChild remaining
                then (case forceRemoveKORCFinalizers E remaining w3 of
                        (Some e, w4) \<Rightarrow> ((zero_result, Some e), cp, w4)
                      | (None, w4) \<Rightarrow>
                          ((after korcRequeueAfter, None), cp, td_log E (plain_event ''ORCImportsReleased''
                             (''released the K-ORC finalizers of the remaining unmanaged import CR(s) %v: an import'' @ [CHR 0x27] @
                              ''s deletion is CR-only, and its finalizer cannot authenticate once the admin application credential is revoked'')
                             [Strs (map oo_name remaining)]) w4))
                else if since \<le> orcTeardownStallTimeout
                then ((after korcRequeueAfter, None), cp_report (td_meta E) conditionTypeKORCReady CFalse ''FinalizingORC''
                        (Msg ''waiting for %d K-ORC CR(s) and %d PushSecret(s) to finish their teardown before releasing the ControlPlane''
                           [Num (int (length remaining)), Num (int (length pushes))]) cp, w3)
                else stalled_release E remaining pushes (cp, w3))))"

section \<open>What a pass has seen and done\<close>

text \<open>An object is gone: the API server answers that it, or its kind, does not exist.\<close>

definition absent_now :: "('o, 'w) kclient \<Rightarrow> objkey \<Rightarrow> 'w \<Rightarrow> bool" where
  "absent_now C k w = (case k_get C k w of Inl e \<Rightarrow> gone e | Inr x \<Rightarrow> False)"

lemma set_merge_children: "set (merge_children cs seen) = set cs - set seen"
  by (induction cs seen rule: merge_children.induct) auto

lemma distinct_merge_children: "distinct (merge_children cs seen)"
  by (induction cs seen rule: merge_children.induct) (auto simp: set_merge_children)

lemma teardown_children_declared:
  "orcTeardownChildren E cp w = Inr children \<Longrightarrow> set (orcChildObjects (td_sha E) cp) \<subseteq> set children"
  by (auto simp: orcTeardownChildren_def Let_def set_merge_children split: sum.splits if_splits)

lemma teardown_children_accounts:
  "orcTeardownChildren E cp w = Inr children \<Longrightarrow> ownedServiceAccountChildren E cp w = Inr xs \<Longrightarrow> set xs \<subseteq> set children"
  by (auto simp: orcTeardownChildren_def Let_def set_merge_children split: sum.splits if_splits)

lemma orc_check_absent:
  "orc_check_pass E namespace cs w = Inr [] \<Longrightarrow>
     (kind, name) \<in> set cs \<Longrightarrow> absent_now (td_orc E kind) (namespace, name) w"
proof (induction cs)
  case (Cons c cs)
  then show ?case by (cases c) (auto simp: absent_now_def split: sum.splits if_splits)
qed simp

lemma orc_check_got:
  "orc_check_pass E namespace cs w = Inr xs \<Longrightarrow> x \<in> set xs \<Longrightarrow>
     \<exists>c\<in>set cs. k_get (td_orc E (fst c)) (namespace, snd c) w = Inr x"
proof (induction cs arbitrary: xs)
  case (Cons c cs)
  show ?case using Cons by (cases c) (fastforce split: sum.splits if_splits)
qed simp

lemma deleteORC_gone:
  assumes "deleteORCResources E cp w = (Inr ([], live), w')"
  shows "\<exists>children. orcTeardownChildren E cp w = Inr children \<and>
     (\<forall>c\<in>set children. absent_now (td_orc E (fst c)) (childNamespace cp, snd c) w')"
proof -
  obtain children where children: "orcTeardownChildren E cp w = Inr children"
    using assms by (auto simp: deleteORCResources_def split: sum.splits)
  then have "orc_check_pass E (childNamespace cp) children w' = Inr []"
    using assms by (auto simp: deleteORCResources_def split: sum.splits prod.splits)
  then show ?thesis using children orc_check_absent by fastforce
qed

text \<open>A service child of ours is not there.\<close>

definition child_cleared :: "'w teardown_env \<Rightarrow> ControlPlane \<Rightarrow> string \<Rightarrow> string \<times> string \<Rightarrow> 'w \<Rightarrow> bool" where
  "child_cleared E cp namespace c v =
     (case k_get (td_objects E (fst c)) (namespace, snd c) v of Inl e \<Rightarrow> gone e | Inr m \<Rightarrow> \<not> isControlPlaneChild cp m)"

lemma service_pass_cleared:
  "service_children_pass E cp namespace cs w = (Inr [], w') \<Longrightarrow> w' = w \<and> list_all (\<lambda>c. child_cleared E cp namespace c w) cs"
proof (induction cs)
  case (Cons c cs)
  show ?case
  proof (cases c)
    case (Pair kind name)
    show ?thesis using Cons
      by (auto simp: Pair child_cleared_def Let_def split: sum.splits if_splits prod.splits option.splits)
  qed
qed simp

lemma teardown_pass_stuck:
  "teardown_pass E cp as stuck w = (Inr stuck', w') \<Longrightarrow> \<exists>more. stuck' = stuck @ more"
proof (induction E cp "as" stuck w rule: teardown_pass.induct)
  case (2 E cp a rest stuck w)
  then show ?case by (fastforce split: sum.splits prod.splits if_splits option.splits)
qed simp

lemma teardown_pass_cleared:
  assumes "teardown_pass E cp as [] w = (Inr [], w')"
  shows "list_all (\<lambda>a. \<exists>v. list_all (\<lambda>c. child_cleared E cp (sns_name a) c v)
           (crossNamespaceServiceChildren cp (sns_name a))) as"
  using assms
proof (induction "as" arbitrary: w)
  case (Cons a rest)
  obtain r w1 where d: "deleteServiceChildrenIn E cp (sns_name a) w = (r, w1)" by fastforce
  then obtain remaining where r: "r = Inr remaining" using Cons.prems by (cases r) auto
  have "remaining = []"
  proof (rule ccontr)
    assume n: "remaining \<noteq> []"
    then have "teardown_pass E cp rest remaining w1 = (Inr [], w')" using Cons.prems d r by simp
    then show False using teardown_pass_stuck n by fastforce
  qed
  then have "service_children_pass E cp (sns_name a) (crossNamespaceServiceChildren cp (sns_name a)) w = (Inr [], w1)"
    using d r by (simp add: deleteServiceChildrenIn_def)
  from service_pass_cleared [OF this]
  have here: "list_all (\<lambda>c. child_cleared E cp (sns_name a) c w) (crossNamespaceServiceChildren cp (sns_name a))" ..
  have "\<exists>v. teardown_pass E cp rest [] v = (Inr [], w')"
    using Cons.prems d r \<open>remaining = []\<close> by (auto split: if_splits prod.splits option.splits)
  then show ?case using here Cons.IH by auto
qed simp

lemma release_cp_result:
  "release_control_plane E text (cp, w) = ((r, None), cp', w') \<Longrightarrow>
     r = zero_result \<and> td_update E (cp_remove_finalizer cp) w = (Inr cp', w')"
  by (auto simp: release_control_plane_def Let_def split: sum.splits prod.splits)

lemma intervals_nonzero [simp]:
  "namespaceRequeueAfter \<noteq> 0" "korcRequeueAfter \<noteq> 0" "0 < namespaceRequeueAfter" "0 < korcRequeueAfter"
  by (simp_all add: namespaceRequeueAfter_def korcRequeueAfter_def seconds_def)

text \<open>The ways a pass ends without an error and without a requeue.\<close>

lemma release_cases:
  assumes "cp_has_finalizer cp" "cp_reconcileDelete E since (cp, w) = ((zero_result, None), cp', w')"
  obtains (cleared) live w1 w2 w3 cp1 w4 where
      "deleteORCResources E cp w = (Inr ([], live), w1)" "deleteOwnedPushSecrets E cp w1 = (Inr [], w2)"
      "teardownDedicatedNamespaces E since (cp, w3) = (Inr True, cp1, w4)"
  | (stalled) remaining live w1 pushes w2 where
      "deleteORCResources E cp w = (Inr (remaining, live), w1)" "deleteOwnedPushSecrets E cp w1 = (Inr pushes, w2)"
      "orcTeardownStallTimeout < since"
proof -
  obtain r w1 where d: "deleteORCResources E cp w = (r, w1)" by fastforce
  obtain remaining live where r: "r = Inr (remaining, live)" using assms d
    by (cases r) (auto simp: cp_reconcileDelete_def)
  obtain q w2 where q: "deleteOwnedPushSecrets E cp w1 = (q, w2)" by fastforce
  obtain pushes where pushes: "q = Inr pushes" using assms d r q
    by (cases q) (auto simp: cp_reconcileDelete_def)
  show thesis
  proof (cases "remaining = [] \<and> pushes = []")
    case True
    then show thesis using assms d r q pushes cleared
      by (fastforce simp: cp_reconcileDelete_def Let_def split: sum.splits prod.splits bool.splits)
  next
    case False
    have "orcTeardownStallTimeout < since"
      using assms False d r q pushes
      by (auto simp: cp_reconcileDelete_def Let_def split: if_splits prod.splits option.splits)
    then show thesis using stalled d r q pushes by blast
  qed
qed

end
