(* ===== verification/ControlPlaneKorc.thy ===== *)
theory ControlPlaneKorc
  imports ControlPlaneSecrets ControlPlaneTeardown Base64
begin

text \<open>
  The admin credential of a control plane, in \<open>operators/c5c3/internal/controller\<close>: the Secrets it lives in
  (\<open>korc_secrets.go\<close>), the imports it is minted for (\<open>korc_imports.go\<close>), its way through OpenBao (\<open>korc_eso.go\<close>), the
  minting and re-minting of the application credential (\<open>reconcile_korc.go\<close>) and the gate on its round trip
  (\<open>reconcile_admincredential.go\<close>).
\<close>

section \<open>What the code calls\<close>

text \<open>
  \<open>kx_random n\<close> is what \<open>rand.Read\<close> gives for \<open>n\<close> bytes, \<open>kx_since\<close> is \<open>time.Since\<close> the deletion timestamp of an
  object, \<open>kx_push_status\<close> reads the conditions and the synced resource version of a PushSecret, \<open>kx_clouds\<close> is
  \<open>yaml.Unmarshal\<close> of a clouds.yaml: the identity and secret of each cloud in the order of the map; \<open>kx_retry\<close> is
  \<open>retry.RetryOnConflict\<close>, \<open>kx_error\<close> is \<open>Error()\<close>.
\<close>

record ('u, 'w) korc_env =
  kx_meta :: meta_api
  kx_eso :: "'w eso_env"
  kx_now :: "'w \<Rightarrow> instant"
  kx_since :: "orc_object \<Rightarrow> 'w \<Rightarrow> duration"
  kx_sha :: "string \<Rightarrow> string"
  kx_quote :: "string \<Rightarrow> string"
  kx_random :: "nat \<Rightarrow> 'w \<Rightarrow> string result"
  kx_orc :: orc_api
  kx_object :: "orc_kind \<Rightarrow> (orc_object, 'u, 'w) kind_api"
  kx_object_upsert :: "orc_kind \<Rightarrow> (orc_object, 'w) create_or_update"
  kx_secret :: "(secret, 'u, 'w) kind_api"
  kx_secret_upsert :: "(secret, 'w) create_or_update"
  kx_push :: "(push_secret, 'u, 'w) kind_api"
  kx_push_status :: "objkey \<Rightarrow> 'w \<Rightarrow> (eso_conditions \<times> string) result"
  kx_external :: "(external_secret, 'u, 'w) kind_api"
  kx_clouds :: "string \<Rightarrow> (string \<times> string) list option"
  kx_retry :: "('w \<Rightarrow> err option \<times> 'w) \<Rightarrow> 'w \<Rightarrow> err option \<times> 'w"
  kx_error :: "err \<Rightarrow> string"
  kx_event :: "event \<Rightarrow> 'w \<Rightarrow> 'w"

type_synonym 'w cp_outcome = "(ctrl_result \<times> err option) \<times> ControlPlane \<times> 'w"

text \<open>A call whose failure ends the step with a condition, and the text of two messages.\<close>

definition or_stop :: "err option \<times> 'w \<Rightarrow> (err \<Rightarrow> ControlPlane) \<Rightarrow> ('w \<Rightarrow> 'w cp_outcome) \<Rightarrow> 'w cp_outcome" where
  "or_stop r failed k = (case r of (Some e, w) \<Rightarrow> ((zero_result, Some e), failed e, w) | (None, w) \<Rightarrow> k w)"

definition append_msg :: "msg \<Rightarrow> msg \<Rightarrow> msg" where
  "append_msg a b = (case (a, b) of (Msg f xs, Msg g ys) \<Rightarrow> Msg (f @ g) (xs @ ys))"

definition ensure_child :: "('o, 'u, 'w) kind_api \<Rightarrow> ControlPlane \<Rightarrow> 'o \<Rightarrow> 'w \<Rightarrow> 'o result \<times> 'w" where
  "ensure_child A cp x w = EnsureObject (kd_ssa A) (cp_meta cp) x FieldManager w"

definition appCredSecretValueKey :: string where "appCredSecretValueKey = ''value''"
definition adminPasswordHashAnnotation :: string where "adminPasswordHashAnnotation = ''forge.c5c3.io/admin-password-hash''"
definition adminAppCredentialPushContentHashAnnotation :: string where
  "adminAppCredentialPushContentHashAnnotation = ''c5c3.io/push-content-hash''"
definition adminAppCredentialCACertHashAnnotation :: string where
  "adminAppCredentialCACertHashAnnotation = ''c5c3.io/push-cacert-hash''"
definition AnnotationForceSync :: string where "AnnotationForceSync = ''force-sync''"
definition cloudsYamlSyncStuckTimeout :: duration where "cloudsYamlSyncStuckTimeout = minutes 15"
definition DefaultCABundleSecretKey :: string where "DefaultCABundleSecretKey = ''ca.crt''"

section \<open>The Secrets\<close>

definition ensureOwnedSecret ::
  "('u, 'w) korc_env \<Rightarrow> ControlPlane \<Rightarrow> string \<Rightarrow> string \<Rightarrow> (string gomap \<Rightarrow> string gomap result) \<Rightarrow> 'w \<Rightarrow> err option \<times> 'w" where
  "ensureOwnedSecret E cp name namespace mutate w =
     (case kx_secret_upsert E
             (\<lambda>live. case refuseForeignAdoption (kd_own (kx_secret E)) cp live of
                Some e \<Rightarrow> Inl e
              | None \<Rightarrow>
                  (case mutate (s_data live) of
                     Inl e \<Rightarrow> Inl e
                   | Inr data \<Rightarrow> claimChildOwnership (kd_own (kx_secret E)) cp (live\<lparr>s_data := data\<rparr>)))
             \<lparr>s_meta = named_meta namespace name, s_version = [], s_data = []\<rparr> w of
        (Inl e, w') \<Rightarrow> (Some e, w')
      | (Inr _, w') \<Rightarrow> (None, w'))"

definition setCACertKey :: "string \<Rightarrow> string gomap \<Rightarrow> string gomap" where
  "setCACertKey bundle data =
     (if bundle = [] then AList.delete korcCACertKey data else map_put korcCACertKey bundle data)"

definition caCertPushTrigger :: "(string \<Rightarrow> string) \<Rightarrow> string \<Rightarrow> string" where
  "caCertPushTrigger sha bundle = sha bundle"

definition readExternalCABundle :: "('u, 'w) korc_env \<Rightarrow> ControlPlane \<Rightarrow> 'w \<Rightarrow> string result" where
  "readExternalCABundle E cp w =
     (case externalCABundleRef cp of
        None \<Rightarrow> Inr []
      | Some ref \<Rightarrow>
          (let key = or_default (sr_key ref) DefaultCABundleSecretKey in
           case GetSecretValue (kx_eso E) (cp_namespace cp, sr_name ref) key w of
             Inl e \<Rightarrow> Inl e
           | Inr bundle \<Rightarrow>
               if bundle = []
               then Inl (Errorf ''%w: key %q in Secret %s/%s is present but empty''
                           [Wrap ErrKeyNotFound, Str key, Str (cp_namespace cp), Str (sr_name ref)])
               else Inr bundle))"

text \<open>\<open>base64.RawURLEncoding\<close> is the encoding without its padding.\<close>

definition generateAppCredSecretValue :: "('u, 'w) korc_env \<Rightarrow> 'w \<Rightarrow> string result" where
  "generateAppCredSecretValue E w =
     (case kx_random E 32 w of
        Inl e \<Rightarrow> Inl (Errorf ''generating application-credential secret: %w'' [Wrap e])
      | Inr b \<Rightarrow> Inr (takeWhile (\<lambda>c. c \<noteq> CHR ''='') (b64_encode b)))"

definition app_credential_data :: "('u, 'w) korc_env \<Rightarrow> string \<Rightarrow> 'w \<Rightarrow> string gomap \<Rightarrow> string gomap result" where
  "app_credential_data E bundle w data =
     (if get_or [] data appCredSecretValueKey \<noteq> [] then Inr (setCACertKey bundle data)
      else case generateAppCredSecretValue E w of
        Inl e \<Rightarrow> Inl e
      | Inr v \<Rightarrow> Inr (setCACertKey bundle (map_put appCredSecretValueKey v data)))"

definition wrap_error :: "string \<Rightarrow> farg list \<Rightarrow> err option \<times> 'w \<Rightarrow> err option \<times> 'w" where
  "wrap_error text args r = (case r of (Some e, w) \<Rightarrow> (Some (Errorf text (args @ [Wrap e])), w) | (None, w) \<Rightarrow> (None, w))"

definition ensureAppCredentialSecret :: "('u, 'w) korc_env \<Rightarrow> ControlPlane \<Rightarrow> string \<Rightarrow> 'w \<Rightarrow> err option \<times> 'w" where
  "ensureAppCredentialSecret E cp bundle w =
     wrap_error ''ensuring app-credential secret %q: %w'' [Str (adminAppCredentialSecretName cp)]
       (ensureOwnedSecret E cp (adminAppCredentialSecretName cp) (childNamespace cp) (app_credential_data E bundle w) w)"

definition ensureAdminPasswordCloud :: "('u, 'w) korc_env \<Rightarrow> ControlPlane \<Rightarrow> string \<Rightarrow> string \<Rightarrow> 'w \<Rightarrow> err option \<times> 'w" where
  "ensureAdminPasswordCloud E cp password bundle w =
     wrap_error ''ensuring admin password-cloud secret %q: %w'' [Str (adminPasswordCloudSecretName cp)]
       (ensureOwnedSecret E cp (adminPasswordCloudSecretName cp) (childNamespace cp)
         (\<lambda>data. Inr (setCACertKey bundle
            (map_put appCredCloudsYAMLKey (buildPasswordCloudsYAML (kx_quote E) cp password) data))) w)"

definition seed_data :: "('u, 'w) korc_env \<Rightarrow> ControlPlane \<Rightarrow> string \<Rightarrow> string gomap \<Rightarrow> string gomap" where
  "seed_data E cp password data =
     (if get_or [] data appCredCloudsYAMLKey \<noteq> [] then data
      else map_put appCredCloudsYAMLKey (buildPasswordCloudsYAML (kx_quote E) cp password) data)"

definition seedBootstrapCloudsYAML :: "('u, 'w) korc_env \<Rightarrow> ControlPlane \<Rightarrow> string \<Rightarrow> 'w \<Rightarrow> err option \<times> 'w" where
  "seedBootstrapCloudsYAML E cp password w =
     wrap_error ''seeding bootstrap clouds.yaml into secret %q: %w'' [Str (adminAppCredentialSecretName cp)]
       (ensureOwnedSecret E cp (adminAppCredentialSecretName cp) (childNamespace cp) (\<lambda>data. Inr (seed_data E cp password data)) w)"

definition regenerated_data :: "('u, 'w) korc_env \<Rightarrow> 'w \<Rightarrow> string gomap \<Rightarrow> string gomap result" where
  "regenerated_data E w data =
     (case generateAppCredSecretValue E w of
        Inl e \<Rightarrow> Inl e
      | Inr v \<Rightarrow> Inr (AList.delete appCredCloudsYAMLKey (map_put appCredSecretValueKey v data)))"

definition regenerateAppCredentialSecretValue :: "('u, 'w) korc_env \<Rightarrow> ControlPlane \<Rightarrow> 'w \<Rightarrow> err option \<times> 'w" where
  "regenerateAppCredentialSecretValue E cp w =
     wrap_error ''regenerating app-credential secret value: %w'' []
       (ensureOwnedSecret E cp (adminAppCredentialSecretName cp) (childNamespace cp) (regenerated_data E w) w)"

definition hashAdminPassword :: "(string \<Rightarrow> string) \<Rightarrow> string \<Rightarrow> string" where
  "hashAdminPassword sha pw = sha pw"

definition readAdminPassword :: "'w eso_env \<Rightarrow> ControlPlane \<Rightarrow> 'w \<Rightarrow> string result" where
  "readAdminPassword E cp w =
     (let ref = effectiveAdminPasswordSecretRef cp in
      GetSecretValue E (effectiveAdminPasswordSecretNamespace cp, sr_name ref) (or_default (sr_key ref) ''password'') w)"

definition computeAdminPasswordHash :: "'w eso_env \<Rightarrow> (string \<Rightarrow> string) \<Rightarrow> ControlPlane \<Rightarrow> 'w \<Rightarrow> string result" where
  "computeAdminPasswordHash E sha cp w =
     (case readAdminPassword E cp w of Inl e \<Rightarrow> Inl e | Inr pw \<Rightarrow> Inr (hashAdminPassword sha pw))"

section \<open>The way through OpenBao\<close>

definition adminAppCredentialRemoteKeyFor :: "ControlPlane \<Rightarrow> string" where
  "adminAppCredentialRemoteKeyFor cp = ''openstack/keystone/'' @ cp_namespace cp @ ''/'' @ cp_name cp @ ''/admin/app-credential''"

definition adminAppCredentialPushSecret :: "ControlPlane \<Rightarrow> push_secret" where
  "adminAppCredentialPushSecret cp =
     \<lparr>ps_meta = named_meta (childNamespace cp) (adminAppCredentialPushSecretName cp), ps_deletion_policy = ''Delete'',
      ps_stores = PushSecretStoreRefs (effectiveControlPlaneStoreRef cp), ps_selector = adminAppCredentialSecretName cp,
      ps_data = [([], adminAppCredentialRemoteKeyFor cp, [])]\<rparr>"

text \<open>The Secret the K-ORC imports authenticate with.\<close>

definition clouds_yaml_secret :: "ControlPlane \<Rightarrow> string" where
  "clouds_yaml_secret cp = or_default (cc_secret (ac_cloud (cp_admin cp))) korcCloudsYamlSecretName"

definition clouds_yaml_external :: "ControlPlane \<Rightarrow> string \<Rightarrow> external_secret" where
  "clouds_yaml_external cp bundle =
     (let name = clouds_yaml_secret cp; remote = adminAppCredentialRemoteKeyFor cp in
      \<lparr>es_meta = named_meta (childNamespace cp) name, es_refresh = hours 1,
       es_store = Some (ESOSecretStoreRef (effectiveControlPlaneStoreRef cp)), es_target = name, es_creation_policy = ''Owner'',
       es_data = [(appCredCloudsYAMLKey, remote, appCredCloudsYAMLKey)] @
         (if bundle \<noteq> [] then [(korcCACertKey, remote, korcCACertKey)] else []), es_generator = None\<rparr>)"

definition ensureKORCCloudsYAMLExternalSecret :: "('u, 'w) korc_env \<Rightarrow> ControlPlane \<Rightarrow> string \<Rightarrow> 'w \<Rightarrow> err option \<times> 'w" where
  "ensureKORCCloudsYAMLExternalSecret E cp bundle w =
     (case ensure_child (kx_external E) cp (clouds_yaml_external cp bundle) w of
        (Inl e, w') \<Rightarrow> (Some (Errorf ''ensuring k-orc clouds.yaml ExternalSecret %q: %w'' [Str (clouds_yaml_secret cp), Wrap e]), w')
      | (Inr _, w') \<Rightarrow> (None, w'))"

text \<open>The annotation that makes the operator of the object act on it once more: written when it changes.\<close>

definition nudge ::
  "('u, 'w) korc_env \<Rightarrow> ('o, 'w) kclient \<Rightarrow> ('o \<Rightarrow> objmeta) \<Rightarrow> (objmeta \<Rightarrow> 'o \<Rightarrow> 'o) \<Rightarrow> objkey \<Rightarrow> string \<Rightarrow> string \<Rightarrow> 'w \<Rightarrow>
     err option \<times> 'w" where
  "nudge E C meta with_meta key annotation trigger w =
     kx_retry E (\<lambda>w. case k_get C key w of
        Inl e \<Rightarrow> (if is_not_found e then None else Some e, w)
      | Inr x \<Rightarrow>
          (let m = meta x in
           if get_or [] (m_annotations m) annotation = trigger then (None, w)
           else case k_update C (with_meta (m\<lparr>m_annotations := map_put annotation trigger (m_annotations m)\<rparr>) x) w of
             (Inl e, w') \<Rightarrow> (Some e, w')
           | (Inr _, w') \<Rightarrow> (None, w'))) w"

definition forceSyncExternalSecret :: "('u, 'w) korc_env \<Rightarrow> string \<Rightarrow> string \<Rightarrow> string \<Rightarrow> 'w \<Rightarrow> err option \<times> 'w" where
  "forceSyncExternalSecret E namespace name trigger w =
     wrap_error ''forcing ExternalSecret %q re-sync: %w'' [Str name]
       (nudge E (kd_client (kx_external E)) es_meta (\<lambda>m x. x\<lparr>es_meta := m\<rparr>) (namespace, name) AnnotationForceSync trigger w)"

definition forceRepushPushSecret :: "('u, 'w) korc_env \<Rightarrow> string \<Rightarrow> string \<Rightarrow> string \<Rightarrow> string \<Rightarrow> 'w \<Rightarrow> err option \<times> 'w" where
  "forceRepushPushSecret E namespace name annotation hash w =
     wrap_error ''forcing PushSecret %q re-push: %w'' [Str name]
       (nudge E (kd_client (kx_push E)) ps_meta (\<lambda>m x. x\<lparr>ps_meta := m\<rparr>) (namespace, name) annotation hash w)"

section \<open>The imports\<close>

record korcAdminImports =
  ki_domain :: "orc_object option"
  ki_user :: "orc_object option"

definition ki_objects :: "korcAdminImports \<Rightarrow> orc_object list" where
  "ki_objects i = (case ki_domain i of None \<Rightarrow> [] | Some d \<Rightarrow> [d]) @ (case ki_user i of None \<Rightarrow> [] | Some u \<Rightarrow> [u])"

definition korcImportStatusFragment :: "orc_api \<Rightarrow> string \<Rightarrow> string \<Rightarrow> orc_object \<Rightarrow> msg option" where
  "korcImportStatusFragment A kind name x =
     (case orc_terminal A x of
        Some e \<Rightarrow> Some (Msg ''admin %s import %q failed terminally: %v'' [Str kind, Str name, Val e])
      | None \<Rightarrow>
          if \<not> orc_available A x then Some (Msg ''admin %s import %q is not yet Available'' [Str kind, Str name]) else None)"

definition statusFragment :: "orc_api \<Rightarrow> korcAdminImports \<Rightarrow> msg option" where
  "statusFragment A i =
     (let user = (case ki_user i of None \<Rightarrow> None | Some u \<Rightarrow> korcImportStatusFragment A ''User'' (oo_name u) u) in
      case ki_domain i of
        None \<Rightarrow> user
      | Some d \<Rightarrow> (case korcImportStatusFragment A ''Domain'' (oo_name d) d of Some m \<Rightarrow> Some m | None \<Rightarrow> user))"

definition stalledImport :: "korcAdminImports \<Rightarrow> duration \<Rightarrow> instant \<Rightarrow> (string \<times> string) option" where
  "stalledImport i grace now =
     (if korcImportStalled (ki_domain i) grace now then Some (''Domain'', case ki_domain i of None \<Rightarrow> [] | Some d \<Rightarrow> oo_name d)
      else if korcImportStalled (ki_user i) grace now then Some (''User'', case ki_user i of None \<Rightarrow> [] | Some u \<Rightarrow> oo_name u)
      else None)"

definition orc_import :: "orc_kind \<Rightarrow> ControlPlane \<Rightarrow> string \<Rightarrow> CloudCredentialsRef \<Rightarrow> orc_filter \<Rightarrow> orc_object" where
  "orc_import kind cp name cred filt =
     (new_orc kind (childNamespace cp) name)\<lparr>oo_policy := ManagementPolicyUnmanaged, oo_cloud := cred, oo_import := Some filt\<rparr>"

definition ensureKORCAdminImports ::
  "('u, 'w) korc_env \<Rightarrow> ControlPlane \<Rightarrow> CloudCredentialsRef \<Rightarrow> 'w \<Rightarrow> korcAdminImports result \<times> 'w" where
  "ensureKORCAdminImports E cp cred w =
     (case ensure_child (kx_object E OrcDomain) cp
             (orc_import OrcDomain cp (adminDomainRef cp) cred (NameFilter (Some (adminDomainName cp)) None)) w of
        (Inl e, w1) \<Rightarrow> (Inl (Errorf ''admin Domain import %q: %w'' [Str (adminDomainRef cp), Wrap e]), w1)
      | (Inr d, w1) \<Rightarrow>
          (case ensure_child (kx_object E OrcUser) cp
                  (orc_import OrcUser cp (adminUserRef cp) cred (NameFilter (Some (adminUserName cp)) (Some (adminDomainRef cp)))) w1 of
             (Inl e, w2) \<Rightarrow> (Inl (Errorf ''admin User import %q: %w'' [Str (adminUserRef cp), Wrap e]), w2)
           | (Inr u, w2) \<Rightarrow> (Inr \<lparr>ki_domain = Some d, ki_user = Some u\<rparr>, w2)))"

section \<open>Minting and re-minting\<close>

definition access_rule_field :: "string \<Rightarrow> string option" where
  "access_rule_field s = (if s \<noteq> [] then Some s else None)"

definition projectAccessRules :: "AccessRule list \<Rightarrow> orc_access_rule list" where
  "projectAccessRules rules =
     map (\<lambda>r. \<lparr>oar_path = access_rule_field (ar_path r), oar_method = access_rule_field (ar_method r),
               oar_service = access_rule_field (ar_service r)\<rparr>) rules"

fun rules_differ :: "orc_access_rule list \<Rightarrow> orc_access_rule list \<Rightarrow> bool" where
  "rules_differ (x # xs) (y # ys) =
     (if oar_path x \<noteq> oar_path y \<or> oar_method x \<noteq> oar_method y \<or> oar_service x \<noteq> oar_service y then True else rules_differ xs ys)"
| "rules_differ _ _ = False"

definition accessRulesDrifted :: "orc_access_rule list \<Rightarrow> orc_access_rule list \<Rightarrow> bool" where
  "accessRulesDrifted existing desired = (if length existing \<noteq> length desired then True else rules_differ existing desired)"

definition orc_credential_of :: "orc_object \<Rightarrow> orc_credential option" where
  "orc_credential_of x = (case oo_resource x of Some (CredentialResource c) \<Rightarrow> Some c | _ \<Rightarrow> None)"

definition adminACResourceDrifted :: "orc_object \<Rightarrow> ControlPlane \<Rightarrow> bool \<Rightarrow> bool" where
  "adminACResourceDrifted existing cp restricted =
     (case orc_credential_of existing of
        None \<Rightarrow> False
      | Some res \<Rightarrow>
          if ocr_unrestricted res \<noteq> Some (\<not> restricted) then True
          else if ocr_user res \<noteq> adminUserRef cp then True
          else if ocr_secret res \<noteq> adminAppCredentialSecretName cp then True
          else accessRulesDrifted (ocr_rules res) (projectAccessRules (apc_rules (ac_credential (cp_admin cp)))))"

definition shouldStampPasswordHash :: "orc_object \<Rightarrow> bool" where
  "shouldStampPasswordHash ac =
     (if m_created (oo_meta ac) = 0 then True else map_of (m_annotations (oo_meta ac)) adminPasswordHashAnnotation = None)"

definition admin_restricted :: "ControlPlane \<Rightarrow> bool" where
  "admin_restricted cp = (case apc_restricted (ac_credential (cp_admin cp)) of Some r \<Rightarrow> r | None \<Rightarrow> True)"

text \<open>The function \<open>CreateOrUpdate\<close> applies to the ApplicationCredential it has read.\<close>

definition project_credential :: "ControlPlane \<Rightarrow> bool \<Rightarrow> CloudCredentialsRef \<Rightarrow> string \<Rightarrow> orc_object \<Rightarrow> orc_object" where
  "project_credential cp restricted cred hash ac =
     (let res = (case orc_credential_of ac of Some c \<Rightarrow> c
                 | None \<Rightarrow> \<lparr>ocr_unrestricted = None, ocr_user = [], ocr_secret = [], ocr_rules = []\<rparr>);
          m = oo_meta ac
      in ac\<lparr>oo_policy := ManagementPolicyManaged, oo_cloud := cred,
            oo_resource := Some (CredentialResource (res
              \<lparr>ocr_unrestricted := Some (\<not> restricted), ocr_user := adminUserRef cp,
               ocr_secret := adminAppCredentialSecretName cp,
               ocr_rules := projectAccessRules (apc_rules (ac_credential (cp_admin cp)))\<rparr>)),
            oo_meta := (if shouldStampPasswordHash ac
                        then m\<lparr>m_annotations := map_put adminPasswordHashAnnotation hash (m_annotations m)\<rparr> else m)\<rparr>)"

definition updateAdminApplicationCredentialStatus :: "instant \<Rightarrow> orc_object \<Rightarrow> bool \<Rightarrow> ControlPlane \<Rightarrow> ControlPlane" where
  "updateAdminApplicationCredentialStatus now ac desired cp =
     (let i = (case oo_id ac of Some i \<Rightarrow> i | None \<Rightarrow> []);
          prev = ct_credential (cp_status cp);
          rotated = (case prev of None \<Rightarrow> True | Some p \<Rightarrow> as_id p \<noteq> i)
      in cp\<lparr>cp_status := (cp_status cp)\<lparr>ct_credential := Some
             \<lparr>as_id = i,
              as_restricted = (case oo_unrestricted ac of Some u \<Rightarrow> \<not> u | None \<Rightarrow> desired),
              as_rotation = (if rotated \<and> i \<noteq> [] then Some now
                             else case prev of Some p \<Rightarrow> as_rotation p | None \<Rightarrow> None)\<rparr>\<rparr>\<rparr>)"

abbreviation korc_fail :: "('u, 'w) korc_env \<Rightarrow> string \<Rightarrow> msg \<Rightarrow> ControlPlane \<Rightarrow> ControlPlane" where
  "korc_fail E \<equiv> conditionFailer (kx_meta E) conditionTypeKORCReady"

abbreviation korc_wait :: "ControlPlane \<Rightarrow> 'w \<Rightarrow> 'w cp_outcome" where
  "korc_wait cp w \<equiv> ((after korcRequeueAfter, None), cp, w)"

definition drift_event :: "ControlPlane \<Rightarrow> string \<Rightarrow> event" where
  "drift_event cp raw =
     \<lparr>ev_type = EvWarning, ev_reason = conditionReasonCredentialDrift,
      ev_message = Msg ''the external Keystone at %s no longer accepts the admin credential derived from Secret %q; the operator does not remediate the external installation: %s''
        [Str (externalKeystoneAuthURL cp), Str (sr_name (ac_password_ref (cp_admin cp))), Str raw]\<rparr>"

definition external_failure_message :: "ControlPlane \<Rightarrow> string \<Rightarrow> string \<Rightarrow> msg" where
  "external_failure_message cp reason raw =
     (let m = Msg ''external Keystone at %s: %s'' [Str (externalKeystoneAuthURL cp), Str raw] in
      if reason = conditionReasonCatalogEndpointMismatch
      then append_msg m (append_msg (Msg ''; '' []) (catalogEndpointMismatchHint cp)) else m)"

definition import_stall_message :: "ControlPlane \<Rightarrow> string \<times> string \<Rightarrow> msg" where
  "import_stall_message cp stuck =
     Msg (''admin import %s %q has been waiting to be created externally in %s for longer than %s; in External mode the import target already exists, so this is a misconfiguration '' @ em_dash @ '' check spec.services.keystone.external.endpointType and spec.region'')
       [Str (fst stuck), Str (snd stuck), Str (externalKeystoneAuthURL cp), Num externalImportStallGrace]"

text \<open>The second component is \<open>handled\<close>: what the condition says is then decided.\<close>

definition classifyExternalKORCState ::
  "('u, 'w) korc_env \<Rightarrow> korcAdminImports \<Rightarrow> orc_object \<Rightarrow> ControlPlane \<Rightarrow> 'w \<Rightarrow> bool \<times> ControlPlane \<times> 'w" where
  "classifyExternalKORCState E imports ac cp w =
     (if orc_available (kx_orc E) ac \<and> orc_terminal (kx_orc E) ac = None then (False, cp, w)
      else case classifyExternalKORCFailure (ki_objects imports @ [ac]) of (reason, raw) \<Rightarrow>
        if reason \<noteq> []
        then (let first = isCredentialDriftReason reason \<and>
                    (case GetCondition (kx_meta E) (cp_conditions cp) conditionTypeKORCReady of
                       None \<Rightarrow> True | Some prev \<Rightarrow> \<not> isCredentialDriftReason (c_reason prev))
              in (True, korc_fail E reason (external_failure_message cp reason raw) cp,
                  if first then kx_event E (drift_event cp raw) w else w))
        else case stalledImport imports externalImportStallGrace (kx_now E w) of
          Some stuck \<Rightarrow> (True, korc_fail E conditionReasonImportStalled (import_stall_message cp stuck) cp, w)
        | None \<Rightarrow> (False, cp, w))"

definition remintAdminApplicationCredential :: "('u, 'w) korc_env \<Rightarrow> orc_object \<Rightarrow> ControlPlane \<Rightarrow> 'w \<Rightarrow> 'w cp_outcome" where
  "remintAdminApplicationCredential E ac cp w =
     (if m_deleting (oo_meta ac)
      then (let stalled = kx_since E ac w > remintStallTimeout in
            korc_wait
              (if stalled
               then korc_fail E ''ReMintStalled''
                      (Msg ''admin application credential %q has been Terminating longer than %s; K-ORC may be unable to revoke the previous Keystone credential''
                         [Str (oo_name ac), Num remintStallTimeout]) cp
               else korc_fail E ''ReMinting''
                      (Msg ''re-minting admin application credential %q; awaiting revoke of the previous credential'' [Str (oo_name ac)]) cp)
              w)
      else case k_delete (kd_client (kx_object E OrcApplicationCredential)) no_opts ac w of (deleted, w1) \<Rightarrow>
        or_stop (ignore_not_found deleted, w1)
          (\<lambda>e. korc_fail E ''ApplicationCredentialError'' (Msg ''deleting ApplicationCredential for re-mint: %v'' [Val e]) cp)
          (\<lambda>w1. or_stop (regenerateAppCredentialSecretValue E cp w1)
             (\<lambda>e. korc_fail E ''SecretError'' (Msg ''regenerating application-credential secret value for re-mint: %v'' [Val e]) cp)
             (\<lambda>w2. korc_wait (korc_fail E ''ReMinting''
                (Msg ''deleted admin application credential %q; a fresh credential will be minted from the rotated admin password'' [Str (oo_name ac)]) cp)
                w2)))"

text \<open>The verdict on a minted credential.\<close>

definition with_import :: "msg option \<Rightarrow> msg \<Rightarrow> msg" where
  "with_import frag m = (case frag of None \<Rightarrow> m | Some f \<Rightarrow> append_msg m (append_msg (Msg ''; '' []) f))"

definition credential_verdict :: "('u, 'w) korc_env \<Rightarrow> korcAdminImports \<Rightarrow> orc_object \<Rightarrow> ControlPlane \<Rightarrow> 'w \<Rightarrow> 'w cp_outcome" where
  "credential_verdict E imports ac cp w =
     (case (if IsExternalKeystone cp then classifyExternalKORCState E imports ac cp w else (False, cp, w)) of
        (True, cp', w') \<Rightarrow> korc_wait cp' w'
      | (False, _, _) \<Rightarrow>
          (case orc_terminal (kx_orc E) ac of
             Some e \<Rightarrow>
               korc_wait (korc_fail E ''ApplicationCredentialFailed'' (with_import (statusFragment (kx_orc E) imports)
                 (Msg ''ApplicationCredential %q failed terminally: %v'' [Str (oo_name ac), Val e])) cp) w
           | None \<Rightarrow>
               if \<not> orc_available (kx_orc E) ac
               then korc_wait (korc_fail E ''WaitingForApplicationCredential'' (with_import (statusFragment (kx_orc E) imports)
                      (Msg ''ApplicationCredential %q is not yet Available'' [Str (oo_name ac)])) cp) w
               else ((zero_result, None),
                     cp_report (kx_meta E) conditionTypeKORCReady CTrue ''ApplicationCredentialMinted''
                       (Msg ''K-ORC admin application credential is minted and available'' []) cp, w)))"

definition ensure_credential :: "('u, 'w) korc_env \<Rightarrow> korcAdminImports \<Rightarrow> string \<Rightarrow> ControlPlane \<Rightarrow> 'w \<Rightarrow> 'w cp_outcome" where
  "ensure_credential E imports hash cp w =
     (let cred = \<lparr>cc_cloud = cc_cloud (ac_cloud (cp_admin cp)), cc_secret = adminPasswordCloudSecretName cp\<rparr>;
          restricted = admin_restricted cp
      in case kx_object_upsert E OrcApplicationCredential
                (\<lambda>live. ow_set_ref (kd_own (kx_object E OrcApplicationCredential)) (cp_meta cp)
                          (project_credential cp restricted cred hash live))
                (new_orc OrcApplicationCredential (childNamespace cp) (adminAppCredentialName cp)) w of
           (Inl e, w') \<Rightarrow>
             ((zero_result, Some e),
              korc_fail E ''ApplicationCredentialError'' (Msg ''create-or-update ApplicationCredential: %v'' [Val e]) cp, w')
         | (Inr ac, w') \<Rightarrow>
             credential_verdict E imports ac (updateAdminApplicationCredentialStatus (kx_now E w') ac restricted cp) w')"

definition mint_credential :: "('u, 'w) korc_env \<Rightarrow> korcAdminImports \<Rightarrow> string \<Rightarrow> ControlPlane \<Rightarrow> 'w \<Rightarrow> 'w cp_outcome" where
  "mint_credential E imports hash cp w =
     (case k_get (kd_client (kx_object E OrcApplicationCredential)) (childNamespace cp, adminAppCredentialName cp) w of
        Inr existing \<Rightarrow>
          if get_or [] (m_annotations (oo_meta existing)) adminPasswordHashAnnotation \<noteq> hash
          then remintAdminApplicationCredential E existing cp w
          else if adminACResourceDrifted existing cp (admin_restricted cp)
          then remintAdminApplicationCredential E existing cp w
          else ensure_credential E imports hash cp w
      | Inl e \<Rightarrow>
          if is_not_found e then ensure_credential E imports hash cp w
          else ((zero_result, Some e),
                korc_fail E ''ApplicationCredentialError'' (Msg ''reading ApplicationCredential: %v'' [Val e]) cp, w))"

definition prepare_credential ::
  "('u, 'w) korc_env \<Rightarrow> string \<Rightarrow> string \<Rightarrow> ControlPlane \<Rightarrow> 'w \<Rightarrow> 'w cp_outcome" where
  "prepare_credential E password bundle cp w =
     or_stop (ensureAdminPasswordCloud E cp password bundle w)
       (\<lambda>e. korc_fail E ''PasswordCloudError'' (Msg ''ensuring admin password-cloud secret: %v'' [Val e]) cp)
       (\<lambda>w1. case ensureKORCAdminImports E cp (ac_cloud (cp_admin cp)) w1 of
          (Inl e, w2) \<Rightarrow>
            ((zero_result, Some e),
             korc_fail E ''AdminImportError'' (Msg ''ensuring K-ORC admin User/Domain imports: %v'' [Val e]) cp, w2)
        | (Inr imports, w2) \<Rightarrow>
            or_stop (ensureAppCredentialSecret E cp bundle w2)
              (\<lambda>e. korc_fail E ''SecretError'' (Msg ''ensuring application-credential secret: %v'' [Val e]) cp)
              (\<lambda>w3. or_stop (seedBootstrapCloudsYAML E cp password w3)
                 (\<lambda>e. korc_fail E ''SeedCloudsYamlError'' (Msg ''seeding bootstrap clouds.yaml: %v'' [Val e]) cp)
                 (\<lambda>w4. or_stop (EnsurePushSecret (kd_ssa (kx_push E)) (cp_meta cp) (adminAppCredentialPushSecret cp) w4)
                    (\<lambda>e. korc_fail E ''PushSecretError'' (Msg ''ensuring admin app-credential PushSecret: %v'' [Val e]) cp)
                    (\<lambda>w5. or_stop (forceRepushPushSecret E (childNamespace cp) (adminAppCredentialPushSecretName cp)
                                     adminAppCredentialCACertHashAnnotation (caCertPushTrigger (kx_sha E) bundle) w5)
                       (\<lambda>e. korc_fail E ''PushSecretError'' (Msg ''forcing CA bundle re-push: %v'' [Val e]) cp)
                       (\<lambda>w6. or_stop (ensureKORCCloudsYAMLExternalSecret E cp bundle w6)
                          (\<lambda>e. korc_fail E ''ExternalSecretError'' (Msg ''ensuring k-orc clouds.yaml ExternalSecret: %v'' [Val e]) cp)
                          (mint_credential E imports (AdminPasswordDigest (kx_sha E) password) cp))))))"

definition reconcileKORC :: "('u, 'w) korc_env \<Rightarrow> 'w cp_step" where
  "reconcileKORC E s =
     (case s of (cp, w) \<Rightarrow>
      case readAdminPassword (kx_eso E) cp w of
        Inl e \<Rightarrow>
          if IsMissingSecretOrKey e
          then korc_wait (korc_fail E ''WaitingForAdminPassword''
                 (Msg ''admin password Secret is not yet available; deferring application-credential mint'' []) cp) w
          else ((zero_result, Some e), korc_fail E ''AdminPasswordError'' (Msg ''reading admin password: %v'' [Val e]) cp, w)
      | Inr password \<Rightarrow>
          (case readExternalCABundle E cp w of
             Inl e \<Rightarrow>
               if IsMissingSecretOrKey e
               then korc_wait (korc_fail E ''WaitingForCABundle''
                      (Msg ''the CA bundle Secret referenced by spec.services.keystone.external.caBundleSecretRef is not yet available; deferring application-credential mint'' []) cp) w
               else ((zero_result, Some e), korc_fail E ''CABundleError'' (Msg ''reading external CA bundle: %v'' [Val e]) cp, w)
           | Inr bundle \<Rightarrow> prepare_credential E password bundle cp w))"

end
