(* ===== verification/ControlPlaneCredential.thy ===== *)
theory ControlPlaneCredential
  imports ControlPlaneKorc
begin

text \<open>
  The gate on the round trip of the admin credential,
  \<open>operators/c5c3/internal/controller/reconcile_admincredential.go\<close>: the clouds.yaml with the minted credential is
  assembled, pushed to OpenBao and materialised for K-ORC before the control plane goes on.
\<close>

definition pushSecretReady :: "eso_conditions \<Rightarrow> bool" where
  "pushSecretReady cs = has_ready cs"

text \<open>\<open>appCredIdentity\<close>: the identity and the secret of a credential.\<close>

type_synonym appCredIdentity = "string \<times> string"

definition parseAppCredIdentity :: "(string \<Rightarrow> (string \<times> string) list option) \<Rightarrow> string \<Rightarrow> appCredIdentity option" where
  "parseAppCredIdentity parse yaml =
     (if yaml = [] then None
      else case parse yaml of
        None \<Rightarrow> None
      | Some clouds \<Rightarrow> find (\<lambda>(i, secret). i \<noteq> [] \<and> secret \<noteq> []) clouds)"

definition sameAppCredIdentity :: "(string \<Rightarrow> (string \<times> string) list option) \<Rightarrow> string \<Rightarrow> string \<Rightarrow> bool" where
  "sameAppCredIdentity parse materialized assembled =
     (case (parseAppCredIdentity parse materialized, parseAppCredIdentity parse assembled) of
        (Some m, Some a) \<Rightarrow> fst m = fst a \<and> snd m = snd a
      | _ \<Rightarrow> False)"

definition content_hash :: "('u, 'w) korc_env \<Rightarrow> string \<Rightarrow> secret \<Rightarrow> string" where
  "content_hash E yaml s = kx_sha E (yaml @ get_or [] (s_data s) korcCACertKey)"

abbreviation credential_fail :: "('u, 'w) korc_env \<Rightarrow> string \<Rightarrow> msg \<Rightarrow> ControlPlane \<Rightarrow> ControlPlane" where
  "credential_fail E \<equiv> conditionFailer (kx_meta E) conditionTypeAdminCredentialReady"

definition korc_gate :: "('u, 'w) korc_env \<Rightarrow> ControlPlane \<Rightarrow> ControlPlane" where
  "korc_gate E cp =
     (let waiting = credential_fail E ''WaitingForKORC'' (Msg ''KORCReady is not True; admin credential push deferred'' []) cp in
      case (if IsExternalKeystone cp then GetCondition (kx_meta E) (cp_conditions cp) conditionTypeKORCReady else None) of
        None \<Rightarrow> waiting
      | Some korc \<Rightarrow>
          if isCredentialDriftReason (c_reason korc)
          then credential_fail E conditionReasonCredentialDrift
                 (append_msg (append_msg (Msg ''the external Keystone at %s no longer matches the admin credential derived from Secret %q: ''
                     [Str (externalKeystoneAuthURL cp), Str (sr_name (ac_password_ref (cp_admin cp)))]) (c_message korc))
                   (Msg (''; the operator never remediates the external installation '' @ em_dash @ '' update the Secret to drive a re-mint'') [])) cp
          else waiting)"

definition sync_message :: "('u, 'w) korc_env \<Rightarrow> ControlPlane \<Rightarrow> 'w \<Rightarrow> string \<times> msg" where
  "sync_message E cp w =
     (let waiting = (''WaitingForCloudsYamlSync'',
            Msg ''materialized k-orc clouds.yaml does not yet match the assembled application credential; awaiting ESO re-sync'' [])
      in case Option.bind (ct_credential (cp_status cp)) as_rotation of
           None \<Rightarrow> waiting
         | Some rotated \<Rightarrow>
             if kx_now E w - rotated > cloudsYamlSyncStuckTimeout
             then (''CloudsYamlSyncStuck'',
                   Msg (''materialized k-orc clouds.yaml has not matched the assembled application credential for over %s; the ESO ExternalSecret or OpenBao backend may be unable to sync '' @ em_dash @ '' manual intervention required'')
                     [Num cloudsYamlSyncStuckTimeout])
             else waiting)"

text \<open>The push is done: ESO is nudged, and what it materialised is compared with what was assembled.\<close>

definition check_materialized :: "('u, 'w) korc_env \<Rightarrow> string \<Rightarrow> string \<Rightarrow> ControlPlane \<Rightarrow> 'w \<Rightarrow> 'w cp_outcome" where
  "check_materialized E yaml trigger cp w =
     or_stop (forceSyncExternalSecret E (childNamespace cp) (clouds_yaml_secret cp) trigger w)
       (\<lambda>e. credential_fail E ''CloudsYamlError'' (Msg ''forcing k-orc clouds.yaml ExternalSecret re-sync: %v'' [Val e]) cp)
       (\<lambda>w1. case k_get (kd_client (kx_secret E)) (childNamespace cp, clouds_yaml_secret cp) w1 of
          Inl e \<Rightarrow>
            if is_not_found e
            then korc_wait (credential_fail E ''WaitingForCloudsYamlSync''
                   (Msg ''k-orc clouds.yaml Secret has not yet materialized the assembled application credential'' []) cp) w1
            else ((zero_result, Some e),
                  credential_fail E ''CloudsYamlError'' (Msg ''reading materialized k-orc clouds.yaml Secret: %v'' [Val e]) cp, w1)
        | Inr m \<Rightarrow>
            if \<not> sameAppCredIdentity (kx_clouds E) (get_or [] (s_data m) appCredCloudsYAMLKey) yaml
            then (case sync_message E cp w1 of (reason, message) \<Rightarrow> korc_wait (credential_fail E reason message cp) w1)
            else ((zero_result, None),
                  cp_report (kx_meta E) conditionTypeAdminCredentialReady CTrue ''AdminCredentialReady''
                    (Msg ''Admin application credential committed and mirrored to OpenBao'' []) cp, w1))"

definition push_credential :: "('u, 'w) korc_env \<Rightarrow> string \<Rightarrow> string \<Rightarrow> ControlPlane \<Rightarrow> 'w \<Rightarrow> 'w cp_outcome" where
  "push_credential E yaml hash cp w =
     (let ns = childNamespace cp; name = adminAppCredentialPushSecretName cp in
      or_stop (EnsurePushSecret (kd_ssa (kx_push E)) (cp_meta cp) (adminAppCredentialPushSecret cp) w)
        (\<lambda>e. credential_fail E ''PushSecretError'' (Msg ''ensuring admin app-credential PushSecret: %v'' [Val e]) cp)
        (\<lambda>w1. or_stop (forceRepushPushSecret E ns name adminAppCredentialPushContentHashAnnotation hash w1)
           (\<lambda>e. credential_fail E ''PushSecretError'' (Msg ''forcing admin app-credential PushSecret re-push: %v'' [Val e]) cp)
           (\<lambda>w2. case kx_push_status E (ns, name) w2 of
              Inl e \<Rightarrow>
                ((zero_result, Some e),
                 credential_fail E ''PushSecretError'' (Msg ''reading admin app-credential PushSecret: %v'' [Val e]) cp, w2)
            | Inr (conds, version) \<Rightarrow>
                if \<not> pushSecretReady conds
                then korc_wait (credential_fail E ''WaitingForPushSecret''
                       (Msg ''admin app-credential PushSecret has not synced to OpenBao yet'' []) cp) w2
                else check_materialized E yaml (hash @ ''/'' @ version) cp w2)))"

definition assemble_credential :: "('u, 'w) korc_env \<Rightarrow> string \<Rightarrow> ControlPlane \<Rightarrow> 'w \<Rightarrow> 'w cp_outcome" where
  "assemble_credential E i cp w =
     (let name = adminAppCredentialSecretName cp in
      case k_get (kd_client (kx_secret E)) (childNamespace cp, name) w of
        Inl e \<Rightarrow>
          if is_not_found e
          then korc_wait (credential_fail E ''WaitingForAppCredentialSecret''
                 (Msg ''app-credential secret %q does not exist yet'' [Str name]) cp) w
          else ((zero_result, Some e),
                credential_fail E ''SecretError'' (Msg ''reading admin app-credential secret %q: %v'' [Str name, Val e]) cp, w)
      | Inr s \<Rightarrow>
          (let v = get_or [] (s_data s) appCredSecretValueKey in
           if v = []
           then korc_wait (credential_fail E ''WaitingForAppCredentialSecret''
                  (Msg ''app-credential secret %q has no %q key (mint not complete?)'' [Str (m_name (s_meta s)), Str appCredSecretValueKey]) cp) w
           else let yaml = buildAppCredCloudsYAML (kx_quote E) cp i v;
                    s' = s\<lparr>s_data := map_put appCredCloudsYAMLKey yaml (s_data s)\<rparr>
                in if get_or [] (s_data s) appCredCloudsYAMLKey = yaml
                   then push_credential E yaml (content_hash E yaml s) cp w
                   else case k_update (kd_client (kx_secret E)) s' w of
                     (Inl e, w1) \<Rightarrow>
                       ((zero_result, Some e),
                        credential_fail E ''SecretError'' (Msg ''assembling admin app-credential clouds.yaml: %v'' [Val e]) cp, w1)
                   | (Inr _, w1) \<Rightarrow> push_credential E yaml (content_hash E yaml s') cp w1))"

definition reconcileAdminCredential :: "('u, 'w) korc_env \<Rightarrow> 'w cp_step" where
  "reconcileAdminCredential E s =
     (case s of (cp, w) \<Rightarrow>
      if \<not> AllTrue (kx_meta E) (cp_conditions cp) [conditionTypeKORCReady] then korc_wait (korc_gate E cp) w
      else case IsStoreRefReady (kx_eso E) (effectiveControlPlaneStoreRef cp) (childNamespace cp) w of
        Inl e \<Rightarrow> ((zero_result, Some e), cp, w)
      | Inr False \<Rightarrow> korc_wait (credential_fail E ''SecretStoreNotReady'' (store_not_ready (effectiveControlPlaneStoreRef cp)) cp) w
      | Inr True \<Rightarrow>
          (case WaitForExternalSecret (kx_eso E) (childNamespace cp, clouds_yaml_secret cp) w of
             (_, _, Some e) \<Rightarrow>
               ((zero_result, Some e),
                credential_fail E ''CloudsYamlError'' (Msg ''checking k-orc clouds.yaml ExternalSecret: %v'' [Val e]) cp, w)
           | (_, ready, None) \<Rightarrow>
               if \<not> ready
               then korc_wait (credential_fail E ''WaitingForCloudsYaml''
                      (Msg ''k-orc clouds.yaml ExternalSecret is not yet Ready'' []) cp) w
               else let i = (case ct_credential (cp_status cp) of None \<Rightarrow> [] | Some c \<Rightarrow> as_id c) in
                    if i = []
                    then korc_wait (credential_fail E ''WaitingForCredentialID''
                           (Msg ''minted application credential id is not yet reported by K-ORC'' []) cp) w
                    else assemble_credential E i cp w))"

end
