(* ===== verification/ControlPlaneCatalog.thy ===== *)
theory ControlPlaneCatalog
  imports ControlPlaneCredential
begin

text \<open>
  The service catalog of a control plane, \<open>reconcile_catalog.go\<close> and \<open>reconcile_catalog_external.go\<close> in
  \<open>operators/c5c3/internal/controller\<close>: with a managed Keystone its entries are registered; with an external one they
  are imported, and the declared entries registered next to them.
\<close>

definition conditionReasonWaitingForCatalog :: string where "conditionReasonWaitingForCatalog = ''WaitingForCatalog''"
definition conditionReasonCatalogFailed :: string where "conditionReasonCatalogFailed = ''CatalogFailed''"
definition conditionReasonCatalogImported :: string where "conditionReasonCatalogImported = ''CatalogImported''"
definition conditionReasonImportError :: string where "conditionReasonImportError = ''ImportError''"
definition conditionReasonCatalogEntryError :: string where "conditionReasonCatalogEntryError = ''CatalogEntryError''"

abbreviation catalog_fail :: "('u, 'w) korc_env \<Rightarrow> string \<Rightarrow> msg \<Rightarrow> ControlPlane \<Rightarrow> ControlPlane" where
  "catalog_fail E \<equiv> conditionFailer (kx_meta E) conditionTypeCatalogReady"

section \<open>A managed Keystone\<close>

definition managedCatalogService :: "ControlPlane \<Rightarrow> CloudCredentialsRef \<Rightarrow> managedCatalogServiceRow \<Rightarrow> orc_object" where
  "managedCatalogService cp cred row =
     (new_orc OrcService (childNamespace cp) (mr_cr row))
       \<lparr>oo_policy := ManagementPolicyManaged, oo_cloud := cred,
        oo_resource := Some (ServiceResource (mr_type row) (Some (mr_name row)) (Some True))\<rparr>"

definition managedCatalogEndpoint ::
  "ControlPlane \<Rightarrow> CloudCredentialsRef \<Rightarrow> managedCatalogServiceRow \<Rightarrow> managedCatalogEndpointRow \<Rightarrow> orc_object" where
  "managedCatalogEndpoint cp cred row ep =
     (new_orc OrcEndpoint (childNamespace cp) (me_cr ep))
       \<lparr>oo_policy := ManagementPolicyManaged, oo_cloud := cred,
        oo_resource := Some (EndpointResource (me_iface ep) (me_url ep) (mr_cr row) (Some True))\<rparr>"

record appliedCatalogRow =
  al_row :: managedCatalogServiceRow
  al_service :: orc_object
  al_endpoints :: "orc_object list"

text \<open>Errors carry the reason and message of the condition.\<close>

type_synonym 'a reported = "(err \<times> string \<times> msg) + 'a"

fun apply_endpoints ::
  "('u, 'w) korc_env \<Rightarrow> ControlPlane \<Rightarrow> CloudCredentialsRef \<Rightarrow> managedCatalogServiceRow \<Rightarrow> managedCatalogEndpointRow list \<Rightarrow> 'w \<Rightarrow>
     orc_object list reported \<times> 'w" where
  "apply_endpoints E cp cred row [] w = (Inr [], w)"
| "apply_endpoints E cp cred row (ep # eps) w =
     (case ensure_child (kx_object E OrcEndpoint) cp (managedCatalogEndpoint cp cred row ep) w of
        (Inl e, w1) \<Rightarrow> (Inl (e, ''EndpointError'', Msg ''applying %s Endpoint: %v'' [Str (mr_type row), Val e]), w1)
      | (Inr x, w1) \<Rightarrow>
          (case apply_endpoints E cp cred row eps w1 of
             (Inl r, w2) \<Rightarrow> (Inl r, w2)
           | (Inr xs, w2) \<Rightarrow> (Inr (x # xs), w2)))"

fun apply_rows ::
  "('u, 'w) korc_env \<Rightarrow> ControlPlane \<Rightarrow> CloudCredentialsRef \<Rightarrow> managedCatalogServiceRow list \<Rightarrow> 'w \<Rightarrow>
     appliedCatalogRow list reported \<times> 'w" where
  "apply_rows E cp cred [] w = (Inr [], w)"
| "apply_rows E cp cred (row # rows) w =
     (case ensure_child (kx_object E OrcService) cp (managedCatalogService cp cred row) w of
        (Inl e, w1) \<Rightarrow> (Inl (e, ''ServiceError'', Msg ''applying %s Service: %v'' [Str (mr_type row), Val e]), w1)
      | (Inr x, w1) \<Rightarrow>
          (case apply_endpoints E cp cred row (mr_endpoints row) w1 of
             (Inl r, w2) \<Rightarrow> (Inl r, w2)
           | (Inr eps, w2) \<Rightarrow>
               (case apply_rows E cp cred rows w2 of
                  (Inl r, w3) \<Rightarrow> (Inl r, w3)
                | (Inr rest, w3) \<Rightarrow> (Inr (\<lparr>al_row = row, al_service = x, al_endpoints = eps\<rparr> # rest), w3))))"

definition catalogTerminalError :: "('u, 'w) korc_env \<Rightarrow> string \<Rightarrow> string \<Rightarrow> err \<Rightarrow> ControlPlane \<Rightarrow> 'w \<Rightarrow> 'w cp_outcome" where
  "catalogTerminalError E kind name e cp w =
     korc_wait (catalog_fail E conditionReasonCatalogFailed
       (Msg ''K-ORC reported a terminal error registering the %s %q: %v'' [Str kind, Str name, Val e]) cp) w"

fun first_terminal :: "orc_api \<Rightarrow> (string \<times> orc_object) list \<Rightarrow> (string \<times> string \<times> err) option" where
  "first_terminal A [] = None"
| "first_terminal A ((kind, x) # xs) =
     (case orc_terminal A x of Some e \<Rightarrow> Some (kind, oo_name x, e) | None \<Rightarrow> first_terminal A xs)"

definition applied_objects :: "appliedCatalogRow list \<Rightarrow> (string \<times> orc_object) list" where
  "applied_objects applied =
     concat (map (\<lambda>a. (mr_type (al_row a) @ '' Service'', al_service a) #
                  map (\<lambda>x. (mr_type (al_row a) @ '' Endpoint'', x)) (al_endpoints a)) applied)"

definition row_ready :: "appliedCatalogRow \<Rightarrow> bool" where
  "row_ready a \<longleftrightarrow> korcAvailableUpToDate (al_service a) \<and> list_all korcAvailableUpToDate (al_endpoints a)"

definition reconcile_managed_catalog :: "('u, 'w) korc_env \<Rightarrow> CloudCredentialsRef \<Rightarrow> ControlPlane \<Rightarrow> 'w \<Rightarrow> 'w cp_outcome" where
  "reconcile_managed_catalog E cred cp w =
     (let rows = managedCatalogRows cp in
      case apply_rows E cp cred rows w of
        (Inl (e, reason, message), w1) \<Rightarrow> ((zero_result, Some e), catalog_fail E reason message cp, w1)
      | (Inr applied, w1) \<Rightarrow>
          (case first_terminal (kx_orc E) (applied_objects applied) of
             Some (kind, name, e) \<Rightarrow> catalogTerminalError E kind name e cp w1
           | None \<Rightarrow>
               (case find (\<lambda>a. \<not> row_ready a) applied of
                  Some a \<Rightarrow>
                    korc_wait (catalog_fail E conditionReasonWaitingForCatalog
                      (Msg ''the %s catalog Service and Endpoint CRs are registered but not yet Available'' [Str (mr_type (al_row a))]) cp) w1
                | None \<Rightarrow>
                    ((zero_result, None),
                     cp_report (kx_meta E) conditionTypeCatalogReady CTrue ''CatalogRegistered''
                       (Msg ''%d catalog entry/entries registered as K-ORC CRs and Available'' [Num (int (length rows))]) cp, w1))))"

section \<open>An external Keystone\<close>

record catalogImport =
  cg_kind :: string
  cg_name :: string
  cg_iface :: string
  cg_id :: string
  cg_obj :: orc_object
  cg_required :: bool

definition cg_resolved :: "catalogImport \<Rightarrow> bool" where "cg_resolved i = korcAvailableUpToDate (cg_obj i)"

definition externalIdentityServiceName :: "ControlPlane \<Rightarrow> string" where
  "externalIdentityServiceName cp = (case externalCatalogSpec cp of Some c \<Rightarrow> xc_identity_name c | None \<Rightarrow> [])"

text \<open>\<open>IsConditionReasonTerminal\<close> of K-ORC is \<open>terminal\<close>.\<close>

definition korcTerminalReason :: "(string \<Rightarrow> bool) \<Rightarrow> orc_object \<Rightarrow> string" where
  "korcTerminalReason terminal x =
     (case find (\<lambda>c. oc_type c = ConditionProgressing) (oo_conditions x) of
        None \<Rightarrow> []
      | Some c \<Rightarrow> if oc_generation c \<noteq> m_generation (oo_meta x) \<or> \<not> terminal (oc_reason c) then [] else oc_reason c)"

fun korc_message :: "string list \<Rightarrow> orc_object \<Rightarrow> string" where
  "korc_message [] x = []"
| "korc_message (t # ts) x =
     (case find (\<lambda>c. oc_type c = t) (oo_conditions x) of
        Some c \<Rightarrow> if oc_message c \<noteq> [] then oc_message c else korc_message ts x
      | None \<Rightarrow> korc_message ts x)"

definition korcStatusMessage :: "orc_object \<Rightarrow> string" where
  "korcStatusMessage x = korc_message [ConditionProgressing, ConditionAvailable] x"

definition ambiguityHint :: "ControlPlane \<Rightarrow> catalogImport \<Rightarrow> msg" where
  "ambiguityHint cp i =
     (let name = externalIdentityServiceName cp;
          filt = (if name \<noteq> [] then append_msg (Msg (''type='' @ IdentityCatalogServiceType) []) (Msg '', name=%q'' [Str name])
                  else Msg (''type='' @ IdentityCatalogServiceType) [])
      in if cg_iface i \<noteq> []
         then Msg (''the external catalog publishes more than one %q endpoint for the identity service (commonly one per region); K-ORC'' @ [CHR 0x27] @ ''s endpoint import filter cannot select among them'')
                [Str (cg_iface i)]
         else append_msg (Msg ''the identity Service import filter ('' [])
                (append_msg filt (Msg '') matched more than one catalog entry; set spec.services.keystone.external.catalog.identityServiceName to disambiguate'' [])))"

definition stallMessage :: "ControlPlane \<Rightarrow> catalogImport \<Rightarrow> msg" where
  "stallMessage cp i =
     (let name = externalIdentityServiceName cp;
          base = Msg (''catalog import %s %q has been waiting to be created externally in %s for longer than %s; in External mode the import target already exists, so this is a misconfiguration '' @ em_dash @ '' check spec.services.keystone.external.endpointType and spec.region'')
                   [Str (cg_kind i), Str (cg_name i), Str (externalKeystoneAuthURL cp), Num externalImportStallGrace]
      in if cg_iface i \<noteq> []
         then append_msg base (Msg '', or the external catalog publishes no %q endpoint for the identity service'' [Str (cg_iface i)])
         else if name \<noteq> []
         then append_msg base
                (Msg '', or the external catalog holds no identity service named %q (spec.services.keystone.external.catalog.identityServiceName)'' [Str name])
         else base)"

definition catalogImportStatus :: "catalogImport list \<Rightarrow> CatalogImportStatus list" where
  "catalogImportStatus imports =
     map (\<lambda>i. \<lparr>ci_name = cg_name i, ci_kind = cg_kind i, ci_interface = cg_iface i, ci_resolved = cg_resolved i, ci_id = cg_id i\<rparr>)
       imports"

definition orc_id :: "orc_object \<Rightarrow> string" where
  "orc_id x = (case oo_id x of Some i \<Rightarrow> i | None \<Rightarrow> [])"

fun import_endpoints ::
  "('u, 'w) korc_env \<Rightarrow> ControlPlane \<Rightarrow> CloudCredentialsRef \<Rightarrow> string \<Rightarrow> string list \<Rightarrow> 'w \<Rightarrow> catalogImport list result \<times> 'w" where
  "import_endpoints E cp cred service [] w = (Inr [], w)"
| "import_endpoints E cp cred service (iface # ifaces) w =
     (let name = keystoneEndpointImportName cp iface in
      case ensure_child (kx_object E OrcEndpoint) cp (orc_import OrcEndpoint cp name cred (EndpointFilter iface (Some service))) w of
        (Inl e, w1) \<Rightarrow> (Inl (Errorf ''identity Endpoint import %q: %w'' [Str name, Wrap e]), w1)
      | (Inr x, w1) \<Rightarrow>
          (case import_endpoints E cp cred service ifaces w1 of
             (Inl e, w2) \<Rightarrow> (Inl e, w2)
           | (Inr rest, w2) \<Rightarrow>
               (Inr (\<lparr>cg_kind = ''Endpoint'', cg_name = oo_name x, cg_iface = iface, cg_id = orc_id x, cg_obj = x,
                      cg_required = (iface = korcEndpointType cp)\<rparr> # rest), w2)))"

definition ensureExternalCatalogImports ::
  "('u, 'w) korc_env \<Rightarrow> CloudCredentialsRef \<Rightarrow> ControlPlane \<Rightarrow> 'w \<Rightarrow> catalogImport list result \<times> 'w" where
  "ensureExternalCatalogImports E cred cp w =
     (case ensure_child (kx_object E OrcService) cp
             (orc_import OrcService cp (keystoneServiceName cp) cred
               (ServiceFilter (Some IdentityCatalogServiceType) (access_rule_field (externalIdentityServiceName cp)))) w of
        (Inl e, w1) \<Rightarrow> (Inl (Errorf ''identity Service import %q: %w'' [Str (keystoneServiceName cp), Wrap e]), w1)
      | (Inr x, w1) \<Rightarrow>
          (case import_endpoints E cp cred (oo_name x) externalCatalogInterfaces w1 of
             (Inl e, w2) \<Rightarrow> (Inl e, w2)
           | (Inr eps, w2) \<Rightarrow>
               (Inr (\<lparr>cg_kind = ''Service'', cg_name = oo_name x, cg_iface = [], cg_id = orc_id x, cg_obj = x,
                      cg_required = True\<rparr> # eps), w2)))"

definition entryCredentialsRef :: "ControlPlane \<Rightarrow> CloudCredentialsRef \<Rightarrow> CloudCredentialsRef" where
  "entryCredentialsRef cp cred = \<lparr>cc_cloud = cc_cloud cred, cc_secret = adminPasswordCloudSecretName cp\<rparr>"

record managedCatalogEntry =
  mc_kind :: string
  mc_name :: string
  mc_obj :: orc_object

definition entryWaitMessage :: "managedCatalogEntry \<Rightarrow> msg \<Rightarrow> msg" where
  "entryWaitMessage x m =
     (let k = korcStatusMessage (mc_obj x) in if k \<noteq> [] then append_msg m (Msg ''; K-ORC reports: %s'' [Str k]) else m)"

section \<open>The declared entries\<close>

definition entry_service :: "ExternalCatalogEntrySpec \<Rightarrow> CloudCredentialsRef \<Rightarrow> orc_object \<Rightarrow> orc_object" where
  "entry_service x cred live =
     live\<lparr>oo_policy := ManagementPolicyManaged, oo_cloud := cred, oo_import := None,
          oo_resource := Some (ServiceResource (xs_type x) (access_rule_field (xs_name x)) (Some True))\<rparr>"

definition entry_endpoint :: "string \<Rightarrow> ExternalCatalogEndpointSpec \<Rightarrow> CloudCredentialsRef \<Rightarrow> orc_object \<Rightarrow> orc_object" where
  "entry_endpoint service ep cred live =
     live\<lparr>oo_policy := ManagementPolicyManaged, oo_cloud := cred, oo_import := None,
          oo_resource := Some (EndpointResource (xe_interface ep) (xe_url ep) service (Some True))\<rparr>"

definition upsert_child ::
  "('u, 'w) korc_env \<Rightarrow> orc_kind \<Rightarrow> ControlPlane \<Rightarrow> (orc_object \<Rightarrow> orc_object) \<Rightarrow> string \<Rightarrow> 'w \<Rightarrow> orc_object result \<times> 'w" where
  "upsert_child E kind cp f name w =
     kx_object_upsert E kind (\<lambda>live. ow_set_ref (kd_own (kx_object E kind)) (cp_meta cp) (f live)) (new_orc kind (childNamespace cp) name) w"

fun ensure_entry_endpoints ::
  "('u, 'w) korc_env \<Rightarrow> ControlPlane \<Rightarrow> CloudCredentialsRef \<Rightarrow> string \<Rightarrow> string \<Rightarrow> ExternalCatalogEndpointSpec list \<Rightarrow> 'w \<Rightarrow>
     managedCatalogEntry list result \<times> 'w" where
  "ensure_entry_endpoints E cp cred ty service [] w = (Inr [], w)"
| "ensure_entry_endpoints E cp cred ty service (ep # eps) w =
     (let name = catalogEntryEndpointName cp ty (xe_interface ep) in
      case upsert_child E OrcEndpoint cp (entry_endpoint service ep cred) name w of
        (Inl e, w1) \<Rightarrow> (Inl (Errorf ''catalog entry Endpoint %q: %w'' [Str name, Wrap e]), w1)
      | (Inr x, w1) \<Rightarrow>
          (case ensure_entry_endpoints E cp cred ty service eps w1 of
             (Inl e, w2) \<Rightarrow> (Inl e, w2)
           | (Inr rest, w2) \<Rightarrow> (Inr (\<lparr>mc_kind = ''Endpoint'', mc_name = oo_name x, mc_obj = x\<rparr> # rest), w2)))"

fun ensure_entries ::
  "('u, 'w) korc_env \<Rightarrow> ControlPlane \<Rightarrow> CloudCredentialsRef \<Rightarrow> ExternalCatalogEntrySpec list \<Rightarrow> 'w \<Rightarrow>
     managedCatalogEntry list result \<times> 'w" where
  "ensure_entries E cp cred [] w = (Inr [], w)"
| "ensure_entries E cp cred (x # xs) w =
     (let name = catalogEntryServiceName cp (xs_type x) in
      case upsert_child E OrcService cp (entry_service x cred) name w of
        (Inl e, w1) \<Rightarrow> (Inl (Errorf ''catalog entry Service %q: %w'' [Str name, Wrap e]), w1)
      | (Inr s, w1) \<Rightarrow>
          (case ensure_entry_endpoints E cp cred (xs_type x) (oo_name s) (xs_endpoints x) w1 of
             (Inl e, w2) \<Rightarrow> (Inl e, w2)
           | (Inr eps, w2) \<Rightarrow>
               (case ensure_entries E cp cred xs w2 of
                  (Inl e, w3) \<Rightarrow> (Inl e, w3)
                | (Inr rest, w3) \<Rightarrow> (Inr (\<lparr>mc_kind = ''Service'', mc_name = oo_name s, mc_obj = s\<rparr> # eps @ rest), w3))))"

definition entry_declared :: "managedCatalogEntry list \<Rightarrow> string \<Rightarrow> string \<Rightarrow> bool" where
  "entry_declared reconciled kind name = list_ex (\<lambda>x. mc_kind x = kind \<and> mc_name x = name) reconciled"

fun prune_entries ::
  "('u, 'w) korc_env \<Rightarrow> ControlPlane \<Rightarrow> orc_kind \<Rightarrow> string \<Rightarrow> managedCatalogEntry list \<Rightarrow> orc_object list \<Rightarrow> 'w \<Rightarrow>
     managedCatalogEntry list result \<times> 'w" where
  "prune_entries E cp kind text reconciled [] w = (Inr [], w)"
| "prune_entries E cp kind text reconciled (x # xs) w =
     (let C = kd_client (kx_object E kind) in
      if \<not> ownsCatalogEntry cp (oo_meta x) then prune_entries E cp kind text reconciled xs w
      else if entry_declared reconciled text (oo_name x) then prune_entries E cp kind text reconciled xs w
      else case k_delete C no_opts x w of (deleted, w1) \<Rightarrow>
        (case ignore_not_found deleted of
           Some e \<Rightarrow> (Inl (Errorf (''deleting catalog entry '' @ text @ '' %q: %w'') [Str (oo_name x), Wrap e]), w1)
         | None \<Rightarrow>
             (case k_get C (key_of (oo_meta x)) w1 of
                Inl e \<Rightarrow>
                  if is_not_found e then prune_entries E cp kind text reconciled xs w1
                  else (Inl (Errorf (''re-checking removed catalog entry '' @ text @ '' %q: %w'') [Str (oo_name x), Wrap e]), w1)
              | Inr fresh \<Rightarrow>
                  (case prune_entries E cp kind text reconciled xs w1 of
                     (Inl e, w2) \<Rightarrow> (Inl e, w2)
                   | (Inr rest, w2) \<Rightarrow> (Inr (\<lparr>mc_kind = text, mc_name = oo_name fresh, mc_obj = fresh\<rparr> # rest), w2)))))"

definition prune_kind ::
  "('u, 'w) korc_env \<Rightarrow> ControlPlane \<Rightarrow> orc_kind \<Rightarrow> string \<Rightarrow> managedCatalogEntry list \<Rightarrow> 'w \<Rightarrow> managedCatalogEntry list result \<times> 'w" where
  "prune_kind E cp kind text reconciled w =
     (case k_list (kd_client (kx_object E kind)) (childNamespace cp) [] w of
        Inl e \<Rightarrow> (Inl (Errorf (''listing catalog entry '' @ text @ ''s: %w'') [Wrap e]), w)
      | Inr items \<Rightarrow> prune_entries E cp kind text reconciled items w)"

definition pruneManagedCatalogEntries ::
  "('u, 'w) korc_env \<Rightarrow> ControlPlane \<Rightarrow> managedCatalogEntry list \<Rightarrow> 'w \<Rightarrow> managedCatalogEntry list result \<times> 'w" where
  "pruneManagedCatalogEntries E cp reconciled w =
     (case prune_kind E cp OrcEndpoint ''Endpoint'' reconciled w of
        (Inl e, w1) \<Rightarrow> (Inl e, w1)
      | (Inr eps, w1) \<Rightarrow>
          (case prune_kind E cp OrcService ''Service'' reconciled w1 of
             (Inl e, w2) \<Rightarrow> (Inl e, w2)
           | (Inr services, w2) \<Rightarrow> (Inr (eps @ services), w2)))"

definition ensureManagedCatalogEntries ::
  "('u, 'w) korc_env \<Rightarrow> CloudCredentialsRef \<Rightarrow> ControlPlane \<Rightarrow> 'w \<Rightarrow>
     (managedCatalogEntry list \<times> managedCatalogEntry list) result \<times> 'w" where
  "ensureManagedCatalogEntries E cred cp w =
     (case ensure_entries E cp cred (externalManagedCatalogEntries cp) w of
        (Inl e, w1) \<Rightarrow> (Inl e, w1)
      | (Inr reconciled, w1) \<Rightarrow>
          (case pruneManagedCatalogEntries E cp reconciled w1 of
             (Inl e, w2) \<Rightarrow> (Inl e, w2)
           | (Inr pruning, w2) \<Rightarrow> (Inr (reconciled, pruning), w2)))"

section \<open>What the step reports\<close>

definition pending_objects :: "catalogImport list \<Rightarrow> managedCatalogEntry list \<Rightarrow> managedCatalogEntry list \<Rightarrow> orc_object list" where
  "pending_objects imports entries pruning =
     map cg_obj (filter (\<lambda>i. \<not> cg_resolved i) imports) @
     map mc_obj (filter (\<lambda>x. \<not> korcAvailableUpToDate (mc_obj x)) entries) @ map mc_obj pruning"

text \<open>The first import that failed for good, unless it is an optional one nothing can repair.\<close>

fun failed_import :: "orc_api \<Rightarrow> (string \<Rightarrow> bool) \<Rightarrow> catalogImport list \<Rightarrow> (catalogImport \<times> err) option" where
  "failed_import A terminal [] = None"
| "failed_import A terminal (i # is) =
     (case orc_terminal A (cg_obj i) of
        None \<Rightarrow> failed_import A terminal is
      | Some e \<Rightarrow>
          if \<not> cg_required i \<and> korcTerminalReason terminal (cg_obj i) = ConditionReasonInvalidConfiguration
          then failed_import A terminal is
          else Some (i, e))"

fun waiting_entry :: "managedCatalogEntry list \<Rightarrow> msg option" where
  "waiting_entry [] = None"
| "waiting_entry (x # xs) =
     (if m_deleting (oo_meta (mc_obj x))
      then Some (Msg ''the declared catalog entry %s %q is still being removed from the external catalog by an earlier deletion; it is re-registered once K-ORC releases it''
             [Str (mc_kind x), Str (mc_name x)])
      else if \<not> korcAvailableUpToDate (mc_obj x)
      then Some (entryWaitMessage x (Msg ''the declared catalog entry %s %q is registered but not yet Available'' [Str (mc_kind x), Str (mc_name x)]))
      else waiting_entry xs)"

definition failed_entry :: "orc_api \<Rightarrow> managedCatalogEntry list \<Rightarrow> (string \<times> string \<times> err) option" where
  "failed_entry A xs = first_terminal A (map (\<lambda>x. (mc_kind x, mc_obj x)) xs)"

definition external_verdict ::
  "('u, 'w) korc_env \<Rightarrow> (string \<Rightarrow> bool) \<Rightarrow> catalogImport list \<Rightarrow> managedCatalogEntry list \<Rightarrow> managedCatalogEntry list \<Rightarrow>
     ControlPlane \<Rightarrow> 'w \<Rightarrow> 'w cp_outcome" where
  "external_verdict E terminal imports entries pruning cp w =
     (let wait = (\<lambda>reason message. korc_wait (catalog_fail E reason message cp) w) in
      case classifyExternalKORCFailure (pending_objects imports entries pruning) of (reason, raw) \<Rightarrow>
      if reason \<noteq> [] then wait reason (external_failure_message cp reason raw)
      else case failed_import (kx_orc E) terminal imports of
        Some (i, e) \<Rightarrow>
          (let m = Msg ''K-ORC reported a terminal error importing the identity %s %q: %v'' [Str (cg_kind i), Str (cg_name i), Val e] in
           wait conditionReasonCatalogFailed
             (if str_contains (kx_error E e) korcImportMultipleMatchesMarker
              then append_msg m (append_msg (Msg ''; '' []) (ambiguityHint cp i)) else m))
      | None \<Rightarrow>
      (case find (\<lambda>i. cg_required i \<and> korcImportStalled (Some (cg_obj i)) externalImportStallGrace (kx_now E w)) imports of
        Some i \<Rightarrow> wait conditionReasonImportStalled (stallMessage cp i)
      | None \<Rightarrow>
      (case failed_entry (kx_orc E) entries of
        Some (kind, name, e) \<Rightarrow> catalogTerminalError E kind name e cp w
      | None \<Rightarrow>
      (case failed_entry (kx_orc E) pruning of
        Some (kind, name, e) \<Rightarrow>
          wait conditionReasonCatalogFailed
            (Msg ''K-ORC reported a terminal error removing the %s %q from the external catalog: %v'' [Str kind, Str name, Val e])
      | None \<Rightarrow>
      (case find (\<lambda>i. cg_required i \<and> \<not> cg_resolved i) imports of
        Some i \<Rightarrow>
          wait conditionReasonWaitingForCatalog
            (Msg ''the identity %s %q is imported but K-ORC has not resolved it against the external catalog yet'' [Str (cg_kind i), Str (cg_name i)])
      | None \<Rightarrow>
      (case waiting_entry entries of
        Some m \<Rightarrow> wait conditionReasonWaitingForCatalog m
      | None \<Rightarrow>
      (case pruning of
        x # _ \<Rightarrow>
          wait conditionReasonWaitingForCatalog (entryWaitMessage x
            (Msg ''the undeclared catalog entry %s %q is still being removed from the external catalog'' [Str (mc_kind x), Str (mc_name x)]))
      | [] \<Rightarrow>
          ((zero_result, None),
           cp_report (kx_meta E) conditionTypeCatalogReady CTrue conditionReasonCatalogImported
             (Msg ''imported the external identity Service and %d of %d Endpoint interface(s) as unmanaged K-ORC CRs (see status.catalog.imports); %d declared catalog entry/entries registered''
                [Num (int (length (filter (\<lambda>i. cg_iface i \<noteq> [] \<and> cg_resolved i) imports))),
                 Num (int (length externalCatalogInterfaces)), Num (int (length (externalManagedCatalogEntries cp)))]) cp, w))))))))"

definition reconcileCatalogExternal ::
  "('u, 'w) korc_env \<Rightarrow> (string \<Rightarrow> bool) \<Rightarrow> CloudCredentialsRef \<Rightarrow> ControlPlane \<Rightarrow> 'w \<Rightarrow> 'w cp_outcome" where
  "reconcileCatalogExternal E terminal cred cp w =
     (case ensureExternalCatalogImports E cred cp w of
        (Inl e, w1) \<Rightarrow>
          ((zero_result, Some e),
           catalog_fail E conditionReasonImportError (Msg ''reconciling the external catalog imports: %v'' [Val e]) cp, w1)
      | (Inr imports, w1) \<Rightarrow>
          (let cp' = cp\<lparr>cp_status := (cp_status cp)\<lparr>ct_catalog := Some (catalogImportStatus imports)\<rparr>\<rparr> in
           case ensureManagedCatalogEntries E (entryCredentialsRef cp cred) cp' w1 of
             (Inl e, w2) \<Rightarrow>
               ((zero_result, Some e),
                catalog_fail E conditionReasonCatalogEntryError (Msg ''reconciling the managed catalog entries: %v'' [Val e]) cp', w2)
           | (Inr (entries, pruning), w2) \<Rightarrow> external_verdict E terminal imports entries pruning cp' w2))"

definition reconcileCatalog :: "('u, 'w) korc_env \<Rightarrow> (string \<Rightarrow> bool) \<Rightarrow> 'w cp_step" where
  "reconcileCatalog E terminal s =
     (case s of (cp, w) \<Rightarrow>
      if \<not> AllTrue (kx_meta E) (cp_conditions cp) [conditionTypeAdminCredentialReady]
      then korc_wait (catalog_fail E ''WaitingForAdminCredential''
             (Msg ''AdminCredentialReady is not True; catalog registration deferred'' []) cp) w
      else let cred = \<lparr>cc_cloud = cc_cloud (ac_cloud (cp_admin cp)), cc_secret = clouds_yaml_secret cp\<rparr> in
           if IsExternalKeystone cp then reconcileCatalogExternal E terminal cred cp w
           else reconcile_managed_catalog E cred cp w)"

end
