(* ===== verification/ControlPlaneAccounts.thy ===== *)
theory ControlPlaneAccounts
  imports ControlPlaneCatalog
begin

text \<open>
  The service accounts of a control plane, \<open>operators/c5c3/internal/controller/reconcile_serviceaccounts.go\<close>: a user, a
  project and role assignments in Keystone, with a password that goes through OpenBao like the admin credential.  An
  account that exists already is not taken over: a probe import decides whether it does.
\<close>

section \<open>Reasons, names and generations\<close>

definition reasonNoServiceAccountsDeclared :: string where "reasonNoServiceAccountsDeclared = ''NoServiceAccountsDeclared''"
definition reasonServiceAccountsProvisioned :: string where "reasonServiceAccountsProvisioned = ''ServiceAccountsProvisioned''"
definition reasonWaitingForServiceAccountAdmin :: string where "reasonWaitingForServiceAccountAdmin = ''WaitingForAdminCredential''"
definition reasonServiceAccountStoreNotReady :: string where "reasonServiceAccountStoreNotReady = ''SecretStoreNotReady''"
definition reasonProbingForCollision :: string where "reasonProbingForCollision = ''ProbingForCollision''"
definition reasonServiceAccountCollision :: string where "reasonServiceAccountCollision = ''ServiceAccountCollision''"
definition reasonWaitingForServiceAccounts :: string where "reasonWaitingForServiceAccounts = ''WaitingForServiceAccounts''"
definition reasonServiceAccountsFailed :: string where "reasonServiceAccountsFailed = ''ServiceAccountsFailed''"
definition reasonServiceAccountError :: string where "reasonServiceAccountError = ''ServiceAccountError''"
definition serviceAccountPasswordGenerationAnnotation :: string where
  "serviceAccountPasswordGenerationAnnotation = ''forge.c5c3.io/password-generation''"
definition serviceAccountPasswordKey :: string where "serviceAccountPasswordKey = ''password''"
definition serviceAccountPushContentHashAnnotation :: string where
  "serviceAccountPushContentHashAnnotation = ''c5c3.io/service-account-push-hash''"

definition password_infix :: string where "password_infix = ''-password-v''"

text \<open>\<open>strings.LastIndex\<close>.\<close>

definition last_index :: "string \<Rightarrow> string \<Rightarrow> nat option" where
  "last_index s sub = find (\<lambda>i. has_prefix (drop i s) sub) (rev [0..<Suc (length s)])"

definition parseServiceAccountGeneration :: "string \<Rightarrow> int option" where
  "parseServiceAccountGeneration name =
     (case last_index name password_infix of
        None \<Rightarrow> None
      | Some i \<Rightarrow>
          (case atoi (drop (i + length password_infix) name) of
             Inl e \<Rightarrow> None
           | Inr n \<Rightarrow> if n < 1 then None else Some n))"

section \<open>The state of an account\<close>

record serviceAccountState =
  sw_status :: ServiceAccountStatus
  sw_created :: bool
  sw_scheduled :: bool
  sw_collision :: "msg option"
  sw_terminal :: "msg option"
  sw_probing :: "msg option"
  sw_wait :: "msg option"
  sw_pending :: "orc_object list"

definition initial_state :: "ControlPlane \<Rightarrow> ServiceAccountSpec \<Rightarrow> instant option \<Rightarrow> serviceAccountState" where
  "initial_state cp sa rotated =
     \<lparr>sw_status = \<lparr>sas_name = sa_name sa, sas_ready = False, sas_user_id = [], sas_project_id = [], sas_generation = 0,
        sas_rotation = rotated, sas_secret = serviceAccountCredentialsSecretName cp sa,
        sas_namespace = serviceAccountDeliveryNamespace cp sa\<rparr>,
      sw_created = False, sw_scheduled = (sa_rotation sa = Some ServiceAccountRotationModeScheduled), sw_collision = None,
      sw_terminal = None, sw_probing = None, sw_wait = None, sw_pending = []\<rparr>"

definition pendingServiceAccountObjs :: "orc_object list \<Rightarrow> orc_object list" where
  "pendingServiceAccountObjs xs = filter (\<lambda>x. \<not> korcAvailableUpToDate x) xs"

definition serviceAccountWaitMessage :: "orc_api \<Rightarrow> string \<Rightarrow> orc_object \<Rightarrow> orc_object \<Rightarrow> msg" where
  "serviceAccountWaitMessage A name project user =
     (if \<not> korcAvailableUpToDate project then Msg ''service account %q: project is registered but not yet Available'' [Str name]
      else if \<not> orc_available A user then Msg ''service account %q: user is registered but not yet Available'' [Str name]
      else Msg ''service account %q: awaiting K-ORC to apply the current password to the user'' [Str name])"

section \<open>Probes\<close>

datatype probeVerdict = probePending | probeResolved | probeAbsent

definition interpretProbe :: "orc_object \<Rightarrow> probeVerdict" where
  "interpretProbe x =
     (if korcAvailableUpToDate x then probeResolved else if korcImportPendingExternal (Some x) then probeAbsent else probePending)"

definition serviceAccountUserProbe ::
  "('u, 'w) korc_env \<Rightarrow> ControlPlane \<Rightarrow> ServiceAccountSpec \<Rightarrow> CloudCredentialsRef \<Rightarrow> string \<Rightarrow> string \<Rightarrow> 'w \<Rightarrow>
     (probeVerdict \<times> orc_object) result \<times> 'w" where
  "serviceAccountUserProbe E cp sa cred userName domainRef w =
     (let name = serviceAccountUserProbeRef cp sa in
      case ensure_child (kx_object E OrcUser) cp (orc_import OrcUser cp name cred (NameFilter (Some userName) (Some domainRef))) w of
        (Inl e, w') \<Rightarrow> (Inl (Errorf ''service-account User probe %q: %w'' [Str name, Wrap e]), w')
      | (Inr x, w') \<Rightarrow> (Inr (interpretProbe x, x), w'))"

definition serviceAccountProjectProbe ::
  "('u, 'w) korc_env \<Rightarrow> ControlPlane \<Rightarrow> ServiceAccountSpec \<Rightarrow> CloudCredentialsRef \<Rightarrow> string \<Rightarrow> 'w \<Rightarrow>
     (probeVerdict \<times> orc_object) result \<times> 'w" where
  "serviceAccountProjectProbe E cp sa cred domainRef w =
     (let name = serviceAccountProjectProbeRef cp sa in
      case ensure_child (kx_object E OrcProject) cp
             (orc_import OrcProject cp name cred (NameFilter (Some (sp_name (sa_project sa))) (Some domainRef))) w of
        (Inl e, w') \<Rightarrow> (Inl (Errorf ''service-account Project probe %q: %w'' [Str name, Wrap e]), w')
      | (Inr x, w') \<Rightarrow> (Inr (interpretProbe x, x), w'))"

definition deleteServiceAccountChild :: "('o, 'w) kclient \<Rightarrow> 'o \<Rightarrow> string \<Rightarrow> 'w \<Rightarrow> err option \<times> 'w" where
  "deleteServiceAccountChild C x name w =
     (case k_delete C no_opts x w of (r, w') \<Rightarrow>
        wrap_error ''deleting service-account child %q: %w'' [Str name] (ignore_not_found r, w'))"

definition delete_probe :: "('u, 'w) korc_env \<Rightarrow> ControlPlane \<Rightarrow> orc_kind \<Rightarrow> string \<Rightarrow> 'w \<Rightarrow> err option \<times> 'w" where
  "delete_probe E cp kind name w =
     deleteServiceAccountChild (kd_client (kx_object E kind)) (new_orc kind (childNamespace cp) name) name w"

section \<open>Domain and project\<close>

definition ensureServiceAccountDomain ::
  "('u, 'w) korc_env \<Rightarrow> ControlPlane \<Rightarrow> ServiceAccountSpec \<Rightarrow> CloudCredentialsRef \<Rightarrow> 'w \<Rightarrow> string result \<times> 'w" where
  "ensureServiceAccountDomain E cp sa cred w =
     (let name = serviceAccountDomainRef cp sa in
      if name = adminDomainRef cp then (Inr name, w)
      else case ensure_child (kx_object E OrcDomain) cp
                  (orc_import OrcDomain cp name cred (NameFilter (Some (serviceAccountDomainName cp sa)) None)) w of
             (Inl e, w') \<Rightarrow> (Inl (Errorf ''service-account Domain import %q: %w'' [Str name, Wrap e]), w')
           | (Inr _, w') \<Rightarrow> (Inr name, w'))"

text \<open>The project, whether it is ready, and the state with what the probe says.\<close>

definition managed_project ::
  "('u, 'w) korc_env \<Rightarrow> ControlPlane \<Rightarrow> ServiceAccountSpec \<Rightarrow> CloudCredentialsRef \<Rightarrow> string \<Rightarrow> serviceAccountState \<Rightarrow> 'w \<Rightarrow>
     (orc_object \<times> bool \<times> serviceAccountState) result \<times> 'w" where
  "managed_project E cp sa managedCred domainRef st w =
     (let name = serviceAccountProjectRef cp sa in
      case ensure_child (kx_object E OrcProject) cp
             ((new_orc OrcProject (childNamespace cp) name)\<lparr>oo_policy := ManagementPolicyManaged, oo_cloud := managedCred,
                oo_resource := Some (ProjectResource (Some (sp_name (sa_project sa))) (Some domainRef))\<rparr>) w of
        (Inl e, w') \<Rightarrow> (Inl (Errorf ''service-account managed Project %q: %w'' [Str name, Wrap e]), w')
      | (Inr x, w') \<Rightarrow> (Inr (x, korcAvailableUpToDate x, st), w'))"

definition ensureServiceAccountProject ::
  "('u, 'w) korc_env \<Rightarrow> ControlPlane \<Rightarrow> ServiceAccountSpec \<Rightarrow> CloudCredentialsRef \<Rightarrow> CloudCredentialsRef \<Rightarrow> string \<Rightarrow>
     serviceAccountState \<Rightarrow> 'w \<Rightarrow> (orc_object \<times> bool \<times> serviceAccountState) result \<times> 'w" where
  "ensureServiceAccountProject E cp sa cred managedCred domainRef st w =
     (let name = serviceAccountProjectRef cp sa; project = sp_name (sa_project sa) in
      if \<not> sp_create (sa_project sa)
      then (case ensure_child (kx_object E OrcProject) cp
                   (orc_import OrcProject cp name cred (NameFilter (Some project) (Some domainRef))) w of
              (Inl e, w') \<Rightarrow> (Inl (Errorf ''service-account referenced Project import %q: %w'' [Str name, Wrap e]), w')
            | (Inr x, w') \<Rightarrow> (Inr (x, korcAvailableUpToDate x, st), w'))
      else case k_get (kd_client (kx_object E OrcProject)) (childNamespace cp, name) w of
        Inr _ \<Rightarrow> managed_project E cp sa managedCred domainRef st w
      | Inl e \<Rightarrow>
          if \<not> is_not_found e then (Inl (Errorf ''reading managed Project %q: %w'' [Str name, Wrap e]), w)
          else case serviceAccountProjectProbe E cp sa cred domainRef w of
            (Inl e, w1) \<Rightarrow> (Inl e, w1)
          | (Inr (probeResolved, probe), w1) \<Rightarrow>
              (Inr (probe, False, st\<lparr>sw_collision := Some
                 (Msg (''service account %q wants to CREATE project %q in domain %q, but a project of that name already exists in Keystone; the operator will not silently adopt it '' @ em_dash @ '' set project.create=false to reference the existing project instead'')
                    [Str (sa_name sa), Str project, Str (serviceAccountDomainName cp sa)])\<rparr>), w1)
          | (Inr (probePending, probe), w1) \<Rightarrow>
              (Inr (probe, False, st\<lparr>sw_probing := Some
                 (Msg ''probing whether project %q already exists in Keystone before creating it for service account %q''
                    [Str project, Str (sa_name sa)]),
                 sw_pending := pendingServiceAccountObjs [probe]\<rparr>), w1)
          | (Inr (probeAbsent, probe), w1) \<Rightarrow>
              (case delete_probe E cp OrcProject (serviceAccountProjectProbeRef cp sa) w1 of
                 (Some e, w2) \<Rightarrow> (Inl e, w2)
               | (None, w2) \<Rightarrow> managed_project E cp sa managedCred domainRef st w2))"

section \<open>The user\<close>

text \<open>Whether the managed User may be created, with what the probe says.\<close>

definition serviceAccountUserCollisionGate ::
  "('u, 'w) korc_env \<Rightarrow> ControlPlane \<Rightarrow> ServiceAccountSpec \<Rightarrow> CloudCredentialsRef \<Rightarrow> string \<Rightarrow> string \<Rightarrow>
     serviceAccountState \<Rightarrow> 'w \<Rightarrow> (bool \<times> serviceAccountState) result \<times> 'w" where
  "serviceAccountUserCollisionGate E cp sa cred userName domainRef st w =
     (let name = serviceAccountUserRef cp sa;
          proceed = (\<lambda>w. case delete_probe E cp OrcUser (serviceAccountUserProbeRef cp sa) w of
             (Some e, w') \<Rightarrow> (Inl e, w') | (None, w') \<Rightarrow> (Inr (True, st), w'))
      in case k_get (kd_client (kx_object E OrcUser)) (childNamespace cp, name) w of
           Inr _ \<Rightarrow> proceed w
         | Inl e \<Rightarrow>
             if \<not> is_not_found e then (Inl (Errorf ''reading managed User %q: %w'' [Str name, Wrap e]), w)
             else if sa_adopt sa then proceed w
             else case serviceAccountUserProbe E cp sa cred userName domainRef w of
               (Inl e, w1) \<Rightarrow> (Inl e, w1)
             | (Inr (probeResolved, probe), w1) \<Rightarrow>
                 (Inr (False, st\<lparr>sw_collision := Some
                    (Msg (''service account %q resolves to Keystone user %q in domain %q, which already exists; the operator fails loudly rather than take over an account it did not create '' @ em_dash @ '' set adopt=true to take over the account (and rotate its password), or remove the entry'')
                       [Str (sa_name sa), Str userName, Str (serviceAccountDomainName cp sa)])\<rparr>), w1)
             | (Inr (probePending, probe), w1) \<Rightarrow>
                 (Inr (False, st\<lparr>sw_probing := Some
                    (Msg ''probing whether Keystone user %q already exists before creating service account %q''
                       [Str userName, Str (sa_name sa)]),
                    sw_pending := pendingServiceAccountObjs [probe]\<rparr>), w1)
             | (Inr (probeAbsent, probe), w1) \<Rightarrow> proceed w1)"

definition password_data :: "('u, 'w) korc_env \<Rightarrow> 'w \<Rightarrow> string gomap \<Rightarrow> string gomap result" where
  "password_data E w data =
     (if get_or [] data serviceAccountPasswordKey \<noteq> [] then Inr data
      else case generateAppCredSecretValue E w of
        Inl e \<Rightarrow> Inl e
      | Inr v \<Rightarrow> Inr (map_put serviceAccountPasswordKey v data))"

definition ensureServiceAccountPasswordSecret ::
  "('u, 'w) korc_env \<Rightarrow> ControlPlane \<Rightarrow> ServiceAccountSpec \<Rightarrow> int \<Rightarrow> 'w \<Rightarrow> err option \<times> 'w" where
  "ensureServiceAccountPasswordSecret E cp sa gen w =
     (let name = serviceAccountPasswordSecretName cp sa gen in
      wrap_error ''ensuring service-account password Secret %q: %w'' [Str name]
        (ensureOwnedSecret E cp name (childNamespace cp) (password_data E w) w))"

definition orc_user_of :: "orc_object \<Rightarrow> orc_user option" where
  "orc_user_of x = (case oo_resource x of Some (UserResource u) \<Rightarrow> Some u | _ \<Rightarrow> None)"

definition current_generation :: "orc_object option \<Rightarrow> int" where
  "current_generation existing =
     (case Option.bind (Option.bind (Option.bind existing orc_user_of) ous_password) parseServiceAccountGeneration of
        Some g \<Rightarrow> g | None \<Rightarrow> 1)"

definition rotation_requested :: "orc_object option \<Rightarrow> bool" where
  "rotation_requested existing =
     (case existing of
        None \<Rightarrow> False
      | Some x \<Rightarrow> map_of (m_annotations (oo_meta x)) serviceAccountPasswordGenerationAnnotation = Some [])"

definition desired_generation :: "orc_object option \<Rightarrow> int" where
  "desired_generation existing =
     (if existing = None then 1
      else if rotation_requested existing then wrap64 (current_generation existing + 1) else current_generation existing)"

definition project_user ::
  "ControlPlane \<Rightarrow> ServiceAccountSpec \<Rightarrow> CloudCredentialsRef \<Rightarrow> string \<Rightarrow> string \<Rightarrow> string \<Rightarrow> bool \<Rightarrow> int \<Rightarrow> orc_object \<Rightarrow> orc_object" where
  "project_user cp sa managedCred domainRef projectRef passwordRef rotating gen user =
     (let res = (case orc_user_of user of Some u \<Rightarrow> u
                 | None \<Rightarrow> \<lparr>ous_name = None, ous_domain = None, ous_project = None, ous_password = None\<rparr>);
          m = oo_meta user;
          stamp = m_created m = 0 \<or> rotating \<or> map_of (m_annotations m) serviceAccountPasswordGenerationAnnotation = None
      in user\<lparr>oo_policy := ManagementPolicyManaged, oo_import := None, oo_cloud := managedCred,
              oo_resource := Some (UserResource (res\<lparr>ous_name := Some (serviceAccountUserName sa), ous_domain := Some domainRef,
                 ous_project := Some projectRef, ous_password := Some passwordRef\<rparr>)),
              oo_meta := (if stamp then m\<lparr>m_annotations :=
                 map_put serviceAccountPasswordGenerationAnnotation (show_int gen) (m_annotations m)\<rparr> else m)\<rparr>)"

text \<open>The password Secrets of earlier generations, deleted once the current one is applied.\<close>

definition superseded :: "ControlPlane \<Rightarrow> ServiceAccountSpec \<Rightarrow> int \<Rightarrow> secret \<Rightarrow> bool" where
  "superseded cp sa gen s =
     (case parseServiceAccountGeneration (m_name (s_meta s)) of
        None \<Rightarrow> False
      | Some g \<Rightarrow>
          has_prefix (m_name (s_meta s)) (serviceAccountChildPrefix cp @ sa_name sa @ password_infix) \<and> g < gen \<and>
          ownsServiceAccountChild cp (s_meta s))"

fun delete_superseded ::
  "('u, 'w) korc_env \<Rightarrow> ControlPlane \<Rightarrow> ServiceAccountSpec \<Rightarrow> int \<Rightarrow> secret list \<Rightarrow> 'w \<Rightarrow> err option \<times> 'w" where
  "delete_superseded E cp sa gen [] w = (None, w)"
| "delete_superseded E cp sa gen (s # ss) w =
     (let name = m_name (s_meta s) in
      if \<not> superseded cp sa gen s then delete_superseded E cp sa gen ss w
      else case deleteServiceAccountChild (kd_client (kx_secret E))
                  \<lparr>s_meta = named_meta (childNamespace cp) name, s_version = [], s_data = []\<rparr> name w of
        (Some e, w') \<Rightarrow> (Some e, w')
      | (None, w') \<Rightarrow> delete_superseded E cp sa gen ss w')"

text \<open>\<open>create_user\<close> is \<open>CreateOrUpdate\<close> with its verdict: whether the object was created.\<close>

type_synonym 'w create_user = "(orc_object \<Rightarrow> orc_object result) \<Rightarrow> orc_object \<Rightarrow> 'w \<Rightarrow> (bool \<times> orc_object) result \<times> 'w"

definition write_user ::
  "('u, 'w) korc_env \<Rightarrow> 'w create_user \<Rightarrow> ControlPlane \<Rightarrow> ServiceAccountSpec \<Rightarrow> CloudCredentialsRef \<Rightarrow> string \<Rightarrow> string \<Rightarrow>
     orc_object option \<Rightarrow> 'w \<Rightarrow> (orc_object \<times> int \<times> bool \<times> instant option) result \<times> 'w" where
  "write_user E create_user cp sa managedCred domainRef projectRef existing w =
     (let ns = childNamespace cp; name = serviceAccountUserRef cp sa; gen = desired_generation existing;
          rotating = rotation_requested existing; passwordRef = serviceAccountPasswordSecretName cp sa gen
      in case ensureServiceAccountPasswordSecret E cp sa gen w of
           (Some e, w1) \<Rightarrow> (Inl e, w1)
         | (None, w1) \<Rightarrow>
             (case create_user
                     (\<lambda>live. ow_set_ref (kd_own (kx_object E OrcUser)) (cp_meta cp)
                               (project_user cp sa managedCred domainRef projectRef passwordRef rotating gen live))
                     (new_orc OrcUser ns name) w1 of
                (Inl e, w2) \<Rightarrow> (Inl (Errorf ''service-account managed User %q: %w'' [Str name, Wrap e]), w2)
              | (Inr (created, user), w2) \<Rightarrow>
                  (let result = (user, gen, created, if rotating then Some (kx_now E w2) else None) in
                   if oo_applied_password user \<noteq> Some passwordRef then (Inr result, w2)
                   else case k_list (kd_client (kx_secret E)) ns [] w2 of
                     Inl e \<Rightarrow> (Inl (Errorf ''listing superseded password Secrets: %w'' [Wrap e]), w2)
                   | Inr items \<Rightarrow>
                       (case delete_superseded E cp sa gen items w2 of
                          (Some e, w3) \<Rightarrow> (Inl e, w3)
                        | (None, w3) \<Rightarrow> (Inr result, w3)))))"

definition ensureServiceAccountUser ::
  "('u, 'w) korc_env \<Rightarrow> 'w create_user \<Rightarrow> ControlPlane \<Rightarrow> ServiceAccountSpec \<Rightarrow> CloudCredentialsRef \<Rightarrow> string \<Rightarrow> string \<Rightarrow> 'w \<Rightarrow>
     (orc_object \<times> int \<times> bool \<times> instant option) result \<times> 'w" where
  "ensureServiceAccountUser E create_user cp sa managedCred domainRef projectRef w =
     (let name = serviceAccountUserRef cp sa in
      case k_get (kd_client (kx_object E OrcUser)) (childNamespace cp, name) w of
        Inr existing \<Rightarrow> write_user E create_user cp sa managedCred domainRef projectRef (Some existing) w
      | Inl e \<Rightarrow>
          if \<not> is_not_found e then (Inl (Errorf ''reading managed User %q: %w'' [Str name, Wrap e]), w)
          else write_user E create_user cp sa managedCred domainRef projectRef None w)"

section \<open>The roles\<close>

definition role_wait :: "('u, 'w) korc_env \<Rightarrow> string \<Rightarrow> string \<Rightarrow> orc_object \<Rightarrow> 'w \<Rightarrow> msg" where
  "role_wait E name role x w =
     (let m = Msg ''service account %q: Role import for role %q is registered but not yet Available'' [Str name, Str role] in
      if korcImportStalled (Some x) externalImportStallGrace (kx_now E w)
      then append_msg m (Msg (''; role %q may not exist in Keystone '' @ em_dash @ '' create it there or fix the spelling'') [Str role])
      else m)"

definition first_wait :: "msg \<Rightarrow> serviceAccountState \<Rightarrow> serviceAccountState" where
  "first_wait m st = (if sw_wait st = None then st\<lparr>sw_wait := Some m\<rparr> else st)"

definition add_pending :: "orc_object \<Rightarrow> serviceAccountState \<Rightarrow> serviceAccountState" where
  "add_pending x st = st\<lparr>sw_pending := sw_pending st @ [x]\<rparr>"

fun ensureServiceAccountRoles ::
  "('u, 'w) korc_env \<Rightarrow> ControlPlane \<Rightarrow> ServiceAccountSpec \<Rightarrow> CloudCredentialsRef \<Rightarrow> CloudCredentialsRef \<Rightarrow> string list \<Rightarrow> bool \<Rightarrow>
     serviceAccountState \<Rightarrow> 'w \<Rightarrow> (bool \<times> serviceAccountState) result \<times> 'w" where
  "ensureServiceAccountRoles E cp sa cred managedCred [] ready st w = (Inr (ready, st), w)"
| "ensureServiceAccountRoles E cp sa cred managedCred (role # roles) ready st w =
     (let ns = childNamespace cp; importName = serviceAccountRoleImportRef (kx_sha E) cp role;
          assignName = serviceAccountRoleAssignmentRef (kx_sha E) cp sa role
      in case ensure_child (kx_object E OrcRole) cp (orc_import OrcRole cp importName cred (NameFilter (Some role) None)) w of
           (Inl e, w1) \<Rightarrow> (Inl (Errorf ''service-account Role import %q: %w'' [Str importName, Wrap e]), w1)
         | (Inr x, w1) \<Rightarrow>
             (case ensure_child (kx_object E OrcRoleAssignment) cp
                     ((new_orc OrcRoleAssignment ns assignName)\<lparr>oo_policy := ManagementPolicyManaged, oo_cloud := managedCred,
                        oo_resource := Some (RoleAssignmentResource importName (Some (serviceAccountUserRef cp sa))
                                               (Some (serviceAccountProjectRef cp sa)))\<rparr>) w1 of
                (Inl e, w2) \<Rightarrow> (Inl (Errorf ''service-account RoleAssignment %q: %w'' [Str assignName, Wrap e]), w2)
              | (Inr a, w2) \<Rightarrow>
                  (case first_terminal (kx_orc E) [(role, x), (role, a)] of
                     Some (_, _, e) \<Rightarrow>
                       (Inr (False, st\<lparr>sw_terminal := Some (Msg ''K-ORC reported a terminal error on service account %q role %q: %v''
                               [Str (sa_name sa), Str role, Val e])\<rparr>), w2)
                   | None \<Rightarrow>
                       if \<not> korcAvailableUpToDate x
                       then ensureServiceAccountRoles E cp sa cred managedCred roles False
                              (first_wait (role_wait E (sa_name sa) role x w2) (add_pending x st)) w2
                       else if \<not> korcAvailableUpToDate a
                       then ensureServiceAccountRoles E cp sa cred managedCred roles False
                              (first_wait (Msg ''service account %q: RoleAssignment for role %q is registered but not yet Available''
                                 [Str (sa_name sa), Str role]) (add_pending a st)) w2
                       else ensureServiceAccountRoles E cp sa cred managedCred roles ready st w2)))"

section \<open>Publishing the credentials\<close>

definition serviceAccountPushSecret :: "ControlPlane \<Rightarrow> ServiceAccountSpec \<Rightarrow> push_secret" where
  "serviceAccountPushSecret cp sa =
     \<lparr>ps_meta = named_meta (serviceAccountDeliveryNamespace cp sa) (serviceAccountPushSecretName cp sa),
      ps_deletion_policy = ''Delete'', ps_stores = PushSecretStoreRefs (effectiveControlPlaneStoreRef cp),
      ps_selector = serviceAccountSourceSecretName cp sa, ps_data = [([], serviceAccountRemoteKeyFor cp sa, [])]\<rparr>"

definition account_external :: "ControlPlane \<Rightarrow> ServiceAccountSpec \<Rightarrow> external_secret" where
  "account_external cp sa =
     (let name = serviceAccountCredentialsSecretName cp sa; key = serviceAccountRemoteKeyFor cp sa in
      \<lparr>es_meta = named_meta (serviceAccountDeliveryNamespace cp sa) name, es_refresh = hours 1,
       es_store = Some (ESOSecretStoreRef (effectiveControlPlaneStoreRef cp)), es_target = name, es_creation_policy = ''Owner'',
       es_data = [(serviceAccountPasswordKey, key, serviceAccountPasswordKey), (appCredCloudsYAMLKey, key, appCredCloudsYAMLKey)],
       es_generator = None\<rparr>)"

definition ensureServiceAccountExternalSecret :: "('u, 'w) korc_env \<Rightarrow> ControlPlane \<Rightarrow> ServiceAccountSpec \<Rightarrow> 'w \<Rightarrow> err option \<times> 'w" where
  "ensureServiceAccountExternalSecret E cp sa w =
     (case ensure_owned (kx_external E) cp (account_external cp sa) w of
        (Inl e, w') \<Rightarrow>
          (Some (Errorf ''ensuring service-account ExternalSecret %q: %w'' [Str (serviceAccountCredentialsSecretName cp sa), Wrap e]), w')
      | (Inr _, w') \<Rightarrow> (None, w'))"

definition source_data ::
  "ControlPlane \<Rightarrow> string \<Rightarrow> string \<Rightarrow> string \<Rightarrow> string \<Rightarrow> string \<Rightarrow> string gomap \<Rightarrow> string gomap" where
  "source_data cp userName projectName domain password yaml data =
     put_all [(serviceAccountPasswordKey, password), (''username'', userName), (''project_name'', projectName),
       (''user_domain_name'', domain), (''project_domain_name'', domain), (''auth_url'', korcAuthURL cp),
       (''region_name'', korcRegion cp), (appCredCloudsYAMLKey, yaml)] data"

text \<open>The last part of a publication: what ESO materialises is the current password.\<close>

definition deliver_account ::
  "('u, 'w) korc_env \<Rightarrow> ControlPlane \<Rightarrow> ServiceAccountSpec \<Rightarrow> string \<Rightarrow> string \<Rightarrow> 'w \<Rightarrow> bool result \<times> 'w" where
  "deliver_account E cp sa password trigger w =
     (let ns = serviceAccountDeliveryNamespace cp sa; name = serviceAccountCredentialsSecretName cp sa in
      case ensureServiceAccountExternalSecret E cp sa w of
        (Some e, w1) \<Rightarrow> (Inl (Errorf ''ensuring service-account ExternalSecret: %w'' [Wrap e]), w1)
      | (None, w1) \<Rightarrow>
          (case forceSyncExternalSecret E ns name trigger w1 of
             (Some e, w2) \<Rightarrow> (Inl (Errorf ''forcing service-account ExternalSecret re-sync: %w'' [Wrap e]), w2)
           | (None, w2) \<Rightarrow>
               (case k_get (kd_client (kx_secret E)) (ns, name) w2 of
                  Inl e \<Rightarrow>
                    if is_not_found e then (Inr False, w2)
                    else (Inl (Errorf ''reading materialized service-account Secret: %w'' [Wrap e]), w2)
                | Inr m \<Rightarrow> (Inr (get_or [] (s_data m) serviceAccountPasswordKey = password), w2))))"

definition publishServiceAccount ::
  "('u, 'w) korc_env \<Rightarrow> ControlPlane \<Rightarrow> ServiceAccountSpec \<Rightarrow> string \<Rightarrow> string \<Rightarrow> string \<Rightarrow> int \<Rightarrow> 'w \<Rightarrow> bool result \<times> 'w" where
  "publishServiceAccount E cp sa userName projectName domain gen w =
     (let deliveryNS = serviceAccountDeliveryNamespace cp sa; sourceName = serviceAccountSourceSecretName cp sa;
          pushName = serviceAccountPushSecretName cp sa
      in case k_get (kd_client (kx_secret E)) (childNamespace cp, serviceAccountPasswordSecretName cp sa gen) w of
           Inl e \<Rightarrow>
             if is_not_found e then (Inr False, w) else (Inl (Errorf ''reading service-account password Secret: %w'' [Wrap e]), w)
         | Inr pw \<Rightarrow>
             (let password = get_or [] (s_data pw) serviceAccountPasswordKey;
                  yaml = buildServiceAccountCloudsYAML (kx_quote E) cp userName projectName domain password;
                  hash = kx_sha E yaml
              in if password = [] then (Inr False, w)
                 else case ensureOwnedSecret E cp sourceName deliveryNS
                             (\<lambda>data. Inr (source_data cp userName projectName domain password yaml data)) w of
                   (Some e, w1) \<Rightarrow>
                     (Inl (Errorf ''assembling service-account source Secret %q in namespace %q: %w''
                        [Str sourceName, Str deliveryNS, Wrap e]), w1)
                 | (None, w1) \<Rightarrow>
                     (case ensure_owned (kx_push E) cp (serviceAccountPushSecret cp sa) w1 of
                        (Inl e, w2) \<Rightarrow> (Inl (Errorf ''ensuring service-account PushSecret: %w'' [Wrap e]), w2)
                      | (Inr _, w2) \<Rightarrow>
                          (case forceRepushPushSecret E deliveryNS pushName serviceAccountPushContentHashAnnotation hash w2 of
                             (Some e, w3) \<Rightarrow> (Inl (Errorf ''forcing service-account PushSecret re-push: %w'' [Wrap e]), w3)
                           | (None, w3) \<Rightarrow>
                               (case kx_push_status E (deliveryNS, pushName) w3 of
                                  Inl e \<Rightarrow> (Inl (Errorf ''reading service-account PushSecret: %w'' [Wrap e]), w3)
                                | Inr (conds, version) \<Rightarrow>
                                    if \<not> pushSecretReady conds then (Inr False, w3)
                                    else deliver_account E cp sa password (hash @ ''/'' @ version) w3)))))"

section \<open>One account\<close>

abbreviation put_status :: "(ServiceAccountStatus \<Rightarrow> ServiceAccountStatus) \<Rightarrow> serviceAccountState \<Rightarrow> serviceAccountState" where
  "put_status f st \<equiv> st\<lparr>sw_status := f (sw_status st)\<rparr>"

definition record_user :: "orc_object \<Rightarrow> int \<Rightarrow> bool \<Rightarrow> instant option \<Rightarrow> serviceAccountState \<Rightarrow> serviceAccountState" where
  "record_user user gen created rotated st =
     (let s = sw_status st in
      st\<lparr>sw_created := created,
         sw_status := s\<lparr>sas_generation := gen,
           sas_user_id := (case oo_id user of Some i \<Rightarrow> i | None \<Rightarrow> sas_user_id s),
           sas_rotation := (case rotated of Some t \<Rightarrow> Some t | None \<Rightarrow> sas_rotation s)\<rparr>\<rparr>)"

text \<open>From the managed User on: terminal errors, the current password, the roles, the publication.\<close>

definition provision_account ::
  "('u, 'w) korc_env \<Rightarrow> ControlPlane \<Rightarrow> ServiceAccountSpec \<Rightarrow> CloudCredentialsRef \<Rightarrow> CloudCredentialsRef \<Rightarrow> orc_object \<Rightarrow> bool \<Rightarrow>
     orc_object \<Rightarrow> int \<Rightarrow> serviceAccountState \<Rightarrow> 'w \<Rightarrow> serviceAccountState result \<times> 'w" where
  "provision_account E cp sa cred managedCred project projectReady user gen st w =
     (case first_terminal (kx_orc E) [([], project), ([], user)] of
        Some (_, _, e) \<Rightarrow>
          (Inr (st\<lparr>sw_terminal := Some (Msg ''K-ORC reported a terminal error on service account %q: %v'' [Str (sa_name sa), Val e])\<rparr>), w)
      | None \<Rightarrow>
          if \<not> projectReady \<or> \<not> orc_available (kx_orc E) user \<or>
             oo_applied_password user \<noteq> Some (serviceAccountPasswordSecretName cp sa gen)
          then (Inr (st\<lparr>sw_wait := Some (serviceAccountWaitMessage (kx_orc E) (sa_name sa) project user),
                       sw_pending := pendingServiceAccountObjs [project, user]\<rparr>), w)
          else case ensureServiceAccountRoles E cp sa cred managedCred (sa_roles sa) True st w of
            (Inl e, w1) \<Rightarrow> (Inl e, w1)
          | (Inr (False, st1), w1) \<Rightarrow> (Inr st1, w1)
          | (Inr (True, st1), w1) \<Rightarrow>
              (case publishServiceAccount E cp sa (serviceAccountUserName sa) (sp_name (sa_project sa))
                      (serviceAccountDomainName cp sa) gen w1 of
                 (Inl e, w2) \<Rightarrow> (Inl e, w2)
               | (Inr False, w2) \<Rightarrow>
                   (Inr (st1\<lparr>sw_wait := Some (Msg ''service account %q is provisioned in Keystone; awaiting the OpenBao round-trip and materialized Secret''
                                               [Str (sa_name sa)])\<rparr>), w2)
               | (Inr True, w2) \<Rightarrow> (Inr (put_status (\<lambda>s. s\<lparr>sas_ready := True\<rparr>) st1), w2)))"

definition ensureServiceAccount ::
  "('u, 'w) korc_env \<Rightarrow> 'w create_user \<Rightarrow> ControlPlane \<Rightarrow> CloudCredentialsRef \<Rightarrow> CloudCredentialsRef \<Rightarrow> ServiceAccountSpec \<Rightarrow>
     instant option \<Rightarrow> 'w \<Rightarrow> serviceAccountState result \<times> 'w" where
  "ensureServiceAccount E create_user cp cred managedCred sa prior w =
     (case ensureServiceAccountDomain E cp sa cred w of
        (Inl e, w1) \<Rightarrow> (Inl (Errorf ''ensuring domain import: %w'' [Wrap e]), w1)
      | (Inr domainRef, w1) \<Rightarrow>
          (case ensureServiceAccountProject E cp sa cred managedCred domainRef (initial_state cp sa prior) w1 of
             (Inl e, w2) \<Rightarrow> (Inl e, w2)
           | (Inr (project, projectReady, st), w2) \<Rightarrow>
               if sw_collision st \<noteq> None \<or> sw_probing st \<noteq> None then (Inr st, w2)
               else let st1 = (case oo_id project of Some i \<Rightarrow> put_status (\<lambda>s. s\<lparr>sas_project_id := i\<rparr>) st | None \<Rightarrow> st) in
               (case serviceAccountUserCollisionGate E cp sa cred (serviceAccountUserName sa) domainRef st1 w2 of
                  (Inl e, w3) \<Rightarrow> (Inl e, w3)
                | (Inr (False, st2), w3) \<Rightarrow> (Inr st2, w3)
                | (Inr (True, st2), w3) \<Rightarrow>
                    (case ensureServiceAccountUser E create_user cp sa managedCred domainRef (serviceAccountProjectRef cp sa) w3 of
                       (Inl e, w4) \<Rightarrow> (Inl e, w4)
                     | (Inr (user, gen, created, rotated), w4) \<Rightarrow>
                         provision_account E cp sa cred managedCred project projectReady user gen
                           (record_user user gen created rotated st2) w4))))"

section \<open>Pruning\<close>

definition serviceAccountDeclaredChildNames :: "(string \<Rightarrow> string) \<Rightarrow> ControlPlane \<Rightarrow> ServiceAccountSpec list \<Rightarrow> string list" where
  "serviceAccountDeclaredChildNames sha cp declared =
     concat (map (\<lambda>sa.
       [serviceAccountUserRef cp sa, serviceAccountUserProbeRef cp sa, serviceAccountProjectRef cp sa,
        serviceAccountProjectProbeRef cp sa, serviceAccountDomainRef cp sa, serviceAccountSourceSecretName cp sa,
        serviceAccountPushSecretName cp sa, serviceAccountCredentialsSecretName cp sa] @
       concat (map (\<lambda>role. [serviceAccountRoleImportRef sha cp role, serviceAccountRoleAssignmentRef sha cp sa role]) (sa_roles sa)))
       declared)"

text \<open>A child that is left alone: not the control plane's, or one a declared account has.\<close>

definition account_child_kept :: "(string \<Rightarrow> string) \<Rightarrow> ControlPlane \<Rightarrow> ServiceAccountSpec list \<Rightarrow> objmeta \<Rightarrow> bool" where
  "account_child_kept sha cp declared m \<longleftrightarrow>
     \<not> ownsServiceAccountChild cp m \<or>
     (if str_contains (m_name m) password_infix
      then list_ex (\<lambda>sa. has_prefix (m_name m) (serviceAccountChildPrefix cp @ sa_name sa @ ''-'')) declared
      else m_name m \<in> set (serviceAccountDeclaredChildNames sha cp declared))"

fun sweep_objects ::
  "(objmeta \<Rightarrow> bool) \<Rightarrow> ('o \<Rightarrow> objmeta) \<Rightarrow> ('o, 'w) kclient \<Rightarrow> 'o list \<Rightarrow> 'w \<Rightarrow> string list result \<times> 'w" where
  "sweep_objects kept meta C [] w = (Inr [], w)"
| "sweep_objects kept meta C (x # xs) w =
     (let name = m_name (meta x) in
      if kept (meta x) then sweep_objects kept meta C xs w
      else case k_delete C no_opts x w of (r, w1) \<Rightarrow>
        (case ignore_not_found r of
           Some e \<Rightarrow> (Inl (Errorf ''deleting service-account child %q: %w'' [Str name, Wrap e]), w1)
         | None \<Rightarrow>
             (case sweep_objects kept meta C xs w1 of
                (Inl e, w2) \<Rightarrow> (Inl e, w2)
              | (Inr names, w2) \<Rightarrow> (Inr (name # names), w2))))"

definition sweep_listed ::
  "(objmeta \<Rightarrow> bool) \<Rightarrow> ('o \<Rightarrow> objmeta) \<Rightarrow> ('o, 'w) kclient \<Rightarrow> string \<Rightarrow> farg list \<Rightarrow> string \<Rightarrow> 'w \<Rightarrow> string list result \<times> 'w" where
  "sweep_listed kept meta C text args namespace w =
     (case k_list C namespace [] w of
        Inl e \<Rightarrow> (Inl (Errorf text (args @ [Wrap e])), w)
      | Inr items \<Rightarrow> sweep_objects kept meta C items w)"

fun sweep_kinds ::
  "('u, 'w) korc_env \<Rightarrow> (objmeta \<Rightarrow> bool) \<Rightarrow> string \<Rightarrow> (orc_kind \<times> string) list \<Rightarrow> 'w \<Rightarrow> string list result \<times> 'w" where
  "sweep_kinds E kept ns [] w = (Inr [], w)"
| "sweep_kinds E kept ns ((kind, text) # kinds) w =
     (case sweep_listed kept oo_meta (kd_client (kx_object E kind)) text [] ns w of
        (Inl e, w1) \<Rightarrow> (Inl e, w1)
      | (Inr xs, w1) \<Rightarrow>
          (case sweep_kinds E kept ns kinds w1 of
             (Inl e, w2) \<Rightarrow> (Inl e, w2)
           | (Inr ys, w2) \<Rightarrow> (Inr (xs @ ys), w2)))"

fun sweep_namespaces :: "('u, 'w) korc_env \<Rightarrow> (objmeta \<Rightarrow> bool) \<Rightarrow> string list \<Rightarrow> 'w \<Rightarrow> err option \<times> 'w" where
  "sweep_namespaces E kept [] w = (None, w)"
| "sweep_namespaces E kept (ns # nss) w =
     (case sweep_listed kept ps_meta (kd_client (kx_push E)) ''listing service-account PushSecrets in namespace %q: %w'' [Str ns] ns w of
        (Inl e, w1) \<Rightarrow> (Some e, w1)
      | (Inr _, w1) \<Rightarrow>
          (case sweep_listed kept es_meta (kd_client (kx_external E))
                  ''listing service-account ExternalSecrets in namespace %q: %w'' [Str ns] ns w1 of
             (Inl e, w2) \<Rightarrow> (Some e, w2)
           | (Inr _, w2) \<Rightarrow>
               (case sweep_listed kept s_meta (kd_client (kx_secret E))
                       ''listing service-account Secrets in namespace %q: %w'' [Str ns] ns w2 of
                  (Inl e, w3) \<Rightarrow> (Some e, w3)
                | (Inr _, w3) \<Rightarrow> sweep_namespaces E kept nss w3)))"

definition pruneServiceAccounts ::
  "('u, 'w) korc_env \<Rightarrow> ControlPlane \<Rightarrow> ServiceAccountSpec list \<Rightarrow> 'w \<Rightarrow> string list result \<times> 'w" where
  "pruneServiceAccounts E cp declared w =
     (let kept = account_child_kept (kx_sha E) cp declared in
      case sweep_kinds E kept (childNamespace cp)
             [(OrcRoleAssignment, ''listing service-account RoleAssignments: %w''), (OrcRole, ''listing service-account Roles: %w''),
              (OrcUser, ''listing service-account Users: %w''), (OrcProject, ''listing service-account Projects: %w''),
              (OrcDomain, ''listing service-account Domains: %w'')] w of
        (Inl e, w1) \<Rightarrow> (Inl e, w1)
      | (Inr pruning, w1) \<Rightarrow>
          (case sweep_namespaces E kept (controlPlaneNamespaces cp) w1 of
             (Some e, w2) \<Rightarrow> (Inl e, w2)
           | (None, w2) \<Rightarrow> (Inr pruning, w2)))"

section \<open>The step\<close>

definition accounts_fail :: "('u, 'w) korc_env \<Rightarrow> string \<Rightarrow> msg \<Rightarrow> ControlPlane \<Rightarrow> ControlPlane" where
  "accounts_fail E = conditionFailer (kx_meta E) conditionTypeServiceAccountsReady"

fun first_store_not_ready :: "'w eso_env \<Rightarrow> SecretStoreRefSpec \<Rightarrow> string list \<Rightarrow> 'w \<Rightarrow> string option result" where
  "first_store_not_ready E ref [] w = Inr None"
| "first_store_not_ready E ref (ns # nss) w =
     (case IsStoreRefReady E ref ns w of
        Inl e \<Rightarrow> Inl e
      | Inr ready \<Rightarrow> if \<not> ready then Inr (Some ns) else first_store_not_ready E ref nss w)"

text \<open>The status an account has at the start of a pass: of several with its name, the last one.\<close>

definition prior_rotation :: "ControlPlane \<Rightarrow> string \<Rightarrow> instant option" where
  "prior_rotation cp name =
     (case find (\<lambda>s. sas_name s = name) (rev (ct_accounts (cp_status cp))) of Some s \<Rightarrow> sas_rotation s | None \<Rightarrow> None)"

text \<open>An error names the account it is about.\<close>

fun ensure_accounts ::
  "('u, 'w) korc_env \<Rightarrow> 'w create_user \<Rightarrow> ControlPlane \<Rightarrow> CloudCredentialsRef \<Rightarrow> CloudCredentialsRef \<Rightarrow> ServiceAccountSpec list \<Rightarrow> 'w \<Rightarrow>
     ((string \<times> err) + serviceAccountState list) \<times> 'w" where
  "ensure_accounts E create_user cp cred managedCred [] w = (Inr [], w)"
| "ensure_accounts E create_user cp cred managedCred (sa # sas) w =
     (case ensureServiceAccount E create_user cp cred managedCred sa (prior_rotation cp (sa_name sa)) w of
        (Inl e, w1) \<Rightarrow> (Inl (sa_name sa, e), w1)
      | (Inr st, w1) \<Rightarrow>
          (case ensure_accounts E create_user cp cred managedCred sas w1 of
             (Inl r, w2) \<Rightarrow> (Inl r, w2)
           | (Inr sts, w2) \<Rightarrow> (Inr (st # sts), w2)))"

fun deferral_events :: "('u, 'w) korc_env \<Rightarrow> (serviceAccountState \<times> ServiceAccountSpec) list \<Rightarrow> 'w \<Rightarrow> 'w" where
  "deferral_events E [] w = w"
| "deferral_events E ((st, sa) # rest) w =
     deferral_events E rest
       (if sw_created st \<and> sw_scheduled st
        then kx_event E \<lparr>ev_type = EvNormal, ev_reason = ''ScheduledRotationDeferred'',
               ev_message = Msg ''rotation.mode Scheduled on service account %q is accepted but not yet implemented; rotate on demand via a CredentialRotation CR''
                 [Str (sa_name sa)]\<rparr> w
        else w)"

fun first_state_message :: "(serviceAccountState \<Rightarrow> msg option) \<Rightarrow> serviceAccountState list \<Rightarrow> msg option" where
  "first_state_message f [] = None"
| "first_state_message f (st # sts) = (case f st of Some m \<Rightarrow> Some m | None \<Rightarrow> first_state_message f sts)"

definition unready_message :: "serviceAccountState \<Rightarrow> msg option" where
  "unready_message st =
     (if sas_ready (sw_status st) then None else Some (case sw_wait st of Some m \<Rightarrow> m | None \<Rightarrow> Msg [] []))"

definition accounts_verdict ::
  "('u, 'w) korc_env \<Rightarrow> serviceAccountState list \<Rightarrow> string list \<Rightarrow> ControlPlane \<Rightarrow> 'w \<Rightarrow> 'w cp_outcome" where
  "accounts_verdict E states pruning cp w =
     (let wait = (\<lambda>reason message. korc_wait (accounts_fail E reason message cp) w);
          ready = (\<lambda>reason message. ((zero_result, None),
                     cp_report (kx_meta E) conditionTypeServiceAccountsReady CTrue reason message cp, w))
      in case (if IsExternalKeystone cp then classifyExternalKORCFailure (concat (map sw_pending states)) else ([], [])) of
        (reason, raw) \<Rightarrow>
      if reason \<noteq> [] then wait reason (external_failure_message cp reason raw)
      else case first_state_message sw_collision states of Some m \<Rightarrow> wait reasonServiceAccountCollision m | None \<Rightarrow>
      (case first_state_message sw_terminal states of Some m \<Rightarrow> wait reasonServiceAccountsFailed m | None \<Rightarrow>
      (case first_state_message sw_probing states of Some m \<Rightarrow> wait reasonProbingForCollision m | None \<Rightarrow>
      (case first_state_message unready_message states of Some m \<Rightarrow> wait reasonWaitingForServiceAccounts m | None \<Rightarrow>
      if pruning \<noteq> []
      then wait reasonWaitingForServiceAccounts
             (Msg ''%d undeclared service-account child CR(s) are still being removed'' [Num (int (length pruning))])
      else if cp_accounts cp = []
      then ready reasonNoServiceAccountsDeclared (Msg ''no service accounts are declared'' [])
      else ready reasonServiceAccountsProvisioned
             (Msg ''%d service account(s) provisioned and materialized'' [Num (int (length (cp_accounts cp)))])))))"

definition reconcileServiceAccounts :: "('u, 'w) korc_env \<Rightarrow> 'w create_user \<Rightarrow> 'w cp_step" where
  "reconcileServiceAccounts E create_user s =
     (case s of (cp, w) \<Rightarrow>
      let sas = cp_accounts cp; ref = effectiveControlPlaneStoreRef cp;
          cred = \<lparr>cc_cloud = cc_cloud (ac_cloud (cp_admin cp)), cc_secret = clouds_yaml_secret cp\<rparr>
      in if \<not> AllTrue (kx_meta E) (cp_conditions cp) [conditionTypeAdminCredentialReady]
         then korc_wait (accounts_fail E reasonWaitingForServiceAccountAdmin
                (Msg ''AdminCredentialReady is not True; service-account projection deferred'' []) cp) w
         else case first_store_not_ready (kx_eso E) ref (serviceAccountDeliveryNamespaces cp sas) w of
           Inl e \<Rightarrow> ((zero_result, Some e), cp, w)
         | Inr (Some ns) \<Rightarrow>
             korc_wait (accounts_fail E reasonServiceAccountStoreNotReady
               (Msg ''%s %q in namespace %q is not ready; upstream secret backend unreachable'' [Str (st_kind ref), Str (st_name ref), Str ns]) cp) w
         | Inr None \<Rightarrow>
             (case ensure_accounts E create_user cp cred (entryCredentialsRef cp cred) sas w of
                (Inl (name, e), w1) \<Rightarrow>
                  ((zero_result, Some e),
                   accounts_fail E reasonServiceAccountError (Msg ''reconciling service account %q: %v'' [Str name, Val e]) cp, w1)
              | (Inr states, w1) \<Rightarrow>
                  (case pruneServiceAccounts E cp sas w1 of
                     (Inl e, w2) \<Rightarrow>
                       ((zero_result, Some e),
                        accounts_fail E reasonServiceAccountError (Msg ''pruning undeclared service accounts: %v'' [Val e]) cp, w2)
                   | (Inr pruning, w2) \<Rightarrow>
                       accounts_verdict E states pruning
                         (cp\<lparr>cp_status := (cp_status cp)\<lparr>ct_accounts := map sw_status states\<rparr>\<rparr>)
                         (deferral_events E (zip states sas) w2))))"

end
