(* ===== verification/HorizonTypes.thy ===== *)
theory HorizonTypes
  imports KeystoneTypes
begin

text \<open>
  The Horizon resource, \<open>operators/horizon/api/v1alpha1/horizon_types.go\<close>.  A pointer field is an \<open>option\<close>.  A value of
  \<open>extraConfig\<close> is the JSON text it is written as.
\<close>

definition HorizonDefaultCacheBackend :: string where
  "HorizonDefaultCacheBackend = ''django.core.cache.backends.memcached.PyMemcacheCache''"
definition HorizonDefaultSecretKeyKey :: string where "HorizonDefaultSecretKeyKey = ''secret-key''"
definition DefaultWebSSOLocalChoiceID :: string where "DefaultWebSSOLocalChoiceID = ''credentials''"
definition DefaultWebSSOLocalChoiceLabel :: string where "DefaultWebSSOLocalChoiceLabel = ''Keystone Credentials''"
definition maxWebSSOChoices :: nat where "maxWebSSOChoices = 17"
definition DefaultMultiDomainDefaultDomain :: string where "DefaultMultiDomainDefaultDomain = ''Default''"

definition SettingWebSSOEnabled :: string where "SettingWebSSOEnabled = ''WEBSSO_ENABLED''"
definition SettingWebSSOChoices :: string where "SettingWebSSOChoices = ''WEBSSO_CHOICES''"
definition SettingWebSSOIDPMapping :: string where "SettingWebSSOIDPMapping = ''WEBSSO_IDP_MAPPING''"
definition SettingWebSSOInitialChoice :: string where "SettingWebSSOInitialChoice = ''WEBSSO_INITIAL_CHOICE''"
definition SettingWebSSOKeystoneURL :: string where "SettingWebSSOKeystoneURL = ''WEBSSO_KEYSTONE_URL''"
definition SettingWebSSOUseHTTPReferer :: string where "SettingWebSSOUseHTTPReferer = ''WEBSSO_USE_HTTP_REFERER''"
definition SettingMultiDomainSupport :: string where "SettingMultiDomainSupport = ''OPENSTACK_KEYSTONE_MULTIDOMAIN_SUPPORT''"
definition SettingMultiDomainDefaultDomain :: string where
  "SettingMultiDomainDefaultDomain = ''OPENSTACK_KEYSTONE_DEFAULT_DOMAIN''"
definition SettingMultiDomainDomainDropdown :: string where
  "SettingMultiDomainDomainDropdown = ''OPENSTACK_KEYSTONE_DOMAIN_DROPDOWN''"
definition SettingMultiDomainDomainChoices :: string where
  "SettingMultiDomainDomainChoices = ''OPENSTACK_KEYSTONE_DOMAIN_CHOICES''"
definition SettingSecureProxySSLHeader :: string where "SettingSecureProxySSLHeader = ''SECURE_PROXY_SSL_HEADER''"

definition WebSSOSettingNames :: "string list" where
  "WebSSOSettingNames =
     [SettingWebSSOEnabled, SettingWebSSOChoices, SettingWebSSOIDPMapping, SettingWebSSOInitialChoice,
      SettingWebSSOKeystoneURL, SettingWebSSOUseHTTPReferer]"

definition MultiDomainSettingNames :: "string list" where
  "MultiDomainSettingNames =
     [SettingMultiDomainSupport, SettingMultiDomainDefaultDomain, SettingMultiDomainDomainDropdown,
      SettingMultiDomainDomainChoices]"

record WebSSOChoice =
  wc_id :: string
  wc_label :: string

record WebSSOIDPTarget =
  wt_provider :: string
  wt_protocol :: string

record WebSSOSpec =
  ws_enabled :: bool
  ws_choices :: "WebSSOChoice list"
  ws_mapping :: "WebSSOIDPTarget gomap"
  ws_initial :: string
  ws_keystone_url :: string

record DomainChoice =
  dch_name :: string
  dch_label :: string

record MultiDomainSpec =
  mds_enabled :: bool
  mds_default :: string
  mds_dropdown :: bool
  mds_choices :: "DomainChoice list"

record HorizonSpec =
  ho_deployment :: DeploymentSpec
  ho_image :: ImageSpec
  ho_cache :: CacheSpec
  ho_keystone_endpoint :: string
  ho_secret_key :: SecretRefSpec
  ho_store_ref :: "SecretStoreRefSpec option"
  ho_gateway :: "GatewaySpec option"
  ho_network_policy :: "NetworkPolicySpec option"
  ho_autoscaling :: "AutoscalingSpec option"
  ho_logging :: "LoggingSpec option"
  ho_websso :: "WebSSOSpec option"
  ho_multi_domain :: "MultiDomainSpec option"
  ho_extra :: "string gomap"

record HorizonStatus =
  hs_conditions :: "condition list"
  hs_observed :: int
  hs_endpoint :: string

record Horizon =
  hn_meta :: objmeta
  hn_spec :: HorizonSpec
  hn_status :: HorizonStatus

end
