(* ===== verification/ControlPlaneServices.thy ===== *)
theory ControlPlaneServices
  imports ControlPlaneSecrets IdentityBackendTypes HorizonTypes Policy
begin

text \<open>
  The services of a control plane: the Keystone child (\<open>reconcile_keystone.go\<close>), the Horizon child
  (\<open>reconcile_horizon.go\<close>) and the login choices it takes from the identity backends (\<open>identity_backends.go\<close>), with the
  conversion of a rotation interval to a cron schedule (\<open>helpers.go\<close>); all in
  \<open>operators/c5c3/internal/controller\<close>.  \<open>sort.Slice\<close> is \<open>sort_key\<close>: equal keys keep their order.
\<close>

section \<open>What the code calls\<close>

record ('u, 'w) services_env =
  sc_meta :: meta_api
  sc_keystone :: "(Keystone, 'w) kclient"
  sc_keystone_ssa :: "(Keystone, 'u, 'w) ssa_api"
  sc_horizon :: "(Horizon, 'w) kclient"
  sc_horizon_own :: "Horizon own_api"
  sc_horizon_upsert :: "(Horizon, 'w) create_or_update"
  sc_backends :: "(KeystoneIdentityBackend, 'w) kclient"
  sc_sha :: "string \<Rightarrow> string"                 \<comment> \<open>SHA-256 in hexadecimal\<close>

text \<open>\<open>strconv.ParseBool\<close>.\<close>

definition parse_bool :: "string \<Rightarrow> bool option" where
  "parse_bool s =
     (if s \<in> {''1'', ''t'', ''T'', ''TRUE'', ''true'', ''True''} then Some True
      else if s \<in> {''0'', ''f'', ''F'', ''FALSE'', ''false'', ''False''} then Some False
      else None)"

section \<open>Rotation intervals\<close>

definition intervalToCron :: "duration \<Rightarrow> string result" where
  "intervalToCron d =
     (let day = hours 24; week = 7 * day in
      if d = week then Inr ''0 0 * * 0''
      else if d > 0 \<and> d mod day = 0 then Inr ''0 0 * * *''
      else Inl (Errorf ''unsupported rotation interval %q: must be 168h (weekly) or a positive multiple of 24h (daily)'' [Num d]))"

section \<open>Identity backends\<close>

definition webSSOAuthWebssoPath :: string where "webSSOAuthWebssoPath = ''/auth/websso/''"
definition maxWebSSOChoiceIDLen :: nat where "maxWebSSOChoiceIDLen = 64"
definition maxProjectedFederationChoices :: nat where "maxProjectedFederationChoices = 16"

definition backend_ready :: "meta_api \<Rightarrow> KeystoneIdentityBackend \<Rightarrow> bool" where
  "backend_ready K b = IsReady K (kb_conditions b)"

definition listIdentityBackends ::
  "('u, 'w) services_env \<Rightarrow> ControlPlane \<Rightarrow> 'w \<Rightarrow> KeystoneIdentityBackend list result" where
  "listIdentityBackends E cp w =
     (case k_list (sc_backends E) (KeystoneNamespace cp) [] w of
        Inl e \<Rightarrow> Inl (Errorf ''listing identity backends for Keystone %s: %w'' [Str (keystoneName cp), Wrap e])
      | Inr items \<Rightarrow>
          Inr (filter (\<lambda>b. \<not> m_deleting (kb_meta b) \<and> ib_keystone (kb_spec b) = keystoneName cp) items))"

definition readyFederationBackends :: "meta_api \<Rightarrow> KeystoneIdentityBackend list \<Rightarrow> KeystoneIdentityBackend list" where
  "readyFederationBackends K backends =
     sort_key EffectiveIdentityProviderName
       (filter (\<lambda>b. kb_type b = IdentityBackendTypeOIDC \<and> backend_ready K b) backends)"

fun backends_awaiting :: "meta_api \<Rightarrow> string \<Rightarrow> KeystoneIdentityBackend list \<Rightarrow> bool \<Rightarrow> bool" where
  "backends_awaiting K ty [] attached = attached"
| "backends_awaiting K ty (b # bs) attached =
     (if kb_type b \<noteq> ty then backends_awaiting K ty bs attached
      else if backend_ready K b then False
      else backends_awaiting K ty bs True)"

definition backendsAwaitingReady :: "meta_api \<Rightarrow> KeystoneIdentityBackend list \<Rightarrow> string \<Rightarrow> bool" where
  "backendsAwaitingReady K backends ty = backends_awaiting K ty backends False"

definition hasReadyDomainBackend :: "meta_api \<Rightarrow> KeystoneIdentityBackend list \<Rightarrow> bool" where
  "hasReadyDomainBackend K backends = list_ex (\<lambda>b. kb_type b = IdentityBackendTypeLDAP \<and> backend_ready K b) backends"

definition webSSOChoiceID :: "(string \<Rightarrow> string) \<Rightarrow> KeystoneIdentityBackend \<Rightarrow> string" where
  "webSSOChoiceID sha b =
     (let id = EffectiveIdentityProviderName b @ ''_'' @ EffectiveProtocolID b; suffix = ''_'' @ take 8 (sha id)
      in if length id \<le> maxWebSSOChoiceIDLen then id
         else take (maxWebSSOChoiceIDLen - length suffix) id @ suffix)"

definition horizonPublicEndpoint :: "ServiceHorizonSpec option \<Rightarrow> string" where
  "horizonPublicEndpoint hz =
     (case hz of
        None \<Rightarrow> []
      | Some h \<Rightarrow>
          if hz_public_endpoint h \<noteq> [] then trim_right ''/'' (hz_public_endpoint h)
          else case hz_gateway h of
                 None \<Rightarrow> []
               | Some g \<Rightarrow> if gw_hostname g \<noteq> [] then ''https://'' @ gw_hostname g else [])"

definition identityBackendToControlPlaneMapper ::
  "(ControlPlane, 'w) kclient \<Rightarrow> KeystoneIdentityBackend \<Rightarrow> 'w \<Rightarrow> objkey list" where
  "identityBackendToControlPlaneMapper C backend w =
     (case k_list C [] [] w of
        Inl e \<Rightarrow> []
      | Inr items \<Rightarrow>
          map (\<lambda>cp. key_of (cp_meta cp))
            (filter (\<lambda>cp. KeystoneNamespace cp = m_namespace (kb_meta backend) \<and> keystoneName cp = ib_keystone (kb_spec backend))
              items))"

section \<open>The Keystone child\<close>

definition defaultKeystoneRepository :: string where "defaultKeystoneRepository = ''ghcr.io/c5c3/keystone''"
definition defaultFederationProxyRepository :: string where
  "defaultFederationProxyRepository = ''ghcr.io/c5c3/keystone-federation-proxy''"
definition keystoneDeletionAllowedAnnotation :: string where
  "keystoneDeletionAllowedAnnotation = ''c5c3.io/allow-keystone-deletion''"

definition keystoneDeletionAllowed :: "ControlPlane \<Rightarrow> bool" where
  "keystoneDeletionAllowed cp \<longleftrightarrow>
     parse_bool (get_or [] (m_annotations (cp_meta cp)) keystoneDeletionAllowedAnnotation) = Some True"

definition federationProxyImage :: "ControlPlane \<Rightarrow> ImageSpec" where
  "federationProxyImage cp =
     (case Option.bind (cp_keystone cp) kk_proxy_image of
        Some i \<Rightarrow> i
      | None \<Rightarrow> \<lparr>im_repository = defaultFederationProxyRepository, im_tag = ''latest'', im_digest = []\<rparr>)"

definition cp_trustedDashboards :: "ControlPlane \<Rightarrow> string list" where
  "cp_trustedDashboards cp =
     (let base = horizonPublicEndpoint (cp_horizon cp) in if base = [] then [] else [base @ webSSOAuthWebssoPath])"

definition deleteOrphanedKeystone :: "('u, 'w) services_env \<Rightarrow> ControlPlane \<Rightarrow> 'w \<Rightarrow> err option \<times> 'w" where
  "deleteOrphanedKeystone E cp w =
     DeleteOrphanedChildFunc (sc_keystone E) ''Keystone'' (KeystoneNamespace cp, keystoneName cp)
       (\<lambda>live. isControlPlaneChild cp (ko_meta live)) w"

definition release_image :: "string \<Rightarrow> ControlPlane \<Rightarrow> ImageSpec option \<Rightarrow> ImageSpec" where
  "release_image repository cp override =
     (case override of Some i \<Rightarrow> i | None \<Rightarrow> \<lparr>im_repository = repository, im_tag = cs_release (cp_spec cp), im_digest = []\<rparr>)"

text \<open>The zero values of the Go structs a projection starts from.\<close>

definition zero_deployment :: DeploymentSpec where
  "zero_deployment = \<lparr>de_replicas = 0, de_resources = None, de_grace_period = None, de_pre_stop_sleep = None, de_strategy = None,
     de_topology_spread = None, de_priority_class = None\<rparr>"

definition zero_fernet :: FernetSpec where
  "zero_fernet = \<lparr>fe_schedule = [], fe_max_active = 0, fe_suspend = False\<rparr>"

definition zero_credential_keys :: CredentialKeysSpec where
  "zero_credential_keys = \<lparr>ck_schedule = [], ck_max_active = 0, ck_suspend = False\<rparr>"

definition projected_database :: "ControlPlane \<Rightarrow> DatabaseSpec \<Rightarrow> DatabaseSpec" where
  "projected_database cp db =
     (if db_cluster_ref db = None then db
      else db\<lparr>db_secret_ref := \<lparr>sr_name = dbCredentialSecretName cp, sr_key = ''password''\<rparr>,
              db_credentials_mode := (if dbCredentialsDynamicEnabled cp then CredentialsModeDynamic else CredentialsModeStatic)\<rparr>)"

definition projected_keystone ::
  "ControlPlane \<Rightarrow> ServiceKeystoneSpec \<Rightarrow> DatabaseSpec \<Rightarrow> CacheSpec \<Rightarrow> string \<Rightarrow> Keystone" where
  "projected_keystone cp ks db cache schedule =
     (let m = named_meta (KeystoneNamespace cp) (keystoneName cp) in
      \<lparr>ko_meta = (if KeystoneNamespace cp \<noteq> cp_namespace cp then stampControlPlaneChildLabels cp m else m),
       ko_spec =
         \<lparr>ks_deployment = zero_deployment\<lparr>de_replicas := (case kk_replicas ks of Some n \<Rightarrow> n | None \<Rightarrow> 0)\<rparr>,
          ks_image = release_image defaultKeystoneRepository cp (kk_image ks),
          ks_database = projected_database cp db, ks_cache = cache,
          ks_fernet = (if schedule \<noteq> [] then zero_fernet\<lparr>fe_schedule := schedule\<rparr> else zero_fernet),
          ks_credential_keys = (if schedule \<noteq> [] then zero_credential_keys\<lparr>ck_schedule := schedule\<rparr> else zero_credential_keys),
          ks_password_rotation = None, ks_trust_flush = None,
          ks_federation = Some \<lparr>fd_proxy_image = Some (federationProxyImage cp), fd_dashboards = cp_trustedDashboards cp\<rparr>,
          ks_bootstrap = \<lparr>bs_admin_user = [], bs_admin_secret = effectiveAdminPasswordSecretRef cp, bs_region = cs_region (cp_spec cp),
            bs_public_endpoint = keystonePublicEndpoint (Some ks)\<rparr>,
          ks_middleware = [], ks_plugins = [],
          ks_policy_overrides = MergePolicies (cs_policy (cp_spec cp)) (kk_policy_overrides ks),
          ks_secret_store_ref = effectiveControlPlaneStoreRefPtr cp, ks_autoscaling = None, ks_network_policy = None,
          ks_gateway = kk_gateway ks, ks_uwsgi = None, ks_logging = None, ks_extra_config = []\<rparr>,
       ko_status = \<lparr>kt_conditions = [], kt_observed_generation = 0, kt_endpoint = [], kt_installed = [], kt_target = [],
         kt_phase = []\<rparr>\<rparr>)"

definition keystone_child :: "ControlPlane \<Rightarrow> Keystone \<Rightarrow> (Keystone, 'u, 'w) child_params" where
  "keystone_child cp k =
     \<lparr>ch_child = k, ch_condition = conditionTypeKeystoneReady, ch_ready_reason = ''KeystoneReady'',
      ch_ready_message = Msg ''Projected Keystone CR is ready'' [], ch_waiting_reason = ''WaitingForKeystone'',
      ch_waiting_message = Msg ''Keystone %q is not ready'' [Str (m_name (ko_meta k))],
      ch_rejected_reason = ''KeystoneProjectionRejected'',
      ch_rejected_message = (\<lambda>e. Msg (''Keystone API server rejected the projected spec (likely an immutable db/bootstrap field diverged from the frozen Keystone child); reconcile the ControlPlane spec back to the child'' @ [CHR 0x27] @
        ''s values or recreate the Keystone child to recover: %v'') [Val e]),
      ch_error_reason = ''KeystoneError'', ch_error_message = (\<lambda>e. Msg ''create-or-update Keystone: %v'' [Val e]),
      ch_wait_requeue = infraRequeueAfter, ch_generation = cp_generation cp,
      ch_conditions = (\<lambda>live. kt_conditions (ko_status live)),
      ch_unowned = (KeystoneNamespace cp \<noteq> cp_namespace cp)\<rparr>"

definition reconcileKeystone :: "('u, 'w) services_env \<Rightarrow> 'w cp_step" where
  "reconcileKeystone E s =
     (let (cp, w) = s; report = cp_report (sc_meta E) conditionTypeKeystoneReady;
          unset = ''spec.services.keystone is unset; no Keystone service is managed by this ControlPlane''
      in case cp_keystone cp of
           None \<Rightarrow>
             if keystoneDeletionAllowed cp
             then (case deleteOrphanedKeystone E cp w of
                     (Some e, w') \<Rightarrow> ((zero_result, Some e), cp, w')
                   | (None, w') \<Rightarrow> ((zero_result, None), report CTrue ''KeystoneNotManaged'' (Msg unset []) cp, w'))
             else ((zero_result, None), report CTrue ''KeystoneNotManaged''
                     (Msg (unset @ ''; any previously-projected Keystone child is preserved to protect its credential/fernet keys (set annotation %s=true to allow deletion)'')
                        [Str keystoneDeletionAllowedAnnotation]) cp, w)
         | Some ks \<Rightarrow>
             if IsExternalKeystone cp
             then ((zero_result, None), report CTrue conditionReasonExternallyManaged
                     (Msg ''External keystone mode: identity is managed against %s; no Keystone child is projected''
                        [Str (externalKeystoneAuthURL cp)]) cp, w)
             else case effectiveKeystoneDatabase cp of
               None \<Rightarrow> ((after infraRequeueAfter, None), cp, w)
             | Some db \<Rightarrow>
                 (case effectiveKeystoneCache cp of
                    None \<Rightarrow> ((after infraRequeueAfter, None), cp, w)
                  | Some cache \<Rightarrow>
                      if \<not> AllTrue (sc_meta E) (cp_conditions cp) [conditionTypeInfrastructureReady]
                      then ((after keystoneInfraGateRequeueAfter, None), report CFalse ''WaitingForInfrastructure''
                              (Msg ''InfrastructureReady is not True; Keystone projection deferred'' []) cp, w)
                      else case (case kk_rotation_interval ks of None \<Rightarrow> Inr [] | Some d \<Rightarrow> intervalToCron d) of
                        Inl e \<Rightarrow>
                          ((zero_result, Some (Errorf ''invalid keystone rotation interval: %w'' [Wrap e])),
                           report CFalse ''InvalidRotationInterval'' (Msg ''invalid keystone rotation interval: %v'' [Val e]) cp, w)
                      | Inr schedule \<Rightarrow>
                          (case ProjectChild (sc_meta E) (sc_keystone_ssa E) (cp_meta cp)
                                  (keystone_child cp (projected_keystone cp ks db cache schedule)) (cp_conditions cp) w of
                             (r, cs, w') \<Rightarrow> (r, put_cp_conditions cs cp, w'))))"

section \<open>The Horizon child\<close>

definition defaultHorizonRepository :: string where "defaultHorizonRepository = ''ghcr.io/c5c3/horizon''"
definition defaultHorizonSecretKeyName :: string where "defaultHorizonSecretKeyName = ''horizon-secret-key''"
definition defaultHorizonSecretKeyKey :: string where "defaultHorizonSecretKeyKey = ''secret-key''"
definition horizonDeletionAllowedAnnotation :: string where
  "horizonDeletionAllowedAnnotation = ''c5c3.io/allow-horizon-deletion''"

definition horizonDeletionAllowed :: "ControlPlane \<Rightarrow> bool" where
  "horizonDeletionAllowed cp \<longleftrightarrow>
     parse_bool (get_or [] (m_annotations (cp_meta cp)) horizonDeletionAllowedAnnotation) = Some True"

definition deleteOrphanedHorizon :: "('u, 'w) services_env \<Rightarrow> ControlPlane \<Rightarrow> 'w \<Rightarrow> err option \<times> 'w" where
  "deleteOrphanedHorizon E cp w =
     DeleteOrphanedChildFunc (sc_horizon E) ''Horizon'' (HorizonNamespace cp, horizonName cp)
       (\<lambda>live. isControlPlaneChild cp (hn_meta live)) w"

definition horizonKeystoneEndpoint :: "ControlPlane \<Rightarrow> string" where
  "horizonKeystoneEndpoint cp = keystoneEndpointURL cp"

definition websso_choice :: "(string \<Rightarrow> string) \<Rightarrow> KeystoneIdentityBackend \<Rightarrow> WebSSOChoice" where
  "websso_choice sha b = \<lparr>wc_id = webSSOChoiceID sha b, wc_label = EffectiveIdentityProviderName b\<rparr>"

fun idp_mapping :: "(string \<Rightarrow> string) \<Rightarrow> KeystoneIdentityBackend list \<Rightarrow> WebSSOIDPTarget gomap \<Rightarrow> WebSSOIDPTarget gomap" where
  "idp_mapping sha [] m = m"
| "idp_mapping sha (b # bs) m =
     idp_mapping sha bs (map_put (webSSOChoiceID sha b)
       \<lparr>wt_provider = EffectiveIdentityProviderName b, wt_protocol = EffectiveProtocolID b\<rparr> m)"

definition horizonWebSSO ::
  "meta_api \<Rightarrow> (string \<Rightarrow> string) \<Rightarrow> ControlPlane \<Rightarrow> KeystoneIdentityBackend list \<Rightarrow> WebSSOSpec option" where
  "horizonWebSSO K sha cp backends =
     (let ready = readyFederationBackends K backends; url = keystonePublicEndpoint (cp_keystone cp);
          federated = take maxProjectedFederationChoices ready
      in if ready = [] then None
         else if cp_trustedDashboards cp = [] \<or> url = [] then None
         else Some \<lparr>ws_enabled = True,
                ws_choices = \<lparr>wc_id = DefaultWebSSOLocalChoiceID, wc_label = DefaultWebSSOLocalChoiceLabel\<rparr> #
                  map (websso_choice sha) federated,
                ws_mapping = idp_mapping sha federated [], ws_initial = DefaultWebSSOLocalChoiceID,
                ws_keystone_url = url\<rparr>)"

definition projectWebSSO ::
  "meta_api \<Rightarrow> (string \<Rightarrow> string) \<Rightarrow> ControlPlane \<Rightarrow> KeystoneIdentityBackend list \<Rightarrow> WebSSOSpec option \<Rightarrow> WebSSOSpec option" where
  "projectWebSSO K sha cp backends current =
     (case horizonWebSSO K sha cp backends of
        Some websso \<Rightarrow> Some websso
      | None \<Rightarrow> if backendsAwaitingReady K backends IdentityBackendTypeOIDC then current else None)"

definition horizonMultiDomain :: "meta_api \<Rightarrow> KeystoneIdentityBackend list \<Rightarrow> MultiDomainSpec option" where
  "horizonMultiDomain K backends =
     (if \<not> hasReadyDomainBackend K backends then None
      else Some \<lparr>mds_enabled = True, mds_default = DefaultMultiDomainDefaultDomain, mds_dropdown = False, mds_choices = []\<rparr>)"

definition projectMultiDomain ::
  "meta_api \<Rightarrow> KeystoneIdentityBackend list \<Rightarrow> MultiDomainSpec option \<Rightarrow> MultiDomainSpec option" where
  "projectMultiDomain K backends current =
     (case horizonMultiDomain K backends of
        Some md \<Rightarrow> Some md
      | None \<Rightarrow> if backendsAwaitingReady K backends IdentityBackendTypeLDAP then current else None)"

definition blank_horizon :: "ControlPlane \<Rightarrow> Horizon" where
  "blank_horizon cp =
     \<lparr>hn_meta = named_meta (HorizonNamespace cp) (horizonName cp),
      hn_spec = \<lparr>ho_deployment = zero_deployment, ho_image = \<lparr>im_repository = [], im_tag = [], im_digest = []\<rparr>,
        ho_cache = \<lparr>ca_cluster_ref = None, ca_backend = [], ca_servers = [], ca_replicas = 0\<rparr>, ho_keystone_endpoint = [],
        ho_secret_key = \<lparr>sr_name = [], sr_key = []\<rparr>, ho_store_ref = None, ho_gateway = None, ho_network_policy = None,
        ho_autoscaling = None, ho_logging = None, ho_websso = None, ho_multi_domain = None, ho_extra = []\<rparr>,
      hn_status = \<lparr>hs_conditions = [], hs_observed = 0, hs_endpoint = []\<rparr>\<rparr>"

text \<open>The function \<open>CreateOrUpdate\<close> applies to what it has read.\<close>

definition project_horizon ::
  "('u, 'w) services_env \<Rightarrow> ControlPlane \<Rightarrow> ServiceHorizonSpec \<Rightarrow> CacheSpec \<Rightarrow> KeystoneIdentityBackend list \<Rightarrow> Horizon \<Rightarrow> Horizon" where
  "project_horizon E cp hz cache backends live =
     (let sp = hn_spec live in
      live\<lparr>hn_spec := sp
        \<lparr>ho_image := release_image defaultHorizonRepository cp (hz_image hz),
         ho_cache := cache\<lparr>ca_backend := HorizonDefaultCacheBackend\<rparr>,
         ho_keystone_endpoint := horizonKeystoneEndpoint cp,
         ho_secret_key := (case hz_secret_key_ref hz of Some r \<Rightarrow> r
           | None \<Rightarrow> \<lparr>sr_name = defaultHorizonSecretKeyName, sr_key = defaultHorizonSecretKeyKey\<rparr>),
         ho_store_ref := effectiveControlPlaneStoreRefPtr cp,
         ho_gateway := hz_gateway hz,
         ho_deployment := (ho_deployment sp)\<lparr>de_replicas := (case hz_replicas hz of Some n \<Rightarrow> n | None \<Rightarrow> DefaultReplicas)\<rparr>,
         ho_websso := projectWebSSO (sc_meta E) (sc_sha E) cp backends (ho_websso sp),
         ho_multi_domain := projectMultiDomain (sc_meta E) backends (ho_multi_domain sp)\<rparr>\<rparr>)"

definition reconcileHorizon :: "('u, 'w) services_env \<Rightarrow> 'w cp_step" where
  "reconcileHorizon E s =
     (let (cp, w) = s; report = cp_report (sc_meta E) conditionTypeHorizonReady;
          unset = ''spec.services.horizon is unset; no Horizon dashboard is managed by this ControlPlane''
      in case cp_horizon cp of
           None \<Rightarrow>
             if horizonDeletionAllowed cp
             then (case deleteOrphanedHorizon E cp w of
                     (Some e, w') \<Rightarrow> ((zero_result, Some e), cp, w')
                   | (None, w') \<Rightarrow> ((zero_result, None), report CTrue ''HorizonNotManaged'' (Msg unset []) cp, w'))
             else ((zero_result, None), report CTrue ''HorizonNotManaged''
                     (Msg (unset @ ''; any previously-projected Horizon child is preserved (set annotation %s=true to allow deletion)'')
                        [Str horizonDeletionAllowedAnnotation]) cp, w)
         | Some hz \<Rightarrow>
             (case effectiveHorizonCache cp of
                None \<Rightarrow> ((after infraRequeueAfter, None), cp, w)
              | Some cache \<Rightarrow>
                  if \<not> AllTrue (sc_meta E) (cp_conditions cp) [conditionTypeKeystoneReady]
                  then ((after keystoneInfraGateRequeueAfter, None), report CFalse ''WaitingForKeystone''
                          (Msg ''KeystoneReady is not True; Horizon projection deferred'' []) cp, w)
                  else case listIdentityBackends E cp w of
                    Inl e \<Rightarrow>
                      ((zero_result, Some e), report CFalse ''IdentityBackendsUnavailable''
                         (Msg ''listing identity backends for the Horizon projection: %v'' [Val e]) cp, w)
                  | Inr backends \<Rightarrow>
                      (case sc_horizon_upsert E
                              (\<lambda>live. claimChildOwnership (sc_horizon_own E) cp (project_horizon E cp hz cache backends live))
                              (blank_horizon cp) w of
                         (Inl e, w') \<Rightarrow>
                           ((zero_result, Some e),
                            (if is_invalid e
                             then report CFalse ''HorizonProjectionRejected''
                                    (Msg ''Horizon API server rejected the projected spec; reconcile the ControlPlane spec to a valid projection to recover: %v'' [Val e]) cp
                             else report CFalse ''HorizonError'' (Msg ''create-or-update Horizon: %v'' [Val e]) cp), w')
                       | (Inr live, w') \<Rightarrow>
                           if \<not> IsReady (sc_meta E) (hs_conditions (hn_status live))
                           then ((after infraRequeueAfter, None), report CFalse ''WaitingForHorizon''
                                   (Msg ''Horizon %q is not ready'' [Str (m_name (hn_meta live))]) cp, w')
                           else ((zero_result, None), report CTrue ''HorizonReady''
                                   (Msg ''Projected Horizon CR is ready'' []) cp, w'))))"

section \<open>Facts\<close>

lemma choice_id_bounded: "length (sha (EffectiveIdentityProviderName b @ ''_'' @ EffectiveProtocolID b)) \<ge> 8 \<Longrightarrow>
    length (webSSOChoiceID sha b) \<le> maxWebSSOChoiceIDLen"
  by (auto simp: webSSOChoiceID_def Let_def maxWebSSOChoiceIDLen_def)

lemma awaiting_iff:
  "backends_awaiting K ty bs attached \<longleftrightarrow>
     (attached \<or> (\<exists>b\<in>set bs. kb_type b = ty)) \<and> \<not> (\<exists>b\<in>set bs. kb_type b = ty \<and> backend_ready K b)"
  by (induction bs arbitrary: attached) auto

lemma map_of_idp_mapping:
  "map_of (idp_mapping sha bs m) k =
     (case find (\<lambda>b. webSSOChoiceID sha b = k) (rev bs) of
        Some b \<Rightarrow> Some \<lparr>wt_provider = EffectiveIdentityProviderName b, wt_protocol = EffectiveProtocolID b\<rparr>
      | None \<Rightarrow> map_of m k)"
proof (induction bs arbitrary: m)
  case (Cons b bs)
  have "find P (xs @ [b]) = (case find P xs of Some y \<Rightarrow> Some y | None \<Rightarrow> if P b then Some b else None)" for P xs
    by (induction xs) auto
  then show ?case using Cons by (auto split: option.splits)
qed simp

lemma idp_mapping_bounded: "length (idp_mapping sha bs m) \<le> length bs + length m"
proof (induction bs arbitrary: m)
  case (Cons b bs)
  have "length (map_put k v m) \<le> Suc (length m)" for k v and m :: "WebSSOIDPTarget gomap"
    by (induction m) auto
  then show ?case using Cons [of "map_put (webSSOChoiceID sha b) \<lparr>wt_provider = EffectiveIdentityProviderName b,
      wt_protocol = EffectiveProtocolID b\<rparr> m"] by (simp add: le_SucI) (metis (no_types, lifting) add_Suc_right add_le_cancel_left le_trans)
qed simp

end
