(* ===== verification/ControlPlaneDeletion.thy ===== *)
theory ControlPlaneDeletion
  imports ControlPlaneTeardown "HOL-Library.While_Combinator"
begin

text \<open>
  What the deletion of a control plane may do to the cluster, and for how long it can go on.  \<open>permitted\<close> lists every
  call it makes that changes anything; a predicate on clusters kept by those calls is kept by a whole pass.  The
  run of passes is bounded by the stall timeout.
\<close>

section \<open>The calls of a pass\<close>

definition kept :: "('w \<Rightarrow> bool) \<Rightarrow> ('w \<Rightarrow> 'w) \<Rightarrow> bool" where
  "kept I f \<longleftrightarrow> (\<forall>w. I w \<longrightarrow> I (f w))"

lemma keptD: "kept I f \<Longrightarrow> I w \<Longrightarrow> I (f w)"
  by (simp add: kept_def)

text \<open>An object read under the name of a K-ORC resource of the teardown.\<close>

definition orc_victim :: "'w teardown_env \<Rightarrow> ControlPlane \<Rightarrow> orc_kind \<Rightarrow> orc_object \<Rightarrow> bool" where
  "orc_victim E cp kind x \<longleftrightarrow> (\<exists>w0 w1 children name. orcTeardownChildren E cp w0 = Inr children \<and> (kind, name) \<in> set children \<and>
     k_get (td_orc E kind) (childNamespace cp, name) w1 = Inr x)"

text \<open>The same in the present state, an object of ours in the namespace of a service, and a namespace of ours.\<close>

definition orc_named :: "'w teardown_env \<Rightarrow> ControlPlane \<Rightarrow> orc_kind \<Rightarrow> orc_object \<Rightarrow> 'w \<Rightarrow> bool" where
  "orc_named E cp kind x w \<longleftrightarrow> (\<exists>w0 children name. orcTeardownChildren E cp w0 = Inr children \<and> (kind, name) \<in> set children \<and>
     k_get (td_orc E kind) (childNamespace cp, name) w = Inr x)"

definition own_object :: "'w teardown_env \<Rightarrow> ControlPlane \<Rightarrow> string \<Rightarrow> objmeta \<Rightarrow> 'w \<Rightarrow> bool" where
  "own_object E cp kind m w \<longleftrightarrow> isControlPlaneChild cp m \<and>
     (\<exists>a name. a \<in> set (DedicatedServiceNamespaces cp) \<and> k_get (td_objects E kind) (sns_name a, name) w = Inr m)"

definition own_namespace :: "'w teardown_env \<Rightarrow> ControlPlane \<Rightarrow> objmeta \<Rightarrow> 'w \<Rightarrow> bool" where
  "own_namespace E cp m w \<longleftrightarrow> isControlPlaneChild cp m \<and>
     (\<exists>a. a \<in> set (DedicatedServiceNamespaces cp) \<and> sns_lifecycle a \<noteq> ServiceNamespaceLifecycleExternal \<and>
        k_get (td_namespaces E) ([], sns_name a) w = Inr m)"

definition own_push :: "'w teardown_env \<Rightarrow> ControlPlane \<Rightarrow> push_secret \<Rightarrow> bool" where
  "own_push E cp ps \<longleftrightarrow>
     (\<exists>(ps0 :: push_secret) w0. isControlPlaneChild cp (ps_meta ps0) \<and> k_get (td_push E) (key_of (ps_meta ps0)) w0 = Inr ps)"

definition permitted :: "'w teardown_env \<Rightarrow> ControlPlane \<Rightarrow> duration \<Rightarrow> ('w \<Rightarrow> bool) \<Rightarrow> bool" where
  "permitted E cp since I \<longleftrightarrow>
     (\<forall>ev. kept I (td_log E ev)) \<and>
     (\<forall>cp'. kept I (\<lambda>w. snd (td_update E (cp_remove_finalizer cp') w))) \<and>
     (\<forall>kind x w. orc_named E cp kind x w \<longrightarrow> I w \<longrightarrow> I (snd (k_delete (td_orc E kind) no_opts x w))) \<and>
     (\<forall>kind x. orc_victim E cp kind x \<and> (\<not> isManagedORCChild x \<or> orcTeardownStallTimeout < since) \<longrightarrow>
        kept I (\<lambda>w. snd (k_update (td_orc E (oo_kind x)) (without_korc x) w))) \<and>
     (\<forall>ps. isControlPlaneChild cp (ps_meta ps) \<longrightarrow> kept I (\<lambda>w. snd (k_delete (td_push E) no_opts ps w))) \<and>
     (\<forall>ps. own_push E cp ps \<and> orcTeardownStallTimeout < since \<longrightarrow>
        kept I (\<lambda>w. snd (k_update (td_push E) (ps\<lparr>ps_meta := (ps_meta ps)\<lparr>m_finalizers := []\<rparr>\<rparr>) w))) \<and>
     (\<forall>kind m opts w. own_object E cp kind m w \<longrightarrow> I w \<longrightarrow> I (snd (k_delete (td_objects E kind) opts m w))) \<and>
     (\<forall>m w. own_namespace E cp m w \<longrightarrow> I w \<longrightarrow> I (snd (k_delete (td_namespaces E) no_opts m w)))"

lemma permitted_parts:
  assumes "permitted E cp since I"
  shows "kept I (td_log E ev)"
    and "kept I (\<lambda>w. snd (td_update E (cp_remove_finalizer cp') w))"
    and "orc_named E cp kind x w \<Longrightarrow> I w \<Longrightarrow> I (snd (k_delete (td_orc E kind) no_opts x w))"
    and "orc_victim E cp kind x \<Longrightarrow> \<not> isManagedORCChild x \<or> orcTeardownStallTimeout < since \<Longrightarrow>
           kept I (\<lambda>w. snd (k_update (td_orc E (oo_kind x)) (without_korc x) w))"
    and "isControlPlaneChild cp (ps_meta ps) \<Longrightarrow> kept I (\<lambda>w. snd (k_delete (td_push E) no_opts ps w))"
    and "own_push E cp ps \<Longrightarrow> orcTeardownStallTimeout < since \<Longrightarrow>
           kept I (\<lambda>w. snd (k_update (td_push E) (ps\<lparr>ps_meta := (ps_meta ps)\<lparr>m_finalizers := []\<rparr>\<rparr>) w))"
    and "own_object E cp k m w \<Longrightarrow> I w \<Longrightarrow> I (snd (k_delete (td_objects E k) opts m w))"
    and "own_namespace E cp m w \<Longrightarrow> I w \<Longrightarrow> I (snd (k_delete (td_namespaces E) no_opts m w))"
  using assms unfolding permitted_def by (simp, simp, simp, metis, simp, simp, simp, simp)

lemma permittedD:
  assumes "permitted E cp since I" "I w"
  shows "I (td_log E ev w)"
    and "I (snd (td_update E (cp_remove_finalizer cp') w))"
    and "orc_named E cp kind x w \<Longrightarrow> I (snd (k_delete (td_orc E kind) no_opts x w))"
    and "orc_victim E cp kind x \<Longrightarrow> \<not> isManagedORCChild x \<or> orcTeardownStallTimeout < since \<Longrightarrow>
           I (snd (k_update (td_orc E (oo_kind x)) (without_korc x) w))"
    and "isControlPlaneChild cp (ps_meta ps) \<Longrightarrow> I (snd (k_delete (td_push E) no_opts ps w))"
    and "own_push E cp ps \<Longrightarrow> orcTeardownStallTimeout < since \<Longrightarrow>
           I (snd (k_update (td_push E) (ps\<lparr>ps_meta := (ps_meta ps)\<lparr>m_finalizers := []\<rparr>\<rparr>) w))"
    and "own_object E cp k m w \<Longrightarrow> I (snd (k_delete (td_objects E k) opts m w))"
    and "own_namespace E cp m w \<Longrightarrow> I (snd (k_delete (td_namespaces E) no_opts m w))"
  using permitted_parts [OF assms(1)] assms(2) by (simp_all add: kept_def)

section \<open>What the parts of a pass keep\<close>

lemma orc_delete_keeps:
  assumes "permitted E cp since I" "orcTeardownChildren E cp w0 = Inr children" "set cs \<subseteq> set children" "I w"
  shows "I (snd (orc_delete_pass E (childNamespace cp) cs live w))"
  using assms(3,4)
proof (induction cs arbitrary: live w)
  case (Cons c cs)
  obtain kind name where c: "c = (kind, name)" by fastforce
  show ?case
  proof (cases "k_get (td_orc E kind) (childNamespace cp, name) w")
    case (Inl e)
    then show ?thesis using Cons by (simp add: c)
  next
    case (Inr x)
    then have "orc_named E cp kind x w" using assms(2) Cons.prems(1) c unfolding orc_named_def by fastforce
    then have "I (snd (k_delete (td_orc E kind) no_opts x w))"
      using permittedD(3) [OF assms(1) Cons.prems(2)] by blast
    then show ?thesis using Cons Inr by (auto simp: c Let_def split: prod.splits option.splits)
  qed
qed simp

lemma deleteORC_keeps:
  assumes "permitted E cp since I" "I w"
  shows "I (snd (deleteORCResources E cp w))"
proof (cases "orcTeardownChildren E cp w")
  case (Inr children)
  have "I (snd (orc_delete_pass E (childNamespace cp) children False w))"
    using orc_delete_keeps [OF assms(1) Inr subset_refl assms(2)] .
  then show ?thesis using Inr by (auto simp: deleteORCResources_def split: prod.splits sum.splits)
qed (use assms in \<open>simp add: deleteORCResources_def\<close>)

lemma deleteORC_victims:
  assumes "deleteORCResources E cp w = (Inr (remaining, live), w')" "x \<in> set remaining"
  shows "\<exists>kind. orc_victim E cp kind x"
proof -
  obtain children where c: "orcTeardownChildren E cp w = Inr children"
    using assms by (auto simp: deleteORCResources_def split: sum.splits)
  then have "orc_check_pass E (childNamespace cp) children w' = Inr remaining"
    using assms by (auto simp: deleteORCResources_def split: sum.splits prod.splits)
  from orc_check_got [OF this assms(2)] show ?thesis using c unfolding orc_victim_def by force
qed

lemma force_remove_keeps:
  assumes "permitted E cp since I" "\<forall>x\<in>set xs. \<exists>kind. orc_victim E cp kind x"
    and "\<forall>x\<in>set xs. \<not> isManagedORCChild x \<or> orcTeardownStallTimeout < since" "I w"
  shows "I (snd (forceRemoveKORCFinalizers E xs w))"
  using assms(2-4)
proof (induction xs arbitrary: w)
  case (Cons x xs)
  have "I (snd (k_update (td_orc E (oo_kind x)) (without_korc x) w))"
    using permittedD(4) [OF assms(1) Cons.prems(3)] Cons.prems(1,2) by (meson list.set_intros(1))
  then show ?case using Cons by (auto split: prod.splits sum.splits)
qed simp

lemma push_items_keeps:
  assumes "permitted E cp since I" "I w"
  shows "I (snd (push_items E cp items remaining w))"
  using assms(2)
proof (induction items arbitrary: remaining w)
  case (Cons ps items)
  show ?case
  proof (cases "isControlPlaneChild cp (ps_meta ps)")
    case True
    then have "I (snd (k_delete (td_push E) no_opts ps w))" using permittedD(5) [OF assms(1) Cons.prems] by blast
    then show ?thesis using Cons True
      by (auto simp: Let_def split: prod.splits option.splits sum.splits)
  qed (use Cons in simp)
qed simp

lemma push_items_own:
  "push_items E cp items remaining w = (Inr out, w') \<Longrightarrow> \<forall>ps\<in>set remaining. own_push E cp ps \<Longrightarrow>
     \<forall>ps\<in>set out. own_push E cp ps"
proof (induction items arbitrary: remaining w)
  case (Cons ps items)
  show ?case
  proof (cases "isControlPlaneChild cp (ps_meta ps)")
    case True
    obtain de w1 where d: "(if m_deleting (ps_meta ps) then (None, w) else k_delete (td_push E) no_opts ps w) = (de, w1)"
      by fastforce
    have nde: "ignore_not_found de = None"
      using Cons.prems(1) True d by (cases "ignore_not_found de") (simp_all add: Let_def)
    show ?thesis
    proof (cases "k_get (td_push E) (key_of (ps_meta ps)) w1")
      case (Inl e)
      then have "push_items E cp items remaining w1 = (Inr out, w')"
        using Cons.prems(1) True d nde by (simp add: Let_def split: if_splits)
      then show ?thesis using Cons.IH Cons.prems(2) by blast
    next
      case (Inr current)
      then have own: "own_push E cp current" using True unfolding own_push_def by blast
      have "push_items E cp items (remaining @ [current]) w1 = (Inr out, w')"
        using Cons.prems(1) True d nde Inr by (simp add: Let_def)
      from Cons.IH [OF this] own Cons.prems(2) show ?thesis by auto
    qed
  qed (use Cons in simp)
qed simp

lemma push_namespaces_keeps:
  assumes "permitted E cp since I" "I w"
  shows "I (snd (push_namespaces E cp nss remaining w))"
  using assms(2)
proof (induction nss arbitrary: remaining w)
  case (Cons ns nss)
  show ?case
  proof (cases "k_list (td_push E) ns [] w")
    case (Inr items)
    obtain r w1 where p: "push_items E cp items remaining w = (r, w1)" by fastforce
    then have "I w1" using push_items_keeps [OF assms(1) Cons.prems, of items remaining] by simp
    then show ?thesis using Cons.IH Inr p by (auto split: sum.splits)
  qed (use Cons in simp)
qed simp

lemma push_namespaces_own:
  "push_namespaces E cp nss remaining w = (Inr out, w') \<Longrightarrow> \<forall>ps\<in>set remaining. own_push E cp ps \<Longrightarrow>
     \<forall>ps\<in>set out. own_push E cp ps"
proof (induction nss arbitrary: remaining w)
  case (Cons ns nss)
  show ?case
  proof (cases "k_list (td_push E) ns [] w")
    case (Inr items)
    obtain r w1 where p: "push_items E cp items remaining w = (r, w1)" by fastforce
    then obtain mid where r: "r = Inr mid" using Cons.prems Inr by (cases r) auto
    then show ?thesis using Cons.IH [of mid w1] Cons.prems Inr p push_items_own [of E cp items remaining w mid w1] by simp
  qed (use Cons in \<open>auto split: if_splits\<close>)
qed simp

lemma strip_push_keeps:
  assumes "permitted E cp since I" "\<forall>ps\<in>set pss. own_push E cp ps" "orcTeardownStallTimeout < since" "I w"
  shows "I (snd (strip_push_secrets E pss w))"
  using assms(2,4)
proof (induction pss arbitrary: w)
  case (Cons ps pss)
  have "I (snd (k_update (td_push E) (ps\<lparr>ps_meta := (ps_meta ps)\<lparr>m_finalizers := []\<rparr>\<rparr>) w))"
    using permittedD(6) [OF assms(1) Cons.prems(2) _ assms(3)] Cons.prems(1) by simp
  then show ?case using Cons by (auto split: prod.splits sum.splits)
qed simp

lemma service_pass_keeps:
  assumes "permitted E cp since I" "a \<in> set (DedicatedServiceNamespaces cp)" "I w"
  shows "I (snd (service_children_pass E cp (sns_name a) cs w))"
  using assms(3)
proof (induction cs arbitrary: w)
  case (Cons c cs)
  obtain kind name where c: "c = (kind, name)" by fastforce
  show ?case
  proof (cases "k_get (td_objects E kind) (sns_name a, name) w")
    case (Inl e)
    then show ?thesis using Cons by (simp add: c)
  next
    case (Inr m)
    show ?thesis
    proof (cases "isControlPlaneChild cp m")
      case True
      then have "own_object E cp kind m w" using Inr assms(2) unfolding own_object_def by blast
      then have "I (snd (k_delete (td_objects E kind) background m w))"
        using permittedD(7) [OF assms(1) Cons.prems] by blast
      then have "I (snd (if m_deleting m then (None, w) else k_delete (td_objects E kind) background m w))"
        using Cons.prems by simp
      moreover obtain de w1 where
        d: "(if m_deleting m then (None, w) else k_delete (td_objects E kind) background m w) = (de, w1)" by fastforce
      ultimately have "I w1" by simp
      then have "I (snd (service_children_pass E cp (sns_name a) cs w1))" by (rule Cons.IH)
      then show ?thesis using Inr True d \<open>I w1\<close>
        by (auto simp: c Let_def split: prod.splits option.splits sum.splits)
    qed (use Cons Inr in \<open>simp add: c\<close>)
  qed
qed simp

lemma residue_keeps:
  assumes "permitted E cp since I" "a \<in> set (DedicatedServiceNamespaces cp)" "I w"
  shows "I (residue_pass E cp (sns_name a) objs w)"
  using assms(3)
proof (induction objs arbitrary: w)
  case (Cons c cs)
  obtain kind name where c: "c = (kind, name)" by fastforce
  show ?case
  proof (cases "k_get (td_objects E kind) (sns_name a, name) w")
    case (Inr m)
    show ?thesis
    proof (cases "isControlPlaneChild cp m")
      case True
      then have "own_object E cp kind m w" using Inr assms(2) unfolding own_object_def by blast
      then show ?thesis using Cons Inr True permittedD(7) [OF assms(1) Cons.prems] by (simp add: c)
    qed (use Cons Inr in \<open>simp add: c\<close>)
  qed (use Cons in \<open>simp add: c\<close>)
qed simp

lemma managed_namespace_keeps:
  assumes "permitted E cp since I" "a \<in> set (DedicatedServiceNamespaces cp)"
    and "sns_lifecycle a \<noteq> ServiceNamespaceLifecycleExternal" "I w"
  shows "I (snd (deleteManagedNamespace E cp (sns_name a) w))"
proof (cases "k_get (td_namespaces E) ([], sns_name a) w")
  case (Inr ns)
  show ?thesis
  proof (cases "isControlPlaneChild cp ns")
    case True
    then have "own_namespace E cp ns w" using Inr assms(2,3) unfolding own_namespace_def by blast
    then have "I (snd (k_delete (td_namespaces E) no_opts ns w))" using permittedD(8) [OF assms(1,4)] by blast
    then show ?thesis using Inr True assms(4)
      by (auto simp: deleteManagedNamespace_def split: prod.splits option.splits)
  next
    case False
    then show ?thesis using Inr assms(4) permittedD(1) [OF assms(1,4)] by (simp add: deleteManagedNamespace_def)
  qed
qed (use assms in \<open>simp add: deleteManagedNamespace_def\<close>)

lemma teardown_pass_keeps:
  assumes "permitted E cp since I" "set as \<subseteq> set (DedicatedServiceNamespaces cp)" "I w"
  shows "I (snd (teardown_pass E cp as stuck w))"
  using assms(2,3)
proof (induction "as" arbitrary: stuck w)
  case (Cons a rest)
  then have a: "a \<in> set (DedicatedServiceNamespaces cp)" and rest: "set rest \<subseteq> set (DedicatedServiceNamespaces cp)" by auto
  obtain r w1 where d: "deleteServiceChildrenIn E cp (sns_name a) w = (r, w1)" by fastforce
  then have w1: "I w1"
    using service_pass_keeps [OF assms(1) a Cons.prems(2)] by (metis deleteServiceChildrenIn_def snd_conv)
  show ?case
  proof (cases r)
    case (Inr remaining)
    consider "remaining \<noteq> []" | "remaining = []" "sns_lifecycle a = ServiceNamespaceLifecycleExternal"
      | "remaining = []" "sns_lifecycle a \<noteq> ServiceNamespaceLifecycleExternal" by blast
    then show ?thesis
    proof cases
      case 1
      then show ?thesis using Cons.IH [OF rest w1] d Inr by simp
    next
      case 2
      then show ?thesis using Cons.IH [OF rest residue_keeps [OF assms(1) a w1]] d Inr
        by (simp add: sweepExternalNamespaceResidue_def)
    next
      case 3
      obtain e w2 where m: "deleteManagedNamespace E cp (sns_name a) w1 = (e, w2)" by fastforce
      then have "I w2" using managed_namespace_keeps [OF assms(1) a 3(2) w1] by simp
      then show ?thesis using Cons.IH [OF rest] d Inr 3 m by (cases e) simp_all
    qed
  qed (use d w1 in simp)
qed simp

lemma teardown_namespaces_keeps:
  assumes "permitted E cp since I" "I w" "teardownDedicatedNamespaces E d (cp, w) = (r, cp', w')"
  shows "I w'"
proof -
  obtain q w1 where t: "teardown_pass E cp (DedicatedServiceNamespaces cp) [] w = (q, w1)" by fastforce
  then have "I w1" using teardown_pass_keeps [OF assms(1) subset_refl assms(2), of "[]"] by simp
  then show ?thesis using assms(3) t permittedD(1) [OF assms(1)]
    by (auto simp: teardownDedicatedNamespaces_def split: sum.splits if_splits)
qed

lemma release_cp_keeps:
  assumes "permitted E cp since I" "I w"
  shows "I (snd (snd (release_control_plane E text (cp', w))))"
  using permittedD(2) [OF assms, of cp'] by (auto simp: release_control_plane_def Let_def split: prod.splits sum.splits)

lemma stalled_keeps:
  assumes "permitted E cp since I" "orcTeardownStallTimeout < since" "I w"
    and "\<forall>x\<in>set remaining. \<exists>kind. orc_victim E cp kind x" "\<forall>ps\<in>set pushes. own_push E cp ps"
  shows "I (snd (snd (stalled_release E remaining pushes (cp, w))))"
proof -
  have log: "I v \<Longrightarrow> I (td_log E ev v)" for ev v using permittedD(1) [OF assms(1)] by blast
  obtain e1 w1 where f: "force_orc E remaining w = (e1, w1)" by fastforce
  have "I (snd (forceRemoveKORCFinalizers E remaining w))"
    using force_remove_keeps [OF assms(1,4)] assms(2,3) by blast
  then have w1: "I w1" using f log assms(3)
    by (auto simp: force_orc_def Let_def split: if_splits prod.splits option.splits)
  obtain e2 w2 where g: "force_push E pushes w1 = (e2, w2)" by fastforce
  have "I (snd (strip_push_secrets E pushes w1))"
    using strip_push_keeps [OF assms(1,5,2) w1] .
  then have w2: "I w2" using g log w1
    by (auto simp: force_push_def Let_def split: if_splits prod.splits option.splits)
  show ?thesis
  proof (cases e1)
    case (Some e)
    then show ?thesis using f w1 by (simp add: stalled_release_def)
  next
    case None
    then show ?thesis using f g w2 release_cp_keeps [OF assms(1) w2]
      by (cases e2) (simp_all add: stalled_release_def)
  qed
qed

lemma reconcileDelete_keeps:
  assumes "permitted E cp since I" "I w"
  shows "I (snd (snd (cp_reconcileDelete E since (cp, w))))"
proof (cases "cp_has_finalizer cp")
  case True
  have log: "I v \<Longrightarrow> I (td_log E ev v)" for ev v using permittedD(1) [OF assms(1)] by blast
  obtain r w1 where d: "deleteORCResources E cp w = (r, w1)" by fastforce
  then have w1: "I w1" using deleteORC_keeps [OF assms] by simp
  show ?thesis
  proof (cases r)
    case (Inr p)
    obtain remaining live where p: "p = (remaining, live)" by fastforce
    have victims: "\<forall>x\<in>set remaining. \<exists>kind. orc_victim E cp kind x" using deleteORC_victims [OF d [unfolded Inr p]] by blast
    obtain q w2 where q: "deleteOwnedPushSecrets E cp w1 = (q, w2)" by fastforce
    then have w2: "I w2" using push_namespaces_keeps [OF assms(1) w1, of "controlPlaneNamespaces cp" "[]"]
      by (simp add: deleteOwnedPushSecrets_def)
    show ?thesis
    proof (cases q)
      case (Inl e)
      then show ?thesis using True d Inr p q w2 by (simp add: cp_reconcileDelete_def)
    next
      case pushes: (Inr pushes)
      have own: "\<forall>ps\<in>set pushes. own_push E cp ps"
        using push_namespaces_own [of E cp "controlPlaneNamespaces cp" "[]" w1 pushes w2] q pushes
        by (simp add: deleteOwnedPushSecrets_def)
      define w3 where "w3 = (if live then td_log E (plain_event ''FinalizingORC''
        ''Deleting owned K-ORC CRs before releasing the ControlPlane so K-ORC can revoke against a reachable Keystone'' []) w2
        else w2)"
      have w3: "I w3" using w2 log by (simp add: w3_def)
      note step = True d Inr p q pushes w3_def [symmetric]
      consider (clear) "remaining = []" "pushes = []"
        | (unmanaged) "remaining \<noteq> []" "\<not> list_ex isManagedORCChild remaining"
        | (wait) "\<not> (remaining = [] \<and> pushes = [])" "\<not> (remaining \<noteq> [] \<and> \<not> list_ex isManagedORCChild remaining)"
            "since \<le> orcTeardownStallTimeout"
        | (stall) "\<not> (remaining = [] \<and> pushes = [])" "\<not> (remaining \<noteq> [] \<and> \<not> list_ex isManagedORCChild remaining)"
            "orcTeardownStallTimeout < since" by fastforce
      then show ?thesis
      proof cases
        case clear
        obtain t cp1 w4 where t: "teardownDedicatedNamespaces E since (cp, w3) = (t, cp1, w4)" by (metis prod_cases3)
        have w4: "I w4" using teardown_namespaces_keeps [OF assms(1) w3 t] .
        then show ?thesis using clear t step release_cp_keeps [OF assms(1) log [OF w4]]
          by (cases t) (auto simp: cp_reconcileDelete_def Let_def split: bool.splits)
      next
        case unmanaged
        have "\<forall>x\<in>set remaining. \<not> isManagedORCChild x \<or> orcTeardownStallTimeout < since"
          using unmanaged(2) by (auto simp: list_ex_iff)
        from force_remove_keeps [OF assms(1) victims this w3] show ?thesis using unmanaged step log
          by (auto simp: cp_reconcileDelete_def Let_def split: prod.splits option.splits)
      next
        case wait
        then show ?thesis using step w3 by (auto simp: cp_reconcileDelete_def Let_def)
      next
        case stall
        then have "cp_reconcileDelete E since (cp, w) = stalled_release E remaining pushes (cp, w3)"
          using step by (auto simp: cp_reconcileDelete_def Let_def)
        then show ?thesis using stalled_keeps [OF assms(1) stall(3) w3 victims own] by simp
      qed
    qed
  qed (use True d w1 in \<open>simp add: cp_reconcileDelete_def\<close>)
qed (use assms in \<open>simp add: cp_reconcileDelete_def\<close>)

section \<open>The passes after the stall timeout\<close>

text \<open>How many K-ORC resources a pass finds left, and whether they are all unmanaged imports.\<close>

definition orc_left :: "'w teardown_env \<Rightarrow> ControlPlane \<Rightarrow> 'w \<Rightarrow> nat" where
  "orc_left E cp w =
     (case fst (deleteORCResources E cp w) of Inl e \<Rightarrow> 0 | Inr (remaining, live) \<Rightarrow> length remaining)"

text \<open>
  The loop the controller runs: a pass that ends with an error or a requeue is followed by another, and \<open>others\<close> is what
  the rest of the cluster does in between.
\<close>

definition teardown_loop ::
  "'w teardown_env \<Rightarrow> duration \<Rightarrow> ('w \<Rightarrow> 'w) \<Rightarrow> ControlPlane \<times> 'w \<Rightarrow> ((ctrl_result \<times> err option) \<times> ControlPlane \<times> 'w) option" where
  "teardown_loop E since others s =
     while_option (\<lambda>(r, cp, w). r \<noteq> (zero_result, None)) (\<lambda>(r, cp, w). cp_reconcileDelete E since (cp, others w))
       (cp_reconcileDelete E since s)"

lemma stalled_pass:
  assumes "cp_has_finalizer cp" "orcTeardownStallTimeout < since"
    and "cp_reconcileDelete E since (cp, w) = ((r, None), cp', w')"
  shows "(r = zero_result \<and> (\<exists>v. td_update E (cp_remove_finalizer cp) v = (Inr cp', w'))) \<or>
         (r = after korcRequeueAfter \<and> cp' = cp)"
proof -
  obtain q w1 where d: "deleteORCResources E cp w = (q, w1)" by fastforce
  obtain remaining live where q: "q = Inr (remaining, live)" using assms d
    by (cases q) (auto simp: cp_reconcileDelete_def)
  obtain p w2 where p: "deleteOwnedPushSecrets E cp w1 = (p, w2)" by fastforce
  obtain pushes where pushes: "p = Inr pushes" using assms d q p
    by (cases p) (auto simp: cp_reconcileDelete_def)
  define w3 where "w3 = (if live then td_log E (plain_event ''FinalizingORC''
    ''Deleting owned K-ORC CRs before releasing the ControlPlane so K-ORC can revoke against a reachable Keystone'' []) w2
    else w2)"
  note step = assms(1) d q p pushes w3_def [symmetric]
  consider (clear) "remaining = []" "pushes = []"
    | (unmanaged) "remaining \<noteq> []" "\<not> list_ex isManagedORCChild remaining"
    | (stall) "\<not> (remaining = [] \<and> pushes = [])" "\<not> (remaining \<noteq> [] \<and> \<not> list_ex isManagedORCChild remaining)" by fastforce
  then show ?thesis
  proof cases
    case clear
    obtain t cp1 w4 where t: "teardownDedicatedNamespaces E since (cp, w3) = (t, cp1, w4)" by (metis prod_cases3)
    have "t = Inl e \<or> (t = Inr True \<and> cp1 = cp)" if "t = Inl e \<or> (\<exists>b. t = Inr b)" for e
      using t that assms(2) by (auto simp: teardownDedicatedNamespaces_def split: sum.splits prod.splits if_splits)
    moreover have "\<nexists>e. t = Inl e" using assms(3) clear t step by (auto simp: cp_reconcileDelete_def Let_def)
    ultimately have "t = Inr True" "cp1 = cp" by (metis sum.exhaust)+
    then show ?thesis using assms(3) clear t step release_cp_result
      by (fastforce simp: cp_reconcileDelete_def Let_def)
  next
    case unmanaged
    then show ?thesis using assms(3) step
      by (auto simp: cp_reconcileDelete_def Let_def split: prod.splits option.splits)
  next
    case stall
    then have "stalled_release E remaining pushes (cp, w3) = ((r, None), cp', w')"
      using assms(2,3) step by (auto simp: cp_reconcileDelete_def Let_def)
    then show ?thesis using release_cp_result
      by (fastforce simp: stalled_release_def split: prod.splits option.splits)
  qed
qed

lemma teardown_loop_step:
  "teardown_loop E since others (cp, w) =
     (case cp_reconcileDelete E since (cp, w) of (r, cp', w') \<Rightarrow>
        if r = (zero_result, None) then Some (r, cp', w') else teardown_loop E since others (cp', others w'))"
  unfolding teardown_loop_def by (subst while_option_unfold) (simp split: prod.splits)

lemma teardown_loop_ends:
  assumes "cp_has_finalizer cp" "orcTeardownStallTimeout < since" "ok w"
    and no_error: "\<And>w. ok w \<Longrightarrow> snd (fst (cp_reconcileDelete E since (cp, w))) = None"
    and progress: "\<And>w w'. ok w \<Longrightarrow> cp_reconcileDelete E since (cp, w) = ((after korcRequeueAfter, None), cp, w') \<Longrightarrow>
           ok (others w') \<and> orc_left E cp (others w') < orc_left E cp w"
  shows "\<exists>cp' w' v. teardown_loop E since others (cp, w) = Some ((zero_result, None), cp', w') \<and>
           td_update E (cp_remove_finalizer cp) v = (Inr cp', w')"
  using assms(3)
proof (induction "orc_left E cp w" arbitrary: w rule: less_induct)
  case less
  obtain r e cp1 w1 where p: "cp_reconcileDelete E since (cp, w) = ((r, e), cp1, w1)" by (metis prod_cases3 surj_pair)
  then have e: "e = None" using no_error [OF less.prems] by simp
  from stalled_pass [OF assms(1,2) p [unfolded e]] show ?case
  proof
    assume "r = zero_result \<and> (\<exists>v. td_update E (cp_remove_finalizer cp) v = (Inr cp1, w1))"
    then show ?thesis using p e by (subst teardown_loop_step) auto
  next
    assume r: "r = after korcRequeueAfter \<and> cp1 = cp"
    then have "ok (others w1)" "orc_left E cp (others w1) < orc_left E cp w" using progress [OF less.prems] p e by blast+
    from less.hyps [OF this(2,1)] show ?thesis using p e r by (subst teardown_loop_step) simp
  qed
qed

end
