(* ===== verification/ControlPlaneController.thy ===== *)
theory ControlPlaneController
  imports ControlPlaneAccounts ControlPlaneServices ControlPlaneDeletion KeystoneController
begin

text \<open>
  The loop of the control plane operator, \<open>operators/c5c3/internal/controller/controlplane_controller.go\<close>: the guard
  against a second control plane in a namespace, the pipeline of the eleven sub-reconcilers with its instrumentation
  (\<open>instrumentation.go\<close>), the status, and the mapping of watched objects to requests.
\<close>

section \<open>Conditions and status\<close>

definition ControlPlaneSecretNameIndexKey :: string where
  "ControlPlaneSecretNameIndexKey = ''spec.korc.adminCredential.passwordSecretRef.name''"

definition cp_subConditionTypes :: "string list" where
  "cp_subConditionTypes =
     [conditionTypeNamespacesReady, conditionTypeInfrastructureReady, conditionTypeESOTenantStoreReady,
      conditionTypeDBCredentialsReady, conditionTypeKeystoneReady, conditionTypeHorizonReady, conditionTypeKORCReady,
      conditionTypeAdminCredentialReady, conditionTypeAdminPasswordReady, conditionTypeCatalogReady,
      conditionTypeServiceAccountsReady]"

definition cp_subReconcilerConditionTypes :: "string gomap" where
  "cp_subReconcilerConditionTypes =
     [(''Namespaces'', conditionTypeNamespacesReady), (''Infrastructure'', conditionTypeInfrastructureReady),
      (''ESOTenantStore'', conditionTypeESOTenantStoreReady), (''DBCredentials'', conditionTypeDBCredentialsReady),
      (''Keystone'', conditionTypeKeystoneReady), (''Horizon'', conditionTypeHorizonReady), (''KORC'', conditionTypeKORCReady),
      (''AdminCredential'', conditionTypeAdminCredentialReady), (''AdminPassword'', conditionTypeAdminPasswordReady),
      (''Catalog'', conditionTypeCatalogReady), (''ServiceAccounts'', conditionTypeServiceAccountsReady)]"

definition cp_lens :: "ControlPlane cond_lens" where
  "cp_lens = \<lparr>conds_of = (\<lambda>cp. cp_conditions cp), with_conds = put_cp_conditions\<rparr>"

definition controlPlaneSkeleton :: "ControlPlane skeleton" where
  "controlPlaneSkeleton = \<lparr>sk_types = cp_subConditionTypes, sk_conds = cp_lens, sk_generation = (\<lambda>cp. cp_generation cp)\<rparr>"

definition cp_setReadyCondition :: "meta_api \<Rightarrow> ControlPlane \<Rightarrow> ControlPlane" where
  "cp_setReadyCondition K = SetReady K controlPlaneSkeleton"

definition keystoneServiceKey :: string where "keystoneServiceKey = ''keystone''"
definition horizonServiceKey :: string where "horizonServiceKey = ''horizon''"

definition setServicesStatus :: "meta_api \<Rightarrow> ControlPlane \<Rightarrow> ControlPlane" where
  "setServicesStatus K cp =
     (let row = (\<lambda>name ct. \<lparr>sst_name = name, sst_ready = AllTrue K (cp_conditions cp) [ct], sst_release = cs_release (cp_spec cp)\<rparr>)
      in cp\<lparr>cp_status := (cp_status cp)
           \<lparr>ct_phase := UpdatePhaseIdle,
            ct_services :=
              (if cp_keystone cp \<noteq> None then [row keystoneServiceKey conditionTypeKeystoneReady] else []) @
              (if cp_horizon cp \<noteq> None then [row horizonServiceKey conditionTypeHorizonReady] else [])\<rparr>\<rparr>)"

definition cp_observed :: "ControlPlane \<Rightarrow> ControlPlane" where
  "cp_observed cp = cp\<lparr>cp_status := (cp_status cp)\<lparr>ct_observed := cp_generation cp\<rparr>\<rparr>"

section \<open>What the loop uses\<close>

record ('u, 'm, 'w) controller_env =
  cx_meta :: meta_api
  cx_client :: "(ControlPlane, 'w) kclient"
  cx_sem_eq :: "ControlPlaneStatus \<Rightarrow> ControlPlaneStatus \<Rightarrow> bool"
  cx_status_update :: "ControlPlane \<Rightarrow> 'w \<Rightarrow> ControlPlane result \<times> 'w"
  cx_instr :: "(ControlPlane \<times> 'w) instrument_fn"
  cx_namespaces :: "(objmeta, 'w) kclient"
  cx_infra :: "('m, 'w) infra_env"
  cx_secrets :: "('u, 'w) secrets_env"
  cx_services :: "('u, 'w) services_env"
  cx_korc :: "('u, 'w) korc_env"
  cx_create_user :: "'w create_user"
  cx_terminal :: "string \<Rightarrow> bool"
  cx_teardown :: "'w teardown_env"
  cx_deleting_since :: "ControlPlane \<Rightarrow> 'w \<Rightarrow> duration"

definition cp_updateStatus ::
  "('u, 'm, 'w) controller_env \<Rightarrow> ControlPlaneStatus \<Rightarrow> ctrl_result \<Rightarrow> err option \<Rightarrow> 'w cp_step" where
  "cp_updateStatus X before result reconcile_err s =
     SkeletonUpdateStatus (cx_meta X) controlPlaneSkeleton (cx_sem_eq X) cp_status (cx_status_update X) (Some before)
       (Some (\<lambda>cp. cp_observed (setServicesStatus (cx_meta X) cp))) result reconcile_err s"

section \<open>One control plane per namespace\<close>

definition older :: "ControlPlane \<Rightarrow> ControlPlane \<Rightarrow> bool" where
  "older a b \<longleftrightarrow>
     m_created (cp_meta a) < m_created (cp_meta b) \<or>
     (m_created (cp_meta a) = m_created (cp_meta b) \<and> cp_name a < cp_name b)"

fun pick_incumbent :: "ControlPlane \<Rightarrow> ControlPlane list \<Rightarrow> ControlPlane \<Rightarrow> ControlPlane" where
  "pick_incumbent cp [] incumbent = incumbent"
| "pick_incumbent cp (other # others) incumbent =
     (if m_uid (cp_meta other) = m_uid (cp_meta cp) then pick_incumbent cp others incumbent
      else pick_incumbent cp others (if older other incumbent then other else incumbent))"

definition duplicateControlPlaneIncumbent :: "(ControlPlane, 'w) kclient \<Rightarrow> ControlPlane \<Rightarrow> 'w \<Rightarrow> string result" where
  "duplicateControlPlaneIncumbent C cp w =
     (case k_list C (cp_namespace cp) [] w of
        Inl e \<Rightarrow> Inl (Errorf ''listing ControlPlanes in namespace %q for the duplicate guard: %w'' [Str (cp_namespace cp), Wrap e])
      | Inr items \<Rightarrow>
          (let incumbent = pick_incumbent cp items cp in
           if m_uid (cp_meta incumbent) = m_uid (cp_meta cp) then Inr [] else Inr (cp_name incumbent)))"

definition parkDuplicateControlPlane :: "('u, 'm, 'w) controller_env \<Rightarrow> string \<Rightarrow> 'w cp_step" where
  "parkDuplicateControlPlane X incumbent s =
     (case s of (cp, w) \<Rightarrow>
      UpdateStatus (cx_sem_eq X) cp_status (cx_status_update X) (Some (cp_status cp))
        (\<lambda>cp. cp_observed (cp_report (cx_meta X) ''Ready'' CFalse ''DuplicateControlPlane''
           (Msg ''parked: ControlPlane %q is older and owns namespace %q; only one ControlPlane is permitted per namespace''
              [Str incumbent, Str (cp_namespace cp)]) cp))
        (after duplicateControlPlaneRequeueAfter) None (cp, w))"

section \<open>The loop\<close>

definition control_plane_pipeline :: "('u, 'm, 'w) controller_env \<Rightarrow> (ControlPlane \<times> 'w) step list" where
  "control_plane_pipeline X =
     [named ''Namespaces'' (reconcileNamespaces (cx_meta X) (cx_namespaces X)),
      named ''Infrastructure'' (reconcileInfrastructure (cx_infra X)),
      named ''ESOTenantStore'' (reconcileESOTenantStore (cx_secrets X)),
      named ''DBCredentials'' (reconcileDBCredentials (cx_secrets X)),
      named ''AdminPassword'' (reconcileAdminPassword (cx_secrets X)),
      named ''Keystone'' (reconcileKeystone (cx_services X)),
      named ''Horizon'' (reconcileHorizon (cx_services X)),
      named ''KORC'' (reconcileKORC (cx_korc X)),
      named ''AdminCredential'' (reconcileAdminCredential (cx_korc X)),
      named ''Catalog'' (reconcileCatalog (cx_korc X) (cx_terminal X)),
      named ''ServiceAccounts'' (reconcileServiceAccounts (cx_korc X) (cx_create_user X))]"

definition cp_reconcile_live :: "('u, 'm, 'w) controller_env \<Rightarrow> 'w cp_step" where
  "cp_reconcile_live X s =
     (case s of (cp, w) \<Rightarrow>
      case RunPipeline (cx_instr X) (control_plane_pipeline X) (cp, w) of
        ((result, e), s') \<Rightarrow> cp_updateStatus X (cp_status cp) result e s')"

definition cp_add_finalizer :: "ControlPlane \<Rightarrow> string \<Rightarrow> ControlPlane" where
  "cp_add_finalizer cp f = cp\<lparr>cp_meta := (cp_meta cp)\<lparr>m_finalizers := m_finalizers (cp_meta cp) @ [f]\<rparr>\<rparr>"

definition cp_reconcile_found :: "('u, 'm, 'w) controller_env \<Rightarrow> 'w cp_step" where
  "cp_reconcile_found X s =
     (case s of (cp, w) \<Rightarrow>
      if m_deleting (cp_meta cp)
      then (case cp_reconcileDelete (cx_teardown X) (cx_deleting_since X cp w) (cp, w) of
              ((result, e), s') \<Rightarrow>
                if \<not> result_is_zero result \<or> e \<noteq> None then cp_updateStatus X (cp_status cp) result e s'
                else ((zero_result, None), s'))
      else case duplicateControlPlaneIncumbent (cx_client X) cp w of
        Inl e \<Rightarrow> ((zero_result, Some e), cp, w)
      | Inr incumbent \<Rightarrow>
          if incumbent \<noteq> [] then parkDuplicateControlPlane X incumbent (cp, w)
          else case EnsureFinalizer (\<lambda>cp f. f \<in> set (m_finalizers (cp_meta cp))) cp_add_finalizer (cx_client X)
                      controlPlaneORCFinalizer cp w of
            ((_, Some e), cp1, w1) \<Rightarrow> ((zero_result, Some e), cp1, w1)
          | ((True, None), cp1, w1) \<Rightarrow> ((requeue_now, None), cp1, w1)
          | ((False, None), cp1, w1) \<Rightarrow> cp_reconcile_live X (cp1, w1))"

definition cp_Reconcile :: "('u, 'm, 'w) controller_env \<Rightarrow> objkey \<Rightarrow> 'w \<Rightarrow> (ctrl_result \<times> err option) \<times> 'w" where
  "cp_Reconcile X req w =
     (case k_get (cx_client X) req w of
        Inl e \<Rightarrow>
          if is_not_found e then ((zero_result, None), w)
          else ((zero_result, Some (Errorf ''fetching ControlPlane: %w'' [Wrap e])), w)
      | Inr cp \<Rightarrow> (case cp_reconcile_found X (cp, w) of (r, _, w') \<Rightarrow> (r, w')))"

section \<open>Watches\<close>

definition controlPlaneSecretNameExtractor :: "ControlPlane \<Rightarrow> string list" where
  "controlPlaneSecretNameExtractor cp =
     (let password = sr_name (effectiveAdminPasswordSecretRef cp);
          names = (if password \<noteq> [] then [password] else [])
      in case externalCABundleRef cp of
           None \<Rightarrow> names
         | Some ref \<Rightarrow> if sr_name ref \<noteq> [] \<and> sr_name ref \<notin> set names then names @ [sr_name ref] else names)"

text \<open>\<open>indexed\<close> is what \<open>watch.SecretToOwnersMapper\<close> returns for the Secret.\<close>

definition cp_secret_config :: SecretMapperConfig where
  "cp_secret_config =
     \<lparr>sm_index_key = ControlPlaneSecretNameIndexKey, sm_owner_group = [], sm_owner_kind = [], sm_all_namespaces = True\<rparr>"

definition secretToControlPlaneMapper ::
  "(string \<Rightarrow> (string \<times> string) result) \<Rightarrow> 'w reader \<Rightarrow> (ControlPlane, 'w) kclient \<Rightarrow> watched \<Rightarrow> 'w \<Rightarrow> objkey list" where
  "secretToControlPlaneMapper parse_gv R C obj w =
     filter (\<lambda>req. case k_get C req w of
                     Inl e \<Rightarrow> \<not> is_not_found e
                   | Inr cp \<Rightarrow> fst (wa_key obj) \<in> set (controlPlaneNamespaces cp))
       (SecretToOwnersMapper parse_gv R cp_secret_config obj w)"

definition namespacedStoreToControlPlaneMapper :: "(ControlPlane, 'w) kclient \<Rightarrow> objkey \<Rightarrow> 'w \<Rightarrow> objkey list" where
  "namespacedStoreToControlPlaneMapper C store w =
     (case k_list C [] [] w of
        Inl e \<Rightarrow> []
      | Inr items \<Rightarrow>
          map (\<lambda>cp. key_of (cp_meta cp))
            (filter (\<lambda>cp. st_kind (effectiveControlPlaneStoreRef cp) = SecretStoreKindNamespaced \<and>
                          st_name (effectiveControlPlaneStoreRef cp) = snd store \<and>
                          fst store \<in> set (controlPlaneNamespaces cp)) items))"

text \<open>\<open>cp_at\<close> is the ControlPlane a list returned for a key.\<close>

definition storeToControlPlaneMapper ::
  "'w reader \<Rightarrow> string \<Rightarrow> (objkey \<Rightarrow> 'w \<Rightarrow> ControlPlane) \<Rightarrow> objkey \<Rightarrow> 'w \<Rightarrow> objkey list" where
  "storeToControlPlaneMapper R watched_kind cp_at store w =
     StoreRefFanOut R watched_kind (\<lambda>k w. effectiveControlPlaneStoreRef (cp_at k w)) store w"

section \<open>Facts\<close>

lemma cp_lens_simps [simp]:
  "conds_of cp_lens cp = cp_conditions cp" "with_conds cp_lens = put_cp_conditions"
  "sk_types controlPlaneSkeleton = cp_subConditionTypes" "sk_conds controlPlaneSkeleton = cp_lens"
  "sk_generation controlPlaneSkeleton cp = cp_generation cp"
  by (simp_all add: cp_lens_def controlPlaneSkeleton_def)

lemma pick_incumbent_in: "pick_incumbent cp others i \<in> insert i (set others)"
proof (induction others arbitrary: i)
  case (Cons a others)
  show ?case using Cons [of i] Cons [of a] by auto
qed simp

lemma older_irrefl [simp]: "\<not> older a a" by (simp add: older_def)
lemma older_trans: "older a b \<Longrightarrow> older b c \<Longrightarrow> older a c" by (auto simp: older_def)
lemma older_total: "cp_name a \<noteq> cp_name b \<Longrightarrow> older a b \<or> older b a" by (auto simp: older_def)

text \<open>The incumbent is not younger than any control plane it was compared with.\<close>

lemma older_linear: "older a b \<or> older b a \<or> (m_created (cp_meta a) = m_created (cp_meta b) \<and> cp_name a = cp_name b)"
  by (auto simp: older_def)

lemma older_or_same: "\<not> older a b \<Longrightarrow> older c b \<Longrightarrow> \<not> older a c"
  by (auto simp: older_def)

lemma pick_incumbent_minimal:
  "\<not> older i (pick_incumbent cp others i) \<and>
   (\<forall>x\<in>set others. m_uid (cp_meta x) \<noteq> m_uid (cp_meta cp) \<longrightarrow> \<not> older x (pick_incumbent cp others i))"
proof (induction cp others i rule: pick_incumbent.induct)
  case (2 cp other others i)
  show ?case
  proof (cases "m_uid (cp_meta other) = m_uid (cp_meta cp)")
    case True
    then show ?thesis using 2 by auto
  next
    case False
    let ?j = "if older other i then other else i"
    let ?p = "pick_incumbent cp others ?j"
    have ih: "\<not> older ?j ?p" "\<forall>x\<in>set others. m_uid (cp_meta x) \<noteq> m_uid (cp_meta cp) \<longrightarrow> \<not> older x ?p"
      using 2(2) [OF False] by auto
    have "\<not> older i ?p" "\<not> older other ?p"
      using ih(1) by (auto simp: older_def split: if_splits)
    then show ?thesis using ih False by auto
  qed
qed simp

end
