(* ===== verification/ControlPlaneRotation.thy ===== *)
theory ControlPlaneRotation
  imports ControlPlaneAccounts
begin

text \<open>
  The rotation of credentials on demand: \<open>operators/c5c3/api/v1alpha1/credentialrotation_types.go\<close> and
  \<open>operators/c5c3/internal/controller/reconcile_credentialrotation.go\<close>.  The reconciler only clears an annotation; the
  control plane's reconciler does the rest.
\<close>

section \<open>The resource\<close>

definition RotationTargetAdminApplicationCredential :: string where
  "RotationTargetAdminApplicationCredential = ''adminApplicationCredential''"
definition RotationTargetServiceAccountPassword :: string where
  "RotationTargetServiceAccountPassword = ''serviceAccountPassword''"

record CredentialRotationSpec =
  rs_target :: string
  rs_account :: string
  rs_bootstrap :: bool
  rs_remint :: bool
  rs_interval :: "int option"
  rs_pre_rotation :: "int option"
  rs_grace :: "int option"

record CredentialRotationStatus =
  rt_conditions :: "condition list"
  rt_observed :: int
  rt_triggered :: int

record CredentialRotation =
  cr_meta :: objmeta
  cr_spec :: CredentialRotationSpec
  cr_status :: CredentialRotationStatus

definition conditionTypeRotationReady :: string where "conditionTypeRotationReady = ''Ready''"
definition credentialRotationRequeueAfter :: duration where "credentialRotationRequeueAfter = seconds 10"

section \<open>What the reconciler uses\<close>

record ('u, 'w) rotation_env =
  rx_korc :: "('u, 'w) korc_env"
  rx_client :: "(CredentialRotation, 'w) kclient"
  rx_control_planes :: "(ControlPlane, 'w) kclient"
  rx_sem_eq :: "CredentialRotationStatus \<Rightarrow> CredentialRotationStatus \<Rightarrow> bool"
  rx_status_update :: "CredentialRotation \<Rightarrow> 'w \<Rightarrow> CredentialRotation result \<times> 'w"

type_synonym 'w cr_outcome = "(ctrl_result \<times> err option) \<times> CredentialRotation \<times> 'w"

definition finish_rotation ::
  "('u, 'w) rotation_env \<Rightarrow> CredentialRotation \<Rightarrow> ctrl_result \<Rightarrow> cstatus \<Rightarrow> string \<Rightarrow> msg \<Rightarrow> 'w \<Rightarrow> 'w cr_outcome" where
  "finish_rotation X cr result st reason message w =
     UpdateStatus (rx_sem_eq X) cr_status (rx_status_update X) (Some (cr_status cr))
       (\<lambda>cr. cr\<lparr>cr_status := (cr_status cr)
          \<lparr>rt_conditions := SetCondition (kx_meta (rx_korc X)) (rt_conditions (cr_status cr))
             (mk_condition conditionTypeRotationReady st (m_generation (cr_meta cr)) reason message),
           rt_observed := m_generation (cr_meta cr)\<rparr>\<rparr>)
       result None (cr, w)"

definition resolveControlPlane ::
  "('u, 'w) rotation_env \<Rightarrow> CredentialRotation \<Rightarrow> 'w \<Rightarrow> (ctrl_result \<times> string \<times> msg) + ControlPlane" where
  "resolveControlPlane X cr w =
     (let ns = m_namespace (cr_meta cr) in
      case k_list (rx_control_planes X) ns [] w of
        Inl e \<Rightarrow> Inl (zero_result, ''ControlPlaneListError'', Msg ''listing ControlPlanes in namespace %q: %v'' [Str ns, Val e])
      | Inr [] \<Rightarrow> Inl (after credentialRotationRequeueAfter, ''NoControlPlane'', Msg ''no ControlPlane found in namespace %q'' [Str ns])
      | Inr [cp] \<Rightarrow> Inr cp
      | Inr cps \<Rightarrow>
          Inl (zero_result, ''AmbiguousControlPlane'',
               Msg ''%d ControlPlanes found in namespace %q; cannot determine the rotation target'' [Num (int (length cps)), Str ns]))"

text \<open>An annotation is emptied, unless it is empty or absent.\<close>

definition clear_annotation :: "(orc_object, 'w) kclient \<Rightarrow> string \<Rightarrow> orc_object \<Rightarrow> 'w \<Rightarrow> err option \<times> 'w" where
  "clear_annotation C annotation x w =
     (let m = oo_meta x in
      if get_or [] (m_annotations m) annotation = [] then (None, w)
      else case k_update C (x\<lparr>oo_meta := m\<lparr>m_annotations := map_put annotation [] (m_annotations m)\<rparr>\<rparr>) w of
        (Inl e, w') \<Rightarrow> (Some e, w')
      | (Inr _, w') \<Rightarrow> (None, w'))"

definition clearPasswordHashAnnotation :: "('u, 'w) korc_env \<Rightarrow> orc_object \<Rightarrow> 'w \<Rightarrow> err option \<times> 'w" where
  "clearPasswordHashAnnotation E ac w =
     clear_annotation (kd_client (kx_object E OrcApplicationCredential)) adminPasswordHashAnnotation ac w"

definition clearServiceAccountGenerationAnnotation :: "('u, 'w) korc_env \<Rightarrow> orc_object \<Rightarrow> 'w \<Rightarrow> err option \<times> 'w" where
  "clearServiceAccountGenerationAnnotation E user w =
     clear_annotation (kd_client (kx_object E OrcUser)) serviceAccountPasswordGenerationAnnotation user w"

definition passwordHashChanged :: "('u, 'w) korc_env \<Rightarrow> ControlPlane \<Rightarrow> orc_object \<Rightarrow> 'w \<Rightarrow> bool result" where
  "passwordHashChanged E cp ac w =
     (case computeAdminPasswordHash (kx_eso E) (kx_sha E) cp w of
        Inl e \<Rightarrow> Inl e
      | Inr current \<Rightarrow> Inr (current \<noteq> get_or [] (m_annotations (oo_meta ac)) adminPasswordHashAnnotation))"

section \<open>The targets\<close>

definition latch :: "CredentialRotation \<Rightarrow> CredentialRotation" where
  "latch cr = cr\<lparr>cr_status := (cr_status cr)\<lparr>rt_triggered := m_generation (cr_meta cr)\<rparr>\<rparr>"

definition remint_requested :: "CredentialRotation \<Rightarrow> bool" where
  "remint_requested cr \<longleftrightarrow> rs_remint (cr_spec cr) \<and> rt_triggered (cr_status cr) \<noteq> m_generation (cr_meta cr)"

abbreviation rotation_event :: "('u, 'w) rotation_env \<Rightarrow> msg \<Rightarrow> 'w \<Rightarrow> 'w" where
  "rotation_event X m \<equiv> kx_event (rx_korc X) \<lparr>ev_type = EvNormal, ev_reason = ''RotationNudged'', ev_message = m\<rparr>"

definition rotateServiceAccountPassword :: "('u, 'w) rotation_env \<Rightarrow> CredentialRotation \<Rightarrow> ControlPlane \<Rightarrow> 'w \<Rightarrow> 'w cr_outcome" where
  "rotateServiceAccountPassword X cr cp w =
     (let account = rs_account (cr_spec cr); retry = after credentialRotationRequeueAfter;
          E = rx_korc X; C = kd_client (kx_object E OrcUser)
      in case find (\<lambda>sa. sa_name sa = account) (cp_accounts cp) of
           None \<Rightarrow>
             finish_rotation X cr retry CFalse ''UnknownServiceAccount''
               (Msg ''no service account %q is declared on ControlPlane %q'' [Str account, Str (cp_name cp)]) w
         | Some sa \<Rightarrow>
             (let key = (childNamespace cp, serviceAccountUserRef cp sa); read = k_get C key w in
              case read of
                Inl e \<Rightarrow>
                  if \<not> is_not_found e
                  then ((zero_result, Some (Errorf ''fetching service-account User %s: %w'' [Strs [fst key, snd key], Wrap e])), cr, w)
                  else if rs_bootstrap (cr_spec cr)
                  then finish_rotation X cr retry CFalse ''WaitingForBootstrap''
                         (Msg ''service account %q not yet provisioned by the ControlPlane reconciler; waiting'' [Str account]) w
                  else finish_rotation X cr retry CFalse ''WaitingForServiceAccount''
                         (Msg ''service account %q does not exist yet; cannot rotate'' [Str account]) w
              | Inr user \<Rightarrow>
                  if rs_bootstrap (cr_spec cr)
                  then finish_rotation X cr zero_result CTrue ''BootstrapComplete''
                         (Msg ''service account %q already exists; bootstrap is a no-op'' [Str account]) w
                  else if \<not> remint_requested cr
                  then finish_rotation X cr zero_result CTrue ''NoRotationNeeded'' (Msg ''no pending reMint; no rotation performed'' []) w
                  else case clearServiceAccountGenerationAnnotation E user w of
                    (Some e, w1) \<Rightarrow>
                      ((zero_result, Some (Errorf ''clearing generation annotation to nudge service-account rotation: %w'' [Wrap e])), cr, w1)
                  | (None, w1) \<Rightarrow>
                      finish_rotation X (latch cr) zero_result CTrue ''RotationTriggered''
                        (Msg (''cleared the generation annotation; the ControlPlane reconciler will rotate service account %q'' @ [CHR 0x27] @ ''s password'')
                           [Str account])
                        (rotation_event X (Msg ''cleared service account %q generation annotation to trigger a password rotation by the ControlPlane reconciler''
                           [Str account]) w1)))"

text \<open>The admin credential, with the ApplicationCredential that was read.\<close>

definition rotate_existing :: "('u, 'w) rotation_env \<Rightarrow> CredentialRotation \<Rightarrow> ControlPlane \<Rightarrow> orc_object \<Rightarrow> 'w \<Rightarrow> 'w cr_outcome" where
  "rotate_existing X cr cp ac w =
     (let E = rx_korc X; requested = remint_requested cr in
      case (if requested then Inr True else passwordHashChanged E cp ac w) of
        Inl e \<Rightarrow>
          if IsMissingSecretOrKey e
          then finish_rotation X cr (after credentialRotationRequeueAfter) CFalse ''WaitingForAdminPassword''
                 (Msg ''admin password Secret is not yet available; deferring rotation decision'' []) w
          else ((zero_result, Some (Errorf ''computing admin password hash: %w'' [Wrap e])), cr, w)
      | Inr False \<Rightarrow>
          finish_rotation X cr zero_result CTrue ''NoRotationNeeded''
            (Msg ''admin password unchanged and no pending reMint; no rotation performed'' []) w
      | Inr True \<Rightarrow>
          (case clearPasswordHashAnnotation E ac w of
             (Some e, w1) \<Rightarrow>
               ((zero_result, Some (Errorf ''clearing password-hash annotation to nudge re-mint: %w'' [Wrap e])), cr, w1)
           | (None, w1) \<Rightarrow>
               finish_rotation X (if requested then latch cr else cr) zero_result CTrue ''RotationTriggered''
                 (Msg ''cleared the password-hash annotation; the ControlPlane reconciler will re-mint the admin application credential'' [])
                 (rotation_event X (Msg ''cleared admin application credential password-hash annotation to trigger a re-mint by the ControlPlane reconciler'' []) w1)))"

definition rotate_admin :: "('u, 'w) rotation_env \<Rightarrow> CredentialRotation \<Rightarrow> ControlPlane \<Rightarrow> 'w \<Rightarrow> 'w cr_outcome" where
  "rotate_admin X cr cp w =
     (let key = (childNamespace cp, adminAppCredentialName cp); retry = after credentialRotationRequeueAfter in
      case k_get (kd_client (kx_object (rx_korc X) OrcApplicationCredential)) key w of
        Inl e \<Rightarrow>
          if \<not> is_not_found e
          then ((zero_result, Some (Errorf ''fetching admin ApplicationCredential %s: %w'' [Strs [fst key, snd key], Wrap e])), cr, w)
          else if rs_bootstrap (cr_spec cr)
          then finish_rotation X cr retry CFalse ''WaitingForBootstrap''
                 (Msg ''admin application credential not yet minted by the ControlPlane reconciler; waiting'' []) w
          else finish_rotation X cr retry CFalse ''WaitingForApplicationCredential''
                 (Msg ''admin application credential does not exist yet; cannot rotate'' []) w
      | Inr ac \<Rightarrow>
          if rs_bootstrap (cr_spec cr)
          then finish_rotation X cr zero_result CTrue ''BootstrapComplete''
                 (Msg ''admin application credential already exists; bootstrap is a no-op'' []) w
          else rotate_existing X cr cp ac w)"

definition schedule_event :: "('u, 'w) rotation_env \<Rightarrow> CredentialRotation \<Rightarrow> 'w \<Rightarrow> 'w" where
  "schedule_event X cr w =
     (if rs_interval (cr_spec cr) \<noteq> None \<or> rs_pre_rotation (cr_spec cr) \<noteq> None \<or> rs_grace (cr_spec cr) \<noteq> None
      then kx_event (rx_korc X) \<lparr>ev_type = EvNormal, ev_reason = ''ScheduledRotationDeferred'',
             ev_message = Msg ''Scheduled-rotation fields are accepted but not yet implemented at this level; performing one-shot rotation semantics only'' []\<rparr> w
      else w)"

definition rotate_found :: "('u, 'w) rotation_env \<Rightarrow> CredentialRotation \<Rightarrow> 'w \<Rightarrow> 'w cr_outcome" where
  "rotate_found X cr w =
     (if rs_target (cr_spec cr) \<notin> {RotationTargetAdminApplicationCredential, RotationTargetServiceAccountPassword}
      then finish_rotation X cr zero_result CFalse ''UnsupportedTarget''
             (Msg ''rotation target %q is not supported; supported targets are %q and %q''
                [Str (rs_target (cr_spec cr)), Str RotationTargetAdminApplicationCredential, Str RotationTargetServiceAccountPassword]) w
      else let w1 = schedule_event X cr w in
           case resolveControlPlane X cr w1 of
             Inl (result, reason, message) \<Rightarrow> finish_rotation X cr result CFalse reason message w1
           | Inr cp \<Rightarrow>
               if rs_target (cr_spec cr) = RotationTargetServiceAccountPassword then rotateServiceAccountPassword X cr cp w1
               else rotate_admin X cr cp w1)"

definition rotation_Reconcile :: "('u, 'w) rotation_env \<Rightarrow> objkey \<Rightarrow> 'w \<Rightarrow> (ctrl_result \<times> err option) \<times> 'w" where
  "rotation_Reconcile X req w =
     (case k_get (rx_client X) req w of
        Inl e \<Rightarrow>
          if is_not_found e then ((zero_result, None), w)
          else ((zero_result, Some (Errorf ''fetching CredentialRotation: %w'' [Wrap e])), w)
      | Inr cr \<Rightarrow> (case rotate_found X cr w of (r, _, w') \<Rightarrow> (r, w')))"

end
