(* ===== verification/ControlPlaneProperties.thy ===== *)
theory ControlPlaneProperties
  imports ControlPlaneDeletion ControlPlaneSecrets
begin

text \<open>
  Properties of the control plane: its namespaces and backing services, the bound on the messages of its conditions,
  and its deletion.
\<close>

section \<open>A control plane for concrete instances\<close>

definition sample_keystone :: ServiceKeystoneSpec where
  "sample_keystone =
     \<lparr>kk_mode = KeystoneModeManaged, kk_external = None, kk_replicas = None, kk_image = None, kk_policy_overrides = None,
      kk_rotation_interval = None, kk_gateway = None, kk_public_endpoint = [], kk_proxy_image = None, kk_dedicated = None,
      kk_namespace = Some \<lparr>sns_name = ''identity'', sns_lifecycle = ServiceNamespaceLifecycleManaged\<rparr>\<rparr>"

definition sample_account :: ServiceAccountSpec where
  "sample_account =
     \<lparr>sa_name = ''nova'', sa_user = [], sa_domain = [], sa_adopt = False,
      sa_project = \<lparr>sp_name = ''service'', sp_create = False\<rparr>, sa_roles = [''service''], sa_rotation = None, sa_target = []\<rparr>"

definition sample_control_plane :: ControlPlane where
  "sample_control_plane =
     \<lparr>cp_meta = blank_meta\<lparr>m_name := ''cp'', m_namespace := ''openstack'', m_uid := ''u1'', m_deleting := True,
        m_finalizers := [controlPlaneORCFinalizer]\<rparr>,
      cp_spec = \<lparr>cs_release = ''2025.2'', cs_region = [], cs_infrastructure = None, cs_store_ref = None,
        cs_services = \<lparr>ss_keystone = Some sample_keystone, ss_horizon = None\<rparr>, cs_policy = None,
        cs_korc = \<lparr>kr_admin = \<lparr>ac_cloud = \<lparr>cc_cloud = ''admin'', cc_secret = korcCloudsYamlSecretName\<rparr>,
            ac_password_ref = \<lparr>sr_name = ''pw'', sr_key = []\<rparr>, ac_user = [], ac_project = [], ac_domain = [],
            ac_credential = \<lparr>apc_restricted = None, apc_rules = [], apc_mode = []\<rparr>, ac_bootstrap = []\<rparr>,
          kr_accounts = [sample_account]\<rparr>\<rparr>,
      cp_status = \<lparr>ct_conditions = [], ct_observed = 0, ct_phase = [], ct_services = [], ct_credential = None,
        ct_catalog = None, ct_accounts = []\<rparr>\<rparr>"

text \<open>
  A cluster that holds K-ORC resources, by kind and name, and objects of the other kinds.  In \<open>sample_teardown held\<close> a
  K-ORC resource with \<open>held\<close> carries the finalizer of K-ORC, so that its deletion only takes effect when that is removed.
\<close>

type_synonym cluster = "orc_ref set \<times> (string \<times> objkey \<Rightarrow> objmeta option)"

definition sample_orc :: "bool \<Rightarrow> orc_kind \<Rightarrow> objkey \<Rightarrow> orc_object" where
  "sample_orc held kind k =
     (new_orc kind [] [])\<lparr>oo_meta := blank_meta\<lparr>m_namespace := fst k, m_name := snd k,
        m_finalizers := if held then [''openstack.k-orc.cloud/import''] else []\<rparr>,
      oo_policy := if held then ManagementPolicyUnmanaged else ManagementPolicyManaged\<rparr>"

definition sample_orc_client :: "bool \<Rightarrow> orc_kind \<Rightarrow> (orc_object, cluster) kclient" where
  "sample_orc_client held kind =
     \<lparr>k_get = (\<lambda>k w. if (kind, snd k) \<in> fst w then Inr (sample_orc held kind k) else Inl (ApiErr NotFound)),
      k_list = (\<lambda>ns ls w. Inr []),
      k_create = (\<lambda>x w. (Inr x, insert (kind, oo_name x) (fst w), snd w)),
      k_update = (\<lambda>x w. (Inr x, fst w - {(kind, oo_name x)}, snd w)),
      k_apply = (\<lambda>x w. (Inr x, insert (kind, oo_name x) (fst w), snd w)),
      k_delete = (\<lambda>opts x w. (None, if held then fst w else fst w - {(kind, oo_name x)}, snd w))\<rparr>"

definition cluster_client :: "string \<Rightarrow> (objmeta, cluster) kclient" where
  "cluster_client kind =
     \<lparr>k_get = (\<lambda>k w. case snd w (kind, k) of None \<Rightarrow> Inl (ApiErr NotFound) | Some m \<Rightarrow> Inr m),
      k_list = (\<lambda>ns ls w. Inr []),
      k_create = (\<lambda>x w. (Inr x, fst w, (snd w)((kind, key_of x) \<mapsto> x))),
      k_update = (\<lambda>x w. (Inr x, fst w, (snd w)((kind, key_of x) \<mapsto> x))),
      k_apply = (\<lambda>x w. (Inr x, fst w, (snd w)((kind, key_of x) \<mapsto> x))),
      k_delete = (\<lambda>opts x w. if snd w (kind, key_of x) = None then (Some (ApiErr NotFound), w)
                        else (None, fst w, (snd w)((kind, key_of x) := None)))\<rparr>"

definition no_push :: "(push_secret, cluster) kclient" where
  "no_push =
     \<lparr>k_get = (\<lambda>k w. Inl (ApiErr NotFound)), k_list = (\<lambda>ns ls w. Inr []), k_create = (\<lambda>x w. (Inr x, w)),
      k_update = (\<lambda>x w. (Inl (ApiErr NotFound), w)), k_apply = (\<lambda>x w. (Inr x, w)),
      k_delete = (\<lambda>opts x w. (Some (ApiErr NotFound), w))\<rparr>"

definition sample_teardown :: "bool \<Rightarrow> cluster teardown_env" where
  "sample_teardown held =
     \<lparr>td_meta = ref_meta, td_orc = sample_orc_client held, td_push = no_push, td_namespaces = cluster_client ''Namespace'',
      td_objects = cluster_client, td_update = (\<lambda>cp w. (Inr cp, w)), td_log = (\<lambda>ev w. w), td_sha = (\<lambda>s. s)\<rparr>"

lemma sample_orc_simps [simp]:
  "oo_name (sample_orc held kind k) = snd k" "oo_kind (sample_orc held kind k) = kind"
  "m_deleting (oo_meta (sample_orc held kind k)) = False"
  "isManagedORCChild (sample_orc held kind k) = (\<not> held)"
  "list_ex (\<lambda>f. has_prefix f korcFinalizerPrefix) (m_finalizers (oo_meta (sample_orc held kind k))) = held"
  by (simp_all add: sample_orc_def new_orc_def blank_meta_def isManagedORCChild_def ManagementPolicyManaged_def
      ManagementPolicyUnmanaged_def korcFinalizerPrefix_def has_prefix_def)

lemma sample_teardown_simps [simp]:
  "td_meta (sample_teardown held) = ref_meta" "td_push (sample_teardown held) = no_push"
  "td_namespaces (sample_teardown held) = cluster_client ''Namespace''" "td_objects (sample_teardown held) = cluster_client"
  "td_update (sample_teardown held) c w = (Inr c, w)" "td_log (sample_teardown held) ev w = w"
  "k_list (td_orc (sample_teardown held) kind) ns ls w = Inr []"
  "k_get (td_orc (sample_teardown held) kind) k w =
     (if (kind, snd k) \<in> fst w then Inr (sample_orc held kind k) else Inl (ApiErr NotFound))"
  "k_update (td_orc (sample_teardown held) kind) x w = (Inr x, fst w - {(kind, oo_name x)}, snd w)"
  "k_delete (td_orc (sample_teardown held) kind) opts x w =
     (None, if held then fst w else fst w - {(kind, oo_name x)}, snd w)"
  by (simp_all add: sample_teardown_def sample_orc_client_def)


lemma sample_home [simp]: "childNamespace sample_control_plane = ''openstack''"
  by (simp add: childNamespace_def sample_control_plane_def)







lemma sample_dedicated [simp]:
  "DedicatedServiceNamespaces sample_control_plane = [\<lparr>sns_name = ''identity'', sns_lifecycle = ServiceNamespaceLifecycleManaged\<rparr>]"
  by (simp add: DedicatedServiceNamespaces_def keystoneNamespaceBlock_def horizonNamespaceBlock_def sample_control_plane_def
      sample_keystone_def blank_meta_def)


section \<open>Deletion\<close>


















section \<open>The namespaces of the services\<close>

text \<open>
  In the order of a pass: each declared namespace is there and not terminating, one of lifecycle Managed is ours, or it was
  not there, is Managed, and has just been created with our labels.
\<close>

fun namespaces_settled ::
  "(objmeta, 'w) kclient \<Rightarrow> ControlPlane \<Rightarrow> ServiceNamespaceSpec list \<Rightarrow> 'w \<Rightarrow> 'w \<Rightarrow> bool" where
  "namespaces_settled C cp [] w w' = (w' = w)"
| "namespaces_settled C cp (a # rest) w w' =
     (case k_get C ([], sns_name a) w of
        Inr ns \<Rightarrow> \<not> m_deleting ns \<and> (if sns_lifecycle a = ServiceNamespaceLifecycleExternal then True else isControlPlaneChild cp ns) \<and>
          namespaces_settled C cp rest w w'
      | Inl e \<Rightarrow> is_not_found e \<and> sns_lifecycle a \<noteq> ServiceNamespaceLifecycleExternal \<and>
          (case k_create C (new_namespace cp (sns_name a)) w of
             (Inl ce, w1) \<Rightarrow> False
           | (Inr ns, w1) \<Rightarrow> namespaces_settled C cp rest w1 w'))"

lemma namespace_pass_settled:
  "(\<exists>cp'. namespace_pass K C as (cp, w) = (None, cp', w')) \<longleftrightarrow> namespaces_settled C cp as w w'"
proof (induction "as" arbitrary: w)
  case (Cons a rest)
  show ?case
    by (cases "k_get C ([], sns_name a) w"; cases "k_create C (new_namespace cp (sns_name a)) w";
        cases "fst (k_create C (new_namespace cp (sns_name a)) w)")
      (auto simp: Let_def Cons.IH split: if_splits)
qed auto

lemma namespace_pass_waits:
  "namespace_pass K C as (cp, w) = (Some r, cp', w') \<Longrightarrow> r \<noteq> (zero_result, None)"
proof (induction "as" arbitrary: w)
  case (Cons a rest)
  show ?case using Cons
    by (auto simp: Let_def split: sum.splits prod.splits if_splits)
qed simp

text \<open>
  The step goes on exactly when every namespace a service declares is settled: present, not terminating, and, where the
  operator would delete it later, created by this control plane.\<close>

lemma namespaces_ready:
  "(\<exists>cp'. reconcileNamespaces K C (cp, w) = ((zero_result, None), cp', w')) \<longleftrightarrow>
     namespaces_settled C cp (DedicatedServiceNamespaces cp) w w'"
proof (cases "DedicatedServiceNamespaces cp = []")
  case True
  then show ?thesis by (auto simp: reconcileNamespaces_def)
next
  case False
  obtain r cp1 w1 where p: "namespace_pass K C (DedicatedServiceNamespaces cp) (cp, w) = (r, cp1, w1)" by (metis prod_cases3)
  show ?thesis
  proof (cases r)
    case None
    then show ?thesis using False p namespace_pass_settled [of K C "DedicatedServiceNamespaces cp" cp w w']
      by (auto simp: reconcileNamespaces_def Let_def)
  next
    case (Some x)
    then show ?thesis
      using False p namespace_pass_settled [of K C "DedicatedServiceNamespaces cp" cp w w'] namespace_pass_waits [of K C _ cp w x]
      by (auto simp: reconcileNamespaces_def Let_def)
  qed
qed

section \<open>Messages\<close>

lemma cut_back_le: "cut_back s n \<le> n"
  by (induction n) auto

lemma cut_back_start: "cut_back s n = 0 \<or> rune_start (s ! cut_back s n)"
  by (induction n) auto

text \<open>
  A message fits the limit of the CRD schema, is unchanged when it already does, and otherwise is cut at the start of a
  character, never inside one, and marked.\<close>

lemma condition_message_bounded:
  "length (truncateConditionMessage s) \<le> maxConditionMessageBytes \<and>
   (if length s \<le> maxConditionMessageBytes then truncateConditionMessage s = s
    else \<exists>n. n < length s \<and> (n = 0 \<or> rune_start (s ! n)) \<and> truncateConditionMessage s = take n s @ truncation_suffix)"
proof (cases "length s \<le> maxConditionMessageBytes")
  case False
  define n where "n = cut_back s (maxConditionMessageBytes - length truncation_suffix)"
  have n: "n + length truncation_suffix \<le> maxConditionMessageBytes"
    using cut_back_le [of s "maxConditionMessageBytes - length truncation_suffix"]
    by (simp add: n_def truncation_suffix_def maxConditionMessageBytes_def)
  have "n < length s" using n False by simp
  moreover have "n = 0 \<or> rune_start (s ! n)" using cut_back_start by (simp add: n_def)
  moreover have "truncateConditionMessage s = take n s @ truncation_suffix"
    using False by (simp add: truncateConditionMessage_def n_def)
  ultimately have "\<exists>n. n < length s \<and> (n = 0 \<or> rune_start (s ! n)) \<and> truncateConditionMessage s = take n s @ truncation_suffix"
      "length (truncateConditionMessage s) \<le> maxConditionMessageBytes" using n by (blast, simp)
  then show ?thesis using False by simp
qed (simp add: truncateConditionMessage_def)

section \<open>Backing services\<close>

fun instances_ready :: "('m, 'w) infra_env \<Rightarrow> ControlPlane \<Rightarrow> infra_instance list \<Rightarrow> 'w \<Rightarrow> 'w \<Rightarrow> bool" where
  "instances_ready E cp [] w w' = (w' = w)"
| "instances_ready E cp (i # is) w w' =
     (case ensure_instance E cp i w of (Inr True, w1) \<Rightarrow> instances_ready E cp is w1 w' | _ \<Rightarrow> False)"

lemma ensure_all_waiting: "ensure_all E cp is (Some i) w \<noteq> (Inr None, w')"
  by (induction "is" arbitrary: w) (auto split: sum.splits prod.splits)

lemma ensure_all_iff: "ensure_all E cp is None w = (Inr None, w') \<longleftrightarrow> instances_ready E cp is w w'"
proof (induction "is" arbitrary: w)
  case (Cons i "is")
  show ?case
    using ensure_all_waiting [of E cp "is" i _ w']
    by (cases "ensure_instance E cp i w"; cases "fst (ensure_instance E cp i w)")
      (auto simp: Cons.IH split: bool.splits)
qed auto

text \<open>
  The step goes on exactly when Keystone is external, and nothing was touched, or every managed instance of the control
  plane, taken once by kind, namespace and name, was ensured and answered ready.\<close>

lemma infrastructure_ready:
  "(\<exists>cp'. reconcileInfrastructure E (cp, w) = ((zero_result, None), cp', w')) \<longleftrightarrow>
     (if IsExternalKeystone cp then w' = w
      else cs_infrastructure (cp_spec cp) \<noteq> None \<and> instances_ready E cp (managedInfraInstances cp) w w')"
proof -
  have [simp]: "infraRequeueAfter \<noteq> 0" by (simp add: infraRequeueAfter_def seconds_def)
  show ?thesis
    using ensure_all_iff [of E cp "managedInfraInstances cp" w w']
    by (auto simp: reconcileInfrastructure_def Let_def split: sum.splits prod.splits option.splits)
qed

end
