(* ===== verification/ControlPlaneKorcProperties.thy ===== *)
theory ControlPlaneKorcProperties
  imports ControlPlaneController ControlPlaneRotation ControlPlaneProperties
begin

text \<open>
  What the control plane promises of the credentials and the resources it keeps in Keystone through K-ORC: the round trip
  of the admin credential, the passwords of the service accounts, the catalog of an external Keystone, pruning.
\<close>

lemma korc_wait_not_zero [simp]: "(after korcRequeueAfter, e) \<noteq> (zero_result, f)" "after korcRequeueAfter \<noteq> zero_result"
  by (simp_all add: after_def zero_result_def)

lemma or_stop_ok:
  "or_stop r failed k = ((res, None), out) \<longleftrightarrow> (\<exists>w. r = (None, w) \<and> k w = ((res, None), out))"
  by (auto simp: or_stop_def split: prod.splits option.splits)

lemma check_materialized_ready:
  assumes "check_materialized E yaml trigger cp w = ((zero_result, None), cp', w')"
  obtains m where "k_get (kd_client (kx_secret E)) (childNamespace cp, clouds_yaml_secret cp) w' = Inr m"
    "sameAppCredIdentity (kx_clouds E) (get_or [] (s_data m) appCredCloudsYAMLKey) yaml"
    "cp' = cp_report (kx_meta E) conditionTypeAdminCredentialReady CTrue ''AdminCredentialReady''
       (Msg ''Admin application credential committed and mirrored to OpenBao'' []) cp"
  using assms unfolding check_materialized_def or_stop_ok
  by (elim exE conjE) (auto split: sum.splits if_splits prod.splits)

lemma push_credential_ready:
  assumes "push_credential E yaml hash cp w = ((zero_result, None), cp', w')"
  obtains v conds version where
    "kx_push_status E (childNamespace cp, adminAppCredentialPushSecretName cp) v = Inr (conds, version)" "pushSecretReady conds"
    "check_materialized E yaml (hash @ ''/'' @ version) cp v = ((zero_result, None), cp', w')"
  using assms unfolding push_credential_def Let_def or_stop_ok
  by (elim exE conjE) (auto split: sum.splits if_splits prod.splits)

lemma assemble_credential_ready:
  assumes "assemble_credential E i cp w = ((zero_result, None), cp', w')"
  obtains s secret_value yaml hash v where
    "k_get (kd_client (kx_secret E)) (childNamespace cp, adminAppCredentialSecretName cp) w = Inr s"
    "secret_value = get_or [] (s_data s) appCredSecretValueKey" "secret_value \<noteq> []"
    "yaml = buildAppCredCloudsYAML (kx_quote E) cp i secret_value"
    "push_credential E yaml hash cp v = ((zero_result, None), cp', w')"
  using assms by (auto simp: assemble_credential_def Let_def split: sum.splits if_splits prod.splits)

text \<open>
  C9. The admin credential is reported ready only when the round trip is complete: the application credential is
  minted, its secret is there, the PushSecret reports that it was pushed, and the Secret the External Secrets Operator
  materialised parses to the very id and secret that were minted.  Nothing but that condition changes in the
  ControlPlane.\<close>

theorem credential_round_trip:
  assumes "reconcileAdminCredential E (cp, w) = ((zero_result, None), cp', w')"
  shows "AllTrue (kx_meta E) (cp_conditions cp) [conditionTypeKORCReady] \<and>
    cp' = cp_report (kx_meta E) conditionTypeAdminCredentialReady CTrue ''AdminCredentialReady''
       (Msg ''Admin application credential committed and mirrored to OpenBao'' []) cp \<and>
    (\<exists>status s m minted v conds version.
       ct_credential (cp_status cp) = Some status \<and> as_id status \<noteq> [] \<and>
       k_get (kd_client (kx_secret E)) (childNamespace cp, adminAppCredentialSecretName cp) w = Inr s \<and>
       get_or [] (s_data s) appCredSecretValueKey \<noteq> [] \<and>
       kx_push_status E (childNamespace cp, adminAppCredentialPushSecretName cp) v = Inr (conds, version) \<and> pushSecretReady conds \<and>
       k_get (kd_client (kx_secret E)) (childNamespace cp, clouds_yaml_secret cp) w' = Inr m \<and>
       parseAppCredIdentity (kx_clouds E)
         (buildAppCredCloudsYAML (kx_quote E) cp (as_id status) (get_or [] (s_data s) appCredSecretValueKey)) = Some minted \<and>
       parseAppCredIdentity (kx_clouds E) (get_or [] (s_data m) appCredCloudsYAMLKey) = Some minted)"
proof -
  let ?i = "case ct_credential (cp_status cp) of None \<Rightarrow> [] | Some c \<Rightarrow> as_id c"
  have gate: "AllTrue (kx_meta E) (cp_conditions cp) [conditionTypeKORCReady]"
    and "?i \<noteq> []" and a: "assemble_credential E ?i cp w = ((zero_result, None), cp', w')"
    using assms by (auto simp: reconcileAdminCredential_def Let_def split: sum.splits if_splits prod.splits option.splits bool.splits)
  then obtain status where st: "ct_credential (cp_status cp) = Some status" "as_id status \<noteq> []" by (auto split: option.splits)
  from a obtain s hash v where s:
      "k_get (kd_client (kx_secret E)) (childNamespace cp, adminAppCredentialSecretName cp) w = Inr s"
      "get_or [] (s_data s) appCredSecretValueKey \<noteq> []"
      "push_credential E (buildAppCredCloudsYAML (kx_quote E) cp ?i (get_or [] (s_data s) appCredSecretValueKey)) hash cp v =
         ((zero_result, None), cp', w')"
    by (elim assemble_credential_ready) auto
  from s(3) obtain u conds version where p:
      "kx_push_status E (childNamespace cp, adminAppCredentialPushSecretName cp) u = Inr (conds, version)" "pushSecretReady conds"
      "check_materialized E (buildAppCredCloudsYAML (kx_quote E) cp ?i (get_or [] (s_data s) appCredSecretValueKey))
         (hash @ ''/'' @ version) cp u = ((zero_result, None), cp', w')"
    by (elim push_credential_ready)
  from p(3) obtain m where m: "k_get (kd_client (kx_secret E)) (childNamespace cp, clouds_yaml_secret cp) w' = Inr m"
      "sameAppCredIdentity (kx_clouds E) (get_or [] (s_data m) appCredCloudsYAMLKey)
         (buildAppCredCloudsYAML (kx_quote E) cp ?i (get_or [] (s_data s) appCredSecretValueKey))"
      "cp' = cp_report (kx_meta E) conditionTypeAdminCredentialReady CTrue ''AdminCredentialReady''
         (Msg ''Admin application credential committed and mirrored to OpenBao'' []) cp"
    by (elim check_materialized_ready)
  from m(2) obtain minted where
      "parseAppCredIdentity (kx_clouds E) (buildAppCredCloudsYAML (kx_quote E) cp ?i (get_or [] (s_data s) appCredSecretValueKey)) = Some minted"
      "parseAppCredIdentity (kx_clouds E) (get_or [] (s_data m) appCredCloudsYAMLKey) = Some minted"
    by (auto simp: sameAppCredIdentity_def split: option.splits dest: prod_eqI)
  then show ?thesis using gate m(3) st s(1,2) p(1,2) m(1) by (intro conjI exI) simp_all
qed

section \<open>An environment for concrete instances\<close>

text \<open>Every write succeeds and changes nothing; a written K-ORC object comes back as \<open>f\<close> of it.\<close>

definition unit_ssa :: "('o \<Rightarrow> objmeta) \<Rightarrow> ('o \<Rightarrow> 'o) \<Rightarrow> ('o, unit, 'w) ssa_api" where
  "unit_ssa meta f =
     \<lparr>ssa_meta = meta, ssa_set_ref = (\<lambda>m x. Inr x), ssa_gvk = (\<lambda>x. Inr []), ssa_to_unstructured = (\<lambda>x. Inr ()),
      ssa_set_gvk = (\<lambda>g u. u), ssa_remove = (\<lambda>p u. u), ssa_apply = (\<lambda>m b u w. (Inr u, w)), ssa_retry = (\<lambda>g w. g w),
      ssa_from_unstructured = (\<lambda>u x. Inr (f x))\<rparr>"

lemma unit_ssa_ensure [simp]:
  "EnsureObject (unit_ssa meta f) owner x m w = (Inr (f x), w)" "EnsureUnownedObject (unit_ssa meta f) x m w = (Inr (f x), w)"
  by (simp_all add: EnsureObject_def EnsureUnownedObject_def unit_ssa_def Let_def)

definition unit_own :: "('o \<Rightarrow> objmeta) \<Rightarrow> 'o own_api" where
  "unit_own meta = \<lparr>ow_meta = meta, ow_with_meta = (\<lambda>m x. x), ow_set_ref = (\<lambda>m x. Inr x), ow_kind = []\<rparr>"

definition unit_kind :: "('o \<Rightarrow> objmeta) \<Rightarrow> ('o \<Rightarrow> 'o) \<Rightarrow> ('o, 'w) kclient \<Rightarrow> ('o, unit, 'w) kind_api" where
  "unit_kind meta f C = \<lparr>kd_own = unit_own meta, kd_client = C, kd_ssa = unit_ssa meta f\<rparr>"

lemma unit_kind_simps [simp]:
  "kd_own (unit_kind meta f C) = unit_own meta" "kd_client (unit_kind meta f C) = C" "kd_ssa (unit_kind meta f C) = unit_ssa meta f"
  "ow_meta (unit_own meta) = meta" "ow_set_ref (unit_own meta) m x = Inr x"
  by (simp_all add: unit_kind_def unit_own_def)

text \<open>A client whose reads give \<open>read\<close>, whose lists give \<open>items\<close> and whose deletions are \<open>remove\<close>.\<close>

definition fixed_client :: "(objkey \<Rightarrow> 'w \<Rightarrow> 'o result) \<Rightarrow> ('w \<Rightarrow> 'o list) \<Rightarrow> ('o \<Rightarrow> 'w \<Rightarrow> 'w) \<Rightarrow> ('o, 'w) kclient" where
  "fixed_client read items remove =
     \<lparr>k_get = read, k_list = (\<lambda>ns ls w. Inr (items w)), k_create = (\<lambda>x w. (Inr x, w)), k_update = (\<lambda>x w. (Inr x, w)),
      k_apply = (\<lambda>x w. (Inr x, w)), k_delete = (\<lambda>opts x w. (None, remove x w))\<rparr>"

lemma fixed_client_simps [simp]:
  "k_get (fixed_client read items remove) = read" "k_list (fixed_client read items remove) ns ls w = Inr (items w)"
  "k_update (fixed_client read items remove) x w = (Inr x, w)" "k_delete (fixed_client read items remove) opts x w = (None, remove x w)"
  by (simp_all add: fixed_client_def)

definition sample_eso :: "'w eso_env" where
  "sample_eso =
     \<lparr>eso_secret = (\<lambda>k w. Inl (ApiErr NotFound)), eso_external = (\<lambda>k w. Inr [(''Ready'', CTrue)]),
      eso_cluster_store = (\<lambda>k w. Inr [(''Ready'', CTrue)]), eso_store = (\<lambda>k w. Inr [(''Ready'', CTrue)])\<rparr>"

lemma sample_eso_ready [simp]:
  "WaitForExternalSecret sample_eso k w = (True, True, None)"
  "st_kind ref \<in> {SecretStoreKindCluster, SecretStoreKindNamespaced} \<Longrightarrow> IsStoreRefReady sample_eso ref ns w = Inr True"
  by (auto simp: WaitForExternalSecret_def IsStoreRefReady_def IsClusterSecretStoreReady_def IsSecretStoreReady_def sample_eso_def)

definition sample_korc ::
  "(orc_object \<Rightarrow> orc_object) \<Rightarrow> (orc_kind \<Rightarrow> (orc_object, 'w) kclient) \<Rightarrow> (secret, 'w) kclient \<Rightarrow> (unit, 'w) korc_env" where
  "sample_korc f Q S =
     \<lparr>kx_meta = ref_meta, kx_eso = sample_eso, kx_now = (\<lambda>w. 0), kx_since = (\<lambda>x w. 0), kx_sha = (\<lambda>s. ''0123456789''),
      kx_quote = (\<lambda>s. s), kx_random = (\<lambda>n w. Inr ''secret''), kx_orc = \<lparr>orc_available = (\<lambda>x. True), orc_terminal = (\<lambda>x. None)\<rparr>,
      kx_object = (\<lambda>kind. unit_kind oo_meta f (Q kind)), kx_object_upsert = (\<lambda>kind g x w. (g x, w)),
      kx_secret = unit_kind s_meta (\<lambda>x. x) S, kx_secret_upsert = (\<lambda>g x w. (g x, w)),
      kx_push = unit_kind ps_meta (\<lambda>x. x) (fixed_client (\<lambda>k w. Inl (ApiErr NotFound)) (\<lambda>w. []) (\<lambda>x w. w)),
      kx_push_status = (\<lambda>k w. Inr ([(''Ready'', CTrue)], ''1'')),
      kx_external = unit_kind es_meta (\<lambda>x. x) (fixed_client (\<lambda>k w. Inl (ApiErr NotFound)) (\<lambda>w. []) (\<lambda>x w. w)),
      kx_clouds = (\<lambda>s. Some [(''id'', ''v'')]), kx_retry = (\<lambda>g w. g w), kx_error = (\<lambda>e. []), kx_event = (\<lambda>ev w. w)\<rparr>"

lemma sample_korc_simps [simp]:
  "kx_meta (sample_korc f Q S) = ref_meta" "kx_eso (sample_korc f Q S) = sample_eso"
  "kx_sha (sample_korc f Q S) s = ''0123456789''" "kx_random (sample_korc f Q S) n w = Inr ''secret''"
  "orc_available (kx_orc (sample_korc f Q S)) x" "orc_terminal (kx_orc (sample_korc f Q S)) x = None"
  "kx_object (sample_korc f Q S) kind = unit_kind oo_meta f (Q kind)" "kx_object_upsert (sample_korc f Q S) kind g x w = (g x, w)"
  "kx_secret (sample_korc f Q S) = unit_kind s_meta (\<lambda>x. x) S" "kx_secret_upsert (sample_korc f Q S) h y w = (h y, w)"
  "kx_push (sample_korc f Q S) = unit_kind ps_meta (\<lambda>x. x) (fixed_client (\<lambda>k w. Inl (ApiErr NotFound)) (\<lambda>w. []) (\<lambda>x w. w))"
  "kx_push_status (sample_korc f Q S) k w = Inr ([(''Ready'', CTrue)], ''1'')"
  "kx_external (sample_korc f Q S) = unit_kind es_meta (\<lambda>x. x) (fixed_client (\<lambda>k w. Inl (ApiErr NotFound)) (\<lambda>w. []) (\<lambda>x w. w))"
  "kx_clouds (sample_korc f Q S) s = Some [(''id'', ''v'')]" "kx_retry (sample_korc f Q S) r w = r w"
  "kx_event (sample_korc f Q S) ev w = w" "kx_now (sample_korc f Q S) w = 0"
  by (simp_all add: sample_korc_def)

lemma nudge_absent [simp]:
  "nudge (sample_korc f Q S) (fixed_client (\<lambda>k w. Inl (ApiErr NotFound)) items remove) meta put key a t w = (None, w)"
  by (simp add: nudge_def)

lemma forced [simp]:
  "forceSyncExternalSecret (sample_korc f Q S) ns name t w = (None, w)"
  "forceRepushPushSecret (sample_korc f Q S) ns name a t w = (None, w)"
  by (simp_all add: forceSyncExternalSecret_def forceRepushPushSecret_def wrap_error_def)

definition ready_condition :: "string \<Rightarrow> condition" where
  "ready_condition ct = mk_condition ct CTrue 0 [] (Msg [] [])"

definition sample_minted :: ControlPlane where
  "sample_minted = sample_control_plane\<lparr>cp_status := (cp_status sample_control_plane)
     \<lparr>ct_conditions := [ready_condition conditionTypeKORCReady, ready_condition conditionTypeAdminCredentialReady],
      ct_credential := Some \<lparr>as_id = ''id'', as_restricted = True, as_rotation = None\<rparr>\<rparr>\<rparr>"

definition sample_secrets :: "(secret, unit) kclient" where
  "sample_secrets = fixed_client (\<lambda>k w. Inr \<lparr>s_meta = blank_meta, s_version = [],
     s_data = [(appCredSecretValueKey, ''v''), (appCredCloudsYAMLKey, ''minted'')]\<rparr>) (\<lambda>w. []) (\<lambda>x w. w)"

definition no_orc :: "orc_kind \<Rightarrow> (orc_object, 'w) kclient" where
  "no_orc kind = fixed_client (\<lambda>k w. Inl (ApiErr NotFound)) (\<lambda>w. []) (\<lambda>x w. w)"

lemma sample_minted_gates [simp]:
  "AllTrue ref_meta (cp_conditions sample_minted) [conditionTypeKORCReady]"
  "AllTrue ref_meta (cp_conditions sample_minted) [conditionTypeAdminCredentialReady]"
  "ct_credential (cp_status sample_minted) = Some \<lparr>as_id = ''id'', as_restricted = True, as_rotation = None\<rparr>"
  "st_kind (effectiveControlPlaneStoreRef sample_minted) = SecretStoreKindNamespaced"
  by (simp_all add: sample_minted_def ready_condition_def mk_condition_def
      conditionTypeKORCReady_def conditionTypeAdminCredentialReady_def effectiveControlPlaneStoreRef_def sample_control_plane_def)

lemma minted_not_empty [simp]: "buildAppCredCloudsYAML q cp i v \<noteq> []"
  by (simp add: buildAppCredCloudsYAML_def yaml_line_def)

lemma sample_round_trip:
  "reconcileAdminCredential (sample_korc (\<lambda>x. x) no_orc sample_secrets) (sample_minted, ()) =
     ((zero_result, None), cp_report ref_meta conditionTypeAdminCredentialReady CTrue ''AdminCredentialReady''
       (Msg ''Admin application credential committed and mirrored to OpenBao'' []) sample_minted, ())"
  by (simp add: reconcileAdminCredential_def assemble_credential_def push_credential_def check_materialized_def or_stop_def
      sample_secrets_def get_or_def appCredSecretValueKey_def appCredCloudsYAMLKey_def EnsurePushSecret_def pushSecretReady_def
      sameAppCredIdentity_def parseAppCredIdentity_def content_hash_def Let_def del: AllTrue.simps)
  
section \<open>Generations\<close>

lemma not_digit_dash [simp]: "\<not> is_digit CHR ''-''"
  by (simp add: is_digit_def)

lemma digits_no_infix:
  assumes "list_all is_digit ds" "0 < j"
  shows "\<not> has_prefix (drop j (password_infix @ ds)) password_infix"
proof
  assume p: "has_prefix (drop j (password_infix @ ds)) password_infix"
  show False
  proof (cases "j < length password_infix")
    case True
    have "length password_infix = 11" by (simp add: password_infix_def)
    then have "j \<in> {1, 2, 3, 4, 5, 6, 7, 8, 9, 10}" using True assms(2) by simp presburger
    then show False using p by (auto simp: has_prefix_def password_infix_def)
  next
    case False
    obtain t where "drop (j - length password_infix) ds = password_infix @ t"
      using p False by (auto simp: has_prefix_iff)
    then have "CHR ''-'' \<in> set ds" by (metis password_infix_def append_Cons in_set_dropD list.set_intros(1))
    then show False using assms(1) by (auto simp: list_all_iff)
  qed
qed

lemma last_index_append:
  assumes "list_all is_digit ds"
  shows "last_index (a @ password_infix @ ds) password_infix = Some (length a)"
proof -
  let ?s = "a @ password_infix @ ds"
  let ?P = "\<lambda>i. has_prefix (drop i ?s) password_infix"
  have later: "\<not> ?P i" if "length a < i" for i
  proof -
    have "drop i ?s = drop (i - length a) (password_infix @ ds)" using that by simp
    then show ?thesis using digits_no_infix [OF assms, of "i - length a"] that by simp
  qed
  have here: "?P (length a)" by simp
  have "find ?P (rev [0..<Suc n]) = Some (length a)" if "length a \<le> n" for n
    using that
  proof (induction n)
    case (Suc n)
    then show ?case using later [of "Suc n"] here by (cases "length a = Suc n") auto
  qed (use here in auto)
  then show ?thesis by (simp add: last_index_def del: upt_Suc)
qed

text \<open>
  C32. The generation of a password is read back from the name of its Secret, for every positive 64-bit generation and
  whatever the names of the control plane and the account are, an infix inside them included.\<close>

theorem generation_round_trip:
  assumes "1 \<le> gen" "is_int64 gen"
  shows "parseServiceAccountGeneration (serviceAccountPasswordSecretName cp sa gen) = Some gen"
proof -
  have digits: "list_all is_digit (show_int gen)" using assms(1) show_nat_digits by (simp add: show_int_def)
  have "atoi (show_int gen) = Inr gen" using assms by (simp add: show_int_def)
  moreover have "serviceAccountPasswordSecretName cp sa gen =
      (serviceAccountChildPrefix cp @ sa_name sa) @ password_infix @ show_int gen"
    by (simp add: serviceAccountPasswordSecretName_def password_infix_def)
  ultimately show ?thesis using assms(1) last_index_append [OF digits, of "serviceAccountChildPrefix cp @ sa_name sa"]
    by (simp add: parseServiceAccountGeneration_def)
qed

section \<open>Service accounts\<close>

















section \<open>Rotating the password of an account\<close>

lemma show_int_not_Nil [simp]: "show_int i \<noteq> []" by (simp add: show_int_def)

text \<open>
  A rotation takes the password one generation further and consumes its trigger: the User written carries the next
  generation, is not asked to rotate again, and names the Secret of that generation.  Without a trigger the generation
  stays; and a trigger set between the read and the write survives the write, for the next pass to see.\<close>

lemma rotation_steps_generation:
  assumes "orc_user_of x = Some u" "ous_password u = Some (serviceAccountPasswordSecretName cp sa g)" "1 \<le> g" "g < 2 ^ 63 - 1"
    and "m_created (oo_meta x) \<noteq> 0"
    and "gen = desired_generation (Some x)" "rotating = rotation_requested (Some x)"
    and "y = (\<lambda>live. project_user cp sa cred dref pref (serviceAccountPasswordSecretName cp sa gen) rotating gen live)"
    and "nudged = x\<lparr>oo_meta := (oo_meta x)\<lparr>m_annotations :=
           map_put serviceAccountPasswordGenerationAnnotation [] (m_annotations (oo_meta x))\<rparr>\<rparr>"
  shows "gen = (if rotating then g + 1 else g) \<and>
    current_generation (Some (y x)) = gen \<and> \<not> rotation_requested (Some (y x)) \<and>
    (\<not> rotating \<longrightarrow> current_generation (Some (y nudged)) = g \<and> rotation_requested (Some (y nudged)))"
proof -
  have i64: "is_int64 g" "is_int64 (g + 1)" using assms(3,4) by (simp_all add: is_int64_def)
  have cur: "current_generation (Some x) = g"
    using assms(1,2) generation_round_trip [OF assms(3) i64(1)] by (simp add: current_generation_def)
  have gen: "gen = (if rotating then g + 1 else g)"
    unfolding assms(6,7) using cur wrap64_id [OF i64(2)] by (simp add: desired_generation_def)
  then have pos: "1 \<le> gen" "is_int64 gen" using assms(3) i64 by (simp_all split: if_splits)
  have res: "orc_user_of (y live) \<noteq> None \<and> ous_password (the (orc_user_of (y live))) = Some (serviceAccountPasswordSecretName cp sa gen)" for live
    by (simp add: assms(8) project_user_def Let_def orc_user_of_def)
  have after: "current_generation (Some (y live)) = gen" for live
    using res [of live] generation_round_trip [OF pos] by (auto simp: current_generation_def)
  have stamp: "map_of (m_annotations (oo_meta (y x))) serviceAccountPasswordGenerationAnnotation \<noteq> Some []"
  proof (cases "rotating \<or> map_of (m_annotations (oo_meta x)) serviceAccountPasswordGenerationAnnotation = None")
    case True
    then show ?thesis by (auto simp: assms(8) project_user_def Let_def)
  next
    case False
    then show ?thesis using assms(5,7) by (simp add: assms(8) project_user_def Let_def rotation_requested_def)
  qed
  have raced: "rotation_requested (Some (y nudged))" if "\<not> rotating"
    using that assms(5) by (simp add: assms(8,9) project_user_def Let_def rotation_requested_def)
  show ?thesis
    using gen after stamp raced by (auto simp: rotation_requested_def)
qed

section \<open>Re-minting the admin credential\<close>

lemma rules_differ_iff: "length xs = length ys \<Longrightarrow> rules_differ xs ys \<longleftrightarrow> xs \<noteq> ys"
  by (induction xs ys rule: list_induct2) (auto simp: orc_access_rule.equality)

lemma accessRulesDrifted_iff: "accessRulesDrifted xs ys \<longleftrightarrow> xs \<noteq> ys"
  by (auto simp: accessRulesDrifted_def rules_differ_iff)

lemma access_rule_field_inj: "access_rule_field s = access_rule_field t \<longleftrightarrow> s = t"
  by (auto simp: access_rule_field_def)

lemma projectAccessRules_inj: "projectAccessRules xs = projectAccessRules ys \<longleftrightarrow> xs = ys"
proof -
  have "inj (\<lambda>r :: AccessRule. \<lparr>oar_path = access_rule_field (ar_path r), oar_method = access_rule_field (ar_method r),
               oar_service = access_rule_field (ar_service r)\<rparr>)"
  proof (rule injI)
    fix r t :: AccessRule
    assume "\<lparr>oar_path = access_rule_field (ar_path r), oar_method = access_rule_field (ar_method r),
          oar_service = access_rule_field (ar_service r)\<rparr> =
        \<lparr>oar_path = access_rule_field (ar_path t), oar_method = access_rule_field (ar_method t),
          oar_service = access_rule_field (ar_service t)\<rparr>"
    then show "r = t" by (cases r; cases t) (simp add: access_rule_field_inj)
  qed
  then show ?thesis by (simp add: projectAccessRules_def inj_map_eq_map)
qed

text \<open>
  C30. An application credential that was projected is minted again exactly when the admin password, the restriction or
  the access rules changed since; otherwise it is only kept up to date.\<close>

theorem remint_exactly_on_change:
  assumes "shouldStampPasswordHash live" "hash \<noteq> [] \<or> hash' \<noteq> []" "cp_name cp' = cp_name cp"
    and "k_get (kd_client (kx_object E OrcApplicationCredential)) (childNamespace cp', adminAppCredentialName cp') w =
           Inr (project_credential cp (admin_restricted cp) cred hash live)"
  shows "mint_credential E imps hash' cp' w =
    (if hash' = hash \<and> admin_restricted cp' = admin_restricted cp \<and>
        apc_rules (ac_credential (cp_admin cp')) = apc_rules (ac_credential (cp_admin cp))
     then ensure_credential E imps hash' cp' w
     else remintAdminApplicationCredential E (project_credential cp (admin_restricted cp) cred hash live) cp' w)"
proof -
  let ?ac = "project_credential cp (admin_restricted cp) cred hash live"
  have hash: "get_or [] (m_annotations (oo_meta ?ac)) adminPasswordHashAnnotation = hash"
    using assms(1) by (simp add: project_credential_def Let_def get_or_def)
  have drifted: "adminACResourceDrifted ?ac cp' (admin_restricted cp') \<longleftrightarrow>
      admin_restricted cp' \<noteq> admin_restricted cp \<or>
      apc_rules (ac_credential (cp_admin cp')) \<noteq> apc_rules (ac_credential (cp_admin cp))"
    using assms(3)
    by (auto simp: adminACResourceDrifted_def orc_credential_of_def project_credential_def Let_def adminUserRef_def
        adminAppCredentialSecretName_def accessRulesDrifted_iff projectAccessRules_inj)
  show ?thesis unfolding mint_credential_def assms(4) using hash drifted by auto
qed

text \<open>The regeneration of the secret is not repeated: once the old credential is gone, the new one is minted from what is there.\<close>

lemma lost_regeneration:
  assumes "\<not> m_deleting (oo_meta ac)"
    and "k_delete (kd_client (kx_object E OrcApplicationCredential)) no_opts ac w = (None, w1)"
    and "regenerateAppCredentialSecretValue E cp w1 = (Some e, w2)"
    and "k_get (kd_client (kx_object E OrcApplicationCredential)) (childNamespace cp, adminAppCredentialName cp) w3 = Inl (ApiErr NotFound)"
    and "get_or [] data appCredSecretValueKey \<noteq> []"
  shows "fst (remintAdminApplicationCredential E ac cp w) = (zero_result, Some e) \<and>
    mint_credential E imps hash cp w3 = ensure_credential E imps hash cp w3 \<and>
    (\<exists>data'. app_credential_data E bundle w4 data = Inr data' \<and>
       get_or [] data' appCredSecretValueKey = get_or [] data appCredSecretValueKey)"
  using assms
  by (auto simp: remintAdminApplicationCredential_def or_stop_def mint_credential_def app_credential_data_def setCACertKey_def
      get_or_def appCredSecretValueKey_def korcCACertKey_def split: prod.splits)

section \<open>The catalog of an external Keystone\<close>






section \<open>Pruning\<close>








section \<open>Instances\<close>

lemma credential_round_trip_witness:
  "parseAppCredIdentity (kx_clouds (sample_korc (\<lambda>x. x) no_orc sample_secrets)) ''minted'' = Some (''id'', ''v'') \<and>
   (\<exists>i v. i \<noteq> [] \<and> v \<noteq> [] \<and> parseAppCredIdentity (kx_clouds (sample_korc (\<lambda>x. x) no_orc sample_secrets))
      (buildAppCredCloudsYAML (kx_quote (sample_korc (\<lambda>x. x) no_orc sample_secrets)) sample_minted i v) = Some (''id'', ''v''))"
proof -
  have "(i' \<noteq> [] \<and> v \<noteq> [] \<and> parseAppCredIdentity (kx_clouds (sample_korc (\<lambda>x. x) no_orc sample_secrets)) z = Some p) \<Longrightarrow> p = (''id'', ''v'')"
    for i' v z p by (auto simp: parseAppCredIdentity_def split: if_splits)
  then show ?thesis using credential_round_trip [OF sample_round_trip] by (fastforce simp: parseAppCredIdentity_def)
qed

lemma generation_round_trip_witness:
  "parseServiceAccountGeneration (serviceAccountPasswordSecretName sample_minted sample_account 7) = Some 7"
  by (rule generation_round_trip) (simp_all add: is_int64_def)

text \<open>A K-ORC resource that is there: it has an id, is available, and the User runs the first password.\<close>

definition landed :: "orc_object \<Rightarrow> orc_object" where
  "landed x = x\<lparr>oo_id := Some ''id'', oo_applied_password := Some (serviceAccountPasswordSecretName sample_minted sample_account 1),
     oo_conditions := [\<lparr>oc_type = ConditionAvailable, oc_status = CTrue, oc_generation = m_generation (oo_meta x), oc_transition = 0,
       oc_reason = [], oc_message = []\<rparr>]\<rparr>"

definition account_secrets :: "(secret, unit) kclient" where
  "account_secrets = fixed_client (\<lambda>k w. Inr \<lparr>s_meta = blank_meta, s_version = [], s_data = [(serviceAccountPasswordKey, ''pw'')]\<rparr>)
     (\<lambda>w. []) (\<lambda>x w. w)"

lemma account_secrets_simps [simp]:
  "k_get account_secrets k w = Inr \<lparr>s_meta = blank_meta, s_version = [], s_data = [(serviceAccountPasswordKey, ''pw'')]\<rparr>"
  "k_list account_secrets ns ls w = Inr []"
  by (simp_all add: account_secrets_def)

definition present_orc :: "orc_kind \<Rightarrow> (orc_object, unit) kclient" where
  "present_orc kind = fixed_client (\<lambda>k w. Inr (new_orc kind [] [])) (\<lambda>w. []) (\<lambda>x w. w)"


lemma landed_simps [simp]:
  "korcAvailableUpToDate (landed x)" "oo_id (landed x) = Some ''id''" "oo_meta (landed x) = oo_meta x"
  "oo_applied_password (landed x) = Some (serviceAccountPasswordSecretName sample_minted sample_account 1)"
  by (simp_all add: landed_def korcAvailableUpToDate_def)

lemma sample_accounts [simp]: "cp_accounts sample_minted = [sample_account]"
  by (simp add: sample_minted_def sample_control_plane_def)

lemma sample_not_external [simp]: "\<not> IsExternalKeystone sample_minted"
  by (simp add: sample_minted_def sample_control_plane_def IsExternalKeystone_def sample_keystone_def KeystoneModeManaged_def KeystoneModeExternal_def)

abbreviation ready_env :: "(unit, unit) korc_env" where "ready_env \<equiv> sample_korc landed present_orc account_secrets"

lemma sweep_empty [simp]:
  "k_list C ns [] w = Inr [] \<Longrightarrow> sweep_listed spared meta C text args ns w = (Inr [], w)"
  by (simp add: sweep_listed_def)

lemma prune_nothing [simp]: "pruneServiceAccounts ready_env cp declared w = (Inr [], w)"
proof -
  have "sweep_namespaces ready_env spared nss w = (None, w)" for spared nss
    by (induction nss) simp_all
  then show ?thesis by (simp add: pruneServiceAccounts_def Let_def present_orc_def)
qed

lemma first_generation [simp]:
  "desired_generation (Some (new_orc OrcUser [] [])) = 1" "\<not> rotation_requested (Some (new_orc OrcUser [] []))"
  by (simp_all add: desired_generation_def rotation_requested_def current_generation_def orc_user_of_def new_orc_def blank_meta_def)

lemma sample_account_simps [simp]:
  "\<not> sa_adopt sample_account" "\<not> sp_create (sa_project sample_account)" "sa_roles sample_account = [''service'']"
  by (simp_all add: sample_account_def)

lemma unit_child [simp]: "ensure_child (unit_kind meta f C) cp x w = (Inr (f x), w)"
  by (simp add: ensure_child_def unit_kind_def)

lemma unit_owned [simp]:
  "ensure_owned (unit_kind meta (\<lambda>x. x) (fixed_client (\<lambda>k w. Inl (ApiErr NotFound)) items remove)) cp x w = (Inr x, w)"
  by (simp add: ensure_owned_def ensureUnownedOrOwned_def unit_kind_def unit_own_def Let_def)

lemma ready_upsert [simp]:
  "(\<And>data. \<exists>d. mutate data = Inr d) \<Longrightarrow> ensureOwnedSecret ready_env cp name ns mutate w = (None, w)"
  apply (auto simp: ensureOwnedSecret_def refuseForeignAdoption_def claimChildOwnership_def named_meta_def blank_meta_def unit_own_def split: sum.split)
  by (metis Inl_Inr_False)









lemma IsExternalKeystone_status [simp]: "IsExternalKeystone (cp\<lparr>cp_status := s\<rparr>) = IsExternalKeystone cp"
  by (simp add: IsExternalKeystone_def)



definition sample_user :: orc_object where
  "sample_user = (new_orc OrcUser [] [])\<lparr>oo_meta := blank_meta\<lparr>m_created := 1, m_annotations := [(serviceAccountPasswordGenerationAnnotation, [])]\<rparr>,
     oo_resource := Some (UserResource \<lparr>ous_name = None, ous_domain = None, ous_project = None,
       ous_password = Some (serviceAccountPasswordSecretName sample_minted sample_account 3)\<rparr>)\<rparr>"

definition sample_rules :: ControlPlane where
  "sample_rules = sample_minted\<lparr>cp_spec := (cp_spec sample_minted)\<lparr>cs_korc := (cs_korc (cp_spec sample_minted))
     \<lparr>kr_admin := (cp_admin sample_minted)\<lparr>ac_credential := \<lparr>apc_restricted = None, apc_rules = [\<lparr>ar_service = ''identity'', ar_method = ''GET'', ar_path = ''/v3''\<rparr>], apc_mode = []\<rparr>\<rparr>\<rparr>\<rparr>\<rparr>"

lemma remint_exactly_on_change_witness:
  "let ac = project_credential sample_minted True \<lparr>cc_cloud = [], cc_secret = []\<rparr> ''h'' (new_orc OrcApplicationCredential [] []);
       E = sample_korc landed (\<lambda>kind. fixed_client (\<lambda>k w. Inr ac) (\<lambda>w. []) (\<lambda>x w. w)) account_secrets
   in \<forall>imps. mint_credential E imps ''h'' sample_rules () = remintAdminApplicationCredential E ac sample_rules () \<and>
      mint_credential E imps ''h2'' sample_minted () = remintAdminApplicationCredential E ac sample_minted () \<and>
      mint_credential E imps ''h'' sample_minted () = ensure_credential E imps ''h'' sample_minted ()"
proof -
  let ?cred = "\<lparr>cc_cloud = [], cc_secret = []\<rparr>"
  let ?live = "new_orc OrcApplicationCredential [] []"
  let ?ac = "project_credential sample_minted True ?cred ''h'' ?live"
  let ?E = "sample_korc landed (\<lambda>kind. fixed_client (\<lambda>k w. Inr ?ac) (\<lambda>w. []) (\<lambda>x w. w)) account_secrets"
  have s: "shouldStampPasswordHash ?live" by (simp add: shouldStampPasswordHash_def new_orc_def blank_meta_def)
  have res: "admin_restricted sample_minted = True" "admin_restricted sample_rules = True"
      "cp_name sample_rules = cp_name sample_minted" 
      "apc_rules (ac_credential (cp_admin sample_rules)) \<noteq> apc_rules (ac_credential (cp_admin sample_minted))"
    by (simp_all add: admin_restricted_def sample_rules_def sample_minted_def sample_control_plane_def)
  have get: "k_get (kd_client (kx_object ?E OrcApplicationCredential)) k () = Inr (project_credential sample_minted (admin_restricted sample_minted) ?cred ''h'' ?live)" for k
    by (simp add: res)
  show ?thesis unfolding Let_def
    using remint_exactly_on_change [OF s, of "''h''" "''h''" sample_rules sample_minted ?E "()" ?cred]
      remint_exactly_on_change [OF s, of "''h''" "''h2''" sample_minted sample_minted ?E "()" ?cred]
      remint_exactly_on_change [OF s, of "''h''" "''h''" sample_minted sample_minted ?E "()" ?cred] res
    by simp
qed









end
