(* ===== verification/ControlPlaneLoopProperties.thy ===== *)
theory ControlPlaneLoopProperties
  imports ControlPlaneController ControlPlaneProperties
begin

text \<open>
  What the loop of the control plane operator promises: one control plane at work in a namespace, a status that is that of
  the pass, a parked control plane that leaves the cluster alone.
\<close>

section \<open>One control plane per namespace\<close>

text \<open>
  C20. Of the control planes of a namespace exactly one is not parked, whatever their ages, as long as their names and
  UIDs differ.\<close>

theorem one_active_control_plane:
  assumes "k_list C ns [] w = Inr cps" "cps \<noteq> []"
    and "inj_on (\<lambda>cp. m_uid (cp_meta cp)) (set cps)" "inj_on (\<lambda>cp. cp_name cp) (set cps)"
    and "\<forall>cp\<in>set cps. cp_namespace cp = ns \<and> cp_name cp \<noteq> []"
  shows "\<exists>!cp. cp \<in> set cps \<and> duplicateControlPlaneIncumbent C cp w = Inr []"
proof -
  have inc: "duplicateControlPlaneIncumbent C cp w = Inr [] \<longleftrightarrow> (\<forall>x\<in>set cps. \<not> older x cp)" if cp: "cp \<in> set cps" for cp
  proof -
    let ?i = "pick_incumbent cp cps cp"
    have "?i \<in> set cps" using pick_incumbent_in [of cp cps cp] cp by auto
    then have named: "cp_name ?i \<noteq> []" using assms(5) by blast
    have listed: "k_list C (cp_namespace cp) [] w = Inr cps" using assms(1,5) cp by simp
    have eq: "duplicateControlPlaneIncumbent C cp w = Inr [] \<longleftrightarrow> ?i = cp"
    proof
      assume d: "duplicateControlPlaneIncumbent C cp w = Inr []"
      then have "m_uid (cp_meta ?i) = m_uid (cp_meta cp)"
        using named by (auto simp: duplicateControlPlaneIncumbent_def listed Let_def split: if_splits)
      then show "?i = cp" using assms(3) cp \<open>?i \<in> set cps\<close> by (auto dest: inj_onD)
    next
      assume "?i = cp"
      then show "duplicateControlPlaneIncumbent C cp w = Inr []" by (simp add: duplicateControlPlaneIncumbent_def listed)
    qed
    have min: "\<not> older cp ?i" "\<forall>x\<in>set cps. x \<noteq> cp \<longrightarrow> \<not> older x ?i"
      using pick_incumbent_minimal [of cp cp cps] assms(3) cp by (auto dest: inj_onD)
    show ?thesis
    proof
      assume "duplicateControlPlaneIncumbent C cp w = Inr []"
      then show "\<forall>x\<in>set cps. \<not> older x cp" using min eq by auto
    next
      assume o: "\<forall>x\<in>set cps. \<not> older x cp"
      have "?i = cp"
      proof (rule ccontr)
        assume "?i \<noteq> cp"
        then have "cp_name ?i \<noteq> cp_name cp" using assms(4) cp \<open>?i \<in> set cps\<close> by (auto dest: inj_onD)
        then show False using older_total [of ?i cp] o min(1) \<open>?i \<in> set cps\<close> by blast
      qed
      then show "duplicateControlPlaneIncumbent C cp w = Inr []" using eq by blast
    qed
  qed
  obtain m where m: "m \<in> set cps" "\<forall>x\<in>set cps. \<not> older x m"
    using pick_incumbent_minimal [of "hd cps" "hd cps" cps] pick_incumbent_in [of "hd cps" cps "hd cps"] assms(2,3)
    by (metis (no_types, lifting) hd_in_set inj_onD insert_absorb)
  show ?thesis
  proof (rule ex1I [of _ m])
    show "m \<in> set cps \<and> duplicateControlPlaneIncumbent C m w = Inr []" using m inc by blast
    fix x
    assume x: "x \<in> set cps \<and> duplicateControlPlaneIncumbent C x w = Inr []"
    then have "\<not> older m x" "\<not> older x m" using m inc by blast+
    then have "cp_name x = cp_name m" using older_total by metis
    then show "x = m" using assms(4) x m(1) by (auto dest: inj_onD)
  qed
qed

section \<open>The loop\<close>

text \<open>The status update returns the status it was given.\<close>

definition cp_echoes :: "(ControlPlane \<Rightarrow> 'w \<Rightarrow> ControlPlane result \<times> 'w) \<Rightarrow> bool" where
  "cp_echoes upd \<longleftrightarrow> (\<forall>cp w cp' w'. upd cp w = (Inr cp', w') \<longrightarrow> cp_status cp' = cp_status cp)"

definition cp_final_status :: "meta_api \<Rightarrow> ControlPlane \<Rightarrow> ControlPlaneStatus" where
  "cp_final_status K cp = cp_status (cp_observed (setServicesStatus K (SetReady K controlPlaneSkeleton cp)))"

lemma cp_updateStatus_status:
  assumes "cp_echoes (cx_status_update X)" "cp_updateStatus X before result e (cp, w) = (r, cp', w')"
  shows "cp_status cp' = cp_final_status (cx_meta X) cp"
proof -
  obtain u w1 where u: "cx_status_update X (cp_observed (setServicesStatus (cx_meta X) (SetReady (cx_meta X) controlPlaneSkeleton cp))) w = (u, w1)"
    by (rule prod.exhaust)
  have "cp_status c = cp_final_status (cx_meta X) cp" if "u = Inr c" for c
    using assms(1) u that unfolding cp_echoes_def cp_final_status_def by blast
  then show ?thesis using assms(2) u
    by (auto simp: cp_updateStatus_def SkeletonUpdateStatus_def UpdateStatus_def cp_final_status_def Let_def
        split: if_splits sum.splits)
qed

lemma cp_conditions_put [simp]: "cp_conditions (put_cp_conditions cs cp) = cs"
  by (simp add: put_cp_conditions_def)

lemma Ready_not_cp_sub [simp]: "''Ready'' \<notin> set cp_subConditionTypes"
  by (simp add: cp_subConditionTypes_def conditionTypeNamespacesReady_def conditionTypeInfrastructureReady_def
      conditionTypeESOTenantStoreReady_def conditionTypeDBCredentialsReady_def conditionTypeKeystoneReady_def
      conditionTypeHorizonReady_def conditionTypeKORCReady_def conditionTypeAdminCredentialReady_def
      conditionTypeAdminPasswordReady_def conditionTypeCatalogReady_def conditionTypeServiceAccountsReady_def)

lemma cp_final_conditions:
  "ct_conditions (cp_final_status K cp) = SetAggregateReady K (cp_conditions cp) (cp_generation cp) cp_subConditionTypes"
  by (simp add: cp_final_status_def cp_observed_def setServicesStatus_def SetReady_def Let_def)

text \<open>
  Whatever a pass of the eleven steps does, the status it leaves is that of this pass: Ready is true exactly when
  the eleven sub-conditions are, observedGeneration is that of the control plane the pass left, and each row of
  status.services is ready exactly when its condition is true.\<close>

lemma control_plane_status_aggregated:
  assumes "meta_contract (cx_meta X)" "cp_echoes (cx_status_update X)" "cp_reconcile_live X (cp, w) = (r, cp', w')"
  shows "(IsReady (cx_meta X) (cp_conditions cp') \<longleftrightarrow> list_all (cond_true (cx_meta X) (cp_conditions cp')) cp_subConditionTypes) \<and>
    ct_observed (cp_status cp') = cp_generation (fst (snd (RunPipeline (cx_instr X) (control_plane_pipeline X) (cp, w)))) \<and>
    (\<forall>row\<in>set (ct_services (cp_status cp')).
       sst_ready row \<longleftrightarrow> cond_true (cx_meta X) (cp_conditions cp')
         (if sst_name row = keystoneServiceKey then conditionTypeKeystoneReady else conditionTypeHorizonReady))"
proof -
  obtain res e cp1 w1 where p: "RunPipeline (cx_instr X) (control_plane_pipeline X) (cp, w) = ((res, e), cp1, w1)"
    by (metis prod.exhaust)
  have "cp_updateStatus X (cp_status cp) res e (cp1, w1) = (r, cp', w')"
    using assms(3) p by (simp add: cp_reconcile_live_def)
  then have st: "cp_status cp' = cp_final_status (cx_meta X) cp1" by (rule cp_updateStatus_status [OF assms(2)])
  have gen: "ct_observed (cp_status cp') = cp_generation cp1"
    by (simp add: st cp_final_status_def cp_observed_def setServicesStatus_def SetReady_def put_cp_conditions_def Let_def)
  have ready: "IsReady (cx_meta X) (cp_conditions cp') \<longleftrightarrow> list_all (cond_true (cx_meta X) (cp_conditions cp')) cp_subConditionTypes"
    using assms(1) by (simp add: st cp_final_conditions SetAggregateReady_iff AllTrue_iff [symmetric] AllTrue_SetAggregateReady)
  have rows: "\<forall>row\<in>set (ct_services (cp_status cp')).
       sst_ready row \<longleftrightarrow> cond_true (cx_meta X) (cp_conditions cp')
         (if sst_name row = keystoneServiceKey then conditionTypeKeystoneReady else conditionTypeHorizonReady)"
    unfolding st cp_final_conditions
    by (auto simp: cp_final_status_def cp_observed_def setServicesStatus_def SetReady_def Let_def AllTrue_iff
        keystoneServiceKey_def horizonServiceKey_def split: if_splits)
  show ?thesis using ready gen rows p by simp
qed

text \<open>
  A parked control plane leaves the cluster alone: its pass is the same whatever the namespaces, infrastructure,
  secrets, services, K-ORC and teardown clients do; only its status is written.\<close>

lemma parked_touches_only_its_status:
  assumes "\<not> m_deleting (cp_meta cp)" "duplicateControlPlaneIncumbent (cx_client X) cp w = Inr incumbent" "incumbent \<noteq> []"
    and "cx_client Y = cx_client X" "cx_meta Y = cx_meta X" "cx_sem_eq Y = cx_sem_eq X" "cx_status_update Y = cx_status_update X"
  shows "cp_reconcile_found Y (cp, w) = cp_reconcile_found X (cp, w)"
  using assms by (simp add: cp_reconcile_found_def parkDuplicateControlPlane_def)

section \<open>Instances\<close>

definition second_control_plane :: ControlPlane where
  "second_control_plane = sample_control_plane\<lparr>cp_meta := (cp_meta sample_control_plane)\<lparr>m_name := ''cp2'', m_uid := ''u2'', m_created := 1, m_deleting := False\<rparr>\<rparr>"

definition two_planes :: "(ControlPlane, unit) kclient" where
  "two_planes = \<lparr>k_get = (\<lambda>k w. Inl (ApiErr NotFound)), k_list = (\<lambda>ns ls w. Inr [sample_control_plane, second_control_plane]),
     k_create = (\<lambda>x w. (Inr x, w)), k_update = (\<lambda>x w. (Inr x, w)), k_apply = (\<lambda>x w. (Inr x, w)), k_delete = (\<lambda>opts x w. (None, w))\<rparr>"

lemma two_planes_simps [simp]:
  "k_list two_planes ns ls w = Inr [sample_control_plane, second_control_plane]"
  "cp_name sample_control_plane = ''cp''" "cp_name second_control_plane = ''cp2''"
  "cp_namespace sample_control_plane = ''openstack''" "cp_namespace second_control_plane = ''openstack''"
  "m_uid (cp_meta sample_control_plane) = ''u1''" "m_uid (cp_meta second_control_plane) = ''u2''"
  by (simp_all add: two_planes_def second_control_plane_def sample_control_plane_def)

lemma one_active_control_plane_witness:
  "\<exists>!cp. cp \<in> {sample_control_plane, second_control_plane} \<and> duplicateControlPlaneIncumbent two_planes cp () = Inr []"
proof -
  have "inj_on (\<lambda>cp. m_uid (cp_meta cp)) (set [sample_control_plane, second_control_plane])"
      "inj_on (\<lambda>cp. cp_name cp) (set [sample_control_plane, second_control_plane])"
    by (auto simp: inj_on_def)
  then show ?thesis
    using one_active_control_plane [of two_planes "''openstack''" "()" "[sample_control_plane, second_control_plane]"] by simp
qed

lemma parked_touches_only_its_status_witness:
  "\<forall>(X :: ('u, 'm, unit) controller_env) N K. cp_reconcile_found (X\<lparr>cx_client := two_planes, cx_namespaces := N, cx_korc := K\<rparr>) (second_control_plane, ()) =
     cp_reconcile_found (X\<lparr>cx_client := two_planes\<rparr>) (second_control_plane, ())"
proof (intro allI)
  fix X :: "('u, 'm, unit) controller_env" and N K
  have "duplicateControlPlaneIncumbent two_planes second_control_plane () = Inr ''cp''"
    by (simp add: duplicateControlPlaneIncumbent_def older_def Let_def) (simp add: second_control_plane_def sample_control_plane_def blank_meta_def)
  then show "cp_reconcile_found (X\<lparr>cx_client := two_planes, cx_namespaces := N, cx_korc := K\<rparr>) (second_control_plane, ()) =
     cp_reconcile_found (X\<lparr>cx_client := two_planes\<rparr>) (second_control_plane, ())"
    by (intro parked_touches_only_its_status [of second_control_plane _ "()" "''cp''"]) (simp_all add: second_control_plane_def)
qed

end
