(* ===== verification/ControlPlaneAdmission.thy ===== *)
theory ControlPlaneAdmission
  imports ControlPlaneKorc Validation Policy Release
begin

text \<open>
  The admission webhook of the ControlPlane, \<open>operators/c5c3/api/v1alpha1/controlplane_webhook.go\<close>: defaulting, what a
  spec must satisfy, what an update may not change, and the checks against the control planes that exist.  The offending
  value of an invalid field is left out of its error.  \<open>parse_url\<close> is \<open>url.Parse\<close>.
\<close>

section \<open>Constants\<close>

definition DefaultRegion :: string where "DefaultRegion = ''RegionOne''"
definition DefaultCloudCredentialsSecretName :: string where "DefaultCloudCredentialsSecretName = ''k-orc-clouds-yaml''"
definition DefaultDatabaseName :: string where "DefaultDatabaseName = ''keystone''"
definition DefaultDatabaseSecretName :: string where "DefaultDatabaseSecretName = ''keystone-db''"
definition DefaultDatabaseClusterRefName :: string where "DefaultDatabaseClusterRefName = ''openstack-db''"
definition DefaultCacheClusterRefName :: string where "DefaultCacheClusterRefName = ''openstack-memcached''"
definition DedicatedKeystoneDatabaseClusterRefSuffix :: string where "DedicatedKeystoneDatabaseClusterRefSuffix = ''-keystone-db''"
definition DedicatedKeystoneCacheClusterRefSuffix :: string where "DedicatedKeystoneCacheClusterRefSuffix = ''-keystone-cache''"
definition DedicatedHorizonCacheClusterRefSuffix :: string where "DedicatedHorizonCacheClusterRefSuffix = ''-horizon-cache''"
definition DefaultAdminPasswordSecretName :: string where "DefaultAdminPasswordSecretName = ''keystone-admin''"
definition DefaultAdminPasswordSecretKey :: string where "DefaultAdminPasswordSecretKey = ''password''"
definition DefaultCloudName :: string where "DefaultCloudName = ''admin''"
definition DefaultAdminUserName :: string where "DefaultAdminUserName = ''admin''"
definition DefaultAdminProjectName :: string where "DefaultAdminProjectName = ''admin''"
definition DefaultAdminDomainName :: string where "DefaultAdminDomainName = ''Default''"
definition maxExternalAuthURLBytes :: nat where "maxExternalAuthURLBytes = 2048"
definition maxCatalogEndpointURLBytes :: nat where "maxCatalogEndpointURLBytes = 1024"
definition maxGatewayHostnameLen :: nat where "maxGatewayHostnameLen = 253"
definition maxManagedCatalogEntries :: nat where "maxManagedCatalogEntries = 32"
definition maxObjectNameBytes :: nat where "maxObjectNameBytes = 253"
definition catalogEntryChildNameOverhead :: nat where
  "catalogEntryChildNameOverhead = length ''-catalog-'' + length ''-internal''"
definition identityImportChildNameOverhead :: nat where
  "identityImportChildNameOverhead = length ''-identity-endpoint'' + length ''-internal''"
definition maxServiceAccounts :: nat where "maxServiceAccounts = 32"
definition serviceAccountChildNameOverhead :: nat where
  "serviceAccountChildNameOverhead = length ''-service-account-'' + length ''-password-v'' + 10"
definition serviceAccountRoleChildNameOverhead :: nat where
  "serviceAccountRoleChildNameOverhead = length ''-service-account-'' + length ''-assign-'' + 25"

section \<open>Patterns\<close>

text \<open>The pattern \<open>^\d{4}\.[12]$\<close>.\<close>

definition controlPlaneReleaseRegexp :: "string \<Rightarrow> bool" where
  "controlPlaneReleaseRegexp s \<longleftrightarrow>
     length s = 6 \<and> list_all is_digit (take 4 s) \<and> s ! 4 = CHR ''.'' \<and> (s ! 5 = CHR ''1'' \<or> s ! 5 = CHR ''2'')"

text \<open>
  The pattern \<open>^[a-z0-9]([-a-z0-9]*[a-z0-9])?$\<close>, which the code compiles three times.
\<close>

definition label_char :: "char \<Rightarrow> bool" where
  "label_char c \<longleftrightarrow> slug_char c"

definition dns_label :: "string \<Rightarrow> bool" where
  "dns_label s \<longleftrightarrow>
     s \<noteq> [] \<and> label_char (hd s) \<and> label_char (last s) \<and> list_all (\<lambda>c. label_char c \<or> c = CHR ''-'') s"

definition catalogEntryTypePattern :: "string \<Rightarrow> bool" where "catalogEntryTypePattern = dns_label"
definition serviceAccountNamePattern :: "string \<Rightarrow> bool" where "serviceAccountNamePattern = dns_label"
definition namespaceNamePattern :: "string \<Rightarrow> bool" where "namespaceNamePattern = dns_label"

section \<open>URLs\<close>

record web_url =
  wu_scheme :: string
  wu_host :: string
  wu_hostname :: string
  wu_port :: string
  wu_path :: string
  wu_query :: string
  wu_fragment :: string

type_synonym parse_url = "string \<Rightarrow> web_url result"

definition validateHTTPURL :: "parse_url \<Rightarrow> path \<Rightarrow> string \<Rightarrow> field_error + web_url" where
  "validateHTTPURL parse p raw =
     (case parse raw of
        Inl e \<Rightarrow> Inl (FInvalid p (Msg ''must be a valid http(s) URL'' []))
      | Inr u \<Rightarrow>
          if wu_scheme u \<noteq> ''http'' \<and> wu_scheme u \<noteq> ''https''
          then Inl (FInvalid p (Msg ''must be an http(s) URL (scheme http or https)'' []))
          else if wu_host u = [] then Inl (FInvalid p (Msg ''must include a host'' []))
          else Inr u)"

definition cp_path :: "string list \<Rightarrow> path" where
  "cp_path fs = PChild ''spec'' # map PChild fs"

text \<open>The errors of a bounded URL field.\<close>

definition bounded_url_errors :: "parse_url \<Rightarrow> path \<Rightarrow> nat \<Rightarrow> string \<Rightarrow> field_error list" where
  "bounded_url_errors parse p limit raw =
     (case validateHTTPURL parse p raw of
        Inl e \<Rightarrow> [e]
      | Inr _ \<Rightarrow> fail_if (length raw > limit) (FInvalid p (Msg ''must be at most %d bytes'' [Num (int limit)])))"

definition validateHorizonPublicEndpoint :: "parse_url \<Rightarrow> ServiceHorizonSpec option \<Rightarrow> field_error list" where
  "validateHorizonPublicEndpoint parse hz =
     (case hz of
        None \<Rightarrow> []
      | Some h \<Rightarrow>
          if hz_public_endpoint h = [] then []
          else let p = cp_path [''services'', ''horizon'', ''publicEndpoint''] in
            case validateHTTPURL parse p (hz_public_endpoint h) of
              Inl e \<Rightarrow> [e]
            | Inr u \<Rightarrow>
                fail_if ((wu_path u \<noteq> [] \<and> wu_path u \<noteq> ''/'') \<or> wu_query u \<noteq> [] \<or> wu_fragment u \<noteq> [])
                  (FInvalid p (Msg ''must be a bare origin (scheme://host[:port]) with no path, query, or fragment: the WebSSO origin is derived as publicEndpoint+\"/auth/websso/\" and Keystone compares it verbatim'' [])) @
                (case hz_gateway h of
                   None \<Rightarrow> []
                 | Some g \<Rightarrow>
                     if gw_hostname g = [] then []
                     else
                       fail_if (wu_scheme u \<noteq> ''https'')
                         (FInvalid p (Msg ''scheme must be https when services.horizon.gateway is configured (the Gateway listener terminates TLS): Keystone POSTs the unscoped WebSSO token to this origin, so http would deliver a bearer token in cleartext'' [])) @
                       fail_if (wu_hostname u \<noteq> gw_hostname g)
                         (FInvalid p (Msg ''host %q must equal services.horizon.gateway.hostname %q: the dashboard derives the WebSSO origin it sends from the request Host header, and Keystone compares it verbatim''
                            [Str (wu_hostname u), Str (gw_hostname g)]))))"

definition warnInsecureHorizonPublicEndpoint :: "parse_url \<Rightarrow> ControlPlane \<Rightarrow> msg list" where
  "warnInsecureHorizonPublicEndpoint parse cp =
     (case cp_horizon cp of
        None \<Rightarrow> []
      | Some hz \<Rightarrow>
          if hz_public_endpoint hz = [] then []
          else case parse (hz_public_endpoint hz) of
            Inl e \<Rightarrow> []
          | Inr u \<Rightarrow>
              if wu_scheme u \<noteq> ''http'' then []
              else [Msg ''spec.services.horizon.publicEndpoint %q uses http://: the WebSSO origin derived from it is projected onto the Keystone child's trusted_dashboard, and Keystone POSTs the unscoped WebSSO token to that origin, so every federated login would deliver a bearer token in cleartext. Use https://.''
                      [Str (hz_public_endpoint hz)]])"

definition validateGatewayHostname :: "parse_url \<Rightarrow> path \<Rightarrow> string \<Rightarrow> field_error list" where
  "validateGatewayHostname parse p hostname =
     (let bare = FInvalid p (Msg ''must be a bare DNS hostname'' []) in
      case parse (''https://'' @ hostname) of
        Inl e \<Rightarrow> [bare]
      | Inr u \<Rightarrow>
          if wu_host u \<noteq> hostname then [bare]
          else if CHR ''*'' \<in> set hostname
          then [FInvalid p (Msg ''must not be a wildcard hostname: the derived WebSSO origin is compared verbatim and would match no dashboard'' [])]
          else if wu_port u \<noteq> []
          then [FInvalid p (Msg ''must not include a port: set services.horizon.publicEndpoint to publish the dashboard on a non-default port'' [])]
          else fail_if (length hostname > maxGatewayHostnameLen)
                 (FInvalid p (Msg ''must be at most %d characters (the maximum DNS name length)'' [Num (int maxGatewayHostnameLen)])))"

definition externalAuthURLIsPlaintext :: "parse_url \<Rightarrow> string \<Rightarrow> bool" where
  "externalAuthURLIsPlaintext parse raw = (case parse raw of Inl e \<Rightarrow> False | Inr u \<Rightarrow> wu_scheme u = ''http'')"

section \<open>The catalog of an external Keystone\<close>

definition no_comma :: "path \<Rightarrow> string \<Rightarrow> string \<Rightarrow> field_error list" where
  "no_comma p s kind =
     fail_if (CHR '','' \<in> set s) (FInvalid p (Msg (''must not contain a comma (mirrors K-ORC's '' @ kind @ '' pattern ^[^,]+$)'') []))"

definition catalog_interfaces :: "string list" where
  "catalog_interfaces = [ExternalEndpointTypePublic, ExternalEndpointTypeInternal, ExternalEndpointTypeAdmin]"

fun catalog_endpoint_errors ::
  "parse_url \<Rightarrow> path \<Rightarrow> nat \<Rightarrow> string list \<Rightarrow> ExternalCatalogEndpointSpec list \<Rightarrow> field_error list" where
  "catalog_endpoint_errors parse p j seen [] = []"
| "catalog_endpoint_errors parse p j seen (ep # eps) =
     (let q = path_index p j; iface = xe_interface ep in
      (if iface \<in> set catalog_interfaces then []
       else if iface = [] then [FRequired (path_child q ''interface'') (Msg ''must be set'' [])]
       else [FNotSupported (path_child q ''interface'') iface catalog_interfaces]) @
      fail_if (iface \<in> set seen) (FDuplicate (path_child q ''interface'') iface) @
      bounded_url_errors parse (path_child q ''url'') maxCatalogEndpointURLBytes (xe_url ep) @
      catalog_endpoint_errors parse p (Suc j) (iface # seen) eps)"

definition catalog_type_errors :: "path \<Rightarrow> string \<Rightarrow> string list \<Rightarrow> string \<Rightarrow> field_error list" where
  "catalog_type_errors p name seen ty =
     (if ty = [] then [FRequired p (Msg ''must be set'' [])]
      else if ty = IdentityCatalogServiceType
      then [FForbidden p (Msg ''the identity catalog entry is owned by the External-mode imports and must not be declared as a managed entry'' [])]
      else fail_if (\<not> catalogEntryTypePattern ty)
             (FInvalid p (Msg ''must be a lowercase alphanumeric DNS-1123 label (it names the child K-ORC CRs)'' []))) @
     fail_if (ty \<in> set seen) (FDuplicate p ty) @
     (let n = length name + catalogEntryChildNameOverhead + length ty in
      fail_if (ty \<noteq> [] \<and> n > maxObjectNameBytes)
        (FInvalid p (Msg ''the child K-ORC CR name would be %d bytes; shorten the ControlPlane name or the entry type so the total stays within the %d-byte Kubernetes object-name limit''
           [Num (int n), Num (int maxObjectNameBytes)])))"

fun catalog_entry_errors ::
  "parse_url \<Rightarrow> path \<Rightarrow> string \<Rightarrow> nat \<Rightarrow> string list \<Rightarrow> ExternalCatalogEntrySpec list \<Rightarrow> field_error list" where
  "catalog_entry_errors parse p name i seen [] = []"
| "catalog_entry_errors parse p name i seen (x # xs) =
     (let q = path_index p i in
      catalog_type_errors (path_child q ''type'') name seen (xs_type x) @
      no_comma (path_child q ''name'') (xs_name x) ''OpenStackName'' @
      catalog_endpoint_errors parse (path_child q ''endpoints'') 0 [] (xs_endpoints x) @
      catalog_entry_errors parse p name (Suc i) (xs_type x # seen) xs)"

definition validateExternalCatalog :: "parse_url \<Rightarrow> path \<Rightarrow> string \<Rightarrow> ExternalCatalogSpec \<Rightarrow> field_error list" where
  "validateExternalCatalog parse p name c =
     no_comma (path_child p ''identityServiceName'') (xc_identity_name c) ''OpenStackName'' @
     fail_if (length (xc_entries c) > maxManagedCatalogEntries)
       (FTooMany (path_child p ''managedEntries'') (length (xc_entries c)) maxManagedCatalogEntries) @
     catalog_entry_errors parse (path_child p ''managedEntries'') name 0 [] (xc_entries c)"

section \<open>Service accounts\<close>

definition effectiveServiceAccountUserName :: "ServiceAccountSpec \<Rightarrow> string" where
  "effectiveServiceAccountUserName sa = or_default (sa_user sa) (sa_name sa)"

definition effectiveAdminUserName :: "ControlPlane \<Rightarrow> string" where
  "effectiveAdminUserName cp = or_default (ac_user (cp_admin cp)) DefaultAdminUserName"

definition effectiveAdminDomain :: "ControlPlane \<Rightarrow> string" where
  "effectiveAdminDomain cp = or_default (ac_domain (cp_admin cp)) DefaultAdminDomainName"

definition effectiveServiceAccountDomain :: "ControlPlane \<Rightarrow> ServiceAccountSpec \<Rightarrow> string" where
  "effectiveServiceAccountDomain cp sa = or_default (sa_domain sa) (effectiveAdminDomain cp)"

text \<open>The keys of the code's sets: two names with a zero byte between them.\<close>

definition identity_key :: "string \<Rightarrow> string \<Rightarrow> string" where
  "identity_key a b = a @ [CHR 0x00] @ b"

definition account_name_errors :: "ControlPlane \<Rightarrow> path \<Rightarrow> string list \<Rightarrow> ServiceAccountSpec \<Rightarrow> field_error list" where
  "account_name_errors cp p seen sa =
     (let name = sa_name sa;
          overhead = (if sa_roles sa \<noteq> [] then serviceAccountRoleChildNameOverhead else serviceAccountChildNameOverhead);
          n = length (cp_name cp) + overhead + length name
      in (if name = [] then [FRequired p (Msg ''must be set'' [])]
          else fail_if (\<not> serviceAccountNamePattern name)
                 (FInvalid p (Msg ''must be a lowercase alphanumeric DNS-1123 label (it names the child K-ORC CRs and Secrets)'' []))) @
         fail_if (name \<in> set seen) (FDuplicate p name) @
         fail_if (name \<noteq> [] \<and> n > maxObjectNameBytes)
           (FInvalid p (Msg ''the child K-ORC CR name would be %d bytes; shorten the ControlPlane name or the account name (or drop the account's roles) so the total stays within the %d-byte Kubernetes object-name limit''
              [Num (int n), Num (int maxObjectNameBytes)])))"

fun role_errors :: "path \<Rightarrow> nat \<Rightarrow> string list \<Rightarrow> field_error list" where
  "role_errors p j [] = []"
| "role_errors p j (role # roles) = no_comma (path_index p j) role ''OpenStackName'' @ role_errors p (Suc j) roles"

definition target_errors :: "ControlPlane \<Rightarrow> path \<Rightarrow> string \<Rightarrow> field_error list" where
  "target_errors cp p target =
     (if target = [] then []
      else if \<not> namespaceNamePattern target
      then [FInvalid p (Msg ''must be a lowercase alphanumeric RFC-1123 label (it names a Kubernetes namespace)'' [])]
      else fail_if (target \<noteq> cp_namespace cp \<and> target \<notin> sns_name ` set (DedicatedServiceNamespaces cp))
             (FInvalid p (Msg ''must be the ControlPlane's own namespace or one of its dedicated service namespaces; assign the namespace to a service via spec.services.<svc>.namespace first'' [])))"

definition account_project_errors :: "path \<Rightarrow> ServiceAccountSpec \<Rightarrow> field_error list" where
  "account_project_errors p sa =
     (let name = sp_name (sa_project sa) in
      if name = [] then [FRequired (path_child p ''name'') (Msg ''must be set'' [])]
      else no_comma (path_child p ''name'') name ''KeystoneName'')"

definition admin_identity_errors :: "ControlPlane \<Rightarrow> path \<Rightarrow> string \<Rightarrow> string \<Rightarrow> field_error list" where
  "admin_identity_errors cp p user domain =
     fail_if (user = effectiveAdminUserName cp \<and> domain = effectiveAdminDomain cp)
       (FInvalid p (Msg ''the effective service-account identity (user %q in domain %q) equals the admin identity (spec.korc.adminCredential.userName / domainName); a managed User would take over the admin user and rotate its password''
          [Str user, Str domain]))"

text \<open>The loop over the accounts with its three sets: names, identities and managed projects.\<close>

fun account_errors ::
  "ControlPlane \<Rightarrow> nat \<Rightarrow> string list \<Rightarrow> string list \<Rightarrow> string list \<Rightarrow> ServiceAccountSpec list \<Rightarrow> field_error list" where
  "account_errors cp i names identities projects [] = []"
| "account_errors cp i names identities projects (sa # sas) =
     (let p = path_index (cp_path [''korc'', ''serviceAccounts'']) i;
          user = effectiveServiceAccountUserName sa; domain = effectiveServiceAccountDomain cp sa;
          identity = identity_key user domain;
          project = sp_name (sa_project sa); key = identity_key project domain;
          managed = (sp_create (sa_project sa) \<and> project \<noteq> [])
      in account_name_errors cp (path_child p ''name'') names sa @
         no_comma (path_child p ''userName'') (sa_user sa) ''OpenStackName'' @
         no_comma (path_child p ''domainName'') (sa_domain sa) ''OpenStackName'' @
         account_project_errors (path_child p ''project'') sa @
         role_errors (path_child p ''roles'') 0 (sa_roles sa) @
         target_errors cp (path_child p ''targetNamespace'') (sa_target sa) @
         fail_if (identity \<in> set identities) (FDuplicate (path_child p ''userName'') user) @
         admin_identity_errors cp (path_child p ''userName'') user domain @
         fail_if (managed \<and> key \<in> set projects) (FDuplicate (path_child (path_child p ''project'') ''name'') project) @
         account_errors cp (Suc i) (sa_name sa # names) (identity # identities)
           (if managed then key # projects else projects) sas)"

definition validateServiceAccounts :: "ControlPlane \<Rightarrow> field_error list" where
  "validateServiceAccounts cp =
     (let sas = cp_accounts cp in
      fail_if (length sas > maxServiceAccounts)
        (FTooMany (cp_path [''korc'', ''serviceAccounts'']) (length sas) maxServiceAccounts) @
      account_errors cp 0 [] [] [] sas)"

section \<open>Defaulting\<close>

definition default_to :: "string \<Rightarrow> string \<Rightarrow> string" where
  "default_to d s = (if s = [] then d else s)"

definition default_cluster_ref :: "string \<Rightarrow> string option \<Rightarrow> string option" where
  "default_cluster_ref d ref = Some (case ref of None \<Rightarrow> d | Some n \<Rightarrow> default_to d n)"

definition defaultDatabaseLeaves :: "string \<Rightarrow> DatabaseSpec \<Rightarrow> DatabaseSpec" where
  "defaultDatabaseLeaves cluster db =
     db\<lparr>db_database := default_to DefaultDatabaseName (db_database db),
        db_secret_ref := (db_secret_ref db)\<lparr>sr_name := default_to DefaultDatabaseSecretName (sr_name (db_secret_ref db))\<rparr>,
        db_cluster_ref := (if db_host db = [] then default_cluster_ref cluster (db_cluster_ref db) else db_cluster_ref db)\<rparr>"

definition defaultCacheLeaves :: "string \<Rightarrow> CacheSpec \<Rightarrow> CacheSpec" where
  "defaultCacheLeaves cluster c =
     c\<lparr>ca_backend := default_to DefaultCacheBackend (ca_backend c),
       ca_cluster_ref := (if ca_servers c = [] then default_cluster_ref cluster (ca_cluster_ref c) else ca_cluster_ref c)\<rparr>"

definition default_namespace :: "ServiceNamespaceSpec \<Rightarrow> ServiceNamespaceSpec" where
  "default_namespace ns = ns\<lparr>sns_lifecycle := default_to ServiceNamespaceLifecycleManaged (sns_lifecycle ns)\<rparr>"

definition default_external :: "ExternalKeystoneSpec \<Rightarrow> ExternalKeystoneSpec" where
  "default_external e =
     e\<lparr>ek_endpoint_type := default_to ExternalEndpointTypePublic (ek_endpoint_type e),
       ek_ca_bundle := map_option (\<lambda>r. r\<lparr>sr_key := default_to DefaultCABundleSecretKey (sr_key r)\<rparr>) (ek_ca_bundle e)\<rparr>"

definition empty_infrastructure :: InfrastructureSpec where
  "empty_infrastructure =
     \<lparr>if_database = \<lparr>db_cluster_ref = None, db_credentials_mode = [], db_host = [], db_port = 0, db_database = [],
        db_secret_ref = \<lparr>sr_name = [], sr_key = []\<rparr>, db_tls = None, db_replicas = 0, db_storage_size = []\<rparr>,
      if_cache = \<lparr>ca_cluster_ref = None, ca_backend = [], ca_servers = [], ca_replicas = 0\<rparr>\<rparr>"

definition default_infrastructure :: "InfrastructureSpec option \<Rightarrow> InfrastructureSpec" where
  "default_infrastructure i =
     (let infra = (case i of None \<Rightarrow> empty_infrastructure | Some x \<Rightarrow> x)
      in infra\<lparr>if_database := defaultDatabaseLeaves DefaultDatabaseClusterRefName (if_database infra),
               if_cache := defaultCacheLeaves DefaultCacheClusterRefName (if_cache infra)\<rparr>)"

definition default_dedicated_database :: "string \<Rightarrow> DatabaseSpec \<Rightarrow> DatabaseSpec" where
  "default_dedicated_database name db =
     (let d = defaultDatabaseLeaves (name @ DedicatedKeystoneDatabaseClusterRefSuffix) db
      in if db_cluster_ref d \<noteq> None \<and> db_credentials_mode d = [] then d\<lparr>db_credentials_mode := CredentialsModeStatic\<rparr> else d)"

definition default_keystone_dedicated ::
  "string \<Rightarrow> KeystoneDedicatedBackingServicesSpec \<Rightarrow> KeystoneDedicatedBackingServicesSpec" where
  "default_keystone_dedicated name b =
     b\<lparr>kd_database := map_option (default_dedicated_database name) (kd_database b),
       kd_cache := map_option (defaultCacheLeaves (name @ DedicatedKeystoneCacheClusterRefSuffix)) (kd_cache b)\<rparr>"

definition default_horizon_dedicated ::
  "string \<Rightarrow> HorizonDedicatedBackingServicesSpec \<Rightarrow> HorizonDedicatedBackingServicesSpec" where
  "default_horizon_dedicated name b =
     b\<lparr>hd_cache := map_option (defaultCacheLeaves (name @ DedicatedHorizonCacheClusterRefSuffix)) (hd_cache b)\<rparr>"

text \<open>The Keystone service; \<open>external\<close> is its mode after the mode was defaulted.\<close>

definition default_keystone_service :: "string \<Rightarrow> ServiceKeystoneSpec \<Rightarrow> ServiceKeystoneSpec" where
  "default_keystone_service name ks =
     (let k = ks\<lparr>kk_mode := default_to KeystoneModeManaged (kk_mode ks), kk_namespace := map_option default_namespace (kk_namespace ks)\<rparr>
      in if kk_mode k = KeystoneModeExternal then k\<lparr>kk_external := map_option default_external (kk_external k)\<rparr>
         else k\<lparr>kk_dedicated := map_option (default_keystone_dedicated name) (kk_dedicated k)\<rparr>)"

definition default_horizon_service :: "bool \<Rightarrow> string \<Rightarrow> ServiceHorizonSpec \<Rightarrow> ServiceHorizonSpec" where
  "default_horizon_service external name hz =
     hz\<lparr>hz_namespace := map_option default_namespace (hz_namespace hz),
        hz_dedicated := (if external then hz_dedicated hz else map_option (default_horizon_dedicated name) (hz_dedicated hz))\<rparr>"

definition default_admin :: "AdminCredentialSpec \<Rightarrow> AdminCredentialSpec" where
  "default_admin a =
     a\<lparr>ac_cloud := \<lparr>cc_cloud = default_to DefaultCloudName (cc_cloud (ac_cloud a)),
          cc_secret = default_to DefaultCloudCredentialsSecretName (cc_secret (ac_cloud a))\<rparr>,
       ac_password_ref := \<lparr>sr_name = default_to DefaultAdminPasswordSecretName (sr_name (ac_password_ref a)),
          sr_key = default_to DefaultAdminPasswordSecretKey (sr_key (ac_password_ref a))\<rparr>,
       ac_user := default_to DefaultAdminUserName (ac_user a),
       ac_project := default_to DefaultAdminProjectName (ac_project a),
       ac_domain := default_to DefaultAdminDomainName (ac_domain a),
       ac_credential := (ac_credential a)
         \<lparr>apc_restricted := Some (case apc_restricted (ac_credential a) of None \<Rightarrow> True | Some r \<Rightarrow> r),
          apc_mode := default_to RotationModePasswordDriven (apc_mode (ac_credential a))\<rparr>\<rparr>"

text \<open>Horizon's blocks depend on the mode of Keystone, which is fixed before they are defaulted.\<close>

definition cp_Default :: "ControlPlane \<Rightarrow> ControlPlane" where
  "cp_Default cp =
     (let s = cp_spec cp; external = IsExternalKeystone cp; name = cp_name cp in
      cp\<lparr>cp_spec := s
        \<lparr>cs_region := default_to DefaultRegion (cs_region s),
         cs_services := \<lparr>ss_keystone = map_option (default_keystone_service name) (cp_keystone cp),
           ss_horizon = map_option (default_horizon_service external name) (cp_horizon cp)\<rparr>,
         cs_infrastructure := (if external then cs_infrastructure s else Some (default_infrastructure (cs_infrastructure s))),
         cs_korc := \<lparr>kr_admin = default_admin (cp_admin cp),
           kr_accounts = map (\<lambda>sa. sa\<lparr>sa_user := default_to (sa_name sa) (sa_user sa)\<rparr>) (cp_accounts cp)\<rparr>\<rparr>\<rparr>)"

section \<open>Namespaces\<close>

text \<open>The namespace blocks that are set, each with the name of its service.\<close>

definition declaredServiceNamespaces :: "ControlPlane \<Rightarrow> (path \<times> ServiceNamespaceSpec) list" where
  "declaredServiceNamespaces cp =
     (case keystoneNamespaceBlock cp of None \<Rightarrow> [] | Some ns \<Rightarrow> [(cp_path [''services'', ''keystone'', ''namespace''], ns)]) @
     (case horizonNamespaceBlock cp of None \<Rightarrow> [] | Some ns \<Rightarrow> [(cp_path [''services'', ''horizon'', ''namespace''], ns)])"

fun service_namespace_errors :: "string \<Rightarrow> string gomap \<Rightarrow> (path \<times> ServiceNamespaceSpec) list \<Rightarrow> field_error list" where
  "service_namespace_errors home lifecycles [] = []"
| "service_namespace_errors home lifecycles ((p, ns) # as) =
     (let name = sns_name ns; life = sns_lifecycle ns; q = path_child p ''name'' in
      (if name = [] then [FRequired q (Msg ''must be set'' [])]
       else if name = home
       then [FInvalid q (Msg ''must differ from the ControlPlane's own namespace; omit the block entirely to place the service in the ControlPlane's namespace'' [])]
       else fail_if (\<not> namespaceNamePattern name)
              (FInvalid q (Msg ''must be a lowercase alphanumeric RFC-1123 label (it names a Kubernetes namespace)'' []))) @
      fail_if (life \<notin> {ServiceNamespaceLifecycleManaged, ServiceNamespaceLifecycleExternal, []})
        (FNotSupported (path_child p ''lifecycle'') life [ServiceNamespaceLifecycleManaged, ServiceNamespaceLifecycleExternal]) @
      (if name = [] then service_namespace_errors home lifecycles as
       else fail_if (case map_of lifecycles name of None \<Rightarrow> False | Some seen \<Rightarrow> seen \<noteq> life)
              (FInvalid (path_child p ''lifecycle'') (Msg ''services co-located in namespace %q must declare the same lifecycle; they share that namespace's backing services and secret store, so they cannot disagree on whether the operator owns it''
                 [Str name])) @
            service_namespace_errors home (map_put name life lifecycles) as))"

definition validateServiceNamespaces :: "ControlPlane \<Rightarrow> field_error list" where
  "validateServiceNamespaces cp = service_namespace_errors (cp_namespace cp) [] (declaredServiceNamespaces cp)"

section \<open>Backing services\<close>

definition validateDatabaseReplicas :: "path \<Rightarrow> DatabaseSpec \<Rightarrow> field_error list" where
  "validateDatabaseReplicas p db =
     fail_if (db_replicas db = 2)
       (FInvalid (path_child p ''replicas'') (Msg ''database replicas must be 1 (standalone) or >=3 (Galera needs quorum); 2 cannot hold a majority'' []))"

type_synonym dedicated_services = "path \<times> DatabaseSpec option \<times> CacheSpec option"

definition declaredDedicatedBackingServices :: "ControlPlane \<Rightarrow> dedicated_services list" where
  "declaredDedicatedBackingServices cp =
     (case keystoneDedicatedBlock cp of
        None \<Rightarrow> [] | Some b \<Rightarrow> [(cp_path [''services'', ''keystone'', ''dedicatedBackingServices''], kd_database b, kd_cache b)]) @
     (case horizonDedicatedBlock cp of
        None \<Rightarrow> [] | Some b \<Rightarrow> [(cp_path [''services'', ''horizon'', ''dedicatedBackingServices''], None, hd_cache b)])"

definition cluster_names :: "string option \<Rightarrow> string list" where
  "cluster_names ref = (case ref of None \<Rightarrow> [] | Some n \<Rightarrow> [n])"

definition duplicate_cluster :: "path \<Rightarrow> string list \<Rightarrow> string option \<Rightarrow> field_error list" where
  "duplicate_cluster p seen ref =
     (case ref of
        None \<Rightarrow> []
      | Some n \<Rightarrow> fail_if (n \<in> set seen) (FDuplicate (path_child (path_child p ''clusterRef'') ''name'') n))"

definition dedicated_database_errors :: "path \<Rightarrow> string list \<Rightarrow> DatabaseSpec \<Rightarrow> field_error list" where
  "dedicated_database_errors p seen db =
     DatabaseXOR p db @ validateDatabaseReplicas p db @
     fail_if (db_credentials_mode db = CredentialsModeDynamic)
       (FForbidden (path_child p ''credentialsMode'') (Msg ''credentialsMode Dynamic is not supported on a dedicated database: the OpenBao database-engine connection is bootstrapped once per namespace against the shared cluster, so no engine role issues credentials for a dedicated instance; use Static'' [])) @
     duplicate_cluster p seen (db_cluster_ref db)"

fun dedicated_errors :: "string list \<Rightarrow> string list \<Rightarrow> dedicated_services list \<Rightarrow> field_error list" where
  "dedicated_errors dbs caches [] = []"
| "dedicated_errors dbs caches ((p, None, None) # ds) =
     FRequired p (Msg ''at least one backing-service class must be declared; omit the block entirely to share the ControlPlane-wide instances'' []) #
     dedicated_errors dbs caches ds"
| "dedicated_errors dbs caches ((p, db, cache) # ds) =
     (case db of None \<Rightarrow> [] | Some d \<Rightarrow> dedicated_database_errors (path_child p ''database'') dbs d) @
     (case cache of
        None \<Rightarrow> []
      | Some c \<Rightarrow> CacheXOR (path_child p ''cache'') c @ duplicate_cluster (path_child p ''cache'') caches (ca_cluster_ref c)) @
     dedicated_errors
       (case db of None \<Rightarrow> dbs | Some d \<Rightarrow> cluster_names (db_cluster_ref d) @ dbs)
       (case cache of None \<Rightarrow> caches | Some c \<Rightarrow> cluster_names (ca_cluster_ref c) @ caches) ds"

definition validateDedicatedBackingServices :: "ControlPlane \<Rightarrow> field_error list" where
  "validateDedicatedBackingServices cp =
     (let infra = cs_infrastructure (cp_spec cp) in
      dedicated_errors
        (case infra of None \<Rightarrow> [] | Some i \<Rightarrow> cluster_names (db_cluster_ref (if_database i)))
        (case infra of None \<Rightarrow> [] | Some i \<Rightarrow> cluster_names (ca_cluster_ref (if_cache i)))
        (declaredDedicatedBackingServices cp))"

section \<open>The mode of Keystone\<close>

definition image_choice_errors :: "path \<Rightarrow> string \<Rightarrow> ImageSpec option \<Rightarrow> field_error list" where
  "image_choice_errors p text img =
     (case img of
        None \<Rightarrow> []
      | Some i \<Rightarrow> fail_if ((im_tag i \<noteq> []) = (im_digest i \<noteq> [])) (FInvalid p (Msg text [])))"

definition forbidden_workload :: "bool \<Rightarrow> string \<Rightarrow> string \<Rightarrow> field_error list" where
  "forbidden_workload present f why =
     fail_if present (FForbidden (cp_path [''services'', ''keystone'', f])
       (Msg (''forbidden when services.keystone.mode is External ('' @ why @ '')'') []))"

definition external_errors :: "parse_url \<Rightarrow> string \<Rightarrow> ExternalKeystoneSpec option \<Rightarrow> field_error list" where
  "external_errors parse name ext =
     (let p = cp_path [''services'', ''keystone'', ''external'']; q = path_child p ''authURL'' in
      case ext of
        None \<Rightarrow> [FRequired p (Msg ''external is required when services.keystone.mode is External'' [])]
      | Some e \<Rightarrow>
          (if ek_auth_url e = []
           then [FRequired q (Msg ''authURL is required when services.keystone.mode is External'' [])]
           else bounded_url_errors parse q maxExternalAuthURLBytes (ek_auth_url e)) @
          (case ek_ca_bundle e of
             None \<Rightarrow> []
           | Some ref \<Rightarrow>
               fail_if (sr_name ref = [])
                 (FRequired (path_child (path_child p ''caBundleSecretRef'') ''name'') (Msg ''must be set when caBundleSecretRef is configured'' [])) @
               fail_if (externalAuthURLIsPlaintext parse (ek_auth_url e))
                 (FInvalid q (Msg ''must use scheme https when caBundleSecretRef is set: a plaintext endpoint never performs the TLS handshake the CA bundle would verify'' []))) @
          (case ek_catalog e of None \<Rightarrow> [] | Some c \<Rightarrow> validateExternalCatalog parse (path_child p ''catalog'') name c))"

definition external_workload_errors :: "ControlPlane \<Rightarrow> ServiceKeystoneSpec \<Rightarrow> field_error list" where
  "external_workload_errors cp ks =
     (let none = ''no Keystone workload is deployed'' in
      forbidden_workload (kk_replicas ks \<noteq> None) ''replicas'' none @
      forbidden_workload (kk_image ks \<noteq> None) ''image'' none @
      forbidden_workload (kk_policy_overrides ks \<noteq> None) ''policyOverrides'' none @
      forbidden_workload (kk_rotation_interval ks \<noteq> None) ''rotationInterval'' none @
      forbidden_workload (kk_gateway ks \<noteq> None) ''gateway'' none @
      forbidden_workload (kk_public_endpoint ks \<noteq> []) ''publicEndpoint'' ''catalog advertisement is owned by the External Keystone'' @
      forbidden_workload (kk_proxy_image ks \<noteq> None) ''federationProxyImage'' (none @ '', so there is no sidecar to image'') @
      forbidden_workload (kk_dedicated ks \<noteq> None) ''dedicatedBackingServices'' ''no backing services are provisioned at all'' @
      forbidden_workload (kk_namespace ks \<noteq> None) ''namespace'' (none @ '', so there is nothing to place'') @
      fail_if (cs_infrastructure (cp_spec cp) \<noteq> None)
        (FForbidden (cp_path [''infrastructure'']) (Msg ''forbidden when services.keystone.mode is External (phase 2 will relax this to optional)'' [])) @
      fail_if (cp_horizon cp \<noteq> None)
        (FForbidden (cp_path [''services'', ''horizon'']) (Msg ''forbidden when services.keystone.mode is External (Horizon needs its own External-mode design)'' [])))"

definition managed_mode_errors :: "ControlPlane \<Rightarrow> field_error list" where
  "managed_mode_errors cp =
     (case cp_keystone cp of
        None \<Rightarrow> []
      | Some ks \<Rightarrow>
          fail_if (kk_external ks \<noteq> None)
            (FForbidden (cp_path [''services'', ''keystone'', ''external'']) (Msg ''may only be set when services.keystone.mode is External'' []))) @
     fail_if (cs_infrastructure (cp_spec cp) = None)
       (FRequired (cp_path [''infrastructure'']) (Msg ''is required unless services.keystone.mode is External'' [])) @
     (case cp_keystone cp of
        None \<Rightarrow> []
      | Some ks \<Rightarrow>
          (let p = cp_path [''services'', ''keystone'', ''federationProxyImage''] in
           case kk_proxy_image ks of
             None \<Rightarrow> []
           | Some i \<Rightarrow>
               fail_if (im_repository i = []) (FRequired (path_child p ''repository'') (Msg ''federationProxyImage.repository must be set'' [])) @
               image_choice_errors p ''exactly one of federationProxyImage.tag or federationProxyImage.digest must be set'' (Some i)))"

definition validateKeystoneMode :: "parse_url \<Rightarrow> ControlPlane \<Rightarrow> field_error list" where
  "validateKeystoneMode parse cp =
     (if IsExternalKeystone cp
      then (case cp_keystone cp of
              None \<Rightarrow> []
            | Some ks \<Rightarrow>
                (let n = length (cp_name cp) + identityImportChildNameOverhead in
                 fail_if (n > maxObjectNameBytes)
                   (FInvalid [PChild ''metadata'', PChild ''name''] (Msg ''the identity Endpoint import CR name would be %d bytes; shorten the ControlPlane name so it stays within the %d-byte Kubernetes object-name limit''
                      [Num (int n), Num (int maxObjectNameBytes)])) @
                 external_errors parse (cp_name cp) (kk_external ks) @ external_workload_errors cp ks))
      else managed_mode_errors cp)"

section \<open>Validation of a spec\<close>

definition gateway_errors :: "parse_url \<Rightarrow> string \<Rightarrow> GatewaySpec option \<Rightarrow> field_error list" where
  "gateway_errors parse service g =
     (let p = cp_path [''services'', service, ''gateway'', ''hostname''] in
      case g of
        None \<Rightarrow> []
      | Some gw \<Rightarrow>
          if gw_hostname gw = [] then [FRequired p (Msg ''must be set when a gateway is configured'' [])]
          else validateGatewayHostname parse p (gw_hostname gw))"

definition whole_days :: "duration \<Rightarrow> bool" where
  "whole_days d \<longleftrightarrow> d > 0 \<and> d mod hours 24 = 0"

definition release_errors :: "ControlPlane \<Rightarrow> field_error list" where
  "release_errors cp =
     fail_if (\<not> controlPlaneReleaseRegexp (cs_release (cp_spec cp)))
       (FInvalid (cp_path [''openStackRelease'']) (Msg (''must match the OpenStack release pattern ^'' @ [CHR 0x5C] @ ''d{4}'' @ [CHR 0x5C] @ ''.[12]$ (e.g. 2025.2)'') []))"

definition infrastructure_errors :: "ControlPlane \<Rightarrow> field_error list" where
  "infrastructure_errors cp =
     (case cs_infrastructure (cp_spec cp) of
        None \<Rightarrow> []
      | Some i \<Rightarrow>
          (let p = cp_path [''infrastructure'', ''database'']; db = if_database i in
           DatabaseXOR p db @ DynamicCredentialsRequireClusterRef p db @ validateDatabaseReplicas p db @
           CacheXOR (cp_path [''infrastructure'', ''cache'']) (if_cache i)))"

definition password_ref_errors :: "ControlPlane \<Rightarrow> field_error list" where
  "password_ref_errors cp =
     fail_if (sr_name (ac_password_ref (cp_admin cp)) = [])
       (FRequired (cp_path [''korc'', ''adminCredential'', ''passwordSecretRef'', ''name'']) (Msg ''passwordSecretRef.name must be set'' []))"

definition keystone_service_errors :: "parse_url \<Rightarrow> ControlPlane \<Rightarrow> field_error list" where
  "keystone_service_errors parse cp =
     (case cp_keystone cp of
        None \<Rightarrow> []
      | Some ks \<Rightarrow>
          (case kk_rotation_interval ks of
             None \<Rightarrow> []
           | Some d \<Rightarrow>
               fail_if (\<not> whole_days d)
                 (FInvalid (cp_path [''services'', ''keystone'', ''rotationInterval''])
                    (Msg ''must be a positive whole number of days (e.g. 24h, 168h); only daily and weekly Fernet rotation schedules are supported'' []))) @
          gateway_errors parse ''keystone'' (kk_gateway ks) @
          image_choice_errors (cp_path [''services'', ''keystone'', ''image'']) ''exactly one of image.tag or image.digest must be set'' (kk_image ks))"

definition horizon_service_errors :: "parse_url \<Rightarrow> ControlPlane \<Rightarrow> field_error list" where
  "horizon_service_errors parse cp =
     (case cp_horizon cp of
        None \<Rightarrow> []
      | Some hz \<Rightarrow>
          gateway_errors parse ''horizon'' (hz_gateway hz) @
          validateHorizonPublicEndpoint parse (Some hz) @
          image_choice_errors (cp_path [''services'', ''horizon'', ''image'']) ''exactly one of image.tag or image.digest must be set'' (hz_image hz) @
          (case hz_secret_key_ref hz of
             None \<Rightarrow> []
           | Some ref \<Rightarrow>
               fail_if (sr_name ref = [])
                 (FRequired (cp_path [''services'', ''horizon'', ''secretKeyRef'', ''name'']) (Msg ''must be set when secretKeyRef is configured'' []))))"

definition policy_rule_errors :: "path \<Rightarrow> PolicySpec option \<Rightarrow> field_error list" where
  "policy_rule_errors p policy =
     (case policy of
        None \<Rightarrow> []
      | Some x \<Rightarrow> ValidatePolicyRules (case pol_rules x of None \<Rightarrow> [] | Some r \<Rightarrow> r) (Some p))"

definition cp_policy_errors :: "ControlPlane \<Rightarrow> field_error list" where
  "cp_policy_errors cp =
     policy_rule_errors (cp_path [''globalPolicyOverrides'', ''rules'']) (cs_policy (cp_spec cp)) @
     policy_rule_errors (cp_path [''services'', ''keystone'', ''policyOverrides'', ''rules''])
       (Option.bind (cp_keystone cp) kk_policy_overrides)"

definition cp_validate :: "parse_url \<Rightarrow> ControlPlane \<Rightarrow> field_error list" where
  "cp_validate parse cp =
     release_errors cp @ SecretStoreRef (cp_path [''secretStoreRef'']) (cs_store_ref (cp_spec cp)) @
     infrastructure_errors cp @ password_ref_errors cp @ keystone_service_errors parse cp @ horizon_service_errors parse cp @
     cp_policy_errors cp @ validateKeystoneMode parse cp @ validateServiceAccounts cp @ validateDedicatedBackingServices cp @
     validateServiceNamespaces cp"

section \<open>What an update may not change\<close>

definition effectiveStorageSize :: "string \<Rightarrow> string" where
  "effectiveStorageSize s = (if s = [] then DatabaseStorageSizeDefault else s)"

definition cluster_ref_changed :: "path \<Rightarrow> string \<Rightarrow> string \<Rightarrow> string option \<Rightarrow> string option \<Rightarrow> field_error list" where
  "cluster_ref_changed p mode_text name_text old new =
     (case (old, new) of
        (None, None) \<Rightarrow> []
      | (Some a, Some b) \<Rightarrow> fail_if (a \<noteq> b) (FInvalid (path_child (path_child p ''clusterRef'') ''name'') (Msg name_text []))
      | _ \<Rightarrow> [FInvalid p (Msg mode_text [])])"

definition validateDatabaseImmutable :: "path \<Rightarrow> DatabaseSpec \<Rightarrow> DatabaseSpec \<Rightarrow> field_error list" where
  "validateDatabaseImmutable p old new =
     cluster_ref_changed p ''database mode (managed clusterRef vs brownfield host) is immutable''
       ''managed database clusterRef.name is immutable'' (db_cluster_ref old) (db_cluster_ref new) @
     fail_if (db_database old \<noteq> db_database new) (FInvalid (path_child p ''database'') (Msg ''database name is immutable'' [])) @
     fail_if (db_replicas old \<noteq> db_replicas new)
       (FInvalid (path_child p ''replicas'') (Msg ''database replicas is immutable after creation (toggling Galera or scaling down a live cluster is destructive)'' [])) @
     fail_if (effectiveStorageSize (db_storage_size old) \<noteq> effectiveStorageSize (db_storage_size new))
       (FInvalid (path_child p ''storageSize'') (Msg ''database storageSize is immutable after creation (the mariadb-operator rejects resizing a live volume)'' []))"

definition validateCacheImmutable :: "path \<Rightarrow> CacheSpec \<Rightarrow> CacheSpec \<Rightarrow> field_error list" where
  "validateCacheImmutable p old new =
     cluster_ref_changed p ''cache mode (managed clusterRef vs brownfield servers) is immutable''
       ''managed cache clusterRef.name is immutable'' (ca_cluster_ref old) (ca_cluster_ref new)"

definition dedicatedTransitionMessage :: string where
  "dedicatedTransitionMessage = ''switching a service between shared and dedicated backing services on a live ControlPlane is not yet supported; remove and recreate the ControlPlane to change it''"

definition frozen_block :: "path \<Rightarrow> string \<Rightarrow> (path \<Rightarrow> 'a \<Rightarrow> 'a \<Rightarrow> field_error list) \<Rightarrow> 'a option \<Rightarrow> 'a option \<Rightarrow> field_error list" where
  "frozen_block p text check old new =
     (case (old, new) of
        (None, None) \<Rightarrow> []
      | (Some a, Some b) \<Rightarrow> check p a b
      | _ \<Rightarrow> [FInvalid p (Msg text [])])"

definition validateDedicatedDatabase :: "path \<Rightarrow> DatabaseSpec option \<Rightarrow> DatabaseSpec option \<Rightarrow> field_error list" where
  "validateDedicatedDatabase p old new = frozen_block p dedicatedTransitionMessage validateDatabaseImmutable old new"

definition validateDedicatedCache :: "path \<Rightarrow> CacheSpec option \<Rightarrow> CacheSpec option \<Rightarrow> field_error list" where
  "validateDedicatedCache p old new = frozen_block p dedicatedTransitionMessage validateCacheImmutable old new"

definition validateDedicatedBackingServicesImmutable :: "ControlPlane \<Rightarrow> ControlPlane \<Rightarrow> field_error list" where
  "validateDedicatedBackingServicesImmutable old new =
     frozen_block (cp_path [''services'', ''keystone'', ''dedicatedBackingServices'']) dedicatedTransitionMessage
       (\<lambda>p a b. validateDedicatedDatabase (path_child p ''database'') (kd_database a) (kd_database b) @
                validateDedicatedCache (path_child p ''cache'') (kd_cache a) (kd_cache b))
       (keystoneDedicatedBlock old) (keystoneDedicatedBlock new) @
     frozen_block (cp_path [''services'', ''horizon'', ''dedicatedBackingServices'']) dedicatedTransitionMessage
       (\<lambda>p a b. validateDedicatedCache (path_child p ''cache'') (hd_cache a) (hd_cache b))
       (horizonDedicatedBlock old) (horizonDedicatedBlock new)"

definition serviceNamespaceTransitionMessage :: string where
  "serviceNamespaceTransitionMessage = ''the namespace a service is placed in is immutable; moving a live service across namespaces would leave its backing services, its secret store, and the credential material scoped to the old namespace behind with no migration path '' @ em_dash @ '' remove and recreate the ControlPlane to change it''"

definition frozen_namespace :: "path \<Rightarrow> ServiceNamespaceSpec option \<Rightarrow> ServiceNamespaceSpec option \<Rightarrow> field_error list" where
  "frozen_namespace p old new =
     frozen_block p serviceNamespaceTransitionMessage
       (\<lambda>p a b. fail_if (sns_name a \<noteq> sns_name b) (FInvalid (path_child p ''name'') (Msg serviceNamespaceTransitionMessage [])) @
                fail_if (sns_lifecycle a \<noteq> sns_lifecycle b)
                  (FInvalid (path_child p ''lifecycle'') (Msg serviceNamespaceTransitionMessage [])))
       old new"

definition validateServiceNamespacesImmutable :: "ControlPlane \<Rightarrow> ControlPlane \<Rightarrow> field_error list" where
  "validateServiceNamespacesImmutable old new =
     frozen_namespace (cp_path [''services'', ''keystone'', ''namespace'']) (keystoneNamespaceBlock old) (keystoneNamespaceBlock new) @
     frozen_namespace (cp_path [''services'', ''horizon'', ''namespace'']) (horizonNamespaceBlock old) (horizonNamespaceBlock new)"

text \<open>Of several old accounts of one name the map holds the last.\<close>

definition old_account :: "ServiceAccountSpec list \<Rightarrow> string \<Rightarrow> ServiceAccountSpec option" where
  "old_account olds name = find (\<lambda>sa. sa_name sa = name) (rev olds)"

definition account_changed :: "path \<Rightarrow> ServiceAccountSpec \<Rightarrow> ServiceAccountSpec \<Rightarrow> field_error list" where
  "account_changed p old sa =
     fail_if (sa_user old \<noteq> sa_user sa)
       (FInvalid (path_child p ''userName'') (Msg ''userName is immutable; remove and re-add the service account under a new name to rename its user'' [])) @
     fail_if (sa_domain old \<noteq> sa_domain sa)
       (FInvalid (path_child p ''domainName'') (Msg ''domainName is immutable; remove and re-add the service account to move it to another domain'' [])) @
     fail_if (sp_name (sa_project old) \<noteq> sp_name (sa_project sa))
       (FInvalid (path_child (path_child p ''project'') ''name'') (Msg ''project.name is immutable; remove and re-add the service account to re-point its project'' [])) @
     fail_if (sp_create (sa_project old) \<noteq> sp_create (sa_project sa))
       (FInvalid (path_child (path_child p ''project'') ''create'') (Msg ''project.create is immutable; a managed<->referenced flip would orphan or adopt the live project'' [])) @
     fail_if (sa_target old \<noteq> sa_target sa)
       (FInvalid (path_child p ''targetNamespace'') (Msg (''targetNamespace is immutable; moving delivery would strand the credentials Secret (and the source Secret / PushSecret behind it) in the old namespace '' @ em_dash @ '' remove and re-add the service account to deliver it elsewhere'') []))"

fun accounts_changed :: "ServiceAccountSpec list \<Rightarrow> nat \<Rightarrow> ServiceAccountSpec list \<Rightarrow> field_error list" where
  "accounts_changed olds i [] = []"
| "accounts_changed olds i (sa # sas) =
     (case old_account olds (sa_name sa) of
        None \<Rightarrow> []
      | Some old \<Rightarrow> account_changed (path_index (cp_path [''korc'', ''serviceAccounts'']) i) old sa) @
     accounts_changed olds (Suc i) sas"

definition validateServiceAccountsImmutable :: "ControlPlane \<Rightarrow> ControlPlane \<Rightarrow> field_error list" where
  "validateServiceAccountsImmutable old new = accounts_changed (cp_accounts old) 0 (cp_accounts new)"

definition mode_changed :: "ControlPlane \<Rightarrow> ControlPlane \<Rightarrow> field_error list" where
  "mode_changed old new =
     (let p = cp_path [''services'', ''keystone'', ''mode''] in
      if \<not> IsExternalKeystone old \<and> IsExternalKeystone new
      then [FInvalid p (Msg ''keystone mode cannot be changed to External on an existing ControlPlane; create a new External-mode ControlPlane to adopt an existing installation'' [])]
      else fail_if (IsExternalKeystone old \<and> \<not> IsExternalKeystone new)
             (FInvalid p (Msg ''switching an External-mode ControlPlane to Managed is not yet supported; the managed takeover is reserved as the gated phase-3 transition'' [])))"

definition infrastructure_changed :: "ControlPlane \<Rightarrow> ControlPlane \<Rightarrow> field_error list" where
  "infrastructure_changed old new =
     (case (cs_infrastructure (cp_spec old), cs_infrastructure (cp_spec new)) of
        (None, None) \<Rightarrow> []
      | (Some a, Some b) \<Rightarrow>
          validateDatabaseImmutable (cp_path [''infrastructure'', ''database'']) (if_database a) (if_database b) @
          validateCacheImmutable (cp_path [''infrastructure'', ''cache'']) (if_cache a) (if_cache b)
      | _ \<Rightarrow>
          [FInvalid (cp_path [''infrastructure'']) (Msg ''infrastructure presence is immutable (adding or removing the block after creation is not permitted)'' [])])"

definition validateImmutable :: "ControlPlane \<Rightarrow> ControlPlane \<Rightarrow> field_error list" where
  "validateImmutable old new =
     mode_changed old new @ infrastructure_changed old new @
     validateDedicatedBackingServicesImmutable old new @ validateServiceNamespacesImmutable old new @
     fail_if (cc_secret (ac_cloud (cp_admin old)) \<noteq> cc_secret (ac_cloud (cp_admin new)))
       (FInvalid (cp_path [''korc'', ''adminCredential'', ''cloudCredentialsRef'', ''secretName''])
          (Msg ''cloudCredentialsRef.secretName is immutable'' [])) @
     fail_if (cs_region (cp_spec old) \<noteq> cs_region (cp_spec new)) (FInvalid (cp_path [''region'']) (Msg ''region is immutable'' [])) @
     validateServiceAccountsImmutable old new"

definition validateReleaseNotDowngraded :: "ControlPlane \<Rightarrow> ControlPlane \<Rightarrow> field_error list" where
  "validateReleaseNotDowngraded old new =
     (case (ParseRelease (cs_release (cp_spec old)), ParseRelease (cs_release (cp_spec new))) of
        (Inr a, Inr b) \<Rightarrow>
          fail_if (IsDowngrade a b)
            (FInvalid (cp_path [''openStackRelease'']) (Msg ''openStackRelease downgrade from %q to %q is not permitted; Keystone DB migrations are not reversible''
               [Str (r_raw a), Str (r_raw b)]))
      | _ \<Rightarrow> [])"

section \<open>The webhook\<close>

text \<open>A rejection is \<open>apierrors.NewInvalid\<close> with the name of the resource and all the errors, or an internal error.\<close>

datatype rejection = Invalid string "field_error list" | InternalError err

definition newInvalidIfErrs :: "ControlPlane \<Rightarrow> field_error list \<Rightarrow> rejection option" where
  "newInvalidIfErrs cp errs = (if errs = [] then None else Some (Invalid (cp_name cp) errs))"

text \<open>A webhook without a reader does not look at other control planes.\<close>

definition validateUniqueInNamespace :: "(ControlPlane, 'w) kclient option \<Rightarrow> ControlPlane \<Rightarrow> 'w \<Rightarrow> rejection option" where
  "validateUniqueInNamespace client cp w =
     (case client of
        None \<Rightarrow> None
      | Some C \<Rightarrow>
          (case k_list C (cp_namespace cp) [] w of
             Inl e \<Rightarrow> Some (InternalError (Errorf ''listing ControlPlanes in namespace %q to enforce one-per-namespace: %w'' [Str (cp_namespace cp), Wrap e]))
           | Inr [] \<Rightarrow> None
           | Inr (x # _) \<Rightarrow>
               Some (Invalid (cp_name cp) [FForbidden [PChild ''metadata'', PChild ''namespace'']
                 (Msg ''only one ControlPlane is permitted per namespace; %q already exists in namespace %q'' [Str (cp_name x), Str (cp_namespace cp)])])))"

definition same_object :: "ControlPlane \<Rightarrow> ControlPlane \<Rightarrow> bool" where
  "same_object a b \<longleftrightarrow>
     m_uid (cp_meta a) = m_uid (cp_meta b) \<and> cp_namespace a = cp_namespace b \<and> cp_name a = cp_name b"

definition claim_errors :: "ControlPlane \<Rightarrow> ControlPlane \<Rightarrow> field_error list" where
  "claim_errors cp other =
     (if same_object other cp then []
      else concat (map (\<lambda>(p, ns).
             fail_if (sns_name ns \<in> set (controlPlaneNamespaces other) \<and> sns_name ns \<noteq> [])
               (FInvalid (path_child p ''name'') (Msg ''namespace %q is already occupied by ControlPlane %q in namespace %q; a namespace is the tenant key the OpenBao paths and the per-tenant secret store are scoped by, so it belongs to at most one ControlPlane''
                  [Str (sns_name ns), Str (cp_name other), Str (cp_namespace other)])))
             (declaredServiceNamespaces cp)) @
           concat (map (\<lambda>ns.
             fail_if (sns_name ns = cp_namespace cp)
               (FForbidden [PChild ''metadata'', PChild ''namespace''] (Msg ''namespace %q is already claimed as a service namespace by ControlPlane %q in namespace %q; a namespace is the tenant key the OpenBao paths and the per-tenant secret store are scoped by, so it belongs to at most one ControlPlane''
                  [Str (cp_namespace cp), Str (cp_name other), Str (cp_namespace other)])))
             (DedicatedServiceNamespaces other)))"

definition validateNamespaceClaims :: "(ControlPlane, 'w) kclient option \<Rightarrow> ControlPlane \<Rightarrow> 'w \<Rightarrow> rejection option" where
  "validateNamespaceClaims client cp w =
     (case client of
        None \<Rightarrow> None
      | Some C \<Rightarrow>
          (case k_list C [] [] w of
             Inl e \<Rightarrow> Some (InternalError (Errorf ''listing ControlPlanes to enforce namespace-claim uniqueness: %w'' [Wrap e]))
           | Inr others \<Rightarrow> newInvalidIfErrs cp (concat (map (claim_errors cp) others))))"

definition cp_ValidateCreate ::
  "parse_url \<Rightarrow> (ControlPlane, 'w) kclient option \<Rightarrow> ControlPlane \<Rightarrow> 'w \<Rightarrow> msg list \<times> rejection option" where
  "cp_ValidateCreate parse client cp w =
     (warnInsecureHorizonPublicEndpoint parse cp,
      case newInvalidIfErrs cp (cp_validate parse cp) of
        Some r \<Rightarrow> Some r
      | None \<Rightarrow>
          (case validateUniqueInNamespace client cp w of
             Some r \<Rightarrow> Some r
           | None \<Rightarrow> validateNamespaceClaims client cp w))"

definition cp_ValidateUpdate :: "parse_url \<Rightarrow> ControlPlane \<Rightarrow> ControlPlane \<Rightarrow> msg list \<times> rejection option" where
  "cp_ValidateUpdate parse old new =
     (warnInsecureHorizonPublicEndpoint parse new,
      newInvalidIfErrs new (cp_validate parse new @ validateImmutable old new @ validateReleaseNotDowngraded old new))"

definition cp_ValidateDelete :: "ControlPlane \<Rightarrow> msg list \<times> rejection option" where
  "cp_ValidateDelete cp = ([], None)"

end
