(* ===== verification/ControlPlaneAdmissionProperties.thy ===== *)
theory ControlPlaneAdmissionProperties
  imports ControlPlaneAdmission ControlPlaneController ControlPlaneProperties
begin

text \<open>
  What admission of a ControlPlane gives the operator: service accounts that cannot collide, names that fit, tenants that
  stay apart under every admitted operation, updates that leave the placement alone, and a spec the operator can project.
\<close>

section \<open>What is accepted\<close>

lemma no_comma_Nil [simp]: "no_comma p s k = [] \<longleftrightarrow> CHR '','' \<notin> set s"
  by (simp add: no_comma_def)

lemma newInvalid_None [simp]: "newInvalidIfErrs cp errs = None \<longleftrightarrow> errs = []"
  by (simp add: newInvalidIfErrs_def)

lemma effective_names:
  "effectiveAdminUserName cp = adminUserName cp" "effectiveAdminDomain cp = adminDomainName cp"
  "effectiveServiceAccountUserName sa = serviceAccountUserName sa" "effectiveServiceAccountDomain cp sa = serviceAccountDomainName cp sa"
  by (simp_all add: effectiveAdminUserName_def effectiveAdminDomain_def effectiveServiceAccountUserName_def effectiveServiceAccountDomain_def
      adminUserName_def adminDomainName_def serviceAccountUserName_def serviceAccountDomainName_def DefaultAdminUserName_def DefaultAdminDomainName_def)

definition account_ok :: "ControlPlane \<Rightarrow> ServiceAccountSpec \<Rightarrow> bool" where
  "account_ok cp sa \<longleftrightarrow>
     serviceAccountNamePattern (sa_name sa) \<and> sa_name sa \<noteq> [] \<and>
     length (cp_name cp) + (if sa_roles sa \<noteq> [] then serviceAccountRoleChildNameOverhead else serviceAccountChildNameOverhead) +
       length (sa_name sa) \<le> maxObjectNameBytes \<and>
     target_errors cp [] (sa_target sa) = [] \<and>
     (serviceAccountUserName sa, serviceAccountDomainName cp sa) \<noteq> (adminUserName cp, adminDomainName cp)"

lemma target_errors_path: "target_errors cp p t = [] \<longleftrightarrow> target_errors cp q t = []"
  by (simp add: target_errors_def)

lemma account_errors_Nil:
  "account_errors cp i names ids projects sas = [] \<Longrightarrow>
     list_all (account_ok cp) sas \<and> distinct (map sa_name sas) \<and> set (map sa_name sas) \<inter> set names = {} \<and>
     distinct (map (\<lambda>sa. identity_key (serviceAccountUserName sa) (serviceAccountDomainName cp sa)) sas) \<and>
     (\<lambda>sa. identity_key (serviceAccountUserName sa) (serviceAccountDomainName cp sa)) ` set sas \<inter> set ids = {}"
proof (induction cp i names ids projects sas rule: account_errors.induct)
  case (2 cp i names ids projects sa sas)
  have "account_ok cp sa"
    using 2(2) target_errors_path [of cp _ _ "[]"]
    by (auto simp: account_ok_def account_name_errors_def admin_identity_errors_def effective_names Let_def split: if_splits)
  then show ?case using 2
    by (auto simp: account_name_errors_def effective_names Let_def split: if_splits)
qed simp

lemma admitted_parts:
  assumes "cp_validate parse cp = []"
  shows "release_errors cp = []" "infrastructure_errors cp = []" "keystone_service_errors parse cp = []"
    "validateKeystoneMode parse cp = []" "validateServiceAccounts cp = []" "validateDedicatedBackingServices cp = []"
    "validateServiceNamespaces cp = []"
  using assms by (simp_all add: cp_validate_def)

lemma admitted_accounts:
  assumes "cp_validate parse cp = []"
  shows "list_all (account_ok cp) (cp_accounts cp)" "distinct (map sa_name (cp_accounts cp))"
    "distinct (map (\<lambda>sa. (serviceAccountUserName sa, serviceAccountDomainName cp sa)) (cp_accounts cp))"
    "length (cp_accounts cp) \<le> maxServiceAccounts"
proof -
  have e: "account_errors cp 0 [] [] [] (cp_accounts cp) = []" and l: "length (cp_accounts cp) \<le> maxServiceAccounts"
    using admitted_parts(5) [OF assms] by (auto simp: validateServiceAccounts_def Let_def)
  note a = account_errors_Nil [OF e]
  show "list_all (account_ok cp) (cp_accounts cp)" "distinct (map sa_name (cp_accounts cp))" using a by blast+
  show "length (cp_accounts cp) \<le> maxServiceAccounts" by (fact l)
  have "distinct (map (\<lambda>sa. identity_key (serviceAccountUserName sa) (serviceAccountDomainName cp sa)) (cp_accounts cp))" using a by blast
  then show "distinct (map (\<lambda>sa. (serviceAccountUserName sa, serviceAccountDomainName cp sa)) (cp_accounts cp))"
    by (auto simp: distinct_map inj_on_def)
qed

text \<open>
  C27. The service accounts of an admitted control plane have different names and different identities in Keystone, none of
  them is the admin's, and the credentials of each go to the namespace it asks for, which is one of the control plane's.
\<close>

theorem admitted_accounts_apart:
  assumes "cp_validate parse cp = []"
  shows "distinct (map sa_name (cp_accounts cp)) \<and>
    distinct (map (\<lambda>sa. (serviceAccountUserName sa, serviceAccountDomainName cp sa)) (cp_accounts cp)) \<and>
    (\<forall>sa\<in>set (cp_accounts cp).
       (serviceAccountUserName sa, serviceAccountDomainName cp sa) \<noteq> (adminUserName cp, adminDomainName cp) \<and>
       serviceAccountDeliveryNamespace cp sa = or_default (sa_target sa) (cp_namespace cp) \<and>
       serviceAccountDeliveryNamespace cp sa \<in> set (controlPlaneNamespaces cp))"
proof -
  have "serviceAccountDeliveryNamespace cp sa = or_default (sa_target sa) (cp_namespace cp) \<and>
      serviceAccountDeliveryNamespace cp sa \<in> set (controlPlaneNamespaces cp) \<and>
      (serviceAccountUserName sa, serviceAccountDomainName cp sa) \<noteq> (adminUserName cp, adminDomainName cp)"
    if "sa \<in> set (cp_accounts cp)" for sa
  proof -
    have "account_ok cp sa" using admitted_accounts(1) [OF assms] that by (simp add: list_all_iff)
    then have ok: "target_errors cp [] (sa_target sa) = []"
        "(serviceAccountUserName sa, serviceAccountDomainName cp sa) \<noteq> (adminUserName cp, adminDomainName cp)"
      by (simp_all add: account_ok_def)
    then show ?thesis
      by (auto simp: target_errors_def serviceAccountDeliveryNamespace_def controlPlaneNamespaces_def or_default_def childNamespace_def
          split: if_splits)
  qed
  then show ?thesis using admitted_accounts(2,3) [OF assms] by blast
qed

section \<open>Names\<close>

lemma length_show_nat_le: "n < 10 ^ k \<Longrightarrow> 0 < k \<Longrightarrow> length (show_nat n) \<le> k"
proof (induction k arbitrary: n)
  case (Suc k)
  show ?case
  proof (cases "n < 10")
    case True
    then show ?thesis by (subst show_nat.simps) simp
  next
    case False
    then have "0 < k" using Suc.prems by (cases k) auto
    moreover have "n div 10 < 10 ^ k" using Suc.prems by (simp add: less_mult_imp_div_less mult.commute)
    ultimately have "length (show_nat (n div 10)) \<le> k" by (rule Suc.IH [rotated])
    then show ?thesis using False by (subst show_nat.simps) simp
  qed
qed simp

lemma length_slug: "length (serviceAccountRoleSlug sha role) \<le> 25"
  by (simp add: serviceAccountRoleSlug_def)

lemmas overhead_defs = serviceAccountChildNameOverhead_def serviceAccountRoleChildNameOverhead_def maxObjectNameBytes_def
  catalogEntryChildNameOverhead_def identityImportChildNameOverhead_def

lemmas account_child_defs = serviceAccountUserRef_def serviceAccountUserProbeRef_def serviceAccountProjectRef_def
  serviceAccountProjectProbeRef_def serviceAccountDomainRef_def serviceAccountSourceSecretName_def serviceAccountPushSecretName_def
  serviceAccountCredentialsSecretName_def serviceAccountRoleImportRef_def serviceAccountRoleAssignmentRef_def
  serviceAccountPasswordSecretName_def serviceAccountChildPrefix_def adminDomainRef_def

lemma account_names_fit:
  assumes "account_ok cp sa"
  shows "n \<in> set (serviceAccountDeclaredChildNames sha cp [sa]) \<Longrightarrow> length n \<le> maxObjectNameBytes"
    "1 \<le> gen \<Longrightarrow> gen < 10 ^ 10 \<Longrightarrow> length (serviceAccountPasswordSecretName cp sa gen) \<le> maxObjectNameBytes"
proof -
  have a: "length (cp_name cp) + 38 + length (sa_name sa) \<le> 253" "1 \<le> length (sa_name sa)"
    using assms by (auto simp: account_ok_def overhead_defs Suc_le_eq split: if_splits)
  have r: "length (cp_name cp) + 50 + length (sa_name sa) \<le> 253" if "sa_roles sa \<noteq> []"
    using assms that by (simp add: account_ok_def overhead_defs)
  assume "n \<in> set (serviceAccountDeclaredChildNames sha cp [sa])"
  then show "length n \<le> maxObjectNameBytes"
  proof (cases "\<exists>role\<in>set (sa_roles sa). n \<in> {serviceAccountRoleImportRef sha cp role, serviceAccountRoleAssignmentRef sha cp sa role}")
    case True
    then obtain role where "role \<in> set (sa_roles sa)" and n: "n \<in> {serviceAccountRoleImportRef sha cp role, serviceAccountRoleAssignmentRef sha cp sa role}"
      by blast
    then have "length (cp_name cp) + 50 + length (sa_name sa) \<le> 253" using r by fastforce
    then show ?thesis using n length_slug [of sha role] a(2) by (auto simp: account_child_defs maxObjectNameBytes_def)
  next
    case False
    then have "n \<in> {serviceAccountUserRef cp sa, serviceAccountUserProbeRef cp sa, serviceAccountProjectRef cp sa,
        serviceAccountProjectProbeRef cp sa, serviceAccountDomainRef cp sa, serviceAccountSourceSecretName cp sa,
        serviceAccountPushSecretName cp sa, serviceAccountCredentialsSecretName cp sa}"
      using \<open>n \<in> set (serviceAccountDeclaredChildNames sha cp [sa])\<close> by (auto simp: serviceAccountDeclaredChildNames_def)
    then show ?thesis using a by (auto simp: account_child_defs maxObjectNameBytes_def)
  qed
next
  have a: "length (cp_name cp) + 38 + length (sa_name sa) \<le> 253"
    using assms by (auto simp: account_ok_def overhead_defs split: if_splits)
  assume g: "1 \<le> gen" "gen < 10 ^ 10"
  then have "length (show_int gen) \<le> 10" using length_show_nat_le [of "nat gen" 10] by (simp add: show_int_def)
  then show "length (serviceAccountPasswordSecretName cp sa gen) \<le> maxObjectNameBytes"
    using a by (simp add: account_child_defs maxObjectNameBytes_def)
qed

lemma catalog_endpoints_ok:
  "catalog_endpoint_errors parse p j seen eps = [] \<Longrightarrow> \<forall>ep\<in>set eps. xe_interface ep \<in> set catalog_interfaces"
  by (induction parse p j seen eps rule: catalog_endpoint_errors.induct) (auto simp: Let_def split: if_splits)

lemma catalog_entries_ok:
  "catalog_entry_errors parse p name i seen xs = [] \<Longrightarrow>
     (\<forall>x\<in>set xs. length name + catalogEntryChildNameOverhead + length (xs_type x) \<le> maxObjectNameBytes \<and>
        (\<forall>ep\<in>set (xs_endpoints x). xe_interface ep \<in> set catalog_interfaces)) \<and>
     distinct (map xs_type xs) \<and> xs_type ` set xs \<inter> set seen = {} \<and> (\<forall>x\<in>set xs. xs_type x \<noteq> IdentityCatalogServiceType \<and> dns_label (xs_type x))"
proof (induction parse p name i seen xs rule: catalog_entry_errors.induct)
  case (2 parse p name i seen x xs)
  have "xs_type x \<noteq> []" "xs_type x \<noteq> IdentityCatalogServiceType" "dns_label (xs_type x)" "xs_type x \<notin> set seen"
      "length name + catalogEntryChildNameOverhead + length (xs_type x) \<le> maxObjectNameBytes"
    using 2(2) by (auto simp: catalog_type_errors_def catalogEntryTypePattern_def Let_def split: if_splits)
  moreover have "\<forall>ep\<in>set (xs_endpoints x). xe_interface ep \<in> set catalog_interfaces"
    using 2(2) catalog_endpoints_ok by (fastforce simp: Let_def)
  ultimately show ?case using 2 by (auto simp: Let_def)
qed simp

lemma admitted_external:
  assumes "cp_validate parse cp = []" "IsExternalKeystone cp"
  obtains ks e where "cp_keystone cp = Some ks" "kk_external ks = Some e"
    "length (cp_name cp) + identityImportChildNameOverhead \<le> maxObjectNameBytes"
    "ek_catalog e = None \<or> (\<exists>c p. ek_catalog e = Some c \<and> validateExternalCatalog parse p (cp_name cp) c = [])"
  using admitted_parts(4) [OF assms(1)] assms(2)
  by (auto simp: validateKeystoneMode_def external_errors_def IsExternalKeystone_def Let_def split: option.splits)

lemma catalog_names_fit:
  assumes "cp_validate parse cp = []" "x \<in> set (externalManagedCatalogEntries cp)"
  shows "length (catalogEntryServiceName cp (xs_type x)) \<le> maxObjectNameBytes \<and>
    (\<forall>ep\<in>set (xs_endpoints x). length (catalogEntryEndpointName cp (xs_type x) (xe_interface ep)) \<le> maxObjectNameBytes)"
proof -
  obtain ks e c where k: "cp_keystone cp = Some ks" "kk_external ks = Some e" "ek_catalog e = Some c" and x: "x \<in> set (xc_entries c)"
    using assms(2) by (cases "externalCatalogSpec cp")
      (auto simp: externalManagedCatalogEntries_def externalCatalogSpec_def split: option.splits)
  have "IsExternalKeystone cp"
  proof (rule ccontr)
    assume "\<not> IsExternalKeystone cp"
    then show False using admitted_parts(4) [OF assms(1)] k by (simp add: validateKeystoneMode_def managed_mode_errors_def)
  qed
  then obtain p where "validateExternalCatalog parse p (cp_name cp) c = []"
    using admitted_external [OF assms(1)] k by (metis option.distinct(1) option.inject)
  then have "length (cp_name cp) + catalogEntryChildNameOverhead + length (xs_type x) \<le> maxObjectNameBytes"
      "\<forall>ep\<in>set (xs_endpoints x). xe_interface ep \<in> set catalog_interfaces"
    using catalog_entries_ok x by (fastforce simp: validateExternalCatalog_def)+
  then show ?thesis
    by (auto simp: overhead_defs catalogEntryServiceName_def catalogEntryEndpointName_def catalogEntryNamePrefix_def catalog_interfaces_def
        ExternalEndpointTypePublic_def ExternalEndpointTypeInternal_def ExternalEndpointTypeAdmin_def)
qed

text \<open>
  C28. The names of every child of an admitted control plane that is derived from a service account, a catalog entry or the
  identity endpoint fit in 253 bytes, the password Secrets for every generation of at most ten digits among them.
\<close>

theorem admitted_names_fit:
  assumes "cp_validate parse cp = []"
  shows "(\<forall>n\<in>set (serviceAccountDeclaredChildNames sha cp (cp_accounts cp)). length n \<le> 253) \<and>
    (\<forall>sa\<in>set (cp_accounts cp). \<forall>gen\<in>{1..<10 ^ 10}. length (serviceAccountPasswordSecretName cp sa gen) \<le> 253) \<and>
    (\<forall>x\<in>set (externalManagedCatalogEntries cp). length (catalogEntryServiceName cp (xs_type x)) \<le> 253 \<and>
       (\<forall>ep\<in>set (xs_endpoints x). length (catalogEntryEndpointName cp (xs_type x) (xe_interface ep)) \<le> 253)) \<and>
    (IsExternalKeystone cp \<longrightarrow> (\<forall>iface\<in>set externalCatalogInterfaces. length (keystoneEndpointImportName cp iface) \<le> 253))"
proof -
  have ok: "account_ok cp sa" if "sa \<in> set (cp_accounts cp)" for sa
    using admitted_accounts(1) [OF assms] that by (simp add: list_all_iff)
  have split: "n \<in> set (serviceAccountDeclaredChildNames sha cp sas) \<longleftrightarrow> (\<exists>sa\<in>set sas. n \<in> set (serviceAccountDeclaredChildNames sha cp [sa]))" for n sas
    by (auto simp: serviceAccountDeclaredChildNames_def)
  have imp: "length (keystoneEndpointImportName cp iface) \<le> 253" if "IsExternalKeystone cp" "iface \<in> set externalCatalogInterfaces" for iface
  proof -
    have "length (cp_name cp) + identityImportChildNameOverhead \<le> maxObjectNameBytes"
      using admitted_external [OF assms that(1)] by blast
    then show ?thesis using that(2)
    by (auto simp: keystoneEndpointImportName_def keystoneEndpointName_def overhead_defs externalCatalogInterfaces_def
        ExternalEndpointTypePublic_def ExternalEndpointTypeInternal_def ExternalEndpointTypeAdmin_def)
  qed
  have "\<forall>n\<in>set (serviceAccountDeclaredChildNames sha cp (cp_accounts cp)). length n \<le> 253"
    using account_names_fit(1) [OF ok, of _ _ sha] split [of _ "cp_accounts cp"] unfolding maxObjectNameBytes_def by blast
  moreover have "\<forall>sa\<in>set (cp_accounts cp). \<forall>gen\<in>{1..<10 ^ 10}. length (serviceAccountPasswordSecretName cp sa gen) \<le> 253"
    using account_names_fit(2) [OF ok] by (simp add: maxObjectNameBytes_def)
  moreover have "\<forall>x\<in>set (externalManagedCatalogEntries cp). length (catalogEntryServiceName cp (xs_type x)) \<le> 253 \<and>
       (\<forall>ep\<in>set (xs_endpoints x). length (catalogEntryEndpointName cp (xs_type x) (xe_interface ep)) \<le> 253)"
    using catalog_names_fit [OF assms] by (simp add: maxObjectNameBytes_def)
  ultimately show ?thesis using imp by blast
qed

section \<open>Tenants\<close>

definition plane_reader :: "(ControlPlane, ControlPlane list) kclient" where
  "plane_reader =
     \<lparr>k_get = (\<lambda>k w. case find (\<lambda>x. key_of (cp_meta x) = k) w of None \<Rightarrow> Inl (ApiErr NotFound) | Some x \<Rightarrow> Inr x),
      k_list = (\<lambda>ns ls w. Inr (if ns = [] then w else filter (\<lambda>x. cp_namespace x = ns) w)),
      k_create = (\<lambda>x w. (Inr x, x # w)), k_update = (\<lambda>x w. (Inr x, w)), k_apply = (\<lambda>x w. (Inr x, w)),
      k_delete = (\<lambda>opts x w. (None, remove1 x w))\<rparr>"

text \<open>
  The control planes of the cluster under an API server that handles one request at a time: a write goes through the
  webhook, which reads those that exist; an update keeps the namespace, and a write of the status or the metadata leaves the spec alone.
\<close>

inductive admission_step :: "parse_url \<Rightarrow> ControlPlane list \<Rightarrow> ControlPlane list \<Rightarrow> bool" for parse where
  create: "snd (cp_ValidateCreate parse (Some plane_reader) cp cps) = None \<Longrightarrow> admission_step parse cps (cp # cps)"
| update: "snd (cp_ValidateUpdate parse old new) = None \<Longrightarrow> cp_namespace new = cp_namespace old \<Longrightarrow>
    admission_step parse (xs @ old # ys) (xs @ new # ys)"
| status: "cp_spec new = cp_spec old \<Longrightarrow> cp_namespace new = cp_namespace old \<Longrightarrow>
    admission_step parse (xs @ old # ys) (xs @ new # ys)"
| delete: "admission_step parse (xs @ old # ys) (xs @ ys)"

inductive_cases admission_stepE: "admission_step parse cps cps'"

text \<open>No namespace belongs to both.\<close>

definition apart :: "ControlPlane \<Rightarrow> ControlPlane \<Rightarrow> bool" where
  "apart a b \<longleftrightarrow> set (controlPlaneNamespaces a) \<inter> set (controlPlaneNamespaces b) = {}"

lemma dedicated_from_in: "ns \<in> set (dedicated_from home bs seen) \<Longrightarrow> Some ns \<in> set bs \<and> sns_name ns \<noteq> []"
  by (induction home bs seen rule: dedicated_from.induct) (auto split: if_splits)

lemma dedicated_declared:
  assumes "ns \<in> set (DedicatedServiceNamespaces cp)"
  shows "ns \<in> snd ` set (declaredServiceNamespaces cp) \<and> sns_name ns \<noteq> []"
proof -
  have "Some ns \<in> {keystoneNamespaceBlock cp, horizonNamespaceBlock cp}" "sns_name ns \<noteq> []"
    using dedicated_from_in [OF assms [unfolded DedicatedServiceNamespaces_def]] by auto
  then show ?thesis by (cases "keystoneNamespaceBlock cp"; cases "horizonNamespaceBlock cp") (auto simp: declaredServiceNamespaces_def)
qed

lemma created_apart:
  assumes "snd (cp_ValidateCreate parse (Some plane_reader) cp cps) = None" "other \<in> set cps"
  shows "apart cp other"
proof -
  have u: "validateUniqueInNamespace (Some plane_reader) cp cps = None" "validateNamespaceClaims (Some plane_reader) cp cps = None"
    using assms(1) by (auto simp: cp_ValidateCreate_def split: option.splits if_splits)
  have ns: "cp_namespace other \<noteq> cp_namespace cp"
    using u(1) assms(2) by (auto simp: validateUniqueInNamespace_def plane_reader_def filter_empty_conv split: list.splits if_splits)
  have "claim_errors cp other = []"
    using u(2) assms(2) by (auto simp: validateNamespaceClaims_def plane_reader_def)
  then have c: "\<forall>(p, ns)\<in>set (declaredServiceNamespaces cp). sns_name ns \<notin> set (controlPlaneNamespaces other) \<or> sns_name ns = []"
      "\<forall>ns\<in>set (DedicatedServiceNamespaces other). sns_name ns \<noteq> cp_namespace cp"
    using ns by (auto simp: claim_errors_def same_object_def)
  have "sns_name n \<notin> set (controlPlaneNamespaces other)" if "n \<in> set (DedicatedServiceNamespaces cp)" for n
    using dedicated_declared [OF that] c(1) by auto
  moreover have "cp_namespace cp \<notin> set (controlPlaneNamespaces other)"
    using ns c(2) by (auto simp: controlPlaneNamespaces_def)
  ultimately show ?thesis by (auto simp: apart_def controlPlaneNamespaces_def [of cp])
qed

lemma frozen_namespace_Nil: "frozen_namespace p a b = [] \<longleftrightarrow> a = b"
  by (cases a; cases b) (auto simp: frozen_namespace_def frozen_block_def intro: ServiceNamespaceSpec.equality)

lemma update_parts:
  assumes "snd (cp_ValidateUpdate parse old new) = None"
  shows "cp_validate parse new = []" "validateImmutable old new = []" "validateReleaseNotDowngraded old new = []"
  using assms by (simp_all add: cp_ValidateUpdate_def)

lemma update_blocks:
  assumes "snd (cp_ValidateUpdate parse old new) = None"
  shows "keystoneNamespaceBlock new = keystoneNamespaceBlock old" "horizonNamespaceBlock new = horizonNamespaceBlock old"
  using update_parts(2) [OF assms] by (simp_all add: validateImmutable_def validateServiceNamespacesImmutable_def frozen_namespace_Nil)

lemma update_namespaces:
  assumes "keystoneNamespaceBlock new = keystoneNamespaceBlock old" "horizonNamespaceBlock new = horizonNamespaceBlock old"
    and "cp_namespace new = cp_namespace old"
  shows "controlPlaneNamespaces new = controlPlaneNamespaces old" "KeystoneNamespace new = KeystoneNamespace old"
    "HorizonNamespace new = HorizonNamespace old"
  using assms by (simp_all add: controlPlaneNamespaces_def DedicatedServiceNamespaces_def KeystoneNamespace_def HorizonNamespace_def split: option.split)

lemma same_spec_blocks:
  "cp_spec new = cp_spec old \<Longrightarrow> keystoneNamespaceBlock new = keystoneNamespaceBlock old \<and> horizonNamespaceBlock new = horizonNamespaceBlock old"
  by (simp add: keystoneNamespaceBlock_def horizonNamespaceBlock_def)

lemma sorted_wrt_replace:
  "sorted_wrt P (xs @ a # ys) \<Longrightarrow> (\<And>x. P x b \<longleftrightarrow> P x a) \<Longrightarrow> (\<And>x. P b x \<longleftrightarrow> P a x) \<Longrightarrow> sorted_wrt P (xs @ b # ys)"
  by (auto simp: sorted_wrt_append)

lemma admission_step_apart: "admission_step parse cps cps' \<Longrightarrow> sorted_wrt apart cps \<Longrightarrow> sorted_wrt apart cps'"
proof (induction rule: admission_step.induct)
  case (create cp cps)
  then show ?case using created_apart by simp
next
  case (update old new xs ys)
  have "controlPlaneNamespaces new = controlPlaneNamespaces old"
    using update_namespaces(1) [OF update_blocks [OF update(1)] update(2)] .
  then show ?case using sorted_wrt_replace [OF update(3), of new] by (simp add: apart_def)
next
  case (status new old xs ys)
  have "controlPlaneNamespaces new = controlPlaneNamespaces old"
    using update_namespaces(1) [of new old] same_spec_blocks [OF status(1)] status(2) by blast
  then show ?case using sorted_wrt_replace [OF status(3), of new] by (simp add: apart_def)
next
  case (delete xs old ys)
  then show ?case by (simp add: sorted_wrt_append)
qed

text \<open>
  C21. Whatever control planes are created, updated and deleted through the webhook, one request after the other, no two of
  them share a namespace, their own or one of their services.  Each creation is validated against every control plane
  stored before it; creations that race within the API server can both pass, as the comments of the webhook say, and are
  outside the theorem (of two in one namespace the reconciler then runs one).
\<close>

theorem tenants_stay_apart:
  assumes "(admission_step parse)\<^sup>*\<^sup>* [] cps"
  shows "sorted_wrt apart cps"
  using assms by (induction rule: rtranclp_induct) (simp_all add: admission_step_apart)

section \<open>Updates\<close>

text \<open>
  The pattern admits years that no release can have, which cannot be parsed, so that such a downgrade is not seen.
\<close>

lemma downgrade_below_2010_admitted:
  "cs_release (cp_spec old) = ''2025.2'' \<Longrightarrow> cs_release (cp_spec new) = ''2009.2'' \<Longrightarrow>
     release_errors new = [] \<and> validateReleaseNotDowngraded old new = []"
proof -
  have "case ParseRelease ''2009.2'' of Inl e \<Rightarrow> True | Inr r \<Rightarrow> False" by code_simp
  then show "cs_release (cp_spec old) = ''2025.2'' \<Longrightarrow> cs_release (cp_spec new) = ''2009.2'' \<Longrightarrow> ?thesis"
    by (auto simp: release_errors_def controlPlaneReleaseRegexp_def validateReleaseNotDowngraded_def is_digit_def split: sum.split)
qed

lemma cluster_ref_changed_Nil: "cluster_ref_changed p x y a b = [] \<longleftrightarrow> a = b"
  by (cases a; cases b) (auto simp: cluster_ref_changed_def)

lemma update_infrastructure:
  assumes "snd (cp_ValidateUpdate parse old new) = None"
  shows "map_option (\<lambda>i. (db_cluster_ref (if_database i), db_database (if_database i), ca_cluster_ref (if_cache i))) (cs_infrastructure (cp_spec new)) =
         map_option (\<lambda>i. (db_cluster_ref (if_database i), db_database (if_database i), ca_cluster_ref (if_cache i))) (cs_infrastructure (cp_spec old))"
  using update_parts(2) [OF assms]
  by (auto simp: validateImmutable_def infrastructure_changed_def validateDatabaseImmutable_def validateCacheImmutable_def cluster_ref_changed_Nil
      split: option.splits)

lemma update_dedicated:
  assumes "snd (cp_ValidateUpdate parse old new) = None"
  shows "map_option (\<lambda>d. (db_cluster_ref d, db_database d)) (DedicatedKeystoneDatabase new) = map_option (\<lambda>d. (db_cluster_ref d, db_database d)) (DedicatedKeystoneDatabase old)"
    "map_option ca_cluster_ref (DedicatedKeystoneCache new) = map_option ca_cluster_ref (DedicatedKeystoneCache old)"
    "map_option ca_cluster_ref (DedicatedHorizonCache new) = map_option ca_cluster_ref (DedicatedHorizonCache old)"
  using update_parts(2) [OF assms]
  by (auto simp: validateImmutable_def validateDedicatedBackingServicesImmutable_def validateDedicatedDatabase_def validateDedicatedCache_def
      frozen_block_def validateDatabaseImmutable_def validateCacheImmutable_def cluster_ref_changed_Nil
      DedicatedKeystoneDatabase_def DedicatedKeystoneCache_def DedicatedHorizonCache_def split: option.splits)

lemma same_effective:
  "map_option f d' = map_option f d \<Longrightarrow> map_option (\<lambda>x. f (g x)) i' = map_option (\<lambda>x. f (g x)) i \<Longrightarrow>
     map_option f (case d' of Some x \<Rightarrow> Some x | None \<Rightarrow> map_option g i') =
     map_option f (case d of Some x \<Rightarrow> Some x | None \<Rightarrow> map_option g i)"
  by (cases d; cases d'; cases i; cases i') simp_all

text \<open>The managed instance a database or cache resolves to, and the database in it.\<close>

lemma update_effective:
  assumes "snd (cp_ValidateUpdate parse old new) = None"
  shows "map_option (\<lambda>d. (db_cluster_ref d, db_database d)) (effectiveKeystoneDatabase new) =
         map_option (\<lambda>d. (db_cluster_ref d, db_database d)) (effectiveKeystoneDatabase old)"
    "map_option ca_cluster_ref (effectiveKeystoneCache new) = map_option ca_cluster_ref (effectiveKeystoneCache old)"
    "map_option ca_cluster_ref (effectiveHorizonCache new) = map_option ca_cluster_ref (effectiveHorizonCache old)"
proof -
  let ?n = "cs_infrastructure (cp_spec new)" and ?o = "cs_infrastructure (cp_spec old)"
  have i: "map_option (\<lambda>i. (db_cluster_ref (if_database i), db_database (if_database i))) ?n =
      map_option (\<lambda>i. (db_cluster_ref (if_database i), db_database (if_database i))) ?o"
    "map_option (\<lambda>i. ca_cluster_ref (if_cache i)) ?n = map_option (\<lambda>i. ca_cluster_ref (if_cache i)) ?o"
    using update_infrastructure [OF assms] by (cases ?n; cases ?o; simp)+
  note d = update_dedicated [OF assms]
  show "map_option (\<lambda>d. (db_cluster_ref d, db_database d)) (effectiveKeystoneDatabase new) =
         map_option (\<lambda>d. (db_cluster_ref d, db_database d)) (effectiveKeystoneDatabase old)"
    unfolding effectiveKeystoneDatabase_def by (rule same_effective [OF d(1)]) (rule i(1))
  show "map_option ca_cluster_ref (effectiveKeystoneCache new) = map_option ca_cluster_ref (effectiveKeystoneCache old)"
    unfolding effectiveKeystoneCache_def by (rule same_effective [OF d(2)]) (rule i(2))
  show "map_option ca_cluster_ref (effectiveHorizonCache new) = map_option ca_cluster_ref (effectiveHorizonCache old)"
    unfolding effectiveHorizonCache_def by (rule same_effective [OF d(3)]) (rule i(2))
qed

lemma accounts_changed_Nil:
  "accounts_changed olds i sas = [] \<Longrightarrow> sa \<in> set sas \<Longrightarrow> old_account olds (sa_name sa) = Some old \<Longrightarrow>
     sa_user old = sa_user sa \<and> sa_domain old = sa_domain sa \<and> sa_project old = sa_project sa \<and> sa_target old = sa_target sa"
proof (induction olds i sas rule: accounts_changed.induct)
  case (2 olds i x sas)
  then show ?case by (auto simp: account_changed_def intro: ServiceAccountProjectSpec.equality)
qed simp

lemma old_account_member:
  assumes "distinct (map sa_name olds)" "old \<in> set olds"
  shows "old_account olds (sa_name old) = Some old"
proof -
  have "x = old" if "x \<in> set olds" "sa_name x = sa_name old" for x
    using assms that by (auto simp: distinct_map inj_on_def)
  moreover obtain y where "old_account olds (sa_name old) = Some y"
    using assms(2) by (cases "old_account olds (sa_name old)") (auto simp: old_account_def find_None_iff)
  ultimately show ?thesis by (auto simp: old_account_def find_Some_iff) (metis length_rev nth_mem set_rev)
qed

text \<open>
  C22. An update that is accepted changes neither the mode, nor where the control plane's services run, nor which managed
  database and cache they use, nor the user, project and delivery namespace of a service account that stays, and the
  release does not go down as long as both can be parsed.
\<close>

theorem accepted_update_stays_put:
  assumes "snd (cp_ValidateUpdate parse old new) = None" "cp_validate parse old = []"
    and "cp_namespace new = cp_namespace old" "cp_name new = cp_name old"
  shows "IsExternalKeystone new = IsExternalKeystone old \<and> controlPlaneNamespaces new = controlPlaneNamespaces old \<and>
    KeystoneNamespace new = KeystoneNamespace old \<and> HorizonNamespace new = HorizonNamespace old \<and>
    map_option (\<lambda>d. (db_cluster_ref d, db_database d)) (effectiveKeystoneDatabase new) =
      map_option (\<lambda>d. (db_cluster_ref d, db_database d)) (effectiveKeystoneDatabase old) \<and>
    map_option ca_cluster_ref (effectiveKeystoneCache new) = map_option ca_cluster_ref (effectiveKeystoneCache old) \<and>
    map_option ca_cluster_ref (effectiveHorizonCache new) = map_option ca_cluster_ref (effectiveHorizonCache old) \<and>
    (\<forall>a\<in>set (cp_accounts old). \<forall>b\<in>set (cp_accounts new). sa_name a = sa_name b \<longrightarrow>
       serviceAccountUserName b = serviceAccountUserName a \<and> sa_project b = sa_project a \<and>
       serviceAccountDeliveryNamespace new b = serviceAccountDeliveryNamespace old a) \<and>
    (\<forall>a b. ParseRelease (cs_release (cp_spec old)) = Inr a \<longrightarrow> ParseRelease (cs_release (cp_spec new)) = Inr b \<longrightarrow> \<not> IsDowngrade a b)"
proof -
  note imm = update_parts(2) [OF assms(1)]
  have mode: "IsExternalKeystone new = IsExternalKeystone old"
    using imm by (auto simp: validateImmutable_def mode_changed_def Let_def split: if_splits)
  note ns = update_namespaces [OF update_blocks [OF assms(1)] assms(3)]
  have acc: "serviceAccountUserName b = serviceAccountUserName a \<and> sa_project b = sa_project a \<and>
       serviceAccountDeliveryNamespace new b = serviceAccountDeliveryNamespace old a"
    if "a \<in> set (cp_accounts old)" "b \<in> set (cp_accounts new)" "sa_name a = sa_name b" for a b
  proof -
    have "accounts_changed (cp_accounts old) 0 (cp_accounts new) = []"
      using imm by (simp add: validateImmutable_def validateServiceAccountsImmutable_def)
    moreover have "old_account (cp_accounts old) (sa_name b) = Some a"
      using old_account_member [OF admitted_accounts(2) [OF assms(2)] that(1)] that(3) by simp
    ultimately have "sa_user a = sa_user b" "sa_project a = sa_project b" "sa_target a = sa_target b"
      using accounts_changed_Nil that(2) by blast+
    then show ?thesis using that(3) ns(1) assms(3)
      by (simp add: serviceAccountUserName_def serviceAccountDeliveryNamespace_def childNamespace_def)
  qed
  have "\<not> IsDowngrade a b" if "ParseRelease (cs_release (cp_spec old)) = Inr a" "ParseRelease (cs_release (cp_spec new)) = Inr b" for a b
    using update_parts(3) [OF assms(1)] that by (simp add: validateReleaseNotDowngraded_def)
  then show ?thesis using mode ns update_effective [OF assms(1)] acc by blast
qed

section \<open>What is admitted can be projected\<close>

lemma interval_whole_days: "whole_days d \<Longrightarrow> \<exists>s. intervalToCron d = Inr s"
  by (auto simp: whole_days_def intervalToCron_def Let_def)

lemma dedicated_errors_ok:
  "dedicated_errors dbs caches ds = [] \<Longrightarrow> (p, db, c) \<in> set ds \<Longrightarrow>
     (\<forall>d. db = Some d \<longrightarrow> DatabaseXOR (path_child p ''database'') d = []) \<and>
     (\<forall>x. c = Some x \<longrightarrow> CacheXOR (path_child p ''cache'') x = [])"
  by (induction dbs caches ds rule: dedicated_errors.induct) (auto simp: dedicated_database_errors_def)

lemma admitted_dedicated:
  assumes "cp_validate parse cp = []"
  shows "DedicatedKeystoneDatabase cp = Some db \<Longrightarrow> (db_cluster_ref db = None) = (db_host db \<noteq> [])"
    "DedicatedKeystoneCache cp = Some c \<Longrightarrow> (ca_cluster_ref c = None) = (ca_servers c \<noteq> [])"
    "DedicatedHorizonCache cp = Some c \<Longrightarrow> (ca_cluster_ref c = None) = (ca_servers c \<noteq> [])"
proof -
  let ?ds = "declaredDedicatedBackingServices cp"
  obtain dbs caches where e: "dedicated_errors dbs caches ?ds = []"
    using admitted_parts(6) [OF assms] by (auto simp: validateDedicatedBackingServices_def Let_def)
  show "(db_cluster_ref db = None) = (db_host db \<noteq> [])" if "DedicatedKeystoneDatabase cp = Some db"
  proof -
    obtain p x where "(p, Some db, x) \<in> set ?ds"
      using \<open>DedicatedKeystoneDatabase cp = Some db\<close> by (auto simp: DedicatedKeystoneDatabase_def declaredDedicatedBackingServices_def split: option.splits)
    then show ?thesis using dedicated_errors_ok [OF e] DatabaseXOR_ok [THEN iffD1] by blast
  qed
  have cache: "(ca_cluster_ref c = None) = (ca_servers c \<noteq> [])" if "(p, x, Some c) \<in> set ?ds" for p x
    using dedicated_errors_ok [OF e that] CacheXOR_ok [THEN iffD1] by blast
  show "(ca_cluster_ref c = None) = (ca_servers c \<noteq> [])" if "DedicatedKeystoneCache cp = Some c"
    using that by (auto intro!: cache simp: DedicatedKeystoneCache_def declaredDedicatedBackingServices_def split: option.splits)
  show "(ca_cluster_ref c = None) = (ca_servers c \<noteq> [])" if "DedicatedHorizonCache cp = Some c"
    using that by (auto intro!: cache simp: DedicatedHorizonCache_def declaredDedicatedBackingServices_def split: option.splits)
qed

text \<open>
  C29. The operator can project what was admitted: a rotation interval has a cron expression, an external control plane has
  an address and nothing to provision, a managed one has a database and caches, each either managed or given by host.
\<close>

theorem admitted_is_projectable:
  assumes "cp_validate parse cp = []"
  shows "(\<forall>ks d. cp_keystone cp = Some ks \<longrightarrow> kk_rotation_interval ks = Some d \<longrightarrow> (\<exists>s. intervalToCron d = Inr s)) \<and>
    (if IsExternalKeystone cp
     then externalKeystoneAuthURL cp \<noteq> [] \<and> cp_horizon cp = None \<and> cs_infrastructure (cp_spec cp) = None \<and> managedInfraInstances cp = []
     else (\<exists>db. effectiveKeystoneDatabase cp = Some db \<and> (db_cluster_ref db = None) = (db_host db \<noteq> [])) \<and>
       (\<exists>c. effectiveKeystoneCache cp = Some c \<and> (ca_cluster_ref c = None) = (ca_servers c \<noteq> [])) \<and>
       (\<exists>c. effectiveHorizonCache cp = Some c \<and> (ca_cluster_ref c = None) = (ca_servers c \<noteq> [])))"
proof -
  have int: "\<exists>s. intervalToCron d = Inr s" if "cp_keystone cp = Some ks" "kk_rotation_interval ks = Some d" for ks d
    using admitted_parts(3) [OF assms] that interval_whole_days by (simp add: keystone_service_errors_def)
  show ?thesis
  proof (cases "IsExternalKeystone cp")
    case True
    then obtain ks where k: "cp_keystone cp = Some ks" by (auto simp: IsExternalKeystone_def split: option.splits)
    have "external_errors parse (cp_name cp) (kk_external ks) = []" "external_workload_errors cp ks = []"
      using admitted_parts(4) [OF assms] True k by (simp_all add: validateKeystoneMode_def)
    then have e: "externalKeystoneAuthURL cp \<noteq> []" "cp_horizon cp = None" "cs_infrastructure (cp_spec cp) = None" "kk_dedicated ks = None"
      using k by (auto simp: external_errors_def external_workload_errors_def forbidden_workload_def externalKeystoneAuthURL_def Let_def
          split: option.splits if_splits)
    then have "managedInfraInstances cp = []"
      using k by (simp add: managedInfraInstances_def effectiveKeystoneDatabase_def effectiveKeystoneCache_def DedicatedKeystoneDatabase_def
          DedicatedKeystoneCache_def keystoneDedicatedBlock_def database_instance_def cache_instance_def)
    with e show ?thesis using int True by simp
  next
    case False
    then obtain i where i: "cs_infrastructure (cp_spec cp) = Some i"
      using admitted_parts(4) [OF assms] by (auto simp: validateKeystoneMode_def managed_mode_errors_def)
    then have "DatabaseXOR (cp_path [''infrastructure'', ''database'']) (if_database i) = []"
        "CacheXOR (cp_path [''infrastructure'', ''cache'']) (if_cache i) = []"
      using admitted_parts(2) [OF assms] by (simp_all add: infrastructure_errors_def Let_def)
    note shared = DatabaseXOR_ok [THEN iffD1, OF this(1)] CacheXOR_ok [THEN iffD1, OF this(2)]
    note d = admitted_dedicated [OF assms]
    have "\<exists>db. effectiveKeystoneDatabase cp = Some db \<and> (db_cluster_ref db = None) = (db_host db \<noteq> [])"
      using d(1) shared(1) i by (cases "DedicatedKeystoneDatabase cp") (auto simp: effectiveKeystoneDatabase_def)
    moreover have "\<exists>c. effectiveKeystoneCache cp = Some c \<and> (ca_cluster_ref c = None) = (ca_servers c \<noteq> [])"
      using d(2) shared(2) i by (cases "DedicatedKeystoneCache cp") (auto simp: effectiveKeystoneCache_def)
    moreover have "\<exists>c. effectiveHorizonCache cp = Some c \<and> (ca_cluster_ref c = None) = (ca_servers c \<noteq> [])"
      using d(3) shared(2) i by (cases "DedicatedHorizonCache cp") (auto simp: effectiveHorizonCache_def)
    ultimately show ?thesis using int False by simp
  qed
qed

text \<open>
  An account without a domain follows the admin's, which may change, so that its domain does although it is immutable.
\<close>

lemma account_domain_follows_admin:
  assumes "cp_accounts new = cp_accounts old" "adminDomainName new \<noteq> adminDomainName old" "sa \<in> set (cp_accounts old)" "sa_domain sa = []"
    and "distinct (map sa_name (cp_accounts old))"
  shows "validateServiceAccountsImmutable old new = [] \<and> serviceAccountDomainName new sa \<noteq> serviceAccountDomainName old sa"
proof -
  have "accounts_changed olds i sas = []" if "distinct (map sa_name olds)" "set sas \<subseteq> set olds" for olds i sas
    using that by (induction olds i sas rule: accounts_changed.induct) (simp_all add: old_account_member account_changed_def)
  then show ?thesis using assms by (simp add: validateServiceAccountsImmutable_def serviceAccountDomainName_def or_default_def)
qed

section \<open>Defaulting\<close>

lemma default_to_simps [simp]: "default_to d (default_to d s) = default_to d s" "default_to [] s = s" "default_to d d = d"
  by (simp_all add: default_to_def)

lemma or_default_default_to [simp]: "or_default (default_to d s) d = or_default s d"
  by (simp add: default_to_def or_default_def)

lemma default_cluster_ref_idem [simp]: "default_cluster_ref d (default_cluster_ref d r) = default_cluster_ref d r"
  by (simp add: default_cluster_ref_def split: option.split)

lemma leaves_idem [simp]:
  "defaultDatabaseLeaves c (defaultDatabaseLeaves c db) = defaultDatabaseLeaves c db"
  "defaultCacheLeaves c (defaultCacheLeaves c ca) = defaultCacheLeaves c ca"
  by (simp_all add: defaultDatabaseLeaves_def defaultCacheLeaves_def)

lemma blocks_idem [simp]:
  "default_namespace (default_namespace ns) = default_namespace ns"
  "default_external (default_external e) = default_external e"
  "default_infrastructure (Some (default_infrastructure i)) = default_infrastructure i"
  "default_admin (default_admin a) = default_admin a"
  by (simp_all add: default_namespace_def default_external_def default_infrastructure_def default_admin_def Let_def option.map_comp comp_def)

lemma dedicated_database_idem [simp]: "default_dedicated_database n (default_dedicated_database n db) = default_dedicated_database n db"
  by (auto simp: default_dedicated_database_def defaultDatabaseLeaves_def default_cluster_ref_def default_to_def CredentialsModeStatic_def Let_def split: option.split)

lemma dedicated_idem [simp]:
  "default_keystone_dedicated n (default_keystone_dedicated n b) = default_keystone_dedicated n b"
  "default_horizon_dedicated n (default_horizon_dedicated n h) = default_horizon_dedicated n h"
  by (simp_all add: default_keystone_dedicated_def default_horizon_dedicated_def option.map_comp comp_def)

lemma default_mode_idem [simp]: "default_to KeystoneModeManaged KeystoneModeExternal = KeystoneModeExternal"
  by (simp add: default_to_def KeystoneModeExternal_def)

lemma services_idem [simp]:
  "default_keystone_service n (default_keystone_service n ks) = default_keystone_service n ks"
  "default_horizon_service x n (default_horizon_service x n hz) = default_horizon_service x n hz"
  by (simp_all add: default_keystone_service_def default_horizon_service_def Let_def option.map_comp comp_def)

lemma default_keystone_mode: "kk_mode (default_keystone_service n ks) = KeystoneModeExternal \<longleftrightarrow> kk_mode ks = KeystoneModeExternal"
  by (simp add: default_keystone_service_def default_to_def KeystoneModeManaged_def KeystoneModeExternal_def Let_def)

lemma default_external_mode: "IsExternalKeystone (cp_Default cp) = IsExternalKeystone cp"
  by (simp add: IsExternalKeystone_def cp_Default_def default_keystone_mode Let_def split: option.split)

lemma default_keystone_namespace: "kk_namespace (default_keystone_service n ks) = map_option default_namespace (kk_namespace ks)"
  by (simp add: default_keystone_service_def Let_def)

lemma default_namespaces:
  "keystoneNamespaceBlock (cp_Default cp) = map_option default_namespace (keystoneNamespaceBlock cp)"
  "horizonNamespaceBlock (cp_Default cp) = map_option default_namespace (horizonNamespaceBlock cp)"
  by (simp_all add: keystoneNamespaceBlock_def horizonNamespaceBlock_def cp_Default_def default_keystone_namespace default_horizon_service_def Let_def
      split: option.split)

lemma dedicated_from_default:
  "map sns_name (dedicated_from h (map (map_option default_namespace) bs) seen) = map sns_name (dedicated_from h bs seen)"
  by (induction h bs seen rule: dedicated_from.induct) (simp_all add: default_namespace_def Let_def)

lemma default_control_plane_namespaces: "controlPlaneNamespaces (cp_Default cp) = controlPlaneNamespaces cp"
  using dedicated_from_default [of "cp_namespace cp" "[keystoneNamespaceBlock cp, horizonNamespaceBlock cp]" "[]"]
  by (simp add: controlPlaneNamespaces_def DedicatedServiceNamespaces_def default_namespaces) (simp add: cp_Default_def Let_def)

text \<open>
  Defaulting twice is defaulting once, and it changes no decision: the mode, the namespaces and the identities of the
  admin and of the accounts are those of the spec as written.
\<close>

lemma defaulting_is_stable:
  "cp_Default (cp_Default cp) = cp_Default cp \<and>
   IsExternalKeystone (cp_Default cp) = IsExternalKeystone cp \<and>
   controlPlaneNamespaces (cp_Default cp) = controlPlaneNamespaces cp \<and>
   adminUserName (cp_Default cp) = adminUserName cp \<and> adminDomainName (cp_Default cp) = adminDomainName cp \<and>
   map (\<lambda>sa. (sa_name sa, serviceAccountUserName sa, serviceAccountDomainName (cp_Default cp) sa)) (cp_accounts (cp_Default cp)) =
     map (\<lambda>sa. (sa_name sa, serviceAccountUserName sa, serviceAccountDomainName cp sa)) (cp_accounts cp)"
proof -
  have "cp_Default (cp_Default cp) = cp_Default cp"
  proof -
    have "IsExternalKeystone (cp_Default cp) = IsExternalKeystone cp" by (rule default_external_mode)
    then show ?thesis unfolding cp_Default_def [of "cp_Default cp"]
      by (simp add: cp_Default_def Let_def option.map_comp comp_def)
  qed
  moreover have "adminUserName (cp_Default cp) = adminUserName cp" "adminDomainName (cp_Default cp) = adminDomainName cp"
    by (simp_all add: adminUserName_def adminDomainName_def cp_Default_def default_admin_def DefaultAdminUserName_def DefaultAdminDomainName_def Let_def)
  moreover have "cp_accounts (cp_Default cp) = map (\<lambda>sa. sa\<lparr>sa_user := default_to (sa_name sa) (sa_user sa)\<rparr>) (cp_accounts cp)"
    by (simp add: cp_Default_def Let_def)
  ultimately show ?thesis
    by (simp add: default_external_mode default_control_plane_namespaces serviceAccountUserName_def serviceAccountDomainName_def)
qed

text \<open>The probe of an account has the name of the user of another.\<close>

lemma probe_names_collide:
  "serviceAccountUserRef cp b = serviceAccountUserProbeRef cp a \<longleftrightarrow> sa_name b = ''probe-'' @ sa_name a"
  by (simp add: account_child_defs)

section \<open>Instances\<close>

definition admissible :: ControlPlane where
  "admissible = cp_Default (sample_control_plane\<lparr>cp_meta := (cp_meta sample_control_plane)\<lparr>m_deleting := False\<rparr>\<rparr>)"

lemma admissible_ok: "cp_validate parse admissible = []"
  by code_simp

definition colliding :: ControlPlane where
  "colliding = admissible\<lparr>cp_spec := (cp_spec admissible)\<lparr>cs_korc := (cs_korc (cp_spec admissible))
     \<lparr>kr_accounts := [sample_account, sample_account\<lparr>sa_name := ''probe-nova''\<rparr>]\<rparr>\<rparr>\<rparr>"

lemma colliding_accounts_admitted:
  "cp_validate parse colliding = [] \<and> (\<exists>a\<in>set (cp_accounts colliding). \<exists>b\<in>set (cp_accounts colliding).
     a \<noteq> b \<and> serviceAccountUserRef colliding b = serviceAccountUserProbeRef colliding a)"
proof -
  have "cp_validate parse colliding = []" by code_simp
  moreover have "serviceAccountUserRef colliding (sample_account\<lparr>sa_name := ''probe-nova''\<rparr>) = serviceAccountUserProbeRef colliding sample_account"
    by (simp add: probe_names_collide sample_account_def)
  ultimately show ?thesis by (auto simp: colliding_def sample_account_def)
qed

lemma admitted_accounts_apart_witness:
  "distinct (map sa_name (cp_accounts admissible)) \<and>
    distinct (map (\<lambda>sa. (serviceAccountUserName sa, serviceAccountDomainName admissible sa)) (cp_accounts admissible))"
  using admitted_accounts_apart [OF admissible_ok] by blast

lemma admitted_names_fit_witness:
  "length (serviceAccountUserRef admissible sample_account) \<le> 253 \<and> length (serviceAccountPasswordSecretName admissible sample_account 9999999999) \<le> 253"
proof -
  have a: "\<exists>sa. sa_name sa = ''nova'' \<and> sa \<in> set (cp_accounts admissible)"
    by (simp add: admissible_def cp_Default_def sample_control_plane_def sample_account_def Let_def)
  then obtain sa where sa: "sa_name sa = ''nova''" "sa \<in> set (cp_accounts admissible)" by blast
  have "serviceAccountUserRef admissible sa \<in> set (serviceAccountDeclaredChildNames (\<lambda>s. s) admissible (cp_accounts admissible))"
    using sa(2) by (auto simp: serviceAccountDeclaredChildNames_def)
  then have "length (serviceAccountUserRef admissible sa) \<le> 253" "length (serviceAccountPasswordSecretName admissible sa 9999999999) \<le> 253"
    using admitted_names_fit [OF admissible_ok] sa(2) by auto
  then show ?thesis using sa(1) by (simp add: serviceAccountUserRef_def serviceAccountPasswordSecretName_def sample_account_def)
qed

definition neighbour :: ControlPlane where
  "neighbour = admissible\<lparr>cp_meta := (cp_meta admissible)\<lparr>m_namespace := ''other'', m_uid := ''u3''\<rparr>,
     cp_spec := (cp_spec admissible)\<lparr>cs_services := \<lparr>ss_keystone = None, ss_horizon = None\<rparr>\<rparr>\<rparr>"

lemma tenants_stay_apart_witness: "sorted_wrt apart [neighbour, admissible]"
proof -
  have a: "snd (cp_ValidateCreate parse (Some plane_reader) admissible []) = None" for parse by code_simp
  have b: "snd (cp_ValidateCreate parse (Some plane_reader) neighbour [admissible]) = None" for parse by code_simp
  have "(admission_step (\<lambda>s. Inl (ApiErr NotFound)))\<^sup>*\<^sup>* [] [neighbour, admissible]"
    using admission_step.create [OF a] admission_step.create [OF b] by (meson rtranclp.rtrancl_refl rtranclp.rtrancl_into_rtrancl)
  then show ?thesis by (rule tenants_stay_apart)
qed

definition upgraded :: ControlPlane where
  "upgraded = admissible\<lparr>cp_spec := (cp_spec admissible)\<lparr>cs_release := ''2026.1''\<rparr>\<rparr>"

lemma accepted_update_stays_put_witness:
  "controlPlaneNamespaces upgraded = controlPlaneNamespaces admissible \<and>
   map_option ca_cluster_ref (effectiveKeystoneCache upgraded) = map_option ca_cluster_ref (effectiveKeystoneCache admissible)"
proof -
  have "snd (cp_ValidateUpdate parse admissible upgraded) = None" for parse by code_simp
  then show ?thesis using accepted_update_stays_put [OF _ admissible_ok] by (simp add: upgraded_def)
qed

lemma admitted_is_projectable_witness:
  "\<exists>db. effectiveKeystoneDatabase admissible = Some db \<and> (db_cluster_ref db = None) = (db_host db \<noteq> [])"
proof -
  have "\<not> IsExternalKeystone admissible" by code_simp
  then show ?thesis using admitted_is_projectable [OF admissible_ok] by simp
qed

end
