(* ===== verification/IdentityBackendAdmission.thy ===== *)
theory IdentityBackendAdmission
  imports IdentityBackendTypes Validation
begin

text \<open>
  The admission webhook of identity backends, \<open>operators/keystone/api/v1alpha1/keystoneidentitybackend_webhook.go\<close>:
  defaulting, the checks of each block, and the checks against the other backends of the same Keystone.  The offending
  value of an invalid field is left out of its error.  \<open>equal_fold\<close> is \<open>strings.EqualFold\<close>, \<open>xml_root\<close> the XML decoder.
\<close>

section \<open>Defaulting\<close>

definition if_unset :: "string \<Rightarrow> string \<Rightarrow> string" where
  "if_unset d s = (if s = [] then d else s)"

definition default_oidc :: "string \<Rightarrow> OIDCBackendSpec \<Rightarrow> OIDCBackendSpec" where
  "default_oidc name o1 =
     o1\<lparr>oi_protocol := if_unset DefaultOIDCProtocolID (oi_protocol o1),
       oi_idp_name := if_unset name (oi_idp_name o1),
       oi_remote_attribute := if_unset DefaultOIDCRemoteIDAttribute (oi_remote_attribute o1),
       oi_scopes := (if oi_scopes o1 = [] then DefaultOIDCScopes else oi_scopes o1),
       oi_response_type := if_unset DefaultOIDCResponseType (oi_response_type o1),
       oi_session := if_unset OIDCSessionTypeClientCookie (oi_session o1),
       oi_state_headers := if_unset OIDCStateInputHeadersNone (oi_state_headers o1),
       oi_metadata_url :=
         (if oi_metadata_url o1 = [] \<and> oi_endpoints o1 = None \<and> oi_issuer o1 \<noteq> []
          then trim_right ''/'' (oi_issuer o1) @ ''/.well-known/openid-configuration'' else oi_metadata_url o1)\<rparr>"

definition default_saml :: "string \<Rightarrow> SAMLBackendSpec \<Rightarrow> SAMLBackendSpec" where
  "default_saml name s =
     s\<lparr>sb_protocol := if_unset DefaultSAMLProtocolID (sb_protocol s),
       sb_idp_name := if_unset name (sb_idp_name s),
       sb_remote_attribute := if_unset DefaultSAMLRemoteIDAttribute (sb_remote_attribute s)\<rparr>"

definition ib_Default :: "KeystoneIdentityBackend \<Rightarrow> KeystoneIdentityBackend" where
  "ib_Default b =
     (let s = kb_spec b; d = ib_domain s in
      b\<lparr>kb_spec := s
        \<lparr>ib_domain := d\<lparr>do_mode := if_unset DomainModeManage (do_mode d),
           do_deletion := if_unset DomainDeletionPolicyRetain (do_deletion d)\<rparr>,
         ib_ldap := map_option (\<lambda>l. l\<lparr>ld_read_only := (case ld_read_only l of None \<Rightarrow> Some True | r \<Rightarrow> r)\<rparr>) (ib_ldap s),
         ib_oidc := map_option (default_oidc (kb_name b)) (ib_oidc s),
         ib_saml := map_option (default_saml (kb_name b)) (ib_saml s)\<rparr>\<rparr>)"

section \<open>Strings that are rendered into files\<close>

definition hasControlChars :: "string \<Rightarrow> bool" where
  "hasControlChars s \<longleftrightarrow> CHR 0x0A \<in> set s \<or> CHR 0x0D \<in> set s"

definition ini_safe :: "path \<Rightarrow> string \<Rightarrow> field_error list" where
  "ini_safe p s =
     fail_if (hasControlChars s) (FInvalid p (Msg ''value must not contain newline or carriage-return characters'' []))"

definition directive_safe :: "path \<Rightarrow> string \<Rightarrow> field_error list" where
  "directive_safe p s =
     fail_if (hasControlChars s \<or> CHR 0x22 \<in> set s)
       (FInvalid p (Msg ''value must not contain newline, carriage-return, or double-quote characters'' []))"

definition letter :: "char \<Rightarrow> bool" where
  "letter c \<longleftrightarrow> (CHR ''A'' \<le> c \<and> c \<le> CHR ''Z'') \<or> (CHR ''a'' \<le> c \<and> c \<le> CHR ''z'')"

definition word_char :: "char \<Rightarrow> bool" where
  "word_char c \<longleftrightarrow> letter c \<or> is_digit c \<or> c = CHR ''_''"

text \<open>The pattern \<open>^[A-Za-z0-9_]+$\<close>.\<close>

definition extraOptionKeyPattern :: "string \<Rightarrow> bool" where
  "extraOptionKeyPattern s \<longleftrightarrow> s \<noteq> [] \<and> list_all word_char s"

definition samlForwardAttributePattern :: "string \<Rightarrow> bool" where
  "samlForwardAttributePattern = extraOptionKeyPattern"

text \<open>The pattern \<open>^HTTP_[A-Za-z0-9_]+$\<close>.\<close>

definition samlRemoteIDAttributePattern :: "string \<Rightarrow> bool" where
  "samlRemoteIDAttributePattern s \<longleftrightarrow> take 5 s = ''HTTP_'' \<and> extraOptionKeyPattern (drop 5 s)"

text \<open>The pattern \<open>^[A-Za-z0-9_-]+$\<close>.\<close>

definition remoteTypePattern :: "string \<Rightarrow> bool" where
  "remoteTypePattern s \<longleftrightarrow> s \<noteq> [] \<and> list_all (\<lambda>c. word_char c \<or> c = CHR ''-'') s"

section \<open>LDAP\<close>

definition ldapExtraOptionsDenylist :: "(string \<times> string) list" where
  "ldapExtraOptionsDenylist =
     [(''url'', ''spec.ldap.url''), (''suffix'', ''spec.ldap.suffix''),
      (''user'', ''spec.ldap.bindCredentialsSecretRef''), (''password'', ''spec.ldap.bindCredentialsSecretRef''),
      (''tls_cacertfile'', ''spec.ldap.tls''), (''use_pool'', ''spec.ldap.pool''), (''pool_size'', ''spec.ldap.pool.size''),
      (''user_tree_dn'', ''spec.ldap.users.treeDN''), (''user_filter'', ''spec.ldap.users.filter''),
      (''user_objectclass'', ''spec.ldap.users.objectClass''), (''user_id_attribute'', ''spec.ldap.users.idAttribute''),
      (''user_name_attribute'', ''spec.ldap.users.nameAttribute''), (''user_mail_attribute'', ''spec.ldap.users.mailAttribute''),
      (''group_tree_dn'', ''spec.ldap.groups.treeDN''), (''group_filter'', ''spec.ldap.groups.filter''),
      (''group_objectclass'', ''spec.ldap.groups.objectClass''), (''group_id_attribute'', ''spec.ldap.groups.idAttribute''),
      (''group_name_attribute'', ''spec.ldap.groups.nameAttribute''), (''group_member_attribute'', ''spec.ldap.groups.memberAttribute''),
      (''driver'', ''the operator (identity driver wiring)''), (''domain_config_dir'', ''the operator (domain config wiring)'')]"

definition ReadOnlyForcedOptions :: "string list" where
  "ReadOnlyForcedOptions =
     [''user_allow_create'', ''user_allow_update'', ''user_allow_delete'',
      ''group_allow_create'', ''group_allow_update'', ''group_allow_delete'']"

definition ldap_group_errors :: "path \<Rightarrow> LDAPGroupSpec option \<Rightarrow> field_error list" where
  "ldap_group_errors p g =
     (case g of
        None \<Rightarrow> []
      | Some x \<Rightarrow>
          ini_safe (path_child p ''treeDN'') (lg_tree x) @ ini_safe (path_child p ''filter'') (lg_filter x) @
          ini_safe (path_child p ''objectClass'') (lg_class x) @ ini_safe (path_child p ''idAttribute'') (lg_id x) @
          ini_safe (path_child p ''nameAttribute'') (lg_name x) @ ini_safe (path_child p ''memberAttribute'') (lg_member x))"

definition validateLDAP :: "path \<Rightarrow> LDAPBackendSpec \<Rightarrow> field_error list" where
  "validateLDAP p l =
     (let u = path_child p ''users'' in
      fail_if (\<not> has_prefix (ld_url l) ''ldap://'' \<and> \<not> has_prefix (ld_url l) ''ldaps://'')
        (FInvalid (path_child p ''url'') (Msg ''url must use the ldap:// or ldaps:// scheme'' [])) @
      ini_safe (path_child p ''url'') (ld_url l) @ ini_safe (path_child p ''suffix'') (ld_suffix l) @
      ini_safe (path_child u ''treeDN'') (lu_tree (ld_users l)) @ ini_safe (path_child u ''filter'') (lu_filter (ld_users l)) @
      ini_safe (path_child u ''objectClass'') (lu_class (ld_users l)) @ ini_safe (path_child u ''idAttribute'') (lu_id (ld_users l)) @
      ini_safe (path_child u ''nameAttribute'') (lu_name (ld_users l)) @ ini_safe (path_child u ''mailAttribute'') (lu_mail (ld_users l)) @
      ldap_group_errors (path_child p ''groups'') (ld_groups l) @
      fail_if (sr_key (ld_bind l) \<noteq> [])
        (FInvalid (path_child (path_child p ''bindCredentialsSecretRef'') ''key'')
           (Msg ''key must be empty: the bind Secret's data keys are fixed (\"username\" and \"password\")'' [])) @
      fail_if (case ld_tls l of None \<Rightarrow> False | Some t \<Rightarrow> sr_key (lt_ca t) \<noteq> [])
        (FInvalid (path_child (path_child (path_child p ''tls'') ''caBundleSecretRef'') ''key'')
           (Msg ''key must be empty: the CA bundle Secret's data key is fixed (\"ca.crt\")'' [])))"

definition is_read_only :: "KeystoneIdentityBackend \<Rightarrow> bool" where
  "is_read_only b =
     (case ib_ldap (kb_spec b) of
        None \<Rightarrow> True
      | Some l \<Rightarrow> (case ld_read_only l of None \<Rightarrow> True | Some r \<Rightarrow> r))"

definition extra_option_errors :: "path \<Rightarrow> bool \<Rightarrow> string \<Rightarrow> string \<Rightarrow> field_error list" where
  "extra_option_errors p read_only k v =
     (if k = [] then [FInvalid p (Msg ''option name must not be empty'' [])]
      else if \<not> extraOptionKeyPattern k
      then [FInvalid (path_key p k) (Msg ''option name must match ^[A-Za-z0-9_]+$ (letters, digits, and underscore)'' [])]
      else case map_of ldapExtraOptionsDenylist k of
        Some owner \<Rightarrow>
          [FInvalid (path_key p k) (Msg ''option %q is owned by %s and must not be set via extraOptions'' [Str k, Str owner])]
      | None \<Rightarrow>
          fail_if (read_only \<and> k \<in> set ReadOnlyForcedOptions)
            (FInvalid (path_key p k) (Msg ''option %q conflicts with readOnly: true (the default), which forces it to false'' [Str k])) @
          ini_safe (path_key p k) v)"

definition validateExtraOptions :: "path \<Rightarrow> KeystoneIdentityBackend \<Rightarrow> field_error list" where
  "validateExtraOptions p b =
     concat (map (\<lambda>k. extra_option_errors p (is_read_only b) k (case map_of (ib_extra (kb_spec b)) k of None \<Rightarrow> [] | Some v \<Rightarrow> v))
       (sorted_keys (ib_extra (kb_spec b))))"

section \<open>OpenID Connect\<close>

definition http_scheme :: "path \<Rightarrow> string \<Rightarrow> field_error list" where
  "http_scheme p s =
     fail_if (s \<noteq> [] \<and> \<not> has_prefix s ''http://'' \<and> \<not> has_prefix s ''https://'')
       (FInvalid p (Msg ''url must use the http:// or https:// scheme'' []))"

fun scope_errors :: "path \<Rightarrow> nat \<Rightarrow> string list \<Rightarrow> field_error list" where
  "scope_errors p i [] = []"
| "scope_errors p i (s # ss) = directive_safe (path_index p i) s @ scope_errors p (Suc i) ss"

definition endpoint_fields :: "OIDCEndpointsSpec \<Rightarrow> (string \<times> string) list" where
  "endpoint_fields e =
     [(''authorizationEndpoint'', oe_authorization e), (''tokenEndpoint'', oe_token e), (''jwksURI'', oe_jwks e),
      (''userinfoEndpoint'', oe_userinfo e), (''endSessionEndpoint'', oe_end_session e), (''introspectionEndpoint'', oe_introspection e)]"

definition introspection_enabled :: "OIDCBackendSpec \<Rightarrow> bool" where
  "introspection_enabled o1 = (case oi_introspection o1 of None \<Rightarrow> False | Some i \<Rightarrow> oi_enabled i)"

definition endpoints_errors :: "path \<Rightarrow> OIDCBackendSpec \<Rightarrow> field_error list" where
  "endpoints_errors p o1 =
     (case oi_endpoints o1 of
        None \<Rightarrow> []
      | Some e \<Rightarrow>
          concat (map (\<lambda>(n, v). http_scheme (path_child p n) v @ directive_safe (path_child p n) v) (endpoint_fields e)) @
          (if introspection_enabled o1
           then (if oe_introspection e = []
                 then [FRequired (path_child p ''introspectionEndpoint'')
                         (Msg ''introspectionEndpoint must be set when oauth2Introspection is enabled with explicit endpoints'' [])]
                 else fail_if (\<not> has_prefix (oe_introspection e) ''https://'')
                        (FInvalid (path_child p ''introspectionEndpoint'')
                           (Msg ''introspectionEndpoint must use https:// (mod_auth_openidc rejects http introspection endpoints)'' [])))
           else []))"

definition validateOIDC :: "path \<Rightarrow> OIDCBackendSpec \<Rightarrow> field_error list" where
  "validateOIDC p o1 =
     http_scheme (path_child p ''issuer'') (oi_issuer o1) @
     fail_if (oi_issuer o1 = []) (FRequired (path_child p ''issuer'') (Msg ''issuer must be set'' [])) @
     http_scheme (path_child p ''providerMetadataURL'') (oi_metadata_url o1) @
     fail_if (oi_metadata_url o1 \<noteq> [] \<and> oi_endpoints o1 \<noteq> None)
       (FInvalid (path_child p ''endpoints'') (Msg ''providerMetadataURL and endpoints are mutually exclusive'' [])) @
     directive_safe (path_child p ''issuer'') (oi_issuer o1) @
     directive_safe (path_child p ''providerMetadataURL'') (oi_metadata_url o1) @
     directive_safe (path_child p ''clientID'') (oi_client_id o1) @
     directive_safe (path_child p ''protocolID'') (oi_protocol o1) @
     directive_safe (path_child p ''identityProviderName'') (oi_idp_name o1) @
     directive_safe (path_child p ''remoteIDAttribute'') (oi_remote_attribute o1) @
     directive_safe (path_child p ''responseType'') (oi_response_type o1) @
     scope_errors (path_child p ''scopes'') 0 (oi_scopes o1) @
     endpoints_errors (path_child p ''endpoints'') o1 @
     fail_if (sr_key (oi_client_secret o1) \<noteq> [])
       (FInvalid (path_child (path_child p ''clientSecretRef'') ''key'')
          (Msg ''key must be empty: the client Secret's data key is fixed (\"clientSecret\")'' []))"

section \<open>SAML\<close>

definition samlReservedSections :: "string list" where
  "samlReservedSections =
     [''DEFAULT'', ''database'', ''cache'', ''memcache'', ''identity'', ''token'', ''fernet_tokens'', ''credential'', ''auth'',
      ''federation'', ''openid'', ''paste_deploy'', ''oslo_middleware'', ''oslo_policy'']"

fun forward_attribute_errors :: "path \<Rightarrow> nat \<Rightarrow> string list \<Rightarrow> string list \<Rightarrow> field_error list" where
  "forward_attribute_errors p i seen [] = []"
| "forward_attribute_errors p i seen (a # as) =
     (if \<not> samlForwardAttributePattern a
      then FInvalid (path_index p i) (Msg ''forwardAttributes entry must match ^[A-Za-z0-9_]+$ (it renders into Apache header directives)'' []) #
           forward_attribute_errors p (Suc i) seen as
      else if a \<in> set seen then FDuplicate (path_index p i) a # forward_attribute_errors p (Suc i) seen as
      else forward_attribute_errors p (Suc i) (a # seen) as)"

definition metadata_sources :: "SAMLIdPMetadataSpec \<Rightarrow> nat" where
  "metadata_sources m =
     (if sm_inline m \<noteq> [] then 1 else 0) + (if sm_secret m \<noteq> None then 1 else 0) + (if sm_url m \<noteq> [] then 1 else 0)"

definition inline_metadata_errors :: "(string \<Rightarrow> (string \<times> string) result) \<Rightarrow> path \<Rightarrow> SAMLBackendSpec \<Rightarrow> field_error list" where
  "inline_metadata_errors xml_root p s =
     (if sm_inline (sb_metadata s) = [] then []
      else case SAMLEntityIDFromMetadata xml_root (sm_inline (sb_metadata s)) of
        Inl e \<Rightarrow> [FInvalid p (Msg ''inline IdP metadata is not a single SAML EntityDescriptor: %v'' [Wrap e])]
      | Inr entity \<Rightarrow>
          fail_if (sb_entity s \<noteq> [] \<and> entity \<noteq> sb_entity s)
            (FInvalid p (Msg ''inline IdP metadata entityID %q does not match spec.saml.idpEntityID %q'' [Str entity, Str (sb_entity s)])))"

definition secret_key_set :: "SecretRefSpec option \<Rightarrow> bool" where
  "secret_key_set r = (case r of None \<Rightarrow> False | Some x \<Rightarrow> sr_key x \<noteq> [])"

definition validateSAML :: "(string \<Rightarrow> (string \<times> string) result) \<Rightarrow> path \<Rightarrow> SAMLBackendSpec \<Rightarrow> field_error list" where
  "validateSAML xml_root p s =
     (let m = path_child p ''idpMetadata''; md = sb_metadata s in
      fail_if (sb_entity s = []) (FRequired (path_child p ''idpEntityID'') (Msg ''idpEntityID must be set'' [])) @
      directive_safe (path_child p ''idpEntityID'') (sb_entity s) @
      directive_safe (path_child p ''protocolID'') (sb_protocol s) @
      directive_safe (path_child p ''identityProviderName'') (sb_idp_name s) @
      directive_safe (path_child p ''remoteIDAttribute'') (sb_remote_attribute s) @
      fail_if (sb_remote_attribute s \<noteq> [] \<and> \<not> samlRemoteIDAttributePattern (sb_remote_attribute s))
        (FInvalid (path_child p ''remoteIDAttribute'')
           (Msg ''remoteIDAttribute must match ^HTTP_[A-Za-z0-9_]+$ (it is conveyed to keystone as a request header across the sidecar hop)'' [])) @
      fail_if (sb_protocol s \<in> set samlReservedSections)
        (FInvalid (path_child p ''protocolID'')
           (Msg ''protocolID %q collides with the operator-owned keystone.conf section of the same name'' [Str (sb_protocol s)])) @
      forward_attribute_errors (path_child p ''forwardAttributes'') 0 [] (sb_attributes s) @
      fail_if (metadata_sources md \<noteq> 1) (FInvalid m (Msg ''exactly one of inline, secretRef, or url must be set'' [])) @
      fail_if (sm_url md \<noteq> [] \<and> \<not> has_prefix (sm_url md) ''https://'')
        (FInvalid (path_child m ''url'')
           (Msg ''url must use https:// (the IdP metadata carries the assertion-signing certificate; a plaintext fetch lets an on-path attacker substitute the trust anchor)'' [])) @
      fail_if (secret_key_set (sm_secret md))
        (FInvalid (path_child (path_child m ''secretRef'') ''key'')
           (Msg ''key must be empty: the metadata Secret's data key is fixed (\"idp-metadata.xml\")'' [])) @
      inline_metadata_errors xml_root (path_child m ''inline'') s @
      fail_if (case sb_sp s of None \<Rightarrow> False | Some x \<Rightarrow> secret_key_set (sp_certificate x))
        (FInvalid (path_child (path_child (path_child p ''sp'') ''certificateSecretRef'') ''key'')
           (Msg ''key must be empty: the SP certificate Secret's data keys are fixed (\"tls.crt\" and \"tls.key\")'' [])))"

section \<open>Mappings and groups\<close>

definition remote_type_errors :: "path \<Rightarrow> string \<Rightarrow> field_error list" where
  "remote_type_errors p ty =
     (if ty = [] then [FRequired p (Msg ''remote.type must be set'' [])]
      else fail_if (\<not> remoteTypePattern ty)
             (FInvalid p (Msg ''remote.type must match ^[A-Za-z0-9_-]+$ (it renders into Apache header directives)'' [])))"

fun remote_errors :: "path \<Rightarrow> nat \<Rightarrow> MappingRemoteRuleSpec list \<Rightarrow> field_error list" where
  "remote_errors p j [] = []"
| "remote_errors p j (r # rs) = remote_type_errors (path_child (path_index p j) ''type'') (mo_type r) @ remote_errors p (Suc j) rs"

fun mapping_errors :: "path \<Rightarrow> nat \<Rightarrow> MappingRuleSpec list \<Rightarrow> field_error list" where
  "mapping_errors p i [] = []"
| "mapping_errors p i (r # rs) =
     (let q = path_index p i in
      fail_if (mr_local r = []) (FRequired (path_child q ''local'') (Msg ''every mapping rule needs at least one local entry'' [])) @
      fail_if (mr_remote r = []) (FRequired (path_child q ''remote'') (Msg ''every mapping rule needs at least one remote entry'' [])) @
      remote_errors (path_child q ''remote'') 0 (mr_remote r) @ mapping_errors p (Suc i) rs)"

definition validateMappings :: "path \<Rightarrow> MappingRuleSpec list \<Rightarrow> field_error list" where
  "validateMappings p rules = mapping_errors p 0 rules"

fun assignment_errors :: "path \<Rightarrow> nat \<Rightarrow> FederationRoleAssignmentSpec list \<Rightarrow> field_error list" where
  "assignment_errors p j [] = []"
| "assignment_errors p j (a # as) =
     (let q = path_index p j in
      fail_if (fra_role a = []) (FRequired (path_child q ''role'') (Msg ''role must be set'' [])) @
      fail_if ((fra_project a \<noteq> None) = fra_domain a) (FInvalid q (Msg ''exactly one of project or domain must be set'' [])) @
      assignment_errors p (Suc j) as)"

fun group_errors :: "path \<Rightarrow> nat \<Rightarrow> string list \<Rightarrow> FederationGroupSpec list \<Rightarrow> field_error list" where
  "group_errors p i seen [] = []"
| "group_errors p i seen (g # gs) =
     (let q = path_index p i; n = fg_name g in
      (if n = [] then [FRequired (path_child q ''name'') (Msg ''group name must be set'' [])]
       else if n \<in> set seen then [FDuplicate (path_child q ''name'') n] else []) @
      assignment_errors (path_child q ''roleAssignments'') 0 (fg_roles g) @
      group_errors p (Suc i) (if n = [] then seen else n # seen) gs)"

definition validateGroups :: "path \<Rightarrow> FederationGroupSpec list \<Rightarrow> field_error list" where
  "validateGroups p groups = group_errors p 0 [] groups"

section \<open>The other backends of the Keystone\<close>

definition is_sibling :: "KeystoneIdentityBackend \<Rightarrow> KeystoneIdentityBackend \<Rightarrow> bool" where
  "is_sibling b x \<longleftrightarrow>
     kb_name x \<noteq> kb_name b \<and> \<not> m_deleting (kb_meta x) \<and> ib_keystone (kb_spec x) = ib_keystone (kb_spec b)"

definition oidc_sibling_errors :: "path \<Rightarrow> KeystoneIdentityBackend \<Rightarrow> KeystoneIdentityBackend \<Rightarrow> field_error list" where
  "oidc_sibling_errors p b x =
     (case (ib_oidc (kb_spec b), ib_oidc (kb_spec x)) of
        (Some o1, Some o2) \<Rightarrow>
          fail_if (EffectiveRemoteIDAttribute b \<noteq> EffectiveRemoteIDAttribute x)
            (FInvalid (path_child (path_child p ''oidc'') ''remoteIDAttribute'')
               (Msg ''remoteIDAttribute must be uniform across all OIDC backends of Keystone %q (it renders into the single [openid] section); KeystoneIdentityBackend %q uses %q''
                  [Str (ib_keystone (kb_spec b)), Str (kb_name x), Str (EffectiveRemoteIDAttribute x)])) @
          fail_if (introspection_enabled o1 \<and> introspection_enabled o2)
            (FInvalid (path_child (path_child (path_child p ''oidc'') ''oauth2Introspection'') ''enabled'')
               (Msg ''at most one OIDC backend per Keystone may enable oauth2Introspection (mod_auth_openidc's OIDCOAuth* directives are server-scoped); KeystoneIdentityBackend %q already enables it''
                  [Str (kb_name x)]))
      | _ \<Rightarrow> [])"

definition sibling_errors ::
  "(string \<Rightarrow> string \<Rightarrow> bool) \<Rightarrow> path \<Rightarrow> KeystoneIdentityBackend \<Rightarrow> KeystoneIdentityBackend \<Rightarrow> field_error list" where
  "sibling_errors equal_fold p b x =
     (if \<not> is_sibling b x then []
      else
        fail_if (equal_fold (do_name (ib_domain (kb_spec x))) (do_name (ib_domain (kb_spec b))))
          (FInvalid (path_child (path_child p ''domain'') ''name'')
             (Msg ''domain name collides with KeystoneIdentityBackend %q attached to the same Keystone %q (comparison is case-insensitive)''
                [Str (kb_name x), Str (ib_keystone (kb_spec b))])) @
        fail_if (IsFederationType b \<and> IsFederationType x \<and> EffectiveIdentityProviderName b = EffectiveIdentityProviderName x)
          (FInvalid (path_child (path_child p (if ib_saml (kb_spec b) \<noteq> None then ''saml'' else ''oidc'')) ''identityProviderName'')
             (Msg ''identity provider name collides with KeystoneIdentityBackend %q attached to the same Keystone %q''
                [Str (kb_name x), Str (ib_keystone (kb_spec b))])) @
        fail_if (ib_saml (kb_spec b) \<noteq> None \<and> ib_saml (kb_spec x) \<noteq> None)
          (FInvalid (path_child p ''saml'')
             (Msg ''at most one SAML backend per Keystone %q is supported (the mod_auth_mellon SP configuration projects onto a shared /v3 parent Location); KeystoneIdentityBackend %q already provides one''
                [Str (ib_keystone (kb_spec b)), Str (kb_name x)])) @
        oidc_sibling_errors p b x)"

definition validateSiblingBackends ::
  "(string \<Rightarrow> string \<Rightarrow> bool) \<Rightarrow> (KeystoneIdentityBackend, 'w) kclient option \<Rightarrow> path \<Rightarrow> KeystoneIdentityBackend \<Rightarrow> 'w \<Rightarrow> field_error list" where
  "validateSiblingBackends equal_fold client p b w =
     (case client of
        None \<Rightarrow> []
      | Some C \<Rightarrow>
          (case k_list C (m_namespace (kb_meta b)) [] w of
             Inl e \<Rightarrow> [FInternal (path_child (path_child p ''domain'') ''name'')
                        (Errorf ''listing KeystoneIdentityBackends for the cross-backend checks: %w'' [Wrap e])]
           | Inr xs \<Rightarrow> concat (map (sibling_errors equal_fold p b) xs)))"

section \<open>Validation\<close>

definition block_matches :: "path \<Rightarrow> string \<Rightarrow> KeystoneIdentityBackend \<Rightarrow> string \<Rightarrow> bool \<Rightarrow> field_error list" where
  "block_matches p block b ty present =
     fail_if ((kb_type b = ty) \<noteq> present)
       (FInvalid (path_child p block)
          (Msg (''exactly one backend block matching spec.type must be set (type '' @ ty @ '' requires spec.'' @ block @ '')'') []))"

definition type_errors :: "path \<Rightarrow> KeystoneIdentityBackend \<Rightarrow> field_error list" where
  "type_errors p b =
     (let s = kb_spec b in
      block_matches p ''ldap'' b IdentityBackendTypeLDAP (ib_ldap s \<noteq> None) @
      block_matches p ''oidc'' b IdentityBackendTypeOIDC (ib_oidc s \<noteq> None) @
      block_matches p ''saml'' b IdentityBackendTypeSAML (ib_saml s \<noteq> None) @
      fail_if (ib_mappings s \<noteq> [] \<and> kb_type b = IdentityBackendTypeLDAP)
        (FInvalid (path_child p ''mappings'') (Msg ''mappings are only supported on federation backends (type OIDC or SAML)'' [])) @
      fail_if (ib_groups s \<noteq> [] \<and> kb_type b = IdentityBackendTypeLDAP)
        (FInvalid (path_child p ''groups'') (Msg ''groups are only supported on federation backends (type OIDC or SAML)'' [])) @
      fail_if (ib_extra s \<noteq> [] \<and> kb_type b \<noteq> IdentityBackendTypeLDAP)
        (FInvalid (path_child p ''extraOptions'') (Msg ''extraOptions carries [ldap] section options and is only supported on type LDAP'' [])))"

definition domain_errors :: "(string \<Rightarrow> string \<Rightarrow> bool) \<Rightarrow> path \<Rightarrow> KeystoneIdentityBackend \<Rightarrow> field_error list" where
  "domain_errors equal_fold p b =
     (let n = do_name (ib_domain (kb_spec b)); q = path_child (path_child p ''domain'') ''name'' in
      if equal_fold n ''default''
      then [FInvalid q (Msg ''the Default domain hosts the SQL-backed service users and the bootstrap admin and must never be backed by an external identity backend'' [])]
      else fail_if (n = []) (FRequired q (Msg ''domain.name must be set'' [])))"

definition ib_errors ::
  "(string \<Rightarrow> string \<Rightarrow> bool) \<Rightarrow> (string \<Rightarrow> (string \<times> string) result) \<Rightarrow> (KeystoneIdentityBackend, 'w) kclient option \<Rightarrow>
   KeystoneIdentityBackend \<Rightarrow> 'w \<Rightarrow> field_error list" where
  "ib_errors equal_fold xml_root client b w =
     (let p = [PChild ''spec'']; s = kb_spec b in
      fail_if (ib_keystone s = []) (FRequired (path_child (path_child p ''keystoneRef'') ''name'') (Msg ''keystoneRef.name must be set'' [])) @
      type_errors p b @ domain_errors equal_fold p b @
      (case ib_ldap s of None \<Rightarrow> [] | Some l \<Rightarrow> validateLDAP (path_child p ''ldap'') l) @
      (case ib_oidc s of None \<Rightarrow> [] | Some x \<Rightarrow> validateOIDC (path_child p ''oidc'') x) @
      (case ib_saml s of None \<Rightarrow> [] | Some x \<Rightarrow> validateSAML xml_root (path_child p ''saml'') x) @
      validateMappings (path_child p ''mappings'') (ib_mappings s) @ validateGroups (path_child p ''groups'') (ib_groups s) @
      validateExtraOptions (path_child p ''extraOptions'') b @ validateSiblingBackends equal_fold client p b w)"

text \<open>The rejection is \<open>apierrors.NewInvalid\<close> with the name of the resource and all the errors.\<close>

definition ib_validate ::
  "(string \<Rightarrow> string \<Rightarrow> bool) \<Rightarrow> (string \<Rightarrow> (string \<times> string) result) \<Rightarrow> (KeystoneIdentityBackend, 'w) kclient option \<Rightarrow>
   KeystoneIdentityBackend \<Rightarrow> 'w \<Rightarrow> (string \<times> field_error list) option" where
  "ib_validate equal_fold xml_root client b w =
     (let errs = ib_errors equal_fold xml_root client b w in if errs = [] then None else Some (kb_name b, errs))"

definition ib_ValidateCreate ::
  "(string \<Rightarrow> string \<Rightarrow> bool) \<Rightarrow> (string \<Rightarrow> (string \<times> string) result) \<Rightarrow> (KeystoneIdentityBackend, 'w) kclient option \<Rightarrow>
   KeystoneIdentityBackend \<Rightarrow> 'w \<Rightarrow> (string \<times> field_error list) option" where
  "ib_ValidateCreate = ib_validate"

definition ib_ValidateUpdate ::
  "(string \<Rightarrow> string \<Rightarrow> bool) \<Rightarrow> (string \<Rightarrow> (string \<times> string) result) \<Rightarrow> (KeystoneIdentityBackend, 'w) kclient option \<Rightarrow>
   KeystoneIdentityBackend \<Rightarrow> KeystoneIdentityBackend \<Rightarrow> 'w \<Rightarrow> (string \<times> field_error list) option" where
  "ib_ValidateUpdate equal_fold xml_root client old new w = ib_validate equal_fold xml_root client new w"

definition ib_ValidateDelete :: "KeystoneIdentityBackend \<Rightarrow> (string \<times> field_error list) option" where
  "ib_ValidateDelete b = None"

end
