(* ===== verification/KeystoneBackends.thy ===== *)
theory KeystoneBackends
  imports KeystoneFederation IdentityBackendAdmission
begin

text \<open>
  The step that projects the identity backends of a Keystone into its configuration:
  \<open>operators/keystone/internal/controller/reconcile_identitybackends.go\<close>.
\<close>

definition conditionTypeIdentityBackendsReady :: string where "conditionTypeIdentityBackendsReady = ''IdentityBackendsReady''"
definition conditionTypeDomainReady :: string where "conditionTypeDomainReady = ''DomainReady''"
definition conditionTypeConfigProjected :: string where "conditionTypeConfigProjected = ''ConfigProjected''"
definition identityBackendFinalizerName :: string where
  "identityBackendFinalizerName = ''keystone.openstack.c5c3.io/identitybackend''"
definition maxRenderedDomainConfBytes :: nat where "maxRenderedDomainConfBytes = 256 * 1024"

definition domainConfFileName :: "string \<Rightarrow> string" where "domainConfFileName domain = ''keystone.'' @ domain @ ''.conf''"
definition domainCAFileName :: "string \<Rightarrow> string" where "domainCAFileName domain = domain @ ''-ca.pem''"
definition domainsSecretBaseName :: "Keystone \<Rightarrow> string" where "domainsSecretBaseName k = ko_name k @ ''-domains''"

abbreviation backend_domain :: "KeystoneIdentityBackend \<Rightarrow> string" where
  "backend_domain b \<equiv> do_name (ib_domain (kb_spec b))"

section \<open>The configuration of an LDAP domain\<close>

definition put_if_set :: "string \<Rightarrow> string \<Rightarrow> string gomap \<Rightarrow> string gomap" where
  "put_if_set key v m = (if v \<noteq> [] then map_put key v m else m)"

definition ldap_user_options :: "LDAPBackendSpec \<Rightarrow> string \<Rightarrow> string \<Rightarrow> string gomap" where
  "ldap_user_options l user password =
     put_if_set ''user_mail_attribute'' (lu_mail (ld_users l))
      (put_if_set ''user_name_attribute'' (lu_name (ld_users l))
       (put_if_set ''user_id_attribute'' (lu_id (ld_users l))
        (put_if_set ''user_objectclass'' (lu_class (ld_users l))
         (put_if_set ''user_filter'' (lu_filter (ld_users l))
           [(''url'', ld_url l), (''suffix'', ld_suffix l), (''user'', user), (''password'', password),
            (''user_tree_dn'', lu_tree (ld_users l))]))))"

definition ldap_group_options :: "LDAPGroupSpec option \<Rightarrow> string gomap \<Rightarrow> string gomap" where
  "ldap_group_options g m =
     (case g of
        None \<Rightarrow> m
      | Some x \<Rightarrow>
          put_if_set ''group_member_attribute'' (lg_member x)
           (put_if_set ''group_name_attribute'' (lg_name x)
            (put_if_set ''group_id_attribute'' (lg_id x)
             (put_if_set ''group_objectclass'' (lg_class x)
              (put_if_set ''group_filter'' (lg_filter x) (map_put ''group_tree_dn'' (lg_tree x) m))))))"

definition ldap_tls_options :: "KeystoneIdentityBackend \<Rightarrow> LDAPBackendSpec \<Rightarrow> string gomap \<Rightarrow> string gomap" where
  "ldap_tls_options b l m =
     (if ld_tls l = None then m
      else map_put ''tls_cacertfile'' (domainsMountPath @ ''/'' @ domainCAFileName (backend_domain b)) m)"

definition show_bool :: "bool \<Rightarrow> string" where
  "show_bool b = (if b then ''true'' else ''false'')"

definition ldap_pool_options :: "LDAPPoolSpec option \<Rightarrow> string gomap \<Rightarrow> string gomap" where
  "ldap_pool_options p m =
     (case p of
        None \<Rightarrow> m
      | Some x \<Rightarrow>
          (let m1 = map_put ''use_pool'' (show_bool (lp_enabled x)) m
           in case lp_size x of None \<Rightarrow> m1 | Some n \<Rightarrow> map_put ''pool_size'' (show_int n) m1))"

definition enabled_options :: "string gomap \<Rightarrow> string gomap \<Rightarrow> string gomap" where
  "enabled_options extra m =
     (if list_ex (\<lambda>(key, v). has_prefix key ''user_enabled_'') extra then m
      else map_put ''user_enabled_default'' ''false'' (map_put ''user_enabled_invert'' ''true'' m))"

definition read_only_options :: "LDAPBackendSpec \<Rightarrow> string gomap \<Rightarrow> string gomap" where
  "read_only_options l m =
     (if ld_read_only l = None \<or> ld_read_only l = Some True
      then fold (\<lambda>opt. map_put opt ''false'') ReadOnlyForcedOptions m else m)"

definition ldap_options :: "KeystoneIdentityBackend \<Rightarrow> LDAPBackendSpec \<Rightarrow> string \<Rightarrow> string \<Rightarrow> string gomap" where
  "ldap_options b l user password =
     (let m = read_only_options l (enabled_options (ib_extra (kb_spec b)) (ldap_pool_options (ld_pool l)
                (ldap_tls_options b l (ldap_group_options (ld_groups l) (ldap_user_options l user password)))))
      in fold (\<lambda>(key, v) m. map_put key v m) (ib_extra (kb_spec b)) m)"

definition first_control_char :: "string gomap \<Rightarrow> err option" where
  "first_control_char m =
     (case find (\<lambda>key. hasControlChars key \<or> hasControlChars (blank_value m key)) (sorted_keys m) of
        None \<Rightarrow> None
      | Some key \<Rightarrow> Some (Errorf ''[ldap] option %q: %w'' [Str key, Wrap errControlCharInValue]))"

definition ldap_ca :: "('u, 'w) federation_env \<Rightarrow> string \<Rightarrow> LDAPBackendSpec \<Rightarrow> 'w \<Rightarrow> string option result" where
  "ldap_ca E namespace l w =
     (case ld_tls l of
        None \<Rightarrow> Inr None
      | Some t \<Rightarrow>
          (case GetSecretValue (fx_eso E) (namespace, sr_name (lt_ca t)) ''ca.crt'' w of
             Inl e \<Rightarrow> Inl e
           | Inr ca \<Rightarrow> Inr (Some ca)))"

definition renderDomainConf ::
  "('u, 'w) federation_env \<Rightarrow> string \<Rightarrow> KeystoneIdentityBackend \<Rightarrow> 'w \<Rightarrow> (string \<times> string option) result" where
  "renderDomainConf E namespace b w =
     (case ib_ldap (kb_spec b) of
        None \<Rightarrow> Inl (Errorf ''backend %s has type %s but no ldap block'' [Str (kb_name b), Str (kb_type b)])
      | Some l \<Rightarrow>
          (let bind = (namespace, sr_name (ld_bind l)) in
           case GetSecretValue (fx_eso E) bind ''username'' w of
             Inl e \<Rightarrow> Inl e
           | Inr user \<Rightarrow>
               (case GetSecretValue (fx_eso E) bind ''password'' w of
                  Inl e \<Rightarrow> Inl e
                | Inr password \<Rightarrow>
                    (case ldap_ca E namespace l w of
                       Inl e \<Rightarrow> Inl e
                     | Inr ca \<Rightarrow>
                         (let m = ldap_options b l (trim_right newline_chars user) (trim_right newline_chars password) in
                          case first_control_char m of
                            Some e \<Rightarrow> Inl e
                          | None \<Rightarrow> Inr (RenderINI [(''identity'', [(''driver'', ''ldap'')]), (''ldap'', m)], ca))))))"

section \<open>Which backends are projected\<close>

text \<open>The names that claim a domain, an issuer's file name, and SAML, in the order of the sorted list.\<close>

definition domain_owners :: "KeystoneIdentityBackend list \<Rightarrow> KeystoneIdentityBackend \<Rightarrow> string list" where
  "domain_owners bs b = map kb_name (filter (\<lambda>x. to_lower (backend_domain x) = to_lower (backend_domain b)) bs)"

definition issuer_owners :: "KeystoneIdentityBackend list \<Rightarrow> string \<Rightarrow> string list" where
  "issuer_owners bs issuer =
     map kb_name (filter (\<lambda>x. kb_type x = IdentityBackendTypeOIDC \<and>
       (case ib_oidc (kb_spec x) of None \<Rightarrow> False
        | Some c \<Rightarrow> issuerToMetadataBasename (oi_issuer c) = issuerToMetadataBasename issuer)) bs)"

definition saml_backends :: "KeystoneIdentityBackend list \<Rightarrow> string list" where
  "saml_backends bs = map kb_name (filter (\<lambda>x. \<not> m_deleting (kb_meta x) \<and> kb_type x = IdentityBackendTypeSAML) bs)"

text \<open>What the loop over the backends accumulates.\<close>

record projections =
  pj_data :: "string gomap"
  pj_oidc :: "oidcRender list"
  pj_saml :: "samlRender list"
  pj_remote_id :: string
  pj_warned :: bool
  pj_pending :: "msg list"

definition no_projections :: projections where
  "no_projections = \<lparr>pj_data = [], pj_oidc = [], pj_saml = [], pj_remote_id = [], pj_warned = False, pj_pending = []\<rparr>"

definition pend :: "string \<Rightarrow> farg list \<Rightarrow> projections \<Rightarrow> projections" where
  "pend text args p = p\<lparr>pj_pending := pj_pending p @ [Msg text args]\<rparr>"

definition skipped :: "('u, 'w) federation_env \<Rightarrow> msg \<Rightarrow> 'w \<Rightarrow> 'w" where
  "skipped E m w = fx_log E \<lparr>ev_type = EvWarning, ev_reason = ''IdentityBackendSkipped'', ev_message = m\<rparr> w"

text \<open>A backend whose rendering failed is skipped, unless the error is one the pass fails with.\<close>

definition skip_on ::
  "('u, 'w) federation_env \<Rightarrow> (err \<Rightarrow> bool) \<Rightarrow> string \<Rightarrow> KeystoneIdentityBackend \<Rightarrow> err \<Rightarrow> projections \<times> 'w \<Rightarrow> projections result \<times> 'w" where
  "skip_on E tolerated text b e s =
     (let (p, w) = s in
      if tolerated e
      then (Inr (pend ''%s (%v)'' [Str (kb_name b), Val e] p),
            skipped E (Msg ''Skipping identity backend %s: %v'' [Str (kb_name b), Val e]) w)
      else (Inl (Errorf (text @ '' for backend %s: %w'') [Str (kb_name b), Wrap e]), w))"

definition too_large ::
  "('u, 'w) federation_env \<Rightarrow> string \<Rightarrow> string \<Rightarrow> nat \<Rightarrow> KeystoneIdentityBackend \<Rightarrow> projections \<times> 'w \<Rightarrow> projections result \<times> 'w" where
  "too_large E what unit n b s =
     (let (p, w) = s in
      (Inr (pend (''%s (rendered '' @ what @ '' too large: %d bytes)'') [Str (kb_name b), Num (int n)] p),
       skipped E (Msg (''Skipping identity backend %s: rendered '' @ what @ '' is %d bytes, exceeding the %d-byte '' @ unit @ '' budget'')
         [Str (kb_name b), Num (int n), Num (int maxRenderedDomainConfBytes)]) w))"

definition federation_skip :: "err \<Rightarrow> bool" where
  "federation_skip e \<longleftrightarrow> IsMissingSecretOrKey e \<or> control_char_error e \<or> metadata_unavailable e"

definition domain_skip :: "err \<Rightarrow> bool" where
  "domain_skip e \<longleftrightarrow> IsMissingSecretOrKey e \<or> control_char_error e"

definition project_saml ::
  "('u, 'w) federation_env \<Rightarrow> Keystone \<Rightarrow> KeystoneIdentityBackend list \<Rightarrow> KeystoneIdentityBackend \<Rightarrow> projections \<times> 'w \<Rightarrow>
     projections result \<times> 'w" where
  "project_saml E k bs b s =
     (let (p, w) = s in
      if length (saml_backends bs) > 1
      then (Inr (pend ''%s (more than one SAML backend attached: %s)'' [Str (kb_name b), Str (str_join '', '' (saml_backends bs))] p), w)
      else case renderSAMLBackend E k b w of
        (Inl e, w') \<Rightarrow> skip_on E federation_skip ''rendering SAML config'' b e (p, w')
      | (Inr r, w') \<Rightarrow>
          (let n = length (sl_idp_metadata r) + length (sl_sp_metadata r) + length (sl_key r) + length (sl_cert r) in
           if n > maxRenderedDomainConfBytes then too_large E ''SAML config'' ''per-backend'' n b (p, w')
           else (Inr (p\<lparr>pj_saml := pj_saml p @ [r]\<rparr>), w')))"

definition project_oidc ::
  "('u, 'w) federation_env \<Rightarrow> Keystone \<Rightarrow> KeystoneIdentityBackend list \<Rightarrow> KeystoneIdentityBackend \<Rightarrow> projections \<times> 'w \<Rightarrow>
     projections result \<times> 'w" where
  "project_oidc E k bs b s =
     (let (p, w) = s;
          issuer = block_field oi_issuer (ib_oidc (kb_spec b)) in
      if ib_oidc (kb_spec b) \<noteq> None \<and> length (issuer_owners bs issuer) > 1
      then (Inr (pend ''%s (issuer %q collides with %s at the mod_auth_openidc metadata filename)''
                   [Str (kb_name b), Str issuer, Str (str_join '', '' (issuer_owners bs issuer))] p), w)
      else case renderOIDCBackend E k b w of
        (Inl e, w') \<Rightarrow> skip_on E federation_skip ''rendering federation config'' b e (p, w')
      | (Inr r, w') \<Rightarrow>
          (let n = length (or_provider r) + length (or_client r) + length (or_conf r) in
           if n > maxRenderedDomainConfBytes then too_large E ''federation config'' ''per-backend'' n b (p, w')
           else (Inr (p\<lparr>pj_oidc := pj_oidc p @ [r],
                   pj_remote_id := (if pj_remote_id p = [] then EffectiveRemoteIDAttribute b else pj_remote_id p)\<rparr>), w')))"

definition project_ldap ::
  "('u, 'w) federation_env \<Rightarrow> Keystone \<Rightarrow> KeystoneIdentityBackend \<Rightarrow> projections \<times> 'w \<Rightarrow> projections result \<times> 'w" where
  "project_ldap E k b s =
     (let (p, w) = s in
      case renderDomainConf E (ko_namespace k) b w of
        Inl e \<Rightarrow> skip_on E domain_skip ''rendering domain config'' b e (p, w)
      | Inr (conf, ca) \<Rightarrow>
          (let n = length conf + (case ca of None \<Rightarrow> 0 | Some c \<Rightarrow> length c) in
           if n > maxRenderedDomainConfBytes then too_large E ''config'' ''per-domain'' n b (p, w)
           else (let m = map_put (domainConfFileName (backend_domain b)) conf (pj_data p)
                 in (Inr (p\<lparr>pj_data := (case ca of None \<Rightarrow> m | Some c \<Rightarrow> map_put (domainCAFileName (backend_domain b)) c m)\<rparr>), w))))"

definition proxy_missing ::
  "('u, 'w) federation_env \<Rightarrow> KeystoneIdentityBackend \<Rightarrow> projections \<times> 'w \<Rightarrow> projections result \<times> 'w" where
  "proxy_missing E b s =
     (let (p, w) = s in
      (Inr (pend ''%s (spec.federation.proxyImage not set)'' [Str (kb_name b)] (p\<lparr>pj_warned := True\<rparr>)),
       if pj_warned p then w
       else fx_log E \<lparr>ev_type = EvWarning, ev_reason = ''FederationProxyImageMissing'',
              ev_message = Msg (''Identity backend %s is pending: spec.federation.proxyImage is not set '' @ [CHR 0xE2, CHR 0x80, CHR 0x94] @
                '' configure the federation sidecar image before attaching federation backends'') [Str (kb_name b)]\<rparr> w))"

definition project_backend ::
  "('u, 'w) federation_env \<Rightarrow> Keystone \<Rightarrow> KeystoneIdentityBackend list \<Rightarrow> KeystoneIdentityBackend \<Rightarrow> projections \<times> 'w \<Rightarrow>
     projections result \<times> 'w" where
  "project_backend E k bs b s =
     (let (p, w) = s in
      if m_deleting (kb_meta b) then (Inr p, w)
      else if length (domain_owners bs b) > 1
      then (Inr (pend ''%s (duplicate domain %q also claimed by %s)''
                   [Str (kb_name b), Str (backend_domain b), Str (str_join '', '' (domain_owners bs b))] p), w)
      else if \<not> cond_true (fx_meta E) (kb_conditions b) conditionTypeDomainReady
      then (Inr (pend ''%s (domain %q not ready)'' [Str (kb_name b), Str (backend_domain b)] p), w)
      else if IsFederationType b
      then (if proxy_image k = None then proxy_missing E b (p, w)
            else if kb_type b = IdentityBackendTypeSAML then project_saml E k bs b (p, w)
            else project_oidc E k bs b (p, w))
      else project_ldap E k b (p, w))"

fun project_backends ::
  "('u, 'w) federation_env \<Rightarrow> Keystone \<Rightarrow> KeystoneIdentityBackend list \<Rightarrow> KeystoneIdentityBackend list \<Rightarrow> projections \<times> 'w \<Rightarrow>
     projections result \<times> 'w" where
  "project_backends E k bs [] (p, w) = (Inr p, w)"
| "project_backends E k bs (b # rest) (p, w) =
     (case project_backend E k bs b (p, w) of
        (Inl e, w') \<Rightarrow> (Inl e, w')
      | (Inr p', w') \<Rightarrow> project_backends E k bs rest (p', w'))"

section \<open>The step\<close>

definition backends_condition :: "meta_api \<Rightarrow> cstatus \<Rightarrow> string \<Rightarrow> msg \<Rightarrow> Keystone \<Rightarrow> Keystone" where
  "backends_condition K st reason m k =
     put_conditions (SetCondition K (ko_conditions k) (mk_condition conditionTypeIdentityBackendsReady st (ko_generation k) reason m)) k"

definition domains_secret :: "('u, 'w) federation_env \<Rightarrow> Keystone \<Rightarrow> string gomap \<Rightarrow> 'w \<Rightarrow> string result \<times> 'w" where
  "domains_secret E k data_map w =
     (if data_map = [] then (Inr [], w)
      else case CreateImmutableSecret (fx_sha E) (fx_own_immutable E) (fx_immutable E) (ko_meta k) (domainsSecretBaseName k)
                  (ko_namespace k) data_map w of
        (Inl e, w') \<Rightarrow> (Inl (Errorf ''creating domains Secret: %w'' [Wrap e]), w')
      | (Inr name, w') \<Rightarrow> (Inr name, w'))"

definition federation_part ::
  "('u, 'w) federation_env \<Rightarrow> Keystone \<Rightarrow> projections \<Rightarrow> 'w \<Rightarrow> federationProjection option result \<times> 'w" where
  "federation_part E k p w =
     (if pj_oidc p = [] \<and> pj_saml p = [] then (Inr None, w)
      else case buildFederationProjection E k (pj_oidc p) (pj_saml p) (pj_remote_id p) (the (proxy_image k)) w of
        (Inl e, w') \<Rightarrow> (Inl e, w')
      | (Inr fed, w') \<Rightarrow> (Inr (Some fed), w'))"

text \<open>The condition after the projection: the message joins what the backends are waiting for.\<close>

definition backends_verdict :: "meta_api \<Rightarrow> projections \<Rightarrow> Keystone \<Rightarrow> Keystone" where
  "backends_verdict K p k =
     (if pj_pending p \<noteq> []
      then backends_condition K CFalse ''WaitingForBackends''
             (Msg ''Waiting for identity backends: %s'' (map (\<lambda>m. case m of Msg f as \<Rightarrow> Val (Errorf f as)) (pj_pending p))) k
      else backends_condition K CTrue ''AllBackendsProjected'' (Msg ''All attached identity backends are projected'' []) k)"

definition project_all ::
  "('u, 'w) federation_env \<Rightarrow> KeystoneIdentityBackend list \<Rightarrow> Keystone \<times> 'w \<Rightarrow>
     (string \<times> federationProjection option \<times> err option) \<times> Keystone \<times> 'w" where
  "project_all E bs s =
     (let (k, w) = s in
      case project_backends E k bs bs (no_projections, w) of
        (Inl e, w1) \<Rightarrow> (([], None, Some e), k, w1)
      | (Inr p, w1) \<Rightarrow>
          (case domains_secret E k (pj_data p) w1 of
             (Inl e, w2) \<Rightarrow> (([], None, Some e), k, w2)
           | (Inr domains, w2) \<Rightarrow>
               (case federation_part E k p w2 of
                  (Inl e, w3) \<Rightarrow> (([], None, Some e), k, w3)
                | (Inr fed, w3) \<Rightarrow>
                    (case (if saml_backends bs = [] then deleteSAMLSPMetadataSecret E k w3 else (None, w3)) of
                       (Some e, w4) \<Rightarrow> (([], None, Some e), k, w4)
                     | (None, w4) \<Rightarrow> ((domains, fed, None), backends_verdict (fx_meta E) p k, w4)))))"

definition reconcileIdentityBackends ::
  "('u, 'w) federation_env \<Rightarrow> Keystone \<times> 'w \<Rightarrow> (string \<times> federationProjection option \<times> err option) \<times> Keystone \<times> 'w" where
  "reconcileIdentityBackends E s =
     (let (k, w) = s in
      case fx_backends E (key_of (ko_meta k)) w of
        Inl e \<Rightarrow> (([], None, Some (Errorf ''listing KeystoneIdentityBackends for %s: %w'' [Str (ko_name k), Wrap e])), k, w)
      | Inr [] \<Rightarrow>
          (([], None, None), backends_condition (fx_meta E) CTrue ''IdentityBackendsNotRequired''
             (Msg ''No KeystoneIdentityBackend references this Keystone'' []) k, w)
      | Inr bs \<Rightarrow> project_all E (sort_key kb_name bs) (k, w))"

definition pruneStaleDomainsSecrets :: "('u, 'w) federation_env \<Rightarrow> Keystone \<Rightarrow> string \<Rightarrow> 'w \<Rightarrow> err option \<times> 'w" where
  "pruneStaleDomainsSecrets E k current w =
     PruneImmutableSecrets im_meta (fx_immutable E) (ko_meta k)
       \<lparr>po_base = domainsSecretBaseName k, po_namespace = ko_namespace k, po_current = current,
        po_retain = (if current = [] then 0 else defaultConfigMapRetainCount)\<rparr> w"

end
