(* ===== verification/IdentityClient.thy ===== *)
theory IdentityClient
  imports IdentityBackendTypes Dsn
begin

text \<open>
  The client of the Keystone API, \<open>operators/keystone/internal/identity/client.go\<close> and \<open>federation.go\<close>: the interface the
  controller uses, a record of functions, and its implementation over HTTP.  The transport, the JSON codec and gophercloud
  are functions of \<open>transport\<close>; a decoder stands for \<open>json.Unmarshal\<close> into the envelope the source declares.
\<close>

section \<open>Errors and data\<close>

definition ErrNotFound :: err where "ErrNotFound = Sentinel ''not found''"
definition ErrConflict :: err where "ErrConflict = Sentinel ''conflict''"
definition ErrUnauthorized :: err where "ErrUnauthorized = Sentinel ''unauthorized''"
definition ErrForbidden :: err where "ErrForbidden = Sentinel ''forbidden''"

abbreviation api_absent :: "err \<Rightarrow> bool" where
  "api_absent \<equiv> is_sentinel ''not found''"

record Credentials =
  cr_user :: string
  cr_password :: string
  cr_project :: string
  cr_user_domain :: string

record identity_domain =
  dm_id :: string
  dm_name :: string
  dm_description :: string
  dm_enabled :: "bool option"

record IdentityProvider =
  ip_id :: string
  ip_domain :: string
  ip_description :: string
  ip_enabled :: "bool option"
  ip_remote_ids :: "string list"

record identity_protocol =
  pt_id :: string
  pt_mapping :: string

record identity_group =
  gq_id :: string
  gq_name :: string
  gq_domain :: string
  gq_description :: string

record identity_role =
  ro_id :: string
  ro_name :: string

record identity_project =
  pr_id :: string
  pr_name :: string
  pr_domain :: string

text \<open>The mapping rules of gophercloud, which have the fields of the resource's.\<close>

record gc_domain =
  gd_id :: string
  gd_name :: string

record gc_group =
  gg_id :: string
  gg_name :: string
  gg_domain :: "gc_domain option"

record gc_user =
  gu_id :: string
  gu_name :: string
  gu_email :: string
  gu_domain :: "gc_domain option"
  gu_type :: "string option"

record gc_project =
  gj_name :: string
  gj_roles :: "string list"

record gc_local =
  gl_domain :: "gc_domain option"
  gl_group :: "gc_group option"
  gl_group_ids :: string
  gl_groups :: string
  gl_projects :: "gc_project list"
  gl_user :: "gc_user option"

record gc_remote =
  gr_type :: string
  gr_regex :: "bool option"
  gr_any_one_of :: "string list"
  gr_not_any_of :: "string list"
  gr_blacklist :: "string list"
  gr_whitelist :: "string list"

record gc_rule =
  gc_local_rules :: "gc_local list"
  gc_remote_rules :: "gc_remote list"

section \<open>The interface\<close>

record 'w identity_client =
  ic_get_domain :: "string \<Rightarrow> 'w \<Rightarrow> identity_domain result \<times> 'w"
  ic_create_domain :: "identity_domain \<Rightarrow> 'w \<Rightarrow> identity_domain result \<times> 'w"
  ic_update_domain :: "string \<Rightarrow> bool option \<Rightarrow> string option \<Rightarrow> 'w \<Rightarrow> err option \<times> 'w"
  ic_delete_domain :: "string \<Rightarrow> 'w \<Rightarrow> err option \<times> 'w"
  ic_get_idp :: "string \<Rightarrow> 'w \<Rightarrow> IdentityProvider result \<times> 'w"
  ic_create_idp :: "IdentityProvider \<Rightarrow> 'w \<Rightarrow> err option \<times> 'w"
  ic_update_idp :: "string \<Rightarrow> bool option \<Rightarrow> string option \<Rightarrow> string list option \<Rightarrow> 'w \<Rightarrow> err option \<times> 'w"
  ic_delete_idp :: "string \<Rightarrow> 'w \<Rightarrow> err option \<times> 'w"
  ic_get_protocol :: "string \<Rightarrow> string \<Rightarrow> 'w \<Rightarrow> identity_protocol result \<times> 'w"
  ic_create_protocol :: "string \<Rightarrow> string \<Rightarrow> string \<Rightarrow> 'w \<Rightarrow> err option \<times> 'w"
  ic_update_protocol :: "string \<Rightarrow> string \<Rightarrow> string \<Rightarrow> 'w \<Rightarrow> err option \<times> 'w"
  ic_delete_protocol :: "string \<Rightarrow> string \<Rightarrow> 'w \<Rightarrow> err option \<times> 'w"
  ic_get_mapping :: "string \<Rightarrow> 'w \<Rightarrow> gc_rule list result \<times> 'w"
  ic_create_mapping :: "string \<Rightarrow> gc_rule list \<Rightarrow> 'w \<Rightarrow> err option \<times> 'w"
  ic_update_mapping :: "string \<Rightarrow> gc_rule list \<Rightarrow> 'w \<Rightarrow> err option \<times> 'w"
  ic_delete_mapping :: "string \<Rightarrow> 'w \<Rightarrow> err option \<times> 'w"
  ic_get_group :: "string \<Rightarrow> string \<Rightarrow> 'w \<Rightarrow> identity_group result \<times> 'w"
  ic_create_group :: "identity_group \<Rightarrow> 'w \<Rightarrow> identity_group result \<times> 'w"
  ic_get_role :: "string \<Rightarrow> 'w \<Rightarrow> identity_role result \<times> 'w"
  ic_get_project :: "string \<Rightarrow> string \<Rightarrow> 'w \<Rightarrow> identity_project result \<times> 'w"
  ic_has_on_domain :: "string \<Rightarrow> string \<Rightarrow> string \<Rightarrow> 'w \<Rightarrow> bool result \<times> 'w"
  ic_has_on_project :: "string \<Rightarrow> string \<Rightarrow> string \<Rightarrow> 'w \<Rightarrow> bool result \<times> 'w"
  ic_assign_on_domain :: "string \<Rightarrow> string \<Rightarrow> string \<Rightarrow> 'w \<Rightarrow> err option \<times> 'w"
  ic_assign_on_project :: "string \<Rightarrow> string \<Rightarrow> string \<Rightarrow> 'w \<Rightarrow> err option \<times> 'w"

section \<open>HTTP\<close>

datatype json_body = JBool bool | JStr string | JList "json_body list" | JObj "(string \<times> json_body) list"

record http_request =
  hq_method :: string
  hq_url :: string
  hq_headers :: "string gomap"
  hq_body :: "string option"

text \<open>
  \<open>hs_read\<close> is what reading the body up to a limit yields and the error it ends with; \<open>hs_token\<close> the header
  \<open>X-Subject-Token\<close>, empty when it is missing.
\<close>

record http_response =
  hs_status :: int
  hs_token :: string
  hs_read :: "nat option \<Rightarrow> string \<times> err option"

record 'w transport =
  tr_new :: "string \<Rightarrow> string \<Rightarrow> err option"
  tr_do :: "http_request \<Rightarrow> 'w \<Rightarrow> http_response result \<times> 'w"
  tr_marshal :: "json_body \<Rightarrow> string result"
  tr_domains :: "string \<Rightarrow> identity_domain list result"
  tr_domain :: "string \<Rightarrow> identity_domain result"
  tr_idp :: "string \<Rightarrow> IdentityProvider result"
  tr_protocol :: "string \<Rightarrow> identity_protocol result"
  tr_groups :: "string \<Rightarrow> identity_group list result"
  tr_group :: "string \<Rightarrow> identity_group result"
  tr_roles :: "string \<Rightarrow> identity_role list result"
  tr_projects :: "string \<Rightarrow> identity_project list result"
  tr_gc_get :: "string \<Rightarrow> string \<Rightarrow> string \<Rightarrow> 'w \<Rightarrow> gc_rule list result \<times> 'w"
  tr_gc_put :: "string \<Rightarrow> string \<Rightarrow> string \<Rightarrow> string \<Rightarrow> gc_rule list \<Rightarrow> 'w \<Rightarrow> err option \<times> 'w"
  tr_gc_delete :: "string \<Rightarrow> string \<Rightarrow> string \<Rightarrow> 'w \<Rightarrow> err option \<times> 'w"
  tr_gc_code :: "err \<Rightarrow> int option"

record 'w httpClient =
  hc_endpoint :: string
  hc_creds :: Credentials
  hc_transport :: "'w transport"

definition snippetLimit :: nat where "snippetLimit = 256"

text \<open>\<open> (body: %q)\<close> with at most 256 bytes, nothing for an empty body.\<close>

definition bodySnippet :: "string \<Rightarrow> farg list" where
  "bodySnippet body = (if body = [] then [] else [Str (take snippetLimit body)])"

definition http_error :: "string \<Rightarrow> farg list \<Rightarrow> string \<Rightarrow> err" where
  "http_error text args body =
     Errorf (text @ '': unexpected HTTP %d'' @ (if body = [] then [] else '' (body: %q)'')) (args @ bodySnippet body)"

definition NewHTTPClient :: "string \<Rightarrow> Credentials \<Rightarrow> 'w transport \<Rightarrow> 'w httpClient" where
  "NewHTTPClient endpoint creds tr =
     \<lparr>hc_endpoint = endpoint,
      hc_creds = creds\<lparr>cr_project := (if cr_project creds = [] then ''admin'' else cr_project creds),
        cr_user_domain := (if cr_user_domain creds = [] then ''Default'' else cr_user_domain creds)\<rparr>,
      hc_transport = tr\<rparr>"

definition auth_body :: "Credentials \<Rightarrow> json_body" where
  "auth_body c =
     (let dom = JObj [(''name'', JStr (cr_user_domain c))] in
      JObj [(''auth'', JObj
        [(''identity'', JObj [(''methods'', JList [JStr ''password'']),
           (''password'', JObj [(''user'', JObj [(''name'', JStr (cr_user c)), (''domain'', dom), (''password'', JStr (cr_password c))])])]),
         (''scope'', JObj [(''project'', JObj [(''name'', JStr (cr_project c)), (''domain'', dom)])])])])"

definition authenticate :: "'w httpClient \<Rightarrow> 'w \<Rightarrow> string result \<times> 'w" where
  "authenticate H w =
     (let T = hc_transport H; url = hc_endpoint H @ ''/auth/tokens''; ep = Str (hc_endpoint H) in
      case tr_marshal T (auth_body (hc_creds H)) of
        Inl e \<Rightarrow> (Inl (Errorf ''marshaling auth request: %w'' [Wrap e]), w)
      | Inr payload \<Rightarrow>
          (case tr_new T ''POST'' url of
             Some e \<Rightarrow> (Inl (Errorf ''building auth request: %w'' [Wrap e]), w)
           | None \<Rightarrow>
               (case tr_do T \<lparr>hq_method = ''POST'', hq_url = url, hq_headers = [(''Content-Type'', ''application/json'')],
                       hq_body = Some payload\<rparr> w of
                  (Inl e, w') \<Rightarrow> (Inl (Errorf ''authenticating against %s: %w'' [ep, Wrap e]), w')
                | (Inr r, w') \<Rightarrow>
                    ((if hs_status r = 401 then Inl (Errorf ''%w: authenticating user %q'' [Wrap ErrUnauthorized, Str (cr_user (hc_creds H))])
                      else if hs_status r \<noteq> 201
                      then Inl (http_error ''authenticating against %s'' [ep, Num (hs_status r)] (fst (hs_read r (Some snippetLimit))))
                      else if hs_token r = []
                      then Inl (Errorf ''authenticating against %s: response carries no X-Subject-Token'' [ep])
                      else Inr (hs_token r)), w'))))"

definition status_error :: "string \<Rightarrow> string \<Rightarrow> http_response \<Rightarrow> string \<Rightarrow> err option" where
  "status_error method path r body =
     (let named = (\<lambda>e. Some (Errorf ''%w: %s %s'' [Wrap e, Str method, Str path])); st = hs_status r in
      if st = 404 then named ErrNotFound
      else if st = 409 then named ErrConflict
      else if st = 401 then named ErrUnauthorized
      else if st = 403 then named ErrForbidden
      else if st < 200 \<or> st \<ge> 300 then Some (http_error ''%s %s'' [Str method, Str path, Num st] body)
      else None)"

definition answer_of :: "string \<Rightarrow> string \<Rightarrow> http_response \<Rightarrow> string result" where
  "answer_of method path r =
     (let (payload, read_error) = hs_read r None in
      case status_error method path r payload of
        Some e \<Rightarrow> Inl e
      | None \<Rightarrow>
          (case read_error of
             Some e \<Rightarrow> Inl (Errorf ''reading %s %s response: %w'' [Str method, Str path, Wrap e])
           | None \<Rightarrow> Inr payload))"

definition send :: "'w httpClient \<Rightarrow> string \<Rightarrow> string \<Rightarrow> string \<Rightarrow> string option \<Rightarrow> 'w \<Rightarrow> string result \<times> 'w" where
  "send H token method path payload w =
     (let T = hc_transport H; url = hc_endpoint H @ path; subject = [Str method, Str path] in
      case tr_new T method url of
        Some e \<Rightarrow> (Inl (Errorf ''building %s %s request: %w'' (subject @ [Wrap e])), w)
      | None \<Rightarrow>
          (case tr_do T \<lparr>hq_method = method, hq_url = url,
                  hq_headers = (''X-Auth-Token'', token) # (if payload = None then [] else [(''Content-Type'', ''application/json'')]),
                  hq_body = payload\<rparr> w of
             (Inl e, w') \<Rightarrow> (Inl (Errorf ''%s %s: %w'' (subject @ [Wrap e])), w')
           | (Inr r, w') \<Rightarrow> (answer_of method path r, w')))"

definition do_request :: "'w httpClient \<Rightarrow> string \<Rightarrow> string \<Rightarrow> json_body option \<Rightarrow> 'w \<Rightarrow> string result \<times> 'w" where
  "do_request H method path body w =
     (case authenticate H w of
        (Inl e, w') \<Rightarrow> (Inl e, w')
      | (Inr token, w') \<Rightarrow>
          (case body of
             None \<Rightarrow> send H token method path None w'
           | Some j \<Rightarrow>
               (case tr_marshal (hc_transport H) j of
                  Inl e \<Rightarrow> (Inl (Errorf ''marshaling %s %s request: %w'' [Str method, Str path, Wrap e]), w')
                | Inr payload \<Rightarrow> send H token method path (Some payload) w')))"

section \<open>Paths and bodies\<close>

text \<open>\<open>url.PathEscape\<close>.\<close>

definition path_escape_char :: "char \<Rightarrow> string" where
  "path_escape_char c =
     (if is_alnum c \<or> c \<in> set ''-_.~$&+:=@'' then [c]
      else [CHR ''%'', upper_hex (of_char c div 16), upper_hex (of_char c mod 16)])"

definition path_escape :: "string \<Rightarrow> string" where
  "path_escape s = concat (map path_escape_char s)"

definition domain_path :: "string \<Rightarrow> string" where
  "domain_path i = ''/domains/'' @ path_escape i"

definition idp_api_path :: "string \<Rightarrow> string" where
  "idp_api_path i = ''/OS-FEDERATION/identity_providers/'' @ path_escape i"

definition protocolPath :: "string \<Rightarrow> string \<Rightarrow> string" where
  "protocolPath idp i = ''/OS-FEDERATION/identity_providers/'' @ path_escape idp @ ''/protocols/'' @ path_escape i"

definition domainRoleAssignmentPath :: "string \<Rightarrow> string \<Rightarrow> string \<Rightarrow> string" where
  "domainRoleAssignmentPath d g r = ''/domains/'' @ path_escape d @ ''/groups/'' @ path_escape g @ ''/roles/'' @ path_escape r"

definition projectRoleAssignmentPath :: "string \<Rightarrow> string \<Rightarrow> string \<Rightarrow> string" where
  "projectRoleAssignmentPath p g r = ''/projects/'' @ path_escape p @ ''/groups/'' @ path_escape g @ ''/roles/'' @ path_escape r"

text \<open>A field that is left out when it is empty.\<close>

definition omit_empty :: "string \<Rightarrow> string \<Rightarrow> (string \<times> json_body) list" where
  "omit_empty key v = (if v = [] then [] else [(key, JStr v)])"

definition omit_nil :: "string \<Rightarrow> ('a \<Rightarrow> json_body) \<Rightarrow> 'a option \<Rightarrow> (string \<times> json_body) list" where
  "omit_nil key f v = (case v of None \<Rightarrow> [] | Some x \<Rightarrow> [(key, f x)])"

definition domain_json :: "identity_domain \<Rightarrow> json_body" where
  "domain_json d =
     JObj (omit_empty ''id'' (dm_id d) @ [(''name'', JStr (dm_name d))] @ omit_empty ''description'' (dm_description d) @
       omit_nil ''enabled'' JBool (dm_enabled d))"

definition idp_json :: "IdentityProvider \<Rightarrow> json_body" where
  "idp_json i =
     JObj (omit_empty ''id'' (ip_id i) @ omit_empty ''domain_id'' (ip_domain i) @ omit_empty ''description'' (ip_description i) @
       omit_nil ''enabled'' JBool (ip_enabled i) @
       (if ip_remote_ids i = [] then [] else [(''remote_ids'', JList (map JStr (ip_remote_ids i)))]))"

definition group_json :: "identity_group \<Rightarrow> json_body" where
  "group_json g =
     JObj (omit_empty ''id'' (gq_id g) @ [(''name'', JStr (gq_name g))] @ omit_empty ''domain_id'' (gq_domain g) @
       omit_empty ''description'' (gq_description g))"

definition name_query :: "string \<Rightarrow> string option \<Rightarrow> string" where
  "name_query name domain =
     encode_values ((''name'', [name]) # (case domain of None \<Rightarrow> [] | Some d \<Rightarrow> [(''domain_id'', [d])]))"

section \<open>The operations\<close>

text \<open>Decode an answer, and drop one.\<close>

definition decoded :: "string \<Rightarrow> (string \<Rightarrow> 'a result) \<Rightarrow> string result \<times> 'w \<Rightarrow> 'a result \<times> 'w" where
  "decoded text decode s =
     (case s of
        (Inl e, w) \<Rightarrow> (Inl e, w)
      | (Inr payload, w) \<Rightarrow>
          (case decode payload of
             Inl e \<Rightarrow> (Inl (Errorf text [Wrap e]), w)
           | Inr x \<Rightarrow> (Inr x, w)))"

definition dropped :: "string result \<times> 'w \<Rightarrow> err option \<times> 'w" where
  "dropped s = (case s of (Inl e, w) \<Rightarrow> (Some e, w) | (Inr _, w) \<Rightarrow> (None, w))"

definition first_or :: "err \<Rightarrow> 'a list result \<times> 'w \<Rightarrow> 'a result \<times> 'w" where
  "first_or none s =
     (case s of
        (Inl e, w) \<Rightarrow> (Inl e, w)
      | (Inr [], w) \<Rightarrow> (Inl none, w)
      | (Inr (x # _), w) \<Rightarrow> (Inr x, w))"

definition GetDomainByName :: "'w httpClient \<Rightarrow> string \<Rightarrow> 'w \<Rightarrow> identity_domain result \<times> 'w" where
  "GetDomainByName H name w =
     first_or (Errorf ''%w: domain %q'' [Wrap ErrNotFound, Str name])
       (decoded ''decoding domain list: %w'' (tr_domains (hc_transport H))
          (do_request H ''GET'' (''/domains?name='' @ escape EncodeQueryComponent name) None w))"

definition CreateDomain :: "'w httpClient \<Rightarrow> identity_domain \<Rightarrow> 'w \<Rightarrow> identity_domain result \<times> 'w" where
  "CreateDomain H d w =
     decoded ''decoding created domain: %w'' (tr_domain (hc_transport H))
       (do_request H ''POST'' ''/domains'' (Some (JObj [(''domain'', domain_json d)])) w)"

definition UpdateDomain :: "'w httpClient \<Rightarrow> string \<Rightarrow> bool option \<Rightarrow> string option \<Rightarrow> 'w \<Rightarrow> err option \<times> 'w" where
  "UpdateDomain H i enabled description w =
     dropped (do_request H ''PATCH'' (domain_path i)
       (Some (JObj [(''domain'', JObj (omit_nil ''enabled'' JBool enabled @ omit_nil ''description'' JStr description))])) w)"

definition DeleteDomain :: "'w httpClient \<Rightarrow> string \<Rightarrow> 'w \<Rightarrow> err option \<times> 'w" where
  "DeleteDomain H i w = dropped (do_request H ''DELETE'' (domain_path i) None w)"

definition GetIdentityProvider :: "'w httpClient \<Rightarrow> string \<Rightarrow> 'w \<Rightarrow> IdentityProvider result \<times> 'w" where
  "GetIdentityProvider H i w =
     decoded ''decoding identity provider: %w'' (tr_idp (hc_transport H)) (do_request H ''GET'' (idp_api_path i) None w)"

definition CreateIdentityProvider :: "'w httpClient \<Rightarrow> IdentityProvider \<Rightarrow> 'w \<Rightarrow> err option \<times> 'w" where
  "CreateIdentityProvider H idp w =
     dropped (do_request H ''PUT'' (idp_api_path (ip_id idp))
       (Some (JObj [(''identity_provider'', idp_json (idp\<lparr>ip_id := []\<rparr>))])) w)"

definition UpdateIdentityProvider ::
  "'w httpClient \<Rightarrow> string \<Rightarrow> bool option \<Rightarrow> string option \<Rightarrow> string list option \<Rightarrow> 'w \<Rightarrow> err option \<times> 'w" where
  "UpdateIdentityProvider H i enabled description remote_ids w =
     dropped (do_request H ''PATCH'' (idp_api_path i)
       (Some (JObj [(''identity_provider'', JObj (omit_nil ''enabled'' JBool enabled @ omit_nil ''description'' JStr description @
          omit_nil ''remote_ids'' (\<lambda>ids. JList (map JStr ids)) remote_ids))])) w)"

definition DeleteIdentityProvider :: "'w httpClient \<Rightarrow> string \<Rightarrow> 'w \<Rightarrow> err option \<times> 'w" where
  "DeleteIdentityProvider H i w = dropped (do_request H ''DELETE'' (idp_api_path i) None w)"

definition GetProtocol :: "'w httpClient \<Rightarrow> string \<Rightarrow> string \<Rightarrow> 'w \<Rightarrow> identity_protocol result \<times> 'w" where
  "GetProtocol H idp i w =
     decoded ''decoding protocol: %w'' (tr_protocol (hc_transport H)) (do_request H ''GET'' (protocolPath idp i) None w)"

definition protocol_body :: "string \<Rightarrow> json_body" where
  "protocol_body mapping = JObj [(''protocol'', JObj [(''mapping_id'', JStr mapping)])]"

definition CreateProtocol :: "'w httpClient \<Rightarrow> string \<Rightarrow> string \<Rightarrow> string \<Rightarrow> 'w \<Rightarrow> err option \<times> 'w" where
  "CreateProtocol H idp i mapping w = dropped (do_request H ''PUT'' (protocolPath idp i) (Some (protocol_body mapping)) w)"

definition UpdateProtocol :: "'w httpClient \<Rightarrow> string \<Rightarrow> string \<Rightarrow> string \<Rightarrow> 'w \<Rightarrow> err option \<times> 'w" where
  "UpdateProtocol H idp i mapping w = dropped (do_request H ''PATCH'' (protocolPath idp i) (Some (protocol_body mapping)) w)"

definition DeleteProtocol :: "'w httpClient \<Rightarrow> string \<Rightarrow> string \<Rightarrow> 'w \<Rightarrow> err option \<times> 'w" where
  "DeleteProtocol H idp i w = dropped (do_request H ''DELETE'' (protocolPath idp i) None w)"

text \<open>The mapping operations go through a gophercloud client with the token of an authentication of their own.\<close>

definition mapGophercloudError :: "(err \<Rightarrow> int option) \<Rightarrow> err \<Rightarrow> string \<Rightarrow> err" where
  "mapGophercloudError code e op =
     (let named = (\<lambda>s. Errorf ''%w: %s'' [Wrap s, Str op]) in
      if code e = Some 404 then named ErrNotFound
      else if code e = Some 409 then named ErrConflict
      else if code e = Some 401 then named ErrUnauthorized
      else if code e = Some 403 then named ErrForbidden
      else Errorf ''%s: %w'' [Str op, Wrap e])"

definition GetMapping :: "'w httpClient \<Rightarrow> string \<Rightarrow> 'w \<Rightarrow> gc_rule list result \<times> 'w" where
  "GetMapping H i w =
     (case authenticate H w of
        (Inl e, w') \<Rightarrow> (Inl e, w')
      | (Inr token, w') \<Rightarrow>
          (case tr_gc_get (hc_transport H) (hc_endpoint H @ ''/'') token i w' of
             (Inl e, w'') \<Rightarrow> (Inl (mapGophercloudError (tr_gc_code (hc_transport H)) e (''GET mapping '' @ i)), w'')
           | (Inr rules, w'') \<Rightarrow> (Inr rules, w'')))"

definition gc_call :: "'w httpClient \<Rightarrow> string \<Rightarrow> (string \<Rightarrow> 'w \<Rightarrow> err option \<times> 'w) \<Rightarrow> 'w \<Rightarrow> err option \<times> 'w" where
  "gc_call H op f w =
     (case authenticate H w of
        (Inl e, w') \<Rightarrow> (Some e, w')
      | (Inr token, w') \<Rightarrow>
          (case f token w' of
             (Some e, w'') \<Rightarrow> (Some (mapGophercloudError (tr_gc_code (hc_transport H)) e op), w'')
           | (None, w'') \<Rightarrow> (None, w'')))"

definition CreateMapping :: "'w httpClient \<Rightarrow> string \<Rightarrow> gc_rule list \<Rightarrow> 'w \<Rightarrow> err option \<times> 'w" where
  "CreateMapping H i rules w =
     gc_call H (''PUT mapping '' @ i) (\<lambda>token. tr_gc_put (hc_transport H) (hc_endpoint H @ ''/'') token ''PUT'' i rules) w"

definition UpdateMapping :: "'w httpClient \<Rightarrow> string \<Rightarrow> gc_rule list \<Rightarrow> 'w \<Rightarrow> err option \<times> 'w" where
  "UpdateMapping H i rules w =
     gc_call H (''PATCH mapping '' @ i) (\<lambda>token. tr_gc_put (hc_transport H) (hc_endpoint H @ ''/'') token ''PATCH'' i rules) w"

definition DeleteMapping :: "'w httpClient \<Rightarrow> string \<Rightarrow> 'w \<Rightarrow> err option \<times> 'w" where
  "DeleteMapping H i w =
     gc_call H (''DELETE mapping '' @ i) (\<lambda>token. tr_gc_delete (hc_transport H) (hc_endpoint H @ ''/'') token i) w"

definition GetGroupByName :: "'w httpClient \<Rightarrow> string \<Rightarrow> string \<Rightarrow> 'w \<Rightarrow> identity_group result \<times> 'w" where
  "GetGroupByName H name domain w =
     first_or (Errorf ''%w: group %q in domain %s'' [Wrap ErrNotFound, Str name, Str domain])
       (decoded ''decoding group list: %w'' (tr_groups (hc_transport H))
          (do_request H ''GET'' (''/groups?'' @ name_query name (Some domain)) None w))"

definition CreateGroup :: "'w httpClient \<Rightarrow> identity_group \<Rightarrow> 'w \<Rightarrow> identity_group result \<times> 'w" where
  "CreateGroup H g w =
     decoded ''decoding created group: %w'' (tr_group (hc_transport H))
       (do_request H ''POST'' ''/groups'' (Some (JObj [(''group'', group_json g)])) w)"

definition GetRoleByName :: "'w httpClient \<Rightarrow> string \<Rightarrow> 'w \<Rightarrow> identity_role result \<times> 'w" where
  "GetRoleByName H name w =
     first_or (Errorf ''%w: role %q'' [Wrap ErrNotFound, Str name])
       (decoded ''decoding role list: %w'' (tr_roles (hc_transport H)) (do_request H ''GET'' (''/roles?'' @ name_query name None) None w))"

definition GetProjectByName :: "'w httpClient \<Rightarrow> string \<Rightarrow> string \<Rightarrow> 'w \<Rightarrow> identity_project result \<times> 'w" where
  "GetProjectByName H name domain w =
     first_or (Errorf ''%w: project %q in domain %s'' [Wrap ErrNotFound, Str name, Str domain])
       (decoded ''decoding project list: %w'' (tr_projects (hc_transport H))
          (do_request H ''GET'' (''/projects?'' @ name_query name (Some domain)) None w))"

definition hasAssignment :: "'w httpClient \<Rightarrow> string \<Rightarrow> 'w \<Rightarrow> bool result \<times> 'w" where
  "hasAssignment H path w =
     (case do_request H ''HEAD'' path None w of
        (Inl e, w') \<Rightarrow> (if api_absent e then Inr False else Inl e, w')
      | (Inr _, w') \<Rightarrow> (Inr True, w'))"

definition HasRoleForGroupOnDomain :: "'w httpClient \<Rightarrow> string \<Rightarrow> string \<Rightarrow> string \<Rightarrow> 'w \<Rightarrow> bool result \<times> 'w" where
  "HasRoleForGroupOnDomain H d g r w = hasAssignment H (domainRoleAssignmentPath d g r) w"

definition HasRoleForGroupOnProject :: "'w httpClient \<Rightarrow> string \<Rightarrow> string \<Rightarrow> string \<Rightarrow> 'w \<Rightarrow> bool result \<times> 'w" where
  "HasRoleForGroupOnProject H p g r w = hasAssignment H (projectRoleAssignmentPath p g r) w"

definition AssignRoleToGroupOnDomain :: "'w httpClient \<Rightarrow> string \<Rightarrow> string \<Rightarrow> string \<Rightarrow> 'w \<Rightarrow> err option \<times> 'w" where
  "AssignRoleToGroupOnDomain H d g r w = dropped (do_request H ''PUT'' (domainRoleAssignmentPath d g r) None w)"

definition AssignRoleToGroupOnProject :: "'w httpClient \<Rightarrow> string \<Rightarrow> string \<Rightarrow> string \<Rightarrow> 'w \<Rightarrow> err option \<times> 'w" where
  "AssignRoleToGroupOnProject H p g r w = dropped (do_request H ''PUT'' (projectRoleAssignmentPath p g r) None w)"

text \<open>The implementation as an instance of the interface.\<close>

definition http_identity_client :: "'w httpClient \<Rightarrow> 'w identity_client" where
  "http_identity_client H =
     \<lparr>ic_get_domain = GetDomainByName H, ic_create_domain = CreateDomain H, ic_update_domain = UpdateDomain H,
      ic_delete_domain = DeleteDomain H, ic_get_idp = GetIdentityProvider H, ic_create_idp = CreateIdentityProvider H,
      ic_update_idp = UpdateIdentityProvider H, ic_delete_idp = DeleteIdentityProvider H, ic_get_protocol = GetProtocol H,
      ic_create_protocol = CreateProtocol H, ic_update_protocol = UpdateProtocol H, ic_delete_protocol = DeleteProtocol H,
      ic_get_mapping = GetMapping H, ic_create_mapping = CreateMapping H, ic_update_mapping = UpdateMapping H,
      ic_delete_mapping = DeleteMapping H, ic_get_group = GetGroupByName H, ic_create_group = CreateGroup H,
      ic_get_role = GetRoleByName H, ic_get_project = GetProjectByName H, ic_has_on_domain = HasRoleForGroupOnDomain H,
      ic_has_on_project = HasRoleForGroupOnProject H, ic_assign_on_domain = AssignRoleToGroupOnDomain H,
      ic_assign_on_project = AssignRoleToGroupOnProject H\<rparr>"

end
