(* ===== verification/IdentityBackendController.thy ===== *)
theory IdentityBackendController
  imports KeystoneBackends IdentityClient
begin

text \<open>
  The controller of identity backends: \<open>keystoneidentitybackend_controller.go\<close>, the objects it keeps in Keystone for a
  federated backend (\<open>reconcile_federation_objects.go\<close>) and the conversion of their mapping rules
  (\<open>federation_mapping_convert.go\<close>).  A step works on the backend in memory and on the world; the Keystone API is
  reached through an \<open>identity_client\<close>.
\<close>

definition conditionTypeFederationObjectsReady :: string where
  "conditionTypeFederationObjectsReady = ''FederationObjectsReady''"
definition conditionTypeMappingsReady :: string where "conditionTypeMappingsReady = ''MappingsReady''"

definition conditionReasonKeystoneNotFound :: string where "conditionReasonKeystoneNotFound = ''KeystoneNotFound''"
definition conditionReasonWaitingForKeystoneAPI :: string where
  "conditionReasonWaitingForKeystoneAPI = ''WaitingForKeystoneAPI''"
definition conditionReasonAdminSecretUnavailable :: string where
  "conditionReasonAdminSecretUnavailable = ''AdminSecretUnavailable''"
definition conditionReasonDomainProvisioned :: string where "conditionReasonDomainProvisioned = ''DomainProvisioned''"
definition conditionReasonDomainAdopted :: string where "conditionReasonDomainAdopted = ''DomainAdopted''"
definition conditionReasonDomainNotFound :: string where "conditionReasonDomainNotFound = ''DomainNotFound''"
definition conditionReasonDomainAlreadyExists :: string where "conditionReasonDomainAlreadyExists = ''DomainAlreadyExists''"
definition conditionReasonIdentityAPIError :: string where "conditionReasonIdentityAPIError = ''IdentityAPIError''"
definition conditionReasonNoMappingRules :: string where "conditionReasonNoMappingRules = ''NoMappingRules''"
definition conditionReasonRoleOrProjectNotFound :: string where
  "conditionReasonRoleOrProjectNotFound = ''RoleOrProjectNotFound''"

definition transientObservationReasons :: "string list" where
  "transientObservationReasons =
     [conditionReasonWaitingForKeystoneAPI, conditionReasonAdminSecretUnavailable, conditionReasonIdentityAPIError]"

definition identityBackendSubConditionTypesFor :: "KeystoneIdentityBackend \<Rightarrow> string list" where
  "identityBackendSubConditionTypesFor b =
     (if IsFederationType b
      then [conditionTypeDomainReady, conditionTypeFederationObjectsReady, conditionTypeMappingsReady, conditionTypeConfigProjected]
      else [conditionTypeDomainReady, conditionTypeConfigProjected])"

section \<open>The environment and the backend in memory\<close>

text \<open>
  \<open>bx_factory\<close> replaces the HTTP client when it is set; \<open>bx_same_rules\<close> is \<open>reflect.DeepEqual\<close>, which tells a nil slice
  from an empty one; \<open>bx_deployment\<close> reads a Deployment.
\<close>

record 'w backend_env =
  bx_meta :: meta_api
  bx_client :: "(KeystoneIdentityBackend, 'w) kclient"
  bx_keystone :: "objkey \<Rightarrow> 'w \<Rightarrow> Keystone result"
  bx_deployment :: "objkey \<Rightarrow> 'w \<Rightarrow> service_pod deployment result"
  bx_eso :: "'w eso_env"
  bx_factory :: "(string \<Rightarrow> Credentials \<Rightarrow> 'w identity_client) option"
  bx_transport :: "'w transport"
  bx_same_rules :: "gc_rule list \<Rightarrow> gc_rule list \<Rightarrow> bool"
  bx_sem_eq :: "KeystoneIdentityBackendStatus \<Rightarrow> KeystoneIdentityBackendStatus \<Rightarrow> bool"
  bx_status_update :: "KeystoneIdentityBackend \<Rightarrow> 'w \<Rightarrow> KeystoneIdentityBackend result \<times> 'w"
  bx_log :: "event \<Rightarrow> 'w \<Rightarrow> 'w"

type_synonym 'w kb_step = "KeystoneIdentityBackend \<times> 'w \<Rightarrow> (ctrl_result \<times> err option) \<times> KeystoneIdentityBackend \<times> 'w"

definition identityClient :: "'w backend_env \<Rightarrow> string \<Rightarrow> Credentials \<Rightarrow> 'w identity_client" where
  "identityClient X endpoint creds =
     (case bx_factory X of
        Some f \<Rightarrow> f endpoint creds
      | None \<Rightarrow> http_identity_client (NewHTTPClient endpoint creds (bx_transport X)))"

abbreviation goes_on :: "'s \<Rightarrow> (ctrl_result \<times> err option) \<times> 's" where
  "goes_on s \<equiv> ((zero_result, None), s)"

text \<open>\<open>if result, err := f(); !result.IsZero() || err != nil\<close>, and otherwise what follows.\<close>

definition and_then :: "'s step_fn \<Rightarrow> 's step_fn \<Rightarrow> 's step_fn" where
  "and_then f g s =
     (let ((r, e), s') = f s in if \<not> result_is_zero r \<or> e \<noteq> None then ((r, e), s') else g s')"

definition tell :: "'w backend_env \<Rightarrow> event_type \<Rightarrow> string \<Rightarrow> string \<Rightarrow> farg list \<Rightarrow> 'w \<Rightarrow> 'w" where
  "tell X t reason text args w = bx_log X \<lparr>ev_type = t, ev_reason = reason, ev_message = Msg text args\<rparr> w"

definition put_kb_conditions :: "condition list \<Rightarrow> KeystoneIdentityBackend \<Rightarrow> KeystoneIdentityBackend" where
  "put_kb_conditions cs b = b\<lparr>kb_status := (kb_status b)\<lparr>it_conditions := cs\<rparr>\<rparr>"

definition set_kb_condition :: "meta_api \<Rightarrow> string \<Rightarrow> cstatus \<Rightarrow> string \<Rightarrow> msg \<Rightarrow> KeystoneIdentityBackend \<Rightarrow> KeystoneIdentityBackend" where
  "set_kb_condition K ct st reason m b =
     put_kb_conditions (SetCondition K (kb_conditions b) (mk_condition ct st (m_generation (kb_meta b)) reason m)) b"

definition put_domain_id :: "string \<Rightarrow> KeystoneIdentityBackend \<Rightarrow> KeystoneIdentityBackend" where
  "put_domain_id i b = b\<lparr>kb_status := (kb_status b)\<lparr>it_domain_id := i\<rparr>\<rparr>"

abbreviation kb_domain_id :: "KeystoneIdentityBackend \<Rightarrow> string" where
  "kb_domain_id b \<equiv> it_domain_id (kb_status b)"

definition upsertBackendCondition ::
  "meta_api \<Rightarrow> string \<Rightarrow> cstatus \<Rightarrow> string \<Rightarrow> msg \<Rightarrow> KeystoneIdentityBackend \<Rightarrow> KeystoneIdentityBackend" where
  "upsertBackendCondition K ct st reason m b =
     (if st \<noteq> CTrue \<and> reason \<in> set transientObservationReasons \<and> cond_true K (kb_conditions b) ct then b
      else set_kb_condition K ct st reason m b)"

definition setDomainReady :: "'w backend_env \<Rightarrow> cstatus \<Rightarrow> string \<Rightarrow> msg \<Rightarrow> KeystoneIdentityBackend \<Rightarrow> KeystoneIdentityBackend" where
  "setDomainReady X = upsertBackendCondition (bx_meta X) conditionTypeDomainReady"

definition setFederationObjectsReady :: "'w backend_env \<Rightarrow> cstatus \<Rightarrow> string \<Rightarrow> msg \<Rightarrow> KeystoneIdentityBackend \<Rightarrow> KeystoneIdentityBackend" where
  "setFederationObjectsReady X = upsertBackendCondition (bx_meta X) conditionTypeFederationObjectsReady"

definition setMappingsReady :: "'w backend_env \<Rightarrow> cstatus \<Rightarrow> string \<Rightarrow> msg \<Rightarrow> KeystoneIdentityBackend \<Rightarrow> KeystoneIdentityBackend" where
  "setMappingsReady X = upsertBackendCondition (bx_meta X) conditionTypeMappingsReady"

text \<open>
  A call of the Keystone API failed: the condition names the attempt and the error, and the step returns it under the
  shorter or equal description \<open>wrapped\<close>.
\<close>

type_synonym 'w reporter = "'w backend_env \<Rightarrow> cstatus \<Rightarrow> string \<Rightarrow> msg \<Rightarrow> KeystoneIdentityBackend \<Rightarrow> KeystoneIdentityBackend"

definition api_failed ::
  "'w backend_env \<Rightarrow> 'w reporter \<Rightarrow> string \<Rightarrow> farg list \<Rightarrow> string \<Rightarrow> farg list \<Rightarrow> err \<Rightarrow> 'w kb_step" where
  "api_failed X reporter said said_args wrapped wrapped_args e s =
     (let (b, w) = s in
      ((zero_result, Some (Errorf (wrapped @ '': %w'') (wrapped_args @ [Wrap e]))),
       reporter X CFalse conditionReasonIdentityAPIError (Msg (said @ '': %v'') (said_args @ [Val e])) b, w))"

abbreviation failed_at :: "'w backend_env \<Rightarrow> 'w reporter \<Rightarrow> string \<Rightarrow> farg list \<Rightarrow> err \<Rightarrow> 'w kb_step" where
  "failed_at X reporter said args e \<equiv> api_failed X reporter said args said args e"

section \<open>The Keystone and its credentials\<close>

text \<open>\<open>Inr\<close> when the Keystone answers, otherwise what to return with the backend as it was left.\<close>

definition resolveKeystone ::
  "'w backend_env \<Rightarrow> KeystoneIdentityBackend \<times> 'w \<Rightarrow> (ctrl_result, Keystone) sum \<times> KeystoneIdentityBackend" where
  "resolveKeystone X s =
     (let (b, w) = s; name = ib_keystone (kb_spec b); namespace = m_namespace (kb_meta b) in
      case bx_keystone X (namespace, name) w of
        Inl e \<Rightarrow>
          if is_not_found e
          then (Inl zero_result, setDomainReady X CFalse conditionReasonKeystoneNotFound
                  (Msg ''Keystone %s not found in namespace %s'' [Str name, Str namespace]) b)
          else (Inl (after RequeueSecretPolling), setDomainReady X CFalse conditionReasonKeystoneNotFound
                  (Msg ''fetching Keystone %s: %v'' [Str name, Val e]) b)
      | Inr k \<Rightarrow>
          if \<not> cond_true (bx_meta X) (ko_conditions k) ''KeystoneAPIReady''
          then (Inl zero_result, setDomainReady X CFalse conditionReasonWaitingForKeystoneAPI
                  (Msg ''Keystone %s API is not ready yet'' [Str (ko_name k)]) b)
          else (Inr k, b))"

definition adminCredentials :: "'w backend_env \<Rightarrow> Keystone \<Rightarrow> 'w \<Rightarrow> Credentials result" where
  "adminCredentials X k w =
     (case GetSecretValue (bx_eso X) (ko_namespace k, sr_name (bs_admin_secret (ks_bootstrap (ko_spec k)))) ''password'' w of
        Inl e \<Rightarrow> Inl e
      | Inr password \<Rightarrow>
          Inr \<lparr>cr_user = bs_admin_user (ks_bootstrap (ko_spec k)), cr_password = password, cr_project = [], cr_user_domain = []\<rparr>)"

section \<open>The domain\<close>

definition adopt_domain :: "'w backend_env \<Rightarrow> identity_domain option \<Rightarrow> 'w kb_step" where
  "adopt_domain X existing s =
     (let (b, w) = s; name = Str (backend_domain b) in
      case existing of
        None \<Rightarrow>
          ((after RequeueDatabaseWait, None),
           setDomainReady X CFalse conditionReasonDomainNotFound
             (Msg ''domain %q not found; Adopt mode never creates domains'' [name]) b, w)
      | Some d \<Rightarrow>
          goes_on (setDomainReady X CTrue conditionReasonDomainAdopted (Msg ''domain %q adopted (id %s)'' [name, Str (dm_id d)])
                     (put_domain_id (dm_id d) b),
                   if kb_domain_id b = []
                   then tell X EvNormal ''DomainAdopted'' ''Adopted pre-existing domain %q (id %s)'' [name, Str (dm_id d)] w else w))"

definition domain_provisioned :: "'w backend_env \<Rightarrow> string \<Rightarrow> KeystoneIdentityBackend \<Rightarrow> KeystoneIdentityBackend" where
  "domain_provisioned X i b =
     setDomainReady X CTrue conditionReasonDomainProvisioned
       (Msg ''domain %q provisioned (id %s)'' [Str (backend_domain b), Str i]) b"

definition create_domain :: "'w backend_env \<Rightarrow> 'w identity_client \<Rightarrow> 'w kb_step" where
  "create_domain X I s =
     (let (b, w) = s; name = Str (backend_domain b) in
      case ic_create_domain I \<lparr>dm_id = [], dm_name = backend_domain b, dm_description = do_description (ib_domain (kb_spec b)),
                               dm_enabled = Some True\<rparr> w of
        (Inl e, w') \<Rightarrow> failed_at X setDomainReady ''creating domain %q'' [name] e (b, w')
      | (Inr d, w') \<Rightarrow>
          goes_on (domain_provisioned X (dm_id d) (put_domain_id (dm_id d) b),
                   tell X EvNormal ''DomainCreated'' ''Created domain %q (id %s)'' [name, Str (dm_id d)] w'))"

definition keep_domain :: "'w backend_env \<Rightarrow> 'w identity_client \<Rightarrow> identity_domain \<Rightarrow> 'w kb_step" where
  "keep_domain X I d s =
     (let (b, w) = s; name = Str (backend_domain b); want = do_description (ib_domain (kb_spec b));
          enabled = (dm_enabled d \<noteq> Some False) in
      if kb_domain_id b = [] \<or> kb_domain_id b \<noteq> dm_id d
      then goes_on (setDomainReady X CFalse conditionReasonDomainAlreadyExists
             (Msg ''domain %q already exists (id %s) but was not created by this backend; use domain.mode Adopt to attach to it''
                [name, Str (dm_id d)]) b, w)
      else if dm_description d = want \<and> enabled then goes_on (domain_provisioned X (dm_id d) b, w)
      else case ic_update_domain I (dm_id d) (if enabled then None else Some True)
                  (if dm_description d \<noteq> want then Some want else None) w of
        (Some e, w') \<Rightarrow> failed_at X setDomainReady ''updating domain %q'' [name] e (b, w')
      | (None, w') \<Rightarrow> goes_on (domain_provisioned X (dm_id d) b, w'))"

definition ensureDomain :: "'w backend_env \<Rightarrow> 'w identity_client \<Rightarrow> 'w kb_step" where
  "ensureDomain X I s =
     (let (b, w) = s; name = Str (backend_domain b) in
      case ic_get_domain I (backend_domain b) w of
        (Inl e, w') \<Rightarrow>
          if \<not> api_absent e then failed_at X setDomainReady ''looking up domain %q'' [name] e (b, w')
          else if do_mode (ib_domain (kb_spec b)) = DomainModeAdopt then adopt_domain X None (b, w')
          else create_domain X I (b, w')
      | (Inr d, w') \<Rightarrow>
          if do_mode (ib_domain (kb_spec b)) = DomainModeAdopt then adopt_domain X (Some d) (b, w')
          else keep_domain X I d (b, w'))"

section \<open>The objects of a federated backend\<close>

definition federationMappingID :: "KeystoneIdentityBackend \<Rightarrow> string" where
  "federationMappingID b = EffectiveIdentityProviderName b @ ''-mapping''"

definition toGophercloudDomain :: "MappingDomainSpec option \<Rightarrow> gc_domain option" where
  "toGophercloudDomain d = (case d of None \<Rightarrow> None | Some x \<Rightarrow> Some \<lparr>gd_id = mdm_id x, gd_name = mdm_name x\<rparr>)"

definition toGophercloudRemoteRules :: "MappingRemoteRuleSpec list \<Rightarrow> gc_remote list" where
  "toGophercloudRemoteRules =
     map (\<lambda>r. \<lparr>gr_type = mo_type r, gr_regex = mo_regex r, gr_any_one_of = mo_any_one_of r, gr_not_any_of = mo_not_any_of r,
              gr_blacklist = mo_blacklist r, gr_whitelist = mo_whitelist r\<rparr>)"

definition toGophercloudUser :: "MappingUserSpec \<Rightarrow> gc_user" where
  "toGophercloudUser u =
     \<lparr>gu_id = mu_id u, gu_name = mu_name u, gu_email = mu_email u, gu_domain = toGophercloudDomain (mu_domain u),
      gu_type = (if mu_type u \<noteq> [] then Some (mu_type u) else None)\<rparr>"

definition toGophercloudLocalRules :: "MappingLocalRuleSpec list \<Rightarrow> gc_local list" where
  "toGophercloudLocalRules =
     map (\<lambda>l. \<lparr>gl_domain = toGophercloudDomain (ml_domain l),
              gl_group = map_option (\<lambda>g. \<lparr>gg_id = mg_id g, gg_name = mg_name g, gg_domain = toGophercloudDomain (mg_domain g)\<rparr>) (ml_group l),
              gl_group_ids = ml_group_ids l, gl_groups = ml_groups l,
              gl_projects = map (\<lambda>p. \<lparr>gj_name = mp_name p, gj_roles = map mpr_name (mp_roles p)\<rparr>) (ml_projects l),
              gl_user = map_option toGophercloudUser (ml_user l)\<rparr>)"

definition toGophercloudMappingRules :: "MappingRuleSpec list \<Rightarrow> gc_rule list" where
  "toGophercloudMappingRules =
     map (\<lambda>r. \<lparr>gc_local_rules = toGophercloudLocalRules (mr_local r), gc_remote_rules = toGophercloudRemoteRules (mr_remote r)\<rparr>)"

definition idp_changes :: "KeystoneIdentityBackend \<Rightarrow> IdentityProvider \<Rightarrow> bool option \<times> string option \<times> string list option" where
  "idp_changes b i =
     (let want = do_description (ib_domain (kb_spec b)); remote = FederationRemoteID b in
      (if ip_enabled i = Some False then Some True else None,
       if ip_description i \<noteq> want then Some want else None,
       if ip_remote_ids i \<noteq> [remote] then Some [remote] else None))"

definition ensureIdentityProvider :: "'w backend_env \<Rightarrow> 'w identity_client \<Rightarrow> 'w kb_step" where
  "ensureIdentityProvider X I s =
     (let (b, w) = s; idp = EffectiveIdentityProviderName b; remote = FederationRemoteID b in
      case ic_get_idp I idp w of
        (Inl e, w1) \<Rightarrow>
          if \<not> api_absent e then failed_at X setFederationObjectsReady ''looking up identity provider %q'' [Str idp] e (b, w1)
          else (case ic_create_idp I \<lparr>ip_id = idp, ip_domain = kb_domain_id b, ip_description = do_description (ib_domain (kb_spec b)),
                        ip_enabled = Some True, ip_remote_ids = [remote]\<rparr> w1 of
                  (Some e', w2) \<Rightarrow> failed_at X setFederationObjectsReady ''creating identity provider %q'' [Str idp] e' (b, w2)
                | (None, w2) \<Rightarrow>
                    goes_on (b, tell X EvNormal ''IdentityProviderCreated'' ''Created identity provider %q (remote ID %s)''
                                  [Str idp, Str remote] w2))
      | (Inr i, w1) \<Rightarrow>
          (let (en, desc, ids) = idp_changes b i in
           if en = None \<and> desc = None \<and> ids = None then goes_on (b, w1)
           else (case ic_update_idp I idp en desc ids w1 of
                   (Some e, w2) \<Rightarrow> failed_at X setFederationObjectsReady ''updating identity provider %q'' [Str idp] e (b, w2)
                 | (None, w2) \<Rightarrow> goes_on (b, w2))))"

text \<open>A role, domain or project that is not there is waited for.\<close>

definition wait_for_object :: "'w backend_env \<Rightarrow> string \<Rightarrow> farg list \<Rightarrow> 'w kb_step" where
  "wait_for_object X text args s =
     (let (b, w) = s in
      ((after RequeueDatabaseWait, None), setMappingsReady X CFalse conditionReasonRoleOrProjectNotFound (Msg text args) b, w))"

definition assign_on_domain ::
  "'w backend_env \<Rightarrow> 'w identity_client \<Rightarrow> identity_group \<Rightarrow> string \<Rightarrow> identity_role \<Rightarrow> 'w kb_step" where
  "assign_on_domain X I g name r s =
     (let (b, w) = s; who = [Str name, Str (gq_name g)] in
      case ic_has_on_domain I (kb_domain_id b) (gq_id g) (ro_id r) w of
        (Inl e, w1) \<Rightarrow> api_failed X setMappingsReady ''checking role %q of group %q on domain'' who ''checking role %q on domain'' [Str name] e (b, w1)
      | (Inr True, w1) \<Rightarrow> goes_on (b, w1)
      | (Inr False, w1) \<Rightarrow>
          (case ic_assign_on_domain I (kb_domain_id b) (gq_id g) (ro_id r) w1 of
             (Some e, w2) \<Rightarrow>
               api_failed X setMappingsReady ''assigning role %q to group %q on domain'' who ''assigning role %q on domain'' [Str name] e (b, w2)
           | (None, w2) \<Rightarrow> goes_on (b, w2)))"

definition assign_on_project ::
  "'w backend_env \<Rightarrow> 'w identity_client \<Rightarrow> identity_group \<Rightarrow> string \<Rightarrow> identity_role \<Rightarrow> string \<Rightarrow> string \<Rightarrow> 'w kb_step" where
  "assign_on_project X I g name r project pid s =
     (let (b, w) = s; who = [Str name, Str (gq_name g), Str project]; short = [Str name, Str project] in
      case ic_has_on_project I pid (gq_id g) (ro_id r) w of
        (Inl e, w1) \<Rightarrow>
          api_failed X setMappingsReady ''checking role %q of group %q on project %q'' who ''checking role %q on project %q'' short e (b, w1)
      | (Inr True, w1) \<Rightarrow> goes_on (b, w1)
      | (Inr False, w1) \<Rightarrow>
          (case ic_assign_on_project I pid (gq_id g) (ro_id r) w1 of
             (Some e, w2) \<Rightarrow>
               api_failed X setMappingsReady ''assigning role %q to group %q on project %q'' who ''assigning role %q on project %q'' short e (b, w2)
           | (None, w2) \<Rightarrow> goes_on (b, w2)))"

definition assign_in_project_domain ::
  "'w backend_env \<Rightarrow> 'w identity_client \<Rightarrow> identity_group \<Rightarrow> string \<Rightarrow> identity_role \<Rightarrow> string \<Rightarrow> string \<Rightarrow> 'w kb_step" where
  "assign_in_project_domain X I g name r project domain s =
     (let (b, w) = s in
      case ic_get_project I project domain w of
        (Inl e, w1) \<Rightarrow>
          if api_absent e then wait_for_object X ''project %q not found in domain %s'' [Str project, Str domain] (b, w1)
          else failed_at X setMappingsReady ''looking up project %q'' [Str project] e (b, w1)
      | (Inr p, w1) \<Rightarrow> assign_on_project X I g name r project (pr_id p) (b, w1))"

text \<open>
  The schema requires exactly one of \<open>project\<close> and \<open>domain\<close>; without either the source dereferences a nil pointer, which
  the manager turns into an error.
\<close>

definition applyRoleAssignment ::
  "'w backend_env \<Rightarrow> 'w identity_client \<Rightarrow> identity_group \<Rightarrow> FederationRoleAssignmentSpec \<Rightarrow> 'w kb_step" where
  "applyRoleAssignment X I g ra s =
     (let (b, w) = s; role = fra_role ra in
      case ic_get_role I role w of
        (Inl e, w1) \<Rightarrow>
          if api_absent e then wait_for_object X ''role %q not found'' [Str role] (b, w1)
          else failed_at X setMappingsReady ''looking up role %q'' [Str role] e (b, w1)
      | (Inr r, w1) \<Rightarrow>
          if fra_domain ra then assign_on_domain X I g role r (b, w1)
          else case fra_project ra of
            None \<Rightarrow> ((zero_result, Some (ExtErr ''invalid memory address or nil pointer dereference'')), b, w1)
          | Some p \<Rightarrow>
              if fps_domain p = [] then assign_in_project_domain X I g role r (fps_name p) (kb_domain_id b) (b, w1)
              else (case ic_get_domain I (fps_domain p) w1 of
                      (Inl e, w2) \<Rightarrow>
                        if api_absent e
                        then wait_for_object X ''domain %q of project %q not found'' [Str (fps_domain p), Str (fps_name p)] (b, w2)
                        else failed_at X setMappingsReady ''looking up domain %q'' [Str (fps_domain p)] e (b, w2)
                    | (Inr d, w2) \<Rightarrow> assign_in_project_domain X I g role r (fps_name p) (dm_id d) (b, w2)))"

fun apply_roles ::
  "'w backend_env \<Rightarrow> 'w identity_client \<Rightarrow> identity_group \<Rightarrow> FederationRoleAssignmentSpec list \<Rightarrow> 'w kb_step" where
  "apply_roles X I g [] s = goes_on s"
| "apply_roles X I g (ra # ras) s = and_then (applyRoleAssignment X I g ra) (apply_roles X I g ras) s"

definition ensure_group ::
  "'w backend_env \<Rightarrow> 'w identity_client \<Rightarrow> string \<Rightarrow> FederationGroupSpec \<Rightarrow> 'w \<Rightarrow> identity_group result \<times> 'w" where
  "ensure_group X I domain gs w =
     (case ic_get_group I (fg_name gs) domain w of
        (Inr g, w1) \<Rightarrow> (Inr g, w1)
      | (Inl e, w1) \<Rightarrow>
          if \<not> api_absent e then (Inl e, w1)
          else (case ic_create_group I \<lparr>gq_id = [], gq_name = fg_name gs, gq_domain = domain, gq_description = fg_description gs\<rparr> w1 of
                  (Inl e', w2) \<Rightarrow> (Inl e', w2)
                | (Inr g, w2) \<Rightarrow>
                    (Inr g, tell X EvNormal ''FederationGroupCreated'' ''Created group %q in domain %s'' [Str (fg_name gs), Str domain] w2)))"

fun ensure_groups :: "'w backend_env \<Rightarrow> 'w identity_client \<Rightarrow> FederationGroupSpec list \<Rightarrow> 'w kb_step" where
  "ensure_groups X I [] s = goes_on s"
| "ensure_groups X I (gs # rest) s =
     (case ensure_group X I (kb_domain_id (fst s)) gs (snd s) of
        (Inl e, w1) \<Rightarrow> failed_at X setMappingsReady ''ensuring group %q'' [Str (fg_name gs)] e (fst s, w1)
      | (Inr g, w1) \<Rightarrow> and_then (apply_roles X I g (fg_roles gs)) (ensure_groups X I rest) (fst s, w1))"

definition ensureFederationGroups :: "'w backend_env \<Rightarrow> 'w identity_client \<Rightarrow> 'w kb_step" where
  "ensureFederationGroups X I s = ensure_groups X I (ib_groups (kb_spec (fst s))) s"

definition ensure_mapping :: "'w backend_env \<Rightarrow> 'w identity_client \<Rightarrow> 'w kb_step" where
  "ensure_mapping X I s =
     (let (b, w) = s; i = federationMappingID b; want = toGophercloudMappingRules (ib_mappings (kb_spec b));
          args = [Str i, Num (int (length want))] in
      case ic_get_mapping I i w of
        (Inl e, w1) \<Rightarrow>
          if \<not> api_absent e then failed_at X setMappingsReady ''looking up mapping %q'' [Str i] e (b, w1)
          else (case ic_create_mapping I i want w1 of
                  (Some e', w2) \<Rightarrow> failed_at X setMappingsReady ''creating mapping %q'' [Str i] e' (b, w2)
                | (None, w2) \<Rightarrow> goes_on (b, tell X EvNormal ''MappingCreated'' ''Created federation mapping %q (%d rules)'' args w2))
      | (Inr have, w1) \<Rightarrow>
          if bx_same_rules X have want then goes_on (b, w1)
          else (case ic_update_mapping I i want w1 of
                  (Some e, w2) \<Rightarrow> failed_at X setMappingsReady ''updating mapping %q'' [Str i] e (b, w2)
                | (None, w2) \<Rightarrow> goes_on (b, tell X EvNormal ''MappingUpdated'' ''Updated federation mapping %q (%d rules)'' args w2)))"

definition mappings_applied :: "'w backend_env \<Rightarrow> 'w kb_step" where
  "mappings_applied X s =
     goes_on (setMappingsReady X CTrue ''MappingsApplied''
       (Msg ''mapping %q, %d group(s), and role assignments applied''
          [Str (federationMappingID (fst s)), Num (int (length (ib_groups (kb_spec (fst s)))))]) (fst s), snd s)"

definition ensureMappingAndGroups :: "'w backend_env \<Rightarrow> 'w identity_client \<Rightarrow> 'w kb_step" where
  "ensureMappingAndGroups X I = and_then (ensure_mapping X I) (and_then (ensureFederationGroups X I) (mappings_applied X))"

definition protocol_provisioned :: "'w backend_env \<Rightarrow> KeystoneIdentityBackend \<Rightarrow> KeystoneIdentityBackend" where
  "protocol_provisioned X b =
     setFederationObjectsReady X CTrue ''FederationObjectsProvisioned''
       (Msg ''identity provider %q and protocol %q provisioned'' [Str (EffectiveIdentityProviderName b), Str (EffectiveProtocolID b)]) b"

definition ensureProtocol :: "'w backend_env \<Rightarrow> 'w identity_client \<Rightarrow> 'w kb_step" where
  "ensureProtocol X I s =
     (let (b, w) = s; idp = EffectiveIdentityProviderName b; p = EffectiveProtocolID b; m = federationMappingID b in
      case ic_get_protocol I idp p w of
        (Inl e, w1) \<Rightarrow>
          if \<not> api_absent e then failed_at X setFederationObjectsReady ''looking up protocol %q'' [Str p] e (b, w1)
          else (case ic_create_protocol I idp p m w1 of
                  (Some e', w2) \<Rightarrow> failed_at X setFederationObjectsReady ''creating protocol %q'' [Str p] e' (b, w2)
                | (None, w2) \<Rightarrow>
                    goes_on (protocol_provisioned X b,
                      tell X EvNormal ''ProtocolCreated'' ''Created protocol %q on identity provider %q (mapping %s)'' [Str p, Str idp, Str m] w2))
      | (Inr have, w1) \<Rightarrow>
          if pt_mapping have = m then goes_on (protocol_provisioned X b, w1)
          else (case ic_update_protocol I idp p m w1 of
                  (Some e, w2) \<Rightarrow> failed_at X setFederationObjectsReady ''updating protocol %q'' [Str p] e (b, w2)
                | (None, w2) \<Rightarrow> goes_on (protocol_provisioned X b, w2)))"

definition no_rules_message :: msg where
  "no_rules_message =
     Msg ''spec.mappings is empty: keystone requires at least one mapping rule before the federation protocol can be provisioned'' []"

definition ensureFederation :: "'w backend_env \<Rightarrow> 'w identity_client \<Rightarrow> 'w kb_step" where
  "ensureFederation X I s =
     (if ib_mappings (kb_spec (fst s)) = []
      then goes_on (setMappingsReady X CFalse conditionReasonNoMappingRules no_rules_message
                      (setFederationObjectsReady X CFalse conditionReasonNoMappingRules no_rules_message (fst s)), snd s)
      else and_then (ensureIdentityProvider X I) (and_then (ensureMappingAndGroups X I) (ensureProtocol X I)) s)"

section \<open>Whether the Deployment mounts the backend\<close>

definition secret_of_source :: "volume_source \<Rightarrow> string option" where
  "secret_of_source v =
     (case v of SecretDefaultSource n \<Rightarrow> Some n | SecretItemsSource n _ _ \<Rightarrow> Some n | SecretSource n _ \<Rightarrow> Some n | _ \<Rightarrow> None)"

definition mounted_secret :: "service_pod deployment \<Rightarrow> string \<Rightarrow> string" where
  "mounted_secret d name =
     (case find (\<lambda>v. vo_name v = name \<and> secret_of_source (vo_source v) \<noteq> None) (po_volumes (dp_template d)) of
        None \<Rightarrow> []
      | Some v \<Rightarrow> the (secret_of_source (vo_source v)))"

text \<open>The volume a backend is projected into and its key there.\<close>

definition projected_at :: "KeystoneIdentityBackend \<Rightarrow> string \<times> string" where
  "projected_at b =
     (if kb_type b = IdentityBackendTypeOIDC then (federationMetadataVolumeName, federationClientKeyName (kb_name b))
      else if kb_type b = IdentityBackendTypeSAML then (federationMellonVolumeName, samlIdPMetadataKeyName (kb_name b))
      else (domainsVolumeName, domainConfFileName (backend_domain b)))"

definition isConfigProjected :: "'w backend_env \<Rightarrow> Keystone \<Rightarrow> KeystoneIdentityBackend \<Rightarrow> 'w \<Rightarrow> bool result" where
  "isConfigProjected X k b w =
     (let (vol, key) = projected_at b; dkey = (ko_namespace k, subResourceName k) in
      case bx_deployment X dkey w of
        Inl e \<Rightarrow>
          if is_not_found e then Inr False
          else Inl (Errorf ''fetching Deployment %s: %w'' [Strs [fst dkey, snd dkey], Wrap e])
      | Inr d \<Rightarrow>
          (let name = mounted_secret d vol in
           if name = [] then Inr False
           else case eso_secret (bx_eso X) (ko_namespace k, name) w of
             Inl e \<Rightarrow>
               if is_not_found e then Inr False
               else Inl (Errorf ''fetching projection Secret %s: %w'' [Strs [ko_namespace k, name], Wrap e])
           | Inr sec \<Rightarrow> Inr (map_of (s_data sec) key \<noteq> None)))"

definition observeConfigProjected :: "'w backend_env \<Rightarrow> Keystone \<Rightarrow> 'w kb_step" where
  "observeConfigProjected X k s =
     (let (b, w) = s; K = bx_meta X in
      case isConfigProjected X k b w of
        Inl e \<Rightarrow> ((zero_result, Some e), b, w)
      | Inr False \<Rightarrow>
          ((after RequeueSecretPolling, None),
           set_kb_condition K conditionTypeConfigProjected CFalse ''WaitingForProjection''
             (Msg ''waiting for the Keystone Deployment to mount this backend's domain config'' []) b, w)
      | Inr True \<Rightarrow>
          (let b1 = set_kb_condition K conditionTypeConfigProjected CTrue ''ConfigProjected''
                      (Msg ''domain config is mounted in the Keystone Deployment'' []) b
           in goes_on ((if kb_type b1 = IdentityBackendTypeSAML
                        then b1\<lparr>kb_status := (kb_status b1)\<lparr>it_sp_secret := samlSPMetadataSecretName k\<rparr>\<rparr> else b1), w)))"

section \<open>Deletion\<close>

text \<open>One deletion of a federation object: an absent one is fine, another error is reported and retried.\<close>

definition delete_object ::
  "'w backend_env \<Rightarrow> string \<Rightarrow> string \<Rightarrow> ('w \<Rightarrow> err option \<times> 'w) \<Rightarrow> 'w kb_step" where
  "delete_object X what name f s =
     (let (b, w) = s in
      case f w of
        (None, w') \<Rightarrow> goes_on (b, w')
      | (Some e, w') \<Rightarrow>
          if api_absent e then goes_on (b, w')
          else ((after RequeueDatabaseWait, None), b,
                tell X EvWarning ''FederationTeardownFailed'' (''Deleting '' @ what @ '' %q failed: %v'') [Str name, Val e] w'))"

definition teardown_objects :: "'w backend_env \<Rightarrow> 'w identity_client \<Rightarrow> 'w kb_step" where
  "teardown_objects X I s =
     (let b = fst s; idp = EffectiveIdentityProviderName b; p = EffectiveProtocolID b; m = federationMappingID b in
      and_then (delete_object X ''protocol'' p (ic_delete_protocol I idp p))
       (and_then (delete_object X ''mapping'' m (ic_delete_mapping I m))
        (and_then (delete_object X ''identity provider'' idp (ic_delete_idp I idp))
          (\<lambda>(b, w). goes_on (b, tell X EvNormal ''FederationObjectsDeleted''
             ''Deleted protocol %q, mapping %q, and identity provider %q'' [Str p, Str m, Str idp] w)))) s)"

definition teardownFederationObjects :: "'w backend_env \<Rightarrow> Keystone \<Rightarrow> 'w kb_step" where
  "teardownFederationObjects X k s =
     (let (b, w) = s in
      case adminCredentials X k w of
        Inl e \<Rightarrow>
          if IsMissingSecretOrKey e
          then goes_on (b, tell X EvWarning ''FederationTeardownFailed''
                 ''Retaining federation objects of %q: admin password Secret is unavailable (%v)'' [Str (EffectiveIdentityProviderName b), Val e] w)
          else ((zero_result, Some e), b, w)
      | Inr creds \<Rightarrow> teardown_objects X (identityClient X (internalAPIURL (ko_meta k)) creds) (b, w))"

definition domain_delete_failed :: "'w backend_env \<Rightarrow> string \<Rightarrow> err \<Rightarrow> 'w kb_step" where
  "domain_delete_failed X text e s =
     (let (b, w) = s in
      ((after RequeueDatabaseWait, None), b, tell X EvWarning ''DomainDeleteFailed'' text [Str (backend_domain b), Val e] w))"

definition delete_domain :: "'w backend_env \<Rightarrow> 'w identity_client \<Rightarrow> 'w kb_step" where
  "delete_domain X I s =
     (let (b, w) = s;
          deleted = (\<lambda>w. goes_on (b, tell X EvNormal ''DomainDeleted'' ''Deleted domain %q (id %s)''
                       [Str (backend_domain b), Str (kb_domain_id b)] w)) in
      case ic_update_domain I (kb_domain_id b) (Some False) None w of
        (Some e, w1) \<Rightarrow>
          if api_absent e then goes_on (b, w1)
          else domain_delete_failed X ''Disabling domain %q failed: %v'' e (b, w1)
      | (None, w1) \<Rightarrow>
          (case ic_delete_domain I (kb_domain_id b)
                  (tell X EvNormal ''DomainDisabled'' ''Disabled domain %q before deletion'' [Str (backend_domain b)] w1) of
             (Some e, w2) \<Rightarrow>
               if api_absent e then deleted w2 else domain_delete_failed X ''Deleting domain %q failed: %v'' e (b, w2)
           | (None, w2) \<Rightarrow> deleted w2))"

definition applyDomainDeletionPolicy :: "'w backend_env \<Rightarrow> Keystone \<Rightarrow> 'w kb_step" where
  "applyDomainDeletionPolicy X k s =
     (let (b, w) = s; d = ib_domain (kb_spec b) in
      if do_mode d \<noteq> DomainModeManage \<or> do_deletion d \<noteq> DomainDeletionPolicyDelete \<or> kb_domain_id b = [] then goes_on (b, w)
      else case adminCredentials X k w of
        Inl e \<Rightarrow>
          if IsMissingSecretOrKey e
          then goes_on (b, tell X EvWarning ''DomainDeleteFailed'' ''Retaining domain %q: admin password Secret is unavailable (%v)''
                 [Str (do_name d), Val e] w)
          else ((zero_result, Some e), b, w)
      | Inr creds \<Rightarrow> delete_domain X (identityClient X (internalAPIURL (ko_meta k)) creds) (b, w))"

definition kb_has_finalizer :: "KeystoneIdentityBackend \<Rightarrow> string \<Rightarrow> bool" where
  "kb_has_finalizer b f \<longleftrightarrow> f \<in> set (m_finalizers (kb_meta b))"

definition kb_add_finalizer :: "KeystoneIdentityBackend \<Rightarrow> string \<Rightarrow> KeystoneIdentityBackend" where
  "kb_add_finalizer b f =
     (if kb_has_finalizer b f then b else b\<lparr>kb_meta := (kb_meta b)\<lparr>m_finalizers := m_finalizers (kb_meta b) @ [f]\<rparr>\<rparr>)"

definition removeFinalizer :: "'w backend_env \<Rightarrow> 'w kb_step" where
  "removeFinalizer X s =
     (let (b, w) = s;
          b1 = b\<lparr>kb_meta := (kb_meta b)\<lparr>m_finalizers := removeAll identityBackendFinalizerName (m_finalizers (kb_meta b))\<rparr>\<rparr> in
      case k_update (bx_client X) b1 w of
        (Inl e, w') \<Rightarrow> ((zero_result, Some (Errorf ''removing identity-backend finalizer: %w'' [Wrap e])), b1, w')
      | (Inr b2, w') \<Rightarrow> goes_on (b2, w'))"

definition teardown_and_release :: "'w backend_env \<Rightarrow> Keystone \<Rightarrow> 'w kb_step" where
  "teardown_and_release X k s =
     and_then (if IsFederationType (fst s) then teardownFederationObjects X k else goes_on)
       (and_then (applyDomainDeletionPolicy X k) (removeFinalizer X)) s"

definition reconcileBackendDelete :: "'w backend_env \<Rightarrow> 'w kb_step" where
  "reconcileBackendDelete X s =
     (let (b, w) = s; key = (m_namespace (kb_meta b), ib_keystone (kb_spec b)) in
      if \<not> kb_has_finalizer b identityBackendFinalizerName then goes_on (b, w)
      else case bx_keystone X key w of
        Inl e \<Rightarrow>
          if is_not_found e then removeFinalizer X (b, w)
          else ((zero_result, Some (Errorf ''fetching referenced Keystone %s: %w'' [Strs [fst key, snd key], Wrap e])), b, w)
      | Inr k \<Rightarrow>
          (case isConfigProjected X k b w of
             Inl e \<Rightarrow> ((zero_result, Some e), b, w)
           | Inr True \<Rightarrow> ((after RequeueSecretPolling, None), b, w)
           | Inr False \<Rightarrow> teardown_and_release X k (b, w)))"

section \<open>The loop\<close>

definition ensure_federation_if_ready :: "'w backend_env \<Rightarrow> 'w identity_client \<Rightarrow> 'w kb_step" where
  "ensure_federation_if_ready X I s =
     (let (b, w) = s in
      if IsFederationType b \<and> cond_true (bx_meta X) (kb_conditions b) conditionTypeDomainReady \<and> kb_domain_id b \<noteq> []
      then ensureFederation X I (b, w) else goes_on (b, w))"

definition reconcileBackend :: "'w backend_env \<Rightarrow> 'w kb_step" where
  "reconcileBackend X s =
     (case resolveKeystone X s of
        (Inl r, b) \<Rightarrow> ((r, None), b, snd s)
      | (Inr k, b) \<Rightarrow>
          (case adminCredentials X k (snd s) of
             Inl e \<Rightarrow>
               if IsMissingSecretOrKey e
               then ((after RequeueSecretPolling, None),
                     setDomainReady X CFalse conditionReasonAdminSecretUnavailable
                       (Msg ''Admin password Secret %s/%s is missing or has no password key''
                          [Str (ko_namespace k), Str (sr_name (bs_admin_secret (ks_bootstrap (ko_spec k))))]) b, snd s)
               else ((zero_result, Some e), b, snd s)
           | Inr creds \<Rightarrow>
               (let I = identityClient X (internalAPIURL (ko_meta k)) creds in
                and_then (ensureDomain X I) (and_then (ensure_federation_if_ready X I) (observeConfigProjected X k)) (b, snd s))))"

definition summarise :: "meta_api \<Rightarrow> KeystoneIdentityBackend \<Rightarrow> KeystoneIdentityBackend" where
  "summarise K b =
     (let b1 = put_kb_conditions (SetAggregateReady K (kb_conditions b) (m_generation (kb_meta b)) (identityBackendSubConditionTypesFor b)) b
      in b1\<lparr>kb_status := (kb_status b1)\<lparr>it_observed := m_generation (kb_meta b1)\<rparr>\<rparr>)"

definition updateBackendStatus ::
  "'w backend_env \<Rightarrow> KeystoneIdentityBackendStatus \<Rightarrow> ctrl_result \<Rightarrow> err option \<Rightarrow> 'w kb_step" where
  "updateBackendStatus X before r e =
     UpdateStatus (bx_sem_eq X) kb_status (bx_status_update X) (Some before) (summarise (bx_meta X)) r e"

definition reconcile_backend_found :: "'w backend_env \<Rightarrow> 'w kb_step" where
  "reconcile_backend_found X s =
     (let (b, w) = s in
      if m_deleting (kb_meta b) then reconcileBackendDelete X (b, w)
      else case EnsureFinalizer kb_has_finalizer kb_add_finalizer (bx_client X) identityBackendFinalizerName b w of
        ((_, Some e), b1, w1) \<Rightarrow> ((zero_result, Some e), b1, w1)
      | ((True, None), b1, w1) \<Rightarrow> ((requeue_now, None), b1, w1)
      | ((False, None), b1, w1) \<Rightarrow>
          (let ((r, e), b2, w2) = reconcileBackend X (b1, w1) in updateBackendStatus X (kb_status b1) r e (b2, w2)))"

definition ReconcileIdentityBackend :: "'w backend_env \<Rightarrow> objkey \<Rightarrow> 'w \<Rightarrow> (ctrl_result \<times> err option) \<times> 'w" where
  "ReconcileIdentityBackend X req w =
     (case k_get (bx_client X) req w of
        Inl e \<Rightarrow>
          if is_not_found e then ((zero_result, None), w)
          else ((zero_result, Some (Errorf ''fetching KeystoneIdentityBackend: %w'' [Wrap e])), w)
      | Inr b \<Rightarrow> (case reconcile_backend_found X (b, w) of (r, _, w') \<Rightarrow> (r, w')))"

section \<open>Watches\<close>

text \<open>\<open>identityBackendSecretNameExtractor\<close>, \<open>identityBackendToKeystoneMapper\<close> and \<open>keystoneToIdentityBackendsMapper\<close>.\<close>

definition identityBackendSecretNames :: "KeystoneIdentityBackend \<Rightarrow> string list" where
  "identityBackendSecretNames b =
     add_new (filter (\<lambda>n. n \<noteq> [])
       ((case ib_ldap (kb_spec b) of
           None \<Rightarrow> []
         | Some l \<Rightarrow> sr_name (ld_bind l) # (case ld_tls l of None \<Rightarrow> [] | Some t \<Rightarrow> [sr_name (lt_ca t)])) @
        (case ib_oidc (kb_spec b) of None \<Rightarrow> [] | Some c \<Rightarrow> [sr_name (oi_client_secret c)]) @
        (case ib_saml (kb_spec b) of
           None \<Rightarrow> []
         | Some m \<Rightarrow>
             (case sm_secret (sb_metadata m) of None \<Rightarrow> [] | Some r \<Rightarrow> [sr_name r]) @
             (case sb_sp m of None \<Rightarrow> [] | Some p \<Rightarrow> (case sp_certificate p of None \<Rightarrow> [] | Some r \<Rightarrow> [sr_name r]))))) []"

definition backend_keystone_key :: "KeystoneIdentityBackend \<Rightarrow> objkey" where
  "backend_keystone_key b = (m_namespace (kb_meta b), ib_keystone (kb_spec b))"

definition identityBackendToKeystoneMapper :: "KeystoneIdentityBackend \<Rightarrow> objkey list" where
  "identityBackendToKeystoneMapper b = (if ib_keystone (kb_spec b) = [] then [] else [backend_keystone_key b])"

text \<open>\<open>indexed\<close> lists the backends of a namespace that name a Secret, or a Keystone; \<open>base\<close> is the mapper it extends.\<close>

definition secretToKeystoneWithBackendsMapper ::
  "(string \<Rightarrow> string \<Rightarrow> 'w \<Rightarrow> KeystoneIdentityBackend list result) \<Rightarrow> (objkey \<Rightarrow> 'w \<Rightarrow> objkey list) \<Rightarrow> objkey \<Rightarrow> 'w \<Rightarrow> objkey list" where
  "secretToKeystoneWithBackendsMapper indexed base key w =
     (case indexed (fst key) (snd key) w of
        Inl e \<Rightarrow> base key w
      | Inr bs \<Rightarrow> add_new (map backend_keystone_key (filter (\<lambda>b. ib_keystone (kb_spec b) \<noteq> []) bs)) (base key w))"

definition keystoneToIdentityBackendsMapper ::
  "(string \<Rightarrow> string \<Rightarrow> 'w \<Rightarrow> KeystoneIdentityBackend list result) \<Rightarrow> objkey \<Rightarrow> 'w \<Rightarrow> objkey list" where
  "keystoneToIdentityBackendsMapper indexed key w =
     (case indexed (fst key) (snd key) w of Inl e \<Rightarrow> [] | Inr bs \<Rightarrow> map (\<lambda>b. key_of (kb_meta b)) bs)"

end
