(* ===== verification/FederationProperties.thy ===== *)
theory FederationProperties
  imports IdentityBackendController KeystoneProperties ControlPlaneKorcProperties
begin

text \<open>
  Properties of the federation that the Keystone operator renders: the headers its proxy strips, the lines of its
  configuration, the metadata it trusts, and which identity backends reach the configuration at all.
\<close>

section \<open>Lists without duplicates\<close>

lemma set_add_new [simp]: "set (add_new xs acc) = set acc \<union> set xs"
  by (induction xs arbitrary: acc) auto

lemma distinct_add_new: "distinct acc \<Longrightarrow> distinct (add_new xs acc)"
  by (induction xs arbitrary: acc) auto

lemma set_stripHeaders: "set (stripHeadersFromEnvNames envs) = (\<Union>e\<in>set envs. set (header_spellings e))"
  by (auto simp: stripHeadersFromEnvNames_def)

lemma header_spellings_http:
  "x \<noteq> [] \<Longrightarrow> set (header_spellings (''HTTP_'' @ x)) = {x, replace_char (CHR ''_'') (CHR ''-'') x}"
  by (simp add: header_spellings_def has_prefix_def)

section \<open>Maps written one entry after the other\<close>

lemma map_of_fold_put: "key \<notin> fst ` set xs \<Longrightarrow> map_of (fold (\<lambda>(key, v) m. map_put key v m) xs m) key = map_of m key"
  by (induction xs arbitrary: m) auto

lemma map_of_fold_wf:
  "wf_gomap xs \<Longrightarrow> (key, v) \<in> set xs \<Longrightarrow> map_of (fold (\<lambda>(key, v) m. map_put key v m) xs m) key = Some v"
proof (induction xs arbitrary: m)
  case (Cons x xs)
  show ?case
  proof (cases "(key, v) = x")
    case True
    then have "key \<notin> fst ` set xs" using Cons.prems(1) by (simp add: wf_gomap_def flip: True)
    then show ?thesis using True map_of_fold_put [of key xs] by (simp flip: True)
  qed (use Cons in \<open>auto simp: wf_gomap_def\<close>)
qed simp

section \<open>Headers the proxy strips\<close>

text \<open>The line that drops a client's header before any authentication module runs.\<close>

definition unset_line :: "('u, 'w) federation_env \<Rightarrow> string \<Rightarrow> string" where
  "unset_line E h = ''RequestHeader unset '' @ fx_quote E h @ '' early''"

definition both_unset :: "('u, 'w) federation_env \<Rightarrow> string list \<Rightarrow> string \<Rightarrow> bool" where
  "both_unset E ls x \<longleftrightarrow> unset_line E x \<in> set ls \<and> unset_line E (replace_char (CHR ''_'') (CHR ''-'') x) \<in> set ls"

lemma unset_lines: "h \<in> set (proxy_strip_headers os ss) \<Longrightarrow> unset_line E h \<in> set (proxy_lines E k os ss p)"
  by (auto simp: proxy_lines_def Let_def unset_line_def)

lemma strip_both:
  assumes "''HTTP_'' @ x \<in> set envs" "x \<noteq> []" "set (stripHeadersFromEnvNames envs) \<subseteq> set (proxy_strip_headers os ss)"
  shows "both_unset E (proxy_lines E k os ss p) x"
proof -
  have "{x, replace_char (CHR ''_'') (CHR ''-'') x} \<subseteq> set (proxy_strip_headers os ss)"
    using assms header_spellings_http [of x] by (auto simp: set_stripHeaders)
  then show ?thesis by (auto simp: both_unset_def intro: unset_lines)
qed

lemma renderOIDC_strip: "renderOIDCBackend E k b w = (Inr r, w') \<Longrightarrow> or_strip r = claimStripHeaders b"
  by (auto simp: renderOIDCBackend_def oidc_render_def Let_def split: option.splits sum.splits prod.splits)

lemma renderSAML_strip:
  "renderSAMLBackend E k b w = (Inr r, w') \<Longrightarrow> \<exists>s. ib_saml (kb_spec b) = Some s \<and> sl_strip r = samlStripHeaders b s \<and>
     sl_envs r = [''MELLON_IDP'', ''MELLON_NAME_ID''] @ map (\<lambda>a. ''MELLON_'' @ to_upper a) (sb_attributes s)"
  by (auto simp: renderSAMLBackend_def Let_def split: option.splits sum.splits prod.splits)

lemma strip_of_oidc: "r \<in> set os \<Longrightarrow> set (or_strip r) \<subseteq> set (proxy_strip_headers os ss)"
  by (auto simp: proxy_strip_headers_def)

lemma strip_of_saml: "r \<in> set ss \<Longrightarrow> set (sl_strip r) \<subseteq> set (proxy_strip_headers os ss)"
  by (auto simp: proxy_strip_headers_def)

text \<open>The variables an identity backend makes Keystone trust: the remote id and the types of its mapping rules.\<close>

definition trusted_variables :: "KeystoneIdentityBackend \<Rightarrow> string set" where
  "trusted_variables b = insert (EffectiveRemoteIDAttribute b) (set (remote_types b))"

lemma oidc_headers_unset:
  assumes "renderOIDCBackend E k b w = (Inr r, w')" "r \<in> set os" "''HTTP_'' @ x \<in> trusted_variables b" "x \<noteq> []"
  shows "both_unset E (proxy_lines E k os ss p) x"
  using strip_both [of x "EffectiveRemoteIDAttribute b # remote_types b" os ss] assms strip_of_oidc [OF assms(2), of ss]
  by (auto simp: trusted_variables_def renderOIDC_strip claimStripHeaders_def)

lemma saml_headers_unset:
  assumes "renderSAMLBackend E k b w = (Inr r, w')" "r \<in> set ss" "x \<noteq> []"
    and "''HTTP_'' @ x \<in> trusted_variables b \<or> x \<in> set (sl_envs r)"
  shows "both_unset E (proxy_lines E k os ss p) x"
proof -
  from renderSAML_strip [OF assms(1)] obtain s where s: "sl_strip r = samlStripHeaders b s"
    "sl_envs r = [''MELLON_IDP'', ''MELLON_NAME_ID''] @ map (\<lambda>a. ''MELLON_'' @ to_upper a) (sb_attributes s)" by blast
  have "''HTTP_'' @ x \<in> set ([EffectiveRemoteIDAttribute b, ''HTTP_MELLON_IDP'', ''HTTP_MELLON_NAME_ID''] @ remote_types b @
          map (\<lambda>a. ''HTTP_MELLON_'' @ to_upper a) (sb_attributes s))"
    using assms(4) by (auto simp: s(2) trusted_variables_def)
  then show ?thesis
    using strip_both assms(3) strip_of_saml [OF assms(2), of os] by (fastforce simp: s(1) samlStripHeaders_def)
qed

section \<open>One backend of the pass\<close>

text \<open>What a backend must be to reach the configuration.\<close>

definition eligible :: "('u, 'w) federation_env \<Rightarrow> KeystoneIdentityBackend list \<Rightarrow> KeystoneIdentityBackend \<Rightarrow> bool" where
  "eligible E bs b \<longleftrightarrow>
     \<not> m_deleting (kb_meta b) \<and> length (domain_owners bs b) \<le> 1 \<and> cond_true (fx_meta E) (kb_conditions b) conditionTypeDomainReady"

definition same_renders :: "projections \<Rightarrow> projections \<Rightarrow> bool" where
  "same_renders p p' \<longleftrightarrow> pj_data p' = pj_data p \<and> pj_oidc p' = pj_oidc p \<and> pj_saml p' = pj_saml p"

definition domain_data :: "KeystoneIdentityBackend \<Rightarrow> string \<Rightarrow> string option \<Rightarrow> string gomap \<Rightarrow> string gomap" where
  "domain_data b conf ca m =
     (let m1 = map_put (domainConfFileName (backend_domain b)) conf m
      in case ca of None \<Rightarrow> m1 | Some c \<Rightarrow> map_put (domainCAFileName (backend_domain b)) c m1)"

text \<open>A backend is left out because it is being deleted, put off as pending, or projected.\<close>

definition left_out :: "KeystoneIdentityBackend \<Rightarrow> projections \<Rightarrow> projections \<Rightarrow> bool" where
  "left_out b p p' \<longleftrightarrow> m_deleting (kb_meta b) \<and> p' = p"

definition put_off :: "projections \<Rightarrow> projections \<Rightarrow> bool" where
  "put_off p p' \<longleftrightarrow> same_renders p p' \<and> (\<exists>m. pj_pending p' = pj_pending p @ [m])"

definition oidc_added ::
  "('u, 'w) federation_env \<Rightarrow> Keystone \<Rightarrow> KeystoneIdentityBackend list \<Rightarrow> KeystoneIdentityBackend \<Rightarrow> projections \<Rightarrow> 'w \<Rightarrow>
     projections \<Rightarrow> 'w \<Rightarrow> bool" where
  "oidc_added E k bs b p w p' w' \<longleftrightarrow>
     eligible E bs b \<and> kb_type b = IdentityBackendTypeOIDC \<and> pj_data p' = pj_data p \<and> pj_saml p' = pj_saml p \<and>
     pj_pending p' = pj_pending p \<and> (\<exists>r. renderOIDCBackend E k b w = (Inr r, w') \<and> pj_oidc p' = pj_oidc p @ [r])"

definition saml_added ::
  "('u, 'w) federation_env \<Rightarrow> Keystone \<Rightarrow> KeystoneIdentityBackend list \<Rightarrow> KeystoneIdentityBackend \<Rightarrow> projections \<Rightarrow> 'w \<Rightarrow>
     projections \<Rightarrow> 'w \<Rightarrow> bool" where
  "saml_added E k bs b p w p' w' \<longleftrightarrow>
     eligible E bs b \<and> kb_type b = IdentityBackendTypeSAML \<and> pj_data p' = pj_data p \<and> pj_oidc p' = pj_oidc p \<and>
     pj_pending p' = pj_pending p \<and> (\<exists>r. renderSAMLBackend E k b w = (Inr r, w') \<and> pj_saml p' = pj_saml p @ [r])"

definition ldap_added ::
  "('u, 'w) federation_env \<Rightarrow> Keystone \<Rightarrow> KeystoneIdentityBackend list \<Rightarrow> KeystoneIdentityBackend \<Rightarrow> projections \<Rightarrow> 'w \<Rightarrow>
     projections \<Rightarrow> 'w \<Rightarrow> bool" where
  "ldap_added E k bs b p w p' w' \<longleftrightarrow>
     eligible E bs b \<and> \<not> IsFederationType b \<and> pj_oidc p' = pj_oidc p \<and> pj_saml p' = pj_saml p \<and> pj_pending p' = pj_pending p \<and>
     w' = w \<and> (\<exists>conf ca. renderDomainConf E (ko_namespace k) b w = Inr (conf, ca) \<and> pj_data p' = domain_data b conf ca (pj_data p))"

lemmas added_defs = oidc_added_def saml_added_def ldap_added_def
lemmas step_defs = project_backend_def project_ldap_def skip_on_def too_large_def proxy_missing_def pend_def

lemma project_saml_cases:
  "project_saml E k bs b (p, w) = (Inr p', w') \<Longrightarrow> eligible E bs b \<Longrightarrow> kb_type b = IdentityBackendTypeSAML \<Longrightarrow>
     put_off p p' \<or> saml_added E k bs b p w p' w'"
  by (auto simp: project_saml_def skip_on_def too_large_def pend_def put_off_def same_renders_def saml_added_def Let_def
        split: if_splits sum.splits prod.splits)

lemma project_oidc_cases:
  "project_oidc E k bs b (p, w) = (Inr p', w') \<Longrightarrow> eligible E bs b \<Longrightarrow> kb_type b = IdentityBackendTypeOIDC \<Longrightarrow>
     put_off p p' \<or> oidc_added E k bs b p w p' w'"
  by (auto simp: project_oidc_def skip_on_def too_large_def pend_def put_off_def same_renders_def oidc_added_def Let_def
        split: if_splits sum.splits prod.splits)

lemma project_ldap_cases:
  "project_ldap E k b (p, w) = (Inr p', w') \<Longrightarrow> eligible E bs b \<Longrightarrow> \<not> IsFederationType b \<Longrightarrow>
     put_off p p' \<or> ldap_added E k bs b p w p' w'"
  by (auto simp: project_ldap_def skip_on_def too_large_def pend_def put_off_def same_renders_def ldap_added_def domain_data_def Let_def
        split: if_splits sum.splits prod.splits option.splits)

lemma project_backend_cases:
  assumes "project_backend E k bs b (p, w) = (Inr p', w')"
  shows "left_out b p p' \<or> put_off p p' \<or> oidc_added E k bs b p w p' w' \<or> saml_added E k bs b p w p' w' \<or>
         ldap_added E k bs b p w p' w'"
proof (cases "m_deleting (kb_meta b) \<or> \<not> eligible E bs b")
  case True
  then show ?thesis using assms
    by (auto simp: project_backend_def eligible_def left_out_def put_off_def same_renders_def pend_def split: if_splits)
next
  case False
  then have el: "eligible E bs b" by simp
  show ?thesis
  proof (cases "IsFederationType b \<and> proxy_image k = None")
    case True
    then have "put_off p p'" using assms el
      by (auto simp: project_backend_def eligible_def proxy_missing_def pend_def put_off_def same_renders_def)
    then show ?thesis by simp
  next
    case False
    with el assms have step: "(if IsFederationType b then
        (if kb_type b = IdentityBackendTypeSAML then project_saml E k bs b (p, w) else project_oidc E k bs b (p, w))
        else project_ldap E k b (p, w)) = (Inr p', w')"
      by (auto simp: project_backend_def eligible_def split: if_splits)
    show ?thesis
      using step el project_saml_cases [of E k bs b p w p' w'] project_oidc_cases [of E k bs b p w p' w']
        project_ldap_cases [of E k b p w p' w' bs]
      by (auto simp: IsFederationType_def split: if_splits)
  qed
qed

lemma project_backends_induct [consumes 1, case_names start step]:
  assumes "project_backends E k bs rest (p, w) = (Inr p', w')" "Q p w"
    and "\<And>b p w p' w'. b \<in> set rest \<Longrightarrow> project_backend E k bs b (p, w) = (Inr p', w') \<Longrightarrow> Q p w \<Longrightarrow> Q p' w'"
  shows "Q p' w'"
  using assms
proof (induction rest arbitrary: p w)
  case (Cons b rest)
  from Cons.prems(1) obtain p1 w1 where "project_backend E k bs b (p, w) = (Inr p1, w1)"
    "project_backends E k bs rest (p1, w1) = (Inr p', w')" by (auto split: sum.splits prod.splits)
  then show ?case using Cons.IH [of p1 w1] Cons.prems by (meson list.set_intros)
qed simp

section \<open>Where the projected entries come from\<close>

definition from_oidc ::
  "('u, 'w) federation_env \<Rightarrow> Keystone \<Rightarrow> KeystoneIdentityBackend list \<Rightarrow> oidcRender \<Rightarrow> KeystoneIdentityBackend \<Rightarrow> bool" where
  "from_oidc E k bs r b \<longleftrightarrow>
     eligible E bs b \<and> kb_type b = IdentityBackendTypeOIDC \<and> (\<exists>w w'. renderOIDCBackend E k b w = (Inr r, w'))"

definition from_saml ::
  "('u, 'w) federation_env \<Rightarrow> Keystone \<Rightarrow> KeystoneIdentityBackend list \<Rightarrow> samlRender \<Rightarrow> KeystoneIdentityBackend \<Rightarrow> bool" where
  "from_saml E k bs r b \<longleftrightarrow>
     eligible E bs b \<and> kb_type b = IdentityBackendTypeSAML \<and> (\<exists>w w'. renderSAMLBackend E k b w = (Inr r, w'))"

definition well_sourced :: "('u, 'w) federation_env \<Rightarrow> Keystone \<Rightarrow> KeystoneIdentityBackend list \<Rightarrow> projections \<Rightarrow> bool" where
  "well_sourced E k bs p \<longleftrightarrow>
     (\<forall>r\<in>set (pj_oidc p). \<exists>b\<in>set bs. from_oidc E k bs r b) \<and> (\<forall>r\<in>set (pj_saml p). \<exists>b\<in>set bs. from_saml E k bs r b)"

lemma well_sourced_step:
  assumes "b \<in> set bs" "project_backend E k bs b (p, w) = (Inr p', w')" "well_sourced E k bs p"
  shows "well_sourced E k bs p'"
  using project_backend_cases [OF assms(2)]
proof (elim disjE)
  assume "oidc_added E k bs b p w p' w'"
  then obtain r where r: "pj_data p' = pj_data p" "pj_saml p' = pj_saml p" "pj_oidc p' = pj_oidc p @ [r]" "from_oidc E k bs r b"
    by (auto simp: oidc_added_def from_oidc_def)
  with assms(1,3) show ?thesis by (auto simp: well_sourced_def)
next
  assume "saml_added E k bs b p w p' w'"
  then obtain r where r: "pj_data p' = pj_data p" "pj_oidc p' = pj_oidc p" "pj_saml p' = pj_saml p @ [r]" "from_saml E k bs r b"
    by (auto simp: saml_added_def from_saml_def)
  with assms(1,3) show ?thesis by (auto simp: well_sourced_def)
next
  assume "ldap_added E k bs b p w p' w'"
  with assms(3) show ?thesis by (auto simp: ldap_added_def well_sourced_def)
qed (use assms(3) in \<open>auto simp: left_out_def put_off_def same_renders_def well_sourced_def\<close>)

lemma well_sourced_pass:
  "project_backends E k bs bs (no_projections, w) = (Inr p, w') \<Longrightarrow> well_sourced E k bs p"
  by (erule project_backends_induct) (simp add: well_sourced_def no_projections_def, rule well_sourced_step)

section \<open>What a backend projects\<close>

lemma renderOIDC_backend: "renderOIDCBackend E k b w = (Inr r, w') \<Longrightarrow> or_backend r = kb_name b"
  by (auto simp: renderOIDCBackend_def oidc_render_def Let_def split: option.splits sum.splits prod.splits)

lemma renderSAML_backend: "renderSAMLBackend E k b w = (Inr r, w') \<Longrightarrow> sl_backend r = kb_name b"
  by (auto simp: renderSAMLBackend_def Let_def split: option.splits sum.splits prod.splits)

text \<open>
  The entries of the Secret and the mounted items that the spec of a backend and the Secrets it names call for, read in a
  state \<open>v\<close>.
\<close>

definition oidc_called_for ::
  "('u, 'w) federation_env \<Rightarrow> Keystone \<Rightarrow> KeystoneIdentityBackend \<Rightarrow> 'w \<Rightarrow> string gomap \<Rightarrow> (string \<times> string) list \<Rightarrow> bool" where
  "oidc_called_for E k b v es items \<longleftrightarrow>
     (\<exists>c s provider client conf v'. ib_oidc (kb_spec b) = Some c \<and>
        GetSecretValue (fx_eso E) (ko_namespace k, sr_name (oi_client_secret c)) ''clientSecret'' v = Inr s \<and>
        provider_document E k b c v = (Inr provider, v') \<and>
        fx_marshal E [(''client_id'', oi_client_id c), (''client_secret'', trim_right newline_chars s)] = Inr client \<and>
        fx_marshal E [(''scope'', str_join '' '' (effectiveOIDCScopes c)), (''response_type'', effectiveOIDCResponseType c)] = Inr conf \<and>
        es = [(kb_name b @ ''.provider'', provider), (kb_name b @ ''.client'', client), (kb_name b @ ''.conf'', conf)] \<and>
        items = map (\<lambda>suffix. (kb_name b @ suffix, issuerToMetadataBasename (oi_issuer c) @ suffix)) [''.provider'', ''.client'', ''.conf''])"

definition saml_called_for ::
  "('u, 'w) federation_env \<Rightarrow> Keystone \<Rightarrow> KeystoneIdentityBackend \<Rightarrow> 'w \<Rightarrow> string gomap \<Rightarrow> (string \<times> string) list \<Rightarrow> bool" where
  "saml_called_for E k b v es items \<longleftrightarrow>
     (\<exists>s crt pk der document v1 v2. ib_saml (kb_spec b) = Some s \<and> ensureSAMLSPKeypair E k s v = (Inr (crt, pk, der), v1) \<and>
        saml_document E k b s v1 = (Inr document, v2) \<and> SAMLEntityIDFromMetadata (fx_xml E) document = Inr (sb_entity s) \<and>
        es = [(''sp-key.pem'', pk), (''sp-cert.pem'', crt),
              (''sp-metadata.xml'', renderSAMLSPMetadata (samlSPEndpointBaseURL k b @ ''/metadata'') (samlSPEndpointBaseURL k b) der),
              (kb_name b @ ''.idp-metadata.xml'', document)] \<and>
        items = map (\<lambda>(key, x). (key, key)) es)"

definition ldap_called_for ::
  "('u, 'w) federation_env \<Rightarrow> Keystone \<Rightarrow> KeystoneIdentityBackend \<Rightarrow> 'w \<Rightarrow> string gomap \<Rightarrow> (string \<times> string) list \<Rightarrow> bool" where
  "ldap_called_for E k b v es items \<longleftrightarrow>
     (\<exists>l conf ca. ib_ldap (kb_spec b) = Some l \<and> renderDomainConf E (ko_namespace k) b v = Inr (conf, ca) \<and>
        (case ld_tls l of None \<Rightarrow> ca = None
         | Some t \<Rightarrow> \<exists>c. ca = Some c \<and> GetSecretValue (fx_eso E) (ko_namespace k, sr_name (lt_ca t)) ''ca.crt'' v = Inr c) \<and>
        es = (''keystone.'' @ backend_domain b @ ''.conf'', conf) #
             (case ca of None \<Rightarrow> [] | Some c \<Rightarrow> [(backend_domain b @ ''-ca.pem'', c)]) \<and>
        items = map (\<lambda>(key, x). (key, key)) es)"

definition called_for ::
  "('u, 'w) federation_env \<Rightarrow> Keystone \<Rightarrow> KeystoneIdentityBackend \<Rightarrow> 'w \<Rightarrow> string gomap \<Rightarrow> (string \<times> string) list \<Rightarrow> bool" where
  "called_for E k b v es items \<longleftrightarrow>
     (if kb_type b = ''OIDC'' then oidc_called_for E k b v es items
      else if kb_type b = ''SAML'' then saml_called_for E k b v es items
      else ldap_called_for E k b v es items)"

text \<open>A backend that may be projected: its domain is ready, and no other backend of the list claims it.\<close>

definition ready_alone :: "('u, 'w) federation_env \<Rightarrow> KeystoneIdentityBackend list \<Rightarrow> KeystoneIdentityBackend \<Rightarrow> bool" where
  "ready_alone E bs b \<longleftrightarrow>
     \<not> m_deleting (kb_meta b) \<and> cond_true (fx_meta E) (kb_conditions b) ''DomainReady'' \<and>
     (\<forall>b'\<in>set bs. to_lower (backend_domain b') = to_lower (backend_domain b) \<longrightarrow> b' = b)"

text \<open>
  The entries of a backend of the pass: what is called for in the state that the backends before it in the list leave.
\<close>

definition projects ::
  "('u, 'w) federation_env \<Rightarrow> Keystone \<Rightarrow> KeystoneIdentityBackend list \<Rightarrow> 'w \<Rightarrow> KeystoneIdentityBackend \<Rightarrow> string gomap \<Rightarrow>
     (string \<times> string) list \<Rightarrow> bool" where
  "projects E k bs w b es items \<longleftrightarrow>
     ready_alone E bs b \<and>
     (\<exists>before after p v. bs = before @ b # after \<and> project_backends E k bs before (no_projections, w) = (Inr p, v) \<and>
        called_for E k b v es items)"

lemma eligible_alone:
  assumes "eligible E bs b" "b \<in> set bs" "distinct (map kb_name bs)"
  shows "ready_alone E bs b"
proof -
  let ?same = "filter (\<lambda>x. to_lower (backend_domain x) = to_lower (backend_domain b)) bs"
  have "length ?same \<le> 1" using assms(1) by (simp add: eligible_def domain_owners_def)
  moreover have "b \<in> set ?same" using assms(2) by simp
  ultimately have "?same = [b]" by (cases ?same) auto
  then have "set ?same = {b}" by simp
  then show ?thesis using assms(1) by (auto simp: ready_alone_def eligible_def conditionTypeDomainReady_def)
qed

lemma oidc_render_called_for:
  "renderOIDCBackend E k b v = (Inr r, v') \<Longrightarrow> kb_type b = IdentityBackendTypeOIDC \<Longrightarrow>
     called_for E k b v (oidc_entries r) (oidc_items r)"
  by (auto simp: renderOIDCBackend_def oidc_render_def called_for_def oidc_called_for_def oidc_entries_def oidc_items_def Let_def
        federationClientKeyName_def IdentityBackendTypeOIDC_def split: option.splits sum.splits prod.splits)

lemma saml_render_called_for:
  "renderSAMLBackend E k b v = (Inr r, v') \<Longrightarrow> kb_type b = IdentityBackendTypeSAML \<Longrightarrow>
     called_for E k b v (saml_entries r) (mellon_items r)"
  by (auto simp: renderSAMLBackend_def resolveSAMLIdPMetadata_def called_for_def saml_called_for_def saml_entries_def mellon_items_def Let_def
        samlSPKeyFileName_def samlSPCertFileName_def samlSPMetadataFileName_def samlIdPMetadataKeyName_def IdentityBackendTypeSAML_def
        split: option.splits sum.splits prod.splits if_splits)

definition ldap_entries :: "KeystoneIdentityBackend \<Rightarrow> string \<Rightarrow> string option \<Rightarrow> string gomap" where
  "ldap_entries b conf ca =
     (domainConfFileName (backend_domain b), conf) # (case ca of None \<Rightarrow> [] | Some c \<Rightarrow> [(domainCAFileName (backend_domain b), c)])"

lemma ldap_render_called_for:
  "renderDomainConf E (ko_namespace k) b v = Inr (conf, ca) \<Longrightarrow> \<not> IsFederationType b \<Longrightarrow>
     called_for E k b v (ldap_entries b conf ca) (map (\<lambda>(key, x). (key, key)) (ldap_entries b conf ca))"
  by (auto simp: renderDomainConf_def ldap_ca_def called_for_def ldap_called_for_def ldap_entries_def Let_def IsFederationType_def
        domainConfFileName_def domainCAFileName_def IdentityBackendTypeOIDC_def IdentityBackendTypeSAML_def
        split: option.splits sum.splits prod.splits if_splits)

lemma ldap_data: "map_of (domain_data b conf ca m) key =
    (case map_of (ldap_entries b conf ca) key of None \<Rightarrow> map_of m key | Some x \<Rightarrow> Some x)"
  by (auto simp: domain_data_def ldap_entries_def Let_def domainConfFileName_def domainCAFileName_def split: option.splits)

lemma domain_keys_apart:
  assumes "ready_alone E bs a" "b \<in> set bs" "a \<noteq> b" "(key, x) \<in> set (ldap_entries a conf ca)"
  shows "map_of (ldap_entries b conf' ca') key = None"
proof -
  have d: "backend_domain a \<noteq> backend_domain b" using assms(1-3) by (auto simp: ready_alone_def)
  have k: "key = domainConfFileName (backend_domain a) \<or> key = domainCAFileName (backend_domain a)"
    using assms(4) by (auto simp: ldap_entries_def split: option.splits)
  have "domainConfFileName x \<noteq> domainCAFileName y" for x y
  proof
    assume "domainConfFileName x = domainCAFileName y"
    then have "rev (domainConfFileName x) = rev (domainCAFileName y)" by simp
    then show False by (simp add: domainConfFileName_def domainCAFileName_def)
  qed
  moreover have "domainConfFileName x = domainConfFileName y \<longleftrightarrow> x = y" "domainCAFileName x = domainCAFileName y \<longleftrightarrow> x = y" for x y
    by (simp_all add: domainConfFileName_def domainCAFileName_def)
  ultimately show ?thesis using k d by (auto simp: ldap_entries_def split: option.splits dest: sym)
qed

section \<open>The pass, backend by backend\<close>

lemma project_backends_snoc:
  "project_backends E k bs (xs @ [b]) (p, w) =
     (case project_backends E k bs xs (p, w) of (Inl e, v) \<Rightarrow> (Inl e, v) | (Inr p', v) \<Rightarrow> project_backend E k bs b (p', v))"
  by (induction xs arbitrary: p w) (auto split: sum.splits prod.splits)

lemma pass_prefix_induct [consumes 1, case_names start step]:
  assumes "project_backends E k bs bs (q, w) = (Inr p, w')" "Q [] q w"
    and step: "\<And>before b after p v p' v'. bs = before @ b # after \<Longrightarrow> project_backends E k bs before (q, w) = (Inr p, v) \<Longrightarrow>
      project_backend E k bs b (p, v) = (Inr p', v') \<Longrightarrow> Q before p v \<Longrightarrow> Q (before @ [b]) p' v'"
  shows "Q bs p w'"
proof -
  have pre: "project_backends E k bs before (q, w) = (Inr p, v) \<Longrightarrow> bs = before @ after \<Longrightarrow> Q before p v" for before after p v
  proof (induction before arbitrary: after p v rule: rev_induct)
    case Nil
    with assms(2) show ?case by simp
  next
    case (snoc b before)
    then obtain p1 v1 where b: "project_backends E k bs before (q, w) = (Inr p1, v1)" "project_backend E k bs b (p1, v1) = (Inr p, v)"
      by (auto simp: project_backends_snoc split: sum.splits prod.splits)
    with snoc.IH [OF b(1)] snoc.prems step [of before b after p1 v1 p v] show ?case by simp
  qed
  show ?thesis using pre [of bs p w' "[]"] assms(1) by simp
qed

text \<open>What holds of the accumulated projections after each backend.\<close>

definition oidc_from ::
  "('u, 'w) federation_env \<Rightarrow> Keystone \<Rightarrow> KeystoneIdentityBackend list \<Rightarrow> 'w \<Rightarrow> KeystoneIdentityBackend \<Rightarrow> oidcRender \<Rightarrow> bool" where
  "oidc_from E k bs w b r \<longleftrightarrow>
     kb_type b = IdentityBackendTypeOIDC \<and> or_backend r = kb_name b \<and> projects E k bs w b (oidc_entries r) (oidc_items r)"

definition saml_from ::
  "('u, 'w) federation_env \<Rightarrow> Keystone \<Rightarrow> KeystoneIdentityBackend list \<Rightarrow> 'w \<Rightarrow> KeystoneIdentityBackend \<Rightarrow> samlRender \<Rightarrow> bool" where
  "saml_from E k bs w b r \<longleftrightarrow>
     kb_type b = IdentityBackendTypeSAML \<and> sl_backend r = kb_name b \<and> projects E k bs w b (saml_entries r) (mellon_items r)"

definition ldap_from ::
  "('u, 'w) federation_env \<Rightarrow> Keystone \<Rightarrow> KeystoneIdentityBackend list \<Rightarrow> 'w \<Rightarrow> KeystoneIdentityBackend \<Rightarrow> string gomap \<Rightarrow> bool" where
  "ldap_from E k bs w b es \<longleftrightarrow>
     \<not> IsFederationType b \<and> (\<exists>conf ca. es = ldap_entries b conf ca) \<and> projects E k bs w b es (map (\<lambda>(key, x). (key, key)) es)"

definition taken_up ::
  "('u, 'w) federation_env \<Rightarrow> Keystone \<Rightarrow> KeystoneIdentityBackend list \<Rightarrow> 'w \<Rightarrow> projections \<Rightarrow> KeystoneIdentityBackend \<Rightarrow> bool" where
  "taken_up E k bs w p b \<longleftrightarrow>
     (\<exists>r\<in>set (pj_oidc p). oidc_from E k bs w b r) \<or> (\<exists>r\<in>set (pj_saml p). saml_from E k bs w b r) \<or>
     (\<exists>es. ldap_from E k bs w b es \<and> (\<forall>(key, x)\<in>set es. map_of (pj_data p) key = Some x))"

definition accounted ::
  "('u, 'w) federation_env \<Rightarrow> Keystone \<Rightarrow> KeystoneIdentityBackend list \<Rightarrow> 'w \<Rightarrow> KeystoneIdentityBackend list \<Rightarrow> projections \<Rightarrow> bool" where
  "accounted E k bs w before p \<longleftrightarrow>
     (\<forall>r\<in>set (pj_oidc p). \<exists>b\<in>set before. oidc_from E k bs w b r) \<and> distinct (map or_backend (pj_oidc p)) \<and>
     (\<forall>r\<in>set (pj_saml p). \<exists>b\<in>set before. saml_from E k bs w b r) \<and> length (pj_saml p) \<le> length (saml_backends before) \<and>
     (pj_saml p \<noteq> [] \<longrightarrow> length (saml_backends bs) \<le> 1) \<and>
     (\<forall>key x. map_of (pj_data p) key = Some x \<longrightarrow> (\<exists>b\<in>set before. \<exists>es. ldap_from E k bs w b es \<and> (key, x) \<in> set es)) \<and>
     (pj_pending p = [] \<longrightarrow> (\<forall>b\<in>set before. \<not> m_deleting (kb_meta b) \<longrightarrow> taken_up E k bs w p b))"

lemma saml_alone:
  "project_backend E k bs b (p, w) = (Inr p', w') \<Longrightarrow> pj_saml p' \<noteq> pj_saml p \<Longrightarrow> length (saml_backends bs) \<le> 1"
  by (auto simp: step_defs project_saml_def project_oidc_def Let_def split: if_splits sum.splits prod.splits option.splits)

lemma taken_up_more:
  "set (pj_oidc p) \<subseteq> set (pj_oidc p') \<Longrightarrow> set (pj_saml p) \<subseteq> set (pj_saml p') \<Longrightarrow> pj_data p' = pj_data p \<Longrightarrow>
     taken_up E k bs w p b \<Longrightarrow> taken_up E k bs w p' b"
  unfolding taken_up_def by auto

lemma accounted_weaken:
  assumes "accounted E k bs w before p" "same_renders p p'"
    "pj_pending p' = [] \<Longrightarrow> pj_pending p = [] \<and> m_deleting (kb_meta b)"
  shows "accounted E k bs w (before @ [b]) p'"
  using assms by (auto simp: accounted_def same_renders_def saml_backends_def taken_up_def; blast)

lemma accounted_snoc:
  assumes acc: "accounted E k bs w before p" and pending: "pj_pending p' = pj_pending p"
    and os: "pj_oidc p' = pj_oidc p @ os" "\<And>r. r \<in> set os \<Longrightarrow> oidc_from E k bs w b r" "distinct (map or_backend (pj_oidc p'))"
    and ss: "pj_saml p' = pj_saml p @ ss" "\<And>r. r \<in> set ss \<Longrightarrow> saml_from E k bs w b r"
      "length (pj_saml p') \<le> length (saml_backends (before @ [b]))" "pj_saml p' \<noteq> [] \<Longrightarrow> length (saml_backends bs) \<le> 1"
    and data: "\<And>key x. map_of (pj_data p') key = Some x \<Longrightarrow> \<exists>a\<in>set (before @ [b]). \<exists>es. ldap_from E k bs w a es \<and> (key, x) \<in> set es"
    and taken: "taken_up E k bs w p' b" "\<And>a. a \<in> set before \<Longrightarrow> taken_up E k bs w p a \<Longrightarrow> taken_up E k bs w p' a"
  shows "accounted E k bs w (before @ [b]) p'"
  unfolding accounted_def
proof (intro conjI)
  show "\<forall>r\<in>set (pj_oidc p'). \<exists>a\<in>set (before @ [b]). oidc_from E k bs w a r" using acc os by (auto simp: accounted_def)
  show "\<forall>r\<in>set (pj_saml p'). \<exists>a\<in>set (before @ [b]). saml_from E k bs w a r" using acc ss by (auto simp: accounted_def)
  show "pj_pending p' = [] \<longrightarrow> (\<forall>a\<in>set (before @ [b]). \<not> m_deleting (kb_meta a) \<longrightarrow> taken_up E k bs w p' a)"
    using acc taken pending by (auto simp: accounted_def)
qed (use os(3) ss(3,4) data in blast)+

lemma accounted_step:
  assumes split: "bs = before @ b # later" and names: "distinct (map kb_name bs)"
    and pre: "project_backends E k bs before (no_projections, w) = (Inr p, v)"
    and step: "project_backend E k bs b (p, v) = (Inr p', v')" and acc: "accounted E k bs w before p"
  shows "accounted E k bs w (before @ [b]) p'"
proof -
  have projects: "projects E k bs w b es items" if "eligible E bs b" "called_for E k b v es items" for es items
    using that eligible_alone [of E bs b] split names pre unfolding projects_def by (metis in_set_conv_decomp)
  from project_backend_cases [OF step] show ?thesis
  proof (elim disjE)
    assume "left_out b p p'"
    then show ?thesis using accounted_weaken [OF acc, of p' b] by (simp add: left_out_def same_renders_def)
  next
    assume "put_off p p'"
    then show ?thesis using accounted_weaken [OF acc, of p' b] by (auto simp: put_off_def)
  next
    assume "oidc_added E k bs b p v p' v'"
    then obtain r where r: "pj_data p' = pj_data p" "pj_saml p' = pj_saml p" "pj_pending p' = pj_pending p" "pj_oidc p' = pj_oidc p @ [r]"
      "eligible E bs b" "kb_type b = IdentityBackendTypeOIDC" "renderOIDCBackend E k b v = (Inr r, v')" by (auto simp: oidc_added_def)
    have from_b: "oidc_from E k bs w b r"
      using projects [OF r(5) oidc_render_called_for [OF r(7,6)]] r(6) renderOIDC_backend [OF r(7)] by (simp add: oidc_from_def)
    have "kb_name b \<notin> kb_name ` set before" using names split by auto
    moreover have "or_backend r' \<in> kb_name ` set before" if "r' \<in> set (pj_oidc p)" for r'
    proof -
      from acc that obtain a where "a \<in> set before" "oidc_from E k bs w a r'" unfolding accounted_def by blast
      then show ?thesis by (auto simp: oidc_from_def)
    qed
    ultimately have "or_backend r \<notin> or_backend ` set (pj_oidc p)" using from_b by (auto simp: oidc_from_def)
    moreover have "taken_up E k bs w p' b" using from_b r(4) by (auto simp: taken_up_def)
    ultimately show ?thesis using acc from_b r(1-4) taken_up_more [of p p' E k bs w]
      by - (rule accounted_snoc [OF acc, where os = "[r]" and ss = "[]"], auto simp: accounted_def saml_backends_def)
  next
    assume "saml_added E k bs b p v p' v'"
    then obtain r where r: "pj_data p' = pj_data p" "pj_oidc p' = pj_oidc p" "pj_pending p' = pj_pending p" "pj_saml p' = pj_saml p @ [r]"
      "eligible E bs b" "kb_type b = IdentityBackendTypeSAML" "renderSAMLBackend E k b v = (Inr r, v')" by (auto simp: saml_added_def)
    have from_b: "saml_from E k bs w b r"
      using projects [OF r(5) saml_render_called_for [OF r(7,6)]] r(6) renderSAML_backend [OF r(7)] by (simp add: saml_from_def)
    have "\<not> m_deleting (kb_meta b)" using r(5) by (simp add: eligible_def)
    moreover have "taken_up E k bs w p' b" using from_b r(4) by (auto simp: taken_up_def)
    ultimately show ?thesis using acc from_b r(1-4,6) saml_alone [OF step] taken_up_more [of p p' E k bs w]
      by - (rule accounted_snoc [OF acc, where os = "[]" and ss = "[r]"], auto simp: accounted_def saml_backends_def)
  next
    assume "ldap_added E k bs b p v p' v'"
    then obtain conf ca where l: "eligible E bs b" "\<not> IsFederationType b" "pj_oidc p' = pj_oidc p" "pj_saml p' = pj_saml p"
      "pj_pending p' = pj_pending p" "renderDomainConf E (ko_namespace k) b v = Inr (conf, ca)"
      "pj_data p' = domain_data b conf ca (pj_data p)" by (auto simp: ldap_added_def)
    let ?es = "ldap_entries b conf ca"
    have from_b: "ldap_from E k bs w b ?es"
      using projects [OF l(1) ldap_render_called_for [OF l(6,2)]] l(2) by (auto simp: ldap_from_def)
    have kept: "map_of (pj_data p') key = map_of (pj_data p) key"
      if "a \<in> set before" "ldap_from E k bs w a es" "(key, x) \<in> set es" for a es key x
    proof -
      have "a \<noteq> b" using that(1) names split by auto
      then have "map_of ?es key = None" using domain_keys_apart [of E bs a b key x _ _ conf ca] that split
        by (auto simp: ldap_from_def projects_def)
      then show ?thesis by (simp add: l(7) ldap_data)
    qed
    have es: "map_of (pj_data p') key = Some x" if "(key, x) \<in> set ?es" for key x
      using that by (auto simp: l(7) ldap_data ldap_entries_def domainConfFileName_def domainCAFileName_def split: option.splits)
    have "taken_up E k bs w p' b" using from_b es by (auto simp: taken_up_def)
    moreover have "taken_up E k bs w p a \<Longrightarrow> taken_up E k bs w p' a" if "a \<in> set before" for a
      using kept [OF that] l(3,4) unfolding taken_up_def by (metis (no_types, lifting) case_prodD case_prodI2)
    moreover have "\<exists>a\<in>set (before @ [b]). \<exists>es. ldap_from E k bs w a es \<and> (key, x) \<in> set es" if "map_of (pj_data p') key = Some x" for key x
      using that acc from_b by (fastforce simp: l(7) ldap_data accounted_def dest: map_of_SomeD split: option.splits)
    ultimately show ?thesis using acc l(3-5)
      by - (rule accounted_snoc [OF acc, where os = "[]" and ss = "[]"], auto simp: accounted_def saml_backends_def)
  qed
qed

lemma accounted_pass:
  assumes "project_backends E k bs bs (no_projections, w) = (Inr p, w')" "distinct (map kb_name bs)"
  shows "accounted E k bs w bs p"
proof (rule pass_prefix_induct [where Q = "\<lambda>before p v. accounted E k bs w before p", OF assms(1)])
  show "accounted E k bs w [] no_projections" by (simp add: accounted_def no_projections_def)
qed (rule accounted_step [OF _ assms(2)])

section \<open>The Secrets and the pods\<close>

text \<open>
  An immutable Secret of the Keystone is written in the state \<open>v\<close>: it is created with these entries, or a Secret of its
  name, the hash of the entries, exists and is controlled by the Keystone.
\<close>

definition written :: "('u, 'w) federation_env \<Rightarrow> Keystone \<Rightarrow> string \<Rightarrow> string gomap \<Rightarrow> string \<Rightarrow> 'w \<Rightarrow> bool" where
  "written E k base m name v \<longleftrightarrow>
     name = immutable_name (fx_sha E) base m \<and>
     (\<exists>obj. fx_own_immutable E (ko_meta k)
          \<lparr>im_meta = blank_meta\<lparr>m_name := name, m_namespace := ko_namespace k, m_labels := [(''forge.c5c3.io/config-base'', base)]\<rparr>,
           im_data = m, im_immutable = True\<rparr> = Inr obj \<and>
        ((\<exists>x v'. k_create (fx_immutable E) obj v = (Inr x, v')) \<or>
         (\<exists>e v' x. k_create (fx_immutable E) obj v = (Inl e, v') \<and> is_already_exists e \<and>
            k_get (fx_immutable E) (ko_namespace k, name) v' = Inr x \<and> controlled_by (m_uid (ko_meta k)) (im_meta x))))"

lemma created_written:
  "CreateImmutableSecret (fx_sha E) (fx_own_immutable E) (fx_immutable E) (ko_meta k) base (ko_namespace k) m v = (Inr name, v') \<Longrightarrow>
     written E k base m name v"
  by (auto simp: CreateImmutableSecret_def create_immutable_def written_def new_immutable_def ConfigBaseLabelKey_def Let_def
        split: sum.splits prod.splits if_splits)

text \<open>The domains Secret is written after the pass, the federation Secret after that and after the passphrase of the proxy.\<close>

definition domains_written ::
  "('u, 'w) federation_env \<Rightarrow> Keystone \<Rightarrow> KeystoneIdentityBackend list \<Rightarrow> 'w \<Rightarrow> string gomap \<Rightarrow> string \<Rightarrow> bool" where
  "domains_written E k bs w m name \<longleftrightarrow>
     (\<exists>p w1. project_backends E k bs bs (no_projections, w) = (Inr p, w1) \<and> written E k (ko_name k @ ''-domains'') m name w1)"

definition federation_written ::
  "('u, 'w) federation_env \<Rightarrow> Keystone \<Rightarrow> KeystoneIdentityBackend list \<Rightarrow> 'w \<Rightarrow> string gomap \<Rightarrow> string \<Rightarrow> bool" where
  "federation_written E k bs w m name \<longleftrightarrow>
     (\<exists>p w1 w2. project_backends E k bs bs (no_projections, w) = (Inr p, w1) \<and> w2 = snd (domains_secret E k (pj_data p) w1) \<and>
        written E k (ko_name k @ ''-federation'') m name
          (if pj_oidc p = [] then w2 else snd (ensureOIDCCryptoPassphrase E k w2)))"

text \<open>A container of the pods sees the entry of a Secret as a file: \<open>item\<close> is the key and the name of the file in the directory.\<close>

definition file_in_pods :: "service_pod deployment \<Rightarrow> string \<Rightarrow> string \<Rightarrow> string \<Rightarrow> string \<times> string \<Rightarrow> bool" where
  "file_in_pods d container_name dir secret_name item \<longleftrightarrow>
     (\<exists>c\<in>set (po_containers (dp_template d)). co_name c = container_name \<and>
        (\<exists>m\<in>set (co_mounts c). vm_path m = dir \<and>
           (\<exists>v\<in>set (po_volumes (dp_template d)). vo_name v = vm_name m \<and>
              (case vo_source v of
                 SecretSource s mode \<Rightarrow> s = secret_name \<and> fst item = snd item
               | SecretItemsSource s mode items \<Rightarrow> s = secret_name \<and> item \<in> set items
               | _ \<Rightarrow> False))))"

lemma domain_file:
  "domains \<noteq> [] \<Longrightarrow> file_in_pods (buildKeystoneDeployment k cm dsn domains fed) ''keystone'' ''/etc/keystone/domains'' domains (key, key)"
  by (simp add: file_in_pods_def buildKeystoneDeployment_def keystone_container_def optional_volumes_def domainsVolumeAndMount_def
      domainsMountPath_def domainsVolumeName_def)

lemma file_in_podsI:
  assumes "c \<in> set (po_containers (dp_template d))" "co_name c = container_name" "m \<in> set (co_mounts c)" "vm_path m = dir"
    and "v \<in> set (po_volumes (dp_template d))" "vo_name v = vm_name m" "vo_source v = SecretItemsSource s mode items" "item \<in> set items"
  shows "file_in_pods d container_name dir s item"
  unfolding file_in_pods_def using assms by (intro bexI conjI) simp_all

lemma metadata_file:
  assumes "item \<in> set (fp_metadata_items f)"
  shows "file_in_pods (buildKeystoneDeployment k cm dsn domains (Some f)) ''federation-proxy''
           ''/etc/keystone-federation-proxy/metadata'' (fp_secret f) item"
proof (rule file_in_podsI)
  show "buildFederationProxyContainer f \<in> set (po_containers (dp_template (buildKeystoneDeployment k cm dsn domains (Some f))))"
    by (simp add: buildKeystoneDeployment_def)
  show "\<lparr>vm_name = ''federation-metadata'', vm_path = ''/etc/keystone-federation-proxy/metadata'', vm_read_only = True\<rparr>
      \<in> set (co_mounts (buildFederationProxyContainer f))"
    using assms by (auto simp: buildFederationProxyContainer_def buildFederationProxyVolumeMounts_def federationMetadataMountPath_def pod_names)
  show "\<lparr>vo_name = ''federation-metadata'', vo_source = SecretItemsSource (fp_secret f) 256 (fp_metadata_items f)\<rparr>
      \<in> set (po_volumes (dp_template (buildKeystoneDeployment k cm dsn domains (Some f))))"
    using assms by (auto simp: buildKeystoneDeployment_def buildFederationVolumes_def pod_names)
qed (use assms in \<open>simp_all add: buildFederationProxyContainer_def\<close>)

lemma mellon_file:
  assumes "item \<in> set (fp_mellon_items f)"
  shows "file_in_pods (buildKeystoneDeployment k cm dsn domains (Some f)) ''federation-proxy''
           ''/etc/keystone-federation-proxy/mellon'' (fp_secret f) item"
proof (rule file_in_podsI)
  show "buildFederationProxyContainer f \<in> set (po_containers (dp_template (buildKeystoneDeployment k cm dsn domains (Some f))))"
    by (simp add: buildKeystoneDeployment_def)
  show "\<lparr>vm_name = ''federation-mellon'', vm_path = ''/etc/keystone-federation-proxy/mellon'', vm_read_only = True\<rparr>
      \<in> set (co_mounts (buildFederationProxyContainer f))"
    using assms by (auto simp: buildFederationProxyContainer_def buildFederationProxyVolumeMounts_def federationMellonMountPath_def pod_names)
  show "\<lparr>vo_name = ''federation-mellon'', vo_source = SecretItemsSource (fp_secret f) 256 (fp_mellon_items f)\<rparr>
      \<in> set (po_volumes (dp_template (buildKeystoneDeployment k cm dsn domains (Some f))))"
    using assms by (auto simp: buildKeystoneDeployment_def buildFederationVolumes_def pod_names)
qed (use assms in \<open>simp_all add: buildFederationProxyContainer_def\<close>)

lemma build_projection_written:
  assumes "buildFederationProjection E k os ss remote_id img w = (Inr f, w')"
  shows "\<exists>conf. written E k (ko_name k @ ''-federation'') (federation_data conf os ss) (fp_secret f)
                 (if os = [] then w else snd (ensureOIDCCryptoPassphrase E k w))"
    and "fp_metadata_items f = concat (map oidc_items os)" "fp_mellon_items f = concat (map mellon_items ss)"
  using assms
  by (auto simp: buildFederationProjection_def projection_of_def federationSecretBaseName_def split: sum.splits prod.splits option.splits
        if_splits dest!: created_written)

lemma fold_put_source:
  "map_of (fold (\<lambda>(key, v) m. map_put key v m) xs m) key = Some x \<Longrightarrow> (key, x) \<in> set xs \<or> map_of m key = Some x"
  by (induction xs arbitrary: m) (fastforce split: if_splits)+

definition all_entries :: "oidcRender list \<Rightarrow> samlRender list \<Rightarrow> string gomap" where
  "all_entries os ss = concat (map oidc_entries os) @ concat (map saml_entries ss)"

definition tail_of :: "string \<Rightarrow> string" where "tail_of s = rev (takeWhile (\<lambda>c. c \<noteq> CHR ''.'') (rev s))"

lemma oidc_keys_distinct: "distinct (map or_backend os) \<Longrightarrow> distinct (map fst (concat (map oidc_entries os)))"
proof (induction os)
  case (Cons r os)
  have apart: "or_backend r @ s \<noteq> or_backend q @ t" if "s \<in> {''.provider'', ''.client'', ''.conf''}" "t \<in> {''.provider'', ''.client'', ''.conf''}"
    "or_backend r \<noteq> or_backend q" for q s t
  proof
    assume "or_backend r @ s = or_backend q @ t"
    then have e: "tail_of (or_backend r @ s) = tail_of (or_backend q @ t)" by simp
    moreover have "tail_of (x @ ''.provider'') = ''provider''" "tail_of (x @ ''.client'') = ''client''" "tail_of (x @ ''.conf'') = ''conf''" for x
      by (simp_all add: tail_of_def)
    ultimately have "s = t" using that(1,2) by auto
    with \<open>or_backend r @ s = or_backend q @ t\<close> that(3) show False by simp
  qed
  have "or_backend r \<noteq> or_backend q" if "q \<in> set os" for q using that Cons.prems by auto
  with apart have "set (map fst (oidc_entries r)) \<inter> set (map fst (concat (map oidc_entries os))) = {}"
    by (auto simp: oidc_entries_def federationClientKeyName_def)
  moreover have "distinct (map fst (oidc_entries r))" by (simp add: oidc_entries_def federationClientKeyName_def)
  ultimately show ?case using Cons by simp
qed simp

lemma all_entries_wf:
  assumes "distinct (map or_backend os)" "length ss \<le> 1"
  shows "wf_gomap (all_entries os ss)"
proof -
  have tails: "tail_of (fst x) \<in> {''provider'', ''client'', ''conf''}" if "x \<in> set (concat (map oidc_entries os))" for x
    using that by (auto simp: oidc_entries_def federationClientKeyName_def tail_of_def)
  have saml: "tail_of (fst x) \<in> {''pem'', ''xml''}" if "x \<in> set (concat (map saml_entries ss))" for x
    using that by (auto simp: saml_entries_def samlSPKeyFileName_def samlSPCertFileName_def samlSPMetadataFileName_def
        samlIdPMetadataKeyName_def tail_of_def)
  have key: "n @ ''.idp-metadata.xml'' \<noteq> k" if "length k < 17" for n k :: string using that by auto
  have "distinct (map fst (saml_entries s))" for s
    using key [of "''sp-key.pem''" "sl_backend s"] key [of "''sp-cert.pem''" "sl_backend s"] key [of "''sp-metadata.xml''" "sl_backend s"]
    by (auto simp: saml_entries_def samlSPKeyFileName_def samlSPCertFileName_def samlSPMetadataFileName_def samlIdPMetadataKeyName_def dest: sym)
  then have "distinct (map fst (concat (map saml_entries ss)))" using assms(2) by (cases ss) auto
  moreover have "set (map fst (concat (map oidc_entries os))) \<inter> set (map fst (concat (map saml_entries ss))) = {}"
    using tails saml by fastforce
  ultimately show ?thesis using oidc_keys_distinct [OF assms(1)] by (simp add: wf_gomap_def all_entries_def del: map_concat)
qed

lemma federation_holds:
  assumes "distinct (map or_backend os)" "length ss \<le> 1" "(key, x) \<in> set (all_entries os ss)"
  shows "map_of (federation_data conf os ss) key = Some x"
  using map_of_fold_wf [OF all_entries_wf [OF assms(1,2)] assms(3)] by (simp add: federation_data_def all_entries_def)

lemma federation_source:
  "map_of (federation_data conf os ss) key = Some x \<Longrightarrow> key = ''proxy.conf'' \<or> (key, x) \<in> set (all_entries os ss)"
  by (auto simp: federation_data_def all_entries_def dest!: fold_put_source split: if_splits)

section \<open>The step\<close>

lemma project_all_done:
  assumes "project_all E bs (k, w) = ((domains, fed, None), k', w')"
  obtains p w1 w2 w3 where "project_backends E k bs bs (no_projections, w) = (Inr p, w1)"
    "domains_secret E k (pj_data p) w1 = (Inr domains, w2)" "federation_part E k p w2 = (Inr fed, w3)"
    "k' = backends_verdict (fx_meta E) p k"
  using assms by (auto simp: project_all_def split: sum.splits prod.splits option.splits)

lemma verdict_true:
  "meta_contract (fx_meta E) \<Longrightarrow> cond_true (fx_meta E) (ko_conditions (backends_verdict (fx_meta E) p k)) conditionTypeIdentityBackendsReady
     \<Longrightarrow> pj_pending p = []"
  by (auto simp: backends_verdict_def backends_condition_def put_conditions_def split: if_splits)

lemma reconcile_backends_split:
  assumes "reconcileIdentityBackends E (k, w) = ((domains, fed, None), k', w')" "fx_backends E (key_of (ko_meta k)) w = Inr bs" "bs \<noteq> []"
  shows "project_all E (sort_key kb_name bs) (k, w) = ((domains, fed, None), k', w')"
  using assms by (simp add: reconcileIdentityBackends_def split: list.splits)

text \<open>The files of a backend are in the pods: the Secret they come from was written with its entries.\<close>

definition in_the_pods ::
  "('u, 'w) federation_env \<Rightarrow> Keystone \<Rightarrow> KeystoneIdentityBackend list \<Rightarrow> 'w \<Rightarrow> KeystoneIdentityBackend \<Rightarrow> string \<Rightarrow>
     federationProjection option \<Rightarrow> service_pod deployment \<Rightarrow> bool" where
  "in_the_pods E k bs w b domains fed d \<longleftrightarrow>
     (\<exists>es items data. projects E k bs w b es items \<and> (\<forall>(key, x)\<in>set es. map_of data key = Some x) \<and> map fst items = map fst es \<and>
        (if kb_type b = ''OIDC'' \<or> kb_type b = ''SAML''
         then \<exists>f. fed = Some f \<and> federation_written E k bs w data (fp_secret f) \<and>
                (\<forall>item\<in>set items. file_in_pods d ''federation-proxy''
                   (if kb_type b = ''OIDC'' then ''/etc/keystone-federation-proxy/metadata'' else ''/etc/keystone-federation-proxy/mellon'')
                   (fp_secret f) item)
         else domains_written E k bs w data domains \<and>
              (\<forall>item\<in>set items. file_in_pods d ''keystone'' ''/etc/keystone/domains'' domains item)))"

lemma item_keys: "map fst (oidc_items r) = map fst (oidc_entries r)" "map fst (mellon_items s) = map fst (saml_entries s)"
  by (simp_all add: oidc_items_def oidc_entries_def mellon_items_def saml_entries_def)

lemma in_the_pods_federated:
  assumes "projects E k bs w b es items" "\<And>key x. (key, x) \<in> set es \<Longrightarrow> map_of data key = Some x" "map fst items = map fst es"
    and "kb_type b = ''OIDC'' \<and> dir = ''/etc/keystone-federation-proxy/metadata'' \<or> kb_type b = ''SAML'' \<and> dir = ''/etc/keystone-federation-proxy/mellon''"
    and "federation_written E k bs w data (fp_secret f)" "\<And>item. item \<in> set items \<Longrightarrow> file_in_pods d ''federation-proxy'' dir (fp_secret f) item"
  shows "in_the_pods E k bs w b domains (Some f) d"
  unfolding in_the_pods_def by (rule exI [of _ es], rule exI [of _ items], rule exI [of _ data]) (use assms in auto)

lemma in_the_pods_domain:
  assumes "projects E k bs w b es items" "\<And>key x. (key, x) \<in> set es \<Longrightarrow> map_of data key = Some x" "map fst items = map fst es"
    and "kb_type b \<noteq> ''OIDC''" "kb_type b \<noteq> ''SAML''" "domains_written E k bs w data domains"
    and "\<And>item. item \<in> set items \<Longrightarrow> file_in_pods d ''keystone'' ''/etc/keystone/domains'' domains item"
  shows "in_the_pods E k bs w b domains fed d"
  unfolding in_the_pods_def by (rule exI [of _ es], rule exI [of _ items], rule exI [of _ data]) (use assms in auto)

lemma domains_secret_written:
  "domains_secret E k m w = (Inr domains, w') \<Longrightarrow> m \<noteq> [] \<Longrightarrow> written E k (ko_name k @ ''-domains'') m domains w \<and> domains \<noteq> []"
  by (auto simp: domains_secret_def domainsSecretBaseName_def immutable_name_def split: sum.splits prod.splits dest!: created_written dest: created_written)
    (auto simp: written_def immutable_name_def)

lemma federation_part_built:
  assumes "federation_part E k p w = (Inr fed, w')" "pj_oidc p \<noteq> [] \<or> pj_saml p \<noteq> []"
  shows "\<exists>f. fed = Some f \<and> buildFederationProjection E k (pj_oidc p) (pj_saml p) (pj_remote_id p) (the (proxy_image k)) w = (Inr f, w')"
  using assms by (auto simp: federation_part_def split: if_splits sum.splits prod.splits)

lemma federation_part_some:
  "federation_part E k p w = (Inr (Some f), w') \<Longrightarrow>
     buildFederationProjection E k (pj_oidc p) (pj_saml p) (pj_remote_id p) (the (proxy_image k)) w = (Inr f, w')"
  by (auto simp: federation_part_def split: if_splits sum.splits prod.splits)

lemma accounted_alone: "accounted E k bs w bs p \<Longrightarrow> distinct (map or_backend (pj_oidc p)) \<and> length (pj_saml p) \<le> 1"
  unfolding accounted_def by (cases "pj_saml p = []") (simp, linarith)

lemma taken_up_in_pods:
  assumes pass: "project_backends E k bs bs (no_projections, w) = (Inr p, w1)" and acc: "accounted E k bs w bs p"
    and d: "domains_secret E k (pj_data p) w1 = (Inr domains, w2)" and f: "federation_part E k p w2 = (Inr fed, w3)"
    and b: "taken_up E k bs w p b"
  shows "in_the_pods E k bs w b domains fed (buildKeystoneDeployment k cm dsn domains fed)"
proof -
  note alone = accounted_alone [OF acc]
  have fed: "\<exists>g conf. fed = Some g \<and> federation_written E k bs w (federation_data conf (pj_oidc p) (pj_saml p)) (fp_secret g) \<and>
      fp_metadata_items g = concat (map oidc_items (pj_oidc p)) \<and> fp_mellon_items g = concat (map mellon_items (pj_saml p))"
    if some: "pj_oidc p \<noteq> [] \<or> pj_saml p \<noteq> []"
  proof -
    from federation_part_built [OF f some] obtain g where g: "fed = Some g"
      "buildFederationProjection E k (pj_oidc p) (pj_saml p) (pj_remote_id p) (the (proxy_image k)) w2 = (Inr g, w3)" by blast
    then show ?thesis using build_projection_written [OF g(2)] pass d by (auto simp: federation_written_def)
  qed
  from b show ?thesis unfolding taken_up_def
  proof (elim disjE bexE exE conjE)
    fix r assume r: "r \<in> set (pj_oidc p)" "oidc_from E k bs w b r"
    with fed obtain g conf where g: "fed = Some g" "federation_written E k bs w (federation_data conf (pj_oidc p) (pj_saml p)) (fp_secret g)"
      "fp_metadata_items g = concat (map oidc_items (pj_oidc p))" by force
    show ?thesis unfolding g(1)
    proof (rule in_the_pods_federated [OF _ _ item_keys(1) _ g(2)])
      show "projects E k bs w b (oidc_entries r) (oidc_items r)" using r(2) by (simp add: oidc_from_def)
      show "map_of (federation_data conf (pj_oidc p) (pj_saml p)) key = Some x" if "(key, x) \<in> set (oidc_entries r)" for key x
        by (rule federation_holds) (use alone that r(1) in \<open>auto simp: all_entries_def\<close>)
      show "file_in_pods (buildKeystoneDeployment k cm dsn domains (Some g)) ''federation-proxy'' ''/etc/keystone-federation-proxy/metadata''
          (fp_secret g) item" if "item \<in> set (oidc_items r)" for item
        using that r(1) g(3) by (intro metadata_file) auto
    qed (use r(2) in \<open>auto simp: oidc_from_def IdentityBackendTypeOIDC_def\<close>)
  next
    fix r assume r: "r \<in> set (pj_saml p)" "saml_from E k bs w b r"
    with fed obtain g conf where g: "fed = Some g" "federation_written E k bs w (federation_data conf (pj_oidc p) (pj_saml p)) (fp_secret g)"
      "fp_mellon_items g = concat (map mellon_items (pj_saml p))" by force
    show ?thesis unfolding g(1)
    proof (rule in_the_pods_federated [OF _ _ item_keys(2) _ g(2)])
      show "projects E k bs w b (saml_entries r) (mellon_items r)" using r(2) by (simp add: saml_from_def)
      show "map_of (federation_data conf (pj_oidc p) (pj_saml p)) key = Some x" if "(key, x) \<in> set (saml_entries r)" for key x
        by (rule federation_holds) (use alone that r(1) in \<open>auto simp: all_entries_def\<close>)
      show "file_in_pods (buildKeystoneDeployment k cm dsn domains (Some g)) ''federation-proxy'' ''/etc/keystone-federation-proxy/mellon''
          (fp_secret g) item" if "item \<in> set (mellon_items r)" for item
        using that r(1) g(3) by (intro mellon_file) auto
    qed (use r(2) in \<open>auto simp: saml_from_def IdentityBackendTypeSAML_def\<close>)
  next
    fix es assume es: "ldap_from E k bs w b es" "\<forall>(key, x)\<in>set es. map_of (pj_data p) key = Some x"
    then have "pj_data p \<noteq> []" by (auto simp: ldap_from_def ldap_entries_def)
    from domains_secret_written [OF d this] pass have w: "domains_written E k bs w (pj_data p) domains" "domains \<noteq> []"
      by (auto simp: domains_written_def)
    show ?thesis
    proof (rule in_the_pods_domain [OF _ _ _ _ _ w(1)])
      show "projects E k bs w b es (map (\<lambda>(key, x). (key, key)) es)" using es(1) by (simp add: ldap_from_def)
    qed (use es w(2) domain_file in \<open>auto simp: ldap_from_def IsFederationType_def IdentityBackendTypeOIDC_def IdentityBackendTypeSAML_def\<close>)
  qed
qed

text \<open>
  C13. When the step of a Keystone sets IdentityBackendsReady to True, every attached identity backend that is not being deleted
  (names are unique in the API) has its domain ready, claims it alone, and is in the pods: the entries that its spec and the Secrets
  it names call for when the pass renders it, the client, scopes and provider document of OIDC, the key pair and both metadata
  documents of SAML, the domain configuration and the CA of LDAP, are the entries of the Secret written for the Deployment (created
  with them, or found under the hash of them), and the Deployment built from the step shows every one as a file in the directory
  where Keystone or the proxy reads it.\<close>

theorem ready_means_every_backend_projected:
  assumes "meta_contract (fx_meta E)"
    and "reconcileIdentityBackends E (k, w) = ((domains, fed, None), k', w')"
    and "fx_backends E (key_of (ko_meta k)) w = Inr bs" "distinct (map kb_name bs)"
    and "cond_true (fx_meta E) (ko_conditions k') conditionTypeIdentityBackendsReady"
    and "b \<in> set bs" "\<not> m_deleting (kb_meta b)"
  shows "ready_alone E bs b \<and>
         in_the_pods E k (sort_key kb_name bs) w b domains fed (buildKeystoneDeployment k config_map dsn_hash domains fed)"
proof -
  let ?bs = "sort_key kb_name bs"
  from assms(6) have "bs \<noteq> []" by auto
  from project_all_done [OF reconcile_backends_split [OF assms(2,3) this]] obtain p w1 w2 w3 where
    p: "project_backends E k ?bs ?bs (no_projections, w) = (Inr p, w1)"
      "domains_secret E k (pj_data p) w1 = (Inr domains, w2)" "federation_part E k p w2 = (Inr fed, w3)"
      "k' = backends_verdict (fx_meta E) p k" .
  have acc: "accounted E k ?bs w ?bs p" by (rule accounted_pass [OF p(1)]) (use assms(4) in \<open>simp add: distinct_map\<close>)
  moreover have "pj_pending p = []" using verdict_true [OF assms(1)] assms(5) p(4) by simp
  ultimately have t: "taken_up E k ?bs w p b" using assms(6,7) by (simp add: accounted_def)
  then have "ready_alone E ?bs b" by (auto simp: taken_up_def oidc_from_def saml_from_def ldap_from_def projects_def)
  then show ?thesis using taken_up_in_pods [OF p(1) acc p(2,3) t] by (simp add: ready_alone_def)
qed

text \<open>Where an entry, and a mounted item, come from.\<close>

definition entry_source ::
  "('u, 'w) federation_env \<Rightarrow> Keystone \<Rightarrow> KeystoneIdentityBackend list \<Rightarrow> 'w \<Rightarrow> (string \<Rightarrow> bool) \<Rightarrow> string \<times> string \<Rightarrow> bool" where
  "entry_source E k bs w types kv \<longleftrightarrow>
     (\<exists>b\<in>set bs. types (kb_type b) \<and> (\<exists>es items. projects E k bs w b es items \<and> kv \<in> set es))"

definition item_source ::
  "('u, 'w) federation_env \<Rightarrow> Keystone \<Rightarrow> KeystoneIdentityBackend list \<Rightarrow> 'w \<Rightarrow> string \<Rightarrow> string gomap \<Rightarrow> string \<times> string \<Rightarrow> bool" where
  "item_source E k bs w type data item \<longleftrightarrow>
     (\<exists>b\<in>set bs. kb_type b = type \<and> (\<exists>es items x. projects E k bs w b es items \<and> item \<in> set items \<and>
        (fst item, x) \<in> set es \<and> map_of data (fst item) = Some x))"

lemma pass_domains_sourced:
  assumes pass: "project_backends E k bs bs (no_projections, w) = (Inr p, w1)" and acc: "accounted E k bs w bs p"
    and d: "domains_secret E k (pj_data p) w1 = (Inr domains, w2)"
  shows "domains = [] \<or>
         (\<exists>data. domains_written E k bs w data domains \<and>
            (\<forall>key x. map_of data key = Some x \<longrightarrow> entry_source E k bs w (\<lambda>type. type \<noteq> ''OIDC'' \<and> type \<noteq> ''SAML'') (key, x)))"
proof (cases "pj_data p = []")
  case True
  with d show ?thesis by (simp add: domains_secret_def)
next
  case False
  from domains_secret_written [OF d False] pass have "domains_written E k bs w (pj_data p) domains" by (auto simp: domains_written_def)
  moreover have "entry_source E k bs w (\<lambda>type. type \<noteq> ''OIDC'' \<and> type \<noteq> ''SAML'') (key, x)" if k: "map_of (pj_data p) key = Some x" for key x
  proof -
    from acc k obtain b es where "b \<in> set bs" "ldap_from E k bs w b es" "(key, x) \<in> set es" unfolding accounted_def by blast
    then show ?thesis
      by (auto simp: entry_source_def ldap_from_def IsFederationType_def IdentityBackendTypeOIDC_def IdentityBackendTypeSAML_def)
  qed
  ultimately show ?thesis by blast
qed

lemma pass_mounts_sourced:
  assumes pass: "project_backends E k bs bs (no_projections, w) = (Inr p, w1)" and acc: "accounted E k bs w bs p"
    and d: "domains_secret E k (pj_data p) w1 = (Inr domains, w2)" and f: "federation_part E k p w2 = (Inr (Some f), w3)"
  shows "\<exists>data. federation_written E k bs w data (fp_secret f) \<and>
           (\<forall>key x. map_of data key = Some x \<and> key \<noteq> ''proxy.conf'' \<longrightarrow>
              entry_source E k bs w (\<lambda>type. type = ''OIDC'' \<or> type = ''SAML'') (key, x)) \<and>
           (\<forall>item\<in>set (fp_metadata_items f). item_source E k bs w ''OIDC'' data item) \<and>
           (\<forall>item\<in>set (fp_mellon_items f). item_source E k bs w ''SAML'' data item)"
proof -
  from build_projection_written [OF federation_part_some [OF f]] obtain conf where
    g: "written E k (ko_name k @ ''-federation'') (federation_data conf (pj_oidc p) (pj_saml p)) (fp_secret f)
          (if pj_oidc p = [] then w2 else snd (ensureOIDCCryptoPassphrase E k w2))"
      "fp_metadata_items f = concat (map oidc_items (pj_oidc p))" "fp_mellon_items f = concat (map mellon_items (pj_saml p))" by blast
  let ?data = "federation_data conf (pj_oidc p) (pj_saml p)"
  have holds: "map_of ?data key = Some x" if "(key, x) \<in> set (all_entries (pj_oidc p) (pj_saml p))" for key x
    using federation_holds accounted_alone [OF acc] that by blast
  have oidc: "\<exists>b\<in>set bs. oidc_from E k bs w b r" if "r \<in> set (pj_oidc p)" for r using acc that unfolding accounted_def by blast
  have saml: "\<exists>b\<in>set bs. saml_from E k bs w b r" if "r \<in> set (pj_saml p)" for r using acc that unfolding accounted_def by blast
  have "federation_written E k bs w ?data (fp_secret f)" using g(1) pass d by (auto simp: federation_written_def)
  moreover have "entry_source E k bs w (\<lambda>type. type = ''OIDC'' \<or> type = ''SAML'') (key, x)"
    if "map_of ?data key = Some x" "key \<noteq> ''proxy.conf''" for key x
  proof -
    from federation_source [OF that(1)] that(2) consider r where "r \<in> set (pj_oidc p)" "(key, x) \<in> set (oidc_entries r)"
      | r where "r \<in> set (pj_saml p)" "(key, x) \<in> set (saml_entries r)" by (auto simp: all_entries_def)
    then show ?thesis
    proof cases
      case 1
      with oidc [of r] show ?thesis by (auto simp: entry_source_def oidc_from_def IdentityBackendTypeOIDC_def)
    next
      case 2
      with saml [of r] show ?thesis by (auto simp: entry_source_def saml_from_def IdentityBackendTypeSAML_def)
    qed
  qed
  moreover have "item_source E k bs w ''OIDC'' ?data item" if "item \<in> set (fp_metadata_items f)" for item
  proof -
    from that g(2) obtain r where r: "r \<in> set (pj_oidc p)" "item \<in> set (oidc_items r)" by auto
    from oidc [OF r(1)] obtain b where b: "b \<in> set bs" "oidc_from E k bs w b r" by blast
    from r(2) have "fst item \<in> set (map fst (oidc_items r))" by simp
    then obtain x where x: "(fst item, x) \<in> set (oidc_entries r)" unfolding item_keys by auto
    then have "map_of ?data (fst item) = Some x" using holds r(1) by (auto simp: all_entries_def)
    with b r(2) x show ?thesis unfolding item_source_def oidc_from_def IdentityBackendTypeOIDC_def by blast
  qed
  moreover have "item_source E k bs w ''SAML'' ?data item" if "item \<in> set (fp_mellon_items f)" for item
  proof -
    from that g(3) obtain r where r: "r \<in> set (pj_saml p)" "item \<in> set (mellon_items r)" by auto
    from saml [OF r(1)] obtain b where b: "b \<in> set bs" "saml_from E k bs w b r" by blast
    from r(2) have "fst item \<in> set (map fst (mellon_items r))" by simp
    then obtain x where x: "(fst item, x) \<in> set (saml_entries r)" unfolding item_keys by auto
    then have "map_of ?data (fst item) = Some x" using holds r(1) by (auto simp: all_entries_def)
    with b r(2) x show ?thesis unfolding item_source_def saml_from_def IdentityBackendTypeSAML_def by blast
  qed
  ultimately show ?thesis by blast
qed

text \<open>
  C23. Whatever the step of a Keystone projects comes from an identity backend that is not being deleted, whose domain is ready and
  claimed by no other backend (names are unique in the API).  Every entry of the domains Secret that is written is one that such an
  LDAP backend calls for, with that content; every entry of the federation Secret but proxy.conf is one that such an OIDC or SAML
  backend calls for; and every mounted OpenID Connect or SAML item is an item of such a backend of that type, whose content in the
  Secret is what that backend calls for.\<close>

theorem only_ready_backends_projected:
  assumes "reconcileIdentityBackends E (k, w) = ((domains, fed, None), k', w')"
    and "fx_backends E (key_of (ko_meta k)) w = Inr bs" "distinct (map kb_name bs)"
  shows "(domains = [] \<or>
          (\<exists>data. domains_written E k (sort_key kb_name bs) w data domains \<and>
             (\<forall>key x. map_of data key = Some x \<longrightarrow>
                entry_source E k (sort_key kb_name bs) w (\<lambda>type. type \<noteq> ''OIDC'' \<and> type \<noteq> ''SAML'') (key, x)))) \<and>
         (case fed of None \<Rightarrow> True
          | Some f \<Rightarrow>
              (\<exists>data. federation_written E k (sort_key kb_name bs) w data (fp_secret f) \<and>
                 (\<forall>key x. map_of data key = Some x \<and> key \<noteq> ''proxy.conf'' \<longrightarrow>
                    entry_source E k (sort_key kb_name bs) w (\<lambda>type. type = ''OIDC'' \<or> type = ''SAML'') (key, x)) \<and>
                 (\<forall>item\<in>set (fp_metadata_items f). item_source E k (sort_key kb_name bs) w ''OIDC'' data item) \<and>
                 (\<forall>item\<in>set (fp_mellon_items f). item_source E k (sort_key kb_name bs) w ''SAML'' data item)))"
proof (cases "bs = []")
  case True
  with assms show ?thesis by (auto simp: reconcileIdentityBackends_def)
next
  case False
  let ?bs = "sort_key kb_name bs"
  from project_all_done [OF reconcile_backends_split [OF assms(1,2) False]] obtain p w1 w2 w3 where
    p: "project_backends E k ?bs ?bs (no_projections, w) = (Inr p, w1)"
      "domains_secret E k (pj_data p) w1 = (Inr domains, w2)" "federation_part E k p w2 = (Inr fed, w3)" .
  have acc: "accounted E k ?bs w ?bs p" by (rule accounted_pass [OF p(1)]) (use assms(3) in \<open>simp add: distinct_map\<close>)
  show ?thesis using pass_domains_sourced [OF p(1) acc p(2)] pass_mounts_sourced [OF p(1) acc p(2), of _ w3] p(3)
    by (cases fed) simp_all
qed

section \<open>The proxy configuration\<close>

text \<open>
  C15. A client cannot forge what Keystone takes from the identity provider: for every backend that the pass renders into the
  configuration of the proxy, each variable \<open>HTTP_X\<close> that Keystone's mapping or remote id reads, and for SAML each
  header the protected locations set, is dropped from every incoming request before authentication, in the
  spelling with underscores and in the one with dashes.\<close>

theorem spoofed_headers_dropped:
  assumes "project_backends E k bs bs (no_projections, w) = (Inr p, w')"
  shows "(\<forall>r\<in>set (pj_oidc p). \<exists>b\<in>set bs. from_oidc E k bs r b \<and>
            (\<forall>x. x \<noteq> [] \<and> ''HTTP_'' @ x \<in> trusted_variables b \<longrightarrow> both_unset E (proxy_lines E k (pj_oidc p) (pj_saml p) pass) x)) \<and>
         (\<forall>r\<in>set (pj_saml p). \<exists>b\<in>set bs. from_saml E k bs r b \<and>
            (\<forall>x. x \<noteq> [] \<and> (''HTTP_'' @ x \<in> trusted_variables b \<or> x \<in> set (sl_envs r)) \<longrightarrow>
               both_unset E (proxy_lines E k (pj_oidc p) (pj_saml p) pass) x))"
proof (intro conjI ballI)
  fix r assume r: "r \<in> set (pj_oidc p)"
  with well_sourced_pass [OF assms] obtain b w1 w2 where b: "b \<in> set bs" "from_oidc E k bs r b" "renderOIDCBackend E k b w1 = (Inr r, w2)"
    unfolding well_sourced_def from_oidc_def by blast
  with oidc_headers_unset [OF b(3) r] show "\<exists>b\<in>set bs. from_oidc E k bs r b \<and>
      (\<forall>x. x \<noteq> [] \<and> ''HTTP_'' @ x \<in> trusted_variables b \<longrightarrow> both_unset E (proxy_lines E k (pj_oidc p) (pj_saml p) pass) x)" by blast
next
  fix r assume r: "r \<in> set (pj_saml p)"
  with well_sourced_pass [OF assms] obtain b w1 w2 where b: "b \<in> set bs" "from_saml E k bs r b" "renderSAMLBackend E k b w1 = (Inr r, w2)"
    unfolding well_sourced_def from_saml_def by blast
  with saml_headers_unset [OF b(3) r] show "\<exists>b\<in>set bs. from_saml E k bs r b \<and>
      (\<forall>x. x \<noteq> [] \<and> (''HTTP_'' @ x \<in> trusted_variables b \<or> x \<in> set (sl_envs r)) \<longrightarrow>
         both_unset E (proxy_lines E k (pj_oidc p) (pj_saml p) pass) x)" by blast
qed

definition single_line :: "string \<Rightarrow> bool" where
  "single_line s \<longleftrightarrow> CHR 0x0A \<notin> set s"

lemma single_line_append [simp]: "single_line (a @ b) \<longleftrightarrow> single_line a \<and> single_line b"
  by (simp add: single_line_def)

lemma single_line_Cons [simp]: "single_line (c # s) \<longleftrightarrow> c \<noteq> CHR 0x0A \<and> single_line s"
  by (auto simp: single_line_def)

lemma single_line_Nil [simp]: "single_line []"
  by (simp add: single_line_def)

lemma newline_escaped: "shouldEscape CHR 0x0A mode"
  by (simp add: shouldEscape_def is_alnum_def)

lemma one_line_escape: "single_line (escape mode s)"
proof -
  have h: "upper_hex d \<noteq> CHR 0x0A" if "d < 16" for d
  proof
    assume "upper_hex d = CHR 0x0A"
    then have "(of_char (upper_hex d) :: nat) = 10" by simp
    with that show False by (simp add: of_char_upper_hex split: if_splits)
  qed
  have "CHR 0x0A \<notin> set (escape_char mode c)" for c
  proof -
    have "(of_char c :: nat) < 256" by simp
    then have "(of_char c :: nat) div 16 < 16" "(of_char c :: nat) mod 16 < 16" by (simp_all add: less_mult_imp_div_less)
    with h have "upper_hex (of_char c div 16) \<noteq> CHR 0x0A" "upper_hex (of_char c mod 16) \<noteq> CHR 0x0A" by blast+
    with newline_escaped show ?thesis by (auto simp: escape_char_def)
  qed
  then show ?thesis by (auto simp: single_line_def escape_def)
qed

lemma safe_one_line: "\<not> unsafe_value v \<Longrightarrow> single_line v"
  by (simp add: unsafe_value_def single_line_def)

lemma upper_newline:
  fixes c :: char
  assumes "c \<noteq> CHR 0x0A"
  shows "(let n = of_char c :: nat in if 97 \<le> n \<and> n \<le> 122 then char_of (n - 32) else c) \<noteq> CHR 0x0A"
proof (cases "97 \<le> (of_char c :: nat) \<and> (of_char c :: nat) \<le> 122")
  case True
  have "(of_char (char_of ((of_char c :: nat) - 32) :: char) :: nat) = of_char c - 32"
    using True by (simp add: of_char_of) (rule mod_less, linarith)
  with True have "(char_of ((of_char c :: nat) - 32) :: char) \<noteq> CHR 0x0A" by force
  with True show ?thesis by (simp only: Let_def True simp_thms if_True)
next
  case False
  with assms show ?thesis by (simp only: Let_def simp_thms if_False)
qed

lemma one_line_upper: "single_line v \<Longrightarrow> single_line (to_upper v)"
  unfolding single_line_def to_upper_def set_map using upper_newline by (metis (no_types, lifting) imageE)

lemma one_line_replace: "single_line v \<Longrightarrow> y \<noteq> CHR 0x0A \<Longrightarrow> single_line (replace_char x y v)"
  by (auto simp: single_line_def replace_char_def split: if_splits)

lemma first_unsafe_None: "first_unsafe kind vs = None \<Longrightarrow> v \<in> set vs \<Longrightarrow> \<not> unsafe_value v"
  by (auto simp: first_unsafe_def find_None_iff split: option.splits)

text \<open>The fields of a rendered backend that are written without quoting.\<close>

definition oidc_plain :: "oidcRender \<Rightarrow> string list" where
  "oidc_plain r = [or_idp r, or_protocol r, or_session r, or_state_headers r]"

definition saml_plain :: "samlRender \<Rightarrow> string list" where
  "saml_plain r = [sl_backend r, sl_idp r, sl_protocol r, sl_endpoint r] @ sl_envs r"

lemma oidc_plain_safe:
  assumes "renderOIDCBackend E k b w = (Inr r, w')"
  shows "\<forall>v\<in>set (oidc_plain r). \<not> unsafe_value v"
proof -
  from assms obtain c where c: "validateOIDCRenderInputs b c = None"
    "oidc_plain r = [EffectiveIdentityProviderName b, EffectiveProtocolID b, effectiveOIDCSessionType c, effectiveOIDCStateInputHeaders c]"
    by (auto simp: renderOIDCBackend_def oidc_render_def oidc_plain_def Let_def split: option.splits sum.splits prod.splits)
  show ?thesis using first_unsafe_None [OF c(1) [unfolded validateOIDCRenderInputs_def]] by (simp add: c(2))
qed

lemma saml_plain_one_line:
  assumes "renderSAMLBackend E k b w = (Inr r, w')" "single_line (kb_name b)"
  shows "\<forall>v\<in>set (saml_plain r). single_line v"
proof -
  from assms(1) obtain s where s: "validateSAMLRenderInputs b s = None"
    "saml_plain r = [kb_name b, EffectiveIdentityProviderName b, EffectiveProtocolID b, samlSPEndpointPath b] @
       [''MELLON_IDP'', ''MELLON_NAME_ID''] @ map (\<lambda>a. ''MELLON_'' @ to_upper a) (sb_attributes s)"
    by (auto simp: renderSAMLBackend_def saml_plain_def Let_def split: option.splits sum.splits prod.splits)
  have "single_line v" if "v \<in> set ([sb_entity s, EffectiveIdentityProviderName b, EffectiveProtocolID b, EffectiveRemoteIDAttribute b] @
        sb_attributes s @ remote_types b)" for v
    using first_unsafe_None [OF s(1) [unfolded validateSAMLRenderInputs_def] that] by (rule safe_one_line)
  then show ?thesis using assms(2) by (auto simp: s(2) samlSPEndpointPath_def one_line_upper)
qed

lemmas line_defs = dq_def idp_path_def discover_url_def federationMetadataMountPath_def federationMellonMountPath_def
  federationRedirectURIPath_def samlSPKeyFileName_def samlSPCertFileName_def samlSPMetadataFileName_def samlIdPMetadataKeyName_def

text \<open>The quoting verb keeps its operand on one line, and so is the redirect URI.\<close>

definition plain_rendering :: "('u, 'w) federation_env \<Rightarrow> Keystone \<Rightarrow> bool" where
  "plain_rendering E k \<longleftrightarrow> (\<forall>s. single_line (fx_quote E s)) \<and> single_line (federationRedirectURI k)"

lemma plain_quote: "plain_rendering E k \<Longrightarrow> single_line (fx_quote E s)"
  by (simp add: plain_rendering_def)

lemma plain_discover: "plain_rendering E k \<Longrightarrow> single_line (discover_url (federationRedirectURI k) issuer)"
  by (simp add: plain_rendering_def discover_url_def one_line_escape)

lemma oidc_header_one_line:
  "plain_rendering E k \<Longrightarrow> \<forall>r\<in>set os. list_all single_line (oidc_plain r) \<Longrightarrow> list_all single_line (oidc_header_lines E k os p)"
  by (cases os) (simp_all add: oidc_header_lines_def oidc_plain_def plain_quote line_defs)

lemma introspection_one_line:
  "plain_rendering E k \<Longrightarrow> list_all single_line (oidc_plain r) \<Longrightarrow> list_all single_line (introspection_lines E r)"
  by (simp add: introspection_lines_def oidc_plain_def plain_quote)

lemma oidc_location_one_line:
  "plain_rendering E k \<Longrightarrow> list_all single_line (oidc_plain r) \<Longrightarrow> list_all single_line (oidc_location_lines (federationRedirectURI k) r)"
  by (simp add: oidc_location_lines_def oidc_plain_def plain_discover dq_def idp_path_def Let_def)

lemma oidc_websso_one_line:
  "plain_rendering E k \<Longrightarrow> list_all single_line (oidc_plain r) \<Longrightarrow> list_all single_line (oidc_websso_lines (federationRedirectURI k) r)"
  by (simp add: oidc_websso_lines_def oidc_plain_def plain_discover dq_def)

lemma protected_one_line:
  "plain_rendering E k \<Longrightarrow> list_all single_line (saml_plain r) \<Longrightarrow> list_all single_line (writeMellonProtectedLocation E loc r)"
  by (simp add: writeMellonProtectedLocation_def saml_plain_def plain_quote dq_def list_all_iff)

lemma mellon_one_line:
  assumes "plain_rendering E k" "list_all single_line (saml_plain r)"
  shows "list_all single_line (writeMellonConf E r)"
  using assms(2) protected_one_line [OF assms] by (simp add: writeMellonConf_def saml_plain_def line_defs Let_def)

lemma list_all_concat_map: "list_all P (concat (map f xs)) \<longleftrightarrow> (\<forall>x\<in>set xs. list_all P (f x))"
  by (induction xs) auto

lemma proxy_one_line:
  assumes "plain_rendering E k" "\<forall>r\<in>set os. list_all single_line (oidc_plain r)" "\<forall>r\<in>set ss. list_all single_line (saml_plain r)"
  shows "list_all single_line (proxy_lines E k os ss p)"
  using assms oidc_header_one_line [OF assms(1,2)]
  by (simp add: proxy_lines_def Let_def plain_quote dq_def list_all_concat_map list.pred_map o_def introspection_one_line
        oidc_location_one_line oidc_websso_one_line protected_one_line mellon_one_line list_all_iff [of _ "proxy_strip_headers os ss"]
        list_all_iff [of _ ss])

text \<open>
  C24. No value of a resource can add a directive to the configuration of the proxy: provided the quoting verb keeps a value
  on its line and the names and the public URL, which the API server validates, are on one line, every line the pass
  writes is a single line, whatever issuer, identity provider, protocol, attribute, session type or secret the
  backends bring.\<close>

theorem proxy_lines_not_injected:
  assumes "plain_rendering E k" "\<forall>b\<in>set bs. single_line (kb_name b)"
    and "project_backends E k bs bs (no_projections, w) = (Inr p, w')"
  shows "list_all single_line (proxy_lines E k (pj_oidc p) (pj_saml p) pass)"
proof (rule proxy_one_line [OF assms(1)])
  have "list_all single_line (oidc_plain r)" if "r \<in> set (pj_oidc p)" for r
    using well_sourced_pass [OF assms(3)] that oidc_plain_safe [of E k _ _ r] safe_one_line
    unfolding well_sourced_def from_oidc_def list_all_iff by blast
  then show "\<forall>r\<in>set (pj_oidc p). list_all single_line (oidc_plain r)" by blast
  have "list_all single_line (saml_plain r)" if "r \<in> set (pj_saml p)" for r
    using well_sourced_pass [OF assms(3)] that saml_plain_one_line [of E k _ _ r] assms(2)
    unfolding well_sourced_def from_saml_def list_all_iff by blast
  then show "\<forall>r\<in>set (pj_saml p). list_all single_line (saml_plain r)" by blast
qed

section \<open>The metadata of identity providers\<close>

text \<open>
  A document belongs to a backend when it names the issuer, or the SAML entity, of its spec.  \<open>B\<close> is a set of backends among
  which, as the API server guarantees, name, UID and generation determine the spec.
\<close>

definition metadata_matches :: "('u, 'w) federation_env \<Rightarrow> KeystoneIdentityBackend \<Rightarrow> string \<Rightarrow> bool" where
  "metadata_matches E b document \<longleftrightarrow>
     (if kb_type b = IdentityBackendTypeSAML
      then (case ib_saml (kb_spec b) of None \<Rightarrow> True
            | Some s \<Rightarrow> SAMLEntityIDFromMetadata (fx_xml E) document = Inr (sb_entity s))
      else (case ib_oidc (kb_spec b) of None \<Rightarrow> True | Some c \<Rightarrow> providerMetadataIssuer E document = oi_issuer c))"

definition same_version :: "KeystoneIdentityBackend \<Rightarrow> KeystoneIdentityBackend \<Rightarrow> bool" where
  "same_version a b \<longleftrightarrow> backend_key a = backend_key b \<and> m_uid (kb_meta a) = m_uid (kb_meta b) \<and>
     m_generation (kb_meta a) = m_generation (kb_meta b)"

definition versioned :: "KeystoneIdentityBackend set \<Rightarrow> bool" where
  "versioned B \<longleftrightarrow> (\<forall>a\<in>B. \<forall>b\<in>B. same_version a b \<longrightarrow> kb_spec a = kb_spec b)"

definition cache_trusted :: "('u, 'w) federation_env \<Rightarrow> KeystoneIdentityBackend set \<Rightarrow> 'w \<Rightarrow> bool" where
  "cache_trusted E B w \<longleftrightarrow>
     (\<forall>b\<in>B. case cached_metadata (fx_cache E w) b of None \<Rightarrow> True | Some document \<Rightarrow> metadata_matches E b document)"

text \<open>The cache is a field of its own: only writing it changes it.\<close>

definition cache_separate :: "('u, 'w) federation_env \<Rightarrow> bool" where
  "cache_separate E \<longleftrightarrow>
     (\<forall>c w. fx_cache E (fx_put_cache E c w) = c) \<and> (\<forall>url w. fx_cache E (snd (fx_http E url w)) = fx_cache E w) \<and>
     (\<forall>e w. fx_cache E (fx_log E e w) = fx_cache E w) \<and> (\<forall>w. fx_cache E (snd (fx_rsa E w)) = fx_cache E w) \<and>
     (\<forall>w. fx_cache E (snd (fx_serial E w)) = fx_cache E w) \<and>
     (\<forall>cn n priv w. fx_cache E (snd (fx_certificate E cn n priv w)) = fx_cache E w) \<and>
     (\<forall>s w. fx_cache E (snd (k_create (fx_secrets E) s w)) = fx_cache E w)"

lemma separate_results:
  assumes "cache_separate E"
  shows "fx_http E url w = (a, w') \<Longrightarrow> fx_cache E w' = fx_cache E w"
    and "fx_rsa E w = (b, w') \<Longrightarrow> fx_cache E w' = fx_cache E w"
    and "fx_serial E w = (b, w') \<Longrightarrow> fx_cache E w' = fx_cache E w"
    and "fx_certificate E cn n priv w = (b, w') \<Longrightarrow> fx_cache E w' = fx_cache E w"
    and "k_create (fx_secrets E) s w = (d, w') \<Longrightarrow> fx_cache E w' = fx_cache E w"
    and "fx_cache E (fx_log E ev w) = fx_cache E w"
  using assms unfolding cache_separate_def by (metis snd_conv)+

lemma trusted_same: "fx_cache E w' = fx_cache E w \<Longrightarrow> cache_trusted E B w' = cache_trusted E B w"
  by (simp add: cache_trusted_def)

lemma trusted_lookup: "cache_trusted E B w \<Longrightarrow> b \<in> B \<Longrightarrow> cached_metadata (fx_cache E w) b = Some doc \<Longrightarrow> metadata_matches E b doc"
  by (force simp: cache_trusted_def)

lemma matches_spec: "kb_spec a = kb_spec b \<Longrightarrow> metadata_matches E a doc = metadata_matches E b doc"
  by (simp add: metadata_matches_def)

lemma trusted_put:
  assumes "cache_separate E" "versioned B" "cache_trusted E B w" "b \<in> B" "metadata_matches E b doc"
  shows "cache_trusted E B (cacheProviderMetadata E b doc w)"
proof -
  have c: "fx_cache E (cacheProviderMetadata E b doc w) = map_put (backend_key b)
       \<lparr>me_uid = m_uid (kb_meta b), me_generation = m_generation (kb_meta b), me_document = doc\<rparr> (fx_cache E w)"
    using assms(1) by (simp add: cacheProviderMetadata_def cache_separate_def)
  have "metadata_matches E a d" if a: "a \<in> B" "cached_metadata (fx_cache E (cacheProviderMetadata E b doc w)) a = Some d" for a d
  proof (cases "backend_key a = backend_key b")
    case True
    with a(2) have "same_version a b" "d = doc" by (auto simp: c cached_metadata_def same_version_def split: if_splits)
    with assms(2,4,5) a(1) show ?thesis using matches_spec unfolding versioned_def by blast
  next
    case False
    with a(2) have "cached_metadata (fx_cache E w) a = Some d" by (simp add: c cached_metadata_def)
    with trusted_lookup [OF assms(3) a(1)] show ?thesis by blast
  qed
  then show ?thesis by (auto simp: cache_trusted_def split: option.splits)
qed

lemma download_cache: "cache_separate E \<Longrightarrow> download E url w = (r, w') \<Longrightarrow> fx_cache E w' = fx_cache E w"
  by (auto simp: download_def split: prod.splits dest: separate_results(1))

lemma check_issuer_ok: "check_issuer E c doc = None \<Longrightarrow> providerMetadataIssuer E doc = oi_issuer c"
  by (auto simp: check_issuer_def providerMetadataIssuer_def json_field_def split: sum.splits if_splits)

lemma fetch_provider_trusted:
  assumes "cache_separate E" "versioned B" "cache_trusted E B w" "b \<in> B" "kb_type b \<noteq> IdentityBackendTypeSAML" "ib_oidc (kb_spec b) = Some c"
    and "fetchProviderMetadata E b c w = (r, w')"
  shows "cache_trusted E B w' \<and> (\<forall>doc. r = Inr doc \<longrightarrow> metadata_matches E b doc)"
proof (cases "cached_metadata (fx_cache E w) b")
  case None
  with assms(7) obtain r1 w1 where d: "download E (metadata_url c) w = (r1, w1)" by (cases "download E (metadata_url c) w")
  then have t: "cache_trusted E B w1" using trusted_same [OF download_cache [OF assms(1) d]] assms(3) by simp
  have m: "check_issuer E c doc = None \<Longrightarrow> metadata_matches E b doc" for doc
    using check_issuer_ok assms(5,6) by (simp add: metadata_matches_def)
  show ?thesis using assms(7) None d t m trusted_put [OF assms(1,2) t assms(4)]
    by (auto simp: fetchProviderMetadata_def split: sum.splits option.splits)
next
  case (Some doc)
  with trusted_lookup [OF assms(3,4)] assms(3,7) show ?thesis by (simp add: fetchProviderMetadata_def) blast
qed

lemma provider_document_trusted:
  assumes "cache_separate E" "versioned B" "cache_trusted E B w" "b \<in> B" "kb_type b \<noteq> IdentityBackendTypeSAML" "ib_oidc (kb_spec b) = Some c"
    and "provider_document E k b c w = (r, w')"
  shows "cache_trusted E B w' \<and> (\<forall>doc. r = Inr doc \<and> oi_endpoints c = None \<longrightarrow> metadata_matches E b doc)"
proof (cases "oi_endpoints c")
  case None
  obtain r1 w1 where f: "fetchProviderMetadata E b c w = (r1, w1)" by (cases "fetchProviderMetadata E b c w")
  note t = fetch_provider_trusted [OF assms(1-6) f]
  have m: "providerMetadataIssuer E good = oi_issuer c \<Longrightarrow> metadata_matches E b good" for good
    using assms(5,6) by (simp add: metadata_matches_def)
  have p: "metadata_matches E b good \<Longrightarrow> cache_trusted E B (stale_event E said b x (cacheProviderMetadata E b good w1))" for good said x
    using trusted_put [OF assms(1,2) conjunct1 [OF t] assms(4)]
    by (simp add: stale_event_def trusted_same [OF separate_results(6) [OF assms(1)]])
  show ?thesis
  proof (cases r1)
    case (Inl e)
    show ?thesis
    proof (cases "metadata_unavailable e \<and> (\<exists>good. lastKnownGoodProviderMetadata E k b w1 = Some good \<and> providerMetadataIssuer E good = oi_issuer c)")
      case True
      then obtain good where g: "lastKnownGoodProviderMetadata E k b w1 = Some good" "providerMetadataIssuer E good = oi_issuer c" by blast
      with True assms(7) None f Inl have "r = Inr good" "\<exists>said. w' = stale_event E said b e (cacheProviderMetadata E b good w1)"
        by (auto simp: provider_document_def)
      with m [OF g(2)] p [of good] show ?thesis by auto
    next
      case False
      with assms(7) None f Inl have "r = Inl e" "w' = w1" by (auto simp: provider_document_def split: option.splits if_splits)
      with t show ?thesis by simp
    qed
  qed (use assms(7) None f t in \<open>simp add: provider_document_def\<close>)
next
  case (Some e)
  with assms(3,7) show ?thesis by (auto simp: provider_document_def)
qed

lemma render_oidc_trusted:
  assumes "cache_separate E" "versioned B" "cache_trusted E B w" "b \<in> B" "kb_type b \<noteq> IdentityBackendTypeSAML"
    and "renderOIDCBackend E k b w = (r, w')"
  shows "cache_trusted E B w' \<and> (\<forall>x c. r = Inr x \<and> ib_oidc (kb_spec b) = Some c \<and> oi_endpoints c = None \<longrightarrow>
           providerMetadataIssuer E (or_provider x) = oi_issuer c)"
proof (cases "ib_oidc (kb_spec b)")
  case None
  with assms(3,6) show ?thesis by (auto simp: renderOIDCBackend_def)
next
  case (Some c)
  obtain d w1 where d: "provider_document E k b c w = (d, w1)" by (cases "provider_document E k b c w")
  note t = provider_document_trusted [OF assms(1-5) Some d]
  show ?thesis using assms(3,6) Some d t assms(5)
    by (auto simp: renderOIDCBackend_def oidc_render_def metadata_matches_def Let_def split: sum.splits option.splits)
qed

lemma create_owned_cache: "cache_separate E \<Longrightarrow> create_owned E k what s w = (r, w') \<Longrightarrow> fx_cache E w' = fx_cache E w"
  by (auto simp: create_owned_def split: sum.splits prod.splits dest: separate_results(5))

lemma generate_keypair_cache:
  assumes "cache_separate E" "generateSelfSignedSPKeypair E cn w = (r, w')"
  shows "fx_cache E w' = fx_cache E w"
  using assms(2) by (auto simp: generateSelfSignedSPKeypair_def split: sum.splits prod.splits
      dest!: separate_results(2) [OF assms(1)] separate_results(3) [OF assms(1)] separate_results(4) [OF assms(1)])

lemma own_keypair_cache:
  assumes "cache_separate E" "own_keypair E k w = (r, w')"
  shows "fx_cache E w' = fx_cache E w"
proof -
  obtain g w1 where g: "generateSelfSignedSPKeypair E (ko_name k @ ''-saml-sp'') w = (g, w1)"
    by (cases "generateSelfSignedSPKeypair E (ko_name k @ ''-saml-sp'') w")
  have "w' = w \<or> w' = w1 \<or> (\<exists>what s e. create_owned E k what s w1 = (e, w'))"
    using assms(2) g by (force simp: own_keypair_def Let_def split: sum.splits prod.splits option.splits if_splits)
  with generate_keypair_cache [OF assms(1) g] create_owned_cache [OF assms(1)] show ?thesis by metis
qed

lemma keypair_cache: "cache_separate E \<Longrightarrow> ensureSAMLSPKeypair E k s w = (r, w') \<Longrightarrow> fx_cache E w' = fx_cache E w"
  by (auto simp: ensureSAMLSPKeypair_def split: option.splits dest: own_keypair_cache)

lemma fetch_saml_trusted:
  assumes "cache_separate E" "versioned B" "cache_trusted E B w" "b \<in> B" "kb_type b = IdentityBackendTypeSAML" "ib_saml (kb_spec b) = Some s"
    and "fetchSAMLIdPMetadata E b s w = (r, w')"
  shows "cache_trusted E B w'"
proof (cases "cached_metadata (fx_cache E w) b")
  case None
  with assms(7) obtain r1 w1 where d: "download E (sm_url (sb_metadata s)) w = (r1, w1)" by (cases "download E (sm_url (sb_metadata s)) w")
  then have t: "cache_trusted E B w1" using trusted_same [OF download_cache [OF assms(1) d]] assms(3) by simp
  have m: "SAMLEntityIDFromMetadata (fx_xml E) doc = Inr (sb_entity s) \<Longrightarrow> metadata_matches E b doc" for doc
    using assms(5,6) by (simp add: metadata_matches_def)
  show ?thesis using assms(7) None d t m trusted_put [OF assms(1,2) t assms(4)]
    by (auto simp: fetchSAMLIdPMetadata_def Let_def split: sum.splits if_splits)
next
  case (Some doc)
  with assms(3,7) show ?thesis by (simp add: fetchSAMLIdPMetadata_def)
qed

lemma saml_document_trusted:
  assumes "cache_separate E" "versioned B" "cache_trusted E B w" "b \<in> B" "kb_type b = IdentityBackendTypeSAML" "ib_saml (kb_spec b) = Some s"
    and "saml_document E k b s w = (r, w')"
  shows "cache_trusted E B w'"
proof -
  obtain r1 w1 where f: "fetchSAMLIdPMetadata E b s w = (r1, w1)" by (cases "fetchSAMLIdPMetadata E b s w")
  note t = fetch_saml_trusted [OF assms(1-6) f]
  have p: "SAMLEntityIDFromMetadata (fx_xml E) good = Inr (sb_entity s) \<Longrightarrow>
      cache_trusted E B (stale_event E said b x (cacheProviderMetadata E b good w1))" for good said x
    using trusted_put [OF assms(1,2) t assms(4), of good] assms(5,6)
    by (simp add: metadata_matches_def stale_event_def trusted_same [OF separate_results(6) [OF assms(1)]])
  have "w' = w \<or> w' = w1 \<or> (\<exists>good said x. SAMLEntityIDFromMetadata (fx_xml E) good = Inr (sb_entity s) \<and>
      w' = stale_event E said b x (cacheProviderMetadata E b good w1))"
    using assms(7) f by (force simp: saml_document_def Let_def split: sum.splits option.splits if_splits)
  with t assms(3) p show ?thesis by auto
qed

lemma render_saml_trusted:
  assumes "cache_separate E" "versioned B" "cache_trusted E B w" "b \<in> B" "kb_type b = IdentityBackendTypeSAML"
    and "renderSAMLBackend E k b w = (r, w')"
  shows "cache_trusted E B w' \<and> (\<forall>x. r = Inr x \<longrightarrow> SAMLEntityIDFromMetadata (fx_xml E) (sl_idp_metadata x) = Inr (sl_entity x))"
proof (cases "ib_saml (kb_spec b)")
  case None
  with assms(3,6) show ?thesis by (auto simp: renderSAMLBackend_def)
next
  case (Some s)
  obtain kp w1 where kp: "ensureSAMLSPKeypair E k s w = (kp, w1)" by (cases "ensureSAMLSPKeypair E k s w")
  then have t1: "cache_trusted E B w1" using trusted_same [OF keypair_cache [OF assms(1) kp]] assms(3) by simp
  obtain d w2 where d: "saml_document E k b s w1 = (d, w2)" by (cases "saml_document E k b s w1")
  note t2 = saml_document_trusted [OF assms(1,2) t1 assms(4,5) Some d]
  show ?thesis using assms(3,6) Some kp d t1 t2
    by (auto simp: renderSAMLBackend_def resolveSAMLIdPMetadata_def Let_def split: sum.splits option.splits if_splits)
qed

text \<open>What a pass keeps of the projection.\<close>

definition documents_match :: "('u, 'w) federation_env \<Rightarrow> KeystoneIdentityBackend list \<Rightarrow> projections \<Rightarrow> bool" where
  "documents_match E bs p \<longleftrightarrow>
     (\<forall>r\<in>set (pj_oidc p). \<exists>b\<in>set bs. \<exists>c. or_backend r = kb_name b \<and> ib_oidc (kb_spec b) = Some c \<and>
        (oi_endpoints c = None \<longrightarrow> providerMetadataIssuer E (or_provider r) = oi_issuer c)) \<and>
     (\<forall>r\<in>set (pj_saml p). \<exists>b\<in>set bs. \<exists>s. sl_backend r = kb_name b \<and> ib_saml (kb_spec b) = Some s \<and>
        SAMLEntityIDFromMetadata (fx_xml E) (sl_idp_metadata r) = Inr (sb_entity s))"

lemma renderOIDC_spec: "renderOIDCBackend E k b w = (Inr r, w') \<Longrightarrow> \<exists>c. ib_oidc (kb_spec b) = Some c"
  by (auto simp: renderOIDCBackend_def split: option.splits)

lemma renderSAML_spec: "renderSAMLBackend E k b w = (Inr r, w') \<Longrightarrow> \<exists>s. ib_saml (kb_spec b) = Some s \<and> sl_entity r = sb_entity s"
  by (auto simp: renderSAMLBackend_def Let_def split: option.splits sum.splits prod.splits)

lemma step_trusted:
  assumes sep: "cache_separate E" "versioned B" and t: "cache_trusted E B w" and b: "b \<in> B"
    and r: "project_backend E k bs b (p, w) = (res, w')"
  shows "cache_trusted E B w'"
proof -
  obtain so wo where o1: "renderOIDCBackend E k b w = (so, wo)" by (cases "renderOIDCBackend E k b w")
  obtain ss ws where s1: "renderSAMLBackend E k b w = (ss, ws)" by (cases "renderSAMLBackend E k b w")
  have log: "cache_trusted E B (fx_log E ev v) = cache_trusted E B v" for ev v
    using separate_results(6) [OF sep(1)] by (rule trusted_same)
  have skip: "skip_on E q said b e (p0, v) = (x, v') \<Longrightarrow> cache_trusted E B v' = cache_trusted E B v" for q said e p0 v x v'
    by (auto simp: skip_on_def skipped_def log split: if_splits)
  have large: "too_large E what unit n b (p0, v) = (x, v') \<Longrightarrow> cache_trusted E B v' = cache_trusted E B v" for what unit n p0 v x v'
    by (auto simp: too_large_def skipped_def log)
  have ldap: "project_ldap E k b (p, w) = (x, v') \<Longrightarrow> cache_trusted E B v'" for x v'
    using t by (auto simp: project_ldap_def Let_def split: sum.splits prod.splits if_splits dest: skip large)
  have oidc: "project_oidc E k bs b (p, w) = (x, v') \<Longrightarrow> kb_type b \<noteq> IdentityBackendTypeSAML \<Longrightarrow> cache_trusted E B v'" for x v'
    using t render_oidc_trusted [OF sep t b _ o1] o1
    by (auto simp: project_oidc_def Let_def split: sum.splits prod.splits if_splits dest: skip large)
  have saml: "project_saml E k bs b (p, w) = (x, v') \<Longrightarrow> kb_type b = IdentityBackendTypeSAML \<Longrightarrow> cache_trusted E B v'" for x v'
    using t render_saml_trusted [OF sep t b _ s1] s1
    by (auto simp: project_saml_def Let_def split: sum.splits prod.splits if_splits dest: skip large)
  show ?thesis using r t ldap oidc saml
    by (auto simp: project_backend_def proxy_missing_def pend_def log split: if_splits)
qed

lemma pass_trusted:
  assumes "cache_separate E" "versioned B"
  shows "set rest \<subseteq> B \<Longrightarrow> cache_trusted E B w \<Longrightarrow> cache_trusted E B (snd (project_backends E k bs rest (p, w)))"
proof (induction rest arbitrary: p w)
  case (Cons b rest)
  obtain r w1 where r: "project_backend E k bs b (p, w) = (r, w1)" by (cases "project_backend E k bs b (p, w)")
  have "cache_trusted E B w1" by (rule step_trusted [OF assms Cons.prems(2) _ r]) (use Cons.prems(1) in simp)
  with Cons.IH [of w1] Cons.prems(1) r show ?case by (cases r) simp_all
qed simp

lemma step_documents:
  assumes "cache_separate E" "versioned B" "cache_trusted E B w" "b \<in> B" "b \<in> set bs" "documents_match E bs p"
    and "project_backend E k bs b (p, w) = (Inr p', w')"
  shows "documents_match E bs p'"
  using project_backend_cases [OF assms(7)]
proof (elim disjE)
  assume a: "oidc_added E k bs b p w p' w'"
  then obtain r where r: "renderOIDCBackend E k b w = (Inr r, w')" "pj_oidc p' = pj_oidc p @ [r]" "pj_saml p' = pj_saml p"
    "kb_type b \<noteq> IdentityBackendTypeSAML" by (auto simp: oidc_added_def IdentityBackendTypeOIDC_def IdentityBackendTypeSAML_def)
  with render_oidc_trusted [OF assms(1-4) r(4) r(1)] renderOIDC_spec [OF r(1)] renderOIDC_backend [OF r(1)] assms(5,6)
  show ?thesis by (fastforce simp: documents_match_def)
next
  assume a: "saml_added E k bs b p w p' w'"
  then obtain r where r: "renderSAMLBackend E k b w = (Inr r, w')" "pj_saml p' = pj_saml p @ [r]" "pj_oidc p' = pj_oidc p"
    "kb_type b = IdentityBackendTypeSAML" by (auto simp: saml_added_def)
  with render_saml_trusted [OF assms(1-4) r(4) r(1)] renderSAML_spec [OF r(1)] renderSAML_backend [OF r(1)] assms(5,6)
  show ?thesis by (fastforce simp: documents_match_def)
qed (use assms(6) in \<open>auto simp: left_out_def put_off_def same_renders_def ldap_added_def documents_match_def\<close>)

lemma pass_documents:
  assumes "cache_separate E" "versioned B" "set bs \<subseteq> B" "cache_trusted E B w"
    and "project_backends E k bs bs (no_projections, w) = (Inr p, w')"
  shows "documents_match E bs p"
proof -
  have "cache_trusted E B w' \<and> documents_match E bs p"
    using assms(5)
  proof (rule project_backends_induct)
    show "cache_trusted E B w \<and> documents_match E bs no_projections" using assms(4) by (simp add: documents_match_def no_projections_def)
  next
    fix b p w p' w' assume b: "b \<in> set bs" "project_backend E k bs b (p, w) = (Inr p', w')" "cache_trusted E B w \<and> documents_match E bs p"
    with step_trusted [OF assms(1,2) _ _ b(2)] step_documents [OF assms(1,2) _ _ b(1) _ b(2)] assms(3)
    show "cache_trusted E B w' \<and> documents_match E bs p'" by blast
  qed
  then show ?thesis ..
qed

text \<open>
  C16. The operator never configures the proxy with metadata of another identity provider.  If every cached document belongs
  to the backend version it is cached for, this stays so after any pass, failed ones included, over any subset of the
  backends; and every OpenID Connect backend rendered with discovered metadata carries a document whose issuer is that of
  its spec, every SAML backend one of the entity of its spec, whether it was downloaded, cached or the last known good.\<close>

theorem metadata_stays_trusted:
  assumes "cache_separate E" "versioned B" "set bs \<subseteq> B" "cache_trusted E B w"
  shows "cache_trusted E B (snd (project_backends E k bs bs (no_projections, w))) \<and>
         (case fst (project_backends E k bs bs (no_projections, w)) of Inl e \<Rightarrow> True | Inr p \<Rightarrow> documents_match E bs p)"
  using pass_trusted [OF assms, of k bs no_projections] pass_documents [OF assms, of k]
  by (cases "project_backends E k bs bs (no_projections, w)") (auto split: sum.splits)

section \<open>The configuration of an LDAP domain\<close>

definition typed_options :: "KeystoneIdentityBackend \<Rightarrow> LDAPBackendSpec \<Rightarrow> string \<Rightarrow> string \<Rightarrow> string gomap" where
  "typed_options b l user password =
     read_only_options l (enabled_options (ib_extra (kb_spec b)) (ldap_pool_options (ld_pool l)
       (ldap_tls_options b l (ldap_group_options (ld_groups l) (ldap_user_options l user password)))))"

lemma map_of_put_each:
  "map_of (fold (\<lambda>opt. map_put opt v) opts m) key = (if key \<in> set opts then Some v else map_of m key)"
  by (induction opts arbitrary: m) auto

lemma options_typed:
  "key \<notin> fst ` set (ib_extra (kb_spec b)) \<Longrightarrow> map_of (ldap_options b l user password) key = map_of (typed_options b l user password) key"
  by (simp add: ldap_options_def typed_options_def map_of_fold_put)

lemma typed_read_only:
  "ld_read_only l \<noteq> Some False \<Longrightarrow> key \<in> set ReadOnlyForcedOptions \<Longrightarrow> map_of (typed_options b l user password) key = Some ''false''"
  by (cases "ld_read_only l") (auto simp: typed_options_def read_only_options_def map_of_put_each)

lemma map_of_put_if: "map_of (put_if_set k v m) key = (if key = k \<and> v \<noteq> [] then Some v else map_of m key)"
  by (simp add: put_if_set_def)

text \<open>The options that have a field of their own, with the value the fields give them, \<open>None\<close> for an option left out.\<close>

definition given :: "string \<Rightarrow> string option" where
  "given v = (if v = [] then None else Some v)"

definition field_options :: "KeystoneIdentityBackend \<Rightarrow> LDAPBackendSpec \<Rightarrow> string \<Rightarrow> string \<Rightarrow> (string \<times> string option) list" where
  "field_options b l user password =
     (let u = ld_users l; g = ld_groups l; p = ld_pool l in
      [(''url'', Some (ld_url l)), (''suffix'', Some (ld_suffix l)), (''user'', Some user), (''password'', Some password),
       (''tls_cacertfile'', if ld_tls l = None then None else Some (''/etc/keystone/domains/'' @ backend_domain b @ ''-ca.pem'')),
       (''use_pool'', map_option (\<lambda>x. if lp_enabled x then ''true'' else ''false'') p),
       (''pool_size'', Option.bind p (\<lambda>x. map_option show_int (lp_size x))),
       (''user_tree_dn'', Some (lu_tree u)), (''user_filter'', given (lu_filter u)), (''user_objectclass'', given (lu_class u)),
       (''user_id_attribute'', given (lu_id u)), (''user_name_attribute'', given (lu_name u)), (''user_mail_attribute'', given (lu_mail u)),
       (''group_tree_dn'', map_option lg_tree g), (''group_filter'', Option.bind g (\<lambda>x. given (lg_filter x))),
       (''group_objectclass'', Option.bind g (\<lambda>x. given (lg_class x))),
       (''group_id_attribute'', Option.bind g (\<lambda>x. given (lg_id x))),
       (''group_name_attribute'', Option.bind g (\<lambda>x. given (lg_name x))),
       (''group_member_attribute'', Option.bind g (\<lambda>x. given (lg_member x))),
       (''driver'', None), (''domain_config_dir'', None)])"

lemma field_keys_eq: "map fst (field_options b l user password) = [''url'', ''suffix'', ''user'', ''password'', ''tls_cacertfile'',
    ''use_pool'', ''pool_size'', ''user_tree_dn'', ''user_filter'', ''user_objectclass'', ''user_id_attribute'', ''user_name_attribute'',
    ''user_mail_attribute'', ''group_tree_dn'', ''group_filter'', ''group_objectclass'', ''group_id_attribute'', ''group_name_attribute'',
    ''group_member_attribute'', ''driver'', ''domain_config_dir'']"
  by (simp add: field_options_def Let_def)

lemma field_denied: "(key, v) \<in> set (field_options b l user password) \<Longrightarrow> map_of ldapExtraOptionsDenylist key \<noteq> None"
proof -
  assume "(key, v) \<in> set (field_options b l user password)"
  then have "key \<in> set (map fst (field_options b l user password))" by force
  then show ?thesis unfolding field_keys_eq by (auto simp: ldapExtraOptionsDenylist_def)
qed

lemma later_layers_keep:
  assumes "key \<in> set (map fst (field_options b l user password))"
  shows "map_of (read_only_options l m) key = map_of m key" "map_of (enabled_options extra m) key = map_of m key"
proof -
  have "key \<notin> set ReadOnlyForcedOptions" "key \<noteq> ''user_enabled_default''" "key \<noteq> ''user_enabled_invert''"
    using assms unfolding field_keys_eq by (auto simp: ReadOnlyForcedOptions_def)
  then show "map_of (read_only_options l m) key = map_of m key" "map_of (enabled_options extra m) key = map_of m key"
    by (simp_all add: read_only_options_def enabled_options_def map_of_put_each)
qed

lemma map_of_pool:
  "map_of (ldap_pool_options pl m) key =
     (case pl of None \<Rightarrow> map_of m key
      | Some x \<Rightarrow> if key = ''pool_size'' \<and> lp_size x \<noteq> None then map_option show_int (lp_size x)
                  else if key = ''use_pool'' then Some (show_bool (lp_enabled x)) else map_of m key)"
  by (auto simp: ldap_pool_options_def Let_def split: option.splits)

lemma map_of_tls:
  "map_of (ldap_tls_options b l m) key =
     (if key = ''tls_cacertfile'' \<and> ld_tls l \<noteq> None then Some (domainsMountPath @ ''/'' @ domainCAFileName (backend_domain b)) else map_of m key)"
  by (auto simp: ldap_tls_options_def)

lemma map_of_groups:
  "map_of (ldap_group_options g m) key =
     (case g of None \<Rightarrow> map_of m key
      | Some x \<Rightarrow>
          if key = ''group_member_attribute'' \<and> lg_member x \<noteq> [] then Some (lg_member x)
          else if key = ''group_name_attribute'' \<and> lg_name x \<noteq> [] then Some (lg_name x)
          else if key = ''group_id_attribute'' \<and> lg_id x \<noteq> [] then Some (lg_id x)
          else if key = ''group_objectclass'' \<and> lg_class x \<noteq> [] then Some (lg_class x)
          else if key = ''group_filter'' \<and> lg_filter x \<noteq> [] then Some (lg_filter x)
          else if key = ''group_tree_dn'' then Some (lg_tree x) else map_of m key)"
  by (simp add: ldap_group_options_def map_of_put_if split: option.split)

lemma map_of_user:
  "map_of (ldap_user_options l user password) key =
     (if key = ''user_mail_attribute'' \<and> lu_mail (ld_users l) \<noteq> [] then Some (lu_mail (ld_users l))
      else if key = ''user_name_attribute'' \<and> lu_name (ld_users l) \<noteq> [] then Some (lu_name (ld_users l))
      else if key = ''user_id_attribute'' \<and> lu_id (ld_users l) \<noteq> [] then Some (lu_id (ld_users l))
      else if key = ''user_objectclass'' \<and> lu_class (ld_users l) \<noteq> [] then Some (lu_class (ld_users l))
      else if key = ''user_filter'' \<and> lu_filter (ld_users l) \<noteq> [] then Some (lu_filter (ld_users l))
      else if key = ''url'' then Some (ld_url l) else if key = ''suffix'' then Some (ld_suffix l)
      else if key = ''user'' then Some user else if key = ''password'' then Some password
      else if key = ''user_tree_dn'' then Some (lu_tree (ld_users l)) else None)"
  by (simp add: ldap_user_options_def map_of_put_if)

lemma early_layers:
  "list_all (\<lambda>(key, v). map_of (ldap_pool_options (ld_pool l) (ldap_tls_options b l (ldap_group_options (ld_groups l)
     (ldap_user_options l user password)))) key = v) (field_options b l user password)"
  unfolding field_options_def Let_def list.pred_inject prod.case map_of_pool map_of_tls map_of_groups map_of_user
  by (intro conjI; simp add: given_def domainsMountPath_def domainCAFileName_def show_bool_def split: option.split)

lemma typed_fields:
  assumes "(key, v) \<in> set (field_options b l user password)"
  shows "map_of (typed_options b l user password) key = v"
proof -
  have k: "key \<in> set (map fst (field_options b l user password))" using assms by force
  show ?thesis unfolding typed_options_def later_layers_keep [OF k]
    using early_layers [of l b user password] assms by (auto simp: list_all_iff)
qed

lemma extra_admitted:
  assumes "validateExtraOptions p b = []" "key \<in> fst ` set (ib_extra (kb_spec b))"
  shows "map_of ldapExtraOptionsDenylist key = None" "\<not> (is_read_only b \<and> key \<in> set ReadOnlyForcedOptions)"
proof -
  from assms have "extra_option_errors p (is_read_only b) key (case map_of (ib_extra (kb_spec b)) key of None \<Rightarrow> [] | Some v \<Rightarrow> v) = []"
    by (force simp: validateExtraOptions_def)
  then show "map_of ldapExtraOptionsDenylist key = None" "\<not> (is_read_only b \<and> key \<in> set ReadOnlyForcedOptions)"
    by (auto simp: extra_option_errors_def fail_if_def split: if_splits option.splits)
qed

lemma no_control_chars:
  assumes "first_control_char m = None" "key \<in> fst ` set m"
  shows "\<not> hasControlChars key \<and> \<not> hasControlChars (blank_value m key)"
  using assms by (auto simp: first_control_char_def find_None_iff split: option.splits)

lemma extra_kept:
  "wf_gomap (ib_extra (kb_spec b)) \<Longrightarrow> (key, v) \<in> set (ib_extra (kb_spec b)) \<Longrightarrow> map_of (ldap_options b l user password) key = Some v"
  by (simp add: ldap_options_def map_of_fold_wf)

text \<open>The options that let Keystone write to the directory.\<close>

definition write_options :: "string list" where
  "write_options = concat (map (\<lambda>x. map (\<lambda>op. x @ ''_allow_'' @ op) [''create'', ''update'', ''delete'']) [''user'', ''group''])"

lemma write_options_eq: "write_options = ReadOnlyForcedOptions"
  by (simp add: write_options_def ReadOnlyForcedOptions_def)

text \<open>
  C25. The configuration of an admitted LDAP domain says what its spec says.  Every option that has a field of its own has the
  value of that field, and is left out when the field is empty, whatever the extra options are; the bind account and its
  password are those of the bind Secret, without a trailing line break.  On a backend that is not explicitly writable every
  write option is false.  The extra options are all there as given, and no option name or value, those from the Secret
  included, contains a line break with which it could add another option.\<close>

theorem admitted_domain_conf_faithful:
  assumes "ib_validate equal_fold xml_root client b v = None" "ib_ldap (kb_spec b) = Some l"
    and "renderDomainConf E namespace b w = Inr (conf, ca)"
  shows "\<exists>user password m.
           GetSecretValue (fx_eso E) (namespace, sr_name (ld_bind l)) ''username'' w = Inr user \<and>
           GetSecretValue (fx_eso E) (namespace, sr_name (ld_bind l)) ''password'' w = Inr password \<and>
           conf = RenderINI [(''identity'', [(''driver'', ''ldap'')]), (''ldap'', m)] \<and>
           (\<forall>(key, x)\<in>set (field_options b l (trim_right newline_chars user) (trim_right newline_chars password)). map_of m key = x) \<and>
           (ld_read_only l \<noteq> Some False \<longrightarrow>
              (\<forall>key\<in>set write_options. map_of m key = Some ''false'')) \<and>
           (wf_gomap (ib_extra (kb_spec b)) \<longrightarrow> (\<forall>(key, x)\<in>set (ib_extra (kb_spec b)). map_of m key = Some x)) \<and>
           (\<forall>key\<in>fst ` set m. \<not> hasControlChars key \<and> \<not> hasControlChars (blank_value m key))"
proof -
  from assms(2,3) obtain user password where
    s: "GetSecretValue (fx_eso E) (namespace, sr_name (ld_bind l)) ''username'' w = Inr user"
      "GetSecretValue (fx_eso E) (namespace, sr_name (ld_bind l)) ''password'' w = Inr password" and
    u: "conf = RenderINI [(''identity'', [(''driver'', ''ldap'')]),
          (''ldap'', ldap_options b l (trim_right newline_chars user) (trim_right newline_chars password))]"
      "first_control_char (ldap_options b l (trim_right newline_chars user) (trim_right newline_chars password)) = None"
    by (auto simp: renderDomainConf_def Let_def split: sum.splits option.splits)
  let ?m = "ldap_options b l (trim_right newline_chars user) (trim_right newline_chars password)"
  have x: "validateExtraOptions (path_child [PChild ''spec''] ''extraOptions'') b = []"
    using assms(1) by (auto simp: ib_validate_def ib_errors_def Let_def split: if_splits)
  have fields: "map_of ?m key = z" if "(key, z) \<in> set (field_options b l (trim_right newline_chars user) (trim_right newline_chars password))" for key z
    using that field_denied [OF that] extra_admitted(1) [OF x, of key] options_typed typed_fields by metis
  have ro: "is_read_only b" if "ld_read_only l \<noteq> Some False"
    using that assms(2) by (auto simp: is_read_only_def split: option.splits)
  have forced: "map_of ?m key = Some ''false''" if "ld_read_only l \<noteq> Some False" "key \<in> set ReadOnlyForcedOptions" for key
    using that extra_admitted(2) [OF x, of key] ro typed_read_only options_typed by metis
  show ?thesis
    using s u fields forced extra_kept [of b _ _ l] no_control_chars [OF u(2)]
    by (intro exI [of _ user] exI [of _ password] exI [of _ ?m]) (auto simp: write_options_eq)
qed

text \<open>A backend with the name \<open>proxy\<close> replaces the configuration of the proxy in the federation Secret.\<close>

lemma backend_named_proxy_overwrites:
  "or_backend r = ''proxy'' \<Longrightarrow> map_of (federation_data conf [r] []) ''proxy.conf'' = Some (or_conf r)"
  by (simp add: federation_data_def oidc_entries_def)

section \<open>Concrete instances\<close>

definition ex_ldap_backend :: KeystoneIdentityBackend where
  "ex_ldap_backend =
     \<lparr>kb_meta = blank_meta\<lparr>m_name := ''corp'', m_namespace := ''openstack'', m_uid := ''b1''\<rparr>,
      kb_spec =
        \<lparr>ib_keystone = ''keystone'', ib_domain = \<lparr>do_name = ''corp'', do_mode = DomainModeManage, do_deletion = [], do_description = []\<rparr>,
         ib_type = IdentityBackendTypeLDAP,
         ib_ldap = Some \<lparr>ld_url = ''ldaps://ldap'', ld_bind = \<lparr>sr_name = ''bind'', sr_key = []\<rparr>, ld_suffix = ''dc=corp'',
           ld_users = \<lparr>lu_tree = ''ou=people'', lu_filter = [], lu_class = [], lu_id = [], lu_name = [], lu_mail = []\<rparr>,
           ld_groups = None, ld_read_only = None, ld_tls = None, ld_pool = None\<rparr>,
         ib_oidc = None, ib_saml = None, ib_mappings = [], ib_groups = [], ib_extra = [(''query_scope'', ''sub'')]\<rparr>,
      kb_status = \<lparr>it_conditions = [mk_condition conditionTypeDomainReady CTrue 0 [] (Msg [] [])], it_observed = 0, it_domain_id = ''d1'',
        it_sp_secret = []\<rparr>\<rparr>"

definition ex_rules :: "MappingRuleSpec list" where
  "ex_rules =
     [\<lparr>mr_local = [\<lparr>ml_domain = None, ml_group = None, ml_group_ids = [], ml_groups = ''{0}'', ml_projects = [], ml_user = None\<rparr>],
       mr_remote = [\<lparr>mo_type = ''HTTP_OIDC_GROUPS'', mo_regex = None, mo_any_one_of = [], mo_not_any_of = [], mo_blacklist = [], mo_whitelist = []\<rparr>]\<rparr>]"

definition ex_oidc_backend :: KeystoneIdentityBackend where
  "ex_oidc_backend =
     ex_ldap_backend\<lparr>kb_meta := (kb_meta ex_ldap_backend)\<lparr>m_name := ''sso'', m_uid := ''b2''\<rparr>,
       kb_spec := (kb_spec ex_ldap_backend)
         \<lparr>ib_domain := (ib_domain (kb_spec ex_ldap_backend))\<lparr>do_name := ''sso''\<rparr>, ib_type := IdentityBackendTypeOIDC, ib_ldap := None,
          ib_oidc := Some \<lparr>oi_issuer = ''https://idp'', oi_metadata_url = [], oi_endpoints = None, oi_client_id = ''id'',
            oi_client_secret = \<lparr>sr_name = ''client'', sr_key = []\<rparr>, oi_protocol = [], oi_idp_name = [], oi_remote_attribute = [],
            oi_scopes = [], oi_response_type = [], oi_introspection = None, oi_session = [], oi_state_headers = []\<rparr>,
          ib_mappings := ex_rules, ib_extra := []\<rparr>\<rparr>"

definition ex_saml_backend :: KeystoneIdentityBackend where
  "ex_saml_backend =
     ex_ldap_backend\<lparr>kb_meta := (kb_meta ex_ldap_backend)\<lparr>m_name := ''uni'', m_uid := ''b3''\<rparr>,
       kb_spec := (kb_spec ex_ldap_backend)
         \<lparr>ib_domain := (ib_domain (kb_spec ex_ldap_backend))\<lparr>do_name := ''uni''\<rparr>, ib_type := IdentityBackendTypeSAML, ib_ldap := None,
          ib_saml := Some \<lparr>sb_entity = ''https://uni'', sb_metadata = \<lparr>sm_inline = [], sm_secret = None, sm_url = ''https://uni''\<rparr>,
            sb_sp = None, sb_protocol = [], sb_idp_name = [], sb_remote_attribute = [], sb_attributes = [''mail'']\<rparr>,
          ib_mappings := ex_rules, ib_extra := []\<rparr>\<rparr>"

definition ex_backends :: "KeystoneIdentityBackend list" where
  "ex_backends = [ex_ldap_backend, ex_oidc_backend, ex_saml_backend]"

text \<open>Every Secret holds all the keys; a document is its own issuer, which is the start of the URL it is fetched from.\<close>

definition ex_held :: secret where
  "ex_held =
     \<lparr>s_meta = blank_meta, s_version = [], s_data = [(''username'', ''u''), (''password'', ''p''), (''clientSecret'', ''s''),
        (''passphrase'', ''k''), (''tls.crt'', ''c''), (''tls.key'', ''k'')]\<rparr>"

definition ex_eso :: "'w eso_env" where
  "ex_eso = sample_eso\<lparr>eso_secret := (\<lambda>key w. Inr ex_held)\<rparr>"

definition ex_held_secrets :: "(secret, 'w) kclient" where
  "ex_held_secrets = fixed_client (\<lambda>key w. Inr ex_held) (\<lambda>w. []) (\<lambda>x w. w)"

definition ex_immutables :: "(immutable, 'w) kclient" where
  "ex_immutables = fixed_client (\<lambda>key w. Inl (ApiErr NotFound)) (\<lambda>w. []) (\<lambda>x w. w)"

definition ex_keys :: "(unit, 'w) keys_env" where
  "ex_keys =
     \<lparr>kv_meta = ref_meta, kv_secrets = ex_held_secrets, kv_upsert = (\<lambda>g x w. (g x, w)), kv_own = (\<lambda>m x. Inr x),
      kv_random = (\<lambda>n w. (Inr (replicate n (CHR ''x'')), w)), kv_parse_time = (\<lambda>s. Inr 0), kv_age = (\<lambda>a b c t w. w), kv_log = (\<lambda>ev w. w),
      kv_rbac = \<lparr>ensure_sa = (\<lambda>g x w. (g x, w)), ensure_role = (\<lambda>g x w. (g x, w)), ensure_binding = (\<lambda>g x w. (g x, w)),
        own_sa = (\<lambda>m x. Inr x), own_role = (\<lambda>m x. Inr x), own_binding = (\<lambda>m x. Inr x)\<rparr>,
      kv_config_maps = ex_immutables, kv_own_config_map = (\<lambda>m x. Inr x), kv_sha = id,
      kv_cronjobs = unit_ssa (\<lambda>x. blank_meta) id, kv_push = unit_ssa ps_meta id,
      kv_cronjob_client = fixed_client (\<lambda>key w. Inl (ApiErr NotFound)) (\<lambda>w. []) (\<lambda>x w. w), kv_delete = (\<lambda>kind m w. (None, w))\<rparr>"

definition ex_federation :: "(unit, metadata_cache) federation_env" where
  "ex_federation =
     \<lparr>fx_backends = (\<lambda>key w. Inr ex_backends), fx_eso = ex_eso, fx_keys = ex_keys, fx_meta = ref_meta, fx_secrets = ex_held_secrets,
      fx_own = (\<lambda>m x. Inr x), fx_immutable = ex_immutables, fx_own_immutable = (\<lambda>m x. Inr x), fx_sha = id,
      fx_parse_url = (\<lambda>u. Inr (''https'', u, [])), fx_http = (\<lambda>url w. (HttpAnswer 200 (\<lambda>n. Inr (take 11 url)), w)),
      fx_json = (\<lambda>fields doc. Inr (\<lambda>f. if f = ''issuer'' then doc else [])), fx_marshal = (\<lambda>m. Inr (concat (map snd m))),
      fx_marshal_indent = (\<lambda>m. Inr (concat (map snd m))), fx_xml = (\<lambda>doc. Inr (''EntityDescriptor'', doc)),
      fx_pem_decode = (\<lambda>s. Some (''CERTIFICATE'', s)), fx_pem_encode = (\<lambda>kind s. s), fx_rsa = (\<lambda>w. (Inr ''k'', w)),
      fx_serial = (\<lambda>w. (Inr ''1'', w)), fx_certificate = (\<lambda>cn n p w. (Inr ''c'', w)), fx_quote = filter (\<lambda>c. c \<noteq> CHR 0x0A),
      fx_log = (\<lambda>ev w. w), fx_cache = id, fx_put_cache = (\<lambda>c w. c)\<rparr>"

definition ex_federated :: Keystone where
  "ex_federated =
     ex_resource\<lparr>ko_spec := ex_spec\<lparr>ks_federation := Some \<lparr>fd_proxy_image = Some \<lparr>im_repository = ''proxy'', im_tag = ''1'', im_digest = []\<rparr>,
       fd_dashboards = []\<rparr>\<rparr>\<rparr>"

definition ex_documents :: metadata_cache where
  "ex_documents =
     [((''openstack'', ''sso''), \<lparr>me_uid = ''b2'', me_generation = 0, me_document = ''https://idp''\<rparr>),
      ((''openstack'', ''uni''), \<lparr>me_uid = ''b3'', me_generation = 0, me_document = ''https://uni''\<rparr>)]"



definition ex_pass :: "projections result \<times> metadata_cache" where
  "ex_pass = project_backends ex_federation ex_federated ex_backends ex_backends (no_projections, ex_documents)"

definition ex_projections :: projections where
  "ex_projections = (case fst ex_pass of Inl e \<Rightarrow> no_projections | Inr p \<Rightarrow> p)"

definition ex_projected :: "(string \<times> federationProjection option \<times> err option) \<times> Keystone \<times> metadata_cache" where
  "ex_projected = reconcileIdentityBackends ex_federation (ex_federated, ex_documents)"

text \<open>Each backend renders, within the budget.\<close>

lemma ex_renders:
  "case renderOIDCBackend ex_federation ex_federated ex_oidc_backend ex_documents of (Inl e, w) \<Rightarrow> False
   | (Inr r, w) \<Rightarrow> w = ex_documents \<and> length (or_provider r) + length (or_client r) + length (or_conf r) < 200"
  "case renderSAMLBackend ex_federation ex_federated ex_saml_backend ex_documents of (Inl e, w) \<Rightarrow> False
   | (Inr r, w) \<Rightarrow> w = ex_documents \<and> length (sl_idp_metadata r) + length (sl_sp_metadata r) + length (sl_key r) + length (sl_cert r) < 2000"
  "case renderDomainConf ex_federation (ko_namespace ex_federated) ex_ldap_backend ex_documents of Inl e \<Rightarrow> False
   | Inr r \<Rightarrow> snd r = None \<and> length (fst r) < 1000"
  by code_simp+

lemma ex_eligible:
  "eligible ex_federation ex_backends ex_oidc_backend" "eligible ex_federation ex_backends ex_saml_backend"
  "eligible ex_federation ex_backends ex_ldap_backend" by code_simp+

lemma ex_lists:
  "sort_key kb_name ex_backends = ex_backends" "saml_backends ex_backends = [''uni'']"
  "ib_oidc (kb_spec ex_oidc_backend) \<noteq> None \<and> issuer_owners ex_backends (block_field oi_issuer (ib_oidc (kb_spec ex_oidc_backend))) = [''sso'']"
  "proxy_image ex_federated \<noteq> None" "kb_type ex_oidc_backend = IdentityBackendTypeOIDC" "kb_type ex_saml_backend = IdentityBackendTypeSAML"
  "\<not> IsFederationType ex_ldap_backend" by code_simp+

lemma ex_pass:
  "project_backends ex_federation ex_federated ex_backends ex_backends (no_projections, ex_documents) = (Inr ex_projections, ex_documents) \<and>
   (\<exists>r. pj_oidc ex_projections = [r]) \<and> (\<exists>s. pj_saml ex_projections = [s]) \<and> pj_data ex_projections \<noteq> [] \<and> pj_pending ex_projections = []"
proof -
  from ex_lists(4) obtain img where img: "proxy_image ex_federated = Some img" by auto
  from ex_renders(1) obtain r where r: "renderOIDCBackend ex_federation ex_federated ex_oidc_backend ex_documents = (Inr r, ex_documents)"
    "length (or_provider r) + length (or_client r) + length (or_conf r) < 200" by (auto split: prod.splits sum.splits)
  from ex_renders(2) obtain s where s: "renderSAMLBackend ex_federation ex_federated ex_saml_backend ex_documents = (Inr s, ex_documents)"
    "length (sl_idp_metadata s) + length (sl_sp_metadata s) + length (sl_key s) + length (sl_cert s) < 2000"
    by (auto split: prod.splits sum.splits)
  from ex_renders(3) obtain conf where c: "renderDomainConf ex_federation (ko_namespace ex_federated) ex_ldap_backend ex_documents = Inr (conf, None)"
    "length conf < 1000" by (auto split: prod.splits sum.splits)
  have ldap: "project_backend ex_federation ex_federated ex_backends ex_ldap_backend (p, ex_documents) =
      (Inr (p\<lparr>pj_data := map_put (domainConfFileName (backend_domain ex_ldap_backend)) conf (pj_data p)\<rparr>), ex_documents)" for p
    using ex_eligible(3) ex_lists(7) c
    by (simp add: project_backend_def project_ldap_def eligible_def maxRenderedDomainConfBytes_def Let_def)
  have oidc: "project_backend ex_federation ex_federated ex_backends ex_oidc_backend (p, ex_documents) =
      (Inr (p\<lparr>pj_oidc := pj_oidc p @ [r],
         pj_remote_id := (if pj_remote_id p = [] then EffectiveRemoteIDAttribute ex_oidc_backend else pj_remote_id p)\<rparr>), ex_documents)" for p
    using ex_eligible(1) ex_lists(3,5) img r
    by (simp add: project_backend_def project_oidc_def eligible_def IsFederationType_def IdentityBackendTypeOIDC_def
        IdentityBackendTypeSAML_def maxRenderedDomainConfBytes_def Let_def)
  have saml: "project_backend ex_federation ex_federated ex_backends ex_saml_backend (p, ex_documents) =
      (Inr (p\<lparr>pj_saml := pj_saml p @ [s]\<rparr>), ex_documents)" for p
    using ex_eligible(2) ex_lists(2,6) img s
    by (simp add: project_backend_def project_saml_def eligible_def IsFederationType_def maxRenderedDomainConfBytes_def Let_def)
  have "\<exists>p. project_backends ex_federation ex_federated ex_backends [ex_ldap_backend, ex_oidc_backend, ex_saml_backend] (no_projections, ex_documents) =
      (Inr p, ex_documents) \<and> (\<exists>r. pj_oidc p = [r]) \<and> (\<exists>s. pj_saml p = [s]) \<and> pj_data p \<noteq> [] \<and> pj_pending p = []"
    by (simp add: ldap oidc saml no_projections_def)
  then show ?thesis by (auto simp: ex_projections_def ex_pass_def ex_backends_def [symmetric])
qed

lemma ex_environment [simp]:
  "fx_sha ex_federation = id" "fx_own_immutable ex_federation m x = Inr x" "k_create (fx_immutable ex_federation) y w = (Inr y, w)"
  "fx_meta ex_federation = ref_meta" "fx_secrets ex_federation = ex_held_secrets" "k_get ex_held_secrets key v = Inr ex_held"
  "k_update ex_held_secrets z v = (Inr z, v)" "fx_backends ex_federation key w = Inr ex_backends"
  by (simp_all add: ex_federation_def ex_immutables_def ex_held_secrets_def fixed_client_def)

lemma ex_created: "CreateImmutableSecret id (fx_own_immutable ex_federation) (fx_immutable ex_federation) m base ns d w =
    (Inr (immutable_name id base d), w)"
  by (simp add: CreateImmutableSecret_def create_immutable_def new_immutable_def Let_def)

lemma ex_built:
  "\<exists>f. buildFederationProjection ex_federation ex_federated [r] [s] rid img w = (Inr f, w) \<and> fp_metadata_items f \<noteq> [] \<and> fp_mellon_items f \<noteq> []"
proof -
  have "ensureSAMLSPMetadataSecret ex_federation ex_federated s w = (None, w)"
    by (simp add: ensureSAMLSPMetadataSecret_def Let_def)
  moreover have "ensureOIDCCryptoPassphrase ex_federation ex_federated w = (Inr ''k'', w)"
    by (simp add: ensureOIDCCryptoPassphrase_def Let_def ex_held_def blank_value_def)
  ultimately show ?thesis by (simp add: buildFederationProjection_def ex_created projection_of_def oidc_items_def mellon_items_def)
qed

lemma ex_projected:
  "\<exists>domains f k'. reconcileIdentityBackends ex_federation (ex_federated, ex_documents) = ((domains, Some f, None), k', ex_documents) \<and> domains \<noteq> [] \<and>
     cond_true ref_meta (ko_conditions k') conditionTypeIdentityBackendsReady \<and> fp_metadata_items f \<noteq> [] \<and> fp_mellon_items f \<noteq> []"
proof -
  let ?p = ex_projections
  from ex_pass obtain r s where p: "pj_oidc ?p = [r]" "pj_saml ?p = [s]" by blast
  from ex_built obtain f where f: "buildFederationProjection ex_federation ex_federated [r] [s] (pj_remote_id ?p) (the (proxy_image ex_federated)) ex_documents =
      (Inr f, ex_documents)" "fp_metadata_items f \<noteq> []" "fp_mellon_items f \<noteq> []" by blast
  have "domains_secret ex_federation ex_federated (pj_data ?p) ex_documents =
      (Inr (immutable_name id (domainsSecretBaseName ex_federated) (pj_data ?p)), ex_documents)"
    using ex_pass by (simp add: domains_secret_def ex_created)
  moreover have "federation_part ex_federation ex_federated ?p ex_documents = (Inr (Some f), ex_documents)"
    by (simp add: federation_part_def p f)
  ultimately have "project_all ex_federation ex_backends (ex_federated, ex_documents) =
      ((immutable_name id (domainsSecretBaseName ex_federated) (pj_data ?p), Some f, None), backends_verdict ref_meta ?p ex_federated, ex_documents)"
    using ex_pass ex_lists(2) by (simp add: project_all_def)
  moreover have "cond_true ref_meta (ko_conditions (backends_verdict ref_meta ?p ex_federated)) conditionTypeIdentityBackendsReady"
    using ex_pass ref_meta_contract by (simp add: backends_verdict_def backends_condition_def put_conditions_def)
  ultimately show ?thesis using ex_lists(1) f(2,3)
    by (auto simp: reconcileIdentityBackends_def immutable_name_def split: list.splits) (simp add: ex_backends_def)+
qed

lemma ex_names: "distinct (map kb_name ex_backends)" by code_simp

lemma ready_means_every_backend_projected_witness:
  "\<exists>domains f. let d = buildKeystoneDeployment ex_federated ''config'' [] domains (Some f) in
     in_the_pods ex_federation ex_federated ex_backends ex_documents ex_ldap_backend domains (Some f) d \<and>
     in_the_pods ex_federation ex_federated ex_backends ex_documents ex_oidc_backend domains (Some f) d \<and>
     in_the_pods ex_federation ex_federated ex_backends ex_documents ex_saml_backend domains (Some f) d"
proof -
  from ex_projected obtain domains f k' where s: "reconcileIdentityBackends ex_federation (ex_federated, ex_documents) = ((domains, Some f, None), k', ex_documents)"
    "cond_true ref_meta (ko_conditions k') conditionTypeIdentityBackendsReady" by blast
  have "ex_ldap_backend \<in> set ex_backends" "ex_oidc_backend \<in> set ex_backends" "ex_saml_backend \<in> set ex_backends"
    "\<not> m_deleting (kb_meta ex_ldap_backend)" "\<not> m_deleting (kb_meta ex_oidc_backend)" "\<not> m_deleting (kb_meta ex_saml_backend)"
    using ex_eligible by (simp_all add: ex_backends_def eligible_def)
  with ready_means_every_backend_projected [OF _ s(1) _ ex_names, of _ "''config''" "[]"] s(2) ref_meta_contract ex_lists(1)
  show ?thesis by (auto simp: Let_def)
qed

lemma only_ready_backends_projected_witness:
  "\<exists>domains (f :: federationProjection) data. domains \<noteq> [] \<and> domains_written ex_federation ex_federated ex_backends ex_documents data domains \<and>
     (\<forall>key x. map_of data key = Some x \<longrightarrow>
        entry_source ex_federation ex_federated ex_backends ex_documents (\<lambda>type. type \<noteq> ''OIDC'' \<and> type \<noteq> ''SAML'') (key, x)) \<and>
     fp_metadata_items f \<noteq> [] \<and> fp_mellon_items f \<noteq> []"
proof -
  from ex_projected obtain domains f k' where s: "reconcileIdentityBackends ex_federation (ex_federated, ex_documents) = ((domains, Some f, None), k', ex_documents)"
    "domains \<noteq> []" "fp_metadata_items f \<noteq> []" "fp_mellon_items f \<noteq> []" by blast
  from only_ready_backends_projected [OF s(1) _ ex_names] ex_lists(1) s(2) obtain data where d:
    "domains_written ex_federation ex_federated ex_backends ex_documents data domains"
    "\<forall>key x. map_of data key = Some x \<longrightarrow>
       entry_source ex_federation ex_federated ex_backends ex_documents (\<lambda>type. type \<noteq> ''OIDC'' \<and> type \<noteq> ''SAML'') (key, x)" by auto
  show ?thesis by (rule exI [of _ domains], rule exI [of _ f], rule exI [of _ data]) (intro conjI s d)
qed

lemma ex_trusted:
  "''HTTP_OIDC_GROUPS'' \<in> trusted_variables ex_oidc_backend" "kb_type ex_saml_backend \<noteq> IdentityBackendTypeOIDC"
  "kb_type ex_ldap_backend \<noteq> IdentityBackendTypeOIDC" by code_simp+

lemma spoofed_headers_dropped_witness:
  "both_unset ex_federation (proxy_lines ex_federation ex_federated (pj_oidc ex_projections) (pj_saml ex_projections) ''k'') ''OIDC_GROUPS''"
proof -
  have pass: "project_backends ex_federation ex_federated ex_backends ex_backends (no_projections, ex_documents) = (Inr ex_projections, ex_documents)"
    using ex_pass by blast
  from ex_pass obtain r where r: "r \<in> set (pj_oidc ex_projections)" by auto
  from conjunct1 [OF spoofed_headers_dropped [OF pass, of "''k''"]] r obtain b where b: "b \<in> set ex_backends" "from_oidc ex_federation ex_federated ex_backends r b"
    "\<And>x. x \<noteq> [] \<Longrightarrow> ''HTTP_'' @ x \<in> trusted_variables b \<Longrightarrow>
       both_unset ex_federation (proxy_lines ex_federation ex_federated (pj_oidc ex_projections) (pj_saml ex_projections) ''k'') x" by blast
  then have "b = ex_oidc_backend" using ex_trusted(2,3) by (auto simp: ex_backends_def from_oidc_def)
  with b(3) [of "''OIDC_GROUPS''"] ex_trusted(1) show ?thesis by simp
qed

lemma proxy_lines_not_injected_witness:
  "list_all single_line (proxy_lines ex_federation ex_federated (pj_oidc ex_projections) (pj_saml ex_projections) ''two lines'')"
proof (rule proxy_lines_not_injected)
  show "plain_rendering ex_federation ex_federated"
    unfolding plain_rendering_def by (intro conjI, simp add: ex_federation_def single_line_def, unfold single_line_def, code_simp)
  show "\<forall>b\<in>set ex_backends. single_line (kb_name b)" by (simp add: ex_backends_def ex_ldap_backend_def ex_oidc_backend_def ex_saml_backend_def)
  show "project_backends ex_federation ex_federated ex_backends ex_backends (no_projections, ex_documents) = (Inr ex_projections, ex_documents)"
    using ex_pass by blast
qed

lemma ex_laws: "cache_separate ex_federation" "versioned (set ex_backends)" "cache_trusted ex_federation (set ex_backends) ex_documents"
proof -
  show "cache_separate ex_federation" by (simp add: cache_separate_def ex_federation_def ex_held_secrets_def fixed_client_def)
  have d: "backend_key ex_ldap_backend \<noteq> backend_key ex_oidc_backend" "backend_key ex_ldap_backend \<noteq> backend_key ex_saml_backend"
    "backend_key ex_oidc_backend \<noteq> backend_key ex_saml_backend" by code_simp+
  then show "versioned (set ex_backends)" by (auto simp: versioned_def same_version_def ex_backends_def)
  show "cache_trusted ex_federation (set ex_backends) ex_documents" by code_simp
qed

lemma metadata_stays_trusted_witness:
  "documents_match ex_federation ex_backends ex_projections \<and> pj_oidc ex_projections \<noteq> []"
  using metadata_stays_trusted [OF ex_laws(1,2) order_refl ex_laws(3), of ex_federated] ex_pass by auto

lemma ex_ldap_admitted:
  "ib_validate (\<lambda>a b. to_lower a = to_lower b) (\<lambda>x. Inr (x, x)) (None :: (KeystoneIdentityBackend, unit) kclient option) ex_ldap_backend () = None"
  by code_simp

definition ex_ldap :: LDAPBackendSpec where
  "ex_ldap = the (ib_ldap (kb_spec ex_ldap_backend))"

lemma ex_ldap_facts:
  "ib_ldap (kb_spec ex_ldap_backend) = Some ex_ldap" "(''url'', Some ''ldaps://ldap'') \<in> set (field_options ex_ldap_backend ex_ldap u p)"
  "ld_read_only ex_ldap \<noteq> Some False"
proof -
  show "ib_ldap (kb_spec ex_ldap_backend) = Some ex_ldap" "ld_read_only ex_ldap \<noteq> Some False"
    by (simp_all add: ex_ldap_def ex_ldap_backend_def)
  have "ld_url ex_ldap = ''ldaps://ldap''" by (simp add: ex_ldap_def ex_ldap_backend_def)
  then have "(''url'', Some ''ldaps://ldap'') = hd (field_options ex_ldap_backend ex_ldap u p)"
    by (simp add: field_options_def Let_def)
  moreover have "field_options ex_ldap_backend ex_ldap u p \<noteq> []" by (simp add: field_options_def Let_def)
  ultimately show "(''url'', Some ''ldaps://ldap'') \<in> set (field_options ex_ldap_backend ex_ldap u p)" by (metis hd_in_set)
qed

lemma admitted_domain_conf_faithful_witness:
  "\<exists>conf m. conf = RenderINI [(''identity'', [(''driver'', ''ldap'')]), (''ldap'', m)] \<and>
     map_of m ''url'' = Some ''ldaps://ldap'' \<and> map_of m ''user_allow_create'' = Some ''false''"
proof -
  from ex_renders(3) obtain conf where c: "renderDomainConf ex_federation (ko_namespace ex_federated) ex_ldap_backend ex_documents = Inr (conf, None)"
    by (auto split: prod.splits sum.splits)
  from admitted_domain_conf_faithful [OF ex_ldap_admitted ex_ldap_facts(1) c] obtain u p m where
    m: "conf = RenderINI [(''identity'', [(''driver'', ''ldap'')]), (''ldap'', m)]"
      "\<forall>(key, x)\<in>set (field_options ex_ldap_backend ex_ldap (trim_right newline_chars u) (trim_right newline_chars p)). map_of m key = x"
      "ld_read_only ex_ldap \<noteq> Some False \<longrightarrow> (\<forall>key\<in>set write_options. map_of m key = Some ''false'')"
    by (elim exE conjE) (rule that)
  have "''user_allow_create'' \<in> set write_options" by (simp add: write_options_def)
  with m ex_ldap_facts(2) [of "trim_right newline_chars u" "trim_right newline_chars p"] ex_ldap_facts(3) show ?thesis by fast
qed

end
