(* ===== verification/IdentityBackendProperties.thy ===== *)
theory IdentityBackendProperties
  imports FederationProperties
begin

text \<open>
  Identity backends admitted next to each other: what the webhook keeps apart over any history of requests.
\<close>

section \<open>Backends admitted next to each other\<close>

text \<open>Two live backends of one Keystone that can be projected together.\<close>

definition compatible :: "(string \<Rightarrow> string \<Rightarrow> bool) \<Rightarrow> KeystoneIdentityBackend \<Rightarrow> KeystoneIdentityBackend \<Rightarrow> bool" where
  "compatible equal_fold a b \<longleftrightarrow>
     \<not> equal_fold (backend_domain a) (backend_domain b) \<and>
     \<not> (IsFederationType a \<and> IsFederationType b \<and> EffectiveIdentityProviderName a = EffectiveIdentityProviderName b) \<and>
     \<not> (ib_saml (kb_spec a) \<noteq> None \<and> ib_saml (kb_spec b) \<noteq> None) \<and>
     (case (ib_oidc (kb_spec a), ib_oidc (kb_spec b)) of
        (Some o1, Some o2) \<Rightarrow>
          EffectiveRemoteIDAttribute a = EffectiveRemoteIDAttribute b \<and> \<not> (introspection_enabled o1 \<and> introspection_enabled o2)
      | _ \<Rightarrow> True)"

definition siblings :: "KeystoneIdentityBackend \<Rightarrow> KeystoneIdentityBackend \<Rightarrow> bool" where
  "siblings a b \<longleftrightarrow>
     m_namespace (kb_meta a) = m_namespace (kb_meta b) \<and> kb_name a \<noteq> kb_name b \<and>
     \<not> m_deleting (kb_meta a) \<and> \<not> m_deleting (kb_meta b) \<and> ib_keystone (kb_spec a) = ib_keystone (kb_spec b)"

text \<open>\<open>strings.EqualFold\<close> is symmetric.\<close>

definition symmetric :: "(string \<Rightarrow> string \<Rightarrow> bool) \<Rightarrow> bool" where
  "symmetric r \<longleftrightarrow> (\<forall>a b. r a b \<longrightarrow> r b a)"

lemma compatible_sym: "symmetric ef \<Longrightarrow> compatible ef a b = compatible ef b a"
  by (auto simp: compatible_def symmetric_def split: option.splits)

lemma siblings_sym: "siblings a b = siblings b a"
  by (auto simp: siblings_def)

lemma sibling_errors_Nil:
  assumes "sibling_errors ef p b x = []" "siblings b x" "symmetric ef"
  shows "compatible ef b x"
proof -
  have "is_sibling b x" using assms(2) by (auto simp: siblings_def is_sibling_def)
  with assms(1) have e: "\<not> ef (backend_domain x) (backend_domain b)"
    "\<not> (IsFederationType b \<and> IsFederationType x \<and> EffectiveIdentityProviderName b = EffectiveIdentityProviderName x)"
    "\<not> (ib_saml (kb_spec b) \<noteq> None \<and> ib_saml (kb_spec x) \<noteq> None)" "oidc_sibling_errors p b x = []"
    by (simp_all add: sibling_errors_def)
  then show ?thesis using assms(3) by (auto simp: compatible_def symmetric_def oidc_sibling_errors_def split: option.splits)
qed

type_synonym backend_store = "(objkey \<times> KeystoneIdentityBackend) list"

abbreviation backend_client :: "(KeystoneIdentityBackend, backend_store) kclient" where
  "backend_client \<equiv> store_client kb_meta"

text \<open>
  What happens to the backends of a cluster, each request by itself: a creation and an update that the webhook admits
  against the backends stored at that moment, the status write, which it does not see, the start of a deletion, and the
  end of one.  Two requests that are validated at the same time are not steps of this relation.
\<close>

inductive backend_step ::
  "(string \<Rightarrow> string \<Rightarrow> bool) \<Rightarrow> (string \<Rightarrow> (string \<times> string) result) \<Rightarrow> backend_store \<Rightarrow> backend_store \<Rightarrow> bool"
  for ef xml where
  create: "ib_ValidateCreate ef xml (Some backend_client) b w = None \<Longrightarrow> map_of w (key_of (kb_meta b)) = None \<Longrightarrow>
     backend_step ef xml w (map_put (key_of (kb_meta b)) b w)"
| update: "ib_ValidateUpdate ef xml (Some backend_client) old new w = None \<Longrightarrow> map_of w (key_of (kb_meta new)) = Some old \<Longrightarrow>
     m_deleting (kb_meta new) = m_deleting (kb_meta old) \<Longrightarrow> backend_step ef xml w (map_put (key_of (kb_meta new)) new w)"
| status: "map_of w (key_of (kb_meta b)) = Some b \<Longrightarrow> backend_step ef xml w (map_put (key_of (kb_meta b)) (b\<lparr>kb_status := st\<rparr>) w)"
| mark: "map_of w (key_of (kb_meta b)) = Some b \<Longrightarrow>
     backend_step ef xml w (map_put (key_of (kb_meta b)) (b\<lparr>kb_meta := (kb_meta b)\<lparr>m_deleting := True\<rparr>\<rparr>) w)"
| remove: "backend_step ef xml w (AList.delete key w)"

text \<open>The block of a SAML backend is there.\<close>

definition block_of_type :: "KeystoneIdentityBackend \<Rightarrow> bool" where
  "block_of_type b \<longleftrightarrow> kb_type b = IdentityBackendTypeSAML \<longrightarrow> ib_saml (kb_spec b) \<noteq> None"

definition store_ok :: "(string \<Rightarrow> string \<Rightarrow> bool) \<Rightarrow> backend_store \<Rightarrow> bool" where
  "store_ok ef w \<longleftrightarrow>
     wf_gomap w \<and> (\<forall>key b. map_of w key = Some b \<longrightarrow> key_of (kb_meta b) = key \<and> block_of_type b) \<and>
     (\<forall>k1 a k2 b. map_of w k1 = Some a \<longrightarrow> map_of w k2 = Some b \<longrightarrow> siblings a b \<longrightarrow> compatible ef a b)"

lemma validated_block: "ib_validate ef xml client b w = None \<Longrightarrow> block_of_type b"
  by (auto simp: ib_validate_def ib_errors_def type_errors_def block_matches_def fail_if_def block_of_type_def Let_def split: if_splits)

lemma validated_against:
  assumes "ib_validate ef xml (Some backend_client) b w = None" "wf_gomap w" "map_of w key = Some x" "siblings b x" "symmetric ef"
  shows "compatible ef b x"
proof -
  have "validateSiblingBackends ef (Some backend_client) [PChild ''spec''] b w = []"
    using assms(1) by (auto simp: ib_validate_def ib_errors_def Let_def split: if_splits)
  moreover have "x \<in> set (map snd w)" using assms(3) by (auto dest: map_of_SomeD intro: rev_image_eqI)
  moreover have "m_namespace (kb_meta x) = m_namespace (kb_meta b)" using assms(4) by (simp add: siblings_def)
  ultimately have "sibling_errors ef [PChild ''spec''] b x = []" by (auto simp: validateSiblingBackends_def)
  with sibling_errors_Nil assms(4,5) show ?thesis by blast
qed

text \<open>Replacing one entry keeps the store if the new one is compatible with its live siblings.\<close>

lemma store_put:
  assumes "store_ok ef w" "symmetric ef" "block_of_type b"
    and "\<And>key x. map_of w key = Some x \<Longrightarrow> siblings b x \<Longrightarrow> compatible ef b x"
  shows "store_ok ef (map_put (key_of (kb_meta b)) b w)"
  using assms(1,3,4) compatible_sym [OF assms(2)] siblings_sym
  by (auto simp: store_ok_def siblings_def [of b b] split: if_splits)

lemma siblings_compatible_old:
  assumes "store_ok ef w" "map_of w (key_of (kb_meta b)) = Some b" "map_of w key = Some x" "siblings b x"
  shows "compatible ef b x"
  using assms unfolding store_ok_def by blast

lemma compatible_status: "compatible ef (b\<lparr>kb_status := st\<rparr>) x = compatible ef b x"
proof -
  have f: "kb_spec (b\<lparr>kb_status := st\<rparr>) = kb_spec b" "backend_domain (b\<lparr>kb_status := st\<rparr>) = backend_domain b"
    "IsFederationType (b\<lparr>kb_status := st\<rparr>) = IsFederationType b"
    "EffectiveIdentityProviderName (b\<lparr>kb_status := st\<rparr>) = EffectiveIdentityProviderName b"
    "EffectiveRemoteIDAttribute (b\<lparr>kb_status := st\<rparr>) = EffectiveRemoteIDAttribute b"
    by (simp_all add: IsFederationType_def EffectiveIdentityProviderName_def EffectiveRemoteIDAttribute_def split: option.split)
  show ?thesis unfolding compatible_def f ..
qed

lemma backend_step_ok:
  assumes "backend_step ef xml w w'" "store_ok ef w" "symmetric ef"
  shows "store_ok ef w'"
  using assms(1)
proof (cases rule: backend_step.cases)
  case (create b)
  then have v: "ib_validate ef xml (Some backend_client) b w = None" by (simp add: ib_ValidateCreate_def)
  have "wf_gomap w" using assms(2) by (simp add: store_ok_def)
  with store_put [OF assms(2,3) validated_block [OF v]] validated_against [OF v] assms(3) create(1) show ?thesis by blast
next
  case (update old new)
  then have v: "ib_validate ef xml (Some backend_client) new w = None" by (simp add: ib_ValidateUpdate_def)
  have "wf_gomap w" using assms(2) by (simp add: store_ok_def)
  with store_put [OF assms(2,3) validated_block [OF v]] validated_against [OF v] assms(3) update(1) show ?thesis by blast
next
  case (status b st)
  have "compatible ef (b\<lparr>kb_status := st\<rparr>) x" if "map_of w key = Some x" "siblings (b\<lparr>kb_status := st\<rparr>) x" for key x
    using siblings_compatible_old [OF assms(2) status(2) that(1)] that(2)
    by (simp add: compatible_status siblings_def)
  then have c: "\<And>key x. map_of w key = Some x \<Longrightarrow> siblings (b\<lparr>kb_status := st\<rparr>) x \<Longrightarrow> compatible ef (b\<lparr>kb_status := st\<rparr>) x" .
  have "block_of_type b" using status(2) assms(2) unfolding store_ok_def by blast
  then have "block_of_type (b\<lparr>kb_status := st\<rparr>)" by (simp add: block_of_type_def)
  from store_put [OF assms(2,3) this c] status(1) show ?thesis by simp
next
  case (mark b)
  have "store_ok ef (map_put (key_of (kb_meta (b\<lparr>kb_meta := (kb_meta b)\<lparr>m_deleting := True\<rparr>\<rparr>))) (b\<lparr>kb_meta := (kb_meta b)\<lparr>m_deleting := True\<rparr>\<rparr>) w)"
  proof (rule store_put [OF assms(2,3)])
    have "block_of_type b" using mark(2) assms(2) unfolding store_ok_def by blast
    then show "block_of_type (b\<lparr>kb_meta := (kb_meta b)\<lparr>m_deleting := True\<rparr>\<rparr>)" by (simp add: block_of_type_def)
  qed (simp add: siblings_def)
  with mark(1) show ?thesis by (simp add: key_of_def)
next
  case (remove key)
  with assms(2) show ?thesis by (auto simp: store_ok_def split: if_splits)
qed

lemma reachable_ok: "(backend_step ef xml)\<^sup>*\<^sup>* [] w \<Longrightarrow> symmetric ef \<Longrightarrow> store_ok ef w"
  by (induction rule: rtranclp_induct) (auto simp: store_ok_def [of ef "[]"] intro: backend_step_ok)

text \<open>The backends of a Keystone, as the indexed list of the step returns them.\<close>

definition attached :: "backend_store \<Rightarrow> objkey \<Rightarrow> KeystoneIdentityBackend list" where
  "attached w key = filter (\<lambda>b. m_namespace (kb_meta b) = fst key \<and> ib_keystone (kb_spec b) = snd key) (map snd w)"

lemma distinct_attached:
  assumes "store_ok ef w"
  shows "distinct (map kb_name (attached w key))"
proof -
  have "map (\<lambda>x. key_of (kb_meta (snd x))) w = map fst w"
  proof (rule map_cong [OF refl])
    fix x assume "x \<in> set w"
    then have "map_of w (fst x) = Some (snd x)" using assms by (simp add: store_ok_def wf_map_of_iff)
    then show "key_of (kb_meta (snd x)) = fst x" using assms unfolding store_ok_def by blast
  qed
  moreover have "distinct (map fst w)" using assms by (simp add: store_ok_def wf_gomap_def)
  ultimately have "distinct (map (\<lambda>x. key_of (kb_meta (snd x))) w)" by (simp only:)
  then have "distinct (map (\<lambda>b. key_of (kb_meta b)) (map snd w))" by (simp add: o_def)
  then have d: "distinct (map (\<lambda>b. key_of (kb_meta b)) (attached w key))" by (simp add: attached_def distinct_map_filter)
  have "kb_name x = kb_name y \<longrightarrow> key_of (kb_meta x) = key_of (kb_meta y)" if "x \<in> set (attached w key)" "y \<in> set (attached w key)" for x y
    using that by (auto simp: attached_def key_of_def)
  with d show ?thesis unfolding distinct_map inj_on_def by blast
qed

lemma filter_at_most_one:
  assumes "distinct (map f xs)" "\<And>x y. x \<in> set xs \<Longrightarrow> y \<in> set xs \<Longrightarrow> P x \<Longrightarrow> P y \<Longrightarrow> f x = f y"
  shows "length (filter P xs) \<le> 1"
proof (rule ccontr)
  assume "\<not> length (filter P xs) \<le> 1"
  then obtain a b zs where f: "filter P xs = a # b # zs" by (cases "filter P xs"; cases "tl (filter P xs)") auto
  then have "a \<in> set (filter P xs)" "b \<in> set (filter P xs)" by simp_all
  then have ab: "a \<in> set xs" "b \<in> set xs" "P a" "P b" by simp_all
  have "distinct (map f (filter P xs))" using assms(1) by (simp add: distinct_map_filter)
  with f assms(2) [OF ab] show False by simp
qed

lemma attached_compatible:
  assumes "store_ok ef w" "a \<in> set (attached w key)" "b \<in> set (attached w key)" "kb_name a \<noteq> kb_name b"
    and "\<not> m_deleting (kb_meta a)" "\<not> m_deleting (kb_meta b)"
  shows "compatible ef a b"
proof -
  have "siblings a b" using assms(2-6) by (auto simp: siblings_def attached_def)
  moreover have "\<exists>k1. map_of w k1 = Some x" if "x \<in> set (attached w key)" for x
  proof -
    from that obtain y where "y \<in> set w" "snd y = x" by (auto simp: attached_def)
    then have "map_of w (fst y) = Some x" using assms(1) by (auto simp: store_ok_def wf_map_of_iff)
    then show ?thesis ..
  qed
  ultimately show ?thesis using assms(1-3) unfolding store_ok_def by blast
qed

lemma attached_block: "store_ok ef w \<Longrightarrow> b \<in> set (attached w key) \<Longrightarrow> block_of_type b"
proof -
  assume "store_ok ef w" "b \<in> set (attached w key)"
  then obtain y where "y \<in> set w" "snd y = b" "map_of w (fst y) = Some b" by (auto simp: attached_def store_ok_def wf_map_of_iff)
  then show ?thesis using \<open>store_ok ef w\<close> unfolding store_ok_def by blast
qed

text \<open>
  C19. Whatever identity backends are created, updated and deleted through the webhook, the requests admitted one after the
  other, those of one Keystone, as long as none is being deleted, never get in each other's way in its configuration: no
  two claim a domain, in any spelling that differs in case only, so the step finds one owner per domain; at most one is a
  SAML backend; and no two federated ones have the same identity provider.  Requests validated at the same time do not
  see each other and are outside the theorem.\<close>

theorem admitted_backends_never_collide:
  assumes "(backend_step ef xml)\<^sup>*\<^sup>* [] w" "symmetric ef" "\<forall>a b. to_lower a = to_lower b \<longrightarrow> ef a b"
    and "\<forall>b\<in>set (attached w key). \<not> m_deleting (kb_meta b)"
  shows "(\<forall>b\<in>set (attached w key). length (domain_owners (attached w key) b) \<le> 1) \<and>
         length (saml_backends (attached w key)) \<le> 1 \<and>
         (\<forall>a\<in>set (attached w key). \<forall>b\<in>set (attached w key). IsFederationType a \<and> IsFederationType b \<and>
            EffectiveIdentityProviderName a = EffectiveIdentityProviderName b \<longrightarrow> a = b)"
proof -
  let ?bs = "attached w key"
  have ok: "store_ok ef w" by (rule reachable_ok [OF assms(1,2)])
  note d = distinct_attached [OF ok, of key]
  have c: "compatible ef x y" if "x \<in> set ?bs" "y \<in> set ?bs" "kb_name x \<noteq> kb_name y" for x y
    using attached_compatible [OF ok that] assms(4) that by blast
  have "length (domain_owners ?bs b) \<le> 1" for b
    unfolding domain_owners_def length_map
    by (rule filter_at_most_one [OF d]) (use c assms(3) in \<open>unfold compatible_def, metis\<close>)
  moreover have "length (saml_backends ?bs) \<le> 1"
    unfolding saml_backends_def length_map
    by (rule filter_at_most_one [OF d])
      (use c attached_block [OF ok] in \<open>unfold compatible_def block_of_type_def, metis\<close>)
  moreover have "a = b" if "a \<in> set ?bs" "b \<in> set ?bs" "IsFederationType a" "IsFederationType b"
      "EffectiveIdentityProviderName a = EffectiveIdentityProviderName b" for a b
    using c [OF that(1,2)] that d unfolding compatible_def distinct_map inj_on_def by blast
  ultimately show ?thesis by blast
qed

section \<open>Concrete instances\<close>

definition ex_fold :: "string \<Rightarrow> string \<Rightarrow> bool" where
  "ex_fold a b \<longleftrightarrow> to_lower a = to_lower b"

definition ex_xml :: "string \<Rightarrow> (string \<times> string) result" where
  "ex_xml document = Inr (''EntityDescriptor'', document)"

definition ex_store :: "backend_store" where
  "ex_store = map_put (''openstack'', ''sso'') ex_oidc_backend (map_put (''openstack'', ''corp'') ex_ldap_backend [])"

lemma ex_store_reachable: "(backend_step ex_fold ex_xml)\<^sup>*\<^sup>* [] ex_store"
proof -
  have k: "key_of (kb_meta ex_ldap_backend) = (''openstack'', ''corp'')" "key_of (kb_meta ex_oidc_backend) = (''openstack'', ''sso'')" by code_simp+
  have "ib_ValidateCreate ex_fold ex_xml (Some backend_client) ex_ldap_backend [] = None"
    "ib_ValidateCreate ex_fold ex_xml (Some backend_client) ex_oidc_backend (map_put (''openstack'', ''corp'') ex_ldap_backend []) = None"
    by code_simp+
  with backend_step.create [of ex_fold ex_xml ex_ldap_backend "[]"]
    backend_step.create [of ex_fold ex_xml ex_oidc_backend "map_put (''openstack'', ''corp'') ex_ldap_backend []"] k
  show ?thesis by (auto simp: ex_store_def intro: converse_rtranclp_into_rtranclp)
qed

lemma admitted_backends_never_collide_witness:
  "ex_oidc_backend \<in> set (attached ex_store (''openstack'', ''keystone'')) \<and>
   length (domain_owners (attached ex_store (''openstack'', ''keystone'')) ex_oidc_backend) \<le> 1"
proof -
  have a: "attached ex_store (''openstack'', ''keystone'') = [ex_oidc_backend, ex_ldap_backend] \<or>
      attached ex_store (''openstack'', ''keystone'') = [ex_ldap_backend, ex_oidc_backend]" by code_simp
  have b: "\<not> m_deleting (kb_meta ex_oidc_backend) \<and> kb_type ex_oidc_backend \<noteq> IdentityBackendTypeSAML"
    "\<not> m_deleting (kb_meta ex_ldap_backend) \<and> kb_type ex_ldap_backend \<noteq> IdentityBackendTypeSAML" by code_simp+
  have "symmetric ex_fold" "\<forall>a b. to_lower a = to_lower b \<longrightarrow> ex_fold a b" by (simp_all add: symmetric_def ex_fold_def)
  from admitted_backends_never_collide [OF ex_store_reachable this, of "(''openstack'', ''keystone'')"] a b show ?thesis by auto
qed
end
