(* ===== verification/IdentityControllerProperties.thy ===== *)
theory IdentityControllerProperties
  imports FederationProperties
begin

text \<open>
  Properties of the controller of identity backends: which domains it may write to, when it lets a deleted backend go, which
  failures cost a backend its domain, and how the client of the Keystone API tells an absent object from a failure.
\<close>

section \<open>The condition of the domain\<close>

abbreviation domain_ready :: "'w backend_env \<Rightarrow> KeystoneIdentityBackend \<Rightarrow> bool" where
  "domain_ready X b \<equiv> cond_true (bx_meta X) (kb_conditions b) conditionTypeDomainReady"

definition domain_condition :: "'w backend_env \<Rightarrow> KeystoneIdentityBackend \<Rightarrow> condition option" where
  "domain_condition X b = GetCondition (bx_meta X) (kb_conditions b) conditionTypeDomainReady"

text \<open>A step that does not touch the condition of the domain.\<close>

definition leaves_domain :: "'w backend_env \<Rightarrow> 'w kb_step \<Rightarrow> bool" where
  "leaves_domain X f \<longleftrightarrow> (\<forall>b w. domain_condition X (fst (snd (f (b, w)))) = domain_condition X b)"

lemma leaves_and_then [intro]: "leaves_domain X f \<Longrightarrow> leaves_domain X g \<Longrightarrow> leaves_domain X (and_then f g)"
  by (auto simp: leaves_domain_def and_then_def Let_def split: prod.splits) (metis fst_conv snd_conv)+

lemma set_kb_other:
  "meta_contract (bx_meta X) \<Longrightarrow> ct \<noteq> conditionTypeDomainReady \<Longrightarrow> domain_condition X (set_kb_condition (bx_meta X) ct st r m b) = domain_condition X b"
  by (simp add: domain_condition_def set_kb_condition_def put_kb_conditions_def)

lemma upsert_other:
  "meta_contract (bx_meta X) \<Longrightarrow> ct \<noteq> conditionTypeDomainReady \<Longrightarrow>
     domain_condition X (upsertBackendCondition (bx_meta X) ct st r m b) = domain_condition X b"
  by (simp add: upsertBackendCondition_def set_kb_other)

lemma other_conditions:
  assumes "meta_contract (bx_meta X)"
  shows "domain_condition X (setMappingsReady X st r m b) = domain_condition X b"
    and "domain_condition X (setFederationObjectsReady X st r m b) = domain_condition X b"
    and "domain_condition X (set_kb_condition (bx_meta X) conditionTypeConfigProjected st r m b) = domain_condition X b"
  using assms by (auto simp: setMappingsReady_def setFederationObjectsReady_def conditionTypeMappingsReady_def
      conditionTypeFederationObjectsReady_def conditionTypeConfigProjected_def conditionTypeDomainReady_def intro!: upsert_other set_kb_other)

text \<open>A call whose outcomes all leave the condition.\<close>

abbreviation left :: "'w backend_env \<Rightarrow> KeystoneIdentityBackend \<Rightarrow> 'r \<times> KeystoneIdentityBackend \<times> 'w \<Rightarrow> bool" where
  "left X b r \<equiv> domain_condition X (fst (snd r)) = domain_condition X b"

lemma failed_left:
  assumes "meta_contract (bx_meta X)"
  shows "left X b (api_failed X setMappingsReady said sa wr wa e (b, w))"
    and "left X b (api_failed X setFederationObjectsReady said sa wr wa e (b, w))"
    and "left X b (wait_for_object X text args (b, w))"
  using other_conditions [OF assms] by (simp_all add: api_failed_def wait_for_object_def)

lemma assign_domain_left: "meta_contract (bx_meta X) \<Longrightarrow> left X b (assign_on_domain X I g n r (b, w))"
  by (auto simp: assign_on_domain_def failed_left Let_def split: prod.split sum.split option.split bool.split)

lemma assign_project_left: "meta_contract (bx_meta X) \<Longrightarrow> left X b (assign_on_project X I g n r p i (b, w))"
  by (auto simp: assign_on_project_def failed_left Let_def split: prod.split sum.split option.split bool.split)

lemma assign_in_project_left: "meta_contract (bx_meta X) \<Longrightarrow> left X b (assign_in_project_domain X I g n r p d (b, w))"
  by (auto simp: assign_in_project_domain_def failed_left assign_project_left split: prod.split sum.split)

lemma role_leaves: "meta_contract (bx_meta X) \<Longrightarrow> leaves_domain X (applyRoleAssignment X I g ra)"
  by (auto simp: leaves_domain_def applyRoleAssignment_def failed_left assign_domain_left assign_in_project_left Let_def
      split: prod.split sum.split option.split)

lemma roles_leave: "meta_contract (bx_meta X) \<Longrightarrow> leaves_domain X (apply_roles X I g ras)"
proof (induction ras)
  case (Cons ra ras)
  then have "leaves_domain X (and_then (applyRoleAssignment X I g ra) (apply_roles X I g ras))" using role_leaves by blast
  then show ?case by (simp add: leaves_domain_def)
qed (simp add: leaves_domain_def)

lemma leaves_at: "leaves_domain X f \<Longrightarrow> left X b (f (b, w))"
  by (simp add: leaves_domain_def)

lemma groups_leave: "meta_contract (bx_meta X) \<Longrightarrow> leaves_domain X (ensure_groups X I gs)"
proof (induction gs)
  case (Cons g gs)
  then have a: "leaves_domain X (and_then (apply_roles X I x (fg_roles g)) (ensure_groups X I gs))" for x using roles_leave by blast
  have "left X b (ensure_groups X I (g # gs) (b, w))" for b w
    using leaves_at [OF a] failed_left(1) [OF Cons.prems] by (simp split: prod.split sum.split)
  then show ?case by (simp add: leaves_domain_def)
qed (simp add: leaves_domain_def)

lemma mapping_leaves: "meta_contract (bx_meta X) \<Longrightarrow> leaves_domain X (ensure_mapping X I)"
  by (auto simp: leaves_domain_def ensure_mapping_def failed_left Let_def split: prod.split sum.split option.split)

lemma idp_leaves: "meta_contract (bx_meta X) \<Longrightarrow> leaves_domain X (ensureIdentityProvider X I)"
  by (auto simp: leaves_domain_def ensureIdentityProvider_def failed_left idp_changes_def Let_def split: prod.split sum.split option.split)

lemma protocol_leaves: "meta_contract (bx_meta X) \<Longrightarrow> leaves_domain X (ensureProtocol X I)"
  by (auto simp: leaves_domain_def ensureProtocol_def failed_left protocol_provisioned_def other_conditions Let_def split: prod.split sum.split option.split)

lemma mapping_groups_leave: "meta_contract (bx_meta X) \<Longrightarrow> leaves_domain X (ensureMappingAndGroups X I)"
proof -
  assume m: "meta_contract (bx_meta X)"
  have "leaves_domain X (ensureFederationGroups X I)"
    using leaves_at [OF groups_leave [OF m]] by (simp add: leaves_domain_def ensureFederationGroups_def)
  moreover have "leaves_domain X (mappings_applied X)"
    using m by (simp add: leaves_domain_def mappings_applied_def other_conditions)
  ultimately show ?thesis using m by (auto simp: ensureMappingAndGroups_def mapping_leaves)
qed

lemma federation_leaves: "meta_contract (bx_meta X) \<Longrightarrow> leaves_domain X (ensureFederation X I)"
proof -
  assume m: "meta_contract (bx_meta X)"
  then have "leaves_domain X (and_then (ensureIdentityProvider X I) (and_then (ensureMappingAndGroups X I) (ensureProtocol X I)))"
    using idp_leaves mapping_groups_leave protocol_leaves by blast
  with m show ?thesis by (auto simp: leaves_domain_def ensureFederation_def other_conditions)
qed

lemma rest_leaves:
  assumes "meta_contract (bx_meta X)"
  shows "leaves_domain X (and_then (ensure_federation_if_ready X I) (observeConfigProjected X k))"
proof (rule leaves_and_then)
  show "leaves_domain X (ensure_federation_if_ready X I)"
    using federation_leaves [OF assms] by (auto simp: leaves_domain_def ensure_federation_if_ready_def split: prod.splits)
  have "domain_condition X (b\<lparr>kb_status := (kb_status b)\<lparr>it_sp_secret := n\<rparr>\<rparr>) = domain_condition X b" for b n
    by (simp add: domain_condition_def)
  then show "leaves_domain X (observeConfigProjected X k)"
    using other_conditions(3) [OF assms]
    by (auto simp: leaves_domain_def observeConfigProjected_def Let_def split: prod.splits sum.splits bool.splits)
qed

section \<open>Which failures cost a backend its domain\<close>

abbreviation domain_is :: "'w backend_env \<Rightarrow> string \<Rightarrow> KeystoneIdentityBackend \<Rightarrow> bool" where
  "domain_is X reason b \<equiv> cond_is (bx_meta X) (kb_conditions b) conditionTypeDomainReady CFalse reason"

lemma ready_condition_iff:
  "domain_ready X b \<longleftrightarrow> (case domain_condition X b of None \<Rightarrow> False | Some c \<Rightarrow> c_status c = CTrue)"
  "domain_is X reason b \<longleftrightarrow> (case domain_condition X b of None \<Rightarrow> False | Some c \<Rightarrow> c_status c = CFalse \<and> c_reason c = reason)"
  by (simp_all add: cond_true_def cond_is_def domain_condition_def)

lemma same_condition:
  assumes "domain_condition X a = domain_condition X b"
  shows "domain_ready X a = domain_ready X b" "domain_is X reason a = domain_is X reason b"
  using assms by (simp_all add: ready_condition_iff)

lemma transient_kept: "domain_ready X b \<Longrightarrow> reason \<in> set transientObservationReasons \<Longrightarrow> setDomainReady X CFalse reason m b = b"
  by (simp add: setDomainReady_def upsertBackendCondition_def)

lemma transient_reasons:
  "conditionReasonWaitingForKeystoneAPI \<in> set transientObservationReasons"
  "conditionReasonAdminSecretUnavailable \<in> set transientObservationReasons"
  "conditionReasonIdentityAPIError \<in> set transientObservationReasons"
  "conditionReasonKeystoneNotFound \<notin> set transientObservationReasons"
  "conditionReasonDomainNotFound \<notin> set transientObservationReasons"
  "conditionReasonDomainAlreadyExists \<notin> set transientObservationReasons"
  by (simp_all add: transientObservationReasons_def conditionReasonWaitingForKeystoneAPI_def conditionReasonAdminSecretUnavailable_def
      conditionReasonIdentityAPIError_def conditionReasonKeystoneNotFound_def conditionReasonDomainNotFound_def
      conditionReasonDomainAlreadyExists_def)

lemma set_ready_true: "meta_contract (bx_meta X) \<Longrightarrow> domain_ready X (setDomainReady X CTrue reason m b)"
  by (simp add: setDomainReady_def upsertBackendCondition_def set_kb_condition_def put_kb_conditions_def)

lemma set_ready_false:
  "meta_contract (bx_meta X) \<Longrightarrow> reason \<notin> set transientObservationReasons \<Longrightarrow> domain_is X reason (setDomainReady X CFalse reason m b)"
  by (simp add: setDomainReady_def upsertBackendCondition_def set_kb_condition_def put_kb_conditions_def)

text \<open>What the Keystone API answers when it is asked for the domain of the backend.\<close>

definition domain_answer :: "'w backend_env \<Rightarrow> KeystoneIdentityBackend \<Rightarrow> 'w \<Rightarrow> identity_domain result \<Rightarrow> bool" where
  "domain_answer X b w answer \<longleftrightarrow>
     (\<exists>k creds. bx_keystone X (backend_keystone_key b) w = Inr k \<and> adminCredentials X k w = Inr creds \<and>
        fst (ic_get_domain (identityClient X (internalAPIURL (ko_meta k)) creds) (backend_domain b) w) = answer)"

text \<open>The causes, with the reason the condition then has.\<close>

definition loses_domain :: "'w backend_env \<Rightarrow> KeystoneIdentityBackend \<Rightarrow> 'w \<Rightarrow> string \<Rightarrow> bool" where
  "loses_domain X b w reason \<longleftrightarrow>
     (reason = conditionReasonKeystoneNotFound \<and> (\<exists>e. bx_keystone X (backend_keystone_key b) w = Inl e)) \<or>
     (reason = conditionReasonDomainNotFound \<and> do_mode (ib_domain (kb_spec b)) = DomainModeAdopt \<and>
        (\<exists>e. api_absent e \<and> domain_answer X b w (Inl e))) \<or>
     (reason = conditionReasonDomainAlreadyExists \<and> do_mode (ib_domain (kb_spec b)) \<noteq> DomainModeAdopt \<and>
        (\<exists>d. (kb_domain_id b = [] \<or> kb_domain_id b \<noteq> dm_id d) \<and> domain_answer X b w (Inr d)))"

lemma failed_keeps_domain: "domain_ready X b \<Longrightarrow> domain_ready X (fst (snd (api_failed X setDomainReady said sa wr wa e (b, w))))"
  by (simp add: api_failed_def transient_kept transient_reasons)

lemma ensureDomain_outcome:
  assumes "meta_contract (bx_meta X)" "domain_ready X b" "ic_get_domain I (backend_domain b) w = (answer, w0)"
  shows "domain_ready X (fst (snd (ensureDomain X I (b, w)))) \<or>
     (domain_is X conditionReasonDomainNotFound (fst (snd (ensureDomain X I (b, w)))) \<and>
        do_mode (ib_domain (kb_spec b)) = DomainModeAdopt \<and> (\<exists>e. api_absent e \<and> answer = Inl e)) \<or>
     (domain_is X conditionReasonDomainAlreadyExists (fst (snd (ensureDomain X I (b, w)))) \<and>
        do_mode (ib_domain (kb_spec b)) \<noteq> DomainModeAdopt \<and> (\<exists>d. (kb_domain_id b = [] \<or> kb_domain_id b \<noteq> dm_id d) \<and> answer = Inr d))"
proof -
  have adopt: "domain_ready X (fst (snd (adopt_domain X (Some d) (b, v))))"
    "domain_is X conditionReasonDomainNotFound (fst (snd (adopt_domain X None (b, v))))" for d v
    using assms(1) by (simp_all add: adopt_domain_def set_ready_true set_ready_false transient_reasons Let_def)
  have create: "domain_ready X (fst (snd (create_domain X I (b, v))))" for v
    using assms(1,2) by (simp add: create_domain_def domain_provisioned_def set_ready_true failed_keeps_domain Let_def split: sum.split prod.split)
  have keep: "domain_ready X (fst (snd (keep_domain X I d (b, v)))) \<or>
      domain_is X conditionReasonDomainAlreadyExists (fst (snd (keep_domain X I d (b, v)))) \<and> (kb_domain_id b = [] \<or> kb_domain_id b \<noteq> dm_id d)" for d v
    using assms(1,2) by (simp add: keep_domain_def domain_provisioned_def set_ready_true set_ready_false transient_reasons failed_keeps_domain
        Let_def split: option.split prod.split)
  show ?thesis
  proof (cases answer)
    case (Inl e)
    with assms adopt(2) create show ?thesis by (simp add: ensureDomain_def failed_keeps_domain Let_def)
  next
    case (Inr d)
    with assms adopt(1) keep [of d w0] show ?thesis by (auto simp: ensureDomain_def Let_def)
  qed
qed

lemma and_then_left:
  assumes "leaves_domain X g"
  shows "domain_condition X (fst (snd (and_then f g s))) = domain_condition X (fst (snd (f s)))"
proof -
  obtain r e b w where f: "f s = ((r, e), b, w)" by (metis prod.exhaust)
  then show ?thesis using leaves_at [OF assms, of b w] by (simp add: and_then_def Let_def)
qed

text \<open>
  C18. A backend whose domain was ready keeps its place in the configuration through any trouble with the Keystone API: after a
  pass its condition is False only if the Keystone could not be read, if the domain to adopt is not there, or if a
  domain of that name exists that the backend did not create, and the condition says which.  Neither an API that is not
  ready, nor a missing admin Secret, nor an error of any call, that of the federation objects included, takes it away.\<close>

theorem domain_lost_only_for_cause:
  assumes "meta_contract (bx_meta X)" "domain_ready X b" "reconcileBackend X (b, w) = (res, b', w')" "\<not> domain_ready X b'"
  shows "\<exists>reason. domain_is X reason b' \<and> loses_domain X b w reason"
proof (cases "bx_keystone X (backend_keystone_key b) w")
  case (Inl e)
  then have "\<exists>m. b' = setDomainReady X CFalse conditionReasonKeystoneNotFound m b"
    using assms(3) by (auto simp: reconcileBackend_def resolveKeystone_def backend_keystone_key_def Let_def split: if_splits)
  with Inl set_ready_false [OF assms(1) transient_reasons(4)] show ?thesis by (auto simp: loses_domain_def)
next
  case (Inr k)
  have api: "cond_true (bx_meta X) (ko_conditions k) ''KeystoneAPIReady''"
  proof (rule ccontr)
    assume "\<not> ?thesis"
    with Inr assms(2,3) have "b' = b"
      by (auto simp: reconcileBackend_def resolveKeystone_def backend_keystone_key_def transient_kept transient_reasons Let_def)
    with assms(2,4) show False by simp
  qed
  then have resolved: "resolveKeystone X (b, w) = (Inr k, b)" using Inr by (simp add: resolveKeystone_def backend_keystone_key_def)
  obtain creds where creds: "adminCredentials X k w = Inr creds"
  proof (cases "adminCredentials X k w")
    case (Inl e)
    with resolved assms(2,3) have "b' = b"
      by (auto simp: reconcileBackend_def transient_kept transient_reasons split: if_splits)
    with assms(2,4) show ?thesis by simp
  qed
  let ?I = "identityClient X (internalAPIURL (ko_meta k)) creds"
  obtain answer w0 where a: "ic_get_domain ?I (backend_domain b) w = (answer, w0)" by (cases "ic_get_domain ?I (backend_domain b) w")
  have "and_then (ensureDomain X ?I) (and_then (ensure_federation_if_ready X ?I) (observeConfigProjected X k)) (b, w) = (res, b', w')"
    using assms(3) resolved creds by (simp add: reconcileBackend_def Let_def)
  with and_then_left [OF rest_leaves [OF assms(1)], where f = "ensureDomain X ?I" and s = "(b, w)"]
  have "domain_condition X b' = domain_condition X (fst (snd (ensureDomain X ?I (b, w))))" by (metis fst_conv snd_conv)
  note same = same_condition [OF this]
  from ensureDomain_outcome [OF assms(1,2) a] assms(4) Inr creds a show ?thesis
    unfolding same loses_domain_def domain_answer_def by (metis fst_conv)
qed

text \<open>Not every error of reading the Keystone means that it is gone: the condition says so nevertheless.\<close>

lemma transient_get_error_drops_domain:
  "meta_contract (bx_meta X) \<Longrightarrow> bx_keystone X (backend_keystone_key b) w = Inl e \<Longrightarrow> \<not> is_not_found e \<Longrightarrow>
     domain_is X conditionReasonKeystoneNotFound (fst (snd (reconcileBackend X (b, w))))"
  by (simp add: reconcileBackend_def resolveKeystone_def backend_keystone_key_def set_ready_false transient_reasons Let_def)

section \<open>Letting a deleted backend go\<close>

text \<open>The call deleted the object, or there was none.\<close>

definition settled :: "err option \<times> 'w \<Rightarrow> bool" where
  "settled r \<longleftrightarrow> (case fst r of None \<Rightarrow> True | Some e \<Rightarrow> api_absent e)"

definition credentials_missing :: "'w backend_env \<Rightarrow> Keystone \<Rightarrow> 'w \<Rightarrow> bool" where
  "credentials_missing X k w \<longleftrightarrow> (case adminCredentials X k w of Inl e \<Rightarrow> IsMissingSecretOrKey e | Inr c \<Rightarrow> False)"

text \<open>The protocol, the mapping and the identity provider are gone, in this order.\<close>

definition federation_gone :: "'w backend_env \<Rightarrow> Keystone \<Rightarrow> KeystoneIdentityBackend \<Rightarrow> 'w \<Rightarrow> bool" where
  "federation_gone X k b w \<longleftrightarrow>
     (\<exists>creds. adminCredentials X k w = Inr creds \<and>
        (let I = identityClient X (internalAPIURL (ko_meta k)) creds; idp = EffectiveIdentityProviderName b;
             p = ic_delete_protocol I idp (EffectiveProtocolID b) w; m = ic_delete_mapping I (federationMappingID b) (snd p) in
         settled p \<and> settled m \<and> settled (ic_delete_idp I idp (snd m))))"

text \<open>The domain is disabled and deleted, or was gone already.\<close>

definition domain_gone :: "'w backend_env \<Rightarrow> Keystone \<Rightarrow> KeystoneIdentityBackend \<Rightarrow> 'w \<Rightarrow> bool" where
  "domain_gone X k b w \<longleftrightarrow>
     (\<exists>creds. adminCredentials X k w = Inr creds \<and>
        (let I = identityClient X (internalAPIURL (ko_meta k)) creds;
             u = ic_update_domain I (kb_domain_id b) (Some False) None w in
         settled u \<and> (fst u = None \<longrightarrow>
           settled (ic_delete_domain I (kb_domain_id b)
             (tell X EvNormal ''DomainDisabled'' ''Disabled domain %q before deletion'' [Str (backend_domain b)] (snd u))))))"

definition domain_to_delete :: "KeystoneIdentityBackend \<Rightarrow> bool" where
  "domain_to_delete b \<longleftrightarrow> do_mode (ib_domain (kb_spec b)) = DomainModeManage \<and>
     do_deletion (ib_domain (kb_spec b)) = DomainDeletionPolicyDelete \<and> kb_domain_id b \<noteq> []"

lemma and_then_next [simp]: "f s = goes_on s1 \<Longrightarrow> and_then f g s = g s1"
  by (simp add: and_then_def result_is_zero_def zero_result_def)

lemma and_then_stop: "f s = ((r, e), s1) \<Longrightarrow> \<not> result_is_zero r \<or> e \<noteq> None \<Longrightarrow> and_then f g s = ((r, e), s1)"
  by (simp add: and_then_def)

lemma wait_not_zero: "\<not> result_is_zero (after RequeueDatabaseWait)"
  by (simp add: result_is_zero_def zero_result_def after_def RequeueDatabaseWait_def seconds_def)

lemma delete_object_cases:
  "(settled (f w) \<and> delete_object X what n f (b, w) = goes_on (b, snd (f w))) \<or>
   (\<exists>v. delete_object X what n f (b, w) = ((after RequeueDatabaseWait, None), b, v))"
  by (cases "f w") (auto simp: delete_object_def settled_def split: option.splits)

text \<open>Each outcome keeps the backend; the step goes on only when everything is settled.\<close>

definition waits :: "(ctrl_result \<times> err option) \<times> KeystoneIdentityBackend \<times> 'w \<Rightarrow> KeystoneIdentityBackend \<Rightarrow> bool" where
  "waits r b \<longleftrightarrow> fst (snd r) = b \<and> (\<not> result_is_zero (fst (fst r)) \<or> snd (fst r) \<noteq> None)"

lemma waits_cases:
  assumes "waits (f s) b"
  shows "waits (and_then f g s) b"
proof -
  obtain r e s1 where "f s = ((r, e), s1)" by (metis prod.exhaust)
  with assms show ?thesis by (auto simp: waits_def and_then_def)
qed

lemma goes_on_not_waits [simp]: "\<not> waits (goes_on (b, w)) c"
  by (simp add: waits_def result_is_zero_def zero_result_def)

text \<open>The step waits, or its condition \<open>C\<close> is met and it goes on.\<close>

definition step_outcome :: "(ctrl_result \<times> err option) \<times> KeystoneIdentityBackend \<times> 'w \<Rightarrow> KeystoneIdentityBackend \<Rightarrow> bool \<Rightarrow> bool" where
  "step_outcome r b C \<longleftrightarrow> waits r b \<or> (C \<and> (\<exists>v. r = goes_on (b, v)))"

lemma delete_outcome:
  assumes "step_outcome (g (b, snd (f w))) b C"
  shows "step_outcome (and_then (delete_object X what n f) g (b, w)) b (settled (f w) \<and> C)"
  using delete_object_cases [of f w X what n b]
proof (elim disjE conjE exE)
  assume "settled (f w)" "delete_object X what n f (b, w) = goes_on (b, snd (f w))"
  with assms show ?thesis by (simp add: step_outcome_def)
next
  fix v assume "delete_object X what n f (b, w) = ((after RequeueDatabaseWait, None), b, v)"
  then have "waits (delete_object X what n f (b, w)) b" by (simp add: waits_def wait_not_zero)
  then show ?thesis unfolding step_outcome_def using waits_cases by blast
qed

lemma teardown_objects_outcome:
  fixes b :: KeystoneIdentityBackend and w :: 'w and I :: "'w identity_client"
  defines "p \<equiv> ic_delete_protocol I (EffectiveIdentityProviderName b) (EffectiveProtocolID b) w"
  defines "m \<equiv> ic_delete_mapping I (federationMappingID b) (snd p)"
  shows "step_outcome (teardown_objects X I (b, w)) b
    (settled p \<and> settled m \<and> settled (ic_delete_idp I (EffectiveIdentityProviderName b) (snd m)) \<and> True)"
  unfolding teardown_objects_def Let_def fst_conv p_def m_def
  by (intro delete_outcome) (simp add: step_outcome_def)

lemma teardown_federation_outcome:
  "waits (teardownFederationObjects X k (b, w)) b \<or>
   ((credentials_missing X k w \<or> federation_gone X k b w) \<and> (\<exists>v. teardownFederationObjects X k (b, w) = goes_on (b, v)))"
proof (cases "adminCredentials X k w")
  case (Inl e)
  then show ?thesis by (auto simp: teardownFederationObjects_def credentials_missing_def waits_def)
next
  case (Inr creds)
  with teardown_objects_outcome [of X "identityClient X (internalAPIURL (ko_meta k)) creds" b w] show ?thesis
    by (simp add: teardownFederationObjects_def federation_gone_def step_outcome_def Let_def) blast
qed

lemma delete_domain_outcome:
  fixes b :: KeystoneIdentityBackend and w :: 'w and I :: "'w identity_client"
  defines "u \<equiv> ic_update_domain I (kb_domain_id b) (Some False) None w"
  shows "waits (delete_domain X I (b, w)) b \<or>
    (settled u \<and> (fst u = None \<longrightarrow> settled (ic_delete_domain I (kb_domain_id b)
       (tell X EvNormal ''DomainDisabled'' ''Disabled domain %q before deletion'' [Str (backend_domain b)] (snd u)))) \<and>
     (\<exists>v. delete_domain X I (b, w) = goes_on (b, v)))"
  unfolding u_def
  by (auto simp: delete_domain_def domain_delete_failed_def settled_def waits_def wait_not_zero Let_def split: prod.split option.split)

lemma domain_policy_outcome:
  "waits (applyDomainDeletionPolicy X k (b, w)) b \<or>
   ((domain_to_delete b \<longrightarrow> credentials_missing X k w \<or> domain_gone X k b w) \<and> (\<exists>v. applyDomainDeletionPolicy X k (b, w) = goes_on (b, v)))"
proof (cases "domain_to_delete b")
  case False
  then show ?thesis by (auto simp: applyDomainDeletionPolicy_def domain_to_delete_def)
next
  case True
  then have d: "do_mode (ib_domain (kb_spec b)) = DomainModeManage" "do_deletion (ib_domain (kb_spec b)) = DomainDeletionPolicyDelete"
    "kb_domain_id b \<noteq> []" by (simp_all add: domain_to_delete_def)
  show ?thesis
  proof (cases "adminCredentials X k w")
    case (Inl e)
    then show ?thesis using d by (auto simp: applyDomainDeletionPolicy_def credentials_missing_def waits_def Let_def)
  next
    case (Inr creds)
    with delete_domain_outcome [of X "identityClient X (internalAPIURL (ko_meta k)) creds" b w] d show ?thesis
      by (auto simp: applyDomainDeletionPolicy_def domain_gone_def Let_def)
  qed
qed

text \<open>The world in which the policy of the domain is applied.\<close>

definition after_federation :: "'w backend_env \<Rightarrow> Keystone \<Rightarrow> KeystoneIdentityBackend \<Rightarrow> 'w \<Rightarrow> 'w" where
  "after_federation X k b w = (if IsFederationType b then snd (snd (teardownFederationObjects X k (b, w))) else w)"

lemma release_outcome:
  "waits (teardown_and_release X k (b, w)) b \<or>
   ((IsFederationType b \<longrightarrow> credentials_missing X k w \<or> federation_gone X k b w) \<and>
    (domain_to_delete b \<longrightarrow> credentials_missing X k (after_federation X k b w) \<or> domain_gone X k b (after_federation X k b w)))"
proof -
  let ?fed = "if IsFederationType b then teardownFederationObjects X k else goes_on"
  let ?rest = "and_then (applyDomainDeletionPolicy X k) (removeFinalizer X)"
  have t: "teardown_and_release X k (b, w) = and_then ?fed ?rest (b, w)" by (simp add: teardown_and_release_def)
  have "waits (?fed (b, w)) b \<or>
      (IsFederationType b \<longrightarrow> credentials_missing X k w \<or> federation_gone X k b w) \<and> ?fed (b, w) = goes_on (b, after_federation X k b w)"
    using teardown_federation_outcome [of X k b w] by (auto simp: after_federation_def)
  then show ?thesis
  proof (elim disjE conjE)
    assume "?fed (b, w) = goes_on (b, after_federation X k b w)" "IsFederationType b \<longrightarrow> credentials_missing X k w \<or> federation_gone X k b w"
    with domain_policy_outcome [of X k b "after_federation X k b w"] waits_cases [of "applyDomainDeletionPolicy X k"] t show ?thesis by auto
  qed (auto simp: t intro: waits_cases)
qed

text \<open>
  The Deployment does not mount the entry of a backend: it is absent, or no volume with the name that backends of this type
  use comes from a Secret that holds the backend's key.  A Deployment or Secret that cannot be read does not count.
\<close>

definition entry_unmounted :: "'w backend_env \<Rightarrow> Keystone \<Rightarrow> KeystoneIdentityBackend \<Rightarrow> 'w \<Rightarrow> bool" where
  "entry_unmounted X k b w \<longleftrightarrow>
     (case bx_deployment X (ko_namespace k, subResourceName k) w of
        Inl e \<Rightarrow> is_not_found e
      | Inr d \<Rightarrow>
          (\<forall>v\<in>set (po_volumes (dp_template d)). \<forall>name.
             vo_name v = (if kb_type b = ''OIDC'' then ''federation-metadata'' else if kb_type b = ''SAML'' then ''federation-mellon''
                          else ''domains'') \<and>
             (vo_source v = SecretDefaultSource name \<or> (\<exists>mode. vo_source v = SecretSource name mode) \<or>
              (\<exists>mode items. vo_source v = SecretItemsSource name mode items)) \<and> name \<noteq> [] \<longrightarrow>
             (case eso_secret (bx_eso X) (ko_namespace k, name) w of
                Inl e \<Rightarrow> is_not_found e
              | Inr sec \<Rightarrow>
                  map_of (s_data sec)
                    (if kb_type b = ''OIDC'' then kb_name b @ ''.client'' else if kb_type b = ''SAML'' then kb_name b @ ''.idp-metadata.xml''
                     else ''keystone.'' @ backend_domain b @ ''.conf'') = None)))"

lemma mounted_secret_named:
  assumes "v \<in> set (po_volumes (dp_template d))" "distinct (map vo_name (po_volumes (dp_template d)))" "secret_of_source (vo_source v) = Some name"
  shows "mounted_secret d (vo_name v) = name"
proof -
  obtain u where u: "find (\<lambda>x. vo_name x = vo_name v \<and> secret_of_source (vo_source x) \<noteq> None) (po_volumes (dp_template d)) = Some u"
    using assms(1,3) by (fastforce simp: find_None_iff)
  then have "u \<in> set (po_volumes (dp_template d))" "vo_name u = vo_name v" by (auto simp: find_Some_iff)
  with assms(1,2) have "u = v" by (auto simp: distinct_map dest: inj_onD)
  with u assms(3) show ?thesis by (simp add: mounted_secret_def)
qed

lemma not_projected_unmounted:
  assumes "isConfigProjected X k b w = Inr False"
    and "\<And>key d. bx_deployment X key w = Inr d \<Longrightarrow> distinct (map vo_name (po_volumes (dp_template d)))"
  shows "entry_unmounted X k b w"
proof (cases "bx_deployment X (ko_namespace k, subResourceName k) w")
  case (Inl e)
  with assms(1) show ?thesis by (auto simp: isConfigProjected_def entry_unmounted_def Let_def split: prod.splits if_splits)
next
  case (Inr d)
  note names = projected_at_def federationMetadataVolumeName_def federationMellonVolumeName_def domainsVolumeName_def
    federationClientKeyName_def samlIdPMetadataKeyName_def domainConfFileName_def IdentityBackendTypeOIDC_def IdentityBackendTypeSAML_def
  have gone: "case eso_secret (bx_eso X) (ko_namespace k, name) w of Inl e \<Rightarrow> is_not_found e | Inr sec \<Rightarrow> map_of (s_data sec) (snd (projected_at b)) = None"
    if "v \<in> set (po_volumes (dp_template d))" "vo_name v = fst (projected_at b)" "secret_of_source (vo_source v) = Some name" "name \<noteq> []"
    for v name
    using mounted_secret_named [OF that(1) assms(2) [OF Inr] that(3)] assms(1) that(2,4) Inr
    by (auto simp: isConfigProjected_def Let_def split: prod.splits if_splits sum.splits)
  have at: "(if kb_type b = ''OIDC'' then ''federation-metadata'' else if kb_type b = ''SAML'' then ''federation-mellon'' else ''domains'') =
      fst (projected_at b)"
    "(if kb_type b = ''OIDC'' then kb_name b @ ''.client'' else if kb_type b = ''SAML'' then kb_name b @ ''.idp-metadata.xml''
      else ''keystone.'' @ backend_domain b @ ''.conf'') = snd (projected_at b)" by (simp_all add: names)
  have source: "secret_of_source (vo_source v) = Some name"
    if "vo_source v = SecretDefaultSource name \<or> (\<exists>mode. vo_source v = SecretSource name mode) \<or>
      (\<exists>mode items. vo_source v = SecretItemsSource name mode items)" for v name
    using that by (auto simp: secret_of_source_def)
  show ?thesis unfolding entry_unmounted_def at Inr sum.case using gone source by blast
qed

text \<open>
  C14. A backend that is deleted is not let go before the Keystone has stopped using it: the finalizer is removed, or its
  removal tried, only if the Keystone is gone, or if the Deployment mounts no Secret that holds the backend's entry and what
  the controller made in Keystone is dealt with: protocol, mapping and identity provider of a federated backend are deleted
  or absent, and a managed domain with the deletion policy Delete is disabled and deleted or absent, unless the admin
  credentials they are reached with are missing.  A Deployment or Secret that cannot be read holds the backend.  The volumes of
  a Deployment have distinct names, as the API server demands.\<close>

theorem released_only_when_torn_down:
  assumes "kb_has_finalizer b identityBackendFinalizerName" "reconcileBackendDelete X (b, w) = (r, b', w')"
    and "\<not> kb_has_finalizer b' identityBackendFinalizerName"
    and "\<And>key d. bx_deployment X key w = Inr d \<Longrightarrow> distinct (map vo_name (po_volumes (dp_template d)))"
  shows "(\<exists>e. bx_keystone X (backend_keystone_key b) w = Inl e \<and> is_not_found e) \<or>
         (\<exists>k. bx_keystone X (backend_keystone_key b) w = Inr k \<and> entry_unmounted X k b w \<and>
            (IsFederationType b \<longrightarrow> credentials_missing X k w \<or> federation_gone X k b w) \<and>
            (domain_to_delete b \<longrightarrow> credentials_missing X k (after_federation X k b w) \<or> domain_gone X k b (after_federation X k b w)))"
proof (cases "bx_keystone X (backend_keystone_key b) w")
  case (Inl e)
  with assms show ?thesis by (auto simp: reconcileBackendDelete_def backend_keystone_key_def Let_def split: if_splits)
next
  case (Inr k)
  with assms(1-3) have p: "isConfigProjected X k b w = Inr False" "teardown_and_release X k (b, w) = (r, b', w')"
    by (auto simp: reconcileBackendDelete_def backend_keystone_key_def Let_def split: sum.splits bool.splits)
  then have "\<not> waits (teardown_and_release X k (b, w)) b" using assms(1,3) by (auto simp: waits_def)
  with release_outcome [of X k b w] Inr not_projected_unmounted [OF p(1) assms(4)] show ?thesis by auto
qed

section \<open>Absent objects and failures\<close>

text \<open>
  No error of the transport itself is the sentinel of an absent object, a variable of the client's package: none of sending a
  request, of reading or decoding a body, or of gophercloud.
\<close>

definition honest_transport :: "'w transport \<Rightarrow> bool" where
  "honest_transport T \<longleftrightarrow>
     (\<forall>j e. tr_marshal T j = Inl e \<longrightarrow> \<not> api_absent e) \<and> (\<forall>m u e. tr_new T m u = Some e \<longrightarrow> \<not> api_absent e) \<and>
     (\<forall>q w e. fst (tr_do T q w) = Inl e \<longrightarrow> \<not> api_absent e) \<and>
     (\<forall>q w r n e. fst (tr_do T q w) = Inr r \<longrightarrow> snd (hs_read r n) = Some e \<longrightarrow> \<not> api_absent e) \<and>
     (\<forall>s e. tr_domains T s = Inl e \<or> tr_domain T s = Inl e \<or> tr_idp T s = Inl e \<or> tr_protocol T s = Inl e \<or> tr_groups T s = Inl e \<or>
        tr_group T s = Inl e \<or> tr_roles T s = Inl e \<or> tr_projects T s = Inl e \<longrightarrow> \<not> api_absent e) \<and>
     (\<forall>u t i w e. fst (tr_gc_get T u t i w) = Inl e \<or> fst (tr_gc_delete T u t i w) = Some e \<longrightarrow> \<not> api_absent e) \<and>
     (\<forall>u t m i rules w e. fst (tr_gc_put T u t m i rules w) = Some e \<longrightarrow> \<not> api_absent e)"

lemma honest_sending:
  assumes "honest_transport T"
  shows "tr_marshal T j = Inl e \<Longrightarrow> \<not> api_absent e" "tr_new T m u = Some e \<Longrightarrow> \<not> api_absent e"
    "tr_do T q w = (Inl e, w') \<Longrightarrow> \<not> api_absent e" "tr_do T q w = (Inr r, w') \<Longrightarrow> snd (hs_read r n) = Some e \<Longrightarrow> \<not> api_absent e"
  using assms unfolding honest_transport_def by (simp, simp, metis fst_conv, metis fst_conv)

lemma honest_decoding:
  assumes "honest_transport T"
  shows "\<forall>s e. tr_domains T s = Inl e \<longrightarrow> \<not> api_absent e" "\<forall>s e. tr_idp T s = Inl e \<longrightarrow> \<not> api_absent e"
    "\<forall>s e. tr_protocol T s = Inl e \<longrightarrow> \<not> api_absent e" "\<forall>s e. tr_groups T s = Inl e \<longrightarrow> \<not> api_absent e"
    "\<forall>s e. tr_roles T s = Inl e \<longrightarrow> \<not> api_absent e" "\<forall>s e. tr_projects T s = Inl e \<longrightarrow> \<not> api_absent e"
  using assms unfolding honest_transport_def by simp_all

lemma honest_gophercloud:
  assumes "honest_transport T"
  shows "fst (tr_gc_get T u t i w) = Inl e \<Longrightarrow> \<not> api_absent e" "\<forall>t w e. fst (tr_gc_delete T u t i w) = Some e \<longrightarrow> \<not> api_absent e"
    "\<forall>t w e. fst (tr_gc_put T u t m i rules w) = Some e \<longrightarrow> \<not> api_absent e"
  using assms unfolding honest_transport_def by simp_all

lemma http_error_present: "list_all (\<lambda>a. \<not> is_sentinel_arg ''not found'' a) args \<Longrightarrow> \<not> api_absent (http_error text args body)"
  by (auto simp: http_error_def bodySnippet_def list_all_iff list_ex_iff)

lemma answer_absent:
  assumes "answer_of method path r = Inl e" "api_absent e" "\<And>x. snd (hs_read r None) = Some x \<Longrightarrow> \<not> api_absent x"
  shows "hs_status r = 404"
proof (rule ccontr)
  assume n: "hs_status r \<noteq> 404"
  have "\<not> api_absent x" if "status_error method path r body = Some x" for x body
    using that n by (auto simp: status_error_def ErrConflict_def ErrUnauthorized_def ErrForbidden_def http_error_present Let_def split: if_splits)
  with assms show False by (auto simp: answer_of_def split: prod.splits option.splits)
qed

lemma authenticate_present:
  assumes "honest_transport (hc_transport H)" "authenticate H w = (Inl e, w')"
  shows "\<not> api_absent e"
proof -
  note d = honest_sending(3) [OF assms(1)] and n = honest_sending(2) [OF assms(1)] and j = honest_sending(1) [OF assms(1)]
  show ?thesis
    using assms(2) d n j
    by (auto simp: authenticate_def ErrUnauthorized_def http_error_present Let_def split: sum.splits option.splits prod.splits if_splits)
qed

text \<open>The server answered a request of this method and path with 404.\<close>

definition answered_404 :: "'w httpClient \<Rightarrow> string \<Rightarrow> string \<Rightarrow> 'w \<Rightarrow> 'w \<Rightarrow> bool" where
  "answered_404 H method path w w' \<longleftrightarrow>
     (\<exists>token w1 q r. authenticate H w = (Inr token, w1) \<and> hq_method q = method \<and> hq_url q = hc_endpoint H @ path \<and>
        map_of (hq_headers q) ''X-Auth-Token'' = Some token \<and> tr_do (hc_transport H) q w1 = (Inr r, w') \<and> hs_status r = 404)"

lemma send_absent:
  assumes "honest_transport (hc_transport H)" "send H token method path payload w = (Inl e, w')" "api_absent e"
  shows "\<exists>q r. hq_method q = method \<and> hq_url q = hc_endpoint H @ path \<and> map_of (hq_headers q) ''X-Auth-Token'' = Some token \<and>
           tr_do (hc_transport H) q w = (Inr r, w') \<and> hs_status r = 404"
proof -
  let ?q = "\<lparr>hq_method = method, hq_url = hc_endpoint H @ path,
     hq_headers = (''X-Auth-Token'', token) # (if payload = None then [] else [(''Content-Type'', ''application/json'')]), hq_body = payload\<rparr>"
  have n: "tr_new (hc_transport H) method (hc_endpoint H @ path) = None"
    using assms(2,3) by (auto simp: send_def Let_def split: option.splits dest: honest_sending(2) [OF assms(1)])
  have "\<exists>r. tr_do (hc_transport H) ?q w = (Inr r, w') \<and> answer_of method path r = Inl e"
  proof (cases "tr_do (hc_transport H) ?q w")
    case (Pair a v)
    show ?thesis
    proof (cases a)
      case (Inl x)
      with Pair have "\<not> api_absent x" using honest_sending(3) [OF assms(1)] by blast
      with Pair Inl n assms(2,3) show ?thesis by (auto simp: send_def Let_def)
    next
      case (Inr r)
      with Pair n assms(2) show ?thesis by (simp add: send_def Let_def)
    qed
  qed
  then obtain r where r: "tr_do (hc_transport H) ?q w = (Inr r, w')" "answer_of method path r = Inl e" by blast
  have "\<not> api_absent x" if "snd (hs_read r None) = Some x" for x
    by (rule honest_sending(4) [OF assms(1) r(1) that])
  with answer_absent [OF r(2) assms(3)] have "hs_status r = 404" by blast
  with r(1) show ?thesis by (intro exI [of _ ?q] exI [of _ r]) simp
qed

lemma request_absent:
  assumes "honest_transport (hc_transport H)" "do_request H method path body w = (Inl e, w')" "api_absent e"
  shows "answered_404 H method path w w'"
proof -
  obtain token w1 where a: "authenticate H w = (Inr token, w1)"
    using assms authenticate_present [OF assms(1)] by (auto simp: do_request_def split: sum.splits prod.splits)
  have "\<exists>payload. send H token method path payload w1 = (Inl e, w')"
    using assms(2,3) a by (auto simp: do_request_def split: option.splits sum.splits dest: honest_sending(1) [OF assms(1)])
  with send_absent [OF assms(1) _ assms(3)] a show ?thesis unfolding answered_404_def by blast
qed

text \<open>A list request was answered with success, and the body decodes to the empty list.\<close>

definition listed_none :: "'w httpClient \<Rightarrow> (string \<Rightarrow> 'a list result) \<Rightarrow> string \<Rightarrow> 'w \<Rightarrow> 'w \<Rightarrow> bool" where
  "listed_none H decode path w w' \<longleftrightarrow>
     (\<exists>token w1 q r payload. authenticate H w = (Inr token, w1) \<and> hq_method q = ''GET'' \<and> hq_url q = hc_endpoint H @ path \<and>
        map_of (hq_headers q) ''X-Auth-Token'' = Some token \<and> tr_do (hc_transport H) q w1 = (Inr r, w') \<and>
        200 \<le> hs_status r \<and> hs_status r < 300 \<and> hs_read r None = (payload, None) \<and> decode payload = Inr [])"

text \<open>A call of gophercloud, with the token of an authentication, failed with an error whose response code is 404.\<close>

definition gc_answered_404 :: "'w httpClient \<Rightarrow> (string \<Rightarrow> 'w \<Rightarrow> err \<Rightarrow> 'w \<Rightarrow> bool) \<Rightarrow> 'w \<Rightarrow> 'w \<Rightarrow> bool" where
  "gc_answered_404 H fails w w' \<longleftrightarrow>
     (\<exists>token w1 x. authenticate H w = (Inr token, w1) \<and> fails token w1 x w' \<and> tr_gc_code (hc_transport H) x = Some 404)"

lemma request_ok:
  assumes "do_request H ''GET'' path None w = (Inr payload, w')" "decode payload = Inr []"
  shows "listed_none H decode path w w'"
proof -
  obtain token w1 where a: "authenticate H w = (Inr token, w1)" using assms(1) by (auto simp: do_request_def split: sum.splits prod.splits)
  let ?q = "\<lparr>hq_method = ''GET'', hq_url = hc_endpoint H @ path, hq_headers = [(''X-Auth-Token'', token)], hq_body = None\<rparr>"
  obtain r where r: "tr_do (hc_transport H) ?q w1 = (Inr r, w')" "answer_of ''GET'' path r = Inr payload"
    using assms(1) a by (auto simp: do_request_def send_def Let_def split: sum.splits prod.splits option.splits)
  then have "200 \<le> hs_status r \<and> hs_status r < 300 \<and> hs_read r None = (payload, None)"
    by (auto simp: answer_of_def status_error_def Let_def split: prod.splits option.splits if_splits)
  with a r(1) assms(2) show ?thesis unfolding listed_none_def by (intro exI [of _ token] exI [of _ w1] exI [of _ ?q] exI [of _ r] exI [of _ payload]) simp
qed

lemma dropped_absent:
  "honest_transport (hc_transport H) \<Longrightarrow> dropped (do_request H method path body w) = (Some e, w') \<Longrightarrow> api_absent e \<Longrightarrow>
     answered_404 H method path w w'"
  by (auto simp: dropped_def request_absent split: prod.splits sum.splits)

lemma decoded_absent:
  assumes "honest_transport (hc_transport H)" "decoded text decode (do_request H method path body w) = (Inl e, w')" "api_absent e"
    and "\<forall>s x. decode s = Inl x \<longrightarrow> \<not> api_absent x"
  shows "answered_404 H method path w w'"
  using assms by (auto simp: decoded_def request_absent split: prod.splits sum.splits)

lemma lookup_absent:
  assumes "honest_transport (hc_transport H)" "first_or none (decoded text decode (do_request H ''GET'' path None w)) = (Inl e, w')" "api_absent e"
    and "\<forall>s x. decode s = Inl x \<longrightarrow> \<not> api_absent x"
  shows "answered_404 H ''GET'' path w w' \<or> listed_none H decode path w w'"
proof (cases "decoded text decode (do_request H ''GET'' path None w)")
  case (Pair a v)
  show ?thesis
  proof (cases a)
    case (Inl x)
    with Pair assms(2,3) have "decoded text decode (do_request H ''GET'' path None w) = (Inl e, w')" by (simp add: first_or_def)
    then show ?thesis using decoded_absent [OF assms(1), where decode = decode] assms(3,4) by blast
  next
    case (Inr xs)
    with Pair assms(2) have "decoded text decode (do_request H ''GET'' path None w) = (Inr [], w')" by (simp add: first_or_def split: list.splits)
    then obtain payload where "do_request H ''GET'' path None w = (Inr payload, w')" "decode payload = Inr []"
      by (auto simp: decoded_def split: prod.splits sum.splits)
    then show ?thesis using request_ok [of H path w payload w' decode] by blast
  qed
qed

lemma map_gophercloud_absent: "\<not> api_absent e \<Longrightarrow> api_absent (mapGophercloudError code e op) \<Longrightarrow> code e = Some 404"
  by (auto simp: mapGophercloudError_def ErrConflict_def ErrUnauthorized_def ErrForbidden_def Let_def split: if_splits)

lemma gc_call_absent:
  assumes "honest_transport (hc_transport H)" "gc_call H op f w = (Some e, w')" "api_absent e"
    and "\<forall>t v x. fst (f t v) = Some x \<longrightarrow> \<not> api_absent x"
  shows "gc_answered_404 H (\<lambda>token w1 x w'. f token w1 = (Some x, w')) w w'"
proof -
  obtain token w1 where a: "authenticate H w = (Inr token, w1)"
    using assms(2,3) authenticate_present [OF assms(1)] by (auto simp: gc_call_def split: sum.splits prod.splits)
  with assms(2) obtain x where x: "f token w1 = (Some x, w')" "e = mapGophercloudError (tr_gc_code (hc_transport H)) x op"
    by (auto simp: gc_call_def split: sum.splits prod.splits option.splits)
  with map_gophercloud_absent assms(3,4) a show ?thesis unfolding gc_answered_404_def by (metis fst_conv)
qed

lemma get_mapping_absent:
  assumes "honest_transport (hc_transport H)" "GetMapping H i w = (Inl e, w')" "api_absent e"
  shows "gc_answered_404 H (\<lambda>token w1 x w'. tr_gc_get (hc_transport H) (hc_endpoint H @ ''/'') token i w1 = (Inl x, w')) w w'"
proof -
  obtain token w1 where a: "authenticate H w = (Inr token, w1)"
    using assms(2,3) authenticate_present [OF assms(1)] by (auto simp: GetMapping_def split: sum.splits prod.splits)
  with assms(2) obtain x where x: "tr_gc_get (hc_transport H) (hc_endpoint H @ ''/'') token i w1 = (Inl x, w')"
    "e = mapGophercloudError (tr_gc_code (hc_transport H)) x (''GET mapping '' @ i)"
    by (auto simp: GetMapping_def split: sum.splits prod.splits)
  have "\<not> api_absent x" using honest_gophercloud(1) [OF assms(1)] x(1) by (metis fst_conv)
  with map_gophercloud_absent assms(3) a x show ?thesis unfolding gc_answered_404_def by blast
qed

text \<open>Reading, updating and deleting one object: the request whose 404 an absence rests on.\<close>

definition absence_of_objects :: "'w httpClient \<Rightarrow> bool" where
  "absence_of_objects H \<longleftrightarrow>
     (let I = http_identity_client H; idps = ''/OS-FEDERATION/identity_providers/'' in
      \<forall>i j a d ids mapping w e w'. api_absent e \<longrightarrow>
        (ic_get_idp I i w = (Inl e, w') \<longrightarrow> answered_404 H ''GET'' (idps @ path_escape i) w w') \<and>
        (ic_update_idp I i a d ids w = (Some e, w') \<longrightarrow> answered_404 H ''PATCH'' (idps @ path_escape i) w w') \<and>
        (ic_delete_idp I i w = (Some e, w') \<longrightarrow> answered_404 H ''DELETE'' (idps @ path_escape i) w w') \<and>
        (ic_get_protocol I i j w = (Inl e, w') \<longrightarrow> answered_404 H ''GET'' (idps @ path_escape i @ ''/protocols/'' @ path_escape j) w w') \<and>
        (ic_update_protocol I i j mapping w = (Some e, w') \<longrightarrow>
           answered_404 H ''PATCH'' (idps @ path_escape i @ ''/protocols/'' @ path_escape j) w w') \<and>
        (ic_delete_protocol I i j w = (Some e, w') \<longrightarrow> answered_404 H ''DELETE'' (idps @ path_escape i @ ''/protocols/'' @ path_escape j) w w') \<and>
        (ic_update_domain I i a d w = (Some e, w') \<longrightarrow> answered_404 H ''PATCH'' (''/domains/'' @ path_escape i) w w') \<and>
        (ic_delete_domain I i w = (Some e, w') \<longrightarrow> answered_404 H ''DELETE'' (''/domains/'' @ path_escape i) w w'))"

text \<open>Finding a domain, group, role or project by its name.\<close>

definition absence_by_name :: "'w httpClient \<Rightarrow> bool" where
  "absence_by_name H \<longleftrightarrow>
     (let I = http_identity_client H; T = hc_transport H in
      \<forall>name domain w e w'. api_absent e \<longrightarrow>
        (ic_get_domain I name w = (Inl e, w') \<longrightarrow>
           answered_404 H ''GET'' (''/domains?name='' @ escape EncodeQueryComponent name) w w' \<or>
           listed_none H (tr_domains T) (''/domains?name='' @ escape EncodeQueryComponent name) w w') \<and>
        (ic_get_group I name domain w = (Inl e, w') \<longrightarrow>
           answered_404 H ''GET'' (''/groups?'' @ encode_values [(''name'', [name]), (''domain_id'', [domain])]) w w' \<or>
           listed_none H (tr_groups T) (''/groups?'' @ encode_values [(''name'', [name]), (''domain_id'', [domain])]) w w') \<and>
        (ic_get_role I name w = (Inl e, w') \<longrightarrow>
           answered_404 H ''GET'' (''/roles?'' @ encode_values [(''name'', [name])]) w w' \<or>
           listed_none H (tr_roles T) (''/roles?'' @ encode_values [(''name'', [name])]) w w') \<and>
        (ic_get_project I name domain w = (Inl e, w') \<longrightarrow>
           answered_404 H ''GET'' (''/projects?'' @ encode_values [(''name'', [name]), (''domain_id'', [domain])]) w w' \<or>
           listed_none H (tr_projects T) (''/projects?'' @ encode_values [(''name'', [name]), (''domain_id'', [domain])]) w w'))"

text \<open>The mappings, through gophercloud, and the role assignments.\<close>

definition absence_of_mappings :: "'w httpClient \<Rightarrow> bool" where
  "absence_of_mappings H \<longleftrightarrow>
     (let I = http_identity_client H; T = hc_transport H; base = hc_endpoint H @ ''/'' in
      \<forall>i rules w e w'. api_absent e \<longrightarrow>
        (ic_get_mapping I i w = (Inl e, w') \<longrightarrow> gc_answered_404 H (\<lambda>token w1 x w'. tr_gc_get T base token i w1 = (Inl x, w')) w w') \<and>
        (ic_update_mapping I i rules w = (Some e, w') \<longrightarrow>
           gc_answered_404 H (\<lambda>token w1 x w'. tr_gc_put T base token ''PATCH'' i rules w1 = (Some x, w')) w w') \<and>
        (ic_delete_mapping I i w = (Some e, w') \<longrightarrow>
           gc_answered_404 H (\<lambda>token w1 x w'. tr_gc_delete T base token i w1 = (Some x, w')) w w'))"

definition absence_of_assignments :: "'w httpClient \<Rightarrow> bool" where
  "absence_of_assignments H \<longleftrightarrow>
     (let I = http_identity_client H in
      \<forall>i g r w w'.
        (ic_has_on_domain I i g r w = (Inr False, w') \<longrightarrow>
           answered_404 H ''HEAD'' (''/domains/'' @ path_escape i @ ''/groups/'' @ path_escape g @ ''/roles/'' @ path_escape r) w w') \<and>
        (ic_has_on_project I i g r w = (Inr False, w') \<longrightarrow>
           answered_404 H ''HEAD'' (''/projects/'' @ path_escape i @ ''/groups/'' @ path_escape g @ ''/roles/'' @ path_escape r) w w'))"

lemma assignment_absent:
  "honest_transport (hc_transport H) \<Longrightarrow> hasAssignment H path w = (Inr False, w') \<Longrightarrow> answered_404 H ''HEAD'' path w w'"
  by (auto simp: hasAssignment_def request_absent split: prod.splits sum.splits if_splits)

text \<open>
  C26. The client of the Keystone API takes an object for absent only on the server's word.  Each operation that reads, updates or
  deletes an identity provider, a protocol or a domain fails with the error that the controller creates objects on, or skips
  deletions on, only if the server answered that very request, made with the token of a successful authentication, with 404; a role
  is found not assigned only then; a domain, group, role or project is not found by its name only then or when the list that a
  successful answer holds is empty; and a mapping only when the error of gophercloud carries the code 404.  An error of the network,
  the authentication, a codec, or any other status is none of that.\<close>

theorem absent_means_404:
  assumes "honest_transport (hc_transport H)"
  shows "absence_of_objects H \<and> absence_by_name H \<and> absence_of_mappings H \<and> absence_of_assignments H"
proof (intro conjI)
  show "absence_of_objects H"
    using dropped_absent [OF assms] decoded_absent [OF assms _ _ honest_decoding(2) [OF assms]] decoded_absent [OF assms _ _ honest_decoding(3) [OF assms]]
    by (auto simp: absence_of_objects_def http_identity_client_def Let_def UpdateDomain_def DeleteDomain_def domain_path_def GetIdentityProvider_def
        UpdateIdentityProvider_def DeleteIdentityProvider_def idp_api_path_def GetProtocol_def UpdateProtocol_def DeleteProtocol_def protocolPath_def)
  note lookups = lookup_absent [OF assms _ _ honest_decoding(1) [OF assms]] lookup_absent [OF assms _ _ honest_decoding(4) [OF assms]]
    lookup_absent [OF assms _ _ honest_decoding(5) [OF assms]] lookup_absent [OF assms _ _ honest_decoding(6) [OF assms]]
  show "absence_by_name H"
    unfolding absence_by_name_def http_identity_client_def Let_def GetDomainByName_def GetGroupByName_def GetRoleByName_def
      GetProjectByName_def name_query_def identity_client.simps option.case append_Nil
    by (intro allI impI conjI; erule lookups, assumption)
  show "absence_of_mappings H"
    using get_mapping_absent [OF assms] gc_call_absent [OF assms _ _ honest_gophercloud(2) [OF assms]]
      gc_call_absent [OF assms _ _ honest_gophercloud(3) [OF assms]]
    by (auto simp: absence_of_mappings_def http_identity_client_def Let_def UpdateMapping_def DeleteMapping_def)
  show "absence_of_assignments H"
    using assignment_absent [OF assms]
    by (auto simp: absence_of_assignments_def http_identity_client_def Let_def HasRoleForGroupOnDomain_def HasRoleForGroupOnProject_def
        domainRoleAssignmentPath_def projectRoleAssignmentPath_def)
qed

definition ex_transport :: "int \<Rightarrow> unit transport" where
  "ex_transport st =
     \<lparr>tr_new = (\<lambda>m u. None),
      tr_do = (\<lambda>q w. (Inr \<lparr>hs_status = (if hq_method q = ''POST'' then 201 else st), hs_token = ''token'', hs_read = (\<lambda>n. ([], None))\<rparr>, w)),
      tr_marshal = (\<lambda>j. Inr []), tr_domains = (\<lambda>s. Inr []), tr_domain = (\<lambda>s. Inl (ExtErr [])), tr_idp = (\<lambda>s. Inl (ExtErr [])),
      tr_protocol = (\<lambda>s. Inl (ExtErr [])), tr_groups = (\<lambda>s. Inr []), tr_group = (\<lambda>s. Inl (ExtErr [])), tr_roles = (\<lambda>s. Inr []),
      tr_projects = (\<lambda>s. Inr []), tr_gc_get = (\<lambda>u t i w. (Inr [], w)), tr_gc_put = (\<lambda>u t m i r w. (None, w)),
      tr_gc_delete = (\<lambda>u t i w. (None, w)), tr_gc_code = (\<lambda>e. None)\<rparr>"

definition ex_http :: "int \<Rightarrow> unit httpClient" where
  "ex_http st = NewHTTPClient ''http://keystone'' \<lparr>cr_user = ''admin'', cr_password = ''p'', cr_project = [], cr_user_domain = []\<rparr> (ex_transport st)"

text \<open>A role that is not assigned, and a domain that no list holds.\<close>

lemma absent_means_404_witness:
  "answered_404 (ex_http 404) ''HEAD'' ''/domains/d/groups/g/roles/r'' () () \<and>
   listed_none (ex_http 200) (tr_domains (hc_transport (ex_http 200))) ''/domains?name=corp'' () ()"
proof
  have h: "honest_transport (hc_transport (ex_http st))" for st by (simp add: honest_transport_def ex_http_def NewHTTPClient_def ex_transport_def)
  have "ic_has_on_domain (http_identity_client (ex_http 404)) ''d'' ''g'' ''r'' () = (Inr False, ())" by code_simp
  moreover have "''/domains/'' @ path_escape ''d'' @ ''/groups/'' @ path_escape ''g'' @ ''/roles/'' @ path_escape ''r'' = ''/domains/d/groups/g/roles/r''"
    by code_simp
  ultimately show "answered_404 (ex_http 404) ''HEAD'' ''/domains/d/groups/g/roles/r'' () ()"
    using absent_means_404 [OF h [of 404]] unfolding absence_of_assignments_def Let_def by metis
  have e: "fst (ic_get_domain (http_identity_client (ex_http 200)) ''corp'' ()) = Inl (Errorf ''%w: domain %q'' [Wrap ErrNotFound, Str ''corp''])"
    by code_simp
  then have g: "ic_get_domain (http_identity_client (ex_http 200)) ''corp'' () = (Inl (Errorf ''%w: domain %q'' [Wrap ErrNotFound, Str ''corp'']), ())"
    by (metis prod.collapse old.unit.exhaust)
  have a: "api_absent (Errorf ''%w: domain %q'' [Wrap ErrNotFound, Str ''corp''])" by (simp add: ErrNotFound_def)
  have p: "''/domains?name='' @ escape EncodeQueryComponent ''corp'' = ''/domains?name=corp''" by code_simp
  have "\<not> answered_404 (ex_http 200) ''GET'' path () ()" for path
    by (auto simp: answered_404_def ex_http_def NewHTTPClient_def ex_transport_def)
  moreover have "answered_404 (ex_http 200) ''GET'' ''/domains?name=corp'' () () \<or>
      listed_none (ex_http 200) (tr_domains (hc_transport (ex_http 200))) ''/domains?name=corp'' () ()"
    using conjunct1 [OF conjunct2 [OF absent_means_404 [OF h [of 200]]]] g a unfolding absence_by_name_def Let_def p [symmetric] by blast
  ultimately show "listed_none (ex_http 200) (tr_domains (hc_transport (ex_http 200))) ''/domains?name=corp'' () ()" by blast
qed

section \<open>Domains that are not the controller's\<close>

text \<open>The client with other functions to create, update and delete domains, and the environment that hands it out.\<close>

definition with_domain_writes ::
  "(identity_domain \<Rightarrow> 'w \<Rightarrow> identity_domain result \<times> 'w) \<Rightarrow> (string \<Rightarrow> bool option \<Rightarrow> string option \<Rightarrow> 'w \<Rightarrow> err option \<times> 'w) \<Rightarrow>
   (string \<Rightarrow> 'w \<Rightarrow> err option \<times> 'w) \<Rightarrow> 'w identity_client \<Rightarrow> 'w identity_client" where
  "with_domain_writes create update delete I = I\<lparr>ic_create_domain := create, ic_update_domain := update, ic_delete_domain := delete\<rparr>"

definition rewired ::
  "(identity_domain \<Rightarrow> 'w \<Rightarrow> identity_domain result \<times> 'w) \<Rightarrow> (string \<Rightarrow> bool option \<Rightarrow> string option \<Rightarrow> 'w \<Rightarrow> err option \<times> 'w) \<Rightarrow>
   (string \<Rightarrow> 'w \<Rightarrow> err option \<times> 'w) \<Rightarrow> 'w backend_env \<Rightarrow> 'w backend_env" where
  "rewired create update delete X =
     X\<lparr>bx_factory := Some (\<lambda>endpoint creds. with_domain_writes create update delete (identityClient X endpoint creds))\<rparr>"

lemma rewired_fields [simp]:
  "bx_meta (rewired c u d X) = bx_meta X" "bx_client (rewired c u d X) = bx_client X" "bx_keystone (rewired c u d X) = bx_keystone X"
  "bx_deployment (rewired c u d X) = bx_deployment X" "bx_eso (rewired c u d X) = bx_eso X" "bx_same_rules (rewired c u d X) = bx_same_rules X"
  "bx_sem_eq (rewired c u d X) = bx_sem_eq X" "bx_status_update (rewired c u d X) = bx_status_update X" "bx_log (rewired c u d X) = bx_log X"
  "identityClient (rewired c u d X) endpoint creds = with_domain_writes c u d (identityClient X endpoint creds)"
  by (simp_all add: rewired_def identityClient_def)

lemma rewired_client [simp]:
  "ic_get_domain (with_domain_writes c u d I) = ic_get_domain I" "ic_get_idp (with_domain_writes c u d I) = ic_get_idp I"
  "ic_create_idp (with_domain_writes c u d I) = ic_create_idp I" "ic_update_idp (with_domain_writes c u d I) = ic_update_idp I"
  "ic_delete_idp (with_domain_writes c u d I) = ic_delete_idp I" "ic_get_protocol (with_domain_writes c u d I) = ic_get_protocol I"
  "ic_create_protocol (with_domain_writes c u d I) = ic_create_protocol I" "ic_update_protocol (with_domain_writes c u d I) = ic_update_protocol I"
  "ic_delete_protocol (with_domain_writes c u d I) = ic_delete_protocol I" "ic_get_mapping (with_domain_writes c u d I) = ic_get_mapping I"
  "ic_create_mapping (with_domain_writes c u d I) = ic_create_mapping I" "ic_update_mapping (with_domain_writes c u d I) = ic_update_mapping I"
  "ic_delete_mapping (with_domain_writes c u d I) = ic_delete_mapping I" "ic_get_group (with_domain_writes c u d I) = ic_get_group I"
  "ic_create_group (with_domain_writes c u d I) = ic_create_group I" "ic_get_role (with_domain_writes c u d I) = ic_get_role I"
  "ic_get_project (with_domain_writes c u d I) = ic_get_project I" "ic_has_on_domain (with_domain_writes c u d I) = ic_has_on_domain I"
  "ic_has_on_project (with_domain_writes c u d I) = ic_has_on_project I" "ic_assign_on_domain (with_domain_writes c u d I) = ic_assign_on_domain I"
  "ic_assign_on_project (with_domain_writes c u d I) = ic_assign_on_project I"
  by (simp_all add: with_domain_writes_def)

lemma rewired_reports [simp]:
  "tell (rewired c u d X) = tell X" "setDomainReady (rewired c u d X) = setDomainReady X" "setMappingsReady (rewired c u d X) = setMappingsReady X"
  "setFederationObjectsReady (rewired c u d X) = setFederationObjectsReady X" "adminCredentials (rewired c u d X) = adminCredentials X"
  "isConfigProjected (rewired c u d X) = isConfigProjected X" "observeConfigProjected (rewired c u d X) = observeConfigProjected X"
  "updateBackendStatus (rewired c u d X) = updateBackendStatus X" "removeFinalizer (rewired c u d X) = removeFinalizer X"
  "resolveKeystone (rewired c u d X) = resolveKeystone X" "protocol_provisioned (rewired c u d X) = protocol_provisioned X"
  "mappings_applied (rewired c u d X) = mappings_applied X" "adopt_domain (rewired c u d X) = adopt_domain X"
  by (simp_all add: fun_eq_iff tell_def setDomainReady_def setMappingsReady_def setFederationObjectsReady_def adminCredentials_def
      isConfigProjected_def observeConfigProjected_def updateBackendStatus_def removeFinalizer_def resolveKeystone_def protocol_provisioned_def
      mappings_applied_def adopt_domain_def Let_def
      cong del: if_weak_cong prod.case_cong_weak sum.case_cong_weak option.case_cong_weak bool.case_cong_weak)

lemma rewired_failures [simp]:
  "api_failed (rewired c u d X) setDomainReady = api_failed X setDomainReady"
  "api_failed (rewired c u d X) setMappingsReady = api_failed X setMappingsReady"
  "api_failed (rewired c u d X) setFederationObjectsReady = api_failed X setFederationObjectsReady"
  "wait_for_object (rewired c u d X) = wait_for_object X" "delete_object (rewired c u d X) = delete_object X"
  by (simp_all add: fun_eq_iff api_failed_def wait_for_object_def delete_object_def
      cong del: if_weak_cong prod.case_cong_weak sum.case_cong_weak option.case_cong_weak bool.case_cong_weak)

lemma rewired_assignments [simp]:
  "assign_on_domain (rewired c u d X) (with_domain_writes c u d I) = assign_on_domain X I"
  "assign_on_project (rewired c u d X) (with_domain_writes c u d I) = assign_on_project X I"
  by (simp_all add: fun_eq_iff assign_on_domain_def assign_on_project_def Let_def
      cong del: if_weak_cong prod.case_cong_weak sum.case_cong_weak option.case_cong_weak bool.case_cong_weak)

lemma rewired_in_project [simp]:
  "assign_in_project_domain (rewired c u d X) (with_domain_writes c u d I) = assign_in_project_domain X I"
  by (simp add: fun_eq_iff assign_in_project_domain_def Let_def
      cong del: if_weak_cong prod.case_cong_weak sum.case_cong_weak option.case_cong_weak bool.case_cong_weak)

lemma rewired_roles [simp]:
  "applyRoleAssignment (rewired c u d X) (with_domain_writes c u d I) = applyRoleAssignment X I"
  by (simp add: fun_eq_iff applyRoleAssignment_def Let_def
      cong del: if_weak_cong prod.case_cong_weak sum.case_cong_weak option.case_cong_weak bool.case_cong_weak)

lemma apply_roles_rewired [simp]: "apply_roles (rewired c u d X) (with_domain_writes c u d I) g ras = apply_roles X I g ras"
  by (induction ras; rule ext) (simp_all add: and_then_def)

lemma ensure_group_rewired [simp]: "ensure_group (rewired c u d X) (with_domain_writes c u d I) = ensure_group X I"
  by (simp add: fun_eq_iff ensure_group_def
      cong del: if_weak_cong prod.case_cong_weak sum.case_cong_weak option.case_cong_weak bool.case_cong_weak)

lemma ensure_groups_rewired [simp]: "ensure_groups (rewired c u d X) (with_domain_writes c u d I) gs = ensure_groups X I gs"
  by (induction gs; rule ext) (simp_all add: and_then_def
      cong del: if_weak_cong prod.case_cong_weak sum.case_cong_weak option.case_cong_weak bool.case_cong_weak)

lemma rewired_federation [simp]:
  "ensureIdentityProvider (rewired c u d X) (with_domain_writes c u d I) = ensureIdentityProvider X I"
  "ensure_mapping (rewired c u d X) (with_domain_writes c u d I) = ensure_mapping X I"
  "ensureProtocol (rewired c u d X) (with_domain_writes c u d I) = ensureProtocol X I"
  "ensureFederationGroups (rewired c u d X) (with_domain_writes c u d I) = ensureFederationGroups X I"
  by (simp_all add: fun_eq_iff ensureIdentityProvider_def ensure_mapping_def ensureProtocol_def ensureFederationGroups_def Let_def
      cong del: if_weak_cong prod.case_cong_weak sum.case_cong_weak option.case_cong_weak bool.case_cong_weak)

lemma rewired_rest [simp]:
  "ensure_federation_if_ready (rewired c u d X) (with_domain_writes c u d I) = ensure_federation_if_ready X I"
  "teardownFederationObjects (rewired c u d X) k = teardownFederationObjects X k"
  by (simp_all add: fun_eq_iff ensure_federation_if_ready_def ensureFederation_def ensureMappingAndGroups_def teardownFederationObjects_def
      teardown_objects_def Let_def
      cong del: if_weak_cong prod.case_cong_weak sum.case_cong_weak option.case_cong_weak bool.case_cong_weak)

text \<open>The backend adopts its domain, or it is not being deleted and finds its domain under an identity it did not create.\<close>

definition not_its_domain :: "'w backend_env \<Rightarrow> KeystoneIdentityBackend \<Rightarrow> 'w \<Rightarrow> bool" where
  "not_its_domain X b w \<longleftrightarrow>
     do_mode (ib_domain (kb_spec b)) = DomainModeAdopt \<or>
     (\<not> m_deleting (kb_meta b) \<and>
        (\<forall>endpoint creds. case fst (ic_get_domain (identityClient X endpoint creds) (backend_domain b) w) of
           Inl e \<Rightarrow> \<not> api_absent e | Inr x \<Rightarrow> kb_domain_id b = [] \<or> kb_domain_id b \<noteq> dm_id x))"

lemma ensureDomain_rewired:
  assumes "do_mode (ib_domain (kb_spec b)) = DomainModeAdopt \<or>
      (case fst (ic_get_domain I (backend_domain b) w) of Inl e \<Rightarrow> \<not> api_absent e | Inr x \<Rightarrow> kb_domain_id b = [] \<or> kb_domain_id b \<noteq> dm_id x)"
  shows "ensureDomain (rewired c u d X) (with_domain_writes c u d I) (b, w) = ensureDomain X I (b, w)"
  using assms by (auto simp: ensureDomain_def keep_domain_def Let_def split: prod.split sum.split)

lemma resolve_keeps: "resolveKeystone X (b, w) = (Inr k, b') \<Longrightarrow> b' = b"
  by (auto simp: resolveKeystone_def Let_def split: sum.splits if_splits)

lemma reconcileBackend_rewired:
  assumes "do_mode (ib_domain (kb_spec b)) = DomainModeAdopt \<or>
      (\<forall>endpoint creds. case fst (ic_get_domain (identityClient X endpoint creds) (backend_domain b) w) of
         Inl e \<Rightarrow> \<not> api_absent e | Inr x \<Rightarrow> kb_domain_id b = [] \<or> kb_domain_id b \<noteq> dm_id x)"
  shows "reconcileBackend (rewired c u d X) (b, w) = reconcileBackend X (b, w)"
proof -
  have e: "ensureDomain (rewired c u d X) (with_domain_writes c u d (identityClient X endpoint creds)) (b, w) =
      ensureDomain X (identityClient X endpoint creds) (b, w)" for endpoint creds
    by (rule ensureDomain_rewired) (use assms in blast)
  show ?thesis
    by (auto simp: reconcileBackend_def and_then_def e Let_def dest: resolve_keeps split: prod.split sum.split)
qed

lemma delete_rewired:
  assumes "do_mode (ib_domain (kb_spec b)) = DomainModeAdopt"
  shows "reconcileBackendDelete (rewired c u d X) (b, w) = reconcileBackendDelete X (b, w)"
proof -
  have n: "do_mode (ib_domain (kb_spec b)) \<noteq> DomainModeManage" using assms by (simp add: DomainModeAdopt_def DomainModeManage_def)
  have keep: "applyDomainDeletionPolicy X' k (b, v) = goes_on (b, v)" for X' :: "'a backend_env" and k v
    using n by (simp add: applyDomainDeletionPolicy_def Let_def)
  have fed: "fst (snd (teardownFederationObjects X k (b, w))) = b" for k
    using teardown_federation_outcome [of X k b w] by (auto simp: waits_def)
  have "teardown_and_release (rewired c u d X) k (b, w) = teardown_and_release X k (b, w)" for k
  proof (cases "IsFederationType b")
    case True
    obtain r v where t: "teardownFederationObjects X k (b, w) = (r, b, v)" using fed [of k] by (metis prod.exhaust fst_conv snd_conv)
    show ?thesis using True by (cases r) (simp add: teardown_and_release_def and_then_def t keep)
  qed (simp add: teardown_and_release_def keep)
  then show ?thesis by (simp add: reconcileBackendDelete_def Let_def
      cong del: if_weak_cong prod.case_cong_weak sum.case_cong_weak option.case_cong_weak bool.case_cong_weak)
qed

text \<open>
  C17. The controller never writes to a domain that is not its own: a pass over a backend that adopts its domain, deletion
  included, and a pass over a backend that finds a domain it did not create, or cannot find out, is the same whatever
  the functions that create, update and delete domains are, so it does not use their effects.\<close>

theorem foreign_domain_not_written:
  assumes "not_its_domain X b w"
  shows "reconcile_backend_found (rewired create update delete X) (b, w) = reconcile_backend_found X (b, w)"
proof (cases "m_deleting (kb_meta b)")
  case True
  with assms have "do_mode (ib_domain (kb_spec b)) = DomainModeAdopt" by (simp add: not_its_domain_def)
  with delete_rewired True show ?thesis by (simp add: reconcile_backend_found_def)
next
  case False
  with assms have "reconcileBackend (rewired create update delete X) (b, w) = reconcileBackend X (b, w)"
    by (intro reconcileBackend_rewired) (auto simp: not_its_domain_def)
  with False show ?thesis by (auto simp: reconcile_backend_found_def EnsureFinalizer_def Let_def split: prod.split sum.split)
qed

section \<open>Concrete instances\<close>

text \<open>A Keystone API whose domains are given by the answer to the lookup and where every other call succeeds.\<close>

definition ex_api :: "identity_domain result \<Rightarrow> unit identity_client" where
  "ex_api answer = (http_identity_client (ex_http 200))
     \<lparr>ic_get_domain := (\<lambda>n w. (answer, w)), ic_create_domain := (\<lambda>d w. (Inr d, w)), ic_update_domain := (\<lambda>i e d w. (None, w)),
      ic_delete_domain := (\<lambda>i w. (None, w))\<rparr>"

definition ex_controller :: "Keystone result \<Rightarrow> identity_domain result \<Rightarrow> unit backend_env" where
  "ex_controller k answer =
     \<lparr>bx_meta = ref_meta, bx_client = fixed_client (\<lambda>key w. Inl (ApiErr NotFound)) (\<lambda>w. []) (\<lambda>x w. w), bx_keystone = (\<lambda>key w. k),
      bx_deployment = (\<lambda>key w. Inl (ApiErr NotFound)), bx_eso = ex_eso, bx_factory = Some (\<lambda>e c. ex_api answer),
      bx_transport = ex_transport 200, bx_same_rules = (=), bx_sem_eq = (=), bx_status_update = (\<lambda>b w. (Inr b, w)), bx_log = (\<lambda>ev w. w)\<rparr>"

definition ex_ready_keystone :: Keystone where
  "ex_ready_keystone = ex_resource\<lparr>ko_status := (ko_status ex_resource)\<lparr>kt_conditions := [mk_condition ''KeystoneAPIReady'' CTrue 0 [] (Msg [] [])]\<rparr>\<rparr>"

definition ex_domain :: identity_domain where
  "ex_domain = \<lparr>dm_id = ''other'', dm_name = ''corp'', dm_description = [], dm_enabled = Some True\<rparr>"

text \<open>The domain of the backend exists already under another identity.\<close>

lemma domain_lost_only_for_cause_witness:
  "\<exists>reason b'. domain_is (ex_controller (Inr ex_ready_keystone) (Inr ex_domain)) reason b' \<and>
     loses_domain (ex_controller (Inr ex_ready_keystone) (Inr ex_domain)) ex_ldap_backend () reason"
proof -
  let ?X = "ex_controller (Inr ex_ready_keystone) (Inr ex_domain)"
  have m: "meta_contract (bx_meta ?X)" by (simp add: ex_controller_def ref_meta_contract)
  have r: "domain_ready ?X ex_ldap_backend" "\<not> domain_ready ?X (fst (snd (reconcileBackend ?X (ex_ldap_backend, ()))))" by code_simp+
  obtain res b' w' where e: "reconcileBackend ?X (ex_ldap_backend, ()) = (res, b', w')" by (metis prod.exhaust)
  with domain_lost_only_for_cause [OF m r(1) e] r(2) show ?thesis by auto
qed

definition ex_leaving :: KeystoneIdentityBackend where
  "ex_leaving = ex_oidc_backend\<lparr>kb_meta := (kb_meta ex_oidc_backend)\<lparr>m_deleting := True, m_finalizers := [identityBackendFinalizerName]\<rparr>,
     kb_spec := (kb_spec ex_oidc_backend)\<lparr>ib_domain := (ib_domain (kb_spec ex_oidc_backend))\<lparr>do_deletion := DomainDeletionPolicyDelete\<rparr>\<rparr>\<rparr>"

text \<open>The Deployment is there, with the domains mounted and no federation.\<close>

definition ex_undeployed :: "unit backend_env" where
  "ex_undeployed = (ex_controller (Inr ex_ready_keystone) (Inr ex_domain))
     \<lparr>bx_deployment := (\<lambda>key w. Inr (buildKeystoneDeployment ex_ready_keystone ''config'' [] ''domains'' None))\<rparr>"

lemma released_only_when_torn_down_witness:
  "entry_unmounted ex_undeployed ex_ready_keystone ex_leaving () \<and> federation_gone ex_undeployed ex_ready_keystone ex_leaving () \<and>
   domain_gone ex_undeployed ex_ready_keystone ex_leaving ()"
proof -
  let ?X = ex_undeployed
  obtain r b' w' where e: "reconcileBackendDelete ?X (ex_leaving, ()) = (r, b', w')" by (metis prod.exhaust)
  have f: "kb_has_finalizer ex_leaving identityBackendFinalizerName" "IsFederationType ex_leaving" "domain_to_delete ex_leaving"
    "\<not> credentials_missing ?X ex_ready_keystone ()"
    "\<not> kb_has_finalizer (fst (snd (reconcileBackendDelete ?X (ex_leaving, ())))) identityBackendFinalizerName" by code_simp+
  have k: "bx_keystone ?X key w = Inr ex_ready_keystone" for key w by (simp add: ex_undeployed_def ex_controller_def)
  have "distinct (map vo_name (po_volumes (dp_template (buildKeystoneDeployment ex_ready_keystone ''config'' [] ''domains'' None))))" by code_simp
  then have "distinct (map vo_name (po_volumes (dp_template d)))" if "bx_deployment ?X key ()  = Inr d" for key d
    using that by (auto simp: ex_undeployed_def)
  from released_only_when_torn_down [OF f(1) e _ this] f(2-5) e k show ?thesis by auto
qed

definition ex_adopting :: KeystoneIdentityBackend where
  "ex_adopting = ex_ldap_backend\<lparr>kb_spec := (kb_spec ex_ldap_backend)\<lparr>ib_domain := (ib_domain (kb_spec ex_ldap_backend))\<lparr>do_mode := DomainModeAdopt\<rparr>\<rparr>\<rparr>"

lemma foreign_domain_not_written_witness:
  "reconcile_backend_found (rewired (\<lambda>d w. (Inl (ExtErr []), w)) (\<lambda>i e d w. (Some (ExtErr []), w)) (\<lambda>i w. (Some (ExtErr []), w))
       (ex_controller (Inr ex_ready_keystone) (Inr ex_domain))) (ex_adopting, ()) =
   reconcile_backend_found (ex_controller (Inr ex_ready_keystone) (Inr ex_domain)) (ex_adopting, ())"
proof (rule foreign_domain_not_written)
  show "not_its_domain (ex_controller (Inr ex_ready_keystone) (Inr ex_domain)) ex_adopting ()" by (simp add: not_its_domain_def ex_adopting_def)
qed

end
