(* ===== verification/Spec2Isabelle.thy ===== *)
theory Spec2Isabelle
  imports UpgradeSafety ControllerProperties ConfigProperties DataProperties AccessProperties KeystoneLoopProperties KeystoneConfigProperties KeystonePodProperties
    ControlPlaneKorcProperties ControlPlaneLoopProperties ControlPlaneAdmissionProperties
    IdentityBackendProperties IdentityControllerProperties
begin

text \<open>
  A model of the OpenStack operators of c5c3-forge: the shared library under \<open>internal/common\<close> that all
  operators are built from; the Keystone operator: its resource and admission, its reconcile loop and
  deletion, its key and password rotation, and its upgrade, the one long-running state machine of the repository;
  the identity backends and the federation of Keystone: their webhook, their controller with its client of the Keystone
  API, and the configuration rendered from them; and the control plane operator, which projects the services of a control plane, keeps identities, credentials and
  the catalog in Keystone through K-ORC, and takes it all down again.

  \<^bold>\<open>The program.\<close>  Each operator is a set of reconcilers.  A reconciler runs, for one custom resource, a
  pipeline of sub-reconcilers (\<open>internal/common/reconcile\<close>), each of which reads and applies Kubernetes
  objects, sets one status condition and says whether the pass goes on, waits or fails; the conditions are
  aggregated into Ready and the status is written when it changed.  The sub-reconcilers are calls of
  shared flows: configuration rendered into immutable ConfigMaps and Secrets, database provisioning and
  schema Jobs, the derived connection Secret, Deployments with their Service, PodDisruptionBudget and
  autoscaler, staged rotation of keys.  Keystone adds the expand, migrate, roll out, contract upgrade.  Its
  loop runs twelve steps, two of them groups whose members run in parallel on copies of the resource.

  \<^bold>\<open>Effects.\<close>  The state of the API server is a type variable \<open>'w\<close> threaded through every operation.  What
  the code calls in client-go, controller-runtime, apimachinery and the standard library for I/O, hashing and
  encoding is a record of functions (\<open>kclient\<close>, \<open>ssa_api\<close>, \<open>meta_api\<close>, \<open>job_env\<close>, \<open>mdb_env\<close>, \<open>rbac_api\<close>,
  \<open>keystone_env\<close>) or an argument; a property that relies on documented behaviour of these names it as a
  hypothesis (\<open>meta_contract\<close>, \<open>deletes\<close>, \<open>secret_store\<close>, \<open>job_store\<close>, \<open>role_store\<close>), and reference instances
  (\<open>ref_meta\<close>, \<open>store_client\<close>, \<open>store_ssa\<close>) satisfy it in the witnesses.  Errors are values of \<open>err\<close>, with the
  wrapping of \<open>fmt.Errorf\<close>, \<open>errors.Join\<close> and the API reasons kept; messages keep their format string and
  arguments.  Go strings are byte strings, Go maps are association lists whose order is the iteration order,
  so that determinism is a theorem; 64-bit arithmetic wraps where the code depends on it.  Messages with the
  arrow U+2192 are written with \<open>->\<close>.

  \<^bold>\<open>Theories.\<close>
  \<^item> \<open>Prelude\<close>: errors, messages, Go maps, layered lookups, sorting of keys.
  \<^item> \<open>Kube\<close>: clients, object metadata, stores, deletion.
  \<^item> \<open>Release\<close>: \<open>release/release.go\<close>; \<open>Conditions\<close>: \<open>conditions/conditions.go\<close>; \<open>Reconcile\<close>: \<open>reconcile\<close> and
    \<open>instrumentation\<close>; \<open>Apply\<close>: \<open>apply/apply.go\<close> and \<open>ProjectChild\<close>.
  \<^item> \<open>Config\<close>, \<open>Plugins\<close>, \<open>Policy\<close>, \<open>PySettings\<close>: rendering of configuration; \<open>CommonTypes\<close>, \<open>Validation\<close>: the API
    types and the admission checks all operators share.
  \<^item> \<open>Rotation\<close>: \<open>rotation/rotation.go\<close>; \<open>Dsn\<close>, \<open>DatabaseFlow\<close>: \<open>database\<close>; \<open>Jobs\<close>: \<open>job\<close>; \<open>Workload\<close>: \<open>deployment\<close>
    and \<open>naming\<close>.
  \<^item> \<open>SecretGates\<close>: \<open>secrets\<close>; \<open>Probe\<close>: \<open>healthcheck\<close>, with the runs of its cache; \<open>Exposure\<close>: \<open>gateway\<close>,
    \<open>networkpolicy\<close>, \<open>tls\<close> and \<open>cache\<close>; \<open>Wiring\<close>: \<open>watch\<close> and \<open>keystoneauth\<close>.
  \<^item> \<open>Upgrade\<close>: \<open>reconcile_database.go\<close>, \<open>reconcile_upgrade.go\<close>, \<open>database_jobs.go\<close>, \<open>db_job_metrics.go\<close> and the phase
    change of \<open>reconcile_deployment.go\<close> of the Keystone operator; the record \<open>keystone\<close> extends the state of the
    shared sync flow with the fields of the resource.
  \<^item> \<open>UpgradeSafety\<close>: the abstract machine \<open>upgrade_step\<close>, the proof that the steps implement it, runs
    (\<open>keystone_step\<close>, \<open>upgrade_run\<close>), invariants, completion and abort.
  \<^item> \<open>KeystoneTypes\<close>, \<open>KeystoneAdmission\<close>: \<open>keystone_types.go\<close> and \<open>keystone_webhook.go\<close>; \<open>KeystoneSteps\<close>: the steps that
    call one shared flow (secrets, network policy, route, autoscaler, health, policy validation, bootstrap, trust
    flush); \<open>Base64\<close>, \<open>KeystoneKeys\<close>: keys, their staging and validation, the rotation CronJobs, the admin password;
    \<open>KeystoneController\<close>: \<open>keystone_controller.go\<close>, the OpenBao backups and the watches; \<open>KeystoneConfig\<close>:
    \<open>reconcile_config.go\<close> and its render cache; \<open>KeystoneWorkload\<close>: \<open>reconcile_databasetls.go\<close> and the objects of
    \<open>reconcile_deployment.go\<close>.  The sub-reconcilers are a
    record, \<open>sub_reconcilers\<close>, the closures' variables the record \<open>pass\<close>.
  \<^item> \<open>ControlPlaneTypes\<close>, \<open>ControlPlaneNamespaces\<close>, \<open>ControlPlaneOrc\<close>, \<open>ControlPlaneInfra\<close>, \<open>ControlPlaneSecrets\<close>: the
    resource of the control plane operator, its ownership across namespaces, its K-ORC objects, backing services and
    secrets; \<open>ControlPlaneTeardown\<close>, \<open>ControlPlaneDeletion\<close>: \<open>reconcile_delete.go\<close>, what a pass may change, and the loop
    of passes; \<open>IdentityBackendTypes\<close>, \<open>HorizonTypes\<close>: the resources it reads and projects; \<open>ControlPlaneServices\<close>:
    \<open>reconcile_keystone.go\<close>, \<open>reconcile_horizon.go\<close>, \<open>identity_backends.go\<close>; \<open>ControlPlaneKorc\<close>: \<open>korc_*.go\<close> and
    \<open>reconcile_korc.go\<close>; \<open>ControlPlaneCredential\<close>, \<open>ControlPlaneCatalog\<close>, \<open>ControlPlaneAccounts\<close>: the admin credential, the
    catalog and the service accounts; \<open>ControlPlaneController\<close>: the loop; \<open>ControlPlaneRotation\<close>: credential rotations;
    \<open>ControlPlaneAdmission\<close>: \<open>controlplane_webhook.go\<close>.
  \<^item> \<open>IdentityBackendAdmission\<close>: \<open>keystoneidentitybackend_webhook.go\<close>; \<open>KeystoneFederation\<close>: \<open>reconcile_federation.go\<close> and
    \<open>reconcile_federation_saml.go\<close>, over the record \<open>federation_env\<close>; \<open>KeystoneBackends\<close>: \<open>reconcile_identitybackends.go\<close>;
    \<open>IdentityClient\<close>: \<open>internal/identity/client.go\<close> and \<open>federation.go\<close>, an interface \<open>identity_client\<close> and its
    implementation over a \<open>transport\<close>; \<open>IdentityBackendController\<close>: \<open>keystoneidentitybackend_controller.go\<close>,
    \<open>reconcile_federation_objects.go\<close> and \<open>federation_mapping_convert.go\<close>, over the record \<open>backend_env\<close>.
    Their properties: \<open>FederationProperties\<close> (what is projected, the headers and lines of the proxy configuration, the
    provenance of metadata, the configuration of a domain), \<open>IdentityBackendProperties\<close> (backends admitted next to each
    other), \<open>IdentityControllerProperties\<close> (domains, deletion, conditions, absent objects).
  \<^item> Each step of the control plane takes a record of the clients it uses (\<open>infra_env\<close>, \<open>secrets_env\<close>, \<open>services_env\<close>, \<open>korc_env\<close>), the loop
    the record \<open>controller_env\<close> of them all.
  \<^item> \<open>ControlPlaneProperties\<close>, \<open>ControlPlaneKorcProperties\<close>, \<open>ControlPlaneLoopProperties\<close>, \<open>ControlPlaneAdmissionProperties\<close>,
    \<open>KeystoneProperties\<close>, \<open>KeystoneLoopProperties\<close>, \<open>KeystoneConfigProperties\<close>, \<open>KeystonePodProperties\<close>, \<open>ControllerProperties\<close>, \<open>ConfigProperties\<close>, \<open>DataProperties\<close>, \<open>AccessProperties\<close> and this theory: the properties.

  \<^bold>\<open>Interfaces.\<close>  Locales state the contracts between components and are interpreted on the model's definitions:
  \<open>layered\<close> (maps merged with precedence: \<open>md\<close> in \<open>Config\<close>, \<open>policies\<close> in \<open>Policy\<close>), \<open>transparent_instrument\<close>
  (an instrumentation that does not change what it wraps: \<open>prom\<close> in \<open>Reconcile\<close>), \<open>migration_runner\<close> (a runner
  that completes exactly the finished Jobs: \<open>jobs\<close> in \<open>Jobs\<close>), \<open>release_order\<close> (\<open>order\<close> in \<open>Release\<close>).

  \<^bold>\<open>Bounds.\<close>  No fuel is used: every recursion is structural or has a proved measure.  The completion theorem
  counts passes: an upgrade takes five, one to initiate it and one for each of its four phases.

  \<^bold>\<open>Not modelled.\<close>  The members of a parallel group run in goroutines; the model runs each atomically, in the
  order of the scheduler, and a property shows that this order does not matter; cancellation of the group's
  context is left out.  Logging, metrics registration, the wiring of managers and watches, deep copies and
  CRD schemas are not modelled, nor are the Glance and Horizon operators beyond the shared flows they compose.
\<close>

section \<open>A Keystone whose jobs finish\<close>

definition ex_keystone_env :: "(unit, (objkey \<times> batch_job) list) keystone_env" where
  "ex_keystone_env = \<lparr>en_meta = ref_meta,
     en_mdb = \<lparr>mdb_cluster = (\<lambda>k w. Inr []), mdb_databases = down_ssa md_meta, mdb_users = down_ssa mu_meta, mdb_grants = down_ssa mg_meta\<rparr>,
     en_jobs = ex_jobs\<lparr>je_client := (je_client ex_jobs)\<lparr>k_get := (\<lambda>k w. Inr (ex_job ''h'' ''Complete''))\<rparr>\<rparr>,
     en_hash = (\<lambda>t. ''h''), en_patch = (\<lambda>a w. (Inr ''2'', w)),
     en_ensure_deployment = (\<lambda>s w. (Inr True, w)), en_ensure_service = (\<lambda>s w. (None, w)), en_ensure_pdb = (\<lambda>s w. (None, w))\<rparr>"

definition ex_keystone :: "string \<Rightarrow> string \<Rightarrow> string \<Rightarrow> string \<Rightarrow> (objkey \<times> batch_job) list keystone" where
  "ex_keystone installed tag target phase = \<lparr>sy_conditions = [], sy_installed = installed, sy_events = [], sy_world = [],
     kn_meta = blank_meta\<lparr>m_name := ''k''\<rparr>, kn_version = ''1'',
     kn_image = \<lparr>im_repository = ''registry/keystone'', im_tag = tag, im_digest = []\<rparr>,
     kn_database = ex_database None CredentialsModeDynamic,
     kn_deployment = \<lparr>de_replicas = 3, de_resources = None, de_grace_period = None, de_pre_stop_sleep = None,
       de_strategy = None, de_topology_spread = None, de_priority_class = None\<rparr>,
     kn_gateway = None, kn_public_endpoint = [], kn_target = target, kn_phase = phase, kn_endpoint = [], kn_metrics = []\<rparr>"

lemma ex_keystone_simps [simp]:
  "sy_installed (ex_keystone i tag t p) = i" "kn_tag (ex_keystone i tag t p) = tag" "kn_target (ex_keystone i tag t p) = t"
  "kn_phase (ex_keystone i tag t p) = p" "db_cluster_ref (kn_database (ex_keystone i tag t p)) = None"
  "sy_world (ex_keystone i tag t p) = []" "kn_meta (ex_keystone i tag t p) = blank_meta\<lparr>m_name := ''k''\<rparr>"
  by (simp_all add: ex_keystone_def ex_database_def)

lemma ex_provision_passes: "db_cluster_ref (kn_database s) = None \<Longrightarrow> provision_passes E s"
  by (simp add: provision_passes_def provision_params_def ReconcileProvision_brownfield)

lemma ex_favourable: "db_cluster_ref (kn_database s) = None \<Longrightarrow> favourable ex_keystone_env cm doms s"
  by (simp add: favourable_def ex_provision_passes upgradeJobSuffixes_def phase_finished_def job_finished_def Let_def)
     (simp add: ex_keystone_env_def ex_job_def isJobComplete_def isJobFailed_def stored_key_def deployment_ready_def)

lemma ex_ranks:
  "rank ''2025.1'' = Some 4051" "rank ''2025.2'' = Some 4052" "successor ''2025.1'' ''2025.2''"
  "rank ''2026.1'' = Some 4053"
proof -
  show "rank ''2025.1'' = Some 4051" "rank ''2025.2'' = Some 4052" "rank ''2026.1'' = Some 4053" by code_simp+
  then show "successor ''2025.1'' ''2025.2''" by (simp add: successor_def)
qed

lemma ex_passes:
  defines "s \<equiv> ex_keystone ''2025.1'' ''2025.2'' [] []"
  shows "list_all (\<lambda>n. favourable ex_keystone_env cm doms ((upgrade_pass ex_keystone_env cm doms ^^ n) s)) [0..<5]"
  by (simp add: list_all_iff ex_favourable s_def)

section \<open>The upgrade state machine\<close>

text \<open>
  C1. The controller implements the upgrade machine: whatever the environment does, a database step moves the
  installed release, the target and the phase as one step of the abstract machine allows, with the Jobs as
  they stand after provisioning; and so does a Deployment step, with the readiness it observed.
\<close>

theorem controller_refines_machine:
  "upgrade_step (kn_tag s) (phase_finished E cm doms (provisioned E s)) False (upgrade_view s)
     (upgrade_view (snd (reconcileDatabase E cm doms s))) \<and>
   upgrade_step (kn_tag s) fin (fst (en_ensure_deployment E s (sy_world s)) = Inr True) (upgrade_view s)
     (upgrade_view (snd (reconcileDeployment E s)))"
  using database_refines deployment_refines by blast

text \<open>
  C2. No phase is skipped: whenever an event of a run promotes the installed release, by exactly one position,
  the run went through Expanding, Migrating, RollingUpdate and Contracting in this order with nothing in
  between, and the upgrade is over; the image tag edits, lost status writes and failed Jobs of the run
  cannot change that.
\<close>

theorem promotion_after_all_phases:
  assumes "upgrade_run E hs s" "keystone_step E s s'"
    and "rank (sy_installed s) = Some i" "rank (sy_installed s') \<noteq> Some i"
  shows "rank (sy_installed s') = Some (i + 1) \<and> kn_phase s' = [] \<and>
    (\<exists>before. remdups_adj hs =
       [UpgradePhaseContracting, UpgradePhaseRollingUpdate, UpgradePhaseMigrating, UpgradePhaseExpanding, []] @ before)"
proof -
  have r: "rank (sy_installed s') = Some (i + 1)" "kn_phase s = UpgradePhaseContracting" "kn_phase s' = []"
    using keystone_step_rank [OF assms(2) upgrade_run_inv [OF assms(1)] assms(3)] assms(4) by auto
  then have "trail (kn_phase s) =
      [UpgradePhaseContracting, UpgradePhaseRollingUpdate, UpgradePhaseMigrating, UpgradePhaseExpanding, []]"
    by (simp add: trail_def)
  then show ?thesis using upgrade_run_trail [OF assms(1)] r(1,3) by auto
qed

lemma promotion_after_all_phases_witness:
  "\<exists>hs s before. upgrade_run ex_keystone_env hs s \<and>
     rank (sy_installed (snd (reconcileDatabase ex_keystone_env ''cm'' [] s))) = Some 4052 \<and>
     remdups_adj hs =
       [UpgradePhaseContracting, UpgradePhaseRollingUpdate, UpgradePhaseMigrating, UpgradePhaseExpanding, []] @ before"
proof -
  let ?E = ex_keystone_env and ?start = "ex_keystone ''2025.1'' ''2025.2'' [] []"
  define s where "s = (upgrade_pass ?E ''cm'' [] ^^ 4) ?start"
  have "list_all (\<lambda>n. favourable ?E ''cm'' [] ((upgrade_pass ?E ''cm'' [] ^^ n) ?start)) [0..<4]"
    using ex_passes [of "''cm''" "[]"] by (auto simp: list_all_iff)
  from four_passes [OF this] have v: "upgrade_view s = (''2025.1'', ''2025.2'', UpgradePhaseContracting)"
    using ex_ranks(3) by (simp add: s_def)
  have "upgrade_run ?E [[]] ?start" by (rule upgrade_run.fresh) simp_all
  then obtain hs where hs: "upgrade_run ?E hs s"
    using keystone_steps_run [OF upgrade_passes_steps] unfolding s_def by blast
  have sp: "kn_image s = kn_image ?start" "kn_database s = kn_database ?start" by (simp_all add: s_def)
  have fin: "favourable ?E ''cm'' [] s" using sp by (simp add: ex_favourable)
  let ?s' = "snd (reconcileDatabase ?E ''cm'' [] s)"
  have "sy_installed ?s' = ''2025.2''"
    using contracting_promotes [OF fin] v sp by (simp add: upgrade_view_def)
  then have ri: "rank (sy_installed s) = Some 4051" "rank (sy_installed ?s') = Some 4052"
    using v ex_ranks by (simp_all add: upgrade_view_def)
  then have ne: "rank (sy_installed ?s') \<noteq> Some 4051" by simp
  from promotion_after_all_phases [OF hs keystone_step.database ri(1) ne] ri hs show ?thesis by blast
qed

text \<open>
  C3. The installed release never goes back: along every run of a resource that starts with no upgrade active
  and a parsable release, whatever tags the user asks for and whatever fails, the installed release stays
  parsable and its position never decreases.
\<close>

theorem installed_release_monotone:
  assumes "kn_phase s = []" "kn_target s = []" "(keystone_step E)\<^sup>*\<^sup>* s s'" "rank (sy_installed s) = Some i"
  shows "case rank (sy_installed s') of None \<Rightarrow> False | Some j \<Rightarrow> i \<le> j"
proof -
  have "upgrade_inv (upgrade_view s)" using assms(1,2) by (simp add: upgrade_view_def)
  from keystone_steps_rank [OF assms(3) this assms(4)] show ?thesis by auto
qed

lemma installed_release_monotone_witness:
  "case rank (sy_installed (upgrade_pass ex_keystone_env ''cm'' [] (ex_keystone ''2025.2'' ''2025.1'' [] []))) of
     None \<Rightarrow> False | Some j \<Rightarrow> 4052 \<le> j"
  by (rule installed_release_monotone [OF _ _ upgrade_pass_steps]) (simp_all add: ex_ranks)

text \<open>
  C4. An upgrade finishes: from a resource with no upgrade active, five passes take a sequential upgrade to its
  end, provided that in each of them provisioning passes, the phase Job of the pass is finished and the
  Deployment, Service and PodDisruptionBudget are in place; then the wanted release is installed and no
  upgrade is active.
\<close>

theorem upgrade_completes:
  assumes "list_all (\<lambda>n. favourable E cm doms ((upgrade_pass E cm doms ^^ n) s)) [0..<5]"
    and "successor (sy_installed s) (kn_tag s)" "kn_phase s = []"
  shows "upgrade_view ((upgrade_pass E cm doms ^^ 5) s) = (kn_tag s, [], [])"
  by (rule five_passes [OF assms])

lemma upgrade_completes_witness:
  "sy_installed ((upgrade_pass ex_keystone_env ''cm'' [] ^^ 5) (ex_keystone ''2025.1'' ''2025.2'' [] [])) = ''2025.2''"
  using upgrade_completes [OF ex_passes [of "''cm''" "[]"]] ex_ranks(3) by (simp add: upgrade_view_def)

text \<open>
  C5. New pods never meet an old schema: when the database step lets a pass go on to the Deployment, either no
  upgrade is active and the wanted release is the installed one, or the upgrade to the wanted release is in its
  rolling-update phase, after expand and migrate.  The release is that of the image tag; for an image pinned by digest,
  which has none and for which the operator tracks no release, the theorem says only that no upgrade is active or that
  it is in its rolling-update phase.
\<close>

theorem deployment_gate:
  assumes "reconcileDatabase E cm doms s = ((zero_result, None), s')"
  shows "kn_tag s' = kn_tag s \<and>
    (if kn_phase s' = [] then kn_tag s \<noteq> [] \<longrightarrow> sy_installed s' = kn_tag s
     else kn_phase s' = UpgradePhaseRollingUpdate \<and> kn_phase s = UpgradePhaseRollingUpdate \<and> kn_target s' = kn_tag s)"
proof -
  have t: "kn_tag s' = kn_tag s"
    using reconcileDatabase_spec [of E cm doms s] assms by (simp add: user_spec_def)
  have "fst (reconcileDatabase E cm doms s) = (zero_result, None)" "s' = snd (reconcileDatabase E cm doms s)"
    using assms by simp_all
  from database_gate [OF this] show ?thesis
  proof (elim disjE conjE)
    assume "kn_phase s' = UpgradePhaseRollingUpdate" "kn_phase s = UpgradePhaseRollingUpdate" "kn_target s' = kn_tag s"
    then show ?thesis using t by simp
  qed (use t in simp_all)
qed

lemma deployment_gate_witness:
  "sy_installed (snd (reconcileDatabase ex_keystone_env ''cm'' [] (ex_keystone ''2025.1'' ''2025.2'' ''2025.2'' UpgradePhaseContracting))) = ''2025.2''"
proof -
  let ?s = "ex_keystone ''2025.1'' ''2025.2'' ''2025.2'' UpgradePhaseContracting"
  have fav: "favourable ex_keystone_env ''cm'' [] ?s" by (rule ex_favourable) simp
  have "fst (reconcileDatabase ex_keystone_env ''cm'' [] ?s) = (zero_result, None)"
    by (rule contracting_passes [OF fav]) simp_all
  then obtain s' where u: "reconcileDatabase ex_keystone_env ''cm'' [] ?s = ((zero_result, None), s')" by (metis prod.collapse)
  have "kn_phase s' = []"
    using contracting_promotes [OF fav] u by (simp add: upgrade_view_def)
  then show ?thesis using deployment_gate [OF u] unfolding u by simp
qed

text \<open>
  Reverting the tag aborts: when the tag of an active upgrade is set back to the installed release, a pass
  whose deletions succeed leaves no upgrade active and none of the three phase Jobs, touches no other Job, keeps
  the installed release and requeues; a pass with a failed deletion returns the error and keeps the upgrade, so
  the next pass tries again.
\<close>

lemma revert_aborts:
  assumes "deletes jb_meta (je_client (en_jobs E))" "provision_passes E s"
    and "kn_phase s \<noteq> []" "kn_tag s = sy_installed s"
    and "reconcileDatabase E cm doms s = ((r, e), s')"
  shows "if e = None
    then r = requeue_now \<and> upgrade_view s' = (sy_installed s, [], []) \<and>
      (let keys = map (\<lambda>sfx. (m_namespace (kn_meta s), m_name (kn_meta s) @ ''-'' @ sfx)) [''db-expand'', ''db-migrate'', ''db-contract'']
       in list_all (\<lambda>k. absent (je_client (en_jobs E)) k (sy_world s')) keys \<and>
          (k \<in> set keys \<or> k_get (je_client (en_jobs E)) k (sy_world s') = k_get (je_client (en_jobs E)) k (sy_world (provisioned E s))))
    else upgrade_view s' = upgrade_view s"
proof -
  have u: "abortUpgrade E (provisioned E s) = ((r, e), s')"
    using reconcileDatabase_aborts [OF assms(2-4), of cm doms] assms(5) by simp
  show ?thesis
  proof (cases "e = None")
    case True
    then have o: "r = requeue_now" "upgrade_view s' = (sy_installed s, [], [])"
      "delete_jobs (je_client (en_jobs E)) (kn_meta s) upgradeJobSuffixes (sy_world (provisioned E s)) = (None, sy_world s')"
      using abortUpgrade_outcome [of E "provisioned E s"] u by simp_all
    let ?ks = "map (\<lambda>sfx. (m_namespace (kn_meta s), m_name (kn_meta s) @ ''-'' @ sfx)) upgradeJobSuffixes"
    have "list_all (\<lambda>k. absent (je_client (en_jobs E)) k (sy_world s')) ?ks"
      "k \<in> set ?ks \<or> k_get (je_client (en_jobs E)) k (sy_world s') = k_get (je_client (en_jobs E)) k (sy_world (provisioned E s))"
      using delete_jobs_gone [OF assms(1) o(3)] by (simp_all add: list_all_iff del: split_paired_All) blast
    then show ?thesis using o(1,2) True unfolding upgradeJobSuffixes_def by (simp add: Let_def)
  next
    case False
    then obtain x where x: "e = Some x" by auto
    then show ?thesis using abortUpgrade_outcome [of E "provisioned E s"] u by simp
  qed
qed

text \<open>
  C33. Only the next release can be entered.  With no upgrade active, the database step starts one exactly when the
  provisioning of the database lets the pass on and the tag's position in the sequence of releases is the one after the
  installed release's.  Provisioning passed, any other change of release, that is a downgrade, a skipped release, or a tag
  or an installed release that does not parse, gives an error, a false condition and no change of the upgrade state, on
  every pass.  A change of release is a tag that is neither the installed one nor of the same position; without an
  installed release or a tag there is none.  While provisioning does not pass, the step stops and changes nothing.
\<close>

theorem upgrade_path_checked:
  assumes "meta_contract (en_meta E)" "kn_phase s = []" "reconcileDatabase E cm doms s = ((r, e), s')"
  shows "(kn_phase s' \<noteq> [] \<longleftrightarrow> provision_passes E s \<and> successor (sy_installed s) (kn_tag s)) \<and>
    (kn_phase s' \<noteq> [] \<longrightarrow> r = requeue_now \<and> e = None \<and> upgrade_view s' = (sy_installed s, kn_tag s, UpgradePhaseExpanding)) \<and>
    (provision_passes E s \<and> release_change (sy_installed s) (kn_tag s) \<and> \<not> successor (sy_installed s) (kn_tag s) \<longrightarrow>
       e \<noteq> None \<and> upgrade_view s' = upgrade_view s \<and> \<not> cond_true (en_meta E) (sy_conditions s') ''DatabaseReady'') \<and>
    (\<not> provision_passes E s \<longrightarrow> (r, e) \<noteq> (zero_result, None) \<and> upgrade_view s' = upgrade_view s)"
proof -
  have run: "r = fst (fst (reconcileDatabase E cm doms s))" "e = snd (fst (reconcileDatabase E cm doms s))"
    "s' = snd (reconcileDatabase E cm doms s)" using assms(3) by simp_all
  consider "\<not> provision_passes E s" | "provision_passes E s" "successor (sy_installed s) (kn_tag s)"
    | "provision_passes E s" "release_change (sy_installed s) (kn_tag s)" "\<not> successor (sy_installed s) (kn_tag s)"
    | "provision_passes E s" "\<not> release_change (sy_installed s) (kn_tag s)" by blast
  then show ?thesis
  proof cases
    case 1
    then show ?thesis using reconcileDatabase_waits [OF 1, of cm doms] assms(2) run by (auto simp: upgrade_view_def prod_eq_iff)
  next
    case 2
    have "reconcileDatabase E cm doms s = initiateUpgrade E (provisioned E s)"
      using reconcileDatabase_initiates [OF 2(1) assms(2)] successor_release_change [OF 2(2)] by (simp add: isUpgrade_iff)
    then show ?thesis using initiateUpgrade_starts [of "provisioned E s" E] 2 run by (auto simp: upgrade_view_def UpgradePhaseExpanding_def)
  next
    case 3
    have "reconcileDatabase E cm doms s = initiateUpgrade E (provisioned E s)"
      using reconcileDatabase_initiates [OF 3(1) assms(2)] 3(2) by (simp add: isUpgrade_iff)
    then show ?thesis using initiateUpgrade_rejects [of "provisioned E s" E] 3 assms(1,2) run by (auto simp: upgrade_view_def)
  next
    case 4
    then show ?thesis using idle_step_syncs [OF 4(1) assms(2) 4(2)] successor_release_change run by auto
  qed
qed

lemma upgrade_path_checked_witness:
  "snd (fst (reconcileDatabase ex_keystone_env ''cm'' [] (ex_keystone ''2025.1'' ''2026.1'' [] []))) \<noteq> None"
proof -
  let ?s = "ex_keystone ''2025.1'' ''2026.1'' [] []"
  obtain r e s' where u: "reconcileDatabase ex_keystone_env ''cm'' [] ?s = ((r, e), s')" by (metis prod.exhaust)
  have k: "meta_contract (en_meta ex_keystone_env)" by (simp add: ex_keystone_env_def ref_meta_contract)
  have p: "provision_passes ex_keystone_env ?s" by (rule ex_provision_passes) simp
  have "\<not> successor ''2025.1'' ''2026.1''" "release_change ''2025.1'' ''2026.1''"
    by (simp_all add: successor_rank release_change_def same_release_def ex_ranks)
  then show ?thesis using upgrade_path_checked [OF k _ u] p unfolding u by simp
qed

end
